(* ===== verification/Float64.thy ===== *)
theory Float64
  imports Complex_Main "HOL-Library.Log_Nat"
begin

text \<open>
  Go's \<^verbatim>\<open>float64\<close>: IEEE 754 binary64 with round-to-nearest, ties to even.
\<close>

section \<open>Values and rounding\<close>

datatype f64 = NaN | PInf | NInf | Fin rat

definition rne :: "rat \<Rightarrow> int" where
  "rne x = (let f = \<lfloor>x\<rfloor>; r = x - of_int f
            in if r < 1/2 then f else if 1/2 < r then f + 1 else if even f then f else f + 1)"

definition ilog2 :: "rat \<Rightarrow> int" where
  "ilog2 x = (let (n, d) = quotient_of x; k = bitlen n - bitlen d
              in if 2 powi k \<le> x then k else k - 1)"

definition ulp_exp :: "rat \<Rightarrow> int" where
  "ulp_exp x = max (ilog2 \<bar>x\<bar> - 52) (-1074)"

definition round_rat :: "rat \<Rightarrow> rat" where
  "round_rat x = (if x = 0 then 0 else of_int (rne (x / 2 powi ulp_exp x)) * 2 powi ulp_exp x)"

definition fl :: "rat \<Rightarrow> f64" where
  "fl x = (let y = round_rat x
           in if 2 ^ 1024 \<le> y then PInf else if y \<le> - (2 ^ 1024) then NInf else Fin y)"

section \<open>Rounding to an integer\<close>

lemma rne_bounds: "\<bar>of_int (rne x) - x\<bar> \<le> 1/2"
proof -
  define g :: rat where "g = of_int \<lfloor>x\<rfloor>"
  have g: "g \<le> x" "x < g + 1" unfolding g_def by linarith+
  have "rne x = \<lfloor>x\<rfloor> \<and> x - g \<le> 1/2 \<or> rne x = \<lfloor>x\<rfloor> + 1 \<and> 1/2 \<le> x - g"
    by (simp add: rne_def Let_def g_def)
  then have "of_int (rne x) = g \<and> x - g \<le> 1/2 \<or> of_int (rne x) = g + 1 \<and> 1/2 \<le> x - g"
    unfolding g_def by auto
  then show ?thesis using g by (auto simp: abs_le_iff)
qed

lemma rne_of_int [simp]: "rne (of_int n) = n"
  by (simp add: rne_def)

lemma rne_mono:
  assumes "x \<le> y"
  shows "rne x \<le> rne y"
proof (cases "\<lfloor>x\<rfloor> = \<lfloor>y\<rfloor>")
  case True
  then show ?thesis using assms unfolding rne_def Let_def by auto
next
  case False
  with assms have "\<lfloor>x\<rfloor> + 1 \<le> \<lfloor>y\<rfloor>" using floor_mono [OF assms] by linarith
  moreover have "rne x \<le> \<lfloor>x\<rfloor> + 1" "\<lfloor>y\<rfloor> \<le> rne y" unfolding rne_def Let_def by auto
  ultimately show ?thesis by linarith
qed

lemma rne_minus: "rne (- x) = - rne x"
proof (cases "x = of_int \<lfloor>x\<rfloor>")
  case True
  then have "\<exists>n. x = of_int n" by blast
  then obtain n where n: "x = of_int n" by blast
  show ?thesis using rne_of_int [of "- n"] unfolding n by simp
next
  case False
  let ?f = "\<lfloor>x\<rfloor>"
  have b: "of_int ?f < x" "x < of_int ?f + 1" using False by linarith+
  have fm: "\<lfloor>- x\<rfloor> = - ?f - 1" using b by (intro floor_unique) simp_all
  show ?thesis using b unfolding rne_def Let_def fm by auto
qed

lemma rne_int_le: "of_int n \<le> x \<Longrightarrow> n \<le> rne x"
  using rne_mono [of "of_int n" x] by simp

lemma rne_le_int: "x \<le> of_int n \<Longrightarrow> rne x \<le> n"
  using rne_mono [of x "of_int n"] by simp

section \<open>The binary exponent\<close>

lemma ilog2_bounds:
  assumes "0 < x"
  shows "2 powi ilog2 x \<le> x" "x < 2 powi (ilog2 x + 1)"
proof -
  obtain n d where q: "quotient_of x = (n, d)" by fastforce
  have d: "0 < d" using quotient_of_denom_pos [OF q] .
  have x: "x = of_int n / of_int d" using quotient_of_div [OF q] .
  have n: "0 < n" using assms d unfolding x by (simp add: zero_less_divide_iff)
  define a where "a = bitlen n"
  define b where "b = bitlen d"
  have bl: "1 \<le> bitlen m" if "0 < m" for m
    using bitlen_eq_zero_iff [of m] bitlen_nonneg [of m] that by linarith
  have pw: "2 powi (bitlen m - 1) \<le> (of_int m :: rat)" "(of_int m :: rat) < 2 powi bitlen m"
    if m: "0 < m" for m
  proof -
    have B: "2 ^ nat (bitlen m - 1) \<le> m" "m < 2 ^ nat (bitlen m)" using bitlen_bounds [OF m] by auto
    have "(2::rat) powi (bitlen m - 1) = 2 ^ nat (bitlen m - 1)"
      using bl [OF m] by (intro power_int_nonneg_exp) simp
    also have "\<dots> = of_int (2 ^ nat (bitlen m - 1))" by simp
    also have "\<dots> \<le> of_int m" using B(1) unfolding of_int_le_iff .
    finally show "2 powi (bitlen m - 1) \<le> (of_int m :: rat)" .
    have "(of_int m :: rat) < of_int (2 ^ nat (bitlen m))" using B(2) unfolding of_int_less_iff .
    also have "\<dots> = 2 ^ nat (bitlen m)" by simp
    also have "\<dots> = 2 powi bitlen m" by (simp add: power_int_nonneg_exp bitlen_nonneg)
    finally show "(of_int m :: rat) < 2 powi bitlen m" .
  qed
  have split: "(2::rat) powi (i - j) * 2 powi j = 2 powi i" for i j
    by (subst power_int_add [symmetric]) simp_all
  have dq: "(0::rat) < of_int d" using d by simp
  have up: "x < 2 powi (a - b + 1)"
  proof -
    have "x * of_int d = of_int n" using dq unfolding x by simp
    also have "\<dots> < 2 powi a" unfolding a_def using pw(2) [OF n] .
    also have "\<dots> = 2 powi (a - b + 1) * 2 powi (b - 1)"
      using split [of a "b - 1"] by (simp add: algebra_simps)
    also have "\<dots> \<le> 2 powi (a - b + 1) * of_int d" unfolding b_def using pw(1) [OF d]
      by (intro mult_left_mono) simp_all
    finally show ?thesis using dq by simp
  qed
  have lo: "2 powi (a - b - 1) < x"
  proof -
    have "2 powi (a - b - 1) * of_int d < (2 powi (a - b - 1) * 2 powi b :: rat)"
      unfolding b_def using pw(2) [OF d] by (intro mult_strict_left_mono) simp_all
    also have "\<dots> = 2 powi (a - 1)" using split [of "a - 1" b] by (simp add: algebra_simps)
    also have "\<dots> \<le> of_int n" unfolding a_def using pw(1) [OF n] .
    also have "\<dots> = x * of_int d" using dq unfolding x by simp
    finally show ?thesis using dq by simp
  qed
  have il: "ilog2 x = (if 2 powi (a - b) \<le> x then a - b else a - b - 1)"
    by (simp add: ilog2_def q a_def b_def Let_def)
  show "2 powi ilog2 x \<le> x" using lo unfolding il by auto
  show "x < 2 powi (ilog2 x + 1)" using up unfolding il by auto
qed

lemma powi2_le_iff [simp]: "(2::rat) powi i \<le> 2 powi j \<longleftrightarrow> i \<le> j"
  by (meson one_less_numeral_iff power_int_increasing power_int_strict_increasing
      linorder_not_le order_less_le semiring_norm(76) numeral_le_one_iff one_le_numeral)

lemma powi2_less_iff [simp]: "(2::rat) powi i < 2 powi j \<longleftrightarrow> i < j"
  using powi2_le_iff [of j i] by (simp add: not_le [symmetric])

lemma ilog2_unique:
  assumes "2 powi k \<le> x" "x < 2 powi (k + 1)"
  shows "ilog2 x = k"
proof -
  have x: "0 < x" using assms(1) by (meson less_le_trans zero_less_numeral zero_less_power_int)
  have "2 powi ilog2 x < (2 powi (k + 1) :: rat)" using ilog2_bounds(1) [OF x] assms(2) by (rule le_less_trans)
  moreover have "2 powi k < (2 powi (ilog2 x + 1) :: rat)" using assms(1) ilog2_bounds(2) [OF x] by (rule le_less_trans)
  ultimately show ?thesis by simp
qed

lemma ilog2_mono:
  assumes "0 < x" "x \<le> y"
  shows "ilog2 x \<le> ilog2 y"
proof -
  have "2 powi ilog2 x < (2 powi (ilog2 y + 1) :: rat)"
    using ilog2_bounds(1) [OF assms(1)] ilog2_bounds(2) [of y] assms by linarith
  then show ?thesis by simp
qed

section \<open>Rounding of rationals: symmetry, exactness, monotonicity, error\<close>

lemma ulp_exp_minus [simp]: "ulp_exp (- x) = ulp_exp x"
  by (simp add: ulp_exp_def)

lemma round_rat_minus: "round_rat (- x) = - round_rat x"
  using rne_minus [of "x / 2 powi ulp_exp x"] by (simp add: round_rat_def)

lemma round_rat_0 [simp]: "round_rat 0 = 0"
  by (simp add: round_rat_def)

lemma round_rat_nonneg: "0 \<le> x \<Longrightarrow> 0 \<le> round_rat x"
  using rne_int_le [of 0 "x / 2 powi ulp_exp x"] by (simp add: round_rat_def)

lemma round_rat_exact:
  assumes "x = of_int m * 2 powi e" "\<bar>m\<bar> < 2 ^ 53" "-1074 \<le> e"
  shows "round_rat x = x"
proof (cases "m = 0")
  case True
  then show ?thesis using assms(1) by (simp add: round_rat_def)
next
  case False
  have m1: "1 \<le> \<bar>of_int m :: rat\<bar>" using False by (simp flip: of_int_abs)
  have x0: "x \<noteq> 0" using assms(1) False by simp
  have pe: "(0::rat) < 2 powi e" by simp
  have ax: "\<bar>x\<bar> = \<bar>of_int m\<bar> * 2 powi e" using assms(1) by (simp add: abs_mult)
  have m53: "\<bar>of_int m :: rat\<bar> < 2 powi 53"
  proof -
    have "(of_int \<bar>m\<bar> :: rat) < of_int (2 ^ 53)" using assms(2) unfolding of_int_less_iff .
    then show ?thesis by simp
  qed
  have "\<bar>x\<bar> < 2 powi 53 * 2 powi e" unfolding ax using m53 pe by (rule mult_strict_right_mono)
  also have "\<dots> = 2 powi (e + 53)" by (subst power_int_add [symmetric]) (simp_all add: add.commute)
  finally have "2 powi ilog2 \<bar>x\<bar> < (2 powi (e + 53) :: rat)"
    using ilog2_bounds(1) [of "\<bar>x\<bar>"] x0 by linarith
  then have "ilog2 \<bar>x\<bar> < e + 53" by simp
  then have ue: "ulp_exp x \<le> e" using assms(3) by (simp add: ulp_exp_def)
  define u where "u = ulp_exp x"
  have "x / 2 powi u = of_int m * (2 powi (e - u))"
    unfolding assms(1) by (simp add: power_int_diff)
  also have "2 powi (e - u) = (of_int (2 ^ nat (e - u)) :: rat)"
    using ue unfolding u_def by (simp add: power_int_nonneg_exp)
  finally have "x / 2 powi u = of_int (m * 2 ^ nat (e - u))" by simp
  then have "rne (x / 2 powi u) = m * 2 ^ nat (e - u)" "x = of_int (m * 2 ^ nat (e - u)) * 2 powi u"
    by (metis rne_of_int, simp add: field_simps)
  then show ?thesis using x0 unfolding round_rat_def u_def by simp
qed

lemma round_rat_of_int: "\<bar>n\<bar> < 2 ^ 53 \<Longrightarrow> round_rat (of_int n) = of_int n"
  by (rule round_rat_exact [of _ n 0]) simp_all

lemma round_rat_pow2: "-1074 \<le> k \<Longrightarrow> round_rat (2 powi k) = 2 powi k"
  by (rule round_rat_exact [of _ 1 k]) simp_all

lemma round_rat_mono_pos:
  assumes "0 < x" "x \<le> y"
  shows "round_rat x \<le> round_rat y"
proof -
  have y: "0 < y" using assms by simp
  have ux: "ulp_exp x \<le> ulp_exp y" using ilog2_mono [OF assms] assms y by (simp add: ulp_exp_def)
  define u where "u = ulp_exp x"
  define v where "v = ulp_exp y"
  have pu: "(0::rat) < 2 powi u" and pv: "(0::rat) < 2 powi v" by simp_all
  show ?thesis
  proof (cases "u = v")
    case True
    have "rne (x / 2 powi u) \<le> rne (y / 2 powi v)"
      unfolding True using assms(2) by (intro rne_mono divide_right_mono) simp_all
    then show ?thesis using assms y True pv unfolding round_rat_def u_def [symmetric] v_def [symmetric]
      by simp
  next
    case False
    then have uv: "u < v" using ux unfolding u_def v_def by simp
    have v52: "v = ilog2 y - 52" using uv y unfolding u_def v_def ulp_exp_def by (simp add: max_def split: if_splits)
    have xu: "ilog2 x \<le> u + 52" using assms(1) unfolding u_def ulp_exp_def by simp
    have "x < 2 powi (ilog2 x + 1)" using ilog2_bounds(2) [OF assms(1)] .
    also have "\<dots> \<le> 2 powi (u + 53)" using xu by simp
    also have "\<dots> = of_int (2 ^ 53) * 2 powi u" by (simp add: power_int_add)
    finally have "x / 2 powi u \<le> of_int (2 ^ 53)" using pu by (simp add: field_simps)
    then have rx: "rne (x / 2 powi u) \<le> 2 ^ 53" by (rule rne_le_int)
    have "of_int (2 ^ 52) * 2 powi v = (2 powi ilog2 y :: rat)" unfolding v52 by (simp add: power_int_diff)
    also have "\<dots> \<le> y" using ilog2_bounds(1) [OF y] .
    finally have "of_int (2 ^ 52) \<le> y / 2 powi v" using pv by (simp add: field_simps)
    then have ry: "2 ^ 52 \<le> rne (y / 2 powi v)" by (rule rne_int_le)
    have "round_rat x \<le> of_int (2 ^ 53) * 2 powi u"
      using rx assms(1) pu unfolding round_rat_def u_def [symmetric] by (auto simp: mult_right_mono)
    also have "\<dots> = 2 powi (u + 53)" by (simp add: power_int_add)
    also have "\<dots> \<le> 2 powi (v + 52)" using uv by simp
    also have "\<dots> = of_int (2 ^ 52) * 2 powi v" by (simp add: power_int_add)
    also have "\<dots> \<le> of_int (rne (y / 2 powi v)) * 2 powi v"
      using ry pv unfolding of_int_le_iff [symmetric, where ?'a = rat] by (intro mult_right_mono) simp_all
    also have "\<dots> = round_rat y" using y unfolding round_rat_def v_def [symmetric] by simp
    finally show ?thesis .
  qed
qed

lemma round_rat_mono:
  assumes "x \<le> y"
  shows "round_rat x \<le> round_rat y"
proof (cases "0 < x")
  case True
  then show ?thesis using assms by (rule round_rat_mono_pos)
next
  case x: False
  show ?thesis
  proof (cases "y < 0")
    case True
    have "round_rat (- y) \<le> round_rat (- x)" using True assms by (intro round_rat_mono_pos) simp_all
    then show ?thesis by (simp add: round_rat_minus)
  next
    case False
    have "0 \<le> round_rat y" using False by (intro round_rat_nonneg) simp
    moreover have "0 \<le> round_rat (- x)" using x by (intro round_rat_nonneg) simp
    ultimately show ?thesis by (simp add: round_rat_minus)
  qed
qed

lemma round_rat_error:
  assumes "2 powi (-1022) \<le> \<bar>x\<bar>"
  shows "\<bar>round_rat x - x\<bar> \<le> \<bar>x\<bar> / 2 ^ 53"
proof -
  have x0: "0 < \<bar>x\<bar>" using assms by (meson less_le_trans zero_less_numeral zero_less_power_int)
  have "2 powi (-1022) < (2 powi (ilog2 \<bar>x\<bar> + 1) :: rat)"
    using assms ilog2_bounds(2) [OF x0] by (rule le_less_trans)
  then have u: "ulp_exp x = ilog2 \<bar>x\<bar> - 52" unfolding powi2_less_iff by (simp add: ulp_exp_def)
  define p :: rat where "p = 2 powi ulp_exp x"
  have p: "0 < p" unfolding p_def by simp
  have ee: "of_int (rne (x / p)) * p - x = (of_int (rne (x / p)) - x / p) * p"
    using p by (simp add: field_simps)
  have "\<bar>round_rat x - x\<bar> = \<bar>of_int (rne (x / p)) - x / p\<bar> * p"
    using x0 p by (simp add: round_rat_def p_def [symmetric] ee abs_mult)
  also have "\<dots> \<le> 1/2 * p" using rne_bounds p by (intro mult_right_mono) simp_all
  also have "\<dots> = 2 powi ilog2 \<bar>x\<bar> / 2 ^ 53" unfolding p_def u by (simp add: power_int_diff)
  also have "\<dots> \<le> \<bar>x\<bar> / 2 ^ 53" using ilog2_bounds(1) [OF x0] by (intro divide_right_mono) simp_all
  finally show ?thesis .
qed

section \<open>The rounding of a rational to a float\<close>

lemma round_rat_abs_le_pow2:
  assumes "\<bar>x\<bar> \<le> 2 ^ k"
  shows "\<bar>round_rat x\<bar> \<le> 2 ^ k"
proof -
  have p: "round_rat (2 ^ k) = 2 ^ k" using round_rat_pow2 [of "int k"] by simp
  have "round_rat x \<le> round_rat (2 ^ k)" "round_rat (- x) \<le> round_rat (2 ^ k)"
    using assms by (auto intro: round_rat_mono simp: abs_le_iff)
  then show ?thesis by (simp add: p round_rat_minus abs_le_iff)
qed

lemma fl_small:
  assumes "\<bar>x\<bar> \<le> 2 ^ 1023"
  shows "fl x = Fin (round_rat x)"
proof -
  have "(2::rat) ^ 1023 < 2 ^ 1024" by simp
  then show ?thesis using round_rat_abs_le_pow2 [OF assms] unfolding fl_def Let_def abs_le_iff
    by (auto simp del: power_strict_increasing_iff)
qed

lemma fl_exact:
  assumes "x = of_int m * 2 powi e" "\<bar>m\<bar> < 2 ^ 53" "-1074 \<le> e" "\<bar>x\<bar> \<le> 2 ^ 1023"
  shows "fl x = Fin x"
  using fl_small [OF assms(4)] round_rat_exact [OF assms(1-3)] by simp

lemma fl_of_int:
  assumes "\<bar>n\<bar> < 2 ^ 53"
  shows "fl (of_int n) = Fin (of_int n)"
proof -
  have "\<bar>of_int n :: rat\<bar> < of_int (2 ^ 53)"
    using assms unfolding of_int_abs [symmetric] of_int_less_iff .
  also have "\<dots> \<le> 2 ^ 1023" by simp
  finally show ?thesis using fl_small [of "of_int n"] round_rat_of_int [OF assms] by simp
qed

lemma fl_0 [simp]: "fl 0 = Fin 0"
  using fl_of_int [of 0] by simp

lemma fl_error:
  assumes "2 powi (-1022) \<le> \<bar>x\<bar>" "\<bar>x\<bar> \<le> 2 ^ 1023"
  obtains y where "fl x = Fin y" "\<bar>y - x\<bar> \<le> \<bar>x\<bar> / 2 ^ 53"
  using fl_small [OF assms(2)] round_rat_error [OF assms(1)] by blast

section \<open>Operations and comparisons\<close>

fun f_neg :: "f64 \<Rightarrow> f64" where
  "f_neg NaN = NaN"
| "f_neg PInf = NInf"
| "f_neg NInf = PInf"
| "f_neg (Fin x) = Fin (- x)"

fun f_abs :: "f64 \<Rightarrow> f64" where
  "f_abs NInf = PInf"
| "f_abs (Fin x) = Fin \<bar>x\<bar>"
| "f_abs f = f"

fun f_add :: "f64 \<Rightarrow> f64 \<Rightarrow> f64" where
  "f_add (Fin x) (Fin y) = fl (x + y)"
| "f_add NaN _ = NaN"
| "f_add _ NaN = NaN"
| "f_add PInf NInf = NaN"
| "f_add NInf PInf = NaN"
| "f_add PInf _ = PInf"
| "f_add _ PInf = PInf"
| "f_add NInf _ = NInf"
| "f_add _ NInf = NInf"

definition f_sub :: "f64 \<Rightarrow> f64 \<Rightarrow> f64" where
  "f_sub a b = f_add a (f_neg b)"

text \<open>An infinity times or over a finite value takes the value's sign; zeros carry no sign here.\<close>

definition inf_of_sign :: "rat \<Rightarrow> f64" where
  "inf_of_sign x = (if x = 0 then NaN else if 0 < x then PInf else NInf)"

fun f_mul :: "f64 \<Rightarrow> f64 \<Rightarrow> f64" where
  "f_mul (Fin x) (Fin y) = fl (x * y)"
| "f_mul NaN _ = NaN"
| "f_mul _ NaN = NaN"
| "f_mul (Fin x) PInf = inf_of_sign x"
| "f_mul PInf (Fin x) = inf_of_sign x"
| "f_mul (Fin x) NInf = inf_of_sign (- x)"
| "f_mul NInf (Fin x) = inf_of_sign (- x)"
| "f_mul PInf PInf = PInf"
| "f_mul NInf NInf = PInf"
| "f_mul _ _ = NInf"

fun f_div :: "f64 \<Rightarrow> f64 \<Rightarrow> f64" where
  "f_div (Fin x) (Fin y) = (if y = 0 then inf_of_sign x else fl (x / y))"
| "f_div (Fin _) PInf = Fin 0"
| "f_div (Fin _) NInf = Fin 0"
| "f_div PInf (Fin y) = (if 0 \<le> y then PInf else NInf)"
| "f_div NInf (Fin y) = (if 0 \<le> y then NInf else PInf)"
| "f_div _ _ = NaN"

fun f_lt :: "f64 \<Rightarrow> f64 \<Rightarrow> bool" where
  "f_lt (Fin x) (Fin y) = (x < y)"
| "f_lt NInf (Fin _) = True"
| "f_lt NInf PInf = True"
| "f_lt (Fin _) PInf = True"
| "f_lt _ _ = False"

definition f_eq :: "f64 \<Rightarrow> f64 \<Rightarrow> bool" where
  "f_eq a b = (a \<noteq> NaN \<and> a = b)"

definition f_le :: "f64 \<Rightarrow> f64 \<Rightarrow> bool" where
  "f_le a b = (f_lt a b \<or> f_eq a b)"

definition f_isnan :: "f64 \<Rightarrow> bool" where
  "f_isnan f = (f = NaN)"

definition f_isinf :: "f64 \<Rightarrow> bool" where
  "f_isinf f = (f = PInf \<or> f = NInf)"

definition f_of_int :: "int \<Rightarrow> f64" where
  "f_of_int n = fl (of_int n)"

lemma f_le_Fin [simp]: "f_le (Fin x) (Fin y) \<longleftrightarrow> x \<le> y"
  by (auto simp: f_le_def f_eq_def)

lemma f_isnan_simps [simp]: "f_isnan NaN" "\<not> f_isnan PInf" "\<not> f_isnan NInf" "\<not> f_isnan (Fin x)"
  by (simp_all add: f_isnan_def)

lemma f_isinf_simps [simp]: "\<not> f_isinf NaN" "f_isinf PInf" "f_isinf NInf" "\<not> f_isinf (Fin x)"
  by (simp_all add: f_isinf_def)

lemma f_of_int_small: "\<bar>n\<bar> < 2 ^ 53 \<Longrightarrow> f_of_int n = Fin (of_int n)"
  by (simp add: f_of_int_def fl_of_int)

lemma fl_mono: "x \<le> y \<Longrightarrow> f_le (fl x) (fl y)"
  using round_rat_mono [of x y] by (auto simp: fl_def Let_def f_le_def f_eq_def)

lemma fl_between:
  assumes "fl a = Fin a" "fl b = Fin b" "a \<le> x" "x \<le> b"
  obtains y where "fl x = Fin y" "a \<le> y" "y \<le> b"
  using fl_mono [OF assms(3)] fl_mono [OF assms(4)] assms(1,2) that
  by (cases "fl x") (auto simp: f_le_def f_eq_def)

section \<open>Conversions to integers\<close>

text \<open>
  \<^verbatim>\<open>int64(f)\<close> truncates towards zero; where the value does not fit, the Go specification
  leaves the result to the implementation, so it is the parameter \<open>ovf\<close> of the model.
\<close>

definition trunc_rat :: "rat \<Rightarrow> int" where
  "trunc_rat x = (if 0 \<le> x then \<lfloor>x\<rfloor> else \<lceil>x\<rceil>)"

definition f_to_int64 :: "(f64 \<Rightarrow> int) \<Rightarrow> f64 \<Rightarrow> int" where
  "f_to_int64 ovf f =
     (case f of
        Fin x \<Rightarrow> if - (2 ^ 63) \<le> trunc_rat x \<and> trunc_rat x < 2 ^ 63 then trunc_rat x else ovf f
      | _ \<Rightarrow> ovf f)"

text \<open>\<^verbatim>\<open>math.Round\<close> rounds halves away from zero; \<^verbatim>\<open>math.Ceil\<close>; \<^verbatim>\<open>math.Pow\<close> with an integral exponent.\<close>

definition round_away :: "rat \<Rightarrow> int" where
  "round_away x = (if 0 \<le> x then \<lfloor>x + 1/2\<rfloor> else \<lceil>x - 1/2\<rceil>)"

fun math_Round :: "f64 \<Rightarrow> f64" where
  "math_Round (Fin x) = Fin (of_int (round_away x))"
| "math_Round f = f"

fun math_Ceil :: "f64 \<Rightarrow> f64" where
  "math_Ceil (Fin x) = Fin (of_int \<lceil>x\<rceil>)"
| "math_Ceil f = f"

definition math_Pow :: "rat \<Rightarrow> int \<Rightarrow> f64" where
  "math_Pow b n = fl (b powi n)"

lemma trunc_rat_of_int [simp]: "trunc_rat (of_int n) = n"
  by (simp add: trunc_rat_def)

lemma round_away_of_int [simp]: "round_away (of_int n) = n"
proof -
  have "\<lfloor>of_int n + 1/2 :: rat\<rfloor> = n" by (rule floor_unique) simp_all
  moreover have "\<lceil>of_int n - 1/2 :: rat\<rceil> = n" by (rule ceiling_unique) simp_all
  ultimately show ?thesis by (simp add: round_away_def)
qed

lemma round_away_mono:
  assumes "x \<le> y"
  shows "round_away x \<le> round_away y"
proof -
  show ?thesis
  proof (cases "x < 0 \<and> 0 \<le> y")
    case True
    then have "\<lceil>x - 1/2\<rceil> \<le> 0" "0 \<le> \<lfloor>y + 1/2\<rfloor>"
      by (simp_all add: ceiling_le_iff le_floor_iff)
    then have "\<lceil>x - 1/2\<rceil> \<le> \<lfloor>y + 1/2\<rfloor>" by (rule order_trans)
    then show ?thesis using True by (simp add: round_away_def)
  next
    case False
    then show ?thesis
      using assms floor_mono [of "x + 1/2" "y + 1/2"] ceiling_mono [of "x - 1/2" "y - 1/2"]
      by (auto simp: round_away_def)
  qed
qed

lemma round_away_near:
  assumes "\<bar>x - of_int n\<bar> < 1/2"
  shows "round_away x = n"
proof -
  have b: "of_int n < x + 1/2" "x < of_int n + 1/2" using assms by linarith+
  have "\<lfloor>x + 1/2\<rfloor> = n" using b by (intro floor_unique) linarith+
  moreover have "\<lceil>x - 1/2\<rceil> = n" using b by (intro ceiling_unique) linarith+
  ultimately show ?thesis by (simp add: round_away_def)
qed

lemma round_away_abs_le:
  assumes "\<bar>x\<bar> \<le> of_int n"
  shows "\<bar>round_away x\<bar> \<le> n"
proof -
  have "x \<le> of_int n" "of_int (- n) \<le> x" using assms by (simp_all add: abs_le_iff)
  then have "round_away x \<le> n" "- n \<le> round_away x"
    using round_away_mono [of x "of_int n"] round_away_mono [of "of_int (- n)" x]
    unfolding round_away_of_int by simp_all
  then show ?thesis by (simp add: abs_le_iff)
qed

lemma fl_power10:
  assumes "n \<le> 22"
  shows "fl (10 ^ n) = Fin (10 ^ n)"
proof (rule fl_exact)
  have "(10::rat) ^ n = (5 * 2) ^ n" by simp
  also have "\<dots> = 5 ^ n * 2 ^ n" by (rule power_mult_distrib)
  finally show "(10::rat) ^ n = of_int (5 ^ n) * 2 powi int n" by simp
  have "(5::int) ^ n \<le> 5 ^ 22" using assms by (intro power_increasing) simp_all
  then show "\<bar>5 ^ n :: int\<bar> < 2 ^ 53" by simp
  have "(10::rat) ^ n \<le> 10 ^ 22" using assms by (intro power_increasing) simp_all
  also have "\<dots> \<le> 2 ^ 1023" by simp
  finally show "\<bar>(10::rat) ^ n\<bar> \<le> 2 ^ 1023" by simp
qed simp

lemma math_Pow10:
  assumes "0 \<le> n" "n \<le> 22"
  shows "math_Pow 10 n = Fin (10 ^ nat n)"
  using fl_power10 [of "nat n"] assms by (simp add: math_Pow_def power_int_nonneg_exp)

text \<open>
  Dividing an integer by a scale and multiplying it back loses less than half a unit:
  the two rounding errors are each at most \<open>2 ^ -53\<close> of the value.
\<close>

lemma fl_div_mul_roundtrip:
  assumes n: "\<bar>n\<bar> \<le> 2 ^ 50" and P: "1 \<le> P" "P \<le> 2 ^ 100"
  obtains q w where "fl (of_int n / P) = Fin q" "fl (q * P) = Fin w" "\<bar>w - of_int n\<bar> < 1/2"
proof (cases "n = 0")
  case True
  then show ?thesis using that [of 0 0] by simp
next
  case False
  define N :: rat where "N = of_int n"
  have N1: "1 \<le> \<bar>N\<bar>" using False unfolding N_def by (simp flip: of_int_abs)
  have N2: "\<bar>N\<bar> \<le> 2 ^ 50"
  proof -
    have "of_int \<bar>n\<bar> \<le> (of_int (2 ^ 50) :: rat)" using n unfolding of_int_le_iff .
    then show ?thesis unfolding N_def by simp
  qed
  have NP: "\<bar>N / P\<bar> = \<bar>N\<bar> / P" using P by simp
  have c: "(2::rat) powi (-1022) \<le> 1 / 2 ^ 100" by (simp add: power_int_minus divide_simps)
  have "1 / 2 ^ 100 \<le> \<bar>N\<bar> / P" using N1 P by (intro frac_le) simp_all
  with c have lo: "2 powi (-1022) \<le> \<bar>N / P\<bar>" unfolding NP by (rule order_trans)
  have NP50: "\<bar>N\<bar> / P \<le> 2 ^ 50" using N2 P by (simp add: divide_le_eq)
  have hi: "\<bar>N / P\<bar> \<le> 2 ^ 1023" using order_trans [OF NP50, of "2 ^ 1023"] unfolding NP by simp
  obtain q where q: "fl (N / P) = Fin q" "\<bar>q - N / P\<bar> \<le> \<bar>N / P\<bar> / 2 ^ 53"
    using fl_error [OF lo hi] by blast
  have "\<bar>q * P - N\<bar> = \<bar>q - N / P\<bar> * P" using P by (simp add: field_simps flip: abs_mult_pos)
  also have "\<dots> \<le> \<bar>N / P\<bar> / 2 ^ 53 * P" using q(2) P by (intro mult_right_mono) simp_all
  also have "\<dots> = \<bar>N\<bar> / 2 ^ 53" using P unfolding NP by simp
  finally have e1: "\<bar>q * P - N\<bar> \<le> \<bar>N\<bar> / 2 ^ 53" .
  have qP: "1 / 2 \<le> \<bar>q * P\<bar>" "\<bar>q * P\<bar> \<le> 2 ^ 51" using e1 N1 N2 by (simp_all add: abs_if split: if_splits)
  have c2: "(2::rat) powi (-1022) \<le> 1 / 2" by (simp add: power_int_minus divide_simps)
  obtain w where w: "fl (q * P) = Fin w" "\<bar>w - q * P\<bar> \<le> \<bar>q * P\<bar> / 2 ^ 53"
    using fl_error [OF order_trans [OF c2 qP(1)] order_trans [OF qP(2)]] by auto
  have "\<bar>w - q * P\<bar> \<le> 1 / 4" using w(2) qP(2) by simp
  moreover have "\<bar>q * P - N\<bar> \<le> 1 / 8" using e1 N2 by simp
  ultimately have "\<bar>w - N\<bar> < 1/2" by linarith
  then show ?thesis using that q(1) w(1) unfolding N_def by blast
qed

section \<open>Values of concrete roundings\<close>

lemma rne_near: "\<bar>x - of_int m\<bar> < 1/2 \<Longrightarrow> rne x = m"
proof -
  assume h: "\<bar>x - of_int m\<bar> < 1/2"
  have "\<bar>of_int (rne x) - x\<bar> \<le> 1/2" by (rule rne_bounds)
  with h have "\<bar>of_int (rne x) - of_int m :: rat\<bar> < 1" by linarith
  then have "\<bar>of_int (rne x - m) :: rat\<bar> < of_int 1" by simp
  then have "\<bar>rne x - m\<bar> < 1" by (simp only: of_int_less_iff flip: of_int_abs)
  then show ?thesis by simp
qed

lemma fl_eval:
  assumes "2 ^ 52 * 2 powi e \<le> x" "x < 2 ^ 53 * 2 powi e" "\<bar>x - of_int m * 2 powi e\<bar> < 2 powi e / 2"
    and e: "-1074 \<le> e" "x \<le> 2 ^ 1023"
  shows "fl x = Fin (of_int m * 2 powi e)"
proof -
  have p: "(0::rat) < 2 powi e" by simp
  have "0 < 2 ^ 52 * (2::rat) powi e" by simp
  then have x: "0 < x" using assms(1) by linarith
  have "ilog2 x = e + 52" using assms(1,2) by (intro ilog2_unique) (simp_all add: power_int_add algebra_simps)
  then have u: "ulp_exp x = e" using x e by (simp add: ulp_exp_def)
  have "\<bar>x / 2 powi e - of_int m\<bar> = \<bar>x - of_int m * 2 powi e\<bar> / 2 powi e"
  proof -
    have "x / 2 powi e - of_int m = (x - of_int m * 2 powi e) / 2 powi e" using p by (simp add: field_simps)
    then show ?thesis by (simp add: abs_divide)
  qed
  also have "\<dots> < 1/2" using assms(3) p by (simp add: divide_less_eq)
  finally have "rne (x / 2 powi e) = m" by (rule rne_near)
  then show ?thesis using x fl_small [of x] e by (simp add: round_rat_def u)
qed

lemma round_rat_idem [simp]: "round_rat (round_rat x) = round_rat x"
proof (cases "x = 0")
  case False
  define e where "e = ulp_exp x"
  define m where "m = rne (x / 2 powi e)"
  have r: "round_rat x = of_int m * 2 powi e" using False by (simp add: round_rat_def m_def e_def)
  have e: "-1074 \<le> e" "ilog2 \<bar>x\<bar> \<le> e + 52" by (simp_all add: e_def ulp_exp_def)
  have "\<bar>x\<bar> < 2 powi (ilog2 \<bar>x\<bar> + 1)" using False by (intro ilog2_bounds(2)) simp
  also have "\<dots> \<le> 2 powi (e + 53)" using e(2) by simp
  also have "\<dots> = 2 ^ 53 * 2 powi e" by (simp add: power_int_add)
  finally have "\<bar>x / 2 powi e\<bar> \<le> of_int (2 ^ 53)" by (simp add: abs_divide divide_le_eq)
  then have "x / 2 powi e \<le> of_int (2 ^ 53)" "of_int (- (2 ^ 53)) \<le> x / 2 powi e"
    unfolding abs_le_iff by (simp_all only: of_int_minus, linarith+)
  then have "m \<le> 2 ^ 53" "- (2 ^ 53) \<le> m" unfolding m_def by (auto intro: rne_le_int rne_int_le)
  then consider "\<bar>m\<bar> < 2 ^ 53" | "m = 2 ^ 53" | "m = - (2 ^ 53)" by linarith
  then show ?thesis
  proof cases
    case 1
    then show ?thesis unfolding r using e by (intro round_rat_exact) simp_all
  next
    case 2
    have "round_rat (of_int (2 ^ 53) * 2 powi e) = of_int (2 ^ 53) * 2 powi e"
      using e by (intro round_rat_exact [where m = "2 ^ 52" and e = "e + 1"]) (simp_all add: power_int_add)
    then show ?thesis unfolding r 2 .
  next
    case 3
    have "round_rat (of_int (- (2 ^ 53)) * 2 powi e) = of_int (- (2 ^ 53)) * 2 powi e"
      using e by (intro round_rat_exact [where m = "- (2 ^ 52)" and e = "e + 1"]) (simp_all add: power_int_add)
    then show ?thesis unfolding r 3 .
  qed
qed simp

lemma fl_idem: "fl x = Fin y \<Longrightarrow> fl y = Fin y"
  by (auto simp: fl_def Let_def split: if_splits)

end
