(* ===== verification/Prelude.thy ===== *)
theory Prelude
  imports Float64 "HOL-Library.Signed_Division" "HOL-Library.Sublist"
begin

text \<open>
  What every component shares: Go's integers, errors, results and the string functions of the
  standard library that the source calls, with the lemmas and the simplification collections
  that carry the component proofs.
\<close>

named_theorems go_defs \<open>definitions of the helpers of this theory, to unfold on closed terms\<close>

section \<open>Integers\<close>

text \<open>
  Go's \<^verbatim>\<open>int64\<close> (and \<^verbatim>\<open>int\<close>, 64 bits here) is an \<open>int\<close> in the range of \<open>is_int64\<close>; an operation
  that can leave the range wraps with \<open>wrap64\<close>. Go's \<open>/\<close> and \<open>%\<close> truncate: they are \<open>sdiv\<close> and
  \<open>smod\<close> of HOL-Library.
\<close>

type_synonym int64 = int

definition is_int64 :: "int \<Rightarrow> bool" where
  "is_int64 x \<longleftrightarrow> - (2 ^ 63) \<le> x \<and> x < 2 ^ 63"

definition wrap64 :: "int \<Rightarrow> int64" where
  "wrap64 x = (x + 2 ^ 63) mod 2 ^ 64 - 2 ^ 63"

definition wrap32 :: "int \<Rightarrow> int" where
  "wrap32 x = (x + 2 ^ 31) mod 2 ^ 32 - 2 ^ 31"

lemma is_int64_wrap64 [simp]: "is_int64 (wrap64 x)"
  by (simp add: is_int64_def wrap64_def)

lemma wrap64_id [simp]: "is_int64 x \<Longrightarrow> wrap64 x = x"
  by (simp add: is_int64_def wrap64_def)

lemma is_int64_abs: "\<bar>x\<bar> < 2 ^ 63 \<Longrightarrow> is_int64 x"
  by (simp add: is_int64_def abs_less_iff)

lemma is_int64_between: "is_int64 a \<Longrightarrow> is_int64 c \<Longrightarrow> a \<le> b \<Longrightarrow> b \<le> c \<Longrightarrow> is_int64 b"
  by (simp add: is_int64_def)

lemma f_to_int64_fits [simp]: "is_int64 n \<Longrightarrow> f_to_int64 ovf (Fin (of_int n)) = n"
  by (simp add: f_to_int64_def is_int64_def)

lemma f_of_int_int64: "is_int64 n \<Longrightarrow> f_of_int n = Fin (round_rat (of_int n))"
proof -
  assume "is_int64 n"
  then have "\<bar>n\<bar> \<le> 2 ^ 63" by (simp add: is_int64_def abs_le_iff)
  then have "rat_of_int \<bar>n\<bar> \<le> of_int (2 ^ 63)" by (simp only: of_int_le_iff)
  also have "\<dots> \<le> 2 ^ 1023" by simp
  finally show ?thesis unfolding f_of_int_def by (intro fl_small) simp
qed

lemma wrap64_idem [simp]: "wrap64 (wrap64 x) = wrap64 x"
  by simp

lemma wrap32_id: "- (2 ^ 31) \<le> x \<Longrightarrow> x < 2 ^ 31 \<Longrightarrow> wrap32 x = x"
  by (simp add: wrap32_def)

lemma sdiv_nonneg: "0 \<le> (a::int) \<Longrightarrow> 0 < b \<Longrightarrow> a sdiv b = a div b"
  by (simp add: signed_divide_int_def sgn_if)

lemma smod_nonneg: "0 \<le> (a::int) \<Longrightarrow> 0 < b \<Longrightarrow> a smod b = a mod b"
  by (cases "a = 0") (simp_all add: signed_modulo_int_def sdiv_nonneg minus_div_mult_eq_mod sgn_if)

section \<open>Errors and results\<close>

text \<open>
  Go's \<^verbatim>\<open>error\<close> interface: one constructor per dynamic type the program builds or inspects.
  \<open>Errorf f xs\<close> is \<^verbatim>\<open>fmt.Errorf(f, xs...)\<close> without \<^verbatim>\<open>%w\<close>; \<open>Wrapf f xs e\<close> wraps \<open>e\<close>; the format string is
  kept as it is in the source, its arguments beside it. \<open>ExternalError\<close> is an error of code outside
  the repository, with its text.
\<close>

datatype fmt_arg = AInt int | AStr string | AFloat f64 | ATime int

datatype goerror =
    Errorf string "fmt_arg list"
  | Wrapf string "fmt_arg list" goerror
  | ErrorString string
  | ContextCanceled
  | ContextDeadlineExceeded
  | UrlError goerror
  | ExternalError string
  | RetryableError goerror
  | HTTPError int string "goerror option"
  | TransportError goerror
  | ScrapeError string string string int
  | ValidationError string string "fmt_arg list"

datatype 'a go = Ret 'a | Err goerror | Panic string

fun go_bind :: "'a go \<Rightarrow> ('a \<Rightarrow> 'b go) \<Rightarrow> 'b go" where
  "go_bind (Ret x) f = f x"
| "go_bind (Err e) f = Err e"
| "go_bind (Panic s) f = Panic s"

text \<open>\<open>go_wrap f r\<close>: the caller's \<^verbatim>\<open>if err != nil { return fmt.Errorf("...: %w", err) }\<close>.\<close>

fun go_wrap :: "string \<Rightarrow> fmt_arg list \<Rightarrow> 'a go \<Rightarrow> 'a go" where
  "go_wrap f xs (Err e) = Err (Wrapf f xs e)"
| "go_wrap f xs r = r"

fun is_ret :: "'a go \<Rightarrow> bool" where
  "is_ret (Ret _) = True"
| "is_ret _ = False"

lemma go_bind_eq_Ret: "go_bind m f = Ret y \<longleftrightarrow> (\<exists>x. m = Ret x \<and> f x = Ret y)"
  by (cases m) auto

lemma go_bind_eq_Err: "go_bind m f = Err e \<longleftrightarrow> m = Err e \<or> (\<exists>x. m = Ret x \<and> f x = Err e)"
  by (cases m) auto

lemma go_wrap_eq_Ret [simp]: "go_wrap s xs r = Ret x \<longleftrightarrow> r = Ret x"
  by (cases r) auto

lemma go_wrap_eq_Err: "go_wrap s xs r = Err e \<longleftrightarrow> (\<exists>e'. r = Err e' \<and> e = Wrapf s xs e')"
  by (cases r) auto

lemma go_wrap_eq_Panic [simp]: "go_wrap s xs r = Panic p \<longleftrightarrow> r = Panic p"
  by (cases r) auto

lemma is_ret_conv: "is_ret r \<longleftrightarrow> (\<exists>x. r = Ret x)"
  by (cases r) auto

text \<open>A loop over a slice that collects one value per element and stops at the first error.\<close>

fun go_mapM :: "('a \<Rightarrow> 'b go) \<Rightarrow> 'a list \<Rightarrow> 'b list go" where
  "go_mapM f [] = Ret []"
| "go_mapM f (x # xs) = go_bind (f x) (\<lambda>y. go_bind (go_mapM f xs) (\<lambda>ys. Ret (y # ys)))"

lemma go_mapM_Ret: "go_mapM f xs = Ret ys \<longleftrightarrow> list_all2 (\<lambda>x y. f x = Ret y) xs ys"
  by (induction xs arbitrary: ys) (auto simp: go_bind_eq_Ret list_all2_Cons1)

lemma go_mapM_length: "go_mapM f xs = Ret ys \<Longrightarrow> length ys = length xs"
  by (auto simp: go_mapM_Ret dest: list_all2_lengthD)

lemma go_mapM_map: "(\<And>x. x \<in> set xs \<Longrightarrow> f x = Ret (g x)) \<Longrightarrow> go_mapM f xs = Ret (map g xs)"
  by (induction xs) auto

lemma go_mapM_Err: "go_mapM f xs = Err e \<Longrightarrow> \<exists>x \<in> set xs. f x = Err e"
  by (induction xs) (auto simp: go_bind_eq_Err)

text \<open>
  \<^verbatim>\<open>if c { return err }\<close>, an indexed read of a slice, the dereference of a pointer that may be nil, and the
  loop over a slice with its index that stops at the first error.
\<close>

definition go_guard :: "bool \<Rightarrow> goerror \<Rightarrow> unit go" where
  "go_guard c e = (if c then Err e else Ret ())"

definition go_idx :: "'a list \<Rightarrow> nat \<Rightarrow> 'a go" where
  "go_idx xs i = (if i < length xs then Ret (xs ! i) else Panic ''index out of range'')"

fun go_deref :: "'a option \<Rightarrow> 'a go" where
  "go_deref (Some x) = Ret x"
| "go_deref None = Panic ''nil pointer dereference''"

fun go_iter :: "(nat \<Rightarrow> 'a \<Rightarrow> unit go) \<Rightarrow> nat \<Rightarrow> 'a list \<Rightarrow> unit go" where
  "go_iter f i [] = Ret ()"
| "go_iter f i (x # xs) = go_bind (f i x) (\<lambda>_. go_iter f (Suc i) xs)"

lemma go_guard_eq_Ret [simp]: "go_guard c e = Ret u \<longleftrightarrow> \<not> c"
  by (simp add: go_guard_def)

lemma go_guard_eq_Err [simp]: "go_guard c e = Err e' \<longleftrightarrow> c \<and> e' = e"
  by (auto simp: go_guard_def)

lemma go_guard_eq_Panic [simp]: "go_guard c e \<noteq> Panic s"
  by (simp add: go_guard_def)

lemma go_guard_simps [simp]: "go_guard True e = Err e" "go_guard False e = Ret ()"
  by (simp_all add: go_guard_def)

lemma go_idx_ok [simp]: "i < length xs \<Longrightarrow> go_idx xs i = Ret (xs ! i)"
  by (simp add: go_idx_def)

lemma go_idx_eq_Ret: "go_idx xs i = Ret x \<longleftrightarrow> i < length xs \<and> x = xs ! i"
  by (auto simp: go_idx_def)

lemma go_bind_eq_Panic: "go_bind m f = Panic s \<longleftrightarrow> m = Panic s \<or> (\<exists>x. m = Ret x \<and> f x = Panic s)"
  by (cases m) auto

lemma go_iter_Ret: "go_iter f i xs = Ret () \<longleftrightarrow> (\<forall>j < length xs. f (i + j) (xs ! j) = Ret ())"
proof (induction xs arbitrary: i)
  case (Cons x xs)
  then show ?case by (simp add: go_bind_eq_Ret All_less_Suc2)
qed simp

lemma go_iter_Panic: "go_iter f i xs = Panic s \<Longrightarrow> \<exists>k. \<exists>x \<in> set xs. f k x = Panic s"
proof (induction xs arbitrary: i)
  case (Cons x xs)
  then consider "f i x = Panic s" | "go_iter f (Suc i) xs = Panic s" by (auto simp: go_bind_eq_Panic)
  then show ?case using Cons.IH [of "Suc i"] by cases auto
qed simp

section \<open>Strings\<close>

text \<open>
  A Go string is a sequence of bytes, a \<open>string\<close> of HOL a list of 8-bit characters. The case and
  space functions are those of ASCII text.
\<close>

definition code_of :: "char \<Rightarrow> nat" where
  [go_defs]: "code_of c = of_char c"

definition is_upper :: "char \<Rightarrow> bool" where
  [go_defs]: "is_upper c \<longleftrightarrow> 65 \<le> code_of c \<and> code_of c \<le> 90"

definition is_lower :: "char \<Rightarrow> bool" where
  [go_defs]: "is_lower c \<longleftrightarrow> 97 \<le> code_of c \<and> code_of c \<le> 122"

definition is_digit :: "char \<Rightarrow> bool" where
  [go_defs]: "is_digit c \<longleftrightarrow> 48 \<le> code_of c \<and> code_of c \<le> 57"

definition is_space :: "char \<Rightarrow> bool" where
  [go_defs]: "is_space c \<longleftrightarrow> code_of c = 32 \<or> 9 \<le> code_of c \<and> code_of c \<le> 13"

definition upper_char :: "char \<Rightarrow> char" where
  [go_defs]: "upper_char c = (if is_lower c then char_of (code_of c - 32) else c)"

definition lower_char :: "char \<Rightarrow> char" where
  [go_defs]: "lower_char c = (if is_upper c then char_of (code_of c + 32) else c)"

definition ToUpper :: "string \<Rightarrow> string" where
  [go_defs]: "ToUpper = map upper_char"

definition ToLower :: "string \<Rightarrow> string" where
  [go_defs]: "ToLower = map lower_char"

definition TrimSpace :: "string \<Rightarrow> string" where
  [go_defs]: "TrimSpace s = rev (dropWhile is_space (rev (dropWhile is_space s)))"

definition HasPrefix :: "string \<Rightarrow> string \<Rightarrow> bool" where
  [go_defs]: "HasPrefix s p = prefix p s"

definition HasSuffix :: "string \<Rightarrow> string \<Rightarrow> bool" where
  [go_defs]: "HasSuffix s p = suffix p s"

definition TrimSuffix :: "string \<Rightarrow> string \<Rightarrow> string" where
  [go_defs]: "TrimSuffix s p = (if HasSuffix s p then take (length s - length p) s else s)"

definition Contains :: "string \<Rightarrow> string \<Rightarrow> bool" where
  [go_defs]: "Contains s sub = sublist sub s"

text \<open>\<^verbatim>\<open>strings.Split\<close>, \<^verbatim>\<open>SplitN(s, sep, 2)\<close>, \<^verbatim>\<open>Join\<close> and \<^verbatim>\<open>ReplaceAll\<close> for a separator of one character.\<close>

fun split_char :: "char \<Rightarrow> string \<Rightarrow> string list" where
  "split_char c [] = [[]]"
| "split_char c (x # xs) =
     (if x = c then [] # split_char c xs
      else (x # hd (split_char c xs)) # tl (split_char c xs))"

definition splitN2_char :: "char \<Rightarrow> string \<Rightarrow> string list" where
  [go_defs]: "splitN2_char c s =
     (if c \<in> set s then [takeWhile (\<lambda>x. x \<noteq> c) s, tl (dropWhile (\<lambda>x. x \<noteq> c) s)] else [s])"

fun Join :: "string list \<Rightarrow> string \<Rightarrow> string" where
  "Join [] sep = []"
| "Join [x] sep = x"
| "Join (x # y # ys) sep = x @ sep @ Join (y # ys) sep"

definition replace_char :: "char \<Rightarrow> string \<Rightarrow> string \<Rightarrow> string" where
  [go_defs]: "replace_char c r s = concat (map (\<lambda>x. if x = c then r else [x]) s)"

fun show_nat :: "nat \<Rightarrow> string" where
  "show_nat n = (if n < 10 then [char_of (48 + n)] else show_nat (n div 10) @ [char_of (48 + n mod 10)])"

declare show_nat.simps [simp del]

definition show_int :: "int \<Rightarrow> string" where
  "show_int i = (if i < 0 then ''-'' @ show_nat (nat (- i)) else show_nat (nat i))"

lemma split_char_neq_Nil [simp]: "split_char c s \<noteq> []"
  by (induction s) auto

lemma Join_split_char: "Join (split_char c s) [c] = s"
proof (induction s)
  case (Cons x xs)
  obtain y ys where "split_char c xs = y # ys" by (cases "split_char c xs") auto
  then show ?case using Cons by (cases ys) auto
qed simp

lemma split_char_no_sep: "c \<notin> set s \<Longrightarrow> split_char c s = [s]"
  by (induction s) auto

lemma split_char_append_sep: "c \<notin> set s \<Longrightarrow> split_char c (s @ c # t) = s # split_char c t"
  by (induction s) auto

lemma split_char_no_sep_in: "x \<in> set (split_char c s) \<Longrightarrow> c \<notin> set x"
proof (induction s arbitrary: x)
  case (Cons a s)
  obtain y ys where y: "split_char c s = y # ys" by (cases "split_char c s") auto
  then show ?case using Cons by (auto split: if_splits)
qed simp

lemma Join_Cons: "xs \<noteq> [] \<Longrightarrow> Join (x # xs) sep = x @ sep @ Join xs sep"
  by (cases xs) auto

end
