(* ===== verification/GoTime.thy ===== *)
theory GoTime
  imports Prelude
begin

text \<open>
  Go's \<^verbatim>\<open>time\<close>: an instant is the number of nanoseconds since the Unix epoch, in UTC; a duration
  is an \<open>int64\<close> of nanoseconds. The calendar is the proleptic Gregorian one of \<^verbatim>\<open>time.Date\<close>.
\<close>

type_synonym instant = int
type_synonym duration = int

definition nanosecond :: duration where [go_defs]: "nanosecond = 1"
definition millisecond :: duration where [go_defs]: "millisecond = 1000000"
definition second :: duration where [go_defs]: "second = 1000000000"
definition minute :: duration where [go_defs]: "minute = 60 * 1000000000"
definition hour :: duration where [go_defs]: "hour = 3600 * 1000000000"
definition day_ns :: duration where [go_defs]: "day_ns = 86400 * 1000000000"

definition time_Unix :: "int \<Rightarrow> int \<Rightarrow> instant" where
  "time_Unix sec nsec = sec * second + nsec"

text \<open>\<^verbatim>\<open>t.Sub(u)\<close> saturates at the ends of the \<open>int64\<close> range.\<close>

definition time_Sub :: "instant \<Rightarrow> instant \<Rightarrow> duration" where
  "time_Sub t u = max (- (2 ^ 63)) (min (2 ^ 63 - 1) (t - u))"

definition dur_mul :: "int \<Rightarrow> duration \<Rightarrow> duration" where
  "dur_mul n d = wrap64 (n * d)"

definition Seconds :: "duration \<Rightarrow> f64" where
  "Seconds d = f_add (f_of_int (d sdiv second)) (f_div (f_of_int (d smod second)) (Fin 1000000000))"

lemma time_Sub_exact: "is_int64 (t - u) \<Longrightarrow> time_Sub t u = t - u"
  by (simp add: time_Sub_def is_int64_def)

lemma is_int64_time_Sub [simp]: "is_int64 (time_Sub t u)"
  by (simp add: time_Sub_def is_int64_def max_def min_def)

section \<open>The calendar\<close>

definition leap_year :: "int \<Rightarrow> bool" where
  "leap_year y \<longleftrightarrow> 4 dvd y \<and> (\<not> 100 dvd y \<or> 400 dvd y)"

definition days_before_year :: "int \<Rightarrow> int" where
  \<comment> \<open>days from the first of January of year 1 to the first of January of year \<open>y\<close>\<close>
  "days_before_year y = 365 * (y - 1) + (y - 1) div 4 - (y - 1) div 100 + (y - 1) div 400"

definition month_offset :: "int \<Rightarrow> int" where
  "month_offset m =
     (if m \<le> 1 then 0 else if m = 2 then 31 else if m = 3 then 59 else if m = 4 then 90
      else if m = 5 then 120 else if m = 6 then 151 else if m = 7 then 181 else if m = 8 then 212
      else if m = 9 then 243 else if m = 10 then 273 else if m = 11 then 304 else 334)"

definition days_before_month :: "int \<Rightarrow> int \<Rightarrow> int" where
  "days_before_month y m = month_offset m + (if 3 \<le> m \<and> leap_year y then 1 else 0)"

text \<open>Day number since the Unix epoch of a date whose month and day need not be in range.\<close>

definition date_to_day :: "int \<Rightarrow> int \<Rightarrow> int \<Rightarrow> int" where
  "date_to_day y m d =
     (let y' = y + (m - 1) div 12; m' = (m - 1) mod 12 + 1
      in days_before_year y' + days_before_month y' m' + (d - 1) - 719162)"

definition day_Year :: "int \<Rightarrow> int" where
  "day_Year z = (let n = z + 719162; y = (400 * n) div 146097 + 1
                 in if days_before_year (y + 1) \<le> n then y + 1
                    else if n < days_before_year y then y - 1 else y)"

definition day_YearDay0 :: "int \<Rightarrow> int" where
  \<comment> \<open>the day of the year, from 0\<close>
  "day_YearDay0 z = z + 719162 - days_before_year (day_Year z)"

definition all_months :: "int list" where
  "all_months = [1, 2, 3, 4, 5, 6, 7, 8, 9, 10, 11, 12]"

definition day_Month :: "int \<Rightarrow> int" where
  "day_Month z = int (length (filter (\<lambda>m. days_before_month (day_Year z) m \<le> day_YearDay0 z) all_months))"

definition day_Day :: "int \<Rightarrow> int" where
  "day_Day z = day_YearDay0 z - days_before_month (day_Year z) (day_Month z) + 1"

definition time_day :: "instant \<Rightarrow> int" where
  "time_day t = t div day_ns"

definition time_Year :: "instant \<Rightarrow> int" where "time_Year t = day_Year (time_day t)"
definition time_Month :: "instant \<Rightarrow> int" where "time_Month t = day_Month (time_day t)"
definition time_Day :: "instant \<Rightarrow> int" where "time_Day t = day_Day (time_day t)"
definition time_YearDay :: "instant \<Rightarrow> int" where "time_YearDay t = day_YearDay0 (time_day t) + 1"

text \<open>\<open>time_Date y m d ns\<close> is \<^verbatim>\<open>time.Date(y, m, d, ..., time.UTC)\<close> with its clock fields as nanoseconds.\<close>

definition time_Date :: "int \<Rightarrow> int \<Rightarrow> int \<Rightarrow> int \<Rightarrow> instant" where
  "time_Date y m d ns = date_to_day y m d * day_ns + ns"

definition AddDate :: "instant \<Rightarrow> int \<Rightarrow> int \<Rightarrow> int \<Rightarrow> instant" where
  "AddDate t dy dm dd =
     time_Date (time_Year t + dy) (time_Month t + dm) (time_Day t + dd) (t mod day_ns)"

lemma div_bounds: "0 < k \<Longrightarrow> k * (x div k) \<le> x \<and> x < k * (x div k) + (k::int)"
  using mult_div_mod_eq [of k x] pos_mod_bound [of k x] pos_mod_sign [of k x] by linarith

lemma days_before_year_bounds:
  "146097 * (y - 1) - 800 \<le> 400 * days_before_year y"
  "400 * days_before_year y \<le> 146097 * (y - 1) + 400"
  using div_bounds [of 4 "y - 1"] div_bounds [of 100 "y - 1"] div_bounds [of 400 "y - 1"]
  unfolding days_before_year_def by simp_all

lemma day_Year_bounds:
  "days_before_year (day_Year z) \<le> z + 719162"
  "z + 719162 < days_before_year (day_Year z + 1)"
proof -
  define n where "n = z + 719162"
  define y where "y = (400 * n) div 146097 + 1"
  have y: "146097 * (y - 1) \<le> 400 * n" "400 * n < 146097 * y" 
    using div_bounds [of 146097 "400 * n"] unfolding y_def by simp_all
  have 1: "days_before_year (y - 1) \<le> n" using y days_before_year_bounds(2) [of "y - 1"] by simp
  have 2: "n < days_before_year (y + 2)" using y days_before_year_bounds(1) [of "y + 2"] by simp
  show "days_before_year (day_Year z) \<le> z + 719162" "z + 719162 < days_before_year (day_Year z + 1)"
    using 1 2 unfolding day_Year_def Let_def n_def [symmetric] y_def [symmetric]
    by (auto simp: not_le not_less algebra_simps)
qed

lemma day_YearDay0_nonneg: "0 \<le> day_YearDay0 z"
  using day_Year_bounds(1) [of z] by (simp add: day_YearDay0_def)

lemma day_Month_range: "1 \<le> day_Month z" "day_Month z \<le> 12"
proof -
  have "days_before_month (day_Year z) 1 \<le> day_YearDay0 z"
    using day_YearDay0_nonneg by (simp add: days_before_month_def month_offset_def)
  then show "1 \<le> day_Month z" by (simp add: day_Month_def all_months_def)
  have "length (filter P all_months) \<le> 12" for P
    using length_filter_le [of P all_months] by (simp add: all_months_def del: length_filter_le filter.simps)
  then show "day_Month z \<le> 12" unfolding day_Month_def by (metis of_nat_le_iff of_nat_numeral)
qed

lemma date_to_day_civil: "date_to_day (day_Year z) (day_Month z) (day_Day z + k) = z + k"
proof -
  have m: "(day_Month z - 1) div 12 = 0" "(day_Month z - 1) mod 12 = day_Month z - 1"
    using day_Month_range [of z] by (auto simp: div_pos_pos_trivial mod_pos_pos_trivial)
  show ?thesis unfolding date_to_day_def Let_def m by (simp add: day_Day_def day_YearDay0_def)
qed

lemma AddDate_days: "AddDate t 0 0 k = t + k * day_ns"
  by (simp add: AddDate_def time_Date_def time_Year_def time_Month_def time_Day_def
      date_to_day_civil time_day_def distrib_right)

lemma time_Date_civil: "time_Date (time_Year t) (time_Month t) (time_Day t) ns = time_day t * day_ns + ns"
  using date_to_day_civil [of "time_day t" 0]
  by (simp add: time_Date_def time_Year_def time_Month_def time_Day_def)

text \<open>Three months back, the length of a quarter.\<close>

lemma div_pred: "0 < (k::int) \<Longrightarrow> n div k - (n - 1) div k = (if k dvd n then 1 else 0)"
proof -
  assume k: "0 < k"
  have n: "n = k * (n div k) + n mod k" "0 \<le> n mod k" "n mod k < k" using k by simp_all
  show ?thesis
  proof (cases "k dvd n")
    case True
    then have "n mod k = 0" by simp
    then have "n - 1 = k * (n div k - 1) + (k - 1)" using n(1) by (simp add: algebra_simps)
    then have "(n - 1) div k = n div k - 1" by (rule int_div_pos_eq) (use k in simp_all)
    then show ?thesis using True by simp
  next
    case False
    then have "n mod k \<noteq> 0" by (simp add: dvd_eq_mod_eq_0)
    then have "0 \<le> n mod k - 1" "n mod k - 1 < k" using n by linarith+
    moreover have "n - 1 = k * (n div k) + (n mod k - 1)" using n(1) by linarith
    ultimately have "(n - 1) div k = n div k" by (intro int_div_pos_eq) simp_all
    then show ?thesis using False by simp
  qed
qed

lemma days_before_year_step: "days_before_year y - days_before_year (y - 1) = 365 + (if leap_year (y - 1) then 1 else 0)"
proof -
  define n where "n = y - 1"
  have n: "y - 1 = n" "y - 1 - 1 = n - 1" by (simp_all add: n_def)
  have d: "100 dvd n \<Longrightarrow> 4 dvd n" "400 dvd n \<Longrightarrow> 100 dvd n"
    using dvd_trans [of 4 100 n] dvd_trans [of 100 400 n] by simp_all
  have "365 * n - 365 * (n - 1) = 365" by simp
  moreover have "n div 4 - (n - 1) div 4 - (n div 100 - (n - 1) div 100) + (n div 400 - (n - 1) div 400) =
      (if leap_year n then 1 else 0)"
    unfolding div_pred [of 4 n, simplified] div_pred [of 100 n, simplified] div_pred [of 400 n, simplified] leap_year_def
    using d by (cases "4 dvd n"; cases "100 dvd n"; cases "400 dvd n") simp_all
  ultimately show ?thesis unfolding days_before_year_def n by linarith
qed

lemma AddDate_quarter: "\<exists>k \<in> {89..92}. AddDate t 0 (- 3) 0 = t - k * day_ns"
proof -
  define Y M D where "Y = day_Year (time_day t)" and "M = day_Month (time_day t)" and "D = day_Day (time_day t)"
  have t: "time_day t = date_to_day Y M D" using date_to_day_civil [of "time_day t" 0]
    by (simp add: Y_def M_def D_def)
  have "1 \<le> M" "M \<le> 12" using day_Month_range [of "time_day t"] by (simp_all add: M_def)
  then have "M = 1 \<or> M = 2 \<or> M = 3 \<or> M = 4 \<or> M = 5 \<or> M = 6 \<or> M = 7 \<or> M = 8 \<or> M = 9 \<or> M = 10 \<or> M = 11 \<or> M = 12"
    by presburger
  then have d: "date_to_day Y M D - date_to_day Y (M - 3) D \<in> {89..92}"
    using days_before_year_step [of Y]
    by (elim disjE) (simp_all add: date_to_day_def Let_def days_before_month_def month_offset_def)
  define k where "k = date_to_day Y M D - date_to_day Y (M - 3) D"
  have k: "k \<in> {89..92}" "date_to_day Y (M - 3) D = time_day t - k" using d t by (simp_all add: k_def)
  have "AddDate t 0 (- 3) 0 = (time_day t - k) * day_ns + t mod day_ns"
    unfolding AddDate_def time_Date_def time_Year_def time_Month_def time_Day_def
    using k(2) by (simp add: Y_def M_def D_def)
  also have "\<dots> = t - k * day_ns" by (simp add: time_day_def left_diff_distrib)
  finally show ?thesis using k(1) by blast
qed

end
