(* ===== verification/Decimal.thy ===== *)
theory Decimal
  imports GoTime
begin

text \<open>
  Scaled decimals: \<^verbatim>\<open>internal/norm/decimal.go\<close> and the type of \<^verbatim>\<open>internal/norm/types.go\<close>.
  \<open>ovf\<close> is the implementation's value for a float that does not fit an \<open>int64\<close>.
\<close>

section \<open>Model\<close>

record ScaledDecimal =
  Scaled :: int64
  Scale :: int

definition mkSD :: "int64 \<Rightarrow> int \<Rightarrow> ScaledDecimal" where
  [simp]: "mkSD v s = \<lparr>Scaled = v, Scale = s\<rparr>"

definition GetScaleForCurrency :: "string \<Rightarrow> int" where
  "GetScaleForCurrency currency =
     (if currency = ''JPY'' then 2
      else if currency \<in> {''USD'', ''EUR'', ''GBP'', ''CAD'', ''AUD'', ''CHF'', ''NZD''} then 2
      else 2)"

definition ToScaledDecimal :: "(f64 \<Rightarrow> int) \<Rightarrow> f64 \<Rightarrow> int \<Rightarrow> ScaledDecimal go" where
  "ToScaledDecimal ovf price scale =
     (if f_isnan price then Err (Errorf ''NaN price'' [])
      else if f_isinf price then Err (Errorf ''infinite price'' [])
      else
        let multiplier = math_Pow 10 scale;
            scaled = f_to_int64 ovf (math_Round (f_mul price multiplier))
        in Ret (mkSD scaled scale))"

definition ToScaledDecimalWithCurrency :: "(f64 \<Rightarrow> int) \<Rightarrow> f64 \<Rightarrow> string \<Rightarrow> ScaledDecimal go" where
  "ToScaledDecimalWithCurrency ovf price currency =
     ToScaledDecimal ovf price (GetScaleForCurrency currency)"

definition FromScaledDecimal :: "ScaledDecimal \<Rightarrow> f64" where
  "FromScaledDecimal sd = f_div (f_of_int (Scaled sd)) (math_Pow 10 (Scale sd))"

definition ValidateScaledDecimal :: "ScaledDecimal \<Rightarrow> unit go" where
  "ValidateScaledDecimal sd =
     (if Scale sd < 0 then Err (Errorf ''negative scale: %d'' [AInt (Scale sd)])
      else if 8 < Scale sd then Err (Errorf ''scale too large: %d'' [AInt (Scale sd)])
      else Ret ())"

definition GetPriceScaleForCurrency :: "string \<Rightarrow> int" where
  "GetPriceScaleForCurrency currency = GetScaleForCurrency currency"

definition MultiplyAndRound ::
  "(f64 \<Rightarrow> int) \<Rightarrow> ScaledDecimal \<Rightarrow> ScaledDecimal \<Rightarrow> int \<Rightarrow> ScaledDecimal go" where
  "MultiplyAndRound ovf a b targetScale =
     go_bind (go_wrap ''invalid first operand: %w'' [] (ValidateScaledDecimal a)) (\<lambda>_.
     go_bind (go_wrap ''invalid second operand: %w'' [] (ValidateScaledDecimal b)) (\<lambda>_.
     if targetScale < 0 \<or> 8 < targetScale
     then Err (Errorf ''invalid target scale: %d'' [AInt targetScale])
     else
       let totalScale = Scale a + Scale b;
           scaleDiff = totalScale - targetScale
       in if scaleDiff < 0 then
            let multiplier = f_to_int64 ovf (math_Pow 10 (- scaleDiff));
                result = wrap64 (wrap64 (Scaled a * Scaled b) * multiplier)
            in Ret (mkSD result targetScale)
          else if 0 < scaleDiff then
            let divisor = f_to_int64 ovf (math_Pow 10 scaleDiff);
                result = wrap64 (Scaled a * Scaled b) sdiv divisor;
                remainder = wrap64 (Scaled a * Scaled b) smod divisor;
                result' = (if divisor sdiv 2 \<le> remainder then wrap64 (result + 1) else result)
            in Ret (mkSD result' targetScale)
          else Ret (mkSD (wrap64 (Scaled a * Scaled b)) targetScale)))"

text \<open>The loop that multiplies a \<^verbatim>\<open>big.Int\<close> by ten \<open>n\<close> times.\<close>

fun mul10_loop :: "nat \<Rightarrow> int \<Rightarrow> int" where
  "mul10_loop 0 m = m"
| "mul10_loop (Suc n) m = mul10_loop n (m * 10)"

text \<open>\<^verbatim>\<open>big.Int.Div\<close> and \<^verbatim>\<open>Mod\<close> are Euclidean: for a positive divisor they are \<open>div\<close> and \<open>mod\<close>.\<close>

definition RoundHalfUp :: "int \<Rightarrow> int \<Rightarrow> int \<Rightarrow> int" where
  "RoundHalfUp v fromScale toScale =
     (if fromScale = toScale then v
      else if fromScale < toScale then
        let multiplier = mul10_loop (nat (toScale - fromScale)) 1 in v * multiplier
      else
        let divisor = mul10_loop (nat (fromScale - toScale)) 1;
            quotient = v div divisor;
            remainder = v mod divisor;
            half = divisor div 2
        in if half \<le> remainder then quotient + 1 else quotient)"

section \<open>Lemmas\<close>

lemma GetScaleForCurrency_2 [simp]: "GetScaleForCurrency c = 2"
  by (simp add: GetScaleForCurrency_def)

lemma mul10_loop_eq: "mul10_loop n m = m * 10 ^ n"
  by (induction n arbitrary: m) simp_all

lemma f_to_int64_pow10:
  assumes "0 \<le> n" "n \<le> 18"
  shows "f_to_int64 ovf (math_Pow 10 n) = 10 ^ nat n"
proof -
  have m: "math_Pow 10 n = Fin (of_int (10 ^ nat n))" using math_Pow10 [of n] assms by simp
  have "nat n \<le> 18" using assms by simp
  then have "(10::int) ^ nat n \<le> 10 ^ 18" by (intro power_increasing) simp_all
  also have "\<dots> < 2 ^ 63" by simp
  finally have "is_int64 (10 ^ nat n)" by (intro is_int64_abs) simp
  then show ?thesis unfolding m by (rule f_to_int64_fits)
qed

lemma half_pow10: "0 < k \<Longrightarrow> 2 * ((10::int) ^ k div 2) = 10 ^ k"
  by (simp add: dvd_power)

text \<open>The value \<^verbatim>\<open>ToScaledDecimal\<close> produces where the product fits an \<open>int64\<close>.\<close>

definition scaled_of :: "rat \<Rightarrow> int" where
  "scaled_of q = round_away (round_rat (q * 100))"

lemma ToScaledDecimalWithCurrency_Fin:
  assumes "\<bar>q\<bar> \<le> 2 ^ 55"
  shows "ToScaledDecimalWithCurrency ovf (Fin q) c = Ret (mkSD (scaled_of q) 2)"
proof -
  have b: "\<bar>q * 100\<bar> \<le> 2 ^ 62" using assms by (simp add: abs_mult)
  then have "\<bar>round_rat (q * 100)\<bar> \<le> of_int (2 ^ 62)" using round_rat_abs_le_pow2 [of _ 62] by simp
  then have "\<bar>scaled_of q\<bar> \<le> 2 ^ 62" unfolding scaled_of_def by (rule round_away_abs_le)
  then have i: "is_int64 (scaled_of q)" by (intro is_int64_abs) simp
  have f: "fl (q * 100) = Fin (round_rat (q * 100))" using order_trans [OF b, of "2 ^ 1023"] by (intro fl_small) simp
  have m: "math_Pow 10 2 = Fin 100" using math_Pow10 [of 2] by simp
  show ?thesis using i
    by (simp add: ToScaledDecimalWithCurrency_def ToScaledDecimal_def m f flip: scaled_of_def)
qed

lemma ToScaledDecimalWithCurrency_int:
  assumes "\<bar>n\<bar> \<le> 2 ^ 40"
  shows "ToScaledDecimalWithCurrency ovf (Fin (of_int n)) c = Ret (mkSD (n * 100) 2)"
proof -
  have "\<bar>rat_of_int n\<bar> = of_int \<bar>n\<bar>" by simp
  also have "\<dots> \<le> of_int (2 ^ 40)" using assms by (simp only: of_int_le_iff)
  finally have q: "\<bar>rat_of_int n\<bar> \<le> 2 ^ 40" by simp
  have "fl (of_int (n * 100)) = Fin (of_int (n * 100))" using assms by (intro fl_of_int) (simp add: abs_mult)
  moreover have "fl (of_int n * 100) = Fin (round_rat (of_int n * 100))"
    using q by (intro fl_small) (simp add: abs_mult)
  ultimately have "round_rat (of_int n * 100) = of_int (n * 100)" by simp
  then have "scaled_of (of_int n) = n * 100" using round_away_of_int [of "n * 100"] by (simp add: scaled_of_def)
  then show ?thesis using q ToScaledDecimalWithCurrency_Fin [of "of_int n" ovf c] by simp
qed

text \<open>Three roundings: the integer to a float, the product to a float, the product to an integer.\<close>

lemma round_away_error: "\<bar>of_int (round_away x) - x\<bar> \<le> 1/2"
proof (cases "0 \<le> x")
  case True
  have "of_int \<lfloor>x + 1/2\<rfloor> \<le> x + 1/2" "x + 1/2 < of_int \<lfloor>x + 1/2\<rfloor> + 1" by (rule of_int_floor_le, linarith)
  then show ?thesis using True unfolding round_away_def abs_le_iff by (simp only: if_True) linarith
next
  case False
  have "x - 1/2 \<le> of_int \<lceil>x - 1/2\<rceil>" "of_int \<lceil>x - 1/2\<rceil> < x - 1/2 + 1" by (rule le_of_int_ceiling, linarith)
  then show ?thesis using False unfolding round_away_def abs_le_iff by (simp only: if_False) linarith
qed

lemma scaled_of_error:
  assumes "1 \<le> \<bar>r :: int\<bar>"
  shows "\<bar>of_int (scaled_of (round_rat (of_int r))) - rat_of_int r * 100\<bar> \<le>
    \<bar>rat_of_int r * 100\<bar> / 2 ^ 52 + \<bar>rat_of_int r * 100\<bar> / 2 ^ 106 + 1/2"
proof -
  let ?r = "rat_of_int r"
  define a where "a = round_rat ?r"
  define b where "b = round_rat (a * 100)"
  have r1: "1 \<le> \<bar>?r\<bar>" using assms by (metis of_int_1_le_iff of_int_abs)
  have tiny: "2 powi (- 1022) \<le> x" if "1 / 2 \<le> x" for x :: rat
    using that power_int_increasing [of "- 1022" "- 1" "2 :: rat"] by (simp add: field_simps)
  have a: "\<bar>a - ?r\<bar> \<le> \<bar>?r\<bar> / 2 ^ 53" using r1 unfolding a_def by (intro round_rat_error tiny) simp
  have "\<bar>?r\<bar> / 2 ^ 53 \<le> \<bar>?r\<bar> / 2" by (rule divide_left_mono) simp_all
  then have "1/2 \<le> \<bar>a\<bar>" using a r1 by linarith
  then have h: "1/2 \<le> \<bar>a * 100\<bar>" by (simp add: abs_mult)
  have b: "\<bar>b - a * 100\<bar> \<le> \<bar>a * 100\<bar> / 2 ^ 53" unfolding b_def by (intro round_rat_error tiny h)
  have "\<bar>a\<bar> \<le> \<bar>?r\<bar> + \<bar>?r\<bar> / 2 ^ 53" using a abs_triangle_ineq2 [of a ?r] by linarith
  then have "\<bar>a * 100\<bar> / 2 ^ 53 \<le> (\<bar>?r\<bar> + \<bar>?r\<bar> / 2 ^ 53) * 100 / 2 ^ 53" by (simp add: abs_mult divide_right_mono)
  moreover have "\<bar>(a - ?r) * 100\<bar> \<le> \<bar>?r\<bar> / 2 ^ 53 * 100" using a unfolding abs_mult by simp
  moreover have "\<bar>of_int (round_away b) - ?r * 100\<bar> \<le> \<bar>of_int (round_away b) - b\<bar> + \<bar>b - a * 100\<bar> + \<bar>(a - ?r) * 100\<bar>"
    using abs_triangle_ineq [of "of_int (round_away b) - b" "(b - a * 100) + (a - ?r) * 100"]
      abs_triangle_ineq [of "b - a * 100" "(a - ?r) * 100"] by (simp add: algebra_simps)
  ultimately have "\<bar>of_int (round_away b) - ?r * 100\<bar> \<le> 1/2 + (\<bar>?r\<bar> + \<bar>?r\<bar> / 2 ^ 53) * 100 / 2 ^ 53 + \<bar>?r\<bar> / 2 ^ 53 * 100"
    using b round_away_error [of b] by linarith
  also have "\<dots> = \<bar>?r * 100\<bar> / 2 ^ 52 + \<bar>?r * 100\<bar> / 2 ^ 106 + 1/2" by (simp add: abs_mult field_simps)
  finally show ?thesis unfolding scaled_of_def a_def [symmetric] b_def [symmetric] .
qed

lemma scaled_of_mono: "p \<le> q \<Longrightarrow> scaled_of p \<le> scaled_of q"
  unfolding scaled_of_def by (intro round_away_mono round_rat_mono) simp

text \<open>An integer of at most \<open>2 ^ 50\<close> survives the division by a scale and the multiplication back.\<close>

lemma scaled_roundtrip:
  assumes "\<bar>n\<bar> \<le> 2 ^ 50" "0 \<le> s" "s \<le> 22"
  obtains q w where "f_div (f_of_int n) (math_Pow 10 s) = Fin q" "f_mul (Fin q) (math_Pow 10 s) = Fin w"
    "\<bar>w - of_int n\<bar> < 1/2" "f_to_int64 ovf (math_Round (Fin w)) = n"
proof -
  let ?P = "10 ^ nat s :: rat"
  have P: "1 \<le> ?P" "?P \<le> 2 ^ 100"
  proof -
    have "?P \<le> 10 ^ 22" using assms by (intro power_increasing) simp_all
    then show "?P \<le> 2 ^ 100" by (rule order_trans) simp
  qed simp
  obtain q w where q: "fl (of_int n / ?P) = Fin q" "fl (q * ?P) = Fin w" "\<bar>w - of_int n\<bar> < 1/2"
    using fl_div_mul_roundtrip [OF assms(1) P] by blast
  have b: "\<bar>n\<bar> < 2 ^ 53" "is_int64 n" using assms(1) by (simp_all add: is_int64_abs)
  have "?P \<noteq> 0" using P by simp
  then have "f_div (f_of_int n) (math_Pow 10 s) = Fin q" "f_mul (Fin q) (math_Pow 10 s) = Fin w"
    by (simp_all add: f_of_int_small [OF b(1)] math_Pow10 [OF assms(2,3)] q)
  moreover have "f_to_int64 ovf (math_Round (Fin w)) = n" by (simp add: round_away_near [OF q(3)] b(2))
  ultimately show ?thesis using that q(3) by blast
qed

text \<open>
  What the normalizers need from a conversion of prices: it succeeds on prices that fit and keeps
  their order. A bar or a bid and ask that is in order then stays in order.
\<close>

locale price_scaler =
  fixes conv :: "'p \<Rightarrow> 'd go"
    and le :: "'p \<Rightarrow> 'p \<Rightarrow> bool"
    and fits :: "'p \<Rightarrow> bool"
    and units :: "'d \<Rightarrow> int"
  assumes conv_total: "fits p \<Longrightarrow> is_ret (conv p)"
    and conv_mono: "fits p \<Longrightarrow> fits q \<Longrightarrow> le p q \<Longrightarrow> conv p = Ret a \<Longrightarrow> conv q = Ret b \<Longrightarrow> units a \<le> units b"
begin

lemma conv_ex: "fits p \<Longrightarrow> \<exists>d. conv p = Ret d"
  using conv_total [of p] by (simp add: is_ret_conv)

lemma conv_pair:
  assumes "fits p" "fits q" "le p q"
  obtains a b where "conv p = Ret a" "conv q = Ret b" "units a \<le> units b"
  using conv_ex [OF assms(1)] conv_ex [OF assms(2)] conv_mono [OF assms] by blast

lemma conv_bar:
  assumes "fits o'" "fits h" "fits l" "fits c" "le l o'" "le o' h" "le l c" "le c h"
  obtains a b d e where "conv o' = Ret a" "conv h = Ret b" "conv l = Ret d" "conv c = Ret e"
    "units d \<le> units a" "units a \<le> units b" "units d \<le> units e" "units e \<le> units b"
proof -
  obtain a b d e where "conv o' = Ret a" "conv h = Ret b" "conv l = Ret d" "conv c = Ret e"
    using conv_ex assms(1-4) by meson
  then show thesis using conv_mono assms by (intro that) blast+
qed

end

definition price_fits :: "f64 \<Rightarrow> bool" where
  "price_fits p \<longleftrightarrow> (case p of Fin q \<Rightarrow> \<bar>q\<bar> \<le> 2 ^ 55 | _ \<Rightarrow> False)"

lemma price_fitsE: "price_fits p \<Longrightarrow> (\<And>q. p = Fin q \<Longrightarrow> \<bar>q\<bar> \<le> 2 ^ 55 \<Longrightarrow> P) \<Longrightarrow> P"
  by (cases p) (auto simp: price_fits_def)

interpretation cents: price_scaler "\<lambda>p. ToScaledDecimalWithCurrency ovf p c" f_le price_fits Scaled
  for ovf c
proof
  fix p q a b
  show "price_fits p \<Longrightarrow> is_ret (ToScaledDecimalWithCurrency ovf p c)"
    by (elim price_fitsE) (simp add: ToScaledDecimalWithCurrency_Fin)
  show "price_fits p \<Longrightarrow> price_fits q \<Longrightarrow> f_le p q \<Longrightarrow> ToScaledDecimalWithCurrency ovf p c = Ret a \<Longrightarrow>
      ToScaledDecimalWithCurrency ovf q c = Ret b \<Longrightarrow> Scaled a \<le> Scaled b"
    by (elim price_fitsE) (auto simp: ToScaledDecimalWithCurrency_Fin intro: scaled_of_mono)
qed

text \<open>Scaling down by a power of ten: quotient and remainder as the code computes them.\<close>

lemma RoundHalfUp_down:
  assumes "toScale < fromScale"
  shows "RoundHalfUp v fromScale toScale =
    (let d = 10 ^ nat (fromScale - toScale) in if d div 2 \<le> v mod d then v div d + 1 else v div d)"
  using assms by (simp add: RoundHalfUp_def mul10_loop_eq Let_def)

lemma RoundHalfUp_up:
  assumes "fromScale \<le> toScale"
  shows "RoundHalfUp v fromScale toScale = v * 10 ^ nat (toScale - fromScale)"
  using assms by (simp add: RoundHalfUp_def mul10_loop_eq)

lemma MultiplyAndRound_valid:
  assumes "0 \<le> Scale a" "Scale a \<le> 8" "0 \<le> Scale b" "Scale b \<le> 8" "0 \<le> t" "t \<le> 8"
    and p: "is_int64 (Scaled a * Scaled b)"
  shows "MultiplyAndRound ovf a b t =
    (let s = Scale a + Scale b; p = Scaled a * Scaled b; d = 10 ^ nat (s - t)
     in Ret (mkSD (if s < t then wrap64 (p * 10 ^ nat (t - s))
                   else if t < s then
                     (if d sdiv 2 \<le> p smod d then wrap64 (p sdiv d + 1) else p sdiv d)
                   else p) t))"
  using assms
  by (simp add: MultiplyAndRound_def ValidateScaledDecimal_def f_to_int64_pow10 Let_def)

section \<open>Properties\<close>

text \<open>
  C10: Turning a scaled decimal of at most 2^50 units and scale 0 to 22 into a float64 and
  back gives the same scaled decimal, rounding errors of both float operations included.
\<close>

theorem ToScaled_FromScaled:
  assumes "\<bar>Scaled sd\<bar> \<le> 2 ^ 50" "0 \<le> Scale sd" "Scale sd \<le> 22"
  shows "ToScaledDecimal ovf (FromScaledDecimal sd) (Scale sd) = Ret sd"
  by (rule scaled_roundtrip [OF assms, of ovf]) (simp add: ToScaledDecimal_def FromScaledDecimal_def Let_def)

theorem ToScaled_FromScaled_witness:
  "ToScaledDecimal (\<lambda>_. 0) (FromScaledDecimal (mkSD 12345 2)) 2 = Ret (mkSD 12345 2)"
  using ToScaled_FromScaled [of "mkSD 12345 2" "\<lambda>_. 0"] by simp

text \<open>
  ToScaledDecimalWithCurrency succeeds on every price up to 2^55 and keeps the order of
  prices: a lower price never gets a higher scaled value, at the same scale.
\<close>

theorem ToScaledDecimal_mono:
  assumes "p \<le> q" "\<bar>p\<bar> \<le> 2 ^ 55" "\<bar>q\<bar> \<le> 2 ^ 55"
  shows "\<exists>a b. ToScaledDecimalWithCurrency ovf (Fin p) c = Ret a \<and>
    ToScaledDecimalWithCurrency ovf (Fin q) c = Ret b \<and> Scaled a \<le> Scaled b \<and> Scale a = Scale b"
proof -
  have "price_fits (Fin p)" "price_fits (Fin q)" "f_le (Fin p) (Fin q)"
    using assms by (simp_all add: price_fits_def)
  then show ?thesis
    by (rule cents.conv_pair [of _ _ ovf c]) (use assms in \<open>auto simp: ToScaledDecimalWithCurrency_Fin\<close>)
qed

theorem ToScaledDecimal_mono_witness:
  "\<exists>a b. ToScaledDecimalWithCurrency (\<lambda>_. 0) (Fin (1/4)) ''USD'' = Ret a \<and>
    ToScaledDecimalWithCurrency (\<lambda>_. 0) (Fin 3) ''USD'' = Ret b \<and> Scaled a \<le> Scaled b \<and> Scale a = Scale b"
  by (rule ToScaledDecimal_mono) simp_all

text \<open>
  Scaling a big.Int down with RoundHalfUp is the floor of the exact quotient plus one
  half, for values of either sign.
\<close>

theorem RoundHalfUp_spec:
  assumes "toScale < fromScale"
  shows "RoundHalfUp v fromScale toScale = \<lfloor>of_int v / 10 ^ nat (fromScale - toScale) + (1/2 :: rat)\<rfloor>"
proof -
  define d :: int where "d = 10 ^ nat (fromScale - toScale)"
  have d: "2 * (d div 2) = d" "0 < d" using half_pow10 [of "nat (fromScale - toScale)"] assms
    unfolding d_def by simp_all
  have v: "v = d * (v div d) + v mod d" "0 \<le> v mod d" "v mod d < d" using d by simp_all
  have rd: "(10::rat) ^ nat (fromScale - toScale) = of_int d" unfolding d_def by simp
  have q: "of_int v / of_int d = (of_int (v div d) + of_int (v mod d) / of_int d :: rat)"
  proof -
    have "(of_int v :: rat) = of_int d * of_int (v div d) + of_int (v mod d)"
      by (metis v(1) of_int_add of_int_mult)
    then show ?thesis using d by (simp add: field_simps)
  qed
  have r: "(of_int (v mod d) / of_int d :: rat) < 1" "0 \<le> (of_int (v mod d) / of_int d :: rat)"
    using v d by simp_all
  have h: "1/2 \<le> (of_int (v mod d) / of_int d :: rat) \<longleftrightarrow> d div 2 \<le> v mod d"
  proof -
    have "1/2 \<le> (of_int (v mod d) / of_int d :: rat) \<longleftrightarrow> (of_int d :: rat) \<le> of_int (2 * (v mod d))"
      using d by (simp add: field_simps)
    also have "\<dots> \<longleftrightarrow> d div 2 \<le> v mod d" unfolding of_int_le_iff using d by linarith
    finally show ?thesis .
  qed
  show ?thesis
  proof (cases "d div 2 \<le> v mod d")
    case True
    have "\<lfloor>of_int v / of_int d + (1/2 :: rat)\<rfloor> = v div d + 1"
      unfolding q using r True [folded h] by (intro floor_unique) (unfold of_int_add of_int_1, linarith+)
    then show ?thesis using True unfolding rd RoundHalfUp_down [OF assms] d_def [symmetric] Let_def by simp
  next
    case False
    have "\<lfloor>of_int v / of_int d + (1/2 :: rat)\<rfloor> = v div d"
      unfolding q using r False [folded h] by (intro floor_unique) linarith+
    then show ?thesis using False unfolding rd RoundHalfUp_down [OF assms] d_def [symmetric] Let_def by simp
  qed
qed

theorem RoundHalfUp_spec_witness: "RoundHalfUp (-25) 2 1 = -2"
  using RoundHalfUp_spec [of 1 2 "-25"] by simp

text \<open>
  C14: For valid operands with a non-negative product that fits an int64 and a target scale
  from 0 to 8, MultiplyAndRound is the exact product rounded half up to the target scale, the
  value RoundHalfUp gives, except when scaling up leaves the range of int64: then it is that
  value wrapped around, without an error.
\<close>

theorem MultiplyAndRound_half_up:
  assumes "0 \<le> Scale a" "Scale a \<le> 8" "0 \<le> Scale b" "Scale b \<le> 8" "0 \<le> t" "t \<le> 8"
    and "0 \<le> Scaled a * Scaled b" "is_int64 (Scaled a * Scaled b)"
  shows "MultiplyAndRound ovf a b t =
    (let exact = RoundHalfUp (Scaled a * Scaled b) (Scale a + Scale b) t
     in Ret (mkSD (if t \<le> Scale a + Scale b \<or> is_int64 exact then exact else wrap64 exact) t))"
proof -
  let ?p = "Scaled a * Scaled b" and ?s = "Scale a + Scale b"
  define d :: int where "d = 10 ^ nat (?s - t)"
  consider "?s < t" | "?s = t" | "t < ?s" by linarith
  then show ?thesis
  proof cases
    case 1
    then show ?thesis using assms RoundHalfUp_up [of ?s t ?p] by (simp add: MultiplyAndRound_valid Let_def)
  next
    case 2
    then show ?thesis using assms RoundHalfUp_up [of ?s t ?p] by (simp add: MultiplyAndRound_valid Let_def)
  next
    case 3
    have d: "10 \<le> d" using 3 power_increasing [of 1 "nat (?s - t)" "10::int"] by (simp add: d_def)
    have "?p div d * 10 \<le> ?p div d * d" using assms(7) d by (intro mult_left_mono pos_imp_zdiv_nonneg_iff [THEN iffD2]) simp_all
    then have "?p div d * 10 \<le> ?p" using minus_mod_eq_div_mult [of ?p d] pos_mod_sign [of d ?p] d by linarith
    then have "is_int64 (?p div d + 1)" using assms(7,8) d by (simp add: is_int64_def pos_imp_zdiv_nonneg_iff) 
    then show ?thesis using 3 assms RoundHalfUp_down [OF 3, of ?p] d
      by (simp add: MultiplyAndRound_valid Let_def d_def [symmetric] sdiv_nonneg smod_nonneg)
  qed
qed

theorem MultiplyAndRound_half_up_witness:
  "MultiplyAndRound (\<lambda>_. 0) (mkSD 15 1) (mkSD 15 1) 1 = Ret (mkSD 23 1) \<and>
   MultiplyAndRound (\<lambda>_. 0) (mkSD (10 ^ 12) 0) (mkSD 1 0) 8 = Ret (mkSD 7766279631452241920 8)"
  using MultiplyAndRound_half_up [of "mkSD 15 1" "mkSD 15 1" 1 "\<lambda>_. 0"]
    MultiplyAndRound_half_up [of "mkSD (10 ^ 12) 0" "mkSD 1 0" 8 "\<lambda>_. 0"]
  by (simp add: RoundHalfUp_def mul10_loop_eq is_int64_def wrap64_def)
text \<open>
  For a negative product MultiplyAndRound truncates towards zero when it scales down: the
  half-up correction is never applied, unlike RoundHalfUp.
\<close>

theorem MultiplyAndRound_negative_truncates:
  assumes "0 \<le> Scale a" "Scale a \<le> 8" "0 \<le> Scale b" "Scale b \<le> 8" "0 \<le> t" "t < Scale a + Scale b" "t \<le> 8"
    and "Scaled a * Scaled b < 0" "is_int64 (Scaled a * Scaled b)"
  shows "MultiplyAndRound ovf a b t =
    Ret (mkSD (- (\<bar>Scaled a * Scaled b\<bar> div 10 ^ nat (Scale a + Scale b - t))) t)"
proof -
  let ?p = "Scaled a * Scaled b"
  define d :: int where "d = 10 ^ nat (Scale a + Scale b - t)"
  have d: "2 * (d div 2) = d" "0 < d" using half_pow10 [of "nat (Scale a + Scale b - t)"] assms(6)
    unfolding d_def by simp_all
  have q: "?p sdiv d = - (\<bar>?p\<bar> div d)" using assms(8) d by (simp add: signed_divide_int_def)
  have "?p smod d = - (\<bar>?p\<bar> mod d)" using assms(8) d by (simp add: signed_modulo_int_def)
  then have r: "?p smod d \<le> 0" using pos_mod_sign [OF d(2), of "\<bar>?p\<bar>"] by linarith
  have "0 < d sdiv 2" using d by (simp add: sdiv_nonneg)
  then have "\<not> d sdiv 2 \<le> ?p smod d" using r by linarith
  then show ?thesis using assms q by (simp add: MultiplyAndRound_valid Let_def d_def [symmetric])
qed

theorem MultiplyAndRound_negative_truncates_witness:
  "MultiplyAndRound (\<lambda>_. 0) (mkSD (-19) 1) (mkSD 1 0) 0 = Ret (mkSD (-1) 0) \<and> RoundHalfUp (-19) 1 0 = -2"
  using MultiplyAndRound_negative_truncates [of "mkSD (-19) 1" "mkSD 1 0" 0 "\<lambda>_. 0"]
  by (simp add: RoundHalfUp_def mul10_loop_eq is_int64_def)

end
