(* ===== verification/SecurityId.thy ===== *)
theory SecurityId
  imports Prelude
begin

text \<open>
  Securities: \<^verbatim>\<open>internal/norm/security.go\<close>, with the \<open>Security\<close> type of \<^verbatim>\<open>internal/norm/types.go\<close>.
\<close>

section \<open>Model\<close>

record Security =
  Symbol :: string
  MIC :: string

definition mic_table :: "(string \<times> string) list" where
  "mic_table =
    [(''NASDAQ'', ''XNAS''), (''NMS'', ''XNAS''), (''NasdaqGS'', ''XNAS''), (''NYSE'', ''XNYS''),
     (''NYQ'', ''XNYS''), (''AMEX'', ''XASE''), (''OTC'', ''OTC''), (''OTCBB'', ''OTC''),
     (''PINK'', ''OTC''), (''BATS'', ''BATS''), (''EDGX'', ''EDGX''), (''EDGA'', ''EDGA''),
     (''XETR'', ''XETR''), (''XTKS'', ''XTKS''), (''LSE'', ''XLON''), (''TSE'', ''XTKS''),
     (''ASX'', ''XASX''), (''HKEX'', ''XHKG''), (''SGX'', ''XSES''), (''BSE'', ''XBOM''),
     (''NSE'', ''XNSE'')]"

definition ExchangeToMIC :: "string \<rightharpoonup> string" where
  "ExchangeToMIC = map_of mic_table"

definition InferMIC :: "string \<Rightarrow> string \<Rightarrow> string" where
  "InferMIC exchangeName fullExchangeName =
     (case ExchangeToMIC fullExchangeName of Some mic \<Rightarrow> mic | None \<Rightarrow>
     (case ExchangeToMIC exchangeName of Some mic \<Rightarrow> mic | None \<Rightarrow>
     (case ExchangeToMIC (ToUpper exchangeName) of Some mic \<Rightarrow> mic | None \<Rightarrow>
     (case ExchangeToMIC (ToUpper fullExchangeName) of Some mic \<Rightarrow> mic | None \<Rightarrow> []))))"

definition cleanSymbol :: "string \<Rightarrow> string \<Rightarrow> string" where
  "cleanSymbol symbol mic =
     (if mic = ''XTKS'' \<and> HasSuffix symbol ''.T'' then TrimSuffix symbol ''.T'' else symbol)"

definition CreateSecurity :: "string \<Rightarrow> string \<Rightarrow> string \<Rightarrow> Security" where
  "CreateSecurity symbol exchangeName fullExchangeName =
     (let mic = InferMIC exchangeName fullExchangeName
      in \<lparr>Symbol = cleanSymbol symbol mic, MIC = mic\<rparr>)"

definition ValidateSecurity :: "Security \<Rightarrow> unit go" where
  "ValidateSecurity security =
     (if Symbol security = [] then Err (Errorf ''missing symbol'' []) else Ret ())"

section \<open>Lemmas\<close>

lemma InferMIC_cases: "InferMIC e f = [] \<or> InferMIC e f \<in> ran ExchangeToMIC"
  unfolding InferMIC_def by (auto split: option.splits intro: ranI)

lemma InferMIC_range: "InferMIC e f \<in> insert [] (snd ` set mic_table)"
  using InferMIC_cases [of e f] by (auto simp: ExchangeToMIC_def ran_def dest!: map_of_SomeD intro: rev_image_eqI)

text \<open>The shape of a market identifier code, ISO 10383: four capital letters or digits.\<close>

definition mic_shaped :: "string \<Rightarrow> bool" where
  "mic_shaped m \<longleftrightarrow> length m = 4 \<and> list_all (\<lambda>c. is_upper c \<or> is_digit c) m"

lemma mic_table_shaped: "m \<in> snd ` set mic_table \<Longrightarrow> m = ''OTC'' \<or> mic_shaped m"
  by (auto simp: mic_table_def mic_shaped_def is_upper_def is_digit_def code_of_def)

lemma InferMIC_upper_key: "ExchangeToMIC (ToUpper e) = Some m \<Longrightarrow> ExchangeToMIC e = None \<Longrightarrow>
    ExchangeToMIC f = None \<Longrightarrow> InferMIC e f = m"
  by (simp add: InferMIC_def)

section \<open>Properties\<close>

text \<open>
  InferMIC only ever returns the empty string, OTC, or a code with the ISO 10383 shape of
  four capitals or digits.
\<close>

theorem InferMIC_shape:
  "InferMIC e f = [] \<or> InferMIC e f = ''OTC'' \<or> mic_shaped (InferMIC e f)"
  using InferMIC_range [of e f] mic_table_shaped by blast

text \<open>
  CreateSecurity gives a security that ValidateSecurity accepts for every symbol but the
  empty one and the bare .T; it keeps the symbol outside Tokyo and drops exactly one .T suffix
  there.
\<close>

theorem CreateSecurity_symbol:
  assumes "symbol \<noteq> []" "symbol \<noteq> ''.T''"
  shows "ValidateSecurity (CreateSecurity symbol e f) = Ret () \<and>
    (MIC (CreateSecurity symbol e f) \<noteq> ''XTKS'' \<longrightarrow> Symbol (CreateSecurity symbol e f) = symbol) \<and>
    (MIC (CreateSecurity (symbol @ ''.T'') e f) = ''XTKS'' \<longrightarrow>
      Symbol (CreateSecurity (symbol @ ''.T'') e f) = symbol)"
proof -
  have ne: "cleanSymbol symbol m \<noteq> []" for m
    using assms by (auto simp: cleanSymbol_def TrimSuffix_def HasSuffix_def suffix_def)
  have cut: "cleanSymbol (symbol @ ''.T'') ''XTKS'' = symbol"
    by (simp add: cleanSymbol_def TrimSuffix_def HasSuffix_def suffix_def)
  have keep: "m \<noteq> ''XTKS'' \<Longrightarrow> cleanSymbol symbol m = symbol" for m
    by (simp add: cleanSymbol_def)
  show ?thesis
    by (simp add: CreateSecurity_def ValidateSecurity_def Let_def ne cut keep)
qed

theorem CreateSecurity_symbol_witness:
  "Symbol (CreateSecurity ''7203.T'' ''TSE'' []) = ''7203''"
  using CreateSecurity_symbol [of "''7203''" "''TSE''" "[]"]
  by (simp add: CreateSecurity_def InferMIC_def ExchangeToMIC_def mic_table_def Let_def)

end
