(* ===== verification/YahooBars.thy ===== *)
theory YahooBars
  imports GoTime
begin

text \<open>
  The chart response of the data source and the bars read from it: \<^verbatim>\<open>internal/yahoo/bars.go\<close>.
  A pointer field that may be nil is an \<open>option\<close>; an index into a slice and a dereference go through
  \<open>go_idx\<close> and \<open>go_deref\<close>, which panic where Go does. The JSON decoder is the parameter \<open>decode\<close>.
\<close>

section \<open>Model\<close>

record TradingPeriod =
  tp_Timezone :: string
  tp_Start :: int64
  tp_End :: int64
  tp_GmtOffset :: int64

record CurrentTradingPeriod =
  ctp_Pre :: "TradingPeriod option"
  ctp_Regular :: "TradingPeriod option"
  ctp_Post :: "TradingPeriod option"

record ChartMeta =
  cm_Currency :: string
  cm_Symbol :: string
  cm_ExchangeName :: string
  cm_FullExchangeName :: string
  cm_InstrumentType :: string
  cm_FirstTradeDate :: int64
  cm_RegularMarketTime :: int64
  cm_HasPrePostMarketData :: bool
  cm_GmtOffset :: int64
  cm_Timezone :: string
  cm_ExchangeTimezoneName :: string
  cm_RegularMarketPrice :: "f64 option"
  cm_FiftyTwoWeekHigh :: "f64 option"
  cm_FiftyTwoWeekLow :: "f64 option"
  cm_RegularMarketDayHigh :: "f64 option"
  cm_RegularMarketDayLow :: "f64 option"
  cm_RegularMarketVolume :: "int64 option"
  cm_LongName :: string
  cm_ShortName :: string
  cm_ChartPreviousClose :: "f64 option"
  cm_PreviousClose :: "f64 option"
  cm_Scale :: int
  cm_PriceHint :: int
  cm_CurrentTradingPeriod :: "CurrentTradingPeriod option"
  cm_DataGranularity :: string
  cm_Range :: string
  cm_ValidRanges :: "string list"

record QuoteIndicator =
  qi_Open :: "f64 option list"
  qi_High :: "f64 option list"
  qi_Low :: "f64 option list"
  qi_Close :: "f64 option list"
  qi_Volume :: "int64 option list"

record AdjCloseIndicator =
  ac_AdjClose :: "f64 option list"

record ChartIndicators =
  ci_Quote :: "QuoteIndicator list"
  ci_AdjClose :: "AdjCloseIndicator list"

record ChartResult =
  cr_Meta :: ChartMeta
  cr_Timestamp :: "int64 list"
  cr_Indicators :: ChartIndicators

record Chart =
  ch_Result :: "ChartResult list"
  ch_Error :: "string option"

record BarsResponse =
  br_Chart :: Chart

record Bar =
  b_Timestamp :: int64
  b_Open :: f64
  b_High :: f64
  b_Low :: f64
  b_Close :: f64
  b_Volume :: int64
  b_AdjClose :: "f64 option"

definition validatePrice :: "f64 \<Rightarrow> unit go" where
  "validatePrice price =
     (if f_isnan price then Err (Errorf ''NaN price'' [])
      else if f_isinf price then Err (Errorf ''infinite price'' [])
      else if f_lt price (Fin 0) then Err (Errorf ''negative price: %.4f'' [AFloat price])
      else Ret ())"

definition validateBarData ::
  "f64 option \<Rightarrow> f64 option \<Rightarrow> f64 option \<Rightarrow> f64 option \<Rightarrow> int64 option \<Rightarrow> unit go" where
  "validateBarData open_p high_p low_p close_p volume_p =
     (case open_p of None \<Rightarrow> Err (Errorf ''missing open price'' []) | Some openPrice \<Rightarrow>
     (case high_p of None \<Rightarrow> Err (Errorf ''missing high price'' []) | Some high \<Rightarrow>
     (case low_p of None \<Rightarrow> Err (Errorf ''missing low price'' []) | Some low \<Rightarrow>
     (case close_p of None \<Rightarrow> Err (Errorf ''missing close price'' []) | Some closePrice \<Rightarrow>
     (case volume_p of None \<Rightarrow> Err (Errorf ''missing volume'' []) | Some volume \<Rightarrow>
       go_bind (go_wrap ''invalid open price: %w'' [] (validatePrice openPrice)) (\<lambda>_.
       go_bind (go_wrap ''invalid high price: %w'' [] (validatePrice high)) (\<lambda>_.
       go_bind (go_wrap ''invalid low price: %w'' [] (validatePrice low)) (\<lambda>_.
       go_bind (go_wrap ''invalid close price: %w'' [] (validatePrice closePrice)) (\<lambda>_.
       go_bind (go_guard (volume < 0) (Errorf ''negative volume: %d'' [AInt volume])) (\<lambda>_.
       go_bind (go_guard (f_lt high low)
         (Errorf ''high < low: high=%.4f, low=%.4f'' [AFloat high, AFloat low])) (\<lambda>_.
       go_bind (go_guard (f_lt high openPrice)
         (Errorf ''high < open: high=%.4f, open=%.4f'' [AFloat high, AFloat openPrice])) (\<lambda>_.
       go_bind (go_guard (f_lt high closePrice)
         (Errorf ''high < close: high=%.4f, close=%.4f'' [AFloat high, AFloat closePrice])) (\<lambda>_.
       go_bind (go_guard (f_lt openPrice low)
         (Errorf ''low > open: low=%.4f, open=%.4f'' [AFloat low, AFloat openPrice])) (\<lambda>_.
       go_guard (f_lt closePrice low)
         (Errorf ''low > close: low=%.4f, close=%.4f'' [AFloat low, AFloat closePrice])))))))))))))))"

text \<open>
  The test that none of the five values of a row is nil, evaluated left to right with the early
  exit of \<^verbatim>\<open>&&\<close> (and of the \<^verbatim>\<open>||\<close> of its negation): \<open>None\<close> when one of them is nil.
\<close>

definition row_at :: "QuoteIndicator \<Rightarrow> nat \<Rightarrow> (f64 \<times> f64 \<times> f64 \<times> f64 \<times> int64) option go" where
  "row_at quote i =
     go_bind (go_idx (qi_Open quote) i) (\<lambda>po. case po of None \<Rightarrow> Ret None | Some o' \<Rightarrow>
     go_bind (go_idx (qi_High quote) i) (\<lambda>ph. case ph of None \<Rightarrow> Ret None | Some h \<Rightarrow>
     go_bind (go_idx (qi_Low quote) i) (\<lambda>pl. case pl of None \<Rightarrow> Ret None | Some l \<Rightarrow>
     go_bind (go_idx (qi_Close quote) i) (\<lambda>pc. case pc of None \<Rightarrow> Ret None | Some c \<Rightarrow>
     go_bind (go_idx (qi_Volume quote) i) (\<lambda>pv. case pv of None \<Rightarrow> Ret None | Some v \<Rightarrow>
       Ret (Some (o', h, l, c, v)))))))"

text \<open>The first loop of \<^verbatim>\<open>ChartResult.Validate\<close>: it returns the number of complete rows.\<close>

fun valid_bars_loop :: "QuoteIndicator \<Rightarrow> nat list \<Rightarrow> nat \<Rightarrow> nat go" where
  "valid_bars_loop quote [] validBars = Ret validBars"
| "valid_bars_loop quote (i # is) validBars =
     go_bind (row_at quote i) (\<lambda>r. case r of
       None \<Rightarrow> valid_bars_loop quote is validBars
     | Some (o', h, l, c, v) \<Rightarrow>
         go_bind (go_wrap ''bar[%d]: %w'' [AInt (int i)]
                    (validateBarData (Some o') (Some h) (Some l) (Some c) (Some v))) (\<lambda>_.
         valid_bars_loop quote is (Suc validBars)))"

definition ChartResult_Validate :: "ChartResult \<Rightarrow> unit go" where
  "ChartResult_Validate r =
     go_bind (go_guard (cm_Symbol (cr_Meta r) = []) (Errorf ''missing symbol'' [])) (\<lambda>_.
     go_bind (go_guard (cm_Currency (cr_Meta r) = []) (Errorf ''missing currency'' [])) (\<lambda>_.
     go_bind (go_guard (cr_Timestamp r = []) (Errorf ''no timestamps found'' [])) (\<lambda>_.
     go_bind (go_guard (ci_Quote (cr_Indicators r) = []) (Errorf ''no quote data found'' [])) (\<lambda>_.
     go_bind (go_idx (ci_Quote (cr_Indicators r)) 0) (\<lambda>quote.
     let expectedLen = length (cr_Timestamp r) in
     go_bind (go_guard
       (length (qi_Open quote) \<noteq> expectedLen \<or> length (qi_High quote) \<noteq> expectedLen \<or>
        length (qi_Low quote) \<noteq> expectedLen \<or> length (qi_Close quote) \<noteq> expectedLen \<or>
        length (qi_Volume quote) \<noteq> expectedLen)
       (Errorf ''data length mismatch: timestamps=%d, quote data lengths vary'' [AInt (int expectedLen)])) (\<lambda>_.
     go_bind (valid_bars_loop quote [0..<expectedLen] 0) (\<lambda>validBars.
     go_bind (go_guard (validBars = 0)
       (Errorf ''no valid bars found - all bars have missing OHLCV data'' [])) (\<lambda>_.
     if 0 < length (ci_AdjClose (cr_Indicators r)) then
       go_bind (go_idx (ci_AdjClose (cr_Indicators r)) 0) (\<lambda>adjClose.
       go_bind (go_guard (length (ac_AdjClose adjClose) \<noteq> expectedLen)
         (Errorf ''adjusted close length mismatch: expected=%d, got=%d''
            [AInt (int expectedLen), AInt (int (length (ac_AdjClose adjClose)))])) (\<lambda>_.
       go_iter (\<lambda>i p. case p of None \<Rightarrow> Ret ()
         | Some price \<Rightarrow> go_wrap ''adjusted close[%d]: %w'' [AInt (int i)] (validatePrice price))
         0 (ac_AdjClose adjClose)))
     else Ret ()))))))))"

definition BarsResponse_Validate :: "BarsResponse \<Rightarrow> unit go" where
  "BarsResponse_Validate r =
     (case ch_Error (br_Chart r) of
        Some e \<Rightarrow> Err (Errorf ''yahoo finance error: %s'' [AStr e])
      | None \<Rightarrow>
          if length (ch_Result (br_Chart r)) = 0 then Err (Errorf ''no chart results found'' [])
          else go_iter (\<lambda>i result. go_wrap ''result[%d]: %w'' [AInt (int i)] (ChartResult_Validate result))
                 0 (ch_Result (br_Chart r)))"

definition DecodeBarsResponse :: "('j \<Rightarrow> BarsResponse go) \<Rightarrow> 'j \<Rightarrow> BarsResponse go" where
  "DecodeBarsResponse decode data =
     go_bind (go_wrap ''failed to decode bars response: %w'' [] (decode data)) (\<lambda>response.
     go_bind (go_wrap ''invalid bars response: %w'' [] (BarsResponse_Validate response)) (\<lambda>_.
     Ret response))"

definition DecodeBarsResponseFromReader :: "('j \<Rightarrow> BarsResponse go) \<Rightarrow> 'j \<Rightarrow> BarsResponse go" where
  "DecodeBarsResponseFromReader decode reader =
     go_bind (go_wrap ''failed to decode bars response: %w'' [] (decode reader)) (\<lambda>response.
     go_bind (go_wrap ''invalid bars response: %w'' [] (BarsResponse_Validate response)) (\<lambda>_.
     Ret response))"

text \<open>The loop of \<^verbatim>\<open>GetBars\<close>, over the timestamps with their index.\<close>

fun get_bars_loop :: "ChartResult \<Rightarrow> QuoteIndicator \<Rightarrow> nat \<Rightarrow> int64 list \<Rightarrow> Bar list go" where
  "get_bars_loop result quote i [] = Ret []"
| "get_bars_loop result quote i (timestamp # ts) =
     go_bind (row_at quote i) (\<lambda>r. case r of
       None \<Rightarrow> get_bars_loop result quote (Suc i) ts
     | Some (o', h, l, c, v) \<Rightarrow>
         go_bind (case ci_AdjClose (cr_Indicators result) of
                    [] \<Rightarrow> Ret None
                  | a # _ \<Rightarrow> go_idx (ac_AdjClose a) i) (\<lambda>adj.
         go_bind (get_bars_loop result quote (Suc i) ts) (\<lambda>bars.
         Ret (\<lparr>b_Timestamp = timestamp, b_Open = o', b_High = h, b_Low = l, b_Close = c, b_Volume = v,
               b_AdjClose = adj\<rparr> # bars))))"

definition GetBars :: "BarsResponse \<Rightarrow> Bar list go" where
  "GetBars r =
     (case ch_Result (br_Chart r) of
        [] \<Rightarrow> Err (Errorf ''no chart results'' [])
      | result # _ \<Rightarrow>
          go_bind (go_idx (ci_Quote (cr_Indicators result)) 0) (\<lambda>quote.
          get_bars_loop result quote 0 (cr_Timestamp result)))"

definition GetMetadata :: "BarsResponse \<Rightarrow> ChartMeta option" where
  "GetMetadata r = (case ch_Result (br_Chart r) of [] \<Rightarrow> None | result # _ \<Rightarrow> Some (cr_Meta result))"

definition IsAdjusted :: "BarsResponse \<Rightarrow> bool" where
  "IsAdjusted r = (case ch_Result (br_Chart r) of [] \<Rightarrow> False
     | result # _ \<Rightarrow> 0 < length (ci_AdjClose (cr_Indicators result)))"

section \<open>Lemmas\<close>

text \<open>A usable price is finite and not negative; a sound bar has its five values in order.\<close>

definition price_ok :: "f64 \<Rightarrow> bool" where
  "price_ok p \<longleftrightarrow> (case p of Fin q \<Rightarrow> 0 \<le> q | _ \<Rightarrow> False)"

definition ohlcv_ok :: "f64 \<Rightarrow> f64 \<Rightarrow> f64 \<Rightarrow> f64 \<Rightarrow> int64 \<Rightarrow> bool" where
  "ohlcv_ok o' h l c v \<longleftrightarrow> price_ok o' \<and> price_ok h \<and> price_ok l \<and> price_ok c \<and>
     f_le l o' \<and> f_le o' h \<and> f_le l c \<and> f_le c h \<and> 0 \<le> v"

definition bar_ok :: "Bar \<Rightarrow> bool" where
  "bar_ok b \<longleftrightarrow> ohlcv_ok (b_Open b) (b_High b) (b_Low b) (b_Close b) (b_Volume b) \<and>
     pred_option price_ok (b_AdjClose b)"

lemma validatePrice_iff: "validatePrice p = Ret u \<longleftrightarrow> price_ok p"
  by (cases p) (simp_all add: validatePrice_def price_ok_def)

lemma validatePrice_no_Panic [simp]: "validatePrice p \<noteq> Panic s"
  by (simp add: validatePrice_def)

lemma f_lt_ok: "price_ok p \<Longrightarrow> price_ok q \<Longrightarrow> f_lt p q \<longleftrightarrow> \<not> f_le q p"
  by (cases p; cases q) (auto simp: price_ok_def)

lemma f_le_trans_ok: "price_ok p \<Longrightarrow> price_ok q \<Longrightarrow> price_ok r \<Longrightarrow> f_le p q \<Longrightarrow> f_le q r \<Longrightarrow> f_le p r"
  by (cases p; cases q; cases r) (auto simp: price_ok_def)

lemma validateBarData_iff:
  "validateBarData (Some o') (Some h) (Some l) (Some c) (Some v) = Ret u \<longleftrightarrow> ohlcv_ok o' h l c v"
  by (auto simp: validateBarData_def ohlcv_ok_def go_bind_eq_Ret validatePrice_iff f_lt_ok
      intro: f_le_trans_ok)

lemma validateBarData_no_Panic [simp]: "validateBarData a b c d e \<noteq> Panic s"
  by (auto simp: validateBarData_def go_bind_eq_Panic split: option.splits)

text \<open>The complete row \<open>i\<close>, for slices that are long enough.\<close>

definition row :: "QuoteIndicator \<Rightarrow> nat \<Rightarrow> (f64 \<times> f64 \<times> f64 \<times> f64 \<times> int64) option" where
  "row q i = (case (qi_Open q ! i, qi_High q ! i, qi_Low q ! i, qi_Close q ! i, qi_Volume q ! i) of
     (Some o', Some h, Some l, Some c, Some v) \<Rightarrow> Some (o', h, l, c, v) | _ \<Rightarrow> None)"

definition rows_fit :: "QuoteIndicator \<Rightarrow> nat \<Rightarrow> bool" where
  "rows_fit q n \<longleftrightarrow> length (qi_Open q) = n \<and> length (qi_High q) = n \<and> length (qi_Low q) = n \<and>
     length (qi_Close q) = n \<and> length (qi_Volume q) = n"

lemma row_at_fit: "rows_fit q n \<Longrightarrow> i < n \<Longrightarrow> row_at q i = Ret (row q i)"
  by (simp add: row_at_def row_def rows_fit_def split: option.split)

lemma valid_bars_loop_eq:
  assumes "rows_fit q n" "\<forall>i\<in>set is. i < n"
  shows "valid_bars_loop q is k = Ret m \<longleftrightarrow>
    (\<forall>i\<in>set is. \<forall>o' h l c v. row q i = Some (o', h, l, c, v) \<longrightarrow> ohlcv_ok o' h l c v) \<and>
    m = k + length (filter (\<lambda>i. row q i \<noteq> None) is)"
  using assms(2)
proof (induction "is" arbitrary: k m)
  case (Cons i "is")
  then have IH: "\<And>k m. valid_bars_loop q is k = Ret m \<longleftrightarrow>
    (\<forall>i\<in>set is. \<forall>o' h l c v. row q i = Some (o', h, l, c, v) \<longrightarrow> ohlcv_ok o' h l c v) \<and>
    m = k + length (filter (\<lambda>i. row q i \<noteq> None) is)" by simp
  show ?case using row_at_fit [OF assms(1), of i] Cons.prems
    by (cases "row q i") (auto simp del: not_None_eq simp: go_bind_eq_Ret validateBarData_iff IH)
qed auto

lemma valid_bars_loop_no_Panic:
  assumes "rows_fit q n" "\<forall>i\<in>set is. i < n"
  shows "valid_bars_loop q is k \<noteq> Panic s"
  using assms(2)
proof (induction "is" arbitrary: k)
  case (Cons i "is")
  then show ?case using row_at_fit [OF assms(1), of i]
    by (auto simp: go_bind_eq_Panic split: option.splits)
qed simp

text \<open>What a validated chart result satisfies.\<close>

definition result_ok :: "ChartResult \<Rightarrow> bool" where
  "result_ok r \<longleftrightarrow> (\<exists>q qs. ci_Quote (cr_Indicators r) = q # qs \<and> rows_fit q (length (cr_Timestamp r)) \<and>
     (\<forall>i < length (cr_Timestamp r). \<forall>o' h l c v. row q i = Some (o', h, l, c, v) \<longrightarrow> ohlcv_ok o' h l c v) \<and>
     (\<exists>i < length (cr_Timestamp r). row q i \<noteq> None)) \<and>
   (\<forall>a as. ci_AdjClose (cr_Indicators r) = a # as \<longrightarrow> length (ac_AdjClose a) = length (cr_Timestamp r) \<and>
     (\<forall>p \<in> set (ac_AdjClose a). pred_option price_ok p)) \<and>
   cm_Symbol (cr_Meta r) \<noteq> [] \<and> cm_Currency (cr_Meta r) \<noteq> []"

lemma adj_loop_Ret:
  "go_iter (\<lambda>i p. case p of None \<Rightarrow> Ret () | Some price \<Rightarrow> go_wrap s (x i) (validatePrice price)) i ps = Ret ()
   \<longleftrightarrow> (\<forall>p \<in> set ps. pred_option price_ok p)"
  by (induction ps arbitrary: i) (auto simp: go_bind_eq_Ret validatePrice_iff split: option.splits)

lemma ChartResult_Validate_iff: "ChartResult_Validate r = Ret () \<longleftrightarrow> result_ok r"
proof (cases "ci_Quote (cr_Indicators r)")
  case (Cons q qs)
  let ?n = "length (cr_Timestamp r)"
  have l: "rows_fit q ?n \<Longrightarrow> valid_bars_loop q [0..<?n] 0 = Ret m \<longleftrightarrow>
      (\<forall>i<?n. \<forall>o' h l c v. row q i = Some (o', h, l, c, v) \<longrightarrow> ohlcv_ok o' h l c v) \<and>
      m = length (filter (\<lambda>i. row q i \<noteq> None) [0..<?n])" for m
    using valid_bars_loop_eq [of q ?n "[0..<?n]" 0 m] by (simp add: Ball_def)
  have z: "0 < length (filter (\<lambda>i. row q i \<noteq> None) [0..<?n]) \<longleftrightarrow> (\<exists>i<?n. row q i \<noteq> None)"
    by (simp add: filter_empty_conv Bex_def)
  have lz: "rows_fit q ?n \<Longrightarrow> (\<exists>m. valid_bars_loop q [0..<?n] 0 = Ret m \<and> 0 < m) \<longleftrightarrow>
      (\<forall>i<?n. \<forall>o' h l c v. row q i = Some (o', h, l, c, v) \<longrightarrow> ohlcv_ok o' h l c v) \<and> (\<exists>i<?n. row q i \<noteq> None)"
    unfolding l z [symmetric] by blast
  have t: "(\<exists>i<?n. row q i \<noteq> None) \<Longrightarrow> cr_Timestamp r \<noteq> []" by auto
  have v: "ChartResult_Validate r = Ret () \<longleftrightarrow> cm_Symbol (cr_Meta r) \<noteq> [] \<and> cm_Currency (cr_Meta r) \<noteq> [] \<and>
      cr_Timestamp r \<noteq> [] \<and> rows_fit q ?n \<and> (\<exists>m. valid_bars_loop q [0..<?n] 0 = Ret m \<and> 0 < m) \<and>
      (\<forall>a as. ci_AdjClose (cr_Indicators r) = a # as \<longrightarrow> length (ac_AdjClose a) = ?n \<and>
        (\<forall>p \<in> set (ac_AdjClose a). pred_option price_ok p))"
    using Cons by (cases "ci_AdjClose (cr_Indicators r)")
      (auto simp: ChartResult_Validate_def go_bind_eq_Ret Let_def adj_loop_Ret rows_fit_def)
  show ?thesis unfolding v result_ok_def Cons using lz t by (cases "rows_fit q ?n") auto
qed (auto simp: ChartResult_Validate_def result_ok_def go_bind_eq_Ret)

lemma ChartResult_Validate_no_Panic: "ChartResult_Validate r \<noteq> Panic s"
proof (cases "ci_Quote (cr_Indicators r)")
  case (Cons q qs)
  then show ?thesis using valid_bars_loop_no_Panic [of q "length (cr_Timestamp r)" "[0..<length (cr_Timestamp r)]"]
    by (cases "ci_AdjClose (cr_Indicators r)")
      (auto simp: ChartResult_Validate_def go_bind_eq_Panic Let_def rows_fit_def dest!: go_iter_Panic split: option.splits)
qed (auto simp: ChartResult_Validate_def go_bind_eq_Panic)

lemma BarsResponse_Validate_ok:
  "BarsResponse_Validate r = Ret () \<longleftrightarrow> ch_Error (br_Chart r) = None \<and> ch_Result (br_Chart r) \<noteq> [] \<and>
     list_all result_ok (ch_Result (br_Chart r))"
  by (auto simp: BarsResponse_Validate_def go_iter_Ret list_all_length ChartResult_Validate_iff split: option.splits)

text \<open>The bar of row \<open>i\<close>, and the loop of \<^verbatim>\<open>GetBars\<close> as a map over the complete rows.\<close>

definition bar_of :: "ChartResult \<Rightarrow> QuoteIndicator \<Rightarrow> nat \<Rightarrow> Bar option" where
  "bar_of r q i = map_option (\<lambda>(o', h, l, c, v).
     \<lparr>b_Timestamp = cr_Timestamp r ! i, b_Open = o', b_High = h, b_Low = l, b_Close = c, b_Volume = v,
      b_AdjClose = (case ci_AdjClose (cr_Indicators r) of [] \<Rightarrow> None | a # _ \<Rightarrow> ac_AdjClose a ! i)\<rparr>) (row q i)"

lemma get_bars_loop_Ret:
  assumes "rows_fit q n" "\<And>a as. ci_AdjClose (cr_Indicators r) = a # as \<Longrightarrow> length (ac_AdjClose a) = n"
    and "n = length (cr_Timestamp r)" "k + length ts = n" "ts = drop k (cr_Timestamp r)"
  shows "get_bars_loop r q k ts = Ret (List.map_filter (bar_of r q) [k..<n])"
  using assms(4,5)
proof (induction ts arbitrary: k)
  case (Cons t ts)
  have k: "k < n" using Cons.prems(1) by simp
  then have "drop k (cr_Timestamp r) = cr_Timestamp r ! k # drop (Suc k) (cr_Timestamp r)"
    using assms(3) by (simp add: Cons_nth_drop_Suc)
  then have t: "t = cr_Timestamp r ! k" "ts = drop (Suc k) (cr_Timestamp r)"
    using Cons.prems by simp_all
  have u: "[k..<n] = k # [Suc k..<n]" using k by (simp add: upt_conv_Cons)
  have IH: "get_bars_loop r q (Suc k) ts = Ret (List.map_filter (bar_of r q) [Suc k..<n])"
    using Cons.prems t by (intro Cons.IH) auto
  have a: "(case ci_AdjClose (cr_Indicators r) of [] \<Rightarrow> Ret None | a # _ \<Rightarrow> go_idx (ac_AdjClose a) k) =
     Ret (case ci_AdjClose (cr_Indicators r) of [] \<Rightarrow> None | a # _ \<Rightarrow> ac_AdjClose a ! k)"
    using assms(2) k by (simp split: list.split)
  show ?case unfolding u
    by (cases "row q k") (auto simp: row_at_fit [OF assms(1) k] IH a t(1) bar_of_def [of r q k] map_filter_simps)
qed (use assms in \<open>simp add: map_filter_simps\<close>)

lemma GetBars_eq:
  assumes "result_ok r" "ch_Result (br_Chart b) = r # rs"
  shows "GetBars b = Ret (List.map_filter (bar_of r (hd (ci_Quote (cr_Indicators r)))) [0..<length (cr_Timestamp r)])"
proof -
  obtain q qs where q: "ci_Quote (cr_Indicators r) = q # qs" "rows_fit q (length (cr_Timestamp r))"
    using assms(1) by (auto simp: result_ok_def)
  show ?thesis using get_bars_loop_Ret [OF q(2), of r 0 "cr_Timestamp r"] assms q(1)
    by (simp add: GetBars_def result_ok_def)
qed

lemma bar_of_ok:
  assumes "result_ok r" "ci_Quote (cr_Indicators r) = q # qs" "i < length (cr_Timestamp r)" "bar_of r q i = Some b"
  shows "bar_ok b"
proof -
  obtain o' h l c v where r: "row q i = Some (o', h, l, c, v)" using assms(4) by (auto simp: bar_of_def)
  then have "ohlcv_ok o' h l c v" using assms(1-3) by (auto simp: result_ok_def)
  moreover have "pred_option price_ok (b_AdjClose b)"
  proof (cases "ci_AdjClose (cr_Indicators r)")
    case (Cons a as)
    then have "pred_option price_ok (ac_AdjClose a ! i)"
      using assms(1,3) by (simp add: result_ok_def)
    then show ?thesis using assms(4) r Cons by (auto simp: bar_of_def)
  qed (use assms(4) r in \<open>auto simp: bar_of_def\<close>)
  ultimately show ?thesis using assms(4) r by (auto simp: bar_ok_def bar_of_def)
qed

section \<open>A sample response\<close>

text \<open>Two rows, the second incomplete, with the adjusted close outside the day's range.\<close>

definition sample_meta :: ChartMeta where
  "sample_meta = \<lparr>cm_Currency = ''USD'', cm_Symbol = ''AAPL'', cm_ExchangeName = ''NMS'',
     cm_FullExchangeName = ''NasdaqGS'', cm_InstrumentType = ''EQUITY'', cm_FirstTradeDate = 345479400,
     cm_RegularMarketTime = 1704067200, cm_HasPrePostMarketData = True, cm_GmtOffset = -18000,
     cm_Timezone = ''EST'', cm_ExchangeTimezoneName = ''America/New_York'',
     cm_RegularMarketPrice = Some (Fin 100), cm_FiftyTwoWeekHigh = None, cm_FiftyTwoWeekLow = None,
     cm_RegularMarketDayHigh = None, cm_RegularMarketDayLow = None, cm_RegularMarketVolume = Some 1000,
     cm_LongName = ''Apple Inc.'', cm_ShortName = ''Apple'', cm_ChartPreviousClose = None,
     cm_PreviousClose = None, cm_Scale = 3, cm_PriceHint = 2, cm_CurrentTradingPeriod = None,
     cm_DataGranularity = ''1d'', cm_Range = [], cm_ValidRanges = []\<rparr>"

definition sample_response :: BarsResponse where
  "sample_response = \<lparr>br_Chart = \<lparr>ch_Result = [\<lparr>cr_Meta = sample_meta,
     cr_Timestamp = [1704067200, 1704153600],
     cr_Indicators = \<lparr>
       ci_Quote = [\<lparr>qi_Open = [Some (Fin 100), Some (Fin 101)], qi_High = [Some (Fin 105), None],
         qi_Low = [Some (Fin 99), None], qi_Close = [Some (Fin 104), None], qi_Volume = [Some 1000, None]\<rparr>],
       ci_AdjClose = [\<lparr>ac_AdjClose = [Some (Fin 98), None]\<rparr>]\<rparr>\<rparr>], ch_Error = None\<rparr>\<rparr>"

section \<open>Properties\<close>

text \<open>
  Validate never panics and accepts a chart response exactly when it carries no error and
  each of its results has symbol, currency, slices of the timestamps' length, a complete row,
  and only sound complete rows and adjusted closes.
\<close>

theorem BarsResponse_Validate_iff:
  "(BarsResponse_Validate r = Ret () \<longleftrightarrow> ch_Error (br_Chart r) = None \<and> ch_Result (br_Chart r) \<noteq> [] \<and>
     list_all result_ok (ch_Result (br_Chart r))) \<and> (\<forall>s. BarsResponse_Validate r \<noteq> Panic s)"
proof (intro conjI allI)
  fix s
  show "BarsResponse_Validate r \<noteq> Panic s"
    by (auto simp: BarsResponse_Validate_def ChartResult_Validate_no_Panic dest!: go_iter_Panic split: option.splits)
qed (rule BarsResponse_Validate_ok)

lemma validated_bars:
  assumes "BarsResponse_Validate r = Ret ()"
  shows "\<exists>result quote bars. ch_Result (br_Chart r) ! 0 = result \<and> ci_Quote (cr_Indicators result) ! 0 = quote \<and>
    GetBars r = Ret bars \<and> bars = List.map_filter (bar_of result quote) [0..<length (cr_Timestamp result)] \<and>
    bars \<noteq> [] \<and> list_all bar_ok bars"
proof -
  obtain x xs where x: "ch_Result (br_Chart r) = x # xs" "result_ok x"
    using assms by (cases "ch_Result (br_Chart r)") (auto simp: BarsResponse_Validate_ok)
  obtain q qs where q: "ci_Quote (cr_Indicators x) = q # qs" using x(2) by (auto simp: result_ok_def)
  let ?bs = "List.map_filter (bar_of x q) [0..<length (cr_Timestamp x)]"
  obtain i where i: "i < length (cr_Timestamp x)" "row q i \<noteq> None" using x(2) q by (auto simp: result_ok_def)
  then have "?bs \<noteq> []" by (auto simp: List.map_filter_def filter_empty_conv bar_of_def Bex_def)
  moreover have "list_all bar_ok ?bs"
    using bar_of_ok [OF x(2) q] by (auto simp: list_all_iff List.map_filter_def)
  ultimately show ?thesis using GetBars_eq [OF x(2,1)] x(1) q by simp
qed

text \<open>
  C1: On a response that Validate accepts, GetBars neither fails nor panics: it returns, in
  timestamp order, exactly one bar per row whose five values are present, at least one bar,
  and every bar has finite non-negative prices, low <= open, close <= high, a non-negative
  volume and a usable adjusted close.
\<close>

theorem GetBars_of_validated:
  assumes "BarsResponse_Validate r = Ret ()"
  shows "\<exists>result quote bars. ch_Result (br_Chart r) ! 0 = result \<and> ci_Quote (cr_Indicators result) ! 0 = quote \<and>
    GetBars r = Ret bars \<and> bars = List.map_filter (bar_of result quote) [0..<length (cr_Timestamp result)] \<and>
    bars \<noteq> [] \<and> list_all bar_ok bars"
  by (rule validated_bars) (rule assms)

theorem GetBars_of_validated_witness:
  "\<exists>bars. GetBars sample_response = Ret bars \<and> bars \<noteq> [] \<and> list_all bar_ok bars"
proof -
  have "BarsResponse_Validate sample_response = Ret ()"
    by (simp add: sample_response_def sample_meta_def BarsResponse_Validate_def ChartResult_Validate_def
        go_idx_def row_at_def validateBarData_def validatePrice_def numeral_2_eq_2)
  from GetBars_of_validated [OF this] show ?thesis by blast
qed

end
