(* ===== verification/YahooQuotes.thy ===== *)
theory YahooQuotes
  imports YahooBars
begin

text \<open>
  The quote response: \<^verbatim>\<open>internal/yahoo/quotes.go\<close>, and the quote that \<^verbatim>\<open>convertChartToQuote\<close> of
  \<^verbatim>\<open>internal/yahoo/client.go\<close> builds from a chart response. The JSON decoder is the parameter \<open>decode\<close>.
\<close>

section \<open>Model\<close>

record QuoteResult =
  qr_Language :: string
  qr_Region :: string
  qr_QuoteType :: string
  qr_TypeDisp :: string
  qr_QuoteSourceName :: string
  qr_Triggerable :: bool
  qr_CustomPriceAlertConfidence :: string
  qr_Currency :: string
  qr_Exchange :: string
  qr_ShortName :: string
  qr_LongName :: string
  qr_MessageBoardId :: string
  qr_ExchangeTimezoneName :: string
  qr_ExchangeTimezoneShortName :: string
  qr_GmtOffsetMilliseconds :: int64
  qr_Market :: string
  qr_EsgPopulated :: bool
  qr_RegularMarketPrice :: "f64 option"
  qr_RegularMarketTime :: "int64 option"
  qr_RegularMarketChange :: "f64 option"
  qr_RegularMarketOpen :: "f64 option"
  qr_RegularMarketDayHigh :: "f64 option"
  qr_RegularMarketDayLow :: "f64 option"
  qr_RegularMarketVolume :: "int64 option"
  qr_Bid :: "f64 option"
  qr_Ask :: "f64 option"
  qr_BidSize :: "int64 option"
  qr_AskSize :: "int64 option"
  qr_FullExchangeName :: string
  qr_FinancialCurrency :: string
  qr_RegularMarketChangePercent :: "f64 option"
  qr_MarketState :: string
  qr_Symbol :: string

record Quote =
  q_Symbol :: string
  q_Currency :: string
  q_Exchange :: string
  q_FullExchangeName :: string
  q_ShortName :: string
  q_LongName :: string
  q_QuoteType :: string
  q_MarketState :: string
  q_ExchangeTimezoneName :: string
  q_ExchangeTimezoneShortName :: string
  q_GmtOffsetMilliseconds :: int64
  q_Bid :: "f64 option"
  q_Ask :: "f64 option"
  q_BidSize :: "int64 option"
  q_AskSize :: "int64 option"
  q_RegularMarketPrice :: "f64 option"
  q_RegularMarketTime :: "int64 option"
  q_RegularMarketChange :: "f64 option"
  q_RegularMarketOpen :: "f64 option"
  q_RegularMarketDayHigh :: "f64 option"
  q_RegularMarketDayLow :: "f64 option"
  q_RegularMarketVolume :: "int64 option"
  q_RegularMarketChangePercent :: "f64 option"


record QuoteResponseData =
  qd_Result :: "QuoteResult list"
  qd_Error :: "string option"

record QuoteResponse =
  qp_QuoteResponse :: QuoteResponseData

text \<open>The check of an optional price: \<^verbatim>\<open>if p != nil { if err := validatePrice(*p) ... }\<close>.\<close>

definition validate_opt :: "string \<Rightarrow> f64 option \<Rightarrow> unit go" where
  "validate_opt f p = (case p of None \<Rightarrow> Ret () | Some x \<Rightarrow> go_wrap f [] (validatePrice x))"

definition negative_opt :: "int64 option \<Rightarrow> string \<Rightarrow> unit go" where
  "negative_opt p f = (case p of None \<Rightarrow> Ret () | Some n \<Rightarrow> go_guard (n < 0) (Errorf f [AInt n]))"

definition QuoteResult_Validate :: "QuoteResult \<Rightarrow> unit go" where
  "QuoteResult_Validate r =
     go_bind (go_guard (qr_Symbol r = []) (Errorf ''missing symbol'' [])) (\<lambda>_.
     go_bind (go_guard (qr_Currency r = []) (Errorf ''missing currency'' [])) (\<lambda>_.
     go_bind (case (qr_Bid r, qr_Ask r) of
         (Some bid, Some ask) \<Rightarrow>
           go_bind (go_wrap ''invalid bid price: %w'' [] (validatePrice bid)) (\<lambda>_.
           go_bind (go_wrap ''invalid ask price: %w'' [] (validatePrice ask)) (\<lambda>_.
           go_guard (f_lt ask bid) (Errorf ''bid > ask: bid=%.4f, ask=%.4f'' [AFloat bid, AFloat ask])))
       | _ \<Rightarrow> Ret ()) (\<lambda>_.
     go_bind (negative_opt (qr_BidSize r) ''negative bid size: %d'') (\<lambda>_.
     go_bind (negative_opt (qr_AskSize r) ''negative ask size: %d'') (\<lambda>_.
     go_bind (validate_opt ''invalid regular market price: %w'' (qr_RegularMarketPrice r)) (\<lambda>_.
     go_bind (validate_opt ''invalid regular market open: %w'' (qr_RegularMarketOpen r)) (\<lambda>_.
     go_bind (validate_opt ''invalid regular market day high: %w'' (qr_RegularMarketDayHigh r)) (\<lambda>_.
     go_bind (validate_opt ''invalid regular market day low: %w'' (qr_RegularMarketDayLow r)) (\<lambda>_.
     negative_opt (qr_RegularMarketVolume r) ''negative regular market volume: %d'')))))))))"

definition QuoteResponse_Validate :: "QuoteResponse \<Rightarrow> unit go" where
  "QuoteResponse_Validate r =
     (case qd_Error (qp_QuoteResponse r) of
        Some e \<Rightarrow> Err (Errorf ''yahoo finance error: %s'' [AStr e])
      | None \<Rightarrow>
          if length (qd_Result (qp_QuoteResponse r)) = 0 then Err (Errorf ''no quote results found'' [])
          else go_iter (\<lambda>i result. go_wrap ''result[%d]: %w'' [AInt (int i)] (QuoteResult_Validate result))
                 0 (qd_Result (qp_QuoteResponse r)))"

definition DecodeQuoteResponse :: "('j \<Rightarrow> QuoteResponse go) \<Rightarrow> 'j \<Rightarrow> QuoteResponse go" where
  "DecodeQuoteResponse decode data =
     go_bind (go_wrap ''failed to decode quote response: %w'' [] (decode data)) (\<lambda>response.
     go_bind (go_wrap ''invalid quote response: %w'' [] (QuoteResponse_Validate response)) (\<lambda>_.
     Ret response))"

definition DecodeQuoteResponseFromReader :: "('j \<Rightarrow> QuoteResponse go) \<Rightarrow> 'j \<Rightarrow> QuoteResponse go" where
  "DecodeQuoteResponseFromReader decode reader =
     go_bind (go_wrap ''failed to decode quote response: %w'' [] (decode reader)) (\<lambda>response.
     go_bind (go_wrap ''invalid quote response: %w'' [] (QuoteResponse_Validate response)) (\<lambda>_.
     Ret response))"

text \<open>The body of the loop of \<^verbatim>\<open>GetQuotes\<close>: a nil pointer is left nil, a set one is copied.\<close>

definition quote_of_result :: "QuoteResult \<Rightarrow> Quote" where
  "quote_of_result result = \<lparr>q_Symbol = qr_Symbol result,
     q_Currency = qr_Currency result,
     q_Exchange = qr_Exchange result,
     q_FullExchangeName = qr_FullExchangeName result,
     q_ShortName = qr_ShortName result,
     q_LongName = qr_LongName result,
     q_QuoteType = qr_QuoteType result,
     q_MarketState = qr_MarketState result,
     q_ExchangeTimezoneName = qr_ExchangeTimezoneName result,
     q_ExchangeTimezoneShortName = qr_ExchangeTimezoneShortName result,
     q_GmtOffsetMilliseconds = qr_GmtOffsetMilliseconds result,
     q_Bid = qr_Bid result,
     q_Ask = qr_Ask result,
     q_BidSize = qr_BidSize result,
     q_AskSize = qr_AskSize result,
     q_RegularMarketPrice = qr_RegularMarketPrice result,
     q_RegularMarketTime = qr_RegularMarketTime result,
     q_RegularMarketChange = qr_RegularMarketChange result,
     q_RegularMarketOpen = qr_RegularMarketOpen result,
     q_RegularMarketDayHigh = qr_RegularMarketDayHigh result,
     q_RegularMarketDayLow = qr_RegularMarketDayLow result,
     q_RegularMarketVolume = qr_RegularMarketVolume result,
     q_RegularMarketChangePercent = qr_RegularMarketChangePercent result\<rparr>"

definition GetQuotes :: "QuoteResponse \<Rightarrow> Quote list" where
  "GetQuotes r = map quote_of_result (qd_Result (qp_QuoteResponse r))"

text \<open>\<^verbatim>\<open>xs[len(xs)-1]\<close> of a slice that is not empty, nil otherwise.\<close>

definition last_or_nil :: "'a option list \<Rightarrow> 'a option" where
  "last_or_nil xs = (if xs = [] then None else last xs)"

definition convertChartToQuote :: "BarsResponse \<Rightarrow> string \<Rightarrow> QuoteResponse go" where
  "convertChartToQuote barsResp symbol =
     (case ch_Result (br_Chart barsResp) of
        [] \<Rightarrow> Err (Errorf ''no chart results found'' [])
      | result # _ \<Rightarrow>
          let meta = cr_Meta result;
              (regularMarketPrice, regularMarketDayHigh, regularMarketDayLow) =
                (case ci_Quote (cr_Indicators result) of
                   [] \<Rightarrow> (None, None, None)
                 | quote # _ \<Rightarrow> (last_or_nil (qi_Close quote), last_or_nil (qi_High quote), last_or_nil (qi_Low quote)))
          in Ret \<lparr>qp_QuoteResponse = \<lparr>qd_Result = [\<lparr>
         qr_Language = ''en-US'',
         qr_Region = ''US'',
         qr_QuoteType = ''EQUITY'',
         qr_TypeDisp = [],
         qr_QuoteSourceName = [],
         qr_Triggerable = False,
         qr_CustomPriceAlertConfidence = [],
         qr_Currency = cm_Currency meta,
         qr_Exchange = cm_ExchangeName meta,
         qr_ShortName = cm_ShortName meta,
         qr_LongName = cm_LongName meta,
         qr_MessageBoardId = [],
         qr_ExchangeTimezoneName = cm_ExchangeTimezoneName meta,
         qr_ExchangeTimezoneShortName = [],
         qr_GmtOffsetMilliseconds = cm_GmtOffset meta,
         qr_Market = [],
         qr_EsgPopulated = False,
         qr_RegularMarketPrice = regularMarketPrice,
         qr_RegularMarketTime = Some (cm_RegularMarketTime meta),
         qr_RegularMarketChange = None,
         qr_RegularMarketOpen = None,
         qr_RegularMarketDayHigh = regularMarketDayHigh,
         qr_RegularMarketDayLow = regularMarketDayLow,
         qr_RegularMarketVolume = cm_RegularMarketVolume meta,
         qr_Bid = None,
         qr_Ask = None,
         qr_BidSize = None,
         qr_AskSize = None,
         qr_FullExchangeName = cm_FullExchangeName meta,
         qr_FinancialCurrency = [],
         qr_RegularMarketChangePercent = None,
         qr_MarketState = ''REGULAR'',
         qr_Symbol = cm_Symbol meta\<rparr>], qd_Error = None\<rparr>\<rparr>)"

section \<open>Lemmas\<close>

definition quote_ok :: "QuoteResult \<Rightarrow> bool" where
  "quote_ok r \<longleftrightarrow> qr_Symbol r \<noteq> [] \<and> qr_Currency r \<noteq> [] \<and>
     (\<forall>bid ask. qr_Bid r = Some bid \<and> qr_Ask r = Some ask \<longrightarrow> price_ok bid \<and> price_ok ask \<and> f_le bid ask) \<and>
     pred_option (\<lambda>n. 0 \<le> n) (qr_BidSize r) \<and> pred_option (\<lambda>n. 0 \<le> n) (qr_AskSize r) \<and>
     pred_option price_ok (qr_RegularMarketPrice r) \<and> pred_option price_ok (qr_RegularMarketOpen r) \<and>
     pred_option price_ok (qr_RegularMarketDayHigh r) \<and> pred_option price_ok (qr_RegularMarketDayLow r) \<and>
     pred_option (\<lambda>n. 0 \<le> n) (qr_RegularMarketVolume r)"

lemma validate_opt_iff [simp]: "validate_opt f p = Ret u \<longleftrightarrow> pred_option price_ok p"
  by (cases p) (simp_all add: validate_opt_def validatePrice_iff)

lemma negative_opt_iff [simp]: "negative_opt p f = Ret u \<longleftrightarrow> pred_option (\<lambda>n. 0 \<le> n) p"
  by (cases p) (auto simp: negative_opt_def)

lemma bid_ask_iff:
  "(case (b, a) of
      (Some bid, Some ask) \<Rightarrow>
        go_bind (go_wrap s [] (validatePrice bid)) (\<lambda>_.
        go_bind (go_wrap t [] (validatePrice ask)) (\<lambda>_. go_guard (f_lt ask bid) (e bid ask)))
    | _ \<Rightarrow> Ret ()) = Ret u
   \<longleftrightarrow> (\<forall>bid ask. b = Some bid \<and> a = Some ask \<longrightarrow> price_ok bid \<and> price_ok ask \<and> f_le bid ask)"
  by (cases b; cases a) (auto simp: go_bind_eq_Ret validatePrice_iff f_lt_ok)

lemma QuoteResult_Validate_iff: "QuoteResult_Validate r = Ret () \<longleftrightarrow> quote_ok r"
  unfolding QuoteResult_Validate_def quote_ok_def go_bind_eq_Ret bid_ask_iff by simp

lemma QuoteResponse_Validate_ok:
  "QuoteResponse_Validate r = Ret () \<longleftrightarrow> qd_Error (qp_QuoteResponse r) = None \<and>
     qd_Result (qp_QuoteResponse r) \<noteq> [] \<and> list_all quote_ok (qd_Result (qp_QuoteResponse r))"
  by (auto simp: QuoteResponse_Validate_def go_iter_Ret list_all_length QuoteResult_Validate_iff split: option.splits)

text \<open>The last row of a chart whose five slices have the length of its timestamps.\<close>

lemma last_row:
  assumes "rows_fit q (Suc n)" "row q n = Some (o', h, l, c, v)"
  shows "last_or_nil (qi_Close q) = Some c" "last_or_nil (qi_High q) = Some h" "last_or_nil (qi_Low q) = Some l"
proof -
  have "last_or_nil xs = xs ! n" if "length xs = Suc n" for xs :: "f64 option list"
    using that by (cases "xs = []") (auto simp: last_or_nil_def last_conv_nth)
  then show "last_or_nil (qi_Close q) = Some c" "last_or_nil (qi_High q) = Some h" "last_or_nil (qi_Low q) = Some l"
    using assms by (simp_all add: rows_fit_def row_def split: option.splits)
qed

text \<open>
  A chart of two rows whose last row is complete, or has a nil open and a negative close: the
  validation of the chart skips an incomplete row.
\<close>

definition sample_chart :: "bool \<Rightarrow> BarsResponse" where
  "sample_chart full = \<lparr>br_Chart = \<lparr>ch_Result = [\<lparr>cr_Meta = sample_meta,
     cr_Timestamp = [1704067200, 1704153600],
     cr_Indicators = \<lparr>
       ci_Quote = [\<lparr>qi_Open = [Some (Fin 100), if full then Some (Fin 100) else None],
         qi_High = [Some (Fin 105), Some (Fin 105)], qi_Low = [Some (Fin 99), Some (Fin 99)],
         qi_Close = [Some (Fin 104), Some (Fin (if full then 104 else -5))],
         qi_Volume = [Some 1000, Some 2000]\<rparr>],
       ci_AdjClose = []\<rparr>\<rparr>], ch_Error = None\<rparr>\<rparr>"

definition sample_quote :: QuoteResult where
  "sample_quote = \<lparr>qr_Language = [], qr_Region = [], qr_QuoteType = [], qr_TypeDisp = [], qr_QuoteSourceName = [],
     qr_Triggerable = False, qr_CustomPriceAlertConfidence = [], qr_Currency = ''USD'', qr_Exchange
     = ''NMS'', qr_ShortName = [], qr_LongName = [], qr_MessageBoardId = [], qr_ExchangeTimezoneName
     = [], qr_ExchangeTimezoneShortName = [], qr_GmtOffsetMilliseconds = 0, qr_Market = [],
     qr_EsgPopulated = False, qr_RegularMarketPrice = Some (Fin (2/10)), qr_RegularMarketTime =
     None, qr_RegularMarketChange = None, qr_RegularMarketOpen = None, qr_RegularMarketDayHigh =
     None, qr_RegularMarketDayLow = None, qr_RegularMarketVolume = None, qr_Bid = Some (Fin (1/10)),
     qr_Ask = Some (Fin (3/10)), qr_BidSize = None, qr_AskSize = None, qr_FullExchangeName = [],
     qr_FinancialCurrency = [], qr_RegularMarketChangePercent = None, qr_MarketState = [], qr_Symbol
     = ''AAPL''\<rparr>"

lemma sample_chart_valid: "BarsResponse_Validate (sample_chart full) = Ret ()"
proof -
  have "\<exists>r q. br_Chart (sample_chart full) = \<lparr>ch_Result = [r], ch_Error = None\<rparr> \<and>
      cm_Symbol (cr_Meta r) = ''AAPL'' \<and> cm_Currency (cr_Meta r) = ''USD'' \<and> length (cr_Timestamp r) = 2 \<and>
      ci_AdjClose (cr_Indicators r) = [] \<and> ci_Quote (cr_Indicators r) = [q] \<and> rows_fit q 2 \<and>
      row q 0 = Some (Fin 100, Fin 105, Fin 99, Fin 104, 1000) \<and>
      row q 1 = (if full then Some (Fin 100, Fin 105, Fin 99, Fin 104, 2000) else None)"
    by (simp add: sample_chart_def sample_meta_def rows_fit_def row_def)
  then obtain r q where r: "br_Chart (sample_chart full) = \<lparr>ch_Result = [r], ch_Error = None\<rparr>"
      "cm_Symbol (cr_Meta r) = ''AAPL''" "cm_Currency (cr_Meta r) = ''USD''" "length (cr_Timestamp r) = 2"
      "ci_AdjClose (cr_Indicators r) = []" "ci_Quote (cr_Indicators r) = [q]" "rows_fit q 2"
      "row q 0 = Some (Fin 100, Fin 105, Fin 99, Fin 104, 1000)"
      "row q 1 = (if full then Some (Fin 100, Fin 105, Fin 99, Fin 104, 2000) else None)"
    by blast
  have "\<forall>i<2. \<forall>o' h l c v. row q i = Some (o', h, l, c, v) \<longrightarrow> ohlcv_ok o' h l c v"
    using r(8,9) by (auto simp: less_2_cases_iff ohlcv_ok_def price_ok_def split: if_splits)
  moreover have "\<exists>i<2. row q i \<noteq> None" using r(8) by (intro exI [of _ 0]) simp
  ultimately show ?thesis using r(1-7) by (simp add: BarsResponse_Validate_ok result_ok_def)
qed

section \<open>Properties\<close>

text \<open>
  Decoding a quote response succeeds exactly when the JSON decodes to a response without
  error whose quotes all have symbol and currency, an ordered bid and ask, usable prices and
  no negative size or volume.
\<close>

theorem QuoteResponse_Validate_iff:
  "DecodeQuoteResponse decode data = Ret r \<longleftrightarrow> decode data = Ret r \<and> qd_Error (qp_QuoteResponse r) = None \<and>
     qd_Result (qp_QuoteResponse r) \<noteq> [] \<and> list_all quote_ok (qd_Result (qp_QuoteResponse r))"
  by (auto simp: DecodeQuoteResponse_def go_bind_eq_Ret QuoteResponse_Validate_ok)

text \<open>
  The quote that convertChartToQuote builds from a validated chart whose last row is
  complete passes the quote validation and carries the last close, high and low, with low <=
  close <= high.
\<close>

theorem convertChartToQuote_valid:
  assumes "BarsResponse_Validate b = Ret ()" "ch_Result (br_Chart b) = result # rest"
    and "ci_Quote (cr_Indicators result) = quote # quotes"
    and "row quote (length (cr_Timestamp result) - 1) = Some (o', h, l, c, v)"
    and "pred_option (\<lambda>n. 0 \<le> n) (cm_RegularMarketVolume (cr_Meta result))"
  shows "\<exists>r q. convertChartToQuote b symbol = Ret r \<and> QuoteResponse_Validate r = Ret () \<and>
    GetQuotes r = [q] \<and> q_Symbol q = cm_Symbol (cr_Meta result) \<and> q_RegularMarketPrice q = Some c \<and>
    q_RegularMarketDayHigh q = Some h \<and> q_RegularMarketDayLow q = Some l \<and> f_le l c \<and> f_le c h"
proof -
  have ok: "result_ok result" using assms(1,2) by (simp add: BarsResponse_Validate_ok)
  then have f: "rows_fit quote (length (cr_Timestamp result))" and ne: "cr_Timestamp result \<noteq> []"
    using assms(3) by (auto simp: result_ok_def)
  obtain n where n: "length (cr_Timestamp result) = Suc n" using ne by (cases "cr_Timestamp result") auto
  note last = last_row [of quote n o' h l c v]
  have "\<forall>i < Suc n. \<forall>o' h l c v. row quote i = Some (o', h, l, c, v) \<longrightarrow> ohlcv_ok o' h l c v"
    using ok assms(3) n by (simp add: result_ok_def)
  moreover have "row quote n = Some (o', h, l, c, v)" using assms(4) n by simp
  ultimately have r: "ohlcv_ok o' h l c v" by blast
  show ?thesis using ok r last f n assms(2-5)
    by (simp add: convertChartToQuote_def Let_def QuoteResponse_Validate_ok quote_ok_def GetQuotes_def quote_of_result_def
        ohlcv_ok_def result_ok_def)
qed

theorem convertChartToQuote_valid_witness:
  "\<exists>r q. convertChartToQuote (sample_chart True) ''AAPL'' = Ret r \<and> QuoteResponse_Validate r = Ret () \<and>
    GetQuotes r = [q] \<and> q_RegularMarketPrice q = Some (Fin 104)"
proof -
  have c: "ch_Result (br_Chart (sample_chart True)) = [hd (ch_Result (br_Chart (sample_chart True)))]"
    by (simp add: sample_chart_def)
  have i: "ci_Quote (cr_Indicators (hd (ch_Result (br_Chart (sample_chart True))))) =
     [hd (ci_Quote (cr_Indicators (hd (ch_Result (br_Chart (sample_chart True))))))]"
    by (simp add: sample_chart_def)
  show ?thesis
    using convertChartToQuote_valid [OF sample_chart_valid c i, of "Fin 100" "Fin 105" "Fin 99" "Fin 104" 2000 "''AAPL''"]
    by (simp add: sample_chart_def sample_meta_def row_def) blast
qed

text \<open>
  A chart response can pass validation and still give a quote with a negative price: the
  last row is incomplete, so its close is never validated, and convertChartToQuote reads it
  all the same.
\<close>

theorem convertChartToQuote_unvalidated_price:
  "BarsResponse_Validate (sample_chart False) = Ret () \<and>
   (\<exists>r e. convertChartToQuote (sample_chart False) ''AAPL'' = Ret r \<and>
      QuoteResponse_Validate r = Err e \<and> map q_RegularMarketPrice (GetQuotes r) = [Some (Fin (-5))])"
proof -
  have "\<exists>r q. convertChartToQuote (sample_chart False) ''AAPL'' = Ret r \<and>
      qp_QuoteResponse r = \<lparr>qd_Result = [q], qd_Error = None\<rparr> \<and> qr_Symbol q = ''AAPL'' \<and> qr_Currency q = ''USD'' \<and>
      qr_Bid q = None \<and> qr_BidSize q = None \<and> qr_AskSize q = None \<and> qr_RegularMarketPrice q = Some (Fin (-5))"
    by (simp add: sample_chart_def sample_meta_def convertChartToQuote_def last_or_nil_def)
  then obtain r q where r: "convertChartToQuote (sample_chart False) ''AAPL'' = Ret r"
      "qp_QuoteResponse r = \<lparr>qd_Result = [q], qd_Error = None\<rparr>" "qr_Symbol q = ''AAPL''" "qr_Currency q = ''USD''"
      "qr_Bid q = None" "qr_BidSize q = None" "qr_AskSize q = None" "qr_RegularMarketPrice q = Some (Fin (-5))"
    by blast
  show ?thesis unfolding r(1)
    by (simp add: r(2-) sample_chart_valid QuoteResponse_Validate_def QuoteResult_Validate_def GetQuotes_def
        quote_of_result_def negative_opt_def validate_opt_def validatePrice_def)
qed

end
