(* ===== verification/Normalize.thy ===== *)
theory Normalize
  imports Decimal SecurityId YahooBars YahooQuotes
begin

text \<open>
  The normalizers of bars, quotes, market data and company information: \<^verbatim>\<open>time.go\<close>, \<^verbatim>\<open>bars.go\<close>,
  \<^verbatim>\<open>quotes.go\<close>, \<^verbatim>\<open>market_data.go\<close> and \<^verbatim>\<open>company_info.go\<close> of \<^verbatim>\<open>internal/norm\<close>, with the types of
  \<^verbatim>\<open>types.go\<close>. Each reading of the clock is an argument (\<open>now\<close>).
\<close>

section \<open>Model\<close>

record Meta =
  mt_RunID :: string
  mt_Source :: string
  mt_Producer :: string
  mt_SchemaVersion :: string

record NormalizedBar =
  nb_Start :: instant
  nb_End :: instant
  nb_Open :: ScaledDecimal
  nb_High :: ScaledDecimal
  nb_Low :: ScaledDecimal
  nb_Close :: ScaledDecimal
  nb_Volume :: int64
  nb_Adjusted :: bool
  nb_AdjustmentPolicyID :: string
  nb_CurrencyCode :: string
  nb_EventTime :: instant
  nb_IngestTime :: instant
  nb_AsOf :: instant

record NormalizedBarBatch =
  nbb_Security :: Security
  nbb_Bars :: "NormalizedBar list"
  nbb_Meta :: Meta

record NormalizedQuote =
  nq_Security :: Security
  nq_Type :: string
  nq_Bid :: "ScaledDecimal option"
  nq_BidSize :: "int64 option"
  nq_Ask :: "ScaledDecimal option"
  nq_AskSize :: "int64 option"
  nq_RegularMarketPrice :: "ScaledDecimal option"
  nq_RegularMarketHigh :: "ScaledDecimal option"
  nq_RegularMarketLow :: "ScaledDecimal option"
  nq_RegularMarketVolume :: "int64 option"
  nq_Venue :: string
  nq_CurrencyCode :: string
  nq_EventTime :: instant
  nq_IngestTime :: instant
  nq_Meta :: Meta

record NormalizedCompanyInfo =
  nc_Security :: Security
  nc_LongName :: string
  nc_ShortName :: string
  nc_Exchange :: string
  nc_FullExchangeName :: string
  nc_Currency :: string
  nc_InstrumentType :: string
  nc_FirstTradeDate :: "instant option"
  nc_Timezone :: string
  nc_ExchangeTimezone :: string
  nc_EventTime :: instant
  nc_IngestTime :: instant
  nc_Meta :: Meta

record NormalizedMarketData =
  nm_Security :: Security
  nm_RegularMarketPrice :: "ScaledDecimal option"
  nm_RegularMarketHigh :: "ScaledDecimal option"
  nm_RegularMarketLow :: "ScaledDecimal option"
  nm_RegularMarketVolume :: "int64 option"
  nm_FiftyTwoWeekHigh :: "ScaledDecimal option"
  nm_FiftyTwoWeekLow :: "ScaledDecimal option"
  nm_PreviousClose :: "ScaledDecimal option"
  nm_ChartPreviousClose :: "ScaledDecimal option"
  nm_RegularMarketTime :: "instant option"
  nm_HasPrePostMarketData :: bool
  nm_CurrencyCode :: string
  nm_EventTime :: instant
  nm_IngestTime :: instant
  nm_Meta :: Meta

definition ToUTCDayBoundaries :: "int64 \<Rightarrow> instant \<times> instant \<times> instant" where
  "ToUTCDayBoundaries timestamp =
     (let t = time_Unix timestamp 0;
          tradingDay = AddDate t 0 0 (- 2);
          start = time_Date (time_Year tradingDay) (time_Month tradingDay) (time_Day tradingDay) 0;
          end_t = start + 24 * hour
      in (start, end_t, end_t))"

definition normalizeBar ::
  "(f64 \<Rightarrow> int) \<Rightarrow> Bar \<Rightarrow> string \<Rightarrow> int \<Rightarrow> bool \<Rightarrow> string \<Rightarrow> instant \<Rightarrow> NormalizedBar go" where
  "normalizeBar ovf bar currency scale isAdjusted adjustmentPolicyID now =
     (let (start, end_t, eventTime) = ToUTCDayBoundaries (b_Timestamp bar);
          closePrice = (case b_AdjClose bar of Some a \<Rightarrow> if isAdjusted then a else b_Close bar | None \<Rightarrow> b_Close bar)
      in
       go_bind (go_wrap ''invalid open price: %w'' [] (ToScaledDecimalWithCurrency ovf (b_Open bar) currency)) (\<lambda>open_s.
       go_bind (go_wrap ''invalid high price: %w'' [] (ToScaledDecimalWithCurrency ovf (b_High bar) currency)) (\<lambda>high_s.
       go_bind (go_wrap ''invalid low price: %w'' [] (ToScaledDecimalWithCurrency ovf (b_Low bar) currency)) (\<lambda>low_s.
       go_bind (go_wrap ''invalid close price: %w'' [] (ToScaledDecimalWithCurrency ovf closePrice currency)) (\<lambda>close_s.
       Ret \<lparr>nb_Start = start, nb_End = end_t, nb_Open = open_s, nb_High = high_s, nb_Low = low_s,
            nb_Close = close_s, nb_Volume = b_Volume bar, nb_Adjusted = isAdjusted,
            nb_AdjustmentPolicyID = adjustmentPolicyID, nb_CurrencyCode = currency,
            nb_EventTime = eventTime, nb_IngestTime = now, nb_AsOf = eventTime\<rparr>)))))"

text \<open>The loop over the bars, which drops a bar that does not normalize.\<close>

fun normalize_bars_loop :: "(Bar \<Rightarrow> NormalizedBar go) \<Rightarrow> Bar list \<Rightarrow> NormalizedBar list" where
  "normalize_bars_loop f [] = []"
| "normalize_bars_loop f (bar # bars) =
     (case f bar of Ret nb \<Rightarrow> nb # normalize_bars_loop f bars | _ \<Rightarrow> normalize_bars_loop f bars)"

definition NormalizeBars ::
  "(f64 \<Rightarrow> int) \<Rightarrow> instant \<Rightarrow> Bar list \<Rightarrow> ChartMeta option \<Rightarrow> string \<Rightarrow> NormalizedBarBatch go" where
  "NormalizeBars ovf now bars meta_p runID =
     (if length bars = 0 then Err (Errorf ''no bars to normalize'' [])
      else case meta_p of
        None \<Rightarrow> Err (Errorf ''missing metadata'' [])
      | Some meta \<Rightarrow>
          let security = CreateSecurity (cm_Symbol meta) (cm_ExchangeName meta) (cm_ExchangeName meta) in
          go_bind (go_wrap ''invalid security: %w'' [] (ValidateSecurity security)) (\<lambda>_.
          let isAdjusted = list_ex (\<lambda>bar. b_AdjClose bar \<noteq> None) bars;
              adjustmentPolicyID = (if isAdjusted then ''split_dividend'' else ''raw'');
              scale = GetScaleForCurrency (cm_Currency meta);
              normalizedBars = normalize_bars_loop
                (\<lambda>bar. normalizeBar ovf bar (cm_Currency meta) scale isAdjusted adjustmentPolicyID now) bars
          in if length normalizedBars = 0 then Err (Errorf ''no valid bars after normalization'' [])
             else Ret \<lparr>nbb_Security = security, nbb_Bars = normalizedBars,
                       nbb_Meta = \<lparr>mt_RunID = runID, mt_Source = ''yfinance-go'', mt_Producer = ''local'',
                                   mt_SchemaVersion = ''ampy.bars.v1:1.0.0''\<rparr>\<rparr>))"

text \<open>\<^verbatim>\<open>if p != nil { s, err := ToScaledDecimal(*p, scale) ... }\<close>.\<close>

definition scale_opt :: "(f64 \<Rightarrow> int) \<Rightarrow> string \<Rightarrow> int \<Rightarrow> f64 option \<Rightarrow> ScaledDecimal option go" where
  "scale_opt ovf f scale p = (case p of None \<Rightarrow> Ret None
     | Some x \<Rightarrow> go_bind (go_wrap f [] (ToScaledDecimal ovf x scale)) (\<lambda>s. Ret (Some s)))"

definition NormalizeQuote :: "(f64 \<Rightarrow> int) \<Rightarrow> instant \<Rightarrow> Quote \<Rightarrow> string \<Rightarrow> NormalizedQuote go" where
  "NormalizeQuote ovf now quote runID =
     go_bind (go_guard (q_Symbol quote = []) (Errorf ''missing symbol'' [])) (\<lambda>_.
     go_bind (go_guard (q_Currency quote = []) (Errorf ''missing currency'' [])) (\<lambda>_.
     let security = CreateSecurity (q_Symbol quote) (q_Exchange quote) (q_FullExchangeName quote) in
     go_bind (go_wrap ''invalid security: %w'' [] (ValidateSecurity security)) (\<lambda>_.
     let scale = GetScaleForCurrency (q_Currency quote) in
     go_bind (scale_opt ovf ''invalid bid price: %w'' scale (q_Bid quote)) (\<lambda>bid.
     go_bind (scale_opt ovf ''invalid ask price: %w'' scale (q_Ask quote)) (\<lambda>ask.
     go_bind (scale_opt ovf ''invalid regular market price: %w'' scale (q_RegularMarketPrice quote)) (\<lambda>price.
     go_bind (scale_opt ovf ''invalid regular market high: %w'' scale (q_RegularMarketDayHigh quote)) (\<lambda>high.
     go_bind (scale_opt ovf ''invalid regular market low: %w'' scale (q_RegularMarketDayLow quote)) (\<lambda>low.
     let venue = (if q_Exchange quote \<noteq> [] then
                    if InferMIC (q_Exchange quote) [] = [] then q_Exchange quote else InferMIC (q_Exchange quote) []
                  else [])
     in Ret \<lparr>nq_Security = security, nq_Type = ''QUOTE'', nq_Bid = bid, nq_BidSize = q_BidSize quote,
             nq_Ask = ask, nq_AskSize = q_AskSize quote, nq_RegularMarketPrice = price,
             nq_RegularMarketHigh = high, nq_RegularMarketLow = low,
             nq_RegularMarketVolume = q_RegularMarketVolume quote, nq_Venue = venue,
             nq_CurrencyCode = q_Currency quote, nq_EventTime = now, nq_IngestTime = now,
             nq_Meta = \<lparr>mt_RunID = runID, mt_Source = ''yfinance-go'', mt_Producer = ''local'',
                        mt_SchemaVersion = ''ampy.ticks.v1:1.0.0''\<rparr>\<rparr>))))))))"

text \<open>The error of the conversion is dropped: the zero value \<^verbatim>\<open>ScaledDecimal{}\<close> stands for it.\<close>

definition ToScaledDecimalPtr :: "(f64 \<Rightarrow> int) \<Rightarrow> f64 option \<Rightarrow> string \<Rightarrow> ScaledDecimal option" where
  "ToScaledDecimalPtr ovf p currency =
     (case p of None \<Rightarrow> None
      | Some x \<Rightarrow> Some (case ToScaledDecimalWithCurrency ovf x currency of Ret s \<Rightarrow> s | _ \<Rightarrow> mkSD 0 0))"

definition NormalizeMarketData ::
  "(f64 \<Rightarrow> int) \<Rightarrow> instant \<Rightarrow> instant \<Rightarrow> ChartMeta option \<Rightarrow> string \<Rightarrow> NormalizedMarketData go" where
  "NormalizeMarketData ovf now1 now2 meta_p runID =
     (case meta_p of None \<Rightarrow> Err (Errorf ''metadata is nil'' [])
      | Some meta \<Rightarrow>
          let ptr = (\<lambda>p. ToScaledDecimalPtr ovf p (cm_Currency meta)) in
          Ret \<lparr>nm_Security = \<lparr>Symbol = cm_Symbol meta, MIC = InferMIC (cm_ExchangeName meta) []\<rparr>,
               nm_RegularMarketPrice = ptr (cm_RegularMarketPrice meta),
               nm_RegularMarketHigh = ptr (cm_RegularMarketDayHigh meta),
               nm_RegularMarketLow = ptr (cm_RegularMarketDayLow meta),
               nm_RegularMarketVolume = cm_RegularMarketVolume meta,
               nm_FiftyTwoWeekHigh = ptr (cm_FiftyTwoWeekHigh meta),
               nm_FiftyTwoWeekLow = ptr (cm_FiftyTwoWeekLow meta),
               nm_PreviousClose = ptr (cm_PreviousClose meta),
               nm_ChartPreviousClose = ptr (cm_ChartPreviousClose meta),
               nm_RegularMarketTime =
                 (if cm_RegularMarketTime meta \<noteq> 0 then Some (time_Unix (cm_RegularMarketTime meta) 0) else None),
               nm_HasPrePostMarketData = cm_HasPrePostMarketData meta,
               nm_CurrencyCode = [],
               nm_EventTime = now1, nm_IngestTime = now2,
               nm_Meta = \<lparr>mt_RunID = runID, mt_Source = ''yahoo'', mt_Producer = ''yfinance-go'',
                          mt_SchemaVersion = ''1.0''\<rparr>\<rparr>)"

definition NormalizeCompanyInfo ::
  "instant \<Rightarrow> instant \<Rightarrow> ChartMeta option \<Rightarrow> string \<Rightarrow> NormalizedCompanyInfo go" where
  "NormalizeCompanyInfo now1 now2 meta_p runID =
     (case meta_p of None \<Rightarrow> Err (Errorf ''metadata is nil'' [])
      | Some meta \<Rightarrow>
          Ret \<lparr>nc_Security = \<lparr>Symbol = cm_Symbol meta, MIC = InferMIC (cm_ExchangeName meta) []\<rparr>,
               nc_LongName = cm_LongName meta, nc_ShortName = cm_ShortName meta,
               nc_Exchange = cm_ExchangeName meta, nc_FullExchangeName = cm_FullExchangeName meta,
               nc_Currency = cm_Currency meta, nc_InstrumentType = cm_InstrumentType meta,
               nc_FirstTradeDate =
                 (if cm_FirstTradeDate meta \<noteq> 0 then Some (time_Unix (cm_FirstTradeDate meta) 0) else None),
               nc_Timezone = cm_Timezone meta, nc_ExchangeTimezone = cm_ExchangeTimezoneName meta,
               nc_EventTime = now1, nc_IngestTime = now2,
               nc_Meta = \<lparr>mt_RunID = runID, mt_Source = ''yahoo'', mt_Producer = ''yfinance-go'',
                          mt_SchemaVersion = ''1.0''\<rparr>\<rparr>)"

section \<open>Lemmas\<close>

text \<open>The day boundaries in day numbers.\<close>

lemma ToUTCDayBoundaries_eq:
  "ToUTCDayBoundaries ts = ((ts div 86400 - 2) * day_ns, (ts div 86400 - 1) * day_ns, (ts div 86400 - 1) * day_ns)"
proof -
  have d: "time_day (time_Unix ts 0 + (- 2) * day_ns) = ts div 86400 - 2"
  proof -
    have "time_Unix ts 0 + (- 2) * day_ns = (ts - 2 * 86400) * second"
      by (simp add: time_Unix_def day_ns_def second_def algebra_simps)
    moreover have "(ts - 2 * 86400) * second div day_ns = (ts - 2 * 86400) div 86400"
      by (simp add: second_def day_ns_def)
    ultimately show ?thesis by (simp add: time_day_def div_diff)
  qed
  show ?thesis unfolding ToUTCDayBoundaries_def Let_def AddDate_days time_Date_civil d
    by (simp add: hour_def day_ns_def algebra_simps)
qed

lemma normalize_bars_loop_eq: "normalize_bars_loop f bars = List.map_filter (\<lambda>b. case f b of Ret x \<Rightarrow> Some x | _ \<Rightarrow> None) bars"
  by (induction bars) (auto simp: map_filter_simps split: go.split)

text \<open>A bar whose prices all fit, and the prices of a normalized bar in order.\<close>

definition bar_fits :: "Bar \<Rightarrow> bool" where
  "bar_fits b \<longleftrightarrow> price_fits (b_Open b) \<and> price_fits (b_High b) \<and> price_fits (b_Low b) \<and> price_fits (b_Close b) \<and>
     pred_option price_fits (b_AdjClose b)"

definition nb_ordered :: "NormalizedBar \<Rightarrow> bool" where
  "nb_ordered nb \<longleftrightarrow> Scaled (nb_Low nb) \<le> Scaled (nb_Open nb) \<and> Scaled (nb_Open nb) \<le> Scaled (nb_High nb) \<and>
     Scaled (nb_Low nb) \<le> Scaled (nb_Close nb) \<and> Scaled (nb_Close nb) \<le> Scaled (nb_High nb)"

text \<open>What the normalized bar keeps of its bar.\<close>

definition nb_matches :: "Bar \<Rightarrow> NormalizedBar \<Rightarrow> bool" where
  "nb_matches b nb \<longleftrightarrow> nb_Start nb = (b_Timestamp b div 86400 - 2) * day_ns \<and> nb_End nb = nb_Start nb + day_ns \<and>
     nb_EventTime nb = nb_End nb \<and> nb_Volume nb = b_Volume b \<and>
     Scale (nb_Open nb) = 2 \<and> Scale (nb_High nb) = 2 \<and> Scale (nb_Low nb) = 2 \<and> Scale (nb_Close nb) = 2"

text \<open>
  The close that is scaled (the adjusted one where the bar has one, since the slice is then adjusted), the bars whose four
  scaled prices are finite, which are the bars that normalize, and the prices of the normalized bar.
\<close>

definition used_close :: "Bar \<Rightarrow> f64" where
  "used_close b = (case b_AdjClose b of Some a \<Rightarrow> a | None \<Rightarrow> b_Close b)"

definition bar_finite :: "Bar \<Rightarrow> bool" where
  "bar_finite b \<longleftrightarrow> list_all (\<lambda>p. \<not> f_isnan p \<and> \<not> f_isinf p) [b_Open b, b_High b, b_Low b, used_close b]"

definition nb_priced :: "(f64 \<Rightarrow> int) \<Rightarrow> string \<Rightarrow> Bar \<Rightarrow> NormalizedBar \<Rightarrow> bool" where
  "nb_priced ovf cur b nb \<longleftrightarrow>
     ToScaledDecimalWithCurrency ovf (b_Open b) cur = Ret (nb_Open nb) \<and> ToScaledDecimalWithCurrency ovf (b_High b) cur = Ret (nb_High nb) \<and>
     ToScaledDecimalWithCurrency ovf (b_Low b) cur = Ret (nb_Low nb) \<and> ToScaledDecimalWithCurrency ovf (used_close b) cur = Ret (nb_Close nb)"

lemma ToScaledDecimalWithCurrency_Scale:
  "ToScaledDecimalWithCurrency ovf p c = Ret s \<Longrightarrow> Scale s = 2"
  by (auto simp: ToScaledDecimalWithCurrency_def ToScaledDecimal_def Let_def split: if_splits)

lemma normalizeBar_fits:
  assumes "bar_fits b"
  shows "\<exists>nb. normalizeBar ovf b cur sc adj pol now = Ret nb \<and> nb_matches b nb \<and> nb_Adjusted nb = adj \<and>
    nb_CurrencyCode nb = cur"
proof -
  define c where "c = (case b_AdjClose b of Some a \<Rightarrow> if adj then a else b_Close b | None \<Rightarrow> b_Close b)"
  have "price_fits c" using assms by (auto simp: c_def bar_fits_def split: option.split)
  then obtain x y z w where r: "ToScaledDecimalWithCurrency ovf (b_Open b) cur = Ret x"
    "ToScaledDecimalWithCurrency ovf (b_High b) cur = Ret y" "ToScaledDecimalWithCurrency ovf (b_Low b) cur = Ret z"
    "ToScaledDecimalWithCurrency ovf c cur = Ret w"
    using assms cents.conv_ex [of _ ovf cur] unfolding bar_fits_def by meson
  show ?thesis using r [THEN ToScaledDecimalWithCurrency_Scale]
    by (simp add: normalizeBar_def c_def [symmetric] r ToUTCDayBoundaries_eq nb_matches_def algebra_simps)
qed

lemma normalizeBar_ordered:
  assumes "bar_fits b" "bar_ok b" "b_AdjClose b = None \<or> \<not> adj"
    and "normalizeBar ovf b cur sc adj pol now = Ret nb"
  shows "nb_ordered nb"
proof -
  have c: "(case b_AdjClose b of Some a \<Rightarrow> if adj then a else b_Close b | None \<Rightarrow> b_Close b) = b_Close b"
    using assms(3) by (auto split: option.split)
  have "price_fits (b_Open b)" "price_fits (b_High b)" "price_fits (b_Low b)" "price_fits (b_Close b)"
    "f_le (b_Low b) (b_Open b)" "f_le (b_Open b) (b_High b)" "f_le (b_Low b) (b_Close b)" "f_le (b_Close b) (b_High b)"
    using assms(1,2) by (simp_all add: bar_fits_def bar_ok_def ohlcv_ok_def)
  then show ?thesis
    by (rule cents.conv_bar [of _ _ _ _ ovf cur])
      (use assms(4) c in \<open>auto simp: normalizeBar_def nb_ordered_def Let_def split: prod.splits\<close>)
qed

lemma normalizeBar_finite:
  assumes "b_AdjClose b = None \<or> adj"
  shows "if bar_finite b
    then \<exists>nb. normalizeBar ovf b cur sc adj pol now = Ret nb \<and> nb_matches b nb \<and> nb_priced ovf cur b nb \<and> nb_Adjusted nb = adj \<and>
      nb_CurrencyCode nb = cur \<and> (bar_ok b \<and> bar_fits b \<and> b_AdjClose b = None \<longrightarrow> nb_ordered nb)
    else \<exists>e. normalizeBar ovf b cur sc adj pol now = Err e"
proof -
  have c: "(case b_AdjClose b of Some a \<Rightarrow> if adj then a else b_Close b | None \<Rightarrow> b_Close b) = used_close b"
    using assms by (auto simp: used_close_def split: option.split)
  show ?thesis
  proof (cases "bar_finite b")
    case True
    have "\<exists>s. ToScaledDecimalWithCurrency ovf p cur = Ret s" if "p \<in> {b_Open b, b_High b, b_Low b, used_close b}" for p
      using True that by (auto simp: bar_finite_def ToScaledDecimalWithCurrency_def ToScaledDecimal_def Let_def)
    then obtain x y z w where r: "ToScaledDecimalWithCurrency ovf (b_Open b) cur = Ret x"
      "ToScaledDecimalWithCurrency ovf (b_High b) cur = Ret y" "ToScaledDecimalWithCurrency ovf (b_Low b) cur = Ret z"
      "ToScaledDecimalWithCurrency ovf (used_close b) cur = Ret w"
      by (meson insertCI)
    have "\<exists>nb. normalizeBar ovf b cur sc adj pol now = Ret nb \<and> nb_matches b nb \<and> nb_priced ovf cur b nb \<and> nb_Adjusted nb = adj \<and>
        nb_CurrencyCode nb = cur"
      using r [THEN ToScaledDecimalWithCurrency_Scale]
      by (simp add: normalizeBar_def c r ToUTCDayBoundaries_eq nb_matches_def nb_priced_def algebra_simps)
    then obtain nb where nb: "normalizeBar ovf b cur sc adj pol now = Ret nb" "nb_matches b nb" "nb_priced ovf cur b nb" "nb_Adjusted nb = adj"
        "nb_CurrencyCode nb = cur" by blast
    then show ?thesis using True normalizeBar_ordered [of b adj, OF _ _ _ nb(1)] by auto
  next
    case False
    then show ?thesis
      by (auto simp: normalizeBar_def c bar_finite_def ToScaledDecimalWithCurrency_def ToScaledDecimal_def Let_def split: prod.split)
  qed
qed

lemma normalize_bars_loop_filter:
  assumes "\<And>b. b \<in> set bars \<Longrightarrow> if P b then \<exists>nb. f b = Ret nb \<and> Q b nb else \<exists>e. f b = Err e"
  shows "list_all2 Q (filter P bars) (normalize_bars_loop f bars)"
  using assms
proof (induction bars)
  case (Cons b bars)
  then have "list_all2 Q (filter P bars) (normalize_bars_loop f bars)" by simp
  then show ?case using Cons.prems [of b] by (auto split: if_splits)
qed simp

lemma CreateSecurity_valid: "s \<noteq> [] \<Longrightarrow> s \<noteq> ''.T'' \<Longrightarrow> ValidateSecurity (CreateSecurity s e f) = Ret ()"
  by (auto simp: CreateSecurity_def ValidateSecurity_def Let_def cleanSymbol_def TrimSuffix_def HasSuffix_def suffix_def)

lemma scale_opt_fits:
  "pred_option price_fits p \<Longrightarrow> \<exists>s. scale_opt ovf f 2 p = Ret s \<and> (s = None \<longleftrightarrow> p = None) \<and>
     (\<forall>x. p = Some x \<longrightarrow> ToScaledDecimalWithCurrency ovf x c = Ret (the s))"
  using cents.conv_ex [of _ ovf c]
  by (cases p) (fastforce simp: scale_opt_def ToScaledDecimalWithCurrency_def)+

text \<open>A sound bar whose adjusted close lies below its low.\<close>

definition sample_bar :: Bar where
  "sample_bar = \<lparr>b_Timestamp = 1704067200, b_Open = Fin 100, b_High = Fin 105, b_Low = Fin 99, b_Close = Fin 104,
     b_Volume = 1000, b_AdjClose = Some (Fin 98)\<rparr>"

text \<open>A slice with a bar that does not normalize, and one without an adjusted close.\<close>

definition mixed_bars :: "Bar list" where
  "mixed_bars = [sample_bar, sample_bar\<lparr>b_High := PInf\<rparr>, sample_bar\<lparr>b_AdjClose := None\<rparr>]"

section \<open>Properties\<close>

text \<open>
  The bar of a timestamp starts at midnight of the UTC day two days before the
  timestamp's and ends, with its event time, at the next midnight, whatever the time of day,
  across month, year and leap boundaries and before 1970.
\<close>

theorem ToUTCDayBoundaries_day:
  "ToUTCDayBoundaries ts = ((ts div 86400 - 2) * day_ns, (ts div 86400 - 1) * day_ns, (ts div 86400 - 1) * day_ns)"
  by (rule ToUTCDayBoundaries_eq)

lemma NormalizeBars_fits:
  assumes "bars \<noteq> []" "list_all bar_fits bars" "cm_Symbol meta \<noteq> []" "cm_Symbol meta \<noteq> ''.T''"
  shows "\<exists>batch. NormalizeBars ovf now bars (Some meta) runID = Ret batch \<and>
    list_all2 nb_matches bars (nbb_Bars batch) \<and>
    list_all (\<lambda>nb. nb_Adjusted nb = (\<exists>b\<in>set bars. b_AdjClose b \<noteq> None) \<and> nb_CurrencyCode nb = cm_Currency meta)
      (nbb_Bars batch) \<and>
    (list_all bar_ok bars \<and> (\<forall>b\<in>set bars. b_AdjClose b = None) \<longrightarrow> list_all nb_ordered (nbb_Bars batch))"
proof -
  define adj where "adj = list_ex (\<lambda>bar. b_AdjClose bar \<noteq> None) bars"
  define pol where "pol = (if adj then ''split_dividend'' else ''raw'')"
  define f where "f = (\<lambda>bar. normalizeBar ovf bar (cm_Currency meta) (GetScaleForCurrency (cm_Currency meta)) adj pol now)"
  have f: "list_all2 (\<lambda>b nb. f b = Ret nb \<and> nb_matches b nb \<and> nb_Adjusted nb = adj \<and> nb_CurrencyCode nb = cm_Currency meta)
      bs (normalize_bars_loop f bs)" if "list_all bar_fits bs" for bs
    using that
  proof (induction bs)
    case (Cons b bs)
    then show ?case using normalizeBar_fits [of b ovf "cm_Currency meta" "GetScaleForCurrency (cm_Currency meta)" adj pol now]
      unfolding f_def by auto
  qed simp
  note l = f [OF assms(2)]
  then have ne: "normalize_bars_loop f bars \<noteq> []" using assms(1) by (auto dest: list_all2_lengthD)
  have r: "NormalizeBars ovf now bars (Some meta) runID = Ret
      \<lparr>nbb_Security = CreateSecurity (cm_Symbol meta) (cm_ExchangeName meta) (cm_ExchangeName meta),
       nbb_Bars = normalize_bars_loop f bars,
       nbb_Meta = \<lparr>mt_RunID = runID, mt_Source = ''yfinance-go'', mt_Producer = ''local'',
                   mt_SchemaVersion = ''ampy.bars.v1:1.0.0''\<rparr>\<rparr>"
    using assms ne unfolding f_def adj_def pol_def
    by (simp add: NormalizeBars_def CreateSecurity_valid Let_def)
  have o: "list_all nb_ordered (normalize_bars_loop f bars)"
    if "list_all bar_ok bars" "\<forall>b\<in>set bars. b_AdjClose b = None"
    unfolding list_all_length
  proof (intro allI impI)
    fix i assume "i < length (normalize_bars_loop f bars)"
    then have i: "bars ! i \<in> set bars" "f (bars ! i) = Ret (normalize_bars_loop f bars ! i)"
      using l by (auto simp: list_all2_conv_all_nth)
    have "normalizeBar ovf (bars ! i) (cm_Currency meta) (GetScaleForCurrency (cm_Currency meta)) adj pol now =
        Ret (normalize_bars_loop f bars ! i)"
      using i(2) unfolding f_def .
    then show "nb_ordered (normalize_bars_loop f bars ! i)"
      by (rule normalizeBar_ordered [rotated 3]) (use i(1) that assms(2) in \<open>auto simp: list_all_iff\<close>)
  qed
  have m: "list_all2 nb_matches bars (normalize_bars_loop f bars)"
    using l by (rule list_all2_mono) simp
  have a: "list_all (\<lambda>nb. nb_Adjusted nb = adj \<and> nb_CurrencyCode nb = cm_Currency meta) (normalize_bars_loop f bars)"
    using l by (auto simp: list_all2_conv_all_nth list_all_length)
  show ?thesis using r o m a by (auto simp: adj_def list_ex_iff)
qed

text \<open>
  C3: For a symbol that is neither empty nor .T, NormalizeBars drops exactly the bars with a
  price that is not finite (open, high, low, or the close that is used: the adjusted one where
  the bar has one) and fails only when no bar is left. The batch has the other bars in order,
  each with the four prices ToScaledDecimalWithCurrency gives, its volume, the currency, the
  adjusted flag of the whole slice, and the UTC day two days before that of its timestamp,
  which ends at the event time; for a validated bar without an adjusted close and with prices
  up to 2^55, low <= open, close <= high still holds between the scaled values.
\<close>

theorem NormalizeBars_complete:
  assumes "cm_Symbol meta \<noteq> []" "cm_Symbol meta \<noteq> ''.T''"
  shows "if list_ex bar_finite bars
    then \<exists>batch. NormalizeBars ovf now bars (Some meta) runID = Ret batch \<and>
      list_all2 (\<lambda>b nb. nb_matches b nb \<and> nb_priced ovf (cm_Currency meta) b nb \<and>
          nb_Adjusted nb = (\<exists>b' \<in> set bars. b_AdjClose b' \<noteq> None) \<and> nb_CurrencyCode nb = cm_Currency meta \<and>
          (bar_ok b \<and> bar_fits b \<and> b_AdjClose b = None \<longrightarrow> nb_ordered nb))
        (filter bar_finite bars) (nbb_Bars batch)
    else \<exists>e. NormalizeBars ovf now bars (Some meta) runID = Err e"
proof -
  define adj where "adj = list_ex (\<lambda>bar. b_AdjClose bar \<noteq> None) bars"
  define pol where "pol = (if adj then ''split_dividend'' else ''raw'')"
  define f where "f = (\<lambda>bar. normalizeBar ovf bar (cm_Currency meta) (GetScaleForCurrency (cm_Currency meta)) adj pol now)"
  have l: "list_all2 (\<lambda>b nb. nb_matches b nb \<and> nb_priced ovf (cm_Currency meta) b nb \<and> nb_Adjusted nb = adj \<and>
      nb_CurrencyCode nb = cm_Currency meta \<and> (bar_ok b \<and> bar_fits b \<and> b_AdjClose b = None \<longrightarrow> nb_ordered nb))
      (filter bar_finite bars) (normalize_bars_loop f bars)"
    unfolding f_def by (rule normalize_bars_loop_filter, rule normalizeBar_finite) (auto simp: adj_def list_ex_iff)
  have r: "NormalizeBars ovf now bars (Some meta) runID =
      (if normalize_bars_loop f bars = [] then Err (Errorf (if bars = [] then ''no bars to normalize'' else ''no valid bars after normalization'') [])
       else Ret \<lparr>nbb_Security = CreateSecurity (cm_Symbol meta) (cm_ExchangeName meta) (cm_ExchangeName meta),
         nbb_Bars = normalize_bars_loop f bars,
         nbb_Meta = \<lparr>mt_RunID = runID, mt_Source = ''yfinance-go'', mt_Producer = ''local'',
                     mt_SchemaVersion = ''ampy.bars.v1:1.0.0''\<rparr>\<rparr>)"
    using assms unfolding f_def adj_def pol_def by (simp add: NormalizeBars_def CreateSecurity_valid Let_def)
  have "normalize_bars_loop f bars = [] \<longleftrightarrow> \<not> list_ex bar_finite bars"
    using list_all2_lengthD [OF l] by (auto simp: list_ex_iff filter_empty_conv)
  then show ?thesis using r l by (simp add: adj_def list_ex_iff)
qed

theorem NormalizeBars_complete_witness:
  "\<exists>batch nb1 nb2. NormalizeBars (\<lambda>_. 0) 0 mixed_bars (Some sample_meta) ''run'' = Ret batch \<and> nbb_Bars batch = [nb1, nb2] \<and>
     nb_Adjusted nb2 \<and> nb_ordered nb2"
proof -
  have "filter bar_finite mixed_bars = [sample_bar, sample_bar\<lparr>b_AdjClose := None\<rparr>]" "list_ex bar_finite mixed_bars"
    by (simp_all add: mixed_bars_def sample_bar_def bar_finite_def used_close_def f_isnan_def)
  moreover have "bar_ok (sample_bar\<lparr>b_AdjClose := None\<rparr>)" "bar_fits (sample_bar\<lparr>b_AdjClose := None\<rparr>)"
    by (simp_all add: sample_bar_def bar_ok_def ohlcv_ok_def price_ok_def bar_fits_def price_fits_def)
  ultimately show ?thesis using NormalizeBars_complete [of sample_meta mixed_bars "\<lambda>_. 0" 0 "''run''"]
    by (auto simp: sample_meta_def list_all2_Cons1 mixed_bars_def sample_bar_def)
qed
text \<open>
  A sound bar with an adjusted close below its low normalizes to a bar whose close is
  below its low: only the close is adjusted, open, high and low stay raw, and the bar is still
  marked adjusted.
\<close>

theorem NormalizeBars_adjusted_close_unordered:
  "bar_ok sample_bar \<and> (\<exists>batch nb. NormalizeBars (\<lambda>_. 0) 0 [sample_bar] (Some sample_meta) ''run'' = Ret batch \<and>
     nbb_Bars batch = [nb] \<and> nb_Adjusted nb \<and> nb_Close nb = mkSD 9800 2 \<and> nb_Low nb = mkSD 9900 2)"
proof -
  note s = ToScaledDecimalWithCurrency_int [of _ "\<lambda>_. 0" "''USD''"]
  note s4 = s [of 98, simplified] s [of 99, simplified] s [of 100, simplified] s [of 104, simplified] s [of 105, simplified]
  show ?thesis
    by (simp add: sample_bar_def bar_ok_def ohlcv_ok_def price_ok_def NormalizeBars_def Let_def normalizeBar_def
        ToUTCDayBoundaries_eq CreateSecurity_valid sample_meta_def s4)
qed

text \<open>
  A validated quote whose prices fit always normalizes, keeps its currency and the
  presence of bid and ask, and its scaled bid never exceeds its scaled ask.
\<close>

theorem NormalizeQuote_ordered:
  assumes "quote_ok r" "q_Symbol (quote_of_result r) \<noteq> ''.T''"
    and "list_all (pred_option price_fits)
      [qr_Bid r, qr_Ask r, qr_RegularMarketPrice r, qr_RegularMarketDayHigh r, qr_RegularMarketDayLow r]"
  shows "\<exists>nq. NormalizeQuote ovf now (quote_of_result r) runID = Ret nq \<and>
    nq_CurrencyCode nq = qr_Currency r \<and> (nq_Bid nq = None \<longleftrightarrow> qr_Bid r = None) \<and> (nq_Ask nq = None \<longleftrightarrow> qr_Ask r = None) \<and>
    (\<forall>bid ask. nq_Bid nq = Some bid \<and> nq_Ask nq = Some ask \<longrightarrow> Scaled bid \<le> Scaled ask \<and> Scale bid = Scale ask)"
proof -
  let ?q = "quote_of_result r" and ?c = "qr_Currency r"
  have n: "qr_Symbol r \<noteq> []" "qr_Currency r \<noteq> []" "qr_Symbol r \<noteq> ''.T''"
    using assms(1,2) by (auto simp: quote_ok_def quote_of_result_def)
  have fit: "pred_option price_fits (qr_Bid r)" "pred_option price_fits (qr_Ask r)"
    "pred_option price_fits (qr_RegularMarketPrice r)" "pred_option price_fits (qr_RegularMarketDayHigh r)"
    "pred_option price_fits (qr_RegularMarketDayLow r)" using assms(3) by simp_all
  note so = scale_opt_fits [of _ ovf _ ?c]
  obtain b where b: "scale_opt ovf ''invalid bid price: %w'' 2 (qr_Bid r) = Ret b" "b = None \<longleftrightarrow> qr_Bid r = None"
    "\<And>x. qr_Bid r = Some x \<Longrightarrow> ToScaledDecimalWithCurrency ovf x ?c = Ret (the b)"
    using so [OF fit(1)] by blast
  obtain a where a: "scale_opt ovf ''invalid ask price: %w'' 2 (qr_Ask r) = Ret a" "a = None \<longleftrightarrow> qr_Ask r = None"
    "\<And>x. qr_Ask r = Some x \<Longrightarrow> ToScaledDecimalWithCurrency ovf x ?c = Ret (the a)"
    using so [OF fit(2)] by blast
  obtain p h l where phl: "scale_opt ovf ''invalid regular market price: %w'' 2 (qr_RegularMarketPrice r) = Ret p"
    "scale_opt ovf ''invalid regular market high: %w'' 2 (qr_RegularMarketDayHigh r) = Ret h"
    "scale_opt ovf ''invalid regular market low: %w'' 2 (qr_RegularMarketDayLow r) = Ret l"
    using so [OF fit(3)] so [OF fit(4)] so [OF fit(5)] by blast
  have o: "Scaled x \<le> Scaled y \<and> Scale x = Scale y" if xy: "b = Some x" "a = Some y" for x y
  proof -
    obtain p q where pq: "qr_Bid r = Some p" "qr_Ask r = Some q" using b(2) a(2) xy by auto
    then have "price_fits p" "price_fits q" "f_le p q" using assms(1,3) by (auto simp: quote_ok_def)
    moreover have "ToScaledDecimalWithCurrency ovf p ?c = Ret x" "ToScaledDecimalWithCurrency ovf q ?c = Ret y"
      using b(3) [OF pq(1)] a(3) [OF pq(2)] xy by simp_all
    ultimately show ?thesis using cents.conv_mono ToScaledDecimalWithCurrency_Scale by metis
  qed
  show ?thesis using n b(1,2) a(1,2) phl o
    by (simp add: NormalizeQuote_def CreateSecurity_valid Let_def quote_of_result_def)
qed

theorem NormalizeQuote_ordered_witness:
  "\<exists>nq bid ask. NormalizeQuote (\<lambda>_. 0) 0 (quote_of_result sample_quote) ''run'' = Ret nq \<and>
    nq_Bid nq = Some bid \<and> nq_Ask nq = Some ask \<and> Scaled bid \<le> Scaled ask"
proof -
  have "quote_ok sample_quote" by (simp add: sample_quote_def quote_ok_def price_ok_def)
  moreover have "q_Symbol (quote_of_result sample_quote) \<noteq> ''.T''" by (simp add: sample_quote_def quote_of_result_def)
  moreover have "list_all (pred_option price_fits) [qr_Bid sample_quote, qr_Ask sample_quote,
      qr_RegularMarketPrice sample_quote, qr_RegularMarketDayHigh sample_quote, qr_RegularMarketDayLow sample_quote]"
    by (simp add: sample_quote_def price_fits_def)
  ultimately obtain nq where nq: "NormalizeQuote (\<lambda>_. 0) 0 (quote_of_result sample_quote) ''run'' = Ret nq"
    "nq_Bid nq \<noteq> None" "nq_Ask nq \<noteq> None"
    "\<forall>bid ask. nq_Bid nq = Some bid \<and> nq_Ask nq = Some ask \<longrightarrow> Scaled bid \<le> Scaled ask \<and> Scale bid = Scale ask"
    using NormalizeQuote_ordered [of sample_quote "\<lambda>_. 0" 0 "''run''"] by (auto simp: sample_quote_def)
  then show ?thesis by blast
qed

end
