(* ===== verification/Fundamentals.thy ===== *)
theory Fundamentals
  imports Normalize
begin

text \<open>
  Quarterly financial statements: the response of \<^verbatim>\<open>internal/yahoo/fundamentals.go\<close> and its
  normalization, \<^verbatim>\<open>internal/norm/fundamentals.go\<close>.
\<close>

section \<open>Model\<close>

record DateValue =
  dv_Raw :: int64
  dv_Fmt :: string

record Value =
  v_Raw :: "int64 option"
  v_Fmt :: "string option"
  v_LongFmt :: "string option"

record IncomeStatement =
  is_MaxAge :: int64
  is_EndDate :: DateValue
  is_TotalRevenue :: "Value option"
  is_CostOfRevenue :: "Value option"
  is_GrossProfit :: "Value option"
  is_ResearchDevelopment :: "Value option"
  is_SellingGeneralAdministrative :: "Value option"
  is_TotalOperatingExpenses :: "Value option"
  is_OperatingIncome :: "Value option"
  is_TotalOtherIncomeExpenseNet :: "Value option"
  is_EBIT :: "Value option"
  is_InterestExpense :: "Value option"
  is_IncomeBeforeTax :: "Value option"
  is_IncomeTaxExpense :: "Value option"
  is_NetIncome :: "Value option"
  is_NetIncomeCommonStockholders :: "Value option"
  is_EPS :: "Value option"
  is_EPSDiluted :: "Value option"
  is_WeightedAverageShares :: "Value option"
  is_WeightedAverageSharesDiluted :: "Value option"

record BalanceSheet =
  bs_MaxAge :: int64
  bs_EndDate :: DateValue
  bs_Cash :: "Value option"
  bs_ShortTermInvestments :: "Value option"
  bs_NetReceivables :: "Value option"
  bs_Inventory :: "Value option"
  bs_OtherCurrentAssets :: "Value option"
  bs_TotalCurrentAssets :: "Value option"
  bs_LongTermInvestments :: "Value option"
  bs_PropertyPlantEquipment :: "Value option"
  bs_OtherAssets :: "Value option"
  bs_TotalAssets :: "Value option"
  bs_AccountsPayable :: "Value option"
  bs_ShortLongTermDebt :: "Value option"
  bs_OtherCurrentLiab :: "Value option"
  bs_LongTermDebt :: "Value option"
  bs_OtherLiab :: "Value option"
  bs_TotalCurrentLiabilities :: "Value option"
  bs_TotalLiab :: "Value option"
  bs_CommonStock :: "Value option"
  bs_RetainedEarnings :: "Value option"
  bs_TreasuryStock :: "Value option"
  bs_OtherStockholderEquity :: "Value option"
  bs_TotalStockholderEquity :: "Value option"
  bs_NetTangibleAssets :: "Value option"

record CashflowStatement =
  cs_MaxAge :: int64
  cs_EndDate :: DateValue
  cs_Investments :: "Value option"
  cs_ChangeToLiabilities :: "Value option"
  cs_TotalCashflowsFromInvestingActivities :: "Value option"
  cs_NetBorrowings :: "Value option"
  cs_TotalCashFromFinancingActivities :: "Value option"
  cs_ChangeToOperatingActivities :: "Value option"
  cs_NetIncome :: "Value option"
  cs_ChangeInCash :: "Value option"
  cs_BeginPeriodCashFlow :: "Value option"
  cs_EndPeriodCashFlow :: "Value option"
  cs_TotalCashFromOperatingActivities :: "Value option"
  cs_Depreciation :: "Value option"
  cs_OtherCashflowsFromInvestingActivities :: "Value option"
  cs_DividendsPaid :: "Value option"
  cs_ChangeToInventory :: "Value option"
  cs_ChangeToAccountReceivables :: "Value option"
  cs_SalePurchaseOfStock :: "Value option"
  cs_OtherCashflowsFromFinancingActivities :: "Value option"
  cs_ChangeToNetincome :: "Value option"
  cs_CapitalExpenditures :: "Value option"
  cs_ChangeReceivables :: "Value option"
  cs_CashFlowsOtherOperating :: "Value option"
  cs_ExchangeRateChanges :: "Value option"
  cs_CashAndCashEquivalentsChanges :: "Value option"
  cs_ChangeInWorkingCapital :: "Value option"

record FundamentalsResult =
  fr_Income :: "IncomeStatement list option"
  fr_Balance :: "BalanceSheet list option"
  fr_Cashflow :: "CashflowStatement list option"

record QuoteSummary =
  qs_Result :: "FundamentalsResult list"
  qs_Error :: "string option"

record FundamentalsResponse =
  fp_QuoteSummary :: QuoteSummary

record Fundamentals =
  f_IncomeStatements :: "IncomeStatement list"
  f_BalanceSheets :: "BalanceSheet list"
  f_CashflowStatements :: "CashflowStatement list"

text \<open>\<^verbatim>\<open>v != nil && v.Raw != nil\<close>, with the number when both hold.\<close>

definition raw_of :: "Value option \<Rightarrow> int64 option" where
  "raw_of v = (case v of None \<Rightarrow> None | Some x \<Rightarrow> v_Raw x)"

definition validateFinancialValue :: "int64 \<Rightarrow> unit go" where
  "validateFinancialValue value = Ret ()"

definition validate_raw :: "string \<Rightarrow> Value option \<Rightarrow> unit go" where
  "validate_raw f v = (case raw_of v of None \<Rightarrow> Ret () | Some r \<Rightarrow> go_wrap f [] (validateFinancialValue r))"

definition IncomeStatement_Validate :: "IncomeStatement \<Rightarrow> unit go" where
  "IncomeStatement_Validate s =
     go_bind (go_guard (dv_Raw (is_EndDate s) = 0) (Errorf ''missing end date'' [])) (\<lambda>_.
     go_bind (validate_raw ''total revenue: %w'' (is_TotalRevenue s)) (\<lambda>_.
     go_bind (validate_raw ''net income: %w'' (is_NetIncome s)) (\<lambda>_.
     validate_raw ''EPS: %w'' (is_EPS s))))"

definition BalanceSheet_Validate :: "BalanceSheet \<Rightarrow> unit go" where
  "BalanceSheet_Validate s =
     go_bind (go_guard (dv_Raw (bs_EndDate s) = 0) (Errorf ''missing end date'' [])) (\<lambda>_.
     go_bind (validate_raw ''total assets: %w'' (bs_TotalAssets s)) (\<lambda>_.
     validate_raw ''total liabilities: %w'' (bs_TotalLiab s)))"

definition CashflowStatement_Validate :: "CashflowStatement \<Rightarrow> unit go" where
  "CashflowStatement_Validate s =
     go_bind (go_guard (dv_Raw (cs_EndDate s) = 0) (Errorf ''missing end date'' [])) (\<lambda>_.
     validate_raw ''net income: %w'' (cs_NetIncome s))"

definition IncomeStatementHistory_Validate :: "IncomeStatement list \<Rightarrow> unit go" where
  "IncomeStatementHistory_Validate h =
     go_bind (go_guard (length h = 0) (Errorf ''no income statements found'' [])) (\<lambda>_.
     go_iter (\<lambda>i stmt. go_wrap ''income statement[%d]: %w'' [AInt (int i)] (IncomeStatement_Validate stmt)) 0 h)"

definition BalanceSheetHistory_Validate :: "BalanceSheet list \<Rightarrow> unit go" where
  "BalanceSheetHistory_Validate h =
     go_bind (go_guard (length h = 0) (Errorf ''no balance sheets found'' [])) (\<lambda>_.
     go_iter (\<lambda>i sheet. go_wrap ''balance sheet[%d]: %w'' [AInt (int i)] (BalanceSheet_Validate sheet)) 0 h)"

definition CashflowStatementHistory_Validate :: "CashflowStatement list \<Rightarrow> unit go" where
  "CashflowStatementHistory_Validate h =
     go_bind (go_guard (length h = 0) (Errorf ''no cashflow statements found'' [])) (\<lambda>_.
     go_iter (\<lambda>i stmt. go_wrap ''cashflow statement[%d]: %w'' [AInt (int i)] (CashflowStatement_Validate stmt)) 0 h)"

definition validate_history :: "string \<Rightarrow> ('a \<Rightarrow> unit go) \<Rightarrow> 'a option \<Rightarrow> unit go" where
  "validate_history f validate h = (case h of None \<Rightarrow> Ret () | Some x \<Rightarrow> go_wrap f [] (validate x))"

definition FundamentalsResult_Validate :: "FundamentalsResult \<Rightarrow> unit go" where
  "FundamentalsResult_Validate r =
     go_bind (go_guard (fr_Income r = None \<and> fr_Balance r = None \<and> fr_Cashflow r = None)
       (Errorf ''no financial statements found'' [])) (\<lambda>_.
     go_bind (validate_history ''income statement: %w'' IncomeStatementHistory_Validate (fr_Income r)) (\<lambda>_.
     go_bind (validate_history ''balance sheet: %w'' BalanceSheetHistory_Validate (fr_Balance r)) (\<lambda>_.
     validate_history ''cashflow statement: %w'' CashflowStatementHistory_Validate (fr_Cashflow r))))"

definition FundamentalsResponse_Validate :: "FundamentalsResponse \<Rightarrow> unit go" where
  "FundamentalsResponse_Validate r =
     (case qs_Error (fp_QuoteSummary r) of
        Some e \<Rightarrow> Err (Errorf ''yahoo finance error: %s'' [AStr e])
      | None \<Rightarrow>
          go_bind (go_guard (length (qs_Result (fp_QuoteSummary r)) = 0) (Errorf ''no fundamentals results found'' [])) (\<lambda>_.
          go_iter (\<lambda>i result. go_wrap ''result[%d]: %w'' [AInt (int i)] (FundamentalsResult_Validate result))
            0 (qs_Result (fp_QuoteSummary r))))"

definition DecodeFundamentalsResponse :: "('j \<Rightarrow> FundamentalsResponse go) \<Rightarrow> 'j \<Rightarrow> FundamentalsResponse go" where
  "DecodeFundamentalsResponse decode data =
     go_bind (go_wrap ''failed to decode fundamentals response: %w'' [] (decode data)) (\<lambda>response.
     go_bind (go_wrap ''invalid fundamentals response: %w'' [] (FundamentalsResponse_Validate response)) (\<lambda>_.
     Ret response))"

definition DecodeFundamentalsResponseFromReader ::
  "('j \<Rightarrow> FundamentalsResponse go) \<Rightarrow> 'j \<Rightarrow> FundamentalsResponse go" where
  "DecodeFundamentalsResponseFromReader decode reader =
     go_bind (go_wrap ''failed to decode fundamentals response: %w'' [] (decode reader)) (\<lambda>response.
     go_bind (go_wrap ''invalid fundamentals response: %w'' [] (FundamentalsResponse_Validate response)) (\<lambda>_.
     Ret response))"

definition GetFundamentals :: "FundamentalsResponse \<Rightarrow> Fundamentals go" where
  "GetFundamentals r =
     (case qs_Result (fp_QuoteSummary r) of
        [] \<Rightarrow> Err (Errorf ''no fundamentals results'' [])
      | result # _ \<Rightarrow> Ret
          \<lparr>f_IncomeStatements = (case fr_Income result of None \<Rightarrow> [] | Some h \<Rightarrow> h),
           f_BalanceSheets = (case fr_Balance result of None \<Rightarrow> [] | Some h \<Rightarrow> h),
           f_CashflowStatements = (case fr_Cashflow result of None \<Rightarrow> [] | Some h \<Rightarrow> h)\<rparr>)"

record NormalizedFundamentalsLine =
  fl_Key :: string
  fl_Value :: ScaledDecimal
  fl_CurrencyCode :: string
  fl_PeriodStart :: instant
  fl_PeriodEnd :: instant

record NormalizedFundamentalsSnapshot =
  fs_Security :: Security
  fs_Lines :: "NormalizedFundamentalsLine list"
  fs_Source :: string
  fs_AsOf :: instant
  fs_Meta :: Meta

definition createFundamentalsLine ::
  "(f64 \<Rightarrow> int) \<Rightarrow> string \<Rightarrow> int64 \<Rightarrow> string \<Rightarrow> instant \<Rightarrow> instant \<Rightarrow> NormalizedFundamentalsLine go" where
  "createFundamentalsLine ovf key val currency periodStart periodEnd =
     go_bind (go_guard (key = []) (Errorf ''key cannot be empty'' [])) (\<lambda>_.
     go_bind (go_guard (currency = []) (Errorf ''currency cannot be empty'' [])) (\<lambda>_.
     go_bind (go_guard (periodEnd < periodStart) (Errorf ''period start cannot be after period end'' [])) (\<lambda>_.
     go_bind (if key = ''eps_basic'' then Ret (mkSD val 2)
              else go_wrap ''invalid value for %s: %w'' [AStr key] (ToScaledDecimal ovf (f_of_int val) 2)) (\<lambda>scaled.
     Ret \<lparr>fl_Key = key, fl_Value = scaled, fl_CurrencyCode = currency, fl_PeriodStart = periodStart,
          fl_PeriodEnd = periodEnd\<rparr>))))"

definition convertDateToPeriod :: "instant \<Rightarrow> DateValue \<Rightarrow> instant \<times> instant" where
  "convertDateToPeriod now dateValue =
     (if dv_Raw dateValue \<noteq> 0 then
        let periodEnd = time_Unix (dv_Raw dateValue) 0 in (AddDate periodEnd 0 (- 3) 0, periodEnd)
      else let periodEnd = now in (AddDate periodEnd 0 (- 3) 0, periodEnd))"

text \<open>
  \<^verbatim>\<open>if v != nil && v.Raw != nil { line, err := createFundamentalsLine(key, ...); if err == nil { lines =
  append(lines, line) } }\<close>.
\<close>

definition add_line ::
  "(f64 \<Rightarrow> int) \<Rightarrow> instant \<times> instant \<Rightarrow> string \<Rightarrow> Value option \<Rightarrow> NormalizedFundamentalsLine list \<Rightarrow>
   NormalizedFundamentalsLine list" where
  "add_line ovf p key v lines =
     (case raw_of v of None \<Rightarrow> lines
      | Some r \<Rightarrow> (case createFundamentalsLine ovf key r ''USD'' (fst p) (snd p) of Ret line \<Rightarrow> lines @ [line] | _ \<Rightarrow> lines))"

definition normalizeIncomeStatement ::
  "(f64 \<Rightarrow> int) \<Rightarrow> instant \<Rightarrow> IncomeStatement \<Rightarrow> NormalizedFundamentalsLine list go" where
  "normalizeIncomeStatement ovf now stmt =
     (let p = convertDateToPeriod now (is_EndDate stmt);
          l1 = add_line ovf p ''revenue'' (is_TotalRevenue stmt) [];
          l2 = add_line ovf p ''net_income'' (is_NetIncome stmt) l1
      in Ret (add_line ovf p ''eps_basic'' (is_EPS stmt) l2))"

definition normalizeBalanceSheet ::
  "(f64 \<Rightarrow> int) \<Rightarrow> instant \<Rightarrow> BalanceSheet \<Rightarrow> NormalizedFundamentalsLine list go" where
  "normalizeBalanceSheet ovf now sheet =
     (let p = convertDateToPeriod now (bs_EndDate sheet);
          l1 = add_line ovf p ''total_assets'' (bs_TotalAssets sheet) [];
          l2 = add_line ovf p ''total_liabilities'' (bs_TotalLiab sheet) l1
      in Ret (add_line ovf p ''total_equity'' (bs_TotalStockholderEquity sheet) l2))"

definition normalizeCashflowStatement ::
  "(f64 \<Rightarrow> int) \<Rightarrow> instant \<Rightarrow> CashflowStatement \<Rightarrow> NormalizedFundamentalsLine list go" where
  "normalizeCashflowStatement ovf now stmt =
     (let p = convertDateToPeriod now (cs_EndDate stmt);
          l1 = add_line ovf p ''net_income'' (cs_NetIncome stmt) []
      in Ret (add_line ovf p ''operating_cashflow'' (cs_TotalCashFromOperatingActivities stmt) l1))"

text \<open>The three loops of \<^verbatim>\<open>NormalizeFundamentals\<close>: the lines of each statement are appended, an error skips it.\<close>

fun append_lines :: "('s \<Rightarrow> NormalizedFundamentalsLine list go) \<Rightarrow> NormalizedFundamentalsLine list \<Rightarrow> 's list \<Rightarrow>
   NormalizedFundamentalsLine list" where
  "append_lines f lines [] = lines"
| "append_lines f lines (s # ss) = (case f s of Ret ls \<Rightarrow> append_lines f (lines @ ls) ss | _ \<Rightarrow> append_lines f lines ss)"

definition NormalizeFundamentals ::
  "(f64 \<Rightarrow> int) \<Rightarrow> instant \<Rightarrow> Fundamentals option \<Rightarrow> string \<Rightarrow> string \<Rightarrow> NormalizedFundamentalsSnapshot go" where
  "NormalizeFundamentals ovf now fundamentals symbol runID =
     (case fundamentals of None \<Rightarrow> Err (Errorf ''no fundamentals data'' [])
      | Some fu \<Rightarrow>
          let security = \<lparr>Symbol = symbol, MIC = []\<rparr> in
          go_bind (go_wrap ''invalid security: %w'' [] (ValidateSecurity security)) (\<lambda>_.
          let l1 = append_lines (normalizeIncomeStatement ovf now) [] (f_IncomeStatements fu);
              l2 = append_lines (normalizeBalanceSheet ovf now) l1 (f_BalanceSheets fu);
              lines = append_lines (normalizeCashflowStatement ovf now) l2 (f_CashflowStatements fu)
          in if length lines = 0 then Err (Errorf ''no valid fundamentals lines found'' [])
             else Ret \<lparr>fs_Security = security, fs_Lines = lines, fs_Source = ''yfinance'',
                       fs_AsOf = time_Date 2025 8 1 0,
                       fs_Meta = \<lparr>mt_RunID = runID, mt_Source = ''yfinance-go'', mt_Producer = ''local'',
                                  mt_SchemaVersion = ''ampy.fundamentals.v1:1.0.0''\<rparr>\<rparr>))"

section \<open>Lemmas\<close>

text \<open>The values present in the statements, in the order of the normalizer, with their key and end date.\<close>

definition present :: "DateValue \<Rightarrow> (string \<times> Value option) list \<Rightarrow> (string \<times> int64 \<times> int64) list" where
  "present d kvs = List.map_filter (\<lambda>(k, v). map_option (\<lambda>r. (k, dv_Raw d, r)) (raw_of v)) kvs"

definition income_values :: "IncomeStatement \<Rightarrow> (string \<times> int64 \<times> int64) list" where
  "income_values s = present (is_EndDate s)
     [(''revenue'', is_TotalRevenue s), (''net_income'', is_NetIncome s), (''eps_basic'', is_EPS s)]"

definition balance_values :: "BalanceSheet \<Rightarrow> (string \<times> int64 \<times> int64) list" where
  "balance_values s = present (bs_EndDate s)
     [(''total_assets'', bs_TotalAssets s), (''total_liabilities'', bs_TotalLiab s),
      (''total_equity'', bs_TotalStockholderEquity s)]"

definition cashflow_values :: "CashflowStatement \<Rightarrow> (string \<times> int64 \<times> int64) list" where
  "cashflow_values s = present (cs_EndDate s)
     [(''net_income'', cs_NetIncome s), (''operating_cashflow'', cs_TotalCashFromOperatingActivities s)]"

definition fundamentals_values :: "Fundamentals \<Rightarrow> (string \<times> int64 \<times> int64) list" where
  "fundamentals_values fu = concat (map income_values (f_IncomeStatements fu)) @
     concat (map balance_values (f_BalanceSheets fu)) @ concat (map cashflow_values (f_CashflowStatements fu))"

text \<open>The line of a value: key, quarter of 89 to 92 days that ends on the date, and the scaled value.\<close>

definition quarter_before :: "instant \<Rightarrow> instant \<Rightarrow> bool" where
  "quarter_before s e \<longleftrightarrow> (\<exists>days \<in> {89..92}. s = e - days * day_ns)"

text \<open>A hundred times an integer: exactly while a float holds the product, with an error of one part in \<open>2 ^ 51\<close> beyond.\<close>

definition hundredfold :: "int \<Rightarrow> int \<Rightarrow> bool" where
  "hundredfold r n \<longleftrightarrow> (\<bar>r * 100\<bar> < 2 ^ 53 \<longrightarrow> n = r * 100) \<and> (\<bar>r\<bar> \<le> 2 ^ 55 \<longrightarrow> \<bar>n - r * 100\<bar> \<le> \<bar>r * 100\<bar> div 2 ^ 51)"

definition line_matches :: "instant \<Rightarrow> string \<times> int64 \<times> int64 \<Rightarrow> NormalizedFundamentalsLine \<Rightarrow> bool" where
  "line_matches now = (\<lambda>(k, d, r) l. fl_Key l = k \<and> fl_CurrencyCode l = ''USD'' \<and>
     fl_PeriodEnd l = (if d = 0 then now else time_Unix d 0) \<and>
     quarter_before (fl_PeriodStart l) (fl_PeriodEnd l) \<and> Scale (fl_Value l) = 2 \<and>
     (k = ''eps_basic'' \<longrightarrow> Scaled (fl_Value l) = r) \<and>
     (k \<noteq> ''eps_basic'' \<longrightarrow> hundredfold r (Scaled (fl_Value l))))"

lemma ToScaledDecimal_2: "ToScaledDecimal ovf p 2 = ToScaledDecimalWithCurrency ovf p c"
  by (simp add: ToScaledDecimalWithCurrency_def)

lemma scaled_of_hundredfold:
  assumes "\<bar>r\<bar> \<le> 2 ^ 55"
  shows "hundredfold r (scaled_of (round_rat (of_int r)))"
proof -
  let ?n = "scaled_of (round_rat (of_int r))"
  have small: "?n = r * 100" if "\<bar>r * 100\<bar> < 2 ^ 53"
  proof -
    have "round_rat (of_int r) = of_int r" using that by (intro round_rat_of_int) (simp add: abs_mult)
    moreover have "round_rat (of_int (r * 100)) = of_int (r * 100)" using that by (rule round_rat_of_int)
    ultimately show ?thesis by (simp add: scaled_of_def) (metis of_int_mult of_int_numeral round_away_of_int)
  qed
  have "\<bar>?n - r * 100\<bar> \<le> \<bar>r * 100\<bar> div 2 ^ 51" if large: "2 ^ 53 \<le> \<bar>r * 100\<bar>"
  proof -
    have "1 \<le> \<bar>r\<bar>" using large by (simp add: abs_mult)
    note e = scaled_of_error [OF this]
    have l: "2 ^ 53 \<le> \<bar>rat_of_int r * 100\<bar>" using large
      by (metis (mono_tags, lifting) of_int_abs of_int_le_iff of_int_mult of_int_numeral of_int_power)
    have "\<bar>rat_of_int r * 100\<bar> / 2 ^ 52 + \<bar>rat_of_int r * 100\<bar> / 2 ^ 106 + 1/2 \<le> \<bar>rat_of_int r * 100\<bar> / 2 ^ 51"
      using l by (simp add: field_simps)
    with e have "\<bar>rat_of_int (?n - r * 100)\<bar> \<le> \<bar>rat_of_int r * 100\<bar> / 2 ^ 51" by simp
    then have "rat_of_int (\<bar>?n - r * 100\<bar> * 2 ^ 51) \<le> rat_of_int \<bar>r * 100\<bar>"
      by (simp add: field_simps)
    then have "\<bar>?n - r * 100\<bar> * 2 ^ 51 \<le> \<bar>r * 100\<bar>" by (simp only: of_int_le_iff)
    then have "\<bar>?n - r * 100\<bar> * 2 ^ 51 div 2 ^ 51 \<le> \<bar>r * 100\<bar> div 2 ^ 51" by (rule zdiv_mono1) simp
    then show ?thesis by simp
  qed
  then show ?thesis using small unfolding hundredfold_def by (cases "\<bar>r * 100\<bar> < 2 ^ 53") auto
qed

lemma ToScaledDecimal_hundredfold:
  assumes "is_int64 r"
  shows "\<exists>v. ToScaledDecimal ovf (f_of_int r) 2 = Ret v \<and> Scale v = 2 \<and> hundredfold r (Scaled v)"
proof (cases "\<bar>r\<bar> \<le> 2 ^ 55")
  case True
  have "\<bar>rat_of_int r\<bar> \<le> 2 ^ 55" using True by (metis of_int_abs of_int_le_iff of_int_numeral of_int_power)
  then have "ToScaledDecimal ovf (f_of_int r) 2 = Ret (mkSD (scaled_of (round_rat (of_int r))) 2)"
    using round_rat_abs_le_pow2 [of "of_int r" 55]
    by (simp add: f_of_int_int64 [OF assms] ToScaledDecimal_2 [of _ _ "''USD''"] ToScaledDecimalWithCurrency_Fin)
  then show ?thesis using scaled_of_hundredfold [OF True] by simp
next
  case False
  then have "\<not> \<bar>r * 100\<bar> < 2 ^ 53" by (simp add: abs_mult)
  then show ?thesis using False by (simp add: f_of_int_int64 [OF assms] ToScaledDecimal_def Let_def hundredfold_def)
qed
lemma createFundamentalsLine_ok:
  assumes "key \<noteq> []" "is_int64 r" "e = (if d = 0 then now else time_Unix d 0)" "s = AddDate e 0 (- 3) 0"
  shows "\<exists>l. createFundamentalsLine ovf key r ''USD'' s e = Ret l \<and> line_matches now (key, d, r) l"
proof -
  have k: "quarter_before s e" using AddDate_quarter [of e] assms(4) by (simp add: quarter_before_def)
  then have le: "s \<le> e" by (auto simp: quarter_before_def day_ns_def)
  show ?thesis using ToScaledDecimal_hundredfold [OF assms(2), of ovf] k le assms(1,3) by (auto simp: createFundamentalsLine_def line_matches_def)
qed

lemma add_line_eq:
  assumes "key \<noteq> []" "\<And>r. raw_of v = Some r \<Longrightarrow> is_int64 r"
  shows "\<exists>ls. add_line ovf (convertDateToPeriod now d) key v lines = lines @ ls \<and>
    list_all2 (line_matches now) (present d [(key, v)]) ls"
proof (cases "raw_of v")
  case (Some r)
  let ?e = "if dv_Raw d = 0 then now else time_Unix (dv_Raw d) 0"
  have p: "convertDateToPeriod now d = (AddDate ?e 0 (- 3) 0, ?e)" by (simp add: convertDateToPeriod_def Let_def)
  show ?thesis
    using createFundamentalsLine_ok [OF assms(1) assms(2) [OF Some], of ?e "dv_Raw d" now "AddDate ?e 0 (- 3) 0" ovf] Some
    unfolding p by (auto simp: add_line_def present_def map_filter_simps)
qed (simp add: add_line_def present_def map_filter_simps)

lemma present_Cons: "present d (kv # kvs) = present d [kv] @ present d kvs"
  by (simp add: present_def map_filter_simps split: prod.split option.split)

text \<open>Every number a decoder stores in an \<^verbatim>\<open>int64\<close> field is in range.\<close>

definition raw_int64 :: "Value option \<Rightarrow> bool" where
  "raw_int64 v = pred_option is_int64 (raw_of v)"

definition values_int64 :: "Fundamentals \<Rightarrow> bool" where
  "values_int64 fu \<longleftrightarrow>
     list_all (\<lambda>s. raw_int64 (is_TotalRevenue s) \<and> raw_int64 (is_NetIncome s) \<and> raw_int64 (is_EPS s)) (f_IncomeStatements fu) \<and>
     list_all (\<lambda>s. raw_int64 (bs_TotalAssets s) \<and> raw_int64 (bs_TotalLiab s) \<and> raw_int64 (bs_TotalStockholderEquity s))
       (f_BalanceSheets fu) \<and>
     list_all (\<lambda>s. raw_int64 (cs_NetIncome s) \<and> raw_int64 (cs_TotalCashFromOperatingActivities s)) (f_CashflowStatements fu)"

text \<open>One value after another, starting from the lines already there.\<close>

fun add_lines :: "(f64 \<Rightarrow> int) \<Rightarrow> instant \<times> instant \<Rightarrow> (string \<times> Value option) list \<Rightarrow>
    NormalizedFundamentalsLine list \<Rightarrow> NormalizedFundamentalsLine list" where
  "add_lines ovf p [] lines = lines"
| "add_lines ovf p ((k, v) # kvs) lines = add_lines ovf p kvs (add_line ovf p k v lines)"

lemma add_lines_eq:
  assumes "list_all (\<lambda>(k, v). k \<noteq> [] \<and> raw_int64 v) kvs"
  shows "\<exists>ls. add_lines ovf (convertDateToPeriod now d) kvs lines = lines @ ls \<and>
    list_all2 (line_matches now) (present d kvs) ls"
  using assms
proof (induction kvs arbitrary: lines)
  case (Cons kv kvs)
  obtain k v where kv: "kv = (k, v)" by (cases kv)
  then obtain l1 where l1: "add_line ovf (convertDateToPeriod now d) k v lines = lines @ l1"
      "list_all2 (line_matches now) (present d [(k, v)]) l1"
    using add_line_eq [of k v ovf now d lines] Cons.prems by (auto simp: raw_int64_def option.pred_set)
  obtain l2 where l2: "add_lines ovf (convertDateToPeriod now d) kvs (lines @ l1) = (lines @ l1) @ l2"
      "list_all2 (line_matches now) (present d kvs) l2"
    using Cons.IH [of "lines @ l1"] Cons.prems by auto
  show ?case unfolding kv present_Cons [of d "(k, v)" kvs] using l1 l2 by (auto intro: list_all2_appendI)
qed (simp add: present_def map_filter_simps)

lemma statement_lines:
  assumes "raw_int64 (is_TotalRevenue s)" "raw_int64 (is_NetIncome s)" "raw_int64 (is_EPS s)"
  shows "\<exists>ls. normalizeIncomeStatement ovf now s = Ret ls \<and> list_all2 (line_matches now) (income_values s) ls"
  using add_lines_eq [of "[(''revenue'', is_TotalRevenue s), (''net_income'', is_NetIncome s), (''eps_basic'', is_EPS s)]"
      ovf now "is_EndDate s" "[]"] assms
  by (simp add: normalizeIncomeStatement_def income_values_def Let_def)

lemma sheet_lines:
  assumes "raw_int64 (bs_TotalAssets s)" "raw_int64 (bs_TotalLiab s)" "raw_int64 (bs_TotalStockholderEquity s)"
  shows "\<exists>ls. normalizeBalanceSheet ovf now s = Ret ls \<and> list_all2 (line_matches now) (balance_values s) ls"
  using add_lines_eq [of "[(''total_assets'', bs_TotalAssets s), (''total_liabilities'', bs_TotalLiab s),
      (''total_equity'', bs_TotalStockholderEquity s)]" ovf now "bs_EndDate s" "[]"] assms
  by (simp add: normalizeBalanceSheet_def balance_values_def Let_def)

lemma cashflow_lines:
  assumes "raw_int64 (cs_NetIncome s)" "raw_int64 (cs_TotalCashFromOperatingActivities s)"
  shows "\<exists>ls. normalizeCashflowStatement ovf now s = Ret ls \<and> list_all2 (line_matches now) (cashflow_values s) ls"
  using add_lines_eq [of "[(''net_income'', cs_NetIncome s), (''operating_cashflow'', cs_TotalCashFromOperatingActivities s)]"
      ovf now "cs_EndDate s" "[]"] assms
  by (simp add: normalizeCashflowStatement_def cashflow_values_def Let_def)

lemma append_lines_eq:
  assumes "\<And>s. s \<in> set ss \<Longrightarrow> \<exists>ls. f s = Ret ls \<and> list_all2 P (g s) ls"
  shows "\<exists>ls. append_lines f lines ss = lines @ ls \<and> list_all2 P (concat (map g ss)) ls"
  using assms
proof (induction ss arbitrary: lines)
  case (Cons s ss)
  obtain l1 where l1: "f s = Ret l1" "list_all2 P (g s) l1" using Cons.prems by auto
  obtain l2 where "append_lines f (lines @ l1) ss = (lines @ l1) @ l2" "list_all2 P (concat (map g ss)) l2"
    using Cons.IH [of "lines @ l1"] Cons.prems by auto
  then show ?case using l1 by (auto intro: list_all2_appendI)
qed simp

lemma all_lines:
  assumes "values_int64 fu"
  shows "\<exists>ls. append_lines (normalizeCashflowStatement ovf now) (append_lines (normalizeBalanceSheet ovf now)
      (append_lines (normalizeIncomeStatement ovf now) [] (f_IncomeStatements fu)) (f_BalanceSheets fu))
      (f_CashflowStatements fu) = ls \<and> list_all2 (line_matches now) (fundamentals_values fu) ls"
proof -
  obtain l1 where l1: "append_lines (normalizeIncomeStatement ovf now) [] (f_IncomeStatements fu) = l1"
      "list_all2 (line_matches now) (concat (map income_values (f_IncomeStatements fu))) l1"
    using append_lines_eq [of "f_IncomeStatements fu" "normalizeIncomeStatement ovf now" "line_matches now" income_values "[]"]
      statement_lines assms by (auto simp: values_int64_def list_all_iff)
  obtain l2 where l2: "append_lines (normalizeBalanceSheet ovf now) l1 (f_BalanceSheets fu) = l1 @ l2"
      "list_all2 (line_matches now) (concat (map balance_values (f_BalanceSheets fu))) l2"
    using append_lines_eq [of "f_BalanceSheets fu" "normalizeBalanceSheet ovf now" "line_matches now" balance_values l1]
      sheet_lines assms by (auto simp: values_int64_def list_all_iff)
  obtain l3 where l3: "append_lines (normalizeCashflowStatement ovf now) (l1 @ l2) (f_CashflowStatements fu) = (l1 @ l2) @ l3"
      "list_all2 (line_matches now) (concat (map cashflow_values (f_CashflowStatements fu))) l3"
    using append_lines_eq [of "f_CashflowStatements fu" "normalizeCashflowStatement ovf now" "line_matches now"
      cashflow_values "l1 @ l2"] cashflow_lines assms by (auto simp: values_int64_def list_all_iff)
  show ?thesis using l1 l2 l3 by (auto simp: fundamentals_values_def intro!: list_all2_appendI)
qed

lemma NormalizeFundamentals_cases:
  assumes "symbol \<noteq> []" "values_int64 fu"
  shows "if fundamentals_values fu = [] then
      NormalizeFundamentals ovf now (Some fu) symbol runID = Err (Errorf ''no valid fundamentals lines found'' [])
    else \<exists>snap. NormalizeFundamentals ovf now (Some fu) symbol runID = Ret snap \<and>
      list_all2 (line_matches now) (fundamentals_values fu) (fs_Lines snap) \<and> fs_AsOf snap = time_Date 2025 8 1 0"
proof -
  obtain ls where ls: "append_lines (normalizeCashflowStatement ovf now) (append_lines (normalizeBalanceSheet ovf now)
      (append_lines (normalizeIncomeStatement ovf now) [] (f_IncomeStatements fu)) (f_BalanceSheets fu))
      (f_CashflowStatements fu) = ls" "list_all2 (line_matches now) (fundamentals_values fu) ls"
    using all_lines [OF assms(2), of ovf now] by blast
  have "ls = [] \<longleftrightarrow> fundamentals_values fu = []" using ls(2) by (auto dest: list_all2_lengthD)
  then show ?thesis using ls assms(1)
    by (simp add: NormalizeFundamentals_def Let_def ValidateSecurity_def)
qed

text \<open>The validated statements all have an end date.\<close>

definition dated :: "Fundamentals \<Rightarrow> bool" where
  "dated fu \<longleftrightarrow> list_all (\<lambda>s. dv_Raw (is_EndDate s) \<noteq> 0) (f_IncomeStatements fu) \<and>
     list_all (\<lambda>s. dv_Raw (bs_EndDate s) \<noteq> 0) (f_BalanceSheets fu) \<and>
     list_all (\<lambda>s. dv_Raw (cs_EndDate s) \<noteq> 0) (f_CashflowStatements fu)"

lemma validate_raw_ok [simp]: "validate_raw f v = Ret ()"
  by (simp add: validate_raw_def validateFinancialValue_def split: option.split)

lemma histories_iff:
  "IncomeStatementHistory_Validate hi = Ret () \<longleftrightarrow> hi \<noteq> [] \<and> list_all (\<lambda>s. dv_Raw (is_EndDate s) \<noteq> 0) hi"
  "BalanceSheetHistory_Validate hb = Ret () \<longleftrightarrow> hb \<noteq> [] \<and> list_all (\<lambda>s. dv_Raw (bs_EndDate s) \<noteq> 0) hb"
  "CashflowStatementHistory_Validate hc = Ret () \<longleftrightarrow> hc \<noteq> [] \<and> list_all (\<lambda>s. dv_Raw (cs_EndDate s) \<noteq> 0) hc"
  by (auto simp: IncomeStatementHistory_Validate_def BalanceSheetHistory_Validate_def CashflowStatementHistory_Validate_def
      IncomeStatement_Validate_def BalanceSheet_Validate_def CashflowStatement_Validate_def go_bind_eq_Ret go_iter_Ret
      list_all_length)

lemma clock_free:
  assumes "dated fu"
  shows "append_lines (normalizeIncomeStatement ovf now) ls (f_IncomeStatements fu) =
      append_lines (normalizeIncomeStatement ovf now') ls (f_IncomeStatements fu)"
    "append_lines (normalizeBalanceSheet ovf now) ls (f_BalanceSheets fu) =
      append_lines (normalizeBalanceSheet ovf now') ls (f_BalanceSheets fu)"
    "append_lines (normalizeCashflowStatement ovf now) ls (f_CashflowStatements fu) =
      append_lines (normalizeCashflowStatement ovf now') ls (f_CashflowStatements fu)"
proof -
  have c: "append_lines f ls xs = append_lines g ls xs" if "\<And>x. x \<in> set xs \<Longrightarrow> f x = g x" for f g ls and xs :: "'x list"
    using that by (induction xs arbitrary: ls) (auto split: go.split)
  show "append_lines (normalizeIncomeStatement ovf now) ls (f_IncomeStatements fu) =
      append_lines (normalizeIncomeStatement ovf now') ls (f_IncomeStatements fu)"
    "append_lines (normalizeBalanceSheet ovf now) ls (f_BalanceSheets fu) =
      append_lines (normalizeBalanceSheet ovf now') ls (f_BalanceSheets fu)"
    "append_lines (normalizeCashflowStatement ovf now) ls (f_CashflowStatements fu) =
      append_lines (normalizeCashflowStatement ovf now') ls (f_CashflowStatements fu)"
    using assms by (auto intro!: c simp: dated_def list_all_iff normalizeIncomeStatement_def normalizeBalanceSheet_def
        normalizeCashflowStatement_def convertDateToPeriod_def)
qed

lemma validated_dated:
  assumes "FundamentalsResponse_Validate r = Ret ()"
  shows "\<exists>fu. GetFundamentals r = Ret fu \<and> dated fu \<and>
    (f_IncomeStatements fu \<noteq> [] \<or> f_BalanceSheets fu \<noteq> [] \<or> f_CashflowStatements fu \<noteq> [])"
proof -
  obtain x xs where x: "qs_Result (fp_QuoteSummary r) = x # xs"
    using assms by (cases "qs_Result (fp_QuoteSummary r)") (auto simp: FundamentalsResponse_Validate_def go_bind_eq_Ret split: option.splits)
  then have "FundamentalsResult_Validate x = Ret ()"
    using assms by (auto simp: FundamentalsResponse_Validate_def go_bind_eq_Ret split: option.splits)
  then show ?thesis using x
    by (auto simp: GetFundamentals_def FundamentalsResult_Validate_def validate_history_def go_bind_eq_Ret histories_iff dated_def
        split: option.splits)
qed

definition sample_income :: IncomeStatement where
  "sample_income = \<lparr>is_MaxAge = 1, is_EndDate = \<lparr>dv_Raw = 1703980800, dv_Fmt = ''2023-12-31''\<rparr>,
     is_TotalRevenue = Some \<lparr>v_Raw = Some 119575, v_Fmt = None, v_LongFmt = None\<rparr>,
     is_CostOfRevenue = None, is_GrossProfit = None, is_ResearchDevelopment = None,
     is_SellingGeneralAdministrative = None, is_TotalOperatingExpenses = None, is_OperatingIncome = None,
     is_TotalOtherIncomeExpenseNet = None, is_EBIT = None, is_InterestExpense = None, is_IncomeBeforeTax
     = None, is_IncomeTaxExpense = None, is_NetIncome = None, is_NetIncomeCommonStockholders = None,
     is_EPS = Some \<lparr>v_Raw = Some 218, v_Fmt = None, v_LongFmt = None\<rparr>, is_EPSDiluted =
     None, is_WeightedAverageShares = None, is_WeightedAverageSharesDiluted = None\<rparr>"

definition sample_fundamentals :: Fundamentals where
  "sample_fundamentals = \<lparr>f_IncomeStatements = [sample_income], f_BalanceSheets = [], f_CashflowStatements = []\<rparr>"

definition sample_fundamentals_response :: FundamentalsResponse where
  "sample_fundamentals_response = \<lparr>fp_QuoteSummary = \<lparr>qs_Result =
     [\<lparr>fr_Income = Some [sample_income], fr_Balance = None, fr_Cashflow = None\<rparr>], qs_Error = None\<rparr>\<rparr>"

section \<open>Properties\<close>



text \<open>
  A validated fundamentals response yields at least one statement, and every statement is
  dated, so its normalization does not depend on the clock: the fallback to the current time
  is never taken.
\<close>

theorem validated_fundamentals_clock_free:
  assumes "FundamentalsResponse_Validate r = Ret ()"
  shows "\<exists>fu. GetFundamentals r = Ret fu \<and>
    (f_IncomeStatements fu \<noteq> [] \<or> f_BalanceSheets fu \<noteq> [] \<or> f_CashflowStatements fu \<noteq> []) \<and>
    NormalizeFundamentals ovf now (Some fu) symbol runID = NormalizeFundamentals ovf now' (Some fu) symbol runID"
proof -
  obtain fu where fu: "GetFundamentals r = Ret fu" "dated fu"
    "f_IncomeStatements fu \<noteq> [] \<or> f_BalanceSheets fu \<noteq> [] \<or> f_CashflowStatements fu \<noteq> []"
    using validated_dated [OF assms] by blast
  then show ?thesis by (auto simp: NormalizeFundamentals_def clock_free [OF fu(2), of ovf now _ now'])
qed

theorem validated_fundamentals_clock_free_witness:
  "\<exists>fu. GetFundamentals sample_fundamentals_response = Ret fu \<and>
    NormalizeFundamentals (\<lambda>_. 0) 0 (Some fu) ''AAPL'' [] = NormalizeFundamentals (\<lambda>_. 0) 1 (Some fu) ''AAPL'' []"
proof -
  have "FundamentalsResponse_Validate sample_fundamentals_response = Ret ()"
    by (simp add: FundamentalsResponse_Validate_def sample_fundamentals_response_def FundamentalsResult_Validate_def
        validate_history_def histories_iff go_bind_eq_Ret sample_income_def)
  from validated_fundamentals_clock_free [OF this] show ?thesis by blast
qed

end
