(* ===== verification/Conversion.thy ===== *)
theory Conversion
  imports Fundamentals
begin

text \<open>
  Conversion to a target currency: \<^verbatim>\<open>internal/norm/conversion.go\<close>, the interface of
  \<^verbatim>\<open>internal/norm/fx_interface.go\<close> and its implementation \<^verbatim>\<open>internal/norm/mock_converter.go\<close>. A converter
  is a function of the value, the two currencies and the time; the context it is passed is left out.
  A method that returns \<^verbatim>\<open>(x, meta, err)\<close> gives \<open>Ret (x, meta)\<close> or \<open>Err err\<close>.
\<close>

section \<open>Model\<close>

record FXMeta =
  fx_Provider :: string
  fx_Base :: string
  fx_Symbols :: "string list"
  fx_AsOf :: instant
  fx_RateScale :: int
  fx_CacheHit :: bool
  fx_Attempts :: int
  fx_BackoffProfile :: string
  fx_Stale :: bool

record ConvertedBar =
  vb_Start :: instant
  vb_End :: instant
  vb_Open :: ScaledDecimal
  vb_High :: ScaledDecimal
  vb_Low :: ScaledDecimal
  vb_Close :: ScaledDecimal
  vb_OriginalCurrency :: string
  vb_ConvertedCurrency :: string
  vb_Volume :: int64
  vb_Adjusted :: bool
  vb_AdjustmentPolicyID :: string
  vb_EventTime :: instant
  vb_IngestTime :: instant
  vb_AsOf :: instant

record ConvertedBarBatch =
  vbb_Security :: Security
  vbb_Bars :: "ConvertedBar list"
  vbb_Meta :: Meta
  vbb_FXMeta :: "FXMeta option"

record ConvertedQuote =
  vq_Security :: Security
  vq_Type :: string
  vq_Bid :: "ScaledDecimal option"
  vq_BidSize :: "int64 option"
  vq_Ask :: "ScaledDecimal option"
  vq_AskSize :: "int64 option"
  vq_RegularMarketPrice :: "ScaledDecimal option"
  vq_RegularMarketHigh :: "ScaledDecimal option"
  vq_RegularMarketLow :: "ScaledDecimal option"
  vq_RegularMarketVolume :: "int64 option"
  vq_OriginalCurrency :: string
  vq_ConvertedCurrency :: string
  vq_Venue :: string
  vq_EventTime :: instant
  vq_IngestTime :: instant
  vq_Meta :: Meta
  vq_FXMeta :: "FXMeta option"

record ConvertedFundamentalsLine =
  vl_Key :: string
  vl_Value :: ScaledDecimal
  vl_OriginalCurrency :: string
  vl_ConvertedCurrency :: string
  vl_PeriodStart :: instant
  vl_PeriodEnd :: instant

record ConvertedFundamentalsSnapshot =
  vs_Security :: Security
  vs_Lines :: "ConvertedFundamentalsLine list"
  vs_Source :: string
  vs_AsOf :: instant
  vs_Meta :: Meta
  vs_FXMeta :: "FXMeta option"

record ConvertedMarketData =
  vm_Security :: Security
  vm_RegularMarketPrice :: "ScaledDecimal option"
  vm_RegularMarketHigh :: "ScaledDecimal option"
  vm_RegularMarketLow :: "ScaledDecimal option"
  vm_RegularMarketVolume :: "int64 option"
  vm_FiftyTwoWeekHigh :: "ScaledDecimal option"
  vm_FiftyTwoWeekLow :: "ScaledDecimal option"
  vm_PreviousClose :: "ScaledDecimal option"
  vm_ChartPreviousClose :: "ScaledDecimal option"
  vm_OriginalCurrency :: string
  vm_ConvertedCurrency :: string
  vm_RegularMarketTime :: "instant option"
  vm_HasPrePostMarketData :: bool
  vm_EventTime :: instant
  vm_IngestTime :: instant
  vm_Meta :: Meta
  vm_FXMeta :: "FXMeta option"

type_synonym fx_convert =
  "ScaledDecimal \<Rightarrow> string \<Rightarrow> string \<Rightarrow> instant \<Rightarrow> (ScaledDecimal \<times> FXMeta option) go"

definition fx_none :: "string \<Rightarrow> string \<Rightarrow> instant \<Rightarrow> FXMeta" where
  "fx_none base target tm = \<lparr>fx_Provider = ''none'', fx_Base = base, fx_Symbols = [target], fx_AsOf = tm,
     fx_RateScale = 0, fx_CacheHit = False, fx_Attempts = 0, fx_BackoffProfile = [], fx_Stale = False\<rparr>"

text \<open>\<open>func\<close> is the field \<^verbatim>\<open>ConvertValueFunc\<close>, which a test may set.\<close>

definition Mock_ConvertValue :: "fx_convert option \<Rightarrow> fx_convert" where
  "Mock_ConvertValue func = (\<lambda>val fromCurrency toCurrency tm.
     case func of Some f \<Rightarrow> f val fromCurrency toCurrency tm
     | None \<Rightarrow>
         if fromCurrency \<noteq> toCurrency then Err (Errorf ''FX conversion not enabled (provider: none)'' [])
         else Ret (val, Some (fx_none fromCurrency toCurrency tm)))"

definition convert_bar :: "fx_convert \<Rightarrow> string \<Rightarrow> string \<Rightarrow> nat \<Rightarrow> NormalizedBar \<Rightarrow> (ConvertedBar \<times> FXMeta option) go" where
  "convert_bar fx sourceCurrency target i bar =
     go_bind (go_wrap ''failed to convert open price for bar %d: %w'' [AInt (int i)]
       (fx (nb_Open bar) sourceCurrency target (nb_AsOf bar))) (\<lambda>(open_c, meta).
     go_bind (go_wrap ''failed to convert high price for bar %d: %w'' [AInt (int i)]
       (fx (nb_High bar) sourceCurrency target (nb_AsOf bar))) (\<lambda>(high_c, _).
     go_bind (go_wrap ''failed to convert low price for bar %d: %w'' [AInt (int i)]
       (fx (nb_Low bar) sourceCurrency target (nb_AsOf bar))) (\<lambda>(low_c, _).
     go_bind (go_wrap ''failed to convert close price for bar %d: %w'' [AInt (int i)]
       (fx (nb_Close bar) sourceCurrency target (nb_AsOf bar))) (\<lambda>(close_c, _).
     Ret (\<lparr>vb_Start = nb_Start bar, vb_End = nb_End bar, vb_Open = open_c, vb_High = high_c, vb_Low =
        low_c, vb_Close = close_c, vb_OriginalCurrency = sourceCurrency, vb_ConvertedCurrency =
        target, vb_Volume = nb_Volume bar, vb_Adjusted = nb_Adjusted bar, vb_AdjustmentPolicyID =
        nb_AdjustmentPolicyID bar, vb_EventTime = nb_EventTime bar, vb_IngestTime = nb_IngestTime
        bar, vb_AsOf = nb_AsOf bar\<rparr>, meta)))))"

fun convert_bars_loop :: "fx_convert \<Rightarrow> string \<Rightarrow> string \<Rightarrow> nat \<Rightarrow> NormalizedBar list \<Rightarrow> FXMeta option \<Rightarrow>
    (ConvertedBar list \<times> FXMeta option) go" where
  "convert_bars_loop fx src target i [] fxMeta = Ret ([], fxMeta)"
| "convert_bars_loop fx src target i (bar # bars) fxMeta =
     go_bind (convert_bar fx src target i bar) (\<lambda>(cb, meta).
     go_bind (convert_bars_loop fx src target (Suc i) bars meta) (\<lambda>(cbs, fxMeta'). Ret (cb # cbs, fxMeta')))"

definition same_bar :: "string \<Rightarrow> string \<Rightarrow> NormalizedBar \<Rightarrow> ConvertedBar" where
  "same_bar sourceCurrency target bar = \<lparr>vb_Start = nb_Start bar, vb_End = nb_End bar, vb_Open = nb_Open bar, vb_High = nb_High bar,
     vb_Low = nb_Low bar, vb_Close = nb_Close bar, vb_OriginalCurrency = sourceCurrency,
     vb_ConvertedCurrency = target, vb_Volume = nb_Volume bar, vb_Adjusted = nb_Adjusted bar,
     vb_AdjustmentPolicyID = nb_AdjustmentPolicyID bar, vb_EventTime = nb_EventTime bar,
     vb_IngestTime = nb_IngestTime bar, vb_AsOf = nb_AsOf bar\<rparr>"

definition BarBatch_ConvertTo ::
  "fx_convert \<Rightarrow> instant \<Rightarrow> NormalizedBarBatch \<Rightarrow> string \<Rightarrow> (ConvertedBarBatch \<times> FXMeta option) go" where
  "BarBatch_ConvertTo fx now b target =
     (case nbb_Bars b of
        [] \<Rightarrow> Err (Errorf ''no bars to convert'' [])
      | first # _ \<Rightarrow>
          let sourceCurrency = nb_CurrencyCode first in
          if sourceCurrency = [] then Err (Errorf ''no source currency found in bars'' [])
          else if sourceCurrency = target then
            let fxMeta = fx_none sourceCurrency target now
            in Ret (\<lparr>vbb_Security = nbb_Security b, vbb_Bars = map (same_bar sourceCurrency target) (nbb_Bars b),
                     vbb_Meta = nbb_Meta b, vbb_FXMeta = Some fxMeta\<rparr>, Some fxMeta)
          else
            go_bind (convert_bars_loop fx sourceCurrency target 0 (nbb_Bars b) None) (\<lambda>(convertedBars, fxMeta).
            Ret (\<lparr>vbb_Security = nbb_Security b, vbb_Bars = convertedBars, vbb_Meta = nbb_Meta b,
                  vbb_FXMeta = fxMeta\<rparr>, fxMeta)))"

text \<open>
  \<^verbatim>\<open>if p != nil { v, meta, err := ConvertValue(*p, ...); if err != nil { return }; field = &v; fxMeta = meta }\<close>.
\<close>

definition convert_opt :: "fx_convert \<Rightarrow> string \<Rightarrow> fmt_arg list \<Rightarrow> string \<Rightarrow> string \<Rightarrow> instant \<Rightarrow>
    ScaledDecimal option \<Rightarrow> FXMeta option \<Rightarrow> (ScaledDecimal option \<times> FXMeta option) go" where
  "convert_opt fx f xs src target tm p fxMeta =
     (case p of None \<Rightarrow> Ret (None, fxMeta)
      | Some v \<Rightarrow> go_bind (go_wrap f xs (fx v src target tm)) (\<lambda>(v', meta). Ret (Some v', meta)))"

definition Quote_ConvertTo ::
  "fx_convert \<Rightarrow> instant \<Rightarrow> NormalizedQuote \<Rightarrow> string \<Rightarrow> (ConvertedQuote \<times> FXMeta option) go" where
  "Quote_ConvertTo fx now q target =
     (let sourceCurrency = nq_CurrencyCode q in
      if sourceCurrency = [] then Err (Errorf ''no source currency found in quote'' [])
      else if sourceCurrency = target then
        let fxMeta = fx_none sourceCurrency target now
        in Ret (\<lparr>vq_Security = nq_Security q, vq_Type = nq_Type q, vq_Bid = nq_Bid q, vq_BidSize =
           nq_BidSize q, vq_Ask = nq_Ask q, vq_AskSize = nq_AskSize q, vq_RegularMarketPrice =
           nq_RegularMarketPrice q, vq_RegularMarketHigh = nq_RegularMarketHigh q,
           vq_RegularMarketLow = nq_RegularMarketLow q, vq_RegularMarketVolume =
           nq_RegularMarketVolume q, vq_OriginalCurrency = sourceCurrency, vq_ConvertedCurrency =
           target, vq_Venue = nq_Venue q, vq_EventTime = nq_EventTime q, vq_IngestTime =
           nq_IngestTime q, vq_Meta = nq_Meta q, vq_FXMeta = Some fxMeta\<rparr>, Some fxMeta)
      else
        let conv = (\<lambda>f. convert_opt fx f [] sourceCurrency target (nq_EventTime q)) in
        go_bind (conv ''failed to convert bid: %w'' (nq_Bid q) None) (\<lambda>(bid, m1).
        go_bind (conv ''failed to convert ask: %w'' (nq_Ask q) m1) (\<lambda>(ask, m2).
        go_bind (conv ''failed to convert regular market price: %w'' (nq_RegularMarketPrice q) m2) (\<lambda>(price, m3).
        go_bind (conv ''failed to convert regular market high: %w'' (nq_RegularMarketHigh q) m3) (\<lambda>(high, m4).
        go_bind (conv ''failed to convert regular market low: %w'' (nq_RegularMarketLow q) m4) (\<lambda>(low, m5).
        Ret (\<lparr>vq_Security = nq_Security q, vq_Type = nq_Type q, vq_Bid = bid, vq_BidSize = nq_BidSize
           q, vq_Ask = ask, vq_AskSize = nq_AskSize q, vq_RegularMarketPrice = price,
           vq_RegularMarketHigh = high, vq_RegularMarketLow = low, vq_RegularMarketVolume =
           nq_RegularMarketVolume q, vq_OriginalCurrency = sourceCurrency, vq_ConvertedCurrency =
           target, vq_Venue = nq_Venue q, vq_EventTime = nq_EventTime q, vq_IngestTime =
           nq_IngestTime q, vq_Meta = nq_Meta q, vq_FXMeta = m5\<rparr>, m5)))))))"

definition convert_line :: "fx_convert \<Rightarrow> string \<Rightarrow> string \<Rightarrow> instant \<Rightarrow> nat \<Rightarrow> NormalizedFundamentalsLine \<Rightarrow>
    (ConvertedFundamentalsLine \<times> FXMeta option) go" where
  "convert_line fx sourceCurrency target tm i line =
     go_bind (go_wrap ''failed to convert value for line %d (%s): %w'' [AInt (int i), AStr (fl_Key line)]
       (fx (fl_Value line) sourceCurrency target tm)) (\<lambda>(val, meta).
     Ret (\<lparr>vl_Key = fl_Key line, vl_Value = val, vl_OriginalCurrency = sourceCurrency,
        vl_ConvertedCurrency = target, vl_PeriodStart = fl_PeriodStart line, vl_PeriodEnd =
        fl_PeriodEnd line\<rparr>, meta))"

fun convert_lines_loop :: "fx_convert \<Rightarrow> string \<Rightarrow> string \<Rightarrow> instant \<Rightarrow> nat \<Rightarrow> NormalizedFundamentalsLine list \<Rightarrow>
    FXMeta option \<Rightarrow> (ConvertedFundamentalsLine list \<times> FXMeta option) go" where
  "convert_lines_loop fx src target tm i [] fxMeta = Ret ([], fxMeta)"
| "convert_lines_loop fx src target tm i (line # lines) fxMeta =
     go_bind (convert_line fx src target tm i line) (\<lambda>(cl, meta).
     go_bind (convert_lines_loop fx src target tm (Suc i) lines meta) (\<lambda>(cls, fxMeta'). Ret (cl # cls, fxMeta')))"

definition same_line :: "string \<Rightarrow> string \<Rightarrow> NormalizedFundamentalsLine \<Rightarrow> ConvertedFundamentalsLine" where
  "same_line sourceCurrency target line = \<lparr>vl_Key = fl_Key line, vl_Value = fl_Value line, vl_OriginalCurrency = sourceCurrency,
     vl_ConvertedCurrency = target, vl_PeriodStart = fl_PeriodStart line, vl_PeriodEnd =
     fl_PeriodEnd line\<rparr>"

definition Fundamentals_ConvertTo ::
  "fx_convert \<Rightarrow> instant \<Rightarrow> NormalizedFundamentalsSnapshot \<Rightarrow> string \<Rightarrow> (ConvertedFundamentalsSnapshot \<times> FXMeta option) go"
where
  "Fundamentals_ConvertTo fx now f target =
     (case fs_Lines f of
        [] \<Rightarrow> Err (Errorf ''no fundamentals lines to convert'' [])
      | first # _ \<Rightarrow>
          let sourceCurrency = fl_CurrencyCode first in
          if sourceCurrency = [] then Err (Errorf ''no source currency found in fundamentals'' [])
          else if sourceCurrency = target then
            let fxMeta = fx_none sourceCurrency target now
            in Ret (\<lparr>vs_Security = fs_Security f, vs_Lines = map (same_line sourceCurrency target) (fs_Lines f),
                     vs_Source = fs_Source f, vs_AsOf = fs_AsOf f, vs_Meta = fs_Meta f, vs_FXMeta = Some fxMeta\<rparr>,
                    Some fxMeta)
          else
            go_bind (convert_lines_loop fx sourceCurrency target (fs_AsOf f) 0 (fs_Lines f) None)
              (\<lambda>(convertedLines, fxMeta).
            Ret (\<lparr>vs_Security = fs_Security f, vs_Lines = convertedLines, vs_Source = fs_Source f,
                  vs_AsOf = fs_AsOf f, vs_Meta = fs_Meta f, vs_FXMeta = fxMeta\<rparr>, fxMeta)))"

definition MarketData_ConvertTo ::
  "fx_convert \<Rightarrow> instant \<Rightarrow> NormalizedMarketData \<Rightarrow> string \<Rightarrow> (ConvertedMarketData \<times> FXMeta option) go" where
  "MarketData_ConvertTo fx now m target =
     (let sourceCurrency = nm_CurrencyCode m in
      if sourceCurrency = [] then Err (Errorf ''no source currency found in market data'' [])
      else if sourceCurrency = target then
        let fxMeta = fx_none sourceCurrency target now
        in Ret (\<lparr>vm_Security = nm_Security m, vm_RegularMarketPrice = nm_RegularMarketPrice m,
           vm_RegularMarketHigh = nm_RegularMarketHigh m, vm_RegularMarketLow = nm_RegularMarketLow
           m, vm_RegularMarketVolume = nm_RegularMarketVolume m, vm_FiftyTwoWeekHigh =
           nm_FiftyTwoWeekHigh m, vm_FiftyTwoWeekLow = nm_FiftyTwoWeekLow m, vm_PreviousClose =
           nm_PreviousClose m, vm_ChartPreviousClose = nm_ChartPreviousClose m, vm_OriginalCurrency
           = sourceCurrency, vm_ConvertedCurrency = target, vm_RegularMarketTime =
           nm_RegularMarketTime m, vm_HasPrePostMarketData = nm_HasPrePostMarketData m, vm_EventTime
           = nm_EventTime m, vm_IngestTime = nm_IngestTime m, vm_Meta = nm_Meta m, vm_FXMeta = Some
           fxMeta\<rparr>, Some fxMeta)
      else
        let conv = (\<lambda>name. convert_opt fx ''failed to convert %s: %w'' [AStr name] sourceCurrency target (nm_EventTime m)) in
        go_bind (conv ''regular market price'' (nm_RegularMarketPrice m) None) (\<lambda>(price, m1).
        go_bind (conv ''regular market high'' (nm_RegularMarketHigh m) m1) (\<lambda>(high, m2).
        go_bind (conv ''regular market low'' (nm_RegularMarketLow m) m2) (\<lambda>(low, m3).
        go_bind (conv ''52-week high'' (nm_FiftyTwoWeekHigh m) m3) (\<lambda>(high52, m4).
        go_bind (conv ''52-week low'' (nm_FiftyTwoWeekLow m) m4) (\<lambda>(low52, m5).
        go_bind (conv ''previous close'' (nm_PreviousClose m) m5) (\<lambda>(pc, m6).
        go_bind (conv ''chart previous close'' (nm_ChartPreviousClose m) m6) (\<lambda>(cpc, m7).
        Ret (\<lparr>vm_Security = nm_Security m, vm_RegularMarketPrice = price, vm_RegularMarketHigh = high,
           vm_RegularMarketLow = low, vm_RegularMarketVolume = nm_RegularMarketVolume m,
           vm_FiftyTwoWeekHigh = high52, vm_FiftyTwoWeekLow = low52, vm_PreviousClose = pc,
           vm_ChartPreviousClose = cpc, vm_OriginalCurrency = sourceCurrency, vm_ConvertedCurrency =
           target, vm_RegularMarketTime = nm_RegularMarketTime m, vm_HasPrePostMarketData =
           nm_HasPrePostMarketData m, vm_EventTime = nm_EventTime m, vm_IngestTime = nm_IngestTime
           m, vm_Meta = nm_Meta m, vm_FXMeta = m7\<rparr>, m7)))))))))"

section \<open>The contract of a converter\<close>

text \<open>
  A converter keeps the order of amounts of one scale, and gives them one scale: what the bars need
  to stay in order. Such a converter is a price scaler on the amounts it converts.
\<close>

definition sd_le :: "ScaledDecimal \<Rightarrow> ScaledDecimal \<Rightarrow> bool" where
  "sd_le a b \<longleftrightarrow> Scale a = Scale b \<and> Scaled a \<le> Scaled b"

definition fx_value :: "fx_convert \<Rightarrow> string \<Rightarrow> string \<Rightarrow> instant \<Rightarrow> ScaledDecimal \<Rightarrow> ScaledDecimal go" where
  "fx_value fx src target tm v = go_bind (fx v src target tm) (\<lambda>(w, _). Ret w)"

lemma fx_value_Ret: "fx v src target tm = Ret (w, m) \<Longrightarrow> fx_value fx src target tm v = Ret w"
  by (simp add: fx_value_def)

locale fx_converter =
  fixes fx :: fx_convert
  assumes fx_mono: "fx v src target tm = Ret (w, m) \<Longrightarrow> fx v' src target tm = Ret (w', m') \<Longrightarrow>
    sd_le v v' \<Longrightarrow> sd_le w w'"

sublocale fx_converter \<subseteq> amounts: price_scaler "fx_value fx src target tm" sd_le
    "\<lambda>v. is_ret (fx v src target tm)" Scaled for src target tm
proof
  fix v v' w w'
  show "is_ret (fx v src target tm) \<Longrightarrow> is_ret (fx_value fx src target tm v)"
    by (auto simp: is_ret_conv fx_value_def)
  show "is_ret (fx v src target tm) \<Longrightarrow> is_ret (fx v' src target tm) \<Longrightarrow> sd_le v v' \<Longrightarrow>
      fx_value fx src target tm v = Ret w \<Longrightarrow> fx_value fx src target tm v' = Ret w' \<Longrightarrow> Scaled w \<le> Scaled w'"
    using fx_mono [of v src target tm w _ v' w'] by (auto simp: fx_value_def go_bind_eq_Ret sd_le_def)
qed

interpretation mock: fx_converter "Mock_ConvertValue None"
  by unfold_locales (auto simp: Mock_ConvertValue_def split: if_splits)

section \<open>Lemmas\<close>

text \<open>What conversion keeps of a bar, and the relation of the four prices.\<close>

definition bar_kept :: "string \<Rightarrow> string \<Rightarrow> NormalizedBar \<Rightarrow> ConvertedBar \<Rightarrow> bool" where
  "bar_kept src target bar c \<longleftrightarrow> vb_Start c = nb_Start bar \<and> vb_End c = nb_End bar \<and> vb_Volume c = nb_Volume bar \<and>
     vb_Adjusted c = nb_Adjusted bar \<and> vb_AdjustmentPolicyID c = nb_AdjustmentPolicyID bar \<and>
     vb_EventTime c = nb_EventTime bar \<and> vb_IngestTime c = nb_IngestTime bar \<and> vb_AsOf c = nb_AsOf bar \<and>
     vb_OriginalCurrency c = src \<and> vb_ConvertedCurrency c = target"

definition bar_prices :: "(ScaledDecimal \<Rightarrow> ScaledDecimal \<Rightarrow> bool) \<Rightarrow> NormalizedBar \<Rightarrow> ConvertedBar \<Rightarrow> bool" where
  "bar_prices R bar c \<longleftrightarrow> R (nb_Open bar) (vb_Open c) \<and> R (nb_High bar) (vb_High c) \<and> R (nb_Low bar) (vb_Low c) \<and>
     R (nb_Close bar) (vb_Close c)"

definition bar_converted :: "fx_convert \<Rightarrow> string \<Rightarrow> string \<Rightarrow> NormalizedBar \<Rightarrow> ConvertedBar \<Rightarrow> bool" where
  "bar_converted fx src target bar c \<longleftrightarrow> bar_kept src target bar c \<and>
     bar_prices (\<lambda>v w. if src = target then w = v else \<exists>m. fx v src target (nb_AsOf bar) = Ret (w, m)) bar c"

lemma convert_bar_Ret:
  "src \<noteq> target \<Longrightarrow> convert_bar fx src target i bar = Ret (c, m) \<Longrightarrow> bar_converted fx src target bar c"
  by (auto simp: convert_bar_def go_bind_eq_Ret bar_converted_def bar_kept_def bar_prices_def)

lemma convert_bars_loop_Ret:
  assumes "src \<noteq> target" "convert_bars_loop fx src target i bars m = Ret (cs, m')"
  shows "list_all2 (bar_converted fx src target) bars cs"
  using assms(2)
proof (induction bars arbitrary: i m cs m')
  case (Cons bar bars)
  then show ?case using convert_bar_Ret [OF assms(1)] by (fastforce simp: go_bind_eq_Ret)
qed simp

lemma same_bar_converted: "list_all2 (bar_converted fx src src) bars (map (same_bar src src) bars)"
  by (induction bars) (simp_all add: bar_converted_def bar_kept_def bar_prices_def same_bar_def)

text \<open>The prices of a bar in order at one scale.\<close>

definition nb_sorted :: "NormalizedBar \<Rightarrow> bool" where
  "nb_sorted b \<longleftrightarrow> sd_le (nb_Low b) (nb_Open b) \<and> sd_le (nb_Open b) (nb_High b) \<and> sd_le (nb_Low b) (nb_Close b) \<and>
     sd_le (nb_Close b) (nb_High b)"

definition vb_sorted :: "ConvertedBar \<Rightarrow> bool" where
  "vb_sorted b \<longleftrightarrow> sd_le (vb_Low b) (vb_Open b) \<and> sd_le (vb_Open b) (vb_High b) \<and> sd_le (vb_Low b) (vb_Close b) \<and>
     sd_le (vb_Close b) (vb_High b)"

context fx_converter
begin

lemma converted_bar_sorted: "bar_converted fx src target bar c \<Longrightarrow> nb_sorted bar \<Longrightarrow> vb_sorted c"
  by (auto simp: bar_converted_def bar_prices_def nb_sorted_def vb_sorted_def split: if_splits intro: fx_mono)

end

lemma BarBatch_ConvertTo_Ret:
  assumes "BarBatch_ConvertTo fx now b target = Ret (cb, m)"
  shows "list_all2 (bar_converted fx (nb_CurrencyCode (hd (nbb_Bars b))) target) (nbb_Bars b) (vbb_Bars cb) \<and>
    nbb_Bars b \<noteq> [] \<and> vbb_Security cb = nbb_Security b \<and> vbb_Meta cb = nbb_Meta b \<and> vbb_FXMeta cb = m"
  using assms same_bar_converted [of fx target "nbb_Bars b"]
  by (cases "nbb_Bars b") (auto simp: BarBatch_ConvertTo_def Let_def go_bind_eq_Ret simp del: convert_bars_loop.simps
      dest!: convert_bars_loop_Ret [rotated] split: if_splits)

section \<open>Properties\<close>

text \<open>
  C21: With a converter that keeps the order of amounts, a successful ConvertTo gives one
  converted bar per bar with times, volume, adjustment and metadata kept, both currencies
  recorded, each price converted at the bar's own time (or unchanged when the currencies
  agree), and bars in order stay in order.
\<close>

theorem BarBatch_ConvertTo_bars:
  assumes "fx_converter fx" "BarBatch_ConvertTo fx now b target = Ret (cb, m)"
  shows "list_all2 (\<lambda>bar c. bar_converted fx (nb_CurrencyCode (hd (nbb_Bars b))) target bar c \<and>
      (nb_sorted bar \<longrightarrow> vb_sorted c)) (nbb_Bars b) (vbb_Bars cb) \<and>
    vbb_Security cb = nbb_Security b \<and> vbb_Meta cb = nbb_Meta b \<and> vbb_FXMeta cb = m"
  using BarBatch_ConvertTo_Ret [OF assms(2)] fx_converter.converted_bar_sorted [OF assms(1)]
  by (auto elim!: list_all2_mono)

text \<open>A converter that doubles every amount, and a batch of one bar in euro.\<close>

definition double_fx :: fx_convert where
  "double_fx v src target tm = Ret (mkSD (2 * Scaled v) (Scale v), None)"

definition sample_batch :: NormalizedBarBatch where
  "sample_batch = \<lparr>nbb_Security = \<lparr>Symbol = ''SAP'', MIC = ''XETR''\<rparr>,
     nbb_Bars = [\<lparr>nb_Start = 0, nb_End = day_ns, nb_Open = mkSD 100 2, nb_High = mkSD 110 2, nb_Low = mkSD 90 2,
       nb_Close = mkSD 105 2, nb_Volume = 5, nb_Adjusted = False, nb_AdjustmentPolicyID = ''raw'',
       nb_CurrencyCode = ''EUR'', nb_EventTime = day_ns, nb_IngestTime = day_ns, nb_AsOf = day_ns\<rparr>],
     nbb_Meta = \<lparr>mt_RunID = ''run'', mt_Source = ''yfinance-go'', mt_Producer = ''local'',
       mt_SchemaVersion = ''ampy.bars.v1:1.0.0''\<rparr>\<rparr>"

theorem BarBatch_ConvertTo_bars_witness:
  "\<exists>cb. BarBatch_ConvertTo double_fx 0 sample_batch ''USD'' = Ret (cb, None) \<and> list_all vb_sorted (vbb_Bars cb)"
proof -
  have f: "fx_converter double_fx" by unfold_locales (auto simp: double_fx_def sd_le_def)
  obtain cb where cb: "BarBatch_ConvertTo double_fx 0 sample_batch ''USD'' = Ret (cb, None)"
    by (simp add: BarBatch_ConvertTo_def sample_batch_def convert_bar_def double_fx_def)
  have "list_all nb_sorted (nbb_Bars sample_batch)" by (simp add: sample_batch_def nb_sorted_def sd_le_def)
  then have "list_all vb_sorted (vbb_Bars cb)"
    using BarBatch_ConvertTo_bars [OF f cb] by (auto simp: list_all2_conv_all_nth list_all_length)
  then show ?thesis using cb by blast
qed

text \<open>
  Market data produced by NormalizeMarketData can never be converted to any currency: the
  normalizer leaves the currency code empty and ConvertTo refuses it.
\<close>

theorem market_data_never_converts:
  "\<exists>m. NormalizeMarketData ovf now1 now2 (Some meta) runID = Ret m \<and>
    MarketData_ConvertTo fx now m target = Err (Errorf ''no source currency found in market data'' [])"
  by (simp add: NormalizeMarketData_def MarketData_ConvertTo_def Let_def)

text \<open>
  With the default converter a batch converts exactly when it has bars, their currency is
  not empty and it is the target currency.
\<close>

theorem mock_converts_same_currency_only:
  "is_ret (BarBatch_ConvertTo (Mock_ConvertValue None) now b target) \<longleftrightarrow>
     nbb_Bars b \<noteq> [] \<and> target \<noteq> [] \<and> nb_CurrencyCode (hd (nbb_Bars b)) = target"
  by (cases "nbb_Bars b") (auto simp: BarBatch_ConvertTo_def Let_def convert_bar_def Mock_ConvertValue_def)

end
