(* ===== verification/EmitDecimal.thy ===== *)
theory EmitDecimal
  imports Decimal
begin

text \<open>
  Scaled decimals of scraped values and their protobuf form, and currency codes:
  \<^verbatim>\<open>internal/emit/decimals.go\<close>. The message \<^verbatim>\<open>ampy.common.v1.Decimal\<close> is the record of the two fields
  the code sets.
\<close>

section \<open>Model\<close>

record scrape_Scaled =
  ss_Scaled :: int64
  ss_Scale :: int

record pb_Decimal =
  pd_Scaled :: int64
  pd_Scale :: int

record ScaledDecimalConfig =
  DefaultScale :: int
  PercentScale :: int
  AllowNegativeScale :: bool
  MaxScale :: int

definition DefaultScaledDecimalConfig :: ScaledDecimalConfig where
  "DefaultScaledDecimalConfig = \<lparr>DefaultScale = 2, PercentScale = 6, AllowNegativeScale = False, MaxScale = 9\<rparr>"

definition config_or_default :: "ScaledDecimalConfig option \<Rightarrow> ScaledDecimalConfig" where
  "config_or_default config = (case config of None \<Rightarrow> DefaultScaledDecimalConfig | Some c \<Rightarrow> c)"

definition validateScale :: "int \<Rightarrow> ScaledDecimalConfig \<Rightarrow> unit go" where
  "validateScale scale config =
     (if \<not> AllowNegativeScale config \<and> scale < 0 then Err (Errorf ''negative scale %d not allowed'' [AInt scale])
      else if MaxScale config < scale
      then Err (Errorf ''scale %d exceeds maximum %d'' [AInt scale, AInt (MaxScale config)])
      else Ret ())"

definition MoneyToScaled :: "scrape_Scaled option \<Rightarrow> ScaledDecimalConfig option \<Rightarrow> pb_Decimal go" where
  "MoneyToScaled v config =
     (case v of None \<Rightarrow> Err (Errorf ''scaled value cannot be nil'' [])
      | Some v \<Rightarrow>
          go_bind (go_wrap ''money scale validation failed: %w'' [] (validateScale (ss_Scale v) (config_or_default config))) (\<lambda>_.
          Ret \<lparr>pd_Scaled = ss_Scaled v, pd_Scale = wrap32 (ss_Scale v)\<rparr>))"

definition go_div :: "int \<Rightarrow> int \<Rightarrow> int go" where
  "go_div a b = (if b = 0 then Panic ''integer divide by zero'' else Ret (wrap64 (a sdiv b)))"

definition convertScale :: "(f64 \<Rightarrow> int) \<Rightarrow> scrape_Scaled \<Rightarrow> int \<Rightarrow> scrape_Scaled go" where
  "convertScale ovf v targetScale =
     (if ss_Scale v = targetScale then Ret v
      else if targetScale < 0 \<or> 15 < targetScale
      then Err (Errorf ''target scale %d out of reasonable range'' [AInt targetScale])
      else if ss_Scale v < targetScale then
        let scaleDiff = targetScale - ss_Scale v;
            multiplier = f_to_int64 ovf (math_Pow 10 scaleDiff)
        in go_bind (go_div (2 ^ 63 - 1) multiplier) (\<lambda>limit.
           if limit < ss_Scaled v
           then Err (Errorf ''scale conversion would overflow: %d * 10^%d'' [AInt (ss_Scaled v), AInt scaleDiff])
           else Ret \<lparr>ss_Scaled = wrap64 (ss_Scaled v * multiplier), ss_Scale = targetScale\<rparr>)
      else
        let scaleDiff = ss_Scale v - targetScale;
            divisor = f_to_int64 ovf (math_Pow 10 scaleDiff)
        in go_bind (go_div divisor 2) (\<lambda>half.
           go_bind (go_div (wrap64 (ss_Scaled v + half)) divisor) (\<lambda>up.
           go_bind (if ss_Scaled v < 0 then go_div (wrap64 (ss_Scaled v - half)) divisor else Ret up) (\<lambda>newScaled.
           Ret \<lparr>ss_Scaled = newScaled, ss_Scale = targetScale\<rparr>))))"

definition PercentToScaled :: "(f64 \<Rightarrow> int) \<Rightarrow> scrape_Scaled option \<Rightarrow> ScaledDecimalConfig option \<Rightarrow> pb_Decimal go" where
  "PercentToScaled ovf v config =
     (case v of None \<Rightarrow> Err (Errorf ''scaled value cannot be nil'' [])
      | Some v \<Rightarrow>
          let cfg = config_or_default config; targetScale = PercentScale cfg in
          go_bind (if ss_Scale v \<noteq> targetScale
                   then go_wrap ''percent scale conversion failed: %w'' [] (convertScale ovf v targetScale) else Ret v) (\<lambda>v.
          go_bind (go_wrap ''percent scale validation failed: %w'' [] (validateScale (ss_Scale v) cfg)) (\<lambda>_.
          Ret \<lparr>pd_Scaled = ss_Scaled v, pd_Scale = wrap32 (ss_Scale v)\<rparr>)))"

text \<open>The constant \<^verbatim>\<open>math.MaxInt64\<close> compared with a float64 is rounded to \<open>2 ^ 63\<close>.\<close>

definition FloatToScaled :: "(f64 \<Rightarrow> int) \<Rightarrow> f64 \<Rightarrow> int \<Rightarrow> ScaledDecimalConfig option \<Rightarrow> pb_Decimal go" where
  "FloatToScaled ovf val scale config =
     (let cfg = config_or_default config in
      go_bind (go_wrap ''float scale validation failed: %w'' [] (validateScale scale cfg)) (\<lambda>_.
      if f_isnan val then Err (Errorf ''cannot convert NaN to scaled decimal'' [])
      else if f_isinf val then Err (Errorf ''cannot convert infinity to scaled decimal'' [])
      else
        let multiplier = math_Pow 10 scale;
            scaled = f_to_int64 ovf (math_Round (f_mul val multiplier))
        in if f_lt (Fin (2 ^ 63)) (f_abs (f_mul val multiplier))
           then Err (Errorf ''value %f with scale %d would overflow int64'' [AFloat val, AInt scale])
           else Ret \<lparr>pd_Scaled = scaled, pd_Scale = wrap32 scale\<rparr>))"

definition ScaledToFloat :: "pb_Decimal option \<Rightarrow> f64 go" where
  "ScaledToFloat decimal =
     (case decimal of None \<Rightarrow> Err (Errorf ''decimal cannot be nil'' [])
      | Some d \<Rightarrow>
          if pd_Scale d < 0 \<or> 15 < pd_Scale d
          then Err (Errorf ''scale %d out of reasonable range for float64 conversion'' [AInt (pd_Scale d)])
          else Ret (f_div (f_of_int (pd_Scaled d)) (math_Pow 10 (pd_Scale d))))"

definition major_currency_names :: "(string \<times> string) list" where
  "major_currency_names =
     [(''USD'', ''US Dollar''), (''EUR'', ''Euro''), (''GBP'', ''British Pound''), (''JPY'',
      ''Japanese Yen''), (''CHF'', ''Swiss Franc''), (''CAD'', ''Canadian Dollar''), (''AUD'',
      ''Australian Dollar''), (''NZD'', ''New Zealand Dollar''), (''SEK'', ''Swedish Krona''),
      (''NOK'', ''Norwegian Krone''), (''DKK'', ''Danish Krone''), (''PLN'', ''Polish Zloty''),
      (''CZK'', ''Czech Koruna''), (''HUF'', ''Hungarian Forint''), (''RUB'', ''Russian Ruble''),
      (''CNY'', ''Chinese Yuan''), (''KRW'', ''South Korean Won''), (''SGD'', ''Singapore Dollar''),
      (''HKD'', ''Hong Kong Dollar''), (''INR'', ''Indian Rupee''), (''BRL'', ''Brazilian Real''),
      (''MXN'', ''Mexican Peso''), (''ZAR'', ''South African Rand''), (''TRY'', ''Turkish Lira''),
      (''ILS'', ''Israeli Shekel''), (''THB'', ''Thai Baht''), (''MYR'', ''Malaysian Ringgit''),
      (''IDR'', ''Indonesian Rupiah''), (''PHP'', ''Philippine Peso''), (''VND'', ''Vietnamese
      Dong''), (''TWD'', ''Taiwan Dollar''), (''AED'', ''UAE Dirham''), (''SAR'', ''Saudi Riyal''),
      (''EGP'', ''Egyptian Pound''), (''CLP'', ''Chilean Peso''), (''COP'', ''Colombian Peso''),
      (''PEN'', ''Peruvian Sol''), (''ARS'', ''Argentine Peso'')]"

definition validateCurrencyCode :: "string \<Rightarrow> unit go" where
  "validateCurrencyCode code =
     (if code \<in> fst ` set major_currency_names then Ret ()
      else Err (Errorf ''currency '%s' not in major currencies list'' [AStr code]))"

text \<open>\<^verbatim>\<open>AttachCurrency\<close> returns a code beside its error: an unknown code comes with a warning.\<close>

definition AttachCurrency :: "string \<Rightarrow> string \<times> goerror option" where
  "AttachCurrency code =
     (if code = [] then ([], Some (Errorf ''currency code cannot be empty'' []))
      else
        let normalized = ToUpper (TrimSpace code) in
        if length normalized \<noteq> 3
        then ([], Some (Errorf ''currency code must be 3 characters, got %d'' [AInt (int (length normalized))]))
        else if \<not> list_all is_upper normalized
        then ([], Some (Errorf (''currency code must contain only uppercase letters, got '%s'' @ [CHR 0x27]) [AStr normalized]))
        else case validateCurrencyCode normalized of
            Err e \<Rightarrow> (normalized, Some (Wrapf ''currency validation warning: %w'' [] e))
          | _ \<Rightarrow> (normalized, None))"

record CurrencyInfo =
  ci_Code :: string
  ci_Name :: string
  ci_Symbol :: string
  ci_MinorUnits :: int

definition mkCI :: "string \<Rightarrow> string \<Rightarrow> string \<Rightarrow> int \<Rightarrow> CurrencyInfo" where
  "mkCI c n s m = \<lparr>ci_Code = c, ci_Name = n, ci_Symbol = s, ci_MinorUnits = m\<rparr>"

definition currency_info_table :: "(string \<times> CurrencyInfo) list" where
  "currency_info_table =
     [(''USD'', mkCI ''USD'' ''US Dollar'' ''$'' 2),
      (''EUR'', mkCI ''EUR'' ''Euro'' [CHR 0xE2, CHR 0x82, CHR 0xAC] 2),
      (''GBP'', mkCI ''GBP'' ''British Pound'' [CHR 0xC2, CHR 0xA3] 2),
      (''JPY'', mkCI ''JPY'' ''Japanese Yen'' [CHR 0xC2, CHR 0xA5] 0),
      (''CHF'', mkCI ''CHF'' ''Swiss Franc'' ''CHF'' 2),
      (''CAD'', mkCI ''CAD'' ''Canadian Dollar'' ''C$'' 2),
      (''AUD'', mkCI ''AUD'' ''Australian Dollar'' ''A$'' 2),
      (''CNY'', mkCI ''CNY'' ''Chinese Yuan'' [CHR 0xC2, CHR 0xA5] 2),
      (''KRW'', mkCI ''KRW'' ''South Korean Won'' [CHR 0xE2, CHR 0x82, CHR 0xA9] 0),
      (''INR'', mkCI ''INR'' ''Indian Rupee'' [CHR 0xE2, CHR 0x82, CHR 0xB9] 2),
      (''BRL'', mkCI ''BRL'' ''Brazilian Real'' ''R$'' 2),
      (''MXN'', mkCI ''MXN'' ''Mexican Peso'' ''MX$'' 2),
      (''HKD'', mkCI ''HKD'' ''Hong Kong Dollar'' ''HK$'' 2),
      (''SGD'', mkCI ''SGD'' ''Singapore Dollar'' ''S$'' 2),
      (''TWD'', mkCI ''TWD'' ''Taiwan Dollar'' ''NT$'' 2)]"

text \<open>
  \<^verbatim>\<open>strings.Contains(err.Error(), "warning")\<close> on the errors of \<^verbatim>\<open>AttachCurrency\<close>: only the text of the
  last one has the word, a code being in capitals.
\<close>

definition has_warning :: "goerror \<Rightarrow> bool" where
  "has_warning e = (case e of Wrapf f xs e' \<Rightarrow> Contains f ''warning'' | Errorf f xs \<Rightarrow> Contains f ''warning'' | _ \<Rightarrow> False)"

definition GetCurrencyInfo :: "string \<Rightarrow> CurrencyInfo go" where
  "GetCurrencyInfo code =
     (let (normalized, err) = AttachCurrency code
      in case err of
           Some e \<Rightarrow> if \<not> has_warning e then Err e
             else (case map_of currency_info_table normalized of
                     Some info \<Rightarrow> Ret info
                   | None \<Rightarrow> Ret (mkCI normalized (''Unknown Currency ('' @ normalized @ '')'') [] 2))
         | None \<Rightarrow> (case map_of currency_info_table normalized of
                     Some info \<Rightarrow> Ret info
                   | None \<Rightarrow> Ret (mkCI normalized (''Unknown Currency ('' @ normalized @ '')'') [] 2)))"

definition RecommendedScale :: "string \<Rightarrow> int \<times> goerror option" where
  "RecommendedScale currencyCode =
     (case GetCurrencyInfo currencyCode of Err e \<Rightarrow> (2, Some e) | Ret info \<Rightarrow> (ci_MinorUnits info, None)
      | Panic s \<Rightarrow> (2, None))"

section \<open>Lemmas\<close>

lemma half_away:
  assumes "0 < k"
  shows "round_away (of_int s / 10 ^ k) =
    (if 0 \<le> s then (s + 10 ^ k div 2) div 10 ^ k else - ((- s + 10 ^ k div 2) div 10 ^ k))"
proof -
  define d :: int where "d = 10 ^ k"
  have d: "2 * (d div 2) = d" "0 < d" using half_pow10 [OF assms] by (simp_all add: d_def)
  have r: "(10::rat) ^ k = of_int d" by (simp add: d_def)
  have h: "(1/2 :: rat) = of_int (d div 2) / of_int d"
  proof -
    have "(of_int d :: rat) = 2 * of_int (d div 2)" using arg_cong [OF d(1), of rat_of_int] by simp
    then show ?thesis using d(2) by (simp add: field_simps)
  qed
  have f: "\<lfloor>of_int x / of_int d + (1/2 :: rat)\<rfloor> = (x + d div 2) div d" for x
  proof -
    have "of_int x / of_int d + (1/2 :: rat) = of_int (x + d div 2) / of_int d"
      unfolding h by (simp add: add_divide_distrib)
    then show ?thesis by (simp only: floor_divide_of_int_eq)
  qed
  have "\<lceil>of_int s / of_int d - (1/2 :: rat)\<rceil> = - ((- s + d div 2) div d)"
    using f [of "- s"] ceiling_def [of "of_int s / of_int d - (1/2 :: rat)"] by (simp add: algebra_simps)
  then show ?thesis using f [of s] d(2)
    by (simp add: round_away_def r d_def [symmetric] zero_le_divide_iff)
qed

lemma pow10_int64: "k \<le> 18 \<Longrightarrow> (10::int) ^ k \<le> 10 ^ 18"
  by (intro power_increasing) simp_all

lemma div_le_self: "0 \<le> (a::int) \<Longrightarrow> 1 \<le> d \<Longrightarrow> a div d \<le> a"
  using zdiv_mono2 [of a 1 d] by simp

lemma convertScale_down_eq:
  assumes "0 \<le> t" "t \<le> 15" "t < ss_Scale v" "ss_Scale v - t \<le> 18" "\<bar>ss_Scaled v\<bar> \<le> 2 ^ 62"
  shows "convertScale ovf v t =
    Ret \<lparr>ss_Scaled = round_away (of_int (ss_Scaled v) / 10 ^ nat (ss_Scale v - t)), ss_Scale = t\<rparr>"
proof -
  define k where "k = nat (ss_Scale v - t)"
  define d :: int where "d = 10 ^ k"
  let ?s = "ss_Scaled v"
  have k: "0 < k" "k \<le> 18" using assms by (simp_all add: k_def)
  have m: "f_to_int64 ovf (math_Pow 10 (ss_Scale v - t)) = d"
    using assms f_to_int64_pow10 [of "ss_Scale v - t" ovf] by (simp add: d_def k_def)
  have d: "0 < d" "d \<le> 10 ^ 18" using pow10_int64 [OF k(2)] by (simp_all add: d_def)
  have h: "go_div d 2 = Ret (d div 2)"
  proof -
    have "is_int64 (d div 2)" using d by (intro is_int64_abs) simp
    then show ?thesis using d by (simp add: go_div_def sdiv_nonneg)
  qed
  have w: "is_int64 (?s + d div 2)" "is_int64 (?s - d div 2)" using d assms(5) by (auto intro!: is_int64_abs)
  have q: "go_div x d = Ret (x sdiv d)" if "\<bar>x\<bar> < 2 ^ 63" for x
  proof -
    have "\<bar>x sdiv d\<bar> = \<bar>x\<bar> div d" using d by (cases "x = 0") (auto simp: signed_divide_int_def abs_mult sgn_if pos_imp_zdiv_nonneg_iff)
    also have "\<dots> \<le> \<bar>x\<bar>" using d by (simp add: div_le_self)
    finally have "is_int64 (x sdiv d)" using that by (intro is_int64_abs) simp
    then show ?thesis using d by (simp add: go_div_def)
  qed
  have b: "\<bar>?s + d div 2\<bar> < 2 ^ 63" "\<bar>?s - d div 2\<bar> < 2 ^ 63" using d assms(5) by simp_all
  have neg: "(?s - d div 2) sdiv d = - ((- ?s + d div 2) div d)" if "?s < 0"
  proof -
    have "?s - d div 2 < 0" "\<bar>?s - d div 2\<bar> = - ?s + d div 2" using that d by simp_all
    then show ?thesis using d by (simp add: signed_divide_int_def sgn_if)
  qed
  show ?thesis using assms w q b neg half_away [OF k(1), of ?s] d
    by (simp add: convertScale_def m Let_def h k_def [symmetric] d_def [symmetric] sdiv_nonneg)
qed

lemma convertScale_up_eq:
  assumes "0 \<le> t" "t \<le> 15" "ss_Scale v < t" "t - ss_Scale v \<le> 18"
    and "\<bar>ss_Scaled v * 10 ^ nat (t - ss_Scale v)\<bar> < 2 ^ 63"
  shows "convertScale ovf v t = Ret \<lparr>ss_Scaled = ss_Scaled v * 10 ^ nat (t - ss_Scale v), ss_Scale = t\<rparr>"
proof -
  define d :: int where "d = 10 ^ nat (t - ss_Scale v)"
  have m: "f_to_int64 ovf (math_Pow 10 (t - ss_Scale v)) = d"
    using assms f_to_int64_pow10 [of "t - ss_Scale v" ovf] by (simp add: d_def)
  have d: "0 < d" "1 \<le> d" by (simp_all add: d_def)
  have b: "\<bar>ss_Scaled v * d\<bar> < 2 ^ 63" using assms(5) by (simp add: d_def)
  have "is_int64 ((2 ^ 63 - 1) div d)"
    using d div_le_self [of "2 ^ 63 - 1" d] pos_imp_zdiv_nonneg_iff [of d "2 ^ 63 - 1"] by (simp add: is_int64_def)
  then have l: "go_div (2 ^ 63 - 1) d = Ret ((2 ^ 63 - 1) div d)" using d by (simp add: go_div_def sdiv_nonneg)
  have "ss_Scaled v * d \<le> 2 ^ 63 - 1" using b by simp
  then have "ss_Scaled v \<le> (2 ^ 63 - 1) div d" using zdiv_mono1 [of "ss_Scaled v * d" "2 ^ 63 - 1" d] d by simp
  then show ?thesis using assms(1-4) l is_int64_abs [OF b]
    by (simp add: convertScale_def m Let_def d_def [symmetric])
qed

section \<open>Properties\<close>

text \<open>
  Reducing the scale of a value of either sign with convertScale rounds the exact
  quotient half away from zero, for scales up to 18 apart and values up to 2^62.
\<close>

theorem convertScale_rounds_half_away:
  assumes "0 \<le> t" "t \<le> 15" "t < ss_Scale v" "ss_Scale v - t \<le> 18" "\<bar>ss_Scaled v\<bar> \<le> 2 ^ 62"
  shows "convertScale ovf v t =
    Ret \<lparr>ss_Scaled = round_away (of_int (ss_Scaled v) / 10 ^ nat (ss_Scale v - t)), ss_Scale = t\<rparr>"
  by (rule convertScale_down_eq [OF assms])

theorem convertScale_rounds_half_away_witness:
  "convertScale (\<lambda>_. 0) \<lparr>ss_Scaled = -1234567, ss_Scale = 4\<rparr> 2 = Ret \<lparr>ss_Scaled = -12346, ss_Scale = 2\<rparr>"
proof -
  have "\<lfloor>1234617 / 100 :: rat\<rfloor> = 12346" by (rule floor_unique) simp_all
  then show ?thesis
    using convertScale_rounds_half_away [of 2 "\<lparr>ss_Scaled = -1234567, ss_Scale = 4\<rparr>" "\<lambda>_. 0"]
    by (simp add: round_away_def ceiling_minus)
qed

text \<open>
  Raising the scale of a value and lowering it again with convertScale gives the value
  back whenever the raised value stays within 2^62.
\<close>

theorem convertScale_up_down:
  assumes "0 \<le> ss_Scale v" "ss_Scale v < t" "t \<le> 15" "\<bar>ss_Scaled v * 10 ^ nat (t - ss_Scale v)\<bar> \<le> 2 ^ 62"
  shows "\<exists>w. convertScale ovf v t = Ret w \<and> ss_Scale w = t \<and> convertScale ovf w (ss_Scale v) = Ret v"
proof -
  let ?k = "nat (t - ss_Scale v)"
  have u: "convertScale ovf v t = Ret \<lparr>ss_Scaled = ss_Scaled v * 10 ^ ?k, ss_Scale = t\<rparr>"
    using assms by (intro convertScale_up_eq) simp_all
  have "convertScale ovf \<lparr>ss_Scaled = ss_Scaled v * 10 ^ ?k, ss_Scale = t\<rparr> (ss_Scale v) =
      Ret \<lparr>ss_Scaled = round_away (of_int (ss_Scaled v)), ss_Scale = ss_Scale v\<rparr>"
    using assms by (subst convertScale_down_eq) simp_all
  then show ?thesis using u by simp
qed

theorem convertScale_up_down_witness:
  "\<exists>w. convertScale (\<lambda>_. 0) \<lparr>ss_Scaled = 12345, ss_Scale = 2\<rparr> 6 = Ret w \<and>
    convertScale (\<lambda>_. 0) w 2 = Ret \<lparr>ss_Scaled = 12345, ss_Scale = 2\<rparr>"
  using convertScale_up_down [of "\<lparr>ss_Scaled = 12345, ss_Scale = 2\<rparr>" 6 "\<lambda>_. 0"] by auto

text \<open>
  Two overflows pass the checks of decimals.go: convertScale of -10^18 from scale 0 to 2
  returns a wrapped value without error, and FloatToScaled of 2^63 returns the
  implementation's out-of-range conversion.
\<close>

theorem overflow_checks_miss:
  "convertScale ovf \<lparr>ss_Scaled = - (10 ^ 18), ss_Scale = 0\<rparr> 2 = Ret \<lparr>ss_Scaled = - 7766279631452241920, ss_Scale = 2\<rparr> \<and>
   FloatToScaled ovf (Fin (2 ^ 63)) 0 None = Ret \<lparr>pd_Scaled = ovf (Fin (2 ^ 63)), pd_Scale = 0\<rparr>"
proof
  have m: "f_to_int64 ovf (math_Pow 10 2) = 100" using f_to_int64_pow10 [of 2 ovf] by simp
  have n: "nat 2 = 2" by simp
  show "convertScale ovf \<lparr>ss_Scaled = - (10 ^ 18), ss_Scale = 0\<rparr> 2 =
      Ret \<lparr>ss_Scaled = - 7766279631452241920, ss_Scale = 2\<rparr>"
    by (simp add: convertScale_def m Let_def go_div_def sdiv_nonneg is_int64_def) (simp add: wrap64_def)
  have p: "math_Pow 10 0 = Fin 1" using math_Pow10 [of 0] by simp
  have "round_rat (2 powi 63) = 2 powi 63" by (rule round_rat_pow2) simp
  then have r: "round_rat (2 ^ 63) = 2 ^ 63" by (simp add: power_int_def)
  have f: "fl (2 ^ 63) = Fin (2 ^ 63)" using fl_small [of "2 ^ 63"] r by simp
  have a: "round_away (2 ^ 63) = 2 ^ 63" using round_away_of_int [of "2 ^ 63"] by simp
  have t: "trunc_rat (2 ^ 63) = 2 ^ 63" using trunc_rat_of_int [of "2 ^ 63"] by simp
  show "FloatToScaled ovf (Fin (2 ^ 63)) 0 None = Ret \<lparr>pd_Scaled = ovf (Fin (2 ^ 63)), pd_Scale = 0\<rparr>"
    using f a t by (simp add: FloatToScaled_def config_or_default_def DefaultScaledDecimalConfig_def validateScale_def p Let_def
        f_to_int64_def wrap32_def)
qed

text \<open>
  A protobuf decimal of at most 2^50 units and scale 0 to 9 survives ScaledToFloat
  followed by FloatToScaled, float rounding errors included.
\<close>

theorem ScaledToFloat_FloatToScaled:
  assumes "\<bar>pd_Scaled d\<bar> \<le> 2 ^ 50" "0 \<le> pd_Scale d" "pd_Scale d \<le> 9"
  shows "\<exists>x. ScaledToFloat (Some d) = Ret x \<and> FloatToScaled ovf x (pd_Scale d) None = Ret d"
proof -
  have "0 \<le> pd_Scale d" "pd_Scale d \<le> 22" using assms by simp_all
  from scaled_roundtrip [OF assms(1) this, of ovf] obtain q w where
    q: "f_div (f_of_int (pd_Scaled d)) (math_Pow 10 (pd_Scale d)) = Fin q" "f_mul (Fin q) (math_Pow 10 (pd_Scale d)) = Fin w"
      "\<bar>w - of_int (pd_Scaled d)\<bar> < 1/2" "f_to_int64 ovf (math_Round (Fin w)) = pd_Scaled d" by blast
  have "\<bar>rat_of_int (pd_Scaled d)\<bar> \<le> 2 ^ 50"
    using assms(1) by (metis of_int_abs of_int_le_iff of_int_numeral of_int_power)
  moreover have "\<bar>w\<bar> \<le> \<bar>w - of_int (pd_Scaled d)\<bar> + \<bar>of_int (pd_Scaled d)\<bar>" by linarith
  ultimately have "\<not> 2 ^ 63 < \<bar>w\<bar>" using q(3) by simp
  then show ?thesis using q assms
    by (simp add: ScaledToFloat_def FloatToScaled_def config_or_default_def DefaultScaledDecimalConfig_def validateScale_def
        Let_def wrap32_id)
qed

theorem ScaledToFloat_FloatToScaled_witness:
  "\<exists>x. ScaledToFloat (Some \<lparr>pd_Scaled = 12345, pd_Scale = 2\<rparr>) = Ret x \<and>
    FloatToScaled (\<lambda>_. 0) x 2 None = Ret \<lparr>pd_Scaled = 12345, pd_Scale = 2\<rparr>"
  using ScaledToFloat_FloatToScaled [of "\<lparr>pd_Scaled = 12345, pd_Scale = 2\<rparr>" "\<lambda>_. 0"] by simp

text \<open>
  AttachCurrency returns the trimmed code in capitals exactly when it is three letters,
  with a warning exactly when the code is not in the table of major currencies, and
  GetCurrencyInfo then succeeds; otherwise it returns no code and an error.
\<close>

theorem AttachCurrency_shape:
  "(case AttachCurrency code of (c, err) \<Rightarrow>
     if length (TrimSpace code) = 3 \<and> list_all is_upper (ToUpper (TrimSpace code))
     then c = ToUpper (TrimSpace code) \<and> (err = None \<longleftrightarrow> c \<in> fst ` set major_currency_names) \<and> is_ret (GetCurrencyInfo code)
     else c = [] \<and> err \<noteq> None)"
proof -
  have "''currency validation warning: %w'' = ''currency validation '' @ ''warning'' @ '': %w''" by simp
  then have "sublist ''warning'' ''currency validation warning: %w''" unfolding sublist_def by blast
  then have w: "has_warning (Wrapf ''currency validation warning: %w'' [] e)" for e
    by (simp add: has_warning_def Contains_def)
  have t: "TrimSpace [] = []" by (simp add: TrimSpace_def)
  show ?thesis
    by (cases "code = []") (auto simp: t AttachCurrency_def GetCurrencyInfo_def Let_def validateCurrencyCode_def ToUpper_def w
        split: option.split) 
qed

end
