(* ===== verification/Emit.thy ===== *)
theory Emit
  imports Fundamentals EmitDecimal
begin

text \<open>
  Emission of normalized values as protobuf messages: \<^verbatim>\<open>validation.go\<close>, \<^verbatim>\<open>bars.go\<close>, \<^verbatim>\<open>quotes.go\<close> and
  \<^verbatim>\<open>fundamentals.go\<close> of \<^verbatim>\<open>internal/emit\<close>. A message is the record of the fields the code sets;
  \<^verbatim>\<open>timestamppb.New\<close> is the parameter \<open>pb\<close>. The arguments of these functions that are pointers
  are never nil at their calls, except the top ones, which are options.
\<close>

section \<open>Validation\<close>

definition emit_ValidateSecurity :: "Security \<Rightarrow> unit go" where
  "emit_ValidateSecurity sec =
     (if Symbol sec = [] then Err (ValidationError ''symbol'' ''symbol cannot be empty'' [])
      else if MIC sec \<noteq> [] then
        if length (MIC sec) \<noteq> 4 then Err (ValidationError ''mic'' ''MIC must be exactly 4 characters'' [])
        else if \<not> list_all (\<lambda>c. is_upper c \<or> is_digit c) (MIC sec)
        then Err (ValidationError ''mic'' ''MIC must be uppercase alphanumeric (4 chars)'' [])
        else Ret ()
      else Ret ())"

definition ValidateTimeWindow :: "instant \<Rightarrow> instant \<Rightarrow> instant \<Rightarrow> unit go" where
  "ValidateTimeWindow start end_t event =
     (let expectedEnd = start + 24 * hour in
      if end_t \<noteq> expectedEnd
      then Err (ValidationError ''time_window'' ''end time must be start + 24h, got %v, expected %v''
                  [ATime end_t, ATime expectedEnd])
      else if event \<noteq> end_t
      then Err (ValidationError ''event_time'' ''event_time must equal end time for daily bars, got %v, expected %v''
                  [ATime event, ATime end_t])
      else Ret ())"

definition ValidateDecimal :: "ScaledDecimal \<Rightarrow> unit go" where
  "ValidateDecimal d =
     (if Scale d < 0 \<or> 9 < Scale d
      then Err (ValidationError ''scale'' ''scale must be between 0 and 9, got %d'' [AInt (Scale d)])
      else Ret ())"

text \<open>The table of major currencies only decides whether to do nothing in a second way.\<close>

definition ValidateCurrency :: "string \<Rightarrow> unit go" where
  "ValidateCurrency code =
     (if code = [] then Err (ValidationError ''currency_code'' ''currency code cannot be empty'' [])
      else if length code \<noteq> 3
      then Err (ValidationError ''currency_code'' ''currency code must be 3 characters, got %d'' [AInt (int (length code))])
      else if \<not> list_all is_upper code
      then Err (ValidationError ''currency_code'' ''currency code must be 3 uppercase letters'' [])
      else Ret ())"

definition ValidateAdjustments :: "bool \<Rightarrow> string \<Rightarrow> unit go" where
  "ValidateAdjustments adjusted policyID =
     (if policyID \<notin> {''raw'', ''split_only'', ''split_dividend''}
      then Err (ValidationError ''adjustment_policy_id''
                  ''invalid adjustment policy: %s, must be one of: raw, split_only, split_dividend'' [AStr policyID])
      else if adjusted \<and> policyID = ''raw''
      then Err (ValidationError ''adjustment_consistency'' ''cannot have adjusted=true with policy=raw'' [])
      else if \<not> adjusted \<and> (policyID = ''split_only'' \<or> policyID = ''split_dividend'')
      then Err (ValidationError ''adjustment_consistency'' ''cannot have adjusted=false with policy=%s'' [AStr policyID])
      else Ret ())"

definition allowedKeys :: "string list" where
  "allowedKeys =
     [''revenue'', ''total_revenue'', ''gross_profit'', ''operating_income'', ''net_income'', ''eps_basic'',
      ''total_assets'', ''total_liabilities'', ''shareholders_equity'', ''cash_and_equivalents'', ''total_debt'',
      ''free_cash_flow'', ''operating_cash_flow'', ''investing_cash_flow'', ''financing_cash_flow'',
      ''earnings_per_share'', ''book_value_per_share'', ''price_to_earnings'', ''price_to_book'', ''debt_to_equity'',
      ''return_on_equity'', ''return_on_assets'']"

definition validate_line :: "nat \<Rightarrow> NormalizedFundamentalsLine \<Rightarrow> unit go" where
  "validate_line i line =
     go_bind (go_guard (fl_Key line \<notin> set allowedKeys \<and> \<not> HasPrefix (fl_Key line) ''custom_'')
       (ValidationError (''lines['' @ show_nat i @ ''].key'')
          ''key '%s' not in whitelist and doesn't have 'custom_' prefix'' [AStr (fl_Key line)])) (\<lambda>_.
     go_bind (go_wrap ''lines[%d].value: %w'' [AInt (int i)] (ValidateDecimal (fl_Value line))) (\<lambda>_.
     go_bind (go_wrap ''lines[%d].currency_code: %w'' [AInt (int i)] (ValidateCurrency (fl_CurrencyCode line))) (\<lambda>_.
     go_guard (fl_PeriodEnd line < fl_PeriodStart line)
       (ValidationError (''lines['' @ show_nat i @ ''].period'') ''period_start must be before period_end'' []))))"

definition ValidateFundamentals :: "NormalizedFundamentalsLine list \<Rightarrow> unit go" where
  "ValidateFundamentals lines = go_iter validate_line 0 lines"

section \<open>Messages\<close>

record pb_SecurityId =
  ps_Symbol :: string
  ps_Mic :: string

datatype pb_AdjustmentPolicy =
  ADJUSTMENT_POLICY_UNSPECIFIED | ADJUSTMENT_POLICY_RAW | ADJUSTMENT_POLICY_SPLIT_ONLY | ADJUSTMENT_POLICY_SPLIT_DIVIDEND

record 'ts pb_Bar =
  pbar_Security :: pb_SecurityId
  pbar_Start :: 'ts
  pbar_End :: 'ts
  pbar_Open :: pb_Decimal
  pbar_High :: pb_Decimal
  pbar_Low :: pb_Decimal
  pbar_Close :: pb_Decimal
  pbar_Volume :: int64
  pbar_Adjusted :: bool
  pbar_AdjustmentPolicyId :: string
  pbar_AdjustmentPolicy :: pb_AdjustmentPolicy
  pbar_EventTime :: 'ts
  pbar_IngestTime :: 'ts
  pbar_AsOf :: 'ts

record pb_Meta =
  pm_RunId :: string
  pm_Source :: string
  pm_Producer :: string
  pm_SchemaVersion :: string

record 'ts pb_QuoteTick =
  pq_Security :: pb_SecurityId
  pq_Bid :: "pb_Decimal option"
  pq_BidSize :: int64
  pq_Ask :: "pb_Decimal option"
  pq_AskSize :: int64
  pq_Venue :: string
  pq_EventTime :: 'ts
  pq_IngestTime :: 'ts
  pq_Meta :: pb_Meta

record 'ts pb_LineItem =
  pl_Key :: string
  pl_Value :: pb_Decimal
  pl_CurrencyCode :: string
  pl_PeriodStart :: 'ts
  pl_PeriodEnd :: 'ts

record 'ts pb_FundamentalsSnapshot =
  pf_Security :: pb_SecurityId
  pf_Lines :: "'ts pb_LineItem list"
  pf_Source :: string
  pf_AsOf :: 'ts
  pf_Meta :: pb_Meta

section \<open>Emission\<close>

definition emitDecimal :: "ScaledDecimal option \<Rightarrow> pb_Decimal go" where
  "emitDecimal d =
     (case d of None \<Rightarrow> Err (Errorf ''decimal cannot be nil'' [])
      | Some d \<Rightarrow> go_bind (ValidateDecimal d) (\<lambda>_. Ret \<lparr>pd_Scaled = Scaled d, pd_Scale = wrap32 (Scale d)\<rparr>))"

definition emitSecurity :: "Security \<Rightarrow> pb_SecurityId" where
  "emitSecurity s = \<lparr>ps_Symbol = Symbol s, ps_Mic = MIC s\<rparr>"

definition convertAdjustmentPolicy :: "string \<Rightarrow> pb_AdjustmentPolicy" where
  "convertAdjustmentPolicy policyID =
     (if policyID = ''raw'' then ADJUSTMENT_POLICY_RAW
      else if policyID = ''split_only'' then ADJUSTMENT_POLICY_SPLIT_ONLY
      else if policyID = ''split_dividend'' then ADJUSTMENT_POLICY_SPLIT_DIVIDEND
      else ADJUSTMENT_POLICY_UNSPECIFIED)"

definition emitBar :: "(instant \<Rightarrow> 'ts) \<Rightarrow> NormalizedBar \<Rightarrow> Security \<Rightarrow> 'ts pb_Bar go" where
  "emitBar pb n security =
     go_bind (go_wrap ''time window validation failed: %w'' []
       (ValidateTimeWindow (nb_Start n) (nb_End n) (nb_EventTime n))) (\<lambda>_.
     go_bind (go_wrap ''currency validation failed: %w'' [] (ValidateCurrency (nb_CurrencyCode n))) (\<lambda>_.
     go_bind (go_wrap ''adjustment validation failed: %w'' []
       (ValidateAdjustments (nb_Adjusted n) (nb_AdjustmentPolicyID n))) (\<lambda>_.
     go_bind (go_wrap ''open price validation failed: %w'' [] (emitDecimal (Some (nb_Open n)))) (\<lambda>open_p.
     go_bind (go_wrap ''high price validation failed: %w'' [] (emitDecimal (Some (nb_High n)))) (\<lambda>high_p.
     go_bind (go_wrap ''low price validation failed: %w'' [] (emitDecimal (Some (nb_Low n)))) (\<lambda>low_p.
     go_bind (go_wrap ''close price validation failed: %w'' [] (emitDecimal (Some (nb_Close n)))) (\<lambda>close_p.
     Ret \<lparr>pbar_Security = emitSecurity security, pbar_Start = pb (nb_Start n), pbar_End = pb (nb_End n),
          pbar_Open = open_p, pbar_High = high_p, pbar_Low = low_p, pbar_Close = close_p, pbar_Volume = nb_Volume n,
          pbar_Adjusted = nb_Adjusted n, pbar_AdjustmentPolicyId = nb_AdjustmentPolicyID n,
          pbar_AdjustmentPolicy = convertAdjustmentPolicy (nb_AdjustmentPolicyID n),
          pbar_EventTime = pb (nb_EventTime n), pbar_IngestTime = pb (nb_IngestTime n), pbar_AsOf = pb (nb_AsOf n)\<rparr>)))))))"

fun emit_loop :: "string \<Rightarrow> ('a \<Rightarrow> 'b go) \<Rightarrow> nat \<Rightarrow> 'a list \<Rightarrow> 'b list go" where
  "emit_loop f emit i [] = Ret []"
| "emit_loop f emit i (x # xs) =
     go_bind (go_wrap f [AInt (int i)] (emit x)) (\<lambda>y. go_bind (emit_loop f emit (Suc i) xs) (\<lambda>ys. Ret (y # ys)))"

definition EmitBarBatch :: "(instant \<Rightarrow> 'ts) \<Rightarrow> NormalizedBarBatch option \<Rightarrow> 'ts pb_Bar list go" where
  "EmitBarBatch pb n =
     (case n of None \<Rightarrow> Err (Errorf ''normalized bar batch cannot be nil'' [])
      | Some n \<Rightarrow>
          go_bind (go_wrap ''security validation failed: %w'' [] (emit_ValidateSecurity (nbb_Security n))) (\<lambda>_.
          emit_loop ''failed to emit bar %d: %w'' (\<lambda>bar. emitBar pb bar (nbb_Security n)) 0 (nbb_Bars n)))"

definition emitMeta :: "Meta \<Rightarrow> pb_Meta" where
  "emitMeta m = \<lparr>pm_RunId = mt_RunID m, pm_Source = mt_Source m, pm_Producer = mt_Producer m,
     pm_SchemaVersion = mt_SchemaVersion m\<rparr>"

definition getInt64Value :: "int64 option \<Rightarrow> int64" where
  "getInt64Value p = (case p of None \<Rightarrow> 0 | Some n \<Rightarrow> n)"

definition emit_opt :: "string \<Rightarrow> ScaledDecimal option \<Rightarrow> pb_Decimal option go" where
  "emit_opt f p = (case p of None \<Rightarrow> Ret None
     | Some d \<Rightarrow> go_bind (go_wrap f [] (emitDecimal (Some d))) (\<lambda>x. Ret (Some x)))"

definition EmitQuote :: "(instant \<Rightarrow> 'ts) \<Rightarrow> NormalizedQuote option \<Rightarrow> 'ts pb_QuoteTick go" where
  "EmitQuote pb n =
     (case n of None \<Rightarrow> Err (Errorf ''normalized quote cannot be nil'' [])
      | Some n \<Rightarrow>
          go_bind (go_wrap ''security validation failed: %w'' [] (emit_ValidateSecurity (nq_Security n))) (\<lambda>_.
          go_bind (go_wrap ''currency validation failed: %w'' [] (ValidateCurrency (nq_CurrencyCode n))) (\<lambda>_.
          go_bind (emit_opt ''bid price validation failed: %w'' (nq_Bid n)) (\<lambda>bid.
          go_bind (emit_opt ''ask price validation failed: %w'' (nq_Ask n)) (\<lambda>ask.
          Ret \<lparr>pq_Security = emitSecurity (nq_Security n), pq_Bid = bid, pq_BidSize = getInt64Value (nq_BidSize n),
               pq_Ask = ask, pq_AskSize = getInt64Value (nq_AskSize n), pq_Venue = nq_Venue n,
               pq_EventTime = pb (nq_EventTime n), pq_IngestTime = pb (nq_IngestTime n),
               pq_Meta = emitMeta (nq_Meta n)\<rparr>)))))"

definition emitLineItem :: "(instant \<Rightarrow> 'ts) \<Rightarrow> NormalizedFundamentalsLine \<Rightarrow> 'ts pb_LineItem go" where
  "emitLineItem pb n =
     go_bind (go_wrap ''value validation failed: %w'' [] (emitDecimal (Some (fl_Value n)))) (\<lambda>val.
     go_bind (go_wrap ''currency validation failed: %w'' [] (ValidateCurrency (fl_CurrencyCode n))) (\<lambda>_.
     Ret \<lparr>pl_Key = fl_Key n, pl_Value = val, pl_CurrencyCode = fl_CurrencyCode n,
          pl_PeriodStart = pb (fl_PeriodStart n), pl_PeriodEnd = pb (fl_PeriodEnd n)\<rparr>))"

definition EmitFundamentals ::
  "(instant \<Rightarrow> 'ts) \<Rightarrow> NormalizedFundamentalsSnapshot option \<Rightarrow> 'ts pb_FundamentalsSnapshot go" where
  "EmitFundamentals pb n =
     (case n of None \<Rightarrow> Err (Errorf ''normalized fundamentals snapshot cannot be nil'' [])
      | Some n \<Rightarrow>
          go_bind (go_wrap ''security validation failed: %w'' [] (emit_ValidateSecurity (fs_Security n))) (\<lambda>_.
          go_bind (go_wrap ''fundamentals validation failed: %w'' [] (ValidateFundamentals (fs_Lines n))) (\<lambda>_.
          go_bind (emit_loop ''failed to emit line item %d: %w'' (emitLineItem pb) 0 (fs_Lines n)) (\<lambda>lines.
          Ret \<lparr>pf_Security = emitSecurity (fs_Security n), pf_Lines = lines, pf_Source = fs_Source n,
               pf_AsOf = pb (fs_AsOf n), pf_Meta = emitMeta (fs_Meta n)\<rparr>))))"

section \<open>Lemmas\<close>

definition currency_ok :: "string \<Rightarrow> bool" where
  "currency_ok c \<longleftrightarrow> length c = 3 \<and> list_all is_upper c"

lemma ValidateCurrency_iff: "ValidateCurrency c = Ret u \<longleftrightarrow> currency_ok c"
  by (auto simp: ValidateCurrency_def currency_ok_def)

lemma emit_ValidateSecurity_iff:
  "emit_ValidateSecurity s = Ret u \<longleftrightarrow> Symbol s \<noteq> [] \<and> (MIC s = [] \<or> mic_shaped (MIC s))"
  by (auto simp: emit_ValidateSecurity_def mic_shaped_def)

lemma emitDecimal_2: "Scale d = 2 \<Longrightarrow> emitDecimal (Some d) = Ret \<lparr>pd_Scaled = Scaled d, pd_Scale = 2\<rparr>"
  by (simp add: emitDecimal_def ValidateDecimal_def wrap32_def)

lemma emit_loop_Ret: "emit_loop f emit i xs = Ret ys \<longleftrightarrow> list_all2 (\<lambda>x y. emit x = Ret y) xs ys"
  by (induction xs arbitrary: i ys) (auto simp: go_bind_eq_Ret list_all2_Cons1)

text \<open>The message of a bar: the decimals as they are, the times and the rest unchanged.\<close>

definition bar_emitted :: "(instant \<Rightarrow> 'ts) \<Rightarrow> Security \<Rightarrow> NormalizedBar \<Rightarrow> 'ts pb_Bar \<Rightarrow> bool" where
  "bar_emitted pb sec n m \<longleftrightarrow> pbar_Security m = \<lparr>ps_Symbol = Symbol sec, ps_Mic = MIC sec\<rparr> \<and>
     pbar_Start m = pb (nb_Start n) \<and> pbar_End m = pb (nb_End n) \<and> pbar_EventTime m = pb (nb_EventTime n) \<and>
     pbar_Open m = \<lparr>pd_Scaled = Scaled (nb_Open n), pd_Scale = 2\<rparr> \<and>
     pbar_High m = \<lparr>pd_Scaled = Scaled (nb_High n), pd_Scale = 2\<rparr> \<and>
     pbar_Low m = \<lparr>pd_Scaled = Scaled (nb_Low n), pd_Scale = 2\<rparr> \<and>
     pbar_Close m = \<lparr>pd_Scaled = Scaled (nb_Close n), pd_Scale = 2\<rparr> \<and> pbar_Volume m = nb_Volume n \<and>
     pbar_Adjusted m = nb_Adjusted n \<and>
     pbar_AdjustmentPolicy m = (if nb_Adjusted n then ADJUSTMENT_POLICY_SPLIT_DIVIDEND else ADJUSTMENT_POLICY_RAW)"

text \<open>What the normalizer establishes of each bar.\<close>

definition nb_shape :: "bool \<Rightarrow> string \<Rightarrow> NormalizedBar \<Rightarrow> bool" where
  "nb_shape adj cur n \<longleftrightarrow> nb_End n = nb_Start n + 24 * hour \<and> nb_EventTime n = nb_End n \<and> nb_Adjusted n = adj \<and>
     nb_AdjustmentPolicyID n = (if adj then ''split_dividend'' else ''raw'') \<and> nb_CurrencyCode n = cur \<and>
     Scale (nb_Open n) = 2 \<and> Scale (nb_High n) = 2 \<and> Scale (nb_Low n) = 2 \<and> Scale (nb_Close n) = 2"

lemma normalizeBar_shape:
  assumes "normalizeBar ovf b cur sc adj (if adj then ''split_dividend'' else ''raw'') now = Ret n"
  shows "nb_shape adj cur n"
  using assms by (auto simp: normalizeBar_def nb_shape_def ToUTCDayBoundaries_def Let_def go_bind_eq_Ret
      dest!: ToScaledDecimalWithCurrency_Scale)

lemma normalize_bars_loop_set: "n \<in> set (normalize_bars_loop f bs) \<Longrightarrow> \<exists>b \<in> set bs. f b = Ret n"
  by (induction bs) (auto split: go.splits)

lemma NormalizeBars_shape:
  assumes "NormalizeBars ovf now bars (Some meta) runID = Ret batch"
  shows "nbb_Security batch = CreateSecurity (cm_Symbol meta) (cm_ExchangeName meta) (cm_ExchangeName meta) \<and>
    Symbol (nbb_Security batch) \<noteq> [] \<and> nbb_Bars batch \<noteq> [] \<and>
    (\<exists>adj. list_all (nb_shape adj (cm_Currency meta)) (nbb_Bars batch))"
proof -
  define adj where "adj = list_ex (\<lambda>bar. b_AdjClose bar \<noteq> None) bars"
  define f where "f = (\<lambda>bar. normalizeBar ovf bar (cm_Currency meta) (GetScaleForCurrency (cm_Currency meta)) adj
     (if adj then ''split_dividend'' else ''raw'') now)"
  have b: "nbb_Bars batch = normalize_bars_loop f bars" "nbb_Bars batch \<noteq> []"
    "nbb_Security batch = CreateSecurity (cm_Symbol meta) (cm_ExchangeName meta) (cm_ExchangeName meta)"
    "Symbol (nbb_Security batch) \<noteq> []"
    using assms by (auto simp: NormalizeBars_def Let_def go_bind_eq_Ret f_def adj_def ValidateSecurity_def split: if_splits)
  have "nb_shape adj (cm_Currency meta) n" if "n \<in> set (nbb_Bars batch)" for n
    using normalize_bars_loop_set [of n f bars] that b(1) normalizeBar_shape unfolding f_def by auto
  then show ?thesis using b by (auto simp: list_all_iff)
qed

lemma emitBar_shape:
  assumes "nb_shape adj cur n"
  shows "if currency_ok cur then \<exists>m. emitBar pb n sec = Ret m \<and> bar_emitted pb sec n m else \<exists>e. emitBar pb n sec = Err e"
proof -
  have d: "emitDecimal (Some (nb_Open n)) = Ret \<lparr>pd_Scaled = Scaled (nb_Open n), pd_Scale = 2\<rparr>"
    "emitDecimal (Some (nb_High n)) = Ret \<lparr>pd_Scaled = Scaled (nb_High n), pd_Scale = 2\<rparr>"
    "emitDecimal (Some (nb_Low n)) = Ret \<lparr>pd_Scaled = Scaled (nb_Low n), pd_Scale = 2\<rparr>"
    "emitDecimal (Some (nb_Close n)) = Ret \<lparr>pd_Scaled = Scaled (nb_Close n), pd_Scale = 2\<rparr>"
    using assms by (simp_all add: emitDecimal_2 nb_shape_def)
  have w: "ValidateTimeWindow (nb_Start n) (nb_End n) (nb_EventTime n) = Ret ()"
    "ValidateAdjustments (nb_Adjusted n) (nb_AdjustmentPolicyID n) = Ret ()"
    using assms by (simp_all add: nb_shape_def ValidateTimeWindow_def ValidateAdjustments_def)
  have c: "nb_CurrencyCode n = cur" using assms by (simp add: nb_shape_def)
  have v: "currency_ok cur \<Longrightarrow> ValidateCurrency cur = Ret ()" "\<not> currency_ok cur \<Longrightarrow> \<exists>e. ValidateCurrency cur = Err e"
    by (auto simp: ValidateCurrency_def currency_ok_def)
  have pol: "convertAdjustmentPolicy (nb_AdjustmentPolicyID n) =
      (if nb_Adjusted n then ADJUSTMENT_POLICY_SPLIT_DIVIDEND else ADJUSTMENT_POLICY_RAW)"
    using assms by (simp add: nb_shape_def convertAdjustmentPolicy_def)
  show ?thesis using v by (auto simp: emitBar_def d w c pol bar_emitted_def emitSecurity_def)
qed

lemma EmitBarBatch_shape:
  assumes "list_all (nb_shape adj cur) (nbb_Bars batch)" "nbb_Bars batch \<noteq> []" "Symbol (nbb_Security batch) \<noteq> []"
  shows "if currency_ok cur \<and> (MIC (nbb_Security batch) = [] \<or> mic_shaped (MIC (nbb_Security batch)))
    then \<exists>ms. EmitBarBatch pb (Some batch) = Ret ms \<and> list_all2 (bar_emitted pb (nbb_Security batch)) (nbb_Bars batch) ms
    else \<exists>e. EmitBarBatch pb (Some batch) = Err e"
proof -
  let ?sec = "nbb_Security batch" and ?f = "''failed to emit bar %d: %w''"
  have e: "if currency_ok cur then \<exists>ms. emit_loop ?f (\<lambda>bar. emitBar pb bar ?sec) i bs = Ret ms \<and> list_all2 (bar_emitted pb ?sec) bs ms
      else bs \<noteq> [] \<longrightarrow> (\<exists>e. emit_loop ?f (\<lambda>bar. emitBar pb bar ?sec) i bs = Err e)"
    if "list_all (nb_shape adj cur) bs" for i bs
    using that
  proof (induction bs arbitrary: i)
    case (Cons b bs)
    then have b: "nb_shape adj cur b" by simp
    note IH = Cons.IH [of "Suc i"]
    show ?case using emitBar_shape [OF b, of pb ?sec] IH Cons.prems by (auto split: if_splits)
  qed simp
  have v: "MIC ?sec = [] \<or> mic_shaped (MIC ?sec) \<Longrightarrow> emit_ValidateSecurity ?sec = Ret ()"
    "\<not> (MIC ?sec = [] \<or> mic_shaped (MIC ?sec)) \<Longrightarrow> \<exists>e. emit_ValidateSecurity ?sec = Err e"
    using assms(3) by (auto simp: emit_ValidateSecurity_def mic_shaped_def)
  show ?thesis
    using e [OF assms(1), of 0] v assms(2) by (cases "MIC ?sec = [] \<or> mic_shaped (MIC ?sec)") (auto simp: EmitBarBatch_def split: if_splits)
qed

lemma shape_not_OTC: "m = [] \<or> m = ''OTC'' \<or> mic_shaped m \<Longrightarrow> (m = [] \<or> mic_shaped m) \<longleftrightarrow> m \<noteq> ''OTC''"
  by (auto simp: mic_shaped_def)

lemma InferMIC_cases3: "InferMIC e f = [] \<or> InferMIC e f = ''OTC'' \<or> mic_shaped (InferMIC e f)"
  using InferMIC_range [of e f] mic_table_shaped by blast

text \<open>The keys the normalizer gives to fundamentals lines.\<close>

lemma NormalizeFundamentals_lines:
  assumes "values_int64 fu" "NormalizeFundamentals ovf now (Some fu) symbol runID = Ret snap"
  shows "symbol \<noteq> [] \<and> list_all2 (line_matches now) (fundamentals_values fu) (fs_Lines snap) \<and> fs_Security snap = \<lparr>Symbol = symbol, MIC = []\<rparr>"
  using assms(2) all_lines [OF assms(1), of ovf now]
  by (auto simp: NormalizeFundamentals_def Let_def go_bind_eq_Ret ValidateSecurity_def split: if_splits)

lemma present_keys: "(k, d, r) \<in> set (present e kvs) \<Longrightarrow> k \<in> fst ` set kvs"
  by (force simp: present_def List.map_filter_def)

lemma fundamentals_keys:
  "(k, d, r) \<in> set (fundamentals_values fu) \<Longrightarrow>
   k \<in> {''revenue'', ''net_income'', ''eps_basic'', ''total_assets'', ''total_liabilities'', ''total_equity'', ''operating_cashflow''}"
  by (auto simp: fundamentals_values_def income_values_def balance_values_def cashflow_values_def dest!: present_keys)

lemma line_emits:
  assumes "line_matches now (k, d, r) l" "k \<in> {''revenue'', ''net_income'', ''eps_basic'', ''total_assets'',
      ''total_liabilities'', ''total_equity'', ''operating_cashflow''}"
  shows "validate_line i l = Ret () \<longleftrightarrow> k \<notin> {''total_equity'', ''operating_cashflow''}"
    and "\<exists>m. emitLineItem pb l = Ret m \<and> pl_Key m = k \<and> pl_Value m = \<lparr>pd_Scaled = Scaled (fl_Value l), pd_Scale = 2\<rparr>"
proof -
  have c: "ValidateCurrency ''USD'' = Ret ()" by (simp add: ValidateCurrency_iff currency_ok_def is_upper_def code_of_def)
  have p: "fl_PeriodStart l \<le> fl_PeriodEnd l" and l: "fl_Key l = k" "fl_CurrencyCode l = ''USD''" "Scale (fl_Value l) = 2"
    using assms(1) by (auto simp: line_matches_def quarter_before_def day_ns_def)
  have "k \<in> set allowedKeys \<longleftrightarrow> k \<notin> {''total_equity'', ''operating_cashflow''}" "\<not> HasPrefix k ''custom_''"
    using assms(2) by (auto simp: allowedKeys_def HasPrefix_def)
  then show "validate_line i l = Ret () \<longleftrightarrow> k \<notin> {''total_equity'', ''operating_cashflow''}"
    using p by (auto simp: validate_line_def go_bind_eq_Ret l c ValidateDecimal_def)
  show "\<exists>m. emitLineItem pb l = Ret m \<and> pl_Key m = k \<and> pl_Value m = \<lparr>pd_Scaled = Scaled (fl_Value l), pd_Scale = 2\<rparr>"
    by (simp add: emitLineItem_def l c emitDecimal_2)
qed

section \<open>Properties\<close>

text \<open>
  C5: A normalized bar batch is emitted exactly when its currency is three capital letters and
  its market is not OTC; then there is one message per bar, with its times, scaled prices at
  scale 2, volume and adjustment policy unchanged.
\<close>

theorem EmitBarBatch_of_normalized:
  assumes "NormalizeBars ovf now bars (Some meta) runID = Ret batch"
  shows "if currency_ok (cm_Currency meta) \<and> InferMIC (cm_ExchangeName meta) (cm_ExchangeName meta) \<noteq> ''OTC''
    then \<exists>ms. EmitBarBatch pb (Some batch) = Ret ms \<and> list_all2 (bar_emitted pb (nbb_Security batch)) (nbb_Bars batch) ms
    else \<exists>e. EmitBarBatch pb (Some batch) = Err e"
proof -
  obtain adj where a: "list_all (nb_shape adj (cm_Currency meta)) (nbb_Bars batch)" "nbb_Bars batch \<noteq> []"
    "Symbol (nbb_Security batch) \<noteq> []" "MIC (nbb_Security batch) = InferMIC (cm_ExchangeName meta) (cm_ExchangeName meta)"
    using NormalizeBars_shape [OF assms] by (auto simp: CreateSecurity_def Let_def)
  show ?thesis using EmitBarBatch_shape [OF a(1-3), of pb] unfolding a(4) shape_not_OTC [OF InferMIC_cases3] .
qed

theorem EmitBarBatch_of_normalized_witness:
  "\<exists>batch ms. NormalizeBars (\<lambda>_. 0) 0 [sample_bar] (Some sample_meta) ''run'' = Ret batch \<and>
     EmitBarBatch (\<lambda>t. t) (Some batch) = Ret ms \<and> length ms = 1"
proof -
  have "bar_fits sample_bar" by (simp add: sample_bar_def bar_fits_def price_fits_def)
  from normalizeBar_fits [OF this, of "\<lambda>_. 0" "''USD''" 2 True "''split_dividend''" 0]
  obtain nb where nb: "normalizeBar (\<lambda>_. 0) sample_bar ''USD'' 2 True ''split_dividend'' 0 = Ret nb" by blast
  have a: "\<exists>y. b_AdjClose sample_bar = Some y" by (simp add: sample_bar_def)
  obtain batch where b: "NormalizeBars (\<lambda>_. 0) 0 [sample_bar] (Some sample_meta) ''run'' = Ret batch" "length (nbb_Bars batch) = 1"
    using nb a by (simp add: NormalizeBars_def Let_def CreateSecurity_valid sample_meta_def)
  have "InferMIC ''NMS'' ''NMS'' = ''XNAS''" by (simp add: InferMIC_def ExchangeToMIC_def mic_table_def)
  then show ?thesis using EmitBarBatch_of_normalized [OF b(1), of "\<lambda>t. t"] b
    by (auto simp: sample_meta_def currency_ok_def is_upper_def code_of_def dest: list_all2_lengthD)
qed

text \<open>
  C23: A normalized fundamentals snapshot can be emitted exactly when it has neither a
  total_equity nor an operating_cashflow line: the normalizer uses two keys that the whitelist
  of the emitter does not have.
\<close>

theorem EmitFundamentals_of_normalized:
  assumes "values_int64 fu" "NormalizeFundamentals ovf now (Some fu) symbol runID = Ret snap"
  shows "is_ret (EmitFundamentals pb (Some snap)) \<longleftrightarrow>
    (\<forall>(k, d, r) \<in> set (fundamentals_values fu). k \<noteq> ''total_equity'' \<and> k \<noteq> ''operating_cashflow'')"
proof -
  have n: "symbol \<noteq> []" "list_all2 (line_matches now) (fundamentals_values fu) (fs_Lines snap)"
    "fs_Security snap = \<lparr>Symbol = symbol, MIC = []\<rparr>"
    using NormalizeFundamentals_lines [OF assms] by simp_all
  have sec: "emit_ValidateSecurity (fs_Security snap) = Ret ()" by (simp add: n emit_ValidateSecurity_iff)
  have each: "i < length (fs_Lines snap) \<Longrightarrow> \<exists>k d r. fundamentals_values fu ! i = (k, d, r) \<and>
      (validate_line j (fs_Lines snap ! i) = Ret () \<longleftrightarrow> k \<notin> {''total_equity'', ''operating_cashflow''}) \<and>
      is_ret (emitLineItem pb (fs_Lines snap ! i))" for i j
    using n(2) line_emits fundamentals_keys unfolding list_all2_conv_all_nth is_ret_conv
    by (metis nth_mem prod_cases3)
  have v: "ValidateFundamentals (fs_Lines snap) = Ret () \<longleftrightarrow>
      (\<forall>(k, d, r) \<in> set (fundamentals_values fu). k \<notin> {''total_equity'', ''operating_cashflow''})"
    unfolding ValidateFundamentals_def go_iter_Ret all_set_conv_all_nth
    using each list_all2_lengthD [OF n(2)] by fastforce
  have l: "is_ret (emit_loop s (emitLineItem pb) i ls)" if "\<forall>x \<in> set ls. is_ret (emitLineItem pb x)" for s i ls
    using that
  proof (induction ls arbitrary: i)
    case (Cons a ls)
    obtain y where "emitLineItem pb a = Ret y" using Cons.prems by (auto simp: is_ret_conv)
    moreover obtain ys where "emit_loop s (emitLineItem pb) (Suc i) ls = Ret ys"
      using Cons.IH [of "Suc i"] Cons.prems by (auto simp: is_ret_conv)
    ultimately show ?case by simp
  qed simp
  have "\<forall>x \<in> set (fs_Lines snap). is_ret (emitLineItem pb x)" using each by (metis in_set_conv_nth)
  then have el: "is_ret (emit_loop s (emitLineItem pb) 0 (fs_Lines snap))" for s by (rule l)
  have "is_ret (EmitFundamentals pb (Some snap)) \<longleftrightarrow> ValidateFundamentals (fs_Lines snap) = Ret ()"
    using el [unfolded is_ret_conv, of "''failed to emit line item %d: %w''"]
    by (cases "ValidateFundamentals (fs_Lines snap)") (auto simp: EmitFundamentals_def sec)
  then show ?thesis unfolding v by auto
qed

theorem EmitFundamentals_of_normalized_witness:
  "\<exists>snap. NormalizeFundamentals (\<lambda>_. 0) 0 (Some sample_fundamentals) ''AAPL'' ''run'' = Ret snap \<and>
     is_ret (EmitFundamentals (\<lambda>t. t) (Some snap))"
proof -
  have v: "values_int64 sample_fundamentals"
    by (simp add: values_int64_def sample_fundamentals_def sample_income_def raw_int64_def raw_of_def is_int64_def)
  have f: "fundamentals_values sample_fundamentals = [(''revenue'', 1703980800, 119575), (''eps_basic'', 1703980800, 218)]"
    by (simp add: fundamentals_values_def sample_fundamentals_def sample_income_def income_values_def present_def raw_of_def
        map_filter_simps)
  obtain snap where s: "NormalizeFundamentals (\<lambda>_. 0) 0 (Some sample_fundamentals) ''AAPL'' ''run'' = Ret snap"
    using NormalizeFundamentals_cases [of "''AAPL''", OF _ v, of "\<lambda>_. 0" 0 "''run''"] unfolding f by auto
  show ?thesis using EmitFundamentals_of_normalized [OF v s, of "\<lambda>t. t"] s unfolding f by simp
qed

text \<open>
  A normalized quote is emitted exactly when its currency is three capital letters and
  its market is not OTC, and the message carries the normalized bid, ask, venue and event
  time.
\<close>

theorem EmitQuote_of_normalized:
  assumes "NormalizeQuote ovf now q runID = Ret nq"
  shows "if currency_ok (q_Currency q) \<and> InferMIC (q_Exchange q) (q_FullExchangeName q) \<noteq> ''OTC''
    then \<exists>m. EmitQuote pb (Some nq) = Ret m \<and> pq_Bid m = map_option (\<lambda>d. \<lparr>pd_Scaled = Scaled d, pd_Scale = 2\<rparr>) (nq_Bid nq) \<and>
      pq_Ask m = map_option (\<lambda>d. \<lparr>pd_Scaled = Scaled d, pd_Scale = 2\<rparr>) (nq_Ask nq) \<and> pq_Venue m = nq_Venue nq \<and>
      pq_EventTime m = pb now
    else \<exists>e. EmitQuote pb (Some nq) = Err e"
proof -
  have sc: "scale_opt ovf s 2 p = Ret r \<Longrightarrow> pred_option (\<lambda>d. Scale d = 2) r" for s p r
    by (auto simp: scale_opt_def go_bind_eq_Ret ToScaledDecimal_2 [of _ _ "[]"] dest!: ToScaledDecimalWithCurrency_Scale
        split: option.splits)
  have n: "nq_Security nq = CreateSecurity (q_Symbol q) (q_Exchange q) (q_FullExchangeName q)" "Symbol (nq_Security nq) \<noteq> []"
    "nq_CurrencyCode nq = q_Currency q" "nq_EventTime nq = now"
    "pred_option (\<lambda>d. Scale d = 2) (nq_Bid nq)" "pred_option (\<lambda>d. Scale d = 2) (nq_Ask nq)"
    using assms by (auto simp: NormalizeQuote_def Let_def go_bind_eq_Ret ValidateSecurity_def split: if_splits dest!: sc)
  have o: "pred_option (\<lambda>d. Scale d = 2) p \<Longrightarrow>
      emit_opt s p = Ret (map_option (\<lambda>d. \<lparr>pd_Scaled = Scaled d, pd_Scale = 2\<rparr>) p)" for s p
    by (cases p) (simp_all add: emit_opt_def emitDecimal_2)
  have m: "MIC (nq_Security nq) = InferMIC (q_Exchange q) (q_FullExchangeName q)"
    using n(1) by (simp add: CreateSecurity_def Let_def)
  have v: "MIC (nq_Security nq) \<noteq> ''OTC'' \<Longrightarrow> emit_ValidateSecurity (nq_Security nq) = Ret ()"
    "MIC (nq_Security nq) = ''OTC'' \<Longrightarrow> \<exists>e. emit_ValidateSecurity (nq_Security nq) = Err e"
    using InferMIC_cases3 [of "q_Exchange q" "q_FullExchangeName q"] n(2) unfolding m [symmetric]
    by (auto simp: emit_ValidateSecurity_iff) (simp add: emit_ValidateSecurity_def)
  have c: "currency_ok cur \<Longrightarrow> ValidateCurrency cur = Ret ()" "\<not> currency_ok cur \<Longrightarrow> \<exists>e. ValidateCurrency cur = Err e" for cur
    by (auto simp: ValidateCurrency_def currency_ok_def)
  show ?thesis
    using v c [of "q_Currency q"] unfolding m
    by (cases "InferMIC (q_Exchange q) (q_FullExchangeName q) = ''OTC''"; cases "currency_ok (q_Currency q)")
      (auto simp: EmitQuote_def n(3,4) o [OF n(5)] o [OF n(6)])
qed

theorem EmitQuote_of_normalized_witness:
  "\<exists>nq m. NormalizeQuote (\<lambda>_. 0) 7 (quote_of_result sample_quote) ''run'' = Ret nq \<and> EmitQuote (\<lambda>t. t) (Some nq) = Ret m \<and> pq_EventTime m = 7"
proof -
  have c: "currency_ok (q_Currency (quote_of_result sample_quote))"
    by (simp add: sample_quote_def quote_of_result_def currency_ok_def is_upper_def code_of_def)
  have i: "InferMIC (q_Exchange (quote_of_result sample_quote)) (q_FullExchangeName (quote_of_result sample_quote)) \<noteq> ''OTC''"
    by (simp add: sample_quote_def quote_of_result_def InferMIC_def ExchangeToMIC_def mic_table_def)
  obtain nq where nq: "NormalizeQuote (\<lambda>_. 0) 7 (quote_of_result sample_quote) ''run'' = Ret nq"
    by (simp add: NormalizeQuote_def sample_quote_def quote_of_result_def CreateSecurity_valid Let_def scale_opt_def
        ToScaledDecimal_def)
  show ?thesis using EmitQuote_of_normalized [OF nq, of "\<lambda>t. t"] c i nq by auto
qed

end
