(* ===== verification/BusTopic.thy ===== *)
theory BusTopic
  imports Prelude
begin

text \<open>
  Topics of the message bus: \<^verbatim>\<open>internal/bus/topic.go\<close>, with the partition key of
  \<^verbatim>\<open>internal/bus/types.go\<close>.
\<close>

section \<open>Model\<close>

record Key =
  k_Symbol :: string
  k_MIC :: string

definition PartitionKey :: "Key \<Rightarrow> string" where
  "PartitionKey k = (if k_MIC k = [] then k_Symbol k else k_MIC k @ ''.'' @ k_Symbol k)"

record TopicBuilder =
  tb_env :: string
  tb_topicPrefix :: string

definition NewTopicBuilder :: "string \<Rightarrow> string \<Rightarrow> TopicBuilder" where
  "NewTopicBuilder env topicPrefix = \<lparr>tb_env = env, tb_topicPrefix = topicPrefix\<rparr>"

definition buildSubtopic :: "Key \<Rightarrow> string" where
  "buildSubtopic key = (if k_MIC key = [] then k_Symbol key else k_MIC key @ ''.'' @ k_Symbol key)"

text \<open>\<^verbatim>\<open>fmt.Sprintf("%s.%s.DOMAIN.%s.%s", prefix, env, version, subtopic)\<close>.\<close>

definition format_topic :: "TopicBuilder \<Rightarrow> string \<Rightarrow> string \<Rightarrow> string \<Rightarrow> string" where
  "format_topic b domain version subtopic =
     tb_topicPrefix b @ ''.'' @ tb_env b @ ''.'' @ domain @ ''.'' @ version @ ''.'' @ subtopic"

definition BuildBarsTopic :: "TopicBuilder \<Rightarrow> Key \<Rightarrow> string \<Rightarrow> string" where
  "BuildBarsTopic b key version = format_topic b ''bars'' version (buildSubtopic key)"

definition BuildQuotesTopic :: "TopicBuilder \<Rightarrow> Key \<Rightarrow> string \<Rightarrow> string" where
  "BuildQuotesTopic b key version = format_topic b ''ticks'' version (buildSubtopic key)"

definition BuildFundamentalsTopic :: "TopicBuilder \<Rightarrow> Key \<Rightarrow> string \<Rightarrow> string" where
  "BuildFundamentalsTopic b key version = format_topic b ''fundamentals'' version (k_Symbol key)"

definition validDomains :: "string list" where
  "validDomains = [''bars'', ''ticks'', ''fundamentals'', ''news'', ''fx'', ''signals'', ''orders'', ''fills'',
     ''positions'', ''metrics'', ''dlq'', ''control'']"

definition ValidateTopic :: "string \<Rightarrow> unit go" where
  "ValidateTopic topic =
     (if topic = [] then Err (Errorf ''topic cannot be empty'' [])
      else
        let parts = split_char CHR ''.'' topic in
        if length parts < 4
        then Err (Errorf ''topic must have at least 4 parts: prefix.env.domain.version.subtopic'' [])
        else if parts ! 1 = [] then Err (Errorf ''environment cannot be empty'' [])
        else if parts ! 2 \<notin> set validDomains then Err (Errorf ''invalid domain: %s'' [AStr (parts ! 2)])
        else if \<not> HasPrefix (parts ! 3) ''v''
        then Err (Errorf (''version must start with 'v': %s'') [AStr (parts ! 3)])
        else Ret ())"

record TopicComponents =
  tc_Prefix :: string
  tc_Env :: string
  tc_Domain :: string
  tc_Version :: string
  tc_Subtopic :: string

definition ParseTopic :: "string \<Rightarrow> TopicComponents go" where
  "ParseTopic topic =
     go_bind (ValidateTopic topic) (\<lambda>_.
     let parts = split_char CHR ''.'' topic in
     Ret \<lparr>tc_Prefix = parts ! 0, tc_Env = parts ! 1, tc_Domain = parts ! 2, tc_Version = parts ! 3,
          tc_Subtopic = Join (drop 4 parts) ''.''\<rparr>)"

definition TopicComponents_String :: "TopicComponents \<Rightarrow> string" where
  "TopicComponents_String tc =
     (if tc_Subtopic tc = []
      then tc_Prefix tc @ ''.'' @ tc_Env tc @ ''.'' @ tc_Domain tc @ ''.'' @ tc_Version tc
      else tc_Prefix tc @ ''.'' @ tc_Env tc @ ''.'' @ tc_Domain tc @ ''.'' @ tc_Version tc @ ''.'' @ tc_Subtopic tc)"

section \<open>Lemmas\<close>

abbreviation dot :: char where "dot \<equiv> CHR ''.''"

lemma split_format:
  assumes "dot \<notin> set p" "dot \<notin> set e" "dot \<notin> set d" "dot \<notin> set v"
  shows "split_char dot (p @ dot # e @ dot # d @ dot # v @ dot # s) = [p, e, d, v] @ split_char dot s"
  using assms by (simp add: split_char_append_sep)

lemma ParseTopic_format:
  assumes "dot \<notin> set (tb_topicPrefix b)" "dot \<notin> set (tb_env b)" "tb_env b \<noteq> []"
    and "d \<in> set validDomains" "dot \<notin> set v" "HasPrefix v ''v''"
  shows "ParseTopic (format_topic b d v s) =
    Ret \<lparr>tc_Prefix = tb_topicPrefix b, tc_Env = tb_env b, tc_Domain = d, tc_Version = v, tc_Subtopic = s\<rparr>"
proof -
  have d: "dot \<notin> set d" using assms(4) by (auto simp: validDomains_def)
  have p: "split_char dot (format_topic b d v s) = [tb_topicPrefix b, tb_env b, d, v] @ split_char dot s"
    using split_format [OF assms(1,2) d assms(5)] by (simp add: format_topic_def)
  have "ValidateTopic (format_topic b d v s) = Ret ()"
    using assms by (simp add: ValidateTopic_def p) (simp add: format_topic_def)
  then show ?thesis by (simp add: ParseTopic_def p Join_split_char)
qed

text \<open>Printing a parsed topic gives it back, up to one trailing dot.\<close>

theorem ParseTopic_String:
  assumes "ParseTopic t = Ret c"
  shows "TopicComponents_String c = t \<or> TopicComponents_String c @ ''.'' = t"
proof -
  let ?p = "split_char dot t"
  have v: "ValidateTopic t = Ret ()" and c: "c = \<lparr>tc_Prefix = ?p ! 0, tc_Env = ?p ! 1, tc_Domain = ?p ! 2,
      tc_Version = ?p ! 3, tc_Subtopic = Join (drop 4 ?p) ''.''\<rparr>"
    using assms by (auto simp: ParseTopic_def go_bind_eq_Ret Let_def)
  have "4 \<le> length ?p" using v by (auto simp: ValidateTopic_def Let_def split: if_splits)
  then obtain w x y z r where r: "?p = w # x # y # z # r" by (auto simp: numeral_eq_Suc Suc_le_length_iff)
  have t: "t = Join (w # x # y # z # r) ''.''" using Join_split_char [of dot t] r by simp
  show ?thesis
  proof (cases r)
    case Nil
    then show ?thesis using t r c by (simp add: TopicComponents_String_def)
  next
    case (Cons a rs)
    then have j: "t = w @ ''.'' @ x @ ''.'' @ y @ ''.'' @ z @ ''.'' @ Join r ''.''" using t by (simp add: Join_Cons)
    show ?thesis using j r c by (simp add: TopicComponents_String_def)
  qed
qed

section \<open>Properties\<close>

text \<open>
  A topic built for bars, quotes or fundamentals parses back to its prefix, environment,
  domain, version and subtopic, also when the symbol has dots.
\<close>

theorem ParseTopic_built:
  assumes "dot \<notin> set (tb_topicPrefix b)" "dot \<notin> set (tb_env b)" "tb_env b \<noteq> []"
    and "dot \<notin> set v" "HasPrefix v ''v''"
  shows "ParseTopic (BuildBarsTopic b key v) = Ret \<lparr>tc_Prefix = tb_topicPrefix b, tc_Env = tb_env b,
      tc_Domain = ''bars'', tc_Version = v, tc_Subtopic = PartitionKey key\<rparr> \<and>
    ParseTopic (BuildQuotesTopic b key v) = Ret \<lparr>tc_Prefix = tb_topicPrefix b, tc_Env = tb_env b,
      tc_Domain = ''ticks'', tc_Version = v, tc_Subtopic = PartitionKey key\<rparr> \<and>
    ParseTopic (BuildFundamentalsTopic b key v) = Ret \<lparr>tc_Prefix = tb_topicPrefix b, tc_Env = tb_env b,
      tc_Domain = ''fundamentals'', tc_Version = v, tc_Subtopic = k_Symbol key\<rparr>"
  using assms by (simp_all add: BuildBarsTopic_def BuildQuotesTopic_def BuildFundamentalsTopic_def ParseTopic_format
      validDomains_def PartitionKey_def buildSubtopic_def)

theorem ParseTopic_built_witness:
  "ParseTopic (BuildBarsTopic (NewTopicBuilder ''prod'' ''ampy'') \<lparr>k_Symbol = ''BRK.B'', k_MIC = ''XNYS''\<rparr> ''v1'') =
    Ret \<lparr>tc_Prefix = ''ampy'', tc_Env = ''prod'', tc_Domain = ''bars'', tc_Version = ''v1'', tc_Subtopic = ''XNYS.BRK.B''\<rparr>"
  using ParseTopic_built [of "NewTopicBuilder ''prod'' ''ampy''" "''v1''" "\<lparr>k_Symbol = ''BRK.B'', k_MIC = ''XNYS''\<rparr>"]
  by (simp add: NewTopicBuilder_def HasPrefix_def PartitionKey_def)

end
