(* ===== verification/BusChunking.thy ===== *)
theory BusChunking
  imports Prelude
begin

text \<open>
  Chunking of payloads: \<^verbatim>\<open>internal/bus/chunking.go\<close>. A payload is a string of bytes; \<open>ovf\<close> is the
  implementation's value of a float that does not fit an \<open>int64\<close>.
\<close>

section \<open>Model\<close>

record ChunkingStrategy =
  cs_MaxPayloadBytes :: int64

record ChunkInfo =
  ci_Index :: int
  ci_Size :: int
  ci_IsLast :: bool

record ChunkResult =
  cr_Chunks :: "string list"
  cr_ChunkInfo :: "ChunkInfo list"

record ChunkingInfo =
  ChunkCount :: int
  MaxPayload :: int64
  ChunkSizes :: "int list"

definition NewChunkingStrategy :: "int64 \<Rightarrow> ChunkingStrategy" where
  "NewChunkingStrategy maxPayloadBytes = \<lparr>cs_MaxPayloadBytes = maxPayloadBytes\<rparr>"

text \<open>\<^verbatim>\<open>payload[start:end]\<close> and \<^verbatim>\<open>make([]T, n)\<close>, with their panics.\<close>

definition go_slice :: "string \<Rightarrow> int \<Rightarrow> int \<Rightarrow> string go" where
  "go_slice xs a b =
     (if 0 \<le> a \<and> a \<le> b \<and> b \<le> int (length xs) then Ret (take (nat (b - a)) (drop (nat a) xs))
      else Panic ''slice bounds out of range'')"

definition go_make :: "int \<Rightarrow> unit go" where
  "go_make n = (if n < 0 then Panic ''makeslice: len out of range'' else Ret ())"

definition num_chunks :: "(f64 \<Rightarrow> int) \<Rightarrow> int \<Rightarrow> int \<Rightarrow> int" where
  "num_chunks ovf len max_bytes = f_to_int64 ovf (math_Ceil (f_div (f_of_int len) (f_of_int max_bytes)))"

definition chunk_at :: "string \<Rightarrow> int \<Rightarrow> int \<Rightarrow> string go" where
  "chunk_at payload max_bytes i =
     (let start = wrap64 (i * max_bytes);
          end0 = wrap64 (start + max_bytes);
          end1 = (if int (length payload) < end0 then int (length payload) else end0)
      in go_slice payload start end1)"

fun chunk_loop :: "string \<Rightarrow> int \<Rightarrow> int \<Rightarrow> nat list \<Rightarrow> (string \<times> ChunkInfo) list go" where
  "chunk_loop payload max_bytes numChunks [] = Ret []"
| "chunk_loop payload max_bytes numChunks (i # is) =
     go_bind (chunk_at payload max_bytes (int i)) (\<lambda>chunk.
     go_bind (chunk_loop payload max_bytes numChunks is) (\<lambda>rest.
     Ret ((chunk, \<lparr>ci_Index = int i, ci_Size = int (length chunk), ci_IsLast = (int i = numChunks - 1)\<rparr>) # rest)))"

definition ChunkPayload :: "(f64 \<Rightarrow> int) \<Rightarrow> ChunkingStrategy \<Rightarrow> string \<Rightarrow> ChunkResult go" where
  "ChunkPayload ovf cs payload =
     (if length payload = 0 then
        Ret \<lparr>cr_Chunks = [payload], cr_ChunkInfo = [\<lparr>ci_Index = 0, ci_Size = 0, ci_IsLast = True\<rparr>]\<rparr>
      else if int (length payload) \<le> cs_MaxPayloadBytes cs then
        Ret \<lparr>cr_Chunks = [payload],
             cr_ChunkInfo = [\<lparr>ci_Index = 0, ci_Size = int (length payload), ci_IsLast = True\<rparr>]\<rparr>
      else
        let numChunks = num_chunks ovf (int (length payload)) (cs_MaxPayloadBytes cs) in
        go_bind (go_make numChunks) (\<lambda>_.
        go_bind (chunk_loop payload (cs_MaxPayloadBytes cs) numChunks [0..<nat numChunks]) (\<lambda>cis.
        Ret \<lparr>cr_Chunks = map fst cis, cr_ChunkInfo = map snd cis\<rparr>)))"

definition EstimateChunkCount :: "(f64 \<Rightarrow> int) \<Rightarrow> ChunkingStrategy \<Rightarrow> int \<Rightarrow> int" where
  "EstimateChunkCount ovf cs payloadSize =
     (if payloadSize = 0 then 1
      else if payloadSize \<le> cs_MaxPayloadBytes cs then 1
      else num_chunks ovf payloadSize (cs_MaxPayloadBytes cs))"

definition ValidateChunkSize :: "ChunkingStrategy \<Rightarrow> string \<Rightarrow> unit go" where
  "ValidateChunkSize cs chunk =
     go_guard (cs_MaxPayloadBytes cs < int (length chunk))
       (Errorf ''chunk size %d exceeds maximum %d bytes'' [AInt (int (length chunk)), AInt (cs_MaxPayloadBytes cs)])"

definition GetChunkingInfo :: "(f64 \<Rightarrow> int) \<Rightarrow> ChunkingStrategy \<Rightarrow> int \<Rightarrow> ChunkingInfo go" where
  "GetChunkingInfo ovf cs payloadSize =
     (let chunkCount = EstimateChunkCount ovf cs payloadSize in
      go_bind (go_make chunkCount) (\<lambda>_.
      if chunkCount = 1
      then Ret \<lparr>ChunkCount = chunkCount, MaxPayload = cs_MaxPayloadBytes cs, ChunkSizes = [payloadSize]\<rparr>
      else if chunkCount = 0 then Panic ''integer divide by zero''
      else
        let baseSize = payloadSize sdiv chunkCount;
            remainder = payloadSize smod chunkCount
        in Ret \<lparr>ChunkCount = chunkCount, MaxPayload = cs_MaxPayloadBytes cs,
                ChunkSizes = map (\<lambda>i. if int i < remainder then baseSize + 1 else baseSize) [0..<nat chunkCount]\<rparr>))"

section \<open>The number of chunks\<close>

text \<open>
  The float quotient of two integers below \<open>2 ^ 53\<close> rounds up to the same integer as the exact one:
  it lies strictly between two integers when the exact one does.
\<close>

lemma ceil_fl_div:
  assumes "0 < a" "a < 2 ^ 53" "0 < b" "b < 2 ^ 63"
  shows "\<exists>y. fl (of_int a / of_int b) = Fin y \<and> \<lceil>y\<rceil> = (a + b - 1) div b"
proof -
  define x :: rat where "x = of_int a / of_int b"
  define n where "n = a div b"
  define r where "r = a mod b"
  have n: "a = b * n + r" "0 \<le> r" "r < b" using assms(3) by (simp_all add: n_def r_def)
  have B: "(0::rat) < of_int b" "(1::rat) \<le> of_int b" "(0::rat) < of_int a" using assms by simp_all
  have A: "of_int a < (2::rat) ^ 53"
  proof -
    have "rat_of_int a < of_int (2 ^ 53)" using assms(2) by (simp only: of_int_less_iff)
    then show ?thesis by simp
  qed
  have n0: "0 \<le> n" using assms by (simp add: n_def pos_imp_zdiv_nonneg_iff)
  have x: "x = of_int n + of_int r / of_int b"
  proof -
    have "(of_int a :: rat) = of_int b * of_int n + of_int r" by (metis n(1) of_int_add of_int_mult)
    then show ?thesis using B unfolding x_def by (simp add: field_simps)
  qed
  have xp: "0 < x" "x \<le> of_int a" "1 / of_int b \<le> x" using B by (simp_all add: x_def divide_le_eq divide_right_mono)
  have xs: "x < 2 ^ 53" using xp(2) A by linarith
  have f: "fl x = Fin (round_rat x)" using xs xp(1) by (intro fl_small) simp
  show ?thesis
  proof (cases "r = 0")
    case True
    have "n \<le> a" using n(1) True assms n0 by (simp add: mult_le_cancel_right1)
    then have "round_rat x = of_int n" using x True n0 assms(2) by (simp add: round_rat_of_int)
    moreover have "(a + b - 1) div b = n"
    proof -
      have "a + b - 1 = b * n + (b - 1)" using n(1) True by simp
      then show ?thesis by (rule int_div_pos_eq) (use assms in simp_all)
    qed
    ultimately show ?thesis using f by (simp add: x_def)
  next
    case False
    have lt: "of_int n < x" "x < of_int (n + 1)" 
    proof -
      have "0 < r" using n(2) False by simp
      then have "0 < rat_of_int r / of_int b" "rat_of_int r / of_int b < 1" using n(3) B by simp_all
      then show "of_int n < x" "x < of_int (n + 1)" unfolding x by simp_all
    qed
    have "n < a" using lt(1) xp(2) by linarith
    then have "round_rat (of_int n) = of_int n" "round_rat (of_int (n + 1)) = of_int (n + 1)"
      using n0 assms(2) by (intro round_rat_of_int; simp)+
    then have lo: "of_int n \<le> round_rat x" and hi: "round_rat x \<le> of_int (n + 1)"
      using round_rat_mono [of "of_int n" x] round_rat_mono [of x "of_int (n + 1)"] lt by simp_all
    have tiny: "2 powi (-1022) \<le> \<bar>x\<bar>"
    proof -
      have "rat_of_int b \<le> of_int (2 ^ 63)" using assms(4) by (simp only: of_int_le_iff less_imp_le)
      then have "(1::rat) / 2 ^ 63 \<le> 1 / of_int b" using B by (intro frac_le) simp_all
      moreover have "(2::rat) powi (-1022) \<le> 1 / 2 ^ 63" by (simp add: power_int_minus divide_simps)
      ultimately show ?thesis using xp by linarith
    qed
    have "\<bar>round_rat x - x\<bar> \<le> \<bar>x\<bar> / 2 ^ 53" by (rule round_rat_error [OF tiny])
    also have "\<dots> < 1 / of_int b" using A B by (simp add: x_def divide_simps)
    also have "\<dots> \<le> x - of_int n" unfolding x using n False B by (simp add: divide_right_mono)
    finally have "of_int n < round_rat x" by linarith
    then have "\<lceil>round_rat x\<rceil> = n + 1" using hi by (intro ceiling_unique) simp_all
    moreover have "(a + b - 1) div b = n + 1"
    proof -
      have "a + b - 1 = b * (n + 1) + (r - 1)" using n(1) by (simp add: algebra_simps)
      then show ?thesis by (rule int_div_pos_eq) (use n False in simp_all)
    qed
    ultimately show ?thesis using f by (simp add: x_def)
  qed
qed

lemma num_chunks_eq:
  assumes "0 < n" "n < 2 ^ 53" "0 < m" "m < 2 ^ 53"
  shows "num_chunks ovf n m = (n + m - 1) div m"
proof -
  obtain y where y: "fl (of_int n / of_int m) = Fin y" "\<lceil>y\<rceil> = (n + m - 1) div m"
    using ceil_fl_div [of n m] assms by auto
  have "(n + m - 1) div m \<le> n + m - 1" "0 \<le> (n + m - 1) div m"
    using zdiv_mono2 [of "n + m - 1" 1 m] assms by (simp_all add: pos_imp_zdiv_nonneg_iff)
  then have "is_int64 ((n + m - 1) div m)" using assms by (simp add: is_int64_def)
  then show ?thesis using assms y by (simp add: num_chunks_def f_of_int_small)
qed

section \<open>The contract of chunking\<close>

text \<open>
  What a publisher needs: the pieces are within the limit and give the payload back in order. A
  consumer that receives them all, in order, can rebuild it.
\<close>

locale payload_chunker =
  fixes chunks :: "string \<Rightarrow> string list"
    and limit :: nat
    and ok :: "string \<Rightarrow> bool"
  assumes concat_chunks: "ok p \<Longrightarrow> concat (chunks p) = p"
    and chunk_size: "ok p \<Longrightarrow> c \<in> set (chunks p) \<Longrightarrow> length c \<le> limit"
begin

lemma chunks_bound: "ok p \<Longrightarrow> length p \<le> limit * length (chunks p)"
proof -
  assume ok: "ok p"
  have "length (concat cs) \<le> limit * length cs" if "\<forall>c \<in> set cs. length c \<le> limit" for cs :: "string list"
    using that by (induction cs) auto
  then show ?thesis using concat_chunks [OF ok] chunk_size [OF ok] by metis
qed

lemma chunks_inject: "ok p \<Longrightarrow> ok q \<Longrightarrow> chunks p = chunks q \<Longrightarrow> p = q"
  using concat_chunks [of p] concat_chunks [of q] by metis

end

text \<open>The pieces of the code: consecutive slices of \<open>m\<close> bytes, the last one shorter.\<close>

fun pieces :: "nat \<Rightarrow> nat \<Rightarrow> string \<Rightarrow> string list" where
  "pieces m 0 p = []"
| "pieces m (Suc n) p = take m p # pieces m n (drop m p)"

lemma pieces_concat: "length p \<le> n * m \<Longrightarrow> concat (pieces m n p) = p"
  by (induction n arbitrary: p) auto

lemma pieces_length: "length (pieces m n p) = n"
  by (induction n arbitrary: p) auto

lemma pieces_size: "c \<in> set (pieces m n p) \<Longrightarrow> length c \<le> m"
  by (induction n arbitrary: p) auto

lemma pieces_nth: "i < n \<Longrightarrow> pieces m n p ! i = take m (drop (i * m) p)"
proof (induction n arbitrary: p i)
  case (Suc n)
  then show ?case by (cases i) (simp_all add: add.commute)
qed simp

lemma chunk_at_eq:
  assumes "0 < m" "int (length p) < 2 ^ 53" "m < 2 ^ 53" "int i * m < int (length p)"
  shows "chunk_at p m (int i) = Ret (take (nat m) (drop (i * nat m) p))"
proof -
  have nn: "0 \<le> int i * m" using assms(1) by simp
  have small: "is_int64 x" if "0 \<le> x" "x < 2 ^ 54" for x using that by (simp add: is_int64_def)
  have w: "is_int64 (int i * m)" using assms by (intro small nn) simp
  have w': "is_int64 (int i * m + m)" using assms nn by (intro small) (linarith, simp)
  have n: "nat (int i * m) = i * nat m" using assms(1) by (simp add: nat_mult_distrib)
  show ?thesis
  proof (cases "int (length p) < int i * m + m")
    case True
    have "nat (int (length p) - int i * m) = length p - i * nat m"
      using nat_diff_distrib [OF nn, of "int (length p)"] assms(4) n by simp
    moreover have "take (length p - i * nat m) (drop (i * nat m) p) = take (nat m) (drop (i * nat m) p)"
      using True n by (simp add: take_all)
    ultimately show ?thesis using True w w' assms n by (simp add: chunk_at_def go_slice_def Let_def)
  next
    case False
    have "nat (int i * m + m - int i * m) = nat m" by simp
    then show ?thesis using False w w' assms n by (simp add: chunk_at_def go_slice_def Let_def)
  qed
qed

lemma chunk_loop_eq:
  assumes "\<And>i. i \<in> set is \<Longrightarrow> chunk_at p m (int i) = Ret (f i)"
  shows "chunk_loop p m n is = Ret (map (\<lambda>i. (f i, \<lparr>ci_Index = int i, ci_Size = int (length (f i)), ci_IsLast = (int i = n - 1)\<rparr>)) is)"
  using assms by (induction "is") simp_all

definition info_of :: "string list \<Rightarrow> ChunkInfo list" where
  "info_of cs = map (\<lambda>i. \<lparr>ci_Index = int i, ci_Size = int (length (cs ! i)), ci_IsLast = (i = length cs - 1)\<rparr>) [0..<length cs]"

definition chunks_of :: "nat \<Rightarrow> string \<Rightarrow> string list" where
  "chunks_of m p = (if length p \<le> m then [p] else pieces m ((length p + m - 1) div m) p)"

lemma ceil_bound: "0 < m \<Longrightarrow> (n::nat) \<le> (n + m - 1) div m * m"
proof -
  assume m: "0 < m"
  have "n + m - 1 = (n + m - 1) div m * m + (n + m - 1) mod m" by simp
  moreover have "(n + m - 1) mod m < m" using m by simp
  ultimately show ?thesis by linarith
qed

lemma ChunkPayload_eq:
  assumes "0 < m" "m < 2 ^ 53" "length p < 2 ^ 53"
  shows "ChunkPayload ovf \<lparr>cs_MaxPayloadBytes = int m\<rparr> p = Ret \<lparr>cr_Chunks = chunks_of m p, cr_ChunkInfo = info_of (chunks_of m p)\<rparr>"
proof (cases "length p \<le> m")
  case True
  then show ?thesis by (auto simp: ChunkPayload_def chunks_of_def info_of_def)
next
  case False
  define n where "n = (length p + m - 1) div m"
  have nc: "num_chunks ovf (int (length p)) (int m) = int n"
  proof -
    have "num_chunks ovf (int (length p)) (int m) = (int (length p) + int m - 1) div int m"
    proof (rule num_chunks_eq)
      show "0 < int (length p)" using False by linarith
    qed (use assms in simp_all)
    also have "\<dots> = int n" using False by (simp add: n_def of_nat_diff zdiv_int)
    finally show ?thesis .
  qed
  have i: "i * m < length p" if "i < n" for i
  proof -
    have "i * m + m \<le> n * m" using mult_le_mono1 [of "Suc i" n m] that by simp
    also have "\<dots> \<le> length p + m - 1" by (simp add: n_def)
    finally show ?thesis using assms(1) by linarith
  qed
  have c: "chunk_at p (int m) (int i) = Ret (pieces m n p ! i)" if "i < n" for i
    using chunk_at_eq [of "int m" p i] assms i [OF that] that by (simp add: pieces_nth flip: of_nat_mult)
  have l: "chunk_loop p (int m) (int n) [0..<n] = Ret (map (\<lambda>i. (pieces m n p ! i,
      \<lparr>ci_Index = int i, ci_Size = int (length (pieces m n p ! i)), ci_IsLast = (int i = int n - 1)\<rparr>)) [0..<n])"
    by (rule chunk_loop_eq) (simp add: c)
  have n1: "0 < n" using False assms(1) by (simp add: n_def div_greater_zero_iff)
  have "map ((!) (pieces m n p)) [0..<n] = pieces m n p"
    using map_nth [of "pieces m n p"] by (simp add: pieces_length)
  moreover have "chunks_of m p = pieces m n p" using False by (simp add: chunks_of_def n_def)
  moreover have "p \<noteq> []" using False by (metis le0 list.size(3))
  ultimately show ?thesis using False n1
    by (auto simp: ChunkPayload_def nc go_make_def l comp_def info_of_def pieces_length Let_def)
qed

interpretation code: payload_chunker "chunks_of m" m "\<lambda>p. 0 < m" for m
proof
  show "0 < m \<Longrightarrow> concat (chunks_of m p) = p" for p
    using pieces_concat [OF ceil_bound [of m "length p"]] by (simp add: chunks_of_def)
  show "0 < m \<Longrightarrow> c \<in> set (chunks_of m p) \<Longrightarrow> length c \<le> m" for p c
    by (auto simp: chunks_of_def dest: pieces_size split: if_splits)
qed

section \<open>The estimates\<close>

lemma EstimateChunkCount_eq:
  assumes "0 < m" "m < 2 ^ 53" "length p < 2 ^ 53"
  shows "EstimateChunkCount ovf (NewChunkingStrategy (int m)) (int (length p)) = int (length (chunks_of m p))"
proof (cases "length p \<le> m")
  case False
  have "num_chunks ovf (int (length p)) (int m) = (int (length p) + int m - 1) div int m"
  proof (rule num_chunks_eq)
    show "0 < int (length p)" using False by linarith
  qed (use assms in simp_all)
  also have "\<dots> = int ((length p + m - 1) div m)" using False by (simp add: of_nat_diff zdiv_int)
  finally have "num_chunks ovf (int (length p)) (int m) = int ((length p + m - 1) div m)" .
  moreover have "p \<noteq> []" using False by (metis le0 list.size(3))
  ultimately show ?thesis using False
    by (auto simp: EstimateChunkCount_def NewChunkingStrategy_def chunks_of_def pieces_length)
qed (auto simp: EstimateChunkCount_def NewChunkingStrategy_def chunks_of_def)

lemma GetChunkingInfo_sizes:
  assumes "0 < m" "m < 2 ^ 53" "0 \<le> n" "n < 2 ^ 53"
  shows "\<exists>i. GetChunkingInfo ovf (NewChunkingStrategy m) n = Ret i \<and> sum_list (ChunkSizes i) = n \<and>
    (\<forall>s \<in> set (ChunkSizes i). 0 \<le> s \<and> s \<le> m) \<and> int (length (ChunkSizes i)) = ChunkCount i \<and>
    ChunkCount i = EstimateChunkCount ovf (NewChunkingStrategy m) n"
proof (cases "n \<le> m")
  case True
  then show ?thesis using assms by (simp add: GetChunkingInfo_def EstimateChunkCount_def NewChunkingStrategy_def go_make_def)
next
  case False
  define k where "k = (n + m - 1) div m"
  have e: "EstimateChunkCount ovf (NewChunkingStrategy m) n = k"
    using assms False num_chunks_eq [of n m ovf] by (simp add: EstimateChunkCount_def NewChunkingStrategy_def k_def)
  have km: "n \<le> k * m"
    using div_mult_mod_eq [of "n + m - 1" m] pos_mod_bound [OF assms(1), of "n + m - 1"] unfolding k_def by linarith
  have k: "2 \<le> k"
  proof (rule ccontr)
    assume "\<not> 2 \<le> k"
    then have "k * m \<le> 1 * m" using assms(1) by (intro mult_right_mono) simp_all
    then show False using km False by simp
  qed
  define q r where "q = n div k" and "r = n mod k"
  have qr: "n = k * q + r" "0 \<le> r" "r < k" "0 \<le> q" using k assms(3) by (simp_all add: q_def r_def pos_imp_zdiv_nonneg_iff)
  have qm: "q \<le> m" "0 < r \<Longrightarrow> q + 1 \<le> m"
  proof -
    have "k * q \<le> k * m" using qr(1,2) km mult.commute [of k m] by linarith
    then show "q \<le> m" by (rule mult_left_le_imp_le) (use k in simp)
    assume "0 < r"
    then have "k * q < k * m" using qr(1) km mult.commute [of k m] by linarith
    then have "q < m" by (rule mult_left_less_imp_less) (use k in simp)
    then show "q + 1 \<le> m" by simp
  qed
  define f where "f = (\<lambda>i. if int i < r then q + 1 else q)"
  have i: "GetChunkingInfo ovf (NewChunkingStrategy m) n =
      Ret \<lparr>ChunkCount = k, MaxPayload = m, ChunkSizes = map f [0..<nat k]\<rparr>"
    using k assms(3) unfolding GetChunkingInfo_def e Let_def
    by (simp add: go_make_def NewChunkingStrategy_def f_def q_def r_def sdiv_nonneg smod_nonneg)
  have s: "sum_list (map f [0..<j]) = int j * q + min (int j) r" for j
    using qr(2) by (induction j) (auto simp: f_def algebra_simps min_def)
  show ?thesis unfolding i e using s [of "nat k"] qr qm k by (auto simp: f_def)
qed

text \<open>The sizes a preview announces are not those of the chunks.\<close>

theorem preview_sizes_differ:
  "\<exists>r i. ChunkPayload (\<lambda>_. 0) (NewChunkingStrategy 4) ''abcdefghij'' = Ret r \<and> map length (cr_Chunks r) = [4, 4, 2] \<and>
    GetChunkingInfo (\<lambda>_. 0) (NewChunkingStrategy 4) 10 = Ret i \<and> ChunkSizes i = [4, 3, 3]"
proof -
  have c: "ChunkPayload (\<lambda>_. 0) (NewChunkingStrategy 4) ''abcdefghij'' = Ret \<lparr>cr_Chunks = chunks_of 4 ''abcdefghij'',
      cr_ChunkInfo = info_of (chunks_of 4 ''abcdefghij'')\<rparr>"
    using ChunkPayload_eq [of 4 "''abcdefghij''" "\<lambda>_. 0"] by (simp add: NewChunkingStrategy_def)
  have n: "num_chunks (\<lambda>_. 0) 10 4 = 3" using num_chunks_eq [of 10 4 "\<lambda>_. 0"] by simp
  have i: "GetChunkingInfo (\<lambda>_. 0) (NewChunkingStrategy 4) 10 = Ret \<lparr>ChunkCount = 3, MaxPayload = 4, ChunkSizes = [4, 3, 3]\<rparr>"
    by (simp add: GetChunkingInfo_def EstimateChunkCount_def NewChunkingStrategy_def n go_make_def sdiv_nonneg smod_nonneg
        upt_rec numeral_3_eq_3)
  show ?thesis unfolding c i by (simp add: chunks_of_def numeral_3_eq_3)
qed

section \<open>Properties\<close>

text \<open>
  C38: ChunkPayload never panics for a positive limit below 2^53: the chunks concatenate to
  the payload, each passes ValidateChunkSize, the chunk infos describe them, and
  EstimateChunkCount gives their number although it is computed with a float division.
\<close>

theorem ChunkPayload_spec:
  assumes "0 < m" "m < 2 ^ 53" "length p < 2 ^ 53"
  shows "\<exists>r. ChunkPayload ovf (NewChunkingStrategy (int m)) p = Ret r \<and> concat (cr_Chunks r) = p \<and>
    (\<forall>c \<in> set (cr_Chunks r). ValidateChunkSize (NewChunkingStrategy (int m)) c = Ret ()) \<and>
    cr_ChunkInfo r = info_of (cr_Chunks r) \<and>
    EstimateChunkCount ovf (NewChunkingStrategy (int m)) (int (length p)) = int (length (cr_Chunks r))"
proof -
  let ?cs = "chunks_of m p"
  have "EstimateChunkCount ovf (NewChunkingStrategy (int m)) (int (length p)) = int (length ?cs)"
    using assms by (rule EstimateChunkCount_eq)
  moreover have "\<forall>c \<in> set ?cs. ValidateChunkSize (NewChunkingStrategy (int m)) c = Ret ()"
    using code.chunk_size [OF assms(1), of _ p] by (simp add: ValidateChunkSize_def NewChunkingStrategy_def not_less)
  ultimately show ?thesis
    using ChunkPayload_eq [OF assms, of ovf] code.concat_chunks [OF assms(1), of p] by (simp add: NewChunkingStrategy_def)
qed

theorem ChunkPayload_spec_witness:
  "\<exists>r. ChunkPayload (\<lambda>_. 0) (NewChunkingStrategy 4) ''abcdefghij'' = Ret r \<and> concat (cr_Chunks r) = ''abcdefghij''"
  using ChunkPayload_spec [of 4 "''abcdefghij''" "\<lambda>_. 0"] by auto

text \<open>
  The chunk sizes of a preview are within the limit, add up to the payload size and are
  as many as the announced count.
\<close>

theorem preview_sizes:
  assumes "0 < m" "m < 2 ^ 53" "0 \<le> n" "n < 2 ^ 53"
  shows "\<exists>i. GetChunkingInfo ovf (NewChunkingStrategy m) n = Ret i \<and> sum_list (ChunkSizes i) = n \<and>
    (\<forall>s \<in> set (ChunkSizes i). 0 \<le> s \<and> s \<le> m) \<and> int (length (ChunkSizes i)) = ChunkCount i"
  using GetChunkingInfo_sizes [OF assms, of ovf] by blast

theorem preview_sizes_witness:
  "\<exists>i. GetChunkingInfo (\<lambda>_. 0) (NewChunkingStrategy 4) 10 = Ret i \<and> sum_list (ChunkSizes i) = 10"
  using preview_sizes [of 4 10 "\<lambda>_. 0"] by auto

end
