(* ===== verification/BusRetry.thy ===== *)
theory BusRetry
  imports GoTime
begin

text \<open>
  Retries and the circuit breaker of the bus: \<^verbatim>\<open>internal/bus/retry.go\<close>, with its configuration types
  of \<^verbatim>\<open>types.go\<close>. The function that is retried works on a state, and returns nil or an error or panics; the
  random numbers, the outcomes of the \<^verbatim>\<open>select\<close> on the context, and the clock readings are arguments.
\<close>

section \<open>Model\<close>

record RetryConfig =
  rc_Attempts :: int
  rc_BaseMs :: int
  rc_MaxDelayMs :: int

record CircuitBreakerConfig =
  cc_Window :: int
  cc_FailureThreshold :: f64
  cc_ResetTimeoutMs :: int
  cc_HalfOpenProbes :: int

type_synonym 's fn = "'s \<Rightarrow> 's \<times> unit go"

definition IsRetryableError :: "goerror \<Rightarrow> bool" where
  "IsRetryableError err = (case err of RetryableError _ \<Rightarrow> True | _ \<Rightarrow> False)"

text \<open>\<open>r\<close> is the value of \<^verbatim>\<open>rand.Float64()\<close>, in \<open>[0, 1)\<close>.\<close>

definition calculateDelay :: "(f64 \<Rightarrow> int) \<Rightarrow> RetryConfig \<Rightarrow> f64 \<Rightarrow> nat \<Rightarrow> duration" where
  "calculateDelay ovf config r attempt =
     (let delay0 = f_mul (f_of_int (rc_BaseMs config)) (math_Pow 2 (int attempt));
          delay1 = (if f_lt (f_of_int (rc_MaxDelayMs config)) delay0 then f_of_int (rc_MaxDelayMs config) else delay0);
          jitter = f_mul (f_mul delay1 (Fin (1/4))) (f_sub r (Fin (1/2)));
          delay2 = f_add delay1 jitter;
          delay3 = (if f_lt delay2 (Fin 0) then Fin 1 else delay2)
      in dur_mul (f_to_int64 ovf delay3) millisecond)"

definition failed_after :: "RetryConfig \<Rightarrow> goerror option \<Rightarrow> goerror" where
  "failed_after config lastErr =
     (case lastErr of Some e \<Rightarrow> Wrapf ''failed after %d attempts: %w'' [AInt (rc_Attempts config)] e
      | None \<Rightarrow> Errorf ''failed after %d attempts: %w'' [AInt (rc_Attempts config)])"

text \<open>
  The loop: \<open>cancel i\<close> is the context's error when it is done before the timer of attempt \<open>i\<close>. Beside
  the state and the error the loop returns the delays of the timers it started.
\<close>

fun retry_loop ::
  "(f64 \<Rightarrow> int) \<Rightarrow> RetryConfig \<Rightarrow> (nat \<Rightarrow> f64) \<Rightarrow> (nat \<Rightarrow> goerror option) \<Rightarrow> 's fn \<Rightarrow> nat \<Rightarrow> nat \<Rightarrow> goerror option \<Rightarrow> 's \<Rightarrow>
   's \<times> duration list \<times> unit go" where
  "retry_loop ovf config rnd cancel fn 0 attempt lastErr s = (s, [], Err (failed_after config lastErr))"
| "retry_loop ovf config rnd cancel fn (Suc n) attempt lastErr s =
     (case fn s of
        (s', Ret _) \<Rightarrow> (s', [], Ret ())
      | (s', Panic p) \<Rightarrow> (s', [], Panic p)
      | (s', Err err) \<Rightarrow>
          if \<not> IsRetryableError err then (s', [], Err err)
          else if int attempt = rc_Attempts config - 1 then (s', [], Err (failed_after config (Some err)))
          else
            let delay = calculateDelay ovf config (rnd attempt) attempt in
            (case cancel attempt of
               Some e \<Rightarrow> (s', [delay], Err e)
             | None \<Rightarrow>
                 let (s'', ds, r) = retry_loop ovf config rnd cancel fn n (Suc attempt) (Some err) s'
                 in (s'', delay # ds, r)))"

definition ExecuteWithRetry ::
  "(f64 \<Rightarrow> int) \<Rightarrow> RetryConfig \<Rightarrow> (nat \<Rightarrow> f64) \<Rightarrow> (nat \<Rightarrow> goerror option) \<Rightarrow> 's fn \<Rightarrow> 's \<Rightarrow>
   's \<times> duration list \<times> unit go" where
  "ExecuteWithRetry ovf config rnd cancel fn s =
     retry_loop ovf config rnd cancel fn (nat (rc_Attempts config)) 0 None s"

datatype CircuitBreakerState = CircuitBreakerClosed | CircuitBreakerOpen | CircuitBreakerHalfOpen

record CircuitBreaker =
  cb_state :: CircuitBreakerState
  cb_failureCount :: int
  cb_successCount :: int
  cb_lastFailureTime :: instant
  cb_nextAttemptTime :: instant

definition zero_time :: instant where
  "zero_time = time_Date 1 1 1 0"

definition NewCircuitBreaker :: CircuitBreaker where
  "NewCircuitBreaker = \<lparr>cb_state = CircuitBreakerClosed, cb_failureCount = 0, cb_successCount = 0,
     cb_lastFailureTime = zero_time, cb_nextAttemptTime = zero_time\<rparr>"

definition canExecute :: "CircuitBreakerConfig \<Rightarrow> instant \<Rightarrow> CircuitBreaker \<Rightarrow> bool \<times> CircuitBreaker" where
  "canExecute config now cb =
     (case cb_state cb of
        CircuitBreakerClosed \<Rightarrow> (True, cb)
      | CircuitBreakerOpen \<Rightarrow>
          if cb_nextAttemptTime cb < now
          then (True, cb\<lparr>cb_state := CircuitBreakerHalfOpen, cb_successCount := 0\<rparr>)
          else (False, cb)
      | CircuitBreakerHalfOpen \<Rightarrow> (cb_successCount cb < cc_HalfOpenProbes config, cb))"

definition shouldOpenCircuit :: "CircuitBreakerConfig \<Rightarrow> CircuitBreaker \<Rightarrow> bool" where
  "shouldOpenCircuit config cb =
     (if cb_failureCount cb < cc_Window config then False
      else
        let failureRate = f_div (f_of_int (cb_failureCount cb)) (f_of_int (cc_Window config))
        in f_le (cc_FailureThreshold config) failureRate)"

definition recordResult :: "CircuitBreakerConfig \<Rightarrow> instant \<Rightarrow> goerror option \<Rightarrow> CircuitBreaker \<Rightarrow> CircuitBreaker" where
  "recordResult config now err cb =
     (case err of
        Some e \<Rightarrow>
          let cb1 = cb\<lparr>cb_failureCount := cb_failureCount cb + 1, cb_lastFailureTime := now\<rparr> in
          if shouldOpenCircuit config cb1
          then cb1\<lparr>cb_state := CircuitBreakerOpen,
                   cb_nextAttemptTime := now + dur_mul (cc_ResetTimeoutMs config) millisecond\<rparr>
          else cb1
      | None \<Rightarrow>
          let cb1 = cb\<lparr>cb_successCount := cb_successCount cb + 1\<rparr>;
              cb2 = (if cb_state cb1 = CircuitBreakerClosed then cb1\<lparr>cb_failureCount := 0\<rparr> else cb1)
          in if cb_state cb2 = CircuitBreakerHalfOpen \<and> cc_HalfOpenProbes config \<le> cb_successCount cb2
             then cb2\<lparr>cb_state := CircuitBreakerClosed, cb_failureCount := 0\<rparr> else cb2)"

text \<open>\<open>clock\<close> reads the time from the state: before the call in \<^verbatim>\<open>canExecute\<close>, after it in \<^verbatim>\<open>recordResult\<close>.\<close>

definition cb_Execute ::
  "CircuitBreakerConfig \<Rightarrow> ('s \<Rightarrow> instant) \<Rightarrow> 's fn \<Rightarrow> CircuitBreaker \<times> 's \<Rightarrow> (CircuitBreaker \<times> 's) \<times> unit go" where
  "cb_Execute config clock fn = (\<lambda>(cb, s).
     (let (ok, cb1) = canExecute config (clock s) cb in
      if \<not> ok then ((cb1, s), Err (Errorf ''circuit breaker is open'' []))
      else case fn s of
          (s', Ret _) \<Rightarrow> ((recordResult config (clock s') None cb1, s'), Ret ())
        | (s', Err e) \<Rightarrow> ((recordResult config (clock s') (Some e) cb1, s'), Err e)
        | (s', Panic p) \<Rightarrow> ((cb1, s'), Panic p)))"

definition GetState :: "CircuitBreaker \<Rightarrow> CircuitBreakerState" where
  "GetState cb = cb_state cb"

record CircuitBreakerStats =
  st_State :: CircuitBreakerState
  st_FailureCount :: int
  st_SuccessCount :: int
  st_LastFailureTime :: instant
  st_NextAttemptTime :: instant

definition GetStats :: "CircuitBreaker \<Rightarrow> CircuitBreakerStats" where
  "GetStats cb = \<lparr>st_State = cb_state cb, st_FailureCount = cb_failureCount cb, st_SuccessCount = cb_successCount cb,
     st_LastFailureTime = cb_lastFailureTime cb, st_NextAttemptTime = cb_nextAttemptTime cb\<rparr>"

section \<open>The contract of a circuit breaker\<close>

text \<open>
  A breaker decides whether a call may go ahead and records its result. An invariant that both keep
  holds after every sequence of calls.
\<close>

locale call_guard =
  fixes allow :: "'t \<Rightarrow> 'b \<Rightarrow> bool \<times> 'b"
    and note_result :: "'t \<Rightarrow> 'e \<Rightarrow> 'b \<Rightarrow> 'b"
    and inv :: "'b \<Rightarrow> bool"
  assumes allow_inv: "inv b \<Longrightarrow> allow t b = (r, b') \<Longrightarrow> inv b'"
    and result_inv: "inv b \<Longrightarrow> allow t b = (True, b') \<Longrightarrow> inv (note_result t' e b')"
begin

lemma call_inv: "inv b \<Longrightarrow> inv (case allow t b of (r, b') \<Rightarrow> if r then note_result t' e b' else b')"
  using allow_inv result_inv by (cases "allow t b") auto

lemma calls_inv:
  "inv b \<Longrightarrow> inv (fold (\<lambda>(t, t', e) b. case allow t b of (r, b') \<Rightarrow> if r then note_result t' e b' else b') calls b)"
  by (induction calls arbitrary: b) (auto intro: call_inv)

end

section \<open>Lemmas of the breaker\<close>

text \<open>
  The configurations that \<^verbatim>\<open>validateCircuitBreakerConfig\<close> accepts with a window below \<open>2 ^ 53\<close> and a threshold that is a
  number. The validation compares the threshold with 0 and 1 only, so NaN passes it; such a breaker is not covered here.
\<close>

definition cc_ok :: "CircuitBreakerConfig \<Rightarrow> bool" where
  "cc_ok c \<longleftrightarrow> 0 < cc_Window c \<and> cc_Window c < 2 ^ 53 \<and> 0 < cc_HalfOpenProbes c \<and>
     (case cc_FailureThreshold c of Fin q \<Rightarrow> 0 < q \<and> q \<le> 1 | _ \<Rightarrow> False)"

lemma rate_at_least_one:
  assumes "0 < w" "w < 2 ^ 53" "w \<le> n"
  shows "f_le (Fin 1) (f_div (f_of_int n) (f_of_int w))"
proof -
  have W: "f_of_int w = Fin (of_int w)" using assms by (intro f_of_int_small) simp
  have "f_le (Fin (of_int w)) (f_of_int n)"
    using fl_mono [of "of_int w" "of_int n"] assms(3) W by (simp add: f_of_int_def)
  then consider y where "f_of_int n = Fin y" "of_int w \<le> y" | "f_of_int n = PInf"
    by (cases "f_of_int n") (auto simp: f_le_def f_eq_def)
  then show ?thesis
  proof cases
    case 1
    then have "1 \<le> y / of_int w" using assms(1) by (simp add: le_divide_eq)
    then have "f_le (fl 1) (fl (y / of_int w))" by (rule fl_mono)
    moreover have "fl 1 = Fin 1" using fl_of_int [of 1] by simp
    ultimately show ?thesis using 1 W assms(1) by simp
  next
    case 2
    then show ?thesis using W assms(1) by (simp add: f_le_def)
  qed
qed

lemma f_le_trans1: "q \<le> 1 \<Longrightarrow> f_le (Fin 1) f \<Longrightarrow> f_le (Fin q) f"
  by (cases f) (auto simp: f_le_def f_eq_def)

lemma shouldOpen_iff: "cc_ok c \<Longrightarrow> shouldOpenCircuit c cb \<longleftrightarrow> cc_Window c \<le> cb_failureCount cb"
  using rate_at_least_one [of "cc_Window c" "cb_failureCount cb"]
  by (auto simp: shouldOpenCircuit_def cc_ok_def intro: f_le_trans1 split: f64.splits)

definition cb_inv :: "CircuitBreakerConfig \<Rightarrow> CircuitBreaker \<Rightarrow> bool" where
  "cb_inv c cb \<longleftrightarrow> (case cb_state cb of
       CircuitBreakerClosed \<Rightarrow> 0 \<le> cb_failureCount cb \<and> cb_failureCount cb < cc_Window c
     | CircuitBreakerOpen \<Rightarrow> cc_Window c \<le> cb_failureCount cb
     | CircuitBreakerHalfOpen \<Rightarrow> cc_Window c \<le> cb_failureCount cb \<and> 0 \<le> cb_successCount cb \<and>
         cb_successCount cb < cc_HalfOpenProbes c)"

lemma cb_inv_New: "cc_ok c \<Longrightarrow> cb_inv c NewCircuitBreaker"
  by (simp add: cb_inv_def NewCircuitBreaker_def cc_ok_def)

lemma cb_allow_inv: "cc_ok c \<Longrightarrow> cb_inv c cb \<Longrightarrow> canExecute c t cb = (r, cb') \<Longrightarrow> cb_inv c cb'"
  by (auto simp: canExecute_def cb_inv_def cc_ok_def split: CircuitBreakerState.splits if_splits)

lemma cb_result_inv:
  assumes "cc_ok c" "cb_inv c cb" "canExecute c t cb = (True, cb')"
  shows "cb_inv c (recordResult c t' e cb')"
proof -
  have i: "cb_inv c cb'" "cb_state cb' \<noteq> CircuitBreakerOpen"
    using cb_allow_inv [OF assms] assms(3) by (auto simp: canExecute_def split: CircuitBreakerState.splits if_splits)
  have pos: "0 < cc_Window c" using assms(1) by (simp add: cc_ok_def)
  show ?thesis
  proof (cases e)
    case None
    then show ?thesis using i pos by (cases "cb_state cb'") (auto simp: recordResult_def cb_inv_def Let_def)
  next
    case (Some x)
    then show ?thesis using i shouldOpen_iff [OF assms(1)]
      by (cases "cb_state cb'") (auto simp: recordResult_def cb_inv_def Let_def)
  qed
qed

interpretation bus_breaker: call_guard "canExecute c" "recordResult c" "\<lambda>cb. cc_ok c \<and> cb_inv c cb" for c
  by unfold_locales (auto intro: cb_allow_inv cb_result_inv)

text \<open>The steps of a breaker: a refused call, or a call that goes ahead and ends or panics.\<close>

inductive cb_step :: "CircuitBreakerConfig \<Rightarrow> CircuitBreaker \<Rightarrow> CircuitBreaker \<Rightarrow> bool" for c where
  refused: "canExecute c t cb = (False, cb') \<Longrightarrow> cb_step c cb cb'"
| called: "canExecute c t cb = (True, cb') \<Longrightarrow> cb_step c cb (recordResult c t' e cb')"
| panicked: "canExecute c t cb = (True, cb') \<Longrightarrow> cb_step c cb cb'"

inductive_cases cb_stepE: "cb_step c cb cb'"

lemma cb_step_inv: "cb_step c cb cb' \<Longrightarrow> cc_ok c \<Longrightarrow> cb_inv c cb \<Longrightarrow> cb_inv c cb'"
  by (elim cb_stepE) (auto intro: cb_allow_inv cb_result_inv)

lemma cb_reach_inv: "(cb_step c)\<^sup>*\<^sup>* NewCircuitBreaker cb \<Longrightarrow> cc_ok c \<Longrightarrow> cb_inv c cb"
  by (induction rule: rtranclp_induct) (auto intro: cb_inv_New cb_step_inv)

lemma cb_Execute_step: "cb_Execute c clock fn (cb, s) = ((cb', s'), r) \<Longrightarrow> cb_step c cb cb'"
  by (auto simp: cb_Execute_def Let_def split: prod.splits if_splits go.splits intro: cb_step.intros)

text \<open>A run of failing calls from a closed breaker.\<close>

definition fail_calls :: "CircuitBreakerConfig \<Rightarrow> (instant \<times> instant \<times> goerror) list \<Rightarrow> CircuitBreaker \<Rightarrow> CircuitBreaker" where
  "fail_calls c calls cb = fold (\<lambda>(t, t', e) cb.
     case canExecute c t cb of (r, cb') \<Rightarrow> if r then recordResult c t' (Some e) cb' else cb') calls cb"

lemma fail_calls_closed:
  assumes "cc_ok c" "cb_state cb = CircuitBreakerClosed" "cb_failureCount cb + int (length calls) < cc_Window c"
  shows "cb_state (fail_calls c calls cb) = CircuitBreakerClosed \<and>
    cb_failureCount (fail_calls c calls cb) = cb_failureCount cb + int (length calls)"
  using assms(2,3)
proof (induction calls arbitrary: cb)
  case (Cons x calls)
  obtain t t' e where x: "x = (t, t', e)" by (cases x)
  let ?cb = "recordResult c t' (Some e) cb"
  have s: "cb_state ?cb = CircuitBreakerClosed" "cb_failureCount ?cb = cb_failureCount cb + 1"
    using Cons.prems shouldOpen_iff [OF assms(1)] by (auto simp: recordResult_def Let_def)
  show ?case using Cons.IH [OF s(1)] s Cons.prems by (simp add: fail_calls_def x canExecute_def)
qed (simp add: fail_calls_def)

section \<open>Lemmas of the retry loop\<close>

definition fn_step :: "'s fn \<Rightarrow> 's \<Rightarrow> 's" where
  "fn_step fn s = fst (fn s)"

text \<open>The outcome after \<open>k + 1\<close> calls, the first \<open>k\<close> of which returned a retryable error.\<close>

definition retry_outcome :: "RetryConfig \<Rightarrow> (nat \<Rightarrow> goerror option) \<Rightarrow> 's fn \<Rightarrow> 's \<Rightarrow> nat \<Rightarrow> nat \<Rightarrow> 's \<Rightarrow> unit go \<Rightarrow> bool" where
  "retry_outcome cfg cancel fn s a k s' r \<longleftrightarrow>
     s' = (fn_step fn ^^ Suc k) s \<and>
     (\<forall>j<k. \<exists>e. snd (fn ((fn_step fn ^^ j) s)) = Err (RetryableError e) \<and> cancel (a + j) = None) \<and>
     (case snd (fn ((fn_step fn ^^ k) s)) of
        Ret _ \<Rightarrow> r = Ret ()
      | Panic p \<Rightarrow> r = Panic p
      | Err err \<Rightarrow> r = Err (if \<not> IsRetryableError err then err
          else if int (a + k) = rc_Attempts cfg - 1 then failed_after cfg (Some err) else the (cancel (a + k))) \<and>
          (IsRetryableError err \<and> int (a + k) \<noteq> rc_Attempts cfg - 1 \<longrightarrow> cancel (a + k) \<noteq> None))"

lemma retry_loop_outcome:
  assumes "int a + int (Suc n) = rc_Attempts cfg" "retry_loop ovf cfg rnd cancel fn (Suc n) a last_err s = (s', ds, r)"
  shows "\<exists>k \<le> n. retry_outcome cfg cancel fn s a k s' r \<and>
    list_all (\<lambda>d. \<exists>i. d = calculateDelay ovf cfg (rnd i) i) ds \<and> length ds \<in> {k, Suc k}"
  using assms
proof (induction n arbitrary: a last_err s ds)
  case 0
  then show ?case
    by (intro exI [of _ 0])
       (auto simp: retry_outcome_def fn_step_def Let_def split: prod.splits go.splits option.splits if_splits)
next
  case (Suc n)
  obtain s1 e1 where f: "fn s = (s1, e1)" by (cases "fn s")
  have s1: "s1 = fn_step fn s" using f by (simp add: fn_step_def)
  have base: "retry_outcome cfg cancel fn s a 0 s' r \<Longrightarrow> ?case" if "list_all (\<lambda>d. \<exists>i. d = calculateDelay ovf cfg (rnd i) i) ds"
      "length ds \<in> {0, Suc 0}"
    using that by (intro exI [of _ 0]) auto
  show ?case
  proof (cases e1)
    case (Ret u)
    then show ?thesis using Suc.prems(2) f by (intro base) (auto simp: retry_outcome_def fn_step_def)
  next
    case (Panic p)
    then show ?thesis using Suc.prems(2) f by (intro base) (auto simp: retry_outcome_def fn_step_def)
  next
    case (Err err)
    consider (final) "\<not> IsRetryableError err" | (cancelled) e where "IsRetryableError err" "cancel a = Some e"
      | (again) "IsRetryableError err" "cancel a = None" by (cases "cancel a") auto
    then show ?thesis
    proof cases
      case final
      then show ?thesis using Suc.prems(2) f Err by (intro base) (auto simp: retry_outcome_def fn_step_def)
    next
      case cancelled
      then show ?thesis using Suc.prems f Err
        by (intro base) (auto simp: cancelled(2) retry_outcome_def fn_step_def Let_def)
    next
      case again
      obtain ds' where l: "retry_loop ovf cfg rnd cancel fn (Suc n) (Suc a) (Some err) s1 = (s', ds', r)"
          and ds: "ds = calculateDelay ovf cfg (rnd a) a # ds'"
        using Suc.prems f Err again by (auto simp: Let_def split: prod.splits)
      from Suc.IH [OF _ l] Suc.prems(1) obtain k where k: "k \<le> n" "retry_outcome cfg cancel fn s1 (Suc a) k s' r"
        "list_all (\<lambda>d. \<exists>i. d = calculateDelay ovf cfg (rnd i) i) ds'" "length ds' \<in> {k, Suc k}" by auto
      obtain e where e: "err = RetryableError e" using again(1) by (cases err) (auto simp: IsRetryableError_def)
      have sh: "(fn_step fn ^^ j) (fn_step fn s) = (fn_step fn ^^ Suc j) s" for j by (simp add: funpow_swap1)
      have fs: "snd (fn s) = Err (RetryableError e)" using f Err e by simp
      have "retry_outcome cfg cancel fn s a (Suc k) s' r"
        using k(2) fs again(2) unfolding retry_outcome_def s1 sh add_Suc_shift
        by (auto simp: less_Suc_eq_0_disj simp del: funpow.simps(2) add_Suc_right add_Suc of_nat_add of_nat_Suc)
      then show ?thesis using k ds by (intro exI [of _ "Suc k"]) auto
    qed
  qed
qed

section \<open>Lemmas of the delays\<close>

lemma capped_delay:
  assumes "0 < base" "base \<le> maxd" "maxd < 2 ^ 53"
  shows "(let d0 = f_mul (f_of_int base) (math_Pow 2 (int n))
      in if f_lt (f_of_int maxd) d0 then f_of_int maxd else d0) = Fin (of_int (min (base * 2 ^ n) maxd))"
proof -
  have b: "f_of_int base = Fin (of_int base)" and m: "f_of_int maxd = Fin (of_int maxd)"
    using assms by (intro f_of_int_small; simp)+
  have B: "(1::rat) \<le> of_int base" using assms(1) by simp
  have P: "math_Pow 2 (int n) = Fin (2 ^ n) \<or> math_Pow 2 (int n) = PInf \<and> maxd \<le> base * 2 ^ n"
  proof (cases "n \<le> 1023")
    case True
    then have "(2::rat) ^ n \<le> 2 ^ 1023" by (intro power_increasing) simp_all
    then have "fl (2 ^ n) = Fin (2 ^ n)" by (intro fl_exact [of _ 1 "int n"]) simp_all
    then show ?thesis by (simp add: math_Pow_def)
  next
    case False
    have r: "round_rat (2 ^ n) = (2::rat) ^ n" using round_rat_pow2 [of "int n"] by simp
    have "(2::rat) ^ 1024 \<le> 2 ^ n" using False by (intro power_increasing) simp_all
    then have f: "math_Pow 2 (int n) = PInf" by (simp add: math_Pow_def fl_def Let_def r)
    have "(2::int) ^ 53 \<le> 2 ^ n" using False by (intro power_increasing) simp_all
    also have "\<dots> \<le> base * 2 ^ n" using assms(1) by (simp add: mult_le_cancel_right1)
    finally show ?thesis using f assms(3) by linarith
  qed
  show ?thesis
  proof (cases "math_Pow 2 (int n) = PInf")
    case True
    then show ?thesis using P B assms(1) by (auto simp: b m inf_of_sign_def min_def)
  next
    case False
    then have p: "math_Pow 2 (int n) = Fin (2 ^ n)" using P by blast
    define k where "k = base * 2 ^ n"
    have k: "of_int base * 2 ^ n = (of_int k :: rat)" by (simp add: k_def)
    have d: "f_mul (f_of_int base) (math_Pow 2 (int n)) = fl (of_int k)" by (simp add: b p k)
    show ?thesis
    proof (cases "k \<le> maxd")
      case True
      then have "fl (of_int k) = Fin (of_int k)" using assms by (intro fl_of_int) (simp add: k_def)
      then show ?thesis unfolding d Let_def m using True by (simp add: k_def [symmetric])
    next
      case False
      have "f_le (fl (of_int maxd)) (fl (of_int k))" using False by (intro fl_mono) simp
      then have "f_le (f_of_int maxd) (fl (of_int k))" by (simp add: f_of_int_def)
      then have "f_lt (f_of_int maxd) (fl (of_int k)) \<or> fl (of_int k) = f_of_int maxd" by (auto simp: f_le_def f_eq_def)
      then show ?thesis unfolding d Let_def using m False by (auto simp: k_def [symmetric])
    qed
  qed
qed

text \<open>A delay of \<open>d\<close> milliseconds changed by at most an eighth of itself.\<close>

lemma jittered_delay:
  assumes d: "0 < d" "d < 2 ^ 49" and r: "0 \<le> r" "r \<le> 1"
  defines "v \<equiv> f_add (Fin (of_int d)) (f_mul (f_mul (Fin (of_int d)) (Fin (1/4))) (f_sub (Fin r) (Fin (1/2))))"
  obtains y where "v = Fin y" "of_int (7 * d) / 8 \<le> y" "y \<le> of_int (9 * d) / 8"
proof -
  have eighth: "fl (of_int m / 8) = Fin (of_int m / 8)" if "\<bar>m\<bar> < 2 ^ 53" for m
  proof (rule fl_exact [of _ m "-3"])
    have "\<bar>of_int m :: rat\<bar> < of_int (2 ^ 53)" using that unfolding of_int_abs [symmetric] of_int_less_iff .
    then have "\<bar>of_int m / 8 :: rat\<bar> < 2 ^ 53" by simp
    also have "(2::rat) ^ 53 \<le> 2 ^ 1023" by (intro power_increasing) simp_all
    finally show "\<bar>of_int m / 8 :: rat\<bar> \<le> 2 ^ 1023" by simp
  qed (use that in \<open>simp_all add: power_int_minus\<close>)
  have h: "fl (1/2) = Fin (1/2)" "fl (- 1/2) = Fin (- 1/2)" using eighth [of 4] eighth [of "-4"] by simp_all
  obtain x where x: "fl (r - 1/2) = Fin x" "- 1/2 \<le> x" "x \<le> 1/2"
    using fl_between [OF h(2,1), of "r - 1/2"] r by auto
  have q: "fl (of_int d * (1/4)) = Fin (of_int d / 4)" using eighth [of "2 * d"] d by simp
  have D: "(0::rat) < of_int d" using d by simp
  have "of_int d / 4 * x \<le> of_int d / 4 * (1/2)" "of_int d / 4 * (- 1/2) \<le> of_int d / 4 * x"
    using D x by (intro mult_left_mono; simp)+
  then obtain j where j: "fl (of_int d / 4 * x) = Fin j" "of_int (- d) / 8 \<le> j" "j \<le> of_int d / 8"
    using fl_between [OF eighth eighth, of "- d" d "of_int d / 4 * x"] d by auto
  have "of_int (7 * d) / 8 \<le> of_int d + j" "of_int d + j \<le> of_int (9 * d) / 8" using j(2,3) by simp_all
  then obtain y where y: "fl (of_int d + j) = Fin y" "of_int (7 * d) / 8 \<le> y" "y \<le> of_int (9 * d) / 8"
    using fl_between [OF eighth eighth, of "7 * d" "9 * d" "of_int d + j"] d by auto
  show thesis using that y x q j by (simp add: v_def f_sub_def)
qed

section \<open>Properties\<close>

text \<open>
  The delay of attempt n is within an eighth of min(base * 2^n, max) milliseconds, float
  rounding and overflow of the power included.
\<close>

theorem calculateDelay_bounds:
  assumes "0 < rc_BaseMs c" "rc_BaseMs c \<le> rc_MaxDelayMs c" "rc_MaxDelayMs c \<le> 2 ^ 40" "0 \<le> r" "r \<le> 1"
  shows "let d = min (rc_BaseMs c * 2 ^ n) (rc_MaxDelayMs c)
    in 7 * d div 8 * 1000000 \<le> calculateDelay ovf c (Fin r) n \<and> calculateDelay ovf c (Fin r) n \<le> 9 * d div 8 * 1000000"
proof -
  define d where "d = min (rc_BaseMs c * 2 ^ n) (rc_MaxDelayMs c)"
  have d: "0 < d" "d \<le> 2 ^ 40" using assms by (auto simp: d_def)
  obtain y where y: "f_add (Fin (of_int d)) (f_mul (f_mul (Fin (of_int d)) (Fin (1/4))) (f_sub (Fin r) (Fin (1/2)))) = Fin y"
      "of_int (7 * d) / 8 \<le> y" "y \<le> of_int (9 * d) / 8"
    using jittered_delay [of d r] d assms by auto
  have D: "(0::rat) < of_int d" using d by simp
  have yp: "0 \<le> y" using y(2) D by simp
  have t: "7 * d div 8 \<le> trunc_rat y" "trunc_rat y \<le> 9 * d div 8"
    using floor_mono [OF y(2)] floor_mono [OF y(3)] yp
      floor_divide_of_int_eq [of "7 * d" 8, where 'a = rat] floor_divide_of_int_eq [of "9 * d" 8, where 'a = rat]
    by (simp_all add: trunc_rat_def)
  have tb: "0 \<le> trunc_rat y" "trunc_rat y \<le> 2 ^ 42" using t d by simp_all
  have c: "calculateDelay ovf c (Fin r) n = dur_mul (f_to_int64 ovf (Fin y)) millisecond"
    using capped_delay [of "rc_BaseMs c" "rc_MaxDelayMs c" n] assms y(1) yp
    unfolding calculateDelay_def Let_def d_def [symmetric] by simp
  have f: "f_to_int64 ovf (Fin y) = trunc_rat y" using tb by (simp add: f_to_int64_def)
  have "calculateDelay ovf c (Fin r) n = trunc_rat y * 1000000"
    using tb by (simp add: c f dur_mul_def millisecond_def is_int64_def)
  then show ?thesis using t unfolding d_def [symmetric] Let_def by simp
qed

theorem calculateDelay_bounds_witness:
  "218 * 1000000 \<le> calculateDelay (\<lambda>_. 0) \<lparr>rc_Attempts = 5, rc_BaseMs = 250, rc_MaxDelayMs = 8000\<rparr> (Fin (1/8)) 0"
  using calculateDelay_bounds [of "\<lparr>rc_Attempts = 5, rc_BaseMs = 250, rc_MaxDelayMs = 8000\<rparr>" "1/8" 0 "\<lambda>_. 0"]
  by simp

text \<open>
  C30: With a positive number of attempts ExecuteWithRetry always returns, after k+1 calls
  with k below the number of attempts: the first k calls gave a retryable error and were not
  cancelled, the last one decides the result, and each timer has the delay of an attempt.
\<close>

theorem ExecuteWithRetry_outcome:
  assumes "0 < rc_Attempts c" "ExecuteWithRetry ovf c rnd cancel fn s = (s', ds, r)"
  shows "\<exists>k. int k < rc_Attempts c \<and> retry_outcome c cancel fn s 0 k s' r \<and>
    list_all (\<lambda>d. \<exists>i. d = calculateDelay ovf c (rnd i) i) ds \<and> length ds \<in> {k, Suc k}"
proof -
  obtain n where n: "nat (rc_Attempts c) = Suc n" using assms(1) by (cases "nat (rc_Attempts c)") auto
  then have a: "int 0 + int (Suc n) = rc_Attempts c" by simp
  have "retry_loop ovf c rnd cancel fn (Suc n) 0 None s = (s', ds, r)"
    using assms(2) n by (simp only: ExecuteWithRetry_def)
  then obtain k where k: "k \<le> n" "retry_outcome c cancel fn s 0 k s' r"
      "list_all (\<lambda>d. \<exists>i. d = calculateDelay ovf c (rnd i) i) ds" "length ds \<in> {k, Suc k}"
    using retry_loop_outcome [OF a, of ovf rnd cancel fn None s s' ds r] by blast
  then have "int k < rc_Attempts c" using a by linarith
  then show ?thesis using k by blast
qed

theorem ExecuteWithRetry_outcome_witness:
  "\<exists>s' ds r k. ExecuteWithRetry (\<lambda>_. 0) \<lparr>rc_Attempts = 3, rc_BaseMs = 250, rc_MaxDelayMs = 8000\<rparr> (\<lambda>_. Fin (1/2))
      (\<lambda>_. None) (\<lambda>n::nat. (Suc n, Err (RetryableError (Errorf ''down'' [])))) 0 = (s', ds, r) \<and> int k < 3 \<and>
    s' = Suc k \<and> length ds \<in> {k, Suc k}"
proof -
  let ?c = "\<lparr>rc_Attempts = 3, rc_BaseMs = 250, rc_MaxDelayMs = 8000\<rparr>"
  let ?f = "\<lambda>n::nat. (Suc n, Err (RetryableError (Errorf ''down'' [])))"
  have p: "(fn_step ?f ^^ k) 0 = k" for k by (induction k) (simp_all add: fn_step_def)
  obtain s' ds r where e: "ExecuteWithRetry (\<lambda>_. 0) ?c (\<lambda>_. Fin (1/2)) (\<lambda>_. None) ?f 0 = (s', ds, r)"
    by (cases "ExecuteWithRetry (\<lambda>_. 0) ?c (\<lambda>_. Fin (1/2)) (\<lambda>_. None) ?f 0") auto
  obtain k where "int k < 3" "retry_outcome ?c (\<lambda>_. None) ?f 0 0 k s' r" "length ds \<in> {k, Suc k}"
    using ExecuteWithRetry_outcome [OF _ e] by auto
  then have "s' = Suc k" by (simp only: retry_outcome_def p)
  then show ?thesis using e \<open>int k < 3\<close> \<open>length ds \<in> {k, Suc k}\<close> by blast
qed

text \<open>
  C33: In every reachable state of the breaker the counters match its state, an open breaker
  refuses calls without calling the function or changing until its time has passed, and every
  other breaker lets a call through.
\<close>

theorem breaker_states:
  assumes "cc_ok c" "(cb_step c)\<^sup>*\<^sup>* NewCircuitBreaker cb"
  shows "cb_inv c cb \<and>
    (cb_state cb = CircuitBreakerOpen \<and> now \<le> cb_nextAttemptTime cb \<and> clock s = now \<longrightarrow>
      cb_Execute c clock fn (cb, s) = ((cb, s), Err (Errorf ''circuit breaker is open'' []))) \<and>
    (fst (canExecute c now cb) \<longleftrightarrow> cb_state cb \<noteq> CircuitBreakerOpen \<or> cb_nextAttemptTime cb < now)"
  using cb_reach_inv [OF assms(2,1)]
  by (auto simp: cb_Execute_def canExecute_def cb_inv_def split: CircuitBreakerState.splits)

theorem breaker_states_witness:
  "cb_inv \<lparr>cc_Window = 1, cc_FailureThreshold = Fin (1/2), cc_ResetTimeoutMs = 1, cc_HalfOpenProbes = 1\<rparr>
    (recordResult \<lparr>cc_Window = 1, cc_FailureThreshold = Fin (1/2), cc_ResetTimeoutMs = 1, cc_HalfOpenProbes = 1\<rparr> 5
      (Some (Errorf ''x'' [])) NewCircuitBreaker)"
proof -
  let ?c = "\<lparr>cc_Window = 1, cc_FailureThreshold = Fin (1/2), cc_ResetTimeoutMs = 1, cc_HalfOpenProbes = 1\<rparr>"
  have "canExecute ?c 0 NewCircuitBreaker = (True, NewCircuitBreaker)" by (simp add: canExecute_def NewCircuitBreaker_def)
  then have s: "cb_step ?c NewCircuitBreaker (recordResult ?c 5 (Some (Errorf ''x'' [])) NewCircuitBreaker)"
    by (rule cb_step.called)
  then have r: "(cb_step ?c)\<^sup>*\<^sup>* NewCircuitBreaker (recordResult ?c 5 (Some (Errorf ''x'' [])) NewCircuitBreaker)"
    by blast
  have "cc_ok ?c" by (simp add: cc_ok_def)
  from breaker_states [OF this r, of 0 "\<lambda>_. 0" "()" "\<lambda>s. (s, Ret ())"] show ?thesis by (rule conjunct1)
qed

text \<open>
  A closed breaker stays closed through fewer failing calls in a row than its window and
  opens exactly at the window-th, for the configured timeout, whatever the failure threshold.
\<close>

theorem opens_at_window:
  assumes "cc_ok c" "cb_state cb = CircuitBreakerClosed" "cb_failureCount cb = 0"
  shows "(int (length calls) < cc_Window c \<longrightarrow> cb_state (fail_calls c calls cb) = CircuitBreakerClosed) \<and>
    (int (length calls) + 1 = cc_Window c \<longrightarrow>
      cb_state (fail_calls c (calls @ [(t, t', e)]) cb) = CircuitBreakerOpen \<and>
      cb_nextAttemptTime (fail_calls c (calls @ [(t, t', e)]) cb) = t' + dur_mul (cc_ResetTimeoutMs c) millisecond)"
proof -
  have f: "cb_state (fail_calls c calls cb) = CircuitBreakerClosed \<and> cb_failureCount (fail_calls c calls cb) = int (length calls)"
    if "int (length calls) < cc_Window c" using fail_calls_closed [OF assms(1,2), of calls] assms(3) that by simp
  have a: "fail_calls c (calls @ [x]) cb = fail_calls c [x] (fail_calls c calls cb)" for x by (simp add: fail_calls_def)
  show ?thesis unfolding a using f
    by (auto simp: fail_calls_def [of c "[(t, t', e)]"] canExecute_def recordResult_def Let_def shouldOpen_iff [OF assms(1)])
qed

theorem opens_at_window_witness:
  "cb_state (fail_calls \<lparr>cc_Window = 2, cc_FailureThreshold = Fin (1/4), cc_ResetTimeoutMs = 30000, cc_HalfOpenProbes = 3\<rparr>
    [(0, 1, Errorf ''x'' [])] NewCircuitBreaker) = CircuitBreakerClosed"
proof -
  let ?c = "\<lparr>cc_Window = 2, cc_FailureThreshold = Fin (1/4), cc_ResetTimeoutMs = 30000, cc_HalfOpenProbes = 3\<rparr>"
  have "cc_ok ?c" "cb_state NewCircuitBreaker = CircuitBreakerClosed" "cb_failureCount NewCircuitBreaker = 0"
    by (simp_all add: cc_ok_def NewCircuitBreaker_def)
  from opens_at_window [OF this, of "[(0, 1, Errorf ''x'' [])]"] show ?thesis by simp
qed

end
