(* ===== verification/Bus.thy ===== *)
theory Bus
  imports BusTopic BusChunking BusRetry
begin

text \<open>
  The message bus: the configuration, envelopes, publisher, preview and bus of
  \<^verbatim>\<open>internal/bus/types.go\<close>, \<^verbatim>\<open>envelope.go\<close>, \<^verbatim>\<open>publisher.go\<close>, \<^verbatim>\<open>preview.go\<close> and \<^verbatim>\<open>bus.go\<close>. What comes from
  other modules is an argument: \<open>send\<close> is \<^verbatim>\<open>PublishEnvelope\<close> of the transport on its state, \<open>connect\<close> is
  \<^verbatim>\<open>natsbinding.Connect\<close>, \<open>marshal\<close> is \<^verbatim>\<open>proto.Marshal\<close>, \<open>uuid k\<close> and \<open>clock k\<close> are the identifier and the time of the
  \<open>k\<close>-th envelope built. Keys and messages are not nil.
\<close>

section \<open>Configuration\<close>

record NATSConfig =
  nc_URL :: string
  nc_SubjectStyle :: string
  nc_AckWaitMs :: int

record KafkaConfig =
  kc_Brokers :: "string list"
  kc_Acks :: string
  kc_Compression :: string

record PublisherConfig =
  pc_Backend :: string
  pc_NATS :: NATSConfig
  pc_Kafka :: KafkaConfig

record Config =
  c_Enabled :: bool
  c_Env :: string
  c_TopicPrefix :: string
  c_MaxPayloadBytes :: int64
  c_Publisher :: PublisherConfig
  c_Retry :: RetryConfig
  c_CircuitBreaker :: CircuitBreakerConfig

definition validateNATSConfig :: "NATSConfig \<Rightarrow> unit go" where
  "validateNATSConfig c =
     go_bind (go_guard (nc_URL c = []) (Errorf ''NATS URL cannot be empty'' [])) (\<lambda>_.
     go_guard (nc_AckWaitMs c \<le> 0) (Errorf ''NATS ack wait must be positive'' []))"

definition validateKafkaConfig :: "KafkaConfig \<Rightarrow> unit go" where
  "validateKafkaConfig c =
     go_bind (go_guard (length (kc_Brokers c) = 0) (Errorf ''Kafka brokers cannot be empty'' [])) (\<lambda>_.
     go_bind (go_guard (kc_Acks c = []) (Errorf ''Kafka acks cannot be empty'' [])) (\<lambda>_.
     go_guard (kc_Acks c \<notin> {''all'', ''1'', ''0''})
       (Errorf ''invalid Kafka acks: %s (must be all, 1, or 0)'' [AStr (kc_Acks c)])))"

definition validatePublisherConfig :: "PublisherConfig \<Rightarrow> unit go" where
  "validatePublisherConfig c =
     go_bind (go_guard (pc_Backend c = []) (Errorf ''backend cannot be empty'' [])) (\<lambda>_.
     go_bind (go_guard (pc_Backend c \<notin> {''nats'', ''kafka''})
       (Errorf ''invalid backend: %s (must be nats or kafka)'' [AStr (pc_Backend c)])) (\<lambda>_.
     if pc_Backend c = ''nats'' then go_wrap ''invalid NATS config: %w'' [] (validateNATSConfig (pc_NATS c))
     else if pc_Backend c = ''kafka'' then go_wrap ''invalid Kafka config: %w'' [] (validateKafkaConfig (pc_Kafka c))
     else Ret ()))"

definition validateRetryConfig :: "RetryConfig \<Rightarrow> unit go" where
  "validateRetryConfig c =
     go_bind (go_guard (rc_Attempts c \<le> 0) (Errorf ''retry attempts must be positive'' [])) (\<lambda>_.
     go_bind (go_guard (rc_BaseMs c \<le> 0) (Errorf ''retry base delay must be positive'' [])) (\<lambda>_.
     go_bind (go_guard (rc_MaxDelayMs c \<le> 0) (Errorf ''retry max delay must be positive'' [])) (\<lambda>_.
     go_guard (rc_MaxDelayMs c < rc_BaseMs c) (Errorf ''retry max delay must be >= base delay'' []))))"

definition validateCircuitBreakerConfig :: "CircuitBreakerConfig \<Rightarrow> unit go" where
  "validateCircuitBreakerConfig c =
     go_bind (go_guard (cc_Window c \<le> 0) (Errorf ''circuit breaker window must be positive'' [])) (\<lambda>_.
     go_bind (go_guard (f_le (cc_FailureThreshold c) (Fin 0) \<or> f_lt (Fin 1) (cc_FailureThreshold c))
       (Errorf ''circuit breaker failure threshold must be between 0 and 1'' [])) (\<lambda>_.
     go_bind (go_guard (cc_ResetTimeoutMs c \<le> 0) (Errorf ''circuit breaker reset timeout must be positive'' [])) (\<lambda>_.
     go_guard (cc_HalfOpenProbes c \<le> 0) (Errorf ''circuit breaker half-open probes must be positive'' []))))"

definition ValidateConfig :: "Config option \<Rightarrow> unit go" where
  "ValidateConfig cfg =
     (case cfg of
        None \<Rightarrow> Err (Errorf ''config cannot be nil'' [])
      | Some c \<Rightarrow>
          go_bind (go_guard (c_Env c = []) (Errorf ''environment cannot be empty'' [])) (\<lambda>_.
          go_bind (go_guard (c_Env c \<notin> {''dev'', ''staging'', ''prod''})
            (Errorf ''invalid environment: %s (must be dev, staging, or prod)'' [AStr (c_Env c)])) (\<lambda>_.
          go_bind (go_guard (c_TopicPrefix c = []) (Errorf ''topic prefix cannot be empty'' [])) (\<lambda>_.
          go_bind (go_guard (c_MaxPayloadBytes c < 256 * 1024)
            (Errorf ''max payload bytes must be at least 256 KiB'' [])) (\<lambda>_.
          go_bind (go_guard (10 * 1024 * 1024 < c_MaxPayloadBytes c)
            (Errorf ''max payload bytes must be at most 10 MiB'' [])) (\<lambda>_.
          go_bind (if c_Enabled c then go_wrap ''invalid publisher config: %w'' [] (validatePublisherConfig (c_Publisher c))
            else Ret ()) (\<lambda>_.
          go_bind (go_wrap ''invalid retry config: %w'' [] (validateRetryConfig (c_Retry c))) (\<lambda>_.
          go_wrap ''invalid circuit breaker config: %w'' [] (validateCircuitBreakerConfig (c_CircuitBreaker c))))))))))"

text \<open>The float literal \<^verbatim>\<open>0.30\<close> is the float nearest to it.\<close>

definition GetDefaultConfig :: Config where
  "GetDefaultConfig =
     \<lparr>c_Enabled = False, c_Env = ''dev'', c_TopicPrefix = ''ampy'', c_MaxPayloadBytes = 1024 * 1024,
      c_Publisher = \<lparr>pc_Backend = ''nats'',
        pc_NATS = \<lparr>nc_URL = ''nats://localhost:4222'', nc_SubjectStyle = ''topic'', nc_AckWaitMs = 5000\<rparr>,
        pc_Kafka = \<lparr>kc_Brokers = [''localhost:9092''], kc_Acks = ''all'', kc_Compression = ''snappy''\<rparr>\<rparr>,
      c_Retry = \<lparr>rc_Attempts = 5, rc_BaseMs = 250, rc_MaxDelayMs = 8000\<rparr>,
      c_CircuitBreaker = \<lparr>cc_Window = 50, cc_FailureThreshold = fl (3/10), cc_ResetTimeoutMs = 30000,
        cc_HalfOpenProbes = 3\<rparr>\<rparr>"

definition LoadConfigFromFile :: "string \<Rightarrow> Config go" where
  "LoadConfigFromFile filename = Ret GetDefaultConfig"

definition GetConfigFromEnv :: "(string \<Rightarrow> string) \<Rightarrow> Config" where
  "GetConfigFromEnv getenv =
     (let c0 = GetDefaultConfig;
          c1 = (if getenv ''AMPY_BUS_ENABLED'' \<noteq> [] then c0\<lparr>c_Enabled := (getenv ''AMPY_BUS_ENABLED'' = ''true'')\<rparr> else c0);
          c2 = (if getenv ''AMPY_BUS_ENV'' \<noteq> [] then c1\<lparr>c_Env := getenv ''AMPY_BUS_ENV''\<rparr> else c1);
          c3 = (if getenv ''AMPY_BUS_TOPIC_PREFIX'' \<noteq> [] then c2\<lparr>c_TopicPrefix := getenv ''AMPY_BUS_TOPIC_PREFIX''\<rparr> else c2)
      in if getenv ''AMPY_BUS_NATS_URL'' \<noteq> []
         then c3\<lparr>c_Publisher := (c_Publisher c3)\<lparr>pc_NATS := (pc_NATS (c_Publisher c3))\<lparr>nc_URL := getenv ''AMPY_BUS_NATS_URL''\<rparr>\<rparr>\<rparr>
         else c3)"

section \<open>Envelopes\<close>

text \<open>A nil map of extensions is \<open>None\<close>.\<close>

record Envelope =
  en_MessageID :: string
  en_SchemaFQDN :: string
  en_SchemaVersion :: string
  en_ContentType :: string
  en_ContentEncoding :: string
  en_ProducedAt :: instant
  en_Producer :: string
  en_Source :: string
  en_RunID :: string
  en_TraceID :: string
  en_SpanID :: string
  en_PartitionKey :: string
  en_DedupeKey :: string
  en_RetryCount :: int
  en_DlqReason :: string
  en_SchemaHash :: string
  en_BlobRef :: string
  en_BlobHash :: string
  en_BlobSize :: int64
  en_Extensions :: "(string \<rightharpoonup> string) option"

record EnvelopeBuilder =
  eb_producer :: string
  eb_source :: string

definition NewEnvelopeBuilder :: "string \<Rightarrow> string \<Rightarrow> EnvelopeBuilder" where
  "NewEnvelopeBuilder producer source = \<lparr>eb_producer = producer, eb_source = source\<rparr>"

definition ext_lookup :: "(string \<rightharpoonup> string) option \<Rightarrow> string \<rightharpoonup> string" where
  "ext_lookup m k = (case m of None \<Rightarrow> None | Some f \<Rightarrow> f k)"

definition BuildEnvelope ::
  "EnvelopeBuilder \<Rightarrow> string \<Rightarrow> instant \<Rightarrow> string \<Rightarrow> string \<Rightarrow> Key \<Rightarrow> string \<Rightarrow> string \<Rightarrow> (string \<rightharpoonup> string) option \<Rightarrow> Envelope" where
  "BuildEnvelope b messageID now schemaFQDN schemaVersion key runID traceID extensions =
     (let e0 = \<lparr>en_MessageID = messageID, en_SchemaFQDN = schemaFQDN, en_SchemaVersion = schemaVersion,
            en_ContentType = ''application/x-protobuf'', en_ContentEncoding = [], en_ProducedAt = now,
            en_Producer = eb_producer b, en_Source = eb_source b, en_RunID = runID, en_TraceID = traceID,
            en_SpanID = [], en_PartitionKey = PartitionKey key, en_DedupeKey = [], en_RetryCount = 0,
            en_DlqReason = [], en_SchemaHash = [], en_BlobRef = [], en_BlobHash = [], en_BlobSize = 0,
            en_Extensions = extensions\<rparr>;
          e1 = (case ext_lookup extensions ''content_encoding'' of Some v \<Rightarrow> e0\<lparr>en_ContentEncoding := v\<rparr> | None \<Rightarrow> e0);
          e2 = (case ext_lookup extensions ''dedupe_key'' of Some v \<Rightarrow> e1\<lparr>en_DedupeKey := v\<rparr> | None \<Rightarrow> e1)
      in case ext_lookup extensions ''retry_count'' of
           Some v \<Rightarrow> if v = ''1'' then e2\<lparr>en_RetryCount := 1\<rparr> else e2
         | None \<Rightarrow> e2)"

definition BuildChunkedEnvelope ::
  "EnvelopeBuilder \<Rightarrow> string \<Rightarrow> instant \<Rightarrow> string \<Rightarrow> string \<Rightarrow> Key \<Rightarrow> string \<Rightarrow> string \<Rightarrow> int \<Rightarrow> int \<Rightarrow>
   (string \<rightharpoonup> string) option \<Rightarrow> Envelope" where
  "BuildChunkedEnvelope b messageID now schemaFQDN schemaVersion key runID traceID chunkIndex totalChunks extensions =
     (let envelope = BuildEnvelope b messageID now schemaFQDN schemaVersion key runID traceID extensions;
          m = (case en_Extensions envelope of None \<Rightarrow> Map.empty | Some f \<Rightarrow> f)
      in envelope\<lparr>en_Extensions := Some (m(''chunk_index'' \<mapsto> show_int chunkIndex, ''total_chunks'' \<mapsto> show_int totalChunks))\<rparr>)"

text \<open>\<open>uuid_parse\<close> is the error of \<^verbatim>\<open>uuid.Parse\<close>.\<close>

definition ValidateEnvelope :: "(string \<Rightarrow> goerror option) \<Rightarrow> Envelope option \<Rightarrow> unit go" where
  "ValidateEnvelope uuid_parse envelope =
     (case envelope of
        None \<Rightarrow> Err (Errorf ''envelope cannot be nil'' [])
      | Some e \<Rightarrow>
          go_bind (go_guard (en_MessageID e = []) (Errorf ''message_id is required'' [])) (\<lambda>_.
          go_bind (go_guard (en_SchemaFQDN e = []) (Errorf ''schema_fqdn is required'' [])) (\<lambda>_.
          go_bind (go_guard (en_SchemaVersion e = []) (Errorf ''schema_version is required'' [])) (\<lambda>_.
          go_bind (go_guard (en_Producer e = []) (Errorf ''producer is required'' [])) (\<lambda>_.
          go_bind (go_guard (en_Source e = []) (Errorf ''source is required'' [])) (\<lambda>_.
          go_bind (go_guard (en_RunID e = []) (Errorf ''run_id is required'' [])) (\<lambda>_.
          go_bind (go_guard (en_PartitionKey e = []) (Errorf ''partition_key is required'' [])) (\<lambda>_.
          case uuid_parse (en_MessageID e) of
            Some err \<Rightarrow> Err (Wrapf ''invalid message_id format: %w'' [] err)
          | None \<Rightarrow> Ret ()))))))))"

section \<open>Publisher\<close>

text \<open>The envelope of the transport, as far as the code fills it.\<close>

record Headers =
  h_MessageID :: string
  h_SchemaFQDN :: string
  h_SchemaVersion :: string
  h_ContentType :: string
  h_ProducedAt :: instant
  h_Producer :: string
  h_Source :: string
  h_RunID :: string
  h_TraceID :: string
  h_PartitionKey :: string

record ampy_Envelope =
  a_Topic :: string
  a_Headers :: Headers
  a_Payload :: string

definition ampy_of :: "string \<Rightarrow> Envelope \<Rightarrow> string \<Rightarrow> ampy_Envelope" where
  "ampy_of topic e chunk =
     \<lparr>a_Topic = topic,
      a_Headers = \<lparr>h_MessageID = en_MessageID e, h_SchemaFQDN = en_SchemaFQDN e, h_SchemaVersion = en_SchemaVersion e,
        h_ContentType = en_ContentType e, h_ProducedAt = en_ProducedAt e, h_Producer = en_Producer e,
        h_Source = en_Source e, h_RunID = en_RunID e, h_TraceID = en_TraceID e, h_PartitionKey = en_PartitionKey e\<rparr>,
      a_Payload = chunk\<rparr>"

record 'm BusMessage =
  m_Content :: 'm
  m_Key :: Key
  m_RunID :: string
  m_Env :: string

record NatsBindingConfig =
  nb_URLs :: string
  nb_StreamName :: string
  nb_Subjects :: "string list"
  nb_DurablePrefix :: string

record BusPublisher =
  bp_config :: Config
  bp_topicBuilder :: TopicBuilder
  bp_envelopeBuilder :: EnvelopeBuilder
  bp_chunking :: ChunkingStrategy

definition getHostname :: string where
  "getHostname = ''localhost''"

text \<open>What surrounds the publisher: the number of envelopes built so far and the state of the transport.\<close>

record 's world =
  w_built :: nat
  w_bus :: 's

type_synonym 's send = "ampy_Envelope \<Rightarrow> 's \<Rightarrow> 's \<times> goerror option"

definition createNATSBus :: "(NatsBindingConfig \<Rightarrow> 's go) \<Rightarrow> Config \<Rightarrow> 's go" where
  "createNATSBus connect config =
     connect \<lparr>nb_URLs = nc_URL (pc_NATS (c_Publisher config)), nb_StreamName = ''AMPY_TRADING'',
       nb_Subjects = [c_TopicPrefix config @ ''.'' @ c_Env config @ ''.>''], nb_DurablePrefix = ''ampy-trading''\<rparr>"

definition NewBusPublisher :: "(NatsBindingConfig \<Rightarrow> 's go) \<Rightarrow> Config \<Rightarrow> (BusPublisher \<times> 's) go" where
  "NewBusPublisher connect config =
     (if \<not> c_Enabled config then Err (Errorf ''bus publishing is disabled'' [])
      else
        let topicBuilder = NewTopicBuilder (c_Env config) (c_TopicPrefix config);
            envelopeBuilder = NewEnvelopeBuilder (''yfinance-go@'' @ getHostname) ''yfinance-go'';
            chunking = NewChunkingStrategy (c_MaxPayloadBytes config);
            backend = pc_Backend (c_Publisher config)
        in if backend = ''nats'' then
             go_bind (go_wrap ''failed to create bus: %w'' [] (createNATSBus connect config)) (\<lambda>bus.
             Ret (\<lparr>bp_config = config, bp_topicBuilder = topicBuilder, bp_envelopeBuilder = envelopeBuilder,
                   bp_chunking = chunking\<rparr>, bus))
           else if backend = ''kafka'' then Err (Errorf ''Kafka backend not implemented yet'' [])
           else Err (Errorf ''unsupported backend: %s'' [AStr backend]))"

text \<open>
  The three publishing functions differ in the topic, the schema and the noun of the messages: the loop
  over the chunks and the body they share take these as arguments.
\<close>

fun publish_loop ::
  "(nat \<Rightarrow> string) \<Rightarrow> (nat \<Rightarrow> instant) \<Rightarrow> 's send \<Rightarrow> EnvelopeBuilder \<Rightarrow> string \<Rightarrow> string \<Rightarrow> Key \<Rightarrow> string \<Rightarrow> string \<Rightarrow>
   Envelope \<Rightarrow> int \<Rightarrow> int \<Rightarrow> string list \<Rightarrow> 's world \<Rightarrow> 's world \<times> unit go" where
  "publish_loop uuid clock send b topic fqdn key runID noun envelope totalChunks i [] w = (w, Ret ())"
| "publish_loop uuid clock send b topic fqdn key runID noun envelope totalChunks i (chunk # chunks) w =
     (let (chunkEnvelope, w1) =
            (if 1 < totalChunks
             then (BuildChunkedEnvelope b (uuid (w_built w)) (clock (w_built w)) fqdn ''1.0.0'' key runID [] i totalChunks None,
                   w\<lparr>w_built := Suc (w_built w)\<rparr>)
             else (envelope, w));
          (s', err) = send (ampy_of topic chunkEnvelope chunk) (w_bus w1)
      in case err of
           Some e \<Rightarrow> (w1\<lparr>w_bus := s'\<rparr>, Err (Wrapf (''failed to publish '' @ noun @ '' chunk %d: %w'') [AInt i] e))
         | None \<Rightarrow> publish_loop uuid clock send b topic fqdn key runID noun envelope totalChunks (i + 1) chunks (w1\<lparr>w_bus := s'\<rparr>))"

definition publish_message ::
  "(f64 \<Rightarrow> int) \<Rightarrow> (nat \<Rightarrow> string) \<Rightarrow> (nat \<Rightarrow> instant) \<Rightarrow> 's send \<Rightarrow> ('m \<Rightarrow> string go) \<Rightarrow> BusPublisher \<Rightarrow>
   string \<Rightarrow> string \<Rightarrow> string \<Rightarrow> 'm BusMessage \<Rightarrow> 's world \<Rightarrow> 's world \<times> unit go" where
  "publish_message ovf uuid clock send marshal p topic fqdn noun msg w =
     (case go_wrap (''failed to marshal '' @ noun @ '': %w'') [] (marshal (m_Content msg)) of
        Err e \<Rightarrow> (w, Err e)
      | Panic x \<Rightarrow> (w, Panic x)
      | Ret payload \<Rightarrow>
          let envelope = BuildEnvelope (bp_envelopeBuilder p) (uuid (w_built w)) (clock (w_built w)) fqdn ''1.0.0''
                (m_Key msg) (m_RunID msg) [] None;
              w1 = w\<lparr>w_built := Suc (w_built w)\<rparr>
          in (case go_wrap ''failed to chunk payload: %w'' [] (ChunkPayload ovf (bp_chunking p) payload) of
                Err e \<Rightarrow> (w1, Err e)
              | Panic x \<Rightarrow> (w1, Panic x)
              | Ret chunkResult \<Rightarrow>
                  publish_loop uuid clock send (bp_envelopeBuilder p) topic fqdn (m_Key msg) (m_RunID msg) noun envelope
                    (int (length (cr_Chunks chunkResult))) 0 (cr_Chunks chunkResult) w1))"

definition publisher_PublishBars where
  "publisher_PublishBars ovf uuid clock send marshal p msg =
     publish_message ovf uuid clock send marshal p (BuildBarsTopic (bp_topicBuilder p) (m_Key msg) ''v1'')
       ''ampy.bars.v1.BarBatch'' ''bar batch'' msg"

definition publisher_PublishQuote where
  "publisher_PublishQuote ovf uuid clock send marshal p msg =
     publish_message ovf uuid clock send marshal p (BuildQuotesTopic (bp_topicBuilder p) (m_Key msg) ''v1'')
       ''ampy.ticks.v1.QuoteTick'' ''quote'' msg"

definition publisher_PublishFundamentals where
  "publisher_PublishFundamentals ovf uuid clock send marshal p msg =
     publish_message ovf uuid clock send marshal p (BuildFundamentalsTopic (bp_topicBuilder p) (m_Key msg) ''v1'')
       ''ampy.fundamentals.v1.FundamentalsSnapshot'' ''fundamentals'' msg"

section \<open>Preview\<close>

record PreviewSummary =
  ps_Topic :: string
  ps_Envelope :: Envelope
  ps_PartitionKey :: string
  ps_Chunking :: ChunkingInfo
  ps_Span :: string
  ps_PayloadBytes :: int
  ps_MessageCount :: int

record PreviewPublisher =
  pp_config :: Config
  pp_topicBuilder :: TopicBuilder
  pp_envelopeBuilder :: EnvelopeBuilder
  pp_chunking :: ChunkingStrategy

definition NewPreviewPublisher :: "Config \<Rightarrow> PreviewPublisher" where
  "NewPreviewPublisher config =
     \<lparr>pp_config = config, pp_topicBuilder = NewTopicBuilder (c_Env config) (c_TopicPrefix config),
      pp_envelopeBuilder = NewEnvelopeBuilder (''yfinance-go@'' @ getHostname) ''yfinance-go'',
      pp_chunking = NewChunkingStrategy (c_MaxPayloadBytes config)\<rparr>"

text \<open>The arrow of the span is three bytes in UTF-8.\<close>

definition arrow :: string where
  "arrow = [CHR 0xE2, CHR 0x86, CHR 0x92]"

definition preview_message ::
  "(f64 \<Rightarrow> int) \<Rightarrow> string \<Rightarrow> instant \<Rightarrow> PreviewPublisher \<Rightarrow> string \<Rightarrow> string \<Rightarrow> 'm BusMessage \<Rightarrow> int \<Rightarrow> PreviewSummary go" where
  "preview_message ovf messageID now p topic fqdn msg payloadSize =
     (let envelope = BuildEnvelope (pp_envelopeBuilder p) messageID now fqdn ''1.0.0'' (m_Key msg) (m_RunID msg) [] None in
      go_bind (GetChunkingInfo ovf (pp_chunking p) payloadSize) (\<lambda>chunkingInfo.
      Ret \<lparr>ps_Topic = topic, ps_Envelope = envelope, ps_PartitionKey = PartitionKey (m_Key msg),
           ps_Chunking = chunkingInfo,
           ps_Span = ''ingest.fetch'' @ arrow @ ''emit'' @ arrow @ ''publish'', ps_PayloadBytes = payloadSize, ps_MessageCount = ChunkCount chunkingInfo\<rparr>))"

definition PreviewBars where
  "PreviewBars ovf messageID now p msg =
     preview_message ovf messageID now p (BuildBarsTopic (pp_topicBuilder p) (m_Key msg) ''v1'') ''ampy.bars.v1.BarBatch'' msg"

definition PreviewQuote where
  "PreviewQuote ovf messageID now p msg =
     preview_message ovf messageID now p (BuildQuotesTopic (pp_topicBuilder p) (m_Key msg) ''v1'') ''ampy.ticks.v1.QuoteTick'' msg"

definition PreviewFundamentals where
  "PreviewFundamentals ovf messageID now p msg =
     preview_message ovf messageID now p (BuildFundamentalsTopic (pp_topicBuilder p) (m_Key msg) ''v1'')
       ''ampy.fundamentals.v1.FundamentalsSnapshot'' msg"

section \<open>Bus\<close>

record Bus =
  b_config :: Config
  b_publisher :: "BusPublisher option"
  b_previewPublisher :: PreviewPublisher

text \<open>A new bus comes with its breaker and, when it is enabled, the state of its transport.\<close>

definition NewBus :: "(NatsBindingConfig \<Rightarrow> 's go) \<Rightarrow> Config option \<Rightarrow> (Bus \<times> CircuitBreaker \<times> 's option) go" where
  "NewBus connect cfg =
     (case cfg of
        None \<Rightarrow> Err (Errorf ''config cannot be nil'' [])
      | Some config \<Rightarrow>
          go_bind (go_wrap ''invalid config: %w'' [] (ValidateConfig (Some config))) (\<lambda>_.
          let mk = (\<lambda>pub. \<lparr>b_config = config, b_publisher = pub, b_previewPublisher = NewPreviewPublisher config\<rparr>) in
          if c_Enabled config then
            go_bind (go_wrap ''failed to create bus publisher: %w'' [] (NewBusPublisher connect config)) (\<lambda>(pub, s).
            Ret (mk (Some pub), NewCircuitBreaker, Some s))
          else Ret (mk None, NewCircuitBreaker, None)))"

text \<open>
  Publishing through the bus: every attempt goes through the breaker to the publisher. \<open>now\<close> is
  the clock of the breaker, and the method call on a nil publisher panics.
\<close>

definition bus_publish ::
  "(f64 \<Rightarrow> int) \<Rightarrow> (nat \<Rightarrow> f64) \<Rightarrow> (nat \<Rightarrow> goerror option) \<Rightarrow> ('s \<Rightarrow> instant) \<Rightarrow> Bus \<Rightarrow> (BusPublisher \<Rightarrow> 's fn) \<Rightarrow>
   CircuitBreaker \<times> 's \<Rightarrow> (CircuitBreaker \<times> 's) \<times> duration list \<times> unit go" where
  "bus_publish ovf rnd cancel now b publish st =
     (if \<not> c_Enabled (b_config b) then (st, [], Err (Errorf ''bus publishing is disabled'' []))
      else ExecuteWithRetry ovf (c_Retry (b_config b)) rnd cancel
        (cb_Execute (c_CircuitBreaker (b_config b)) now
          (\<lambda>s. case b_publisher b of None \<Rightarrow> (s, Panic ''nil pointer dereference'') | Some p \<Rightarrow> publish p s)) st)"

definition Bus_PublishBars where
  "Bus_PublishBars ovf uuid clock send marshal rnd cancel now b msg =
     bus_publish ovf rnd cancel now b (\<lambda>p. publisher_PublishBars ovf uuid clock send marshal p msg)"

definition Bus_PublishQuote where
  "Bus_PublishQuote ovf uuid clock send marshal rnd cancel now b msg =
     bus_publish ovf rnd cancel now b (\<lambda>p. publisher_PublishQuote ovf uuid clock send marshal p msg)"

definition Bus_PublishFundamentals where
  "Bus_PublishFundamentals ovf uuid clock send marshal rnd cancel now b msg =
     bus_publish ovf rnd cancel now b (\<lambda>p. publisher_PublishFundamentals ovf uuid clock send marshal p msg)"

text \<open>Closing: \<open>close\<close> closes the transport.\<close>

definition publisher_Close :: "('s \<Rightarrow> 's) \<Rightarrow> 's \<Rightarrow> 's \<times> unit go" where
  "publisher_Close close s = (close s, Ret ())"

definition Bus_Close :: "('s \<Rightarrow> 's) \<Rightarrow> Bus \<Rightarrow> CircuitBreaker \<times> 's \<Rightarrow> (CircuitBreaker \<times> 's) \<times> unit go" where
  "Bus_Close close b = (\<lambda>(cb, s).
     case b_publisher b of Some _ \<Rightarrow> (case publisher_Close close s of (s', r) \<Rightarrow> ((cb, s'), r)) | None \<Rightarrow> ((cb, s), Ret ()))"

section \<open>Lemmas of the configuration\<close>

lemma validateRetryConfig_iff:
  "validateRetryConfig c = Ret () \<longleftrightarrow> 0 < rc_Attempts c \<and> 0 < rc_BaseMs c \<and> rc_BaseMs c \<le> rc_MaxDelayMs c"
  by (auto simp: validateRetryConfig_def go_bind_eq_Ret go_guard_def not_le)

lemma validateCircuitBreakerConfig_iff:
  "validateCircuitBreakerConfig c = Ret () \<longleftrightarrow> 0 < cc_Window c \<and>
     \<not> f_le (cc_FailureThreshold c) (Fin 0) \<and> \<not> f_lt (Fin 1) (cc_FailureThreshold c) \<and>
     0 < cc_ResetTimeoutMs c \<and> 0 < cc_HalfOpenProbes c"
  by (auto simp: validateCircuitBreakerConfig_def go_bind_eq_Ret go_guard_def not_le)

text \<open>The two comparisons let a threshold through that is not a number, and nothing else outside \<open>(0, 1]\<close>.\<close>

lemma threshold_accepted_iff:
  "\<not> f_le f (Fin 0) \<and> \<not> f_lt (Fin 1) f \<longleftrightarrow> f = NaN \<or> (\<exists>q. f = Fin q \<and> 0 < q \<and> q \<le> 1)"
  by (cases f) (auto simp: f_le_def f_eq_def)

definition publisher_ok :: "PublisherConfig \<Rightarrow> bool" where
  "publisher_ok c \<longleftrightarrow>
     pc_Backend c = ''nats'' \<and> nc_URL (pc_NATS c) \<noteq> [] \<and> 0 < nc_AckWaitMs (pc_NATS c) \<or>
     pc_Backend c = ''kafka'' \<and> kc_Brokers (pc_Kafka c) \<noteq> [] \<and> kc_Acks (pc_Kafka c) \<in> {''all'', ''1'', ''0''}"

lemma validatePublisherConfig_iff: "validatePublisherConfig c = Ret () \<longleftrightarrow> publisher_ok c"
  by (auto simp: validatePublisherConfig_def validateNATSConfig_def validateKafkaConfig_def publisher_ok_def
      go_bind_eq_Ret go_guard_def go_wrap_eq_Ret not_le split: if_splits)

definition config_ok :: "Config \<Rightarrow> bool" where
  "config_ok c \<longleftrightarrow> c_Env c \<in> {''dev'', ''staging'', ''prod''} \<and> c_TopicPrefix c \<noteq> [] \<and>
     256 * 1024 \<le> c_MaxPayloadBytes c \<and> c_MaxPayloadBytes c \<le> 10 * 1024 * 1024 \<and>
     (c_Enabled c \<longrightarrow> publisher_ok (c_Publisher c)) \<and>
     0 < rc_Attempts (c_Retry c) \<and> 0 < rc_BaseMs (c_Retry c) \<and> rc_BaseMs (c_Retry c) \<le> rc_MaxDelayMs (c_Retry c) \<and>
     0 < cc_Window (c_CircuitBreaker c) \<and> 0 < cc_ResetTimeoutMs (c_CircuitBreaker c) \<and>
     0 < cc_HalfOpenProbes (c_CircuitBreaker c) \<and>
     (case cc_FailureThreshold (c_CircuitBreaker c) of NaN \<Rightarrow> True | Fin q \<Rightarrow> 0 < q \<and> q \<le> 1 | _ \<Rightarrow> False)"

lemma ValidateConfig_ok: "ValidateConfig (Some c) = Ret () \<longleftrightarrow> config_ok c"
proof -
  have t: "(\<not> f_le f (Fin 0) \<and> \<not> f_lt (Fin 1) f) = (case f of NaN \<Rightarrow> True | Fin q \<Rightarrow> 0 < q \<and> q \<le> 1 | _ \<Rightarrow> False)" for f
    using threshold_accepted_iff [of f] by (cases f) auto
  show ?thesis
    unfolding ValidateConfig_def config_ok_def t [symmetric]
    by (auto simp: go_bind_eq_Ret go_guard_def go_wrap_eq_Ret validatePublisherConfig_iff validateRetryConfig_iff
        validateCircuitBreakerConfig_iff not_less split: if_splits)
qed

lemma default_threshold: "\<exists>q. fl (3/10) = Fin q \<and> 0 < q \<and> q \<le> 1"
proof -
  have "fl (1/4) = Fin (1/4)" "fl 1 = Fin 1"
    using fl_exact [of "1/4" 1 "-2"] fl_of_int [of 1] by (simp_all add: power_int_minus)
  then obtain y where "fl (3/10) = Fin y" "1/4 \<le> y" "y \<le> 1" by (rule fl_between [of "1/4" 1 "3/10"]) simp_all
  then show ?thesis by simp
qed

section \<open>Lemmas of the publisher\<close>

text \<open>
  What goes on the wire for a message: one transport envelope per chunk, and how a list of envelopes is sent
  until the first error.
\<close>

definition wire :: "EnvelopeBuilder \<Rightarrow> string \<Rightarrow> string \<Rightarrow> Key \<Rightarrow> string \<Rightarrow> string \<Rightarrow> instant \<Rightarrow> string \<Rightarrow> ampy_Envelope" where
  "wire b topic fqdn key runID messageID t chunk =
     \<lparr>a_Topic = topic,
      a_Headers = \<lparr>h_MessageID = messageID, h_SchemaFQDN = fqdn, h_SchemaVersion = ''1.0.0'',
        h_ContentType = ''application/x-protobuf'', h_ProducedAt = t, h_Producer = eb_producer b,
        h_Source = eb_source b, h_RunID = runID, h_TraceID = [], h_PartitionKey = PartitionKey key\<rparr>,
      a_Payload = chunk\<rparr>"

fun deliver :: "'s send \<Rightarrow> string \<Rightarrow> int \<Rightarrow> ampy_Envelope list \<Rightarrow> 's \<Rightarrow> 's \<times> unit go" where
  "deliver send noun i [] s = (s, Ret ())"
| "deliver send noun i (e # es) s =
     (case send e s of
        (s', Some err) \<Rightarrow> (s', Err (Wrapf (''failed to publish '' @ noun @ '' chunk %d: %w'') [AInt i] err))
      | (s', None) \<Rightarrow> deliver send noun (i + 1) es s')"

lemma ampy_of_built [simp]:
  "ampy_of topic (BuildEnvelope b messageID t fqdn ''1.0.0'' key runID [] None) chunk = wire b topic fqdn key runID messageID t chunk"
  "ampy_of topic (BuildChunkedEnvelope b messageID t fqdn ''1.0.0'' key runID [] i n None) chunk =
     wire b topic fqdn key runID messageID t chunk"
  by (simp_all add: ampy_of_def BuildEnvelope_def BuildChunkedEnvelope_def wire_def ext_lookup_def)

text \<open>The envelopes of the chunks, numbered from \<open>k\<close>.\<close>

fun wires :: "(nat \<Rightarrow> string) \<Rightarrow> (nat \<Rightarrow> instant) \<Rightarrow> EnvelopeBuilder \<Rightarrow> string \<Rightarrow> string \<Rightarrow> Key \<Rightarrow> string \<Rightarrow> nat \<Rightarrow>
    string list \<Rightarrow> ampy_Envelope list" where
  "wires uuid clock b topic fqdn key runID k [] = []"
| "wires uuid clock b topic fqdn key runID k (c # cs) =
     wire b topic fqdn key runID (uuid k) (clock k) c # wires uuid clock b topic fqdn key runID (Suc k) cs"

lemma publish_loop_deliver:
  assumes "1 < n" "publish_loop uuid clock send b topic fqdn key runID noun envelope n i cs w = (w', r)"
  shows "(w_bus w', r) = deliver send noun i (wires uuid clock b topic fqdn key runID (w_built w) cs) (w_bus w)"
  using assms(2)
proof (induction cs arbitrary: i w)
  case (Cons c cs)
  obtain s' err where s: "send (wire b topic fqdn key runID (uuid (w_built w)) (clock (w_built w)) c) (w_bus w) = (s', err)"
    by fastforce
  show ?case
  proof (cases err)
    case None
    have "publish_loop uuid clock send b topic fqdn key runID noun envelope n (i + 1) cs
        (w\<lparr>w_built := Suc (w_built w), w_bus := s'\<rparr>) = (w', r)"
      using Cons.prems assms(1) s None by simp
    from Cons.IH [OF this] show ?thesis using s None by simp
  next
    case (Some e)
    then show ?thesis using Cons.prems assms(1) s by (auto simp: Let_def)
  qed
qed simp

lemma wires_payloads: "map a_Payload (wires uuid clock b topic fqdn key runID k cs) = cs"
  by (induction cs arbitrary: k) (simp_all add: wire_def)

lemma wires_ids:
  "map (h_MessageID \<circ> a_Headers) (wires uuid clock b topic fqdn key runID k cs) = map uuid [k..<k + length cs]"
  by (induction cs arbitrary: k) (simp_all add: wire_def upt_rec)

lemma wire_topic: "a_Topic (wire b topic fqdn key runID messageID t c) = topic"
  by (simp add: wire_def)

lemma wires_wire:
  "e \<in> set (wires uuid clock b topic fqdn key runID k cs) \<Longrightarrow>
     \<exists>j c. c \<in> set cs \<and> e = wire b topic fqdn key runID (uuid j) (clock j) c"
  by (induction cs arbitrary: k) (simp, fastforce)

lemma publish_message_deliver:
  assumes "marshal (m_Content msg) = Ret payload" "length payload < 2 ^ 53"
    and "bp_chunking p = NewChunkingStrategy (int m)" "0 < m" "m < 2 ^ 53"
    and "publish_message ovf uuid clock send marshal p topic fqdn noun msg w = (w', r)"
  shows "\<exists>k. (w_bus w', r) = deliver send noun 0
    (wires uuid clock (bp_envelopeBuilder p) topic fqdn (m_Key msg) (m_RunID msg) k (chunks_of m payload)) (w_bus w)"
proof -
  let ?b = "bp_envelopeBuilder p" and ?cs = "chunks_of m payload" and ?w = "w\<lparr>w_built := Suc (w_built w)\<rparr>"
  have c: "ChunkPayload ovf (bp_chunking p) payload = Ret \<lparr>cr_Chunks = ?cs, cr_ChunkInfo = info_of ?cs\<rparr>"
    using ChunkPayload_eq [of m payload ovf] assms by (simp add: NewChunkingStrategy_def)
  have l: "publish_loop uuid clock send ?b topic fqdn (m_Key msg) (m_RunID msg) noun
      (BuildEnvelope ?b (uuid (w_built w)) (clock (w_built w)) fqdn ''1.0.0'' (m_Key msg) (m_RunID msg) [] None)
      (int (length ?cs)) 0 ?cs ?w = (w', r)"
    using assms(1,6) c by (simp add: publish_message_def Let_def)
  show ?thesis
  proof (cases "1 < length ?cs")
    case True
    then show ?thesis using publish_loop_deliver [OF _ l] by auto
  next
    case False
    have "?cs = [payload]" if "length payload \<le> m" using that by (simp add: chunks_of_def)
    moreover have "length payload \<le> m"
    proof -
      have "m * length ?cs \<le> m * 1" using False by (intro mult_le_mono2) simp
      then show ?thesis using code.chunks_bound [OF assms(4), of payload] by linarith
    qed
    ultimately have cs: "?cs = [payload]" by simp
    show ?thesis using l unfolding cs
      by (intro exI [of _ "w_built w"]) (auto simp: Let_def split: prod.splits option.splits)
  qed
qed

lemma NewBus_enabled:
  assumes "NewBus connect (Some c) = Ret (b, cb, s)" "b_publisher b = Some p"
  shows "config_ok c \<and> c_Enabled c \<and> b_config b = c \<and> cb = NewCircuitBreaker \<and>
    p = \<lparr>bp_config = c, bp_topicBuilder = NewTopicBuilder (c_Env c) (c_TopicPrefix c),
      bp_envelopeBuilder = NewEnvelopeBuilder ''yfinance-go@localhost'' ''yfinance-go'',
      bp_chunking = NewChunkingStrategy (c_MaxPayloadBytes c)\<rparr> \<and>
    b_previewPublisher b = NewPreviewPublisher c"
  using assms
  by (auto simp: NewBus_def NewBusPublisher_def go_bind_eq_Ret ValidateConfig_ok getHostname_def Let_def split: if_splits)

text \<open>The errors of a publisher are never marked as retryable.\<close>

lemma deliver_not_retryable: "deliver send noun i es s = (s', Err e) \<Longrightarrow> \<not> IsRetryableError e"
  by (induction es arbitrary: i s) (auto simp: IsRetryableError_def split: prod.splits option.splits)

lemma go_wrap_not_retryable: "go_wrap f xs r = Err e \<Longrightarrow> \<not> IsRetryableError e"
  by (cases r) (auto simp: IsRetryableError_def)

lemma publish_loop_not_retryable:
  "publish_loop uuid clock send b topic fqdn key runID noun env n i cs w = (w', Err e) \<Longrightarrow> \<not> IsRetryableError e"
  by (induction cs arbitrary: i w) (auto simp: IsRetryableError_def Let_def split: prod.splits option.splits if_splits)

lemma publish_message_not_retryable:
  "publish_message ovf uuid clock send marshal p topic fqdn noun msg w = (w', Err e) \<Longrightarrow> \<not> IsRetryableError e"
  unfolding publish_message_def
  by (auto simp: Let_def split: go.splits dest: go_wrap_not_retryable publish_loop_not_retryable)

lemma cb_Execute_not_retryable:
  assumes "\<And>s s' e. fn s = (s', Err e) \<Longrightarrow> \<not> IsRetryableError e" "cb_Execute c now fn st = (st', Err e)"
  shows "\<not> IsRetryableError e"
  using assms(2) by (auto simp: cb_Execute_def IsRetryableError_def Let_def dest: assms(1)
      split: prod.splits go.splits if_splits)

lemma not_retried:
  assumes "\<And>s s' e. fn s = (s', Err e) \<Longrightarrow> \<not> IsRetryableError e" "0 < rc_Attempts c"
  shows "ExecuteWithRetry ovf c rnd cancel fn s = (case fn s of (s', r) \<Rightarrow> (s', [], r))"
proof -
  obtain n where "nat (rc_Attempts c) = Suc n" using assms(2) by (cases "nat (rc_Attempts c)") auto
  then show ?thesis using assms(1) by (auto simp: ExecuteWithRetry_def split: prod.splits go.splits)
qed

section \<open>Properties\<close>

text \<open>
  C11: On a bus that NewBus made, PublishBars sends the envelopes of one message (below 2^53
  bytes) in order until the first error: their payloads concatenate to the marshalled message,
  each within the configured limit, with the configured topic and the partition key and run of
  the message. The headers of two chunks differ only in the message identifier and the
  production time, so neither the number of a chunk nor their count is sent; the identifiers
  are distinct when the generator of identifiers never repeats one. A preview of that size
  announces the number and the topic of the envelopes.
\<close>

theorem PublishBars_wire:
  assumes "NewBus connect (Some c) = Ret (b, cb, Some s0)" "b_publisher b = Some p"
    and "marshal (m_Content msg) = Ret payload" "length payload < 2 ^ 53"
    and "publisher_PublishBars ovf uuid clock send marshal p msg w = (w', r)"
  shows "\<exists>envs. (w_bus w', r) = deliver send ''bar batch'' 0 envs (w_bus w) \<and>
    concat (map a_Payload envs) = payload \<and>
    (\<forall>e \<in> set envs. int (length (a_Payload e)) \<le> c_MaxPayloadBytes c \<and>
      (\<exists>k. e = wire (NewEnvelopeBuilder ''yfinance-go@localhost'' ''yfinance-go'')
        (BuildBarsTopic (NewTopicBuilder (c_Env c) (c_TopicPrefix c)) (m_Key msg) ''v1'') ''ampy.bars.v1.BarBatch''
        (m_Key msg) (m_RunID msg) (uuid k) (clock k) (a_Payload e))) \<and>
    (inj uuid \<longrightarrow> distinct (map (h_MessageID \<circ> a_Headers) envs)) \<and>
    (\<exists>q. PreviewBars ovf messageID t (b_previewPublisher b) msg (int (length payload)) = Ret q \<and>
      ps_MessageCount q = int (length envs) \<and> (\<forall>e \<in> set envs. a_Topic e = ps_Topic q))"
proof -
  let ?b = "NewEnvelopeBuilder ''yfinance-go@localhost'' ''yfinance-go''"
  let ?topic = "BuildBarsTopic (NewTopicBuilder (c_Env c) (c_TopicPrefix c)) (m_Key msg) ''v1''"
  define m where "m = nat (c_MaxPayloadBytes c)"
  from NewBus_enabled [OF assms(1,2)]
  have p: "bp_topicBuilder p = NewTopicBuilder (c_Env c) (c_TopicPrefix c)" "bp_envelopeBuilder p = ?b"
      "bp_chunking p = NewChunkingStrategy (c_MaxPayloadBytes c)"
    and pv: "b_previewPublisher b = NewPreviewPublisher c" and ok: "config_ok c" by simp_all
  have m: "c_MaxPayloadBytes c = int m" "0 < m" "m < 2 ^ 53" using ok by (auto simp: m_def config_ok_def)
  from publish_message_deliver [OF assms(3,4) p(3) [unfolded m(1)] m(2,3) assms(5) [unfolded publisher_PublishBars_def]]
  obtain k where d: "(w_bus w', r) = deliver send ''bar batch'' 0 (wires uuid clock ?b ?topic ''ampy.bars.v1.BarBatch''
      (m_Key msg) (m_RunID msg) k (chunks_of m payload)) (w_bus w)"
    unfolding p by blast
  define envs where "envs = wires uuid clock ?b ?topic ''ampy.bars.v1.BarBatch'' (m_Key msg) (m_RunID msg) k (chunks_of m payload)"
  have pl: "map a_Payload envs = chunks_of m payload" unfolding envs_def by (rule wires_payloads)
  have len: "length envs = length (chunks_of m payload)" using pl by (metis length_map)
  have each: "int (length (a_Payload e)) \<le> c_MaxPayloadBytes c \<and> (\<exists>j. e = wire ?b ?topic ''ampy.bars.v1.BarBatch''
      (m_Key msg) (m_RunID msg) (uuid j) (clock j) (a_Payload e))" if "e \<in> set envs" for e
    using wires_wire [OF that [unfolded envs_def]] code.chunk_size [OF m(2)] by (auto simp: m(1) wire_def)
  have ids: "distinct (map (h_MessageID \<circ> a_Headers) envs)" if "inj uuid"
    unfolding envs_def wires_ids using that by (auto simp: distinct_map intro: inj_on_subset)
  obtain i where i: "GetChunkingInfo ovf (NewChunkingStrategy (int m)) (int (length payload)) = Ret i"
      "ChunkCount i = int (length envs)"
    using GetChunkingInfo_sizes [of "int m" "int (length payload)" ovf] EstimateChunkCount_eq [OF m(2,3) assms(4), of ovf]
      m assms(4) len by auto
  obtain q where q: "PreviewBars ovf messageID t (b_previewPublisher b) msg (int (length payload)) = Ret q"
      "ps_MessageCount q = int (length envs)" "ps_Topic q = ?topic"
    using i by (auto simp: PreviewBars_def preview_message_def pv NewPreviewPublisher_def m(1))
  have "\<forall>e \<in> set envs. a_Topic e = ?topic" using each wire_topic by metis
  then show ?thesis using d pl each ids q code.concat_chunks [OF m(2), of payload]
    by (intro exI [of _ envs]) (auto simp: envs_def [symmetric])
qed

text \<open>A bus over a transport that keeps what it is sent.\<close>

definition sample_config :: Config where
  "sample_config = GetDefaultConfig\<lparr>c_Enabled := True, c_CircuitBreaker :=
     \<lparr>cc_Window = 2, cc_FailureThreshold = Fin (1/4), cc_ResetTimeoutMs = 30000, cc_HalfOpenProbes = 3\<rparr>\<rparr>"

definition sample_bus :: Bus where
  "sample_bus = \<lparr>b_config = sample_config,
     b_publisher = Some \<lparr>bp_config = sample_config, bp_topicBuilder = NewTopicBuilder ''dev'' ''ampy'',
       bp_envelopeBuilder = NewEnvelopeBuilder ''yfinance-go@localhost'' ''yfinance-go'',
       bp_chunking = NewChunkingStrategy (1024 * 1024)\<rparr>,
     b_previewPublisher = NewPreviewPublisher sample_config\<rparr>"

definition sample_message :: "string BusMessage" where
  "sample_message = \<lparr>m_Content = ''bars'', m_Key = \<lparr>k_Symbol = ''AAPL'', k_MIC = ''XNAS''\<rparr>, m_RunID = ''run'', m_Env = ''dev''\<rparr>"

lemma NewBus_sample: "NewBus (\<lambda>_. Ret ([] :: string list)) (Some sample_config) = Ret (sample_bus, NewCircuitBreaker, Some [])"
proof -
  have "ValidateConfig (Some sample_config) = Ret ()"
    by (simp add: ValidateConfig_ok config_ok_def sample_config_def GetDefaultConfig_def publisher_ok_def)
  moreover have f: "c_Enabled sample_config" "c_Env sample_config = ''dev''" "c_TopicPrefix sample_config = ''ampy''"
      "c_MaxPayloadBytes sample_config = 1024 * 1024" "pc_Backend (c_Publisher sample_config) = ''nats''"
    by (simp_all add: sample_config_def GetDefaultConfig_def)
  moreover have "NewBusPublisher (\<lambda>_. Ret ([] :: string list)) sample_config = Ret (the (b_publisher sample_bus), [])"
    by (simp add: NewBusPublisher_def createNATSBus_def getHostname_def sample_bus_def f)
  ultimately show ?thesis by (simp add: NewBus_def sample_bus_def Let_def)
qed

theorem PublishBars_wire_witness:
  "\<exists>w' r envs. publisher_PublishBars (\<lambda>_. 0) show_nat int (\<lambda>e s. (s @ [a_Payload e], None)) Ret
      (the (b_publisher sample_bus)) sample_message \<lparr>w_built = 0, w_bus = []\<rparr> = (w', r) \<and>
    (w_bus w', r) = deliver (\<lambda>e s. (s @ [a_Payload e], None)) ''bar batch'' 0 envs [] \<and>
    concat (map a_Payload envs) = ''bars''"
proof -
  obtain w' r where p: "publisher_PublishBars (\<lambda>_. 0) show_nat int (\<lambda>e s. (s @ [a_Payload e], None)) Ret
      (the (b_publisher sample_bus)) sample_message \<lparr>w_built = 0, w_bus = []\<rparr> = (w', r)" by fastforce
  have "b_publisher sample_bus = Some (the (b_publisher sample_bus))" by (simp add: sample_bus_def)
  from PublishBars_wire [OF NewBus_sample this _ _ p, of "''bars''" "''id''" 0] p
  show ?thesis by (auto simp: sample_message_def)
qed

text \<open>
  C15: Publishing bars through an enabled bus calls the publisher at most once and starts no
  timer, whatever the retry configuration: no error of the publisher or the breaker is marked
  as retryable.
\<close>

theorem Bus_publishes_once:
  assumes "NewBus connect (Some c) = Ret (b, cb0, Some s0)"
  shows "Bus_PublishBars ovf uuid clock send marshal rnd cancel now b msg st =
    (case cb_Execute (c_CircuitBreaker c) now
      (publisher_PublishBars ovf uuid clock send marshal (the (b_publisher b)) msg) st of (st', r) \<Rightarrow> (st', [], r))"
proof -
  have pub: "b_publisher b \<noteq> None"
    using assms by (auto simp: NewBus_def go_bind_eq_Ret Let_def split: if_splits)
  then obtain p where p: "b_publisher b = Some p" by blast
  from NewBus_enabled [OF assms p] have c: "config_ok c" "c_Enabled c" "b_config b = c" by simp_all
  have "ExecuteWithRetry ovf (c_Retry c) rnd cancel
      (cb_Execute (c_CircuitBreaker c) now (publisher_PublishBars ovf uuid clock send marshal p msg)) st =
    (case cb_Execute (c_CircuitBreaker c) now (publisher_PublishBars ovf uuid clock send marshal p msg) st of
      (st', r) \<Rightarrow> (st', [], r))"
    by (rule not_retried)
       (use c in \<open>auto simp: config_ok_def publisher_PublishBars_def
          dest: cb_Execute_not_retryable [rotated] publish_message_not_retryable\<close>)
  then show ?thesis using p c by (simp add: Bus_PublishBars_def bus_publish_def)
qed

theorem Bus_publishes_once_witness:
  "fst (snd (Bus_PublishBars (\<lambda>_. 0) show_nat int (\<lambda>e s. (s, Some (Errorf ''down'' []))) Ret (\<lambda>_. Fin 0) (\<lambda>_. None)
    (\<lambda>w. 7) sample_bus sample_message (NewCircuitBreaker, \<lparr>w_built = 0, w_bus = ([] :: string list)\<rparr>))) = []"
  using Bus_publishes_once [OF NewBus_sample, of "\<lambda>_. 0" show_nat int "\<lambda>e s. (s, Some (Errorf ''down'' []))" Ret "\<lambda>_. Fin 0"
      "\<lambda>_. None" "\<lambda>w. 7" sample_message "(NewCircuitBreaker, \<lparr>w_built = 0, w_bus = ([] :: string list)\<rparr>)"]
  by (simp split: prod.splits)

text \<open>
  ValidateConfig accepts exactly the configurations with a known environment, a topic
  prefix, a payload limit between 256 KiB and 10 MiB, a complete backend when enabled, and
  sound retry and breaker parameters (a threshold that is not a number passes); a
  configuration read from the environment passes exactly when AMPY_BUS_ENV is unset or one of
  the three names.
\<close>

theorem ValidateConfig_iff:
  "(ValidateConfig (Some c) = Ret () \<longleftrightarrow> config_ok c) \<and>
   (ValidateConfig (Some (GetConfigFromEnv getenv)) = Ret () \<longleftrightarrow>
     getenv ''AMPY_BUS_ENV'' \<in> {[], ''dev'', ''staging'', ''prod''})"
proof -
  have t: "case fl (3/10) of NaN \<Rightarrow> True | Fin q \<Rightarrow> 0 < q \<and> q \<le> 1 | _ \<Rightarrow> False" using default_threshold by auto
  have "config_ok (GetConfigFromEnv getenv) \<longleftrightarrow> getenv ''AMPY_BUS_ENV'' \<in> {[], ''dev'', ''staging'', ''prod''}"
    using t by (simp add: config_ok_def GetConfigFromEnv_def GetDefaultConfig_def publisher_ok_def Let_def)
  then show ?thesis by (simp add: ValidateConfig_ok)
qed

end
