(* ===== verification/BusConsole.thy ===== *)
theory BusConsole
  imports Bus
begin

text \<open>
  The rest of the bus: its previews and the accessors of \<^verbatim>\<open>internal/bus/bus.go\<close> and \<^verbatim>\<open>publisher.go\<close>, the hash of a schema of
  \<^verbatim>\<open>envelope.go\<close> and the JSON preview of \<^verbatim>\<open>preview.go\<close>. SHA-256 is a parameter. A line is its format and
  arguments.
\<close>

section \<open>Previews and accessors\<close>

definition Bus_PreviewBars where
  "Bus_PreviewBars ovf messageID now b msg = PreviewBars ovf messageID now (b_previewPublisher b) msg"

definition Bus_PreviewQuote where
  "Bus_PreviewQuote ovf messageID now b msg = PreviewQuote ovf messageID now (b_previewPublisher b) msg"

definition Bus_PreviewFundamentals where
  "Bus_PreviewFundamentals ovf messageID now b msg = PreviewFundamentals ovf messageID now (b_previewPublisher b) msg"

definition Bus_GetConfig :: "Bus \<Rightarrow> Config" where
  "Bus_GetConfig b = b_config b"

definition GetCircuitBreakerStats :: "CircuitBreaker \<Rightarrow> CircuitBreakerStats" where
  "GetCircuitBreakerStats cb = GetStats cb"

definition hex_digits :: string where "hex_digits = ''0123456789abcdef''"

definition hex_digit :: "nat \<Rightarrow> char" where
  "hex_digit n = hex_digits ! n"

text \<open>The first eight bytes of the hash in hexadecimal.\<close>

definition ComputeSchemaHash :: "(string \<Rightarrow> nat list) \<Rightarrow> string \<Rightarrow> string" where
  "ComputeSchemaHash sha256 schemaFQDN =
     concat (map (\<lambda>b. [hex_digit (b div 16), hex_digit (b mod 16)]) (take 8 (sha256 schemaFQDN)))"

section \<open>The JSON preview\<close>

definition q :: string where "q = [CHR 0x22]"

definition PrintPreviewJSON :: "PreviewSummary \<Rightarrow> (string \<times> fmt_arg list) list" where
  "PrintPreviewJSON s =
     [(''{'', []), (''  '' @ q @ ''topic'' @ q @ '': '' @ q @ ''%s'' @ q @ '','', [AStr (ps_Topic s)]),
      (''  '' @ q @ ''partition_key'' @ q @ '': '' @ q @ ''%s'' @ q @ '','', [AStr (ps_PartitionKey s)]),
      (''  '' @ q @ ''message_count'' @ q @ '': %d,'', [AInt (ps_MessageCount s)]),
      (''  '' @ q @ ''payload_bytes'' @ q @ '': %d,'', [AInt (ps_PayloadBytes s)]), (''  '' @ q @ ''chunking'' @ q @ '': {'', []),
      (''    '' @ q @ ''chunk_count'' @ q @ '': %d,'', [AInt (ChunkCount (ps_Chunking s))]),
      (''    '' @ q @ ''max_payload'' @ q @ '': %d'', [AInt (MaxPayload (ps_Chunking s))]), (''  }'', []), (''}'', [])]"

section \<open>Lemmas\<close>

text \<open>Closing a bus changes neither its breaker nor, when publishing is off, anything else.\<close>

lemma Bus_Close_breaker: "fst (fst (Bus_Close close b (cb, s))) = cb"
  by (simp add: Bus_Close_def publisher_Close_def split: option.splits)

lemma Bus_Close_disabled:
  "NewBus connect (Some config) = Ret (b, cb, s) \<Longrightarrow> \<not> c_Enabled config \<Longrightarrow> Bus_Close close b st = (st, Ret ())"
  by (cases st) (auto simp: NewBus_def Bus_Close_def go_bind_eq_Ret Let_def)

text \<open>The hash is sixteen hexadecimal digits, and it is injective in the bytes it shows.\<close>

lemma hex_digits_distinct: "distinct hex_digits" "length hex_digits = 16"
  by (simp_all add: hex_digits_def)

lemma hex_digit_inj: "m < 16 \<Longrightarrow> n < 16 \<Longrightarrow> hex_digit m = hex_digit n \<Longrightarrow> m = n"
  using nth_eq_iff_index_eq [OF hex_digits_distinct(1), of m n] by (simp add: hex_digit_def hex_digits_distinct)

lemma ComputeSchemaHash_length: "length (sha256 f) = 32 \<Longrightarrow> length (ComputeSchemaHash sha256 f) = 16"
proof -
  have "length (concat (map (\<lambda>b. [hex_digit (b div 16), hex_digit (b mod 16)]) xs)) = 2 * length xs" for xs
    by (induction xs) simp_all
  then show "length (sha256 f) = 32 \<Longrightarrow> length (ComputeSchemaHash sha256 f) = 16" by (simp add: ComputeSchemaHash_def)
qed

lemma hex_inj:
  fixes xs ys :: "nat list"
  shows
  "\<forall>b \<in> set xs. b < 256 \<Longrightarrow> \<forall>b \<in> set ys. b < 256 \<Longrightarrow> length xs = length ys \<Longrightarrow>
   concat (map (\<lambda>b. [hex_digit (b div 16), hex_digit (b mod 16)]) xs) =
     concat (map (\<lambda>b. [hex_digit (b div 16), hex_digit (b mod 16)]) ys) \<Longrightarrow> xs = ys"
proof (induction xs arbitrary: ys)
  case (Cons x xs)
  then obtain y zs where ys: "ys = y # zs" by (cases ys) auto
  have bytes: "x div 16 < 16" "y div 16 < 16" using Cons.prems(1,2) ys by auto
  have digits: "hex_digit (x div 16) = hex_digit (y div 16)" "hex_digit (x mod 16) = hex_digit (y mod 16)"
    and rest: "concat (map (\<lambda>b. [hex_digit (b div 16), hex_digit (b mod 16)]) xs) =
      concat (map (\<lambda>b. [hex_digit (b div 16), hex_digit (b mod 16)]) zs)"
    using Cons.prems(4) by (simp_all add: ys)
  have "x div 16 = y div 16" "x mod 16 = y mod 16" using hex_digit_inj digits bytes by simp_all
  then have "x = y" by (metis div_mult_mod_eq)
  moreover have "xs = zs" using Cons.IH [OF _ _ _ rest] Cons.prems(1-3) by (simp add: ys)
  ultimately show ?case by (simp add: ys)
qed simp

end
