(* ===== verification/Httpx.thy ===== *)
theory Httpx
  imports BusRetry
begin

text \<open>
  The HTTP client: \<^verbatim>\<open>internal/httpx/client.go\<close>, \<^verbatim>\<open>errors.go\<close> and \<^verbatim>\<open>caller.go\<close>. What lies outside is a state with
  the operations of \<open>http_env\<close>: sending a request, sleeping in a \<^verbatim>\<open>select\<close> with the context, reading the
  clock, drawing a random number. Metrics and spans are left out.
\<close>

section \<open>Errors\<close>

definition ErrTooManyRequests :: goerror where "ErrTooManyRequests = ErrorString ''too many requests (429)''"
definition ErrServerUnavailable :: goerror where "ErrServerUnavailable = ErrorString ''server unavailable (5xx)''"
definition ErrDecode :: goerror where "ErrDecode = ErrorString ''decode error''"
definition ErrClientConfig :: goerror where "ErrClientConfig = ErrorString ''client configuration error''"
definition ErrRateLimited :: goerror where "ErrRateLimited = ErrorString ''rate limited''"
definition ErrCircuitOpen :: goerror where "ErrCircuitOpen = ErrorString ''circuit breaker is open''"
definition ErrTimeout :: goerror where "ErrTimeout = ErrorString ''request timeout''"
definition ErrContextCanceled :: goerror where "ErrContextCanceled = ErrorString ''context canceled''"

text \<open>\<^verbatim>\<open>errors.As\<close> for an \<^verbatim>\<open>HTTPError\<close> and \<^verbatim>\<open>errors.Is\<close> walk the chain of wrapped errors.\<close>

fun as_HTTPError :: "goerror \<Rightarrow> int option" where
  "as_HTTPError (HTTPError code msg inner) = Some code"
| "as_HTTPError (Wrapf f xs e) = as_HTTPError e"
| "as_HTTPError (UrlError e) = as_HTTPError e"
| "as_HTTPError (RetryableError e) = as_HTTPError e"
| "as_HTTPError (TransportError e) = as_HTTPError e"
| "as_HTTPError _ = None"

fun errors_Is :: "goerror \<Rightarrow> goerror \<Rightarrow> bool" where
  "errors_Is (Wrapf f xs e) t = (Wrapf f xs e = t \<or> errors_Is e t)"
| "errors_Is (UrlError e) t = (UrlError e = t \<or> errors_Is e t)"
| "errors_Is (RetryableError e) t = (RetryableError e = t \<or> errors_Is e t)"
| "errors_Is (TransportError e) t = (TransportError e = t \<or> errors_Is e t)"
| "errors_Is (HTTPError c m (Some e)) t = (HTTPError c m (Some e) = t \<or> errors_Is e t)"
| "errors_Is e t = (e = t)"

definition NewHTTPError :: "int \<Rightarrow> string \<Rightarrow> goerror option \<Rightarrow> goerror" where
  "NewHTTPError statusCode message err = HTTPError statusCode message err"

definition NewTransportError :: "goerror \<Rightarrow> goerror" where
  "NewTransportError err = TransportError err"

definition http_IsRetryableError :: "goerror \<Rightarrow> bool" where
  "http_IsRetryableError err =
     (case as_HTTPError err of
        Some code \<Rightarrow> code \<in> {429, 500, 502, 503, 504}
      | None \<Rightarrow> errors_Is err ErrTooManyRequests \<or> errors_Is err ErrServerUnavailable \<or> errors_Is err ErrTimeout)"

definition IsFatalError :: "goerror \<Rightarrow> bool" where
  "IsFatalError err =
     (case as_HTTPError err of
        Some code \<Rightarrow> code \<in> {400, 401, 403, 404, 422}
      | None \<Rightarrow> errors_Is err ErrClientConfig \<or> errors_Is err ErrDecode)"

section \<open>The outside\<close>

record Request =
  rq_URL :: string
  rq_Path :: string
  rq_Header :: "string \<rightharpoonup> string"

record Response =
  rsp_StatusCode :: int
  rsp_Body :: "string \<times> goerror option"

text \<open>A body is the bytes that can be read from it and the error that ends them, if one does.\<close>

definition ReadAll :: "string \<times> goerror option \<Rightarrow> string go" where
  "ReadAll body = (case body of (bytes, None) \<Rightarrow> Ret bytes | (bytes, Some e) \<Rightarrow> Err e)"

record 's http_env =
  env_send :: "Request \<Rightarrow> 's \<Rightarrow> 's \<times> (goerror + Response)"
  env_sleep :: "duration \<Rightarrow> 's \<Rightarrow> 's \<times> goerror option"
  env_clock :: "'s \<Rightarrow> instant"
  env_intn :: "int \<Rightarrow> 's \<Rightarrow> int"

section \<open>Configuration\<close>

record HttpConfig =
  hc_BaseURL :: string
  hc_Timeout :: duration
  hc_IdleTimeout :: duration
  hc_MaxConnsPerHost :: int
  hc_MaxAttempts :: int
  hc_BackoffBaseMs :: int
  hc_BackoffJitterMs :: int
  hc_MaxDelayMs :: int
  hc_QPS :: f64
  hc_Burst :: int
  hc_CircuitWindow :: duration
  hc_FailureThreshold :: int
  hc_ResetTimeout :: duration
  hc_UserAgent :: string

definition DefaultConfig :: HttpConfig where
  "DefaultConfig =
     \<lparr>hc_BaseURL = ''https://query1.finance.yahoo.com'', hc_Timeout = dur_mul 30 second,
      hc_IdleTimeout = dur_mul 90 second, hc_MaxConnsPerHost = 10, hc_MaxAttempts = 3, hc_BackoffBaseMs = 200,
      hc_BackoffJitterMs = 100, hc_MaxDelayMs = 10000, hc_QPS = Fin 1, hc_Burst = 3,
      hc_CircuitWindow = dur_mul 60 second, hc_FailureThreshold = 3, hc_ResetTimeout = dur_mul 30 second,
      hc_UserAgent = ''Mozilla/5.0 (Macintosh; Intel Mac OS X 10_15_7) AppleWebKit/537.36 (KHTML, like Gecko) Chrome/91.0.4472.124 Safari/537.36''\<rparr>"

section \<open>Rate limiter\<close>

record RateLimiter =
  rl_tokens :: f64
  rl_capacity :: f64
  rl_rate :: f64
  rl_lastTime :: instant

definition NewRateLimiter :: "instant \<Rightarrow> int \<Rightarrow> int \<Rightarrow> RateLimiter" where
  "NewRateLimiter now qps burst =
     \<lparr>rl_tokens = f_of_int burst, rl_capacity = f_of_int burst, rl_rate = f_of_int qps, rl_lastTime = now\<rparr>"

text \<open>
  \<^verbatim>\<open>Wait\<close> holds the lock twice: up to the decision, and after the sleep. The two critical sections
  are the atomic steps \<open>wait_begin\<close> and \<open>wait_end\<close>.
\<close>

datatype wait_result = Granted | Sleep duration

definition wait_begin :: "(f64 \<Rightarrow> int) \<Rightarrow> instant \<Rightarrow> RateLimiter \<Rightarrow> RateLimiter \<times> wait_result" where
  "wait_begin ovf now r =
     (let elapsed = time_Sub now (rl_lastTime r);
          tokens1 = f_add (rl_tokens r) (f_mul (rl_rate r) (Seconds elapsed));
          tokens2 = (if f_lt (rl_capacity r) tokens1 then rl_capacity r else tokens1);
          r1 = r\<lparr>rl_tokens := tokens2, rl_lastTime := now\<rparr>
      in if f_le (Fin 1) tokens2 then (r1\<lparr>rl_tokens := f_sub tokens2 (Fin 1)\<rparr>, Granted)
         else (r1, Sleep (f_to_int64 ovf (f_mul (f_div (f_sub (Fin 1) tokens2) (rl_rate r)) (f_of_int second)))))"

definition wait_end :: "RateLimiter \<Rightarrow> RateLimiter" where
  "wait_end r = r\<lparr>rl_tokens := Fin 0\<rparr>"

definition limiter_Wait :: "(f64 \<Rightarrow> int) \<Rightarrow> 's http_env \<Rightarrow> RateLimiter \<Rightarrow> 's \<Rightarrow> (RateLimiter \<times> 's) \<times> unit go" where
  "limiter_Wait ovf env r s =
     (case wait_begin ovf (env_clock env s) r of
        (r1, Granted) \<Rightarrow> ((r1, s), Ret ())
      | (r1, Sleep waitTime) \<Rightarrow>
          (case env_sleep env waitTime s of
             (s1, Some e) \<Rightarrow> ((r1, s1), Err e)
           | (s1, None) \<Rightarrow> ((wait_end r1, s1), Ret ())))"

section \<open>Circuit breaker\<close>

datatype CircuitState = StateClosed | StateOpen | StateHalfOpen

record HttpCircuitBreaker =
  hb_window :: duration
  hb_failureThreshold :: int
  hb_resetTimeout :: duration
  hb_state :: CircuitState
  hb_failures :: int
  hb_lastFailure :: instant

definition NewHttpCircuitBreaker :: "duration \<Rightarrow> int \<Rightarrow> duration \<Rightarrow> HttpCircuitBreaker" where
  "NewHttpCircuitBreaker window failureThreshold resetTimeout =
     \<lparr>hb_window = window, hb_failureThreshold = failureThreshold, hb_resetTimeout = resetTimeout,
      hb_state = StateClosed, hb_failures = 0, hb_lastFailure = zero_time\<rparr>"

text \<open>A call that is not interleaved with another one; then the second check under the write lock repeats the first.\<close>

definition Allow :: "instant \<Rightarrow> HttpCircuitBreaker \<Rightarrow> bool \<times> HttpCircuitBreaker" where
  "Allow now cb =
     (case hb_state cb of
        StateClosed \<Rightarrow> (True, cb)
      | StateOpen \<Rightarrow>
          if hb_resetTimeout cb \<le> time_Sub now (hb_lastFailure cb) then (True, cb\<lparr>hb_state := StateHalfOpen\<rparr>)
          else (False, cb)
      | StateHalfOpen \<Rightarrow> (True, cb))"

definition RecordSuccess :: "HttpCircuitBreaker \<Rightarrow> HttpCircuitBreaker" where
  "RecordSuccess cb = (if hb_state cb = StateHalfOpen then cb\<lparr>hb_state := StateClosed, hb_failures := 0\<rparr> else cb)"

definition RecordFailure :: "instant \<Rightarrow> HttpCircuitBreaker \<Rightarrow> HttpCircuitBreaker" where
  "RecordFailure now cb =
     (let cb1 = cb\<lparr>hb_failures := hb_failures cb + 1, hb_lastFailure := now\<rparr>
      in if hb_failureThreshold cb1 \<le> hb_failures cb1 then cb1\<lparr>hb_state := StateOpen\<rparr> else cb1)"

definition breaker_State :: "HttpCircuitBreaker \<Rightarrow> CircuitState" where
  "breaker_State cb = hb_state cb"

definition breaker_Failures :: "HttpCircuitBreaker \<Rightarrow> int" where
  "breaker_Failures cb = hb_failures cb"

section \<open>Client\<close>

record Client =
  cl_config :: HttpConfig
  cl_rateLimiter :: RateLimiter
  cl_circuitBreaker :: HttpCircuitBreaker

definition NewClient :: "(f64 \<Rightarrow> int) \<Rightarrow> instant \<Rightarrow> HttpConfig option \<Rightarrow> Client" where
  "NewClient ovf now cfg =
     (let config = (case cfg of None \<Rightarrow> DefaultConfig | Some c \<Rightarrow> c) in
      \<lparr>cl_config = config,
       cl_rateLimiter = NewRateLimiter now (f_to_int64 ovf (hc_QPS config)) (hc_Burst config),
       cl_circuitBreaker = NewHttpCircuitBreaker (hc_CircuitWindow config) (hc_FailureThreshold config)
         (hc_ResetTimeout config)\<rparr>)"

definition shouldRetry :: "HttpConfig \<Rightarrow> goerror \<Rightarrow> int \<Rightarrow> bool" where
  "shouldRetry config err attempt =
     (if hc_MaxAttempts config - 1 \<le> attempt then False
      else if err = ContextDeadlineExceeded \<or> err = ContextCanceled then True
      else case err of TransportError _ \<Rightarrow> True | _ \<Rightarrow> False)"

definition shouldRetryResponse :: "HttpConfig \<Rightarrow> Response \<Rightarrow> int \<Rightarrow> bool" where
  "shouldRetryResponse config resp attempt =
     (if hc_MaxAttempts config - 1 \<le> attempt then False
      else if rsp_StatusCode resp \<in> {429, 500, 502, 503, 504} then True
      else if rsp_StatusCode resp \<in> {400, 401, 403, 404, 422} then False
      else False)"

definition isSuccessResponse :: "Response \<Rightarrow> bool" where
  "isSuccessResponse resp = (200 \<le> rsp_StatusCode resp \<and> rsp_StatusCode resp < 300)"

text \<open>\<open>rnd\<close> is \<^verbatim>\<open>rand.Intn\<close>; the sum of two durations wraps.\<close>

definition calculateBackoff :: "(f64 \<Rightarrow> int) \<Rightarrow> HttpConfig \<Rightarrow> (int \<Rightarrow> int) \<Rightarrow> nat \<Rightarrow> duration" where
  "calculateBackoff ovf config rnd attempt =
     (let baseDelay = dur_mul (hc_BackoffBaseMs config) millisecond;
          exponentialDelay = dur_mul baseDelay (f_to_int64 ovf (math_Pow 2 (int attempt)));
          jitter = (if 0 < hc_BackoffJitterMs config then dur_mul (rnd (hc_BackoffJitterMs config)) millisecond else 0);
          totalDelay = wrap64 (exponentialDelay + jitter);
          maxDelay = dur_mul (hc_MaxDelayMs config) millisecond
      in if maxDelay < totalDelay then maxDelay else totalDelay)"

definition max_attempts_exceeded :: "goerror option \<Rightarrow> goerror" where
  "max_attempts_exceeded lastErr =
     (case lastErr of Some e \<Rightarrow> Wrapf ''max attempts exceeded: %w'' [] e | None \<Rightarrow> Errorf ''max attempts exceeded: %w'' [])"

definition http_status_error :: "Response \<Rightarrow> goerror" where
  "http_status_error resp = Errorf ''HTTP %d'' [AInt (rsp_StatusCode resp)]"

text \<open>The loop over the attempts, from attempt \<open>i\<close> with \<open>n\<close> attempts left.\<close>

fun do_loop ::
  "(f64 \<Rightarrow> int) \<Rightarrow> 's http_env \<Rightarrow> HttpConfig \<Rightarrow> Request \<Rightarrow> nat \<Rightarrow> nat \<Rightarrow> goerror option \<Rightarrow>
   HttpCircuitBreaker \<times> 's \<Rightarrow> (HttpCircuitBreaker \<times> 's) \<times> Response go" where
  "do_loop ovf env config req 0 i lastErr (cb, s) =
     ((RecordFailure (env_clock env s) cb, s), Err (max_attempts_exceeded lastErr))"
| "do_loop ovf env config req (Suc n) i lastErr (cb, s) =
     (let (s1, outcome) = env_send env req s;
          retry = (\<lambda>err.
            let cb1 = RecordFailure (env_clock env s1) cb;
                delay = calculateBackoff ovf config (\<lambda>m. env_intn env m s1) i
            in case env_sleep env delay s1 of
                 (s2, Some e) \<Rightarrow> ((cb1, s2), Err e)
               | (s2, None) \<Rightarrow> do_loop ovf env config req n (Suc i) (Some err) (cb1, s2))
      in case outcome of
           Inl err \<Rightarrow>
             if \<not> shouldRetry config err (int i) then ((RecordFailure (env_clock env s1) cb, s1), Err err)
             else retry err
         | Inr resp \<Rightarrow>
             if shouldRetryResponse config resp (int i) then retry (http_status_error resp)
             else if isSuccessResponse resp then ((RecordSuccess cb, s1), Ret resp)
             else ((if rsp_StatusCode resp \<noteq> 401 then RecordFailure (env_clock env s1) cb else cb, s1),
                   Err (http_status_error resp)))"

definition Do :: "(f64 \<Rightarrow> int) \<Rightarrow> 's http_env \<Rightarrow> Request \<Rightarrow> Client \<times> 's \<Rightarrow> (Client \<times> 's) \<times> Response go" where
  "Do ovf env req0 = (\<lambda>(c, s).
     (let req = req0\<lparr>rq_Header := (rq_Header req0)(''User-Agent'' \<mapsto> hc_UserAgent (cl_config c))\<rparr>;
          (allowed, cb1) = Allow (env_clock env s) (cl_circuitBreaker c)
      in if \<not> allowed then ((c\<lparr>cl_circuitBreaker := cb1\<rparr>, s), Err ErrCircuitOpen)
         else case limiter_Wait ovf env (cl_rateLimiter c) s of
            ((r1, s1), w) \<Rightarrow>
              let c1 = c\<lparr>cl_circuitBreaker := cb1, cl_rateLimiter := r1\<rparr> in
              (case go_wrap ''rate limiter: %w'' [] w of
                 Err e \<Rightarrow> ((c1, s1), Err e)
               | Panic p \<Rightarrow> ((c1, s1), Panic p)
               | Ret _ \<Rightarrow>
                   (case do_loop ovf env (cl_config c) req (nat (hc_MaxAttempts (cl_config c))) 0 None (cb1, s1) of
                      ((cb2, s2), res) \<Rightarrow> ((c1\<lparr>cl_circuitBreaker := cb2\<rparr>, s2), res)))))"

definition extractEndpoint :: "string \<Rightarrow> string" where
  "extractEndpoint path =
     (if Contains path ''/v8/finance/chart/'' then ''bars_1d''
      else if Contains path ''/v1/finance/quote'' then ''quote''
      else if Contains path ''/v11/finance/quoteSummary/'' then ''fundamentals''
      else if Contains path ''/v1/finance/quoteSummary/'' then ''fundamentals''
      else ''unknown'')"

text \<open>
  \<open>url_parse\<close> is \<^verbatim>\<open>url.Parse\<close>; \<open>new_request\<close> sets the encoded query of the parsed URL and builds the GET request.
\<close>

definition Call ::
  "(f64 \<Rightarrow> int) \<Rightarrow> 's http_env \<Rightarrow> (string \<Rightarrow> 'u go) \<Rightarrow> ('u \<Rightarrow> 'q \<Rightarrow> Request go) \<Rightarrow> string \<Rightarrow> 'q \<Rightarrow>
   Client \<times> 's \<Rightarrow> (Client \<times> 's) \<times> string go" where
  "Call ovf env url_parse new_request path query = (\<lambda>(c, s).
     (case go_bind (go_wrap ''httpx: invalid path: %w'' [] (url_parse (hc_BaseURL (cl_config c) @ path)))
         (\<lambda>u. new_request u query) of
        Err e \<Rightarrow> ((c, s), Err e)
      | Panic p \<Rightarrow> ((c, s), Panic p)
      | Ret req \<Rightarrow>
          (case Do ovf env req (c, s) of
             (st, res) \<Rightarrow>
               (st, go_bind (go_wrap ''httpx: request failed: %w'' [] res) (\<lambda>resp.
                 if rsp_StatusCode resp sdiv 100 \<noteq> 2
                 then Err (Errorf ''httpx: status %d: %s'' 
                   [AInt (rsp_StatusCode resp), AStr (take 1024 (fst (rsp_Body resp)))])
                 else ReadAll (rsp_Body resp))))))"

section \<open>What a successful call gives\<close>

lemma do_loop_success:
  "snd (do_loop ovf env config req n i le st) = Ret resp \<Longrightarrow> isSuccessResponse resp"
proof (induction ovf env config req n i le st rule: do_loop.induct)
  case (2 ovf env config req n i lastErr cb s)
  then show ?case by (auto simp: Let_def split: prod.splits sum.splits option.splits if_splits)
qed simp

lemma Do_success: "Do ovf env req st = (st', Ret resp) \<Longrightarrow> isSuccessResponse resp"
  by (cases st) (auto simp: Do_def Let_def dest!: arg_cong [where f = snd] intro: do_loop_success split: prod.splits go.splits if_splits)

section \<open>Lemmas of the breaker\<close>

definition hb_inv :: "HttpCircuitBreaker \<Rightarrow> bool" where
  "hb_inv cb \<longleftrightarrow> 0 < hb_failureThreshold cb \<and> 0 \<le> hb_failures cb \<and>
     (hb_state cb = StateClosed \<longleftrightarrow> hb_failures cb < hb_failureThreshold cb)"

definition http_note :: "instant \<Rightarrow> bool \<Rightarrow> HttpCircuitBreaker \<Rightarrow> HttpCircuitBreaker" where
  "http_note t failed cb = (if failed then RecordFailure t cb else RecordSuccess cb)"

lemma hb_inv_RecordFailure: "hb_inv cb \<Longrightarrow> hb_inv (RecordFailure t cb)"
  by (auto simp: hb_inv_def RecordFailure_def Let_def)

lemma hb_inv_RecordSuccess: "hb_inv cb \<Longrightarrow> hb_inv (RecordSuccess cb)"
  by (auto simp: hb_inv_def RecordSuccess_def)

lemma hb_inv_Allow: "hb_inv cb \<Longrightarrow> Allow t cb = (r, cb') \<Longrightarrow> hb_inv cb'"
  by (auto simp: hb_inv_def Allow_def split: CircuitState.splits if_splits)

interpretation http_breaker: call_guard Allow http_note hb_inv
  by unfold_locales (auto simp: http_note_def intro: hb_inv_Allow hb_inv_RecordFailure hb_inv_RecordSuccess)

text \<open>The results recorded on a breaker: \<open>None\<close> a success, \<open>Some t\<close> a failure at time \<open>t\<close>.\<close>

definition note_all :: "instant option list \<Rightarrow> HttpCircuitBreaker \<Rightarrow> HttpCircuitBreaker" where
  "note_all evs cb = fold (\<lambda>ev. case ev of None \<Rightarrow> RecordSuccess | Some t \<Rightarrow> RecordFailure t) evs cb"

lemma note_all_counts:
  assumes "hb_inv cb" "hb_state cb \<noteq> StateHalfOpen"
  shows "hb_failures (note_all evs cb) = hb_failures cb + int (length (filter (\<lambda>ev. ev \<noteq> None) evs)) \<and>
    hb_inv (note_all evs cb) \<and> hb_state (note_all evs cb) \<noteq> StateHalfOpen \<and>
    hb_failureThreshold (note_all evs cb) = hb_failureThreshold cb"
  using assms
proof (induction evs arbitrary: cb)
  case (Cons ev evs)
  let ?cb = "case ev of None \<Rightarrow> RecordSuccess cb | Some t \<Rightarrow> RecordFailure t cb"
  have i: "hb_inv ?cb" using Cons.prems by (cases ev) (auto intro: hb_inv_RecordFailure hb_inv_RecordSuccess)
  have s: "hb_state ?cb \<noteq> StateHalfOpen" "hb_failureThreshold ?cb = hb_failureThreshold cb"
      "hb_failures ?cb = hb_failures cb + (if ev \<noteq> None then 1 else 0)"
    using Cons.prems by (cases ev; auto simp: RecordSuccess_def RecordFailure_def Let_def)+
  have n: "note_all (ev # evs) cb = note_all evs ?cb" by (cases ev) (simp_all add: note_all_def)
  show ?case unfolding n using Cons.IH [OF i s(1)] s(2,3) by (cases ev) simp_all
qed (simp add: note_all_def)

section \<open>Lemmas of the attempts\<close>

text \<open>
  The documentation of \<^verbatim>\<open>http.Client.Do\<close>: an error it returns is a \<^verbatim>\<open>url.Error\<close>.
\<close>

definition url_errors :: "'s http_env \<Rightarrow> bool" where
  "url_errors env \<longleftrightarrow> (\<forall>req s. case snd (env_send env req s) of Inl err \<Rightarrow> \<exists>e. err = UrlError e | Inr _ \<Rightarrow> True)"

definition retry_statuses :: "int set" where
  "retry_statuses = {429, 500, 502, 503, 504}"

text \<open>\<open>k\<close> attempts from attempt \<open>i\<close> that were answered with a status to retry, each followed by its sleep.\<close>

inductive retried ::
  "(f64 \<Rightarrow> int) \<Rightarrow> 's http_env \<Rightarrow> HttpConfig \<Rightarrow> Request \<Rightarrow> nat \<Rightarrow> HttpCircuitBreaker \<times> 's \<Rightarrow> nat \<Rightarrow>
   HttpCircuitBreaker \<times> 's \<Rightarrow> bool" for ovf env config req where
  retried_none: "retried ovf env config req i st 0 st"
| retried_one: "env_send env req s = (s1, Inr resp) \<Longrightarrow> rsp_StatusCode resp \<in> retry_statuses \<Longrightarrow>
    env_sleep env (calculateBackoff ovf config (\<lambda>m. env_intn env m s1) i) s1 = (s2, None) \<Longrightarrow>
    retried ovf env config req (Suc i) (RecordFailure (env_clock env s1) cb, s2) k st \<Longrightarrow>
    retried ovf env config req i (cb, s) (Suc k) st"

text \<open>The attempt that decides the result.\<close>

definition last_attempt ::
  "(f64 \<Rightarrow> int) \<Rightarrow> 's http_env \<Rightarrow> HttpConfig \<Rightarrow> Request \<Rightarrow> nat \<Rightarrow> HttpCircuitBreaker \<times> 's \<Rightarrow>
   HttpCircuitBreaker \<times> 's \<Rightarrow> Response go \<Rightarrow> bool" where
  "last_attempt ovf env config req i st st' r \<longleftrightarrow>
     (case st of (cb, s) \<Rightarrow> case env_send env req s of
        (s1, Inl err) \<Rightarrow> r = Err err \<and> st' = (RecordFailure (env_clock env s1) cb, s1)
      | (s1, Inr resp) \<Rightarrow>
          if isSuccessResponse resp then r = Ret resp \<and> st' = (RecordSuccess cb, s1)
          else if rsp_StatusCode resp \<in> retry_statuses \<and> int i < hc_MaxAttempts config - 1
          then (\<exists>s2 e. env_sleep env (calculateBackoff ovf config (\<lambda>m. env_intn env m s1) i) s1 = (s2, Some e) \<and>
            r = Err e \<and> st' = (RecordFailure (env_clock env s1) cb, s2))
          else r = Err (http_status_error resp) \<and>
            st' = (if rsp_StatusCode resp \<noteq> 401 then RecordFailure (env_clock env s1) cb else cb, s1))"

lemma retried_failures:
  "retried ovf env config req i st k st' \<Longrightarrow> hb_failures (fst st') = hb_failures (fst st) + int k"
  by (induction rule: retried.induct) (simp_all add: RecordFailure_def Let_def)

lemma success_not_retried: "isSuccessResponse resp \<Longrightarrow> rsp_StatusCode resp \<notin> retry_statuses"
  by (auto simp: isSuccessResponse_def retry_statuses_def)

lemma shouldRetryResponse_iff:
  "shouldRetryResponse config resp i \<longleftrightarrow> i < hc_MaxAttempts config - 1 \<and> rsp_StatusCode resp \<in> retry_statuses"
  by (auto simp: shouldRetryResponse_def retry_statuses_def)

lemma url_error_not_retried: "url_errors env \<Longrightarrow> env_send env req s = (s1, Inl err) \<Longrightarrow> \<not> shouldRetry config err i"
  unfolding url_errors_def shouldRetry_def by (drule spec [of _ req], drule spec [of _ s]) auto

lemma do_loop_run:
  assumes "url_errors env" "int i + int (Suc n) = hc_MaxAttempts config"
    and "do_loop ovf env config req (Suc n) i le (cb, s) = (st', r)"
  shows "\<exists>k st1. k \<le> n \<and> retried ovf env config req i (cb, s) k st1 \<and> last_attempt ovf env config req (i + k) st1 st' r"
  using assms(2,3)
proof (induction n arbitrary: i le cb s)
  case 0
  obtain s1 out where o: "env_send env req s = (s1, out)" by fastforce
  have "last_attempt ovf env config req (i + 0) (cb, s) st' r"
    using 0 o url_error_not_retried [OF assms(1)]
    by (auto simp: last_attempt_def shouldRetryResponse_iff Let_def split: sum.splits if_splits)
  then show ?case by (auto intro: retried_none)
next
  case (Suc n)
  obtain s1 out where o: "env_send env req s = (s1, out)" by fastforce
  have base: ?case if "last_attempt ovf env config req (i + 0) (cb, s) st' r"
    using that retried_none [of ovf env config req i "(cb, s)"] by (metis le0)
  show ?case
  proof (cases "\<exists>resp. out = Inr resp \<and> rsp_StatusCode resp \<in> retry_statuses")
    case False
    then have "last_attempt ovf env config req (i + 0) (cb, s) st' r"
      using Suc.prems o url_error_not_retried [OF assms(1)]
      by (auto simp: last_attempt_def shouldRetryResponse_iff Let_def split: sum.splits if_splits)
    then show ?thesis by (rule base)
  next
    case True
    then obtain resp where resp: "out = Inr resp" "rsp_StatusCode resp \<in> retry_statuses" by blast
    have lt: "int i < hc_MaxAttempts config - 1" using Suc.prems(1) by simp
    obtain s2 e where sl: "env_sleep env (calculateBackoff ovf config (\<lambda>m. env_intn env m s1) i) s1 = (s2, e)" by fastforce
    show ?thesis
    proof (cases e)
      case (Some err)
      then have "last_attempt ovf env config req (i + 0) (cb, s) st' r"
        using Suc.prems(2) o sl resp lt success_not_retried
        by (auto simp: last_attempt_def shouldRetryResponse_iff Let_def)
      then show ?thesis by (rule base)
    next
      case None
      have "do_loop ovf env config req (Suc (Suc n)) i le (cb, s) =
          do_loop ovf env config req (Suc n) (Suc i) (Some (http_status_error resp)) (RecordFailure (env_clock env s1) cb, s2)"
        using o sl resp lt None by (subst do_loop.simps(2)) (simp add: shouldRetryResponse_iff Let_def del: do_loop.simps(2))
      then have "do_loop ovf env config req (Suc n) (Suc i) (Some (http_status_error resp))
          (RecordFailure (env_clock env s1) cb, s2) = (st', r)" using Suc.prems(2) by metis
      from Suc.IH [OF _ this] Suc.prems(1) obtain k st1 where "k \<le> n"
        "retried ovf env config req (Suc i) (RecordFailure (env_clock env s1) cb, s2) k st1"
        "last_attempt ovf env config req (Suc i + k) st1 st' r" by auto
      then have "Suc k \<le> Suc n" "retried ovf env config req i (cb, s) (Suc k) st1"
          "last_attempt ovf env config req (i + Suc k) st1 st' r"
        using retried_one [OF o [unfolded resp(1)] resp(2) sl [unfolded None]] by auto
      then show ?thesis by blast
    qed
  qed
qed

section \<open>Lemmas of the limiter\<close>

text \<open>The steps of a limiter shared by any number of callers: the two critical sections, in any order.\<close>

inductive limiter_step :: "(f64 \<Rightarrow> int) \<Rightarrow> RateLimiter \<Rightarrow> RateLimiter \<Rightarrow> bool" for ovf where
  begin_step: "rl_lastTime r \<le> now \<Longrightarrow> wait_begin ovf now r = (r', w) \<Longrightarrow> limiter_step ovf r r'"
| end_step: "limiter_step ovf r (wait_end r)"

inductive_cases limiter_stepE: "limiter_step ovf r r'"

definition limiter_inv :: "RateLimiter \<Rightarrow> bool" where
  "limiter_inv r \<longleftrightarrow> (\<exists>t c q. rl_tokens r = Fin t \<and> rl_capacity r = Fin c \<and> rl_rate r = Fin q \<and> fl t = Fin t \<and> fl c = Fin c \<and> 0 \<le> t \<and> t \<le> c \<and> 0 \<le> q)"

lemma fl_nonneg: "0 \<le> x \<Longrightarrow> (\<exists>y. fl x = Fin y \<and> 0 \<le> y) \<or> fl x = PInf"
  using fl_mono [of 0 x] by (cases "fl x") (auto simp: f_le_def f_eq_def)

lemma Seconds_nonneg: "0 \<le> d \<Longrightarrow> d < 2 ^ 63 \<Longrightarrow> \<exists>y. Seconds d = Fin y \<and> 0 \<le> y"
proof -
  assume d: "0 \<le> d" "d < 2 ^ 63"
  have q: "0 \<le> d sdiv second" "d sdiv second < 2 ^ 53" and m: "0 \<le> d smod second" "d smod second < 1000000000"
    using d by (auto simp: sdiv_nonneg smod_nonneg second_def pos_imp_zdiv_nonneg_iff)
  have "f_of_int (d sdiv second) = Fin (of_int (d sdiv second))" "f_of_int (d smod second) = Fin (of_int (d smod second))"
    using q m by (intro f_of_int_small; simp)+
  moreover obtain y where "fl (of_int (d smod second) / 1000000000) = Fin y" "0 \<le> y" "y \<le> 1"
  proof (rule fl_between [of 0 1 "of_int (d smod second) / 1000000000"])
    show "fl 1 = Fin 1" using fl_of_int [of 1] by simp
    have "rat_of_int (d smod second) \<le> of_int 1000000000" using m unfolding of_int_le_iff by simp
    then show "rat_of_int (d smod second) / 1000000000 \<le> 1" by simp
  qed (use m in simp_all)
  moreover have "fl (of_int (d sdiv second) + y) = Fin (round_rat (of_int (d sdiv second) + y))"
  proof (rule fl_small)
    have "rat_of_int (d sdiv second) \<le> of_int (2 ^ 53)" using q unfolding of_int_le_iff by simp
    then have "of_int (d sdiv second) + y \<le> 2 ^ 54" using \<open>y \<le> 1\<close> by simp
    also have "(2::rat) ^ 54 \<le> 2 ^ 1023" by (intro power_increasing) simp_all
    finally show "\<bar>of_int (d sdiv second) + y\<bar> \<le> 2 ^ 1023" using q \<open>0 \<le> y\<close> by simp
  qed
  ultimately show ?thesis using q by (simp add: Seconds_def round_rat_nonneg)
qed

text \<open>The tokens after the credit for the elapsed time.\<close>

lemma credited_tokens:
  assumes "limiter_inv r" "0 \<le> d" "d < 2 ^ 63"
  obtains y c where "rl_capacity r = Fin c" "fl y = Fin y" "0 \<le> y" "y \<le> c"
    "(let t1 = f_add (rl_tokens r) (f_mul (rl_rate r) (Seconds d)) in if f_lt (rl_capacity r) t1 then rl_capacity r else t1) = Fin y"
proof -
  obtain t c q where r: "rl_tokens r = Fin t" "rl_capacity r = Fin c" "rl_rate r = Fin q" "0 \<le> t" "t \<le> c" "0 \<le> q"
    and c: "fl c = Fin c" using assms(1) by (auto simp: limiter_inv_def)
  obtain e where e: "Seconds d = Fin e" "0 \<le> e" using Seconds_nonneg assms(2,3) by blast
  define t1 where "t1 = f_add (Fin t) (f_mul (Fin q) (Fin e))"
  have "(\<exists>y. fl (q * e) = Fin y \<and> 0 \<le> y) \<or> fl (q * e) = PInf" using r(6) e(2) by (intro fl_nonneg) simp
  then have t1: "(\<exists>y. t1 = Fin y \<and> 0 \<le> y \<and> fl y = Fin y) \<or> t1 = PInf"
    using r(4) fl_nonneg [of "t + y" for y] fl_idem by (auto simp: t1_def) (metis add_nonneg_nonneg)
  show thesis
  proof (cases "f_lt (Fin c) t1")
    case True
    then show ?thesis using that [of c c] r c e by (simp add: t1_def Let_def)
  next
    case False
    then obtain y where "t1 = Fin y" "0 \<le> y" "fl y = Fin y" "y \<le> c" using t1 by (auto simp: not_less)
    then show ?thesis using that [of c y] r c e False by (simp add: t1_def Let_def)
  qed
qed

lemma time_Sub_nonneg: "t \<le> now \<Longrightarrow> 0 \<le> time_Sub now t \<and> time_Sub now t < 2 ^ 63"
  by (simp add: time_Sub_def min_less_iff_disj)

lemma wait_begin_cases:
  assumes "limiter_inv r" "rl_lastTime r \<le> now" "wait_begin ovf now r = (r', w)"
  obtains y c where "rl_capacity r = Fin c" "fl y = Fin y" "0 \<le> y" "y \<le> c"
    "w = Granted \<and> 1 \<le> y \<and> r' = r\<lparr>rl_tokens := fl (y - 1), rl_lastTime := now\<rparr> \<or>
     y < 1 \<and> r' = r\<lparr>rl_tokens := Fin y, rl_lastTime := now\<rparr> \<and>
     w = Sleep (f_to_int64 ovf (f_mul (f_div (f_sub (Fin 1) (Fin y)) (rl_rate r)) (f_of_int second)))"
proof -
  obtain y c where y: "rl_capacity r = Fin c" "fl y = Fin y" "0 \<le> y" "y \<le> c"
    "(let t1 = f_add (rl_tokens r) (f_mul (rl_rate r) (Seconds (time_Sub now (rl_lastTime r))))
      in if f_lt (rl_capacity r) t1 then rl_capacity r else t1) = Fin y"
    using credited_tokens [OF assms(1)] time_Sub_nonneg [OF assms(2)] by metis
  show thesis
    by (rule that [OF y(1-4)]) (use assms(3) y(5) in \<open>auto simp: wait_begin_def Let_def f_sub_def not_le split: if_splits\<close>)
qed

lemma wait_begin_inv:
  assumes "limiter_inv r" "rl_lastTime r \<le> now" "wait_begin ovf now r = (r', w)"
  shows "limiter_inv r' \<and> rl_lastTime r' = now"
proof -
  obtain y c where y: "rl_capacity r = Fin c" "fl y = Fin y" "0 \<le> y" "y \<le> c"
    "w = Granted \<and> 1 \<le> y \<and> r' = r\<lparr>rl_tokens := fl (y - 1), rl_lastTime := now\<rparr> \<or>
     y < 1 \<and> r' = r\<lparr>rl_tokens := Fin y, rl_lastTime := now\<rparr> \<and>
     w = Sleep (f_to_int64 ovf (f_mul (f_div (f_sub (Fin 1) (Fin y)) (rl_rate r)) (f_of_int second)))"
    using wait_begin_cases [OF assms] by metis
  have c: "fl c = Fin c" "\<exists>q. rl_rate r = Fin q \<and> 0 \<le> q" using assms(1) y(1) by (auto simp: limiter_inv_def)
  show ?thesis
  proof (cases "1 \<le> y")
    case True
    obtain z where z: "fl (y - 1) = Fin z" "0 \<le> z" "z \<le> c"
      by (rule fl_between [OF fl_0 c(1), of "y - 1"]) (use True y in simp_all)
    then show ?thesis using y True c fl_idem [OF z(1)] by (auto simp: limiter_inv_def)
  next
    case False
    then show ?thesis using y c by (auto simp: limiter_inv_def)
  qed
qed

text \<open>A caller that has to sleep reserves nothing: the next caller at the same time is told the same.\<close>

lemma wait_begin_again:
  assumes "limiter_inv r" "rl_lastTime r \<le> now" "wait_begin ovf now r = (r', Sleep d)"
  shows "wait_begin ovf now r' = (r', Sleep d)"
proof -
  obtain y c where y: "rl_capacity r = Fin c" "fl y = Fin y" "0 \<le> y" "y \<le> c"
    "y < 1" "r' = r\<lparr>rl_tokens := Fin y, rl_lastTime := now\<rparr>"
    "d = f_to_int64 ovf (f_mul (f_div (f_sub (Fin 1) (Fin y)) (rl_rate r)) (f_of_int second))"
    by (rule wait_begin_cases [OF assms]) simp
  obtain q where q: "rl_rate r = Fin q" using assms(1) by (auto simp: limiter_inv_def)
  have "Seconds (time_Sub now now) = Fin 0" by (simp add: time_Sub_def Seconds_def f_of_int_def)
  then show ?thesis using y q by (simp add: wait_begin_def Let_def)
qed

lemma limiter_step_inv: "limiter_step ovf r r' \<Longrightarrow> limiter_inv r \<Longrightarrow> limiter_inv r'"
proof (elim limiter_stepE)
  assume i: "limiter_inv r" "r' = wait_end r"
  then obtain t c q where "rl_tokens r = Fin t" "rl_capacity r = Fin c" "rl_rate r = Fin q" "fl c = Fin c" "0 \<le> t" "t \<le> c" "0 \<le> q"
    by (auto simp: limiter_inv_def)
  then show ?thesis using i(2) by (simp add: limiter_inv_def wait_end_def)
qed (use wait_begin_inv in blast)

lemma limiter_reach_inv: "(limiter_step ovf)\<^sup>*\<^sup>* r r' \<Longrightarrow> limiter_inv r \<Longrightarrow> limiter_inv r'"
  by (induction rule: rtranclp_induct) (auto intro: limiter_step_inv)

lemma New_limiter_inv:
  assumes "0 \<le> qps" "qps < 2 ^ 53" "0 \<le> burst" "burst < 2 ^ 53"
  shows "limiter_inv (NewRateLimiter now qps burst)"
  using assms f_of_int_small [of burst] f_of_int_small [of qps]
  by (simp add: limiter_inv_def NewRateLimiter_def f_of_int_def)

text \<open>
  An environment in which nothing else happens: the state is the time, and a sleep lets it pass.
\<close>

definition quiet_env :: "instant http_env" where
  "quiet_env = \<lparr>env_send = (\<lambda>req t. (t, Inl (UrlError ContextCanceled))),
     env_sleep = (\<lambda>d t. (t + max 0 d, None)), env_clock = (\<lambda>t. t), env_intn = (\<lambda>n t. 0)\<rparr>"

definition serial_waits :: "(f64 \<Rightarrow> int) \<Rightarrow> nat \<Rightarrow> RateLimiter \<times> instant \<Rightarrow> RateLimiter \<times> instant" where
  "serial_waits ovf n = (\<lambda>st. fst (limiter_Wait ovf quiet_env (fst st) (snd st))) ^^ n"

text \<open>The limiter of the default rate, one request per second, with \<open>k\<close> tokens left.\<close>

definition unit_limiter :: "int \<Rightarrow> instant \<Rightarrow> RateLimiter" where
  "unit_limiter k t = \<lparr>rl_tokens = Fin (of_int k), rl_capacity = Fin 3, rl_rate = Fin 1, rl_lastTime = t\<rparr>"

lemma fl_ints [simp]: "fl 1 = Fin 1" "fl 2 = Fin 2" "fl 3 = Fin 3" "fl 1000000000 = Fin 1000000000"
  using fl_of_int [of 1] fl_of_int [of 2] fl_of_int [of 3] fl_of_int [of 1000000000] by simp_all

lemma Seconds_unit: "Seconds 0 = Fin 0" "Seconds second = Fin 1"
  by (simp_all add: Seconds_def second_def f_of_int_def)

lemma wait_token:
  assumes "k \<in> {1, 2, 3}"
  shows "fst (limiter_Wait ovf quiet_env (unit_limiter k t) t) = (unit_limiter (k - 1) t, t)"
  using assms by (auto simp: limiter_Wait_def wait_begin_def quiet_env_def unit_limiter_def Seconds_unit f_sub_def
      Let_def time_Sub_def)

lemma wait_empty: "fst (limiter_Wait ovf quiet_env (unit_limiter 0 t) t) = (unit_limiter 0 t, t + second)"
  by (simp add: limiter_Wait_def wait_begin_def quiet_env_def unit_limiter_def Seconds_unit f_sub_def
      Let_def time_Sub_def wait_end_def second_def f_of_int_def f_to_int64_def trunc_rat_def)

lemma wait_after_sleep: "fst (limiter_Wait ovf quiet_env (unit_limiter 0 t) (t + second)) = (unit_limiter 0 (t + second), t + second)"
proof -
  have "time_Sub (t + second) t = second" by (simp add: time_Sub_def second_def)
  then show ?thesis
    by (simp add: limiter_Wait_def wait_begin_def quiet_env_def unit_limiter_def Seconds_unit f_sub_def Let_def)
qed

lemma serial_default:
  "serial_waits ovf (3 + 2 * k) (NewRateLimiter t 1 3, t) = (unit_limiter 0 (t + int k * second), t + int k * second)"
proof (induction k)
  case 0
  have "NewRateLimiter t 1 3 = unit_limiter 3 t" by (simp add: NewRateLimiter_def unit_limiter_def f_of_int_def)
  then show ?case using wait_token [of 3 ovf t] wait_token [of 2 ovf t] wait_token [of 1 ovf t]
    by (simp add: serial_waits_def numeral_3_eq_3)
next
  case (Suc k)
  have n: "3 + 2 * Suc k = Suc (Suc (3 + 2 * k))" by simp
  have s: "serial_waits ovf (Suc m) st = fst (limiter_Wait ovf quiet_env (fst (serial_waits ovf m st)) (snd (serial_waits ovf m st)))" for m st
    by (simp add: serial_waits_def)
  have t: "t + int (Suc k) * second = (t + int k * second) + second" by (simp add: algebra_simps)
  show ?case unfolding n s Suc.IH fst_conv snd_conv wait_empty wait_after_sleep t ..
qed

lemma limiter_Wait_no_error:
  assumes "\<And>d s. snd (env_sleep env d s) = None"
  shows "\<exists>r1 s1. limiter_Wait ovf env r s = ((r1, s1), Ret ())"
  using assms by (auto simp: limiter_Wait_def split: prod.splits wait_result.splits option.splits) (metis option.distinct(1) snd_conv)

section \<open>Properties\<close>

text \<open>
  C8: When the breaker and the limiter let a request through and the transport only fails with
  url.Error, as it documents, Do makes k+1 attempts with k below MaxAttempts: the first k were
  answered 429 or a retryable 5xx, slept their backoff and counted one breaker failure each;
  the last decides the result: a 2xx response is returned, any other status is an error
  counted unless it is 401, and a network error is returned at once.
\<close>

theorem Do_attempts:
  assumes "url_errors env" "0 < hc_MaxAttempts (cl_config c)"
    and "Allow (env_clock env s) (cl_circuitBreaker c) = (True, cb1)"
    and "limiter_Wait ovf env (cl_rateLimiter c) s = ((r1, s1), Ret ())"
    and "Do ovf env req c_s = ((c', s'), r)" "c_s = (c, s)"
  shows "\<exists>k cb2 s2. int k < hc_MaxAttempts (cl_config c) \<and>
    (let req1 = req\<lparr>rq_Header := (rq_Header req)(''User-Agent'' \<mapsto> hc_UserAgent (cl_config c))\<rparr> in
      retried ovf env (cl_config c) req1 0 (cb1, s1) k (cb2, s2) \<and>
      last_attempt ovf env (cl_config c) req1 k (cb2, s2) (cl_circuitBreaker c', s') r) \<and>
    hb_failures cb2 = hb_failures cb1 + int k \<and>
    (\<forall>resp. r = Ret resp \<longrightarrow> 200 \<le> rsp_StatusCode resp \<and> rsp_StatusCode resp < 300)"
proof -
  let ?req = "req\<lparr>rq_Header := (rq_Header req)(''User-Agent'' \<mapsto> hc_UserAgent (cl_config c))\<rparr>"
  obtain n where n: "nat (hc_MaxAttempts (cl_config c)) = Suc n" using assms(2) by (cases "nat (hc_MaxAttempts (cl_config c))") auto
  then have a: "int 0 + int (Suc n) = hc_MaxAttempts (cl_config c)" using assms(2) by simp
  obtain cb' where cb': "cb' = cl_circuitBreaker c'" by simp
  have d: "do_loop ovf env (cl_config c) ?req (Suc n) 0 None (cb1, s1) = ((cb', s'), r)"
  proof -
    obtain cb3 s3 r3 where l: "do_loop ovf env (cl_config c) ?req (Suc n) 0 None (cb1, s1) = ((cb3, s3), r3)"
      by (metis surj_pair)
    have "Do ovf env req c_s = ((c\<lparr>cl_circuitBreaker := cb3, cl_rateLimiter := r1\<rparr>, s3), r3)"
      unfolding Do_def assms(6) by (simp add: assms(3,4) n l Let_def del: do_loop.simps)
    then show ?thesis using assms(5) l cb' by (auto simp del: do_loop.simps)
  qed
  obtain k st1 where k: "k \<le> n" "retried ovf env (cl_config c) ?req 0 (cb1, s1) k st1"
      "last_attempt ovf env (cl_config c) ?req (0 + k) st1 (cb', s') r"
    using do_loop_run [OF assms(1) a d] by blast
  obtain cb2 s2 where st1: "st1 = (cb2, s2)" by fastforce
  have "\<forall>resp. r = Ret resp \<longrightarrow> 200 \<le> rsp_StatusCode resp \<and> rsp_StatusCode resp < 300"
    using k(3) by (auto simp: last_attempt_def isSuccessResponse_def split: prod.splits sum.splits if_splits)
  moreover have "int k < hc_MaxAttempts (cl_config c)" using k(1) a by linarith
  ultimately show ?thesis using k st1 cb' retried_failures [OF k(2)] by (intro exI [of _ k] exI [of _ cb2] exI [of _ s2]) simp
qed

text \<open>A service that is overloaded once: the state counts the requests.\<close>

definition busy_env :: "nat http_env" where
  "busy_env = \<lparr>env_send = (\<lambda>req n. (Suc n, Inr \<lparr>rsp_StatusCode = if n = 0 then 503 else 200, rsp_Body = (''ok'', None)\<rparr>)),
     env_sleep = (\<lambda>d n. (n, None)), env_clock = (\<lambda>n. 0), env_intn = (\<lambda>m n. 0)\<rparr>"

theorem Do_attempts_witness:
  "\<exists>c' s' r k cb2 s2. Do (\<lambda>_. 0) busy_env \<lparr>rq_URL = ''u'', rq_Path = ''p'', rq_Header = Map.empty\<rparr>
      (NewClient (\<lambda>_. 0) 0 None, 0) = ((c', s'), r) \<and> int k < 3 \<and>
    hb_failures cb2 = int k \<and> last_attempt (\<lambda>_. 0) busy_env DefaultConfig
      \<lparr>rq_URL = ''u'', rq_Path = ''p'', rq_Header = [''User-Agent'' \<mapsto> hc_UserAgent DefaultConfig]\<rparr> k (cb2, s2)
      (cl_circuitBreaker c', s') r"
proof -
  let ?c = "NewClient (\<lambda>_. 0) 0 None"
  obtain c' s' r where d: "Do (\<lambda>_. 0) busy_env \<lparr>rq_URL = ''u'', rq_Path = ''p'', rq_Header = Map.empty\<rparr> (?c, 0) = ((c', s'), r)"
    by (metis surj_pair)
  have c: "cl_config ?c = DefaultConfig" "cl_rateLimiter ?c = unit_limiter 3 0"
      "cl_circuitBreaker ?c = NewHttpCircuitBreaker (dur_mul 60 second) 3 (dur_mul 30 second)"
    by (simp_all add: NewClient_def DefaultConfig_def unit_limiter_def NewRateLimiter_def f_of_int_def f_to_int64_def trunc_rat_def)
  have u: "url_errors busy_env" by (simp add: url_errors_def busy_env_def)
  have m: "0 < hc_MaxAttempts (cl_config ?c)" "hc_MaxAttempts DefaultConfig = 3" by (simp_all add: c DefaultConfig_def)
  have a: "Allow (env_clock busy_env 0) (cl_circuitBreaker ?c) = (True, cl_circuitBreaker ?c)"
    by (simp add: c Allow_def NewHttpCircuitBreaker_def)
  have w: "limiter_Wait (\<lambda>_. 0) busy_env (cl_rateLimiter ?c) 0 = ((unit_limiter 2 0, 0), Ret ())"
    unfolding c by (simp add: limiter_Wait_def wait_begin_def busy_env_def unit_limiter_def Seconds_unit f_sub_def Let_def time_Sub_def)
  have f: "hb_failures (cl_circuitBreaker ?c) = 0" by (simp add: c NewHttpCircuitBreaker_def)
  from Do_attempts [OF u m(1) a w d refl] d show ?thesis unfolding c(1) f m(2) Let_def by fastforce
qed

text \<open>
  The backoff of attempt i is min(base * 2^i + jitter, max) milliseconds with a jitter
  below the configured one, without wrap-around for delays up to 2^40 milliseconds.
\<close>

theorem calculateBackoff_bounds:
  assumes "0 \<le> hc_BackoffBaseMs c" "hc_BackoffBaseMs c * 2 ^ i \<le> 2 ^ 40" "i \<le> 40"
    and "hc_BackoffJitterMs c \<le> 2 ^ 40" "0 \<le> hc_MaxDelayMs c" "hc_MaxDelayMs c \<le> 2 ^ 40"
    and "0 < hc_BackoffJitterMs c \<Longrightarrow> 0 \<le> rnd (hc_BackoffJitterMs c) \<and> rnd (hc_BackoffJitterMs c) < hc_BackoffJitterMs c"
  shows "\<exists>j. 0 \<le> j \<and> j \<le> max 0 (hc_BackoffJitterMs c - 1) \<and>
    calculateBackoff ovf c rnd i = min (hc_BackoffBaseMs c * 2 ^ i + j) (hc_MaxDelayMs c) * 1000000"
proof -
  define j where "j = (if 0 < hc_BackoffJitterMs c then rnd (hc_BackoffJitterMs c) else 0)"
  have j: "0 \<le> j" "j \<le> max 0 (hc_BackoffJitterMs c - 1)" "j \<le> 2 ^ 40" using assms(4,7) by (auto simp: j_def)
  have p: "f_to_int64 ovf (math_Pow 2 (int i)) = 2 ^ i"
  proof -
    have b: "(2::int) ^ i \<le> 2 ^ 40" using assms(3) by (intro power_increasing) simp_all
    then have "fl (of_int (2 ^ i)) = Fin (of_int (2 ^ i))" by (intro fl_of_int) simp
    then have "math_Pow 2 (int i) = Fin (of_int (2 ^ i))" by (simp add: math_Pow_def)
    moreover have "is_int64 (2 ^ i)" using b by (intro is_int64_abs) simp
    ultimately show ?thesis by (simp only: f_to_int64_fits)
  qed
  have "hc_BackoffBaseMs c * 1 \<le> hc_BackoffBaseMs c * 2 ^ i" using assms(1) by (intro mult_left_mono) simp_all
  then have base: "dur_mul (hc_BackoffBaseMs c) millisecond = hc_BackoffBaseMs c * 1000000"
    using assms(1,2) by (simp add: dur_mul_def millisecond_def is_int64_def)
  define e where "e = hc_BackoffBaseMs c * 2 ^ i"
  have e: "0 \<le> e" "e \<le> 2 ^ 40" using assms(1,2) by (simp_all add: e_def)
  have ex: "dur_mul (hc_BackoffBaseMs c * 1000000) (2 ^ i) = e * 1000000"
    using e by (simp add: dur_mul_def is_int64_def e_def algebra_simps)
  have jt: "(if 0 < hc_BackoffJitterMs c then dur_mul (rnd (hc_BackoffJitterMs c)) millisecond else 0) = j * 1000000"
    using j by (auto simp: j_def dur_mul_def millisecond_def is_int64_def)
  have "calculateBackoff ovf c rnd i = min (e + j) (hc_MaxDelayMs c) * 1000000"
    using e j assms(5,6) unfolding calculateBackoff_def p base ex jt Let_def
    by (simp add: dur_mul_def millisecond_def is_int64_def min_def)
  then show ?thesis using j unfolding e_def by blast
qed

theorem calculateBackoff_bounds_witness:
  "\<exists>j. 0 \<le> j \<and> j \<le> 99 \<and> calculateBackoff (\<lambda>_. 0) DefaultConfig (\<lambda>n. n div 2) 2 = min (800 + j) 10000 * 1000000"
  using calculateBackoff_bounds [of DefaultConfig 2 "\<lambda>n. n div 2" "\<lambda>_. 0"] by (simp add: DefaultConfig_def)

text \<open>
  C18: A closed breaker counts every failure there ever was, whatever successes lie between
  and however old it is: it opens exactly when the total reaches the threshold.
\<close>

theorem http_breaker_counts:
  assumes "0 < threshold"
  shows "let cb = note_all evs (NewHttpCircuitBreaker window threshold reset);
      n = int (length (filter (\<lambda>ev. ev \<noteq> None) evs))
    in breaker_Failures cb = n \<and> (breaker_State cb = StateOpen \<longleftrightarrow> threshold \<le> n) \<and>
       (breaker_State cb = StateClosed \<longleftrightarrow> n < threshold)"
proof -
  let ?cb0 = "NewHttpCircuitBreaker window threshold reset"
  have "hb_inv ?cb0" "hb_state ?cb0 \<noteq> StateHalfOpen" using assms by (simp_all add: hb_inv_def NewHttpCircuitBreaker_def)
  from note_all_counts [OF this, of evs] show ?thesis
    by (cases "hb_state (note_all evs ?cb0)")
       (auto simp: breaker_Failures_def breaker_State_def hb_inv_def NewHttpCircuitBreaker_def Let_def)
qed

theorem http_breaker_counts_witness:
  "breaker_State (note_all [Some 1, None, Some 100, None, None, Some 1000] (NewHttpCircuitBreaker 60 3 30)) = StateOpen"
  using http_breaker_counts [of 3 "[Some 1, None, Some 100, None, None, Some 1000]" 60 30] by (simp add: Let_def)

text \<open>
  A caller that waits on the limiter of the default configuration again and again is let
  through three times at once and then twice per second, twice the configured rate: the time
  slept for a token is credited again to the next call.
\<close>

theorem default_limiter_doubles_rate:
  "let now = env_clock quiet_env t in
   serial_waits ovf (3 + 2 * k) (NewRateLimiter now (f_to_int64 ovf (hc_QPS DefaultConfig)) (hc_Burst DefaultConfig), t) =
     (unit_limiter 0 (t + int k * second), t + int k * second)"
  using serial_default [of ovf k t] by (simp add: DefaultConfig_def quiet_env_def f_to_int64_def trunc_rat_def)

text \<open>
  C17: Whatever the interleaving of the critical sections of any number of callers, the tokens
  of a limiter stay between zero and its capacity, float rounding included; and a caller that
  must sleep reserves nothing, so the next caller at that time gets the same sleep.
\<close>

theorem limiter_tokens:
  assumes "0 \<le> qps" "qps < 2 ^ 53" "0 \<le> burst" "burst < 2 ^ 53"
    and "(limiter_step ovf)\<^sup>*\<^sup>* (NewRateLimiter t0 qps burst) r" "rl_lastTime r \<le> now"
  shows "(\<exists>t c. rl_tokens r = Fin t \<and> rl_capacity r = Fin c \<and> 0 \<le> t \<and> t \<le> c) \<and>
    (\<forall>r' d. wait_begin ovf now r = (r', Sleep d) \<longrightarrow> wait_begin ovf now r' = (r', Sleep d))"
proof -
  have i: "limiter_inv r" using limiter_reach_inv [OF assms(5)] New_limiter_inv [OF assms(1-4)] by blast
  then have "\<exists>t c. rl_tokens r = Fin t \<and> rl_capacity r = Fin c \<and> 0 \<le> t \<and> t \<le> c" by (auto simp: limiter_inv_def)
  then show ?thesis using wait_begin_again [OF i assms(6)] by blast
qed

theorem limiter_tokens_witness:
  "\<exists>t. rl_tokens (wait_end (NewRateLimiter 0 1 3)) = Fin t \<and> 0 \<le> t"
proof -
  have "(limiter_step (\<lambda>_. 0))\<^sup>*\<^sup>* (NewRateLimiter 0 1 3) (wait_end (NewRateLimiter 0 1 3))"
    by (rule r_into_rtranclp) (rule limiter_step.end_step)
  moreover have "rl_lastTime (wait_end (NewRateLimiter 0 1 3)) \<le> 0" by (simp add: wait_end_def NewRateLimiter_def)
  ultimately show ?thesis using limiter_tokens [of 1 3 "\<lambda>_. 0" 0 "wait_end (NewRateLimiter 0 1 3)" 0] by auto
qed

text \<open>
  C19: An open circuit breaker does not stay open: once the reset timeout has passed since the
  last failure and the service answers, the next call is let through and returns the answer,
  and the breaker is closed with no failure counted.
\<close>

theorem Do_recovers:
  assumes "hb_state (cl_circuitBreaker c) = StateOpen" "0 < hc_MaxAttempts (cl_config c)"
    "hb_resetTimeout (cl_circuitBreaker c) \<le> time_Sub (env_clock env s) (hb_lastFailure (cl_circuitBreaker c))"
    "\<And>r t. \<exists>t' resp. env_send env r t = (t', Inr resp) \<and> isSuccessResponse resp" "\<And>d t. snd (env_sleep env d t) = None"
  shows "\<exists>c' s' resp. Do ovf env req (c, s) = ((c', s'), Ret resp) \<and> isSuccessResponse resp \<and>
    hb_state (cl_circuitBreaker c') = StateClosed \<and> hb_failures (cl_circuitBreaker c') = 0"
proof -
  let ?req = "req\<lparr>rq_Header := (rq_Header req)(''User-Agent'' \<mapsto> hc_UserAgent (cl_config c))\<rparr>"
  obtain cb where cb: "Allow (env_clock env s) (cl_circuitBreaker c) = (True, cb)" "hb_state cb = StateHalfOpen"
    using assms(1,3) by (simp add: Allow_def)
  obtain r1 s1 where w: "limiter_Wait ovf env (cl_rateLimiter c) s = ((r1, s1), Ret ())"
    using limiter_Wait_no_error [OF assms(5)] by blast
  obtain n where n: "nat (hc_MaxAttempts (cl_config c)) = Suc n" using assms(2) by (metis not0_implies_Suc zero_less_nat_eq not_less0)
  obtain s2 resp where s: "env_send env ?req s1 = (s2, Inr resp)" "isSuccessResponse resp" using assms(4) by blast
  have "rsp_StatusCode resp \<notin> {429, 500, 502, 503, 504}" using s(2) by (auto simp: isSuccessResponse_def)
  then have "\<not> shouldRetryResponse (cl_config c) resp i" for i by (simp add: shouldRetryResponse_def)
  then have "do_loop ovf env (cl_config c) ?req (nat (hc_MaxAttempts (cl_config c))) 0 None (cb, s1) = ((RecordSuccess cb, s2), Ret resp)"
    unfolding n using s by simp
  then show ?thesis using s(2) cb(2) by (auto simp: Do_def Let_def cb(1) w RecordSuccess_def)
qed

lemma Do_recovers_witness:
  "\<exists>c' s' resp. Do (\<lambda>_. 0) \<lparr>env_send = \<lambda>r s. (s, Inr \<lparr>rsp_StatusCode = 204, rsp_Body = ([], None)\<rparr>), env_sleep = \<lambda>d s. (s, None),
      env_clock = id, env_intn = \<lambda>_ _. 0\<rparr> \<lparr>rq_URL = [], rq_Path = [], rq_Header = Map.empty\<rparr>
      ((NewClient (\<lambda>_. 0) 0 None)\<lparr>cl_circuitBreaker := RecordFailure 0 (RecordFailure 0 (RecordFailure 0 (NewHttpCircuitBreaker 0 3 (30 * second))))\<rparr>,
       60 * second) = ((c', s'), Ret resp) \<and> hb_failures (cl_circuitBreaker c') = 0"
proof -
  let ?env = "\<lparr>env_send = \<lambda>r s. (s, Inr \<lparr>rsp_StatusCode = 204, rsp_Body = ([], None)\<rparr>), env_sleep = \<lambda>d s. (s, None),
      env_clock = id, env_intn = \<lambda>_ _. 0\<rparr> :: instant http_env"
  let ?cb = "RecordFailure 0 (RecordFailure 0 (RecordFailure 0 (NewHttpCircuitBreaker 0 3 (30 * second))))"
  have cb: "hb_state ?cb = StateOpen" "hb_resetTimeout ?cb = 30 * second" "hb_lastFailure ?cb = 0"
    by (simp_all add: RecordFailure_def NewHttpCircuitBreaker_def)
  have t: "30 * second \<le> time_Sub (60 * second) 0" by (simp add: time_Sub_def second_def)
  show ?thesis
    using Do_recovers [of "(NewClient (\<lambda>_. 0) 0 None)\<lparr>cl_circuitBreaker := ?cb\<rparr>" ?env "60 * second" "\<lambda>_. 0"
        "\<lparr>rq_URL = [], rq_Path = [], rq_Header = Map.empty\<rparr>"] cb t
    by (auto simp: NewClient_def DefaultConfig_def isSuccessResponse_def)
qed

end
