(* ===== verification/GoStrings.thy ===== *)
theory GoStrings
  imports Prelude "HOL-Library.Char_ord" "HOL-Library.List_Lexorder"
begin

text \<open>
  Strings: \<^verbatim>\<open>strings.Index\<close>, \<^verbatim>\<open>strings.SplitN(s, sep, 2)\<close>, slices of a string with their bounds, and the escaping and
  encoding of queries, for every component that scans text or builds URLs.
\<close>

text \<open>A text given by the bytes of its UTF-8 encoding.\<close>

definition utf8 :: "nat list \<Rightarrow> string" where "utf8 = map char_of"

fun Index :: "string \<Rightarrow> string \<Rightarrow> nat option" where
  "Index [] p = (if p = [] then Some 0 else None)"
| "Index (c # cs) p = (if HasPrefix (c # cs) p then Some 0 else map_option Suc (Index cs p))"

definition go_slice_from :: "string \<Rightarrow> nat \<Rightarrow> string go" where
  "go_slice_from s i = (if i \<le> length s then Ret (drop i s) else Panic ''slice bounds out of range'')"

definition SplitN2 :: "string \<Rightarrow> string \<Rightarrow> string list" where
  "SplitN2 s sep = (case Index s sep of None \<Rightarrow> [s] | Some i \<Rightarrow> [take i s, drop (i + length sep) s])"

lemma Index_Some: "Index s p = Some i \<Longrightarrow> prefix p (drop i s) \<and> i + length p \<le> length s"
  by (induction s p arbitrary: i rule: Index.induct)
    (auto simp: HasPrefix_def split: if_splits dest: prefix_length_le)

lemma Index_None: "Index s p = None \<longleftrightarrow> \<not> sublist p s"
proof (induction s p rule: Index.induct)
  case (2 c cs p)
  then show ?case by (auto simp: HasPrefix_def sublist_Cons_right)
qed simp

lemma Index_hd: "c \<notin> set u \<Longrightarrow> Index (u @ (c # p) @ v) (c # p) = Some (length u)"
  by (induction u) (simp_all add: HasPrefix_def)

lemma Index_absent: "c \<notin> set s \<Longrightarrow> Index s (c # p) = None"
  by (induction s) (auto simp: HasPrefix_def)

lemma Index_split: "Index s p = Some i \<Longrightarrow> s = take i s @ p @ drop (i + length p) s"
  using Index_Some [of s p i] by (auto simp: prefix_def add.commute[of i] simp flip: drop_drop) (metis append_take_drop_id)

lemma Contains_char: "Contains s [c] \<longleftrightarrow> c \<in> set s"
  by (auto simp: Contains_def sublist_def in_set_conv_decomp)

lemma Index_char: "Index s [c] = (if c \<in> set s then Some (length (takeWhile (\<lambda>x. x \<noteq> c) s)) else None)"
  by (induction s) (auto simp: HasPrefix_def)

definition hex_digit :: "nat \<Rightarrow> char" where
  "hex_digit n = (if n < 10 then char_of (48 + n) else char_of (55 + n))"

section \<open>Query strings\<close>

text \<open>\<^verbatim>\<open>url.QueryEscape\<close> and \<^verbatim>\<open>url.Values.Encode\<close>, which orders the pairs by key.\<close>

definition QueryEscape :: "string \<Rightarrow> string" where
  "QueryEscape s = concat (map (\<lambda>c.
     if is_upper c \<or> is_lower c \<or> is_digit c \<or> c \<in> set ''-_.~'' then [c]
     else if c = CHR '' '' then ''+''
     else [CHR ''%'', hex_digit (code_of c div 16), hex_digit (code_of c mod 16)]) s)"

definition values_Encode :: "(string \<times> string) list \<Rightarrow> string" where
  "values_Encode kvs = Join (map (\<lambda>(k, v). QueryEscape k @ ''='' @ QueryEscape v) (sort_key fst kvs)) ''&''"

end
