(* ===== verification/Configuration.thy ===== *)
theory Configuration
  imports Httpx GoStrings "HOL-Library.AList"
begin

text \<open>
  The configuration: \<^verbatim>\<open>internal/config/ampy_config.go\<close> and the part of \<^verbatim>\<open>createClient\<close> in \<^verbatim>\<open>cmd/yfin/main.go\<close> that turns it
  into the configuration of the HTTP client. A decoded YAML file is a tree; reading the file, and decoding a tree into the
  record by its YAML tags, are the parameters \<open>read_config\<close> and \<open>to_config\<close>, and \<open>getenv\<close> is the environment. The interpolation
  of environment variables may loop for ever, so it is a partial function: \<open>None\<close> is a call that does not return.
\<close>

section \<open>The record\<close>

record AppConfig =
  ac_Env :: string
  ac_RunID :: string

record YahooConfig =
  yc_BaseURL :: string
  yc_TimeoutMs :: int
  yc_IdleTimeoutMs :: int
  yc_MaxConnsPerHost :: int
  yc_UserAgent :: string

record ConcurrencyConfig =
  nc_GlobalWorkers :: int
  nc_PerHostWorkers :: int

record cfg_RateLimit =
  rlc_PerHostQPS :: f64
  rlc_PerHostBurst :: int
  rlc_PerSessionQPS :: f64
  rlc_PerSessionBurst :: int

record SessionsConfig =
  sec_N :: int
  sec_EjectAfter :: int
  sec_RecreateCooldownMs :: int

record cfg_Retry =
  rtc_Attempts :: int
  rtc_BaseMs :: int
  rtc_MaxDelayMs :: int

record cfg_CircuitBreaker =
  cbc_Window :: int
  cbc_FailureThreshold :: f64
  cbc_ResetTimeoutMs :: int
  cbc_HalfOpenProbes :: int

record MarketsConfig =
  mkc_AllowedIntervals :: "string list"
  mkc_AllowedMics :: "string list"
  mkc_DefaultAdjustmentPolicy :: string

record YahooWebConfig =
  ywc_QPS :: f64
  ywc_Burst :: int
  ywc_TimeoutMs :: int
  ywc_BackoffAttempts :: int
  ywc_BackoffBaseMs :: int
  ywc_BackoffMaxDelayMs :: int
  ywc_CircuitResetMs :: int

record FXConfig =
  fxc_Provider :: string
  fxc_Target :: string
  fxc_CacheTTLMs :: int
  fxc_RateScale :: int
  fxc_Rounding :: string
  fxc_YahooWeb :: YahooWebConfig

record cfg_NATS =
  ntc_URL :: string
  ntc_SubjectStyle :: string
  ntc_AckWaitMs :: int

record cfg_Kafka =
  kfc_Brokers :: "string list"
  kfc_Acks :: string
  kfc_Compression :: string

record cfg_Publisher =
  pbc_Backend :: string
  pbc_NATS :: cfg_NATS
  pbc_Kafka :: cfg_Kafka

record cfg_Bus =
  bsc_Enabled :: bool
  bsc_Env :: string
  bsc_TopicPrefix :: string
  bsc_MaxPayloadBytes :: int64
  bsc_Publisher :: cfg_Publisher
  bsc_Retry :: cfg_Retry
  bsc_CircuitBreaker :: cfg_CircuitBreaker

record ScrapeRetryConfig =
  srt_Attempts :: int
  srt_BaseMs :: int
  srt_MaxDelayMs :: int

record ScrapeEndpointConfig =
  sep_KeyStatistics :: bool
  sep_Financials :: bool
  sep_Analysis :: bool
  sep_Profile :: bool
  sep_News :: bool

record ScrapeConfig =
  scc_Enabled :: bool
  scc_UserAgent :: string
  scc_TimeoutMs :: int
  scc_QPS :: f64
  scc_Burst :: int
  scc_Retry :: ScrapeRetryConfig
  scc_RobotsPolicy :: string
  scc_CacheTTLMs :: int
  scc_Endpoints :: ScrapeEndpointConfig

record LogsConfig =
  lgc_Level :: string

record PrometheusConfig =
  prc_Enabled :: bool
  prc_Addr :: string

record MetricsConfig =
  mtc_Prometheus :: PrometheusConfig

record OTLPConfig =
  otc_Enabled :: bool
  otc_Endpoint :: string
  otc_SampleRatio :: f64

record TracingConfig =
  trc_OTLP :: OTLPConfig

record ObservabilityConfig =
  obc_Logs :: LogsConfig
  obc_Metrics :: MetricsConfig
  obc_Tracing :: TracingConfig

record SecretConfig =
  skc_Name :: string
  skc_Ref :: string
  skc_Required :: bool

record AmpyConfig =
  cfg_App :: AppConfig
  cfg_Yahoo :: YahooConfig
  cfg_Concurrency :: ConcurrencyConfig
  cfg_RateLimit :: cfg_RateLimit
  cfg_Sessions :: SessionsConfig
  cfg_Retry :: cfg_Retry
  cfg_CircuitBreaker :: cfg_CircuitBreaker
  cfg_Markets :: MarketsConfig
  cfg_FX :: FXConfig
  cfg_Bus :: cfg_Bus
  cfg_Scrape :: ScrapeConfig
  cfg_Observability :: ObservabilityConfig
  cfg_Secrets :: "SecretConfig list"

record HTTPConfig =
  htc_BaseURL :: string
  htc_Timeout :: duration
  htc_IdleTimeout :: duration
  htc_MaxConnsPerHost :: int
  htc_UserAgent :: string
  htc_MaxAttempts :: int
  htc_BackoffBaseMs :: int
  htc_BackoffJitterMs :: int
  htc_MaxDelayMs :: int
  htc_QPS :: f64
  htc_Burst :: int
  htc_CircuitWindow :: duration
  htc_FailureThreshold :: f64
  htc_ResetTimeout :: duration

text \<open>A word in single quotes, as in the messages.\<close>

definition quoted :: "string \<Rightarrow> string" where "quoted s = [CHR 0x27] @ s @ [CHR 0x27]"

section \<open>The tree of a file\<close>

datatype cfg_val = CStr string | CInt int | CReal f64 | CBool bool | CNull | CMap "(string \<times> cfg_val) list" | CSeq "cfg_val list"

type_synonym cfg_map = "(string \<times> cfg_val) list"

partial_function (option) interpolateString :: "(string \<Rightarrow> string) \<Rightarrow> string \<Rightarrow> string option" where
  "interpolateString getenv result =
     (case Index result ''${'' of None \<Rightarrow> Some result
      | Some start \<Rightarrow>
          (case Index (drop start result) ''}'' of None \<Rightarrow> Some result
           | Some n \<Rightarrow>
               (let stop = n + start;
                    varExpr = take (stop - (start + 2)) (drop (start + 2) result);
                    val = (if Contains varExpr '':-'' then
                             (let parts = SplitN2 varExpr '':-''; env_value = getenv (parts ! 0)
                              in if env_value = [] then parts ! 1 else env_value)
                           else getenv varExpr)
                in interpolateString getenv (take start result @ val @ drop (stop + 1) result))))"

text \<open>Every string of the tree, except those of a list inside a list.\<close>

fun interpolateEnvVars :: "(string \<Rightarrow> string) \<Rightarrow> cfg_map \<Rightarrow> cfg_map option"
  and interpolate_value :: "(string \<Rightarrow> string) \<Rightarrow> cfg_val \<Rightarrow> cfg_val option"
  and interpolate_items :: "(string \<Rightarrow> string) \<Rightarrow> cfg_val list \<Rightarrow> cfg_val list option" where
  "interpolateEnvVars getenv [] = Some []"
| "interpolateEnvVars getenv ((k, v) # m) =
     Option.bind (interpolate_value getenv v) (\<lambda>w. map_option (\<lambda>m'. (k, w) # m') (interpolateEnvVars getenv m))"
| "interpolate_value getenv (CStr s) = map_option CStr (interpolateString getenv s)"
| "interpolate_value getenv (CMap m) = map_option CMap (interpolateEnvVars getenv m)"
| "interpolate_value getenv (CSeq xs) = map_option CSeq (interpolate_items getenv xs)"
| "interpolate_value getenv v = Some v"
| "interpolate_items getenv [] = Some []"
| "interpolate_items getenv (CSeq ys # xs) = map_option (\<lambda>xs'. CSeq ys # xs') (interpolate_items getenv xs)"
| "interpolate_items getenv (x # xs) =
     Option.bind (interpolate_value getenv x) (\<lambda>y. map_option (\<lambda>xs'. y # xs') (interpolate_items getenv xs))"

section \<open>Validation and loading\<close>

definition validate :: "AmpyConfig \<Rightarrow> unit go" where
  "validate config =
     go_bind (go_guard (nc_GlobalWorkers (cfg_Concurrency config) < nc_PerHostWorkers (cfg_Concurrency config))
       (Errorf ''concurrency.global_workers (%d) must be >= per_host_workers (%d)''
         [AInt (nc_GlobalWorkers (cfg_Concurrency config)), AInt (nc_PerHostWorkers (cfg_Concurrency config))])) (\<lambda>_.
     go_bind (go_guard (nc_PerHostWorkers (cfg_Concurrency config) < sec_N (cfg_Sessions config))
       (Errorf ''concurrency.per_host_workers (%d) must be >= sessions.n (%d)''
         [AInt (nc_PerHostWorkers (cfg_Concurrency config)), AInt (sec_N (cfg_Sessions config))])) (\<lambda>_.
     go_bind (go_guard (mkc_AllowedIntervals (cfg_Markets config) \<noteq> [''1d''])
       (Errorf (''markets.allowed_intervals must be exactly ['' @ [CHR 0x22] @ ''1d'' @ [CHR 0x22] @
         ''] for yfinance-go (daily-only scope)'') [])) (\<lambda>_.
     go_bind (go_guard (mkc_DefaultAdjustmentPolicy (cfg_Markets config) \<noteq> ''raw'' \<and>
         mkc_DefaultAdjustmentPolicy (cfg_Markets config) \<noteq> ''split_dividend'')
       (Errorf (''markets.default_adjustment_policy must be '' @ quoted ''raw'' @ '' or '' @ quoted ''split_dividend'') [])) (\<lambda>_.
     go_bind (go_guard (bsc_MaxPayloadBytes (cfg_Bus config) < 262144 \<or> 10485760 < bsc_MaxPayloadBytes (cfg_Bus config))
       (Errorf ''bus.max_payload_bytes must be between 262144 and 10485760'' [])) (\<lambda>_.
     go_bind (go_guard (rtc_Attempts (cfg_Retry config) < 1) (Errorf ''retry.attempts must be >= 1'' [])) (\<lambda>_.
     go_bind (go_guard (f_le (cbc_FailureThreshold (cfg_CircuitBreaker config)) (Fin 0) \<or>
         f_lt (Fin 1) (cbc_FailureThreshold (cfg_CircuitBreaker config)))
       (Errorf ''circuit_breaker.failure_threshold must be between 0 and 1'' [])) (\<lambda>_.
     go_bind (go_guard (bsc_Enabled (cfg_Bus config) \<and> pbc_Backend (bsc_Publisher (cfg_Bus config)) = ''nats'' \<and>
         ntc_URL (pbc_NATS (bsc_Publisher (cfg_Bus config))) = [])
       (Errorf ''bus.publisher.nats.url is required when bus.enabled=true and backend=nats'' [])) (\<lambda>_.
     go_bind (go_guard (prc_Enabled (mtc_Prometheus (obc_Metrics (cfg_Observability config))) \<and>
         prc_Addr (mtc_Prometheus (obc_Metrics (cfg_Observability config))) = [])
       (Errorf ''observability.metrics.prometheus.addr is required when prometheus is enabled'' [])) (\<lambda>_.
     go_guard (otc_Enabled (trc_OTLP (obc_Tracing (cfg_Observability config))) \<and>
         otc_Endpoint (trc_OTLP (obc_Tracing (cfg_Observability config))) = [])
       (Errorf ''observability.tracing.otlp.endpoint is required when OTLP tracing is enabled'' []))))))))))"

record Loader =
  ld_effectivePath :: string
  ld_config :: "AmpyConfig option"

definition NewLoader :: "string \<Rightarrow> Loader" where
  "NewLoader path = \<lparr>ld_effectivePath = path, ld_config = None\<rparr>"

definition Load ::
  "(string \<Rightarrow> string) \<Rightarrow> (string \<Rightarrow> cfg_map go) \<Rightarrow> (cfg_map \<Rightarrow> AmpyConfig go) \<Rightarrow> Loader \<Rightarrow> (Loader \<times> AmpyConfig go) option" where
  "Load getenv read_config to_config l =
     (case read_config (ld_effectivePath l) of
        Err e \<Rightarrow> Some (l, Err (Wrapf ''failed to load effective config: %w'' [] e))
      | Panic p \<Rightarrow> Some (l, Panic p)
      | Ret m \<Rightarrow>
          map_option (\<lambda>m'.
            let r = go_bind (go_wrap ''failed to convert config: %w'' [] (to_config m')) (\<lambda>config.
                    go_bind (go_wrap ''configuration validation failed: %w'' [] (validate config)) (\<lambda>_. Ret config))
            in (case r of Ret config \<Rightarrow> l\<lparr>ld_config := Some config\<rparr> | _ \<Rightarrow> l, r))
          (interpolateEnvVars getenv m))"

section \<open>Printing the configuration\<close>

definition redacted :: cfg_val where "redacted = CStr ''[REDACTED]''"

definition secretPatterns :: "string list" where
  "secretPatterns = [''password'', ''token'', ''api_key'', ''secret'', ''key'']"

definition secret_key :: "string \<Rightarrow> bool" where
  "secret_key k \<longleftrightarrow> list_ex (Contains (ToLower k)) secretPatterns"

fun redactSecretPatterns :: "cfg_map \<Rightarrow> cfg_map" where
  "redactSecretPatterns [] = []"
| "redactSecretPatterns ((k, v) # m) =
     (k, if k = ''secrets'' then v
         else if secret_key k then redacted
         else case v of CMap m' \<Rightarrow> CMap (redactSecretPatterns m') | _ \<Rightarrow> v) # redactSecretPatterns m"

definition redact_ref :: "cfg_val \<Rightarrow> cfg_val" where
  "redact_ref v =
     (case v of
        CMap secret \<Rightarrow> (case map_of secret ''ref'' of Some (CStr _) \<Rightarrow> CMap (AList.update ''ref'' redacted secret) | _ \<Rightarrow> v)
      | _ \<Rightarrow> v)"

definition redactSecrets :: "cfg_map \<Rightarrow> cfg_map" where
  "redactSecrets m =
     redactSecretPatterns
       (case map_of m ''secrets'' of Some (CSeq xs) \<Rightarrow> AList.update ''secrets'' (CSeq (map redact_ref xs)) m | _ \<Rightarrow> m)"

definition GetEffectiveConfig :: "(string \<Rightarrow> string) \<Rightarrow> (string \<Rightarrow> cfg_map go) \<Rightarrow> Loader \<Rightarrow> cfg_map go option" where
  "GetEffectiveConfig getenv read_config l =
     (if ld_config l = None then Some (Err (Errorf ''configuration not loaded'' []))
      else case read_config (ld_effectivePath l) of
        Err e \<Rightarrow> Some (Err (Wrapf ''failed to load effective config: %w'' [] e))
      | Panic p \<Rightarrow> Some (Panic p)
      | Ret m \<Rightarrow> map_option (\<lambda>m'. Ret (redactSecrets m')) (interpolateEnvVars getenv m))"

section \<open>Parts of the configuration\<close>

definition GetHTTPConfig :: "AmpyConfig \<Rightarrow> HTTPConfig" where
  "GetHTTPConfig c =
     \<lparr>htc_BaseURL = yc_BaseURL (cfg_Yahoo c),
      htc_Timeout = dur_mul (yc_TimeoutMs (cfg_Yahoo c)) millisecond,
      htc_IdleTimeout = dur_mul (yc_IdleTimeoutMs (cfg_Yahoo c)) millisecond,
      htc_MaxConnsPerHost = yc_MaxConnsPerHost (cfg_Yahoo c),
      htc_UserAgent = yc_UserAgent (cfg_Yahoo c),
      htc_MaxAttempts = rtc_Attempts (cfg_Retry c),
      htc_BackoffBaseMs = rtc_BaseMs (cfg_Retry c),
      htc_BackoffJitterMs = rtc_BaseMs (cfg_Retry c) sdiv 2,
      htc_MaxDelayMs = rtc_MaxDelayMs (cfg_Retry c),
      htc_QPS = rlc_PerHostQPS (cfg_RateLimit c),
      htc_Burst = rlc_PerHostBurst (cfg_RateLimit c),
      htc_CircuitWindow = dur_mul (cbc_Window (cfg_CircuitBreaker c)) second,
      htc_FailureThreshold = cbc_FailureThreshold (cfg_CircuitBreaker c),
      htc_ResetTimeout = dur_mul (cbc_ResetTimeoutMs (cfg_CircuitBreaker c)) millisecond\<rparr>"

definition GetBusConfig :: "AmpyConfig \<Rightarrow> cfg_Bus" where "GetBusConfig c = cfg_Bus c"
definition GetFXConfig :: "AmpyConfig \<Rightarrow> FXConfig" where "GetFXConfig c = cfg_FX c"
definition GetScrapeConfig :: "AmpyConfig \<Rightarrow> ScrapeConfig" where "GetScrapeConfig c = cfg_Scrape c"

definition ValidateInterval :: "AmpyConfig \<Rightarrow> string \<Rightarrow> unit go" where
  "ValidateInterval c interval =
     (if interval \<in> set (mkc_AllowedIntervals (cfg_Markets c)) then Ret ()
      else Err (Errorf (''interval '' @ quoted ''%s'' @ '' is not allowed. Allowed intervals: %v'')
        (AStr interval # map AStr (mkc_AllowedIntervals (cfg_Markets c)))))"

definition ValidateAdjustmentPolicy :: "string \<Rightarrow> unit go" where
  "ValidateAdjustmentPolicy policy =
     (if policy = ''raw'' \<or> policy = ''split_dividend'' then Ret ()
      else Err (Errorf (''adjustment policy '' @ quoted ''%s'' @ '' is not allowed. Allowed policies: raw, split_dividend'') [AStr policy]))"

text \<open>The command line's client: flags that are set override the file.\<close>

record GlobalConfig =
  gc_QPS :: f64
  gc_RetryMax :: int
  gc_Timeout :: duration

definition createClient_config :: "(f64 \<Rightarrow> int) \<Rightarrow> GlobalConfig \<Rightarrow> AmpyConfig \<Rightarrow> HttpConfig" where
  "createClient_config ovf flags c =
     (let h = GetHTTPConfig c in
      \<lparr>hc_BaseURL = htc_BaseURL h,
       hc_Timeout = (if 0 < gc_Timeout flags then gc_Timeout flags else htc_Timeout h),
       hc_IdleTimeout = htc_IdleTimeout h, hc_MaxConnsPerHost = htc_MaxConnsPerHost h,
       hc_MaxAttempts = (if 0 < gc_RetryMax flags then gc_RetryMax flags else htc_MaxAttempts h),
       hc_BackoffBaseMs = htc_BackoffBaseMs h, hc_BackoffJitterMs = htc_BackoffJitterMs h, hc_MaxDelayMs = htc_MaxDelayMs h,
       hc_QPS = (if f_lt (Fin 0) (gc_QPS flags) then gc_QPS flags else htc_QPS h),
       hc_Burst = htc_Burst h, hc_CircuitWindow = htc_CircuitWindow h,
       hc_FailureThreshold = f_to_int64 ovf (f_mul (htc_FailureThreshold h) (Fin 100)),
       hc_ResetTimeout = htc_ResetTimeout h, hc_UserAgent = htc_UserAgent h\<rparr>)"

definition createClient ::
  "(f64 \<Rightarrow> int) \<Rightarrow> (string \<Rightarrow> string) \<Rightarrow> (string \<Rightarrow> cfg_map go) \<Rightarrow> (cfg_map \<Rightarrow> AmpyConfig go) \<Rightarrow> string \<Rightarrow> GlobalConfig \<Rightarrow> instant \<Rightarrow>
   Client go option" where
  "createClient ovf getenv read_config to_config configFile flags now =
     (let effectivePath = (if configFile = [] then ''configs/effective.yaml'' else configFile) in
      map_option (\<lambda>(_, r). go_bind (go_wrap ''failed to load configuration: %w'' [] r)
          (\<lambda>c. Ret (NewClient ovf now (Some (createClient_config ovf flags c)))))
        (Load getenv read_config to_config (NewLoader effectivePath)))"

text \<open>The file that \<^verbatim>\<open>CreateEffectiveConfig\<close> writes.\<close>

definition default_config :: "(string \<times> cfg_val) list" where
  "default_config =
     [(''app'', CMap
       [(''env'', CStr ''dev''),
        (''run_id'', CStr [])]),
      (''yahoo'', CMap
       [(''base_url'', CStr ''https://query2.finance.yahoo.com''),
        (''timeout_ms'', CInt 6000),
        (''idle_timeout_ms'', CInt 30000),
        (''max_conns_per_host'', CInt 64),
        (''user_agent'', CStr ''AmpyFin-yfinance-go/1.x'')]),
      (''concurrency'', CMap
       [(''global_workers'', CInt 64),
        (''per_host_workers'', CInt 32)]),
      (''rate_limit'', CMap
       [(''per_host_qps'', CReal (fl (50 / 10))),
        (''per_host_burst'', CInt 5),
        (''per_session_qps'', CReal (fl (10 / 10))),
        (''per_session_burst'', CInt 1)]),
      (''sessions'', CMap
       [(''n'', CInt 7),
        (''eject_after'', CInt 5),
        (''recreate_cooldown_ms'', CInt 15000)]),
      (''retry'', CMap
       [(''attempts'', CInt 5),
        (''base_ms'', CInt 250),
        (''max_delay_ms'', CInt 8000)]),
      (''circuit_breaker'', CMap
       [(''window'', CInt 50),
        (''failure_threshold'', CReal (fl (30 / 100))),
        (''reset_timeout_ms'', CInt 30000),
        (''half_open_probes'', CInt 3)]),
      (''markets'', CMap
       [(''allowed_intervals'', CSeq [CStr ''1d'']),
        (''allowed_mics'', CSeq [CStr ''XNAS'', CStr ''XNYS'', CStr ''XNMS'', CStr ''NYQ'', CStr ''KSC'', CStr ''XETR'', CStr ''XTKS'']),
        (''default_adjustment_policy'', CStr ''split_dividend'')]),
      (''fx'', CMap
       [(''provider'', CStr ''none''),
        (''target'', CStr []),
        (''cache_ttl_ms'', CInt 60000),
        (''rate_scale'', CInt 8),
        (''rounding'', CStr ''half_up''),
        (''yahoo_web'', CMap
         [(''qps'', CReal (fl (5 / 10))),
          (''burst'', CInt 1),
          (''timeout_ms'', CInt 5000),
          (''backoff_attempts'', CInt 4),
          (''backoff_base_ms'', CInt 250),
          (''backoff_max_delay_ms'', CInt 4000),
          (''circuit_reset_ms'', CInt 30000)])]),
      (''bus'', CMap
       [(''enabled'', CBool False),
        (''env'', CStr ''dev''),
        (''topic_prefix'', CStr ''ampy''),
        (''max_payload_bytes'', CInt 1048576),
        (''publisher'', CMap
         [(''backend'', CStr ''nats''),
          (''nats'', CMap
           [(''url'', CStr ''nats://localhost:4222''),
            (''subject_style'', CStr ''topic''),
            (''ack_wait_ms'', CInt 5000)]),
          (''kafka'', CMap
           [(''brokers'', CSeq []),
            (''acks'', CStr ''all''),
            (''compression'', CStr ''snappy'')])]),
        (''retry'', CMap
         [(''attempts'', CInt 5),
          (''base_ms'', CInt 250),
          (''max_delay_ms'', CInt 8000)]),
        (''circuit_breaker'', CMap
         [(''window'', CInt 50),
          (''failure_threshold'', CReal (fl (30 / 100))),
          (''reset_timeout_ms'', CInt 30000),
          (''half_open_probes'', CInt 3)])]),
      (''scrape'', CMap
       [(''enabled'', CBool True),
        (''user_agent'', CStr ''Mozilla/5.0 (Ampy yfinance-go scraper)''),
        (''timeout_ms'', CInt 10000),
        (''qps'', CReal (fl (7 / 10))),
        (''burst'', CInt 1),
        (''retry'', CMap
         [(''attempts'', CInt 4),
          (''base_ms'', CInt 300),
          (''max_delay_ms'', CInt 4000)]),
        (''robots_policy'', CStr ''enforce''),
        (''cache_ttl_ms'', CInt 60000),
        (''endpoints'', CMap
         [(''key_statistics'', CBool True),
          (''financials'', CBool True),
          (''analysis'', CBool True),
          (''profile'', CBool True),
          (''news'', CBool True)])]),
      (''observability'', CMap
       [(''logs'', CMap
         [(''level'', CStr ''info'')]),
        (''metrics'', CMap
         [(''prometheus'', CMap
           [(''enabled'', CBool True),
            (''addr'', CStr '':9090'')])]),
        (''tracing'', CMap
         [(''otlp'', CMap
           [(''enabled'', CBool True),
            (''endpoint'', CStr ''http://localhost:4317''),
            (''sample_ratio'', CReal (fl (5 / 100)))])])]),
      (''secrets'', CSeq [])]"

definition CreateEffectiveConfig :: "(cfg_map \<Rightarrow> string go) \<Rightarrow> (string \<Rightarrow> string \<Rightarrow> unit go) \<Rightarrow> string \<Rightarrow> unit go" where
  "CreateEffectiveConfig yaml_Marshal write_file path =
     go_bind (yaml_Marshal default_config) (\<lambda>data. write_file path data)"

section \<open>Interpolation\<close>

text \<open>What one round does, with the pieces named.\<close>

definition reference_value :: "(string \<Rightarrow> string) \<Rightarrow> string \<Rightarrow> string" where
  "reference_value getenv e =
     (if Contains e '':-'' then
        (let parts = SplitN2 e '':-'' in if getenv (parts ! 0) = [] then parts ! 1 else getenv (parts ! 0))
      else getenv e)"

lemma interpolate_done:
  "Index s ''${'' = None \<Longrightarrow> interpolateString getenv s = Some s"
  "Index s ''${'' = Some i \<Longrightarrow> Index (drop i s) ''}'' = None \<Longrightarrow> interpolateString getenv s = Some s"
  by (subst interpolateString.simps, simp)+

lemma interpolate_round:
  assumes "Index s ''${'' = Some i" "Index (drop i s) ''}'' = Some n"
  obtains e where "s = take i s @ ''${'' @ e @ ''}'' @ drop (n + i + 1) s" "CHR ''}'' \<notin> set e"
    "interpolateString getenv s = interpolateString getenv (take i s @ reference_value getenv e @ drop (n + i + 1) s)"
proof -
  define t where "t = drop i s"
  obtain u where u: "t = ''${'' @ u" using Index_Some [OF assms(1)] by (auto simp: t_def prefix_def)
  have b: "CHR ''}'' \<in> set t" "n = length (takeWhile (\<lambda>x. x \<noteq> CHR ''}'') t)"
    using assms(2) by (simp_all add: Index_char t_def split: if_splits)
  have "CHR ''}'' \<in> set u" using b(1) u by simp
  from split_list_first [OF this] obtain e r where r: "u = e @ CHR ''}'' # r" "CHR ''}'' \<notin> set e" by blast
  have "takeWhile (\<lambda>x. x \<noteq> CHR ''}'') u = e" using r by (auto simp: takeWhile_append)
  then have n: "n = length e + 2" using b(2) by (simp add: u)
  have s: "s = take i s @ ''${'' @ e @ CHR ''}'' # r" using u r(1) t_def by (metis append_take_drop_id append.assoc append_Cons append_Nil)
  have i: "i \<le> length s" using Index_Some [OF assms(1)] by simp
  have tk: "length (take i s) = i" using i by simp
  have dr: "drop (n + i + 1) s = r"
  proof -
    have "drop (n + i + 1) s = drop (n + 1) t" by (simp add: t_def add.commute)
    then show ?thesis by (simp add: u r(1) n)
  qed
  have ex: "take (n + i - (i + 2)) (drop (i + 2) s) = e"
  proof -
    have "drop (i + 2) s = drop 2 t" by (simp add: t_def add.commute)
    then show ?thesis by (simp add: u r(1) n)
  qed
  have "interpolateString getenv s = interpolateString getenv (take i s @ reference_value getenv e @ drop (n + i + 1) s)"
    by (subst interpolateString.simps) (simp add: assms ex [simplified] reference_value_def Let_def)
  moreover have "s = take i s @ ''${'' @ e @ ''}'' @ drop (n + i + 1) s" using s dr by simp
  ultimately show thesis using that r(2) by blast
qed

definition dollars :: "string \<Rightarrow> nat" where "dollars s = length (filter (\<lambda>c. c = CHR ''$'') s)"

lemma dollars_simps [simp]: "dollars [] = 0" "dollars (s @ t) = dollars s + dollars t"
  "dollars (c # s) = (if c = CHR ''$'' then 1 else 0) + dollars s"
  by (simp_all add: dollars_def)

lemma dollars_0: "CHR ''$'' \<notin> set s \<Longrightarrow> dollars s = 0"
  by (auto simp: dollars_def filter_empty_conv)

lemma dollars_reference:
  assumes "\<And>v. CHR ''$'' \<notin> set (getenv v)"
  shows "dollars (reference_value getenv e) \<le> dollars e"
proof (cases "Contains e '':-'' \<and> getenv (SplitN2 e '':-'' ! 0) = []")
  case True
  then obtain i where i: "Index e '':-'' = Some i" using Index_None [of e "'':-''"] by (auto simp: Contains_def)
  have "reference_value getenv e = drop (i + 2) e" using True i by (simp add: reference_value_def SplitN2_def)
  moreover have "dollars (drop (i + 2) e) \<le> dollars e"
    using append_take_drop_id [of "i + 2" e] dollars_simps(2) [of "take (i + 2) e" "drop (i + 2) e"] by simp
  ultimately show ?thesis by simp
next
  case False
  then have "reference_value getenv e = getenv (if Contains e '':-'' then SplitN2 e '':-'' ! 0 else e)"
    by (auto simp: reference_value_def Let_def)
  then obtain v where "reference_value getenv e = getenv v" by blast
  then show ?thesis using dollars_0 [of "getenv v"] assms by simp
qed

definition interpolated :: "string \<Rightarrow> bool" where
  "interpolated s \<longleftrightarrow> (case Index s ''${'' of None \<Rightarrow> True | Some i \<Rightarrow> CHR ''}'' \<notin> set (drop i s))"

lemma interpolates:
  assumes "\<And>v. CHR ''$'' \<notin> set (getenv v)"
  shows "\<exists>t. interpolateString getenv s = Some t \<and> interpolated t \<and> (interpolated s \<longrightarrow> t = s)"
proof (induction "dollars s" arbitrary: s rule: less_induct)
  case less
  show ?case
  proof (cases "interpolated s")
    case True
    then have "interpolateString getenv s = Some s"
      using interpolate_done(1) [of s getenv] interpolate_done(2) [of s _ getenv] by (auto simp: interpolated_def Index_char split: option.splits if_splits)
    then show ?thesis using True by simp
  next
    case False
    then obtain i where i: "Index s ''${'' = Some i" "CHR ''}'' \<in> set (drop i s)" by (auto simp: interpolated_def split: option.splits)
    then obtain n where n: "Index (drop i s) ''}'' = Some n" by (simp add: Index_char)
    obtain e where e: "s = take i s @ ''${'' @ e @ ''}'' @ drop (n + i + 1) s"
      "interpolateString getenv s = interpolateString getenv (take i s @ reference_value getenv e @ drop (n + i + 1) s)"
      by (rule interpolate_round [OF i(1) n, of getenv])
    have "dollars (take i s @ reference_value getenv e @ drop (n + i + 1) s) < dollars s"
      using dollars_reference [where getenv = getenv and e = e, OF assms] arg_cong [OF e(1), of dollars] by simp
    from less [OF this] show ?thesis using e(2) False by auto
  qed
qed

text \<open>
  C7: When no environment value contains a dollar sign, the interpolation of every text
  returns, leaves no complete reference behind, and changes nothing in a text without one.
\<close>

theorem interpolateString_terminates:
  assumes "\<And>v. CHR ''$'' \<notin> set (getenv v)"
  shows "\<exists>t. interpolateString getenv s = Some t \<and> interpolated t \<and> (interpolated s \<longrightarrow> t = s)"
  using interpolates [of getenv s] assms by blast

lemma interpolateString_total:
  assumes "\<And>v. CHR ''$'' \<notin> set (getenv v)"
  shows "interpolateString getenv s \<noteq> None"
  using interpolates [of getenv s] assms by auto

lemma interpolateString_terminates_witness:
  "\<exists>t. interpolateString (\<lambda>v. if v = ''HOST'' then ''localhost'' else []) ''nats://${HOST}:${PORT:-4222}'' = Some t \<and> interpolated t"
  using interpolateString_terminates [of "\<lambda>v. if v = ''HOST'' then ''localhost'' else []" "''nats://${HOST}:${PORT:-4222}''"] by auto

text \<open>A text of literal pieces and references.\<close>

datatype segment = Lit string | Ref string | RefDefault string string

fun seg_text :: "segment \<Rightarrow> string" where
  "seg_text (Lit s) = s"
| "seg_text (Ref v) = ''${'' @ v @ ''}''"
| "seg_text (RefDefault v d) = ''${'' @ v @ '':-'' @ d @ ''}''"

fun seg_value :: "(string \<Rightarrow> string) \<Rightarrow> segment \<Rightarrow> string" where
  "seg_value getenv (Lit s) = s"
| "seg_value getenv (Ref v) = getenv v"
| "seg_value getenv (RefDefault v d) = (if getenv v = [] then d else getenv v)"

fun seg_ok :: "segment \<Rightarrow> bool" where
  "seg_ok (Lit s) = (CHR ''$'' \<notin> set s)"
| "seg_ok (Ref v) = (CHR '':'' \<notin> set v \<and> CHR ''}'' \<notin> set v)"
| "seg_ok (RefDefault v d) = (CHR '':'' \<notin> set v \<and> CHR ''}'' \<notin> set v \<and> CHR ''}'' \<notin> set d \<and> CHR ''$'' \<notin> set d)"

lemma interpolate_reference:
  assumes "CHR ''$'' \<notin> set u" "CHR ''}'' \<notin> set e"
  shows "interpolateString getenv (u @ ''${'' @ e @ ''}'' @ r) = interpolateString getenv (u @ reference_value getenv e @ r)"
proof -
  have i: "Index (u @ ''${'' @ e @ ''}'' @ r) ''${'' = Some (length u)"
    using Index_hd [OF assms(1), of "''{''" "e @ ''}'' @ r"] by simp
  have n: "Index (drop (length u) (u @ ''${'' @ e @ ''}'' @ r)) ''}'' = Some (length e + 2)"
    using assms(2) by (simp add: Index_char takeWhile_append takeWhile_eq_all_conv)
  show ?thesis by (subst interpolateString.simps) (simp add: i [simplified] n [simplified] reference_value_def Let_def numeral_3_eq_3)
qed

lemma reference_value_seg:
  "CHR '':'' \<notin> set v \<Longrightarrow> reference_value getenv v = getenv v"
  "CHR '':'' \<notin> set v \<Longrightarrow> reference_value getenv (v @ '':-'' @ d) = (if getenv v = [] then d else getenv v)"
proof -
  assume v: "CHR '':'' \<notin> set v"
  have "\<not> Contains v '':-''" using v by (auto simp: Contains_def sublist_def)
  then show "reference_value getenv v = getenv v" by (simp add: reference_value_def)
  have "Contains (v @ '':-'' @ d) '':-''" unfolding Contains_def by (rule sublist_appendI)
  moreover have "SplitN2 (v @ '':-'' @ d) '':-'' = [v, d]" using Index_hd [OF v, of "''-''" d] by (simp add: SplitN2_def)
  ultimately show "reference_value getenv (v @ '':-'' @ d) = (if getenv v = [] then d else getenv v)"
    by (simp add: reference_value_def)
qed

lemma interpolate_segments:
  assumes "\<And>v. CHR ''$'' \<notin> set (getenv v)" "list_all seg_ok segs" "CHR ''$'' \<notin> set u"
  shows "interpolateString getenv (u @ concat (map seg_text segs)) = Some (u @ concat (map (seg_value getenv) segs))"
  using assms(2,3)
proof (induction segs arbitrary: u)
  case Nil
  then show ?case using interpolate_done(1) [of u getenv] Index_absent [of "CHR ''$''" u "''{''"] by simp
next
  case (Cons x segs)
  have e: "CHR ''$'' \<notin> set (seg_value getenv x)" using Cons.prems(1) assms(1) by (cases x) auto
  have IH: "interpolateString getenv (u @ seg_value getenv x @ concat (map seg_text segs)) =
      Some (u @ seg_value getenv x @ concat (map (seg_value getenv) segs))"
    using Cons.IH [of "u @ seg_value getenv x"] Cons.prems e by simp
  show ?case
  proof (cases x)
    case (Lit s)
    then show ?thesis using IH by simp
  next
    case (Ref v)
    then show ?thesis
      using IH Cons.prems interpolate_reference [of u v getenv "concat (map seg_text segs)"] reference_value_seg(1) [of v getenv]
      by simp
  next
    case (RefDefault v d)
    then show ?thesis
      using IH Cons.prems interpolate_reference [of u "v @ '':-'' @ d" getenv "concat (map seg_text segs)"]
        reference_value_seg(2) [of v getenv d] by simp
  qed
qed

text \<open>
  A text of literal pieces, references and references with defaults is interpolated to
  the concatenation of the pieces and the values of the variables, a default standing in for a
  variable that is unset or empty.
\<close>

theorem interpolateString_segments:
  assumes "\<And>v. CHR ''$'' \<notin> set (getenv v)" "list_all seg_ok segs"
  shows "interpolateString getenv (concat (map seg_text segs)) = Some (concat (map (seg_value getenv) segs))"
  using interpolate_segments [of getenv segs "[]"] assms by simp

lemma interpolateString_segments_witness:
  "interpolateString (\<lambda>v. if v = ''HOST'' then ''localhost'' else []) ''nats://${HOST}:${PORT:-4222}'' = Some ''nats://localhost:4222''"
  using interpolateString_segments [of "\<lambda>v. if v = ''HOST'' then ''localhost'' else []"
    "[Lit ''nats://'', Ref ''HOST'', Lit '':'', RefDefault ''PORT'' ''4222'']"] by simp

text \<open>An environment variable whose value refers to itself.\<close>

text \<open>
  When an environment variable holds a reference to itself the interpolation of a
  reference to it never returns: loading a configuration that mentions it hangs.
\<close>

theorem interpolateString_diverges:
  assumes "CHR '':'' \<notin> set v" "CHR ''}'' \<notin> set v" "getenv v = ''${'' @ v @ ''}''"
  shows "interpolateString getenv (''${'' @ v @ ''}'') = None"
proof -
  let ?P = "\<lambda>g s t. \<not> (g = getenv \<and> s = ''${'' @ v @ ''}'')"
  have "?P g s t" if "interpolateString g s = Some t" for g s t
  proof (rule interpolateString.raw_induct [of ?P, OF _ that])
    fix f g s t
    assume IH: "\<And>g s t. f g s = Some t \<Longrightarrow> ?P g s t"
      and body: "(case Index s ''${'' of None \<Rightarrow> Some s
        | Some start \<Rightarrow>
            (case Index (drop start s) ''}'' of None \<Rightarrow> Some s
             | Some n \<Rightarrow>
                 (let stop = n + start;
                      varExpr = take (stop - (start + 2)) (drop (start + 2) s);
                      val = (if Contains varExpr '':-'' then
                               (let parts = SplitN2 varExpr '':-''; env_value = g (parts ! 0)
                                in if env_value = [] then parts ! 1 else env_value)
                             else g varExpr)
                  in f g (take start s @ val @ drop (stop + 1) s)))) = Some t"
    show "?P g s t"
    proof
      assume gs: "g = getenv \<and> s = ''${'' @ v @ ''}''"
      have i: "Index s ''${'' = Some 0" using gs by (simp add: HasPrefix_def)
      have n: "Index s ''}'' = Some (length v + 2)"
        using gs assms(2) by (simp add: Index_char takeWhile_append takeWhile_eq_all_conv)
      have "\<not> Contains v '':-''" using assms(1) by (auto simp: Contains_def sublist_def)
      then have "f getenv (''${'' @ v @ ''}'') = Some t" using body gs i n [simplified] assms(3) by simp
      then show False using IH by blast
    qed
  qed
  then show ?thesis by (cases "interpolateString getenv (''${'' @ v @ ''}'')") auto
qed

lemma interpolateString_diverges_witness: "interpolateString (\<lambda>_. ''${PATH}'') ''${PATH}'' = None"
  using interpolateString_diverges [of "''PATH''" "\<lambda>_. ''${PATH}''"] by simp

text \<open>A default that is itself a reference: the brace that closes the inner one is taken for that of the outer one.\<close>

lemma nested_default:
  assumes "CHR ''$'' \<notin> set (getenv ''A'')" "getenv ''A'' \<noteq> []"
  shows "interpolateString getenv ''${A:-${B}}'' = Some (getenv ''A'' @ ''}'')"
proof -
  have "interpolateString getenv ''${A:-${B}}'' = interpolateString getenv (getenv ''A'' @ ''}'')"
    using interpolate_reference [of "[]" "''A:-${B''" getenv "''}''"] reference_value_seg(2) [of "''A''" getenv "''${B''"] assms(2) by simp
  then show ?thesis using interpolate_done(1) [of "getenv ''A'' @ ''}''" getenv] Index_absent [of "CHR ''$''" "getenv ''A'' @ ''}''" "''{''"] assms(1)
    by simp
qed

text \<open>The record of the default file, for the examples.\<close>

definition sample_config :: AmpyConfig where
  "sample_config =
     \<lparr>cfg_App = \<lparr>ac_Env = ''dev'', ac_RunID = []\<rparr>,
      cfg_Yahoo = \<lparr>yc_BaseURL = ''https://query2.finance.yahoo.com'', yc_TimeoutMs = 6000, yc_IdleTimeoutMs = 30000, yc_MaxConnsPerHost = 64, yc_UserAgent = ''AmpyFin-yfinance-go/1.x''\<rparr>,
      cfg_Concurrency = \<lparr>nc_GlobalWorkers = 64, nc_PerHostWorkers = 32\<rparr>,
      cfg_RateLimit = \<lparr>rlc_PerHostQPS = fl (50 / 10), rlc_PerHostBurst = 5, rlc_PerSessionQPS = fl (10 / 10), rlc_PerSessionBurst = 1\<rparr>,
      cfg_Sessions = \<lparr>sec_N = 7, sec_EjectAfter = 5, sec_RecreateCooldownMs = 15000\<rparr>,
      cfg_Retry = \<lparr>rtc_Attempts = 5, rtc_BaseMs = 250, rtc_MaxDelayMs = 8000\<rparr>,
      cfg_CircuitBreaker = \<lparr>cbc_Window = 50, cbc_FailureThreshold = fl (30 / 100), cbc_ResetTimeoutMs = 30000, cbc_HalfOpenProbes = 3\<rparr>,
      cfg_Markets = \<lparr>mkc_AllowedIntervals = [''1d''], mkc_AllowedMics = [''XNAS'', ''XNYS'', ''XNMS'', ''NYQ'', ''KSC'', ''XETR'', ''XTKS''], mkc_DefaultAdjustmentPolicy = ''split_dividend''\<rparr>,
      cfg_FX = \<lparr>fxc_Provider = ''none'', fxc_Target = [], fxc_CacheTTLMs = 60000, fxc_RateScale = 8, fxc_Rounding = ''half_up'', fxc_YahooWeb = \<lparr>ywc_QPS = fl (5 / 10), ywc_Burst = 1, ywc_TimeoutMs = 5000, ywc_BackoffAttempts = 4, ywc_BackoffBaseMs = 250, ywc_BackoffMaxDelayMs = 4000, ywc_CircuitResetMs = 30000\<rparr>\<rparr>,
      cfg_Bus = \<lparr>bsc_Enabled = False, bsc_Env = ''dev'', bsc_TopicPrefix = ''ampy'', bsc_MaxPayloadBytes = 1048576, bsc_Publisher = \<lparr>pbc_Backend = ''nats'', pbc_NATS = \<lparr>ntc_URL = ''nats://localhost:4222'', ntc_SubjectStyle = ''topic'', ntc_AckWaitMs = 5000\<rparr>, pbc_Kafka = \<lparr>kfc_Brokers = [], kfc_Acks = ''all'', kfc_Compression = ''snappy''\<rparr>\<rparr>, bsc_Retry = \<lparr>rtc_Attempts = 5, rtc_BaseMs = 250, rtc_MaxDelayMs = 8000\<rparr>, bsc_CircuitBreaker = \<lparr>cbc_Window = 50, cbc_FailureThreshold = fl (30 / 100), cbc_ResetTimeoutMs = 30000, cbc_HalfOpenProbes = 3\<rparr>\<rparr>,
      cfg_Scrape = \<lparr>scc_Enabled = True, scc_UserAgent = ''Mozilla/5.0 (Ampy yfinance-go scraper)'', scc_TimeoutMs = 10000, scc_QPS = fl (7 / 10), scc_Burst = 1, scc_Retry = \<lparr>srt_Attempts = 4, srt_BaseMs = 300, srt_MaxDelayMs = 4000\<rparr>, scc_RobotsPolicy = ''enforce'', scc_CacheTTLMs = 60000, scc_Endpoints = \<lparr>sep_KeyStatistics = True, sep_Financials = True, sep_Analysis = True, sep_Profile = True, sep_News = True\<rparr>\<rparr>,
      cfg_Observability = \<lparr>obc_Logs = \<lparr>lgc_Level = ''info''\<rparr>, obc_Metrics = \<lparr>mtc_Prometheus = \<lparr>prc_Enabled = True, prc_Addr = '':9090''\<rparr>\<rparr>, obc_Tracing = \<lparr>trc_OTLP = \<lparr>otc_Enabled = True, otc_Endpoint = ''http://localhost:4317'', otc_SampleRatio = fl (5 / 100)\<rparr>\<rparr>\<rparr>,
      cfg_Secrets = []\<rparr>"

section \<open>Loading\<close>

lemma interpolate_tree_terminates:
  "\<forall>v. CHR ''$'' \<notin> set (getenv v) \<Longrightarrow> \<exists>m'. interpolateEnvVars getenv m = Some m'"
  "\<forall>v. CHR ''$'' \<notin> set (getenv v) \<Longrightarrow> \<exists>v'. interpolate_value getenv v = Some v'"
  "\<forall>v. CHR ''$'' \<notin> set (getenv v) \<Longrightarrow> \<exists>xs'. interpolate_items getenv xs = Some xs'"
proof (induction getenv m and getenv v and getenv xs rule: interpolateEnvVars_interpolate_value_interpolate_items.induct)
  case (3 getenv s)
  then show ?case using interpolates [of getenv s] by auto
qed auto

theorem validate_iff:
  "validate c = Ret () \<longleftrightarrow>
     sec_N (cfg_Sessions c) \<le> nc_PerHostWorkers (cfg_Concurrency c) \<and>
     nc_PerHostWorkers (cfg_Concurrency c) \<le> nc_GlobalWorkers (cfg_Concurrency c) \<and>
     mkc_AllowedIntervals (cfg_Markets c) = [''1d''] \<and>
     mkc_DefaultAdjustmentPolicy (cfg_Markets c) \<in> {''raw'', ''split_dividend''} \<and>
     262144 \<le> bsc_MaxPayloadBytes (cfg_Bus c) \<and> bsc_MaxPayloadBytes (cfg_Bus c) \<le> 10485760 \<and>
     1 \<le> rtc_Attempts (cfg_Retry c) \<and>
     \<not> f_le (cbc_FailureThreshold (cfg_CircuitBreaker c)) (Fin 0) \<and> \<not> f_lt (Fin 1) (cbc_FailureThreshold (cfg_CircuitBreaker c)) \<and>
     \<not> (bsc_Enabled (cfg_Bus c) \<and> pbc_Backend (bsc_Publisher (cfg_Bus c)) = ''nats'' \<and>
        ntc_URL (pbc_NATS (bsc_Publisher (cfg_Bus c))) = []) \<and>
     \<not> (prc_Enabled (mtc_Prometheus (obc_Metrics (cfg_Observability c))) \<and>
        prc_Addr (mtc_Prometheus (obc_Metrics (cfg_Observability c))) = []) \<and>
     \<not> (otc_Enabled (trc_OTLP (obc_Tracing (cfg_Observability c))) \<and>
        otc_Endpoint (trc_OTLP (obc_Tracing (cfg_Observability c))) = [])"
  by (simp only: validate_def go_bind_eq_Ret go_guard_eq_Ret) auto

lemma validate_facts:
  assumes "validate c = Ret ()"
  shows "1 \<le> rtc_Attempts (cfg_Retry c)"
    "cbc_FailureThreshold (cfg_CircuitBreaker c) = Fin q \<Longrightarrow> 0 < q \<and> q \<le> 1"
  using assms by (auto simp: validate_def go_bind_eq_Ret)

text \<open>
  What a successful load promises: every configuration it returns, and stores, satisfies the validation. The loader's state
  is the last configuration loaded; a failed load keeps the old one.
\<close>

lemma validate_no_Panic: "validate c \<noteq> Panic p"
  by (simp add: validate_def go_bind_eq_Panic)

lemma Load_cases:
  assumes "Load getenv read_config to_config l = Some (l', r)"
  shows "ld_effectivePath l' = ld_effectivePath l \<and>
    (case r of Ret c \<Rightarrow> ld_config l' = Some c \<and> validate c = Ret () | _ \<Rightarrow> l' = l)"
proof (cases "read_config (ld_effectivePath l)")
  case (Ret m)
  then obtain m' where m: "interpolateEnvVars getenv m = Some m'" using assms by (auto simp: Load_def)
  show ?thesis
  proof (cases "to_config m'")
    case c: (Ret c)
    show ?thesis using assms by (cases "validate c") (auto simp: Load_def Let_def Ret m c)
  next
    case e: (Err e)
    show ?thesis using assms by (auto simp: Load_def Let_def Ret m e)
  next
    case e: (Panic p)
    show ?thesis using assms by (auto simp: Load_def Let_def Ret m e)
  qed
qed (use assms in \<open>auto simp: Load_def\<close>)

definition loader_ok :: "Loader \<Rightarrow> bool" where
  "loader_ok l \<longleftrightarrow> (\<forall>c. ld_config l = Some c \<longrightarrow> validate c = Ret ())"

text \<open>
  C26: A load returns when no environment value contains a dollar sign; the configuration a
  loader holds has always passed the validation, a failed load leaves the loader as it was,
  and a successful one stores what it returns.
\<close>

theorem Load_valid:
  assumes "\<forall>v. CHR ''$'' \<notin> set (getenv v)" "loader_ok l"
  shows "\<exists>l' r. Load getenv read_config to_config l = Some (l', r) \<and> loader_ok l' \<and>
    (case r of Ret c \<Rightarrow> ld_config l' = Some c | _ \<Rightarrow> l' = l)"
proof -
  have "Load getenv read_config to_config l \<noteq> None"
    using interpolate_tree_terminates(1) [OF assms(1), of "case read_config (ld_effectivePath l) of Ret m \<Rightarrow> m | _ \<Rightarrow> []"]
    by (cases "read_config (ld_effectivePath l)") (auto simp: Load_def)
  then obtain l' r where r: "Load getenv read_config to_config l = Some (l', r)" by auto
  then show ?thesis using Load_cases [OF r] assms(2) by (cases r) (auto simp: loader_ok_def)
qed

section \<open>Secrets\<close>

text \<open>The value at a path of keys.\<close>

fun at_path :: "cfg_map \<Rightarrow> string list \<Rightarrow> cfg_val option" where
  "at_path m [] = None"
| "at_path m [k] = map_of m k"
| "at_path m (k # k' # ks) = (case map_of m k of Some (CMap m') \<Rightarrow> at_path m' (k' # ks) | _ \<Rightarrow> None)"

definition redact_value :: "string \<Rightarrow> cfg_val \<Rightarrow> cfg_val" where
  "redact_value k v =
     (if k = ''secrets'' then v else if secret_key k then redacted
      else case v of CMap m' \<Rightarrow> CMap (redactSecretPatterns m') | _ \<Rightarrow> v)"

lemma map_of_redact: "map_of (redactSecretPatterns m) k = map_option (redact_value k) (map_of m k)"
  by (induction m rule: redactSecretPatterns.induct) (simp_all add: redact_value_def)

lemma redactSecretPatterns_paths:
  assumes "ks \<noteq> []" "''secrets'' \<notin> set ks"
  shows "at_path (redactSecretPatterns m) ks =
    (if list_ex secret_key (butlast ks) then None
     else map_option (redact_value (last ks)) (at_path m ks))"
  using assms
proof (induction m ks rule: at_path.induct)
  case (3 m k k' ks)
  show ?case
  proof (cases "map_of m k")
    case (Some v)
    then show ?thesis using 3 by (cases v) (auto simp: map_of_redact redact_value_def redacted_def)
  qed (simp add: map_of_redact)
qed (auto simp: map_of_redact)

lemma map_of_redact_list:
  assumes "map_of m ''secrets'' = Some (CSeq xs)"
  shows "map_of (redactSecrets m) ''secrets'' = Some (CSeq (map redact_ref xs))"
  using assms by (simp add: redactSecrets_def map_of_redact update_conv redact_value_def)

lemma at_path_update: "k \<noteq> k1 \<Longrightarrow> at_path (AList.update k v m) (k1 # ks) = at_path m (k1 # ks)"
  by (cases ks) (simp_all add: update_conv')

text \<open>
  Printing the configuration hides the value of every key whose name contains a secret
  pattern, at any depth of nested maps, changes no other value, and replaces the reference of
  every entry of the list of secrets.
\<close>

theorem redactSecrets_spec:
  assumes "ks \<noteq> []" "''secrets'' \<notin> set ks"
  shows "at_path (redactSecrets m) ks =
      (if list_ex secret_key (butlast ks) then None else map_option (redact_value (last ks)) (at_path m ks)) \<and>
    (map_of m ''secrets'' = Some (CSeq xs) \<longrightarrow>
      map_of (redactSecrets m) ''secrets'' = Some (CSeq (map redact_ref xs)))"
proof -
  obtain k ks' where ks: "ks = k # ks'" using assms(1) by (cases ks) auto
  have "at_path (case map_of m ''secrets'' of Some (CSeq xs) \<Rightarrow> AList.update ''secrets'' (CSeq (map redact_ref xs)) m | _ \<Rightarrow> m) ks =
      at_path m ks"
    using assms(2) unfolding ks by (auto simp: at_path_update split: option.split cfg_val.split)
  then show ?thesis using redactSecretPatterns_paths [OF assms] map_of_redact_list by (simp add: redactSecrets_def)
qed

lemma redactSecrets_spec_witness:
  "at_path (redactSecrets [(''bus'', CMap [(''nats_password'', CStr ''hunter2''), (''env'', CStr ''dev'')]),
      (''secrets'', CSeq [CMap [(''name'', CStr ''x''), (''ref'', CStr ''env:X'')]])]) [''bus'', ''nats_password''] = Some (CStr ''[REDACTED]'')"
proof -
  have k: "\<not> secret_key ''bus''" "secret_key ''nats_password''" by code_simp+
  show ?thesis
    using redactSecrets_spec [of "[''bus'', ''nats_password'']" "[(''bus'', CMap [(''nats_password'', CStr ''hunter2''), (''env'', CStr ''dev'')]),
      (''secrets'', CSeq [CMap [(''name'', CStr ''x''), (''ref'', CStr ''env:X'')]])]" "[]"] k
    by (simp add: redact_value_def redacted_def)
qed

text \<open>Too much and too little: a flag whose name contains a pattern is redacted, a password inside a list is not.\<close>

lemma flag_redacted:
  "at_path default_config [''scrape'', ''endpoints'', ''key_statistics''] = Some (CBool True)"
  "at_path (redactSecrets default_config) [''scrape'', ''endpoints'', ''key_statistics''] = Some redacted"
proof -
  have k: "\<not> secret_key ''scrape''" "\<not> secret_key ''endpoints''" "secret_key ''key_statistics''" by code_simp+
  show d: "at_path default_config [''scrape'', ''endpoints'', ''key_statistics''] = Some (CBool True)"
    by (simp add: default_config_def)
  have s: "map_of default_config ''secrets'' = Some (CSeq [])" by (simp add: default_config_def)
  have "at_path (redactSecrets default_config) [''scrape'', ''endpoints'', ''key_statistics''] =
      at_path (redactSecretPatterns default_config) [''scrape'', ''endpoints'', ''key_statistics'']"
    unfolding redactSecrets_def s by (simp add: map_of_redact update_conv')
  then show "at_path (redactSecrets default_config) [''scrape'', ''endpoints'', ''key_statistics''] = Some redacted"
    using redactSecretPatterns_paths [of "[''scrape'', ''endpoints'', ''key_statistics'']" default_config] k d
    by (simp add: redact_value_def)
qed

lemma list_not_redacted: "redactSecretPatterns [(''users'', CSeq [CMap [(''password'', v)]])] = [(''users'', CSeq [CMap [(''password'', v)]])]"
proof -
  have "\<not> secret_key ''users''" by code_simp
  then show ?thesis by simp
qed

section \<open>The client of the command line\<close>

text \<open>
  A validated configuration with a failure threshold of at least 0.01 gives a client that
  makes at least one attempt and a breaker that opens exactly when the failures of the
  process, however many successes lie between, reach the integer part of a hundred times the
  threshold: the configured rate is used as an absolute count.
\<close>

theorem createClient_breaker:
  assumes "validate c = Ret ()" "cbc_FailureThreshold (cfg_CircuitBreaker c) = Fin q" "1 / 100 \<le> q"
  shows "let h = createClient_config ovf flags c; cb = note_all evs (cl_circuitBreaker (NewClient ovf now (Some h)));
      n = int (length (filter (\<lambda>ev. ev \<noteq> None) evs))
    in 1 \<le> hc_MaxAttempts h \<and> 1 \<le> hc_FailureThreshold h \<and> hc_FailureThreshold h \<le> 100 \<and>
       (breaker_State cb = StateOpen \<longleftrightarrow> hc_FailureThreshold h \<le> n)"
proof -
  define h where "h = createClient_config ovf flags c"
  have v: "1 \<le> rtc_Attempts (cfg_Retry c)" "q \<le> 1" using assms(1,2) by (simp_all add: validate_facts)
  have one: "fl 1 = Fin 1" and hundred: "fl 100 = Fin 100" using fl_of_int [of 1] fl_of_int [of 100] by simp_all
  obtain y where y: "fl (q * 100) = Fin y" "1 \<le> y" "y \<le> 100"
    by (rule fl_between [OF one hundred, of "q * 100"]) (use assms(3) v in simp_all)
  have t: "hc_FailureThreshold h = \<lfloor>y\<rfloor>"
    using y by (simp add: h_def createClient_config_def GetHTTPConfig_def assms(2) f_to_int64_def trunc_rat_def Let_def)
  have th: "1 \<le> hc_FailureThreshold h" "hc_FailureThreshold h \<le> 100" using y t by linarith+
  let ?cb0 = "NewHttpCircuitBreaker (hc_CircuitWindow h) (hc_FailureThreshold h) (hc_ResetTimeout h)"
  have "hb_inv ?cb0" "hb_state ?cb0 \<noteq> StateHalfOpen" using th by (simp_all add: hb_inv_def NewHttpCircuitBreaker_def)
  note b = note_all_counts [OF this, of evs]
  have cb: "cl_circuitBreaker (NewClient ovf now (Some h)) = ?cb0" by (simp add: NewClient_def Let_def)
  have "breaker_State (note_all evs ?cb0) = StateOpen \<longleftrightarrow> hc_FailureThreshold h \<le> int (length (filter (\<lambda>ev. ev \<noteq> None) evs))"
    using b by (cases "hb_state (note_all evs ?cb0)") (auto simp: breaker_State_def hb_inv_def NewHttpCircuitBreaker_def)
  moreover have "1 \<le> hc_MaxAttempts h" using v by (simp add: h_def createClient_config_def GetHTTPConfig_def Let_def)
  ultimately show ?thesis using th by (simp add: Let_def cb flip: h_def)
qed

lemma sample_threshold: "cbc_FailureThreshold (cfg_CircuitBreaker sample_config) = Fin (of_int 5404319552844595 * 2 powi -54)"
proof -
  have "fl (30 / 100) = Fin (of_int 5404319552844595 * 2 powi -54)"
    by (rule fl_eval) (simp_all add: power_int_minus divide_simps)
  then show ?thesis by (simp add: sample_config_def)
qed

lemma sample_valid: "validate sample_config = Ret ()"
proof -
  note t = sample_threshold
  have q: "0 < (of_int 5404319552844595 * 2 powi -54 :: rat)" "(of_int 5404319552844595 * 2 powi -54 :: rat) \<le> 1"
    by (simp_all add: power_int_minus divide_simps)
  have "\<not> f_le (cbc_FailureThreshold (cfg_CircuitBreaker sample_config)) (Fin 0)"
    "\<not> f_lt (Fin 1) (cbc_FailureThreshold (cfg_CircuitBreaker sample_config))"
    unfolding t using q by (simp_all del: of_int_numeral)
  then show ?thesis unfolding validate_def by (simp add: sample_config_def)
qed

lemma createClient_breaker_witness:
  "let h = createClient_config (\<lambda>_. 0) \<lparr>gc_QPS = Fin 0, gc_RetryMax = 0, gc_Timeout = 0\<rparr> sample_config
   in 1 \<le> hc_FailureThreshold h \<and> hc_FailureThreshold h \<le> 100 \<and>
     breaker_State (note_all [] (cl_circuitBreaker (NewClient (\<lambda>_. 0) 5 (Some h)))) \<noteq> StateOpen"
  using createClient_breaker [OF sample_valid sample_threshold, of "\<lambda>_. 0" "\<lparr>gc_QPS = Fin 0, gc_RetryMax = 0, gc_Timeout = 0\<rparr>" "[]" 5]
  by (simp add: Let_def power_int_minus divide_simps)

lemma Load_valid_witness:
  "\<exists>l' r. Load (\<lambda>v. if v = ''HOST'' then ''localhost'' else []) (\<lambda>_. Ret [(''url'', CStr ''nats://${HOST}'')]) (\<lambda>m. Ret sample_config)
      (NewLoader ''effective.yaml'') = Some (l', r) \<and> ld_config l' = Some sample_config"
proof -
  let ?g = "\<lambda>v. if v = ''HOST'' then ''localhost'' else []" and ?m = "[(''url'', CStr ''nats://${HOST}'')]"
  obtain l' r where r: "Load ?g (\<lambda>_. Ret ?m) (\<lambda>m. Ret sample_config) (NewLoader ''effective.yaml'') = Some (l', r)"
    "case r of Ret c \<Rightarrow> ld_config l' = Some c | _ \<Rightarrow> l' = NewLoader ''effective.yaml''"
    using Load_valid [of ?g "NewLoader ''effective.yaml''" "\<lambda>_. Ret ?m" "\<lambda>m. Ret sample_config"]
    by (auto simp: loader_ok_def NewLoader_def)
  have "r = Ret sample_config" using r(1) sample_valid by (auto simp: Load_def NewLoader_def)
  then show ?thesis using r by auto
qed

end
