(* ===== verification/ScrapeErrors.thy ===== *)
theory ScrapeErrors
  imports Httpx GoStrings
begin

text \<open>
  The errors of the scraper, \<^verbatim>\<open>internal/scrape/errors.go\<close>, and the text of every error type the repository declares, which
  the decision to retry inspects. The rendering of floats and times by \<^verbatim>\<open>fmt\<close> and of a \<^verbatim>\<open>url.Error\<close> around its cause are the
  fields of \<open>text_lib\<close>.
\<close>

section \<open>Error texts\<close>

record text_lib =
  tl_arg :: "fmt_arg \<Rightarrow> string"
  tl_url :: "string \<Rightarrow> string"

fun arg_text :: "text_lib \<Rightarrow> fmt_arg \<Rightarrow> string" where
  "arg_text tx (AInt n) = show_int n"
| "arg_text tx (AStr s) = s"
| "arg_text tx a = tl_arg tx a"

text \<open>
  \<^verbatim>\<open>fmt.Sprintf\<close>: two percent signs stand for one; a percent sign, flags and a verb take the next argument; \<^verbatim>\<open>%w\<close> takes the wrapped error, whose text is \<open>w\<close>.
\<close>

function go_sprintf :: "text_lib \<Rightarrow> string \<Rightarrow> string \<Rightarrow> fmt_arg list \<Rightarrow> string" where
  "go_sprintf tx w [] xs = []"
| "go_sprintf tx w (c # cs) xs =
     (if c \<noteq> CHR ''%'' then c # go_sprintf tx w cs xs
      else if take 1 cs = ''%'' then CHR ''%'' # go_sprintf tx w (drop 1 cs) xs
      else case dropWhile (\<lambda>c. \<not> is_lower c) cs of
        [] \<Rightarrow> []
      | v # rest \<Rightarrow>
          if v = CHR ''w'' then w @ go_sprintf tx w rest xs
          else (case xs of [] \<Rightarrow> go_sprintf tx w rest [] | x # xs' \<Rightarrow> arg_text tx x @ go_sprintf tx w rest xs'))"
  by pat_completeness auto
termination
proof (relation "measure (\<lambda>(tx, w, f, xs). length f)")
  have "length rest < Suc (length cs)" if "dropWhile (\<lambda>c. \<not> is_lower c) cs = v # rest" for cs v rest
    using length_dropWhile_le [of "\<lambda>c. \<not> is_lower c" cs] that by simp
  then show "dropWhile (\<lambda>c. \<not> is_lower c) cs = v # rest \<Longrightarrow>
      ((tx, w, rest, ys), (tx, w, c # cs, xs)) \<in> measure (\<lambda>(tx, w, f, xs). length f)"
    "dropWhile (\<lambda>c. \<not> is_lower c) cs = v # rest \<Longrightarrow>
      ((tx, w, rest, ys), (tx, w, c # cs, xs)) \<in> measure (\<lambda>(tx, w, f, xs). length f)"
    "dropWhile (\<lambda>c. \<not> is_lower c) cs = v # rest \<Longrightarrow>
      ((tx, w, rest, ys), (tx, w, c # cs, xs)) \<in> measure (\<lambda>(tx, w, f, xs). length f)"
    for tx w c cs v rest xs ys by simp_all
qed simp_all

fun error_text :: "text_lib \<Rightarrow> goerror \<Rightarrow> string" where
  "error_text tx (Errorf f xs) = go_sprintf tx [] f xs"
| "error_text tx (Wrapf f xs e) = go_sprintf tx (error_text tx e) f xs"
| "error_text tx (ErrorString s) = s"
| "error_text tx ContextCanceled = ''context canceled''"
| "error_text tx ContextDeadlineExceeded = ''context deadline exceeded''"
| "error_text tx (UrlError e) = tl_url tx (error_text tx e)"
| "error_text tx (ExternalError s) = s"
| "error_text tx (RetryableError e) = error_text tx e"
| "error_text tx (HTTPError code msg None) = ''HTTP '' @ show_int code @ '': '' @ msg"
| "error_text tx (HTTPError code msg (Some e)) = ''HTTP '' @ show_int code @ '': '' @ msg @ '': '' @ error_text tx e"
| "error_text tx (TransportError e) = ''transport error: '' @ error_text tx e"
| "error_text tx (ScrapeError t msg url status) =
     t @ '': '' @ msg @ '' (URL: '' @ url @ (if 0 < status then '', Status: '' @ show_int status @ '')'' else '')'')"
| "error_text tx (ValidationError field f xs) = go_sprintf tx [] f xs"

section \<open>The scraper's errors\<close>

definition scrape_error :: "string \<Rightarrow> string \<Rightarrow> goerror" where
  "scrape_error t msg = ScrapeError t msg [] 0"

definition ErrRobotsDenied :: goerror where "ErrRobotsDenied = scrape_error ''robots_denied'' ''robots.txt disallows this path''"
definition ErrScrapeTimeout :: goerror where "ErrScrapeTimeout = scrape_error ''timeout'' ''request timeout''"
definition ErrTooManyRedirects :: goerror where
  "ErrTooManyRedirects = scrape_error ''too_many_redirects'' ''exceeded maximum redirect limit''"
definition ErrRetryExhausted :: goerror where "ErrRetryExhausted = scrape_error ''retry_exhausted'' ''maximum retry attempts exceeded''"
definition ErrScrapeRateLimited :: goerror where "ErrScrapeRateLimited = scrape_error ''rate_limited'' ''rate limit exceeded''"
definition ErrScrapeCircuitOpen :: goerror where "ErrScrapeCircuitOpen = scrape_error ''circuit_open'' ''circuit breaker is open''"
definition ErrInvalidURL :: goerror where "ErrInvalidURL = scrape_error ''invalid_url'' ''invalid URL format''"
definition ErrContentTooLarge :: goerror where
  "ErrContentTooLarge = scrape_error ''content_too_large'' ''response content exceeds size limit''"
definition ErrNoQuoteSummary :: goerror where
  "ErrNoQuoteSummary = scrape_error ''no_quote_summary'' ''could not locate quoteSummary script payload''"
definition ErrJSONUnescape :: goerror where "ErrJSONUnescape = scrape_error ''json_unescape'' ''failed to unescape JSON from envelope body''"
definition ErrJSONDecode :: goerror where "ErrJSONDecode = scrape_error ''json_decode'' ''failed to decode JSON structure''"
definition ErrMissingFieldBase :: goerror where "ErrMissingFieldBase = scrape_error ''missing_field'' ''required field is missing''"
definition ErrSchemaDriftBase :: goerror where "ErrSchemaDriftBase = scrape_error ''schema_drift'' ''unexpected schema change detected''"
definition ErrNewsNoArticles :: goerror where "ErrNewsNoArticles = scrape_error ''news_no_articles'' ''no news articles found''"
definition ErrNewsParse :: goerror where "ErrNewsParse = scrape_error ''news_parse'' ''failed to parse news HTML''"

text \<open>\<open>status_text\<close> is \<^verbatim>\<open>http.StatusText\<close>.\<close>

definition ErrHTTP :: "(int \<Rightarrow> string) \<Rightarrow> int \<Rightarrow> string \<Rightarrow> goerror" where
  "ErrHTTP status_text status url = ScrapeError ''http_error'' (status_text status) url status"

definition indexOf :: "string \<Rightarrow> string \<Rightarrow> int" where
  "indexOf s sub =
     (case find (\<lambda>i. take (length sub) (drop i s) = sub) [0..<length s + 1 - length sub] of
        Some i \<Rightarrow> int i | None \<Rightarrow> -1)"

definition contains :: "string \<Rightarrow> string \<Rightarrow> bool" where
  "contains s sub \<longleftrightarrow> length sub \<le> length s \<and>
     (s = sub \<or>
       length sub < length s \<and>
         (take (length sub) s = sub \<or> drop (length s - length sub) s = sub \<or> 0 \<le> indexOf s sub))"

definition networkErrors :: "string list" where
  "networkErrors = [''connection refused'', ''connection reset'', ''timeout'', ''no such host'', ''network is unreachable'']"

definition isNetworkError :: "text_lib \<Rightarrow> goerror \<Rightarrow> bool" where
  "isNetworkError tx err = list_ex (contains (error_text tx err)) networkErrors"

definition scrape_IsRetryableError :: "text_lib \<Rightarrow> goerror option \<Rightarrow> bool" where
  "scrape_IsRetryableError tx e =
     (case e of
        None \<Rightarrow> False
      | Some (ScrapeError t msg url status) \<Rightarrow>
          if t = ''timeout'' \<or> t = ''rate_limited'' then True
          else if t = ''http_error'' then status = 429 \<or> 500 \<le> status \<and> status < 600
          else False
      | Some err \<Rightarrow> isNetworkError tx err)"

section \<open>The hand-written search\<close>

lemma indexOf_sublist: "0 \<le> indexOf s sub \<longleftrightarrow> sublist sub s"
proof
  assume "0 \<le> indexOf s sub"
  then obtain i where "take (length sub) (drop i s) = sub"
    by (auto simp: indexOf_def find_Some_iff split: option.splits)
  then show "sublist sub s" by (metis append_take_drop_id sublist_def)
next
  assume "sublist sub s"
  then obtain u v where s: "s = u @ sub @ v" by (auto simp: sublist_def)
  then have "length u \<in> set [0..<length s + 1 - length sub]" "take (length sub) (drop (length u) s) = sub" by auto
  then show "0 \<le> indexOf s sub"
    unfolding indexOf_def by (metis (mono_tags, lifting) find_None_iff2 int_ops(1) of_nat_0_le_iff option.case_eq_if option.exhaust_sel)
qed

lemma contains_Contains: "contains s sub \<longleftrightarrow> Contains s sub"
proof
  assume "contains s sub"
  then show "Contains s sub"
    unfolding contains_def Contains_def by (metis append_take_drop_id sublist_def indexOf_sublist append_Nil append_Nil2)
next
  assume c: "Contains s sub"
  then have sub: "sublist sub s" by (simp add: Contains_def)
  then have i: "0 \<le> indexOf s sub" and le: "length sub \<le> length s" by (simp_all add: indexOf_sublist sublist_length_le)
  show "contains s sub"
  proof (cases "length sub = length s")
    case True
    obtain u v where "s = u @ sub @ v" using sub by (auto simp: sublist_def)
    then have "s = sub" using True by simp
    then show ?thesis using le by (simp add: contains_def)
  next
    case False
    then show ?thesis using i le by (simp add: contains_def)
  qed
qed

theorem contains_eq: "contains s sub \<longleftrightarrow> sublist sub s"
  by (simp add: contains_Contains Contains_def)

text \<open>The comment says the search ignores case; it does not, so Go's own time-out text is no network error.\<close>

lemma client_timeout_not_retried:
  "\<not> isNetworkError tx (ExternalError ''context deadline exceeded (Client.Timeout exceeded while awaiting headers)'')"
proof -
  have "\<not> list_ex (contains ''context deadline exceeded (Client.Timeout exceeded while awaiting headers)'') networkErrors" by code_simp
  then show ?thesis by (simp add: isNetworkError_def)
qed

end
