(* ===== verification/ScrapeRobots.thy ===== *)
theory ScrapeRobots
  imports ScrapeErrors "HOL-Library.AList"
begin

text \<open>
  The crawl policy: \<^verbatim>\<open>internal/scrape/robots.go\<close> and its types in \<^verbatim>\<open>types.go\<close>. Fetching \<^verbatim>\<open>robots.txt\<close> and the clock are the
  operations of \<open>robots_env\<close> on a state; the cache of the manager is an association list.
\<close>

section \<open>Types\<close>

definition RobotsEnforce :: string where "RobotsEnforce = ''enforce''"
definition RobotsWarn :: string where "RobotsWarn = ''warn''"
definition RobotsIgnore :: string where "RobotsIgnore = ''ignore''"

definition IsValidRobotsPolicy :: "string \<Rightarrow> bool" where
  "IsValidRobotsPolicy policy \<longleftrightarrow> policy = RobotsEnforce \<or> policy = RobotsWarn \<or> policy = RobotsIgnore"

record RobotsRule =
  ru_UserAgent :: string
  ru_Allow :: "string list"
  ru_Disallow :: "string list"

record RobotsCache =
  rc_Host :: string
  rc_Rules :: "RobotsRule list"
  rc_FetchedAt :: instant
  rc_TTL :: duration

definition IsExpired :: "instant \<Rightarrow> RobotsCache \<Rightarrow> bool" where
  "IsExpired now rc \<longleftrightarrow> rc_TTL rc < time_Sub now (rc_FetchedAt rc)"

record RobotsManager =
  rm_policy :: string
  rm_ttl :: duration
  rm_cache :: "(string \<times> RobotsCache) list"

definition NewRobotsManager :: "string \<Rightarrow> duration \<Rightarrow> RobotsManager" where
  "NewRobotsManager policy ttl =
     \<lparr>rm_policy = (if \<not> IsValidRobotsPolicy policy then RobotsEnforce else policy), rm_ttl = ttl, rm_cache = []\<rparr>"

section \<open>Reading the file\<close>

text \<open>
  \<^verbatim>\<open>bufio.Scanner\<close>: the lines without their ends; a line that does not fit its buffer of 64 KiB ends the scan with an error.
\<close>

definition raw_lines :: "string \<Rightarrow> string list" where
  "raw_lines s = (let ls = split_char (CHR 0x0A) s in if last ls = [] then butlast ls else ls)"

definition drop_cr :: "string \<Rightarrow> string" where
  "drop_cr l = (if l \<noteq> [] \<and> last l = CHR 0x0D then butlast l else l)"

definition fits_line :: "string \<Rightarrow> bool" where "fits_line l \<longleftrightarrow> length l < 65536"

definition scan_lines :: "string \<times> goerror option \<Rightarrow> string list \<times> goerror option" where
  "scan_lines = (\<lambda>(bytes, err).
     (map drop_cr (takeWhile fits_line (raw_lines bytes)),
      if list_all fits_line (raw_lines bytes) then err else Some (ErrorString ''bufio.Scanner: token too long'')))"

fun robots_line :: "RobotsRule list \<times> RobotsRule option \<Rightarrow> string \<Rightarrow> RobotsRule list \<times> RobotsRule option" where
  "robots_line (rules, current) text_line =
     (let line = TrimSpace text_line; parts = splitN2_char CHR '':'' line in
      if line = [] \<or> HasPrefix line ''#'' \<or> length parts \<noteq> 2 then (rules, current)
      else
        let directive = ToLower (TrimSpace (parts ! 0)); val = TrimSpace (parts ! 1) in
        if directive = ''user-agent'' then
          (rules @ (case current of None \<Rightarrow> [] | Some r \<Rightarrow> [r]), Some \<lparr>ru_UserAgent = val, ru_Allow = [], ru_Disallow = []\<rparr>)
        else if directive = ''allow'' then
          (rules, map_option (\<lambda>r. r\<lparr>ru_Allow := ru_Allow r @ [val]\<rparr>) current)
        else if directive = ''disallow'' then
          (rules, map_option (\<lambda>r. r\<lparr>ru_Disallow := ru_Disallow r @ [val]\<rparr>) current)
        else (rules, current))"

definition parseRobotsTxt :: "string \<times> goerror option \<Rightarrow> RobotsRule list go" where
  "parseRobotsTxt body =
     (let (ls, err) = scan_lines body;
          (rules, current) = foldl robots_line ([], None) ls;
          all_rules = rules @ (case current of None \<Rightarrow> [] | Some r \<Rightarrow> [r])
      in case err of Some e \<Rightarrow> Err (Wrapf ''failed to read robots.txt: %w'' [] e) | None \<Rightarrow> Ret all_rules)"

section \<open>Matching\<close>

text \<open>\<^verbatim>\<open>url.PathEscape\<close>: every byte but letters, digits and \<^verbatim>\<open>-_.~$&+=:@\<close> becomes a percent sign and two hexadecimal digits.\<close>

definition path_char :: "char \<Rightarrow> bool" where
  "path_char c \<longleftrightarrow> is_upper c \<or> is_lower c \<or> is_digit c \<or> c \<in> set ''-_.~$&+=:@''"

definition PathEscape :: "string \<Rightarrow> string" where
  "PathEscape s = concat (map (\<lambda>c. if path_char c then [c]
     else [CHR ''%'', hex_digit (code_of c div 16), hex_digit (code_of c mod 16)]) s)"

definition pathMatches :: "string \<Rightarrow> string \<Rightarrow> bool" where
  "pathMatches path pattern =
     (if pattern = [] then False
      else if Contains pattern ''*'' then Contains (PathEscape path) (replace_char CHR ''*'' ''.*'' pattern)
      else HasPrefix path pattern)"

definition wildcard_rule :: "RobotsRule \<Rightarrow> bool" where "wildcard_rule r \<longleftrightarrow> ru_UserAgent r = ''*''"

definition applicable_rules :: "RobotsRule list \<Rightarrow> RobotsRule list" where
  "applicable_rules rules =
     (let own = filter (\<lambda>r. wildcard_rule r \<or> Contains (ToLower (ru_UserAgent r)) ''ampy'') rules
      in if own = [] then filter wildcard_rule rules else own)"

definition rule_allows :: "string \<Rightarrow> RobotsRule \<Rightarrow> bool" where
  "rule_allows path r \<longleftrightarrow>
     list_all (\<lambda>d. pathMatches path d \<longrightarrow> list_ex (\<lambda>a. pathMatches path a \<and> length d < length a) (ru_Allow r)) (ru_Disallow r)"

definition isPathAllowed :: "RobotsCache \<Rightarrow> string \<Rightarrow> bool" where
  "isPathAllowed robots path =
     (if applicable_rules (rc_Rules robots) = [] then True else list_all (rule_allows path) (applicable_rules (rc_Rules robots)))"

section \<open>The manager\<close>

record 's robots_env =
  ro_newRequest :: "string \<Rightarrow> unit go"
  ro_get :: "string \<Rightarrow> 's \<Rightarrow> 's \<times> (int \<times> (string \<times> goerror option)) go"
  ro_clock :: "'s \<Rightarrow> instant"

definition robots_url :: "string \<Rightarrow> string" where "robots_url host = ''https://'' @ host @ ''/robots.txt''"

definition getRobots :: "'s robots_env \<Rightarrow> string \<Rightarrow> RobotsManager \<times> 's \<Rightarrow> (RobotsManager \<times> 's) \<times> RobotsCache go" where
  "getRobots env host = (\<lambda>(rm, s).
     (let fetch =
        (case go_wrap ''failed to create robots.txt request: %w'' [] (ro_newRequest env (robots_url host)) of
           Err e \<Rightarrow> ((rm, s), Err e)
         | Panic p \<Rightarrow> ((rm, s), Panic p)
         | Ret _ \<Rightarrow>
             (case ro_get env (robots_url host) s of (s1, resp) \<Rightarrow>
               (case go_bind (go_wrap ''failed to fetch robots.txt: %w'' [] resp) (\<lambda>(status, body).
                       if status \<noteq> 200 then Err (Errorf ''robots.txt returned status %d'' [AInt status])
                       else go_wrap ''failed to parse robots.txt: %w'' [] (parseRobotsTxt body)) of
                  Err e \<Rightarrow> ((rm, s1), Err e)
                | Panic p \<Rightarrow> ((rm, s1), Panic p)
                | Ret rules \<Rightarrow>
                    let robots = \<lparr>rc_Host = host, rc_Rules = rules, rc_FetchedAt = ro_clock env s1, rc_TTL = rm_ttl rm\<rparr>
                    in ((rm\<lparr>rm_cache := AList.update host robots (rm_cache rm)\<rparr>, s1), Ret robots))))
      in case map_of (rm_cache rm) host of
           Some cached \<Rightarrow> if \<not> IsExpired (ro_clock env s) cached then ((rm, s), Ret cached) else fetch
         | None \<Rightarrow> fetch))"

definition CheckRobots ::
  "text_lib \<Rightarrow> 's robots_env \<Rightarrow> string \<Rightarrow> string \<Rightarrow> RobotsManager \<times> 's \<Rightarrow> (RobotsManager \<times> 's) \<times> unit go" where
  "CheckRobots tx env host path = (\<lambda>(rm, s).
     (if rm_policy rm = RobotsIgnore then ((rm, s), Ret ())
      else case getRobots env host (rm, s) of
        (st, Err e) \<Rightarrow>
          (st, if rm_policy rm = RobotsWarn then Ret ()
               else Err (ScrapeError ''robots_fetch_failed'' (''failed to fetch robots.txt: '' @ error_text tx e) (robots_url host) 0))
      | (st, Panic p) \<Rightarrow> (st, Panic p)
      | (st, Ret robots) \<Rightarrow>
          (st, if isPathAllowed robots path \<or> rm_policy rm = RobotsWarn then Ret ()
               else Err (ScrapeError ''robots_denied'' (''robots.txt disallows path: '' @ path) (''https://'' @ host @ path) 0))))"

definition ClearCache :: "RobotsManager \<Rightarrow> RobotsManager" where
  "ClearCache rm = rm\<lparr>rm_cache := []\<rparr>"

record CacheStats =
  cst_cached_hosts :: nat
  cst_policy :: string
  cst_ttl :: duration
  cst_expired_entries :: nat

definition GetCacheStats :: "instant \<Rightarrow> RobotsManager \<Rightarrow> CacheStats" where
  "GetCacheStats now rm =
     \<lparr>cst_cached_hosts = length (rm_cache rm), cst_policy = rm_policy rm, cst_ttl = rm_ttl rm,
      cst_expired_entries = length (filter (\<lambda>(h, c). IsExpired now c) (rm_cache rm))\<rparr>"

section \<open>What the rules mean\<close>

lemma PathEscape_no_star: "CHR ''*'' \<notin> set (PathEscape s)"
proof -
  have "CHR ''*'' \<noteq> hex_digit n" if "n < 16" for n
  proof -
    have "n \<in> {0..<16}" using that by simp
    then have "n \<in> set [0..<16]" by simp
    moreover have "list_all (\<lambda>n. CHR ''*'' \<noteq> hex_digit n) [0..<16]" by code_simp
    ultimately show ?thesis by (simp add: list_all_iff)
  qed
  moreover have "code_of c div 16 < 16" "code_of c mod 16 < 16" for c
    using nat_of_char_less_256 [of c] by (simp_all add: code_of_def less_mult_imp_div_less)
  ultimately have h: "hex_digit (code_of c div 16) \<noteq> CHR ''*''" "hex_digit (code_of c mod 16) \<noteq> CHR ''*''" for c by metis+
  have p: "\<not> path_char CHR ''*''" by code_simp
  have "CHR ''*'' \<notin> set (if path_char c then [c] else [CHR ''%'', hex_digit (code_of c div 16), hex_digit (code_of c mod 16)])" for c
  proof (cases "path_char c")
    case True
    then have "c \<noteq> CHR ''*''" using p by metis
    then show ?thesis using True by simp
  qed (use h [of c] in simp)
  then show ?thesis unfolding PathEscape_def set_concat set_map by blast
qed

text \<open>A pattern that is compared with the path: not empty and without a wildcard.\<close>

definition plain_pattern :: "string \<Rightarrow> bool" where
  "plain_pattern p \<longleftrightarrow> p \<noteq> [] \<and> CHR ''*'' \<notin> set p"

lemma pathMatches_eq: "pathMatches path p \<longleftrightarrow> plain_pattern p \<and> prefix p path"
proof (cases "CHR ''*'' \<in> set p")
  case True
  then have "CHR ''*'' \<in> set (replace_char CHR ''*'' ''.*'' p)" by (auto simp: replace_char_def)
  then have "\<not> Contains (PathEscape path) (replace_char CHR ''*'' ''.*'' p)"
    using PathEscape_no_star [of path] set_mono_sublist by (fastforce simp: Contains_def)
  then show ?thesis using True Contains_char [of p "CHR ''*''"] by (auto simp: pathMatches_def plain_pattern_def)
next
  case False
  then show ?thesis using Contains_char [of p "CHR ''*''"] by (simp add: pathMatches_def plain_pattern_def HasPrefix_def)
qed

lemma applicable_rules_eq:
  "applicable_rules rules = filter (\<lambda>r. wildcard_rule r \<or> Contains (ToLower (ru_UserAgent r)) ''ampy'') rules"
  by (auto simp: applicable_rules_def Let_def filter_empty_conv)

text \<open>
  A path is allowed exactly when each matching Disallow prefix of a rule for all agents
  or for this one is overridden by a longer matching Allow prefix of the same rule; a pattern
  with a star, for Allow or Disallow, matches no path at all.
\<close>

theorem isPathAllowed_iff:
  "isPathAllowed robots path \<longleftrightarrow>
     \<not> (\<exists>r \<in> set (rc_Rules robots). (ru_UserAgent r = ''*'' \<or> Contains (ToLower (ru_UserAgent r)) ''ampy'') \<and>
        (\<exists>d \<in> set (ru_Disallow r). plain_pattern d \<and> prefix d path \<and>
          \<not> (\<exists>a \<in> set (ru_Allow r). plain_pattern a \<and> prefix a path \<and> length d < length a)))"
  by (auto simp: isPathAllowed_def applicable_rules_eq rule_allows_def pathMatches_eq wildcard_rule_def list_all_iff list_ex_iff filter_empty_conv)


section \<open>Printing and reading back\<close>

definition robots_field :: "string \<Rightarrow> string \<Rightarrow> string" where
  "robots_field name val = name @ '': '' @ val @ [CHR 0x0A]"

definition print_rule :: "RobotsRule \<Rightarrow> string" where
  "print_rule r = robots_field ''User-agent'' (ru_UserAgent r) @
     concat (map (robots_field ''Allow'') (ru_Allow r)) @ concat (map (robots_field ''Disallow'') (ru_Disallow r))"

definition robots_value :: "string \<Rightarrow> bool" where
  "robots_value v \<longleftrightarrow> TrimSpace v = v \<and> CHR 0x0A \<notin> set v \<and> length v < 65520"

definition printable_rule :: "RobotsRule \<Rightarrow> bool" where
  "printable_rule r \<longleftrightarrow> robots_value (ru_UserAgent r) \<and> list_all robots_value (ru_Allow r) \<and> list_all robots_value (ru_Disallow r)"

definition field_line :: "string \<Rightarrow> string \<Rightarrow> string" where "field_line name val = name @ '': '' @ val"

definition field_names :: "string list" where "field_names = [''User-agent'', ''Allow'', ''Disallow'']"

lemma TrimSpace_keeps:
  assumes "s \<noteq> []" "\<not> is_space (hd s)" "\<not> is_space (last s)"
  shows "TrimSpace s = s"
proof -
  have "dropWhile is_space s = s" using assms by (cases s) auto
  moreover have "dropWhile is_space (rev s) = rev s" using assms by (cases s rule: rev_cases) auto
  ultimately show ?thesis by (simp add: TrimSpace_def)
qed

lemma TrimSpace_fixed:
  assumes "TrimSpace v = v" "v \<noteq> []"
  shows "\<not> is_space (hd v)" "\<not> is_space (last v)"
proof -
  have "hd (dropWhile P xs) \<noteq> x \<or> \<not> P x" if "dropWhile P xs \<noteq> []" for P :: "char \<Rightarrow> bool" and xs x
    using hd_dropWhile [OF that] by auto
  define u where "u = dropWhile is_space v"
  have u: "v = rev (dropWhile is_space (rev u))" using assms(1) by (simp add: TrimSpace_def u_def)
  have ne: "dropWhile is_space (rev u) \<noteq> []" using u assms(2) by auto
  then show "\<not> is_space (last v)" using hd_dropWhile [OF ne] u by (metis last_rev)
  have len: "length v \<le> length u" using u length_dropWhile_le [of is_space "rev u"] by (metis length_rev)
  moreover have "length u \<le> length v" using length_dropWhile_le [of is_space v] by (simp add: u_def)
  ultimately have "u = v" by (metis u_def dropWhile_eq_drop drop_0 le_antisym append_take_drop_id length_append add_cancel_left_left length_0_conv append_Nil)
  then have "dropWhile is_space v \<noteq> []" using assms(2) u_def by simp
  from hd_dropWhile [OF this] show "\<not> is_space (hd v)" using \<open>u = v\<close> u_def by simp
qed

lemma TrimSpace_space: "TrimSpace (CHR '' '' # v) = TrimSpace v"
  by (simp add: TrimSpace_def is_space_def code_of_def)

lemma field_parts:
  assumes "name \<in> set field_names" "robots_value v"
  shows "splitN2_char CHR '':'' (TrimSpace (drop_cr (field_line name v))) = [name, (if v = [] then [] else CHR '' '' # v)]"
    "TrimSpace (drop_cr (field_line name v)) \<noteq> []" "\<not> HasPrefix (TrimSpace (drop_cr (field_line name v))) ''#''"
proof -
  have nm: "name \<noteq> []" "\<not> is_space (hd name)" "CHR '':'' \<notin> set name" "hd name \<noteq> CHR ''#''" "\<not> is_space CHR '':''"
    using assms(1) by (auto simp: field_names_def is_space_def code_of_def)
  have fl: "TrimSpace (drop_cr (field_line name v)) = name @ CHR '':'' # (if v = [] then [] else CHR '' '' # v)"
  proof (cases "v = []")
    case True
    have "TrimSpace (name @ '': '') = name @ '':''"
    proof -
      have "dropWhile is_space (name @ '': '') = name @ '': ''" using nm by (cases name) auto
      then show ?thesis using nm by (simp add: TrimSpace_def is_space_def code_of_def)
    qed
    then show ?thesis using True by (simp add: field_line_def drop_cr_def)
  next
    case False
    note t = TrimSpace_fixed [OF _ False]
    have v: "\<not> is_space (last v)" using t assms(2) by (simp add: robots_value_def)
    then have "last v \<noteq> CHR 0x0D" by (auto simp: is_space_def code_of_def)
    then have "drop_cr (field_line name v) = name @ CHR '':'' # CHR '' '' # v" using False by (simp add: field_line_def drop_cr_def)
    moreover have "TrimSpace (name @ CHR '':'' # CHR '' '' # v) = name @ CHR '':'' # CHR '' '' # v"
      by (rule TrimSpace_keeps) (use nm v False in simp_all)
    ultimately show ?thesis using False by simp
  qed
  show "splitN2_char CHR '':'' (TrimSpace (drop_cr (field_line name v))) = [name, (if v = [] then [] else CHR '' '' # v)]"
    unfolding fl using nm(3) by (simp add: splitN2_char_def takeWhile_append dropWhile_append takeWhile_eq_all_conv)
  show "TrimSpace (drop_cr (field_line name v)) \<noteq> []" "\<not> HasPrefix (TrimSpace (drop_cr (field_line name v))) ''#''"
    unfolding fl using nm by (cases name; simp add: HasPrefix_def)+
qed

definition rule_lines :: "RobotsRule \<Rightarrow> string list" where
  "rule_lines r = field_line ''User-agent'' (ru_UserAgent r) #
     map (field_line ''Allow'') (ru_Allow r) @ map (field_line ''Disallow'') (ru_Disallow r)"

lemma TrimSpace_value: "robots_value v \<Longrightarrow> TrimSpace (if v = [] then [] else CHR '' '' # v) = v"
  by (auto simp: robots_value_def TrimSpace_space)

lemma robots_line_field:
  assumes "robots_value v"
  shows "robots_line (rules, current) (drop_cr (field_line ''User-agent'' v)) =
      (rules @ (case current of None \<Rightarrow> [] | Some r \<Rightarrow> [r]), Some \<lparr>ru_UserAgent = v, ru_Allow = [], ru_Disallow = []\<rparr>)"
    "robots_line (rules, Some r) (drop_cr (field_line ''Allow'' v)) = (rules, Some (r\<lparr>ru_Allow := ru_Allow r @ [v]\<rparr>))"
    "robots_line (rules, Some r) (drop_cr (field_line ''Disallow'' v)) = (rules, Some (r\<lparr>ru_Disallow := ru_Disallow r @ [v]\<rparr>))"
proof -
  have names: "''User-agent'' \<in> set field_names" "''Allow'' \<in> set field_names" "''Disallow'' \<in> set field_names"
    by (simp_all add: field_names_def)
  have lower: "ToLower (TrimSpace ''User-agent'') = ''user-agent''" "ToLower (TrimSpace ''Allow'') = ''allow''"
    "ToLower (TrimSpace ''Disallow'') = ''disallow''" by code_simp+
  note f = field_parts [OF names(1) assms] field_parts [OF names(2) assms] field_parts [OF names(3) assms]
  note t = TrimSpace_value [OF assms]
  show "robots_line (rules, current) (drop_cr (field_line ''User-agent'' v)) =
      (rules @ (case current of None \<Rightarrow> [] | Some r \<Rightarrow> [r]), Some \<lparr>ru_UserAgent = v, ru_Allow = [], ru_Disallow = []\<rparr>)"
    using t by (simp only: robots_line.simps Let_def f) (simp add: lower)
  show "robots_line (rules, Some r) (drop_cr (field_line ''Allow'' v)) = (rules, Some (r\<lparr>ru_Allow := ru_Allow r @ [v]\<rparr>))"
    using t by (simp only: robots_line.simps Let_def f) (simp add: lower)
  show "robots_line (rules, Some r) (drop_cr (field_line ''Disallow'' v)) = (rules, Some (r\<lparr>ru_Disallow := ru_Disallow r @ [v]\<rparr>))"
    using t by (simp only: robots_line.simps Let_def f) (simp add: lower)
qed

declare robots_line.simps [simp del]

lemma foldl_allows:
  "list_all robots_value vs \<Longrightarrow> foldl robots_line (rules, Some r) (map drop_cr (map (field_line ''Allow'') vs)) =
     (rules, Some (r\<lparr>ru_Allow := ru_Allow r @ vs\<rparr>))"
  by (induction vs arbitrary: r) (simp_all add: robots_line_field)

lemma foldl_disallows:
  "list_all robots_value vs \<Longrightarrow> foldl robots_line (rules, Some r) (map drop_cr (map (field_line ''Disallow'') vs)) =
     (rules, Some (r\<lparr>ru_Disallow := ru_Disallow r @ vs\<rparr>))"
  by (induction vs arbitrary: r) (simp_all add: robots_line_field)

lemma foldl_rule:
  assumes "printable_rule r"
  shows "foldl robots_line (rules, current) (map drop_cr (rule_lines r)) = (rules @ (case current of None \<Rightarrow> [] | Some c \<Rightarrow> [c]), Some r)"
  using assms foldl_allows [of "ru_Allow r"] foldl_disallows [of "ru_Disallow r"]
  by (simp add: rule_lines_def printable_rule_def robots_line_field)

lemma foldl_rules:
  assumes "list_all printable_rule rs"
  shows "(case foldl robots_line (rules, current) (map drop_cr (concat (map rule_lines rs))) of
      (rules', current') \<Rightarrow> rules' @ (case current' of None \<Rightarrow> [] | Some c \<Rightarrow> [c])) =
    rules @ (case current of None \<Rightarrow> [] | Some c \<Rightarrow> [c]) @ rs"
  using assms by (induction rs arbitrary: rules current) (simp_all add: foldl_rule)

lemma raw_lines_text:
  assumes "\<forall>l \<in> set ls. CHR 0x0A \<notin> set l"
  shows "raw_lines (concat (map (\<lambda>l. l @ [CHR 0x0A]) ls)) = ls"
proof -
  have "split_char (CHR 0x0A) (concat (map (\<lambda>l. l @ [CHR 0x0A]) ls)) = ls @ [[]]"
    using assms by (induction ls) (simp_all add: split_char_append_sep)
  then show ?thesis by (simp add: raw_lines_def)
qed

lemma rule_lines_fit:
  assumes "printable_rule r" "l \<in> set (rule_lines r)"
  shows "CHR 0x0A \<notin> set l \<and> fits_line l"
  using assms by (auto simp: rule_lines_def printable_rule_def robots_value_def field_line_def fits_line_def list_all_iff)

lemma print_rule_lines: "print_rule r = concat (map (\<lambda>l. l @ [CHR 0x0A]) (rule_lines r))"
proof -
  have "concat (map (robots_field n) vs) = concat (map (\<lambda>l. l @ [CHR 0x0A]) (map (field_line n) vs))" for n vs
    by (induction vs) (simp_all add: robots_field_def field_line_def)
  then show ?thesis by (simp add: print_rule_def rule_lines_def robots_field_def field_line_def)
qed

text \<open>
  Parsing the robots.txt that lists rules line by line gives back the rules, in order,
  with their Allow and Disallow lines.
\<close>

theorem parseRobotsTxt_print:
  assumes "list_all printable_rule rules"
  shows "parseRobotsTxt (concat (map print_rule rules), None) = Ret rules"
proof -
  let ?ls = "concat (map rule_lines rules)"
  have t: "concat (map print_rule rules) = concat (map (\<lambda>l. l @ [CHR 0x0A]) ?ls)"
    by (induction rules) (simp_all add: print_rule_lines)
  have ok: "CHR 0x0A \<notin> set l \<and> fits_line l" if "l \<in> set ?ls" for l
    using that assms rule_lines_fit by (auto simp: list_all_iff)
  then have raw: "raw_lines (concat (map print_rule rules)) = ?ls" unfolding t by (intro raw_lines_text) blast
  have fits: "list_all fits_line ?ls" using ok by (simp add: list_all_iff)
  have tw: "takeWhile fits_line ?ls = ?ls" using ok by (subst takeWhile_eq_all_conv) blast
  have "scan_lines (concat (map print_rule rules), None) = (map drop_cr ?ls, None)"
    by (simp only: scan_lines_def prod.case raw tw fits if_True)
  then show ?thesis using foldl_rules [OF assms, of "[]" None] by (simp add: parseRobotsTxt_def case_prod_unfold Let_def)
qed

lemma parseRobotsTxt_print_witness:
  "parseRobotsTxt (concat (map print_rule [\<lparr>ru_UserAgent = ''*'', ru_Allow = [''/quote/AAPL''], ru_Disallow = [''/quote'', []]\<rparr>]), None) =
     Ret [\<lparr>ru_UserAgent = ''*'', ru_Allow = [''/quote/AAPL''], ru_Disallow = [''/quote'', []]\<rparr>]"
  using parseRobotsTxt_print [of "[\<lparr>ru_UserAgent = ''*'', ru_Allow = [''/quote/AAPL''], ru_Disallow = [''/quote'', []]\<rparr>]"]
  by (simp add: printable_rule_def robots_value_def TrimSpace_def is_space_def code_of_def)

section \<open>What a check promises\<close>

text \<open>The entries of the cache belong to their hosts and live as long as the manager says.\<close>

definition robots_inv :: "RobotsManager \<Rightarrow> bool" where
  "robots_inv rm \<longleftrightarrow> distinct (map fst (rm_cache rm)) \<and>
     (\<forall>h c. map_of (rm_cache rm) h = Some c \<longrightarrow> rc_Host c = h \<and> rc_TTL c = rm_ttl rm)"

lemma robots_inv_New: "robots_inv (NewRobotsManager policy ttl)"
  by (simp add: robots_inv_def NewRobotsManager_def)

lemma getRobots_spec:
  assumes "getRobots env host (rm, s) = ((rm', s'), r)" "robots_inv rm"
  shows "robots_inv rm' \<and> rm_policy rm' = rm_policy rm \<and> rm_ttl rm' = rm_ttl rm \<and>
    (\<forall>h. h \<noteq> host \<longrightarrow> map_of (rm_cache rm') h = map_of (rm_cache rm) h) \<and>
    (case r of Ret c \<Rightarrow> map_of (rm_cache rm') host = Some c \<and> rc_Host c = host
       \<and> (map_of (rm_cache rm) host = Some c \<and> \<not> IsExpired (ro_clock env s) c \<and> s' = s \<or> rc_FetchedAt c = ro_clock env s')
     | _ \<Rightarrow> rm' = rm)"
proof -
  have host: "rc_Host c = host" if "map_of (rm_cache rm) host = Some c" for c
    using that assms(2) by (simp add: robots_inv_def)
  have upd: "robots_inv (rm\<lparr>rm_cache := AList.update host \<lparr>rc_Host = host, rc_Rules = x, rc_FetchedAt = t, rc_TTL = rm_ttl rm\<rparr> (rm_cache rm)\<rparr>)"
    for x t
    using assms(2) by (auto simp: robots_inv_def distinct_update update_conv')
  show ?thesis
    using assms(1) host upd assms(2)
    by (auto simp: getRobots_def Let_def update_conv' split: go.splits option.splits if_splits prod.splits)
qed


lemma CheckRobots_spec_facts:
  assumes "robots_inv rm" "CheckRobots tx env host path (rm, s) = ((rm', s'), r)"
  shows "robots_inv rm' \<and> rm_policy rm' = rm_policy rm \<and>
    (rm_policy rm = RobotsIgnore \<longrightarrow> r = Ret () \<and> (rm', s') = (rm, s)) \<and>
    (rm_policy rm = RobotsWarn \<longrightarrow> (\<forall>e. r \<noteq> Err e)) \<and>
    (rm_policy rm = RobotsEnforce \<and> r = Ret () \<longrightarrow>
       (\<exists>c. map_of (rm_cache rm') host = Some c \<and> rc_Host c = host \<and> isPathAllowed c path))"
proof -
  obtain st q where g: "getRobots env host (rm, s) = (st, q)" by (cases "getRobots env host (rm, s)")
  obtain rm1 s1 where st: "st = (rm1, s1)" by (cases st)
  note i = getRobots_spec [OF g [unfolded st] assms(1)]
  have d: "RobotsEnforce \<noteq> RobotsIgnore" "RobotsEnforce \<noteq> RobotsWarn" "RobotsWarn \<noteq> RobotsIgnore"
    by (simp_all add: RobotsEnforce_def RobotsIgnore_def RobotsWarn_def)
  show ?thesis
  proof (cases "rm_policy rm = RobotsIgnore")
    case True
    then show ?thesis using assms d by (auto simp: CheckRobots_def)
  next
    case False
    then show ?thesis using assms(2) i d by (cases q) (auto simp: CheckRobots_def g st split: if_splits)
  qed
qed

text \<open>
  A check keeps the policy and the invariant of the cache, that a host is only mapped to
  rules fetched for it; the policy ignore succeeds and touches nothing, warn never gives an
  error, and under enforce a check succeeds only when the rules cached for the host allow the
  path.
\<close>

theorem CheckRobots_spec:
  assumes "robots_inv rm" "CheckRobots tx env host path (rm, s) = ((rm', s'), r)"
  shows "robots_inv rm' \<and> rm_policy rm' = rm_policy rm \<and>
    (rm_policy rm = RobotsIgnore \<longrightarrow> r = Ret () \<and> (rm', s') = (rm, s)) \<and>
    (rm_policy rm = RobotsWarn \<longrightarrow> (\<forall>e. r \<noteq> Err e)) \<and>
    (rm_policy rm = RobotsEnforce \<and> r = Ret () \<longrightarrow>
       (\<exists>c. map_of (rm_cache rm') host = Some c \<and> rc_Host c = host \<and> isPathAllowed c path))"
  by (rule CheckRobots_spec_facts) (use assms in simp_all)

lemma CheckRobots_spec_witness:
  "(case CheckRobots \<lparr>tl_arg = \<lambda>_. [], tl_url = id\<rparr>
      \<lparr>ro_newRequest = \<lambda>_. Ret (), ro_get = \<lambda>u s. (Suc s, Ret (200, (''User-agent: *'', None))), ro_clock = \<lambda>s. 0\<rparr>
      ''finance.yahoo.com'' ''/quote'' (NewRobotsManager ''enforce'' 5, 0) of ((rm, n), r) \<Rightarrow> robots_inv rm)"
proof -
  let ?r = "CheckRobots \<lparr>tl_arg = \<lambda>_. [], tl_url = id\<rparr>
      \<lparr>ro_newRequest = \<lambda>_. Ret (), ro_get = \<lambda>u s. (Suc s, Ret (200, (''User-agent: *'', None))), ro_clock = \<lambda>s. 0\<rparr>
      ''finance.yahoo.com'' ''/quote'' (NewRobotsManager ''enforce'' 5, 0)"
  obtain rm n r where c: "?r = ((rm, n), r)" by (metis prod.collapse)
  show ?thesis using CheckRobots_spec [OF robots_inv_New c] c by simp
qed

end
