(* ===== verification/ScrapeClient.thy ===== *)
theory ScrapeClient
  imports ScrapeRobots
begin

text \<open>
  Fetching a page: \<^verbatim>\<open>internal/scrape/client.go\<close>, \<^verbatim>\<open>backoff.go\<close> and the configuration in \<^verbatim>\<open>types.go\<close>. The HTTP client below it,
  the clock, random numbers, sleeping with the context, reading a body and its decompression are the operations of
  \<open>fetch_env\<close>. Metrics, logs and spans are left out.
\<close>

section \<open>Configuration\<close>

record sc_Retry =
  sr_Attempts :: int
  sr_BaseMs :: int
  sr_MaxDelayMs :: int

record EndpointConfig =
  en_KeyStatistics :: bool
  en_Financials :: bool
  en_Analysis :: bool
  en_Profile :: bool
  en_News :: bool

record sc_Config =
  sc_Enabled :: bool
  sc_UserAgent :: string
  sc_TimeoutMs :: int
  sc_QPS :: f64
  sc_Burst :: int
  sc_RetryConfig :: sc_Retry
  sc_RobotsPolicy :: string
  sc_CacheTTLMs :: int
  sc_Endpoints :: EndpointConfig

definition scrape_DefaultConfig :: sc_Config where
  "scrape_DefaultConfig =
     \<lparr>sc_Enabled = True, sc_UserAgent = ''Mozilla/5.0 (Ampy yfinance-go scraper)'', sc_TimeoutMs = 10000, sc_QPS = fl (7 / 10),
      sc_Burst = 1, sc_RetryConfig = \<lparr>sr_Attempts = 4, sr_BaseMs = 300, sr_MaxDelayMs = 4000\<rparr>, sc_RobotsPolicy = ''enforce'',
      sc_CacheTTLMs = 60000,
      sc_Endpoints = \<lparr>en_KeyStatistics = True, en_Financials = True, en_Analysis = True, en_Profile = True, en_News = True\<rparr>\<rparr>"

record FetchMeta =
  fm_URL :: string
  fm_Host :: string
  fm_Status :: int
  fm_Attempt :: int
  fm_Bytes :: int
  fm_Gzip :: bool
  fm_Redirects :: int
  fm_Duration :: duration
  fm_FromCache :: bool
  fm_RobotsPolicy :: string

section \<open>Backoff\<close>

text \<open>\<open>pow\<close> is \<^verbatim>\<open>math.Pow\<close> and \<open>u\<close> the value of \<^verbatim>\<open>rand.Float64\<close>.\<close>

record BackoffPolicy =
  bp_BaseDelay :: duration
  bp_MaxDelay :: duration
  bp_Multiplier :: f64
  bp_JitterFactor :: f64

definition DefaultBackoffPolicy :: BackoffPolicy where
  "DefaultBackoffPolicy =
     \<lparr>bp_BaseDelay = dur_mul 300 millisecond, bp_MaxDelay = dur_mul 4 second, bp_Multiplier = Fin 2, bp_JitterFactor = fl (2 / 10)\<rparr>"

definition NewBackoffPolicy :: "duration \<Rightarrow> duration \<Rightarrow> f64 \<Rightarrow> f64 \<Rightarrow> BackoffPolicy" where
  "NewBackoffPolicy baseDelay maxDelay multiplier jitterFactor =
     \<lparr>bp_BaseDelay = baseDelay, bp_MaxDelay = maxDelay, bp_Multiplier = multiplier, bp_JitterFactor = jitterFactor\<rparr>"

definition signed_random :: "f64 \<Rightarrow> f64" where
  "signed_random u = f_sub (f_mul (Fin 2) u) (Fin 1)"

definition CalculateDelay :: "(f64 \<Rightarrow> int) \<Rightarrow> (f64 \<Rightarrow> f64 \<Rightarrow> f64) \<Rightarrow> BackoffPolicy \<Rightarrow> f64 \<Rightarrow> int \<Rightarrow> duration" where
  "CalculateDelay ovf pow bp u attempt =
     (let exponentialDelay = f_mul (f_of_int (bp_BaseDelay bp)) (pow (bp_Multiplier bp) (f_of_int attempt));
          jitter = f_mul (f_mul exponentialDelay (bp_JitterFactor bp)) (signed_random u);
          totalDelay = f_add exponentialDelay jitter;
          atLeast = (if f_lt totalDelay (f_of_int (bp_BaseDelay bp)) then f_of_int (bp_BaseDelay bp) else totalDelay);
          atMost = (if f_lt (f_of_int (bp_MaxDelay bp)) atLeast then f_of_int (bp_MaxDelay bp) else atLeast)
      in f_to_int64 ovf atMost)"

definition CalculateDelayWithRetryAfter ::
  "(f64 \<Rightarrow> int) \<Rightarrow> (f64 \<Rightarrow> f64 \<Rightarrow> f64) \<Rightarrow> BackoffPolicy \<Rightarrow> f64 \<Rightarrow> int \<Rightarrow> duration \<Rightarrow> duration" where
  "CalculateDelayWithRetryAfter ovf pow bp u attempt retryAfter =
     (if 0 < retryAfter \<and> retryAfter < dur_mul (bp_MaxDelay bp) 2 then
        (let jitter = wrap64 (retryAfter * f_to_int64 ovf (f_mul (bp_JitterFactor bp) (signed_random u)));
             delay = wrap64 (retryAfter + jitter)
         in if delay < bp_BaseDelay bp then bp_BaseDelay bp else delay)
      else CalculateDelay ovf pow bp u attempt)"

definition bp_error :: "string \<Rightarrow> goerror" where "bp_error msg = scrape_error ''invalid_config'' msg"

definition BackoffPolicy_Validate :: "BackoffPolicy \<Rightarrow> unit go" where
  "BackoffPolicy_Validate bp =
     go_bind (go_guard (bp_BaseDelay bp \<le> 0) (bp_error ''base delay must be positive'')) (\<lambda>_.
     go_bind (go_guard (bp_MaxDelay bp \<le> 0) (bp_error ''max delay must be positive'')) (\<lambda>_.
     go_bind (go_guard (bp_MaxDelay bp < bp_BaseDelay bp) (bp_error ''base delay cannot be greater than max delay'')) (\<lambda>_.
     go_bind (go_guard (f_le (bp_Multiplier bp) (Fin 1)) (bp_error ''multiplier must be greater than 1.0'')) (\<lambda>_.
     go_guard (f_lt (bp_JitterFactor bp) (Fin 0) \<or> f_lt (Fin 1) (bp_JitterFactor bp))
       (bp_error ''jitter factor must be between 0 and 1'')))))"

text \<open>One random number per attempt.\<close>

definition CalculateDelays :: "(f64 \<Rightarrow> int) \<Rightarrow> (f64 \<Rightarrow> f64 \<Rightarrow> f64) \<Rightarrow> BackoffPolicy \<Rightarrow> (nat \<Rightarrow> f64) \<Rightarrow> nat \<Rightarrow> duration list" where
  "CalculateDelays ovf pow bp us maxAttempts = map (\<lambda>i. CalculateDelay ovf pow bp (us i) (int i)) [0..<maxAttempts]"

section \<open>Reading a body\<close>

text \<open>A reader gives chunks of bytes and then the end of the file (none) or an error.\<close>

type_synonym reader = "string list \<times> goerror option"

fun limited_ReadAll :: "nat \<Rightarrow> nat \<Rightarrow> string \<Rightarrow> string list \<Rightarrow> goerror option \<Rightarrow> string go" where
  "limited_ReadAll limit read result [] fin = (case fin of None \<Rightarrow> Ret result | Some e \<Rightarrow> Err e)"
| "limited_ReadAll limit read result (chunk # chunks) fin =
     (if limit < read + length chunk then Err ErrContentTooLarge
      else limited_ReadAll limit (read + length chunk) (result @ chunk) chunks fin)"

section \<open>Rate limiting\<close>

record tokenBucket =
  tb_tokens :: f64
  tb_capacity :: f64
  tb_rate :: f64
  tb_lastTime :: instant

record scrapeClient =
  sk_config :: sc_Config
  sk_bucket :: "tokenBucket option"
  sk_qps :: f64
  sk_burst :: int
  sk_robots :: RobotsManager
  sk_backoff :: BackoffPolicy

record 's fetch_env =
  fe_parse :: "string \<Rightarrow> (string \<times> string) go"
  fe_newRequest :: "string \<Rightarrow> Request go"
  fe_do :: "Request \<Rightarrow> 's \<Rightarrow> 's \<times> Response go"
  fe_sleep :: "duration \<Rightarrow> 's \<Rightarrow> 's \<times> goerror option"
  fe_clock :: "'s \<Rightarrow> instant"
  fe_rand :: "'s \<Rightarrow> f64"
  fe_robots :: "'s robots_env"
  fe_header :: "Response \<Rightarrow> string \<Rightarrow> string"
  fe_contentLength :: "Response \<Rightarrow> int"
  fe_reader :: "Response \<Rightarrow> reader"
  fe_gunzip :: "reader \<Rightarrow> reader go"
  fe_statusText :: "int \<Rightarrow> string"
  fe_text :: text_lib
  fe_pow :: "f64 \<Rightarrow> f64 \<Rightarrow> f64"

text \<open>The bucket is locked for the whole call, the sleep included.\<close>

definition bucket_Wait :: "(f64 \<Rightarrow> int) \<Rightarrow> 's fetch_env \<Rightarrow> tokenBucket \<times> 's \<Rightarrow> (tokenBucket \<times> 's) \<times> unit go" where
  "bucket_Wait ovf env = (\<lambda>(b, s).
     (let now = fe_clock env s;
          elapsed = time_Sub now (tb_lastTime b);
          t = f_add (tb_tokens b) (f_mul (tb_rate b) (Seconds elapsed));
          tokens = (if f_lt (tb_capacity b) t then tb_capacity b else t);
          b1 = b\<lparr>tb_tokens := tokens, tb_lastTime := now\<rparr>
      in if f_le (Fin 1) tokens then ((b1\<lparr>tb_tokens := f_sub tokens (Fin 1)\<rparr>, s), Ret ())
         else
           let waitTime = f_to_int64 ovf (f_mul (f_div (f_sub (Fin 1) tokens) (tb_rate b)) (Fin 1000000000))
           in (case fe_sleep env waitTime s of
                 (s1, Some e) \<Rightarrow> ((b1, s1), Err e)
               | (s1, None) \<Rightarrow> ((b1\<lparr>tb_tokens := Fin 0\<rparr>, s1), Ret ()))))"

definition scrape_Wait :: "(f64 \<Rightarrow> int) \<Rightarrow> 's fetch_env \<Rightarrow> scrapeClient \<times> 's \<Rightarrow> (scrapeClient \<times> 's) \<times> unit go" where
  "scrape_Wait ovf env = (\<lambda>(c, s).
     (let b = (case sk_bucket c of Some b \<Rightarrow> b
               | None \<Rightarrow> \<lparr>tb_tokens = f_of_int (sk_burst c), tb_capacity = f_of_int (sk_burst c), tb_rate = sk_qps c,
                   tb_lastTime = fe_clock env s\<rparr>)
      in case bucket_Wait ovf env (b, s) of ((b', s'), r) \<Rightarrow> ((c\<lparr>sk_bucket := Some b'\<rparr>, s'), r)))"

section \<open>Client\<close>

text \<open>The HTTP configuration of a client that is given no HTTP client to share.\<close>

definition scrape_http_config :: "sc_Config \<Rightarrow> HttpConfig" where
  "scrape_http_config config =
     \<lparr>hc_BaseURL = ''https://finance.yahoo.com'', hc_Timeout = dur_mul (sc_TimeoutMs config) millisecond,
      hc_IdleTimeout = dur_mul 90 second, hc_MaxConnsPerHost = 10, hc_MaxAttempts = sr_Attempts (sc_RetryConfig config),
      hc_BackoffBaseMs = sr_BaseMs (sc_RetryConfig config), hc_BackoffJitterMs = sr_BaseMs (sc_RetryConfig config) sdiv 2,
      hc_MaxDelayMs = sr_MaxDelayMs (sc_RetryConfig config), hc_QPS = sc_QPS config, hc_Burst = sc_Burst config,
      hc_CircuitWindow = dur_mul 60 second, hc_FailureThreshold = 5, hc_ResetTimeout = dur_mul 30 second,
      hc_UserAgent = sc_UserAgent config\<rparr>"

definition scrape_NewClient :: "sc_Config option \<Rightarrow> scrapeClient" where
  "scrape_NewClient cfg =
     (let config = (case cfg of None \<Rightarrow> scrape_DefaultConfig | Some c \<Rightarrow> c) in
      \<lparr>sk_config = config, sk_bucket = None, sk_qps = sc_QPS config, sk_burst = sc_Burst config,
       sk_robots = NewRobotsManager (sc_RobotsPolicy config) (dur_mul (sc_CacheTTLMs config) millisecond),
       sk_backoff = DefaultBackoffPolicy\<rparr>)"

definition setBrowserHeaders :: "sc_Config \<Rightarrow> Request \<Rightarrow> Request" where
  "setBrowserHeaders config req = req\<lparr>rq_Header := (rq_Header req)
     (''User-Agent'' \<mapsto> sc_UserAgent config,
      ''Accept'' \<mapsto> ''text/html,application/xhtml+xml,application/xml;q=0.9,image/webp,*/*;q=0.8'',
      ''Accept-Language'' \<mapsto> ''en-US,en;q=0.5'', ''Accept-Encoding'' \<mapsto> ''gzip'', ''Connection'' \<mapsto> ''keep-alive'',
      ''Upgrade-Insecure-Requests'' \<mapsto> ''1'', ''Sec-Fetch-Dest'' \<mapsto> ''document'', ''Sec-Fetch-Mode'' \<mapsto> ''navigate'',
      ''Sec-Fetch-Site'' \<mapsto> ''none'', ''Cache-Control'' \<mapsto> ''max-age=0'')\<rparr>"

definition is_gzip :: "'s fetch_env \<Rightarrow> Response \<Rightarrow> bool" where
  "is_gzip env resp \<longleftrightarrow> Contains (fe_header env resp ''Content-Encoding'') ''gzip''"

definition readResponseBody :: "'s fetch_env \<Rightarrow> Response \<Rightarrow> nat \<Rightarrow> string go" where
  "readResponseBody env resp maxSize =
     go_bind (if is_gzip env resp then go_wrap ''failed to create gzip reader: %w'' [] (fe_gunzip env (fe_reader env resp))
              else Ret (fe_reader env resp)) (\<lambda>(chunks, fin).
     case limited_ReadAll maxSize 0 [] chunks fin of
       Err e \<Rightarrow> if e = ErrContentTooLarge then Err e else Err (Wrapf ''failed to read response body: %w'' [] e)
     | r \<Rightarrow> r)"

definition max_page :: nat where "max_page = 8 * 1024 * 1024"

definition processResponse :: "'s fetch_env \<Rightarrow> Response \<Rightarrow> string \<Rightarrow> string \<Rightarrow> int \<Rightarrow> duration \<Rightarrow> (string \<times> FetchMeta) go" where
  "processResponse env resp url host attempt dur =
     (if rsp_StatusCode resp < 200 \<or> 300 \<le> rsp_StatusCode resp
      then Err (ErrHTTP (fe_statusText env) (rsp_StatusCode resp) url)
      else go_bind (readResponseBody env resp max_page) (\<lambda>body.
        Ret (body,
          \<lparr>fm_URL = url, fm_Host = host, fm_Status = rsp_StatusCode resp, fm_Attempt = attempt, fm_Bytes = int (length body),
           fm_Gzip = is_gzip env resp, fm_Redirects = (if fe_header env resp ''Location'' \<noteq> [] then 1 else 0),
           fm_Duration = dur, fm_FromCache = False, fm_RobotsPolicy = []\<rparr>)))"

text \<open>The attempts, from attempt \<open>i\<close> with \<open>n\<close> of them left.\<close>

fun fetch_loop ::
  "(f64 \<Rightarrow> int) \<Rightarrow> 's fetch_env \<Rightarrow> scrapeClient \<Rightarrow> string \<Rightarrow> string \<Rightarrow> instant \<Rightarrow> Request \<Rightarrow> nat \<Rightarrow> nat \<Rightarrow> 's \<Rightarrow>
   's \<times> (string \<times> FetchMeta) go" where
  "fetch_loop ovf env c url host startTime req 0 i s = (s, Err ErrRetryExhausted)"
| "fetch_loop ovf env c url host startTime req (Suc n) i s =
     (let attemptStart = fe_clock env s;
          (s1, outcome) = fe_do env req s;
          backoff = (\<lambda>err.
            if \<not> scrape_IsRetryableError (fe_text env) (Some err) \<or> sr_Attempts (sc_RetryConfig (sk_config c)) - 1 \<le> int i
            then (s1, Err err)
            else case fe_sleep env (CalculateDelay ovf (fe_pow env) (sk_backoff c) (fe_rand env s1) (int i)) s1 of
                (s2, Some e) \<Rightarrow> (s2, Err e)
              | (s2, None) \<Rightarrow> fetch_loop ovf env c url host startTime req n (Suc i) s2)
      in case outcome of
           Err err \<Rightarrow> backoff err
         | Panic p \<Rightarrow> (s1, Panic p)
         | Ret resp \<Rightarrow>
             (case processResponse env resp url host (int i + 1) (time_Sub (fe_clock env s1) attemptStart) of
                Err err \<Rightarrow> backoff err
              | Panic p \<Rightarrow> (s1, Panic p)
              | Ret (body, m) \<Rightarrow>
                  (s1, Ret (body, m\<lparr>fm_Duration := time_Sub (fe_clock env s1) startTime,
                     fm_RobotsPolicy := sc_RobotsPolicy (sk_config c)\<rparr>))))"

definition Fetch :: "(f64 \<Rightarrow> int) \<Rightarrow> 's fetch_env \<Rightarrow> string \<Rightarrow> scrapeClient \<times> 's \<Rightarrow> (scrapeClient \<times> 's) \<times> (string \<times> FetchMeta) go" where
  "Fetch ovf env url = (\<lambda>(c, s).
     (case fe_parse env url of
        Err e \<Rightarrow> ((c, s), Err (ScrapeError ''invalid_url'' (''failed to parse URL: '' @ error_text (fe_text env) e) url 0))
      | Panic p \<Rightarrow> ((c, s), Panic p)
      | Ret (host, path) \<Rightarrow>
          (let startTime = fe_clock env s in
           case CheckRobots (fe_text env) (fe_robots env) host path (sk_robots c, s) of
             ((rm, s1), checked) \<Rightarrow>
               let c1 = c\<lparr>sk_robots := rm\<rparr> in
               (case checked of
                  Err e \<Rightarrow> ((c1, s1), Err e)
                | Panic p \<Rightarrow> ((c1, s1), Panic p)
                | Ret _ \<Rightarrow>
                    (case scrape_Wait ovf env (c1, s1) of
                       ((c2, s2), w) \<Rightarrow>
                         (case go_wrap ''rate limiter: %w'' [] w of
                            Err e \<Rightarrow> ((c2, s2), Err e)
                          | Panic p \<Rightarrow> ((c2, s2), Panic p)
                          | Ret _ \<Rightarrow>
                              (case fe_newRequest env url of
                                 Err e \<Rightarrow> ((c2, s2), Err (ScrapeError ''invalid_request''
                                   (''failed to create request: '' @ error_text (fe_text env) e) url 0))
                               | Panic p \<Rightarrow> ((c2, s2), Panic p)
                               | Ret req \<Rightarrow>
                                   (case fetch_loop ovf env c2 url host startTime (setBrowserHeaders (sk_config c2) req)
                                       (nat (sr_Attempts (sc_RetryConfig (sk_config c2)))) 0 s2 of
                                      (s3, r) \<Rightarrow> ((c2, s3), r)))))))))"

section \<open>Reading with a limit\<close>

lemma limited_ReadAll_eq:
  "limited_ReadAll limit read result chunks fin =
     (if chunks \<noteq> [] \<and> limit < read + length (concat chunks) then Err ErrContentTooLarge
      else case fin of None \<Rightarrow> Ret (result @ concat chunks) | Some e \<Rightarrow> Err e)"
  by (induction limit read result chunks fin rule: limited_ReadAll.induct) (auto split: option.splits)

theorem limited_ReadAll_bytes:
  "limited_ReadAll limit 0 [] chunks fin =
     (if limit < length (concat chunks) then Err ErrContentTooLarge
      else case fin of None \<Rightarrow> Ret (concat chunks) | Some e \<Rightarrow> Err e)"
  by (cases chunks) (auto simp: limited_ReadAll_eq simp del: limited_ReadAll.simps split: option.splits)

lemma processResponse_Ret:
  assumes "processResponse env resp url host attempt dur = Ret (body, m)"
  shows "isSuccessResponse resp \<and> length body \<le> max_page \<and> fm_Bytes m = int (length body) \<and> fm_Status m = rsp_StatusCode resp \<and>
    fm_URL m = url \<and> fm_Host m = host \<and> fm_Attempt m = attempt"
proof -
  have "length body \<le> max_page" if "readResponseBody env resp max_page = Ret body"
    using that by (auto simp: readResponseBody_def go_bind_eq_Ret limited_ReadAll_eq split: go.splits if_splits option.splits
        simp del: limited_ReadAll.simps)
  then show ?thesis using assms by (auto simp: processResponse_def go_bind_eq_Ret isSuccessResponse_def split: if_splits)
qed

section \<open>The attempts\<close>

lemma fetch_loop_Ret:
  assumes "fetch_loop ovf env c url host startTime req n i s = (s', Ret (body, m))"
  shows "length body \<le> max_page \<and> fm_Bytes m = int (length body) \<and> 200 \<le> fm_Status m \<and> fm_Status m < 300 \<and>
    fm_URL m = url \<and> fm_Host m = host \<and> int i + 1 \<le> fm_Attempt m \<and> fm_Attempt m \<le> int i + int n \<and>
    fm_RobotsPolicy m = sc_RobotsPolicy (sk_config c)"
  using assms
proof (induction n arbitrary: i s)
  case (Suc n)
  obtain s1 outcome where d: "fe_do env req s = (s1, outcome)" by (cases "fe_do env req s")
  define t where "t = time_Sub (fe_clock env s1) (fe_clock env s)"
  have later: ?case if "fetch_loop ovf env c url host startTime req n (Suc i) s2 = (s', Ret (body, m))" for s2
    using Suc.IH [OF that] by auto
  have again: ?case if "(if \<not> scrape_IsRetryableError (fe_text env) (Some err) \<or> sr_Attempts (sc_RetryConfig (sk_config c)) - 1 \<le> int i
      then (s1, Err err)
      else case fe_sleep env (CalculateDelay ovf (fe_pow env) (sk_backoff c) (fe_rand env s1) (int i)) s1 of
          (s2, Some e) \<Rightarrow> (s2, Err e)
        | (s2, None) \<Rightarrow> fetch_loop ovf env c url host startTime req n (Suc i) s2) = (s', Ret (body, m))" for err
    using that later by (auto split: if_splits prod.splits option.splits)
  show ?case
  proof (cases outcome)
    case (Ret resp)
    show ?thesis
    proof (cases "processResponse env resp url host (int i + 1) t")
      case r: (Ret bm)
      obtain b m1 where bm: "bm = (b, m1)" by (cases bm)
      have m: "b = body" "m = m1\<lparr>fm_Duration := time_Sub (fe_clock env s1) startTime, fm_RobotsPolicy := sc_RobotsPolicy (sk_config c)\<rparr>"
        using Suc.prems Ret r bm by (auto simp: d t_def Let_def)
      show ?thesis using processResponse_Ret [OF r [unfolded bm]] m by (auto simp: isSuccessResponse_def)
    next
      case e: (Err err)
      show ?thesis by (rule again [of err]) (use Suc.prems Ret e in \<open>simp add: d t_def Let_def\<close>)
    next
      case p: (Panic q)
      then show ?thesis using Suc.prems Ret by (simp add: d t_def Let_def)
    qed
  next
    case (Err err)
    show ?thesis by (rule again [of err]) (use Suc.prems Err in \<open>simp add: d Let_def\<close>)
  next
    case (Panic q)
    then show ?thesis using Suc.prems by (simp add: d Let_def)
  qed
qed simp

text \<open>
  C9: A page that Fetch returns has at most 8 MiB, came with a status between 200 and 299
  within the configured attempts, has its length in the metadata, and under the policy enforce
  lies on a path that the cached robots.txt of its host allows; the cache of rules stays
  sound.
\<close>

theorem Fetch_success:
  assumes "Fetch ovf env url (c, s) = ((c', s'), Ret (body, m))" "robots_inv (sk_robots c)"
  shows "length body \<le> 8 * 1024 * 1024 \<and> fm_Bytes m = int (length body) \<and> 200 \<le> fm_Status m \<and> fm_Status m < 300 \<and>
    1 \<le> fm_Attempt m \<and> fm_Attempt m \<le> sr_Attempts (sc_RetryConfig (sk_config c)) \<and> fm_URL m = url \<and>
    robots_inv (sk_robots c') \<and>
    (rm_policy (sk_robots c) = RobotsEnforce \<longrightarrow>
      (\<exists>host path rc. fe_parse env url = Ret (host, path) \<and> map_of (rm_cache (sk_robots c')) host = Some rc \<and> isPathAllowed rc path))"
proof -
  obtain host path where p: "fe_parse env url = Ret (host, path)" using assms(1) by (cases "fe_parse env url") (auto simp: Fetch_def)
  obtain rm s1 checked where ch: "CheckRobots (fe_text env) (fe_robots env) host path (sk_robots c, s) = ((rm, s1), checked)"
    by (metis prod.collapse)
  have ok: "checked = Ret ()" using assms(1) by (cases checked) (auto simp: Fetch_def p ch Let_def)
  obtain c2 s2 w where w: "scrape_Wait ovf env (c\<lparr>sk_robots := rm\<rparr>, s1) = ((c2, s2), w)" by (metis prod.collapse)
  have keep: "sk_config c2 = sk_config c" "sk_robots c2 = rm"
    using w by (auto simp: scrape_Wait_def Let_def split: prod.splits)
  have wr: "w = Ret ()" using assms(1) by (cases w) (auto simp: Fetch_def p ch ok w Let_def)
  obtain req where r: "fe_newRequest env url = Ret req"
    using assms(1) by (cases "fe_newRequest env url") (auto simp: Fetch_def p ch ok w wr Let_def)
  have f: "fetch_loop ovf env c2 url host (fe_clock env s) (setBrowserHeaders (sk_config c2) req)
      (nat (sr_Attempts (sc_RetryConfig (sk_config c2)))) 0 s2 = (s', Ret (body, m))" "c' = c2"
    using assms(1) by (auto simp: Fetch_def p ch ok w wr r Let_def split: prod.splits)
  show ?thesis
    using fetch_loop_Ret [OF f(1)] CheckRobots_spec_facts [OF assms(2) ch] p ok keep f(2)
    by (auto simp: max_page_def split: if_splits)
qed

section \<open>Delays\<close>

lemma fl_bounded:
  assumes "\<bar>x\<bar> \<le> 2 ^ k" "k \<le> 1023"
  obtains y where "fl x = Fin y" "\<bar>y\<bar> \<le> 2 ^ k" "0 \<le> x \<Longrightarrow> 0 \<le> y"
proof -
  have "(2::rat) ^ k \<le> 2 ^ 1023" using assms(2) by (intro power_increasing) simp_all
  then have "fl x = Fin (round_rat x)" using assms(1) by (intro fl_small) simp
  then show thesis using that round_rat_abs_le_pow2 [OF assms(1)] round_rat_nonneg [of x] by blast
qed

text \<open>While the power of the multiplier is finite the clamps hold; once it is infinite, a jitter downwards gives no number.\<close>

lemma CalculateDelay_within:
  assumes "BackoffPolicy_Validate bp = Ret ()" "bp_MaxDelay bp < 2 ^ 53" "bp_JitterFactor bp = Fin j"
    "pow (bp_Multiplier bp) (f_of_int attempt) = Fin x" "0 \<le> x" "x \<le> 2 ^ 900" "0 \<le> u" "u \<le> 1"
  shows "bp_BaseDelay bp \<le> CalculateDelay ovf pow bp (Fin u) attempt \<and> CalculateDelay ovf pow bp (Fin u) attempt \<le> bp_MaxDelay bp"
proof -
  have v: "0 < bp_BaseDelay bp" "bp_BaseDelay bp \<le> bp_MaxDelay bp" "0 \<le> j" "j \<le> 1"
    using assms(1,3) by (simp_all add: BackoffPolicy_Validate_def go_bind_eq_Ret)
  define b m where "b = (of_int (bp_BaseDelay bp) :: rat)" and "m = (of_int (bp_MaxDelay bp) :: rat)"
  have fb: "f_of_int (bp_BaseDelay bp) = Fin b" and fm: "f_of_int (bp_MaxDelay bp) = Fin m"
    using v assms(2) by (simp_all add: f_of_int_small b_def m_def)
  have bm: "0 < b" "b \<le> m" "m < 2 ^ 53" using v assms(2) of_int_less_iff [of "bp_MaxDelay bp" "2 ^ 53", where 'a = rat]
    by (simp_all add: b_def m_def)
  have "b * x \<le> 2 ^ 53 * 2 ^ 900" using bm assms(5,6) by (intro mult_mono) simp_all
  then have "\<bar>b * x\<bar> \<le> 2 ^ 953" using bm assms(5) by (simp flip: power_add)
  then obtain e where e: "fl (b * x) = Fin e" "\<bar>e\<bar> \<le> 2 ^ 953" "0 \<le> e" by (rule fl_bounded) (use bm assms(5) in simp_all)
  have "\<bar>e * j\<bar> \<le> 2 ^ 953 * 1" unfolding abs_mult using e v by (intro mult_mono) simp_all
  then obtain ej where ej: "fl (e * j) = Fin ej" "\<bar>ej\<bar> \<le> 2 ^ 953" by (rule_tac fl_bounded [of "e * j" 953]) simp_all
  obtain r2 where r2: "fl (2 * u) = Fin r2" "\<bar>r2\<bar> \<le> 2 ^ 1" "0 \<le> r2"
    by (rule fl_bounded [of "2 * u" 1]) (use assms(7,8) in simp_all)
  then obtain sr where sr: "fl (r2 - 1) = Fin sr" "\<bar>sr\<bar> \<le> 2 ^ 0" by (rule_tac fl_bounded [of "r2 - 1" 0]) simp_all
  have "\<bar>ej * sr\<bar> \<le> 2 ^ 953 * 2 ^ 0" unfolding abs_mult using ej sr by (intro mult_mono) simp_all
  then obtain jit where jit: "fl (ej * sr) = Fin jit" "\<bar>jit\<bar> \<le> 2 ^ 953" by (rule_tac fl_bounded [of "ej * sr" 953]) simp_all
  have "\<bar>e + jit\<bar> \<le> 2 ^ 954" using e(2) jit(2) abs_triangle_ineq [of e jit] by simp
  then obtain z where z: "fl (e + jit) = Fin z" by (rule_tac fl_bounded [of "e + jit" 954]) simp_all
  define l where "l = (if z < b then b else z)"
  define h where "h = (if m < l then m else l)"
  have h: "b \<le> h" "h \<le> m" using bm by (auto simp: h_def l_def)
  have "CalculateDelay ovf pow bp (Fin u) attempt = f_to_int64 ovf (Fin h)"
    unfolding CalculateDelay_def Let_def signed_random_def fb fm assms(3,4)
    by (simp add: e(1) ej(1) r2(1) sr(1) jit(1) z f_sub_def h_def l_def)
  moreover have "f_to_int64 ovf (Fin h) = \<lfloor>h\<rfloor>"
  proof -
    have "h < 2 ^ 53" using h(2) bm(3) by simp
    also have "(2::rat) ^ 53 < of_int (2 ^ 63)" by simp
    finally have "\<lfloor>h\<rfloor> < 2 ^ 63" by (simp add: floor_less_iff)
    then show ?thesis using h bm by (simp add: f_to_int64_def trunc_rat_def)
  qed
  moreover have "bp_BaseDelay bp \<le> \<lfloor>h\<rfloor>" using h(1) by (simp add: b_def le_floor_iff)
  moreover have "\<lfloor>h\<rfloor> \<le> bp_MaxDelay bp" using h(2) by (simp add: m_def floor_le_iff)
  ultimately show ?thesis by simp
qed

lemma CalculateDelay_overflow:
  assumes "BackoffPolicy_Validate bp = Ret ()" "bp_MaxDelay bp < 2 ^ 53" "bp_JitterFactor bp = Fin j"
    "pow (bp_Multiplier bp) (f_of_int attempt) = PInf" "0 \<le> u" "u \<le> 1 / 2"
  shows "CalculateDelay ovf pow bp (Fin u) attempt = ovf NaN"
proof -
  have v: "0 < bp_BaseDelay bp" "bp_BaseDelay bp \<le> bp_MaxDelay bp" "0 \<le> j" "j \<le> 1"
    using assms(1,3) by (simp_all add: BackoffPolicy_Validate_def go_bind_eq_Ret)
  have "f_of_int (bp_BaseDelay bp) = Fin (of_int (bp_BaseDelay bp))" using v assms(2) by (simp add: f_of_int_small)
  then have e: "f_mul (f_of_int (bp_BaseDelay bp)) PInf = PInf" using v(1) by (simp add: inf_of_sign_def)
  obtain r2 where r2: "fl (2 * u) = Fin r2" "\<bar>r2\<bar> \<le> 2 ^ 0" "0 \<le> r2"
    by (rule fl_bounded [of "2 * u" 0]) (use assms(5,6) in simp_all)
  have "fl (r2 - 1) = Fin (round_rat (r2 - 1))" using r2 by (intro fl_small) (simp add: abs_le_iff)
  moreover have "round_rat (r2 - 1) \<le> 0" using round_rat_mono [of "r2 - 1" 0] r2(2) by (simp add: abs_le_iff)
  ultimately obtain sr where sr: "signed_random (Fin u) = Fin sr" "sr \<le> 0" by (auto simp: signed_random_def f_sub_def r2(1))
  show ?thesis using v(3) sr(2)
    by (simp add: CalculateDelay_def Let_def assms(3,4) e sr(1) inf_of_sign_def f_to_int64_def)
qed
text \<open>
  C40: With a validated policy, limits a float64 holds exactly and a power multiplier^attempt
  that is finite and at most 2^900, the delay of an attempt lies between the base and the
  maximal delay, jitter and rounding included. When the power overflows to infinity and the
  jitter does not go up, the sum is not a number, which neither limit catches: the delay is
  what converting NaN to an integer gives.
\<close>

theorem CalculateDelay_bounds:
  assumes "BackoffPolicy_Validate bp = Ret ()" "bp_MaxDelay bp < 2 ^ 53" "bp_JitterFactor bp = Fin j" "0 \<le> u" "u \<le> 1"
  shows "(\<forall>x. pow (bp_Multiplier bp) (f_of_int attempt) = Fin x \<and> 0 \<le> x \<and> x \<le> 2 ^ 900 \<longrightarrow>
      bp_BaseDelay bp \<le> CalculateDelay ovf pow bp (Fin u) attempt \<and> CalculateDelay ovf pow bp (Fin u) attempt \<le> bp_MaxDelay bp) \<and>
    (pow (bp_Multiplier bp) (f_of_int attempt) = PInf \<and> u \<le> 1 / 2 \<longrightarrow> CalculateDelay ovf pow bp (Fin u) attempt = ovf NaN)"
  using CalculateDelay_within [OF assms(1-3)] CalculateDelay_overflow [OF assms(1-3)] assms(4,5) by simp

lemma CalculateDelay_bounds_witness:
  "300000000 \<le> CalculateDelay (\<lambda>_. 0) (\<lambda>b n. math_Pow 2 3) (DefaultBackoffPolicy\<lparr>bp_JitterFactor := Fin (1 / 4)\<rparr>) (Fin (1 / 2)) 3 \<and>
   CalculateDelay (\<lambda>_. 0) (\<lambda>b n. math_Pow 2 3) (DefaultBackoffPolicy\<lparr>bp_JitterFactor := Fin (1 / 4)\<rparr>) (Fin (1 / 2)) 3 \<le> 4000000000 \<and>
   CalculateDelay (\<lambda>_. - (2 ^ 63)) (\<lambda>b n. PInf) (DefaultBackoffPolicy\<lparr>bp_JitterFactor := Fin (1 / 4)\<rparr>) (Fin (1 / 2)) 2000 = - (2 ^ 63)"
proof -
  have d: "dur_mul 300 millisecond = 300000000" "dur_mul 4 second = 4000000000" by (simp_all add: dur_mul_def millisecond_def second_def is_int64_def)
  have p: "math_Pow 2 3 = Fin 8" using fl_of_int [of 8] by (simp add: math_Pow_def power_int_numeral)
  have v: "BackoffPolicy_Validate (DefaultBackoffPolicy\<lparr>bp_JitterFactor := Fin (1 / 4)\<rparr>) = Ret ()"
    by (simp add: BackoffPolicy_Validate_def DefaultBackoffPolicy_def d go_guard_def)
  note b = CalculateDelay_bounds [OF v, of "1 / 4" "1 / 2"]
  show ?thesis
    using b [of "\<lambda>b n. math_Pow 2 3" 3 "\<lambda>_. 0"] b [of "\<lambda>b n. PInf" 2000 "\<lambda>_. - (2 ^ 63)"] p d by (simp add: DefaultBackoffPolicy_def)
qed

text \<open>The jitter of a delay that the server asked for is a fraction of a nanosecond, cut off to nothing.\<close>

text \<open>
  The jitter that is to spread the delay of a Retry-After header is always zero: it is a
  fraction below one converted to whole nanoseconds.
\<close>

theorem retry_after_without_jitter:
  assumes "0 < retryAfter" "retryAfter < 2 * bp_MaxDelay bp" "bp_MaxDelay bp < 2 ^ 53"
    "bp_JitterFactor bp = Fin j" "0 \<le> j" "j < 1" "0 \<le> u" "u \<le> 1" "fl j = Fin j"
  shows "CalculateDelayWithRetryAfter ovf pow bp (Fin u) attempt retryAfter = max (bp_BaseDelay bp) retryAfter"
proof -
  have one: "fl 1 = Fin 1" "fl (-1) = Fin (-1)" "fl 0 = Fin 0" "fl 2 = Fin 2"
    using fl_of_int [of 1] fl_of_int [of "-1"] fl_of_int [of 2] by simp_all
  have nj: "fl (- j) = Fin (- j)" using assms(9) by (auto simp: fl_def Let_def round_rat_minus split: if_splits)
  obtain r2 where r2: "fl (2 * u) = Fin r2" "0 \<le> r2" "r2 \<le> 2" by (rule fl_between [OF one(3,4), of "2 * u"]) (use assms in simp_all)
  then obtain sr where sr: "fl (r2 - 1) = Fin sr" "- 1 \<le> sr" "sr \<le> 1" by (rule_tac fl_between [OF one(2,1), of "r2 - 1"]) simp_all
  have m: "- j \<le> j * sr" "j * sr \<le> j" using sr assms(5) mult_left_mono [of "-1" sr j] mult_left_mono [of sr 1 j] by simp_all
  then obtain p where p: "fl (j * sr) = Fin p" "- j \<le> p" "p \<le> j" by (rule_tac fl_between [OF nj assms(9), of "j * sr"]) simp_all
  have "trunc_rat p = 0"
    using p assms(6) by (auto simp: trunc_rat_def floor_eq_iff ceiling_eq_iff)
  then have "f_to_int64 ovf (f_mul (bp_JitterFactor bp) (signed_random (Fin u))) = 0"
    by (simp add: assms(4) signed_random_def r2(1) sr(1) p(1) f_sub_def f_to_int64_def)
  moreover have "is_int64 (2 * bp_MaxDelay bp)" "is_int64 retryAfter" "is_int64 0" using assms(1-3) by (simp_all add: is_int64_def)
  ultimately show ?thesis using assms(1,2)
    by (simp add: CalculateDelayWithRetryAfter_def dur_mul_def mult.commute Let_def max_def)
qed

lemma retry_after_without_jitter_witness:
  "CalculateDelayWithRetryAfter (\<lambda>_. 0) (\<lambda>b n. Fin 1) (NewBackoffPolicy 300000000 4000000000 (Fin 2) (Fin (1 / 2))) (Fin (3 / 4)) 1 5000000000 =
     5000000000"
proof -
  have "fl (1 / 2) = Fin (1 / 2)" by (rule fl_exact [of _ 1 "-1"]) simp_all
  then show ?thesis
    using retry_after_without_jitter [of 5000000000 "NewBackoffPolicy 300000000 4000000000 (Fin 2) (Fin (1 / 2))" "1 / 2" "3 / 4"
        "\<lambda>_. 0" "\<lambda>b n. Fin 1" 1] by (simp add: NewBackoffPolicy_def)
qed

section \<open>Over the HTTP client\<close>

lemma not_network_text:
  assumes "\<And>c. c \<in> set (error_text tx e) \<Longrightarrow> \<not> is_lower c"
  shows "\<not> isNetworkError tx e"
proof -
  have "\<not> contains (error_text tx e) p" if "p \<in> set networkErrors" for p
  proof
    assume "contains (error_text tx e) p"
    then have "sublist p (error_text tx e)" by (simp add: contains_Contains Contains_def)
    then have "set p \<subseteq> set (error_text tx e)" by (rule set_mono_sublist)
    moreover have "\<exists>c \<in> set p. is_lower c" using that by (auto simp: networkErrors_def is_lower_def code_of_def)
    ultimately show False using assms by blast
  qed
  then show ?thesis by (auto simp: isNetworkError_def list_ex_iff)
qed

lemma status_text: "error_text tx (http_status_error resp) = ''HTTP '' @ show_int (rsp_StatusCode resp)"
  by (simp add: http_status_error_def is_lower_def code_of_def)

lemma show_int_not_lower: "c \<in> set (show_int n) \<Longrightarrow> \<not> is_lower c"
proof -
  have d: "c \<in> set (show_nat m) \<Longrightarrow> \<not> is_lower c" for m
  proof (induction m rule: show_nat.induct)
    case (1 n)
    show ?case
    proof (cases "n < 10")
      case True
      then have "c = char_of (48 + n)" using 1(2) by (simp add: show_nat.simps [of n])
      then show ?thesis using True by (simp add: is_lower_def code_of_def)
    next
      case False
      then have "c \<in> set (show_nat (n div 10)) \<or> c = char_of (48 + n mod 10)" using 1(2) by (auto simp: show_nat.simps [of n])
      then show ?thesis using 1(1) False by (auto simp: is_lower_def code_of_def)
    qed
  qed
  then show "c \<in> set (show_int n) \<Longrightarrow> \<not> is_lower c" by (auto simp: show_int_def is_lower_def code_of_def split: if_splits)
qed

text \<open>
  Over the HTTP client of the repository the scraper never makes a second attempt for a
  response status or an open breaker: the client below turns every such outcome into an error
  without a retryable text, so that the retries of Fetch for 429 and 5xx are never reached.
\<close>

theorem statuses_not_retried:
  assumes "fe_do env = Do ovf' henv"
  shows "(\<forall>st st' resp. fe_do env req st = (st', Ret resp) \<longrightarrow> isSuccessResponse resp) \<and>
    (\<forall>st st' e. fe_do env req st = (st', Err e) \<and> (e = ErrCircuitOpen \<or> (\<exists>resp. e = http_status_error resp)) \<longrightarrow>
      fetch_loop ovf env c url host startTime req (Suc n) i st = (st', Err e))"
proof (intro conjI allI impI)
  show "isSuccessResponse resp" if "fe_do env req st = (st', Ret resp)" for st st' resp
    using that Do_success unfolding assms by blast
  fix st st' e
  assume a: "fe_do env req st = (st', Err e) \<and> (e = ErrCircuitOpen \<or> (\<exists>resp. e = http_status_error resp))"
  have "\<not> isNetworkError (fe_text env) (http_status_error resp)" for resp
    by (rule not_network_text) (use show_int_not_lower in \<open>auto simp: status_text is_lower_def code_of_def\<close>)
  moreover have "\<not> list_ex (contains ''circuit breaker is open'') networkErrors" by code_simp
  then have "\<not> isNetworkError (fe_text env) ErrCircuitOpen" by (simp add: isNetworkError_def ErrCircuitOpen_def)
  ultimately have "\<not> scrape_IsRetryableError (fe_text env) (Some e)"
    using a by (auto simp: scrape_IsRetryableError_def ErrCircuitOpen_def http_status_error_def)
  then show "fetch_loop ovf env c url host startTime req (Suc n) i st = (st', Err e)" using a by (simp add: Let_def)
qed

section \<open>Examples\<close>

definition page_env :: "(Request \<Rightarrow> 's \<Rightarrow> 's \<times> Response go) \<Rightarrow> 's fetch_env" where
  "page_env send =
     \<lparr>fe_parse = \<lambda>_. Ret (''finance.yahoo.com'', ''/quote''),
      fe_newRequest = \<lambda>u. Ret \<lparr>rq_URL = u, rq_Path = ''/quote'', rq_Header = Map.empty\<rparr>,
      fe_do = send, fe_sleep = \<lambda>d s. (s, None), fe_clock = \<lambda>_. 0,
      fe_rand = \<lambda>_. Fin 0,
      fe_robots = \<lparr>ro_newRequest = \<lambda>_. Ret (), ro_get = \<lambda>u s. (s, Ret (200, ([], None))), ro_clock = \<lambda>_. 0\<rparr>,
      fe_header = \<lambda>_ _. [], fe_contentLength = \<lambda>_. 4, fe_reader = \<lambda>r. ([fst (rsp_Body r)], snd (rsp_Body r)),
      fe_gunzip = \<lambda>r. Ret r, fe_statusText = \<lambda>_. [], fe_text = \<lparr>tl_arg = \<lambda>_. [], tl_url = id\<rparr>, fe_pow = \<lambda>_ _. Fin 1\<rparr>"

definition page_answer :: "Request \<Rightarrow> unit \<Rightarrow> unit \<times> Response go" where
  "page_answer r s = (s, Ret \<lparr>rsp_StatusCode = 200, rsp_Body = (''page'', None)\<rparr>)"

lemma page_Wait: "\<exists>c'. scrape_Wait ovf (page_env send) (c, s) = ((c', s), Ret ()) \<and> sk_config c' = sk_config c"
  by (simp add: scrape_Wait_def bucket_Wait_def page_env_def Let_def case_prod_unfold)

lemma Fetch_success_witness:
  "\<exists>c' s' m. Fetch (\<lambda>_. 0) (page_env page_answer) ''https://finance.yahoo.com/quote'' (scrape_NewClient None, ()) = ((c', s'), Ret (''page'', m)) \<and>
     fm_Bytes m = 4 \<and> robots_inv (sk_robots c')"
proof -
  let ?c = "scrape_NewClient None"
  have i: "robots_inv (sk_robots ?c)" by (simp add: scrape_NewClient_def robots_inv_New)
  have "\<exists>rm rc. getRobots (fe_robots (page_env page_answer)) ''finance.yahoo.com'' (sk_robots ?c, ()) = ((rm, ()), Ret rc) \<and> rc_Rules rc = []"
    by (simp add: getRobots_def scrape_NewClient_def NewRobotsManager_def page_env_def page_answer_def parseRobotsTxt_def scan_lines_def raw_lines_def Let_def)
  then obtain rm rc where g: "getRobots (fe_robots (page_env page_answer)) ''finance.yahoo.com'' (sk_robots ?c, ()) = ((rm, ()), Ret rc)" "rc_Rules rc = []"
    by blast
  then have ch: "CheckRobots (fe_text (page_env page_answer)) (fe_robots (page_env page_answer)) ''finance.yahoo.com'' ''/quote'' (sk_robots ?c, ()) = ((rm, ()), Ret ())"
    by (simp add: CheckRobots_def isPathAllowed_def applicable_rules_def scrape_NewClient_def scrape_DefaultConfig_def NewRobotsManager_def
        IsValidRobotsPolicy_def RobotsEnforce_def RobotsIgnore_def RobotsWarn_def)
  obtain c2 where w: "scrape_Wait (\<lambda>_. 0) (page_env page_answer) (?c\<lparr>sk_robots := rm\<rparr>, ()) = ((c2, ()), Ret ())" "sk_config c2 = sk_config ?c"
    using page_Wait [of "\<lambda>_. 0" page_answer "?c\<lparr>sk_robots := rm\<rparr>" "()"] by auto
  have n: "nat (sr_Attempts (sc_RetryConfig (sk_config c2))) = 4" using w by (simp add: scrape_NewClient_def scrape_DefaultConfig_def)
  have f: "fe_parse (page_env page_answer) u = Ret (''finance.yahoo.com'', ''/quote'')" "fe_clock (page_env page_answer) s = 0"
    "fe_newRequest (page_env page_answer) u = Ret \<lparr>rq_URL = u, rq_Path = ''/quote'', rq_Header = Map.empty\<rparr>" for u s by (simp_all add: page_env_def)
  have "\<exists>m. fetch_loop (\<lambda>_. 0) (page_env page_answer) c2 url host t req (Suc 3) 0 () = ((), Ret (''page'', m))" for url host t req
    unfolding fetch_loop.simps Let_def by (simp add: page_env_def page_answer_def processResponse_def readResponseBody_def is_gzip_def Contains_def max_page_def Let_def)
  then have "\<exists>m. fetch_loop (\<lambda>_. 0) (page_env page_answer) c2 url host t req 4 0 () = ((), Ret (''page'', m))" for url host t req by simp
  then obtain m where m: "fetch_loop (\<lambda>_. 0) (page_env page_answer) c2 ''https://finance.yahoo.com/quote'' ''finance.yahoo.com'' 0
      (setBrowserHeaders (sk_config c2) \<lparr>rq_URL = ''https://finance.yahoo.com/quote'', rq_Path = ''/quote'', rq_Header = Map.empty\<rparr>) 4 0 () =
      ((), Ret (''page'', m))" by blast
  have "Fetch (\<lambda>_. 0) (page_env page_answer) ''https://finance.yahoo.com/quote'' (?c, ()) = ((c2, ()), Ret (''page'', m))"
    by (simp add: Fetch_def f ch w(1) n m Let_def)
  then show ?thesis using Fetch_success [of "\<lambda>_. 0" "page_env page_answer" "''https://finance.yahoo.com/quote''" ?c "()" c2 "()" "''page''" m] i by auto
qed

definition open_client :: Client where
  "open_client = (NewClient (\<lambda>_. 0) 0 None)
     \<lparr>cl_circuitBreaker := (NewHttpCircuitBreaker (dur_mul 60 second) 3 (dur_mul 30 second))\<lparr>hb_state := StateOpen, hb_failures := 3, hb_lastFailure := 0\<rparr>\<rparr>"

lemma statuses_not_retried_witness:
  "fetch_loop (\<lambda>_. 0) (page_env (Do (\<lambda>_. 0) quiet_env)) (scrape_NewClient None) ''u'' ''h'' 0
     \<lparr>rq_URL = ''u'', rq_Path = ''p'', rq_Header = Map.empty\<rparr> (Suc 3) 0 (open_client, 5) = ((open_client, 5), Err ErrCircuitOpen)"
proof -
  have "fe_do (page_env (Do (\<lambda>_. 0) quiet_env)) = Do (\<lambda>_. 0) quiet_env" by (simp add: page_env_def)
  moreover have "Do (\<lambda>_. 0) quiet_env \<lparr>rq_URL = ''u'', rq_Path = ''p'', rq_Header = Map.empty\<rparr> (open_client, 5) =
      ((open_client, 5), Err ErrCircuitOpen)"
    by (simp add: Do_def open_client_def Allow_def NewHttpCircuitBreaker_def quiet_env_def time_Sub_def dur_mul_def second_def is_int64_def Let_def)
  ultimately show ?thesis using statuses_not_retried [of "page_env (Do (\<lambda>_. 0) quiet_env)" "\<lambda>_. 0" quiet_env] by metis
qed

end
