(* ===== verification/GoLayout.thy ===== *)
theory GoLayout
  imports GoTime
begin

text \<open>
  \<^verbatim>\<open>time.Parse\<close> and \<^verbatim>\<open>Time.Format\<close> for the numeric layouts the program uses. A layout is the list of its fields and
  literal characters, as the library splits it: \<^verbatim>\<open>2006-01-02\<close> is \<open>layout_date\<close>, \<^verbatim>\<open>1/2/2006\<close> is \<open>layout_mdy\<close>. Times are UTC.
\<close>

section \<open>Layouts\<close>

datatype ltok = LYear | LMonth | LZeroMonth | LDay | LZeroDay | LHour | LMinute | LSecond | LFrac nat | LZone | LLit char

definition layout_date :: "ltok list" where
  "layout_date = [LYear, LLit CHR ''-'', LZeroMonth, LLit CHR ''-'', LZeroDay]"

definition layout_mdy :: "ltok list" where
  "layout_mdy = [LMonth, LLit CHR ''/'', LDay, LLit CHR ''/'', LYear]"

definition layout_zero_mdy :: "ltok list" where
  "layout_zero_mdy = [LZeroMonth, LLit CHR ''/'', LZeroDay, LLit CHR ''/'', LYear]"

definition clock_fields :: "ltok list" where
  "clock_fields = [LHour, LLit CHR '':'', LMinute, LLit CHR '':'', LSecond]"

definition layout_rfc3339 :: "ltok list" where
  "layout_rfc3339 = layout_date @ LLit CHR ''T'' # clock_fields @ [LZone]"

record clock =
  tm_year :: nat
  tm_month :: nat
  tm_day :: nat
  tm_hour :: nat
  tm_min :: nat
  tm_sec :: nat
  tm_nsec :: nat
  tm_offset :: int  \<comment> \<open>of the zone, in minutes\<close>

definition digit_of :: "char \<Rightarrow> nat" where
  "digit_of c = code_of c - 48"

fun digits_value :: "nat \<Rightarrow> string \<Rightarrow> nat" where
  "digits_value acc [] = acc"
| "digits_value acc (c # cs) = digits_value (10 * acc + digit_of c) cs"

section \<open>Parsing\<close>

fun getnum :: "bool \<Rightarrow> string \<Rightarrow> (nat \<times> string) option" where
  "getnum fixed [] = None"
| "getnum fixed [c] = (if is_digit c \<and> \<not> fixed then Some (digit_of c, []) else None)"
| "getnum fixed (c # d # v) =
     (if \<not> is_digit c then None
      else if is_digit d then Some (10 * digit_of c + digit_of d, v)
      else if fixed then None else Some (digit_of c, d # v))"

definition in_range :: "nat \<Rightarrow> nat \<Rightarrow> (nat \<times> string) option \<Rightarrow> (nat \<times> string) option" where
  "in_range lo hi r = (case r of Some (n, v) \<Rightarrow> if lo \<le> n \<and> n \<le> hi then r else None | None \<Rightarrow> None)"

fun set_field :: "(nat \<Rightarrow> clock \<Rightarrow> clock) \<Rightarrow> clock \<Rightarrow> (nat \<times> string) option \<Rightarrow> (string \<times> clock) option" where
  "set_field f t None = None"
| "set_field f t (Some (n, v)) = Some (v, f n t)"

definition is_point :: "char \<Rightarrow> bool" where
  "is_point c \<longleftrightarrow> c = CHR ''.'' \<or> c = CHR '',''"

text \<open>A fraction of \<open>k\<close> digits, in nanoseconds.\<close>

definition fraction :: "nat \<Rightarrow> string \<Rightarrow> (nat \<times> string) option" where
  "fraction k v =
     (case v of [] \<Rightarrow> None
      | c # cs \<Rightarrow> if is_point c \<and> k \<le> length cs \<and> list_all is_digit (take k cs)
          then Some (digits_value 0 (take (min 9 k) cs) * 10 ^ (9 - min 9 k), drop k cs) else None)"

text \<open>\<^verbatim>\<open>Z07:00\<close>: the letter \<^verbatim>\<open>Z\<close> or a signed offset.\<close>

definition zone_offset :: "string \<Rightarrow> (int \<times> string) option" where
  "zone_offset v =
     (case v of [] \<Rightarrow> None
      | c # cs \<Rightarrow>
          if c = CHR ''Z'' then Some (0, cs)
          else if c \<noteq> CHR ''+'' \<and> c \<noteq> CHR ''-'' then None
          else (case getnum True cs of
              Some (hh, d # ds) \<Rightarrow>
                if d \<noteq> CHR '':'' \<or> 24 < hh then None
                else (case getnum True ds of
                    Some (mm, rest) \<Rightarrow>
                      if 60 < mm then None
                      else Some ((if c = CHR ''-'' then -1 else 1) * (60 * int hh + int mm), rest)
                  | None \<Rightarrow> None)
            | _ \<Rightarrow> None))"

text \<open>After the seconds a fraction is read even if the layout has none.\<close>

definition skip_fraction :: "ltok list \<Rightarrow> string \<times> clock \<Rightarrow> (string \<times> clock) option" where
  "skip_fraction rest s =
     (case (fst s, rest) of
        (c # d # v, rs) \<Rightarrow>
          if is_point c \<and> is_digit d \<and> (\<forall>k rs'. rs \<noteq> LFrac k # rs')
          then set_field (\<lambda>n t. t\<lparr>tm_nsec := n\<rparr>) (snd s) (fraction (length (takeWhile is_digit (d # v))) (fst s))
          else Some s
      | _ \<Rightarrow> Some s)"

fun parse_layout :: "ltok list \<Rightarrow> string \<times> clock \<Rightarrow> (string \<times> clock) option" where
  "parse_layout [] s = Some s"
| "parse_layout (LYear # ls) (v, t) =
     (if 4 \<le> length v \<and> list_all is_digit (take 4 v)
      then parse_layout ls (drop 4 v, t\<lparr>tm_year := digits_value 0 (take 4 v)\<rparr>) else None)"
| "parse_layout (LMonth # ls) (v, t) =
     Option.bind (set_field (\<lambda>n t. t\<lparr>tm_month := n\<rparr>) t (in_range 1 12 (getnum False v))) (parse_layout ls)"
| "parse_layout (LZeroMonth # ls) (v, t) =
     Option.bind (set_field (\<lambda>n t. t\<lparr>tm_month := n\<rparr>) t (in_range 1 12 (getnum True v))) (parse_layout ls)"
| "parse_layout (LDay # ls) (v, t) =
     Option.bind (set_field (\<lambda>n t. t\<lparr>tm_day := n\<rparr>) t (getnum False v)) (parse_layout ls)"
| "parse_layout (LZeroDay # ls) (v, t) =
     Option.bind (set_field (\<lambda>n t. t\<lparr>tm_day := n\<rparr>) t (getnum True v)) (parse_layout ls)"
| "parse_layout (LHour # ls) (v, t) =
     Option.bind (set_field (\<lambda>n t. t\<lparr>tm_hour := n\<rparr>) t (in_range 0 23 (getnum False v))) (parse_layout ls)"
| "parse_layout (LMinute # ls) (v, t) =
     Option.bind (set_field (\<lambda>n t. t\<lparr>tm_min := n\<rparr>) t (in_range 0 59 (getnum True v))) (parse_layout ls)"
| "parse_layout (LSecond # ls) (v, t) =
     Option.bind (Option.bind (set_field (\<lambda>n t. t\<lparr>tm_sec := n\<rparr>) t (in_range 0 59 (getnum True v))) (skip_fraction ls))
       (parse_layout ls)"
| "parse_layout (LFrac k # ls) (v, t) = Option.bind (set_field (\<lambda>n t. t\<lparr>tm_nsec := n\<rparr>) t (fraction k v)) (parse_layout ls)"
| "parse_layout (LZone # ls) (v, t) =
     (case zone_offset v of Some (m, rest) \<Rightarrow> parse_layout ls (rest, t\<lparr>tm_offset := m\<rparr>) | None \<Rightarrow> None)"
| "parse_layout (LLit c # ls) (v, t) =
     (if c = CHR '' ''
      then (if v \<noteq> [] \<and> hd v \<noteq> CHR '' '' then None else parse_layout ls (dropWhile (\<lambda>x. x = CHR '' '') v, t))
      else case v of x # xs \<Rightarrow> if x = c then parse_layout ls (xs, t) else None | [] \<Rightarrow> None)"

definition days_in :: "nat \<Rightarrow> nat \<Rightarrow> nat" where
  "days_in m y = (if m = 2 then (if leap_year (int y) then 29 else 28) else if m \<in> {4, 6, 9, 11} then 30 else 31)"

definition clock_instant :: "clock \<Rightarrow> instant" where
  "clock_instant t =
     time_Date (int (tm_year t)) (int (tm_month t)) (int (tm_day t))
       (int (tm_hour t) * hour + int (tm_min t) * minute + int (tm_sec t) * second + int (tm_nsec t)
        - tm_offset t * minute)"

definition zero_clock :: clock where
  "zero_clock = \<lparr>tm_year = 0, tm_month = 1, tm_day = 1, tm_hour = 0, tm_min = 0, tm_sec = 0, tm_nsec = 0, tm_offset = 0\<rparr>"

definition time_Parse :: "ltok list \<Rightarrow> string \<Rightarrow> instant option" where
  "time_Parse layout v =
     (case parse_layout layout (v, zero_clock) of
        Some ([], t) \<Rightarrow> if 1 \<le> tm_day t \<and> tm_day t \<le> days_in (tm_month t) (tm_year t) then Some (clock_instant t) else None
      | _ \<Rightarrow> None)"

section \<open>Formatting\<close>

fun pad_digits :: "nat \<Rightarrow> nat \<Rightarrow> string" where
  "pad_digits 0 n = []"
| "pad_digits (Suc k) n = pad_digits k (n div 10) @ [char_of (48 + n mod 10)]"

text \<open>\<^verbatim>\<open>Format("2006-01-02")\<close>, for years of at most four digits.\<close>

definition format_date :: "instant \<Rightarrow> string" where
  "format_date t =
     pad_digits 4 (nat (time_Year t)) @ ''-'' @ pad_digits 2 (nat (time_Month t)) @ ''-'' @ pad_digits 2 (nat (time_Day t))"

section \<open>A day's date, read back\<close>

lemma digit_of_digit [simp]: "d < 10 \<Longrightarrow> digit_of (char_of (48 + d)) = d" for d :: nat
  by (simp add: digit_of_def code_of_def)

lemma is_digit_digit [simp]: "d < 10 \<Longrightarrow> is_digit (char_of (48 + d))" for d :: nat
  by (simp add: is_digit_def code_of_def)

lemma digits_value_append: "digits_value a (xs @ ys) = digits_value (digits_value a xs) ys"
  by (induction a xs rule: digits_value.induct) simp_all

lemma pad_digits: "length (pad_digits k n) = k" "list_all is_digit (pad_digits k n)"
  by (induction k arbitrary: n) simp_all

lemma digits_value_pad: "n < 10 ^ k \<Longrightarrow> digits_value 0 (pad_digits k n) = n"
proof (induction k arbitrary: n)
  case (Suc k)
  then have "n div 10 < 10 ^ k" by (simp add: less_mult_imp_div_less mult.commute)
  then show ?case using Suc.IH [of "n div 10"] by (simp add: digits_value_append)
qed simp

lemma getnum_pad2:
  assumes "n < 100"
  shows "getnum f (pad_digits 2 n @ v) = Some (n, v)"
proof -
  have "n div 10 < 10" using assms by simp
  then show ?thesis by (simp add: numeral_2_eq_2)
qed

lemma day_of_month:
  assumes y: "0 \<le> day_Year z"
  shows "1 \<le> day_Day z" "day_Day z \<le> int (days_in (nat (day_Month z)) (nat (day_Year z)))"
proof -
  define yd where "yd = day_YearDay0 z"
  define l where "l = leap_year (day_Year z)"
  have yd: "0 \<le> yd" unfolding yd_def by (rule day_YearDay0_nonneg)
  have "days_before_year (day_Year z + 1) - days_before_year (day_Year z) = 365 + (if l then 1 else 0)"
    using days_before_year_step [of "day_Year z + 1"] by (simp add: l_def)
  then have yd2: "yd < 365 + (if l then 1 else 0)"
    using day_Year_bounds [of z] unfolding yd_def day_YearDay0_def by simp
  note defs = day_Month_def day_Day_def yd_def [symmetric] l_def [symmetric] days_before_month_def all_months_def
    month_offset_def days_in_def y
  consider "yd < 31" | "31 \<le> yd" "yd < 59 + of_bool l" | "59 + of_bool l \<le> yd" "yd < 90 + of_bool l"
    | "90 + of_bool l \<le> yd" "yd < 120 + of_bool l" | "120 + of_bool l \<le> yd" "yd < 151 + of_bool l"
    | "151 + of_bool l \<le> yd" "yd < 181 + of_bool l" | "181 + of_bool l \<le> yd" "yd < 212 + of_bool l"
    | "212 + of_bool l \<le> yd" "yd < 243 + of_bool l" | "243 + of_bool l \<le> yd" "yd < 273 + of_bool l"
    | "273 + of_bool l \<le> yd" "yd < 304 + of_bool l" | "304 + of_bool l \<le> yd" "yd < 334 + of_bool l"
    | "334 + of_bool l \<le> yd" by linarith
  then have "1 \<le> day_Day z \<and> day_Day z \<le> int (days_in (nat (day_Month z)) (nat (day_Year z)))"
    by cases (insert yd yd2, (cases l; simp add: defs)+)
  then show "1 \<le> day_Day z" "day_Day z \<le> int (days_in (nat (day_Month z)) (nat (day_Year z)))" by auto
qed

text \<open>A valid date is the date of its day.\<close>

lemma days_before_year_less:
  assumes "y < y'"
  shows "days_before_year y + 365 \<le> days_before_year y'"
  using assms
proof (induction y' rule: int_gr_induct)
  case base
  show ?case using days_before_year_step [of "y + 1"] by (simp split: if_splits)
next
  case (step i)
  then show ?case using days_before_year_step [of "i + 1"] by (simp split: if_splits)
qed

lemma day_Year_unique:
  assumes "days_before_year y \<le> z + 719162" "z + 719162 < days_before_year (y + 1)"
  shows "day_Year z = y"
proof (rule ccontr)
  assume "day_Year z \<noteq> y"
  then consider "day_Year z < y" | "y < day_Year z" by linarith
  then show False
  proof cases
    case 1
    then have "days_before_year (day_Year z + 1) \<le> days_before_year y"
      using days_before_year_less [of "day_Year z + 1" y] by (cases "day_Year z + 1 = y") auto
    then show ?thesis using assms(1) day_Year_bounds(2) [of z] by linarith
  next
    case 2
    then have "days_before_year (y + 1) \<le> days_before_year (day_Year z)"
      using days_before_year_less [of "y + 1" "day_Year z"] by (cases "y + 1 = day_Year z") auto
    then show ?thesis using assms(2) day_Year_bounds(1) [of z] by linarith
  qed
qed

lemma civil_date:
  assumes y: "0 \<le> y" and m: "1 \<le> m" "m \<le> 12" and d: "1 \<le> d" "d \<le> int (days_in (nat m) (nat y))"
  shows "day_Year (date_to_day y m d) = y" "day_Month (date_to_day y m d) = m" "day_Day (date_to_day y m d) = d"
proof -
  define z where "z = date_to_day y m d"
  have m12: "m \<in> {1, 2, 3, 4, 5, 6, 7, 8, 9, 10, 11, 12}" using m unfolding insert_iff empty_iff by presburger
  have z: "z = days_before_year y + days_before_month y m + (d - 1) - 719162"
    using m by (simp add: z_def date_to_day_def)
  have dbm: "0 \<le> days_before_month y m" "days_before_month y m + d \<le> 365 + (if leap_year y then 1 else 0)"
    using m12 d y by (elim insertE emptyE; simp add: days_before_month_def month_offset_def days_in_def split: if_splits)+
  show Y: "day_Year (date_to_day y m d) = y"
    using dbm d(1) days_before_year_step [of "y + 1"] unfolding z_def [symmetric] z by (intro day_Year_unique) simp_all
  have yd: "day_YearDay0 z = days_before_month y m + (d - 1)" using Y z by (simp add: day_YearDay0_def z_def)
  show M: "day_Month (date_to_day y m d) = m"
    using m12 d y unfolding z_def [symmetric] day_Month_def Y [folded z_def] yd
    by (cases "leap_year y")
      (elim insertE emptyE; simp add: all_months_def days_before_month_def month_offset_def days_in_def)+
  show "day_Day (date_to_day y m d) = d"
    using Y M yd by (simp add: day_Day_def z_def)
qed

lemma time_Parse_format_date:
  assumes "0 \<le> time_Year t" "time_Year t \<le> 9999"
  shows "time_Parse layout_date (format_date t) = Some (time_day t * day_ns)"
proof -
  define y where "y = nat (time_Year t)"
  define m where "m = nat (time_Month t)"
  define d where "d = nat (time_Day t)"
  have m: "1 \<le> m" "m \<le> 12" using day_Month_range [of "time_day t"] by (simp_all add: m_def time_Month_def)
  have d: "1 \<le> d" "d \<le> days_in m y"
    using day_of_month [of "time_day t"] assms by (simp_all add: d_def m_def y_def time_Day_def time_Month_def time_Year_def)
  have d31: "d \<le> 31" using d(2) by (simp add: days_in_def split: if_splits)
  have y: "y < 10 ^ 4" using assms by (simp add: y_def)
  have "parse_layout layout_date (format_date t, zero_clock) = Some ([], zero_clock\<lparr>tm_year := y, tm_month := m, tm_day := d\<rparr>)"
    using m d31 y pad_digits [of 4 y] digits_value_pad [OF y] getnum_pad2 [of d True "[]"]
    by (simp add: layout_date_def format_date_def flip: y_def m_def d_def)
      (simp add: getnum_pad2 in_range_def)
  moreover have "clock_instant (zero_clock\<lparr>tm_year := y, tm_month := m, tm_day := d\<rparr>) = time_day t * day_ns"
    using assms m d time_Date_civil [of t 0] day_Month_range [of "time_day t"] day_of_month [of "time_day t"]
    by (simp add: clock_instant_def zero_clock_def y_def m_def d_def time_Day_def time_Month_def time_Year_def)
  ultimately show ?thesis using d by (simp add: time_Parse_def)
qed

end
