(* ===== verification/ScrapeNumbers.thy ===== *)
theory ScrapeNumbers
  imports EmitDecimal GoLayout
begin

text \<open>
  Numbers in scraped pages: the conversions of \<^verbatim>\<open>internal/scrape/statistics.go\<close>, \<^verbatim>\<open>analysis.go\<close>, \<^verbatim>\<open>financials.go\<close> and
  \<^verbatim>\<open>types_json.go\<close>, and \<^verbatim>\<open>parseRevenueEstimateString\<close> of \<^verbatim>\<open>internal/emit/map_financials.go\<close>. \<^verbatim>\<open>strconv.ParseFloat\<close> is
  defined for plain decimals, a sign, digits and at most one point; what it does with other text (exponents,
  hexadecimal floats, infinities) is the parameter \<open>pf\<close>.
\<close>

section \<open>Model\<close>

definition split_sign :: "string \<Rightarrow> int \<times> string" where
  "split_sign s = (case s of c # t \<Rightarrow> if c = CHR ''-'' then (-1, t) else if c = CHR ''+'' then (1, t) else (1, s) | [] \<Rightarrow> (1, s))"

definition plain_decimal :: "string \<Rightarrow> rat option" where
  "plain_decimal s =
     (let (sign, t) = split_sign s in
      case splitN2_char CHR ''.'' t of
        [ip] \<Rightarrow> if ip \<noteq> [] \<and> list_all is_digit ip then Some (of_int sign * of_nat (digits_value 0 ip)) else None
      | [ip, fp] \<Rightarrow> if ip @ fp \<noteq> [] \<and> list_all is_digit (ip @ fp)
          then Some (of_int sign * of_nat (digits_value 0 (ip @ fp)) / 10 ^ length fp) else None
      | _ \<Rightarrow> None)"

definition ParseFloat :: "(string \<Rightarrow> f64 option) \<Rightarrow> string \<Rightarrow> f64 option" where
  "ParseFloat pf s =
     (case plain_decimal s of
        Some q \<Rightarrow> (case fl q of Fin x \<Rightarrow> Some (Fin x) | _ \<Rightarrow> None)
      | None \<Rightarrow> pf s)"

text \<open>\<^verbatim>\<open>strconv.ParseInt(s, 10, 64)\<close> and \<^verbatim>\<open>strconv.Atoi\<close>.\<close>

definition ParseInt64 :: "string \<Rightarrow> int64 option" where
  "ParseInt64 s =
     (let (sign, t) = split_sign s; n = sign * int (digits_value 0 t) in
      if t \<noteq> [] \<and> list_all is_digit t \<and> - (2 ^ 63) \<le> n \<and> n < 2 ^ 63 then Some n else None)"

definition TrimPrefix :: "string \<Rightarrow> string \<Rightarrow> string" where
  "TrimPrefix s p = (if HasPrefix s p then drop (length p) s else s)"

definition absent :: "string \<Rightarrow> bool" where
  "absent s \<longleftrightarrow> s = [] \<or> s = ''--'' \<or> s = ''N/A''"

text \<open>The suffixes \<^verbatim>\<open>B\<close>, \<^verbatim>\<open>M\<close> and \<^verbatim>\<open>K\<close> of the key statistics.\<close>

definition split_suffix :: "string \<Rightarrow> int \<times> string" where
  "split_suffix s =
     (if HasSuffix s ''B'' then (1000000000, TrimSuffix s ''B'')
      else if HasSuffix s ''M'' then (1000000, TrimSuffix s ''M'')
      else if HasSuffix s ''K'' then (1000, TrimSuffix s ''K'')
      else (1, s))"

definition parseFinancialValue :: "(string \<Rightarrow> f64 option) \<Rightarrow> (f64 \<Rightarrow> int) \<Rightarrow> string \<Rightarrow> scrape_Scaled option" where
  "parseFinancialValue pf ovf val_str =
     (if absent val_str then None
      else
        let clean0 = TrimSpace (replace_char CHR ''$'' [] (replace_char CHR '','' [] val_str));
            (percent, clean1) =
              (if HasSuffix clean0 ''%'' then (ParseFloat pf (TrimSuffix clean0 ''%''), TrimSuffix clean0 ''%'') else (None, clean0))
        in case percent of
             Some x \<Rightarrow> Some \<lparr>ss_Scaled = f_to_int64 ovf (f_mul x (Fin 100)), ss_Scale = 2\<rparr>
           | None \<Rightarrow>
               let (multiplier, clean2) = split_suffix clean1 in
               (case ParseFloat pf clean2 of
                  Some x \<Rightarrow> Some \<lparr>ss_Scaled = f_to_int64 ovf (f_mul (f_mul x (f_of_int multiplier)) (Fin 100)),
                    ss_Scale = (if 1 < multiplier then 0 else 2)\<rparr>
                | None \<Rightarrow> None))"

definition parseSharesOutstanding :: "(string \<Rightarrow> f64 option) \<Rightarrow> (f64 \<Rightarrow> int) \<Rightarrow> string \<Rightarrow> int64 option" where
  "parseSharesOutstanding pf ovf val_str =
     (if absent val_str then None
      else
        let (multiplier, clean) = split_suffix (TrimSpace (replace_char CHR '','' [] val_str)) in
        (case ParseFloat pf clean of
           Some x \<Rightarrow> Some (f_to_int64 ovf (f_mul x (f_of_int multiplier)))
         | None \<Rightarrow> None))"

text \<open>The three helpers of the analysis pages.\<close>

definition parseFloat :: "(string \<Rightarrow> f64 option) \<Rightarrow> string \<Rightarrow> f64 option" where
  "parseFloat pf s =
     (let t = TrimSpace s in if t = [] \<or> t = ''--'' \<or> t = ''-'' then None else ParseFloat pf t)"

definition parseInt :: "string \<Rightarrow> int option" where
  "parseInt s = (let t = TrimSpace s in if t = [] \<or> t = ''--'' \<or> t = ''-'' then None else ParseInt64 t)"

definition parseString :: "string \<Rightarrow> string option" where
  "parseString s = (let t = TrimSpace s in if t = [] \<or> t = ''--'' \<or> t = ''-'' then None else Some t)"

text \<open>The three helpers of the financial statements.\<close>

definition convertToScaled :: "string \<Rightarrow> scrape_Scaled option" where
  "convertToScaled v =
     (if v = [] \<or> v = ''--'' then None
      else case ParseInt64 (replace_char CHR '','' [] v) of
        Some n \<Rightarrow> Some \<lparr>ss_Scaled = wrap64 (n * 1000), ss_Scale = 0\<rparr>
      | None \<Rightarrow> None)"

definition convertEPSToScaled :: "(string \<Rightarrow> f64 option) \<Rightarrow> (f64 \<Rightarrow> int) \<Rightarrow> string \<Rightarrow> scrape_Scaled option" where
  "convertEPSToScaled pf ovf v =
     (if v = [] \<or> v = ''--'' then None
      else if HasSuffix v ''k'' then
        (case ParseFloat pf (TrimSuffix v ''k'') of
           Some x \<Rightarrow> Some \<lparr>ss_Scaled = f_to_int64 ovf (f_mul (f_mul x (Fin 1000)) (Fin 100)), ss_Scale = 2\<rparr>
         | None \<Rightarrow> None)
      else
        (case ParseFloat pf v of
           Some x \<Rightarrow> Some \<lparr>ss_Scaled = f_to_int64 ovf (f_mul x (Fin 100)), ss_Scale = 2\<rparr>
         | None \<Rightarrow> None))"

definition convertSharesToInt64 :: "(string \<Rightarrow> f64 option) \<Rightarrow> (f64 \<Rightarrow> int) \<Rightarrow> string \<Rightarrow> int64 option" where
  "convertSharesToInt64 pf ovf v =
     (if v = [] \<or> v = ''--'' then None
      else case ParseFloat pf (replace_char CHR '','' [] v) of
        Some x \<Rightarrow> Some (f_to_int64 ovf x)
      | None \<Rightarrow> None)"

definition parseRevenueEstimateString :: "(string \<Rightarrow> f64 option) \<Rightarrow> (f64 \<Rightarrow> int) \<Rightarrow> string \<Rightarrow> scrape_Scaled option" where
  "parseRevenueEstimateString pf ovf s0 =
     (let s1 = TrimSpace s0 in
      if absent s1 then None
      else
        let s2 = TrimPrefix (replace_char CHR '','' [] s1) ''$'';
            (multiplier, s3) =
              (if HasSuffix s2 ''B'' then (1000000000, TrimSuffix s2 ''B'')
               else if HasSuffix s2 ''T'' then (1000000000000, TrimSuffix s2 ''T'')
               else if HasSuffix s2 ''M'' then (1000000, TrimSuffix s2 ''M'')
               else if HasSuffix s2 ''K'' then (1000, TrimSuffix s2 ''K'')
               else (1, s2))
        in case ParseFloat pf s3 of
             Some x \<Rightarrow> Some \<lparr>ss_Scaled = f_to_int64 ovf (f_mul x (Fin multiplier)), ss_Scale = 0\<rparr>
           | None \<Rightarrow> None)"

text \<open>
  The coercions of \<^verbatim>\<open>types_json.go\<close>. A decoded JSON value: the cases are those the type switches of the code tell apart.
\<close>

datatype yahoo_any = YString string | YFloat f64 | YInt int64 | YMap "(string \<times> yahoo_any) list" | YOther

fun CoerceCurrency :: "yahoo_any \<Rightarrow> string \<times> bool" where
  "CoerceCurrency (YString v) = (let currency = TrimSpace (ToUpper v) in if length currency = 3 then (currency, True) else ([], False))"
| "CoerceCurrency (YMap m) =
     (case map_of m ''currency'' of
        Some (YString v) \<Rightarrow> (let currency = TrimSpace (ToUpper v) in if length currency = 3 then (currency, True) else ([], False))
      | _ \<Rightarrow> ([], False))"
| "CoerceCurrency _ = ([], False)"

definition yahoo_layouts :: "ltok list list" where
  "yahoo_layouts =
     [layout_date,
      layout_date @ LLit CHR ''T'' # clock_fields @ [LLit CHR ''Z''],
      layout_date @ LLit CHR ''T'' # clock_fields @ [LFrac 3, LLit CHR ''Z''],
      layout_date @ LLit CHR '' '' # clock_fields]"

fun first_some :: "('a \<Rightarrow> 'b option) \<Rightarrow> 'a list \<Rightarrow> 'b option" where
  "first_some f [] = None"
| "first_some f (x # xs) = (case f x of Some y \<Rightarrow> Some y | None \<Rightarrow> first_some f xs)"

fun ParseYahooDate :: "(f64 \<Rightarrow> int) \<Rightarrow> yahoo_any \<Rightarrow> instant option" where
  "ParseYahooDate ovf (YFloat x) = Some (time_Unix (f_to_int64 ovf x) 0)"
| "ParseYahooDate ovf (YInt n) = Some (time_Unix n 0)"
| "ParseYahooDate ovf (YString v) = first_some (\<lambda>l. time_Parse l v) yahoo_layouts"
| "ParseYahooDate ovf _ = None"

definition ParseYahooPeriod :: "(f64 \<Rightarrow> int) \<Rightarrow> string \<Rightarrow> (instant \<times> instant) option" where
  "ParseYahooPeriod ovf periodStr =
     (case ParseYahooDate ovf (YString periodStr) of
        Some t \<Rightarrow> Some (time_Date (time_Year t) 1 1 0, t)
      | None \<Rightarrow> None)"

definition StringToInt64 :: "string \<Rightarrow> int64 option" where
  "StringToInt64 s =
     (if s = [] then None else ParseInt64 (replace_char CHR '' '' [] (replace_char CHR '','' [] s)))"

definition StringToFloat64 :: "(string \<Rightarrow> f64 option) \<Rightarrow> string \<Rightarrow> f64 option" where
  "StringToFloat64 pf s =
     (if s = [] then None else ParseFloat pf (replace_char CHR '' '' [] (replace_char CHR '','' [] s)))"

definition Scaled_Float64 :: "scrape_Scaled \<Rightarrow> f64" where
  "Scaled_Float64 s =
     (if ss_Scale s = 0 then f_of_int (ss_Scaled s)
      else f_div (f_of_int (ss_Scaled s)) (((\<lambda>d. f_mul d (Fin 10)) ^^ nat (ss_Scale s)) (Fin 1)))"

section \<open>Text\<close>

lemma show_nat_decimal: "digits_value 0 (show_nat n) = n \<and> list_all is_digit (show_nat n) \<and> show_nat n \<noteq> []"
  by (induction n rule: show_nat.induct) (subst (1 2 3) show_nat.simps, simp add: digits_value_append)

lemmas show_nat_simps [simp] = show_nat_decimal [THEN conjunct1] show_nat_decimal [THEN conjunct2, THEN conjunct1]
  show_nat_decimal [THEN conjunct2, THEN conjunct2]

lemma digit_notin: "list_all is_digit s \<Longrightarrow> \<not> is_digit c \<Longrightarrow> c \<notin> set s"
  by (auto simp: list_all_iff)

lemma replace_char_notin: "c \<notin> set s \<Longrightarrow> replace_char c r s = s"
  unfolding replace_char_def by (induction s) auto

lemma TrimSpace_spaceless: "\<forall>c \<in> set s. \<not> is_space c \<Longrightarrow> TrimSpace s = s"
proof -
  assume h: "\<forall>c \<in> set s. \<not> is_space c"
  have "dropWhile is_space t = t" if "\<forall>c \<in> set t. \<not> is_space c" for t using that by (cases t) auto
  from this [of s] this [of "rev s"] h show ?thesis by (simp add: TrimSpace_def)
qed

definition numeral_text :: "string \<Rightarrow> bool" where
  "numeral_text s \<longleftrightarrow> s \<noteq> [] \<and> (\<forall>c \<in> set s. is_digit c \<or> c = CHR ''.'')"

lemma numeral_textD:
  assumes "numeral_text s"
  shows "replace_char CHR '','' r s = s" "replace_char CHR ''$'' r s = s" "TrimSpace s = s" "s \<noteq> []"
    "\<not> absent s" "split_sign s = (1, s)"
proof -
  have *: "c \<notin> set s" if "\<not> is_digit c" "c \<noteq> CHR ''.''" for c using assms that by (auto simp: numeral_text_def)
  show "s \<noteq> []" using assms by (simp add: numeral_text_def)
  show "replace_char CHR '','' r s = s" "replace_char CHR ''$'' r s = s"
    by (rule replace_char_notin, rule *; simp add: is_digit_def code_of_def)+
  show "TrimSpace s = s" using assms by (intro TrimSpace_spaceless) (auto simp: numeral_text_def is_digit_def is_space_def code_of_def)
  have h: "CHR ''-'' \<notin> set s" "CHR ''N'' \<notin> set s" "CHR ''+'' \<notin> set s"
    by (rule *; simp add: is_digit_def code_of_def)+
  show "\<not> absent s" using h \<open>s \<noteq> []\<close> by (auto simp: absent_def)
  show "split_sign s = (1, s)" using h by (cases s) (auto simp: split_sign_def)
qed

lemma HasSuffix_char: "HasSuffix s [c] \<longleftrightarrow> s \<noteq> [] \<and> last s = c"
  by (cases s rule: rev_cases) (auto simp: HasSuffix_def)

lemma TrimSuffix_char [simp]: "TrimSuffix (s @ [c]) [c] = s"
  by (simp add: TrimSuffix_def HasSuffix_def)

lemma numeral_text_last: "numeral_text s \<Longrightarrow> \<not> is_digit c \<Longrightarrow> c \<noteq> CHR ''.'' \<Longrightarrow> \<not> HasSuffix s [c]"
  by (auto simp: HasSuffix_char numeral_text_def)

lemma numeral_text_show_nat [simp]: "numeral_text (show_nat n)"
  using show_nat_decimal [of n] by (auto simp: numeral_text_def list_all_iff)

lemma ParseFloat_show_nat: "\<bar>int n\<bar> < 2 ^ 53 \<Longrightarrow> ParseFloat pf (show_nat n) = Some (Fin (of_nat n))"
proof -
  assume n: "\<bar>int n\<bar> < 2 ^ 53"
  have "CHR ''.'' \<notin> set (show_nat n)" by (intro digit_notin) (simp_all add: is_digit_def code_of_def)
  then have "plain_decimal (show_nat n) = Some (of_nat n)"
    by (simp add: plain_decimal_def numeral_textD(6) splitN2_char_def)
  then show ?thesis using fl_of_int [OF n] by (simp add: ParseFloat_def)
qed

definition cents_text :: "nat \<Rightarrow> string" where
  "cents_text n = show_nat (n div 100) @ CHR ''.'' # [char_of (48 + n div 10 mod 10), char_of (48 + n mod 10)]"

lemma plain_decimal_cents_text: "numeral_text (cents_text n)" "plain_decimal (cents_text n) = Some (of_nat n / 100)"
proof -
  let ?f = "[char_of (48 + n div 10 mod 10), char_of (48 + n mod 10)]"
  show nt: "numeral_text (cents_text n)" using numeral_text_show_nat [of "n div 100"]
      is_digit_digit [of "n div 10 mod 10"] is_digit_digit [of "n mod 10"]
    by (simp add: numeral_text_def cents_text_def ball_Un del: is_digit_digit)
  have "CHR ''.'' \<notin> set (show_nat (n div 100))" by (intro digit_notin) (simp_all add: is_digit_def code_of_def)
  then have sp: "splitN2_char CHR ''.'' (cents_text n) = [show_nat (n div 100), ?f]"
    unfolding cents_text_def splitN2_char_def by (simp add: takeWhile_append dropWhile_append)
  have "digits_value 0 (show_nat (n div 100) @ ?f) = 10 * (10 * (n div 100) + n div 10 mod 10) + n mod 10"
    by (simp add: digits_value_append)
  also have "10 * (n div 100) + n div 10 mod 10 = n div 10"
    using mult_div_mod_eq [of 10 "n div 10"] by (simp flip: div_mult2_eq)
  also have "10 * (n div 10) + n mod 10 = n" by simp
  finally show "plain_decimal (cents_text n) = Some (of_nat n / 100)"
    by (simp add: plain_decimal_def numeral_textD(6) [OF nt] sp)
qed


definition suffixes :: "(string \<times> nat) list" where
  "suffixes = [(''B'', 1000000000), (''M'', 1000000), (''K'', 1000)]"

lemma suffixed_text:
  assumes "(sfx, k) \<in> set suffixes" and s: "numeral_text s"
  shows "split_suffix (s @ sfx) = (int k, s)" "\<not> absent (s @ sfx)" "\<not> HasSuffix (s @ sfx) ''%''"
    "TrimSpace (s @ sfx) = s @ sfx" "replace_char CHR '','' r (s @ sfx) = s @ sfx" "replace_char CHR ''$'' r (s @ sfx) = s @ sfx"
    "TrimPrefix (s @ sfx) ''$'' = s @ sfx"
proof -
  have sfx: "(sfx, k) = (''B'', 1000000000) \<or> (sfx, k) = (''M'', 1000000) \<or> (sfx, k) = (''K'', 1000)"
    using assms(1) by (simp add: suffixes_def)
  then show "split_suffix (s @ sfx) = (int k, s)" "\<not> HasSuffix (s @ sfx) ''%''"
    by (auto simp: split_suffix_def HasSuffix_char)
  have d: "\<exists>c t. s = c # t \<and> (is_digit c \<or> c = CHR ''.'')" using s by (cases s) (auto simp: numeral_text_def)
  show "\<not> absent (s @ sfx)" using d sfx by (auto simp: absent_def is_digit_def code_of_def)
  show "TrimPrefix (s @ sfx) ''$'' = s @ sfx" using d by (auto simp: TrimPrefix_def HasPrefix_def is_digit_def code_of_def)
  have "\<forall>c \<in> set (s @ sfx). \<not> is_space c \<and> c \<noteq> CHR '','' \<and> c \<noteq> CHR ''$''"
    using s sfx by (auto simp: numeral_text_def is_digit_def is_space_def code_of_def)
  then show "TrimSpace (s @ sfx) = s @ sfx" "replace_char CHR '','' r (s @ sfx) = s @ sfx" "replace_char CHR ''$'' r (s @ sfx) = s @ sfx"
    by (blast intro: TrimSpace_spaceless replace_char_notin)+
qed

lemma f_mul_ints:
  assumes "\<bar>a * b\<bar> < 2 ^ 53"
  shows "f_mul (Fin (of_int a)) (Fin (of_int b)) = Fin (of_int (a * b))"
  using fl_of_int [OF assms] by simp

lemma f_to_int64_int: "\<bar>n\<bar> < 2 ^ 53 \<Longrightarrow> f_to_int64 ovf (Fin (of_int n)) = n"
  by (intro f_to_int64_fits is_int64_abs) simp

lemma suffixed_values:
  assumes "(sfx, k) \<in> set suffixes" "n * k * 100 < 2 ^ 53"
  shows "parseFinancialValue pf ovf (show_nat n @ sfx) = Some \<lparr>ss_Scaled = int (n * k) * 100, ss_Scale = 0\<rparr> \<and>
    parseSharesOutstanding pf ovf (show_nat n @ sfx) = Some (int (n * k)) \<and>
    parseRevenueEstimateString pf ovf (show_nat n @ sfx) = Some \<lparr>ss_Scaled = int (n * k), ss_Scale = 0\<rparr>"
proof -
  have sfx: "(sfx, k) = (''B'', 1000000000) \<or> (sfx, k) = (''M'', 1000000) \<or> (sfx, k) = (''K'', 1000)"
    using assms(1) by (simp add: suffixes_def)
  note t = suffixed_text [OF assms(1) numeral_text_show_nat [of n]]
  have k: "1 < k" "k < 2 ^ 53" using sfx by auto
  have n: "n < 2 ^ 53" "n * k < 2 ^ 53"
  proof -
    have "n * 1 \<le> n * k" using k by (intro mult_le_mono) simp_all
    then show "n < 2 ^ 53" "n * k < 2 ^ 53" using assms(2) by linarith+
  qed
  have P: "ParseFloat pf (show_nat n) = Some (Fin (of_int (int n)))" using n ParseFloat_show_nat [of n pf] by simp
  have K: "f_of_int (int k) = Fin (of_int (int k))" using k by (intro f_of_int_small) simp
  have lt: "\<bar>int (n * k) * 100\<bar> < 2 ^ 53" "\<bar>int (n * k)\<bar> < 2 ^ 53"
  proof -
    have "int (n * k * 100) < int (2 ^ 53)" "int (n * k) < int (2 ^ 53)" using assms(2) n(2) unfolding of_nat_less_iff .
    then show "\<bar>int (n * k) * 100\<bar> < 2 ^ 53" "\<bar>int (n * k)\<bar> < 2 ^ 53" by simp_all
  qed
  have M: "f_mul (Fin (of_int (int n))) (Fin (of_int (int k))) = Fin (of_int (int (n * k)))"
    using f_mul_ints [of "int n" "int k"] lt(2) by simp
  have H: "f_mul (Fin (of_int (int (n * k)))) (Fin 100) = Fin (of_int (int (n * k) * 100))"
    using f_mul_ints [OF lt(1)] by simp
  have I: "f_to_int64 ovf (Fin (of_int (int (n * k) * 100))) = int (n * k) * 100"
    "f_to_int64 ovf (Fin (of_int (int (n * k)))) = int (n * k)"
    by (rule f_to_int64_int, rule lt)+
  have "parseFinancialValue pf ovf (show_nat n @ sfx) = Some \<lparr>ss_Scaled = int (n * k) * 100, ss_Scale = 0\<rparr>"
    unfolding parseFinancialValue_def using k by (simp only: t if_False if_True Let_def prod.case option.case P K M H I) simp
  moreover have "parseSharesOutstanding pf ovf (show_nat n @ sfx) = Some (int (n * k))"
    unfolding parseSharesOutstanding_def using k by (simp only: t if_False if_True Let_def prod.case option.case P K M H I)
  moreover have "parseRevenueEstimateString pf ovf (show_nat n @ sfx) = Some \<lparr>ss_Scaled = int (n * k), ss_Scale = 0\<rparr>"
  proof -
    have "parseRevenueEstimateString pf ovf (show_nat n @ sfx) =
        Some \<lparr>ss_Scaled = f_to_int64 ovf (f_mul (Fin (of_int (int n))) (Fin (of_int (int k)))), ss_Scale = 0\<rparr>"
      unfolding parseRevenueEstimateString_def using sfx t P
      by (elim disjE) (simp_all add: HasSuffix_char)
    then show ?thesis by (simp only: M I)
  qed
  ultimately show ?thesis by blast
qed

lemmas suffixed_value = suffixed_values [THEN conjunct1]

text \<open>
  C12: A figure written as an integer with the suffix K, M or B and below 2^53 hundredths is
  read by the key statistics as a value a hundred times too large: the code multiplies it by
  100 but gives it the scale 0. The share counts and the revenue estimates, which use the same
  notation, are read exactly.
\<close>

theorem suffixed_numbers:
  assumes "(sfx, k) \<in> {(''B'', 1000000000), (''M'', 1000000), (''K'', 1000)}" "n * k * 100 < 2 ^ 53"
  shows "parseFinancialValue pf ovf (show_nat n @ sfx) = Some \<lparr>ss_Scaled = int (n * k) * 100, ss_Scale = 0\<rparr> \<and>
    parseSharesOutstanding pf ovf (show_nat n @ sfx) = Some (int (n * k)) \<and>
    parseRevenueEstimateString pf ovf (show_nat n @ sfx) = Some \<lparr>ss_Scaled = int (n * k), ss_Scale = 0\<rparr>"
  by (rule suffixed_values) (use assms in \<open>simp_all add: suffixes_def\<close>)

lemma suffixed_numbers_witness:
  "parseFinancialValue (\<lambda>_. None) (\<lambda>_. 0) (show_nat 3 @ ''B'') = Some \<lparr>ss_Scaled = 300000000000, ss_Scale = 0\<rparr> \<and>
   parseRevenueEstimateString (\<lambda>_. None) (\<lambda>_. 0) (show_nat 3 @ ''B'') = Some \<lparr>ss_Scaled = 3000000000, ss_Scale = 0\<rparr>"
  using suffixed_numbers [of "''B''" 1000000000 3 "\<lambda>_. None" "\<lambda>_. 0"] by simp

lemma ParseFloat_cents:
  assumes "n \<le> 2 ^ 50"
  obtains q w where "ParseFloat pf (cents_text n) = Some (Fin q)" "fl (q * 1) = Fin q" "fl (q * 100) = Fin w"
    "f_to_int64 ovf (Fin w) = int n \<or> f_to_int64 ovf (Fin w) = int n - 1"
proof -
  have "\<bar>int n\<bar> \<le> 2 ^ 50" using assms by simp
  then obtain q w where q: "fl (of_int (int n) / 100) = Fin q" "fl (q * 100) = Fin w" "\<bar>w - of_int (int n)\<bar> < 1/2"
    using fl_div_mul_roundtrip [of "int n" 100] by auto
  have "trunc_rat w = int n \<or> trunc_rat w = int n - 1"
  proof (cases "n = 0")
    case True
    then show ?thesis using q by (auto simp: trunc_rat_def)
  next
    case False
    then have "1 \<le> (of_int (int n) :: rat)" by simp
    then have w: "0 \<le> w" "of_int (int n - 1) \<le> w" "w < of_int (int n + 1)"
      using q(3) unfolding abs_less_iff of_int_diff of_int_add of_int_1 by linarith+
    then have "int n - 1 \<le> \<lfloor>w\<rfloor>" "\<lfloor>w\<rfloor> < int n + 1" by (simp_all only: le_floor_iff floor_less_iff)
    then show ?thesis using w(1) by (auto simp: trunc_rat_def)
  qed
  moreover have "f_to_int64 ovf (Fin w) = trunc_rat w" using calculation assms by (auto simp: f_to_int64_def)
  ultimately show ?thesis
    using that [of q w] q fl_idem [OF q(1)] by (simp add: ParseFloat_def plain_decimal_cents_text)
qed

lemma numeral_text_not_suffix:
  assumes "numeral_text s"
  shows "\<not> HasSuffix s ''%''" "\<not> HasSuffix s ''B''" "\<not> HasSuffix s ''M''" "\<not> HasSuffix s ''K''" "\<not> HasSuffix s ''k''"
  by (rule numeral_text_last [OF assms]; simp add: is_digit_def code_of_def)+

theorem cents_read_within_one:
  assumes "n \<le> 2 ^ 50"
  shows "\<exists>s \<in> {int n - 1, int n}.
    convertEPSToScaled pf ovf (cents_text n) = Some \<lparr>ss_Scaled = s, ss_Scale = 2\<rparr> \<and>
    parseFinancialValue pf ovf (cents_text n) = Some \<lparr>ss_Scaled = s, ss_Scale = 2\<rparr> \<and>
    parseFinancialValue pf ovf (cents_text n @ ''%'') = Some \<lparr>ss_Scaled = s, ss_Scale = 2\<rparr>"
proof -
  obtain q w where q: "ParseFloat pf (cents_text n) = Some (Fin q)" "fl (q * 1) = Fin q" "fl (q * 100) = Fin w"
    and w: "f_to_int64 ovf (Fin w) = int n \<or> f_to_int64 ovf (Fin w) = int n - 1"
    using ParseFloat_cents [OF assms] .
  have nt: "numeral_text (cents_text n)" by (rule plain_decimal_cents_text)
  note t = numeral_textD [OF nt] numeral_text_not_suffix [OF nt]
  have "f_of_int 1 = Fin 1" using f_of_int_small [of 1] by simp
  then have "convertEPSToScaled pf ovf (cents_text n) = Some \<lparr>ss_Scaled = f_to_int64 ovf (Fin w), ss_Scale = 2\<rparr>"
    "parseFinancialValue pf ovf (cents_text n) = Some \<lparr>ss_Scaled = f_to_int64 ovf (Fin w), ss_Scale = 2\<rparr>"
    using t q by (auto simp: convertEPSToScaled_def parseFinancialValue_def split_suffix_def absent_def)
  moreover have "parseFinancialValue pf ovf (cents_text n @ ''%'') = Some \<lparr>ss_Scaled = f_to_int64 ovf (Fin w), ss_Scale = 2\<rparr>"
  proof -
    have "\<forall>c \<in> set (cents_text n @ ''%''). \<not> is_space c \<and> c \<noteq> CHR '','' \<and> c \<noteq> CHR ''$''"
      using nt by (auto simp: numeral_text_def is_digit_def is_space_def code_of_def)
    then have "TrimSpace (cents_text n @ ''%'') = cents_text n @ ''%''" "replace_char CHR '','' [] (cents_text n @ ''%'') = cents_text n @ ''%''"
      "replace_char CHR ''$'' [] (cents_text n @ ''%'') = cents_text n @ ''%''"
      by (blast intro: TrimSpace_spaceless replace_char_notin)+
    moreover have "\<not> absent (cents_text n @ ''%'')" using t(4) by (auto simp: absent_def append_eq_Cons_conv)
    ultimately show ?thesis using q by (simp add: parseFinancialValue_def HasSuffix_char)
  qed
  ultimately show ?thesis using w by (intro bexI [of _ "f_to_int64 ovf (Fin w)"]) auto
qed

theorem convertEPSToScaled_loses_a_cent:
  "convertEPSToScaled pf ovf ''1.15'' = Some \<lparr>ss_Scaled = 114, ss_Scale = 2\<rparr>"
proof -
  have "plain_decimal ''1.15'' = Some (115 / 100)"
    by (simp add: plain_decimal_def digit_of_def split_sign_def splitN2_char_def is_digit_def code_of_def)
  moreover have "fl (115/100) = Fin (5179139571476070 / 2 ^ 52)"
    by (subst fl_eval [where e = "-52" and m = 5179139571476070]) (simp_all add: power_int_minus divide_simps)
  moreover have "fl (5179139571476070 / 2 ^ 52 * 100) = Fin (8092405580431359 / 2 ^ 46)"
    by (subst fl_eval [where e = "-46" and m = 8092405580431359]) (simp_all add: power_int_minus divide_simps)
  moreover have "trunc_rat (8092405580431359 / 2 ^ 46) = 114" by (simp add: trunc_rat_def, intro floor_unique) simp_all
  ultimately show ?thesis by (simp add: convertEPSToScaled_def ParseFloat_def HasSuffix_char f_to_int64_def)
qed

theorem ParseYahooPeriod_format_date:
  assumes "0 \<le> time_Year t" "time_Year t \<le> 9999"
  shows "ParseYahooPeriod ovf (format_date t) = Some (time_Date (time_Year t) 1 1 0, time_day t * day_ns)"
proof -
  have "time_day (time_day t * day_ns) = time_day t" by (simp add: time_day_def day_ns_def)
  then have "time_Year (time_day t * day_ns) = time_Year t" by (simp add: time_Year_def)
  then show ?thesis using time_Parse_format_date [OF assms] by (simp add: ParseYahooPeriod_def yahoo_layouts_def)
qed

end
