(* ===== verification/ScrapeFinancials.thy ===== *)
theory ScrapeFinancials
  imports ScrapeNumbers "HOL-Library.AList"
begin

text \<open>
  The financial statements of a page: \<^verbatim>\<open>internal/scrape/financials.go\<close>, from the text of the page to the record
  \<^verbatim>\<open>ComprehensiveFinancialsDTO\<close>, and the loading of the pattern files that all five page parsers share. Regular expressions
  are the parameter \<open>re_find\<close>: for a pattern and a text it gives the groups of the first match (none if there is no match), or
  panics as \<^verbatim>\<open>regexp.MustCompile\<close> does on a malformed pattern.
\<close>

section \<open>Pattern files\<close>

text \<open>
  The package keeps each set of patterns in a variable that is nil until the first load. \<open>dir\<close> is the directory of the source
  file (none if the caller is unknown), \<open>read_file\<close> and \<open>unmarshal\<close> the file system and the YAML decoder, which fills in what it
  can before it fails.
\<close>

definition load_patterns ::
  "string \<Rightarrow> string \<Rightarrow> string option \<Rightarrow> (string \<Rightarrow> string go) \<Rightarrow> (string \<Rightarrow> 'c \<times> goerror option) \<Rightarrow> 'c option \<Rightarrow> 'c option \<times> unit go" where
  "load_patterns what file dir read_file unmarshal st =
     (case st of Some _ \<Rightarrow> (st, Ret ())
      | None \<Rightarrow>
          (case dir of None \<Rightarrow> (None, Err (Errorf ''unable to get current file path'' []))
           | Some d \<Rightarrow>
               (case read_file (d @ ''/regex/'' @ file) of
                  Ret data \<Rightarrow>
                    (let (cfg, e) = unmarshal data
                     in (Some cfg,
                         case e of None \<Rightarrow> Ret ()
                         | Some e \<Rightarrow> Err (Wrapf (''failed to parse '' @ what @ ''regex config YAML: %w'') [] e)))
                | Err e \<Rightarrow> (None, Err (Wrapf (''failed to read '' @ what @ ''regex config file: %w'') [] e))
                | Panic p \<Rightarrow> (None, Panic p))))"

definition LoadRegexConfig ::
  "string option \<Rightarrow> (string \<Rightarrow> string go) \<Rightarrow> (string \<Rightarrow> 'c \<times> goerror option) \<Rightarrow> 'c option \<Rightarrow> 'c option \<times> unit go" where
  "LoadRegexConfig = load_patterns '''' ''statistics.yaml''"

definition LoadFinancialsRegexConfig ::
  "string option \<Rightarrow> (string \<Rightarrow> string go) \<Rightarrow> (string \<Rightarrow> 'c \<times> goerror option) \<Rightarrow> 'c option \<Rightarrow> 'c option \<times> unit go" where
  "LoadFinancialsRegexConfig = load_patterns ''financials '' ''financials.yaml''"

definition LoadAnalysisRegexConfig ::
  "string option \<Rightarrow> (string \<Rightarrow> string go) \<Rightarrow> (string \<Rightarrow> 'c \<times> goerror option) \<Rightarrow> 'c option \<Rightarrow> 'c option \<times> unit go" where
  "LoadAnalysisRegexConfig = load_patterns ''analysis '' ''analysis.yaml''"

definition LoadAnalystInsightsRegexConfig ::
  "string option \<Rightarrow> (string \<Rightarrow> string go) \<Rightarrow> (string \<Rightarrow> 'c \<times> goerror option) \<Rightarrow> 'c option \<Rightarrow> 'c option \<times> unit go" where
  "LoadAnalystInsightsRegexConfig = load_patterns ''analyst insights '' ''analyst_insights.yaml''"

section \<open>The records\<close>

record fin_Current =
  cf_TotalRevenue :: "scrape_Scaled option"
  cf_CostOfRevenue :: "scrape_Scaled option"
  cf_GrossProfit :: "scrape_Scaled option"
  cf_OperatingExpense :: "scrape_Scaled option"
  cf_OperatingIncome :: "scrape_Scaled option"
  cf_NetNonOperatingInterestIncomeExpense :: "scrape_Scaled option"
  cf_OtherIncomeExpense :: "scrape_Scaled option"
  cf_PretaxIncome :: "scrape_Scaled option"
  cf_TaxProvision :: "scrape_Scaled option"
  cf_NetIncomeCommonStockholders :: "scrape_Scaled option"
  cf_BasicEPS :: "scrape_Scaled option"
  cf_DilutedEPS :: "scrape_Scaled option"
  cf_BasicAverageShares :: "int64 option"
  cf_DilutedAverageShares :: "int64 option"
  cf_TotalExpenses :: "scrape_Scaled option"
  cf_NormalizedIncome :: "scrape_Scaled option"
  cf_EBIT :: "scrape_Scaled option"
  cf_EBITDA :: "scrape_Scaled option"
  cf_ReconciledCostOfRevenue :: "scrape_Scaled option"
  cf_ReconciledDepreciation :: "scrape_Scaled option"
  cf_NormalizedEBITDA :: "scrape_Scaled option"
  cf_TotalAssets :: "scrape_Scaled option"
  cf_TotalCapitalization :: "scrape_Scaled option"
  cf_CommonStockEquity :: "scrape_Scaled option"
  cf_CapitalLeaseObligations :: "scrape_Scaled option"
  cf_NetTangibleAssets :: "scrape_Scaled option"
  cf_WorkingCapital :: "scrape_Scaled option"
  cf_InvestedCapital :: "scrape_Scaled option"
  cf_TangibleBookValue :: "scrape_Scaled option"
  cf_TotalDebt :: "scrape_Scaled option"
  cf_ShareIssued :: "int64 option"
  cf_OperatingCashFlow :: "scrape_Scaled option"
  cf_InvestingCashFlow :: "scrape_Scaled option"
  cf_FinancingCashFlow :: "scrape_Scaled option"
  cf_EndCashPosition :: "scrape_Scaled option"
  cf_CapitalExpenditure :: "scrape_Scaled option"
  cf_IssuanceOfDebt :: "scrape_Scaled option"
  cf_RepaymentOfDebt :: "scrape_Scaled option"
  cf_RepurchaseOfCapitalStock :: "scrape_Scaled option"
  cf_FreeCashFlow :: "scrape_Scaled option"

record fin_Period =
  hp_Date :: string
  hp_TotalRevenue :: "scrape_Scaled option"
  hp_CostOfRevenue :: "scrape_Scaled option"
  hp_GrossProfit :: "scrape_Scaled option"
  hp_OperatingExpense :: "scrape_Scaled option"
  hp_OperatingIncome :: "scrape_Scaled option"
  hp_NetNonOperatingInterestIncomeExpense :: "scrape_Scaled option"
  hp_OtherIncomeExpense :: "scrape_Scaled option"
  hp_PretaxIncome :: "scrape_Scaled option"
  hp_TaxProvision :: "scrape_Scaled option"
  hp_NetIncomeCommonStockholders :: "scrape_Scaled option"
  hp_BasicEPS :: "scrape_Scaled option"
  hp_DilutedEPS :: "scrape_Scaled option"
  hp_BasicAverageShares :: "int64 option"
  hp_DilutedAverageShares :: "int64 option"
  hp_TotalExpenses :: "scrape_Scaled option"
  hp_NormalizedIncome :: "scrape_Scaled option"
  hp_EBIT :: "scrape_Scaled option"
  hp_EBITDA :: "scrape_Scaled option"
  hp_ReconciledCostOfRevenue :: "scrape_Scaled option"
  hp_ReconciledDepreciation :: "scrape_Scaled option"
  hp_NormalizedEBITDA :: "scrape_Scaled option"

record fin_Historical =
  fh_Q2_2025 :: fin_Period
  fh_Q1_2025 :: fin_Period
  fh_Q4_2024 :: fin_Period
  fh_Q3_2024 :: fin_Period
  fh_Q2_2024 :: fin_Period

record ComprehensiveFinancialsDTO =
  fd_Symbol :: string
  fd_Market :: string
  fd_Currency :: string
  fd_AsOf :: instant
  fd_Current :: fin_Current
  fd_Historical :: fin_Historical

record fin_IncomePatterns =
  fxi_TotalRevenue :: string
  fxi_CostOfRevenue :: string
  fxi_OperatingIncome :: string
  fxi_NetIncome :: string
  fxi_BasicEPS :: string
  fxi_DilutedEPS :: string
  fxi_EBITDA :: string
  fxi_EBIT :: string
  fxi_TotalExpenses :: string
  fxi_NormalizedEBITDA :: string

record fin_SharesPatterns =
  fxs_BasicAverageShares :: string
  fxs_DilutedAverageShares :: string

record fin_BalancePatterns =
  fxb_TotalAssets :: string
  fxb_TotalCapitalization :: string
  fxb_CommonStockEquity :: string
  fxb_CapitalLeaseObligations :: string
  fxb_NetTangibleAssets :: string
  fxb_WorkingCapital :: string
  fxb_InvestedCapital :: string
  fxb_TangibleBookValue :: string
  fxb_TotalDebt :: string
  fxb_ShareIssued :: string

record fin_CashPatterns =
  fxc_OperatingCashFlow :: string
  fxc_InvestingCashFlow :: string
  fxc_FinancingCashFlow :: string
  fxc_EndCashPosition :: string
  fxc_CapitalExpenditure :: string
  fxc_IssuanceOfDebt :: string
  fxc_RepaymentOfDebt :: string
  fxc_RepurchaseOfCapitalStock :: string
  fxc_FreeCashFlow :: string

record FinancialsRegexConfig =
  fx_Currency :: string
  fx_IncomeStatement :: fin_IncomePatterns
  fx_Shares :: fin_SharesPatterns
  fx_BalanceSheet :: fin_BalancePatterns
  fx_CashFlow :: fin_CashPatterns

text \<open>The zero values of the structs.\<close>

definition zero_Current :: fin_Current where
  "zero_Current = \<lparr>cf_TotalRevenue = None, cf_CostOfRevenue = None, cf_GrossProfit = None, cf_OperatingExpense = None, cf_OperatingIncome = None, cf_NetNonOperatingInterestIncomeExpense = None, cf_OtherIncomeExpense = None, cf_PretaxIncome = None, cf_TaxProvision = None, cf_NetIncomeCommonStockholders = None, cf_BasicEPS = None, cf_DilutedEPS = None, cf_BasicAverageShares = None, cf_DilutedAverageShares = None, cf_TotalExpenses = None, cf_NormalizedIncome = None, cf_EBIT = None, cf_EBITDA = None, cf_ReconciledCostOfRevenue = None, cf_ReconciledDepreciation = None, cf_NormalizedEBITDA = None, cf_TotalAssets = None, cf_TotalCapitalization = None, cf_CommonStockEquity = None, cf_CapitalLeaseObligations = None, cf_NetTangibleAssets = None, cf_WorkingCapital = None, cf_InvestedCapital = None, cf_TangibleBookValue = None, cf_TotalDebt = None, cf_ShareIssued = None, cf_OperatingCashFlow = None, cf_InvestingCashFlow = None, cf_FinancingCashFlow = None, cf_EndCashPosition = None, cf_CapitalExpenditure = None, cf_IssuanceOfDebt = None, cf_RepaymentOfDebt = None, cf_RepurchaseOfCapitalStock = None, cf_FreeCashFlow = None\<rparr>"

definition zero_Period :: fin_Period where
  "zero_Period = \<lparr>hp_Date = [], hp_TotalRevenue = None, hp_CostOfRevenue = None, hp_GrossProfit = None, hp_OperatingExpense = None, hp_OperatingIncome = None, hp_NetNonOperatingInterestIncomeExpense = None, hp_OtherIncomeExpense = None, hp_PretaxIncome = None, hp_TaxProvision = None, hp_NetIncomeCommonStockholders = None, hp_BasicEPS = None, hp_DilutedEPS = None, hp_BasicAverageShares = None, hp_DilutedAverageShares = None, hp_TotalExpenses = None, hp_NormalizedIncome = None, hp_EBIT = None, hp_EBITDA = None, hp_ReconciledCostOfRevenue = None, hp_ReconciledDepreciation = None, hp_NormalizedEBITDA = None\<rparr>"

definition new_financials :: "string \<Rightarrow> string \<Rightarrow> string \<Rightarrow> instant \<Rightarrow> ComprehensiveFinancialsDTO" where
  "new_financials symbol market currency now =
     \<lparr>fd_Symbol = symbol, fd_Market = market, fd_Currency = currency, fd_AsOf = now, fd_Current = zero_Current,
      fd_Historical = \<lparr>fh_Q2_2025 = zero_Period, fh_Q1_2025 = zero_Period, fh_Q4_2024 = zero_Period,
        fh_Q3_2024 = zero_Period, fh_Q2_2024 = zero_Period\<rparr>\<rparr>"

section \<open>From the page to the table of texts\<close>

text \<open>Each row: the pattern, the keys of its two groups, and whether commas are removed from them.\<close>

definition income_table :: "FinancialsRegexConfig \<Rightarrow> (string \<times> string \<times> string \<times> bool) list" where
  "income_table c =
     [(fxi_TotalRevenue (fx_IncomeStatement c), ''TTM_TotalRevenue'', ''2024_TotalRevenue'', True),
      (fxi_OperatingIncome (fx_IncomeStatement c), ''TTM_OperatingIncome'', ''2024_OperatingIncome'', True),
      (fxi_NetIncome (fx_IncomeStatement c), ''TTM_NetIncome'', ''2024_NetIncome'', True),
      (fxi_BasicEPS (fx_IncomeStatement c), ''TTM_BasicEPS'', ''2024_BasicEPS'', False),
      (fxi_EBITDA (fx_IncomeStatement c), ''TTM_EBITDA'', ''2024_EBITDA'', True),
      (fxi_CostOfRevenue (fx_IncomeStatement c), ''TTM_CostOfRevenue'', ''2024_CostOfRevenue'', True),
      (fxi_DilutedEPS (fx_IncomeStatement c), ''TTM_DilutedEPS'', ''2024_DilutedEPS'', True),
      (fxs_BasicAverageShares (fx_Shares c), ''TTM_BasicAverageShares'', ''2024_BasicAverageShares'', True),
      (fxs_DilutedAverageShares (fx_Shares c), ''TTM_DilutedAverageShares'', ''2024_DilutedAverageShares'', True),
      (fxi_TotalExpenses (fx_IncomeStatement c), ''TTM_TotalExpenses'', ''2024_TotalExpenses'', True),
      (fxi_EBIT (fx_IncomeStatement c), ''TTM_EBIT'', ''2024_EBIT'', True),
      (fxi_NormalizedEBITDA (fx_IncomeStatement c), ''TTM_NormalizedEBITDA'', ''2024_NormalizedEBITDA'', True)]"

definition balance_table :: "FinancialsRegexConfig \<Rightarrow> (string \<times> string \<times> string \<times> bool) list" where
  "balance_table c =
     [(fxb_TotalAssets (fx_BalanceSheet c), ''Current_TotalAssets'', ''2024_TotalAssets'', True),
      (fxb_TotalCapitalization (fx_BalanceSheet c), ''Current_TotalCapitalization'', ''2024_TotalCapitalization'', True),
      (fxb_CommonStockEquity (fx_BalanceSheet c), ''Current_CommonStockEquity'', ''2024_CommonStockEquity'', True),
      (fxb_CapitalLeaseObligations (fx_BalanceSheet c), ''Current_CapitalLeaseObligations'', ''2024_CapitalLeaseObligations'', True),
      (fxb_NetTangibleAssets (fx_BalanceSheet c), ''Current_NetTangibleAssets'', ''2024_NetTangibleAssets'', True),
      (fxb_WorkingCapital (fx_BalanceSheet c), ''Current_WorkingCapital'', ''2024_WorkingCapital'', True),
      (fxb_InvestedCapital (fx_BalanceSheet c), ''Current_InvestedCapital'', ''2024_InvestedCapital'', True),
      (fxb_TangibleBookValue (fx_BalanceSheet c), ''Current_TangibleBookValue'', ''2024_TangibleBookValue'', True),
      (fxb_TotalDebt (fx_BalanceSheet c), ''Current_TotalDebt'', ''2024_TotalDebt'', True),
      (fxb_ShareIssued (fx_BalanceSheet c), ''Current_ShareIssued'', ''2024_ShareIssued'', True)]"

definition cash_table :: "FinancialsRegexConfig \<Rightarrow> (string \<times> string \<times> string \<times> bool) list" where
  "cash_table c =
     [(fxc_OperatingCashFlow (fx_CashFlow c), ''Current_OperatingCashFlow'', ''2024_OperatingCashFlow'', True),
      (fxc_InvestingCashFlow (fx_CashFlow c), ''Current_InvestingCashFlow'', ''2024_InvestingCashFlow'', True),
      (fxc_FinancingCashFlow (fx_CashFlow c), ''Current_FinancingCashFlow'', ''2024_FinancingCashFlow'', True),
      (fxc_EndCashPosition (fx_CashFlow c), ''Current_EndCashPosition'', ''2024_EndCashPosition'', True),
      (fxc_CapitalExpenditure (fx_CashFlow c), ''Current_CapitalExpenditure'', ''2024_CapitalExpenditure'', True),
      (fxc_IssuanceOfDebt (fx_CashFlow c), ''Current_IssuanceOfDebt'', ''2024_IssuanceOfDebt'', True),
      (fxc_RepaymentOfDebt (fx_CashFlow c), ''Current_RepaymentOfDebt'', ''2024_RepaymentOfDebt'', True),
      (fxc_RepurchaseOfCapitalStock (fx_CashFlow c), ''Current_RepurchaseOfCapitalStock'', ''2024_RepurchaseOfCapitalStock'', True),
      (fxc_FreeCashFlow (fx_CashFlow c), ''Current_FreeCashFlow'', ''2024_FreeCashFlow'', True)]"

definition financial_rows :: "FinancialsRegexConfig \<Rightarrow> (string \<times> string \<times> string \<times> bool) list" where
  "financial_rows c = income_table c @ balance_table c @ cash_table c"

lemmas financial_tables = financial_rows_def income_table_def balance_table_def cash_table_def

definition clean_cell :: "bool \<Rightarrow> string \<Rightarrow> string" where
  "clean_cell commas s = TrimSpace (if commas then replace_char CHR '','' [] s else s)"

fun take_rows ::
  "(string \<Rightarrow> string \<Rightarrow> string list go) \<Rightarrow> string \<Rightarrow> (string \<times> string \<times> string \<times> bool) list \<Rightarrow>
   (string \<times> string) list \<Rightarrow> (string \<times> string) list go" where
  "take_rows re_find html [] m = Ret m"
| "take_rows re_find html ((p, k1, k2, c) # rows) m =
     go_bind (re_find p html) (\<lambda>ms.
       take_rows re_find html rows
         (if 2 < length ms then AList.update k2 (clean_cell c (ms ! 2)) (AList.update k1 (clean_cell c (ms ! 1)) m) else m))"

definition match_currency :: "(string \<Rightarrow> string \<Rightarrow> string list go) \<Rightarrow> string \<Rightarrow> string \<Rightarrow> string go" where
  "match_currency re_find p html =
     go_bind (re_find p html) (\<lambda>ms. Ret (if 1 < length ms then ms ! 1 else ''USD''))"

definition extractFinancialDataFromHTML ::
  "(string \<Rightarrow> string \<Rightarrow> string list go) \<Rightarrow> FinancialsRegexConfig \<Rightarrow> string \<Rightarrow> (string \<times> string) list go" where
  "extractFinancialDataFromHTML re_find cfg html =
     go_bind (match_currency re_find (fx_Currency cfg) html) (\<lambda>currency.
     go_bind (take_rows re_find html (financial_rows cfg) (AList.update ''Currency'' currency [])) (\<lambda>m.
     if length m = 0 then Err (Errorf ''could not find financial data in HTML table'' []) else Ret m))"

section \<open>From the table to the record\<close>

definition pick :: "(string \<times> string) list \<Rightarrow> string \<Rightarrow> (string \<Rightarrow> 'a) \<Rightarrow> 'a \<Rightarrow> 'a" where
  "pick m k conv old = (case map_of m k of Some v \<Rightarrow> conv v | None \<Rightarrow> old)"

definition populate_current ::
  "(string \<Rightarrow> f64 option) \<Rightarrow> (f64 \<Rightarrow> int) \<Rightarrow> (string \<times> string) list \<Rightarrow> fin_Current \<Rightarrow> fin_Current" where
  "populate_current pf ovf m c = c\<lparr>
     cf_TotalRevenue := pick m ''TTM_TotalRevenue'' convertToScaled (cf_TotalRevenue c),
     cf_CostOfRevenue := pick m ''TTM_CostOfRevenue'' convertToScaled (cf_CostOfRevenue c),
     cf_OperatingIncome := pick m ''TTM_OperatingIncome'' convertToScaled (cf_OperatingIncome c),
     cf_NetIncomeCommonStockholders := pick m ''TTM_NetIncome'' convertToScaled (cf_NetIncomeCommonStockholders c),
     cf_BasicEPS := pick m ''TTM_BasicEPS'' (convertEPSToScaled pf ovf) (cf_BasicEPS c),
     cf_DilutedEPS := pick m ''TTM_DilutedEPS'' (convertEPSToScaled pf ovf) (cf_DilutedEPS c),
     cf_BasicAverageShares := pick m ''TTM_BasicAverageShares'' (convertSharesToInt64 pf ovf) (cf_BasicAverageShares c),
     cf_DilutedAverageShares := pick m ''TTM_DilutedAverageShares'' (convertSharesToInt64 pf ovf) (cf_DilutedAverageShares c),
     cf_TotalExpenses := pick m ''TTM_TotalExpenses'' convertToScaled (cf_TotalExpenses c),
     cf_EBIT := pick m ''TTM_EBIT'' convertToScaled (cf_EBIT c),
     cf_EBITDA := pick m ''TTM_EBITDA'' convertToScaled (cf_EBITDA c),
     cf_NormalizedEBITDA := pick m ''TTM_NormalizedEBITDA'' convertToScaled (cf_NormalizedEBITDA c),
     cf_TotalAssets := pick m ''Current_TotalAssets'' convertToScaled (cf_TotalAssets c),
     cf_TotalCapitalization := pick m ''Current_TotalCapitalization'' convertToScaled (cf_TotalCapitalization c),
     cf_CommonStockEquity := pick m ''Current_CommonStockEquity'' convertToScaled (cf_CommonStockEquity c),
     cf_CapitalLeaseObligations := pick m ''Current_CapitalLeaseObligations'' convertToScaled (cf_CapitalLeaseObligations c),
     cf_NetTangibleAssets := pick m ''Current_NetTangibleAssets'' convertToScaled (cf_NetTangibleAssets c),
     cf_WorkingCapital := pick m ''Current_WorkingCapital'' convertToScaled (cf_WorkingCapital c),
     cf_InvestedCapital := pick m ''Current_InvestedCapital'' convertToScaled (cf_InvestedCapital c),
     cf_TangibleBookValue := pick m ''Current_TangibleBookValue'' convertToScaled (cf_TangibleBookValue c),
     cf_TotalDebt := pick m ''Current_TotalDebt'' convertToScaled (cf_TotalDebt c),
     cf_ShareIssued := pick m ''Current_ShareIssued'' (convertSharesToInt64 pf ovf) (cf_ShareIssued c),
     cf_OperatingCashFlow := pick m ''Current_OperatingCashFlow'' convertToScaled (cf_OperatingCashFlow c),
     cf_InvestingCashFlow := pick m ''Current_InvestingCashFlow'' convertToScaled (cf_InvestingCashFlow c),
     cf_FinancingCashFlow := pick m ''Current_FinancingCashFlow'' convertToScaled (cf_FinancingCashFlow c),
     cf_EndCashPosition := pick m ''Current_EndCashPosition'' convertToScaled (cf_EndCashPosition c),
     cf_CapitalExpenditure := pick m ''Current_CapitalExpenditure'' convertToScaled (cf_CapitalExpenditure c),
     cf_IssuanceOfDebt := pick m ''Current_IssuanceOfDebt'' convertToScaled (cf_IssuanceOfDebt c),
     cf_RepaymentOfDebt := pick m ''Current_RepaymentOfDebt'' convertToScaled (cf_RepaymentOfDebt c),
     cf_RepurchaseOfCapitalStock := pick m ''Current_RepurchaseOfCapitalStock'' convertToScaled (cf_RepurchaseOfCapitalStock c),
     cf_FreeCashFlow := pick m ''Current_FreeCashFlow'' convertToScaled (cf_FreeCashFlow c)\<rparr>"

definition populate_2024 ::
  "(string \<Rightarrow> f64 option) \<Rightarrow> (f64 \<Rightarrow> int) \<Rightarrow> (string \<times> string) list \<Rightarrow> fin_Period \<Rightarrow> fin_Period" where
  "populate_2024 pf ovf m h = h\<lparr>
     hp_TotalRevenue := pick m ''2024_TotalRevenue'' convertToScaled (hp_TotalRevenue h),
     hp_CostOfRevenue := pick m ''2024_CostOfRevenue'' convertToScaled (hp_CostOfRevenue h),
     hp_OperatingIncome := pick m ''2024_OperatingIncome'' convertToScaled (hp_OperatingIncome h),
     hp_NetIncomeCommonStockholders := pick m ''2024_NetIncome'' convertToScaled (hp_NetIncomeCommonStockholders h),
     hp_BasicEPS := pick m ''2024_BasicEPS'' (convertEPSToScaled pf ovf) (hp_BasicEPS h),
     hp_DilutedEPS := pick m ''2024_DilutedEPS'' (convertEPSToScaled pf ovf) (hp_DilutedEPS h),
     hp_BasicAverageShares := pick m ''2024_BasicAverageShares'' (convertSharesToInt64 pf ovf) (hp_BasicAverageShares h),
     hp_DilutedAverageShares := pick m ''2024_DilutedAverageShares'' (convertSharesToInt64 pf ovf) (hp_DilutedAverageShares h),
     hp_TotalExpenses := pick m ''2024_TotalExpenses'' convertToScaled (hp_TotalExpenses h),
     hp_EBIT := pick m ''2024_EBIT'' convertToScaled (hp_EBIT h),
     hp_EBITDA := pick m ''2024_EBITDA'' convertToScaled (hp_EBITDA h),
     hp_NormalizedEBITDA := pick m ''2024_NormalizedEBITDA'' convertToScaled (hp_NormalizedEBITDA h)\<rparr>"

definition populateDTOFromHTMLData ::
  "(string \<Rightarrow> f64 option) \<Rightarrow> (f64 \<Rightarrow> int) \<Rightarrow> (string \<times> string) list \<Rightarrow> ComprehensiveFinancialsDTO \<Rightarrow> ComprehensiveFinancialsDTO" where
  "populateDTOFromHTMLData pf ovf m dto = dto\<lparr>
     fd_Currency := pick m ''Currency'' id (fd_Currency dto),
     fd_Current := populate_current pf ovf m (fd_Current dto),
     fd_Historical := (fd_Historical dto)\<lparr>fh_Q4_2024 := populate_2024 pf ovf m (fh_Q4_2024 (fd_Historical dto))\<rparr>\<rparr>"

text \<open>The parsers take the outcome of the pattern load and the clock's reading.\<close>

definition ParseComprehensiveFinancials ::
  "(string \<Rightarrow> f64 option) \<Rightarrow> (f64 \<Rightarrow> int) \<Rightarrow> (string \<Rightarrow> string \<Rightarrow> string list go) \<Rightarrow> FinancialsRegexConfig go \<Rightarrow> instant \<Rightarrow>
   string \<Rightarrow> string \<Rightarrow> string \<Rightarrow> ComprehensiveFinancialsDTO go" where
  "ParseComprehensiveFinancials pf ovf re_find cfg now html symbol market =
     go_bind (go_wrap ''failed to load financials regex config: %w'' [] cfg) (\<lambda>cfg.
     go_bind (go_wrap ''failed to extract financial data from HTML: %w'' [] (extractFinancialDataFromHTML re_find cfg html)) (\<lambda>m.
     Ret (populateDTOFromHTMLData pf ovf m (new_financials symbol market ''USD'' now))))"

definition ParseComprehensiveFinancialsWithCurrency ::
  "(string \<Rightarrow> f64 option) \<Rightarrow> (f64 \<Rightarrow> int) \<Rightarrow> (string \<Rightarrow> string \<Rightarrow> string list go) \<Rightarrow> FinancialsRegexConfig go \<Rightarrow> instant \<Rightarrow>
   string \<Rightarrow> string \<Rightarrow> string \<Rightarrow> string \<Rightarrow> ComprehensiveFinancialsDTO go" where
  "ParseComprehensiveFinancialsWithCurrency pf ovf re_find cfg now html financialsHTML symbol market =
     go_bind (go_wrap ''failed to load financials regex config: %w'' [] cfg) (\<lambda>cfg.
     go_bind (match_currency re_find (fx_Currency cfg) financialsHTML) (\<lambda>currency.
     go_bind (go_wrap ''failed to extract financial data from HTML: %w'' [] (extractFinancialDataFromHTML re_find cfg html)) (\<lambda>m.
     Ret (populateDTOFromHTMLData pf ovf (AList.update ''Currency'' currency m) (new_financials symbol market currency now)))))"

section \<open>What the parser reads\<close>

definition row_keys :: "(string \<times> string \<times> string \<times> bool) list \<Rightarrow> string list" where
  "row_keys rows = concat (map (\<lambda>(p, k1, k2, c). [k1, k2]) rows)"

lemma row_keys_simps [simp]: "row_keys [] = []" "row_keys ((p, k1, k2, c) # rows) = k1 # k2 # row_keys rows"
  by (simp_all add: row_keys_def)

lemma row_keys_financial_rows:
  "row_keys (financial_rows c) =
     [''TTM_TotalRevenue'', ''2024_TotalRevenue'', ''TTM_OperatingIncome'', ''2024_OperatingIncome'', ''TTM_NetIncome'', ''2024_NetIncome''] @
     drop 6 (row_keys (financial_rows c))"
  by (simp add: financial_tables)

lemma distinct_financial_keys: "distinct (''Currency'' # row_keys (financial_rows c))"
  by (simp add: financial_tables)

lemma take_rows_other:
  "take_rows re_find html rows m = Ret m' \<Longrightarrow> k \<notin> set (row_keys rows) \<Longrightarrow> map_of m' k = map_of m k"
proof (induction re_find html rows m arbitrary: m' rule: take_rows.induct)
  case (2 re_find html p k1 k2 c rows m)
  then obtain ms where ms: "re_find p html = Ret ms"
    "take_rows re_find html rows (if 2 < length ms then AList.update k2 (clean_cell c (ms ! 2)) (AList.update k1 (clean_cell c (ms ! 1)) m) else m) = Ret m'"
    by (auto simp: go_bind_eq_Ret)
  then show ?case using "2.IH" [OF ms(2)] "2.prems"(2) by (simp add: update_conv')
qed simp

lemma take_rows_row:
  "take_rows re_find html rows m = Ret m' \<Longrightarrow> distinct (row_keys rows) \<Longrightarrow> (p, k1, k2, c) \<in> set rows \<Longrightarrow>
   \<exists>ms. re_find p html = Ret ms \<and>
     (if 2 < length ms then map_of m' k1 = Some (clean_cell c (ms ! 1)) \<and> map_of m' k2 = Some (clean_cell c (ms ! 2))
      else map_of m' k1 = map_of m k1 \<and> map_of m' k2 = map_of m k2)"
proof (induction re_find html rows m arbitrary: m' rule: take_rows.induct)
  case (2 re_find html q j1 j2 d rows m)
  then obtain ms where ms: "re_find q html = Ret ms"
    "take_rows re_find html rows (if 2 < length ms then AList.update j2 (clean_cell d (ms ! 2)) (AList.update j1 (clean_cell d (ms ! 1)) m) else m) = Ret m'"
    by (auto simp: go_bind_eq_Ret)
  show ?case
  proof (cases "(p, k1, k2, c) = (q, j1, j2, d)")
    case True
    then have "map_of m' k = map_of (if 2 < length ms then AList.update j2 (clean_cell d (ms ! 2)) (AList.update j1 (clean_cell d (ms ! 1)) m) else m) k"
      if "k = k1 \<or> k = k2" for k
      using take_rows_other [OF ms(2), of k] "2.prems"(2) that by auto
    then show ?thesis using True ms(1) "2.prems"(2) by (auto simp: update_conv')
  next
    case False
    then have "(p, k1, k2, c) \<in> set rows" using "2.prems"(3) by auto
    moreover have "k1 \<in> set (row_keys rows)" "k2 \<in> set (row_keys rows)" using calculation by (force simp: row_keys_def)+
    ultimately show ?thesis using "2.IH" [OF ms(2)] "2.prems"(2) by (auto simp: update_conv')
  qed
qed simp

lemma take_rows_fails: "take_rows re_find html rows m = Err e \<Longrightarrow> \<exists>p. re_find p html = Err e"
  by (induction re_find html rows m rule: take_rows.induct) (auto simp: go_bind_eq_Err)

lemma take_rows_no_match: "(\<And>p. re_find p html = Ret []) \<Longrightarrow> take_rows re_find html rows m = Ret m"
  by (induction re_find html rows m rule: take_rows.induct) simp_all

lemma take_rows_total: "(\<And>p. is_ret (re_find p html)) \<Longrightarrow> is_ret (take_rows re_find html rows m)"
proof (induction re_find html rows m rule: take_rows.induct)
  case (2 re_find html p k1 k2 c rows m)
  obtain ms where "re_find p html = Ret ms" using "2.prems" [of p] by (auto simp: is_ret_conv)
  then show ?case using "2.IH" [of ms] "2.prems" by simp
qed simp

lemma extract_rows:
  assumes "extractFinancialDataFromHTML re_find cfg html = Ret m"
  obtains currency where "match_currency re_find (fx_Currency cfg) html = Ret currency" "map_of m ''Currency'' = Some currency"
    "take_rows re_find html (financial_rows cfg) [(''Currency'', currency)] = Ret m"
proof -
  obtain currency where c: "match_currency re_find (fx_Currency cfg) html = Ret currency"
    "take_rows re_find html (financial_rows cfg) [(''Currency'', currency)] = Ret m"
    using assms by (auto simp: extractFinancialDataFromHTML_def go_bind_eq_Ret split: if_splits)
  moreover have "map_of m ''Currency'' = Some currency"
    using take_rows_other [OF c(2), of "''Currency''"] distinct_financial_keys [of cfg] by simp
  ultimately show ?thesis using that by blast
qed

lemma extract_row:
  assumes "extractFinancialDataFromHTML re_find cfg html = Ret m" "(p, k1, k2, c) \<in> set (financial_rows cfg)"
    "re_find p html = Ret [w, t1, t2]"
  shows "map_of m k1 = Some (clean_cell c t1)" "map_of m k2 = Some (clean_cell c t2)"
proof -
  obtain currency where "take_rows re_find html (financial_rows cfg) [(''Currency'', currency)] = Ret m"
    using extract_rows [OF assms(1)] .
  from take_rows_row [OF this _ assms(2)] show "map_of m k1 = Some (clean_cell c t1)" "map_of m k2 = Some (clean_cell c t2)"
    using distinct_financial_keys [of cfg] assms(3) by auto
qed

text \<open>The check for an empty table never fires: the currency is always there.\<close>

lemma extract_never_empty: "extractFinancialDataFromHTML re_find cfg html = Ret m \<Longrightarrow> m \<noteq> []"
  by (auto simp: extractFinancialDataFromHTML_def go_bind_eq_Ret split: if_splits)

lemma populate_unread:
  assumes "dto' = populateDTOFromHTMLData pf ovf m (new_financials symbol market currency now)"
  shows "cf_GrossProfit (fd_Current dto') = None" "fh_Q2_2025 (fd_Historical dto') = zero_Period"
    "fh_Q1_2025 (fd_Historical dto') = zero_Period" "fh_Q3_2024 (fd_Historical dto') = zero_Period"
    "fh_Q2_2024 (fd_Historical dto') = zero_Period" "hp_Date (fh_Q4_2024 (fd_Historical dto')) = []"
  by (simp_all add: assms populateDTOFromHTMLData_def populate_current_def populate_2024_def new_financials_def
      zero_Current_def zero_Period_def)

text \<open>
  A page on which no pattern matches is parsed without an error into a record with no
  figures at all: the check for an empty table comes after the currency has been put into the
  table, so it never fires.
\<close>

theorem page_without_figures_is_no_error:
  assumes "\<And>p. re_find p html = Ret []"
  shows "ParseComprehensiveFinancials pf ovf re_find (Ret cfg) now html symbol market =
    Ret (new_financials symbol market ''USD'' now)"
proof -
  have "extractFinancialDataFromHTML re_find cfg html = Ret [(''Currency'', ''USD'')]"
    using take_rows_no_match [of re_find html] assms by (simp add: extractFinancialDataFromHTML_def match_currency_def)
  then show ?thesis
    by (simp add: ParseComprehensiveFinancials_def populateDTOFromHTMLData_def populate_current_def populate_2024_def pick_def
        new_financials_def)
qed

text \<open>Patterns and a page for the examples: a pattern is the label it stands for.\<close>

definition sample_patterns :: FinancialsRegexConfig where
  "sample_patterns =
     \<lparr>fx_Currency = ''Currency'',
      fx_IncomeStatement = \<lparr>fxi_TotalRevenue = ''Total Revenue'', fxi_CostOfRevenue = ''Cost of Revenue'',
        fxi_OperatingIncome = ''Operating Income'', fxi_NetIncome = ''Net Income'', fxi_BasicEPS = ''Basic EPS'',
        fxi_DilutedEPS = ''Diluted EPS'', fxi_EBITDA = ''EBITDA'', fxi_EBIT = ''EBIT'', fxi_TotalExpenses = ''Total Expenses'',
        fxi_NormalizedEBITDA = ''Normalized EBITDA''\<rparr>,
      fx_Shares = \<lparr>fxs_BasicAverageShares = ''Basic Average Shares'', fxs_DilutedAverageShares = ''Diluted Average Shares''\<rparr>,
      fx_BalanceSheet = \<lparr>fxb_TotalAssets = ''Total Assets'', fxb_TotalCapitalization = ''Total Capitalization'',
        fxb_CommonStockEquity = ''Common Stock Equity'', fxb_CapitalLeaseObligations = ''Capital Lease Obligations'',
        fxb_NetTangibleAssets = ''Net Tangible Assets'', fxb_WorkingCapital = ''Working Capital'',
        fxb_InvestedCapital = ''Invested Capital'', fxb_TangibleBookValue = ''Tangible Book Value'', fxb_TotalDebt = ''Total Debt'',
        fxb_ShareIssued = ''Share Issued''\<rparr>,
      fx_CashFlow = \<lparr>fxc_OperatingCashFlow = ''Operating Cash Flow'', fxc_InvestingCashFlow = ''Investing Cash Flow'',
        fxc_FinancingCashFlow = ''Financing Cash Flow'', fxc_EndCashPosition = ''End Cash Position'',
        fxc_CapitalExpenditure = ''Capital Expenditure'', fxc_IssuanceOfDebt = ''Issuance of Debt'',
        fxc_RepaymentOfDebt = ''Repayment of Debt'', fxc_RepurchaseOfCapitalStock = ''Repurchase of Capital Stock'',
        fxc_FreeCashFlow = ''Free Cash Flow''\<rparr>\<rparr>"

definition sample_find :: "string \<Rightarrow> string \<Rightarrow> string list go" where
  "sample_find p html =
     (if p = ''Total Revenue'' then Ret [p, ''391,035 '', ''383,285'']
      else if p = ''Total Assets'' then Ret [p, ''364,980'', ''352,583'']
      else if p = ''Basic EPS'' then Ret [p, ''6.11'', ''6.16'']
      else if p = ''Basic Average Shares'' then Ret [p, ''15,343,783'', ''15,744,231'']
      else if p = ''Currency'' then Ret [p, ''EUR'']
      else Ret [])"

lemma page_without_figures_is_no_error_witness:
  "ParseComprehensiveFinancials (\<lambda>_. None) (\<lambda>_. 0) (\<lambda>p t. Ret []) (Ret sample_patterns) 5 ''<html></html>'' ''AAPL'' ''XNAS'' =
    Ret (new_financials ''AAPL'' ''XNAS'' ''USD'' 5)"
  by (rule page_without_figures_is_no_error) (rule refl)

text \<open>
  A figure of the parsed record is the cell of its own row: the trailing and the 2024
  revenue, total assets, basic EPS and basic shares come from the first and second group of
  their patterns, cleaned and converted, whatever the other patterns match, and the currency
  is that of the page.
\<close>

theorem parsed_figures:
  assumes "ParseComprehensiveFinancials pf ovf re_find (Ret cfg) now html symbol market = Ret dto"
    "re_find (fxi_TotalRevenue (fx_IncomeStatement cfg)) html = Ret [w1, revenue, revenue24]"
    "re_find (fxb_TotalAssets (fx_BalanceSheet cfg)) html = Ret [w2, assets, assets24]"
    "re_find (fxi_BasicEPS (fx_IncomeStatement cfg)) html = Ret [w3, eps, eps24]"
    "re_find (fxs_BasicAverageShares (fx_Shares cfg)) html = Ret [w4, shares, shares24]"
  shows "cf_TotalRevenue (fd_Current dto) = convertToScaled (clean_cell True revenue) \<and>
    hp_TotalRevenue (fh_Q4_2024 (fd_Historical dto)) = convertToScaled (clean_cell True revenue24) \<and>
    cf_TotalAssets (fd_Current dto) = convertToScaled (clean_cell True assets) \<and>
    cf_BasicEPS (fd_Current dto) = convertEPSToScaled pf ovf (clean_cell False eps) \<and>
    cf_BasicAverageShares (fd_Current dto) = convertSharesToInt64 pf ovf (clean_cell True shares) \<and>
    fd_Symbol dto = symbol \<and> fd_Market dto = market \<and> fd_AsOf dto = now \<and>
    match_currency re_find (fx_Currency cfg) html = Ret (fd_Currency dto)"
proof -
  obtain m where m: "extractFinancialDataFromHTML re_find cfg html = Ret m"
    and dto: "dto = populateDTOFromHTMLData pf ovf m (new_financials symbol market ''USD'' now)"
    using assms(1) by (auto simp: ParseComprehensiveFinancials_def go_bind_eq_Ret)
  obtain currency where c: "match_currency re_find (fx_Currency cfg) html = Ret currency" "map_of m ''Currency'' = Some currency"
    using extract_rows [OF m] .
  have k: "map_of m ''TTM_TotalRevenue'' = Some (clean_cell True revenue)" "map_of m ''2024_TotalRevenue'' = Some (clean_cell True revenue24)"
    "map_of m ''Current_TotalAssets'' = Some (clean_cell True assets)" "map_of m ''TTM_BasicEPS'' = Some (clean_cell False eps)"
    "map_of m ''TTM_BasicAverageShares'' = Some (clean_cell True shares)"
    by (rule extract_row [OF m _ assms(2)] extract_row [OF m _ assms(3)] extract_row [OF m _ assms(4)] extract_row [OF m _ assms(5)];
        simp add: financial_tables)+
  show ?thesis unfolding dto
    by (simp add: populateDTOFromHTMLData_def populate_current_def populate_2024_def new_financials_def pick_def k c)
qed

lemma parse_sample:
  "\<exists>dto. ParseComprehensiveFinancials (\<lambda>_. None) (\<lambda>_. 0) sample_find (Ret sample_patterns) 5 ''page'' ''AAPL'' ''XNAS'' = Ret dto"
proof -
  have r: "is_ret (sample_find p html)" for p html by (simp add: sample_find_def)
  then obtain g where "sample_find (fx_Currency sample_patterns) ''page'' = Ret g" by (auto simp: is_ret_conv)
  moreover obtain m where "take_rows sample_find ''page'' (financial_rows sample_patterns)
      (AList.update ''Currency'' (if 1 < length g then g ! 1 else ''USD'') []) = Ret m"
    using take_rows_total [of sample_find "''page''"] r unfolding is_ret_conv by blast
  moreover have "m \<noteq> []" using take_rows_other [OF calculation(2), of "''Currency''"] distinct_financial_keys by auto
  ultimately show ?thesis by (simp add: ParseComprehensiveFinancials_def extractFinancialDataFromHTML_def match_currency_def)
qed

lemma convertToScaled_sample:
  "convertToScaled (clean_cell True ''391,035 '') = Some \<lparr>ss_Scaled = 391035000, ss_Scale = 0\<rparr>"
  by (simp add: convertToScaled_def clean_cell_def replace_char_def TrimSpace_def is_space_def code_of_def ParseInt64_def
      split_sign_def is_digit_def digit_of_def wrap64_def)

lemma parsed_figures_witness:
  "\<exists>dto. ParseComprehensiveFinancials (\<lambda>_. None) (\<lambda>_. 0) sample_find (Ret sample_patterns) 5 ''page'' ''AAPL'' ''XNAS'' = Ret dto \<and>
    cf_TotalRevenue (fd_Current dto) = Some \<lparr>ss_Scaled = 391035000, ss_Scale = 0\<rparr>"
proof -
  obtain dto where dto: "ParseComprehensiveFinancials (\<lambda>_. None) (\<lambda>_. 0) sample_find (Ret sample_patterns) 5 ''page'' ''AAPL'' ''XNAS'' = Ret dto"
    using parse_sample by blast
  have "cf_TotalRevenue (fd_Current dto) = convertToScaled (clean_cell True ''391,035 '')"
    by (rule parsed_figures [OF dto, THEN conjunct1]) (simp_all add: sample_find_def sample_patterns_def)
  then show ?thesis using dto convertToScaled_sample by simp
qed

text \<open>Five of the periods and the figures without a pattern stay empty, whatever the page holds.\<close>

theorem unread_figures:
  assumes "ParseComprehensiveFinancials pf ovf re_find cfg now html symbol market = Ret dto"
  shows "cf_GrossProfit (fd_Current dto) = None \<and> fh_Q2_2025 (fd_Historical dto) = zero_Period \<and>
    fh_Q1_2025 (fd_Historical dto) = zero_Period \<and> fh_Q3_2024 (fd_Historical dto) = zero_Period \<and>
    fh_Q2_2024 (fd_Historical dto) = zero_Period \<and> hp_Date (fh_Q4_2024 (fd_Historical dto)) = []"
  using assms populate_unread [OF refl]
  by (auto simp: ParseComprehensiveFinancials_def go_bind_eq_Ret)

lemma unread_figures_witness:
  "\<exists>dto. ParseComprehensiveFinancials (\<lambda>_. None) (\<lambda>_. 0) sample_find (Ret sample_patterns) 5 ''page'' ''AAPL'' ''XNAS'' = Ret dto \<and>
    cf_GrossProfit (fd_Current dto) = None"
  using parse_sample unread_figures by blast

section \<open>Loading patterns twice\<close>

text \<open>
  A file that does not decode is reported once: the variable is set before the decoder runs, so the next load finds it and
  succeeds with what was decoded up to the error.
\<close>

text \<open>
  When a pattern file cannot be decoded the first load reports it, but the second load
  succeeds with whatever the decoder left in the variable: the error is reported once and the
  parsers then run on partial patterns.
\<close>

theorem failed_decoding_is_reported_once:
  assumes "read_file (dir @ ''/regex/financials.yaml'') = Ret data" "unmarshal data = (partial, Some e)"
  shows "LoadFinancialsRegexConfig (Some dir) read_file unmarshal None =
      (Some partial, Err (Wrapf ''failed to parse financials regex config YAML: %w'' [] e)) \<and>
    LoadFinancialsRegexConfig (Some dir) read_file unmarshal
      (fst (LoadFinancialsRegexConfig (Some dir) read_file unmarshal None)) = (Some partial, Ret ())"
  using assms by (simp add: LoadFinancialsRegexConfig_def load_patterns_def)

lemma failed_decoding_is_reported_once_witness:
  "snd (LoadFinancialsRegexConfig (Some ''scrape'') (\<lambda>_. Ret ''x'') (\<lambda>_. (''partial'', Some (Errorf ''yaml: line 1'' []))) None) \<noteq> Ret () \<and>
   LoadFinancialsRegexConfig (Some ''scrape'') (\<lambda>_. Ret ''x'') (\<lambda>_. (''partial'', Some (Errorf ''yaml: line 1'' [])))
     (fst (LoadFinancialsRegexConfig (Some ''scrape'') (\<lambda>_. Ret ''x'') (\<lambda>_. (''partial'', Some (Errorf ''yaml: line 1'' []))) None)) =
     (Some ''partial'', Ret ())"
  using failed_decoding_is_reported_once
    [of "\<lambda>_. Ret ''x''" "''scrape''" "''x''" "\<lambda>_. (''partial'', Some (Errorf ''yaml: line 1'' []))"] by auto

end
