(* ===== verification/ScrapeStatistics.thy ===== *)
theory ScrapeStatistics
  imports ScrapeFinancials
begin

text \<open>
  Key statistics of a page: \<^verbatim>\<open>internal/scrape/statistics.go\<close>. The regular expressions are the parameters \<open>re_find\<close> (the
  groups of the first match) and \<open>re_all\<close> (those of every match).
\<close>

section \<open>Model\<close>

record ks_CurrentPatterns =
  kpc_MarketCap :: string
  kpc_EnterpriseValue :: string
  kpc_TrailingPE :: string
  kpc_ForwardPE :: string
  kpc_PEGRatio :: string
  kpc_PriceSales :: string
  kpc_PriceBook :: string
  kpc_EnterpriseValueRevenue :: string
  kpc_EnterpriseValueEBITDA :: string

record ks_AdditionalPatterns =
  kpa_Beta :: string
  kpa_SharesOutstanding :: string
  kpa_ProfitMargin :: string
  kpa_OperatingMargin :: string
  kpa_ReturnOnAssets :: string
  kpa_ReturnOnEquity :: string

record ColumnPatterns =
  kcp_MarketCap :: string
  kcp_EnterpriseValue :: string
  kcp_TrailingPE :: string
  kcp_ForwardPE :: string
  kcp_PEGRatio :: string
  kcp_PriceSales :: string
  kcp_PriceBook :: string
  kcp_EnterpriseValueRevenue :: string
  kcp_EnterpriseValueEBITDA :: string

record ks_RegexConfig =
  krx_Current :: ks_CurrentPatterns
  krx_Additional :: ks_AdditionalPatterns
  krx_HistoricalColumns :: "ColumnPatterns list"  \<comment> \<open>the fields \<^verbatim>\<open>Column2\<close> to \<^verbatim>\<open>Column6\<close>, in this order\<close>
  krx_DateHeaders :: string

record ks_Current =
  kc_MarketCap :: "scrape_Scaled option"
  kc_EnterpriseValue :: "scrape_Scaled option"
  kc_TrailingPE :: "scrape_Scaled option"
  kc_ForwardPE :: "scrape_Scaled option"
  kc_PEGRatio :: "scrape_Scaled option"
  kc_PriceSales :: "scrape_Scaled option"
  kc_PriceBook :: "scrape_Scaled option"
  kc_EnterpriseValueRevenue :: "scrape_Scaled option"
  kc_EnterpriseValueEBITDA :: "scrape_Scaled option"

record ks_Additional =
  ka_Beta :: "scrape_Scaled option"
  ka_SharesOutstanding :: "int64 option"
  ka_ProfitMargin :: "scrape_Scaled option"
  ka_OperatingMargin :: "scrape_Scaled option"
  ka_ReturnOnAssets :: "scrape_Scaled option"
  ka_ReturnOnEquity :: "scrape_Scaled option"

record HistoricalQuarter =
  kh_Date :: string
  kh_MarketCap :: "scrape_Scaled option"
  kh_EnterpriseValue :: "scrape_Scaled option"
  kh_TrailingPE :: "scrape_Scaled option"
  kh_ForwardPE :: "scrape_Scaled option"
  kh_PEGRatio :: "scrape_Scaled option"
  kh_PriceSales :: "scrape_Scaled option"
  kh_PriceBook :: "scrape_Scaled option"
  kh_EnterpriseValueRevenue :: "scrape_Scaled option"
  kh_EnterpriseValueEBITDA :: "scrape_Scaled option"

record ComprehensiveKeyStatisticsDTO =
  kd_Symbol :: string
  kd_Market :: string
  kd_Currency :: string
  kd_AsOf :: instant
  kd_Current :: ks_Current
  kd_Additional :: ks_Additional
  kd_Historical :: "HistoricalQuarter list"

definition extractScaledValue ::
  "(string \<Rightarrow> f64 option) \<Rightarrow> (f64 \<Rightarrow> int) \<Rightarrow> (string \<Rightarrow> string \<Rightarrow> string list go) \<Rightarrow> string \<Rightarrow> string \<Rightarrow> scrape_Scaled option go" where
  "extractScaledValue pf ovf re_find html pattern =
     (if pattern = [] then Ret None
      else go_bind (re_find pattern html) (\<lambda>matches.
        Ret (if 1 < length matches then parseFinancialValue pf ovf (TrimSpace (matches ! 1)) else None)))"

definition extractStringValue :: "(string \<Rightarrow> string \<Rightarrow> string list go) \<Rightarrow> string \<Rightarrow> string \<Rightarrow> string go" where
  "extractStringValue re_find html pattern =
     (if pattern = [] then Ret []
      else go_bind (re_find pattern html) (\<lambda>matches. Ret (if 1 < length matches then TrimSpace (matches ! 1) else [])))"

definition extractCurrentValues ::
  "(string \<Rightarrow> f64 option) \<Rightarrow> (f64 \<Rightarrow> int) \<Rightarrow> (string \<Rightarrow> string \<Rightarrow> string list go) \<Rightarrow> ks_CurrentPatterns \<Rightarrow> string \<Rightarrow> ks_Current go" where
  "extractCurrentValues pf ovf re_find p html =
     go_bind (extractScaledValue pf ovf re_find html (kpc_MarketCap p)) (\<lambda>vMarketCap.
     go_bind (extractScaledValue pf ovf re_find html (kpc_EnterpriseValue p)) (\<lambda>vEnterpriseValue.
     go_bind (extractScaledValue pf ovf re_find html (kpc_TrailingPE p)) (\<lambda>vTrailingPE.
     go_bind (extractScaledValue pf ovf re_find html (kpc_ForwardPE p)) (\<lambda>vForwardPE.
     go_bind (extractScaledValue pf ovf re_find html (kpc_PEGRatio p)) (\<lambda>vPEGRatio.
     go_bind (extractScaledValue pf ovf re_find html (kpc_PriceSales p)) (\<lambda>vPriceSales.
     go_bind (extractScaledValue pf ovf re_find html (kpc_PriceBook p)) (\<lambda>vPriceBook.
     go_bind (extractScaledValue pf ovf re_find html (kpc_EnterpriseValueRevenue p)) (\<lambda>vEnterpriseValueRevenue.
     go_bind (extractScaledValue pf ovf re_find html (kpc_EnterpriseValueEBITDA p)) (\<lambda>vEnterpriseValueEBITDA.
     Ret \<lparr>kc_MarketCap = vMarketCap, kc_EnterpriseValue = vEnterpriseValue, kc_TrailingPE = vTrailingPE, kc_ForwardPE = vForwardPE, kc_PEGRatio = vPEGRatio, kc_PriceSales = vPriceSales, kc_PriceBook = vPriceBook, kc_EnterpriseValueRevenue = vEnterpriseValueRevenue, kc_EnterpriseValueEBITDA = vEnterpriseValueEBITDA\<rparr>)))))))))"

definition extractAdditionalValues ::
  "(string \<Rightarrow> f64 option) \<Rightarrow> (f64 \<Rightarrow> int) \<Rightarrow> (string \<Rightarrow> string \<Rightarrow> string list go) \<Rightarrow> ks_AdditionalPatterns \<Rightarrow> string \<Rightarrow> ks_Additional go" where
  "extractAdditionalValues pf ovf re_find p html =
     go_bind (extractScaledValue pf ovf re_find html (kpa_Beta p)) (\<lambda>vBeta.
     go_bind (extractScaledValue pf ovf re_find html (kpa_ProfitMargin p)) (\<lambda>vProfitMargin.
     go_bind (extractScaledValue pf ovf re_find html (kpa_OperatingMargin p)) (\<lambda>vOperatingMargin.
     go_bind (extractScaledValue pf ovf re_find html (kpa_ReturnOnAssets p)) (\<lambda>vReturnOnAssets.
     go_bind (extractScaledValue pf ovf re_find html (kpa_ReturnOnEquity p)) (\<lambda>vReturnOnEquity.
     go_bind (extractStringValue re_find html (kpa_SharesOutstanding p)) (\<lambda>vShares.
     Ret \<lparr>ka_Beta = vBeta,
       ka_SharesOutstanding = (if vShares \<noteq> [] then parseSharesOutstanding pf ovf vShares else None),
       ka_ProfitMargin = vProfitMargin, ka_OperatingMargin = vOperatingMargin, ka_ReturnOnAssets = vReturnOnAssets, ka_ReturnOnEquity = vReturnOnEquity\<rparr>))))))"

definition extractDates :: "(string \<Rightarrow> string \<Rightarrow> string list list go) \<Rightarrow> string \<Rightarrow> string \<Rightarrow> string list go" where
  "extractDates re_all p html =
     go_bind (re_all p html) (\<lambda>matches.
       Ret (map (\<lambda>m. case time_Parse layout_mdy (m ! 1) of
                Some t \<Rightarrow> format_date t
              | None \<Rightarrow> (case time_Parse layout_zero_mdy (m ! 1) of Some t \<Rightarrow> format_date t | None \<Rightarrow> m ! 1))
          (filter (\<lambda>m. 1 < length m) matches)))"

definition extract_quarter ::
  "(string \<Rightarrow> f64 option) \<Rightarrow> (f64 \<Rightarrow> int) \<Rightarrow> (string \<Rightarrow> string \<Rightarrow> string list go) \<Rightarrow> string \<Rightarrow> ColumnPatterns \<Rightarrow> string \<Rightarrow> HistoricalQuarter go" where
  "extract_quarter pf ovf re_find html p date =
     go_bind (extractScaledValue pf ovf re_find html (kcp_MarketCap p)) (\<lambda>vMarketCap.
     go_bind (extractScaledValue pf ovf re_find html (kcp_EnterpriseValue p)) (\<lambda>vEnterpriseValue.
     go_bind (extractScaledValue pf ovf re_find html (kcp_TrailingPE p)) (\<lambda>vTrailingPE.
     go_bind (extractScaledValue pf ovf re_find html (kcp_ForwardPE p)) (\<lambda>vForwardPE.
     go_bind (extractScaledValue pf ovf re_find html (kcp_PEGRatio p)) (\<lambda>vPEGRatio.
     go_bind (extractScaledValue pf ovf re_find html (kcp_PriceSales p)) (\<lambda>vPriceSales.
     go_bind (extractScaledValue pf ovf re_find html (kcp_PriceBook p)) (\<lambda>vPriceBook.
     go_bind (extractScaledValue pf ovf re_find html (kcp_EnterpriseValueRevenue p)) (\<lambda>vEnterpriseValueRevenue.
     go_bind (extractScaledValue pf ovf re_find html (kcp_EnterpriseValueEBITDA p)) (\<lambda>vEnterpriseValueEBITDA.
     Ret \<lparr>kh_Date = date, kh_MarketCap = vMarketCap, kh_EnterpriseValue = vEnterpriseValue, kh_TrailingPE = vTrailingPE, kh_ForwardPE = vForwardPE, kh_PEGRatio = vPEGRatio, kh_PriceSales = vPriceSales, kh_PriceBook = vPriceBook, kh_EnterpriseValueRevenue = vEnterpriseValueRevenue, kh_EnterpriseValueEBITDA = vEnterpriseValueEBITDA\<rparr>)))))))))"

definition extractHistoricalValues ::
  "(string \<Rightarrow> f64 option) \<Rightarrow> (f64 \<Rightarrow> int) \<Rightarrow> (string \<Rightarrow> string \<Rightarrow> string list go) \<Rightarrow> (string \<Rightarrow> string \<Rightarrow> string list list go) \<Rightarrow>
   ks_RegexConfig \<Rightarrow> string \<Rightarrow> HistoricalQuarter list go" where
  "extractHistoricalValues pf ovf re_find re_all cfg html =
     go_bind (extractDates re_all (krx_DateHeaders cfg) html) (\<lambda>dates.
       go_mapM (\<lambda>(p, date). extract_quarter pf ovf re_find html p date) (zip (krx_HistoricalColumns cfg) dates))"

definition ParseComprehensiveKeyStatistics ::
  "(string \<Rightarrow> f64 option) \<Rightarrow> (f64 \<Rightarrow> int) \<Rightarrow> (string \<Rightarrow> string \<Rightarrow> string list go) \<Rightarrow> (string \<Rightarrow> string \<Rightarrow> string list list go) \<Rightarrow>
   ks_RegexConfig go \<Rightarrow> instant \<Rightarrow> string \<Rightarrow> string \<Rightarrow> string \<Rightarrow> ComprehensiveKeyStatisticsDTO go" where
  "ParseComprehensiveKeyStatistics pf ovf re_find re_all cfg now html symbol market =
     go_bind (go_wrap ''failed to load regex config: %w'' [] cfg) (\<lambda>cfg.
     go_bind (extractCurrentValues pf ovf re_find (krx_Current cfg) html) (\<lambda>current.
     go_bind (extractAdditionalValues pf ovf re_find (krx_Additional cfg) html) (\<lambda>additional.
     go_bind (extractHistoricalValues pf ovf re_find re_all cfg html) (\<lambda>historical.
     Ret \<lparr>kd_Symbol = symbol, kd_Market = market, kd_Currency = ''USD'', kd_AsOf = now, kd_Current = current,
          kd_Additional = additional, kd_Historical = historical\<rparr>))))"

section \<open>What is read\<close>

text \<open>The second layout of the column dates accepts nothing the first does not, and reads it the same way.\<close>

lemma in_range_getnum: "in_range lo hi (getnum True v) = Some r \<Longrightarrow> in_range lo hi (getnum False v) = Some r"
  by (cases "(True, v)" rule: getnum.cases) (auto simp: in_range_def split: if_splits)

lemma getnum_fixed: "getnum True v = Some r \<Longrightarrow> getnum False v = Some r"
  by (cases "(True, v)" rule: getnum.cases) (auto split: if_splits)

lemma bind_set_field_mono:
  "Option.bind (set_field f t r) g = Some x \<Longrightarrow> (\<And>y. r = Some y \<Longrightarrow> r' = Some y) \<Longrightarrow>
   (\<And>s. g s = Some x \<Longrightarrow> h s = Some x) \<Longrightarrow> Option.bind (set_field f t r') h = Some x"
  by (cases r) (auto simp: bind_eq_Some_conv)

lemma zero_mdy_subsumed:
  assumes "parse_layout layout_zero_mdy (v, t) = Some r"
  shows "parse_layout layout_mdy (v, t) = Some r"
  using assms unfolding layout_zero_mdy_def layout_mdy_def parse_layout.simps
proof (rule bind_set_field_mono)
  fix s :: "string \<times> clock"
  obtain w u where s: "s = (w, u)" by (cases s)
  assume "parse_layout [LLit CHR ''/'', LZeroDay, LLit CHR ''/'', LYear] s = Some r"
  then show "parse_layout [LLit CHR ''/'', LDay, LLit CHR ''/'', LYear] s = Some r"
    unfolding s by (auto split: list.splits if_splits elim!: bind_set_field_mono intro: getnum_fixed)
qed (rule in_range_getnum)

theorem second_date_layout_unused:
  "extractDates re_all p html =
     go_bind (re_all p html) (\<lambda>ms. Ret (map (\<lambda>m. case time_Parse layout_mdy (m ! 1) of Some t \<Rightarrow> format_date t | None \<Rightarrow> m ! 1)
       (filter (\<lambda>m. 1 < length m) ms)))"
proof -
  have "time_Parse layout_mdy v = Some t" if "time_Parse layout_zero_mdy v = Some t" for v t
    using that by (cases "parse_layout layout_zero_mdy (v, zero_clock)") (simp_all add: time_Parse_def zero_mdy_subsumed)
  then have "(case time_Parse layout_mdy v of Some t \<Rightarrow> format_date t
      | None \<Rightarrow> (case time_Parse layout_zero_mdy v of Some t \<Rightarrow> format_date t | None \<Rightarrow> v)) =
    (case time_Parse layout_mdy v of Some t \<Rightarrow> format_date t | None \<Rightarrow> v)" for v
    by (cases "time_Parse layout_zero_mdy v"; cases "time_Parse layout_mdy v") auto
  then show ?thesis unfolding extractDates_def by (simp only:)
qed

text \<open>
  One quarter for each column that has a date, in the order of the columns, with the dates of the header row; further dates
  and further columns are dropped.
\<close>

text \<open>
  The historical quarters of a page carry its dates in page order, one quarter per date
  until the columns of the configuration are used up; a date has no quarter beyond that.
\<close>

theorem quarters_of_page:
  assumes "extractHistoricalValues pf ovf re_find re_all cfg html = Ret qs"
  shows "\<exists>dates. extractDates re_all (krx_DateHeaders cfg) html = Ret dates \<and>
    map kh_Date qs = take (length (krx_HistoricalColumns cfg)) dates \<and> length qs \<le> length dates"
proof -
  obtain dates where d: "extractDates re_all (krx_DateHeaders cfg) html = Ret dates"
    and q: "list_all2 (\<lambda>(p, date) q. extract_quarter pf ovf re_find html p date = Ret q) (zip (krx_HistoricalColumns cfg) dates) qs"
    using assms by (auto simp: extractHistoricalValues_def go_bind_eq_Ret go_mapM_Ret case_prod_unfold)
  have "kh_Date q = date" if "extract_quarter pf ovf re_find html p date = Ret q" for p date q
    using that by (auto simp: extract_quarter_def go_bind_eq_Ret)
  then have "list_all2 (\<lambda>pd q. kh_Date q = snd pd) (zip (krx_HistoricalColumns cfg) dates) qs"
    using q by (auto elim!: list_all2_mono)
  then have "map kh_Date qs = map snd (zip (krx_HistoricalColumns cfg) dates)"
    by (induction rule: list_all2_induct) simp_all
  moreover have "length qs = length (zip (krx_HistoricalColumns cfg) dates)" using list_all2_lengthD [OF q] by (rule sym)
  ultimately show ?thesis using d by (auto simp: map_snd_zip_take min_def)
qed

text \<open>A page of which only the market capitalisation is read.\<close>

definition no_columns :: ColumnPatterns where
  "no_columns = \<lparr>kcp_MarketCap = [], kcp_EnterpriseValue = [], kcp_TrailingPE = [], kcp_ForwardPE = [], kcp_PEGRatio = [],
     kcp_PriceSales = [], kcp_PriceBook = [], kcp_EnterpriseValueRevenue = [], kcp_EnterpriseValueEBITDA = []\<rparr>"

definition market_cap_only :: ks_RegexConfig where
  "market_cap_only =
     \<lparr>krx_Current = \<lparr>kpc_MarketCap = ''Market Cap'', kpc_EnterpriseValue = [], kpc_TrailingPE = [], kpc_ForwardPE = [],
        kpc_PEGRatio = [], kpc_PriceSales = [], kpc_PriceBook = [], kpc_EnterpriseValueRevenue = [],
        kpc_EnterpriseValueEBITDA = []\<rparr>,
      krx_Additional = \<lparr>kpa_Beta = [], kpa_SharesOutstanding = [], kpa_ProfitMargin = [], kpa_OperatingMargin = [],
        kpa_ReturnOnAssets = [], kpa_ReturnOnEquity = []\<rparr>,
      krx_HistoricalColumns = [no_columns, no_columns], krx_DateHeaders = ''date''\<rparr>"

lemma quarters_of_page_witness:
  "\<exists>qs. extractHistoricalValues (\<lambda>_. None) (\<lambda>_. 0) (\<lambda>p t. Ret []) (\<lambda>p t. Ret [[p, ''Q1''], [p], [p, ''Q2''], [p, ''Q3'']])
      market_cap_only ''page'' = Ret qs \<and> map kh_Date qs = [''Q1'', ''Q2'']"
proof -
  let ?E = "extractHistoricalValues (\<lambda>_. None) (\<lambda>_. 0) (\<lambda>p t. Ret []) (\<lambda>p t. Ret [[p, ''Q1''], [p], [p, ''Q2''], [p, ''Q3'']])
      market_cap_only ''page''"
  have d: "extractDates (\<lambda>p t. Ret [[p, ''Q1''], [p], [p, ''Q2''], [p, ''Q3'']]) ''date'' ''page'' = Ret [''Q1'', ''Q2'', ''Q3'']"
    by (simp add: extractDates_def time_Parse_def layout_mdy_def layout_zero_mdy_def in_range_def is_digit_def code_of_def)
  have "extract_quarter (\<lambda>_. None) (\<lambda>_. 0) (\<lambda>p t. Ret []) ''page'' no_columns x =
      Ret \<lparr>kh_Date = x, kh_MarketCap = None, kh_EnterpriseValue = None, kh_TrailingPE = None, kh_ForwardPE = None,
        kh_PEGRatio = None, kh_PriceSales = None, kh_PriceBook = None, kh_EnterpriseValueRevenue = None,
        kh_EnterpriseValueEBITDA = None\<rparr>" for x
    by (simp add: extract_quarter_def extractScaledValue_def no_columns_def)
  then obtain qs where "?E = Ret qs" using d by (simp add: extractHistoricalValues_def market_cap_only_def)
  from quarters_of_page [OF this] this d show ?thesis by (auto simp: market_cap_only_def)
qed

text \<open>
  Printed integers with a suffix become a hundred times the value they stand for, at scale 0. The currency is \<^verbatim>\<open>USD\<close>
  whatever the page says.
\<close>

theorem parsed_statistics:
  assumes "ParseComprehensiveKeyStatistics pf ovf re_find re_all (Ret cfg) now html symbol market = Ret dto"
    "kpc_MarketCap (krx_Current cfg) \<noteq> []" "re_find (kpc_MarketCap (krx_Current cfg)) html = Ret [w, show_nat n @ ''B'']"
    "n * 1000000000 * 100 < 2 ^ 53"
  shows "kc_MarketCap (kd_Current dto) = Some \<lparr>ss_Scaled = 100 * (int n * 1000000000), ss_Scale = 0\<rparr> \<and> kd_Currency dto = ''USD''"
proof -
  have B: "(''B'', 1000000000) \<in> set suffixes" by (simp add: suffixes_def)
  note t = suffixed_text [OF B numeral_text_show_nat [of n]]
  have "parseFinancialValue pf ovf (show_nat n @ ''B'') = Some \<lparr>ss_Scaled = int (n * 1000000000) * 100, ss_Scale = 0\<rparr>"
    using suffixed_value [OF B] assms(4) by simp
  then have "extractScaledValue pf ovf re_find html (kpc_MarketCap (krx_Current cfg)) =
      Ret (Some \<lparr>ss_Scaled = 100 * (int n * 1000000000), ss_Scale = 0\<rparr>)"
    using assms(2,3) t(4) by (simp add: extractScaledValue_def)
  then show ?thesis using assms(1) by (auto simp: ParseComprehensiveKeyStatistics_def extractCurrentValues_def go_bind_eq_Ret)
qed

lemma parsed_statistics_witness:
  "\<exists>dto. ParseComprehensiveKeyStatistics (\<lambda>_. None) (\<lambda>_. 0) (\<lambda>p t. Ret [p, show_nat 3 @ ''B'']) (\<lambda>p t. Ret [])
      (Ret market_cap_only) 5 ''page'' ''AAPL'' ''XNAS'' = Ret dto \<and>
    kc_MarketCap (kd_Current dto) = Some \<lparr>ss_Scaled = 300000000000, ss_Scale = 0\<rparr>"
proof -
  let ?P = "ParseComprehensiveKeyStatistics (\<lambda>_. None) (\<lambda>_. 0) (\<lambda>p t. Ret [p, show_nat 3 @ ''B'']) (\<lambda>p t. Ret [])
      (Ret market_cap_only) 5 ''page'' ''AAPL'' ''XNAS''"
  obtain dto where "?P = Ret dto"
    by (simp add: ParseComprehensiveKeyStatistics_def extractCurrentValues_def extractAdditionalValues_def extractScaledValue_def
        extractStringValue_def extractHistoricalValues_def extractDates_def market_cap_only_def)
  then show ?thesis using parsed_statistics [of "\<lambda>_. None" "\<lambda>_. 0" "\<lambda>p t. Ret [p, show_nat 3 @ ''B'']" "\<lambda>p t. Ret []"
      market_cap_only 5 "''page''" "''AAPL''" "''XNAS''" dto "''Market Cap''" 3]
    by (simp add: market_cap_only_def)
qed

end
