(* ===== verification/ScrapeAnalysis.thy ===== *)
theory ScrapeAnalysis
  imports ScrapeFinancials GoStrings "HOL-Library.Multiset"
begin

text \<open>
  Analyst pages: \<^verbatim>\<open>internal/scrape/analysis.go\<close> and \<^verbatim>\<open>internal/scrape/analyst_insights.go\<close>. The four sections of
  estimates have the same shape, a currency and four columns, so they share one record with the column as its parameter.
\<close>

section \<open>Sections of a page\<close>

definition section_tag :: string where "section_tag = ''</section>''"
definition testid_attr :: string where "testid_attr = ''data-testid='' @ [CHR 0x22]"

text \<open>The part of the page from the first occurrence of the section's pattern; none if there is none.\<close>

definition cut_section :: "string \<Rightarrow> string \<Rightarrow> string option go" where
  "cut_section html pat =
     (case Index html pat of None \<Rightarrow> Ret None
      | Some start \<Rightarrow>
          go_bind (case Index (drop start html) section_tag of
              Some j \<Rightarrow> Ret (j + length section_tag)
            | None \<Rightarrow> go_bind (go_slice_from html (start + 1)) (\<lambda>rest.
                Ret (case Index rest testid_attr of Some k \<Rightarrow> k | None \<Rightarrow> length html - start)))
          (\<lambda>n. if start + n \<le> length html then Ret (Some (take n (drop start html))) else Panic ''slice bounds out of range''))"

record 'col an_Section =
  an_Currency :: string
  an_CurrentQtr :: 'col
  an_NextQtr :: 'col
  an_CurrentYear :: 'col
  an_NextYear :: 'col

record an_Patterns =
  ap_SectionPattern :: string
  ap_CurrencyPattern :: string
  ap_TableRowPattern :: string

definition section_currency :: "(string \<Rightarrow> string \<Rightarrow> string list go) \<Rightarrow> string \<Rightarrow> string \<Rightarrow> string go" where
  "section_currency re_find p text =
     go_bind (re_find p text) (\<lambda>m. Ret (if 1 < length m then m ! 1 else ''USD''))"

text \<open>A row has its title and four cells; \<open>upd\<close> puts a cell's text into a column, by the row's title.\<close>

definition section_row :: "(string \<Rightarrow> string \<Rightarrow> 'col \<Rightarrow> 'col) \<Rightarrow> string list \<Rightarrow> 'col an_Section \<Rightarrow> 'col an_Section" where
  "section_row upd m s =
     (if length m < 6 then s
      else let title = TrimSpace (m ! 1) in
        s\<lparr>an_CurrentQtr := upd title (TrimSpace (m ! 2)) (an_CurrentQtr s),
          an_NextQtr := upd title (TrimSpace (m ! 3)) (an_NextQtr s),
          an_CurrentYear := upd title (TrimSpace (m ! 4)) (an_CurrentYear s),
          an_NextYear := upd title (TrimSpace (m ! 5)) (an_NextYear s)\<rparr>)"

definition extract_section ::
  "(string \<Rightarrow> string \<Rightarrow> string list go) \<Rightarrow> (string \<Rightarrow> string \<Rightarrow> string list list go) \<Rightarrow> string \<Rightarrow> an_Patterns \<Rightarrow>
   (string \<Rightarrow> string \<Rightarrow> 'col \<Rightarrow> 'col) \<Rightarrow> string \<Rightarrow> 'col an_Section \<Rightarrow> 'col an_Section go" where
  "extract_section re_find re_all what p upd html s =
     go_bind (cut_section html (ap_SectionPattern p)) (\<lambda>sec.
       case sec of None \<Rightarrow> Err (Errorf (what @ '' section not found'') [])
       | Some text \<Rightarrow>
           go_bind (section_currency re_find (ap_CurrencyPattern p) text) (\<lambda>currency.
           go_bind (re_all (ap_TableRowPattern p) text) (\<lambda>matches.
           Ret (fold (section_row upd) matches (s\<lparr>an_Currency := currency\<rparr>)))))"

section \<open>The sections of the analysis page\<close>

record ee_Column =
  ee_NoOfAnalysts :: "int option"
  ee_AvgEstimate :: "f64 option"
  ee_LowEstimate :: "f64 option"
  ee_HighEstimate :: "f64 option"
  ee_YearAgoEPS :: "f64 option"

record re_Column =
  rv_NoOfAnalysts :: "int option"
  rv_AvgEstimate :: "string option"
  rv_LowEstimate :: "string option"
  rv_HighEstimate :: "string option"
  rv_YearAgoSales :: "string option"
  rv_SalesGrowthYearEst :: "string option"

record et_Column =
  et_CurrentEstimate :: "f64 option"
  et_Days7Ago :: "f64 option"
  et_Days30Ago :: "f64 option"
  et_Days60Ago :: "f64 option"
  et_Days90Ago :: "f64 option"

record er_Column =
  er_UpLast7Days :: "int option"
  er_UpLast30Days :: "int option"
  er_DownLast7Days :: "int option"
  er_DownLast30Days :: "int option"

definition earnings_row :: "(string \<Rightarrow> f64 option) \<Rightarrow> string \<Rightarrow> string \<Rightarrow> ee_Column \<Rightarrow> ee_Column" where
  "earnings_row pf title v c =
     (if title = ''No. of Analysts'' then c\<lparr>ee_NoOfAnalysts := parseInt v\<rparr>
      else if title = ''Avg. Estimate'' then c\<lparr>ee_AvgEstimate := parseFloat pf v\<rparr>
      else if title = ''Low Estimate'' then c\<lparr>ee_LowEstimate := parseFloat pf v\<rparr>
      else if title = ''High Estimate'' then c\<lparr>ee_HighEstimate := parseFloat pf v\<rparr>
      else if title = ''Year Ago EPS'' then c\<lparr>ee_YearAgoEPS := parseFloat pf v\<rparr>
      else c)"

definition revenue_row :: "string \<Rightarrow> string \<Rightarrow> re_Column \<Rightarrow> re_Column" where
  "revenue_row title v c =
     (if title = ''No. of Analysts'' then c\<lparr>rv_NoOfAnalysts := parseInt v\<rparr>
      else if title = ''Avg. Estimate'' then c\<lparr>rv_AvgEstimate := parseString v\<rparr>
      else if title = ''Low Estimate'' then c\<lparr>rv_LowEstimate := parseString v\<rparr>
      else if title = ''High Estimate'' then c\<lparr>rv_HighEstimate := parseString v\<rparr>
      else if title = ''Year Ago Sales'' then c\<lparr>rv_YearAgoSales := parseString v\<rparr>
      else if title = ''Sales Growth (year/est)'' then c\<lparr>rv_SalesGrowthYearEst := parseString v\<rparr>
      else c)"

definition trend_row :: "(string \<Rightarrow> f64 option) \<Rightarrow> string \<Rightarrow> string \<Rightarrow> et_Column \<Rightarrow> et_Column" where
  "trend_row pf title v c =
     (if title = ''Current Estimate'' then c\<lparr>et_CurrentEstimate := parseFloat pf v\<rparr>
      else if title = ''7 Days Ago'' then c\<lparr>et_Days7Ago := parseFloat pf v\<rparr>
      else if title = ''30 Days Ago'' then c\<lparr>et_Days30Ago := parseFloat pf v\<rparr>
      else if title = ''60 Days Ago'' then c\<lparr>et_Days60Ago := parseFloat pf v\<rparr>
      else if title = ''90 Days Ago'' then c\<lparr>et_Days90Ago := parseFloat pf v\<rparr>
      else c)"

definition revisions_row :: "string \<Rightarrow> string \<Rightarrow> er_Column \<Rightarrow> er_Column" where
  "revisions_row title v c =
     (if title = ''Up Last 7 Days'' then c\<lparr>er_UpLast7Days := parseInt v\<rparr>
      else if title = ''Up Last 30 Days'' then c\<lparr>er_UpLast30Days := parseInt v\<rparr>
      else if title = ''Down Last 7 Days'' then c\<lparr>er_DownLast7Days := parseInt v\<rparr>
      else if title = ''Down Last 30 Days'' then c\<lparr>er_DownLast30Days := parseInt v\<rparr>
      else c)"

definition extractEarningsEstimate ::
  "(string \<Rightarrow> f64 option) \<Rightarrow> (string \<Rightarrow> string \<Rightarrow> string list go) \<Rightarrow> (string \<Rightarrow> string \<Rightarrow> string list list go) \<Rightarrow> an_Patterns \<Rightarrow>
   string \<Rightarrow> ee_Column an_Section \<Rightarrow> ee_Column an_Section go" where
  "extractEarningsEstimate pf re_find re_all p = extract_section re_find re_all ''earnings estimate'' p (earnings_row pf)"

definition extractRevenueEstimate ::
  "(string \<Rightarrow> string \<Rightarrow> string list go) \<Rightarrow> (string \<Rightarrow> string \<Rightarrow> string list list go) \<Rightarrow> an_Patterns \<Rightarrow>
   string \<Rightarrow> re_Column an_Section \<Rightarrow> re_Column an_Section go" where
  "extractRevenueEstimate re_find re_all p = extract_section re_find re_all ''revenue estimate'' p revenue_row"

definition extractEPSTrend ::
  "(string \<Rightarrow> f64 option) \<Rightarrow> (string \<Rightarrow> string \<Rightarrow> string list go) \<Rightarrow> (string \<Rightarrow> string \<Rightarrow> string list list go) \<Rightarrow> an_Patterns \<Rightarrow>
   string \<Rightarrow> et_Column an_Section \<Rightarrow> et_Column an_Section go" where
  "extractEPSTrend pf re_find re_all p = extract_section re_find re_all ''EPS trend'' p (trend_row pf)"

definition extractEPSRevisions ::
  "(string \<Rightarrow> string \<Rightarrow> string list go) \<Rightarrow> (string \<Rightarrow> string \<Rightarrow> string list list go) \<Rightarrow> an_Patterns \<Rightarrow>
   string \<Rightarrow> er_Column an_Section \<Rightarrow> er_Column an_Section go" where
  "extractEPSRevisions re_find re_all p = extract_section re_find re_all ''EPS revisions'' p revisions_row"

text \<open>The history has one column per header date.\<close>

record an_HistoryPatterns =
  hx_SectionPattern :: string
  hx_CurrencyPattern :: string
  hx_HeaderPattern :: string
  hx_TableRowPattern :: string
  hx_TableCellPattern :: string

record an_HistoryEntry =
  he_Date :: string
  he_EPSEst :: "f64 option"
  he_EPSActual :: "f64 option"
  he_Difference :: "f64 option"
  he_SurprisePercent :: "string option"

record an_History =
  hi_Currency :: string
  hi_Data :: "an_HistoryEntry list"

record history_rows =
  hr_Est :: "string list"
  hr_Actual :: "string list"
  hr_Difference :: "string list"
  hr_Surprise :: "string list"

definition header_dates :: "string list list \<Rightarrow> string list" where
  "header_dates ms = map (\<lambda>m. TrimSpace (m ! 1)) (filter (\<lambda>m. 2 \<le> length m) (drop 1 ms))"

fun history_row_loop ::
  "(string \<Rightarrow> string \<Rightarrow> string list list go) \<Rightarrow> string \<Rightarrow> string list list \<Rightarrow> history_rows \<Rightarrow> history_rows go" where
  "history_row_loop re_all cellp [] h = Ret h"
| "history_row_loop re_all cellp (m # ms) h =
     (if length m < 3 then history_row_loop re_all cellp ms h
      else go_bind (re_all cellp (m ! 2)) (\<lambda>cells.
        let title = TrimSpace (m ! 1);
            vals = map (\<lambda>c. TrimSpace (c ! 1)) (filter (\<lambda>c. 2 \<le> length c) cells)
        in history_row_loop re_all cellp ms
             (if title = ''EPS Est.'' then h\<lparr>hr_Est := vals\<rparr>
              else if title = ''EPS Actual'' then h\<lparr>hr_Actual := vals\<rparr>
              else if title = ''Difference'' then h\<lparr>hr_Difference := vals\<rparr>
              else if title = ''Surprise %'' then h\<lparr>hr_Surprise := vals\<rparr>
              else h)))"

text \<open>A cell of a row, if the row has it, through a conversion.\<close>

definition cell :: "(string \<Rightarrow> 'a option) \<Rightarrow> string list \<Rightarrow> nat \<Rightarrow> 'a option" where
  "cell conv vs i = (if i < length vs then conv (vs ! i) else None)"

definition history_entry :: "(string \<Rightarrow> f64 option) \<Rightarrow> history_rows \<Rightarrow> string \<Rightarrow> nat \<Rightarrow> an_HistoryEntry" where
  "history_entry pf h date i =
     \<lparr>he_Date = date, he_EPSEst = cell (parseFloat pf) (hr_Est h) i, he_EPSActual = cell (parseFloat pf) (hr_Actual h) i,
      he_Difference = cell (parseFloat pf) (hr_Difference h) i, he_SurprisePercent = cell parseString (hr_Surprise h) i\<rparr>"

fun history_entries :: "(string \<Rightarrow> f64 option) \<Rightarrow> history_rows \<Rightarrow> nat \<Rightarrow> string list \<Rightarrow> an_HistoryEntry list" where
  "history_entries pf h i [] = []"
| "history_entries pf h i (d # ds) =
     (if length (hr_Est h) \<le> i then [] else history_entry pf h d i # history_entries pf h (i + 1) ds)"

definition extractEarningsHistory ::
  "(string \<Rightarrow> f64 option) \<Rightarrow> (string \<Rightarrow> string \<Rightarrow> string list go) \<Rightarrow> (string \<Rightarrow> string \<Rightarrow> string list list go) \<Rightarrow> an_HistoryPatterns \<Rightarrow>
   string \<Rightarrow> an_History \<Rightarrow> an_History go" where
  "extractEarningsHistory pf re_find re_all p html s =
     go_bind (cut_section html (hx_SectionPattern p)) (\<lambda>sec.
       case sec of None \<Rightarrow> Err (Errorf ''earnings history section not found'' [])
       | Some text \<Rightarrow>
           go_bind (section_currency re_find (hx_CurrencyPattern p) text) (\<lambda>currency.
           go_bind (re_all (hx_HeaderPattern p) text) (\<lambda>headers.
           go_bind (re_all (hx_TableRowPattern p) text) (\<lambda>rows.
           go_bind (history_row_loop re_all (hx_TableCellPattern p) rows
               \<lparr>hr_Est = [], hr_Actual = [], hr_Difference = [], hr_Surprise = []\<rparr>) (\<lambda>h.
           Ret \<lparr>hi_Currency = currency, hi_Data = hi_Data s @ history_entries pf h 0 (header_dates headers)\<rparr>)))))"

record an_Growth =
  ag_CurrentQtr :: "string option"
  ag_NextQtr :: "string option"
  ag_CurrentYear :: "string option"
  ag_NextYear :: "string option"

definition extractGrowthEstimate ::
  "(string \<Rightarrow> string \<Rightarrow> string list list go) \<Rightarrow> string \<Rightarrow> string \<Rightarrow> string \<Rightarrow> an_Growth \<Rightarrow> an_Growth go" where
  "extractGrowthEstimate re_all secp rowp html s =
     go_bind (cut_section html secp) (\<lambda>sec.
       case sec of None \<Rightarrow> Err (Errorf ''growth estimate section not found'' [])
       | Some text \<Rightarrow>
           go_bind (re_all rowp text) (\<lambda>matches.
           Ret (case matches of
                  m # _ \<Rightarrow> if 6 \<le> length m
                    then \<lparr>ag_CurrentQtr = parseString (TrimSpace (m ! 2)), ag_NextQtr = parseString (TrimSpace (m ! 3)),
                          ag_CurrentYear = parseString (TrimSpace (m ! 4)), ag_NextYear = parseString (TrimSpace (m ! 5))\<rparr>
                    else s
                | [] \<Rightarrow> s)))"

record ComprehensiveAnalysisDTO =
  ad_Symbol :: string
  ad_Market :: string
  ad_AsOf :: instant
  ad_EarningsEstimate :: "ee_Column an_Section"
  ad_RevenueEstimate :: "re_Column an_Section"
  ad_EarningsHistory :: an_History
  ad_EPSTrend :: "et_Column an_Section"
  ad_EPSRevisions :: "er_Column an_Section"
  ad_GrowthEstimate :: an_Growth

record AnalysisRegexConfig =
  ax_EarningsEstimate :: an_Patterns
  ax_RevenueEstimate :: an_Patterns
  ax_EarningsHistory :: an_HistoryPatterns
  ax_EPSTrend :: an_Patterns
  ax_EPSRevisions :: an_Patterns
  ax_GrowthEstimate_SectionPattern :: string
  ax_GrowthEstimate_TableRowPattern :: string

definition empty_section :: "'col \<Rightarrow> 'col an_Section" where
  "empty_section c = \<lparr>an_Currency = [], an_CurrentQtr = c, an_NextQtr = c, an_CurrentYear = c, an_NextYear = c\<rparr>"

definition zero_ee :: ee_Column where "zero_ee = \<lparr>ee_NoOfAnalysts = None, ee_AvgEstimate = None, ee_LowEstimate = None, ee_HighEstimate = None, ee_YearAgoEPS = None\<rparr>"
definition zero_re :: re_Column where "zero_re = \<lparr>rv_NoOfAnalysts = None, rv_AvgEstimate = None, rv_LowEstimate = None, rv_HighEstimate = None, rv_YearAgoSales = None, rv_SalesGrowthYearEst = None\<rparr>"
definition zero_et :: et_Column where "zero_et = \<lparr>et_CurrentEstimate = None, et_Days7Ago = None, et_Days30Ago = None, et_Days60Ago = None, et_Days90Ago = None\<rparr>"
definition zero_er :: er_Column where "zero_er = \<lparr>er_UpLast7Days = None, er_UpLast30Days = None, er_DownLast7Days = None, er_DownLast30Days = None\<rparr>"
definition zero_growth :: an_Growth where
  "zero_growth = \<lparr>ag_CurrentQtr = None, ag_NextQtr = None, ag_CurrentYear = None, ag_NextYear = None\<rparr>"

text \<open>A section that fails is left as it was; the other sections go on.\<close>

fun keep_on_error :: "'a \<Rightarrow> 'a go \<Rightarrow> 'a go" where
  "keep_on_error old (Ret x) = Ret x"
| "keep_on_error old (Err e) = Ret old"
| "keep_on_error old (Panic p) = Panic p"

definition ParseAnalysis ::
  "(string \<Rightarrow> f64 option) \<Rightarrow> (string \<Rightarrow> string \<Rightarrow> string list go) \<Rightarrow> (string \<Rightarrow> string \<Rightarrow> string list list go) \<Rightarrow>
   AnalysisRegexConfig go \<Rightarrow> instant \<Rightarrow> string \<Rightarrow> string \<Rightarrow> string \<Rightarrow> ComprehensiveAnalysisDTO go" where
  "ParseAnalysis pf re_find re_all cfg now html symbol market =
     go_bind (go_wrap ''failed to load analysis regex config: %w'' [] cfg) (\<lambda>cfg.
     go_bind (keep_on_error (empty_section zero_ee)
       (extractEarningsEstimate pf re_find re_all (ax_EarningsEstimate cfg) html (empty_section zero_ee))) (\<lambda>ee.
     go_bind (keep_on_error (empty_section zero_re)
       (extractRevenueEstimate re_find re_all (ax_RevenueEstimate cfg) html (empty_section zero_re))) (\<lambda>rv.
     go_bind (keep_on_error \<lparr>hi_Currency = [], hi_Data = []\<rparr>
       (extractEarningsHistory pf re_find re_all (ax_EarningsHistory cfg) html \<lparr>hi_Currency = [], hi_Data = []\<rparr>)) (\<lambda>hi.
     go_bind (keep_on_error (empty_section zero_et)
       (extractEPSTrend pf re_find re_all (ax_EPSTrend cfg) html (empty_section zero_et))) (\<lambda>et.
     go_bind (keep_on_error (empty_section zero_er)
       (extractEPSRevisions re_find re_all (ax_EPSRevisions cfg) html (empty_section zero_er))) (\<lambda>er.
     go_bind (keep_on_error zero_growth
       (extractGrowthEstimate re_all (ax_GrowthEstimate_SectionPattern cfg) (ax_GrowthEstimate_TableRowPattern cfg) html
          zero_growth)) (\<lambda>gr.
     Ret \<lparr>ad_Symbol = symbol, ad_Market = market, ad_AsOf = now, ad_EarningsEstimate = ee, ad_RevenueEstimate = rv,
          ad_EarningsHistory = hi, ad_EPSTrend = et, ad_EPSRevisions = er, ad_GrowthEstimate = gr\<rparr>)))))))"

section \<open>Analyst insights\<close>

record AnalystInsightsDTO =
  ai_Symbol :: string
  ai_Market :: string
  ai_AsOf :: instant
  ai_CurrentPrice :: "f64 option"
  ai_TargetMeanPrice :: "f64 option"
  ai_TargetMedianPrice :: "f64 option"
  ai_TargetHighPrice :: "f64 option"
  ai_TargetLowPrice :: "f64 option"
  ai_NumberOfAnalysts :: "int option"
  ai_RecommendationMean :: "f64 option"
  ai_RecommendationKey :: "string option"

record AnalystInsightsRegexConfig =
  ix_CombinedPattern :: string
  ix_CurrentPrice :: string
  ix_TargetMeanPrice :: string
  ix_TargetMedianPrice :: string
  ix_TargetHighPrice :: string
  ix_TargetLowPrice :: string
  ix_RecommendationMean :: string
  ix_RecommendationKey :: string
  ix_NumberOfAnalysts :: string

text \<open>\<^verbatim>\<open>if parsed != nil\<close>: a text that does not parse leaves the field.\<close>

definition or_old :: "'a option \<Rightarrow> 'a option \<Rightarrow> 'a option" where
  "or_old new old = (if new = None then old else new)"

definition nonempty :: "string \<Rightarrow> string option" where
  "nonempty s = (if s = [] then None else Some s)"

definition insight_field :: "(string \<Rightarrow> f64 option) \<Rightarrow> string \<Rightarrow> string \<Rightarrow> AnalystInsightsDTO \<Rightarrow> AnalystInsightsDTO" where
  "insight_field pf field v d =
     (if field = ''currentPrice'' then d\<lparr>ai_CurrentPrice := or_old (parseFloat pf v) (ai_CurrentPrice d)\<rparr>
      else if field = ''targetMeanPrice'' then d\<lparr>ai_TargetMeanPrice := or_old (parseFloat pf v) (ai_TargetMeanPrice d)\<rparr>
      else if field = ''targetMedianPrice'' then d\<lparr>ai_TargetMedianPrice := or_old (parseFloat pf v) (ai_TargetMedianPrice d)\<rparr>
      else if field = ''targetHighPrice'' then d\<lparr>ai_TargetHighPrice := or_old (parseFloat pf v) (ai_TargetHighPrice d)\<rparr>
      else if field = ''targetLowPrice'' then d\<lparr>ai_TargetLowPrice := or_old (parseFloat pf v) (ai_TargetLowPrice d)\<rparr>
      else if field = ''recommendationMean'' then d\<lparr>ai_RecommendationMean := or_old (parseFloat pf v) (ai_RecommendationMean d)\<rparr>
      else if field = ''recommendationKey'' then d\<lparr>ai_RecommendationKey := or_old (nonempty v) (ai_RecommendationKey d)\<rparr>
      else if field = ''numberOfAnalysts'' then d\<lparr>ai_NumberOfAnalysts := or_old (parseInt v) (ai_NumberOfAnalysts d)\<rparr>
      else d)"

definition insight_patterns :: "AnalystInsightsRegexConfig \<Rightarrow> (string \<times> string) list" where
  "insight_patterns c =
     [(''currentPrice'', ix_CurrentPrice c), (''targetMeanPrice'', ix_TargetMeanPrice c),
      (''targetMedianPrice'', ix_TargetMedianPrice c), (''targetHighPrice'', ix_TargetHighPrice c),
      (''targetLowPrice'', ix_TargetLowPrice c), (''recommendationMean'', ix_RecommendationMean c),
      (''recommendationKey'', ix_RecommendationKey c), (''numberOfAnalysts'', ix_NumberOfAnalysts c)]"

text \<open>The loop over the map of patterns: \<open>order\<close> is the order in which this run iterates over it.\<close>

fun extractFinancialDataFlexible ::
  "(string \<Rightarrow> f64 option) \<Rightarrow> (string \<Rightarrow> string \<Rightarrow> string list go) \<Rightarrow> string \<Rightarrow> (string \<times> string) list \<Rightarrow>
   AnalystInsightsDTO \<Rightarrow> AnalystInsightsDTO go" where
  "extractFinancialDataFlexible pf re_find html [] d = Ret d"
| "extractFinancialDataFlexible pf re_find html ((field, pattern) # order) d =
     go_bind (re_find pattern html) (\<lambda>m.
       extractFinancialDataFlexible pf re_find html order (if 1 < length m then insight_field pf field (m ! 1) d else d))"

definition extractFinancialDataFromJSON ::
  "(string \<Rightarrow> f64 option) \<Rightarrow> (string \<Rightarrow> string \<Rightarrow> string list go) \<Rightarrow> AnalystInsightsRegexConfig \<Rightarrow> (string \<times> string) list \<Rightarrow>
   string \<Rightarrow> AnalystInsightsDTO \<Rightarrow> AnalystInsightsDTO go" where
  "extractFinancialDataFromJSON pf re_find cfg order html d =
     go_bind (re_find (ix_CombinedPattern cfg) html) (\<lambda>m.
       if length m < 9 then extractFinancialDataFlexible pf re_find html order d
       else Ret (d\<lparr>
         ai_CurrentPrice := or_old (parseFloat pf (m ! 1)) (ai_CurrentPrice d),
         ai_TargetMeanPrice := or_old (parseFloat pf (m ! 2)) (ai_TargetMeanPrice d),
         ai_TargetMedianPrice := or_old (parseFloat pf (m ! 3)) (ai_TargetMedianPrice d),
         ai_TargetHighPrice := or_old (parseFloat pf (m ! 4)) (ai_TargetHighPrice d),
         ai_TargetLowPrice := or_old (parseFloat pf (m ! 5)) (ai_TargetLowPrice d),
         ai_RecommendationMean := or_old (parseFloat pf (m ! 6)) (ai_RecommendationMean d),
         ai_RecommendationKey := or_old (nonempty (m ! 7)) (ai_RecommendationKey d),
         ai_NumberOfAnalysts := or_old (parseInt (m ! 8)) (ai_NumberOfAnalysts d)\<rparr>))"

definition ParseAnalystInsights ::
  "(string \<Rightarrow> f64 option) \<Rightarrow> (string \<Rightarrow> string \<Rightarrow> string list go) \<Rightarrow> AnalystInsightsRegexConfig go \<Rightarrow> (string \<times> string) list \<Rightarrow>
   instant \<Rightarrow> string \<Rightarrow> string \<Rightarrow> string \<Rightarrow> AnalystInsightsDTO go" where
  "ParseAnalystInsights pf re_find cfg order now html symbol market =
     go_bind (go_wrap ''failed to load analyst insights regex config: %w'' [] cfg) (\<lambda>cfg.
     go_wrap ''failed to extract financial data: %w'' []
       (extractFinancialDataFromJSON pf re_find cfg order html
          \<lparr>ai_Symbol = symbol, ai_Market = market, ai_AsOf = now, ai_CurrentPrice = None, ai_TargetMeanPrice = None,
           ai_TargetMedianPrice = None, ai_TargetHighPrice = None, ai_TargetLowPrice = None, ai_NumberOfAnalysts = None,
           ai_RecommendationMean = None, ai_RecommendationKey = None\<rparr>))"

section \<open>Sections are parts of the page\<close>

lemma length_section_tag: "length section_tag = 10"
  by (simp add: section_tag_def)

text \<open>
  Cutting a section out never reads past the end of the page, and gives a part of the page that begins with the section's
  pattern; there is none only if the pattern does not occur.
\<close>

text \<open>
  Cutting a section out of a page never slices out of range: it finds a contiguous part
  of the page at an occurrence of the section pattern, and it finds none exactly when the
  pattern does not occur.
\<close>

theorem cut_section_inside:
  assumes "pat \<noteq> []"
  shows "(\<exists>u t v. cut_section html pat = Ret (Some t) \<and> html = u @ t @ v \<and> prefix pat (t @ v)) \<or>
    cut_section html pat = Ret None \<and> \<not> sublist pat html"
proof (cases "Index html pat")
  case None
  then show ?thesis using Index_None [of html pat] by (simp add: cut_section_def)
next
  case (Some i)
  note i = Index_Some [OF Some]
  have le: "i + 1 \<le> length html" using i assms by (cases pat) auto
  obtain n where n: "cut_section html pat = Ret (Some (take n (drop i html)))"
  proof (cases "Index (drop i html) section_tag")
    case None
    have k: "i + k \<le> length html" if "Index (drop (i + 1) html) testid_attr = Some k" for k
      using Index_Some [OF that] le by auto
    define n where "n = (case Index (drop (i + 1) html) testid_attr of Some k \<Rightarrow> k | None \<Rightarrow> length html - i)"
    have "i + n \<le> length html" using k le by (auto simp: n_def split: option.splits)
    then show ?thesis using that [of n] le by (simp add: cut_section_def Some None go_slice_from_def n_def)
  next
    case (Some j)
    have "i + (j + 10) \<le> length html" using Index_Some [OF Some] i by (auto simp: length_section_tag)
    then show ?thesis using that [of "j + 10"] Some \<open>Index html pat = Some i\<close>
      by (simp add: cut_section_def length_section_tag)
  qed
  moreover have "html = take i html @ take n (drop i html) @ drop n (drop i html)" by (simp only: append_take_drop_id)
  moreover have "prefix pat (take n (drop i html) @ drop n (drop i html))" using i by (simp only: append_take_drop_id)
  ultimately show ?thesis by blast
qed

lemma cut_section_inside_witness:
  "cut_section ''ab<x>c'' ''<x>'' = Ret (Some ''<x>c'') \<and>
   ((\<exists>u t v. cut_section ''ab<x>c'' ''<x>'' = Ret (Some t) \<and> ''ab<x>c'' = u @ t @ v \<and> prefix ''<x>'' (t @ v)) \<or>
    cut_section ''ab<x>c'' ''<x>'' = Ret None \<and> \<not> sublist ''<x>'' ''ab<x>c'')"
  by (rule conjI, simp add: cut_section_def HasPrefix_def go_slice_from_def section_tag_def testid_attr_def)
    (rule cut_section_inside, simp)

section \<open>The order of the pattern map does not matter\<close>

definition insight_step ::
  "(string \<Rightarrow> f64 option) \<Rightarrow> (string \<Rightarrow> string list) \<Rightarrow> string \<times> string \<Rightarrow> AnalystInsightsDTO \<Rightarrow> AnalystInsightsDTO" where
  "insight_step pf g fp d = (if 1 < length (g (snd fp)) then insight_field pf (fst fp) (g (snd fp) ! 1) d else d)"

lemma flexible_fold:
  "(\<And>p. re_find p html = Ret (g p)) \<Longrightarrow>
   extractFinancialDataFlexible pf re_find html order d = Ret (fold (insight_step pf g) order d)"
  by (induction pf re_find html order d rule: extractFinancialDataFlexible.induct) (simp_all add: insight_step_def)

text \<open>Each name changes one field.\<close>

lemma insight_field_select:
  "ai_Symbol (insight_field pf f v d) = ai_Symbol d" "ai_Market (insight_field pf f v d) = ai_Market d"
  "ai_AsOf (insight_field pf f v d) = ai_AsOf d" "AnalystInsightsDTO.more (insight_field pf f v d) = AnalystInsightsDTO.more d"
  "ai_CurrentPrice (insight_field pf f v d) = (if f = ''currentPrice'' then or_old (parseFloat pf v) (ai_CurrentPrice d) else ai_CurrentPrice d)"
  "ai_TargetMeanPrice (insight_field pf f v d) = (if f = ''targetMeanPrice'' then or_old (parseFloat pf v) (ai_TargetMeanPrice d) else ai_TargetMeanPrice d)"
  "ai_TargetMedianPrice (insight_field pf f v d) = (if f = ''targetMedianPrice'' then or_old (parseFloat pf v) (ai_TargetMedianPrice d) else ai_TargetMedianPrice d)"
  "ai_TargetHighPrice (insight_field pf f v d) = (if f = ''targetHighPrice'' then or_old (parseFloat pf v) (ai_TargetHighPrice d) else ai_TargetHighPrice d)"
  "ai_TargetLowPrice (insight_field pf f v d) = (if f = ''targetLowPrice'' then or_old (parseFloat pf v) (ai_TargetLowPrice d) else ai_TargetLowPrice d)"
  "ai_RecommendationMean (insight_field pf f v d) = (if f = ''recommendationMean'' then or_old (parseFloat pf v) (ai_RecommendationMean d) else ai_RecommendationMean d)"
  "ai_NumberOfAnalysts (insight_field pf f v d) = (if f = ''numberOfAnalysts'' then or_old (parseInt v) (ai_NumberOfAnalysts d) else ai_NumberOfAnalysts d)"
  "ai_RecommendationKey (insight_field pf f v d) = (if f = ''recommendationKey'' then or_old (nonempty v) (ai_RecommendationKey d) else ai_RecommendationKey d)"
  by (simp_all add: insight_field_def)

lemma insight_field_commute:
  assumes "f \<noteq> f'"
  shows "insight_field pf f v (insight_field pf f' v' d) = insight_field pf f' v' (insight_field pf f v d)"
  by (intro AnalystInsightsDTO.equality; simp only: insight_field_select split: if_split; use assms in blast)

text \<open>
  The individual patterns of the analyst insights can be tried in any order of the Go
  map: every order gives the same record.
\<close>

theorem insights_any_order:
  assumes "mset order = mset (insight_patterns cfg)" "\<And>p. is_ret (re_find p html)"
  shows "ParseAnalystInsights pf re_find (Ret cfg) order now html symbol market =
    ParseAnalystInsights pf re_find (Ret cfg) (insight_patterns cfg) now html symbol market"
proof -
  obtain g where g: "\<And>p. re_find p html = Ret (g p)" using assms(2) unfolding is_ret_conv by metis
  have "fold (insight_step pf g) order = fold (insight_step pf g) (insight_patterns cfg)"
  proof (rule fold_multiset_equiv [OF _ assms(1)])
    fix x y assume "x \<in> set order" "y \<in> set order"
    then have "x \<in> set (insight_patterns cfg)" "y \<in> set (insight_patterns cfg)"
      using mset_eq_setD [OF assms(1)] by simp_all
    moreover have "distinct (map fst (insight_patterns cfg))" by (simp add: insight_patterns_def)
    ultimately have "x = y \<or> fst x \<noteq> fst y" by (metis eq_key_imp_eq_value prod.collapse)
    then show "insight_step pf g x \<circ> insight_step pf g y = insight_step pf g y \<circ> insight_step pf g x"
      using insight_field_commute by (auto simp: insight_step_def fun_eq_iff)
  qed
  then show ?thesis
    by (simp add: ParseAnalystInsights_def extractFinancialDataFromJSON_def g flexible_fold [of re_find html g])
qed

definition sample_insights :: AnalystInsightsRegexConfig where
  "sample_insights =
     \<lparr>ix_CombinedPattern = ''all'', ix_CurrentPrice = ''price'', ix_TargetMeanPrice = ''mean'', ix_TargetMedianPrice = ''median'',
      ix_TargetHighPrice = ''high'', ix_TargetLowPrice = ''low'', ix_RecommendationMean = ''rec'',
      ix_RecommendationKey = ''key'', ix_NumberOfAnalysts = ''n''\<rparr>"

lemma insights_any_order_witness:
  "ParseAnalystInsights (\<lambda>_. None) (\<lambda>p t. Ret [p, ''12'']) (Ret sample_insights) (rev (insight_patterns sample_insights)) 5
     ''page'' ''AAPL'' ''XNAS'' =
   ParseAnalystInsights (\<lambda>_. None) (\<lambda>p t. Ret [p, ''12'']) (Ret sample_insights) (insight_patterns sample_insights) 5
     ''page'' ''AAPL'' ''XNAS''"
  by (rule insights_any_order) simp_all

section \<open>The history has an entry per date\<close>

lemma history_entries_dates: "map he_Date (history_entries pf h i ds) = take (length (hr_Est h) - i) ds"
  by (induction pf h i ds rule: history_entries.induct) (auto simp: history_entry_def take_Cons')

end
