(* ===== verification/EmitFinancials.thy ===== *)
theory EmitFinancials
  imports Emit ScrapeStatistics ScrapeAnalysis
begin

text \<open>
  Scraped pages as fundamentals messages: \<^verbatim>\<open>internal/emit/map_financials.go\<close>. Every mapper puts the values that are
  there under fixed keys, so each is a table of keys, values and currencies in the order of the code, and \<open>lines_of\<close> makes the
  lines of a table. Times are UTC; \<open>ts\<close> is \<^verbatim>\<open>timestamppb.New\<close>.
\<close>

section \<open>Lines\<close>

definition createLineItem ::
  "(instant \<Rightarrow> 'ts) \<Rightarrow> string \<Rightarrow> scrape_Scaled option \<Rightarrow> string \<Rightarrow> instant \<Rightarrow> instant \<Rightarrow> 'ts pb_LineItem option" where
  "createLineItem ts key v currency periodStart periodEnd =
     (case v of None \<Rightarrow> None
      | Some v \<Rightarrow>
          if ss_Scale v < 0 \<or> 9 < ss_Scale v then None
          else Some \<lparr>pl_Key = key, pl_Value = \<lparr>pd_Scaled = ss_Scaled v, pd_Scale = wrap32 (ss_Scale v)\<rparr>,
                 pl_CurrencyCode = (if length (ToUpper currency) \<noteq> 3 then [] else ToUpper currency),
                 pl_PeriodStart = ts periodStart, pl_PeriodEnd = ts periodEnd\<rparr>)"

definition opt_list :: "'a option \<Rightarrow> 'a list" where
  "opt_list r = (case r of None \<Rightarrow> [] | Some l \<Rightarrow> [l])"

type_synonym line_row = "string \<times> scrape_Scaled option \<times> string"

definition lines_of :: "(instant \<Rightarrow> 'ts) \<Rightarrow> instant \<Rightarrow> instant \<Rightarrow> line_row list \<Rightarrow> 'ts pb_LineItem list" where
  "lines_of ts ps pe rows =
     concat (map (\<lambda>(key, v, currency). if v = None then [] else opt_list (createLineItem ts key v currency ps pe)) rows)"

definition share_value :: "int64 option \<Rightarrow> scrape_Scaled option" where
  "share_value n = map_option (\<lambda>n. \<lparr>ss_Scaled = n, ss_Scale = 0\<rparr>) n"

definition ten_thousandths :: "(f64 \<Rightarrow> int) \<Rightarrow> f64 option \<Rightarrow> scrape_Scaled option" where
  "ten_thousandths ovf x = map_option (\<lambda>x. \<lparr>ss_Scaled = f_to_int64 ovf (f_mul x (Fin 10000)), ss_Scale = 4\<rparr>) x"

definition hundredths :: "(f64 \<Rightarrow> int) \<Rightarrow> f64 option \<Rightarrow> scrape_Scaled option" where
  "hundredths ovf x = map_option (\<lambda>x. \<lparr>ss_Scaled = f_to_int64 ovf (f_mul x (Fin 100)), ss_Scale = 2\<rparr>) x"

section \<open>Keys, markets, metadata\<close>

definition key_mappings :: "(string \<times> string) list" where
  "key_mappings =
     [(''total_revenues'', ''total_revenue''),
      (''revenues'', ''total_revenue''),
      (''net_revenues'', ''total_revenue''),
      (''total_operating_revenues'', ''total_revenue''),
      (''operating_revenues'', ''total_revenue''),
      (''net_income_common_stockholders'', ''net_income''),
      (''net_income_applicable_to_common'', ''net_income''),
      (''net_earnings'', ''net_income''),
      (''earnings'', ''net_income''),
      (''basic_earnings_per_share'', ''eps_basic''),
      (''basic_eps'', ''eps_basic''),
      (''diluted_earnings_per_share'', ''eps_diluted''),
      (''diluted_eps'', ''eps_diluted''),
      (''operating_earnings'', ''operating_income''),
      (''operating_profit'', ''operating_income''),
      (''gross_revenues'', ''gross_profit''),
      (''total_stockholders_equity'', ''shareholders_equity''),
      (''stockholders_equity'', ''shareholders_equity''),
      (''shareholders_equity_total'', ''shareholders_equity''),
      (''cash_and_cash_equivalents'', ''cash_and_equivalents''),
      (''cash_equivalents'', ''cash_and_equivalents''),
      (''total_cash'', ''cash_and_equivalents''),
      (''free_cash_flows'', ''free_cash_flow''),
      (''fcf'', ''free_cash_flow''),
      (''operating_cash_flows'', ''operating_cash_flow''),
      (''cash_from_operations'', ''operating_cash_flow''),
      (''investing_cash_flows'', ''investing_cash_flow''),
      (''cash_from_investing'', ''investing_cash_flow''),
      (''financing_cash_flows'', ''financing_cash_flow''),
      (''cash_from_financing'', ''financing_cash_flow'')]"

definition normalizeFinancialKey :: "string \<Rightarrow> string" where
  "normalizeFinancialKey key =
     (let normalized = replace_char CHR ''.'' ''_'' (replace_char CHR ''-'' ''_'' (replace_char CHR '' '' ''_'' (ToLower key)))
      in case map_of key_mappings normalized of Some canonical \<Rightarrow> canonical | None \<Rightarrow> normalized)"

definition mic_mappings :: "(string \<times> string) list" where
  "mic_mappings =
     [(''NASDAQ'', ''XNAS''),
      (''NYSE'', ''XNYS''),
      (''AMEX'', ''XASE''),
      (''OTC'', ''OTCM''),
      (''TSX'', ''XTSE''),
      (''LSE'', ''XLON''),
      (''TOKYO'', ''XJPX''),
      (''SHANGHAI'', ''XSHG''),
      (''SHENZHEN'', ''XSHE''),
      (''HONG_KONG'', ''XHKG''),
      (''FRANKFURT'', ''XFRA''),
      (''EURONEXT'', ''XPAR'')]"

definition normalizeMIC :: "string \<Rightarrow> string" where
  "normalizeMIC market =
     (if market = [] then []
      else case map_of mic_mappings (ToUpper market) of
        Some mic \<Rightarrow> mic
      | None \<Rightarrow>
          if length market = 4 \<and> ToUpper market = market then market
          else if 4 < length market then ToUpper (take 4 market)
          else ToUpper market)"

definition scraped_snapshot ::
  "(instant \<Rightarrow> 'ts) \<Rightarrow> string \<Rightarrow> string \<Rightarrow> instant \<Rightarrow> string \<Rightarrow> string \<Rightarrow> string \<Rightarrow> 'ts pb_LineItem list \<Rightarrow> 'ts pb_FundamentalsSnapshot" where
  "scraped_snapshot ts symbol market asof source runID producer lines =
     \<lparr>pf_Security = \<lparr>ps_Symbol = symbol, ps_Mic = normalizeMIC market\<rparr>, pf_Lines = lines, pf_Source = source, pf_AsOf = ts asof,
      pf_Meta = \<lparr>pm_RunId = runID, pm_Source = ''yfinance-go/scrape'', pm_Producer = producer,
        pm_SchemaVersion = ''ampy.fundamentals.v1:2.1.0''\<rparr>\<rparr>"

section \<open>Statements given line by line\<close>

record PeriodLine =
  sl_PeriodStart :: instant
  sl_PeriodEnd :: instant
  sl_Key :: string
  sl_Value :: scrape_Scaled
  sl_Currency :: string

record FinancialsDTO =
  sd_Symbol :: string
  sd_Market :: string
  sd_Lines :: "PeriodLine list"
  sd_AsOf :: instant

definition mapFinancialLine :: "(instant \<Rightarrow> 'ts) \<Rightarrow> PeriodLine \<Rightarrow> 'ts pb_LineItem go" where
  "mapFinancialLine ts line =
     go_bind (go_guard (ss_Scale (sl_Value line) < 0 \<or> 9 < ss_Scale (sl_Value line))
       (Errorf ''invalid scale %d, must be between 0 and 9'' [AInt (ss_Scale (sl_Value line))])) (\<lambda>_.
     go_bind (if sl_Currency line = [] then Ret []
              else if length (sl_Currency line) \<noteq> 3
              then Err (Errorf (''invalid currency code '' @ [CHR 0x27] @ ''%s'' @ [CHR 0x27] @ '', must be 3 characters'')
                          [AStr (sl_Currency line)])
              else Ret (ToUpper (sl_Currency line))) (\<lambda>currency.
     Ret \<lparr>pl_Key = normalizeFinancialKey (sl_Key line),
          pl_Value = \<lparr>pd_Scaled = ss_Scaled (sl_Value line), pd_Scale = wrap32 (ss_Scale (sl_Value line))\<rparr>,
          pl_CurrencyCode = currency, pl_PeriodStart = ts (sl_PeriodStart line), pl_PeriodEnd = ts (sl_PeriodEnd line)\<rparr>))"

fun map_lines :: "(instant \<Rightarrow> 'ts) \<Rightarrow> nat \<Rightarrow> PeriodLine list \<Rightarrow> 'ts pb_LineItem list go" where
  "map_lines ts i [] = Ret []"
| "map_lines ts i (l # ls) =
     go_bind (go_guard (sl_PeriodEnd l < sl_PeriodStart l)
       (Errorf ''line %d: period_start (%v) must be before period_end (%v)''
          [AInt (int i), ATime (sl_PeriodStart l), ATime (sl_PeriodEnd l)])) (\<lambda>_.
     go_bind (go_wrap ''failed to map line item %d (%s): %w'' [AInt (int i), AStr (sl_Key l)] (mapFinancialLine ts l)) (\<lambda>p.
     go_bind (map_lines ts (i + 1) ls) (\<lambda>ps. Ret (p # ps))))"

text \<open>
  The check of the periods: for each key, its lines sorted by exchanges, each ending before the next starts. \<open>as_time\<close> is
  \<^verbatim>\<open>AsTime\<close>, and \<open>order\<close> the order in which the map of the groups is iterated over.
\<close>

fun exchange_pass :: "('a \<Rightarrow> instant) \<Rightarrow> 'a \<Rightarrow> 'a list \<Rightarrow> 'a \<times> 'a list" where
  "exchange_pass f x [] = (x, [])"
| "exchange_pass f x (y # ys) =
     (if f y < f x then (let (p, r) = exchange_pass f y ys in (p, x # r))
      else (let (p, r) = exchange_pass f x ys in (p, y # r)))"

lemma length_exchange_pass: "length (snd (exchange_pass f x ys)) = length ys"
  by (induction f x ys rule: exchange_pass.induct) (simp_all add: case_prod_unfold Let_def)

function exchange_sort :: "('a \<Rightarrow> instant) \<Rightarrow> 'a list \<Rightarrow> 'a list" where
  "exchange_sort f [] = []"
| "exchange_sort f (x # xs) = fst (exchange_pass f x xs) # exchange_sort f (snd (exchange_pass f x xs))"
  by pat_completeness auto
termination by (relation "measure (\<lambda>(f, xs). length xs)") (simp_all add: length_exchange_pass)

fun check_overlaps :: "('ts \<Rightarrow> instant) \<Rightarrow> string \<Rightarrow> nat \<Rightarrow> 'ts pb_LineItem list \<Rightarrow> unit go" where
  "check_overlaps as_time key i (l # m # ls) =
     (if as_time (pl_PeriodStart m) < as_time (pl_PeriodEnd l)
      then Err (Errorf (''overlapping periods for key '' @ [CHR 0x27] @ ''%s'' @ [CHR 0x27] @ '': period %d ends %v, period %d starts %v'')
             [AStr key, AInt (int i), ATime (as_time (pl_PeriodEnd l)), AInt (int i + 1), ATime (as_time (pl_PeriodStart m))])
      else check_overlaps as_time key (i + 1) (m # ls))"
| "check_overlaps as_time key i _ = Ret ()"

fun check_groups :: "('ts \<Rightarrow> instant) \<Rightarrow> 'ts pb_LineItem list \<Rightarrow> string list \<Rightarrow> unit go" where
  "check_groups as_time lines [] = Ret ()"
| "check_groups as_time lines (key # order) =
     (let group = filter (\<lambda>l. pl_Key l = key) lines in
      if length group \<le> 1 then check_groups as_time lines order
      else go_bind (check_overlaps as_time key 0 (exchange_sort (\<lambda>l. as_time (pl_PeriodStart l)) group)) (\<lambda>_.
        check_groups as_time lines order))"

definition validateMonotonicPeriods :: "('ts \<Rightarrow> instant) \<Rightarrow> string list \<Rightarrow> 'ts pb_LineItem list \<Rightarrow> unit go" where
  "validateMonotonicPeriods as_time order lines =
     (if length lines \<le> 1 then Ret () else check_groups as_time lines order)"

text \<open>The outcome of that check is dropped.\<close>

definition MapFinancialsDTO ::
  "(instant \<Rightarrow> 'ts) \<Rightarrow> ('ts \<Rightarrow> instant) \<Rightarrow> string list \<Rightarrow> FinancialsDTO option \<Rightarrow> string \<Rightarrow> string \<Rightarrow> 'ts pb_FundamentalsSnapshot go" where
  "MapFinancialsDTO ts as_time order dto runID producer =
     (case dto of None \<Rightarrow> Err (Errorf ''FinancialsDTO cannot be nil'' [])
      | Some d \<Rightarrow>
          go_bind (map_lines ts 0 (sd_Lines d)) (\<lambda>lines.
          (case validateMonotonicPeriods as_time order lines of
             Panic p \<Rightarrow> Panic p
           | _ \<Rightarrow> Ret (scraped_snapshot ts (sd_Symbol d) (sd_Market d) (sd_AsOf d) ''yfinance/scrape/financials'' runID producer lines))))"

section \<open>Statements of a page\<close>

text \<open>The quarter and the day of a time.\<close>

definition quarter_start :: "instant \<Rightarrow> instant" where
  "quarter_start now = time_Date (time_Year now) ((time_Month now - 1) div 3 * 3 + 1) 1 0"

definition quarter_end :: "instant \<Rightarrow> instant" where
  "quarter_end now = AddDate (quarter_start now) 0 3 (- 1)"

definition day_start :: "instant \<Rightarrow> instant" where
  "day_start now = time_Date (time_Year now) (time_Month now) (time_Day now) 0"

definition current_rows :: "string \<Rightarrow> fin_Current \<Rightarrow> line_row list" where
  "current_rows cur c =
     [(''total_revenue'', cf_TotalRevenue c, cur),
      (''operating_income'', cf_OperatingIncome c, cur),
      (''net_income'', cf_NetIncomeCommonStockholders c, cur),
      (''eps_basic'', cf_BasicEPS c, cur),
      (''eps_diluted'', cf_DilutedEPS c, cur),
      (''total_assets'', cf_TotalAssets c, cur),
      (''shareholders_equity'', cf_CommonStockEquity c, cur),
      (''total_debt'', cf_TotalDebt c, cur),
      (''working_capital'', cf_WorkingCapital c, cur),
      (''tangible_book_value'', cf_TangibleBookValue c, cur),
      (''operating_cash_flow'', cf_OperatingCashFlow c, cur),
      (''investing_cash_flow'', cf_InvestingCashFlow c, cur),
      (''financing_cash_flow'', cf_FinancingCashFlow c, cur),
      (''free_cash_flow'', cf_FreeCashFlow c, cur),
      (''capital_expenditure'', cf_CapitalExpenditure c, cur),
      (''cost_of_revenue'', cf_CostOfRevenue c, cur),
      (''gross_profit'', cf_GrossProfit c, cur),
      (''ebitda'', cf_EBITDA c, cur),
      (''ebit'', cf_EBIT c, cur),
      (''shares_outstanding_basic'', share_value (cf_BasicAverageShares c), []),
      (''shares_outstanding_diluted'', share_value (cf_DilutedAverageShares c), [])]"

definition extractCurrentPeriodLines :: "(instant \<Rightarrow> 'ts) \<Rightarrow> ComprehensiveFinancialsDTO \<Rightarrow> 'ts pb_LineItem list" where
  "extractCurrentPeriodLines ts d =
     lines_of ts (quarter_start (fd_AsOf d)) (quarter_end (fd_AsOf d)) (current_rows (fd_Currency d) (fd_Current d))"

definition MapComprehensiveFinancialsDTO ::
  "(instant \<Rightarrow> 'ts) \<Rightarrow> ComprehensiveFinancialsDTO option \<Rightarrow> string \<Rightarrow> string \<Rightarrow> 'ts pb_FundamentalsSnapshot list go" where
  "MapComprehensiveFinancialsDTO ts dto runID producer =
     (case dto of None \<Rightarrow> Err (Errorf ''ComprehensiveFinancialsDTO cannot be nil'' [])
      | Some d \<Rightarrow>
          let lines = extractCurrentPeriodLines ts d in
          Ret (if 0 < length lines
               then [scraped_snapshot ts (fd_Symbol d) (fd_Market d) (fd_AsOf d) ''yfinance/scrape/comprehensive-financials'' runID producer lines]
               else []))"

definition balance_rows :: "string \<Rightarrow> fin_Current \<Rightarrow> line_row list" where
  "balance_rows cur c =
     [(''total_assets'', cf_TotalAssets c, cur),
      (''total_debt'', cf_TotalDebt c, cur),
      (''shareholders_equity'', cf_CommonStockEquity c, cur),
      (''working_capital'', cf_WorkingCapital c, cur),
      (''tangible_book_value'', cf_TangibleBookValue c, cur)]"

definition cash_rows :: "string \<Rightarrow> fin_Current \<Rightarrow> line_row list" where
  "cash_rows cur c =
     [(''operating_cash_flow'', cf_OperatingCashFlow c, cur),
      (''investing_cash_flow'', cf_InvestingCashFlow c, cur),
      (''financing_cash_flow'', cf_FinancingCashFlow c, cur),
      (''free_cash_flow'', cf_FreeCashFlow c, cur),
      (''capital_expenditure'', cf_CapitalExpenditure c, cur)]"

definition day_lines :: "(instant \<Rightarrow> 'ts) \<Rightarrow> instant \<Rightarrow> line_row list \<Rightarrow> 'ts pb_LineItem list" where
  "day_lines ts asof rows = lines_of ts (day_start asof) (day_start asof + 24 * hour) rows"

definition MapBalanceSheetDTO ::
  "(instant \<Rightarrow> 'ts) \<Rightarrow> ComprehensiveFinancialsDTO option \<Rightarrow> string \<Rightarrow> string \<Rightarrow> 'ts pb_FundamentalsSnapshot go" where
  "MapBalanceSheetDTO ts dto runID producer =
     (case dto of None \<Rightarrow> Err (Errorf ''ComprehensiveFinancialsDTO cannot be nil'' [])
      | Some d \<Rightarrow> Ret (scraped_snapshot ts (fd_Symbol d) (fd_Market d) (fd_AsOf d) ''yfinance/scrape/balance-sheet'' runID producer
          (day_lines ts (fd_AsOf d) (balance_rows (fd_Currency d) (fd_Current d)))))"

definition MapCashFlowDTO ::
  "(instant \<Rightarrow> 'ts) \<Rightarrow> ComprehensiveFinancialsDTO option \<Rightarrow> string \<Rightarrow> string \<Rightarrow> 'ts pb_FundamentalsSnapshot go" where
  "MapCashFlowDTO ts dto runID producer =
     (case dto of None \<Rightarrow> Err (Errorf ''ComprehensiveFinancialsDTO cannot be nil'' [])
      | Some d \<Rightarrow> Ret (scraped_snapshot ts (fd_Symbol d) (fd_Market d) (fd_AsOf d) ''yfinance/scrape/cash-flow'' runID producer
          (day_lines ts (fd_AsOf d) (cash_rows (fd_Currency d) (fd_Current d)))))"

section \<open>Statistics, estimates, price targets\<close>

definition statistics_rows :: "ComprehensiveKeyStatisticsDTO \<Rightarrow> line_row list" where
  "statistics_rows d =
     [(''market_cap'', kc_MarketCap (kd_Current d), kd_Currency d),
      (''enterprise_value'', kc_EnterpriseValue (kd_Current d), kd_Currency d),
      (''pe_ratio_trailing'', kc_TrailingPE (kd_Current d), []),
      (''pe_ratio_forward'', kc_ForwardPE (kd_Current d), []),
      (''peg_ratio'', kc_PEGRatio (kd_Current d), []),
      (''price_to_sales'', kc_PriceSales (kd_Current d), []),
      (''price_to_book'', kc_PriceBook (kd_Current d), []),
      (''ev_to_revenue'', kc_EnterpriseValueRevenue (kd_Current d), []),
      (''ev_to_ebitda'', kc_EnterpriseValueEBITDA (kd_Current d), []),
      (''beta'', ka_Beta (kd_Additional d), []),
      (''shares_outstanding'', share_value (ka_SharesOutstanding (kd_Additional d)), []),
      (''profit_margin'', ka_ProfitMargin (kd_Additional d), []),
      (''operating_margin'', ka_OperatingMargin (kd_Additional d), []),
      (''return_on_assets'', ka_ReturnOnAssets (kd_Additional d), []),
      (''return_on_equity'', ka_ReturnOnEquity (kd_Additional d), [])]"

definition MapKeyStatisticsDTO ::
  "(instant \<Rightarrow> 'ts) \<Rightarrow> ComprehensiveKeyStatisticsDTO option \<Rightarrow> string \<Rightarrow> string \<Rightarrow> 'ts pb_FundamentalsSnapshot go" where
  "MapKeyStatisticsDTO ts dto runID producer =
     (case dto of None \<Rightarrow> Err (Errorf ''ComprehensiveKeyStatisticsDTO cannot be nil'' [])
      | Some d \<Rightarrow> Ret (scraped_snapshot ts (kd_Symbol d) (kd_Market d) (kd_AsOf d) ''yfinance/scrape/key-statistics'' runID producer
          (day_lines ts (kd_AsOf d) (statistics_rows d))))"

definition growth_value :: "(string \<Rightarrow> f64 option) \<Rightarrow> (f64 \<Rightarrow> int) \<Rightarrow> string option \<Rightarrow> scrape_Scaled option" where
  "growth_value pf ovf g =
     (case g of Some s \<Rightarrow> if HasSuffix s ''%'' then hundredths ovf (ParseFloat pf (TrimSuffix s ''%'')) else None | None \<Rightarrow> None)"

definition estimate_lines :: "(f64 \<Rightarrow> int) \<Rightarrow> ComprehensiveAnalysisDTO \<Rightarrow> line_row list" where
  "estimate_lines ovf d =
     [(''eps_estimate_current_quarter'', ten_thousandths ovf (ee_AvgEstimate (an_CurrentQtr (ad_EarningsEstimate d))), an_Currency (ad_EarningsEstimate d)),
      (''eps_estimate_next_quarter'', ten_thousandths ovf (ee_AvgEstimate (an_NextQtr (ad_EarningsEstimate d))), an_Currency (ad_EarningsEstimate d)),
      (''eps_estimate_current_year'', ten_thousandths ovf (ee_AvgEstimate (an_CurrentYear (ad_EarningsEstimate d))), an_Currency (ad_EarningsEstimate d)),
      (''eps_estimate_next_year'', ten_thousandths ovf (ee_AvgEstimate (an_NextYear (ad_EarningsEstimate d))), an_Currency (ad_EarningsEstimate d)),
      (''analyst_count_current_quarter'', share_value (ee_NoOfAnalysts (an_CurrentQtr (ad_EarningsEstimate d))), []),
      (''eps_actual_recent'', ten_thousandths ovf (case hi_Data (ad_EarningsHistory d) of [] \<Rightarrow> None | recent # _ \<Rightarrow> he_EPSActual recent), hi_Currency (ad_EarningsHistory d))]"

definition trend_lines :: "(f64 \<Rightarrow> int) \<Rightarrow> ComprehensiveAnalysisDTO \<Rightarrow> line_row list" where
  "trend_lines ovf d =
     [(''eps_trend_current_quarter'', ten_thousandths ovf (et_CurrentEstimate (an_CurrentQtr (ad_EPSTrend d))), an_Currency (ad_EPSTrend d)),
      (''eps_trend_current_quarter_7d_ago'', ten_thousandths ovf (et_Days7Ago (an_CurrentQtr (ad_EPSTrend d))), an_Currency (ad_EPSTrend d)),
      (''eps_trend_current_quarter_30d_ago'', ten_thousandths ovf (et_Days30Ago (an_CurrentQtr (ad_EPSTrend d))), an_Currency (ad_EPSTrend d)),
      (''eps_trend_current_year'', ten_thousandths ovf (et_CurrentEstimate (an_CurrentYear (ad_EPSTrend d))), an_Currency (ad_EPSTrend d)),
      (''eps_trend_next_year'', ten_thousandths ovf (et_CurrentEstimate (an_NextYear (ad_EPSTrend d))), an_Currency (ad_EPSTrend d)),
      (''eps_revisions_up_7d_current_quarter'', share_value (er_UpLast7Days (an_CurrentQtr (ad_EPSRevisions d))), []),
      (''eps_revisions_down_7d_current_quarter'', share_value (er_DownLast7Days (an_CurrentQtr (ad_EPSRevisions d))), []),
      (''eps_revisions_up_30d_current_quarter'', share_value (er_UpLast30Days (an_CurrentQtr (ad_EPSRevisions d))), []),
      (''eps_revisions_down_30d_current_quarter'', share_value (er_DownLast30Days (an_CurrentQtr (ad_EPSRevisions d))), [])]"

definition outlook_lines :: "(string \<Rightarrow> f64 option) \<Rightarrow> (f64 \<Rightarrow> int) \<Rightarrow> ComprehensiveAnalysisDTO \<Rightarrow> line_row list" where
  "outlook_lines pf ovf d =
     [(''revenue_estimate_current_quarter'', Option.bind (rv_AvgEstimate (an_CurrentQtr (ad_RevenueEstimate d))) (parseRevenueEstimateString pf ovf), an_Currency (ad_RevenueEstimate d)),
      (''revenue_estimate_current_year'', Option.bind (rv_AvgEstimate (an_CurrentYear (ad_RevenueEstimate d))) (parseRevenueEstimateString pf ovf), an_Currency (ad_RevenueEstimate d)),
      (''growth_estimate_current_year'', growth_value pf ovf (ag_CurrentYear (ad_GrowthEstimate d)), [])]"

definition analysis_rows :: "(string \<Rightarrow> f64 option) \<Rightarrow> (f64 \<Rightarrow> int) \<Rightarrow> ComprehensiveAnalysisDTO \<Rightarrow> line_row list" where
  "analysis_rows pf ovf d = estimate_lines ovf d @ trend_lines ovf d @ outlook_lines pf ovf d"

lemmas analysis_tables = analysis_rows_def estimate_lines_def trend_lines_def outlook_lines_def

definition MapAnalysisDTO ::
  "(string \<Rightarrow> f64 option) \<Rightarrow> (f64 \<Rightarrow> int) \<Rightarrow> (instant \<Rightarrow> 'ts) \<Rightarrow> ComprehensiveAnalysisDTO option \<Rightarrow> string \<Rightarrow> string \<Rightarrow>
   'ts pb_FundamentalsSnapshot go" where
  "MapAnalysisDTO pf ovf ts dto runID producer =
     (case dto of None \<Rightarrow> Err (Errorf ''ComprehensiveAnalysisDTO cannot be nil'' [])
      | Some d \<Rightarrow> Ret (scraped_snapshot ts (ad_Symbol d) (ad_Market d) (ad_AsOf d) ''yfinance/scrape/analysis'' runID producer
          (day_lines ts (ad_AsOf d) (analysis_rows pf ovf d))))"

text \<open>The upside of the mean target over the current price, in hundredths of a percent.\<close>

definition upside_value :: "(f64 \<Rightarrow> int) \<Rightarrow> f64 option \<Rightarrow> f64 option \<Rightarrow> scrape_Scaled option" where
  "upside_value ovf current target =
     (case (current, target) of
        (Some c, Some t) \<Rightarrow> hundredths ovf (Some (f_mul (f_div (f_sub t c) c) (Fin 100)))
      | _ \<Rightarrow> None)"

definition insights_rows :: "(f64 \<Rightarrow> int) \<Rightarrow> AnalystInsightsDTO \<Rightarrow> line_row list" where
  "insights_rows ovf d =
     [(''current_price'', ten_thousandths ovf (ai_CurrentPrice d), ''USD''),
      (''target_price_mean'', ten_thousandths ovf (ai_TargetMeanPrice d), ''USD''),
      (''target_price_median'', ten_thousandths ovf (ai_TargetMedianPrice d), ''USD''),
      (''target_price_high'', ten_thousandths ovf (ai_TargetHighPrice d), ''USD''),
      (''target_price_low'', ten_thousandths ovf (ai_TargetLowPrice d), ''USD''),
      (''analyst_count'', share_value (ai_NumberOfAnalysts d), []),
      (''recommendation_score'', hundredths ovf (ai_RecommendationMean d), []),
      (''upside_potential_percent'', upside_value ovf (ai_CurrentPrice d) (ai_TargetMeanPrice d), [])]"

definition MapAnalystInsightsDTO ::
  "(f64 \<Rightarrow> int) \<Rightarrow> (instant \<Rightarrow> 'ts) \<Rightarrow> AnalystInsightsDTO option \<Rightarrow> string \<Rightarrow> string \<Rightarrow> 'ts pb_FundamentalsSnapshot go" where
  "MapAnalystInsightsDTO ovf ts dto runID producer =
     (case dto of None \<Rightarrow> Err (Errorf ''AnalystInsightsDTO cannot be nil'' [])
      | Some d \<Rightarrow> Ret (scraped_snapshot ts (ai_Symbol d) (ai_Market d) (ai_AsOf d) ''yfinance/scrape/analyst-insights'' runID producer
          (day_lines ts (ai_AsOf d) (insights_rows ovf d))))"

section \<open>The lines of a table\<close>

lemma lines_of_Nil [simp]: "lines_of ts ps pe [] = []"
  by (simp add: lines_of_def)

lemma lines_of_Cons:
  "lines_of ts ps pe ((k, v, c) # rows) =
     (case v of None \<Rightarrow> [] | Some x \<Rightarrow> opt_list (createLineItem ts k (Some x) c ps pe)) @ lines_of ts ps pe rows"
  by (simp add: lines_of_def split: option.splits)

lemma createLineItem_Some:
  "createLineItem ts k (Some v) c ps pe = Some l \<longleftrightarrow>
     0 \<le> ss_Scale v \<and> ss_Scale v \<le> 9 \<and>
     l = \<lparr>pl_Key = k, pl_Value = \<lparr>pd_Scaled = ss_Scaled v, pd_Scale = ss_Scale v\<rparr>,
          pl_CurrencyCode = (if length c \<noteq> 3 then [] else ToUpper c), pl_PeriodStart = ts ps, pl_PeriodEnd = ts pe\<rparr>"
  by (auto simp: createLineItem_def wrap32_id ToUpper_def)

lemma lines_of_keys: "subseq (map pl_Key (lines_of ts ps pe rows)) (map fst rows)"
proof (induction rows)
  case (Cons r rows)
  obtain k v c where r: "r = (k, v, c)" by (cases r)
  have "subseq (map pl_Key (case v of None \<Rightarrow> [] | Some x \<Rightarrow> opt_list (createLineItem ts k (Some x) c ps pe))) [k]"
    by (auto simp: opt_list_def createLineItem_Some split: option.splits)
  from list_emb_append_mono [OF this Cons] show ?case by (simp add: r lines_of_Cons)
qed simp

lemma lines_of_iff:
  "l \<in> set (lines_of ts ps pe rows) \<longleftrightarrow>
     (\<exists>k v c. (k, Some v, c) \<in> set rows \<and> createLineItem ts k (Some v) c ps pe = Some l)"
proof (induction rows)
  case (Cons r rows)
  obtain k v c where r: "r = (k, v, c)" by (cases r)
  have "l \<in> set (case v of None \<Rightarrow> [] | Some x \<Rightarrow> opt_list (createLineItem ts k (Some x) c ps pe)) \<longleftrightarrow>
      (\<exists>x. v = Some x \<and> createLineItem ts k (Some x) c ps pe = Some l)"
    by (cases v) (auto simp: opt_list_def split: option.splits)
  then show ?case using Cons by (auto simp: r lines_of_Cons)
qed simp

definition line_shape :: "'ts pb_LineItem \<Rightarrow> bool" where
  "line_shape l \<longleftrightarrow> 0 \<le> pd_Scale (pl_Value l) \<and> pd_Scale (pl_Value l) \<le> 9 \<and>
     (pl_CurrencyCode l = [] \<or> length (pl_CurrencyCode l) = 3 \<and> ToUpper (pl_CurrencyCode l) = pl_CurrencyCode l)"

lemma upper_char_idem [simp]: "upper_char (upper_char c) = upper_char c"
proof (cases "is_lower c")
  case True
  then have "code_of c \<le> 122" by (simp add: is_lower_def)
  then have "\<not> is_lower (char_of (code_of c - 32))" by (simp add: is_lower_def code_of_def)
  then show ?thesis by (simp add: upper_char_def True)
qed (simp add: upper_char_def)

lemma ToUpper_idem [simp]: "ToUpper (ToUpper s) = ToUpper s"
  by (simp add: ToUpper_def)

lemma lines_of_shape: "l \<in> set (lines_of ts ps pe rows) \<Longrightarrow> line_shape l"
  unfolding lines_of_iff createLineItem_Some by (elim exE conjE) (auto simp: line_shape_def ToUpper_def)

lemma distinct_rows:
  "distinct (map fst (current_rows cur c))" "distinct (map fst (balance_rows cur c))" "distinct (map fst (cash_rows cur c))"
  "distinct (map fst (statistics_rows k))" "distinct (map fst (analysis_rows pf ovf a))" "distinct (map fst (insights_rows ovf i))"
  by (simp_all add: current_rows_def balance_rows_def cash_rows_def statistics_rows_def analysis_tables insights_rows_def)

lemma subseq_distinct: "subseq xs ys \<Longrightarrow> distinct ys \<Longrightarrow> distinct xs"
  by (induction rule: list_emb.induct) (auto dest: list_emb_set)

lemma lines_of_distinct: "distinct (map fst rows) \<Longrightarrow> distinct (map pl_Key (lines_of ts ps pe rows))"
  using lines_of_keys by (rule subseq_distinct)

text \<open>
  The messages made of pages never repeat a key, and each line has a scale from 0 to 9 and a currency code that is empty or has
  three characters, none of them a lower-case letter: a code of three characters is only put into upper case, so digits pass.
\<close>

text \<open>
  C39: Every message that the mappers of statements, balance sheets, cash flows, statistics,
  analysis and insights build is well formed: the keys of its lines are distinct, every scale
  is between 0 and 9, every currency is empty or has three characters, none of them a lower-
  case letter (a code of three characters is only put into upper case, so digits pass), and
  the market code has at most four characters.
\<close>

theorem scraped_messages_well_formed:
  assumes "s \<in> set (case MapComprehensiveFinancialsDTO ts (Some f) runID producer of Ret ss \<Rightarrow> ss | _ \<Rightarrow> []) \<or>
    MapBalanceSheetDTO ts (Some f) runID producer = Ret s \<or> MapCashFlowDTO ts (Some f) runID producer = Ret s \<or>
    MapKeyStatisticsDTO ts (Some k) runID producer = Ret s \<or> MapAnalysisDTO pf ovf ts (Some a) runID producer = Ret s \<or>
    MapAnalystInsightsDTO ovf ts (Some i) runID producer = Ret s"
  shows "distinct (map pl_Key (pf_Lines s)) \<and> list_all line_shape (pf_Lines s) \<and>
    length (ps_Mic (pf_Security s)) \<le> 4"
proof -
  obtain symbol market asof source ps pe rows where
    s: "s = scraped_snapshot ts symbol market asof source runID producer (lines_of ts ps pe rows)" and d: "distinct (map fst rows)"
    using assms distinct_rows
    by (auto simp: MapComprehensiveFinancialsDTO_def extractCurrentPeriodLines_def MapBalanceSheetDTO_def MapCashFlowDTO_def
        MapKeyStatisticsDTO_def MapAnalysisDTO_def MapAnalystInsightsDTO_def day_lines_def Let_def split: if_splits)
  have "length (normalizeMIC market) \<le> 4"
    by (auto simp: normalizeMIC_def ToUpper_def mic_mappings_def split: if_splits option.splits dest!: map_of_SomeD)
  then show ?thesis using lines_of_distinct [OF d] lines_of_shape
    by (auto simp: s scraped_snapshot_def list_all_iff)
qed

lemma scraped_messages_well_formed_witness:
  "\<exists>s. MapBalanceSheetDTO id (Some (new_financials ''AAPL'' ''NASDAQ'' ''usd'' 0
       \<lparr>fd_Current := zero_Current\<lparr>cf_TotalAssets := Some \<lparr>ss_Scaled = 7, ss_Scale = 0\<rparr>\<rparr>\<rparr>)) ''run'' ''prod'' = Ret s \<and>
     length (pf_Lines s) = 1 \<and> distinct (map pl_Key (pf_Lines s)) \<and> list_all line_shape (pf_Lines s)"
proof -
  let ?f = "new_financials ''AAPL'' ''NASDAQ'' ''usd'' 0\<lparr>fd_Current := zero_Current\<lparr>cf_TotalAssets := Some \<lparr>ss_Scaled = 7, ss_Scale = 0\<rparr>\<rparr>\<rparr>"
  obtain s where s: "MapBalanceSheetDTO id (Some ?f) ''run'' ''prod'' = Ret s" by (simp add: MapBalanceSheetDTO_def)
  have "length (pf_Lines s) = 1"
    using s by (auto simp: MapBalanceSheetDTO_def day_lines_def balance_rows_def lines_of_def new_financials_def zero_Current_def
        createLineItem_def scraped_snapshot_def opt_list_def ToUpper_def)
  moreover have "distinct (map pl_Key (pf_Lines s)) \<and> list_all line_shape (pf_Lines s) \<and> length (ps_Mic (pf_Security s)) \<le> 4"
    by (rule scraped_messages_well_formed) (use s in blast)
  ultimately show ?thesis using s by blast
qed

section \<open>Periods\<close>

lemma day_start_eq: "day_start t = time_day t * day_ns"
  using time_Date_civil [of t 0] by (simp add: day_start_def)

lemma time_in_day: "time_day t * day_ns \<le> t" "t < (time_day t + 1) * day_ns"
proof -
  have "0 < day_ns" by (simp add: day_ns_def)
  from div_bounds [OF this, of t] show "time_day t * day_ns \<le> t" "t < (time_day t + 1) * day_ns"
    by (simp_all add: time_day_def algebra_simps)
qed

lemma date_to_day_month: "1 \<le> m \<Longrightarrow> m \<le> 12 \<Longrightarrow> date_to_day y m d = days_before_year y + days_before_month y m + (d - 1) - 719162"
  by (simp add: date_to_day_def)

lemma date_to_day_next_year: "date_to_day y 13 d = date_to_day (y + 1) 1 d"
  by (simp add: date_to_day_def)

text \<open>The first day of the month after the one of a day, if that is the last one of a quarter.\<close>

lemma quarter_days:
  fixes z :: int
  assumes y: "0 \<le> day_Year z"
  defines "q \<equiv> (day_Month z - 1) div 3 * 3 + 1"
  shows "date_to_day (day_Year z) q 1 \<le> z" "z < date_to_day (day_Year z) (q + 3) 1" "q \<in> {1, 4, 7, 10}"
proof -
  define m where "m = day_Month z"
  define Y where "Y = day_Year z"
  have m: "m \<in> {1, 2, 3, 4, 5, 6, 7, 8, 9, 10, 11, 12}"
    using day_Month_range [of z] unfolding m_def insert_iff empty_iff by presburger
  have q: "q \<in> {1, 4, 7, 10}" "q \<le> m" "m < q + 3" using m unfolding q_def m_def [symmetric] by auto
  have d: "1 \<le> day_Day z" "day_Day z \<le> int (days_in (nat m) (nat Y))"
    using day_of_month [OF y] by (simp_all add: m_def Y_def)
  have z: "z = days_before_year Y + days_before_month Y m + (day_Day z - 1) - 719162"
    using date_to_day_civil [of z 0] day_Month_range [of z] by (simp add: date_to_day_month m_def Y_def)
  define e where "e = (if q = 10 then 365 + (if leap_year Y then 1 else 0) else days_before_month Y (q + 3))"
  have "date_to_day Y q 1 = days_before_year Y + days_before_month Y q - 719162"
    using q by (auto simp: date_to_day_month)
  moreover have "days_before_month Y q \<le> days_before_month Y m"
    using q m by (auto simp: days_before_month_def month_offset_def)
  ultimately show "date_to_day (day_Year z) q 1 \<le> z" using z d(1) unfolding Y_def [symmetric] by linarith
  have "date_to_day Y (q + 3) 1 = days_before_year Y + e - 719162"
    using q(1) days_before_year_step [of "Y + 1"] date_to_day_month [of 1 "Y + 1" 1]
    by (auto simp: date_to_day_month date_to_day_next_year e_def days_before_month_def month_offset_def)
  moreover have "days_before_month Y m + int (days_in (nat m) (nat Y)) \<le> e"
  proof -
    have "(q, m) \<in> {(1, 1), (1, 2), (1, 3), (4, 4), (4, 5), (4, 6), (7, 7), (7, 8), (7, 9), (10, 10), (10, 11), (10, 12)}"
      using m unfolding q_def m_def [symmetric] by (elim insertE emptyE; simp)
    then show ?thesis using y unfolding Y_def [symmetric]
      by (cases "leap_year Y") (elim insertE emptyE; simp add: e_def days_before_month_def month_offset_def days_in_def)+
  qed
  ultimately show "z < date_to_day (day_Year z) (q + 3) 1" using z d(2) unfolding Y_def [symmetric] by linarith
  show "q \<in> {1, 4, 7, 10}" by (rule q)
qed

lemma quarter_end_eq:
  assumes "0 \<le> time_Year t"
  shows "quarter_end t = (date_to_day (time_Year t) ((time_Month t - 1) div 3 * 3 + 4) 1 - 1) * day_ns"
proof -
  define q where "q = (time_Month t - 1) div 3 * 3 + 1"
  define z where "z = date_to_day (time_Year t) q 1"
  have q: "q \<in> {1, 4, 7, 10}" using quarter_days(3) [of "time_day t"] assms by (simp add: q_def time_Year_def time_Month_def)
  have c: "day_Year z = time_Year t" "day_Month z = q" "day_Day z = 1"
    unfolding z_def by (rule civil_date [OF assms]; use q in \<open>auto simp: days_in_def\<close>)+
  have "quarter_start t = z * day_ns" by (simp add: quarter_start_def q_def z_def time_Date_def)
  moreover have "time_day (z * day_ns) = z" "z * day_ns mod day_ns = 0" by (simp_all add: time_day_def day_ns_def)
  ultimately have "quarter_end t = date_to_day (time_Year t) (q + 3) 0 * day_ns"
    by (simp add: quarter_end_def AddDate_def time_Date_def time_Year_def time_Month_def time_Day_def c
        [unfolded time_Year_def])
  moreover have "date_to_day y k 0 = date_to_day y k 1 - 1" for y k by (simp add: date_to_day_def Let_def)
  ultimately show ?thesis by (simp add: q_def add.assoc)
qed

text \<open>
  The day of key statistics, estimates and balance sheets holds the time of the page. The quarter of the statements starts
  before it, but ends at the midnight that begins the quarter's last day, so that a page read on that day lies after it.
\<close>

text \<open>
  The day and the quarter of a page contain the time of its fetch: the quarter ends
  within 24 hours after its recorded end, which is the beginning of its last day.
\<close>

theorem periods_around_page:
  assumes "0 \<le> time_Year t"
  shows "day_start t \<le> t \<and> t < day_start t + 24 * hour \<and> quarter_start t \<le> t \<and> t < quarter_end t + 24 * hour"
proof -
  let ?q = "(day_Month (time_day t) - 1) div 3 * 3 + 1"
  note q = quarter_days [of "time_day t"] 
  have y: "0 \<le> day_Year (time_day t)" using assms by (simp add: time_Year_def)
  have h: "24 * hour = day_ns" by (simp add: hour_def day_ns_def)
  have ns: "0 < day_ns" by (simp add: day_ns_def)
  have qs: "quarter_start t = date_to_day (time_Year t) ?q 1 * day_ns"
    by (simp add: quarter_start_def time_Date_def time_Month_def)
  have "date_to_day (time_Year t) ?q 1 * day_ns \<le> time_day t * day_ns"
    using q(1) [OF y] ns by (simp add: time_Year_def)
  then have "quarter_start t \<le> t" using time_in_day [of t] qs by linarith
  moreover have "t < quarter_end t + 24 * hour"
  proof -
    have "(time_day t + 1) * day_ns \<le> date_to_day (time_Year t) (?q + 3) 1 * day_ns"
      using q(2) [OF y] ns by (intro mult_right_mono) (simp_all add: time_Year_def)
    then show ?thesis using time_in_day [of t] quarter_end_eq [OF assms] h by (simp add: time_Month_def algebra_simps)
  qed
  ultimately show ?thesis using time_in_day [of t] unfolding h by (simp add: day_start_eq algebra_simps)
qed

lemma periods_around_page_witness:
  "day_start 0 \<le> 0 \<and> (0::int) < day_start 0 + 24 * hour \<and> quarter_start 0 \<le> 0 \<and> (0::int) < quarter_end 0 + 24 * hour"
  by (rule periods_around_page) (simp add: time_Year_def time_day_def day_Year_def days_before_year_def)

section \<open>From the page to the message\<close>

lemma in_lines_of:
  "(k, Some v, c) \<in> set rows \<Longrightarrow> 0 \<le> ss_Scale v \<Longrightarrow> ss_Scale v \<le> 9 \<Longrightarrow>
   \<lparr>pl_Key = k, pl_Value = \<lparr>pd_Scaled = ss_Scaled v, pd_Scale = ss_Scale v\<rparr>,
    pl_CurrencyCode = (if length c \<noteq> 3 then [] else ToUpper c), pl_PeriodStart = ts ps, pl_PeriodEnd = ts pe\<rparr>
   \<in> set (lines_of ts ps pe rows)"
  unfolding lines_of_iff createLineItem_Some by blast

lemma convertToScaled_int:
  assumes "ParseInt64 (replace_char CHR '','' [] t) = Some n"
  shows "convertToScaled t = Some \<lparr>ss_Scaled = wrap64 (n * 1000), ss_Scale = 0\<rparr>"
proof -
  have "ParseInt64 (replace_char CHR '','' [] []) = None" "ParseInt64 (replace_char CHR '','' [] ''--'') = None"
    by (simp_all add: ParseInt64_def replace_char_def split_sign_def is_digit_def code_of_def)
  then have "t \<noteq> []" "t \<noteq> ''--''" using assms by auto
  then show ?thesis using assms by (simp add: convertToScaled_def)
qed

lemma parsed_fields:
  assumes "ParseComprehensiveFinancials pf ovf re_find (Ret cfg) now html symbol market = Ret dto"
  obtains m currency where "extractFinancialDataFromHTML re_find cfg html = Ret m"
    "match_currency re_find (fx_Currency cfg) html = Ret currency" "fd_Currency dto = currency" "fd_AsOf dto = now"
    "fd_Symbol dto = symbol" "fd_Market dto = market"
    "cf_TotalRevenue (fd_Current dto) = pick m ''TTM_TotalRevenue'' convertToScaled None"
    "cf_GrossProfit (fd_Current dto) = None"
proof -
  obtain m where m: "extractFinancialDataFromHTML re_find cfg html = Ret m"
    and dto: "dto = populateDTOFromHTMLData pf ovf m (new_financials symbol market ''USD'' now)"
    using assms by (auto simp: ParseComprehensiveFinancials_def go_bind_eq_Ret)
  obtain currency where c: "match_currency re_find (fx_Currency cfg) html = Ret currency" "map_of m ''Currency'' = Some currency"
    using extract_rows [OF m] .
  show ?thesis
    by (rule that [OF m c(1)])
      (simp_all add: dto populateDTOFromHTMLData_def populate_current_def new_financials_def pick_def c zero_Current_def)
qed

lemma revenue_table_row: "(fxi_TotalRevenue (fx_IncomeStatement cfg), ''TTM_TotalRevenue'', ''2024_TotalRevenue'', True) \<in> set (financial_rows cfg)"
  by (simp add: financial_tables)

text \<open>
  A page whose revenue row reads \<open>t\<close>, an integer \<open>n\<close> with group commas, becomes one message, with the revenue \<open>1000 * n\<close> at
  scale 0 in the page's currency under the reporter's symbol; the figure is the trailing year's, and the line's period is the
  quarter of the fetch. No line is ever keyed \<^verbatim>\<open>gross_profit\<close>.
\<close>

text \<open>
  C13: From the page to the message: when the total revenue row of a page holds an integer of
  thousands, the snapshot that is emitted has a total_revenue line with exactly that amount,
  the currency of the page and the calendar quarter of the fetch as its period, although the
  figure is that of twelve months; a gross_profit line is never emitted.
\<close>

theorem revenue_from_page_to_message:
  assumes "ParseComprehensiveFinancials pf ovf re_find (Ret cfg) now html symbol market = Ret dto"
    "re_find (fxi_TotalRevenue (fx_IncomeStatement cfg)) html = Ret [w, t, t24]"
    "ParseInt64 (replace_char CHR '','' [] (clean_cell True t)) = Some n" "is_int64 (n * 1000)"
    "match_currency re_find (fx_Currency cfg) html = Ret currency" "length currency = 3"
  shows "\<exists>s. MapComprehensiveFinancialsDTO ts (Some dto) runID producer = Ret [s] \<and>
    pf_Security s = \<lparr>ps_Symbol = symbol, ps_Mic = normalizeMIC market\<rparr> \<and>
    \<lparr>pl_Key = ''total_revenue'', pl_Value = \<lparr>pd_Scaled = 1000 * n, pd_Scale = 0\<rparr>, pl_CurrencyCode = ToUpper currency,
     pl_PeriodStart = ts (quarter_start now), pl_PeriodEnd = ts (quarter_end now)\<rparr> \<in> set (pf_Lines s) \<and>
    (\<forall>l \<in> set (pf_Lines s). pl_Key l \<noteq> ''gross_profit'')"
proof -
  obtain m where m: "extractFinancialDataFromHTML re_find cfg html = Ret m"
    and f: "fd_Currency dto = currency" "fd_AsOf dto = now" "fd_Symbol dto = symbol" "fd_Market dto = market"
    "cf_TotalRevenue (fd_Current dto) = pick m ''TTM_TotalRevenue'' convertToScaled None"
    and g: "cf_GrossProfit (fd_Current dto) = None"
    using parsed_fields [OF assms(1)] assms(5) by (metis go.inject(1))
  have "cf_TotalRevenue (fd_Current dto) = Some \<lparr>ss_Scaled = 1000 * n, ss_Scale = 0\<rparr>"
    using extract_row(1) [OF m revenue_table_row assms(2)] convertToScaled_int [OF assms(3)] assms(4)
    by (simp add: f pick_def mult.commute)
  then have "(''total_revenue'', Some \<lparr>ss_Scaled = 1000 * n, ss_Scale = 0\<rparr>, currency) \<in> set (current_rows (fd_Currency dto) (fd_Current dto))"
    by (simp add: current_rows_def f)
  from in_lines_of [OF this, of ts "quarter_start now" "quarter_end now"]
  have l: "\<lparr>pl_Key = ''total_revenue'', pl_Value = \<lparr>pd_Scaled = 1000 * n, pd_Scale = 0\<rparr>, pl_CurrencyCode = ToUpper currency,
     pl_PeriodStart = ts (quarter_start now), pl_PeriodEnd = ts (quarter_end now)\<rparr> \<in> set (extractCurrentPeriodLines ts dto)"
    using assms(6) by (simp add: extractCurrentPeriodLines_def f)
  have "pl_Key l \<noteq> ''gross_profit''" if "l \<in> set (extractCurrentPeriodLines ts dto)" for l
    using that g unfolding extractCurrentPeriodLines_def lines_of_iff createLineItem_Some current_rows_def by auto
  then show ?thesis using l f
    by (auto simp: MapComprehensiveFinancialsDTO_def Let_def scraped_snapshot_def)
qed

lemma revenue_from_page_to_message_witness:
  "\<exists>dto s. ParseComprehensiveFinancials (\<lambda>_. None) (\<lambda>_. 0) sample_find (Ret sample_patterns) 5 ''page'' ''AAPL'' ''XNAS'' = Ret dto \<and>
    MapComprehensiveFinancialsDTO id (Some dto) ''run'' ''prod'' = Ret [s] \<and>
    (\<exists>l \<in> set (pf_Lines s). pl_Key l = ''total_revenue'' \<and> pl_Value l = \<lparr>pd_Scaled = 391035000, pd_Scale = 0\<rparr>)"
proof -
  obtain dto where dto: "ParseComprehensiveFinancials (\<lambda>_. None) (\<lambda>_. 0) sample_find (Ret sample_patterns) 5 ''page'' ''AAPL'' ''XNAS'' = Ret dto"
    using parse_sample by blast
  have n: "ParseInt64 (replace_char CHR '','' [] (clean_cell True ''391,035 '')) = Some 391035"
    by (simp add: clean_cell_def replace_char_def TrimSpace_def is_space_def code_of_def ParseInt64_def
      split_sign_def is_digit_def digit_of_def)
  have "\<exists>s. MapComprehensiveFinancialsDTO id (Some dto) ''run'' ''prod'' = Ret [s] \<and>
    pf_Security s = \<lparr>ps_Symbol = ''AAPL'', ps_Mic = normalizeMIC ''XNAS''\<rparr> \<and>
    \<lparr>pl_Key = ''total_revenue'', pl_Value = \<lparr>pd_Scaled = 1000 * 391035, pd_Scale = 0\<rparr>, pl_CurrencyCode = ToUpper ''EUR'',
     pl_PeriodStart = id (quarter_start 5), pl_PeriodEnd = id (quarter_end 5)\<rparr> \<in> set (pf_Lines s) \<and>
    (\<forall>l \<in> set (pf_Lines s). pl_Key l \<noteq> ''gross_profit'')"
    by (rule revenue_from_page_to_message [OF dto _ n])
      (simp_all add: sample_find_def sample_patterns_def match_currency_def is_int64_def)
  then show ?thesis using dto by force
qed

section \<open>Keys and markets\<close>

definition key_char :: "char \<Rightarrow> char" where
  "key_char c = (let l = lower_char c in if l \<in> {CHR '' '', CHR ''-'', CHR ''.''} then CHR ''_'' else l)"

lemma key_chars: "replace_char CHR ''.'' ''_'' (replace_char CHR ''-'' ''_'' (replace_char CHR '' '' ''_'' (ToLower key))) = map key_char key"
  by (induction key) (simp_all add: replace_char_def ToLower_def key_char_def Let_def)

lemma lower_char_idem [simp]: "lower_char (lower_char c) = lower_char c"
proof (cases "is_upper c")
  case True
  then have "65 \<le> code_of c" "code_of c \<le> 90" by (simp_all add: is_upper_def)
  then have "\<not> is_upper (char_of (code_of c + 32))" by (simp add: is_upper_def code_of_def)
  then show ?thesis by (simp add: lower_char_def True)
qed (simp add: lower_char_def)

lemma key_char_idem [simp]: "key_char (key_char c) = key_char c"
proof -
  have "lower_char CHR ''_'' = CHR ''_''" by (simp add: lower_char_def is_upper_def code_of_def)
  then show ?thesis by (simp add: key_char_def Let_def)
qed

lemma canonical_list: "list_all (\<lambda>(k, c). map_of key_mappings c = None \<and> map key_char c = c) key_mappings"
  by code_simp

lemma canonical_fixed: "(k, c) \<in> set key_mappings \<Longrightarrow> map_of key_mappings c = None \<and> map key_char c = c"
  using canonical_list by (auto simp: list_all_iff)

text \<open>Normalizing a key twice changes nothing, and no key that has a canonical name is ever the result.\<close>

theorem normalizeFinancialKey_idem:
  "normalizeFinancialKey (normalizeFinancialKey key) = normalizeFinancialKey key \<and>
   map_of key_mappings (normalizeFinancialKey key) = None"
proof (cases "map_of key_mappings (map key_char key)")
  case None
  then have "normalizeFinancialKey key = map key_char key" by (simp add: normalizeFinancialKey_def key_chars)
  then show ?thesis using None by (simp add: normalizeFinancialKey_def key_chars comp_def)
next
  case (Some c)
  then have "normalizeFinancialKey key = c" by (simp add: normalizeFinancialKey_def key_chars)
  then show ?thesis using canonical_fixed [OF map_of_SomeD [OF Some]] by (simp add: normalizeFinancialKey_def key_chars)
qed

text \<open>
  A market identifier code stays what it is, but a longer exchange name that is not in the table is cut to four letters, even
  one the security resolver knows: \<^verbatim>\<open>NasdaqGS\<close> is the code \<^verbatim>\<open>XNAS\<close> there, and \<^verbatim>\<open>NASD\<close> here.
\<close>

theorem normalizeMIC_codes:
  "length (normalizeMIC market) \<le> 4 \<and>
   (length market = 4 \<and> ToUpper market = market \<and> market \<notin> {''NYSE'', ''AMEX''} \<longrightarrow> normalizeMIC market = market) \<and>
   ExchangeToMIC ''NasdaqGS'' = Some ''XNAS'' \<and> normalizeMIC ''NasdaqGS'' = ''NASD''"
proof (intro conjI impI)
  show "length (normalizeMIC market) \<le> 4"
    by (auto simp: normalizeMIC_def ToUpper_def mic_mappings_def split: if_splits option.splits dest!: map_of_SomeD)
  show "ExchangeToMIC ''NasdaqGS'' = Some ''XNAS''" by (simp add: ExchangeToMIC_def mic_table_def)
  have "ToUpper ''NasdaqGS'' = ''NASDAQGS''" "ToUpper ''Nasd'' = ''NASD''" by code_simp+
  then show "normalizeMIC ''NasdaqGS'' = ''NASD''" by (simp add: normalizeMIC_def mic_mappings_def)
  assume m: "length market = 4 \<and> ToUpper market = market \<and> market \<notin> {''NYSE'', ''AMEX''}"
  then have "length market = 4" "market \<noteq> ''NYSE''" "market \<noteq> ''AMEX''" by auto
  moreover have "list_all (\<lambda>p. length (fst p) = 4 \<longrightarrow> fst p = ''NYSE'' \<or> fst p = ''AMEX'') mic_mappings"
    by (simp add: mic_mappings_def)
  ultimately have "map_of mic_mappings market = None"
    unfolding map_of_eq_None_iff list_all_iff by fastforce
  then show "normalizeMIC market = market" using m by (auto simp: normalizeMIC_def)
qed

lemma normalizeMIC_codes_witness: "normalizeMIC ''XNAS'' = ''XNAS''"
proof -
  have "ToUpper ''XNAS'' = ''XNAS''" by code_simp
  then show ?thesis using normalizeMIC_codes [of "''XNAS''"] by simp
qed

section \<open>Statements given line by line\<close>

definition good_line :: "PeriodLine \<Rightarrow> bool" where
  "good_line l \<longleftrightarrow> sl_PeriodStart l \<le> sl_PeriodEnd l \<and> 0 \<le> ss_Scale (sl_Value l) \<and> ss_Scale (sl_Value l) \<le> 9 \<and>
     (sl_Currency l = [] \<or> length (sl_Currency l) = 3)"

definition line_message :: "(instant \<Rightarrow> 'ts) \<Rightarrow> PeriodLine \<Rightarrow> 'ts pb_LineItem" where
  "line_message ts l =
     \<lparr>pl_Key = normalizeFinancialKey (sl_Key l),
      pl_Value = \<lparr>pd_Scaled = ss_Scaled (sl_Value l), pd_Scale = ss_Scale (sl_Value l)\<rparr>,
      pl_CurrencyCode = ToUpper (sl_Currency l), pl_PeriodStart = ts (sl_PeriodStart l), pl_PeriodEnd = ts (sl_PeriodEnd l)\<rparr>"

lemma map_lines_good: "list_all good_line ls \<Longrightarrow> map_lines ts i ls = Ret (map (line_message ts) ls)"
  by (induction ts i ls rule: map_lines.induct)
    (auto simp: good_line_def mapFinancialLine_def line_message_def wrap32_id ToUpper_def)

lemma mapFinancialLine_bad:
  "sl_PeriodStart l \<le> sl_PeriodEnd l \<Longrightarrow> \<not> good_line l \<Longrightarrow> \<exists>e. mapFinancialLine ts l = Err e"
  by (cases "ss_Scale (sl_Value l) < 0 \<or> 9 < ss_Scale (sl_Value l)") (auto simp: mapFinancialLine_def good_line_def)

lemma map_lines_bad: "\<not> list_all good_line ls \<Longrightarrow> \<exists>e. map_lines ts i ls = Err e"
proof (induction ts i ls rule: map_lines.induct)
  case (2 ts i l ls)
  show ?case
  proof (cases "good_line l")
    case True
    then have "\<exists>p. mapFinancialLine ts l = Ret p" by (auto simp: mapFinancialLine_def good_line_def)
    then obtain p where "mapFinancialLine ts l = Ret p" by blast
    then show ?thesis using 2 True by (auto simp: good_line_def)
  next
    case False
    then show ?thesis using mapFinancialLine_bad [of l ts]
      by (cases "sl_PeriodEnd l < sl_PeriodStart l") auto
  qed
qed simp

lemma check_overlaps_no_panic [simp]: "check_overlaps f key i ls \<noteq> Panic p"
  by (induction f key i ls rule: check_overlaps.induct) auto

lemma check_groups_no_panic: "check_groups f ls order \<noteq> Panic p"
  by (induction f ls order rule: check_groups.induct) (auto simp: Let_def go_bind_eq_Panic)

text \<open>
  A statement is mapped exactly if every line has its period in order, a scale from 0 to 9 and no currency or one of three
  characters; overlapping periods do not matter. The lines keep their order, values and periods.
\<close>

text \<open>
  MapFinancialsDTO succeeds exactly when every line has a period that does not end before
  it starts, a scale between 0 and 9 and a currency that is empty or three bytes long; the
  message then has one line per input line in order. Overlapping periods never make it fail.
\<close>

theorem MapFinancialsDTO_iff:
  "(list_all good_line (sd_Lines d) \<longrightarrow>
     MapFinancialsDTO ts as_time order (Some d) runID producer =
       Ret (scraped_snapshot ts (sd_Symbol d) (sd_Market d) (sd_AsOf d) ''yfinance/scrape/financials'' runID producer
         (map (line_message ts) (sd_Lines d)))) \<and>
   (\<not> list_all good_line (sd_Lines d) \<longrightarrow> (\<exists>e. MapFinancialsDTO ts as_time order (Some d) runID producer = Err e))"
proof (intro conjI impI)
  assume g: "list_all good_line (sd_Lines d)"
  have "validateMonotonicPeriods as_time order ls \<noteq> Panic p" for ls p
    by (simp add: validateMonotonicPeriods_def check_groups_no_panic)
  then show "MapFinancialsDTO ts as_time order (Some d) runID producer =
       Ret (scraped_snapshot ts (sd_Symbol d) (sd_Market d) (sd_AsOf d) ''yfinance/scrape/financials'' runID producer
         (map (line_message ts) (sd_Lines d)))"
    by (simp add: MapFinancialsDTO_def map_lines_good [OF g] split: go.split)
next
  assume "\<not> list_all good_line (sd_Lines d)"
  from map_lines_bad [OF this, of ts 0] show "\<exists>e. MapFinancialsDTO ts as_time order (Some d) runID producer = Err e"
    by (auto simp: MapFinancialsDTO_def)
qed

definition sample_statement :: FinancialsDTO where
  "sample_statement = \<lparr>sd_Symbol = ''AAPL'', sd_Market = ''XNAS'',
     sd_Lines = [\<lparr>sl_PeriodStart = 0, sl_PeriodEnd = 9, sl_Key = ''Net Earnings'', sl_Value = \<lparr>ss_Scaled = 7, ss_Scale = 0\<rparr>, sl_Currency = ''usd''\<rparr>],
     sd_AsOf = 9\<rparr>"

lemma MapFinancialsDTO_iff_witness:
  "\<exists>s. MapFinancialsDTO id id [] (Some sample_statement) ''run'' ''prod'' = Ret s \<and>
     map pl_Key (pf_Lines s) = [''net_income''] \<and> map pl_CurrencyCode (pf_Lines s) = [''USD'']"
proof -
  have "list_all good_line (sd_Lines sample_statement)" by (simp add: sample_statement_def good_line_def)
  then have "MapFinancialsDTO id id [] (Some sample_statement) ''run'' ''prod'' =
      Ret (scraped_snapshot id (sd_Symbol sample_statement) (sd_Market sample_statement) (sd_AsOf sample_statement)
        ''yfinance/scrape/financials'' ''run'' ''prod'' (map (line_message id) (sd_Lines sample_statement)))"
    using MapFinancialsDTO_iff [of sample_statement id id "[]" "''run''" "''prod''"] by blast
  moreover have "normalizeFinancialKey ''Net Earnings'' = ''net_income''" "ToUpper ''usd'' = ''USD''" by code_simp+
  ultimately show ?thesis by (simp add: scraped_snapshot_def sample_statement_def line_message_def)
qed

section \<open>Prices and the upside\<close>

text \<open>
  The upside divides by the current price without looking at it: for a page that gives 0, the line holds whatever the
  conversion of an infinity or of not-a-number is on the machine.
\<close>

theorem upside_of_zero_price:
  assumes "\<bar>x\<bar> \<le> 2 ^ 1023"
  shows "upside_value ovf (Some (Fin 0)) (Some (Fin x)) =
     Some \<lparr>ss_Scaled = ovf (if round_rat x = 0 then NaN else if 0 < round_rat x then PInf else NInf), ss_Scale = 2\<rparr>"
proof -
  have "f_sub (Fin x) (Fin 0) = Fin (round_rat x)" using fl_small [OF assms] by (simp add: f_sub_def)
  then show ?thesis by (simp add: upside_value_def hundredths_def inf_of_sign_def f_to_int64_def)
qed

lemma upside_of_zero_price_witness:
  "upside_value (\<lambda>f. if f = NaN then 5 else 6) (Some (Fin 0)) (Some (Fin 0)) = Some \<lparr>ss_Scaled = 5, ss_Scale = 2\<rparr>"
  using upside_of_zero_price [of 0 "\<lambda>f. if f = NaN then 5 else 6"] by simp

end
