(* ===== verification/ScrapeNews.thy ===== *)
theory ScrapeNews
  imports ScrapeFinancials ScrapeErrors "HOL-Library.Multiset"
begin

text \<open>
  News pages: \<^verbatim>\<open>internal/scrape/extract_news.go\<close>. The libraries the code calls are parameters, grouped in records: regular
  expressions (a malformed pattern panics), URLs, and the decoders of HTML entities and of JSON strings. \<open>srt\<close> is
  \<^verbatim>\<open>sort.Slice\<close>: it gives some permutation that is in order, not a particular one.
\<close>

section \<open>Model\<close>

record regexp_lib =
  rx_find :: "string \<Rightarrow> string \<Rightarrow> string list go"
  rx_all :: "string \<Rightarrow> string \<Rightarrow> string list list go"
  rx_replace :: "string \<Rightarrow> string \<Rightarrow> string \<Rightarrow> string go"  \<comment> \<open>pattern, text, replacement\<close>
  rx_split :: "string \<Rightarrow> string \<Rightarrow> string list go"
  rx_match :: "string \<Rightarrow> string \<Rightarrow> bool go"

record url =
  u_Scheme :: string
  u_Host :: string
  u_Path :: string
  u_RawQuery :: string
  u_Fragment :: string

record news_lib =
  nl_Regexp :: regexp_lib
  nl_ParseURL :: "string \<Rightarrow> url option"
  nl_StringURL :: "url \<Rightarrow> string"
  nl_Resolve :: "url \<Rightarrow> url \<Rightarrow> url"
  nl_UnescapeHTML :: "string \<Rightarrow> string"
  nl_UnquoteJSON :: "string \<Rightarrow> string option"

record NewsItem =
  ni_Title :: string
  ni_URL :: string
  ni_Source :: string
  ni_PublishedAt :: "instant option"
  ni_ImageURL :: string
  ni_RelatedTickers :: "string list"

record NewsStats =
  ns_TotalFound :: int
  ns_TotalReturned :: int
  ns_Deduped :: int
  ns_NextPageHint :: string
  ns_AsOf :: instant

record NewsRegexConfig =
  nx_ArticleContainer :: string
  nx_Title :: string
  nx_ArticleLink :: string
  nx_PublishingInfo :: string
  nx_ImageURL :: string
  nx_RelatedTickers :: string
  nx_NextPageHint :: string
  nx_Minutes :: string
  nx_Hours :: string
  nx_Days :: string
  nx_Weeks :: string
  nx_Yesterday :: string
  nx_UTMParams :: string
  nx_TrackingParams :: string

definition LoadNewsRegexConfig ::
  "string option \<Rightarrow> (string \<Rightarrow> string go) \<Rightarrow> (string \<Rightarrow> 'c \<times> goerror option) \<Rightarrow> 'c option \<Rightarrow> 'c option \<times> unit go" where
  "LoadNewsRegexConfig = load_patterns ''news '' ''news.yaml''"

definition extractStringFromContainer :: "regexp_lib \<Rightarrow> string \<Rightarrow> string \<Rightarrow> string go" where
  "extractStringFromContainer rx container pattern =
     (if pattern = [] then Ret []
      else go_bind (rx_find rx pattern container) (\<lambda>m. Ret (if 1 < length m then TrimSpace (m ! 1) else [])))"

definition extractFirstGroup :: "regexp_lib \<Rightarrow> string \<Rightarrow> string \<Rightarrow> string go" where
  "extractFirstGroup rx s pattern = go_bind (rx_find rx pattern s) (\<lambda>m. Ret (if 1 < length m then TrimSpace (m ! 1) else []))"

text \<open>A malformed pattern is an error here, not a panic: the pattern is compiled with \<^verbatim>\<open>regexp.Compile\<close>.\<close>

definition extractArticleContainers :: "regexp_lib \<Rightarrow> NewsRegexConfig \<Rightarrow> string \<Rightarrow> string list go" where
  "extractArticleContainers rx cfg html =
     (case rx_all rx (nx_ArticleContainer cfg) html of
        Ret matches \<Rightarrow> Ret (map (\<lambda>m. m ! 1) (filter (\<lambda>m. 1 < length m) matches))
      | Err e \<Rightarrow> Err (Wrapf ''invalid article container regex: %w'' [] e)
      | Panic p \<Rightarrow> Err (Wrapf ''invalid article container regex: %w'' [] (Errorf p [])))"

definition isValidTicker :: "string \<Rightarrow> bool" where
  "isValidTicker ticker \<longleftrightarrow>
     \<not> (length ticker = 0 \<or> 10 < length ticker) \<and>
     list_all (\<lambda>c. is_upper c \<or> is_digit c \<or> c = CHR ''.'' \<or> c = CHR ''-'') ticker"

text \<open>The loop both ticker readers share: upper case, valid, each once.\<close>

fun collect_tickers :: "string list \<Rightarrow> string list list \<Rightarrow> string list" where
  "collect_tickers seen [] = []"
| "collect_tickers seen (m # ms) =
     (if 1 < length m
      then let ticker = ToUpper (TrimSpace (m ! 1)) in
           if isValidTicker ticker \<and> ticker \<notin> set seen then ticker # collect_tickers (ticker # seen) ms
           else collect_tickers seen ms
      else collect_tickers seen ms)"

definition extractRelatedTickers :: "regexp_lib \<Rightarrow> NewsRegexConfig \<Rightarrow> string \<Rightarrow> string list go" where
  "extractRelatedTickers rx cfg container =
     (if nx_RelatedTickers cfg = [] then Ret []
      else go_bind (rx_all rx (nx_RelatedTickers cfg) container) (\<lambda>ms. Ret (collect_tickers [] ms)))"

definition ticker_pattern :: string where \<open>ticker_pattern = ''"symbol":"([^"]*)"''\<close>
definition title_pattern :: string where \<open>title_pattern = ''"title":"([^"]*)"''\<close>
definition url_pattern :: string where \<open>url_pattern = ''"canonicalUrl":'' @ [CHR 0x5C] @ ''{[^}]*"url":"([^"]*)"''\<close>
definition provider_pattern :: string where \<open>provider_pattern = ''"provider":'' @ [CHR 0x5C] @ ''{[^}]*"displayName":"([^"]*)"''\<close>
definition date_pattern :: string where \<open>date_pattern = ''"pubDate":"([^"]*)"''\<close>
definition image_pattern :: string where \<open>image_pattern = ''"originalUrl":"([^"]*)"''\<close>
definition stocks_pattern :: string where
  \<open>stocks_pattern = ''"stockTickers":'' @ [CHR 0x5C] @ ''[([^'' @ [CHR 0x5C] @ '']]*)'' @ [CHR 0x5C] @ '']''\<close>
definition story_pattern :: string where
  \<open>story_pattern = [CHR 0x5C] @ ''{"id":"[^"]*","content":'' @ [CHR 0x5C] @ ''{[^}]*"contentType":"STORY"[^}]*'' @ [CHR 0x5C] @ ''}''\<close>
definition script_pattern :: string where \<open>script_pattern = ''<script[^>]*>([^<]*tickerStream[^<]*)</script>''\<close>
definition body_pattern :: string where
  \<open>body_pattern = ''"body":"('' @ [CHR 0x5C] @ ''{.*?'' @ [CHR 0x5C] @ ''})"''\<close>
definition separator_pattern :: string where
  \<open>separator_pattern = [CHR 0x5C] @ ''s*['' @ [CHR 0xE2, CHR 0x80, CHR 0xA2, CHR 0xC2, CHR 0xB7] @ ''|]'' @ [CHR 0x5C] @ ''s*''\<close>

definition parseTickersFromJSON :: "regexp_lib \<Rightarrow> string \<Rightarrow> string list go" where
  "parseTickersFromJSON rx s = go_bind (rx_all rx ticker_pattern s) (\<lambda>ms. Ret (collect_tickers [] ms))"

definition cleanTrackingParams :: "regexp_lib \<Rightarrow> NewsRegexConfig \<Rightarrow> string \<Rightarrow> string go" where
  "cleanTrackingParams rx cfg u =
     go_bind (if nx_UTMParams cfg = [] then Ret u else rx_replace rx (nx_UTMParams cfg) u []) (\<lambda>u1.
     go_bind (if nx_TrackingParams cfg = [] then Ret u1 else rx_replace rx (nx_TrackingParams cfg) u1 []) (\<lambda>u2.
     go_bind (rx_replace rx ''[?&]+$'' u2 []) (\<lambda>u3.
     rx_replace rx ([CHR 0x5C] @ ''?&'') u3 ''?'')))"

definition normalizeURL :: "news_lib \<Rightarrow> NewsRegexConfig \<Rightarrow> string \<Rightarrow> string \<Rightarrow> string go" where
  "normalizeURL lib cfg articleURL baseURL =
     cleanTrackingParams (nl_Regexp lib) cfg
       (if HasPrefix articleURL ''http'' then articleURL
        else case (nl_ParseURL lib baseURL, nl_ParseURL lib articleURL) of
            (Some u, Some p) \<Rightarrow> nl_StringURL lib (nl_Resolve lib u p)
          | _ \<Rightarrow> articleURL)"

text \<open>\<^verbatim>\<open>now.Add(-time.Duration(n) * unit)\<close> for the number of a match; \<open>units\<close> are the factors from left to right.\<close>

definition ago :: "regexp_lib \<Rightarrow> string \<Rightarrow> int list \<Rightarrow> instant \<Rightarrow> string \<Rightarrow> instant option go" where
  "ago rx pattern units now t =
     go_bind (rx_find rx pattern t) (\<lambda>m.
       Ret (if 1 < length m
            then (case ParseInt64 (m ! 1) of
                Some n \<Rightarrow> Some (now + fold (\<lambda>u d. wrap64 (d * u)) units (wrap64 (- n)))
              | None \<Rightarrow> None)
            else None))"

definition or_else :: "'a option go \<Rightarrow> 'a option go \<Rightarrow> 'a option go" where
  "or_else a b = go_bind a (\<lambda>r. case r of Some x \<Rightarrow> Ret (Some x) | None \<Rightarrow> b)"

definition parseRelativeTime :: "regexp_lib \<Rightarrow> NewsRegexConfig \<Rightarrow> string \<Rightarrow> instant \<Rightarrow> instant option go" where
  "parseRelativeTime rx cfg timeStr now =
     (let t = ToLower (TrimSpace timeStr) in
      or_else (ago rx (nx_Minutes cfg) [minute] now t) (
      or_else (ago rx (nx_Hours cfg) [hour] now t) (
      or_else (ago rx (nx_Days cfg) [24, hour] now t) (
      or_else (ago rx (nx_Weeks cfg) [7, 24, hour] now t) (
      go_bind (rx_match rx (nx_Yesterday cfg) t) (\<lambda>yes.
        Ret (if yes
             then let y = now - 24 * hour in Some (time_Date (time_Year y) (time_Month y) (time_Day y) 0)
             else None)))))))"

fun publishing_loop ::
  "regexp_lib \<Rightarrow> NewsRegexConfig \<Rightarrow> instant \<Rightarrow> string list \<Rightarrow> string \<times> instant option \<Rightarrow> (string \<times> instant option) go" where
  "publishing_loop rx cfg now [] acc = Ret acc"
| "publishing_loop rx cfg now (p # ps) (source, pub) =
     (let part = TrimSpace p in
      if part = [] then publishing_loop rx cfg now ps (source, pub)
      else go_bind (parseRelativeTime rx cfg part now) (\<lambda>r.
        publishing_loop rx cfg now ps (case r of Some t \<Rightarrow> (source, Some t) | None \<Rightarrow> (part, pub))))"

definition parsePublishingInfo :: "regexp_lib \<Rightarrow> NewsRegexConfig \<Rightarrow> string \<Rightarrow> instant \<Rightarrow> (string \<times> instant option) go" where
  "parsePublishingInfo rx cfg info now =
     go_bind (rx_split rx separator_pattern info) (\<lambda>parts. publishing_loop rx cfg now parts ([], None))"

definition parseArticleFromContainer ::
  "news_lib \<Rightarrow> NewsRegexConfig \<Rightarrow> string \<Rightarrow> string \<Rightarrow> instant \<Rightarrow> NewsItem option go" where
  "parseArticleFromContainer lib cfg container baseURL now =
     (let rx = nl_Regexp lib in
      go_bind (extractStringFromContainer rx container (nx_Title cfg)) (\<lambda>title.
      if title = [] then Ret None
      else
        go_bind (extractStringFromContainer rx container (nx_ArticleLink cfg)) (\<lambda>articleURL.
        if articleURL = [] then Ret None
        else
          go_bind (normalizeURL lib cfg articleURL baseURL) (\<lambda>url.
          go_bind (extractStringFromContainer rx container (nx_PublishingInfo cfg)) (\<lambda>info.
          go_bind (if info = [] then Ret ([], None) else parsePublishingInfo rx cfg info now) (\<lambda>(source, pub).
          go_bind (extractStringFromContainer rx container (nx_ImageURL cfg)) (\<lambda>image.
          go_bind (extractRelatedTickers rx cfg container) (\<lambda>tickers.
          Ret (Some \<lparr>ni_Title = nl_UnescapeHTML lib (TrimSpace title), ni_URL = url, ni_Source = source, ni_PublishedAt = pub,
                ni_ImageURL = image, ni_RelatedTickers = tickers\<rparr>)))))))))"

definition extractNextPageHint :: "regexp_lib \<Rightarrow> NewsRegexConfig \<Rightarrow> string \<Rightarrow> string go" where
  "extractNextPageHint rx cfg html = extractStringFromContainer rx html (nx_NextPageHint cfg)"

section \<open>Duplicates\<close>

definition normalizeURLForDedup :: "news_lib \<Rightarrow> string \<Rightarrow> string" where
  "normalizeURLForDedup lib urlStr =
     (case nl_ParseURL lib urlStr of
        Some u \<Rightarrow> nl_StringURL lib (u\<lparr>u_Host := ToLower (u_Host u), u_RawQuery := [], u_Fragment := []\<rparr>)
      | None \<Rightarrow> ToLower urlStr)"

definition norm_text :: "string \<Rightarrow> string" where
  "norm_text s = ToLower (TrimSpace s)"

text \<open>The second test: same title and source, published within two minutes of each other or both undated.\<close>

definition similar_article :: "NewsItem \<Rightarrow> NewsItem \<Rightarrow> bool" where
  "similar_article article existing \<longleftrightarrow>
     norm_text (ni_Title article) = norm_text (ni_Title existing) \<and>
     norm_text (ni_Source article) = norm_text (ni_Source existing) \<and>
     (case (ni_PublishedAt article, ni_PublishedAt existing) of
        (Some a, Some e) \<Rightarrow> (let d = time_Sub a e in (if d < 0 then wrap64 (- d) else d) \<le> 2 * minute)
      | (None, None) \<Rightarrow> True
      | _ \<Rightarrow> False)"

fun dedup_loop :: "(string \<Rightarrow> string) \<Rightarrow> string list \<Rightarrow> NewsItem list \<Rightarrow> NewsItem list \<Rightarrow> NewsItem list" where
  "dedup_loop key seen result [] = result"
| "dedup_loop key seen result (a # as) =
     (if key (ni_URL a) \<in> set seen then dedup_loop key seen result as
      else if list_ex (similar_article a) result then dedup_loop key seen result as
      else dedup_loop key (key (ni_URL a) # seen) (result @ [a]) as)"

text \<open>\<^verbatim>\<open>less\<close> of the sort: newest first, undated articles last.\<close>

definition newer :: "NewsItem \<Rightarrow> NewsItem \<Rightarrow> bool" where
  "newer a b \<longleftrightarrow>
     (case (ni_PublishedAt a, ni_PublishedAt b) of (None, _) \<Rightarrow> False | (Some _, None) \<Rightarrow> True | (Some x, Some y) \<Rightarrow> y < x)"

definition deduplicateArticles ::
  "news_lib \<Rightarrow> ((NewsItem \<Rightarrow> NewsItem \<Rightarrow> bool) \<Rightarrow> NewsItem list \<Rightarrow> NewsItem list) \<Rightarrow> NewsItem list \<Rightarrow> NewsItem list" where
  "deduplicateArticles lib srt articles = srt newer (dedup_loop (normalizeURLForDedup lib) [] [] articles)"

section \<open>Articles of the page's embedded JSON\<close>

definition json_story :: "regexp_lib \<Rightarrow> string \<Rightarrow> NewsItem option go" where
  "json_story rx blk =
     go_bind (extractFirstGroup rx blk title_pattern) (\<lambda>title.
     go_bind (extractFirstGroup rx blk url_pattern) (\<lambda>url.
     go_bind (extractFirstGroup rx blk provider_pattern) (\<lambda>source.
     go_bind (extractFirstGroup rx blk date_pattern) (\<lambda>pub.
     go_bind (extractFirstGroup rx blk image_pattern) (\<lambda>img.
     go_bind (extractFirstGroup rx blk stocks_pattern) (\<lambda>tickRaw.
     if title = [] \<or> url = [] then Ret None
     else
       go_bind (if tickRaw = [] then Ret [] else parseTickersFromJSON rx tickRaw) (\<lambda>tickers.
       Ret (Some \<lparr>ni_Title = TrimSpace title, ni_URL = TrimSpace url, ni_Source = TrimSpace source,
             ni_PublishedAt = (if pub = [] then None else time_Parse layout_rfc3339 pub), ni_ImageURL = TrimSpace img,
             ni_RelatedTickers = tickers\<rparr>))))))))"

definition somes :: "'a option list \<Rightarrow> 'a list" where
  "somes xs = concat (map (\<lambda>x. case x of None \<Rightarrow> [] | Some y \<Rightarrow> [y]) xs)"

definition extractArticlesFromNewsJSON :: "regexp_lib \<Rightarrow> string \<Rightarrow> NewsItem list go" where
  "extractArticlesFromNewsJSON rx body =
     go_bind (rx_all rx story_pattern body) (\<lambda>blocks.
     go_bind (go_mapM (\<lambda>b. json_story rx (hd b)) blocks) (\<lambda>items. Ret (somes items)))"

text \<open>\<^verbatim>\<open>ReplaceAll\<close> of the two escapes, when the body is not a JSON string.\<close>

fun replace_pair :: "char \<Rightarrow> char \<Rightarrow> string \<Rightarrow> string \<Rightarrow> string" where
  "replace_pair a b r (x # y # s) = (if x = a \<and> y = b then r @ replace_pair a b r s else x # replace_pair a b r (y # s))"
| "replace_pair a b r s = s"

definition simple_unescape :: "string \<Rightarrow> string" where
  "simple_unescape raw = replace_pair (CHR 0x5C) (CHR 0x22) [CHR 0x22] (replace_pair (CHR 0x5C) (CHR 0x5C) [CHR 0x5C] raw)"

definition extractNewsFromJSON :: "news_lib \<Rightarrow> string \<Rightarrow> NewsItem list go" where
  "extractNewsFromJSON lib html =
     (let rx = nl_Regexp lib in
      go_bind (rx_find rx script_pattern html) (\<lambda>scripts.
      if length scripts < 2 then Err (Errorf ''no tickerStream script found'' [])
      else
        go_bind (rx_find rx body_pattern (scripts ! 1)) (\<lambda>bodies.
        if length bodies < 2 then Err (Errorf ''no body content found in script'' [])
        else extractArticlesFromNewsJSON rx
          (case nl_UnquoteJSON lib (bodies ! 1) of Some s \<Rightarrow> s | None \<Rightarrow> simple_unescape (bodies ! 1)))))"

text \<open>The sources and dates of the embedded JSON by title, for the articles of the page: later stories overwrite earlier ones.\<close>

definition story_meta :: "regexp_lib \<Rightarrow> string \<Rightarrow> (string \<times> string \<times> instant option) option go" where
  "story_meta rx blk =
     go_bind (extractFirstGroup rx blk title_pattern) (\<lambda>title.
     if title = [] then Ret None
     else
       go_bind (extractFirstGroup rx blk provider_pattern) (\<lambda>src.
       go_bind (extractFirstGroup rx blk date_pattern) (\<lambda>pub.
       Ret (Some (norm_text title, TrimSpace src, if pub = [] then None else time_Parse layout_rfc3339 pub)))))"

definition enrich_article :: "(string \<times> string \<times> instant option) list \<Rightarrow> NewsItem \<Rightarrow> NewsItem" where
  "enrich_article meta a =
     (case map_of meta (norm_text (ni_Title a)) of
        None \<Rightarrow> a
      | Some (src, t) \<Rightarrow>
          a\<lparr>ni_Source := (if ni_Source a = [] \<and> src \<noteq> [] then src else ni_Source a),
            ni_PublishedAt := (if ni_PublishedAt a = None \<and> t \<noteq> None then t else ni_PublishedAt a)\<rparr>)"

definition enrichArticlesWithJSONMeta :: "news_lib \<Rightarrow> string \<Rightarrow> NewsItem list \<Rightarrow> NewsItem list go" where
  "enrichArticlesWithJSONMeta lib html articles =
     (let rx = nl_Regexp lib in
      if articles = [] then Ret []
      else
        go_bind (rx_find rx script_pattern html) (\<lambda>scripts.
        if length scripts < 2 then Ret articles
        else
          go_bind (rx_find rx body_pattern (scripts ! 1)) (\<lambda>bodies.
          if length bodies < 2 then Ret articles
          else
            go_bind (rx_all rx story_pattern (case nl_UnquoteJSON lib (bodies ! 1) of Some s \<Rightarrow> s | None \<Rightarrow> bodies ! 1)) (\<lambda>blocks.
            go_bind (go_mapM (\<lambda>b. story_meta rx (hd b)) blocks) (\<lambda>metas.
            Ret (map (enrich_article (rev (somes metas))) articles))))))"

section \<open>The page\<close>

definition news_result ::
  "news_lib \<Rightarrow> ((NewsItem \<Rightarrow> NewsItem \<Rightarrow> bool) \<Rightarrow> NewsItem list \<Rightarrow> NewsItem list) \<Rightarrow> NewsRegexConfig option \<Rightarrow> string \<Rightarrow> instant \<Rightarrow>
   NewsItem list \<Rightarrow> (NewsItem list \<times> NewsStats) go" where
  "news_result lib srt st html now articles =
     (let unique = deduplicateArticles lib srt articles;
          kept = (if 25 < length unique then take 25 unique else unique)
      in go_bind (case st of Some cfg \<Rightarrow> extractNextPageHint (nl_Regexp lib) cfg html
                  | None \<Rightarrow> Panic ''nil pointer dereference'') (\<lambda>hint.
         Ret (kept, \<lparr>ns_TotalFound = int (length articles), ns_TotalReturned = int (length kept),
                ns_Deduped = int (length articles) - int (length unique), ns_NextPageHint = hint, ns_AsOf = now\<rparr>)))"


text \<open>\<open>load\<close> is the load of the patterns, from the package variable to its new value and the error.\<close>

definition parseNewsFromHTML ::
  "news_lib \<Rightarrow> ((NewsItem \<Rightarrow> NewsItem \<Rightarrow> bool) \<Rightarrow> NewsItem list \<Rightarrow> NewsItem list) \<Rightarrow>
   (NewsRegexConfig option \<Rightarrow> NewsRegexConfig option \<times> unit go) \<Rightarrow> NewsRegexConfig option \<Rightarrow> string \<Rightarrow> string \<Rightarrow> instant \<Rightarrow>
   NewsRegexConfig option \<times> (NewsItem list \<times> NewsStats) go" where
  "parseNewsFromHTML lib srt load st html baseURL now =
     (let (st', r) = load st in
      (st',
       go_bind (go_wrap ''failed to load news regex config: %w'' [] r) (\<lambda>_.
       case st' of None \<Rightarrow> Panic ''nil pointer dereference''
       | Some cfg \<Rightarrow>
           (case extractArticleContainers (nl_Regexp lib) cfg html of
              Err e \<Rightarrow> Err (Wrapf ''%w: %v'' [] ErrNewsParse)
            | Panic p \<Rightarrow> Panic p
            | Ret containers \<Rightarrow>
                if containers = [] then Err ErrNewsNoArticles
                else
                  go_bind (go_mapM (\<lambda>c. parseArticleFromContainer lib cfg c baseURL now) containers) (\<lambda>items.
                  go_bind (enrichArticlesWithJSONMeta lib html (somes items)) (\<lambda>articles.
                  if articles = [] then Err ErrNewsNoArticles
                  else news_result lib srt st' html now articles))))))"

definition ParseNews ::
  "news_lib \<Rightarrow> ((NewsItem \<Rightarrow> NewsItem \<Rightarrow> bool) \<Rightarrow> NewsItem list \<Rightarrow> NewsItem list) \<Rightarrow>
   (NewsRegexConfig option \<Rightarrow> NewsRegexConfig option \<times> unit go) \<Rightarrow> NewsRegexConfig option \<Rightarrow> string \<Rightarrow> string \<Rightarrow> instant \<Rightarrow>
   NewsRegexConfig option \<times> (NewsItem list \<times> NewsStats) go" where
  "ParseNews lib srt load st html baseURL now =
     (case extractNewsFromJSON lib html of
        Panic p \<Rightarrow> (st, Panic p)
      | Err e \<Rightarrow> parseNewsFromHTML lib srt load st html baseURL now
      | Ret articles \<Rightarrow>
          if articles \<noteq> [] then (st, news_result lib srt st html now articles)
          else parseNewsFromHTML lib srt load st html baseURL now)"

section \<open>What duplicates removal keeps\<close>

lemma dedup_loop_prefix: "\<exists>ks. dedup_loop key seen result as = result @ ks \<and> subseq ks as"
proof (induction key seen result as rule: dedup_loop.induct)
  case (2 key seen result a as)
  then show ?case by (auto split: if_splits intro: list_emb_Cons)
qed simp

lemma dedup_loop_kept: "x \<in> set result \<Longrightarrow> x \<in> set (dedup_loop key seen result as)"
  using dedup_loop_prefix [of key seen result as] by auto

lemma dedup_loop_distinct:
  "set seen = (\<lambda>a. key (ni_URL a)) ` set result \<Longrightarrow> distinct (map (\<lambda>a. key (ni_URL a)) result) \<Longrightarrow>
   distinct (map (\<lambda>a. key (ni_URL a)) (dedup_loop key seen result as))"
  by (induction key seen result as rule: dedup_loop.induct) auto

lemma dedup_loop_dissimilar:
  "sorted_wrt (\<lambda>e a. \<not> similar_article a e) result \<Longrightarrow>
   sorted_wrt (\<lambda>e a. \<not> similar_article a e) (dedup_loop key seen result as)"
  by (induction key seen result as rule: dedup_loop.induct) (auto simp: sorted_wrt_append list_ex_iff)

lemma dedup_loop_covers:
  "set seen = (\<lambda>a. key (ni_URL a)) ` set result \<Longrightarrow> a \<in> set as \<Longrightarrow>
   \<exists>b \<in> set (dedup_loop key seen result as). key (ni_URL b) = key (ni_URL a) \<or> similar_article a b"
proof (induction key seen result as rule: dedup_loop.induct)
  case (2 key seen result x as)
  show ?case
  proof (cases "a = x")
    case True
    consider "key (ni_URL x) \<in> set seen" | "\<not> key (ni_URL x) \<in> set seen" "list_ex (similar_article x) result"
      | "\<not> key (ni_URL x) \<in> set seen" "\<not> list_ex (similar_article x) result" by blast
    then show ?thesis
    proof cases
      case 1
      then obtain b where "b \<in> set result" "key (ni_URL b) = key (ni_URL x)" using "2.prems"(1) by auto
      then show ?thesis using 1 dedup_loop_kept [of b result key seen "x # as"] True by auto
    next
      case 2
      then obtain b where "b \<in> set result" "similar_article x b" by (auto simp: list_ex_iff)
      then show ?thesis using 2 dedup_loop_kept [of b result key seen "x # as"] True by auto
    next
      case 3
      then show ?thesis using dedup_loop_kept [of x "result @ [x]" key "key (ni_URL x) # seen" as] True by auto
    qed
  next
    case False
    then have "a \<in> set as" using "2.prems"(2) by simp
    then show ?thesis using "2.IH" "2.prems"(1) by (auto split: if_splits)
  qed
qed simp

text \<open>
  No two articles kept have the same URL key, and none is similar to one that was kept before it; every article found has one
  kept with its key or similar to it; nothing is made up; the newest come first and the undated last.
\<close>

text \<open>
  Removing duplicates keeps a part of the articles in which no two have the same
  normalized link and none is similar to an earlier one; every article dropped is the
  duplicate of a kept one; and the result is sorted with the newest first and the undated
  last.
\<close>

theorem deduplicateArticles_spec:
  assumes "\<And>xs. mset (srt newer xs) = mset xs" "\<And>xs. sorted_wrt (\<lambda>x y. \<not> newer y x) (srt newer xs)"
  shows "let r = deduplicateArticles lib srt articles; key = \<lambda>a. normalizeURLForDedup lib (ni_URL a) in
    distinct (map key r) \<and> set r \<subseteq> set articles \<and>
    (\<exists>q. mset q = mset r \<and> subseq q articles \<and> sorted_wrt (\<lambda>e a. \<not> similar_article a e) q) \<and>
    (\<forall>a \<in> set articles. \<exists>b \<in> set r. key b = key a \<or> similar_article a b) \<and>
    sorted_wrt (\<lambda>x y. \<not> newer y x) r"
proof -
  define key where "key = normalizeURLForDedup lib"
  define q where "q = dedup_loop key [] [] articles"
  define r where "r = deduplicateArticles lib srt articles"
  have r: "r = srt newer q" by (simp add: r_def q_def key_def deduplicateArticles_def)
  have m: "mset r = mset q" using assms(1) by (simp add: r)
  have q: "subseq q articles" using dedup_loop_prefix [of key "[]" "[]" articles] by (auto simp: q_def)
  have "distinct (map (\<lambda>a. key (ni_URL a)) q)" unfolding q_def by (rule dedup_loop_distinct) simp_all
  then have d: "distinct (map (\<lambda>a. key (ni_URL a)) r)"
    using m by (metis mset_map mset_eq_imp_distinct_iff)
  have s: "set r = set q" using m by (rule mset_eq_setD)
  have "\<forall>a \<in> set articles. \<exists>b \<in> set r. key (ni_URL b) = key (ni_URL a) \<or> similar_article a b"
    unfolding s q_def by (intro ballI dedup_loop_covers) simp_all
  moreover have "sorted_wrt (\<lambda>e a. \<not> similar_article a e) q" unfolding q_def by (rule dedup_loop_dissimilar) simp
  moreover have "set r \<subseteq> set articles" using q unfolding s by (auto dest: list_emb_set)
  ultimately show ?thesis unfolding Let_def r_def [symmetric] key_def [symmetric]
    using d q m assms(2) [of q] r by metis
qed

definition echo_lib :: news_lib where
  "echo_lib =
     \<lparr>nl_Regexp = \<lparr>rx_find = \<lambda>p t. Ret [p, ''a''], rx_all = \<lambda>p t. Ret [[t]], rx_replace = \<lambda>p t r. Ret t, rx_split = \<lambda>p t. Ret [t],
        rx_match = \<lambda>p t. Ret False\<rparr>,
      nl_ParseURL = \<lambda>s. None, nl_StringURL = u_Path, nl_Resolve = \<lambda>u v. v, nl_UnescapeHTML = id, nl_UnquoteJSON = Some\<rparr>"

definition dated :: "string \<Rightarrow> instant option \<Rightarrow> NewsItem" where
  "dated u t = \<lparr>ni_Title = ''T'', ni_URL = u, ni_Source = [], ni_PublishedAt = t, ni_ImageURL = [], ni_RelatedTickers = []\<rparr>"

text \<open>An insertion sort, as \<^verbatim>\<open>sort.Slice\<close> does for short slices.\<close>

fun insert_before :: "('a \<Rightarrow> 'a \<Rightarrow> bool) \<Rightarrow> 'a \<Rightarrow> 'a list \<Rightarrow> 'a list" where
  "insert_before lt x [] = [x]"
| "insert_before lt x (y # ys) = (if lt y x then y # insert_before lt x ys else x # y # ys)"

definition insertion :: "('a \<Rightarrow> 'a \<Rightarrow> bool) \<Rightarrow> 'a list \<Rightarrow> 'a list" where
  "insertion lt xs = foldr (insert_before lt) xs []"

lemma set_insert_before: "mset (insert_before lt x ys) = add_mset x (mset ys)"
  by (induction ys) simp_all

lemma mset_insertion: "mset (insertion lt xs) = mset xs"
  by (induction xs) (simp_all add: insertion_def set_insert_before)

lemma newer_trans: "\<not> newer y x \<Longrightarrow> \<not> newer z y \<Longrightarrow> \<not> newer z x"
  by (auto simp: newer_def split: option.splits)

lemma newer_asym: "newer y x \<Longrightarrow> \<not> newer x y"
  by (auto simp: newer_def split: option.splits)

lemma sorted_insert_before:
  "sorted_wrt (\<lambda>x y. \<not> newer y x) ys \<Longrightarrow> sorted_wrt (\<lambda>x y. \<not> newer y x) (insert_before newer x ys)"
proof (induction ys)
  case (Cons y ys)
  have set: "set (insert_before newer x ys) = insert x (set ys)"
    using set_insert_before [of newer x ys] by (metis set_mset_mset set_mset_add_mset_insert)
  show ?case using Cons by (auto simp: set dest: newer_asym newer_trans)
qed simp

lemma sorted_insertion: "sorted_wrt (\<lambda>x y. \<not> newer y x) (insertion newer xs)"
  by (induction xs) (simp_all add: insertion_def sorted_insert_before)

lemma deduplicateArticles_spec_witness:
  "let r = deduplicateArticles echo_lib insertion [dated ''u'' None, dated ''v'' (Some 7), dated ''V'' None];
       key = \<lambda>a. normalizeURLForDedup echo_lib (ni_URL a) in
    distinct (map key r) \<and> set r \<subseteq> {dated ''u'' None, dated ''v'' (Some 7), dated ''V'' None} \<and>
    (\<exists>q. mset q = mset r \<and> subseq q [dated ''u'' None, dated ''v'' (Some 7), dated ''V'' None] \<and>
       sorted_wrt (\<lambda>e a. \<not> similar_article a e) q) \<and>
    (\<forall>a \<in> {dated ''u'' None, dated ''v'' (Some 7), dated ''V'' None}. \<exists>b \<in> set r. key b = key a \<or> similar_article a b) \<and>
    sorted_wrt (\<lambda>x y. \<not> newer y x) r"
  using deduplicateArticles_spec [of insertion echo_lib "[dated ''u'' None, dated ''v'' (Some 7), dated ''V'' None]",
      OF mset_insertion sorted_insertion] by simp

section \<open>The page's result\<close>

lemma deduplicateArticles_length:
  assumes "\<And>xs. mset (srt newer xs) = mset xs"
  shows "length (deduplicateArticles lib srt articles) \<le> length articles"
proof -
  have "length (deduplicateArticles lib srt articles) = length (dedup_loop (normalizeURLForDedup lib) [] [] articles)"
    unfolding deduplicateArticles_def using assms by (metis size_mset)
  then show ?thesis using dedup_loop_prefix [of "normalizeURLForDedup lib" "[]" "[]" articles] by (auto dest: list_emb_length)
qed

text \<open>
  A page read from its embedded JSON before any pattern file was loaded panics: the hint for the next page is looked up in
  patterns that are not there. Once they are, the page gives at most 25 articles, and the statistics count them.
\<close>

text \<open>
  When the embedded JSON of a page holds articles, ParseNews panics with a nil
  dereference if no patterns were loaded before, because only the HTML fallback loads them;
  with patterns it returns at most 25 articles and its statistics count what was found,
  dropped and returned.
\<close>

theorem ParseNews_json:
  assumes "extractNewsFromJSON lib html = Ret articles" "articles \<noteq> []" "\<And>xs. mset (srt newer xs) = mset xs"
  shows "ParseNews lib srt load None html baseURL now = (None, Panic ''nil pointer dereference'') \<and>
    (\<forall>cfg items stats. snd (ParseNews lib srt load (Some cfg) html baseURL now) = Ret (items, stats) \<longrightarrow>
       length items \<le> 25 \<and> ns_TotalReturned stats = int (length items) \<and> ns_TotalFound stats = int (length articles) \<and>
       0 \<le> ns_Deduped stats \<and> ns_TotalReturned stats \<le> ns_TotalFound stats - ns_Deduped stats)"
  using deduplicateArticles_length [of srt lib articles, OF assms(3)] assms(1,2)
  by (auto simp: ParseNews_def news_result_def Let_def go_bind_eq_Ret)

lemma echo_page: "extractNewsFromJSON echo_lib ''page'' = Ret [\<lparr>ni_Title = ''a'', ni_URL = ''a'', ni_Source = ''a'', ni_PublishedAt = None,
    ni_ImageURL = ''a'', ni_RelatedTickers = []\<rparr>]"
proof -
  have "TrimSpace ''a'' = ''a''" by (simp add: TrimSpace_def is_space_def code_of_def)
  moreover have "time_Parse layout_rfc3339 ''a'' = None"
    by (simp add: time_Parse_def layout_rfc3339_def layout_date_def)
  ultimately show ?thesis
    by (simp add: extractNewsFromJSON_def extractArticlesFromNewsJSON_def json_story_def extractFirstGroup_def
        parseTickersFromJSON_def echo_lib_def somes_def Let_def)
qed

lemma ParseNews_json_witness:
  "ParseNews echo_lib insertion (\<lambda>st. (st, Ret ())) None ''page'' [] 5 = (None, Panic ''nil pointer dereference'')"
  using ParseNews_json [OF echo_page, of insertion "\<lambda>st. (st, Ret ())" "[]" 5] mset_insertion by blast

section \<open>Times and tickers\<close>

lemma or_else_Some: "or_else a b = Ret (Some x) \<longleftrightarrow> a = Ret (Some x) \<or> a = Ret None \<and> b = Ret (Some x)"
  by (auto simp: or_else_def go_bind_eq_Ret split: option.splits)

lemma ago_past:
  assumes "ago rx p units now t = Ret (Some r)"
    "\<And>m. rx_find rx p t = Ret m \<Longrightarrow> 1 < length m \<Longrightarrow> \<exists>n. ParseInt64 (m ! 1) = Some n \<and> 0 \<le> n \<and> n \<le> 15250"
    "units \<in> {[minute], [hour], [24, hour], [7, 24, hour]}"
  shows "r \<le> now"
proof -
  obtain m n where m: "rx_find rx p t = Ret m" "1 < length m" "ParseInt64 (m ! 1) = Some n"
    and r: "r = now + fold (\<lambda>u d. wrap64 (d * u)) units (wrap64 (- n))"
    using assms(1) by (auto simp: ago_def go_bind_eq_Ret split: if_splits option.splits)
  then have n: "0 \<le> n" "n \<le> 15250" using assms(2) [OF m(1,2)] by auto
  have "fold (\<lambda>u d. wrap64 (d * u)) units (wrap64 (- n)) \<le> 0"
    using assms(3) n by (auto simp: minute_def hour_def is_int64_def)
  then show ?thesis using r by simp
qed

text \<open>A relative time, with a number of at most 15250, is never in the future.\<close>

theorem parseRelativeTime_past:
  assumes "parseRelativeTime rx cfg s now = Ret (Some t)"
    "\<And>p m. rx_find rx p (ToLower (TrimSpace s)) = Ret m \<Longrightarrow> 1 < length m \<Longrightarrow>
       \<exists>n. ParseInt64 (m ! 1) = Some n \<and> 0 \<le> n \<and> n \<le> 15250"
  shows "t \<le> now"
proof -
  define u where "u = ToLower (TrimSpace s)"
  define y where "y = now - 24 * hour"
  have "time_Date (time_Year y) (time_Month y) (time_Day y) 0 = time_day y * day_ns"
    using time_Date_civil [of y 0] by simp
  also have "\<dots> \<le> y" using div_bounds [of day_ns y] by (simp add: time_day_def day_ns_def mult.commute)
  also have "\<dots> \<le> now" by (simp add: y_def hour_def)
  finally have yest: "time_Date (time_Year y) (time_Month y) (time_Day y) 0 \<le> now" .
  have past: "r \<le> now" if "ago rx p units now u = Ret (Some r)" "units \<in> {[minute], [hour], [24, hour], [7, 24, hour]}"
    for p units r using ago_past [OF that(1) _ that(2)] assms(2) unfolding u_def [symmetric] by blast
  have "ago rx (nx_Minutes cfg) [minute] now u = Ret (Some t) \<or> ago rx (nx_Hours cfg) [hour] now u = Ret (Some t) \<or>
    ago rx (nx_Days cfg) [24, hour] now u = Ret (Some t) \<or> ago rx (nx_Weeks cfg) [7, 24, hour] now u = Ret (Some t) \<or>
    t = time_Date (time_Year y) (time_Month y) (time_Day y) 0"
    using assms(1) unfolding parseRelativeTime_def Let_def or_else_Some u_def [symmetric] y_def [symmetric]
    by (simp add: go_bind_eq_Ret split: if_splits) metis
  then show ?thesis using past yest by auto
qed

definition weeks_lib :: regexp_lib where
  "weeks_lib =
     \<lparr>rx_find = \<lambda>p t. Ret (if p = ''weeks'' then [t, ''3''] else []), rx_all = \<lambda>p t. Ret [], rx_replace = \<lambda>p t r. Ret t,
      rx_split = \<lambda>p t. Ret [t], rx_match = \<lambda>p t. Ret False\<rparr>"

definition time_patterns :: NewsRegexConfig where
  "time_patterns =
     \<lparr>nx_ArticleContainer = [], nx_Title = [], nx_ArticleLink = [], nx_PublishingInfo = [], nx_ImageURL = [],
      nx_RelatedTickers = [], nx_NextPageHint = [], nx_Minutes = ''minutes'', nx_Hours = ''hours'', nx_Days = ''days'',
      nx_Weeks = ''weeks'', nx_Yesterday = ''yesterday'', nx_UTMParams = [], nx_TrackingParams = []\<rparr>"

lemma parseRelativeTime_past_witness:
  "\<exists>t. parseRelativeTime weeks_lib time_patterns ''3 weeks ago'' 5000000000000000 = Ret (Some t) \<and> t \<le> 5000000000000000"
proof -
  have three: "ParseInt64 ''3'' = Some 3"
    by (simp add: ParseInt64_def split_sign_def is_digit_def code_of_def digit_of_def)
  then obtain t where t: "parseRelativeTime weeks_lib time_patterns ''3 weeks ago'' 5000000000000000 = Ret (Some t)"
    by (simp add: parseRelativeTime_def or_else_def ago_def weeks_lib_def time_patterns_def Let_def)
  moreover have "t \<le> 5000000000000000"
  proof (rule parseRelativeTime_past [OF t])
    fix p m assume "rx_find weeks_lib p (ToLower (TrimSpace ''3 weeks ago'')) = Ret m" "1 < length m"
    then have "m ! 1 = ''3''" by (simp add: weeks_lib_def split: if_splits) force
    then show "\<exists>n. ParseInt64 (m ! 1) = Some n \<and> 0 \<le> n \<and> n \<le> 15250" using three by simp
  qed
  ultimately show ?thesis by blast
qed

lemma collect_tickers_Cons:
  "collect_tickers seen (m # ms) =
     (if 1 < length m \<and> isValidTicker (ToUpper (TrimSpace (m ! 1))) \<and> ToUpper (TrimSpace (m ! 1)) \<notin> set seen
      then ToUpper (TrimSpace (m ! 1)) # collect_tickers (ToUpper (TrimSpace (m ! 1)) # seen) ms else collect_tickers seen ms)"
  by (simp add: Let_def)

lemma collect_tickers_spec:
  "distinct (collect_tickers seen ms) \<and> (\<forall>t \<in> set (collect_tickers seen ms). isValidTicker t \<and> t \<notin> set seen)"
proof (induction ms arbitrary: seen)
  case (Cons m ms)
  show ?case using Cons.IH [of seen] Cons.IH [of "ToUpper (TrimSpace (m ! 1)) # seen"]
    unfolding collect_tickers_Cons by (auto simp del: collect_tickers.simps)
qed simp

end
