(* ===== verification/EmitNews.thy ===== *)
theory EmitNews
  imports EmitFinancials ScrapeNews
begin

text \<open>
  News messages and their summary: \<^verbatim>\<open>internal/emit/map_news.go\<close>. URLs and their queries are parsed and printed by the
  library, the parameters \<open>lib\<close> and \<open>ql\<close>; \<open>now\<close> is the clock's reading for an item.
\<close>

section \<open>Model\<close>

record 'ts pb_NewsItem =
  pn_Headline :: string
  pn_Url :: string
  pn_Source :: string
  pn_PublishedAt :: "'ts option"
  pn_Tickers :: "string list"
  pn_Meta :: pb_Meta

record query_lib =
  ql_Parse :: "string \<Rightarrow> (string \<times> string list) list"
  ql_Encode :: "(string \<times> string list) list \<Rightarrow> string"

definition trackingParams :: "string list" where
  "trackingParams =
     [''utm_source'', ''utm_medium'', ''utm_campaign'', ''utm_term'', ''utm_content'', ''fbclid'', ''gclid'', ''msclkid'', ''mc_cid'', ''mc_eid'', ''_ga'', ''_gid'', ''ref'', ''referer'', ''referrer'', ''source'']"

definition removeTrackingParams :: "query_lib \<Rightarrow> url \<Rightarrow> url" where
  "removeTrackingParams ql u =
     u\<lparr>u_RawQuery := (if u_RawQuery u = [] then []
        else ql_Encode ql (filter (\<lambda>(key, vals). ToLower key \<notin> set trackingParams) (ql_Parse ql (u_RawQuery u)))),
       u_Fragment := []\<rparr>"

definition normalizeNewsURL :: "news_lib \<Rightarrow> query_lib \<Rightarrow> string \<Rightarrow> string go" where
  "normalizeNewsURL lib ql rawURL =
     (if rawURL = [] then Err (Errorf ''URL cannot be empty'' [])
      else case nl_ParseURL lib rawURL of
        None \<Rightarrow> Err (Errorf ''failed to parse URL: %w'' [])
      | Some p \<Rightarrow>
          let u = (if u_Scheme p = [] then p\<lparr>u_Scheme := ''https''\<rparr> else p) in
          if u_Scheme u \<noteq> ''http'' \<and> u_Scheme u \<noteq> ''https''
          then Err (Errorf ''invalid URL scheme %s, must be http or https'' [AStr (u_Scheme u)])
          else if u_Host u = [] then Err (Errorf ''URL must have a host'' [])
          else Ret (nl_StringURL lib (removeTrackingParams ql u)))"

definition source_mappings :: "(string \<times> string) list" where
  "source_mappings =
     [(''yahoo finance'', ''Yahoo Finance''),
      (''yahoo! finance'', ''Yahoo Finance''),
      (''yahoo'', ''Yahoo Finance''),
      (''bloomberg'', ''Bloomberg''),
      (''bloomberg.com'', ''Bloomberg''),
      (''reuters'', ''Reuters''),
      (''reuters.com'', ''Reuters''),
      (''marketwatch'', ''MarketWatch''),
      (''marketwatch.com'', ''MarketWatch''),
      (''cnbc'', ''CNBC''),
      (''cnbc.com'', ''CNBC''),
      (''cnn business'', ''CNN Business''),
      (''cnn'', ''CNN Business''),
      (''fox business'', ''Fox Business''),
      (''foxbusiness'', ''Fox Business''),
      (''wall street journal'', ''Wall Street Journal''),
      (''wsj'', ''Wall Street Journal''),
      (''wsj.com'', ''Wall Street Journal''),
      (''financial times'', ''Financial Times''),
      (''ft.com'', ''Financial Times''),
      (''investing.com'', ''Investing.com''),
      (''seeking alpha'', ''Seeking Alpha''),
      (''seekingalpha'', ''Seeking Alpha''),
      (''seekingalpha.com'', ''Seeking Alpha''),
      (''barron'' @ [CHR 0x27] @ ''s'', ''Barron'' @ [CHR 0x27] @ ''s''),
      (''barrons'', ''Barron'' @ [CHR 0x27] @ ''s''),
      (''barrons.com'', ''Barron'' @ [CHR 0x27] @ ''s''),
      (''thestreet'', ''TheStreet''),
      (''thestreet.com'', ''TheStreet''),
      (''motley fool'', ''The Motley Fool''),
      (''fool.com'', ''The Motley Fool'')]"

text \<open>\<^verbatim>\<open>strings.Fields\<close>.\<close>

fun split_spaces :: "string \<Rightarrow> string list" where
  "split_spaces [] = [[]]"
| "split_spaces (c # s) = (if is_space c then [] # split_spaces s else (c # hd (split_spaces s)) # tl (split_spaces s))"

definition Fields :: "string \<Rightarrow> string list" where
  "Fields s = filter (\<lambda>w. w \<noteq> []) (split_spaces s)"

definition capitalize :: "string \<Rightarrow> string" where
  "capitalize w = (if 0 < length w then ToUpper (take 1 w) @ ToLower (drop 1 w) else w)"

definition cleanNewsSource :: "string \<Rightarrow> string" where
  "cleanNewsSource source =
     (if source = [] then ''unknown''
      else let cleaned = TrimSpace source in
        if cleaned = [] then ''unknown''
        else case map_of source_mappings (ToLower cleaned) of
            Some normalized \<Rightarrow> normalized
          | None \<Rightarrow> Join (map capitalize (Fields cleaned)) '' '')"

definition emit_isValidTicker :: "string \<Rightarrow> bool" where
  "emit_isValidTicker ticker \<longleftrightarrow>
     \<not> (length ticker = 0 \<or> 10 < length ticker) \<and>
     list_all (\<lambda>c. is_upper c \<or> is_digit c \<or> c = CHR ''.'' \<or> c = CHR ''-'') ticker"

fun clean_tickers_loop :: "string list \<Rightarrow> string list \<Rightarrow> string list" where
  "clean_tickers_loop seen [] = []"
| "clean_tickers_loop seen (t # ts) =
     (if TrimSpace (ToUpper t) = [] then clean_tickers_loop seen ts
      else if TrimSpace (ToUpper t) \<in> set seen then clean_tickers_loop seen ts
      else (if emit_isValidTicker (TrimSpace (ToUpper t)) then [TrimSpace (ToUpper t)] else []) @
        clean_tickers_loop (TrimSpace (ToUpper t) # seen) ts)"

definition cleanRelatedTickers :: "string list \<Rightarrow> string list" where
  "cleanRelatedTickers tickers = clean_tickers_loop [] tickers"

definition mapSingleNewsItem ::
  "(instant \<Rightarrow> 'ts) \<Rightarrow> news_lib \<Rightarrow> query_lib \<Rightarrow> instant \<Rightarrow> string \<Rightarrow> string \<Rightarrow> NewsItem option \<Rightarrow> 'ts pb_NewsItem go" where
  "mapSingleNewsItem ts lib ql now runID producer item =
     (case item of None \<Rightarrow> Err (Errorf ''NewsItem cannot be nil'' [])
      | Some i \<Rightarrow>
          if ni_Title i = [] then Err (Errorf ''news title cannot be empty'' [])
          else if ni_URL i = [] then Err (Errorf ''news URL cannot be empty'' [])
          else
            go_bind (go_wrap ''invalid URL %s: %w'' [AStr (ni_URL i)] (normalizeNewsURL lib ql (ni_URL i))) (\<lambda>url.
            Ret \<lparr>pn_Headline = TrimSpace (ni_Title i), pn_Url = url, pn_Source = cleanNewsSource (ni_Source i),
                 pn_PublishedAt = map_option (\<lambda>t. ts (if now + 5 * minute < t then now else t)) (ni_PublishedAt i),
                 pn_Tickers = cleanRelatedTickers (ni_RelatedTickers i),
                 pn_Meta = \<lparr>pm_RunId = runID, pm_Source = ''yfinance-go/scrape'', pm_Producer = producer,
                   pm_SchemaVersion = ''ampy.news.v1:2.1.0''\<rparr>\<rparr>))"

text \<open>\<open>clock i\<close> is the clock's reading at item \<open>i\<close>.\<close>

fun map_news_loop ::
  "(instant \<Rightarrow> 'ts) \<Rightarrow> news_lib \<Rightarrow> query_lib \<Rightarrow> (nat \<Rightarrow> instant) \<Rightarrow> string \<Rightarrow> string \<Rightarrow> nat \<Rightarrow> NewsItem list \<Rightarrow> 'ts pb_NewsItem list go" where
  "map_news_loop ts lib ql clock runID producer i [] = Ret []"
| "map_news_loop ts lib ql clock runID producer i (item # items) =
     go_bind (go_wrap ''failed to map news item %d (%s): %w'' [AInt (int i), AStr (ni_Title item)]
       (mapSingleNewsItem ts lib ql (clock i) runID producer (Some item))) (\<lambda>a.
     go_bind (map_news_loop ts lib ql clock runID producer (i + 1) items) (\<lambda>as. Ret (a # as)))"

definition MapNewsItems ::
  "(instant \<Rightarrow> 'ts) \<Rightarrow> news_lib \<Rightarrow> query_lib \<Rightarrow> (nat \<Rightarrow> instant) \<Rightarrow> NewsItem list \<Rightarrow> string \<Rightarrow> string \<Rightarrow> 'ts pb_NewsItem list go" where
  "MapNewsItems ts lib ql clock items runID producer =
     (if length items = 0 then Ret [] else map_news_loop ts lib ql clock runID producer 0 items)"

record NewsSummary =
  nsm_TotalArticles :: int
  nsm_UniqueArticles :: int
  nsm_UniqueSources :: int
  nsm_EarliestTime :: "instant option"
  nsm_LatestTime :: "instant option"
  nsm_TopSources :: "string list"
  nsm_RelatedTickers :: "string list"
  nsm_HasImages :: int
  nsm_AverageURLLength :: int

definition count_source :: "'ts pb_NewsItem list \<Rightarrow> string \<Rightarrow> int" where
  "count_source articles s = int (length (filter (\<lambda>a. pn_Source a = s) articles))"

definition times_of :: "('ts \<Rightarrow> instant) \<Rightarrow> 'ts pb_NewsItem list \<Rightarrow> instant list" where
  "times_of as_time articles = concat (map (\<lambda>a. case pn_PublishedAt a of None \<Rightarrow> [] | Some t \<Rightarrow> [as_time t]) articles)"

definition earlier :: "instant \<Rightarrow> instant option \<Rightarrow> instant option" where
  "earlier t e = (case e of None \<Rightarrow> Some t | Some x \<Rightarrow> if t < x then Some t else e)"

definition later :: "instant \<Rightarrow> instant option \<Rightarrow> instant option" where
  "later t l = (case l of None \<Rightarrow> Some t | Some x \<Rightarrow> if x < t then Some t else l)"

text \<open>
  \<open>sources\<close> and \<open>tickers\<close> are the keys of the two maps the loop fills, in the order in which this run iterates over them.
\<close>

definition CreateNewsSummary ::
  "('ts \<Rightarrow> instant) \<Rightarrow> string list \<Rightarrow> string list \<Rightarrow> 'ts pb_NewsItem list \<Rightarrow> NewsSummary" where
  "CreateNewsSummary as_time sources tickers articles =
     (if length articles = 0
      then \<lparr>nsm_TotalArticles = 0, nsm_UniqueArticles = 0, nsm_UniqueSources = 0, nsm_EarliestTime = None, nsm_LatestTime = None,
            nsm_TopSources = [], nsm_RelatedTickers = [], nsm_HasImages = 0, nsm_AverageURLLength = 0\<rparr>
      else
        \<lparr>nsm_TotalArticles = int (length articles), nsm_UniqueArticles = int (length articles),
         nsm_UniqueSources = int (length sources),
         nsm_EarliestTime = fold earlier (times_of as_time articles) None,
         nsm_LatestTime = fold later (times_of as_time articles) None,
         nsm_TopSources = take 5 (exchange_sort (\<lambda>s. - count_source articles s) sources),
         nsm_RelatedTickers = take 10 tickers, nsm_HasImages = 0,
         nsm_AverageURLLength = int (sum_list (map (\<lambda>a. length (pn_Url a)) articles)) div int (length articles)\<rparr>)"

section \<open>Tickers\<close>

lemma upper_valid: "is_upper c \<or> is_digit c \<or> c = CHR ''.'' \<or> c = CHR ''-'' \<Longrightarrow> upper_char c = c \<and> \<not> is_space c"
  by (auto simp: upper_char_def is_lower_def is_upper_def is_digit_def is_space_def code_of_def)

lemma valid_ticker_clean:
  assumes "emit_isValidTicker t"
  shows "TrimSpace (ToUpper t) = t" "t \<noteq> []"
proof -
  have v: "\<forall>c \<in> set t. upper_char c = c \<and> \<not> is_space c"
    using assms upper_valid unfolding emit_isValidTicker_def list_all_iff by blast
  then have "ToUpper t = t" by (simp add: ToUpper_def map_idI)
  then show "TrimSpace (ToUpper t) = t" using v by (simp add: TrimSpace_spaceless)
  show "t \<noteq> []" using assms by (auto simp: emit_isValidTicker_def)
qed

lemma clean_tickers_loop_spec:
  "distinct (clean_tickers_loop seen ts) \<and> (\<forall>t \<in> set (clean_tickers_loop seen ts). emit_isValidTicker t \<and> t \<notin> set seen)"
proof (induction ts arbitrary: seen)
  case (Cons t ts)
  show ?case using Cons.IH [of seen] Cons.IH [of "TrimSpace (ToUpper t) # seen"]
    unfolding clean_tickers_loop.simps by (auto simp del: clean_tickers_loop.simps)
qed simp

lemma clean_tickers_loop_id:
  "distinct ts \<Longrightarrow> \<forall>t \<in> set ts. emit_isValidTicker t \<and> t \<notin> set seen \<Longrightarrow> clean_tickers_loop seen ts = ts"
  by (induction seen ts rule: clean_tickers_loop.induct) (auto simp: valid_ticker_clean)

theorem cleanRelatedTickers_spec:
  "distinct (cleanRelatedTickers tickers) \<and> list_all emit_isValidTicker (cleanRelatedTickers tickers) \<and>
   cleanRelatedTickers (cleanRelatedTickers tickers) = cleanRelatedTickers tickers"
  using clean_tickers_loop_spec [of "[]" tickers] clean_tickers_loop_id [of "clean_tickers_loop [] tickers" "[]"]
  by (simp add: cleanRelatedTickers_def list_all_iff)

section \<open>Messages\<close>

definition news_ok :: "news_lib \<Rightarrow> query_lib \<Rightarrow> NewsItem \<Rightarrow> bool" where
  "news_ok lib ql i \<longleftrightarrow> ni_Title i \<noteq> [] \<and> is_ret (normalizeNewsURL lib ql (ni_URL i))"

lemma mapSingleNewsItem_cases:
  "if news_ok lib ql i
   then \<exists>url. normalizeNewsURL lib ql (ni_URL i) = Ret url \<and> mapSingleNewsItem ts lib ql now runID producer (Some i) =
     Ret \<lparr>pn_Headline = TrimSpace (ni_Title i), pn_Url = url, pn_Source = cleanNewsSource (ni_Source i),
       pn_PublishedAt = map_option (\<lambda>t. ts (if now + 5 * minute < t then now else t)) (ni_PublishedAt i),
       pn_Tickers = cleanRelatedTickers (ni_RelatedTickers i),
       pn_Meta = \<lparr>pm_RunId = runID, pm_Source = ''yfinance-go/scrape'', pm_Producer = producer,
         pm_SchemaVersion = ''ampy.news.v1:2.1.0''\<rparr>\<rparr>
   else \<exists>e. mapSingleNewsItem ts lib ql now runID producer (Some i) = Err e"
proof -
  have "normalizeNewsURL lib ql u \<noteq> Panic p" for u p
    by (auto simp: normalizeNewsURL_def Let_def split: option.splits)
  moreover have "\<not> is_ret (normalizeNewsURL lib ql [])" by (simp add: normalizeNewsURL_def)
  ultimately show ?thesis
    by (cases "normalizeNewsURL lib ql (ni_URL i)") (auto simp: news_ok_def mapSingleNewsItem_def)
qed

text \<open>The message of an item: a date more than five minutes ahead of the clock becomes the clock's.\<close>

definition news_message ::
  "(instant \<Rightarrow> 'ts) \<Rightarrow> (nat \<Rightarrow> instant) \<Rightarrow> news_lib \<Rightarrow> query_lib \<Rightarrow> NewsItem \<Rightarrow> 'ts pb_NewsItem \<Rightarrow> bool" where
  "news_message ts clock lib ql item a \<longleftrightarrow>
     pn_Headline a = TrimSpace (ni_Title item) \<and> Ret (pn_Url a) = normalizeNewsURL lib ql (ni_URL item) \<and>
     pn_Source a = cleanNewsSource (ni_Source item) \<and> pn_Tickers a = cleanRelatedTickers (ni_RelatedTickers item) \<and>
     (pn_PublishedAt a = None \<longleftrightarrow> ni_PublishedAt item = None) \<and>
     (\<forall>t. ni_PublishedAt item = Some t \<longrightarrow> (\<exists>k. pn_PublishedAt a = Some (ts t) \<and> t \<le> clock k + 5 * minute \<or>
       pn_PublishedAt a = Some (ts (clock k)) \<and> clock k + 5 * minute < t))"

lemma map_news_loop_cases:
  "if list_all (news_ok lib ql) items
   then \<exists>as. map_news_loop ts lib ql clock runID producer i items = Ret as \<and>
     list_all2 (news_message ts clock lib ql) items as
   else \<exists>e. map_news_loop ts lib ql clock runID producer i items = Err e"
proof (induction ts lib ql clock runID producer i items rule: map_news_loop.induct)
  case (2 ts lib ql clock runID producer i item items)
  note s = mapSingleNewsItem_cases [of lib ql item ts "clock i" runID producer]
  show ?case
  proof (cases "news_ok lib ql item")
    case True
    then obtain url where u: "normalizeNewsURL lib ql (ni_URL item) = Ret url"
      and m: "mapSingleNewsItem ts lib ql (clock i) runID producer (Some item) =
        Ret \<lparr>pn_Headline = TrimSpace (ni_Title item), pn_Url = url, pn_Source = cleanNewsSource (ni_Source item),
          pn_PublishedAt = map_option (\<lambda>t. ts (if clock i + 5 * minute < t then clock i else t)) (ni_PublishedAt item),
          pn_Tickers = cleanRelatedTickers (ni_RelatedTickers item),
          pn_Meta = \<lparr>pm_RunId = runID, pm_Source = ''yfinance-go/scrape'', pm_Producer = producer,
            pm_SchemaVersion = ''ampy.news.v1:2.1.0''\<rparr>\<rparr>" (is "_ = Ret ?a")
      using s by auto
    show ?thesis
    proof (cases "list_all (news_ok lib ql) items")
      case all: True
      then obtain as where as: "map_news_loop ts lib ql clock runID producer (i + 1) items = Ret as"
        and l: "list_all2 (news_message ts clock lib ql) items as"
        using "2.IH" by (auto split: if_splits)
      have "map_news_loop ts lib ql clock runID producer i (item # items) = Ret (?a # as)" using m as by simp
      then show ?thesis using True all l u by (auto simp: news_message_def intro!: exI [of _ i])
    next
      case False
      then obtain e where "map_news_loop ts lib ql clock runID producer (i + 1) items = Err e" using "2.IH" by auto
      then show ?thesis using False m by simp
    qed
  next
    case False
    then show ?thesis using s by auto
  qed
qed simp

text \<open>
  The items are mapped in their order, each to its message, if all have a title and an acceptable URL; otherwise the first
  that has not is an error, and nothing is emitted.
\<close>

text \<open>
  Mapping articles to messages fails exactly when some article has no title or no link
  that can be normalized, and otherwise gives one message per article in order, with the title
  trimmed, the link normalized, the source and the tickers cleaned, and a time in the future
  beyond five minutes set to the present.
\<close>

theorem MapNewsItems_spec:
  "(list_all (news_ok lib ql) items \<longrightarrow>
     (\<exists>as. MapNewsItems ts lib ql clock items runID producer = Ret as \<and> list_all2 (news_message ts clock lib ql) items as)) \<and>
   (\<not> list_all (news_ok lib ql) items \<longrightarrow> (\<exists>e. MapNewsItems ts lib ql clock items runID producer = Err e))"
  using map_news_loop_cases [of lib ql items ts clock runID producer 0]
  by (cases items) (auto simp: MapNewsItems_def simp del: map_news_loop.simps split: if_splits)

definition page_lib :: news_lib where
  "page_lib = echo_lib\<lparr>nl_ParseURL := \<lambda>s. Some \<lparr>u_Scheme = [], u_Host = ''finance.yahoo.com'', u_Path = s, u_RawQuery = [], u_Fragment = []\<rparr>\<rparr>"

lemma MapNewsItems_spec_witness:
  "\<exists>as. MapNewsItems id page_lib \<lparr>ql_Parse = \<lambda>_. [], ql_Encode = \<lambda>_. []\<rparr> (\<lambda>_. 100) [dated ''/news/a'' (Some 999999999999)] ''run'' ''prod'' = Ret as \<and>
     map pn_PublishedAt as = [Some 100]"
proof -
  have ok: "list_all (news_ok page_lib \<lparr>ql_Parse = \<lambda>_. [], ql_Encode = \<lambda>_. []\<rparr>) [dated ''/news/a'' (Some 999999999999)]"
    by (simp add: news_ok_def dated_def normalizeNewsURL_def page_lib_def echo_lib_def)
  obtain as where "MapNewsItems id page_lib \<lparr>ql_Parse = \<lambda>_. [], ql_Encode = \<lambda>_. []\<rparr> (\<lambda>_. 100) [dated ''/news/a'' (Some 999999999999)] ''run'' ''prod'' = Ret as"
    "list_all2 (news_message id (\<lambda>_. 100) page_lib \<lparr>ql_Parse = \<lambda>_. [], ql_Encode = \<lambda>_. []\<rparr>) [dated ''/news/a'' (Some 999999999999)] as"
    using MapNewsItems_spec [of page_lib "\<lparr>ql_Parse = \<lambda>_. [], ql_Encode = \<lambda>_. []\<rparr>"
      "[dated ''/news/a'' (Some 999999999999)]" id "\<lambda>_. 100" "''run''" "''prod''"] ok by blast
  then show ?thesis by (auto simp: list_all2_Cons1 news_message_def dated_def minute_def)
qed

section \<open>The summary\<close>

lemma exchange_pass_spec:
  "exchange_pass f x ys = (p, r) \<Longrightarrow>
   add_mset p (mset r) = add_mset x (mset ys) \<and> f p \<le> f x \<and> (\<forall>y \<in> set ys. f p \<le> f y)"
proof (induction f x ys arbitrary: p r rule: exchange_pass.induct)
  case (2 f x y ys)
  show ?case
  proof (cases "f y < f x")
    case True
    obtain q s where q: "exchange_pass f y ys = (q, s)" by (cases "exchange_pass f y ys")
    show ?thesis using "2.IH"(1) [OF True q] "2.prems" True q by (auto simp: add_mset_commute)
  next
    case False
    obtain q s where q: "exchange_pass f x ys = (q, s)" by (cases "exchange_pass f x ys")
    show ?thesis using "2.IH"(2) [OF False q] "2.prems" False q by (auto simp: add_mset_commute)
  qed
qed simp

lemma exchange_sort_spec:
  "mset (exchange_sort f xs) = mset xs \<and> sorted_wrt (\<lambda>a b. f a \<le> f b) (exchange_sort f xs)"
proof (induction f xs rule: exchange_sort.induct)
  case (2 f x xs)
  obtain p r where p: "exchange_pass f x xs = (p, r)" by (cases "exchange_pass f x xs")
  have m: "add_mset p (mset r) = add_mset x (mset xs)" and le: "f p \<le> f x" "\<forall>y \<in> set xs. f p \<le> f y"
    using exchange_pass_spec [OF p] by auto
  have "set (exchange_sort f r) = set r" using "2.IH" p by (metis mset_eq_setD snd_conv)
  moreover have "set r \<subseteq> insert x (set xs)"
    using m by (metis insert_iff set_mset_add_mset_insert set_mset_mset subsetI)
  ultimately show ?case using "2.IH" p m le by auto
qed simp

lemma fold_earlier: "fold earlier ts (Some e) = Some (fold min ts e)"
  by (induction ts arbitrary: e) (auto simp: earlier_def min_def)

lemma fold_later: "fold later ts (Some e) = Some (fold max ts e)"
  by (induction ts arbitrary: e) (auto simp: later_def max_def)

text \<open>
  The summary names the five sources with the most articles, most first, whatever the order of the map; a source left out has
  no more articles than any named. The times are the least and the greatest of the dated articles.
\<close>

text \<open>
  The top sources of a summary are the at most five most frequent ones, ordered by their
  number of articles, and its earliest and latest times are the least and the greatest of the
  publication times.
\<close>

theorem CreateNewsSummary_spec:
  assumes "articles \<noteq> []" "distinct sources"
  shows "let s = CreateNewsSummary as_time sources tickers articles; top = nsm_TopSources s in
    distinct top \<and> set top \<subseteq> set sources \<and> length top = min 5 (length sources) \<and>
    sorted_wrt (\<lambda>a b. count_source articles b \<le> count_source articles a) top \<and>
    (\<forall>a \<in> set top. \<forall>b \<in> set sources - set top. count_source articles b \<le> count_source articles a) \<and>
    nsm_EarliestTime s = (if times_of as_time articles = [] then None else Some (Min (set (times_of as_time articles)))) \<and>
    nsm_LatestTime s = (if times_of as_time articles = [] then None else Some (Max (set (times_of as_time articles))))"
proof -
  define f where "f = (\<lambda>s. - count_source articles s)"
  define xs where "xs = exchange_sort f sources"
  have m: "mset xs = mset sources" and srt: "sorted_wrt (\<lambda>a b. f a \<le> f b) xs"
    using exchange_sort_spec [of f sources] by (simp_all add: xs_def)
  have set: "set xs = set sources" and dst: "distinct xs" and len: "length xs = length sources"
    using m assms(2) by (auto dest: mset_eq_setD mset_eq_length simp: mset_eq_imp_distinct_iff [OF m])
  have "xs = take 5 xs @ drop 5 xs" by simp
  then have sw: "sorted_wrt (\<lambda>a b. f a \<le> f b) (take 5 xs @ drop 5 xs)" using srt by simp
  have split: "set xs = set (take 5 xs) \<union> set (drop 5 xs)" by (metis append_take_drop_id set_append)
  have "fold earlier ts None = (if ts = [] then None else Some (Min (set ts)))" for ts :: "int list"
    by (cases ts) (simp_all add: earlier_def [of _ None] fold_earlier Min.set_eq_fold [of _ "_ :: int list", simplified, symmetric])
  moreover have "fold later ts None = (if ts = [] then None else Some (Max (set ts)))" for ts :: "int list"
    by (cases ts) (simp_all add: later_def [of _ None] fold_later Max.set_eq_fold [of _ "_ :: int list", simplified, symmetric])
  moreover have "sorted_wrt (\<lambda>a b. count_source articles b \<le> count_source articles a) (take 5 xs)"
    "\<forall>a \<in> set (take 5 xs). \<forall>b \<in> set (drop 5 xs). count_source articles b \<le> count_source articles a"
    using sw unfolding sorted_wrt_append f_def neg_le_iff_le by blast+
  ultimately show ?thesis
    using assms(1) dst len set split
    by (auto simp: CreateNewsSummary_def Let_def xs_def [symmetric] f_def [symmetric] dest: in_set_takeD)
qed

definition from_source :: "string \<Rightarrow> int option \<Rightarrow> int pb_NewsItem" where
  "from_source src t = \<lparr>pn_Headline = ''T'', pn_Url = ''u'', pn_Source = src, pn_PublishedAt = t, pn_Tickers = [],
     pn_Meta = \<lparr>pm_RunId = [], pm_Source = [], pm_Producer = [], pm_SchemaVersion = []\<rparr>\<rparr>"

lemma CreateNewsSummary_spec_witness:
  "let s = CreateNewsSummary id [''A'', ''B''] [] [from_source ''A'' (Some 9), from_source ''B'' None, from_source ''B'' (Some 4)] in
    nsm_EarliestTime s = Some 4 \<and> nsm_LatestTime s = Some 9 \<and> length (nsm_TopSources s) = 2"
  using CreateNewsSummary_spec [of "[from_source ''A'' (Some 9), from_source ''B'' None, from_source ''B'' (Some 4)]" "[''A'', ''B'']" id "[]"]
  by (simp add: Let_def times_of_def from_source_def)

end
