(* ===== verification/MemoTable.thy ===== *)
theory MemoTable
  imports Prelude
begin

text \<open>
  A table of answers that are computed on first use: the specification of the caches of the clients. A cache refines it
  through an abstraction of its state to the table; the locale \<open>memo\<close> is that contract.
\<close>

section \<open>Specification\<close>

definition memo_get :: "('k \<Rightarrow> 's \<Rightarrow> 's \<times> 'v go) \<Rightarrow> 'k \<Rightarrow> ('k \<rightharpoonup> 'v) \<times> 's \<Rightarrow> (('k \<rightharpoonup> 'v) \<times> 's) \<times> 'v go" where
  "memo_get ask k = (\<lambda>(t, s).
     (case t k of Some v \<Rightarrow> ((t, s), Ret v)
      | None \<Rightarrow> (case ask k s of
          (s', Ret v) \<Rightarrow> ((t(k \<mapsto> v), s'), Ret v)
        | (s', Err e) \<Rightarrow> ((t, s'), Err e)
        | (s', Panic p) \<Rightarrow> ((t, s'), Panic p))))"

fun run_all :: "('k \<Rightarrow> 'c \<Rightarrow> 'c \<times> 'r) \<Rightarrow> 'k list \<Rightarrow> 'c \<Rightarrow> 'c \<times> 'r list" where
  "run_all f [] st = (st, [])"
| "run_all f (k # ks) st = (case f k st of (st1, r) \<Rightarrow> (case run_all f ks st1 of (st2, rs) \<Rightarrow> (st2, r # rs)))"

text \<open>The keys to compute: those not in the table, each at its first occurrence.\<close>

fun missing :: "'k set \<Rightarrow> 'k list \<Rightarrow> 'k list" where
  "missing D [] = []"
| "missing D (k # ks) = (if k \<in> D then missing D ks else k # missing (insert k D) ks)"

lemma missing_set [simp]: "set (missing D ks) = set ks - D"
  by (induction D ks rule: missing.induct) auto

lemma missing_distinct [simp]: "distinct (missing D ks)"
  by (induction D ks rule: missing.induct) auto

lemma memo_get_again:
  assumes "memo_get ask k (t, s) = ((t', s'), Ret v)"
  shows "t' k = Some v" "t \<subseteq>\<^sub>m t'"
  using assms by (auto simp: memo_get_def map_le_def split: option.splits prod.splits go.splits)

lemma memo_run_total:
  assumes "\<And>k s. \<exists>s' v. ask k s = (s', Ret v)" "run_all (memo_get ask) ks (t, s) = ((t', s'), rs)"
  shows "rs = map (\<lambda>k. Ret (the (t' k))) ks \<and> t \<subseteq>\<^sub>m t' \<and> dom t' = dom t \<union> set ks \<and>
    s' = fst (run_all ask (missing (dom t) ks) s)"
  using assms(2)
proof (induction ks arbitrary: t s rs)
  case (Cons k ks)
  obtain t1 s1 r where g: "memo_get ask k (t, s) = ((t1, s1), r)" by (metis prod.collapse)
  obtain rs1 where rs: "run_all (memo_get ask) ks (t1, s1) = ((t', s'), rs1)" "rs = r # rs1"
    using Cons.prems by (auto simp: g split: prod.splits)
  note IH = Cons.IH [OF rs(1)]
  show ?case
  proof (cases "t k")
    case (Some v)
    then have v: "t1 = t" "s1 = s" "r = Ret v" using g by (auto simp: memo_get_def)
    have "k \<in> dom t" using Some by blast
    then have "t' k = t k" using IH v(1) by (simp add: map_le_def)
    then show ?thesis using IH rs(2) v Some by auto
  next
    case None
    obtain s2 v where c: "ask k s = (s2, Ret v)" using assms(1) by blast
    then have v: "t1 = t(k \<mapsto> v)" "s1 = s2" "r = Ret v" using g None by (auto simp: memo_get_def)
    have "k \<in> dom t1" "t1 k = Some v" by (simp_all add: v(1))
    then have k: "t' k = Some v" using IH by (metis map_le_def)
    have "t \<subseteq>\<^sub>m t1" using None by (auto simp: v(1) map_le_def)
    then have le: "t \<subseteq>\<^sub>m t'" using IH map_le_trans by blast
    have d: "dom t1 = insert k (dom t)" by (simp add: v(1))
    have "s' = fst (run_all ask (missing (insert k (dom t)) ks) s1)" "dom t' = insert k (dom t) \<union> set ks"
      "rs1 = map (\<lambda>k. Ret (the (t' k))) ks" using IH unfolding d by simp_all
    moreover have "missing (dom t) (k # ks) = k # missing (insert k (dom t)) ks" using None by auto
    ultimately show ?thesis using rs(2) v(2,3) k le c by (auto split: prod.splits)
  qed
qed simp

section \<open>The contract of a cache\<close>

locale memo =
  fixes abs :: "'c \<Rightarrow> 'k \<rightharpoonup> 'v" and get :: "'k \<Rightarrow> 'c \<times> 's \<Rightarrow> ('c \<times> 's) \<times> 'v go" and ask :: "'c \<Rightarrow> 'k \<Rightarrow> 's \<Rightarrow> 's \<times> 'v go"
  assumes refines: "get k (c, s) = ((c', s'), r) \<Longrightarrow> memo_get (ask c) k (abs c, s) = ((abs c', s'), r)"
    and stable: "get k (c, s) = ((c', s'), r) \<Longrightarrow> ask c' = ask c"
begin

lemma simulates:
  "run_all get ks (c, s) = ((c', s'), rs) \<Longrightarrow> run_all (memo_get (ask c)) ks (abs c, s) = ((abs c', s'), rs) \<and> ask c' = ask c"
proof (induction ks arbitrary: c s rs)
  case (Cons k ks)
  obtain c1 s1 r where g: "get k (c, s) = ((c1, s1), r)" by (metis prod.collapse)
  obtain rs1 where rs: "run_all get ks (c1, s1) = ((c', s'), rs1)" "rs = r # rs1"
    using Cons.prems by (auto simp: g split: prod.splits)
  show ?case using Cons.IH [OF rs(1)] refines [OF g] stable [OF g] rs(2) by simp
qed simp

lemma kept:
  assumes "get k (c, s) = ((c', s'), Ret v)"
  shows "\<exists>c3. get k (c', s2) = ((c3, s2), Ret v) \<and> abs c3 = abs c'"
proof -
  have a: "abs c' k = Some v" using memo_get_again(1) [OF refines [OF assms]] .
  obtain c3 s3 r where g: "get k (c', s2) = ((c3, s3), r)" by (metis prod.collapse)
  show ?thesis using refines [OF g] a g by (auto simp: memo_get_def)
qed

lemma run_total:
  assumes "\<And>k s. \<exists>s' v. ask c k s = (s', Ret v)" "run_all get ks (c, s) = ((c', s'), rs)"
  shows "rs = map (\<lambda>k. Ret (the (abs c' k))) ks \<and> abs c \<subseteq>\<^sub>m abs c' \<and> dom (abs c') = dom (abs c) \<union> set ks \<and>
    s' = fst (run_all (ask c) (missing (dom (abs c)) ks) s)"
  by (rule memo_run_total) (use assms simulates in blast)+

end

end
