(* ===== verification/YahooClient.thy ===== *)
theory YahooClient
  imports MemoTable YahooQuotes Fundamentals Httpx GoStrings
begin

text \<open>
  The client of the Yahoo endpoints: \<^verbatim>\<open>internal/yahoo/client.go\<close>, the cookie and crumb authentication of \<^verbatim>\<open>auth.go\<close> and
  \<^verbatim>\<open>quotesummary.go\<close>, over the HTTP client. Parsing and printing URLs, building requests and decoding JSON are the operations of
  \<open>yahoo_env\<close>. The crumb manager sends its requests through the same HTTP client, whose cookie jar it needs; \<open>time.Now\<close> is in UTC.
\<close>

section \<open>State\<close>

definition time_unix :: "instant \<Rightarrow> int64" where "time_unix t = t div second"

record CrumbManager =
  cm_cookieURL :: string
  cm_apiBaseURL :: string
  cm_crumb :: string

definition NewCrumbManager :: "string \<Rightarrow> string \<Rightarrow> CrumbManager" where
  "NewCrumbManager cookieURL apiBaseURL =
     \<lparr>cm_cookieURL = (if cookieURL = [] then ''https://fc.yahoo.com'' else cookieURL),
      cm_apiBaseURL = (if apiBaseURL = [] then ''https://query2.finance.yahoo.com'' else apiBaseURL),
      cm_crumb = []\<rparr>"

record YahooClient =
  yc_baseURL :: string
  yc_crumb :: "CrumbManager option"

definition yahoo_NewClient :: "string \<Rightarrow> YahooClient" where
  "yahoo_NewClient baseURL =
     \<lparr>yc_baseURL = (if baseURL = [] then ''https://query1.finance.yahoo.com'' else baseURL), yc_crumb = None\<rparr>"

definition NewClientWithAuth :: "string \<Rightarrow> CrumbManager \<Rightarrow> YahooClient" where
  "NewClientWithAuth baseURL cm = (yahoo_NewClient baseURL)\<lparr>yc_crumb := Some cm\<rparr>"

text \<open>\<open>ye_parse\<close> is \<^verbatim>\<open>url.Parse\<close>, \<open>ye_string u q\<close> the text of \<open>u\<close> with the raw query \<open>q\<close>, \<open>ye_request\<close> a GET request.\<close>

record ('u, 's) yahoo_env =
  ye_http :: "'s http_env"
  ye_parse :: "string \<Rightarrow> 'u go"
  ye_string :: "'u \<Rightarrow> string \<Rightarrow> string"
  ye_request :: "string \<Rightarrow> Request go"
  ye_bars :: "string \<times> goerror option \<Rightarrow> BarsResponse go"
  ye_fundamentals :: "string \<Rightarrow> FundamentalsResponse go"

type_synonym 's net = "Client \<times> 's"

definition net_now :: "('u, 's) yahoo_env \<Rightarrow> 's net \<Rightarrow> instant" where
  "net_now env st = env_clock (ye_http env) (snd st)"

text \<open>Building a request and sending it; the callers wrap the errors of the two steps.\<close>

definition send ::
  "(f64 \<Rightarrow> int) \<Rightarrow> ('u, 's) yahoo_env \<Rightarrow> (Request go \<Rightarrow> Request go) \<Rightarrow> (Response go \<Rightarrow> Response go) \<Rightarrow> string \<Rightarrow>
   's net \<Rightarrow> 's net \<times> Response go" where
  "send ovf env wrap_request wrap_do url st =
     (case wrap_request (ye_request env url) of
        Err e \<Rightarrow> (st, Err e)
      | Panic p \<Rightarrow> (st, Panic p)
      | Ret req \<Rightarrow> (case Do ovf (ye_http env) req st of (st', r) \<Rightarrow> (st', wrap_do r)))"

section \<open>Cookie and crumb\<close>

definition bootstrapCookie :: "(f64 \<Rightarrow> int) \<Rightarrow> ('u, 's) yahoo_env \<Rightarrow> CrumbManager \<Rightarrow> 's net \<Rightarrow> 's net \<times> unit go" where
  "bootstrapCookie ovf env m st =
     (case send ovf env id (go_wrap ''cookie bootstrap failed: %w'' []) (cm_cookieURL m @ ''/'') st of
        (st', r) \<Rightarrow> (st', go_bind r (\<lambda>_. Ret ())))"

definition valid_crumb :: "string \<Rightarrow> bool" where
  "valid_crumb crumb \<longleftrightarrow> crumb \<noteq> [] \<and> \<not> Contains crumb ''<html''"

definition fetchCrumb :: "(f64 \<Rightarrow> int) \<Rightarrow> ('u, 's) yahoo_env \<Rightarrow> CrumbManager \<Rightarrow> 's net \<Rightarrow> 's net \<times> string go" where
  "fetchCrumb ovf env m st =
     (case send ovf env id (go_wrap ''getcrumb failed: %w'' []) (cm_apiBaseURL m @ ''/v1/test/getcrumb'') st of
        (st', r) \<Rightarrow> (st', go_bind r (\<lambda>resp. go_bind (ReadAll (rsp_Body resp)) (\<lambda>body.
          let crumb = TrimSpace body
          in if \<not> valid_crumb crumb then Err (Errorf ''empty or invalid crumb (consent flow may be required)'' [])
             else Ret crumb))))"

definition Crumb :: "(f64 \<Rightarrow> int) \<Rightarrow> ('u, 's) yahoo_env \<Rightarrow> CrumbManager \<times> 's net \<Rightarrow> (CrumbManager \<times> 's net) \<times> string go" where
  "Crumb ovf env = (\<lambda>(m, st).
     (if cm_crumb m \<noteq> [] then ((m, st), Ret (cm_crumb m))
      else case bootstrapCookie ovf env m st of
         (st1, Err e) \<Rightarrow> ((m, st1), Err e)
       | (st1, Panic p) \<Rightarrow> ((m, st1), Panic p)
       | (st1, Ret _) \<Rightarrow>
           (case fetchCrumb ovf env m st1 of
              (st2, Ret crumb) \<Rightarrow> ((m\<lparr>cm_crumb := crumb\<rparr>, st2), Ret crumb)
            | (st2, Err e) \<Rightarrow> ((m, st2), Err e)
            | (st2, Panic p) \<Rightarrow> ((m, st2), Panic p))))"

definition Invalidate :: "CrumbManager \<Rightarrow> CrumbManager" where
  "Invalidate m = m\<lparr>cm_crumb := []\<rparr>"

section \<open>Quote summaries\<close>

definition doQuoteSummary ::
  "(f64 \<Rightarrow> int) \<Rightarrow> ('u, 's) yahoo_env \<Rightarrow> string \<Rightarrow> string list \<Rightarrow> YahooClient \<times> 's net \<Rightarrow>
   (YahooClient \<times> 's net) \<times> (string \<times> int) go" where
  "doQuoteSummary ovf env symbol modules = (\<lambda>(c, st).
     (case ye_parse env (yc_baseURL c @ ''/v10/finance/quoteSummary/'' @ symbol) of
        Err e \<Rightarrow> ((c, st), Err e)
      | Panic p \<Rightarrow> ((c, st), Panic p)
      | Ret u \<Rightarrow>
          (let request = (\<lambda>c st crumb.
             (case send ovf env id id (ye_string env u (values_Encode ((''modules'', Join modules '','') # crumb))) st of
                (st', r) \<Rightarrow> ((c, st'), go_bind r (\<lambda>resp. go_bind (ReadAll (rsp_Body resp)) (\<lambda>body.
                   Ret (body, rsp_StatusCode resp))))))
           in case yc_crumb c of
                None \<Rightarrow> request c st []
              | Some m \<Rightarrow>
                  (case Crumb ovf env (m, st) of
                     ((m', st1), r) \<Rightarrow>
                       let c1 = c\<lparr>yc_crumb := Some m'\<rparr> in
                       (case r of
                          Ret crumb \<Rightarrow> request c1 st1 [(''crumb'', crumb)]
                        | Err e \<Rightarrow> ((c1, st1), Err e)
                        | Panic p \<Rightarrow> ((c1, st1), Panic p))))))"

definition quote_summary_body :: "string \<Rightarrow> (string \<times> int) go \<Rightarrow> string go" where
  "quote_summary_body symbol r = go_bind r (\<lambda>(body, status).
     if status \<noteq> 200 then Err (Errorf ''quoteSummary %s: unexpected status %d'' [AStr symbol, AInt status]) else Ret body)"

definition FetchQuoteSummary ::
  "(f64 \<Rightarrow> int) \<Rightarrow> ('u, 's) yahoo_env \<Rightarrow> string \<Rightarrow> string list \<Rightarrow> YahooClient \<times> 's net \<Rightarrow>
   (YahooClient \<times> 's net) \<times> string go" where
  "FetchQuoteSummary ovf env symbol modules st =
     (case doQuoteSummary ovf env symbol modules st of
        ((c, net1), r) \<Rightarrow>
          (case (r, yc_crumb c) of
             (Ret (body, status), Some m) \<Rightarrow>
               if status = 401
               then (case doQuoteSummary ovf env symbol modules (c\<lparr>yc_crumb := Some (Invalidate m)\<rparr>, net1) of
                       (st2, r2) \<Rightarrow> (st2, quote_summary_body symbol r2))
               else ((c, net1), quote_summary_body symbol r)
           | _ \<Rightarrow> ((c, net1), quote_summary_body symbol r)))"

definition FundamentalsModules :: "string list" where
  "FundamentalsModules = [''incomeStatementHistoryQuarterly'', ''balanceSheetHistoryQuarterly'', ''cashflowStatementHistoryQuarterly'']"

text \<open>A request through the quote summary whose body is decoded.\<close>

definition fetch_summary ::
  "(f64 \<Rightarrow> int) \<Rightarrow> ('u, 's) yahoo_env \<Rightarrow> string list \<Rightarrow> (string \<Rightarrow> 'a go) \<Rightarrow> string \<Rightarrow> YahooClient \<times> 's net \<Rightarrow>
   (YahooClient \<times> 's net) \<times> 'a go" where
  "fetch_summary ovf env modules decode symbol st =
     (case FetchQuoteSummary ovf env symbol modules st of (st', raw) \<Rightarrow> (st', go_bind raw decode))"

definition yahoo_FetchFundamentalsQuarterly ::
  "(f64 \<Rightarrow> int) \<Rightarrow> ('u, 's) yahoo_env \<Rightarrow> string \<Rightarrow> YahooClient \<times> 's net \<Rightarrow> (YahooClient \<times> 's net) \<times> FundamentalsResponse go" where
  "yahoo_FetchFundamentalsQuarterly ovf env =
     fetch_summary ovf env FundamentalsModules (DecodeFundamentalsResponse (ye_fundamentals env))"

section \<open>Charts\<close>

definition chart_query :: "instant \<Rightarrow> instant \<Rightarrow> string \<Rightarrow> (string \<times> string) list" where
  "chart_query start end_t interval =
     [(''period1'', show_int (time_unix start)), (''period2'', show_int (time_unix end_t)), (''interval'', interval),
      (''includePrePost'', ''false''), (''events'', ''div,split'')]"

definition chart_url :: "('u, 's) yahoo_env \<Rightarrow> YahooClient \<Rightarrow> string \<Rightarrow> (string \<times> string) list \<Rightarrow> string go" where
  "chart_url env c symbol params =
     go_bind (ye_parse env (yc_baseURL c @ ''/v8/finance/chart/'' @ symbol)) (\<lambda>u.
     Ret (ye_string env u (values_Encode params)))"

definition buildBarsURL :: "('u, 's) yahoo_env \<Rightarrow> YahooClient \<Rightarrow> string \<Rightarrow> instant \<Rightarrow> instant \<Rightarrow> bool \<Rightarrow> string go" where
  "buildBarsURL env c symbol start end_t adjusted = chart_url env c symbol (chart_query start end_t ''1d'')"

definition buildIntradayBarsURL :: "('u, 's) yahoo_env \<Rightarrow> YahooClient \<Rightarrow> string \<Rightarrow> instant \<Rightarrow> instant \<Rightarrow> string \<Rightarrow> string go" where
  "buildIntradayBarsURL env c symbol start end_t interval = chart_url env c symbol (chart_query start end_t interval)"

definition buildWeeklyBarsURL :: "('u, 's) yahoo_env \<Rightarrow> YahooClient \<Rightarrow> string \<Rightarrow> instant \<Rightarrow> instant \<Rightarrow> bool \<Rightarrow> string go" where
  "buildWeeklyBarsURL env c symbol start end_t adjusted = chart_url env c symbol (chart_query start end_t ''1wk'')"

definition buildMonthlyBarsURL :: "('u, 's) yahoo_env \<Rightarrow> YahooClient \<Rightarrow> string \<Rightarrow> instant \<Rightarrow> instant \<Rightarrow> bool \<Rightarrow> string go" where
  "buildMonthlyBarsURL env c symbol start end_t adjusted = chart_url env c symbol (chart_query start end_t ''1mo'')"

text \<open>The four requests for bars differ in their URL and in one word of the error messages.\<close>

definition fetch_bars :: "(f64 \<Rightarrow> int) \<Rightarrow> ('u, 's) yahoo_env \<Rightarrow> string \<Rightarrow> string go \<Rightarrow> 's net \<Rightarrow> 's net \<times> BarsResponse go" where
  "fetch_bars ovf env what url st =
     (case go_wrap (''failed to build '' @ what @ ''bars URL: %w'') [] url of
        Err e \<Rightarrow> (st, Err e)
      | Panic p \<Rightarrow> (st, Panic p)
      | Ret u \<Rightarrow>
          (case send ovf env (go_wrap ''failed to create request: %w'' []) (go_wrap (''failed to fetch '' @ what @ ''bars: %w'') []) u st of
             (st', r) \<Rightarrow> (st', go_bind r (\<lambda>resp.
               go_bind (go_wrap (''failed to decode '' @ what @ ''bars response: %w'') []
                 (DecodeBarsResponseFromReader (ye_bars env) (rsp_Body resp))) (\<lambda>bars.
               if GetMetadata bars = None then Err (Errorf ''missing metadata'' []) else Ret bars)))))"

definition yahoo_FetchDailyBars ::
  "(f64 \<Rightarrow> int) \<Rightarrow> ('u, 's) yahoo_env \<Rightarrow> YahooClient \<Rightarrow> string \<Rightarrow> instant \<Rightarrow> instant \<Rightarrow> bool \<Rightarrow> 's net \<Rightarrow> 's net \<times> BarsResponse go" where
  "yahoo_FetchDailyBars ovf env c symbol start end_t adjusted = fetch_bars ovf env '''' (buildBarsURL env c symbol start end_t adjusted)"

definition yahoo_FetchIntradayBars ::
  "(f64 \<Rightarrow> int) \<Rightarrow> ('u, 's) yahoo_env \<Rightarrow> YahooClient \<Rightarrow> string \<Rightarrow> instant \<Rightarrow> instant \<Rightarrow> string \<Rightarrow> 's net \<Rightarrow> 's net \<times> BarsResponse go" where
  "yahoo_FetchIntradayBars ovf env c symbol start end_t interval =
     fetch_bars ovf env ''intraday '' (buildIntradayBarsURL env c symbol start end_t interval)"

definition yahoo_FetchWeeklyBars ::
  "(f64 \<Rightarrow> int) \<Rightarrow> ('u, 's) yahoo_env \<Rightarrow> YahooClient \<Rightarrow> string \<Rightarrow> instant \<Rightarrow> instant \<Rightarrow> bool \<Rightarrow> 's net \<Rightarrow> 's net \<times> BarsResponse go" where
  "yahoo_FetchWeeklyBars ovf env c symbol start end_t adjusted =
     fetch_bars ovf env ''weekly '' (buildWeeklyBarsURL env c symbol start end_t adjusted)"

definition yahoo_FetchMonthlyBars ::
  "(f64 \<Rightarrow> int) \<Rightarrow> ('u, 's) yahoo_env \<Rightarrow> YahooClient \<Rightarrow> string \<Rightarrow> instant \<Rightarrow> instant \<Rightarrow> bool \<Rightarrow> 's net \<Rightarrow> 's net \<times> BarsResponse go" where
  "yahoo_FetchMonthlyBars ovf env c symbol start end_t adjusted =
     fetch_bars ovf env ''monthly '' (buildMonthlyBarsURL env c symbol start end_t adjusted)"

definition fetchChartRaw ::
  "(f64 \<Rightarrow> int) \<Rightarrow> ('u, 's) yahoo_env \<Rightarrow> YahooClient \<Rightarrow> string \<Rightarrow> int \<Rightarrow> 's net \<Rightarrow> 's net \<times> string go" where
  "fetchChartRaw ovf env c symbol daysBack st =
     (let end_t = net_now env st; start = AddDate end_t 0 0 (- daysBack) in
      case buildBarsURL env c symbol start end_t True of
        Err e \<Rightarrow> (st, Err e)
      | Panic p \<Rightarrow> (st, Panic p)
      | Ret u \<Rightarrow> (case send ovf env id id u st of (st', r) \<Rightarrow> (st', go_bind r (\<lambda>resp. ReadAll (rsp_Body resp)))))"

definition yahoo_FetchQuote ::
  "(f64 \<Rightarrow> int) \<Rightarrow> ('u, 's) yahoo_env \<Rightarrow> YahooClient \<Rightarrow> string \<Rightarrow> 's net \<Rightarrow> 's net \<times> QuoteResponse go" where
  "yahoo_FetchQuote ovf env c symbol st =
     (let end_t = net_now env st; start = AddDate end_t 0 0 (- 7) in
      case yahoo_FetchDailyBars ovf env c symbol start end_t True st of
        (st', r) \<Rightarrow> (st', go_bind (go_wrap ''failed to fetch quote via chart endpoint: %w'' [] r) (\<lambda>barsResp.
          go_wrap ''failed to convert chart to quote: %w'' [] (convertChartToQuote barsResp symbol))))"

section \<open>Lemmas\<close>

lemma send_Ret:
  assumes "send ovf env wrap_request wrap_do url st = (st', Ret resp)"
    "\<And>r x. wrap_do r = Ret x \<longleftrightarrow> r = Ret x" "\<And>r x. wrap_request r = Ret x \<longleftrightarrow> r = Ret x"
  shows "isSuccessResponse resp \<and> (\<exists>req. ye_request env url = Ret req \<and> Do ovf (ye_http env) req st = (st', Ret resp))"
proof -
  obtain req where req: "ye_request env url = Ret req" using assms by (auto simp: send_def split: go.splits)
  have "wrap_request (ye_request env url) = Ret req" using assms(3) req by simp
  then obtain r where d: "Do ovf (ye_http env) req st = (st', r)" "wrap_do r = Ret resp"
    using assms(1) by (auto simp: send_def split: prod.splits)
  then have "r = Ret resp" using assms(2) by simp
  then show ?thesis using d req Do_success by blast
qed

lemmas send_id = send_Ret [where wrap_request = id and wrap_do = id, simplified]
lemmas send_wrap = send_Ret [where wrap_request = id and wrap_do = "go_wrap f []", simplified] for f

text \<open>Every body that a quote summary gives came with a status of success.\<close>

lemma doQuoteSummary_status:
  assumes "doQuoteSummary ovf env symbol modules st = (st', Ret (body, status))"
  shows "200 \<le> status \<and> status < 300"
proof -
  obtain c net where st: "st = (c, net)" by (cases st)
  have r: "isSuccessResponse resp" if "send ovf env id id u n = (n', Ret resp)" for u n n' resp
    using send_id [OF that] by blast
  show ?thesis using assms unfolding st doQuoteSummary_def
    by (auto simp: Let_def isSuccessResponse_def go_bind_eq_Ret split: go.splits option.splits prod.splits dest!: r)
qed


lemma FetchQuoteSummary_eq:
  "FetchQuoteSummary ovf env symbol modules st =
     (case doQuoteSummary ovf env symbol modules st of (st', r) \<Rightarrow> (st', quote_summary_body symbol r))"
proof -
  obtain c net r where d: "doQuoteSummary ovf env symbol modules st = ((c, net), r)" by (metis prod.collapse)
  have "status \<noteq> 401" if "r = Ret (body, status)" for body status
    using doQuoteSummary_status [of ovf env symbol modules st "(c, net)" body status] d that by simp
  then show ?thesis by (auto simp: FetchQuoteSummary_def d quote_summary_body_def split: go.splits option.splits)
qed

text \<open>A cached crumb is never renewed, whatever the server answers.\<close>

lemma doQuoteSummary_cached:
  assumes "yc_crumb c = Some m" "cm_crumb m \<noteq> []"
  shows "fst (fst (doQuoteSummary ovf env symbol modules (c, net))) = c"
  using assms by (auto simp: doQuoteSummary_def Crumb_def Let_def split: go.splits prod.splits)

lemma stale_crumb_kept:
  assumes "yc_crumb c = Some m" "cm_crumb m \<noteq> []"
    "run_all (\<lambda>(symbol, modules). FetchQuoteSummary ovf env symbol modules) requests (c, net) = ((c', net'), rs)"
  shows "c' = c"
  using assms(3)
proof (induction requests arbitrary: net rs)
  case (Cons q requests)
  have "fst (fst (FetchQuoteSummary ovf env (fst q) (snd q) (c, net))) = c"
    using doQuoteSummary_cached [OF assms(1,2)] by (simp add: FetchQuoteSummary_eq case_prod_unfold)
  then obtain n r where "FetchQuoteSummary ovf env (fst q) (snd q) (c, net) = ((c, n), r)" by (metis prod.collapse)
  moreover obtain st2 rs2 where "run_all (\<lambda>(symbol, modules). FetchQuoteSummary ovf env symbol modules) requests (c, n) = (st2, rs2)"
    by (metis prod.collapse)
  ultimately show ?case using Cons.IH [of n rs2] Cons.prems by (simp add: case_prod_unfold)
qed simp

section \<open>The crumb as a table of one answer\<close>

definition crumb_table :: "CrumbManager \<Rightarrow> unit \<rightharpoonup> string" where
  "crumb_table m = (\<lambda>_. if cm_crumb m = [] then None else Some (cm_crumb m))"

definition crumb_ask :: "(f64 \<Rightarrow> int) \<Rightarrow> ('u, 's) yahoo_env \<Rightarrow> CrumbManager \<Rightarrow> unit \<Rightarrow> 's net \<Rightarrow> 's net \<times> string go" where
  "crumb_ask ovf env m u st =
     (case bootstrapCookie ovf env m st of
        (st1, Err e) \<Rightarrow> (st1, Err e)
      | (st1, Panic p) \<Rightarrow> (st1, Panic p)
      | (st1, Ret _) \<Rightarrow> fetchCrumb ovf env m st1)"

lemma fetchCrumb_valid: "fetchCrumb ovf env m st = (st', Ret crumb) \<Longrightarrow> valid_crumb crumb"
  by (auto simp: fetchCrumb_def go_bind_eq_Ret Let_def split: prod.splits if_splits)

lemma Crumb_eq:
  "Crumb ovf env (m, st) =
     (if cm_crumb m \<noteq> [] then ((m, st), Ret (cm_crumb m))
      else case crumb_ask ovf env m () st of
         (st', Ret crumb) \<Rightarrow> ((m\<lparr>cm_crumb := crumb\<rparr>, st'), Ret crumb)
       | (st', r) \<Rightarrow> ((m, st'), r))"
  by (auto simp: Crumb_def crumb_ask_def split: prod.splits go.splits)

lemma crumb_ask_urls: "crumb_ask ovf env (m\<lparr>cm_crumb := crumb\<rparr>) = crumb_ask ovf env m"
  by (intro ext) (auto simp: crumb_ask_def bootstrapCookie_def fetchCrumb_def split: prod.splits go.splits)

lemma crumb_ask_Ret:
  assumes "crumb_ask ovf env m u st = (st', Ret crumb)"
  shows "valid_crumb crumb \<and>
    (\<exists>req1 st1 resp1 req2 resp2. Do ovf (ye_http env) req1 st = (st1, Ret resp1) \<and> isSuccessResponse resp1 \<and>
       ye_request env (cm_cookieURL m @ ''/'') = Ret req1 \<and>
       Do ovf (ye_http env) req2 st1 = (st', Ret resp2) \<and> isSuccessResponse resp2 \<and>
       ye_request env (cm_apiBaseURL m @ ''/v1/test/getcrumb'') = Ret req2)"
proof -
  obtain st1 where b: "bootstrapCookie ovf env m st = (st1, Ret ())" and f: "fetchCrumb ovf env m st1 = (st', Ret crumb)"
    using assms by (auto simp: crumb_ask_def split: prod.splits go.splits)
  obtain resp1 where 1: "send ovf env id (go_wrap ''cookie bootstrap failed: %w'' []) (cm_cookieURL m @ ''/'') st = (st1, Ret resp1)"
    using b by (auto simp: bootstrapCookie_def go_bind_eq_Ret split: prod.splits)
  obtain resp2 where 2: "send ovf env id (go_wrap ''getcrumb failed: %w'' []) (cm_apiBaseURL m @ ''/v1/test/getcrumb'') st1 = (st', Ret resp2)"
    using f by (auto simp: fetchCrumb_def go_bind_eq_Ret split: prod.splits)
  show ?thesis using send_wrap [OF 1] send_wrap [OF 2] fetchCrumb_valid [OF f] by blast
qed

interpretation crumb: memo crumb_table "\<lambda>u. Crumb ovf env" "crumb_ask ovf env" for ovf env
proof unfold_locales
  fix u m st m' st' r
  assume a: "Crumb ovf env (m, st) = ((m', st'), r)"
  have "crumb_ask ovf env m u st = crumb_ask ovf env m () st" by simp
  then show "memo_get (crumb_ask ovf env m) u (crumb_table m, st) = ((crumb_table m', st'), r)"
    using a crumb_ask_Ret [of ovf env m u st]
    by (auto simp: Crumb_eq memo_get_def crumb_table_def valid_crumb_def fun_eq_iff split: prod.splits go.splits if_splits)
  show "crumb_ask ovf env m' = crumb_ask ovf env m"
    using a by (auto simp: Crumb_eq crumb_ask_urls split: prod.splits go.splits if_splits)
qed

text \<open>
  C22: FetchQuoteSummary is one request: its branch that drops the crumb and asks again after
  a 401 answer is never taken, because the HTTP client turns such an answer into an error.
\<close>

theorem FetchQuoteSummary_once:
  "FetchQuoteSummary ovf env symbol modules st =
     (case doQuoteSummary ovf env symbol modules st of (st', r) \<Rightarrow> (st', quote_summary_body symbol r))"
  by (rule FetchQuoteSummary_eq)

text \<open>
  A crumb that Crumb returns is valid and is the stored one, and every later call returns
  it again without a request; a failing call stores nothing.
\<close>

theorem Crumb_spec:
  assumes "Crumb ovf env (m, st) = ((m', st'), r)"
  shows "if cm_crumb m \<noteq> [] then m' = m \<and> st' = st \<and> r = Ret (cm_crumb m)
    else (\<forall>crumb. r = Ret crumb \<longrightarrow> m' = m\<lparr>cm_crumb := crumb\<rparr> \<and> valid_crumb crumb \<and>
        (\<exists>req1 st1 resp1 req2 resp2. Do ovf (ye_http env) req1 st = (st1, Ret resp1) \<and> isSuccessResponse resp1 \<and>
           ye_request env (cm_cookieURL m @ ''/'') = Ret req1 \<and>
           Do ovf (ye_http env) req2 st1 = (st', Ret resp2) \<and> isSuccessResponse resp2 \<and>
           ye_request env (cm_apiBaseURL m @ ''/v1/test/getcrumb'') = Ret req2)) \<and>
      (\<forall>e. r = Err e \<longrightarrow> m' = m)"
proof (cases "cm_crumb m = []")
  case True
  then show ?thesis using assms crumb_ask_Ret [of ovf env m "()" st]
    by (auto simp: Crumb_eq split: prod.splits go.splits)
next
  case False
  then show ?thesis using assms by (auto simp: Crumb_eq)
qed


section \<open>Examples\<close>

text \<open>A server that answers at once, and the default client with \<open>k\<close> tokens left.\<close>

definition answering :: "(Request \<Rightarrow> Response) \<Rightarrow> unit http_env" where
  "answering f = \<lparr>env_send = \<lambda>req s. (s, Inr (f req)), env_sleep = \<lambda>d s. (s, None), env_clock = \<lambda>_. 0, env_intn = \<lambda>n s. 0\<rparr>"

definition ready_client :: "int \<Rightarrow> Client" where
  "ready_client k = \<lparr>cl_config = DefaultConfig, cl_rateLimiter = unit_limiter k 0,
     cl_circuitBreaker = NewHttpCircuitBreaker (dur_mul 60 second) 3 (dur_mul 30 second)\<rparr>"

lemma answering_Wait: "k \<in> {1, 2, 3} \<Longrightarrow> limiter_Wait ovf (answering f) (unit_limiter k 0) () = ((unit_limiter (k - 1) 0, ()), Ret ())"
  by (auto simp: limiter_Wait_def wait_begin_def answering_def unit_limiter_def Seconds_unit f_sub_def Let_def time_Sub_def)

lemma answering_Do:
  assumes "k \<in> {1, 2, 3}" "\<And>req. rsp_StatusCode (f req) = 200"
  shows "Do ovf (answering f) req (ready_client k, ()) =
    ((ready_client (k - 1), ()), Ret (f (req\<lparr>rq_Header := (rq_Header req)(''User-Agent'' \<mapsto> hc_UserAgent DefaultConfig)\<rparr>)))"
proof -
  have w: "limiter_Wait ovf (answering f) (unit_limiter k 0) () = ((unit_limiter (k - 1) 0, ()), Ret ())"
    by (rule answering_Wait) (use assms in simp)
  have m: "nat (hc_MaxAttempts DefaultConfig) = Suc 2" "hc_MaxAttempts DefaultConfig = 3" by (simp_all add: DefaultConfig_def)
  have l: "do_loop ovf (answering f) DefaultConfig rq (Suc 2) 0 None (NewHttpCircuitBreaker win n reset, ()) =
      ((NewHttpCircuitBreaker win n reset, ()), Ret (f rq))" for rq win n reset
    unfolding do_loop.simps
    by (simp add: answering_def shouldRetryResponse_def isSuccessResponse_def assms(2) m RecordSuccess_def NewHttpCircuitBreaker_def)
  then have l3: "do_loop ovf (answering f) DefaultConfig rq 3 0 None (NewHttpCircuitBreaker win n reset, ()) =
      ((NewHttpCircuitBreaker win n reset, ()), Ret (f rq))" for rq win n reset by simp
  have a: "Allow now (NewHttpCircuitBreaker win n reset) = (True, NewHttpCircuitBreaker win n reset)" for now win n reset
    by (simp add: Allow_def NewHttpCircuitBreaker_def)
  show ?thesis unfolding Do_def ready_client_def by (simp add: a w m(1) l3 Let_def)
qed

text \<open>A network in which every page is \<open>page\<close>.\<close>

definition page_yahoo :: "string \<Rightarrow> BarsResponse go \<Rightarrow> (string, unit) yahoo_env" where
  "page_yahoo page bars =
     \<lparr>ye_http = answering (\<lambda>_. \<lparr>rsp_StatusCode = 200, rsp_Body = (page, None)\<rparr>), ye_parse = Ret, ye_string = \<lambda>u q. u @ ''?'' @ q,
      ye_request = \<lambda>u. Ret \<lparr>rq_URL = u, rq_Path = u, rq_Header = Map.empty\<rparr>, ye_bars = \<lambda>_. bars,
      ye_fundamentals = \<lambda>_. Err (Errorf ''eof'' [])\<rparr>"

lemma page_send:
  assumes "k \<in> {1, 2, 3}" "\<And>r. wr (Ret r) = Ret r" "\<And>r. wd (Ret r) = Ret r"
  shows "send ovf (page_yahoo page bars) wr wd u (ready_client k, ()) =
    ((ready_client (k - 1), ()), Ret \<lparr>rsp_StatusCode = 200, rsp_Body = (page, None)\<rparr>)"
  using assms answering_Do [of k "\<lambda>_. \<lparr>rsp_StatusCode = 200, rsp_Body = (page, None)\<rparr>" ovf] by (simp add: send_def page_yahoo_def)

lemma Crumb_spec_witness:
  "\<exists>m'. Crumb (\<lambda>_. 0) (page_yahoo ''crumb'' (Err ErrDecode)) (NewCrumbManager [] [], (ready_client 3, ())) =
      ((m', (ready_client 1, ())), Ret ''crumb'') \<and>
    m' = (NewCrumbManager [] [])\<lparr>cm_crumb := ''crumb''\<rparr> \<and> valid_crumb ''crumb''"
proof -
  let ?e = "page_yahoo ''crumb'' (Err ErrDecode)" and ?m = "NewCrumbManager [] []"
  have v: "valid_crumb ''crumb''" by code_simp
  have t: "TrimSpace ''crumb'' = ''crumb''" by (simp add: TrimSpace_def is_space_def code_of_def)
  have "Crumb (\<lambda>_. 0) ?e (?m, (ready_client 3, ())) = ((?m\<lparr>cm_crumb := ''crumb''\<rparr>, (ready_client 1, ())), Ret ''crumb'')"
    by (simp add: Crumb_def bootstrapCookie_def fetchCrumb_def page_send NewCrumbManager_def v t ReadAll_def)
  then show ?thesis using Crumb_spec [of "\<lambda>_. 0" ?e ?m "(ready_client 3, ())"] by (fastforce simp: NewCrumbManager_def)
qed

end
