(* ===== verification/MarketClient.thy ===== *)
theory MarketClient
  imports YahooClient ScrapeClient Normalize EmitNews EmitFinancials ScrapeStatistics ScrapeAnalysis
begin

text \<open>
  The client of the library, \<^verbatim>\<open>client.go\<close>: it fetches, normalizes, scrapes and maps, and remembers the market of each symbol. It
  composes the Yahoo client, the scraping client, the normalizers, the parsers and the mappers, all over one HTTP client. The
  pattern variables of \<^verbatim>\<open>internal/scrape\<close> are part of the state.
\<close>

section \<open>State\<close>

record Patterns =
  pt_Financials :: "FinancialsRegexConfig option"
  pt_Statistics :: "ks_RegexConfig option"
  pt_Analysis :: "AnalysisRegexConfig option"
  pt_Insights :: "AnalystInsightsRegexConfig option"
  pt_News :: "NewsRegexConfig option"

record MarketClient =
  mk_yahoo :: YahooClient
  mk_scrape :: scrapeClient
  mk_mics :: "string \<rightharpoonup> string"
  mk_patterns :: Patterns

definition no_patterns :: Patterns where
  "no_patterns = \<lparr>pt_Financials = None, pt_Statistics = None, pt_Analysis = None, pt_Insights = None, pt_News = None\<rparr>"

definition market_NewClient :: "(f64 \<Rightarrow> int) \<Rightarrow> instant \<Rightarrow> MarketClient \<times> Client" where
  "market_NewClient ovf now =
     (\<lparr>mk_yahoo = yahoo_NewClient '''', mk_scrape = scrape_NewClient (Some scrape_DefaultConfig), mk_mics = Map.empty,
       mk_patterns = no_patterns\<rparr>,
      NewClient ovf now (Some DefaultConfig))"

definition NewClientWithConfig :: "(f64 \<Rightarrow> int) \<Rightarrow> instant \<Rightarrow> HttpConfig \<Rightarrow> MarketClient \<times> Client" where
  "NewClientWithConfig ovf now config =
     (\<lparr>mk_yahoo = yahoo_NewClient (hc_BaseURL config), mk_scrape = scrape_NewClient (Some scrape_DefaultConfig), mk_mics = Map.empty,
       mk_patterns = no_patterns\<rparr>,
      NewClient ovf now (Some config))"

text \<open>
  The libraries the parsers use: \<open>me_float\<close> is \<^verbatim>\<open>strconv.ParseFloat\<close>, \<open>me_order\<close> the order in which Go ranges over the map of
  patterns, \<open>me_dir\<close>, \<open>me_read\<close> and the decoders load the pattern files, \<open>me_ts\<close> makes a timestamp.
\<close>

record ('u, 's, 'ts) market_env =
  me_yahoo :: "('u, 's) yahoo_env"
  me_fetch :: "'s net fetch_env"
  me_text :: text_lib
  me_float :: "string \<Rightarrow> f64 option"
  me_find :: "string \<Rightarrow> string \<Rightarrow> string list go"
  me_all :: "string \<Rightarrow> string \<Rightarrow> string list list go"
  me_order :: "(string \<times> string) list \<Rightarrow> (string \<times> string) list"
  me_news :: news_lib
  me_query :: query_lib
  me_sort :: "(NewsItem \<Rightarrow> NewsItem \<Rightarrow> bool) \<Rightarrow> NewsItem list \<Rightarrow> NewsItem list"
  me_clock :: "'s net \<Rightarrow> nat \<Rightarrow> instant"
  me_ts :: "instant \<Rightarrow> 'ts"
  me_dir :: "string option"
  me_read :: "string \<Rightarrow> string go"
  me_dec_fin :: "string \<Rightarrow> FinancialsRegexConfig \<times> goerror option"
  me_dec_stat :: "string \<Rightarrow> ks_RegexConfig \<times> goerror option"
  me_dec_ana :: "string \<Rightarrow> AnalysisRegexConfig \<times> goerror option"
  me_dec_ins :: "string \<Rightarrow> AnalystInsightsRegexConfig \<times> goerror option"
  me_dec_news :: "string \<Rightarrow> NewsRegexConfig \<times> goerror option"

definition me_now :: "('u, 's, 'ts) market_env \<Rightarrow> 's net \<Rightarrow> instant" where
  "me_now env st = net_now (me_yahoo env) st"

section \<open>Fetching and normalizing\<close>

definition normalized_bars ::
  "(f64 \<Rightarrow> int) \<Rightarrow> ('u, 's, 'ts) market_env \<Rightarrow> string \<Rightarrow> 's net \<times> BarsResponse go \<Rightarrow> 's net \<times> NormalizedBarBatch go" where
  "normalized_bars ovf env runID = (\<lambda>(st, r). (st,
     go_bind r (\<lambda>barsResp.
     go_bind (GetBars barsResp) (\<lambda>bars.
     case GetMetadata barsResp of None \<Rightarrow> Err (Errorf ''missing metadata'' [])
     | Some meta \<Rightarrow> NormalizeBars ovf (me_now env st) bars (Some meta) runID))))"

definition FetchDailyBars ::
  "(f64 \<Rightarrow> int) \<Rightarrow> ('u, 's, 'ts) market_env \<Rightarrow> MarketClient \<Rightarrow> string \<Rightarrow> instant \<Rightarrow> instant \<Rightarrow> bool \<Rightarrow> string \<Rightarrow>
   's net \<Rightarrow> 's net \<times> NormalizedBarBatch go" where
  "FetchDailyBars ovf env c symbol start end_t adjusted runID st =
     normalized_bars ovf env runID (yahoo_FetchDailyBars ovf (me_yahoo env) (mk_yahoo c) symbol start end_t adjusted st)"

definition FetchIntradayBars ::
  "(f64 \<Rightarrow> int) \<Rightarrow> ('u, 's, 'ts) market_env \<Rightarrow> MarketClient \<Rightarrow> string \<Rightarrow> instant \<Rightarrow> instant \<Rightarrow> string \<Rightarrow> string \<Rightarrow>
   's net \<Rightarrow> 's net \<times> NormalizedBarBatch go" where
  "FetchIntradayBars ovf env c symbol start end_t interval runID st =
     normalized_bars ovf env runID (yahoo_FetchIntradayBars ovf (me_yahoo env) (mk_yahoo c) symbol start end_t interval st)"

definition FetchWeeklyBars ::
  "(f64 \<Rightarrow> int) \<Rightarrow> ('u, 's, 'ts) market_env \<Rightarrow> MarketClient \<Rightarrow> string \<Rightarrow> instant \<Rightarrow> instant \<Rightarrow> bool \<Rightarrow> string \<Rightarrow>
   's net \<Rightarrow> 's net \<times> NormalizedBarBatch go" where
  "FetchWeeklyBars ovf env c symbol start end_t adjusted runID st =
     normalized_bars ovf env runID (yahoo_FetchWeeklyBars ovf (me_yahoo env) (mk_yahoo c) symbol start end_t adjusted st)"

definition FetchMonthlyBars ::
  "(f64 \<Rightarrow> int) \<Rightarrow> ('u, 's, 'ts) market_env \<Rightarrow> MarketClient \<Rightarrow> string \<Rightarrow> instant \<Rightarrow> instant \<Rightarrow> bool \<Rightarrow> string \<Rightarrow>
   's net \<Rightarrow> 's net \<times> NormalizedBarBatch go" where
  "FetchMonthlyBars ovf env c symbol start end_t adjusted runID st =
     normalized_bars ovf env runID (yahoo_FetchMonthlyBars ovf (me_yahoo env) (mk_yahoo c) symbol start end_t adjusted st)"

definition FetchQuote ::
  "(f64 \<Rightarrow> int) \<Rightarrow> ('u, 's, 'ts) market_env \<Rightarrow> MarketClient \<Rightarrow> string \<Rightarrow> string \<Rightarrow> 's net \<Rightarrow> 's net \<times> NormalizedQuote go" where
  "FetchQuote ovf env c symbol runID st =
     (case yahoo_FetchQuote ovf (me_yahoo env) (mk_yahoo c) symbol st of
        (st', r) \<Rightarrow> (st', go_bind r (\<lambda>quoteResp.
          case GetQuotes quoteResp of [] \<Rightarrow> Err (Errorf ''no quotes found'' [])
          | quote # _ \<Rightarrow> NormalizeQuote ovf (me_now env st') quote runID)))"

definition isAuthenticationError :: "text_lib \<Rightarrow> goerror option \<Rightarrow> bool" where
  "isAuthenticationError tx err =
     (case err of None \<Rightarrow> False
      | Some e \<Rightarrow> Contains (error_text tx e) ''401'' \<or> Contains (error_text tx e) ''Unauthorized'' \<or>
                  Contains (error_text tx e) ''authentication'')"

definition FetchFundamentalsQuarterly ::
  "(f64 \<Rightarrow> int) \<Rightarrow> ('u, 's, 'ts) market_env \<Rightarrow> string \<Rightarrow> string \<Rightarrow> MarketClient \<times> 's net \<Rightarrow>
   (MarketClient \<times> 's net) \<times> NormalizedFundamentalsSnapshot go" where
  "FetchFundamentalsQuarterly ovf env symbol runID = (\<lambda>(c, st).
     (case yahoo_FetchFundamentalsQuarterly ovf (me_yahoo env) symbol (mk_yahoo c, st) of
        ((yc, st'), r) \<Rightarrow>
          ((c\<lparr>mk_yahoo := yc\<rparr>, st'),
           case r of
             Err e \<Rightarrow> if isAuthenticationError (me_text env) (Some e)
               then Err (Wrapf ''fundamentals data requires Yahoo Finance paid subscription: %w'' [] e) else Err e
           | Panic p \<Rightarrow> Panic p
           | Ret resp \<Rightarrow> go_bind (GetFundamentals resp) (\<lambda>fu.
               NormalizeFundamentals ovf (me_now env st') (Some fu) symbol runID))))"

definition fetch_metadata ::
  "(f64 \<Rightarrow> int) \<Rightarrow> ('u, 's, 'ts) market_env \<Rightarrow> MarketClient \<Rightarrow> string \<Rightarrow> 's net \<Rightarrow> 's net \<times> ChartMeta go" where
  "fetch_metadata ovf env c symbol st =
     (let end_t = me_now env st; start = AddDate end_t 0 0 (- 1) in
      case yahoo_FetchDailyBars ovf (me_yahoo env) (mk_yahoo c) symbol start end_t True st of
        (st', r) \<Rightarrow> (st', go_bind r (\<lambda>barsResp.
          case GetMetadata barsResp of None \<Rightarrow> Err (Errorf ''missing metadata'' []) | Some meta \<Rightarrow> Ret meta)))"

definition FetchCompanyInfo ::
  "(f64 \<Rightarrow> int) \<Rightarrow> ('u, 's, 'ts) market_env \<Rightarrow> MarketClient \<Rightarrow> string \<Rightarrow> string \<Rightarrow> 's net \<Rightarrow> 's net \<times> NormalizedCompanyInfo go" where
  "FetchCompanyInfo ovf env c symbol runID st =
     (case fetch_metadata ovf env c symbol st of
        (st', r) \<Rightarrow> (st', go_bind r (\<lambda>meta. NormalizeCompanyInfo (me_now env st') (me_now env st') (Some meta) runID)))"

definition FetchMarketData ::
  "(f64 \<Rightarrow> int) \<Rightarrow> ('u, 's, 'ts) market_env \<Rightarrow> MarketClient \<Rightarrow> string \<Rightarrow> string \<Rightarrow> 's net \<Rightarrow> 's net \<times> NormalizedMarketData go" where
  "FetchMarketData ovf env c symbol runID st =
     (case fetch_metadata ovf env c symbol st of
        (st', r) \<Rightarrow> (st', go_bind r (\<lambda>meta. NormalizeMarketData ovf (me_now env st') (me_now env st') (Some meta) runID)))"

section \<open>The market of a symbol\<close>

definition inferMICForSymbol ::
  "(f64 \<Rightarrow> int) \<Rightarrow> ('u, 's, 'ts) market_env \<Rightarrow> string \<Rightarrow> MarketClient \<times> 's net \<Rightarrow> (MarketClient \<times> 's net) \<times> string go" where
  "inferMICForSymbol ovf env symbol = (\<lambda>(c, st).
     (case mk_mics c symbol of
        Some mic \<Rightarrow> ((c, st), Ret mic)
      | None \<Rightarrow>
          (case FetchCompanyInfo ovf env c symbol ''mic-inference'' st of
             (st', Err e) \<Rightarrow> ((c\<lparr>mk_mics := (mk_mics c)(symbol \<mapsto> [])\<rparr>, st'), Ret [])
           | (st', Panic p) \<Rightarrow> ((c, st'), Panic p)
           | (st', Ret info) \<Rightarrow>
               let mic = InferMIC (nc_Exchange info) (nc_FullExchangeName info)
               in ((c\<lparr>mk_mics := (mk_mics c)(symbol \<mapsto> mic)\<rparr>, st'), Ret mic))))"

section \<open>Scraping\<close>

definition loaded :: "'c option \<times> unit go \<Rightarrow> 'c go" where
  "loaded r = (case r of
     (st, Err e) \<Rightarrow> Err e | (st, Panic p) \<Rightarrow> Panic p
   | (st, Ret _) \<Rightarrow> (case st of Some cfg \<Rightarrow> Ret cfg | None \<Rightarrow> Panic ''nil pointer dereference''))"

definition quote_page :: "string \<Rightarrow> string \<Rightarrow> string" where
  "quote_page symbol page = ''https://finance.yahoo.com/quote/'' @ symbol @ ''/'' @ page"

definition fetch_page ::
  "(f64 \<Rightarrow> int) \<Rightarrow> ('u, 's, 'ts) market_env \<Rightarrow> string \<Rightarrow> string \<Rightarrow> MarketClient \<times> 's net \<Rightarrow> (MarketClient \<times> 's net) \<times> string go" where
  "fetch_page ovf env what url = (\<lambda>(c, st).
     (case Fetch ovf ((me_fetch env)\<lparr>fe_do := Do ovf (ye_http (me_yahoo env))\<rparr>) url (mk_scrape c, st) of
        ((sc, st'), r) \<Rightarrow>
          ((c\<lparr>mk_scrape := sc\<rparr>, st'), go_bind (go_wrap (''failed to fetch '' @ what @ '': %w'') [] r) (\<lambda>(body, meta). Ret body))))"

text \<open>
  The page is fetched, the market inferred, the body parsed with the market (the parser may load its patterns), and the result
  mapped.
\<close>

definition scrape_page ::
  "(f64 \<Rightarrow> int) \<Rightarrow> ('u, 's, 'ts) market_env \<Rightarrow> string \<Rightarrow> string \<Rightarrow> string \<Rightarrow>
   (Patterns \<Rightarrow> instant \<Rightarrow> string \<Rightarrow> string \<Rightarrow> Patterns \<times> 'd go) \<Rightarrow> ('d \<Rightarrow> 'r go) \<Rightarrow> MarketClient \<times> 's net \<Rightarrow> (MarketClient \<times> 's net) \<times> 'r go" where
  "scrape_page ovf env what page symbol parse map_dto cst =
     (case fetch_page ovf env what (quote_page symbol page) cst of
        (cst1, Err e) \<Rightarrow> (cst1, Err e)
      | (cst1, Panic p) \<Rightarrow> (cst1, Panic p)
      | (cst1, Ret body) \<Rightarrow>
          (case inferMICForSymbol ovf env symbol cst1 of
             (cst2, Err e) \<Rightarrow> (cst2, Err e)
           | (cst2, Panic p) \<Rightarrow> (cst2, Panic p)
           | ((c2, st2), Ret mic) \<Rightarrow>
               (case parse (mk_patterns c2) (me_now env st2) body mic of
                  (pt, dto) \<Rightarrow> ((c2\<lparr>mk_patterns := pt\<rparr>, st2),
                    go_bind (go_wrap (''failed to parse '' @ what @ '': %w'') [] dto) map_dto))))"

definition parse_financials ::
  "(f64 \<Rightarrow> int) \<Rightarrow> ('u, 's, 'ts) market_env \<Rightarrow> string \<Rightarrow> Patterns \<Rightarrow> instant \<Rightarrow> string \<Rightarrow> string \<Rightarrow> Patterns \<times> ComprehensiveFinancialsDTO go" where
  "parse_financials ovf env symbol pt now body mic =
     (let l = LoadFinancialsRegexConfig (me_dir env) (me_read env) (me_dec_fin env) (pt_Financials pt)
      in (pt\<lparr>pt_Financials := fst l\<rparr>,
          ParseComprehensiveFinancials (me_float env) ovf (me_find env) (loaded l) now body symbol mic))"

definition parse_statistics ::
  "(f64 \<Rightarrow> int) \<Rightarrow> ('u, 's, 'ts) market_env \<Rightarrow> string \<Rightarrow> Patterns \<Rightarrow> instant \<Rightarrow> string \<Rightarrow> string \<Rightarrow> Patterns \<times> ComprehensiveKeyStatisticsDTO go" where
  "parse_statistics ovf env symbol pt now body mic =
     (let l = LoadRegexConfig (me_dir env) (me_read env) (me_dec_stat env) (pt_Statistics pt)
      in (pt\<lparr>pt_Statistics := fst l\<rparr>,
          ParseComprehensiveKeyStatistics (me_float env) ovf (me_find env) (me_all env) (loaded l) now body symbol mic))"

definition parse_analysis ::
  "('u, 's, 'ts) market_env \<Rightarrow> string \<Rightarrow> Patterns \<Rightarrow> instant \<Rightarrow> string \<Rightarrow> string \<Rightarrow> Patterns \<times> ComprehensiveAnalysisDTO go" where
  "parse_analysis env symbol pt now body mic =
     (let l = LoadAnalysisRegexConfig (me_dir env) (me_read env) (me_dec_ana env) (pt_Analysis pt)
      in (pt\<lparr>pt_Analysis := fst l\<rparr>,
          ParseAnalysis (me_float env) (me_find env) (me_all env) (loaded l) now body symbol mic))"

definition parse_insights ::
  "('u, 's, 'ts) market_env \<Rightarrow> string \<Rightarrow> Patterns \<Rightarrow> instant \<Rightarrow> string \<Rightarrow> string \<Rightarrow> Patterns \<times> AnalystInsightsDTO go" where
  "parse_insights env symbol pt now body mic =
     (let l = LoadAnalystInsightsRegexConfig (me_dir env) (me_read env) (me_dec_ins env) (pt_Insights pt)
      in (pt\<lparr>pt_Insights := fst l\<rparr>,
          ParseAnalystInsights (me_float env) (me_find env) (loaded l)
            (case loaded l of Ret cfg \<Rightarrow> me_order env (insight_patterns cfg) | _ \<Rightarrow> []) now body symbol mic))"

definition first_snapshot :: "'a list go \<Rightarrow> 'a go" where
  "first_snapshot r = go_bind (go_wrap ''failed to map financials: %w'' [] r) (\<lambda>snapshots.
     case snapshots of [] \<Rightarrow> Err (Errorf ''no financials data found'' []) | s # _ \<Rightarrow> Ret s)"

definition producer :: string where "producer = ''yfinance-go''"

type_synonym ('s, 'r) scrape_op = "MarketClient \<times> 's net \<Rightarrow> (MarketClient \<times> 's net) \<times> 'r go"

definition ScrapeFinancials ::
  "(f64 \<Rightarrow> int) \<Rightarrow> ('u, 's, 'ts) market_env \<Rightarrow> string \<Rightarrow> string \<Rightarrow> ('s, 'ts pb_FundamentalsSnapshot) scrape_op" where
  "ScrapeFinancials ovf env symbol runID = scrape_page ovf env ''financials'' ''financials'' symbol (parse_financials ovf env symbol)
     (\<lambda>dto. first_snapshot (MapComprehensiveFinancialsDTO (me_ts env) (Some dto) runID producer))"

definition ScrapeBalanceSheet ::
  "(f64 \<Rightarrow> int) \<Rightarrow> ('u, 's, 'ts) market_env \<Rightarrow> string \<Rightarrow> string \<Rightarrow> ('s, 'ts pb_FundamentalsSnapshot) scrape_op" where
  "ScrapeBalanceSheet ovf env symbol runID = scrape_page ovf env ''balance sheet'' ''balance-sheet'' symbol (parse_financials ovf env symbol)
     (\<lambda>dto. MapBalanceSheetDTO (me_ts env) (Some dto) runID producer)"

definition ScrapeCashFlow ::
  "(f64 \<Rightarrow> int) \<Rightarrow> ('u, 's, 'ts) market_env \<Rightarrow> string \<Rightarrow> string \<Rightarrow> ('s, 'ts pb_FundamentalsSnapshot) scrape_op" where
  "ScrapeCashFlow ovf env symbol runID = scrape_page ovf env ''cash flow'' ''cash-flow'' symbol (parse_financials ovf env symbol)
     (\<lambda>dto. MapCashFlowDTO (me_ts env) (Some dto) runID producer)"

definition ScrapeKeyStatistics ::
  "(f64 \<Rightarrow> int) \<Rightarrow> ('u, 's, 'ts) market_env \<Rightarrow> string \<Rightarrow> string \<Rightarrow> ('s, 'ts pb_FundamentalsSnapshot) scrape_op" where
  "ScrapeKeyStatistics ovf env symbol runID = scrape_page ovf env ''key statistics'' ''key-statistics'' symbol (parse_statistics ovf env symbol)
     (\<lambda>dto. MapKeyStatisticsDTO (me_ts env) (Some dto) runID producer)"

definition ScrapeAnalysis ::
  "(f64 \<Rightarrow> int) \<Rightarrow> ('u, 's, 'ts) market_env \<Rightarrow> string \<Rightarrow> string \<Rightarrow> ('s, 'ts pb_FundamentalsSnapshot) scrape_op" where
  "ScrapeAnalysis ovf env symbol runID = scrape_page ovf env ''analysis'' ''analysis'' symbol (parse_analysis env symbol)
     (\<lambda>dto. MapAnalysisDTO (me_float env) ovf (me_ts env) (Some dto) runID producer)"

definition ScrapeAnalystInsights ::
  "(f64 \<Rightarrow> int) \<Rightarrow> ('u, 's, 'ts) market_env \<Rightarrow> string \<Rightarrow> string \<Rightarrow> ('s, 'ts pb_FundamentalsSnapshot) scrape_op" where
  "ScrapeAnalystInsights ovf env symbol runID = scrape_page ovf env ''analyst insights'' ''analyst-insights'' symbol (parse_insights env symbol)
     (\<lambda>dto. MapAnalystInsightsDTO ovf (me_ts env) (Some dto) runID producer)"

definition market_ScrapeNews ::
  "(f64 \<Rightarrow> int) \<Rightarrow> ('u, 's, 'ts) market_env \<Rightarrow> string \<Rightarrow> string \<Rightarrow> ('s, 'ts pb_NewsItem list) scrape_op" where
  "market_ScrapeNews ovf env symbol runID cst =
     (case fetch_page ovf env ''news'' (quote_page symbol ''news'') cst of
        (cst1, Err e) \<Rightarrow> (cst1, Err e)
      | (cst1, Panic p) \<Rightarrow> (cst1, Panic p)
      | ((c1, st1), Ret body) \<Rightarrow>
          (case ParseNews (me_news env) (me_sort env) (LoadNewsRegexConfig (me_dir env) (me_read env) (me_dec_news env))
              (pt_News (mk_patterns c1)) body ''https://finance.yahoo.com'' (me_now env st1) of
             (pn, r) \<Rightarrow> ((c1\<lparr>mk_patterns := (mk_patterns c1)\<lparr>pt_News := pn\<rparr>\<rparr>, st1),
               go_bind (go_wrap ''failed to parse news: %w'' [] r) (\<lambda>(articles, stats).
               go_wrap ''failed to map news: %w'' []
                 (MapNewsItems (me_ts env) (me_news env) (me_query env) (me_clock env st1) articles runID producer)))))"

text \<open>The six pages of the fundamentals, in order; the first error ends the scrape and loses the pages before it.\<close>

definition fundamentals_pages ::
  "(f64 \<Rightarrow> int) \<Rightarrow> ('u, 's, 'ts) market_env \<Rightarrow> string \<Rightarrow> string \<Rightarrow> (string \<times> ('s, 'ts pb_FundamentalsSnapshot) scrape_op) list" where
  "fundamentals_pages ovf env symbol runID =
     [(''financials'', ScrapeFinancials ovf env symbol runID), (''balance sheet'', ScrapeBalanceSheet ovf env symbol runID),
      (''cash flow'', ScrapeCashFlow ovf env symbol runID), (''key statistics'', ScrapeKeyStatistics ovf env symbol runID),
      (''analysis'', ScrapeAnalysis ovf env symbol runID), (''analyst insights'', ScrapeAnalystInsights ovf env symbol runID)]"

fun scrape_each :: "(string \<times> ('s, 'r) scrape_op) list \<Rightarrow> ('s, 'r list) scrape_op" where
  "scrape_each [] cst = (cst, Ret [])"
| "scrape_each ((what, f) # fs) cst =
     (case f cst of (cst1, r) \<Rightarrow>
        (case go_wrap (''failed to scrape '' @ what @ '': %w'') [] r of
           Err e \<Rightarrow> (cst1, Err e)
         | Panic p \<Rightarrow> (cst1, Panic p)
         | Ret snapshot \<Rightarrow> (case scrape_each fs cst1 of (cst2, rest) \<Rightarrow> (cst2, go_bind rest (\<lambda>ss. Ret (snapshot # ss))))))"

definition ScrapeAllFundamentals ::
  "(f64 \<Rightarrow> int) \<Rightarrow> ('u, 's, 'ts) market_env \<Rightarrow> string \<Rightarrow> string \<Rightarrow> ('s, 'ts pb_FundamentalsSnapshot list) scrape_op" where
  "ScrapeAllFundamentals ovf env symbol runID = scrape_each (fundamentals_pages ovf env symbol runID)"


section \<open>Calls that do not panic\<close>

lemma do_loop_no_Panic: "snd (do_loop ovf env config req n i le st) \<noteq> Panic p"
proof (induction ovf env config req n i le st rule: do_loop.induct)
  case (2 ovf env config req n i lastErr cb s)
  then show ?case by (auto simp: Let_def split: prod.splits sum.splits option.splits if_splits)
qed simp

lemma Do_no_Panic: "snd (Do ovf env req st) \<noteq> Panic p"
proof -
  have w: "snd (limiter_Wait ovf env r s) \<noteq> Panic p" for r s
    by (auto simp: limiter_Wait_def Let_def split: prod.splits wait_result.splits option.splits)
  then have "limiter_Wait ovf env r s \<noteq> (x, Panic p)" for r s x by (metis snd_conv)
  moreover have "do_loop ovf env config req n i le st \<noteq> (x, Panic p)" for config req n i le st x
    using do_loop_no_Panic by (metis snd_conv)
  ultimately show ?thesis by (cases st) (auto simp: Do_def Let_def split: prod.splits go.splits)
qed

text \<open>Parsing a URL, building a request and decoding JSON give a result or an error.\<close>

definition calm :: "('u, 's) yahoo_env \<Rightarrow> bool" where
  "calm env \<longleftrightarrow> (\<forall>u p. ye_parse env u \<noteq> Panic p) \<and> (\<forall>u p. ye_request env u \<noteq> Panic p) \<and> (\<forall>b p. ye_bars env b \<noteq> Panic p)"

lemma send_no_Panic:
  assumes "calm env" "\<And>r. wr r = Panic p \<longleftrightarrow> r = Panic p" "\<And>r. wd r = Panic p \<longleftrightarrow> r = Panic p"
  shows "snd (send ovf env wr wd url st) \<noteq> Panic p"
proof -
  have "wr (ye_request env url) \<noteq> Panic p" using assms(1,2) by (simp add: calm_def)
  then show ?thesis using Do_no_Panic [of ovf "ye_http env" _ st p] assms(3)
    by (auto simp: send_def split: go.splits prod.splits) (metis snd_conv)
qed

lemma fetch_bars_no_Panic:
  assumes "calm env" "url \<noteq> Panic p"
  shows "snd (fetch_bars ovf env what url st) \<noteq> Panic p"
proof -
  have "snd (send ovf env (go_wrap f []) (go_wrap g []) u st) \<noteq> Panic p" for f g u
    by (rule send_no_Panic) (use assms in simp_all)
  moreover have "DecodeBarsResponseFromReader (ye_bars env) b \<noteq> Panic p" for b
    using assms(1) by (cases b) (auto simp: DecodeBarsResponseFromReader_def go_bind_eq_Panic calm_def BarsResponse_Validate_def
        ChartResult_Validate_no_Panic dest!: go_iter_Panic split: option.splits)
  ultimately show ?thesis using assms(2)
    by (auto simp: fetch_bars_def go_bind_eq_Panic split: go.splits prod.splits if_splits) (metis snd_conv)
qed

lemma FetchCompanyInfo_no_Panic: "calm (me_yahoo env) \<Longrightarrow> snd (FetchCompanyInfo ovf env c symbol runID st) \<noteq> Panic p"
proof -
  assume c: "calm (me_yahoo env)"
  have u: "buildBarsURL (me_yahoo env) yc symbol start end_t True \<noteq> Panic p" for yc start end_t
    using c by (simp add: buildBarsURL_def chart_url_def go_bind_eq_Panic calm_def)
  have "snd (yahoo_FetchDailyBars ovf (me_yahoo env) (mk_yahoo c) symbol start end_t True st) \<noteq> Panic p" for start end_t
    unfolding yahoo_FetchDailyBars_def by (rule fetch_bars_no_Panic) (use c u in simp_all)
  then show ?thesis
    by (auto simp: FetchCompanyInfo_def fetch_metadata_def NormalizeCompanyInfo_def Let_def go_bind_eq_Panic split: prod.splits option.splits)
      (metis snd_conv)
qed

section \<open>The market of a symbol as a table\<close>

definition mic_ask :: "(f64 \<Rightarrow> int) \<Rightarrow> ('u, 's, 'ts) market_env \<Rightarrow> MarketClient \<Rightarrow> string \<Rightarrow> 's net \<Rightarrow> 's net \<times> string go" where
  "mic_ask ovf env c symbol st =
     (case FetchCompanyInfo ovf env c symbol ''mic-inference'' st of
        (st', Err e) \<Rightarrow> (st', Ret [])
      | (st', Panic p) \<Rightarrow> (st', Panic p)
      | (st', Ret info) \<Rightarrow> (st', Ret (InferMIC (nc_Exchange info) (nc_FullExchangeName info))))"

lemma mic_ask_cache: "mic_ask ovf env (c\<lparr>mk_mics := m\<rparr>) = mic_ask ovf env c"
  by (intro ext) (simp add: mic_ask_def FetchCompanyInfo_def fetch_metadata_def)

lemma inferMIC_eq:
  "inferMICForSymbol ovf env symbol (c, st) =
     (case mk_mics c symbol of Some mic \<Rightarrow> ((c, st), Ret mic)
      | None \<Rightarrow> (case mic_ask ovf env c symbol st of
          (st', Ret mic) \<Rightarrow> ((c\<lparr>mk_mics := (mk_mics c)(symbol \<mapsto> mic)\<rparr>, st'), Ret mic)
        | (st', r) \<Rightarrow> ((c, st'), r)))"
  by (auto simp: inferMICForSymbol_def mic_ask_def Let_def split: option.splits prod.splits go.splits)

text \<open>No other field of the client is written.\<close>

lemma inferMIC_frame:
  "inferMICForSymbol ovf env symbol (c, st) = ((c', st'), r) \<Longrightarrow>
     mk_yahoo c' = mk_yahoo c \<and> mk_scrape c' = mk_scrape c \<and> mk_patterns c' = mk_patterns c"
  by (auto simp: inferMIC_eq split: option.splits prod.splits go.splits)

lemma inferMIC_all_frame:
  "run_all (inferMICForSymbol ovf env) symbols (c, st) = ((c', st'), rs) \<Longrightarrow>
     mk_yahoo c' = mk_yahoo c \<and> mk_scrape c' = mk_scrape c \<and> mk_patterns c' = mk_patterns c"
proof (induction symbols arbitrary: c st rs)
  case (Cons k ks)
  obtain c1 st1 r where g: "inferMICForSymbol ovf env k (c, st) = ((c1, st1), r)" by (metis prod.collapse)
  obtain rs1 where "run_all (inferMICForSymbol ovf env) ks (c1, st1) = ((c', st'), rs1)"
    using Cons.prems by (auto simp: g split: prod.splits)
  from Cons.IH [OF this] inferMIC_frame [OF g] show ?case by simp
qed simp

interpretation mic: memo mk_mics "inferMICForSymbol ovf env" "mic_ask ovf env" for ovf env
proof unfold_locales
  fix k c st c' st' r
  assume a: "inferMICForSymbol ovf env k (c, st) = ((c', st'), r)"
  show "memo_get (mic_ask ovf env c) k (mk_mics c, st) = ((mk_mics c', st'), r)"
    using a by (auto simp: inferMIC_eq memo_get_def split: option.splits prod.splits go.splits)
  show "mic_ask ovf env c' = mic_ask ovf env c"
    using a by (auto simp: inferMIC_eq mic_ask_cache split: option.splits prod.splits go.splits)
qed


text \<open>
  C2: The table of markets of the public client refines the function that asks the chart
  endpoint: over any sequence of symbols, repetitions included, inferMICForSymbol answers
  every time what the table it ends with holds for the symbol, keeps every market already
  stored, adds exactly the symbols asked for, asks only for symbols not yet in the table, and
  leaves the Yahoo client, the page client and the patterns of the market client as they were,
  provided the URL parser, the decoder and the HTTP client do not panic.
\<close>

theorem mic_cache_refinement:
  assumes "calm (me_yahoo env)" "run_all (inferMICForSymbol ovf env) symbols (c, st) = ((c', st'), rs)"
  shows "rs = map (\<lambda>k. Ret (the (mk_mics c' k))) symbols \<and> mk_mics c \<subseteq>\<^sub>m mk_mics c' \<and>
    dom (mk_mics c') = dom (mk_mics c) \<union> set symbols \<and>
    st' = fst (run_all (mic_ask ovf env c) (missing (dom (mk_mics c)) symbols) st) \<and>
    mk_yahoo c' = mk_yahoo c \<and> mk_scrape c' = mk_scrape c \<and> mk_patterns c' = mk_patterns c"
proof -
  have "FetchCompanyInfo ovf env c k runID s \<noteq> (x, Panic p)" for k runID s x p
    using FetchCompanyInfo_no_Panic [OF assms(1), of ovf c k runID s p] by auto
  then have "\<exists>s' v. mic_ask ovf env c k s = (s', Ret v)" for k s
    by (auto simp: mic_ask_def split: prod.splits go.splits)
  from mic.run_total [OF this assms(2)] inferMIC_all_frame [OF assms(2)] show ?thesis by simp
qed

section \<open>From the wire to the batch\<close>

lemma fetch_bars_Ret:
  assumes "fetch_bars ovf env what url st = (st', Ret response)"
  shows "BarsResponse_Validate response = Ret () \<and> (\<exists>meta. GetMetadata response = Some meta) \<and>
    (\<exists>u req resp. url = Ret u \<and> ye_request env u = Ret req \<and> Do ovf (ye_http env) req st = (st', Ret resp) \<and> isSuccessResponse resp \<and>
       ye_bars env (rsp_Body resp) = Ret response)"
proof -
  obtain u where u: "url = Ret u" using assms by (auto simp: fetch_bars_def split: go.splits)
  obtain resp where s: "send ovf env (go_wrap ''failed to create request: %w'' []) (go_wrap (''failed to fetch '' @ what @ ''bars: %w'') []) u st = (st', Ret resp)"
      and d: "DecodeBarsResponseFromReader (ye_bars env) (rsp_Body resp) = Ret response" "GetMetadata response \<noteq> None"
    using assms u by (auto simp: fetch_bars_def go_bind_eq_Ret split: prod.splits if_splits)
  have "ye_bars env (rsp_Body resp) = Ret response \<and> BarsResponse_Validate response = Ret ()"
    using d(1) by (auto simp: DecodeBarsResponseFromReader_def go_bind_eq_Ret)
  moreover have "isSuccessResponse resp \<and> (\<exists>req. ye_request env u = Ret req \<and> Do ovf (ye_http env) req st = (st', Ret resp))"
    by (rule send_Ret [OF s]) simp_all
  ultimately show ?thesis using u d(2) by blast
qed

lemma NormalizeBars_Ret:
  assumes "NormalizeBars ovf now bars (Some meta) runID = Ret batch"
  shows "nbb_Bars batch \<noteq> [] \<and> nbb_Security batch = CreateSecurity (cm_Symbol meta) (cm_ExchangeName meta) (cm_ExchangeName meta) \<and>
    Symbol (nbb_Security batch) \<noteq> [] \<and> mt_RunID (nbb_Meta batch) = runID"
  using assms by (auto simp: NormalizeBars_def go_bind_eq_Ret ValidateSecurity_def Let_def split: if_splits)

text \<open>
  C4: When FetchDailyBars of the public client returns a batch, the HTTP client answered with
  a status of 200 to 299, the decoded response has metadata and at least one bar and every bar
  passed validation; the batch is not empty, carries the run id of the call and the security
  of the metadata, and matches the bars one by one when their values fit.
\<close>

theorem FetchDailyBars_sound:
  assumes "FetchDailyBars ovf env c symbol start end_t adjusted runID st = (st', Ret batch)"
  shows "\<exists>req resp response meta bars.
    Do ovf (ye_http (me_yahoo env)) req st = (st', Ret resp) \<and> isSuccessResponse resp \<and>
    ye_bars (me_yahoo env) (rsp_Body resp) = Ret response \<and> GetMetadata response = Some meta \<and>
    GetBars response = Ret bars \<and> bars \<noteq> [] \<and> list_all bar_ok bars \<and>
    nbb_Bars batch \<noteq> [] \<and> Symbol (nbb_Security batch) \<noteq> [] \<and> mt_RunID (nbb_Meta batch) = runID \<and>
    nbb_Security batch = CreateSecurity (cm_Symbol meta) (cm_ExchangeName meta) (cm_ExchangeName meta) \<and>
    (list_all bar_fits bars \<and> cm_Symbol meta \<noteq> ''.T'' \<longrightarrow> list_all2 nb_matches bars (nbb_Bars batch))"
proof -
  obtain response where f: "yahoo_FetchDailyBars ovf (me_yahoo env) (mk_yahoo c) symbol start end_t adjusted st = (st', Ret response)"
      and g: "go_bind (GetBars response) (\<lambda>bars. case GetMetadata response of None \<Rightarrow> Err (Errorf ''missing metadata'' [])
        | Some meta \<Rightarrow> NormalizeBars ovf (me_now env st') bars (Some meta) runID) = Ret batch"
    using assms by (auto simp: FetchDailyBars_def normalized_bars_def go_bind_eq_Ret split: prod.splits)
  note w = fetch_bars_Ret [OF f [unfolded yahoo_FetchDailyBars_def]]
  then obtain meta where meta: "GetMetadata response = Some meta" by blast
  obtain bars where bars: "GetBars response = Ret bars" "bars \<noteq> []" "list_all bar_ok bars"
    using validated_bars [of response] w by blast
  have n: "NormalizeBars ovf (me_now env st') bars (Some meta) runID = Ret batch" using g bars(1) meta by simp
  note r = NormalizeBars_Ret [OF n]
  have "cm_Symbol meta \<noteq> []"
    using r by (auto simp: CreateSecurity_def cleanSymbol_def HasSuffix_def Let_def split: if_splits)
  then have "list_all bar_fits bars \<and> cm_Symbol meta \<noteq> ''.T'' \<longrightarrow> list_all2 nb_matches bars (nbb_Bars batch)"
    using NormalizeBars_fits [OF bars(2), of meta ovf "me_now env st'" runID] n by auto
  then show ?thesis using w meta bars r by blast
qed

text \<open>The flag for adjusted prices does not reach the request.\<close>

lemma adjusted_ignored: "FetchDailyBars ovf env c symbol start end_t adjusted = FetchDailyBars ovf env c symbol start end_t adjusted'"
  by (intro ext) (simp add: FetchDailyBars_def yahoo_FetchDailyBars_def buildBarsURL_def)


section \<open>The six pages of the fundamentals\<close>

lemma flexible_ids:
  "extractFinancialDataFlexible pf re_find html order d = Ret d' \<Longrightarrow> ai_Symbol d' = ai_Symbol d \<and> ai_Market d' = ai_Market d"
proof (induction pf re_find html order d rule: extractFinancialDataFlexible.induct)
  case (2 pf re_find html field pattern order d)
  have "ai_Symbol (insight_field pf field v d) = ai_Symbol d \<and> ai_Market (insight_field pf field v d) = ai_Market d" for v
    by (simp add: insight_field_def)
  moreover obtain m where "re_find pattern html = Ret m"
      "extractFinancialDataFlexible pf re_find html order (if 1 < length m then insight_field pf field (m ! 1) d else d) = Ret d'"
    using 2(2) by (auto simp: go_bind_eq_Ret)
  ultimately show ?case using 2(1) [of m] by (simp split: if_splits)
qed simp

lemma parse_financials_ids:
  "parse_financials ovf env symbol pt now body mic = (pt', Ret d) \<Longrightarrow> fd_Symbol d = symbol \<and> fd_Market d = mic"
  by (auto simp: parse_financials_def ParseComprehensiveFinancials_def go_bind_eq_Ret populateDTOFromHTMLData_def new_financials_def Let_def)

lemma parse_statistics_ids:
  "parse_statistics ovf env symbol pt now body mic = (pt', Ret d) \<Longrightarrow> kd_Symbol d = symbol \<and> kd_Market d = mic"
  by (auto simp: parse_statistics_def ParseComprehensiveKeyStatistics_def go_bind_eq_Ret Let_def)

lemma parse_analysis_ids:
  "parse_analysis env symbol pt now body mic = (pt', Ret d) \<Longrightarrow> ad_Symbol d = symbol \<and> ad_Market d = mic"
  by (auto simp: parse_analysis_def ParseAnalysis_def go_bind_eq_Ret Let_def)

lemma parse_insights_ids:
  "parse_insights env symbol pt now body mic = (pt', Ret d) \<Longrightarrow> ai_Symbol d = symbol \<and> ai_Market d = mic"
  by (auto simp: parse_insights_def ParseAnalystInsights_def extractFinancialDataFromJSON_def go_bind_eq_Ret Let_def
      dest!: flexible_ids split: if_splits)

text \<open>A message made for a symbol in a market by a run.\<close>

definition made_for :: "string \<Rightarrow> string \<Rightarrow> string \<Rightarrow> string \<Rightarrow> 'ts pb_FundamentalsSnapshot \<Rightarrow> bool" where
  "made_for symbol mic runID source snap \<longleftrightarrow>
     pf_Security snap = \<lparr>ps_Symbol = symbol, ps_Mic = normalizeMIC mic\<rparr> \<and> pf_Source snap = ''yfinance/scrape/'' @ source \<and>
     pm_RunId (pf_Meta snap) = runID \<and> pm_Producer (pf_Meta snap) = ''yfinance-go''"

text \<open>Scrapes that all succeed, one after the other, each from the state the one before it left.\<close>

fun pages_pass :: "('s, 'r) scrape_op list \<Rightarrow> MarketClient \<times> 's net \<Rightarrow> MarketClient \<times> 's net \<Rightarrow> 'r list \<Rightarrow> bool" where
  "pages_pass [] cst cst' snaps \<longleftrightarrow> cst' = cst \<and> snaps = []"
| "pages_pass (f # fs) cst cst' snaps \<longleftrightarrow>
     (\<exists>cst1 snap rest. f cst = (cst1, Ret snap) \<and> pages_pass fs cst1 cst' rest \<and> snaps = snap # rest)"

text \<open>What a scrape with a result did to the table of markets.\<close>

lemma scrape_page_Ret:
  assumes "scrape_page ovf env what page symbol parse map_dto (c, st) = ((c', st'), Ret snap)"
  shows "\<exists>mic pt now body pt' dto. mk_mics c' symbol = Some mic \<and> mk_mics c \<subseteq>\<^sub>m mk_mics c' \<and>
    parse pt now body mic = (pt', Ret dto) \<and> map_dto dto = Ret snap"
proof -
  obtain c1 st1 body where f: "fetch_page ovf env what (quote_page symbol page) (c, st) = ((c1, st1), Ret body)"
    using assms by (auto simp: scrape_page_def split: prod.splits go.splits)
  have c1: "mk_mics c1 = mk_mics c" using f by (auto simp: fetch_page_def split: prod.splits)
  obtain c2 st2 mic where m: "inferMICForSymbol ovf env symbol (c1, st1) = ((c2, st2), Ret mic)"
    using assms by (auto simp: scrape_page_def f split: prod.splits go.splits)
  note t = memo_get_again [OF mic.refines [OF m]]
  obtain pt dto where "parse (mk_patterns c2) (me_now env st2) body mic = (pt, Ret dto)" "map_dto dto = Ret snap"
      "c' = c2\<lparr>mk_patterns := pt\<rparr>"
    using assms by (auto simp: scrape_page_def f m go_bind_eq_Ret split: prod.splits)
  moreover from this(3) have "mk_mics c' symbol = Some mic" "mk_mics c \<subseteq>\<^sub>m mk_mics c'" using t c1 by simp_all
  ultimately show ?thesis by blast
qed

definition keeps_market :: "string \<Rightarrow> string \<Rightarrow> string \<Rightarrow> ('s, 'ts pb_FundamentalsSnapshot) scrape_op \<Rightarrow> bool" where
  "keeps_market symbol runID source f \<longleftrightarrow>
     (\<forall>c st c' st' snap. f (c, st) = ((c', st'), Ret snap) \<longrightarrow>
        (\<exists>mic. mk_mics c' symbol = Some mic \<and> mk_mics c \<subseteq>\<^sub>m mk_mics c' \<and> made_for symbol mic runID source snap))"

lemma scraped_made_for:
  "pf_Security (scraped_snapshot ts symbol mic asof source runID who lines) = \<lparr>ps_Symbol = symbol, ps_Mic = normalizeMIC mic\<rparr>"
  "pf_Source (scraped_snapshot ts symbol mic asof source runID who lines) = source"
  "pf_Meta (scraped_snapshot ts symbol mic asof source runID who lines) =
     \<lparr>pm_RunId = runID, pm_Source = ''yfinance-go/scrape'', pm_Producer = who, pm_SchemaVersion = ''ampy.fundamentals.v1:2.1.0''\<rparr>"
  by (simp_all add: scraped_snapshot_def)

lemma pages_keep_market:
  "keeps_market symbol runID ''comprehensive-financials'' (ScrapeFinancials ovf env symbol runID)"
  "keeps_market symbol runID ''balance-sheet'' (ScrapeBalanceSheet ovf env symbol runID)"
  "keeps_market symbol runID ''cash-flow'' (ScrapeCashFlow ovf env symbol runID)"
  "keeps_market symbol runID ''key-statistics'' (ScrapeKeyStatistics ovf env symbol runID)"
  "keeps_market symbol runID ''analysis'' (ScrapeAnalysis ovf env symbol runID)"
  "keeps_market symbol runID ''analyst-insights'' (ScrapeAnalystInsights ovf env symbol runID)"
  unfolding keeps_market_def ScrapeFinancials_def ScrapeBalanceSheet_def ScrapeCashFlow_def ScrapeKeyStatistics_def ScrapeAnalysis_def
    ScrapeAnalystInsights_def
  by (auto dest!: scrape_page_Ret parse_financials_ids parse_statistics_ids parse_analysis_ids parse_insights_ids
      simp: MapComprehensiveFinancialsDTO_def MapBalanceSheetDTO_def MapCashFlowDTO_def MapKeyStatisticsDTO_def MapAnalysisDTO_def
        MapAnalystInsightsDTO_def first_snapshot_def made_for_def scraped_made_for producer_def Let_def split: if_splits)

lemma scrape_each_Ret:
  assumes "list_all2 (\<lambda>source (what, f). keeps_market symbol runID source f) sources fs"
    "scrape_each fs (c, st) = ((c', st'), Ret snaps)"
  shows "mk_mics c \<subseteq>\<^sub>m mk_mics c' \<and>
    (fs \<noteq> [] \<longrightarrow> (\<exists>mic. mk_mics c' symbol = Some mic \<and> list_all2 (made_for symbol mic runID) sources snaps))"
  using assms
proof (induction sources fs arbitrary: c st snaps rule: list_all2_induct)
  case (Cons source sources wf fs)
  obtain what f where wf: "wf = (what, f)" by (cases wf)
  obtain c1 st1 s where f: "f (c, st) = ((c1, st1), Ret s)"
    using Cons.prems(1) by (auto simp: wf split: prod.splits go.splits)
  obtain ss where e: "scrape_each fs (c1, st1) = ((c', st'), Ret ss)" "snaps = s # ss"
    using Cons.prems(1) by (auto simp: wf f go_bind_eq_Ret split: prod.splits)
  obtain mic where mic: "mk_mics c1 symbol = Some mic" "mk_mics c \<subseteq>\<^sub>m mk_mics c1" "made_for symbol mic runID source s"
    using Cons.hyps(1) f unfolding wf keeps_market_def by fastforce
  note IH = Cons.IH [OF e(1)]
  have le: "mk_mics c \<subseteq>\<^sub>m mk_mics c'" using mic(2) IH map_le_trans by blast
  have m: "mk_mics c' symbol = Some mic" using IH mic(1) by (metis domI map_le_def)
  have "list_all2 (made_for symbol mic runID) sources ss"
  proof (cases "fs = []")
    case True
    then show ?thesis using e(1) Cons.hyps(2) by auto
  next
    case False
    then show ?thesis using IH m by auto
  qed
  then show ?case using le m mic(3) e(2) by auto
qed simp

lemma scrape_each_pass:
  "scrape_each fs cst = (cst', Ret snaps) \<Longrightarrow> pages_pass (map snd fs) cst cst' snaps"
  by (induction fs cst arbitrary: cst' snaps rule: scrape_each.induct)
    (fastforce simp: go_bind_eq_Ret split: prod.splits go.splits)+

lemma scrape_each_Err:
  "scrape_each fs cst = (cst', Err e) \<Longrightarrow>
     \<exists>i < length fs. \<exists>cst1 snaps e'. pages_pass (map snd (take i fs)) cst cst1 snaps \<and> snd (fs ! i) cst1 = (cst', Err e') \<and>
       e = Wrapf (''failed to scrape '' @ fst (fs ! i) @ '': %w'') [] e'"
proof (induction fs arbitrary: cst)
  case (Cons wf fs)
  obtain what f where wf: "wf = (what, f)" by (cases wf)
  obtain cst1 r where f: "f cst = (cst1, r)" by (metis prod.collapse)
  show ?case
  proof (cases r)
    case (Ret snap)
    obtain cst2 r2 where r2: "scrape_each fs cst1 = (cst2, r2)" by (metis prod.collapse)
    have "r2 = Err e" "cst2 = cst'" using Cons.prems by (cases r2; simp add: wf f Ret r2)+
    with r2 obtain i cst3 snaps e' where "i < length fs" "pages_pass (map snd (take i fs)) cst1 cst3 snaps"
        "snd (fs ! i) cst3 = (cst', Err e')" "e = Wrapf (''failed to scrape '' @ fst (fs ! i) @ '': %w'') [] e'"
      using Cons.IH by blast
    moreover from this(2) have "pages_pass (map snd (take (Suc i) (wf # fs))) cst cst3 (snap # snaps)" using f Ret by (simp add: wf)
    ultimately show ?thesis by (metis Suc_less_eq length_Cons nth_Cons_Suc)
  next
    case (Err e1)
    then show ?thesis using Cons.prems by (intro exI [of _ 0]) (auto simp: wf f)
  next
    case (Panic p)
    then show ?thesis using Cons.prems by (simp add: wf f)
  qed
qed simp

lemma scrape_each_Panic:
  "scrape_each fs cst = (cst', Panic p) \<Longrightarrow>
     \<exists>i < length fs. \<exists>cst1 snaps. pages_pass (map snd (take i fs)) cst cst1 snaps \<and> snd (fs ! i) cst1 = (cst', Panic p)"
proof (induction fs arbitrary: cst)
  case (Cons wf fs)
  obtain what f where wf: "wf = (what, f)" by (cases wf)
  obtain cst1 r where f: "f cst = (cst1, r)" by (metis prod.collapse)
  show ?case
  proof (cases r)
    case (Ret snap)
    obtain cst2 r2 where r2: "scrape_each fs cst1 = (cst2, r2)" by (metis prod.collapse)
    have "r2 = Panic p" "cst2 = cst'" using Cons.prems by (cases r2; simp add: wf f Ret r2)+
    with r2 obtain i cst3 snaps where "i < length fs" "pages_pass (map snd (take i fs)) cst1 cst3 snaps"
        "snd (fs ! i) cst3 = (cst', Panic p)"
      using Cons.IH by blast
    moreover from this(2) have "pages_pass (map snd (take (Suc i) (wf # fs))) cst cst3 (snap # snaps)" using f Ret by (simp add: wf)
    ultimately show ?thesis by (metis Suc_less_eq length_Cons nth_Cons_Suc)
  next
    case (Err e)
    then show ?thesis using Cons.prems by (simp add: wf f)
  next
    case (Panic p')
    then show ?thesis using Cons.prems by (intro exI [of _ 0] conjI exI [of _ cst] exI [of _ "[]"]) (simp_all add: wf f)
  qed
qed simp

lemma pages_keep_market_all:
  "list_all2 (\<lambda>source (what, f). keeps_market symbol runID source f)
     [''comprehensive-financials'', ''balance-sheet'', ''cash-flow'', ''key-statistics'', ''analysis'', ''analyst-insights'']
     (fundamentals_pages ovf env symbol runID)"
  by (simp add: fundamentals_pages_def pages_keep_market)

text \<open>
  C6: ScrapeAllFundamentals runs the six scrapes one after the other, each from the state the
  one before it left. When all succeed it returns their snapshots in order, each for the
  symbol, the run and the one market the client has stored for the symbol. Otherwise it stops
  at the first scrape that does not succeed, in the state that scrape left and without the
  snapshots before it: with the error of that scrape wrapped with the name of its page, or
  with its panic.
\<close>

theorem ScrapeAllFundamentals_spec:
  "let pages = [(''financials'', ScrapeFinancials ovf env symbol runID), (''balance sheet'', ScrapeBalanceSheet ovf env symbol runID),
       (''cash flow'', ScrapeCashFlow ovf env symbol runID), (''key statistics'', ScrapeKeyStatistics ovf env symbol runID),
       (''analysis'', ScrapeAnalysis ovf env symbol runID), (''analyst insights'', ScrapeAnalystInsights ovf env symbol runID)]
   in case ScrapeAllFundamentals ovf env symbol runID (c, st) of
     ((c', st'), Ret snaps) \<Rightarrow>
       pages_pass (map snd pages) (c, st) (c', st') snaps \<and>
       (\<exists>mic. mk_mics c' symbol = Some mic \<and>
          list_all2 (made_for symbol mic runID)
            [''comprehensive-financials'', ''balance-sheet'', ''cash-flow'', ''key-statistics'', ''analysis'', ''analyst-insights''] snaps)
   | (cst', Err e) \<Rightarrow>
       (\<exists>i < 6. \<exists>cst1 snaps e'. pages_pass (map snd (take i pages)) (c, st) cst1 snaps \<and> snd (pages ! i) cst1 = (cst', Err e') \<and>
          e = Wrapf (''failed to scrape '' @ fst (pages ! i) @ '': %w'') [] e')
   | (cst', Panic p) \<Rightarrow>
       (\<exists>i < 6. \<exists>cst1 snaps. pages_pass (map snd (take i pages)) (c, st) cst1 snaps \<and> snd (pages ! i) cst1 = (cst', Panic p))"
proof -
  obtain c' st' r where e: "scrape_each (fundamentals_pages ovf env symbol runID) (c, st) = ((c', st'), r)" by (metis prod.collapse)
  have n: "length (fundamentals_pages ovf env symbol runID) = 6" by (simp add: fundamentals_pages_def)
  then have ne: "fundamentals_pages ovf env symbol runID \<noteq> []" by auto
  have "r = Ret snaps \<Longrightarrow> pages_pass (map snd (fundamentals_pages ovf env symbol runID)) (c, st) (c', st') snaps \<and>
     (\<exists>mic. mk_mics c' symbol = Some mic \<and> list_all2 (made_for symbol mic runID)
        [''comprehensive-financials'', ''balance-sheet'', ''cash-flow'', ''key-statistics'', ''analysis'', ''analyst-insights''] snaps)" for snaps
    using scrape_each_Ret [OF pages_keep_market_all, of ovf env symbol runID c st c' st' snaps] scrape_each_pass e ne by blast
  then show ?thesis
    using scrape_each_Err [of "fundamentals_pages ovf env symbol runID" "(c, st)" "(c', st')"]
      scrape_each_Panic [of "fundamentals_pages ovf env symbol runID" "(c, st)" "(c', st')"] e n
    unfolding Let_def fundamentals_pages_def [symmetric] ScrapeAllFundamentals_def
    by (cases r) (simp_all del: split_paired_Ex)
qed
section \<open>Examples\<close>

definition sample_env :: "(string, unit) yahoo_env \<Rightarrow> (string, unit, instant) market_env" where
  "sample_env yenv =
     \<lparr>me_yahoo = yenv, me_fetch = page_env (\<lambda>r s. (s, Err ErrDecode)), me_text = \<lparr>tl_arg = \<lambda>_. [], tl_url = id\<rparr>, me_float = \<lambda>_. None,
      me_find = \<lambda>_ _. Ret [], me_all = \<lambda>_ _. Ret [], me_order = id,
      me_news = \<lparr>nl_Regexp = \<lparr>rx_find = \<lambda>_ _. Ret [], rx_all = \<lambda>_ _. Ret [], rx_replace = \<lambda>_ t _. Ret t, rx_split = \<lambda>_ t. Ret [t],
          rx_match = \<lambda>_ _. Ret False\<rparr>,
        nl_ParseURL = \<lambda>_. None, nl_StringURL = \<lambda>_. [], nl_Resolve = \<lambda>_ u. u, nl_UnescapeHTML = id, nl_UnquoteJSON = \<lambda>_. None\<rparr>,
      me_query = \<lparr>ql_Parse = \<lambda>_. [], ql_Encode = \<lambda>_. []\<rparr>, me_sort = \<lambda>_ xs. xs, me_clock = \<lambda>_ _. 0, me_ts = id, me_dir = None,
      me_read = \<lambda>_. Err ErrDecode, me_dec_fin = \<lambda>_. (sample_patterns, None), me_dec_stat = \<lambda>_. undefined, me_dec_ana = \<lambda>_. undefined,
      me_dec_ins = \<lambda>_. (sample_insights, None), me_dec_news = \<lambda>_. undefined\<rparr>"

lemma page_fetch_bars:
  assumes "k \<in> {1, 2, 3}"
  shows "fetch_bars ovf (page_yahoo page bars) what (Ret u) (ready_client k, ()) = ((ready_client (k - 1), ()),
    go_bind (go_wrap (''failed to decode '' @ what @ ''bars response: %w'') [] (DecodeBarsResponseFromReader (\<lambda>_. bars) (page, None :: goerror option)))
      (\<lambda>bars. if GetMetadata bars = None then Err (Errorf ''missing metadata'' []) else Ret bars))"
proof -
  have "send ovf (page_yahoo page bars) (go_wrap ''failed to create request: %w'' []) (go_wrap (''failed to fetch '' @ what @ ''bars: %w'') []) u
      (ready_client k, ()) = ((ready_client (k - 1), ()), Ret \<lparr>rsp_StatusCode = 200, rsp_Body = (page, None)\<rparr>)"
    by (rule page_send) (use assms in simp_all)
  moreover have "ye_bars (page_yahoo page bars) = (\<lambda>_. bars)" by (simp add: page_yahoo_def)
  ultimately show ?thesis by (simp add: fetch_bars_def)
qed

lemma mic_cache_refinement_witness:
  "\<exists>c' rs. run_all (inferMICForSymbol (\<lambda>_. 0) (sample_env (page_yahoo ''x'' (Err ErrDecode)))) [''A'', ''A'']
      (fst (market_NewClient (\<lambda>_. 0) 0), (ready_client 3, ())) = ((c', (ready_client 2, ())), rs) \<and>
    rs = map (\<lambda>k. Ret (the (mk_mics c' k))) [''A'', ''A''] \<and> dom (mk_mics c') = {''A''} \<and> mk_patterns c' = no_patterns"
proof -
  let ?e = "sample_env (page_yahoo ''x'' (Err ErrDecode))" and ?c = "fst (market_NewClient (\<lambda>_. 0) 0)"
  have calm: "calm (me_yahoo ?e)" by (simp add: calm_def sample_env_def page_yahoo_def)
  have b: "buildBarsURL (page_yahoo ''x'' (Err ErrDecode)) yc sym t t' ad =
      Ret ((yc_baseURL yc @ ''/v8/finance/chart/'' @ sym) @ ''?'' @ values_Encode (chart_query t t' ''1d''))" for yc sym t t' ad
    by (simp add: buildBarsURL_def chart_url_def page_yahoo_def)
  have "\<exists>e. FetchCompanyInfo (\<lambda>_. 0) ?e ?c ''A'' ''mic-inference'' (ready_client 3, ()) = ((ready_client 2, ()), Err e)"
    using page_fetch_bars [of 3 "\<lambda>_. 0" "''x''" "Err ErrDecode"]
    by (simp add: FetchCompanyInfo_def fetch_metadata_def yahoo_FetchDailyBars_def sample_env_def b Let_def DecodeBarsResponseFromReader_def)
  then obtain e where "FetchCompanyInfo (\<lambda>_. 0) ?e ?c ''A'' ''mic-inference'' (ready_client 3, ()) = ((ready_client 2, ()), Err e)" by blast
  then have "run_all (inferMICForSymbol (\<lambda>_. 0) ?e) [''A'', ''A''] (?c, (ready_client 3, ())) =
      ((?c\<lparr>mk_mics := [''A'' \<mapsto> []]\<rparr>, (ready_client 2, ())), [Ret [], Ret []])"
    by (simp add: inferMICForSymbol_def market_NewClient_def)
  from mic_cache_refinement [OF calm this] this show ?thesis by (fastforce simp: market_NewClient_def)
qed

lemma FetchDailyBars_sound_witness:
  "\<exists>batch. FetchDailyBars (\<lambda>_. 0) (sample_env (page_yahoo ''x'' (Ret sample_response))) (fst (market_NewClient (\<lambda>_. 0) 0)) ''A'' 0 0 True ''run''
      (ready_client 3, ()) = ((ready_client 2, ()), Ret batch) \<and> nbb_Bars batch \<noteq> [] \<and> mt_RunID (nbb_Meta batch) = ''run''"
proof -
  let ?e = "sample_env (page_yahoo ''x'' (Ret sample_response))" and ?c = "fst (market_NewClient (\<lambda>_. 0) 0)"
  have v: "BarsResponse_Validate sample_response = Ret ()"
    by (simp add: sample_response_def sample_meta_def BarsResponse_Validate_def ChartResult_Validate_def
        go_idx_def row_at_def validateBarData_def validatePrice_def numeral_2_eq_2)
  have m: "GetMetadata sample_response = Some sample_meta" by (simp add: sample_response_def GetMetadata_def)
  have b: "buildBarsURL (page_yahoo ''x'' (Ret sample_response)) yc sym t t' ad =
      Ret ((yc_baseURL yc @ ''/v8/finance/chart/'' @ sym) @ ''?'' @ values_Encode (chart_query t t' ''1d''))" for yc sym t t' ad
    by (simp add: buildBarsURL_def chart_url_def page_yahoo_def)
  have "\<exists>bars. GetBars sample_response = Ret bars \<and> bars \<noteq> [] \<and> list_all bar_fits bars"
    by (simp add: GetBars_def sample_response_def go_idx_def row_at_def numeral_2_eq_2 bar_fits_def price_fits_def)
  then obtain bars where bars: "GetBars sample_response = Ret bars" "bars \<noteq> []" "list_all bar_fits bars" by blast
  obtain batch where n: "NormalizeBars (\<lambda>_. 0) 0 bars (Some sample_meta) ''run'' = Ret batch"
    using NormalizeBars_fits [OF bars(2,3), of sample_meta "\<lambda>_. 0" 0 "''run''"] by (auto simp: sample_meta_def)
  have now: "me_now ?e st = 0" for st by (simp add: me_now_def net_now_def sample_env_def page_yahoo_def answering_def)
  have "FetchDailyBars (\<lambda>_. 0) ?e ?c ''A'' 0 0 True ''run'' (ready_client 3, ()) = ((ready_client 2, ()), Ret batch)"
    using page_fetch_bars [of 3 "\<lambda>_. 0" "''x''" "Ret sample_response"]
    by (simp add: FetchDailyBars_def normalized_bars_def yahoo_FetchDailyBars_def now b m bars(1) n v DecodeBarsResponseFromReader_def
        sample_env_def [of "page_yahoo ''x'' (Ret sample_response)", THEN arg_cong [where f = me_yahoo]])
  then show ?thesis using FetchDailyBars_sound [of "\<lambda>_. 0" ?e ?c "''A''" 0 0 True "''run''" "(ready_client 3, ())"] by blast
qed

end
