(* ===== verification/Json.thy ===== *)
theory Json
  imports GoStrings "HOL-Library.Multiset"
begin

text \<open>
  JSON values as Go's decoder gives them to a variable of type \<^verbatim>\<open>any\<close>, the lookups the scrapers do on them, and the canonical
  encoding of \<^verbatim>\<open>internal/emit/canonical.go\<close>. A Go map is the list of its entries in the order of a range over it; no result
  below depends on that order. The texts of numbers and strings are those of \<^verbatim>\<open>json.Marshal\<close>, parameters \<open>num\<close> and \<open>quote\<close>.
\<close>

datatype json = JNull | JBool bool | JNum f64 | JStr string | JArr "json list" | JObj "(string \<times> json) list"

section \<open>Lookups\<close>

text \<open>A value decoded into a map: \<^verbatim>\<open>null\<close> leaves the map nil, which reads like an empty one.\<close>

definition as_map :: "json \<Rightarrow> (string \<times> json) list go" where
  "as_map v = (case v of JObj ms \<Rightarrow> Ret ms | JNull \<Rightarrow> Ret [] | _ \<Rightarrow> Err (ErrorString ''json: cannot unmarshal into map''))"

text \<open>\<open>m["k"]\<close> followed by a type assertion.\<close>

definition get_string :: "string \<Rightarrow> (string \<times> json) list \<Rightarrow> string option" where
  "get_string k m = (case map_of m k of Some (JStr s) \<Rightarrow> Some s | _ \<Rightarrow> None)"

definition get_float :: "string \<Rightarrow> (string \<times> json) list \<Rightarrow> f64 option" where
  "get_float k m = (case map_of m k of Some (JNum x) \<Rightarrow> Some x | _ \<Rightarrow> None)"

definition get_map :: "string \<Rightarrow> (string \<times> json) list \<Rightarrow> (string \<times> json) list option" where
  "get_map k m = (case map_of m k of Some (JObj ms) \<Rightarrow> Some ms | _ \<Rightarrow> None)"

definition get_array :: "string \<Rightarrow> (string \<times> json) list \<Rightarrow> json list option" where
  "get_array k m = (case map_of m k of Some (JArr vs) \<Rightarrow> Some vs | _ \<Rightarrow> None)"

section \<open>The canonical encoding\<close>

fun sortKeys :: "json \<Rightarrow> json" and sort_values :: "json list \<Rightarrow> json list" and
  sort_members :: "(string \<times> json) list \<Rightarrow> (string \<times> json) list" where
  "sortKeys (JObj ms) = JObj (sort_key fst (sort_members ms))"
| "sortKeys (JArr vs) = JArr (sort_values vs)"
| "sortKeys v = v"
| "sort_values [] = []"
| "sort_values (v # vs) = sortKeys v # sort_values vs"
| "sort_members [] = []"
| "sort_members ((k, v) # ms) = (k, sortKeys v) # sort_members ms"

text \<open>\<^verbatim>\<open>json.Marshal\<close> of a value: it prints the members of a map in the order of their keys.\<close>

fun json_Marshal :: "(f64 \<Rightarrow> string) \<Rightarrow> (string \<Rightarrow> string) \<Rightarrow> json \<Rightarrow> string" and
  marshal_values :: "(f64 \<Rightarrow> string) \<Rightarrow> (string \<Rightarrow> string) \<Rightarrow> json list \<Rightarrow> string list" and
  marshal_members :: "(f64 \<Rightarrow> string) \<Rightarrow> (string \<Rightarrow> string) \<Rightarrow> (string \<times> json) list \<Rightarrow> (string \<times> string) list" where
  "json_Marshal num quote (JObj ms) =
     ''{'' @ Join (map (\<lambda>(k, t). quote k @ '':'' @ t) (sort_key fst (marshal_members num quote ms))) '','' @ ''}''"
| "json_Marshal num quote (JArr vs) = ''['' @ Join (marshal_values num quote vs) '','' @ '']''"
| "json_Marshal num quote (JStr s) = quote s"
| "json_Marshal num quote (JNum x) = num x"
| "json_Marshal num quote (JBool b) = (if b then ''true'' else ''false'')"
| "json_Marshal num quote JNull = ''null''"
| "marshal_values num quote [] = []"
| "marshal_values num quote (v # vs) = json_Marshal num quote v # marshal_values num quote vs"
| "marshal_members num quote [] = []"
| "marshal_members num quote ((k, v) # ms) = (k, json_Marshal num quote v) # marshal_members num quote ms"

text \<open>\<open>v\<close> is the value that encoding the argument as a struct and decoding it into a map gives.\<close>

definition canonical_Marshal :: "(f64 \<Rightarrow> string) \<Rightarrow> (string \<Rightarrow> string) \<Rightarrow> json go \<Rightarrow> string go" where
  "canonical_Marshal num quote v = go_bind v (\<lambda>v. go_bind (as_map v) (\<lambda>obj. Ret (json_Marshal num quote (sortKeys (JObj obj)))))"

section \<open>Sorting the keys changes nothing\<close>

lemma sort_values_map: "sort_values vs = map sortKeys vs"
  by (induction vs) simp_all

lemma sort_members_map: "sort_members ms = map (apsnd sortKeys) ms"
  by (induction ms) auto

lemma marshal_values_map: "marshal_values num quote vs = map (json_Marshal num quote) vs"
  by (induction vs) simp_all

lemma marshal_members_map: "marshal_members num quote ms = map (apsnd (json_Marshal num quote)) ms"
  by (induction ms) auto

lemma insort_key_apsnd: "insort_key fst (apsnd f x) (map (apsnd f) xs) = map (apsnd f) (insort_key fst x xs)"
  by (induction xs) auto

lemma sort_key_apsnd: "sort_key fst (map (apsnd f) xs) = map (apsnd f) (sort_key fst xs)"
  by (induction xs) (simp_all add: insort_key_apsnd)

lemma sort_key_twice: "sort_key f (sort_key f xs) = sort_key f xs"
  by (rule sort_key_id_if_sorted) simp

lemma Marshal_sortKeys: "json_Marshal num quote (sortKeys v) = json_Marshal num quote v"
  and Marshal_sort_values: "map (json_Marshal num quote) (sort_values vs) = map (json_Marshal num quote) vs"
  and Marshal_sort_members: "map (apsnd (json_Marshal num quote)) (sort_members ms) = map (apsnd (json_Marshal num quote)) ms"
proof (induction v and vs and ms rule: sortKeys_sort_values_sort_members.induct)
  case (1 ms)
  have "sort_key fst (map (apsnd (json_Marshal num quote)) (sort_key fst (sort_members ms))) =
      sort_key fst (map (apsnd (json_Marshal num quote)) (sort_members ms))"
    by (simp add: sort_key_apsnd sort_key_twice)
  then show ?case using 1 by (simp add: marshal_members_map)
qed (simp_all add: marshal_values_map)

section \<open>The order of a map does not matter\<close>

inductive same_json :: "json \<Rightarrow> json \<Rightarrow> bool" where
  same_atom: "same_json v v"
| same_array: "list_all2 same_json vs ws \<Longrightarrow> same_json (JArr vs) (JArr ws)"
| same_object: "list_all2 (rel_prod (=) same_json) ms ns \<Longrightarrow> mset ns = mset ns' \<Longrightarrow> distinct (map fst ns) \<Longrightarrow> same_json (JObj ms) (JObj ns')"

lemma sort_members_mset:
  assumes "mset ns = mset ns'" "distinct (map fst ns)"
  shows "sort_key fst ns = sort_key fst (ns' :: (string \<times> 'a) list)"
proof (rule sort_key_inj_key_eq)
  show "mset ns = mset (sort_key fst ns')" using assms(1) by simp
  show "inj_on fst (set ns)" using assms(2) by (simp add: distinct_map)
qed simp

lemma same_Marshal:
  assumes "same_json v w"
  shows "json_Marshal num quote v = json_Marshal num quote w"
  using assms
proof (induction rule: same_json.induct)
  case (same_array vs ws)
  then have "map (json_Marshal num quote) vs = map (json_Marshal num quote) ws"
    by (induction rule: list_all2_induct) auto
  then show ?case by (simp add: marshal_values_map)
next
  case (same_object ms ns ns')
  have "map (apsnd (json_Marshal num quote)) ms = map (apsnd (json_Marshal num quote)) ns"
    using same_object(1) by (induction rule: list_all2_induct) auto
  moreover have "sort_key fst (map (apsnd (json_Marshal num quote)) ns) = sort_key fst (map (apsnd (json_Marshal num quote)) ns')"
    using same_object(2,3) by (intro sort_members_mset) (simp_all add: comp_def)
  ultimately show ?case by (simp add: marshal_members_map)
qed simp

text \<open>Sorting the keys before the encoding changes no byte, and the order of the entries of a map does not matter.\<close>

lemma canonical_Marshal_object: "canonical_Marshal num quote (Ret (JObj ms)) = Ret (json_Marshal num quote (JObj ms))"
  by (simp add: canonical_Marshal_def as_map_def Marshal_sortKeys del: json_Marshal.simps sortKeys.simps)

text \<open>
  C27: The canonical encoding does not depend on the order in which the entries of the maps
  are ranged over, at any depth, and sorting the keys first changes no byte of it, since the
  encoder sorts them itself.
\<close>

theorem canonical_any_order:
  assumes "same_json v w"
  shows "canonical_Marshal num quote (Ret v) = canonical_Marshal num quote (Ret w) \<and>
    (\<forall>ms. v = JObj ms \<longrightarrow> canonical_Marshal num quote (Ret v) = Ret (json_Marshal num quote w))"
  using assms
proof (cases rule: same_json.cases)
  case (same_object ms ns ns')
  then show ?thesis using same_Marshal [OF assms, of num quote] by (simp add: canonical_Marshal_object del: json_Marshal.simps)
qed (simp_all add: canonical_Marshal_def as_map_def Marshal_sortKeys del: json_Marshal.simps sortKeys.simps split: json.split)

lemma canonical_any_order_witness:
  "canonical_Marshal (\<lambda>_. ''0'') id (Ret (JObj [(''b'', JNull), (''a'', JArr [JBool True])])) = Ret ''{a:[true],b:null}'' \<and>
   canonical_Marshal (\<lambda>_. ''0'') id (Ret (JObj [(''a'', JArr [JBool True]), (''b'', JNull)])) = Ret ''{a:[true],b:null}''"
proof -
  have "same_json (JObj [(''b'', JNull), (''a'', JArr [JBool True])]) (JObj [(''a'', JArr [JBool True]), (''b'', JNull)])"
    by (rule same_object [where ns = "[(''b'', JNull), (''a'', JArr [JBool True])]"]) (auto intro: same_atom)
  from canonical_any_order [OF this, of "\<lambda>_. ''0''" id] show ?thesis by (auto dest: sym)
qed

end
