(* ===== verification/YahooEndpoints.thy ===== *)
theory YahooEndpoints
  imports YahooClient ScrapeNumbers Json
begin

text \<open>
  The other endpoints of \<^verbatim>\<open>internal/yahoo\<close>: dividends and splits, calendar, earnings dates, ESG scores, holders, the flat info map,
  insiders, ISIN, metadata, options, recommendations, filings and upgrades. The JSON and HTML decoders are parameters of type \<open>string \<Rightarrow> 'a go\<close>; a decoded Go map is the list of its entries
  in the order in which this run ranges over it, and \<open>srt\<close> is \<^verbatim>\<open>sort.Slice\<close>.
\<close>

section \<open>Records\<close>

record RawValue =
  rv_Raw :: "f64 option"
  rv_Fmt :: string
  rv_LongFmt :: string

record RawInt =
  ri_Raw :: "int64 option"
  ri_Fmt :: string
  ri_LongFmt :: string

record Dividend =
  dv_Date :: int64
  dv_Amount :: f64

record Split =
  sp_Date :: int64
  sp_Numerator :: int
  sp_Denominator :: int
  sp_SplitRatio :: string

record ActionsDTO =
  ac_Dividends :: "Dividend list"
  ac_Splits :: "Split list"

record actionsEvents =
  ev_Dividends :: "(string \<times> Dividend) list"
  ev_Splits :: "(string \<times> Split) list"

record CalendarDTO =
  ca_EarningsDates :: "int64 list"
  ca_EarningsAverage :: RawValue
  ca_RevenueAverage :: RawValue
  ca_ExDividendDate :: RawInt
  ca_DividendDate :: RawInt

record calendarEvents =
  ce_EarningsDate :: "RawInt list"
  ce_EarningsAverage :: RawValue
  ce_RevenueAverage :: RawValue
  ce_ExDividendDate :: RawInt
  ce_DividendDate :: RawInt

record ESGDTO =
  es_TotalEsg :: RawValue
  es_EnvironmentScore :: RawValue
  es_SocialScore :: RawValue
  es_GovernanceScore :: RawValue
  es_RatingYear :: int
  es_HighestControversy :: RawValue

record MajorHoldersBreakdown =
  mb_InsidersPercentHeld :: RawValue
  mb_InstitutionsPercentHeld :: RawValue
  mb_InstitutionsFloatPctHeld :: RawValue
  mb_InstitutionsCount :: RawInt

record MajorDirectHolder =
  md_Organization :: string
  md_PositionDirect :: RawInt
  md_PositionDirectDate :: RawInt
  md_ValueDirect :: RawInt

record HolderRow =
  hr_Organization :: string
  hr_PctHeld :: RawValue
  hr_Position :: RawInt
  hr_Value :: RawInt

record HoldersDTO =
  ho_MajorBreakdown :: MajorHoldersBreakdown
  ho_MajorDirectHolders :: "MajorDirectHolder list"
  ho_InstitutionOwnership :: "HolderRow list"
  ho_FundOwnership :: "HolderRow list"

record InsiderTransaction =
  it_FilerName :: string
  it_TransactionText :: string
  it_Shares :: RawInt
  it_Value :: RawInt
  it_StartDate :: RawInt
  it_OwnershipType :: string

record NetSharePurchaseActivity =
  np_Period :: string
  np_BuyInfoShares :: RawInt
  np_SellInfoShares :: RawInt
  np_NetInfoShares :: RawInt
  np_TotalInsiderShares :: RawInt
  np_NetPercentInsiderShares :: RawValue
  np_BuyPercentInsiderShares :: RawValue
  np_SellPercentInsiderShares :: RawValue
  np_BuyInfoCount :: RawInt
  np_SellInfoCount :: RawInt
  np_NetInfoCount :: RawInt

record InsiderHolder =
  ih_Name :: string
  ih_Relation :: string
  ih_PositionDirect :: RawInt
  ih_LatestTransDate :: RawInt

record InsiderDTO =
  id_Transactions :: "InsiderTransaction list"
  id_PurchaseActivity :: NetSharePurchaseActivity
  id_Roster :: "InsiderHolder list"

record ChartMetadata =
  mt_Symbol :: string
  mt_Currency :: string
  mt_ExchangeName :: string
  mt_InstrumentType :: string
  mt_Timezone :: string
  mt_GmtOffset :: int
  mt_FirstTradeDate :: int64
  mt_RegularMarketPrice :: f64

record OptionContract =
  oc_Strike :: RawValue
  oc_LastPrice :: RawValue
  oc_Bid :: RawValue
  oc_Ask :: RawValue
  oc_Volume :: RawInt
  oc_OpenInterest :: RawInt
  oc_ImpliedVolatility :: RawValue

record OptionExpiry =
  oe_ExpirationDate :: int64
  oe_Calls :: "OptionContract list"
  oe_Puts :: "OptionContract list"

record OptionsDTO =
  op_ExpirationDates :: "int64 list"
  op_Strikes :: "f64 list"
  op_Options :: "OptionExpiry list"

record RecommendationTrendRow =
  rt_Period :: string
  rt_StrongBuy :: int
  rt_Buy :: int
  rt_Hold :: int
  rt_Sell :: int
  rt_StrongSell :: int

record SecFiling =
  sf_Date :: string
  sf_Type :: string
  sf_Title :: string
  sf_EdgarURL :: string
  sf_EpochDate :: int64

record UpgradeRow =
  ur_EpochGradeDate :: int64
  ur_Firm :: string
  ur_ToGrade :: string
  ur_FromGrade :: string
  ur_Action :: string

section \<open>Decoding\<close>

text \<open>The decoders of the quote summary modules: the first result, or an error when there is none.\<close>

definition first_result :: "string \<Rightarrow> (string \<Rightarrow> 'r list go) \<Rightarrow> ('r \<Rightarrow> 'a) \<Rightarrow> string \<Rightarrow> 'a go" where
  "first_result what decode f data = go_bind (decode data) (\<lambda>results.
     case results of [] \<Rightarrow> Err (Errorf (what @ '': empty result'') []) | r # _ \<Rightarrow> Ret (f r))"

definition actions_of :: "((Dividend \<Rightarrow> Dividend \<Rightarrow> bool) \<Rightarrow> Dividend list \<Rightarrow> Dividend list) \<Rightarrow> ((Split \<Rightarrow> Split \<Rightarrow> bool) \<Rightarrow> Split list \<Rightarrow> Split list) \<Rightarrow>
   actionsEvents \<Rightarrow> ActionsDTO" where
  "actions_of srt_d srt_s ev =
     \<lparr>ac_Dividends = srt_d (\<lambda>a b. dv_Date a < dv_Date b) (map snd (ev_Dividends ev)),
      ac_Splits = srt_s (\<lambda>a b. sp_Date a < sp_Date b) (map snd (ev_Splits ev))\<rparr>"

definition ExtractActions where
  "ExtractActions srt_d srt_s decode = first_result ''actions'' decode (actions_of srt_d srt_s)"

definition calendar_of :: "calendarEvents \<Rightarrow> CalendarDTO" where
  "calendar_of e =
     \<lparr>ca_EarningsDates = List.map_filter ri_Raw (ce_EarningsDate e), ca_EarningsAverage = ce_EarningsAverage e,
      ca_RevenueAverage = ce_RevenueAverage e, ca_ExDividendDate = ce_ExDividendDate e, ca_DividendDate = ce_DividendDate e\<rparr>"

definition DecodeCalendar :: "(string \<Rightarrow> calendarEvents list go) \<Rightarrow> string \<Rightarrow> CalendarDTO go" where
  "DecodeCalendar decode = first_result ''calendar'' decode calendar_of"

definition DecodeESG :: "(string \<Rightarrow> ESGDTO list go) \<Rightarrow> string \<Rightarrow> ESGDTO go" where
  "DecodeESG decode = first_result ''esg'' decode id"

definition DecodeHolders :: "(string \<Rightarrow> HoldersDTO list go) \<Rightarrow> string \<Rightarrow> HoldersDTO go" where
  "DecodeHolders decode = first_result ''holders'' decode id"

definition DecodeInsider :: "(string \<Rightarrow> InsiderDTO list go) \<Rightarrow> string \<Rightarrow> InsiderDTO go" where
  "DecodeInsider decode = first_result ''insider'' decode id"

definition ExtractMetadata :: "(string \<Rightarrow> ChartMetadata list go) \<Rightarrow> string \<Rightarrow> ChartMetadata go" where
  "ExtractMetadata decode = first_result ''metadata'' decode id"

definition DecodeOptions :: "(string \<Rightarrow> OptionsDTO list go) \<Rightarrow> string \<Rightarrow> OptionsDTO go" where
  "DecodeOptions decode = first_result ''options'' decode id"

definition DecodeRecommendationTrend :: "(string \<Rightarrow> RecommendationTrendRow list list go) \<Rightarrow> string \<Rightarrow> RecommendationTrendRow list go" where
  "DecodeRecommendationTrend decode = first_result ''recommendationTrend'' decode id"

definition DecodeSecFilings :: "(string \<Rightarrow> SecFiling list list go) \<Rightarrow> string \<Rightarrow> SecFiling list go" where
  "DecodeSecFilings decode = first_result ''secFilings'' decode id"

definition DecodeUpgrades :: "(string \<Rightarrow> UpgradeRow list list go) \<Rightarrow> string \<Rightarrow> UpgradeRow list go" where
  "DecodeUpgrades decode = first_result ''upgrades'' decode id"

section \<open>The info map\<close>

text \<open>The field of a struct takes the last member whose name matches it, ignoring case.\<close>

definition json_field :: "string \<Rightarrow> (string \<times> json) list \<Rightarrow> json option" where
  "json_field name obj = map_of (rev (map (\<lambda>(k, v). (ToLower k, v)) obj)) name"

definition flattenValue :: "json \<Rightarrow> json" where
  "flattenValue v = (case v of JObj obj \<Rightarrow> (case json_field ''raw'' obj of Some raw \<Rightarrow> raw | None \<Rightarrow> v) | _ \<Rightarrow> v)"

text \<open>A module that is no object is skipped; the members of the later modules replace those of the earlier ones.\<close>

definition module_fields :: "json \<Rightarrow> (string \<times> json) list" where
  "module_fields m = (case m of JObj members \<Rightarrow> members | _ \<Rightarrow> [])"

definition put_member :: "string \<times> json \<Rightarrow> (string \<rightharpoonup> json) \<Rightarrow> string \<rightharpoonup> json" where
  "put_member kv out = out(fst kv \<mapsto> flattenValue (snd kv))"

definition merge_modules :: "(string \<times> json) list \<Rightarrow> string \<rightharpoonup> json" where
  "merge_modules modules = fold (\<lambda>m. fold put_member (module_fields (snd m))) modules Map.empty"

definition DecodeInfo :: "(string \<Rightarrow> (string \<times> json) list list go) \<Rightarrow> string \<Rightarrow> (string \<rightharpoonup> json) go" where
  "DecodeInfo decode = first_result ''info'' decode merge_modules"

section \<open>Insider purchases\<close>

datatype cell = CNil | CInt int64 | CFloat f64

definition rawIntValue :: "RawInt \<Rightarrow> cell" where
  "rawIntValue r = (case ri_Raw r of None \<Rightarrow> CNil | Some n \<Rightarrow> CInt n)"

definition rawFloatValue :: "RawValue \<Rightarrow> cell" where
  "rawFloatValue r = (case rv_Raw r of None \<Rightarrow> CNil | Some x \<Rightarrow> CFloat x)"

record InsiderPurchaseTable =
  ip_LabelColumn :: string
  ip_Labels :: "string list"
  ip_Shares :: "cell list"
  ip_Trans :: "cell list"

definition InsiderPurchaseSummaryTable :: "NetSharePurchaseActivity \<Rightarrow> InsiderPurchaseTable" where
  "InsiderPurchaseSummaryTable a =
     \<lparr>ip_LabelColumn = ''Insider Purchases Last '' @ np_Period a,
      ip_Labels = [''Purchases'', ''Sales'', ''Net Shares Purchased (Sold)'', ''Total Insider Shares Held'',
        ''% Net Shares Purchased (Sold)'', ''% Buy Shares'', ''% Sell Shares''],
      ip_Shares = [rawIntValue (np_BuyInfoShares a), rawIntValue (np_SellInfoShares a), rawIntValue (np_NetInfoShares a),
        rawIntValue (np_TotalInsiderShares a), rawFloatValue (np_NetPercentInsiderShares a),
        rawFloatValue (np_BuyPercentInsiderShares a), rawFloatValue (np_SellPercentInsiderShares a)],
      ip_Trans = [rawIntValue (np_BuyInfoCount a), rawIntValue (np_SellInfoCount a), rawIntValue (np_NetInfoCount a),
        CNil, CNil, CNil, CNil]\<rparr>"

section \<open>ISIN\<close>

definition isin_line :: "string \<Rightarrow> string \<Rightarrow> string option" where
  "isin_line up line =
     (case split_char CHR ''|'' line of p0 # p1 # _ \<Rightarrow> if Contains (ToUpper p0) up then Some (TrimSpace p1) else None | _ \<Rightarrow> None)"

fun first_isin :: "string \<Rightarrow> string list \<Rightarrow> string option" where
  "first_isin up [] = None"
| "first_isin up (line # rest) = (case isin_line up line of Some isin \<Rightarrow> Some isin | None \<Rightarrow> first_isin up rest)"

definition parseISIN :: "string \<Rightarrow> string \<Rightarrow> string go" where
  "parseISIN body ticker =
     (case first_isin (ToUpper ticker) (split_char CHR 0x0A body) of
        Some isin \<Rightarrow> Ret isin | None \<Rightarrow> Err (Errorf ''isin not found for %s'' [AStr ticker]))"

definition isin_query :: "string \<Rightarrow> string" where
  "isin_query symbol = (case Index symbol ''.'' of Some i \<Rightarrow> if 0 < i then take i symbol else symbol | None \<Rightarrow> symbol)"

section \<open>Earnings dates\<close>

datatype hnode = HElement string "hnode list" | HText string | HOther "hnode list"

fun raw_text :: "hnode \<Rightarrow> string" where
  "raw_text (HText s) = s"
| "raw_text (HElement t cs) = concat (map raw_text cs)"
| "raw_text (HOther cs) = concat (map raw_text cs)"

definition extractText :: "hnode \<Rightarrow> string" where "extractText n = TrimSpace (raw_text n)"

definition is_cell :: "hnode \<Rightarrow> bool" where
  "is_cell n = (case n of HElement t _ \<Rightarrow> ToLower t = ''td'' \<or> ToLower t = ''th'' | _ \<Rightarrow> False)"

definition row_cells :: "hnode list \<Rightarrow> string list" where "row_cells cs = map extractText (filter is_cell cs)"

fun collectRows :: "hnode \<Rightarrow> string list list" where
  "collectRows (HText s) = []"
| "collectRows (HOther cs) = concat (map collectRows cs)"
| "collectRows (HElement t cs) =
     (if ToLower t = ''tr'' \<and> row_cells cs \<noteq> [] then [row_cells cs] else []) @ concat (map collectRows cs)"

definition normalizeHeader :: "string list \<Rightarrow> string list" where
  "normalizeHeader cells = map (\<lambda>h. ToLower (TrimSpace h)) cells"

text \<open>The last column of a name counts.\<close>

definition column_of :: "string list \<Rightarrow> string \<rightharpoonup> nat" where
  "column_of header = map_of (rev (zip header [0..<length header]))"

definition getCell :: "string list \<Rightarrow> (string \<rightharpoonup> nat) \<Rightarrow> string \<Rightarrow> string" where
  "getCell cells idx key = (case idx key of None \<Rightarrow> [] | Some i \<Rightarrow> if length cells \<le> i then [] else cells ! i)"

definition parseCellFloat :: "(string \<Rightarrow> f64 option) \<Rightarrow> string \<Rightarrow> f64 option" where
  "parseCellFloat pf s =
     (let s = TrimSpace s in if s = [] \<or> s = ''-'' \<or> s = ''N/A'' then None else ParseFloat pf s)"

record EarningsDateRow =
  ed_Date :: string
  ed_EPSEstimate :: "f64 option"
  ed_ReportedEPS :: "f64 option"
  ed_SurprisePct :: "f64 option"

definition earnings_date_row :: "(string \<Rightarrow> f64 option) \<Rightarrow> string \<Rightarrow> string list \<Rightarrow> string list \<Rightarrow> EarningsDateRow option" where
  "earnings_date_row pf symbol header r =
     (let idx = column_of header; sym = ToUpper (TrimSpace (getCell r idx ''symbol'')) in
      if length r < length header \<or> (sym \<noteq> [] \<and> sym \<noteq> ToUpper symbol) then None
      else Some \<lparr>ed_Date = TrimSpace (getCell r idx ''date''), ed_EPSEstimate = parseCellFloat pf (getCell r idx ''eps estimate''),
                 ed_ReportedEPS = parseCellFloat pf (getCell r idx ''reported eps''),
                 ed_SurprisePct = parseCellFloat pf (getCell r idx ''surprise(%)'')\<rparr>)"

definition ParseEarningsDatesHTML :: "(string \<Rightarrow> f64 option) \<Rightarrow> (string \<Rightarrow> hnode go) \<Rightarrow> string \<Rightarrow> string \<Rightarrow> EarningsDateRow list go" where
  "ParseEarningsDatesHTML pf html_parse body symbol =
     go_bind (html_parse body) (\<lambda>doc.
     case collectRows doc of
       header # r # rs \<Rightarrow> Ret (List.map_filter (earnings_date_row pf symbol (normalizeHeader header)) (r # rs))
     | _ \<Rightarrow> Err (Errorf ''earnings-dates: no rows found'' []))"

definition earningsCalendarURL :: string where "earningsCalendarURL = ''https://finance.yahoo.com/calendar/earnings''"
definition isinSearchURL :: string where "isinSearchURL = ''https://markets.businessinsider.com/ajax/SearchController_Suggest''"

section \<open>Fetching\<close>

text \<open>A plain request whose whole body is decoded.\<close>

definition fetch_plain ::
  "(f64 \<Rightarrow> int) \<Rightarrow> ('u, 's) yahoo_env \<Rightarrow> string \<Rightarrow> (string \<Rightarrow> 'a go) \<Rightarrow> 's net \<Rightarrow> 's net \<times> 'a go" where
  "fetch_plain ovf env url decode st =
     (case send ovf env id id url st of (st', r) \<Rightarrow> (st', go_bind r (\<lambda>resp. go_bind (ReadAll (rsp_Body resp)) decode)))"

type_synonym ('s, 'a) summary_fetch = "YahooClient \<times> 's net \<Rightarrow> (YahooClient \<times> 's net) \<times> 'a go"

definition FetchCalendar :: "(f64 \<Rightarrow> int) \<Rightarrow> ('u, 's) yahoo_env \<Rightarrow> (string \<Rightarrow> calendarEvents list go) \<Rightarrow> string \<Rightarrow> ('s, CalendarDTO) summary_fetch" where
  "FetchCalendar ovf env decode symbol = fetch_summary ovf env [''calendarEvents''] (DecodeCalendar decode) symbol"

definition FetchESG :: "(f64 \<Rightarrow> int) \<Rightarrow> ('u, 's) yahoo_env \<Rightarrow> (string \<Rightarrow> ESGDTO list go) \<Rightarrow> string \<Rightarrow> ('s, ESGDTO) summary_fetch" where
  "FetchESG ovf env decode symbol = fetch_summary ovf env [''esgScores''] (DecodeESG decode) symbol"

definition FetchHolders :: "(f64 \<Rightarrow> int) \<Rightarrow> ('u, 's) yahoo_env \<Rightarrow> (string \<Rightarrow> HoldersDTO list go) \<Rightarrow> string \<Rightarrow> ('s, HoldersDTO) summary_fetch" where
  "FetchHolders ovf env decode symbol =
     fetch_summary ovf env [''majorHoldersBreakdown'', ''majorDirectHolders'', ''institutionOwnership'', ''fundOwnership''] (DecodeHolders decode) symbol"

definition InfoModules :: "string list" where
  "InfoModules = [''assetProfile'', ''summaryDetail'', ''defaultKeyStatistics'', ''financialData'', ''quoteType'']"

definition FetchInfo :: "(f64 \<Rightarrow> int) \<Rightarrow> ('u, 's) yahoo_env \<Rightarrow> (string \<Rightarrow> (string \<times> json) list list go) \<Rightarrow> string \<Rightarrow> ('s, string \<rightharpoonup> json) summary_fetch" where
  "FetchInfo ovf env decode symbol = fetch_summary ovf env InfoModules (DecodeInfo decode) symbol"

definition FetchInsider :: "(f64 \<Rightarrow> int) \<Rightarrow> ('u, 's) yahoo_env \<Rightarrow> (string \<Rightarrow> InsiderDTO list go) \<Rightarrow> string \<Rightarrow> ('s, InsiderDTO) summary_fetch" where
  "FetchInsider ovf env decode symbol =
     fetch_summary ovf env [''insiderTransactions'', ''netSharePurchaseActivity'', ''insiderHolders''] (DecodeInsider decode) symbol"

definition FetchRecommendationTrend ::
  "(f64 \<Rightarrow> int) \<Rightarrow> ('u, 's) yahoo_env \<Rightarrow> (string \<Rightarrow> RecommendationTrendRow list list go) \<Rightarrow> string \<Rightarrow> ('s, RecommendationTrendRow list) summary_fetch" where
  "FetchRecommendationTrend ovf env decode symbol = fetch_summary ovf env [''recommendationTrend''] (DecodeRecommendationTrend decode) symbol"

definition FetchSecFilings :: "(f64 \<Rightarrow> int) \<Rightarrow> ('u, 's) yahoo_env \<Rightarrow> (string \<Rightarrow> SecFiling list list go) \<Rightarrow> string \<Rightarrow> ('s, SecFiling list) summary_fetch" where
  "FetchSecFilings ovf env decode symbol = fetch_summary ovf env [''secFilings''] (DecodeSecFilings decode) symbol"

definition FetchUpgrades :: "(f64 \<Rightarrow> int) \<Rightarrow> ('u, 's) yahoo_env \<Rightarrow> (string \<Rightarrow> UpgradeRow list list go) \<Rightarrow> string \<Rightarrow> ('s, UpgradeRow list) summary_fetch" where
  "FetchUpgrades ovf env decode symbol = fetch_summary ovf env [''upgradeDowngradeHistory''] (DecodeUpgrades decode) symbol"

definition FetchActions where
  "FetchActions ovf env srt_d srt_s decode c symbol st =
     (case fetchChartRaw ovf env c symbol 365 st of (st', raw) \<Rightarrow> (st', go_bind raw (ExtractActions srt_d srt_s decode)))"

definition FetchMetadata ::
  "(f64 \<Rightarrow> int) \<Rightarrow> ('u, 's) yahoo_env \<Rightarrow> (string \<Rightarrow> ChartMetadata list go) \<Rightarrow> YahooClient \<Rightarrow> string \<Rightarrow> 's net \<Rightarrow> 's net \<times> ChartMetadata go" where
  "FetchMetadata ovf env decode c symbol st =
     (case fetchChartRaw ovf env c symbol 1 st of (st', raw) \<Rightarrow> (st', go_bind raw (ExtractMetadata decode)))"

definition FetchOptions ::
  "(f64 \<Rightarrow> int) \<Rightarrow> ('u, 's) yahoo_env \<Rightarrow> (string \<Rightarrow> OptionsDTO list go) \<Rightarrow> YahooClient \<Rightarrow> string \<Rightarrow> 's net \<Rightarrow> 's net \<times> OptionsDTO go" where
  "FetchOptions ovf env decode c symbol = fetch_plain ovf env (yc_baseURL c @ ''/v7/finance/options/'' @ symbol) (DecodeOptions decode)"

definition FetchISIN :: "(f64 \<Rightarrow> int) \<Rightarrow> ('u, 's) yahoo_env \<Rightarrow> string \<Rightarrow> 's net \<Rightarrow> 's net \<times> string go" where
  "FetchISIN ovf env symbol =
     fetch_plain ovf env (isinSearchURL @ ''?max_results=25&query='' @ QueryEscape (isin_query symbol)) (\<lambda>body. parseISIN body (isin_query symbol))"

definition FetchEarningsDates ::
  "(f64 \<Rightarrow> int) \<Rightarrow> ('u, 's) yahoo_env \<Rightarrow> (string \<Rightarrow> f64 option) \<Rightarrow> (string \<Rightarrow> hnode go) \<Rightarrow> string \<Rightarrow> 's net \<Rightarrow> 's net \<times> EarningsDateRow list go" where
  "FetchEarningsDates ovf env pf html_parse symbol =
     fetch_plain ovf env (earningsCalendarURL @ ''?symbol='' @ symbol) (\<lambda>body. ParseEarningsDatesHTML pf html_parse body symbol)"


section \<open>What is found\<close>

lemma first_isin_skip: "list_all (\<lambda>l. isin_line up l = None) pre \<Longrightarrow> first_isin up (pre @ lines) = first_isin up lines"
  by (induction pre) auto

lemma first_isin_Some:
  "first_isin up lines = Some isin \<longleftrightarrow> (\<exists>pre line post. lines = pre @ line # post \<and> list_all (\<lambda>l. isin_line up l = None) pre \<and> isin_line up line = Some isin)"
proof
  assume "first_isin up lines = Some isin"
  then show "\<exists>pre line post. lines = pre @ line # post \<and> list_all (\<lambda>l. isin_line up l = None) pre \<and> isin_line up line = Some isin"
  proof (induction lines)
    case (Cons l lines)
    show ?case
    proof (cases "isin_line up l")
      case None
      then have "first_isin up lines = Some isin" using Cons.prems by simp
      from Cons.IH [OF this] obtain pre line post
        where "lines = pre @ line # post" "list_all (\<lambda>l. isin_line up l = None) pre" "isin_line up line = Some isin" by blast
      then have "l # lines = (l # pre) @ line # post" "list_all (\<lambda>l. isin_line up l = None) (l # pre)" using None by simp_all
      then show ?thesis using \<open>isin_line up line = Some isin\<close> by blast
    next
      case (Some i)
      then have "isin_line up l = Some isin" using Cons.prems by simp
      moreover have "l # lines = [] @ l # lines" "list_all (\<lambda>l. isin_line up l = None) []" by simp_all
      ultimately show ?thesis by blast
    qed
  qed simp
qed (auto simp: first_isin_skip)

text \<open>Any symbol that contains the ticker will do, so the number may be that of another company.\<close>

lemma parseISIN_iff:
  "parseISIN body ticker = Ret isin \<longleftrightarrow>
     (\<exists>pre line post. split_char CHR 0x0A body = pre @ line # post \<and> list_all (\<lambda>l. isin_line (ToUpper ticker) l = None) pre \<and>
        isin_line (ToUpper ticker) line = Some isin)"
  by (simp add: parseISIN_def first_isin_Some split: option.split)
    (metis first_isin_Some option.distinct(1) option.inject)

lemma map_option_add: "map_option g \<circ> (m ++ n) = (map_option g \<circ> m) ++ (map_option g \<circ> n)"
  by (auto simp: map_add_def fun_eq_iff split: option.splits)

lemma merge_fields: "fold put_member kvs out = out ++ (map_option flattenValue \<circ> map_of (rev kvs))"
proof (induction kvs arbitrary: out)
  case (Cons kv kvs)
  have u: "put_member kv out = out ++ (map_option flattenValue \<circ> map_of [kv])"
    by (cases kv) (auto simp: put_member_def fun_eq_iff map_add_def)
  show ?case unfolding fold_simps Cons.IH u rev.simps map_of_append map_option_add map_add_assoc ..
qed (simp add: comp_def)

lemma merge_modules_eq:
  "merge_modules modules = map_option flattenValue \<circ> map_of (rev (concat (map (module_fields \<circ> snd) modules)))"
proof -
  have "fold (\<lambda>m. fold put_member (module_fields (snd m))) ms out =
      out ++ (map_option flattenValue \<circ> map_of (rev (concat (map (module_fields \<circ> snd) ms))))" for ms :: "(string \<times> json) list" and out
  proof (induction ms arbitrary: out)
    case (Cons m ms)
    let ?B = "map_option flattenValue \<circ> map_of (rev (concat (map (module_fields \<circ> snd) ms)))"
    have "fold (\<lambda>m. fold put_member (module_fields (snd m))) (m # ms) out = fold put_member (module_fields (snd m)) out ++ ?B"
      by (simp only: fold_simps Cons.IH)
    also have "\<dots> = out ++ ((map_option flattenValue \<circ> map_of (rev (module_fields (snd m)))) ++ ?B)"
      by (simp only: merge_fields [of "module_fields (snd m)" out] map_add_assoc)
    also have "(map_option flattenValue \<circ> map_of (rev (module_fields (snd m)))) ++ ?B =
        map_option flattenValue \<circ> map_of (rev (concat (map (module_fields \<circ> snd) (m # ms))))"
      by (simp only: list.map concat.simps rev_append map_of_append map_option_add comp_apply [of module_fields snd m])
    finally show ?case .
  qed (simp add: comp_def)
  from this [of modules Map.empty] show ?thesis unfolding merge_modules_def by simp
qed

text \<open>Modules without a member in common can be merged in any order.\<close>

lemma info_any_order:
  assumes "mset modules = mset modules'" "distinct (map fst (concat (map (module_fields \<circ> snd) modules)))"
  shows "merge_modules modules = merge_modules modules'"
proof -
  let ?all = "\<lambda>ms. concat (map (module_fields \<circ> snd) ms)"
  have e: "mset (?all modules) = mset (?all modules')"
    unfolding mset_concat using assms(1) by (metis mset_map sum_mset_sum_list)
  then have s: "set (?all modules) = set (?all modules')" by (rule mset_eq_setD)
  have d: "distinct (map fst (?all modules'))" using assms(2) e by (metis mset_eq_imp_distinct_iff mset_map)
  have "map_of (rev (?all modules)) = map_of (rev (?all modules'))"
    using assms(2) d s by (subst map_of_inject_set) (simp_all flip: rev_map)
  then show ?thesis by (simp add: merge_modules_eq)
qed

end
