(* ===== verification/Batch.thy ===== *)
theory Batch
  imports MarketClient YahooEndpoints
begin

text \<open>
  The batch command: the cache of raw files of \<^verbatim>\<open>internal/cache\<close>, the registry of commands of \<^verbatim>\<open>cmd/yfin/dispatch.go\<close> and the
  runs of \<^verbatim>\<open>cmd/yfin/batch.go\<close>. The file system, sleeping and the JSON encoder are operations on the state of the outside; the
  tickers of a run are taken one after another, where the program starts a worker for each. Times are in UTC.
\<close>

section \<open>Cached files\<close>

definition RefreshMap :: "(string \<times> string) list" where
  "RefreshMap =
     [(''history'', ''daily''), (''recommendations'', ''daily''), (''recommendations-summary'', ''daily''),
      (''upgrades'', ''daily''), (''news'', ''daily''), (''metadata'', ''daily''),
      (''info'', ''monthly''), (''insider-transactions'', ''monthly''), (''insider-purchases'', ''monthly''),
      (''insider-roster'', ''monthly''), (''calendar'', ''monthly''),
      (''actions'', ''quarterly''), (''income'', ''quarterly''), (''balance'', ''quarterly''), (''cashflow'', ''quarterly''),
      (''major-holders'', ''quarterly''), (''institutional-holders'', ''quarterly''), (''mutualfund-holders'', ''quarterly''),
      (''earnings-dates'', ''quarterly''), (''earnings-history'', ''quarterly''), (''eps-trend'', ''quarterly''),
      (''eps-revisions'', ''quarterly''), (''earnings-estimates'', ''quarterly''), (''revenue-estimates'', ''quarterly''),
      (''growth-estimates'', ''quarterly''), (''price-targets'', ''quarterly''), (''sec-filings'', ''quarterly''),
      (''sustainability'', ''quarterly''), (''isin'', ''annually''), (''options'', ''annually'')]"

definition tier_of :: "string \<Rightarrow> string" where
  "tier_of command = (case map_of RefreshMap command of Some tier \<Rightarrow> if tier = [] then ''daily'' else tier | None \<Rightarrow> ''daily'')"

definition quarter :: "int \<Rightarrow> int" where "quarter m = (m - 1) div 3 + 1"

definition Hours :: "duration \<Rightarrow> f64" where
  "Hours d = f_add (f_of_int (d sdiv hour)) (f_div (f_of_int (d smod hour)) (f_of_int hour))"

definition fresh :: "string \<Rightarrow> instant \<Rightarrow> instant \<Rightarrow> bool" where
  "fresh tier now fd =
     (if tier = ''daily'' then time_Year fd = time_Year now \<and> time_YearDay fd = time_YearDay now
      else if tier = ''weekly'' then f_lt (Hours (time_Sub now fd)) (Fin 168)
      else if tier = ''monthly'' then time_Year fd = time_Year now \<and> time_Month fd = time_Month now
      else if tier = ''quarterly'' then time_Year fd = time_Year now \<and> quarter (time_Month fd) = quarter (time_Month now)
      else if tier = ''annually'' then time_Year fd = time_Year now
      else False)"

text \<open>\<^verbatim>\<open>filepath.Base\<close> of a path that does not end in a slash.\<close>

definition path_base :: "string \<Rightarrow> string" where
  "path_base p = rev (takeWhile (\<lambda>c. c \<noteq> CHR ''/'') (rev p))"

definition file_date :: "string \<Rightarrow> string \<Rightarrow> instant option go" where
  "file_date ticker f =
     (let base = path_base f in
      if length base < 5 then Panic ''slice bounds out of range''
      else let stem = take (length base - 5) base in
           Ret (if length stem \<le> length ticker + 1 then None else time_Parse layout_date (drop (length ticker + 1) stem)))"

fun file_dates :: "string \<Rightarrow> string list \<Rightarrow> instant list go" where
  "file_dates ticker [] = Ret []"
| "file_dates ticker (f # fs) = go_bind (file_date ticker f) (\<lambda>d. go_bind (file_dates ticker fs) (\<lambda>ds.
     Ret (case d of None \<Rightarrow> ds | Some fd \<Rightarrow> fd # ds)))"

fun all_fresh :: "string \<Rightarrow> instant \<Rightarrow> instant list \<Rightarrow> bool" where
  "all_fresh tier now [] = True"
| "all_fresh tier now (fd # fds) = (if \<not> fresh tier now fd then False else all_fresh tier now fds)"

text \<open>\<open>matches\<close> are the files that match \<^verbatim>\<open>rawDir/command/ticker.*.json\<close>.\<close>

definition ShouldSkip :: "(string \<Rightarrow> string list) \<Rightarrow> (string list \<Rightarrow> string) \<Rightarrow> string \<Rightarrow> string \<Rightarrow> bool \<Rightarrow> string \<Rightarrow> instant \<Rightarrow> bool go" where
  "ShouldSkip glob path_join command ticker force rawDir now =
     (if force then Ret False
      else go_bind (file_dates ticker (glob (path_join [rawDir, command, ticker @ ''.*.json'']))) (\<lambda>dates.
        Ret (if length dates = 0 then False else all_fresh (tier_of command) now dates)))"

section \<open>The list of tickers\<close>

text \<open>The lines of the file, the header first; \<open>err\<close> is the error that ends the reading.\<close>

definition line_ticker :: "string \<Rightarrow> string" where
  "line_ticker line = TrimSpace (last (split_char CHR '','' (TrimSpace line)))"

definition ReadTickerList :: "(string \<Rightarrow> (string list \<times> goerror option) go) \<Rightarrow> string \<Rightarrow> string list go" where
  "ReadTickerList open_lines path =
     go_bind (open_lines path) (\<lambda>(lines, err).
     let tickers = filter (\<lambda>t. t \<noteq> []) (map line_ticker (drop 1 lines))
     in case err of Some e \<Rightarrow> Err e | None \<Rightarrow> Ret tickers)"

section \<open>Commands\<close>

record FetchContext =
  fc_Root :: "MarketClient option"
  fc_Y :: "YahooClient option"
  fc_RunID :: string

datatype 'ts fetched =
    GotInfo "string \<rightharpoonup> json" | GotActions ActionsDTO | GotMetadata ChartMetadata | GotHolders HoldersDTO | GotInsider InsiderDTO
  | GotUpgrades "UpgradeRow list" | GotCalendar CalendarDTO | GotEarningsDates "EarningsDateRow list" | GotFilings "SecFiling list"
  | GotESG ESGDTO | GotRecommendations "RecommendationTrendRow list" | GotOptions OptionsDTO | GotISIN string
  | GotBars NormalizedBarBatch | GotSnapshot "'ts pb_FundamentalsSnapshot" | GotNews "'ts pb_NewsItem list"

record ('u, 's, 'ts) batch_env =
  be_market :: "('u, 's, 'ts) market_env"
  be_info :: "string \<Rightarrow> (string \<times> json) list list go"
  be_actions :: "string \<Rightarrow> actionsEvents list go"
  be_sort_d :: "(Dividend \<Rightarrow> Dividend \<Rightarrow> bool) \<Rightarrow> Dividend list \<Rightarrow> Dividend list"
  be_sort_s :: "(Split \<Rightarrow> Split \<Rightarrow> bool) \<Rightarrow> Split list \<Rightarrow> Split list"
  be_metadata :: "string \<Rightarrow> ChartMetadata list go"
  be_holders :: "string \<Rightarrow> HoldersDTO list go"
  be_insider :: "string \<Rightarrow> InsiderDTO list go"
  be_upgrades :: "string \<Rightarrow> UpgradeRow list list go"
  be_calendar :: "string \<Rightarrow> calendarEvents list go"
  be_html :: "string \<Rightarrow> hnode go"
  be_filings :: "string \<Rightarrow> SecFiling list list go"
  be_esg :: "string \<Rightarrow> ESGDTO list go"
  be_trend :: "string \<Rightarrow> RecommendationTrendRow list list go"
  be_options :: "string \<Rightarrow> OptionsDTO list go"
  be_glob :: "'s net \<Rightarrow> string \<Rightarrow> string list"
  be_join :: "string list \<Rightarrow> string"
  be_write :: "string \<Rightarrow> string \<Rightarrow> 's net \<Rightarrow> 's net"
  be_sleep :: "duration \<Rightarrow> 's net \<Rightarrow> 's net"
  be_json :: "'ts fetched \<Rightarrow> string"

type_synonym ('s, 'ts) fetchFunc = "string \<Rightarrow> FetchContext option \<times> 's net \<Rightarrow> (FetchContext option \<times> 's net) \<times> 'ts fetched go"

definition nil_panic :: "'c \<Rightarrow> 'c \<times> 'a go" where "nil_panic st = (st, Panic ''nil pointer dereference'')"

text \<open>A call on a client of the context; a missing context or client is a nil pointer.\<close>

definition on_Y :: "(YahooClient \<times> 's net \<Rightarrow> (YahooClient \<times> 's net) \<times> 'a go) \<Rightarrow> ('a \<Rightarrow> 'ts fetched) \<Rightarrow>
   FetchContext option \<times> 's net \<Rightarrow> (FetchContext option \<times> 's net) \<times> 'ts fetched go" where
  "on_Y f g = (\<lambda>(fc, st).
     (case fc of None \<Rightarrow> nil_panic (fc, st)
      | Some x \<Rightarrow> (case fc_Y x of None \<Rightarrow> nil_panic (fc, st)
          | Some y \<Rightarrow> (case f (y, st) of ((y', st'), r) \<Rightarrow> ((Some (x\<lparr>fc_Y := Some y'\<rparr>), st'), go_bind r (\<lambda>a. Ret (g a)))))))"

definition on_Root :: "(string \<Rightarrow> MarketClient \<times> 's net \<Rightarrow> (MarketClient \<times> 's net) \<times> 'a go) \<Rightarrow> ('a \<Rightarrow> 'ts fetched) \<Rightarrow>
   FetchContext option \<times> 's net \<Rightarrow> (FetchContext option \<times> 's net) \<times> 'ts fetched go" where
  "on_Root f g = (\<lambda>(fc, st).
     (case fc of None \<Rightarrow> nil_panic (fc, st)
      | Some x \<Rightarrow> (case fc_Root x of None \<Rightarrow> nil_panic (fc, st)
          | Some c \<Rightarrow> (case f (fc_RunID x) (c, st) of ((c', st'), r) \<Rightarrow>
              ((Some (x\<lparr>fc_Root := Some c'\<rparr>), st'), go_bind r (\<lambda>a. Ret (g a)))))))"

text \<open>A call that only reads the Yahoo client.\<close>

definition reading :: "(YahooClient \<Rightarrow> 's net \<Rightarrow> 's net \<times> 'a go) \<Rightarrow> YahooClient \<times> 's net \<Rightarrow> (YahooClient \<times> 's net) \<times> 'a go" where
  "reading f = (\<lambda>(y, st). case f y st of (st', r) \<Rightarrow> ((y, st'), r))"

definition history_fetch ::
  "(f64 \<Rightarrow> int) \<Rightarrow> ('u, 's, 'ts) market_env \<Rightarrow> string \<Rightarrow> string \<Rightarrow> MarketClient \<times> 's net \<Rightarrow> (MarketClient \<times> 's net) \<times> NormalizedBarBatch go" where
  "history_fetch ovf env s runID = (\<lambda>(c, st).
     case FetchDailyBars ovf env c s (AddDate (me_now env st) 0 0 (- 30)) (me_now env st) True runID st of (st', r) \<Rightarrow> ((c, st'), r))"

definition commandRegistry :: "(f64 \<Rightarrow> int) \<Rightarrow> ('u, 's, 'ts) batch_env \<Rightarrow> (string \<times> ('s, 'ts) fetchFunc) list" where
  "commandRegistry ovf e =
     (let m = be_market e; y = me_yahoo m in
     [(''info'', \<lambda>s. on_Y (FetchInfo ovf y (be_info e) s) GotInfo),
      (''actions'', \<lambda>s. on_Y (reading (\<lambda>c. FetchActions ovf y (be_sort_d e) (be_sort_s e) (be_actions e) c s)) GotActions),
      (''metadata'', \<lambda>s. on_Y (reading (\<lambda>c. FetchMetadata ovf y (be_metadata e) c s)) GotMetadata),
      (''major-holders'', \<lambda>s. on_Y (FetchHolders ovf y (be_holders e) s) GotHolders),
      (''institutional-holders'', \<lambda>s. on_Y (FetchHolders ovf y (be_holders e) s) GotHolders),
      (''mutualfund-holders'', \<lambda>s. on_Y (FetchHolders ovf y (be_holders e) s) GotHolders),
      (''insider-transactions'', \<lambda>s. on_Y (FetchInsider ovf y (be_insider e) s) GotInsider),
      (''insider-purchases'', \<lambda>s. on_Y (FetchInsider ovf y (be_insider e) s) GotInsider),
      (''insider-roster'', \<lambda>s. on_Y (FetchInsider ovf y (be_insider e) s) GotInsider),
      (''upgrades'', \<lambda>s. on_Y (FetchUpgrades ovf y (be_upgrades e) s) GotUpgrades),
      (''calendar'', \<lambda>s. on_Y (FetchCalendar ovf y (be_calendar e) s) GotCalendar),
      (''earnings-dates'', \<lambda>s. on_Y (reading (\<lambda>c. FetchEarningsDates ovf y (me_float m) (be_html e) s)) GotEarningsDates),
      (''sec-filings'', \<lambda>s. on_Y (FetchSecFilings ovf y (be_filings e) s) GotFilings),
      (''sustainability'', \<lambda>s. on_Y (FetchESG ovf y (be_esg e) s) GotESG),
      (''recommendations'', \<lambda>s. on_Y (FetchRecommendationTrend ovf y (be_trend e) s) GotRecommendations),
      (''recommendations-summary'', \<lambda>s. on_Y (FetchRecommendationTrend ovf y (be_trend e) s) GotRecommendations),
      (''options'', \<lambda>s. on_Y (reading (\<lambda>c. FetchOptions ovf y (be_options e) c s)) GotOptions),
      (''isin'', \<lambda>s. on_Y (reading (\<lambda>c. FetchISIN ovf y s)) GotISIN),
      (''history'', \<lambda>s. on_Root (history_fetch ovf m s) GotBars),
      (''income'', \<lambda>s. on_Root (ScrapeFinancials ovf m s) GotSnapshot),
      (''balance'', \<lambda>s. on_Root (ScrapeBalanceSheet ovf m s) GotSnapshot),
      (''cashflow'', \<lambda>s. on_Root (ScrapeCashFlow ovf m s) GotSnapshot),
      (''earnings-history'', \<lambda>s. on_Root (ScrapeAnalysis ovf m s) GotSnapshot),
      (''eps-trend'', \<lambda>s. on_Root (ScrapeAnalysis ovf m s) GotSnapshot),
      (''eps-revisions'', \<lambda>s. on_Root (ScrapeAnalysis ovf m s) GotSnapshot),
      (''earnings-estimates'', \<lambda>s. on_Root (ScrapeAnalysis ovf m s) GotSnapshot),
      (''revenue-estimates'', \<lambda>s. on_Root (ScrapeAnalysis ovf m s) GotSnapshot),
      (''growth-estimates'', \<lambda>s. on_Root (ScrapeAnalysis ovf m s) GotSnapshot),
      (''price-targets'', \<lambda>s. on_Root (ScrapeAnalystInsights ovf m s) GotSnapshot),
      (''news'', \<lambda>s. on_Root (market_ScrapeNews ovf m s) GotNews)])"

section \<open>Runs\<close>

definition batchRetries :: nat where "batchRetries = 3"

text \<open>The attempts of a command, from attempt \<open>i\<close> with \<open>n\<close> left.\<close>

fun batch_attempts ::
  "('u, 's, 'ts) batch_env \<Rightarrow> (FetchContext option \<times> 's net \<Rightarrow> (FetchContext option \<times> 's net) \<times> 'ts fetched go) \<Rightarrow> nat \<Rightarrow> nat \<Rightarrow>
   FetchContext option \<times> 's net \<Rightarrow> (FetchContext option \<times> 's net) \<times> 'ts fetched go" where
  "batch_attempts e f 0 i cst = (cst, Err (Errorf ''no attempt'' []))"
| "batch_attempts e f (Suc n) i cst =
     (case f cst of ((fc, st), r) \<Rightarrow>
        (case r of
           Err x \<Rightarrow> if n = 0 then ((fc, st), Err x)
             else batch_attempts e f n (Suc i) (fc, be_sleep e (dur_mul (2 ^ i) second) st)
         | _ \<Rightarrow> ((fc, st), r)))"

record tickerResult =
  tr_Ticker :: string
  tr_Commands :: "string \<rightharpoonup> string"

definition batch_command ::
  "(f64 \<Rightarrow> int) \<Rightarrow> text_lib \<Rightarrow> ('u, 's, 'ts) batch_env \<Rightarrow> string \<Rightarrow> bool \<Rightarrow> string \<Rightarrow> instant \<Rightarrow> string \<Rightarrow>
   FetchContext option \<times> 's net \<Rightarrow> (FetchContext option \<times> 's net) \<times> string go" where
  "batch_command ovf tx e ticker force rawDir now command = (\<lambda>(fc, st).
     (case ShouldSkip (be_glob e st) (be_join e) command ticker force rawDir now of
        Err x \<Rightarrow> ((fc, st), Err x)
      | Panic p \<Rightarrow> ((fc, st), Panic p)
      | Ret True \<Rightarrow> ((fc, st), Ret ''skipped'')
      | Ret False \<Rightarrow>
          (case map_of (commandRegistry ovf e) command of
             None \<Rightarrow> ((fc, st), Ret ''failed'')
           | Some fn \<Rightarrow>
               (case batch_attempts e (fn ticker) batchRetries 0 (fc, st) of
                  ((fc1, st1), Panic p) \<Rightarrow> ((fc1, st1), Panic p)
                | ((fc1, st1), Err x) \<Rightarrow>
                    ((fc1, be_write e (be_join e [rawDir, ''_failed'', ticker @ ''.'' @ command @ ''.err'']) (error_text tx x) st1),
                     Ret ''failed'')
                | ((fc1, st1), Ret data) \<Rightarrow>
                    ((fc1, be_write e (be_join e [rawDir, command, ticker @ ''.'' @ format_date now @ ''.json'']) (be_json e data) st1),
                     Ret ''success'')))))"

fun batch_commands ::
  "(f64 \<Rightarrow> int) \<Rightarrow> text_lib \<Rightarrow> ('u, 's, 'ts) batch_env \<Rightarrow> string \<Rightarrow> bool \<Rightarrow> string \<Rightarrow> instant \<Rightarrow> string list \<Rightarrow> (string \<rightharpoonup> string) \<Rightarrow>
   FetchContext option \<times> 's net \<Rightarrow> (FetchContext option \<times> 's net) \<times> (string \<rightharpoonup> string) go" where
  "batch_commands ovf tx e ticker force rawDir now [] res cst = (cst, Ret res)"
| "batch_commands ovf tx e ticker force rawDir now (c # cs) res cst =
     (case batch_command ovf tx e ticker force rawDir now c cst of
        (cst1, Ret status) \<Rightarrow> batch_commands ovf tx e ticker force rawDir now cs (res(c \<mapsto> status)) cst1
      | (cst1, Err x) \<Rightarrow> (cst1, Err x)
      | (cst1, Panic p) \<Rightarrow> (cst1, Panic p))"

definition runBatchForTicker ::
  "(f64 \<Rightarrow> int) \<Rightarrow> text_lib \<Rightarrow> ('u, 's, 'ts) batch_env \<Rightarrow> string \<Rightarrow> string list \<Rightarrow> bool \<Rightarrow> string \<Rightarrow> instant \<Rightarrow>
   FetchContext option \<times> 's net \<Rightarrow> (FetchContext option \<times> 's net) \<times> tickerResult go" where
  "runBatchForTicker ovf tx e ticker commands force rawDir now cst =
     (case batch_commands ovf tx e ticker force rawDir now commands Map.empty cst of
        (cst1, r) \<Rightarrow> (cst1, go_bind r (\<lambda>m. Ret \<lparr>tr_Ticker = ticker, tr_Commands = m\<rparr>)))"

text \<open>The totals of a run: success, skipped, failed. The registry is ranged over in some order \<open>order\<close>.\<close>

definition tally :: "tickerResult list \<Rightarrow> string \<Rightarrow> string list \<Rightarrow> int" where
  "tally rs status commands = int (length [(r, c). r \<leftarrow> rs, c \<leftarrow> commands, tr_Commands r c = Some status])"

fun run_tickers where
  "run_tickers run [] cst = (cst, Ret [])"
| "run_tickers run (t # ts) cst =
     (case run t cst of
        (cst1, Ret r) \<Rightarrow> (case run_tickers run ts cst1 of (cst2, rest) \<Rightarrow> (cst2, go_bind rest (\<lambda>rs. Ret (r # rs))))
      | (cst1, Err x) \<Rightarrow> (cst1, Err x)
      | (cst1, Panic p) \<Rightarrow> (cst1, Panic p))"

definition runBatch ::
  "(f64 \<Rightarrow> int) \<Rightarrow> text_lib \<Rightarrow> ('u, 's, 'ts) batch_env \<Rightarrow> (string \<Rightarrow> (string list \<times> goerror option) go) \<Rightarrow> string list \<Rightarrow> string \<Rightarrow>
   string \<Rightarrow> bool \<Rightarrow> 's net \<Rightarrow> 's net \<times> (int \<times> int \<times> int) go" where
  "runBatch ovf tx e open_lines order home batchTicker batchForce st =
     (let rawDir = be_join e [home, ''.config'', ''stock'', ''data'', ''raw'']; now = me_now (be_market e) st;
          tickers = (if batchTicker \<noteq> [] then Ret [batchTicker]
                     else ReadTickerList open_lines (be_join e [''yf'', ''references'', ''ticker_list.csv'']))
      in case tickers of
           Err x \<Rightarrow> (st, Err x)
         | Panic p \<Rightarrow> (st, Panic p)
         | Ret ts \<Rightarrow>
             (case run_tickers (\<lambda>t. runBatchForTicker ovf tx e t order batchForce rawDir now) ts (None, st) of
                ((fc, st1), r) \<Rightarrow> (st1, go_bind r (\<lambda>rs.
                  Ret (tally rs ''success'' order, tally rs ''skipped'' order, tally rs ''failed'' order)))))"


section \<open>Which files count as fresh\<close>

lemma tier_of_cases: "tier_of command \<in> {''daily'', ''monthly'', ''quarterly'', ''annually''}"
proof -
  have "list_all (\<lambda>(c, tier). tier \<in> {''daily'', ''monthly'', ''quarterly'', ''annually''}) RefreshMap" by (simp add: RefreshMap_def)
  then have "tier \<in> {''daily'', ''monthly'', ''quarterly'', ''annually''}" if "map_of RefreshMap command = Some tier" for tier
    using map_of_SomeD [OF that] by (fastforce simp: list_all_iff)
  then show ?thesis by (auto simp: tier_of_def split: option.split)
qed

lemma fresh_day:
  assumes "tier \<in> {''daily'', ''monthly'', ''quarterly'', ''annually''}"
  shows "fresh tier now (time_day t * day_ns) = fresh tier now t"
proof -
  have "time_day (time_day t * day_ns) = time_day t" by (simp add: time_day_def day_ns_def)
  then show ?thesis using assms by (auto simp: fresh_def time_Year_def time_YearDay_def time_Month_def)
qed

lemma fresh_now: "fresh (tier_of command) now now"
  using tier_of_cases [of command] by (auto simp: fresh_def)

lemma fresh_Year: "fresh (tier_of command) now t \<Longrightarrow> time_Year t = time_Year now"
  using tier_of_cases [of command] by (auto simp: fresh_def split: if_splits)

lemma all_fresh_eq: "all_fresh tier now fds = list_all (fresh tier now) fds"
  by (induction tier now fds rule: all_fresh.induct) auto

definition cached_name :: "string \<Rightarrow> instant \<Rightarrow> string" where
  "cached_name ticker t = ticker @ ''.'' @ format_date t @ ''.json''"

lemma file_date_cached:
  assumes "CHR ''/'' \<notin> set ticker" "0 \<le> time_Year t" "time_Year t \<le> 9999"
  shows "file_date ticker (dir @ ''/'' @ cached_name ticker t) = Ret (Some (time_day t * day_ns))"
proof -
  have ds: "CHR ''/'' \<notin> set (pad_digits k n)" for k n
    using pad_digits(2) [of k n] by (auto simp: list_all_iff is_digit_def code_of_def)
  have nd: "CHR ''/'' \<notin> set (cached_name ticker t)" using assms(1) ds by (simp add: cached_name_def format_date_def)
  then have b: "path_base (dir @ ''/'' @ cached_name ticker t) = cached_name ticker t"
    by (simp add: path_base_def) (subst takeWhile_append2; auto)
  have l: "length (format_date t) = 10" by (simp add: format_date_def pad_digits)
  have "take (length (cached_name ticker t) - 5) (cached_name ticker t) = ticker @ ''.'' @ format_date t" "5 \<le> length (cached_name ticker t)"
    by (simp_all add: cached_name_def)
  then show ?thesis using time_Parse_format_date [OF assms(2,3)] l by (simp add: file_date_def b [simplified] Let_def)
qed

lemma file_dates_cached:
  assumes "CHR ''/'' \<notin> set ticker" "list_all (\<lambda>t. 0 \<le> time_Year t \<and> time_Year t \<le> 9999) written"
  shows "file_dates ticker (map (\<lambda>t. dir @ ''/'' @ cached_name ticker t) written) = Ret (map (\<lambda>t. time_day t * day_ns) written)"
  using assms(2) file_date_cached [OF assms(1)] by (induction written) simp_all

text \<open>
  C24: When the cached files of a ticker are the ones batch runs wrote, named by the ticker
  and the date, ShouldSkip reads their dates back: it skips the command exactly when --force
  is not set, there is at least one file and every file lies in the period of the tier of the
  command. Without --force a command with files is always skipped when all were written at
  this moment, and no command is skipped when one file is of another year.
\<close>

theorem ShouldSkip_written:
  assumes "glob (path_join [rawDir, command, ticker @ ''.*.json'']) = map (\<lambda>t. dir @ ''/'' @ cached_name ticker t) written"
    "CHR ''/'' \<notin> set ticker" "list_all (\<lambda>t. 0 \<le> time_Year t \<and> time_Year t \<le> 9999) written"
  shows "ShouldSkip glob path_join command ticker force rawDir now =
      Ret (\<not> force \<and> written \<noteq> [] \<and> list_all (fresh (tier_of command) now) written) \<and>
    (\<not> force \<and> written \<noteq> [] \<and> list_all (\<lambda>t. t = now) written \<longrightarrow>
      ShouldSkip glob path_join command ticker force rawDir now = Ret True) \<and>
    (list_ex (\<lambda>t. time_Year t \<noteq> time_Year now) written \<longrightarrow> ShouldSkip glob path_join command ticker force rawDir now = Ret False)"
proof -
  have "list_all (fresh (tier_of command) now) (map (\<lambda>t. time_day t * day_ns) written) = list_all (fresh (tier_of command) now) written"
    using fresh_day [OF tier_of_cases] by (simp add: list.pred_map comp_def)
  then have s: "ShouldSkip glob path_join command ticker force rawDir now =
      Ret (\<not> force \<and> written \<noteq> [] \<and> list_all (fresh (tier_of command) now) written)"
    using file_dates_cached [OF assms(2,3)] assms(1) by (simp add: ShouldSkip_def all_fresh_eq)
  moreover have "list_all (fresh (tier_of command) now) written" if "list_all (\<lambda>t. t = now) written"
    using that fresh_now by (auto simp: list_all_iff)
  moreover have "\<not> list_all (fresh (tier_of command) now) written" if "list_ex (\<lambda>t. time_Year t \<noteq> time_Year now) written"
    using that fresh_Year by (auto simp: list_all_iff list_ex_iff)
  ultimately show ?thesis by (cases force) simp_all
qed

lemma ShouldSkip_written_witness:
  "ShouldSkip (\<lambda>_. [''raw/info'' @ ''/'' @ cached_name ''A'' 5]) (\<lambda>_. ''p'') ''info'' ''A'' False ''raw'' 5 = Ret True \<and>
   ShouldSkip (\<lambda>_. [''raw/info'' @ ''/'' @ cached_name ''A'' 5]) (\<lambda>_. ''p'') ''info'' ''A'' True ''raw'' 5 = Ret False"
proof -
  have y: "time_Year 5 = 1970" by code_simp
  show ?thesis
    using ShouldSkip_written [of "\<lambda>_. [''raw/info'' @ ''/'' @ cached_name ''A'' 5]" "\<lambda>_. ''p''" "''raw''" "''info''" "''A''" "''raw/info''" "[5]" _ 5] y
    by (simp add: fresh_now)
qed

section \<open>Without a context\<close>

lemma registry_needs_context:
  assumes "map_of (commandRegistry ovf e) command = Some fn"
  shows "fn s (None, st) = ((None, st), Panic ''nil pointer dereference'')"
proof -
  have "list_all (\<lambda>(c, fn). fn s (None, st) = ((None, st), Panic ''nil pointer dereference'')) (commandRegistry ovf e)"
    by (simp add: commandRegistry_def on_Y_def on_Root_def nil_panic_def Let_def)
  then show ?thesis using map_of_SomeD [OF assms] by (auto simp: list_all_iff)
qed

lemma batch_command_no_context:
  assumes "map_of (commandRegistry ovf e) command \<noteq> None" "ShouldSkip (be_glob e st) (be_join e) command ticker force rawDir now = Ret skip"
  shows "batch_command ovf tx e ticker force rawDir now command (None, st) =
    ((None, st), if skip then Ret ''skipped'' else Panic ''nil pointer dereference'')"
proof -
  obtain fn where fn: "map_of (commandRegistry ovf e) command = Some fn" using assms(1) by blast
  have "batch_attempts e (fn ticker) 3 0 (None, st) = ((None, st), Panic ''nil pointer dereference'')"
    by (simp add: numeral_3_eq_3 registry_needs_context [OF fn])
  then show ?thesis using assms(2) fn by (simp add: batch_command_def batchRetries_def split: bool.splits)
qed

definition all_skipped :: "string list \<Rightarrow> string \<rightharpoonup> string" where
  "all_skipped commands = (\<lambda>c. if c \<in> set commands then Some ''skipped'' else None)"

lemma all_skipped_Cons: "res(c \<mapsto> ''skipped'') ++ all_skipped cs = res ++ all_skipped (c # cs)"
  by (auto simp: all_skipped_def map_add_def fun_eq_iff)

lemma batch_commands_no_context:
  assumes "list_all (\<lambda>c. map_of (commandRegistry ovf e) c \<noteq> None) commands"
    "\<And>c. c \<in> set commands \<Longrightarrow> ShouldSkip (be_glob e st) (be_join e) c ticker force rawDir now = Ret (skip c)"
  shows "batch_commands ovf tx e ticker force rawDir now commands res (None, st) =
    ((None, st), if list_all skip commands then Ret (res ++ all_skipped commands) else Panic ''nil pointer dereference'')"
  using assms
proof (induction commands arbitrary: res)
  case (Cons c cs)
  have c: "batch_command ovf tx e ticker force rawDir now c (None, st) =
      ((None, st), if skip c then Ret ''skipped'' else Panic ''nil pointer dereference'')"
    by (rule batch_command_no_context) (use Cons.prems in auto)
  have "batch_commands ovf tx e ticker force rawDir now cs (res(c \<mapsto> ''skipped'')) (None, st) =
    ((None, st), if list_all skip cs then Ret (res(c \<mapsto> ''skipped'') ++ all_skipped cs) else Panic ''nil pointer dereference'')"
    using Cons by simp
  then show ?case unfolding batch_commands.simps c all_skipped_Cons by simp
qed (simp add: all_skipped_def map_add_def)

lemma tally_single: "tally [r] status commands = int (length (filter (\<lambda>c. tr_Commands r c = Some status) commands))"
  by (induction commands) (simp_all add: tally_def)

text \<open>
  A batch run of one ticker, whose context is nil, panics as soon as one command of the
  registry is not covered by the cache, with nothing written; it ends normally, with every
  command counted as skipped, exactly when the cache covers them all.
\<close>

theorem runBatch_without_context:
  assumes "batchTicker \<noteq> []" "list_all (\<lambda>c. map_of (commandRegistry ovf e) c \<noteq> None) order"
    "rawDir = be_join e [home, ''.config'', ''stock'', ''data'', ''raw'']" "now = me_now (be_market e) st"
    "\<And>c. c \<in> set order \<Longrightarrow> ShouldSkip (be_glob e st) (be_join e) c batchTicker batchForce rawDir now = Ret (skip c)"
  shows "runBatch ovf tx e open_lines order home batchTicker batchForce st =
    (st, if list_all skip order then Ret (0, int (length order), 0) else Panic ''nil pointer dereference'')"
proof -
  let ?r = "\<lparr>tr_Ticker = batchTicker, tr_Commands = all_skipped order\<rparr>"
  have r: "runBatchForTicker ovf tx e batchTicker order batchForce rawDir now (None, st) =
      ((None, st), if list_all skip order then Ret ?r else Panic ''nil pointer dereference'')"
    by (simp add: runBatchForTicker_def batch_commands_no_context [OF assms(2,5)])
  have "filter (\<lambda>c. all_skipped order c = Some status) order = (if status = ''skipped'' then order else [])" for status
    by (auto simp: all_skipped_def filter_id_conv filter_empty_conv)
  then have t: "tally [?r] status order = (if status = ''skipped'' then int (length order) else 0)" for status
    by (simp add: tally_single)
  show ?thesis using assms(1) r by (simp add: runBatch_def Let_def t flip: assms(3,4))
qed


definition sample_batch :: "(string, unit, instant) batch_env" where
  "sample_batch =
     \<lparr>be_market = sample_env (page_yahoo ''x'' (Err ErrDecode)), be_info = \<lambda>_. Ret [], be_actions = \<lambda>_. Ret [], be_sort_d = \<lambda>_ xs. xs,
      be_sort_s = \<lambda>_ xs. xs, be_metadata = \<lambda>_. Ret [], be_holders = \<lambda>_. Ret [], be_insider = \<lambda>_. Ret [], be_upgrades = \<lambda>_. Ret [],
      be_calendar = \<lambda>_. Ret [], be_html = \<lambda>_. Ret (HText []), be_filings = \<lambda>_. Ret [], be_esg = \<lambda>_. Ret [], be_trend = \<lambda>_. Ret [],
      be_options = \<lambda>_. Ret [], be_glob = \<lambda>_ _. [], be_join = \<lambda>ps. Join ps ''/'', be_write = \<lambda>_ _ st. st, be_sleep = \<lambda>_ st. st,
      be_json = \<lambda>_. []\<rparr>"

lemma runBatch_without_context_witness:
  "runBatch (\<lambda>_. 0) \<lparr>tl_arg = \<lambda>_. [], tl_url = id\<rparr> sample_batch (\<lambda>_. Ret ([], None)) [''info'', ''news''] ''/home'' ''A'' False (ready_client 3, ()) =
     ((ready_client 3, ()), Panic ''nil pointer dereference'')"
proof -
  have "list_all (\<lambda>c. map_of (commandRegistry (\<lambda>_. 0) sample_batch) c \<noteq> None) [''info'', ''news'']"
    by (simp add: commandRegistry_def Let_def)
  then show ?thesis
    using runBatch_without_context [of "''A''" "\<lambda>_. 0" sample_batch "[''info'', ''news'']" _ "''/home''" _ "(ready_client 3, ())" False "\<lambda>_. False",
        OF _ _ refl refl]
    by (simp add: ShouldSkip_def sample_batch_def)
qed

end
