(* ===== verification/Profile.thy ===== *)
theory Profile
  imports Json EmitFinancials EmitNews
begin

text \<open>
  The company profile: its extraction from a page (\<^verbatim>\<open>internal/scrape/profile.go\<close>), its mapping to canonical JSON
  (\<^verbatim>\<open>internal/emit/map_profile.go\<close>) and the configurable mapper of \<^verbatim>\<open>internal/emit/scrape_mapper.go\<close>.
  \<open>rx\<close> is \<^verbatim>\<open>regexp.MustCompile(p).FindStringSubmatch\<close>, a panic when \<open>p\<close> is no pattern, and \<open>decode\<close> is \<^verbatim>\<open>json.Unmarshal\<close>
  into a variable of type \<^verbatim>\<open>any\<close>. Strings are valid UTF-8, so encoding and decoding them gives them back.
\<close>

section \<open>Extraction\<close>

record Executive =
  ex_Name :: string
  ex_Title :: string
  ex_YearBorn :: "int64 option"
  ex_TotalPay :: "int64 option"
  ex_ExercisedValue :: "int64 option"
  ex_UnexercisedValue :: "int64 option"

record ComprehensiveProfileDTO =
  cp_Symbol :: string
  cp_Market :: string
  cp_AsOf :: instant
  cp_CompanyName :: string
  cp_ShortName :: string
  cp_Address1 :: string
  cp_City :: string
  cp_State :: string
  cp_Zip :: string
  cp_Country :: string
  cp_Phone :: string
  cp_Website :: string
  cp_Industry :: string
  cp_Sector :: string
  cp_FullTimeEmployees :: "int64 option"
  cp_BusinessSummary :: string
  cp_Executives :: "Executive list"
  cp_MaxAge :: "int64 option"
  cp_AuditRisk :: "int64 option"
  cp_BoardRisk :: "int64 option"
  cp_CompensationRisk :: "int64 option"
  cp_ShareHolderRightsRisk :: "int64 option"
  cp_OverallRisk :: "int64 option"
  cp_GovernanceEpochDate :: "int64 option"
  cp_CompensationAsOfEpochDate :: "int64 option"

definition new_profile :: "string \<Rightarrow> string \<Rightarrow> instant \<Rightarrow> ComprehensiveProfileDTO" where
  "new_profile symbol market now =
     \<lparr>cp_Symbol = symbol, cp_Market = market, cp_AsOf = now, cp_CompanyName = [], cp_ShortName = [], cp_Address1 = [], cp_City = [],
      cp_State = [], cp_Zip = [], cp_Country = [], cp_Phone = [], cp_Website = [], cp_Industry = [], cp_Sector = [],
      cp_FullTimeEmployees = None, cp_BusinessSummary = [], cp_Executives = [], cp_MaxAge = None, cp_AuditRisk = None,
      cp_BoardRisk = None, cp_CompensationRisk = None, cp_ShareHolderRightsRisk = None, cp_OverallRisk = None,
      cp_GovernanceEpochDate = None, cp_CompensationAsOfEpochDate = None\<rparr>"

text \<open>A member assigned when it is present with its type.\<close>

definition string_or :: "string \<Rightarrow> string \<Rightarrow> (string \<times> json) list \<Rightarrow> string" where
  "string_or old k m = (case get_string k m of Some s \<Rightarrow> s | None \<Rightarrow> old)"

definition int_or :: "(f64 \<Rightarrow> int) \<Rightarrow> int64 option \<Rightarrow> string \<Rightarrow> (string \<times> json) list \<Rightarrow> int64 option" where
  "int_or ovf old k m = (case get_float k m of Some x \<Rightarrow> Some (f_to_int64 ovf x) | None \<Rightarrow> old)"

definition raw_amount :: "(f64 \<Rightarrow> int) \<Rightarrow> string \<Rightarrow> (string \<times> json) list \<Rightarrow> int64 option" where
  "raw_amount ovf k m = (case get_map k m of Some r \<Rightarrow> int_or ovf None ''raw'' r | None \<Rightarrow> None)"

definition extractCompanyInfoFromJSON :: "(f64 \<Rightarrow> int) \<Rightarrow> (string \<times> json) list \<Rightarrow> ComprehensiveProfileDTO \<Rightarrow> ComprehensiveProfileDTO" where
  "extractCompanyInfoFromJSON ovf p dto =
     dto\<lparr>cp_Address1 := string_or (cp_Address1 dto) ''address1'' p, cp_City := string_or (cp_City dto) ''city'' p,
       cp_State := string_or (cp_State dto) ''state'' p, cp_Zip := string_or (cp_Zip dto) ''zip'' p,
       cp_Country := string_or (cp_Country dto) ''country'' p, cp_Phone := string_or (cp_Phone dto) ''phone'' p,
       cp_Website := string_or (cp_Website dto) ''website'' p, cp_Industry := string_or (cp_Industry dto) ''industry'' p,
       cp_Sector := string_or (cp_Sector dto) ''sector'' p,
       cp_FullTimeEmployees := int_or ovf (cp_FullTimeEmployees dto) ''fullTimeEmployees'' p,
       cp_BusinessSummary := string_or (cp_BusinessSummary dto) ''longBusinessSummary'' p\<rparr>"

definition officer_of :: "(f64 \<Rightarrow> int) \<Rightarrow> (string \<times> json) list \<Rightarrow> Executive" where
  "officer_of ovf m =
     \<lparr>ex_Name = string_or [] ''name'' m, ex_Title = string_or [] ''title'' m, ex_YearBorn = int_or ovf None ''yearBorn'' m,
      ex_TotalPay = raw_amount ovf ''totalPay'' m, ex_ExercisedValue = raw_amount ovf ''exercisedValue'' m,
      ex_UnexercisedValue = raw_amount ovf ''unexercisedValue'' m\<rparr>"

fun officers_loop :: "(f64 \<Rightarrow> int) \<Rightarrow> json list \<Rightarrow> Executive list \<Rightarrow> Executive list" where
  "officers_loop ovf [] acc = acc"
| "officers_loop ovf (v # vs) acc =
     (case v of
        JObj m \<Rightarrow>
          (let e = officer_of ovf m
           in officers_loop ovf vs (if ex_Name e \<noteq> [] \<or> ex_Title e \<noteq> [] then acc @ [e] else acc))
      | _ \<Rightarrow> officers_loop ovf vs acc)"

definition extractExecutivesFromJSON :: "(f64 \<Rightarrow> int) \<Rightarrow> (string \<times> json) list \<Rightarrow> ComprehensiveProfileDTO \<Rightarrow> ComprehensiveProfileDTO" where
  "extractExecutivesFromJSON ovf p dto =
     (case get_array ''companyOfficers'' p of None \<Rightarrow> dto
      | Some vs \<Rightarrow> dto\<lparr>cp_Executives := officers_loop ovf vs (cp_Executives dto)\<rparr>)"

definition extractAdditionalInfoFromJSON :: "(f64 \<Rightarrow> int) \<Rightarrow> (string \<times> json) list \<Rightarrow> ComprehensiveProfileDTO \<Rightarrow> ComprehensiveProfileDTO" where
  "extractAdditionalInfoFromJSON ovf p dto =
     dto\<lparr>cp_MaxAge := int_or ovf (cp_MaxAge dto) ''maxAge'' p, cp_AuditRisk := int_or ovf (cp_AuditRisk dto) ''auditRisk'' p,
       cp_BoardRisk := int_or ovf (cp_BoardRisk dto) ''boardRisk'' p,
       cp_CompensationRisk := int_or ovf (cp_CompensationRisk dto) ''compensationRisk'' p,
       cp_ShareHolderRightsRisk := int_or ovf (cp_ShareHolderRightsRisk dto) ''shareHolderRightsRisk'' p,
       cp_OverallRisk := int_or ovf (cp_OverallRisk dto) ''overallRisk'' p,
       cp_GovernanceEpochDate := int_or ovf (cp_GovernanceEpochDate dto) ''governanceEpochDate'' p,
       cp_CompensationAsOfEpochDate := int_or ovf (cp_CompensationAsOfEpochDate dto) ''compensationAsOfEpochDate'' p\<rparr>"

definition profile_pattern :: string where \<open>profile_pattern = ''(?s)<script type="application/json".*?assetProfile.*?>(.*?)</script>''\<close>

definition quote_pattern :: "string \<Rightarrow> string" where
  \<open>quote_pattern symbol = ''(?s)<script type="application/json".*?v7/finance/quote.*?symbols=.*?'' @ symbol @ ''.*?>(.*?)</script>''\<close>

definition any_quote_pattern :: string where \<open>any_quote_pattern = ''(?s)<script type="application/json".*?quoteResponse.*?>(.*?)</script>''\<close>

text \<open>The JSON of a script holds the JSON it was made from as a text in its member \<^verbatim>\<open>body\<close>.\<close>

definition script_data :: "(string \<Rightarrow> json go) \<Rightarrow> string \<Rightarrow> (string \<times> json) list go" where
  "script_data decode script =
     go_bind (go_wrap ''failed to parse outer JSON: %w'' [] (go_bind (decode script) as_map)) (\<lambda>outer.
     (case get_string ''body'' outer of
        None \<Rightarrow> Err (Errorf ''body field not found or not a string'' [])
      | Some body \<Rightarrow> go_wrap ''failed to parse inner JSON: %w'' [] (go_bind (decode body) as_map)))"

definition asset_profile :: "(string \<times> json) list \<Rightarrow> (string \<times> json) list go" where
  "asset_profile inner =
     (case get_map ''quoteSummary'' inner of None \<Rightarrow> Err (Errorf ''quoteSummary not found'' [])
      | Some s \<Rightarrow>
     (case get_array ''result'' s of None \<Rightarrow> Err (Errorf ''result array not found or empty'' [])
      | Some [] \<Rightarrow> Err (Errorf ''result array not found or empty'' [])
      | Some (JObj first # _) \<Rightarrow>
          (case get_map ''assetProfile'' first of None \<Rightarrow> Err (Errorf ''assetProfile not found'' []) | Some p \<Rightarrow> Ret p)
      | Some _ \<Rightarrow> Err (Errorf ''first result item is not a map'' [])))"

definition extractProfileFromJSON ::
  "(f64 \<Rightarrow> int) \<Rightarrow> (string \<Rightarrow> string \<Rightarrow> string list go) \<Rightarrow> (string \<Rightarrow> json go) \<Rightarrow> string \<Rightarrow> ComprehensiveProfileDTO \<Rightarrow> ComprehensiveProfileDTO go" where
  "extractProfileFromJSON ovf rx decode html dto =
     go_bind (rx profile_pattern html) (\<lambda>m.
     if length m < 2 then Err (Errorf ''no script tag with assetProfile found'' [])
     else go_bind (script_data decode (m ! 1)) (\<lambda>inner.
       go_bind (asset_profile inner) (\<lambda>p.
       Ret (extractAdditionalInfoFromJSON ovf p (extractExecutivesFromJSON ovf p (extractCompanyInfoFromJSON ovf p dto))))))"

fun company_names :: "json list \<Rightarrow> ComprehensiveProfileDTO \<Rightarrow> ComprehensiveProfileDTO" where
  "company_names [] dto = dto"
| "company_names (v # vs) dto =
     (case v of
        JObj q \<Rightarrow>
          if get_string ''symbol'' q = Some (cp_Symbol dto)
          then dto\<lparr>cp_CompanyName := string_or (cp_CompanyName dto) ''longName'' q, cp_ShortName := string_or (cp_ShortName dto) ''shortName'' q\<rparr>
          else company_names vs dto
      | _ \<Rightarrow> company_names vs dto)"

definition extractCompanyNameFromQuote ::
  "(string \<Rightarrow> string \<Rightarrow> string list go) \<Rightarrow> (string \<Rightarrow> json go) \<Rightarrow> string \<Rightarrow> ComprehensiveProfileDTO \<Rightarrow> ComprehensiveProfileDTO go" where
  "extractCompanyNameFromQuote rx decode html dto =
     go_bind (rx (quote_pattern (cp_Symbol dto)) html) (\<lambda>m1.
     go_bind (if length m1 < 2 then rx any_quote_pattern html else Ret m1) (\<lambda>m.
     if length m < 2 then Ret dto
     else (case script_data decode (m ! 1) of
         Panic p \<Rightarrow> Panic p
       | Err e \<Rightarrow> Ret dto
       | Ret inner \<Rightarrow>
           Ret (case get_map ''quoteResponse'' inner of None \<Rightarrow> dto
              | Some r \<Rightarrow> (case get_array ''result'' r of None \<Rightarrow> dto | Some quotes \<Rightarrow> company_names quotes dto)))))"

definition ParseComprehensiveProfile ::
  "(f64 \<Rightarrow> int) \<Rightarrow> (string \<Rightarrow> string \<Rightarrow> string list go) \<Rightarrow> (string \<Rightarrow> json go) \<Rightarrow> instant \<Rightarrow> string \<Rightarrow> string \<Rightarrow> string \<Rightarrow>
   ComprehensiveProfileDTO go" where
  "ParseComprehensiveProfile ovf rx decode now html symbol market =
     go_bind (go_wrap ''failed to extract profile from JSON: %w'' []
       (extractProfileFromJSON ovf rx decode html (new_profile symbol market now))) (\<lambda>dto.
     extractCompanyNameFromQuote rx decode html dto)"

section \<open>Normalized profiles\<close>

record SecurityInfo =
  si_Symbol :: string
  si_Market :: string

record Address =
  ad_Address1 :: string
  ad_City :: string
  ad_State :: string
  ad_Zip :: string
  ad_Country :: string
  ad_Phone :: string

record CompanyInfo =
  co_Name :: string
  co_ShortName :: string
  co_Website :: string
  co_Industry :: string
  co_Sector :: string
  co_BusinessSummary :: string
  co_FullTimeEmployees :: "int64 option"
  co_Address :: Address

record MonetaryAmount =
  ma_Amount :: int64
  ma_Currency :: string

record CompensationInfo =
  cn_TotalPay :: "MonetaryAmount option"
  cn_ExercisedValue :: "MonetaryAmount option"
  cn_UnexercisedValue :: "MonetaryAmount option"

record ExecutiveInfo =
  ei_Name :: string
  ei_Title :: string
  ei_Age :: "int option"
  ei_Compensation :: "CompensationInfo option"

record GovernanceInfo =
  go_AuditRisk :: "int64 option"
  go_BoardRisk :: "int64 option"
  go_CompensationRisk :: "int64 option"
  go_ShareHolderRightsRisk :: "int64 option"
  go_OverallRisk :: "int64 option"
  go_GovernanceEpochDate :: "int64 option"

record NormalizedProfile =
  np_Security :: SecurityInfo
  np_Company :: CompanyInfo
  np_Executives :: "ExecutiveInfo list"
  np_Governance :: GovernanceInfo
  np_AsOf :: string

definition cleanString :: "string \<Rightarrow> string" where
  "cleanString s = (let cleaned = TrimSpace s in if cleaned = [] then [] else Join (Fields cleaned) '' '')"

definition clock_text :: "instant \<Rightarrow> string" where
  "clock_text t =
     (let s = nat (t div second mod 86400)
      in pad_digits 2 (s div 3600) @ '':'' @ pad_digits 2 (s div 60 mod 60) @ '':'' @ pad_digits 2 (s mod 60))"

definition format_UTC :: "instant \<Rightarrow> string" where
  "format_UTC t = format_date t @ ''T'' @ clock_text t @ ''Z''"

definition age_of :: "instant \<Rightarrow> int64 option \<Rightarrow> int option" where
  "age_of asof born =
     (case born of None \<Rightarrow> None
      | Some y \<Rightarrow> if 0 < y then (let age = time_Year asof - y in if 0 < age \<and> age < 150 then Some age else None) else None)"

definition usd :: "int64 option \<Rightarrow> MonetaryAmount option" where
  "usd = map_option (\<lambda>n. \<lparr>ma_Amount = n, ma_Currency = ''USD''\<rparr>)"

definition executive_info :: "instant \<Rightarrow> Executive \<Rightarrow> ExecutiveInfo" where
  "executive_info asof e =
     \<lparr>ei_Name = cleanString (ex_Name e), ei_Title = cleanString (ex_Title e), ei_Age = age_of asof (ex_YearBorn e),
      ei_Compensation =
        (if ex_TotalPay e \<noteq> None \<or> ex_ExercisedValue e \<noteq> None \<or> ex_UnexercisedValue e \<noteq> None
         then Some \<lparr>cn_TotalPay = usd (ex_TotalPay e), cn_ExercisedValue = usd (ex_ExercisedValue e),
           cn_UnexercisedValue = usd (ex_UnexercisedValue e)\<rparr>
         else None)\<rparr>"

definition normalizeProfileData :: "ComprehensiveProfileDTO \<Rightarrow> NormalizedProfile" where
  "normalizeProfileData dto =
     \<lparr>np_Security = \<lparr>si_Symbol = cp_Symbol dto, si_Market = cp_Market dto\<rparr>,
      np_Company =
        \<lparr>co_Name = cleanString (cp_CompanyName dto), co_ShortName = cleanString (cp_ShortName dto),
         co_Website = cleanString (cp_Website dto), co_Industry = cleanString (cp_Industry dto),
         co_Sector = cleanString (cp_Sector dto), co_BusinessSummary = cleanString (cp_BusinessSummary dto),
         co_FullTimeEmployees = cp_FullTimeEmployees dto,
         co_Address =
           \<lparr>ad_Address1 = cleanString (cp_Address1 dto), ad_City = cleanString (cp_City dto), ad_State = cleanString (cp_State dto),
            ad_Zip = cleanString (cp_Zip dto), ad_Country = cleanString (cp_Country dto), ad_Phone = cleanString (cp_Phone dto)\<rparr>\<rparr>,
      np_Executives = map (executive_info (cp_AsOf dto)) (cp_Executives dto),
      np_Governance =
        (if cp_AuditRisk dto \<noteq> None \<or> cp_BoardRisk dto \<noteq> None \<or> cp_CompensationRisk dto \<noteq> None \<or> cp_ShareHolderRightsRisk dto \<noteq> None \<or>
            cp_OverallRisk dto \<noteq> None \<or> cp_GovernanceEpochDate dto \<noteq> None
         then \<lparr>go_AuditRisk = cp_AuditRisk dto, go_BoardRisk = cp_BoardRisk dto, go_CompensationRisk = cp_CompensationRisk dto,
           go_ShareHolderRightsRisk = cp_ShareHolderRightsRisk dto, go_OverallRisk = cp_OverallRisk dto,
           go_GovernanceEpochDate = cp_GovernanceEpochDate dto\<rparr>
         else \<lparr>go_AuditRisk = None, go_BoardRisk = None, go_CompensationRisk = None, go_ShareHolderRightsRisk = None,
           go_OverallRisk = None, go_GovernanceEpochDate = None\<rparr>),
      np_AsOf = format_UTC (cp_AsOf dto)\<rparr>"

section \<open>Encoding\<close>

text \<open>
  The members of a struct after encoding it and decoding the text into a map: \<^verbatim>\<open>omitempty\<close> drops empty strings, nil pointers and
  empty slices but no struct, and an integer is read back as the nearest \<^verbatim>\<open>float64\<close>.
\<close>

definition str_member :: "string \<Rightarrow> string \<Rightarrow> (string \<times> json) list" where
  "str_member k s = (if s = [] then [] else [(k, JStr s)])"

definition opt_member :: "string \<Rightarrow> ('a \<Rightarrow> json) \<Rightarrow> 'a option \<Rightarrow> (string \<times> json) list" where
  "opt_member k f v = (case v of None \<Rightarrow> [] | Some x \<Rightarrow> [(k, f x)])"

definition list_member :: "string \<Rightarrow> ('a \<Rightarrow> json) \<Rightarrow> 'a list \<Rightarrow> (string \<times> json) list" where
  "list_member k f vs = (if vs = [] then [] else [(k, JArr (map f vs))])"

definition int_json :: "int64 \<Rightarrow> json" where "int_json n = JNum (f_of_int n)"

definition address_json :: "Address \<Rightarrow> json" where
  "address_json a =
     JObj (str_member ''address1'' (ad_Address1 a) @ str_member ''city'' (ad_City a) @ str_member ''state'' (ad_State a) @
       str_member ''zip'' (ad_Zip a) @ str_member ''country'' (ad_Country a) @ str_member ''phone'' (ad_Phone a))"

definition company_json :: "CompanyInfo \<Rightarrow> json" where
  "company_json c =
     JObj (str_member ''name'' (co_Name c) @ str_member ''short_name'' (co_ShortName c) @ str_member ''website'' (co_Website c) @
       str_member ''industry'' (co_Industry c) @ str_member ''sector'' (co_Sector c) @ str_member ''business_summary'' (co_BusinessSummary c) @
       opt_member ''full_time_employees'' int_json (co_FullTimeEmployees c) @ [(''address'', address_json (co_Address c))])"

definition amount_json :: "MonetaryAmount \<Rightarrow> json" where
  "amount_json m = JObj [(''amount'', int_json (ma_Amount m)), (''currency'', JStr (ma_Currency m))]"

definition compensation_json :: "CompensationInfo \<Rightarrow> json" where
  "compensation_json c =
     JObj (opt_member ''total_pay'' amount_json (cn_TotalPay c) @ opt_member ''exercised_value'' amount_json (cn_ExercisedValue c) @
       opt_member ''unexercised_value'' amount_json (cn_UnexercisedValue c))"

definition executive_json :: "ExecutiveInfo \<Rightarrow> json" where
  "executive_json e =
     JObj (str_member ''name'' (ei_Name e) @ str_member ''title'' (ei_Title e) @ opt_member ''age'' int_json (ei_Age e) @
       opt_member ''compensation'' compensation_json (ei_Compensation e))"

definition governance_json :: "GovernanceInfo \<Rightarrow> json" where
  "governance_json g =
     JObj (opt_member ''audit_risk'' int_json (go_AuditRisk g) @ opt_member ''board_risk'' int_json (go_BoardRisk g) @
       opt_member ''compensation_risk'' int_json (go_CompensationRisk g) @
       opt_member ''share_holder_rights_risk'' int_json (go_ShareHolderRightsRisk g) @
       opt_member ''overall_risk'' int_json (go_OverallRisk g) @ opt_member ''governance_epoch_date'' int_json (go_GovernanceEpochDate g))"

definition profile_json :: "NormalizedProfile \<Rightarrow> json" where
  "profile_json p =
     JObj ([(''security'', JObj [(''symbol'', JStr (si_Symbol (np_Security p))), (''market'', JStr (si_Market (np_Security p)))]),
        (''company'', company_json (np_Company p))] @
       list_member ''executives'' executive_json (np_Executives p) @
       [(''governance'', governance_json (np_Governance p)), (''as_of'', JStr (np_AsOf p))])"

record ProfileMappingResult =
  pr_JSONBytes :: string
  pr_Security :: pb_SecurityId
  pr_Meta :: pb_Meta
  pr_ContentType :: string
  pr_SchemaFQDN :: string

definition MapProfileDTO ::
  "(f64 \<Rightarrow> string) \<Rightarrow> (string \<Rightarrow> string) \<Rightarrow> ComprehensiveProfileDTO option \<Rightarrow> string \<Rightarrow> string \<Rightarrow> ProfileMappingResult go" where
  "MapProfileDTO num quote dto runID producer =
     (case dto of
        None \<Rightarrow> Err (Errorf ''ComprehensiveProfileDTO cannot be nil'' [])
      | Some d \<Rightarrow>
          go_bind (go_wrap ''failed to marshal profile to canonical JSON: %w'' []
            (canonical_Marshal num quote (Ret (profile_json (normalizeProfileData d))))) (\<lambda>bytes.
          Ret \<lparr>pr_JSONBytes = bytes, pr_Security = \<lparr>ps_Symbol = cp_Symbol d, ps_Mic = normalizeMIC (cp_Market d)\<rparr>,
            pr_Meta = \<lparr>pm_RunId = runID, pm_Source = ''yfinance-go/scrape'', pm_Producer = producer,
              pm_SchemaVersion = ''ampy.reference.v1:2.1.0''\<rparr>,
            pr_ContentType = ''application/json'', pr_SchemaFQDN = ''ampy.raw.v1.JsonBlob''\<rparr>))"

section \<open>The configurable mapper\<close>

record ScrapeMapperConfig =
  mc_RunID :: string
  mc_Producer :: string
  mc_Source :: string
  mc_TraceID :: string

definition NewScrapeMapper :: "ScrapeMapperConfig \<Rightarrow> ScrapeMapperConfig" where
  "NewScrapeMapper config = (if mc_Source config = [] then config\<lparr>mc_Source := ''yfinance-go/scrape''\<rparr> else config)"

definition mapper_createMeta :: "ScrapeMapperConfig \<Rightarrow> string \<Rightarrow> pb_Meta" where
  "mapper_createMeta m schemaVersion =
     \<lparr>pm_RunId = mc_RunID m, pm_Source = mc_Source m, pm_Producer = mc_Producer m, pm_SchemaVersion = schemaVersion\<rparr>"

definition mapPeriodLine :: "(instant \<Rightarrow> 'ts) \<Rightarrow> PeriodLine \<Rightarrow> 'ts pb_LineItem go" where
  "mapPeriodLine ts line =
     (let val = \<lparr>pd_Scaled = ss_Scaled (sl_Value line), pd_Scale = wrap32 (ss_Scale (sl_Value line))\<rparr> in
      go_bind (go_guard (ss_Scale (sl_Value line) < 0 \<or> 9 < ss_Scale (sl_Value line))
        (Errorf ''invalid scale %d, must be between 0 and 9'' [AInt (ss_Scale (sl_Value line))])) (\<lambda>_.
      let currencyCode = (if sl_Currency line = [] then ''USD'' else sl_Currency line)
      in Ret \<lparr>pl_Key = sl_Key line, pl_Value = val, pl_CurrencyCode = currencyCode,
           pl_PeriodStart = ts (sl_PeriodStart line), pl_PeriodEnd = ts (sl_PeriodEnd line)\<rparr>))"

fun map_period_lines :: "(instant \<Rightarrow> 'ts) \<Rightarrow> nat \<Rightarrow> PeriodLine list \<Rightarrow> 'ts pb_LineItem list go" where
  "map_period_lines ts i [] = Ret []"
| "map_period_lines ts i (l # ls) =
     go_bind (go_wrap ''failed to map line item %d: %w'' [AInt (int i)] (mapPeriodLine ts l)) (\<lambda>p.
     go_bind (map_period_lines ts (i + 1) ls) (\<lambda>ps. Ret (p # ps)))"

definition MapFinancials :: "(instant \<Rightarrow> 'ts) \<Rightarrow> ScrapeMapperConfig \<Rightarrow> FinancialsDTO option \<Rightarrow> 'ts pb_FundamentalsSnapshot go" where
  "MapFinancials ts m dto =
     (case dto of
        None \<Rightarrow> Err (Errorf ''FinancialsDTO cannot be nil'' [])
      | Some d \<Rightarrow>
          go_bind (map_period_lines ts 0 (sd_Lines d)) (\<lambda>lines.
          Ret \<lparr>pf_Security = \<lparr>ps_Symbol = sd_Symbol d, ps_Mic = sd_Market d\<rparr>, pf_Lines = lines,
            pf_Source = mc_Source m @ ''/financials'', pf_AsOf = ts (sd_AsOf d), pf_Meta = mapper_createMeta m ''ampy.fundamentals.v1:2.1.0''\<rparr>))"

text \<open>\<open>encode\<close> is encoding the DTO and decoding the text into a map.\<close>

definition MapProfile ::
  "(f64 \<Rightarrow> string) \<Rightarrow> (string \<Rightarrow> string) \<Rightarrow> (ComprehensiveProfileDTO \<Rightarrow> json go) \<Rightarrow> ComprehensiveProfileDTO option \<Rightarrow> string go" where
  "MapProfile num quote encode dto =
     (case dto of
        None \<Rightarrow> Err (Errorf ''ProfileDTO cannot be nil'' [])
      | Some d \<Rightarrow> go_wrap ''failed to marshal profile to JSON: %w'' [] (canonical_Marshal num quote (encode d)))"

definition mapNewsItem :: "(instant \<Rightarrow> 'ts) \<Rightarrow> ScrapeMapperConfig \<Rightarrow> NewsItem \<Rightarrow> 'ts pb_NewsItem" where
  "mapNewsItem ts m item =
     \<lparr>pn_Headline = ni_Title item, pn_Url = ni_URL item, pn_Source = ni_Source item, pn_PublishedAt = map_option ts (ni_PublishedAt item),
      pn_Tickers = ni_RelatedTickers item, pn_Meta = mapper_createMeta m ''ampy.news.v1:2.1.0''\<rparr>"

definition MapNews :: "(instant \<Rightarrow> 'ts) \<Rightarrow> ScrapeMapperConfig \<Rightarrow> NewsItem list \<Rightarrow> 'ts pb_NewsItem list" where
  "MapNews ts m items = (if length items = 0 then [] else map (mapNewsItem ts m) items)"

section \<open>From a page to its officers\<close>

definition json_objects :: "json list \<Rightarrow> (string \<times> json) list list" where
  "json_objects vs = List.map_filter (\<lambda>v. case v of JObj m \<Rightarrow> Some m | _ \<Rightarrow> None) vs"

definition identified :: "Executive \<Rightarrow> bool" where
  "identified e \<longleftrightarrow> ex_Name e \<noteq> [] \<or> ex_Title e \<noteq> []"

lemma officers_loop_eq: "officers_loop ovf vs acc = acc @ filter identified (map (officer_of ovf) (json_objects vs))"
  by (induction ovf vs acc rule: officers_loop.induct)
    (auto simp: json_objects_def identified_def map_filter_simps Let_def split: json.splits)

lemma company_names_kept:
  "cp_Symbol (company_names vs dto) = cp_Symbol dto" "cp_Market (company_names vs dto) = cp_Market dto"
  "cp_AsOf (company_names vs dto) = cp_AsOf dto" "cp_Executives (company_names vs dto) = cp_Executives dto"
  by (induction vs dto rule: company_names.induct) (auto split: json.splits)

lemma extractCompanyNameFromQuote_kept:
  "extractCompanyNameFromQuote rx decode html dto = Ret dto' \<Longrightarrow>
     cp_Symbol dto' = cp_Symbol dto \<and> cp_Market dto' = cp_Market dto \<and> cp_AsOf dto' = cp_AsOf dto \<and> cp_Executives dto' = cp_Executives dto"
  by (auto simp: extractCompanyNameFromQuote_def go_bind_eq_Ret company_names_kept split: if_splits go.splits option.splits)

lemma age_of_range: "age_of asof born = Some a \<Longrightarrow> 1 \<le> a \<and> a \<le> 149 \<and> born = Some (time_Year asof - a)"
  by (auto simp: age_of_def Let_def split: option.splits if_splits)

lemma parsed_profile:
  assumes "ParseComprehensiveProfile ovf rx decode now html symbol market = Ret dto"
  shows "cp_Symbol dto = symbol \<and> cp_Market dto = market \<and> cp_AsOf dto = now \<and>
    (\<exists>groups inner p. rx profile_pattern html = Ret groups \<and> 2 \<le> length groups \<and> script_data decode (groups ! 1) = Ret inner \<and>
       asset_profile inner = Ret p \<and>
       cp_Executives dto = (case get_array ''companyOfficers'' p of None \<Rightarrow> []
         | Some vs \<Rightarrow> filter identified (map (officer_of ovf) (json_objects vs))))"
proof -
  obtain d where d: "extractProfileFromJSON ovf rx decode html (new_profile symbol market now) = Ret d"
      and n: "extractCompanyNameFromQuote rx decode html d = Ret dto"
    using assms by (auto simp: ParseComprehensiveProfile_def go_bind_eq_Ret)
  obtain groups inner p where g: "rx profile_pattern html = Ret groups" "2 \<le> length groups" "script_data decode (groups ! 1) = Ret inner"
      "asset_profile inner = Ret p"
      "d = extractAdditionalInfoFromJSON ovf p (extractExecutivesFromJSON ovf p (extractCompanyInfoFromJSON ovf p (new_profile symbol market now)))"
    using d by (auto simp: extractProfileFromJSON_def go_bind_eq_Ret split: if_splits)
  have "cp_Executives d = (case get_array ''companyOfficers'' p of None \<Rightarrow> [] | Some vs \<Rightarrow> filter identified (map (officer_of ovf) (json_objects vs)))"
    "cp_Symbol d = symbol" "cp_Market d = market" "cp_AsOf d = now"
    unfolding g(5) by (simp_all add: extractAdditionalInfoFromJSON_def extractExecutivesFromJSON_def extractCompanyInfoFromJSON_def new_profile_def
        officers_loop_eq split: option.splits)
  then show ?thesis using extractCompanyNameFromQuote_kept [OF n] g(1-4) by auto
qed

lemma invalid_symbol_panics:
  assumes "rx (quote_pattern symbol) html = Panic p" "ParseComprehensiveProfile ovf rx decode now html symbol market = r"
  shows "\<not> is_ret r"
proof -
  have "cp_Symbol d = symbol" if "extractProfileFromJSON ovf rx decode html (new_profile symbol market now) = Ret d" for d
    using that by (auto simp: extractProfileFromJSON_def go_bind_eq_Ret extractAdditionalInfoFromJSON_def extractExecutivesFromJSON_def
        extractCompanyInfoFromJSON_def new_profile_def split: if_splits option.splits)
  then show ?thesis using assms
    by (auto simp: is_ret_conv ParseComprehensiveProfile_def extractCompanyNameFromQuote_def go_bind_eq_Ret)
qed

text \<open>Every officer of the page with a name or a title, in order, is an executive of the message, with an age of 1 to 149 or none.\<close>

definition reported :: "instant \<Rightarrow> Executive \<Rightarrow> ExecutiveInfo \<Rightarrow> bool" where
  "reported now e i \<longleftrightarrow>
     ei_Name i = cleanString (ex_Name e) \<and> ei_Title i = cleanString (ex_Title e) \<and>
     (\<forall>a. ei_Age i = Some a \<longrightarrow> 1 \<le> a \<and> a \<le> 149 \<and> ex_YearBorn e = Some (time_Year now - a)) \<and>
     (case ei_Compensation i of None \<Rightarrow> ex_TotalPay e = None \<and> ex_ExercisedValue e = None \<and> ex_UnexercisedValue e = None
      | Some c \<Rightarrow> map_option ma_Amount (cn_TotalPay c) = ex_TotalPay e \<and> map_option ma_Amount (cn_ExercisedValue c) = ex_ExercisedValue e \<and>
          map_option ma_Amount (cn_UnexercisedValue c) = ex_UnexercisedValue e)"

lemma executive_info_reported: "reported now e (executive_info now e)"
  by (auto simp: reported_def executive_info_def usd_def option.map_comp comp_def option.map_ident dest: age_of_range)

text \<open>
  C25: A profile parsed from a page and mapped to a message carries the symbol, the market and
  the run id; its JSON is the direct encoding of the normalized profile; and the officers of
  the page that have a name or a title are its executives, in order, with their amounts and an
  age that is absent or the difference of the years and from 1 to 149.
\<close>

theorem profile_from_page_to_message:
  assumes "ParseComprehensiveProfile ovf rx decode now html symbol market = Ret dto"
  shows "\<exists>groups inner p r. rx profile_pattern html = Ret groups \<and> script_data decode (groups ! 1) = Ret inner \<and> asset_profile inner = Ret p \<and>
    MapProfileDTO num quote (Some dto) runID producer = Ret r \<and>
    pr_JSONBytes r = json_Marshal num quote (profile_json (normalizeProfileData dto)) \<and>
    pr_Security r = \<lparr>ps_Symbol = symbol, ps_Mic = normalizeMIC market\<rparr> \<and> pm_RunId (pr_Meta r) = runID \<and>
    list_all2 (reported now)
      (case get_array ''companyOfficers'' p of None \<Rightarrow> [] | Some vs \<Rightarrow> filter identified (map (officer_of ovf) (json_objects vs)))
      (np_Executives (normalizeProfileData dto))"
proof -
  note d = parsed_profile [OF assms]
  have "list_all2 (reported now) (cp_Executives dto) (np_Executives (normalizeProfileData dto))"
    using d executive_info_reported by (simp add: normalizeProfileData_def list_all2_map2 list_all2_same)
  moreover have "\<exists>r. MapProfileDTO num quote (Some dto) runID producer = Ret r \<and>
      pr_JSONBytes r = json_Marshal num quote (profile_json (normalizeProfileData dto)) \<and>
      pr_Security r = \<lparr>ps_Symbol = symbol, ps_Mic = normalizeMIC market\<rparr> \<and> pm_RunId (pr_Meta r) = runID"
    using d canonical_Marshal_object by (simp add: MapProfileDTO_def profile_json_def del: json_Marshal.simps)
  ultimately show ?thesis using d by auto
qed

section \<open>The two mappers of statements\<close>

lemma map_period_lines_Ret: "is_ret (map_period_lines ts i ls) \<longleftrightarrow> list_all (\<lambda>l. 0 \<le> ss_Scale (sl_Value l) \<and> ss_Scale (sl_Value l) \<le> 9) ls"
  by (induction ts i ls rule: map_period_lines.induct) (auto simp: is_ret_conv go_bind_eq_Ret mapPeriodLine_def Let_def)

text \<open>The mapper checks less than \<open>MapFinancialsDTO\<close>: neither the currencies nor the periods.\<close>

lemma MapFinancials_iff:
  "is_ret (MapFinancials ts m (Some d)) \<longleftrightarrow> list_all (\<lambda>l. 0 \<le> ss_Scale (sl_Value l) \<and> ss_Scale (sl_Value l) \<le> 9) (sd_Lines d)"
  unfolding map_period_lines_Ret [of ts 0, symmetric] by (auto simp: MapFinancials_def is_ret_conv go_bind_eq_Ret)

section \<open>Example\<close>

definition sample_rx :: "string \<Rightarrow> string \<Rightarrow> string list go" where
  "sample_rx p t = Ret (if p = profile_pattern then [[], ''outer''] else [])"

definition sample_decode :: "string \<Rightarrow> json go" where
  "sample_decode s = Ret (if s = ''outer'' then JObj [(''body'', JStr ''inner'')]
     else JObj [(''quoteSummary'', JObj [(''result'', JArr [JObj [(''assetProfile'',
       JObj [(''companyOfficers'', JArr [JObj [(''name'', JStr ''Ann''), (''yearBorn'', JNum (Fin 1970))], JObj []])])]])])])"

lemma profile_from_page_to_message_witness:
  "\<exists>dto r i. ParseComprehensiveProfile (\<lambda>_. 0) sample_rx sample_decode 0 [] ''A'' ''XNAS'' = Ret dto \<and>
     MapProfileDTO (\<lambda>_. []) id (Some dto) ''run'' ''p'' = Ret r \<and> pm_RunId (pr_Meta r) = ''run'' \<and>
     np_Executives (normalizeProfileData dto) = [i] \<and> ei_Name i = ''Ann''"
proof -
  have ne: "quote_pattern s \<noteq> profile_pattern" "any_quote_pattern \<noteq> profile_pattern" for s
    by (simp_all add: quote_pattern_def profile_pattern_def any_quote_pattern_def)
  have "\<exists>dto. extractProfileFromJSON (\<lambda>_. 0) sample_rx sample_decode [] (new_profile ''A'' ''XNAS'' 0) = Ret dto"
    by (simp add: extractProfileFromJSON_def sample_rx_def script_data_def sample_decode_def as_map_def get_string_def asset_profile_def
        get_map_def get_array_def)
  then obtain dto where "extractProfileFromJSON (\<lambda>_. 0) sample_rx sample_decode [] (new_profile ''A'' ''XNAS'' 0) = Ret dto" by blast
  then have p: "ParseComprehensiveProfile (\<lambda>_. 0) sample_rx sample_decode 0 [] ''A'' ''XNAS'' = Ret dto"
    by (simp add: ParseComprehensiveProfile_def extractCompanyNameFromQuote_def sample_rx_def ne)
  have o: "filter identified (map (officer_of (\<lambda>_. 0)) (json_objects [JObj [(''name'', JStr ''Ann''), (''yearBorn'', JNum (Fin 1970))], JObj []])) =
      [officer_of (\<lambda>_. 0) [(''name'', JStr ''Ann''), (''yearBorn'', JNum (Fin 1970))]]"
    by (simp add: json_objects_def map_filter_simps identified_def officer_of_def string_or_def get_string_def)
  have c: "cleanString (ex_Name (officer_of (\<lambda>_. 0) [(''name'', JStr ''Ann''), (''yearBorn'', JNum (Fin 1970))])) = ''Ann''"
    by (simp add: officer_of_def string_or_def get_string_def) code_simp
  obtain inner q r where i: "script_data sample_decode ''outer'' = Ret inner" "asset_profile inner = Ret q"
      "MapProfileDTO (\<lambda>_. []) id (Some dto) ''run'' ''p'' = Ret r" "pm_RunId (pr_Meta r) = ''run''"
      "list_all2 (reported 0) (case get_array ''companyOfficers'' q of None \<Rightarrow> []
        | Some vs \<Rightarrow> filter identified (map (officer_of (\<lambda>_. 0)) (json_objects vs))) (np_Executives (normalizeProfileData dto))"
    using profile_from_page_to_message [OF p, of "\<lambda>_. []" id "''run''" "''p''"] by (auto simp: sample_rx_def)
  have "get_array ''companyOfficers'' q = Some [JObj [(''name'', JStr ''Ann''), (''yearBorn'', JNum (Fin 1970))], JObj []]"
    using i(1,2) by (auto simp: script_data_def sample_decode_def as_map_def get_string_def asset_profile_def get_map_def get_array_def)
  then show ?thesis using p i(3-5) o c by (auto simp: list_all2_Cons1 reported_def)
qed

end
