(* ===== verification/Twse.thy ===== *)
theory Twse
  imports Httpx ScrapeNumbers GoStrings "HOL-Library.AList"
begin

text \<open>
  The shared part of the client of the Taiwan Stock Exchange (\<^verbatim>\<open>svc/twse/fetch.go\<close>, \<^verbatim>\<open>types.go\<close>, \<^verbatim>\<open>parse.go\<close>): the request, the
  envelope of an answer and the numbers in its cells. A query is a Go \<^verbatim>\<open>url.Values\<close>: a map of keys to lists of values, as the list
  of its entries. The HTTP client of \<^verbatim>\<open>internal/config/httpclient.go\<close>, \<^verbatim>\<open>url.Parse\<close> and the JSON decoder are in \<open>twse_env\<close>.
\<close>

section \<open>Queries\<close>

type_synonym url_values = "(string \<times> string list) list"

definition values_Get :: "string \<Rightarrow> url_values \<Rightarrow> string" where
  "values_Get k q = (case map_of q k of Some (v # _) \<Rightarrow> v | _ \<Rightarrow> [])"

definition values_Set :: "string \<Rightarrow> string \<Rightarrow> url_values \<Rightarrow> url_values" where
  "values_Set k v q = AList.update k [v] q"

definition values_Add :: "string \<Rightarrow> string \<Rightarrow> url_values \<Rightarrow> url_values" where
  "values_Add k v q = AList.update k ((case map_of q k of Some vs \<Rightarrow> vs | None \<Rightarrow> []) @ [v]) q"

text \<open>The loop \<^verbatim>\<open>for k, vs := range opts { for _, v := range vs { q.Add(k, v) } }\<close>.\<close>

definition add_all :: "url_values \<Rightarrow> url_values \<Rightarrow> url_values" where
  "add_all opts q = fold (\<lambda>(k, vs). fold (values_Add k) vs) opts q"

definition url_Encode :: "url_values \<Rightarrow> string" where
  "url_Encode q =
     Join (concat (map (\<lambda>(k, vs). map (\<lambda>v. QueryEscape k @ ''='' @ QueryEscape v) vs) (sort_key fst q))) ''&''"

section \<open>Requests\<close>

definition BaseURL :: string where "BaseURL = ''https://www.twse.com.tw/rwd/zh''"
definition StatOK :: string where "StatOK = ''OK''"

definition userAgent :: string where
  "userAgent = ''Mozilla/5.0 (Macintosh; Intel Mac OS X 10_15_7) AppleWebKit/537.36 (KHTML, like Gecko) Chrome/91.0.4472.124 Safari/537.36''"

definition statNoData :: string where
  "statNoData = utf8 [230, 178, 146, 230, 156, 137, 231, 172, 166, 229, 144, 136, 230, 162, 157, 228, 187, 182, 231, 154, 132, 232, 179, 135, 230, 150, 153]"

definition ErrNoData :: goerror where "ErrNoData = ErrorString ''twse: no data for requested date''"

text \<open>The envelope of an answer; its member \<^verbatim>\<open>Extra\<close> is never written.\<close>

record TwseResponse =
  tw_Stat :: string
  tw_Title :: string
  tw_Fields :: "string list"
  tw_Data :: "string list list"
  tw_Notes :: "string list"
  tw_Total :: int

record DatedResponse = TwseResponse +
  dr_Date :: string

record StockResponse = DatedResponse +
  sr_StockNo :: string

record ('u, 's) twse_env =
  tw_parse :: "string \<Rightarrow> 'u go"
  tw_string :: "'u \<Rightarrow> string \<Rightarrow> string"
  tw_request :: "string \<Rightarrow> Request go"
  tw_send :: "Request \<Rightarrow> 's \<Rightarrow> 's \<times> (goerror + Response)"
  tw_dated :: "string \<Rightarrow> DatedResponse go"
  tw_stock :: "string \<Rightarrow> StockResponse go"

definition checkStat :: "'a TwseResponse_scheme \<Rightarrow> unit go" where
  "checkStat r =
     (if tw_Stat r = [] \<or> tw_Stat r = StatOK then Ret ()
      else if Contains (tw_Stat r) statNoData then Err ErrNoData
      else Ret ())"

text \<open>What is made of an answer.\<close>

definition twse_answer :: "(string \<Rightarrow> 'a TwseResponse_scheme go) \<Rightarrow> Response \<Rightarrow> 'a TwseResponse_scheme go" where
  "twse_answer decode resp =
     (if rsp_StatusCode resp sdiv 100 \<noteq> 2
      then Err (Errorf ''twse: unexpected status %d: %s'' [AInt (rsp_StatusCode resp), AStr (take 1024 (fst (rsp_Body resp)))])
      else go_bind (go_wrap ''twse: read body: %w'' [] (ReadAll (rsp_Body resp))) (\<lambda>body.
        if length body = 0 then Err ErrNoData
        else go_bind (go_wrap ''twse: decode json: %w'' [] (decode body)) (\<lambda>out.
          go_bind (checkStat out) (\<lambda>_. Ret out))))"

definition json_query :: "url_values \<Rightarrow> url_values" where
  "json_query query = values_Set ''response'' ''json'' (add_all query [])"

definition FetchJSON ::
  "('u, 's) twse_env \<Rightarrow> (string \<Rightarrow> 'a TwseResponse_scheme go) \<Rightarrow> string \<Rightarrow> url_values \<Rightarrow> 's \<Rightarrow> 's \<times> 'a TwseResponse_scheme go" where
  "FetchJSON env decode path query s =
     (let q = json_query query in
      case go_bind (go_wrap ''twse: invalid path %q: %w'' [AStr path] (tw_parse env (BaseURL @ path)))
          (\<lambda>u. tw_request env (tw_string env u (url_Encode q))) of
        Err e \<Rightarrow> (s, Err e)
      | Panic p \<Rightarrow> (s, Panic p)
      | Ret req \<Rightarrow>
          (case tw_send env (req\<lparr>rq_Header := (rq_Header req)(''User-Agent'' \<mapsto> userAgent)\<rparr>) s of
             (s', Inl e) \<Rightarrow> (s', Err (Wrapf ''twse: request failed: %w'' [] e))
           | (s', Inr resp) \<Rightarrow> (s', twse_answer decode resp)))"

section \<open>Numbers\<close>

definition quote_char :: char where "quote_char = CHR 0x22"

definition Trim_quotes :: "string \<Rightarrow> string" where
  "Trim_quotes s = rev (dropWhile (\<lambda>c. c = quote_char) (rev (dropWhile (\<lambda>c. c = quote_char) s)))"

function strip_commas :: "string \<Rightarrow> string" where
  "strip_commas s = (if Contains s '','' then strip_commas (replace_char CHR '','' [] s) else s)"
  by auto

lemma replace_comma: "replace_char CHR '','' [] s = filter (\<lambda>c. c \<noteq> CHR '','') s"
  by (induction s) (simp_all add: replace_char_def)

termination strip_commas
proof (relation "measure length")
  fix s :: string
  assume "Contains s '',''"
  then have "CHR '','' \<in> set s" by (simp add: Contains_char)
  then show "(replace_char CHR '','' [] s, s) \<in> measure length" by (simp add: replace_comma length_filter_less)
qed simp

declare strip_commas.simps [simp del]

definition StripNumberFmt :: "string \<Rightarrow> string" where
  "StripNumberFmt s = strip_commas (Trim_quotes (TrimSpace s))"

text \<open>
  The value that \<^verbatim>\<open>strconv.ParseInt(s, 10, 64)\<close> returns, whether or not an error comes with it: the digits are read until one makes
  the number too large, which gives the nearest number of 64 bits, or until a character is no digit, which gives zero.
\<close>

fun uint_scan :: "nat \<Rightarrow> string \<Rightarrow> nat option" where
  "uint_scan n [] = Some n"
| "uint_scan n (c # cs) =
     (if \<not> is_digit c then None
      else if 2 ^ 64 \<le> 10 * n + digit_of c then Some (2 ^ 64 - 1)
      else uint_scan (10 * n + digit_of c) cs)"

definition ParseInt_value :: "string \<Rightarrow> int64" where
  "ParseInt_value s =
     (let (sign, t) = split_sign s in
      if t = [] then 0
      else case uint_scan 0 t of
        None \<Rightarrow> 0
      | Some n \<Rightarrow>
          if sign = 1 \<and> 2 ^ 63 \<le> n then 2 ^ 63 - 1
          else if sign \<noteq> 1 \<and> 2 ^ 63 < n then - (2 ^ 63)
          else sign * int n)"

definition twse_ParseInt :: "string \<Rightarrow> int64" where
  "twse_ParseInt s = ParseInt_value (StripNumberFmt s)"

text \<open>\<^verbatim>\<open>strconv.ParseFloat\<close>: \<open>pf\<close> is its result on texts that are no plain decimal, \<open>pv\<close> the value it returns beside an error.\<close>

definition twse_ParseFloat :: "(string \<Rightarrow> f64 option) \<Rightarrow> (string \<Rightarrow> f64) \<Rightarrow> string \<Rightarrow> f64" where
  "twse_ParseFloat pf pv s = (let t = StripNumberFmt s in case ParseFloat pf t of Some x \<Rightarrow> x | None \<Rightarrow> pv t)"

definition ParsePercent :: "(string \<Rightarrow> f64 option) \<Rightarrow> (string \<Rightarrow> f64) \<Rightarrow> string \<Rightarrow> f64" where
  "ParsePercent pf pv s =
     (let t = TrimSuffix (StripNumberFmt s) ''%'' in case ParseFloat pf t of Some x \<Rightarrow> x | None \<Rightarrow> pv t)"

section \<open>Lemmas of queries\<close>

definition vals :: "string \<Rightarrow> url_values \<Rightarrow> string list" where
  "vals k q = (case map_of q k of Some vs \<Rightarrow> vs | None \<Rightarrow> [])"

lemma values_Get_vals: "values_Get k q = (case vals k q of [] \<Rightarrow> [] | v # _ \<Rightarrow> v)"
  by (auto simp: values_Get_def vals_def split: option.split list.split)

lemma vals_Set [simp]: "vals j (values_Set k v q) = (if j = k then [v] else vals j q)"
  by (simp add: vals_def values_Set_def update_conv)

lemma vals_Add [simp]: "vals j (values_Add k v q) = (if j = k then vals j q @ [v] else vals j q)"
  by (simp add: vals_def values_Add_def update_conv)

lemma vals_Nil [simp]: "vals k [] = []"
  by (simp add: vals_def)

lemma vals_fold_Add: "vals j (fold (values_Add k) vs q) = (if j = k then vals j q @ vs else vals j q)"
  by (induction vs arbitrary: q) simp_all

lemma vals_add_all: "vals k (add_all opts q) = vals k q @ concat (map snd (filter (\<lambda>(j, vs). j = k) opts))"
  by (induction opts arbitrary: q) (auto simp: add_all_def vals_fold_Add)

definition keyed :: "url_values \<Rightarrow> bool" where "keyed q \<longleftrightarrow> distinct (map fst q)"

lemma keyed_Nil [simp]: "keyed []" by (simp add: keyed_def)

lemma keyed_Set [simp]: "keyed q \<Longrightarrow> keyed (values_Set k v q)"
  by (simp add: keyed_def values_Set_def distinct_update)

lemma keyed_Add [simp]: "keyed q \<Longrightarrow> keyed (values_Add k v q)"
  by (simp add: keyed_def values_Add_def distinct_update)

lemma keyed_fold_Add: "keyed q \<Longrightarrow> keyed (fold (values_Add k) vs q)"
  by (induction vs arbitrary: q) simp_all

lemma keyed_add_all [simp]: "keyed q \<Longrightarrow> keyed (add_all opts q)"
  by (induction opts arbitrary: q) (auto simp: add_all_def keyed_fold_Add)

lemma keyed_concat: "keyed q \<Longrightarrow> concat (map snd (filter (\<lambda>(j, vs). j = k) q)) = vals k q"
proof (induction q)
  case (Cons e q)
  show ?case
  proof (cases "fst e = k")
    case True
    then have "\<forall>x \<in> set q. fst x \<noteq> k" using Cons.prems by (auto simp: keyed_def) (metis fst_conv image_eqI)
    then have "filter (\<lambda>(j, vs). j = k) q = []" by (auto simp: filter_empty_conv)
    then show ?thesis using True by (cases e) (simp add: vals_def)
  next
    case False
    then show ?thesis using Cons by (cases e) (simp add: keyed_def vals_def)
  qed
qed simp

lemma vals_json_query: "keyed q \<Longrightarrow> vals k (json_query q) = (if k = ''response'' then [''json''] else vals k q)"
  by (simp add: json_query_def vals_add_all keyed_concat)

section \<open>Lemmas of answers\<close>

lemma ok_stats: "\<not> Contains [] statNoData" "\<not> Contains StatOK statNoData"
  by (auto simp: Contains_def StatOK_def statNoData_def utf8_def dest: sublist_length_le)

lemma checkStat_eq: "checkStat r = (if Contains (tw_Stat r) statNoData then Err ErrNoData else Ret ())"
  using ok_stats by (auto simp: checkStat_def)

lemma status_2xx: "(c :: int) sdiv 100 = 2 \<longleftrightarrow> 200 \<le> c \<and> c < 300"
proof (cases "0 \<le> c")
  case True
  then show ?thesis by (simp add: sdiv_nonneg) linarith
next
  case False
  then have "c sdiv 100 \<le> 0" by (simp add: signed_divide_int_def sgn_if)
  then show ?thesis using False by simp
qed

text \<open>
  An answer is accepted exactly when its status is 200 to 299 and its body decodes to an envelope that does not say that there is
  no data, whatever else its status text says; and "no data" is reported exactly for an empty body or such an envelope.
\<close>

text \<open>
  An answer of the exchange is accepted exactly when its status is 200 to 299 and its
  body decodes to an envelope that does not contain the words for no data, whatever other
  failure its status text names; the error for no data is returned exactly for an empty body
  or an envelope with those words.
\<close>

theorem twse_answer_iff:
  "(twse_answer decode resp = Ret r \<longleftrightarrow>
      200 \<le> rsp_StatusCode resp \<and> rsp_StatusCode resp < 300 \<and>
      (\<exists>body. rsp_Body resp = (body, None) \<and> body \<noteq> [] \<and> decode body = Ret r) \<and> \<not> Contains (tw_Stat r) statNoData) \<and>
   (twse_answer decode resp = Err ErrNoData \<longleftrightarrow>
      200 \<le> rsp_StatusCode resp \<and> rsp_StatusCode resp < 300 \<and>
      (rsp_Body resp = ([], None) \<or>
       (\<exists>body e. rsp_Body resp = (body, None) \<and> body \<noteq> [] \<and> decode body = Ret e \<and> Contains (tw_Stat e) statNoData)))"
proof -
  obtain body err where b: "rsp_Body resp = (body, err)" by (metis prod.collapse)
  show ?thesis
    by (cases err; cases "decode body"; cases "body = []")
      (simp_all add: twse_answer_def b ReadAll_def status_2xx checkStat_eq ErrNoData_def, auto)
qed

section \<open>Lemmas of numbers\<close>

lemma strip_commas_eq: "strip_commas s = filter (\<lambda>c. c \<noteq> CHR '','') s"
proof (induction s rule: strip_commas.induct)
  case (1 s)
  show ?case
  proof (cases "Contains s '',''")
    case True
    then show ?thesis using 1 by (subst strip_commas.simps) (simp add: replace_comma)
  next
    case False
    then have "CHR '','' \<notin> set s" by (simp add: Contains_char)
    then have "filter (\<lambda>c. c \<noteq> CHR '','') s = s" by (auto intro: filter_True)
    then show ?thesis using False by (subst strip_commas.simps) simp
  qed
qed

lemma Trim_quotes_keeps:
  assumes "quote_char \<notin> set t"
  shows "Trim_quotes (replicate i quote_char @ t @ replicate j quote_char) = t"
proof -
  have d: "dropWhile (\<lambda>c. c = quote_char) (replicate i quote_char @ u) = dropWhile (\<lambda>c. c = quote_char) u" for i u
    by (induction i) simp_all
  have n: "dropWhile (\<lambda>c. c = quote_char) u = u" if "quote_char \<notin> set u" for u
    using that by (cases u) auto
  show ?thesis
  proof (cases "t = []")
    case True
    have e: "dropWhile (\<lambda>c. c = quote_char) (replicate i quote_char @ replicate j quote_char) = []"
      by (auto simp: dropWhile_eq_Nil_conv)
    show ?thesis unfolding Trim_quotes_def True append_Nil e by simp
  next
    case False
    then have "dropWhile (\<lambda>c. c = quote_char) (t @ replicate j quote_char) = t @ replicate j quote_char"
      using assms by (cases t) auto
    then show ?thesis using d [of i "t @ replicate j quote_char"] d [of j "rev t"] n [of "rev t"] assms
      by (simp add: Trim_quotes_def)
  qed
qed

lemma TrimSpace_around:
  assumes "list_all is_space u" "list_all is_space v" "\<forall>c \<in> set w. \<not> is_space c" "w \<noteq> []"
  shows "TrimSpace (u @ w @ v) = w"
proof -
  have d: "dropWhile is_space (xs @ w') = w'" if "list_all is_space xs" "w' \<noteq> []" "\<not> is_space (hd w')" for xs w'
    using that by (induction xs) (auto simp: neq_Nil_conv)
  have "dropWhile is_space (u @ w @ v) = w @ v" using assms by (intro d) (auto simp: hd_append)
  moreover have "dropWhile is_space (rev v @ rev w) = rev w"
    using assms by (intro d) (auto simp: list_all_iff hd_rev)
  ultimately show ?thesis by (simp add: TrimSpace_def)
qed

lemma digits_value_ge: "acc \<le> digits_value acc cs"
proof (induction acc cs rule: digits_value.induct)
  case (2 acc c cs)
  then show ?case by simp
qed simp

lemma uint_scan_digits: "list_all is_digit cs \<Longrightarrow> digits_value n cs < 2 ^ 64 \<Longrightarrow> uint_scan n cs = Some (digits_value n cs)"
proof (induction n cs rule: uint_scan.induct)
  case (2 n c cs)
  then have "10 * n + digit_of c < 2 ^ 64" using digits_value_ge [of "10 * n + digit_of c" cs] by simp
  then show ?case using 2 by simp
qed simp

lemma ParseInt_value_show: "is_int64 n \<Longrightarrow> ParseInt_value (show_int n) = n"
proof -
  assume n: "is_int64 n"
  have s: "split_sign (show_nat m) = (1, show_nat m)" for m
  proof -
    have "CHR ''-'' \<notin> set (show_nat m)" "CHR ''+'' \<notin> set (show_nat m)"
      by (intro digit_notin; simp add: is_digit_def code_of_def)+
    then show ?thesis by (cases "show_nat m") (auto simp: split_sign_def)
  qed
  have m: "uint_scan 0 (show_nat m) = Some m" if "m < 2 ^ 64" for m
    using uint_scan_digits [of "show_nat m" 0] that by simp
  show ?thesis
  proof (cases "n < 0")
    case True
    then have "nat (- n) \<le> 2 ^ 63" using n by (simp add: is_int64_def nat_le_iff)
    then show ?thesis using True m [of "nat (- n)"] by (simp add: ParseInt_value_def show_int_def split_sign_def)
  next
    case False
    then have "nat n < 2 ^ 63" using n by (simp add: is_int64_def nat_less_iff)
    then show ?thesis using False m [of "nat n"] s by (simp add: ParseInt_value_def show_int_def)
  qed
qed

lemma show_int_chars: "c \<in> set (show_int n) \<Longrightarrow> is_digit c \<or> c = CHR ''-''"
  using show_nat_decimal [of "nat n"] show_nat_decimal [of "nat (- n)"] by (auto simp: show_int_def list_all_iff split: if_splits)

text \<open>A number printed with separators, quoted and padded, is read back.\<close>

text \<open>
  A 64 bit integer printed with commas anywhere between its digits, quoted or not and
  padded with blanks, is read back by ParseInt; the loop that removes the commas ends.
\<close>

theorem grouped_number:
  assumes "is_int64 n" "filter (\<lambda>c. c \<noteq> CHR '','') t = show_int n" "list_all is_space u" "list_all is_space v"
  shows "twse_ParseInt (u @ replicate i quote_char @ t @ replicate j quote_char @ v) = n"
proof -
  have "c = CHR '','' \<or> c \<in> set (filter (\<lambda>c. c \<noteq> CHR '','') t)" if "c \<in> set t" for c using that by auto
  then have c: "c = CHR '','' \<or> is_digit c \<or> c = CHR ''-''" if "c \<in> set t" for c
    using that show_int_chars [of c n] unfolding assms(2) by blast
  then have ns: "\<not> is_space c" "c \<noteq> quote_char" if "c \<in> set t" for c
    using c [OF that] by (auto simp: is_space_def is_digit_def code_of_def quote_char_def)
  let ?w = "replicate i quote_char @ t @ replicate j quote_char"
  have ne: "t \<noteq> []" using assms(2) by (auto simp: show_int_def dest: sym split: if_splits)
  have "\<not> is_space quote_char" by (simp add: is_space_def code_of_def quote_char_def)
  then have "TrimSpace (u @ ?w @ v) = ?w" using ns ne assms(3,4) by (intro TrimSpace_around) auto
  moreover have "Trim_quotes ?w = t" using ns(2) by (intro Trim_quotes_keeps) blast
  ultimately show ?thesis
    using assms(1,2) by (simp add: twse_ParseInt_def StripNumberFmt_def strip_commas_eq ParseInt_value_show)
qed

lemma grouped_number_witness: "twse_ParseInt ([CHR '' ''] @ [quote_char] @ ''-1,234'' @ [quote_char] @ []) = -1234"
proof -
  have "show_int (- 1234) = ''-1234''"
    by (simp add: show_int_def show_nat.simps) code_simp
  then show ?thesis using grouped_number [of "-1234" "''-1,234''" "[CHR '' '']" "[]" 1 1]
    by (simp add: is_int64_def is_space_def code_of_def)
qed

text \<open>A number of more than 64 bits is no zero, as the comments of the code say, but the largest number.\<close>

lemma too_large_number: "twse_ParseInt ''9,223,372,036,854,775,808'' = 9223372036854775807"
proof -
  have s: "StripNumberFmt ''9,223,372,036,854,775,808'' = ''9223372036854775808''"
    by (simp add: StripNumberFmt_def strip_commas_eq TrimSpace_def is_space_def code_of_def Trim_quotes_def quote_char_def)
  have v: "digits_value 0 ''9223372036854775808'' = 9223372036854775808" "list_all is_digit ''9223372036854775808''"
    by (simp_all add: digit_of_def code_of_def is_digit_def)
  then have "uint_scan 0 ''9223372036854775808'' = Some 9223372036854775808"
    using uint_scan_digits [OF v(2), of 0] by (simp only: v(1)) simp
  moreover have "split_sign ''9223372036854775808'' = (1, ''9223372036854775808'')" by (simp add: split_sign_def)
  ultimately show ?thesis by (simp add: twse_ParseInt_def ParseInt_value_def s del: uint_scan.simps)
qed

end
