(* ===== verification/TwseEndpoints.thy ===== *)
theory TwseEndpoints
  imports Twse ScrapeErrors
begin

text \<open>
  The endpoints of the Taiwan Stock Exchange, one file of \<^verbatim>\<open>svc/twse\<close> each: the row of its table, the request and the reading of
  a row. Then the registry of the endpoints (\<^verbatim>\<open>registry.go\<close>) and the command \<^verbatim>\<open>yfin twse\<close> (\<^verbatim>\<open>cmd/yfin/twse.go\<close>). The answers of all
  endpoints have a date beside the envelope, and some a stock number, so two record types stand for the 22 types of the code.
\<close>

section \<open>Requests\<close>

datatype twse_result = GotDated DatedResponse | GotStock StockResponse

type_synonym 's twse_fetcher = "string \<Rightarrow> url_values \<Rightarrow> 's \<Rightarrow> 's \<times> twse_result go"

definition returned :: "('r \<Rightarrow> twse_result) \<Rightarrow> 's \<times> 'r go \<Rightarrow> 's \<times> twse_result go" where
  "returned f = (\<lambda>(s, r). (s, go_bind r (\<lambda>x. Ret (f x))))"

text \<open>The query of an endpoint: the date, its fixed parameters and the options of the caller after them.\<close>

definition dated_query :: "string \<Rightarrow> (string \<times> string) list \<Rightarrow> url_values \<Rightarrow> url_values" where
  "dated_query date extras opts = add_all opts (fold (\<lambda>(k, v). values_Set k v) extras (values_Set ''date'' date []))"

definition fetch_dated ::
  "('u, 's) twse_env \<Rightarrow> ('a TwseResponse_scheme \<Rightarrow> twse_result) \<Rightarrow> (string \<Rightarrow> 'a TwseResponse_scheme go) \<Rightarrow> string \<Rightarrow> string \<Rightarrow>
   (string \<times> string) list \<Rightarrow> 's twse_fetcher" where
  "fetch_dated env f decode name path extras date opts s =
     (if date = [] then (s, Err (Errorf (''twse/'' @ name @ '': date is required'') []))
      else returned f (FetchJSON env decode path (dated_query date extras opts) s))"

definition fetch_stock :: "('u, 's) twse_env \<Rightarrow> string \<Rightarrow> string \<Rightarrow> 's twse_fetcher" where
  "fetch_stock env name path date opts s =
     (if date = [] then (s, Err (Errorf (''twse/'' @ name @ '': date is required'') []))
      else let stockNo = values_Get ''stockNo'' opts in
        if stockNo = [] then (s, Err (Errorf (''twse/'' @ name @ '': stockNo is required'') []))
        else returned GotStock (FetchJSON env (tw_stock env) path
          (dated_query date [(''stockNo'', stockNo)] (filter (\<lambda>(k, vs). k \<noteq> ''stockNo'') opts)) s))"

section \<open>Endpoints\<close>

record MIIndexRow =
  ix_IndexName :: string
  ix_Close :: f64
  ix_Change :: f64
  ix_ChangePct :: f64

definition FetchMI_INDEX :: "('u, 's) twse_env \<Rightarrow> 's twse_fetcher" where
  "FetchMI_INDEX env = fetch_dated env GotDated (tw_dated env) ''MI_INDEX'' ''/afterTrading/MI_INDEX'' [(''type'', ''ALL'')]"

definition ParseMIIndexRow :: "(string \<Rightarrow> f64 option) \<Rightarrow> (string \<Rightarrow> f64) \<Rightarrow> string list \<Rightarrow> MIIndexRow go" where
  "ParseMIIndexRow pf pv row_v =
     (if length row_v < 4 then Err (Errorf ''MI_INDEX: row too short: %d cols'' [AInt (int (length row_v))])
      else Ret \<lparr>ix_IndexName = TrimSpace (row_v ! 0), ix_Close = twse_ParseFloat pf pv (row_v ! 1),
        ix_Change = twse_ParseFloat pf pv (row_v ! 2), ix_ChangePct = ParsePercent pf pv (row_v ! 3)\<rparr>)"

record StockDayRow =
  sk_Date :: string
  sk_Volume :: int64
  sk_Amount :: int64
  sk_Open :: f64
  sk_High :: f64
  sk_Low :: f64
  sk_Close :: f64
  sk_Change :: f64
  sk_Transactions :: int64

definition FetchSTOCK_DAY :: "('u, 's) twse_env \<Rightarrow> 's twse_fetcher" where
  "FetchSTOCK_DAY env = fetch_stock env ''STOCK_DAY'' ''/afterTrading/STOCK_DAY''"

definition ParseStockDayRow :: "(string \<Rightarrow> f64 option) \<Rightarrow> (string \<Rightarrow> f64) \<Rightarrow> string list \<Rightarrow> StockDayRow go" where
  "ParseStockDayRow pf pv row_v =
     (if length row_v < 9 then Err (Errorf ''STOCK_DAY: row too short: %d cols'' [AInt (int (length row_v))])
      else Ret \<lparr>sk_Date = TrimSpace (row_v ! 0), sk_Volume = twse_ParseInt (row_v ! 1),
        sk_Amount = twse_ParseInt (row_v ! 2), sk_Open = twse_ParseFloat pf pv (row_v ! 3),
        sk_High = twse_ParseFloat pf pv (row_v ! 4), sk_Low = twse_ParseFloat pf pv (row_v ! 5),
        sk_Close = twse_ParseFloat pf pv (row_v ! 6), sk_Change = twse_ParseFloat pf pv (row_v ! 7),
        sk_Transactions = twse_ParseInt (row_v ! 8)\<rparr>)"

record BWIBBUdRow =
  bw_Code :: string
  bw_Name :: string
  bw_PE :: f64
  bw_YieldPct :: f64
  bw_PBR :: f64

definition FetchBWIBBU_d :: "('u, 's) twse_env \<Rightarrow> 's twse_fetcher" where
  "FetchBWIBBU_d env = fetch_dated env GotDated (tw_dated env) ''BWIBBU_d'' ''/afterTrading/BWIBBU_d'' [(''selectType'', ''ALL'')]"

definition ParseBWIBBUdRow :: "(string \<Rightarrow> f64 option) \<Rightarrow> (string \<Rightarrow> f64) \<Rightarrow> string list \<Rightarrow> BWIBBUdRow go" where
  "ParseBWIBBUdRow pf pv row_v =
     (if length row_v < 5 then Err (Errorf ''BWIBBU_d: row too short: %d cols'' [AInt (int (length row_v))])
      else Ret \<lparr>bw_Code = TrimSpace (row_v ! 0), bw_Name = TrimSpace (row_v ! 1), bw_PE = twse_ParseFloat pf pv (row_v ! 2),
        bw_YieldPct = ParsePercent pf pv (row_v ! 3), bw_PBR = twse_ParseFloat pf pv (row_v ! 4)\<rparr>)"

record MIIndexPlusRow =
  ip_IndexName :: string
  ip_Close :: f64
  ip_Change :: f64
  ip_ChangePct :: f64

definition FetchMI_INDEX_PLUS :: "('u, 's) twse_env \<Rightarrow> 's twse_fetcher" where
  "FetchMI_INDEX_PLUS env = fetch_dated env GotDated (tw_dated env) ''MI_INDEX_PLUS'' ''/afterTrading/MI_INDEX_PLUS'' []"

definition ParseMIIndexPlusRow :: "(string \<Rightarrow> f64 option) \<Rightarrow> (string \<Rightarrow> f64) \<Rightarrow> string list \<Rightarrow> MIIndexPlusRow go" where
  "ParseMIIndexPlusRow pf pv row_v =
     (if length row_v < 4 then Err (Errorf ''MI_INDEX_PLUS: row too short: %d cols'' [AInt (int (length row_v))])
      else Ret \<lparr>ip_IndexName = TrimSpace (row_v ! 0), ip_Close = twse_ParseFloat pf pv (row_v ! 1),
        ip_Change = twse_ParseFloat pf pv (row_v ! 2), ip_ChangePct = ParsePercent pf pv (row_v ! 3)\<rparr>)"

record MIIndexOddRow =
  io_Code :: string
  io_Name :: string
  io_Volume :: int64
  io_Amount :: int64
  io_Open :: f64
  io_High :: f64
  io_Low :: f64
  io_Close :: f64

definition FetchMI_INDEX_ODD :: "('u, 's) twse_env \<Rightarrow> 's twse_fetcher" where
  "FetchMI_INDEX_ODD env = fetch_dated env GotDated (tw_dated env) ''MI_INDEX_ODD'' ''/afterTrading/MI_INDEX_ODD'' []"

definition ParseMIIndexOddRow :: "(string \<Rightarrow> f64 option) \<Rightarrow> (string \<Rightarrow> f64) \<Rightarrow> string list \<Rightarrow> MIIndexOddRow go" where
  "ParseMIIndexOddRow pf pv row_v =
     (if length row_v < 8 then Err (Errorf ''MI_INDEX_ODD: row too short: %d cols'' [AInt (int (length row_v))])
      else Ret \<lparr>io_Code = TrimSpace (row_v ! 0), io_Name = TrimSpace (row_v ! 1), io_Volume = twse_ParseInt (row_v ! 2),
        io_Amount = twse_ParseInt (row_v ! 3), io_Open = twse_ParseFloat pf pv (row_v ! 4),
        io_High = twse_ParseFloat pf pv (row_v ! 5), io_Low = twse_ParseFloat pf pv (row_v ! 6),
        io_Close = twse_ParseFloat pf pv (row_v ! 7)\<rparr>)"

record MI_5MINSRow =
  m5_Time :: string
  m5_CumBuyOrders :: int64
  m5_CumBuyLots :: int64
  m5_CumSellOrders :: int64
  m5_CumSellLots :: int64
  m5_CumTradeOrders :: int64
  m5_CumTradeLots :: int64

definition FetchMI_5MINS :: "('u, 's) twse_env \<Rightarrow> 's twse_fetcher" where
  "FetchMI_5MINS env = fetch_dated env GotDated (tw_dated env) ''MI_5MINS'' ''/afterTrading/MI_5MINS'' []"

definition ParseMI_5MINSRow :: "string list \<Rightarrow> MI_5MINSRow go" where
  "ParseMI_5MINSRow row_v =
     (if length row_v < 7 then Err (Errorf ''MI_5MINS: row too short: %d cols'' [AInt (int (length row_v))])
      else Ret \<lparr>m5_Time = row_v ! 0, m5_CumBuyOrders = twse_ParseInt (row_v ! 1), m5_CumBuyLots = twse_ParseInt (row_v ! 2),
        m5_CumSellOrders = twse_ParseInt (row_v ! 3), m5_CumSellLots = twse_ParseInt (row_v ! 4),
        m5_CumTradeOrders = twse_ParseInt (row_v ! 5), m5_CumTradeLots = twse_ParseInt (row_v ! 6)\<rparr>)"

record TWTB4URow =
  tb_Code :: string
  tb_Name :: string
  tb_TradeShares :: int64
  tb_TradeAmount :: int64
  tb_BuyAmount :: int64
  tb_SellAmount :: int64

definition FetchTWTB4U :: "('u, 's) twse_env \<Rightarrow> 's twse_fetcher" where
  "FetchTWTB4U env = fetch_dated env GotDated (tw_dated env) ''TWTB4U'' ''/afterTrading/TWTB4U'' []"

definition ParseTWTB4URow :: "string list \<Rightarrow> TWTB4URow go" where
  "ParseTWTB4URow row_v =
     (if length row_v < 6 then Err (Errorf ''TWTB4U: row too short: %d cols'' [AInt (int (length row_v))])
      else Ret \<lparr>tb_Code = row_v ! 0, tb_Name = row_v ! 1, tb_TradeShares = twse_ParseInt (row_v ! 2),
        tb_TradeAmount = twse_ParseInt (row_v ! 3), tb_BuyAmount = twse_ParseInt (row_v ! 4),
        tb_SellAmount = twse_ParseInt (row_v ! 5)\<rparr>)"

record MI_MARGNRow =
  mm_Code :: string
  mm_Name :: string
  mm_MarginBuy :: int64
  mm_MarginSell :: int64
  mm_MarginRepay :: int64
  mm_MarginBalance :: int64
  mm_ShortBuy :: int64
  mm_ShortSell :: int64
  mm_ShortRepay :: int64
  mm_ShortBalance :: int64

definition FetchMI_MARGN :: "('u, 's) twse_env \<Rightarrow> 's twse_fetcher" where
  "FetchMI_MARGN env = fetch_dated env GotDated (tw_dated env) ''MI_MARGN'' ''/marginTrading/MI_MARGN'' [(''selectType'', ''ALL'')]"

definition ParseMI_MARGNRow :: "string list \<Rightarrow> MI_MARGNRow go" where
  "ParseMI_MARGNRow row_v =
     (if length row_v < 10 then Err (Errorf ''MI_MARGN: row too short: %d cols'' [AInt (int (length row_v))])
      else Ret \<lparr>mm_Code = row_v ! 0, mm_Name = row_v ! 1, mm_MarginBuy = twse_ParseInt (row_v ! 2),
        mm_MarginSell = twse_ParseInt (row_v ! 3), mm_MarginRepay = twse_ParseInt (row_v ! 4),
        mm_MarginBalance = twse_ParseInt (row_v ! 5), mm_ShortBuy = twse_ParseInt (row_v ! 6),
        mm_ShortSell = twse_ParseInt (row_v ! 7), mm_ShortRepay = twse_ParseInt (row_v ! 8),
        mm_ShortBalance = twse_ParseInt (row_v ! 9)\<rparr>)"

record T86Row =
  t86_Code :: string
  t86_Name :: string
  t86_ForeignBuy :: int64
  t86_ForeignSell :: int64
  t86_ForeignNet :: int64
  t86_TrustBuy :: int64
  t86_TrustSell :: int64
  t86_TrustNet :: int64
  t86_DealerBuy :: int64
  t86_DealerSell :: int64
  t86_DealerNet :: int64
  t86_TotalNet :: int64

definition FetchT86 :: "('u, 's) twse_env \<Rightarrow> 's twse_fetcher" where
  "FetchT86 env = fetch_dated env GotDated (tw_dated env) ''T86'' ''/fund/T86'' [(''selectType'', ''ALL'')]"

definition ParseT86Row :: "string list \<Rightarrow> T86Row go" where
  "ParseT86Row row_v =
     (if length row_v < 12 then Err (Errorf ''T86: row too short: %d cols'' [AInt (int (length row_v))])
      else Ret \<lparr>t86_Code = row_v ! 0, t86_Name = row_v ! 1, t86_ForeignBuy = twse_ParseInt (row_v ! 2),
        t86_ForeignSell = twse_ParseInt (row_v ! 3), t86_ForeignNet = twse_ParseInt (row_v ! 4),
        t86_TrustBuy = twse_ParseInt (row_v ! 5), t86_TrustSell = twse_ParseInt (row_v ! 6),
        t86_TrustNet = twse_ParseInt (row_v ! 7), t86_DealerBuy = twse_ParseInt (row_v ! 8),
        t86_DealerSell = twse_ParseInt (row_v ! 9), t86_DealerNet = twse_ParseInt (row_v ! 10),
        t86_TotalNet = twse_ParseInt (row_v ! 11)\<rparr>)"

record MI_QFIISRow =
  qf_Code :: string
  qf_Name :: string
  qf_SharesHeld :: int64
  qf_IssuePct :: f64

definition FetchMI_QFIIS :: "('u, 's) twse_env \<Rightarrow> 's twse_fetcher" where
  "FetchMI_QFIIS env = fetch_dated env GotDated (tw_dated env) ''MI_QFIIS'' ''/fund/MI_QFIIS'' [(''selectType'', ''ALL'')]"

definition ParseMI_QFIISRow :: "(string \<Rightarrow> f64 option) \<Rightarrow> (string \<Rightarrow> f64) \<Rightarrow> string list \<Rightarrow> MI_QFIISRow go" where
  "ParseMI_QFIISRow pf pv row_v =
     (if length row_v < 4 then Err (Errorf ''MI_QFIIS: row too short: %d cols'' [AInt (int (length row_v))])
      else Ret \<lparr>qf_Code = row_v ! 0, qf_Name = row_v ! 1, qf_SharesHeld = twse_ParseInt (row_v ! 2),
        qf_IssuePct = ParsePercent pf pv (row_v ! 3)\<rparr>)"

record BFI82URow =
  b82_UnitName :: string
  b82_Buy :: f64
  b82_Sell :: f64
  b82_Net :: f64

definition FetchBFI82U :: "('u, 's) twse_env \<Rightarrow> 's twse_fetcher" where
  "FetchBFI82U env = fetch_dated env GotDated (tw_dated env) ''BFI82U'' ''/fund/BFI82U'' [(''type'', ''day'')]"

definition ParseBFI82URow :: "(string \<Rightarrow> f64 option) \<Rightarrow> (string \<Rightarrow> f64) \<Rightarrow> string list \<Rightarrow> BFI82URow go" where
  "ParseBFI82URow pf pv row_v =
     (if length row_v < 4 then Err (Errorf ''BFI82U: row too short: %d cols'' [AInt (int (length row_v))])
      else Ret \<lparr>b82_UnitName = TrimSpace (row_v ! 0), b82_Buy = twse_ParseFloat pf pv (row_v ! 1),
        b82_Sell = twse_ParseFloat pf pv (row_v ! 2), b82_Net = twse_ParseFloat pf pv (row_v ! 3)\<rparr>)"

record TWT38URow =
  t38_UnitName :: string
  t38_Buy :: int64
  t38_Sell :: int64
  t38_Net :: int64

definition FetchTWT38U :: "('u, 's) twse_env \<Rightarrow> 's twse_fetcher" where
  "FetchTWT38U env = fetch_dated env GotDated (tw_dated env) ''TWT38U'' ''/fund/TWT38U'' []"

definition ParseTWT38URow :: "string list \<Rightarrow> TWT38URow go" where
  "ParseTWT38URow row_v =
     (if length row_v < 4 then Err (Errorf ''TWT38U: row too short: %d cols'' [AInt (int (length row_v))])
      else Ret \<lparr>t38_UnitName = TrimSpace (row_v ! 0), t38_Buy = twse_ParseInt (row_v ! 1),
        t38_Sell = twse_ParseInt (row_v ! 2), t38_Net = twse_ParseInt (row_v ! 3)\<rparr>)"

record TWT43URow =
  t43_UnitName :: string
  t43_Buy :: int64
  t43_Sell :: int64
  t43_Net :: int64

definition FetchTWT43U :: "('u, 's) twse_env \<Rightarrow> 's twse_fetcher" where
  "FetchTWT43U env = fetch_dated env GotDated (tw_dated env) ''TWT43U'' ''/fund/TWT43U'' []"

definition ParseTWT43URow :: "string list \<Rightarrow> TWT43URow go" where
  "ParseTWT43URow row_v =
     (if length row_v < 4 then Err (Errorf ''TWT43U: row too short: %d cols'' [AInt (int (length row_v))])
      else Ret \<lparr>t43_UnitName = TrimSpace (row_v ! 0), t43_Buy = twse_ParseInt (row_v ! 1),
        t43_Sell = twse_ParseInt (row_v ! 2), t43_Net = twse_ParseInt (row_v ! 3)\<rparr>)"

record TWT44URow =
  t44_UnitName :: string
  t44_Buy :: int64
  t44_Sell :: int64
  t44_Net :: int64

definition FetchTWT44U :: "('u, 's) twse_env \<Rightarrow> 's twse_fetcher" where
  "FetchTWT44U env = fetch_dated env GotDated (tw_dated env) ''TWT44U'' ''/fund/TWT44U'' []"

definition ParseTWT44URow :: "string list \<Rightarrow> TWT44URow go" where
  "ParseTWT44URow row_v =
     (if length row_v < 4 then Err (Errorf ''TWT44U: row too short: %d cols'' [AInt (int (length row_v))])
      else Ret \<lparr>t44_UnitName = TrimSpace (row_v ! 0), t44_Buy = twse_ParseInt (row_v ! 1),
        t44_Sell = twse_ParseInt (row_v ! 2), t44_Net = twse_ParseInt (row_v ! 3)\<rparr>)"

record BlockBFIAUURow =
  bk_Seq :: string
  bk_StockCode :: string
  bk_StockName :: string
  bk_BuyBroker :: string
  bk_SellBroker :: string
  bk_TradeVolume :: int64
  bk_TradeAmount :: f64
  bk_TradePrice :: f64
  bk_TradeTime :: string
  bk_BuyTradePrice :: f64

definition FetchBlockBFIAUU :: "('u, 's) twse_env \<Rightarrow> 's twse_fetcher" where
  "FetchBlockBFIAUU env = fetch_dated env GotStock (tw_stock env) ''BFIAUU'' ''/block/BFIAUU'' []"

definition ParseBlockBFIAUURow :: "(string \<Rightarrow> f64 option) \<Rightarrow> (string \<Rightarrow> f64) \<Rightarrow> string list \<Rightarrow> BlockBFIAUURow go" where
  "ParseBlockBFIAUURow pf pv row_v =
     (if length row_v < 10 then Err (Errorf ''BFIAUU: row too short: %d cols'' [AInt (int (length row_v))])
      else Ret \<lparr>bk_Seq = TrimSpace (row_v ! 0), bk_StockCode = TrimSpace (row_v ! 1), bk_StockName = TrimSpace (row_v ! 2),
        bk_BuyBroker = TrimSpace (row_v ! 3), bk_SellBroker = TrimSpace (row_v ! 4),
        bk_TradeVolume = twse_ParseInt (row_v ! 5), bk_TradeAmount = twse_ParseFloat pf pv (row_v ! 6),
        bk_TradePrice = twse_ParseFloat pf pv (row_v ! 7), bk_TradeTime = TrimSpace (row_v ! 8),
        bk_BuyTradePrice = twse_ParseFloat pf pv (row_v ! 9)\<rparr>)"

record BFIMUURow =
  bm_Period :: string
  bm_Transactions :: int64
  bm_Volume :: int64
  bm_Amount :: int64

definition FetchBFIMUU :: "('u, 's) twse_env \<Rightarrow> 's twse_fetcher" where
  "FetchBFIMUU env = fetch_dated env GotDated (tw_dated env) ''BFIMUU'' ''/block/BFIMUU'' []"

definition ParseBFIMUURow :: "string list \<Rightarrow> BFIMUURow go" where
  "ParseBFIMUURow row_v =
     (if length row_v < 4 then Err (Errorf ''BFIMUU: row too short: %d cols'' [AInt (int (length row_v))])
      else Ret \<lparr>bm_Period = row_v ! 0, bm_Transactions = twse_ParseInt (row_v ! 1), bm_Volume = twse_ParseInt (row_v ! 2),
        bm_Amount = twse_ParseInt (row_v ! 3)\<rparr>)"

record BFIAUUYEARRow =
  by_Year :: string
  by_Transactions :: int64
  by_Volume :: int64
  by_Amount :: int64

definition FetchBFIAUUYEAR :: "('u, 's) twse_env \<Rightarrow> 's twse_fetcher" where
  "FetchBFIAUUYEAR env = fetch_dated env GotDated (tw_dated env) ''BFIAUU_YEAR'' ''/block/BFIAUU_YEAR'' []"

definition ParseBFIAUUYEARRow :: "string list \<Rightarrow> BFIAUUYEARRow go" where
  "ParseBFIAUUYEARRow row_v =
     (if length row_v < 4 then Err (Errorf ''BFIAUU_YEAR: row too short: %d cols'' [AInt (int (length row_v))])
      else Ret \<lparr>by_Year = row_v ! 0, by_Transactions = twse_ParseInt (row_v ! 1), by_Volume = twse_ParseInt (row_v ! 2),
        by_Amount = twse_ParseInt (row_v ! 3)\<rparr>)"

record FMTQIKRow =
  fq_Date :: string
  fq_Volume :: int64
  fq_Amount :: int64
  fq_Transactions :: int64
  fq_Index :: f64

definition FetchFMTQIK :: "('u, 's) twse_env \<Rightarrow> 's twse_fetcher" where
  "FetchFMTQIK env = fetch_dated env GotDated (tw_dated env) ''FMTQIK'' ''/exchangeReport/FMTQIK'' []"

definition ParseFMTQIKRow :: "(string \<Rightarrow> f64 option) \<Rightarrow> (string \<Rightarrow> f64) \<Rightarrow> string list \<Rightarrow> FMTQIKRow go" where
  "ParseFMTQIKRow pf pv row_v =
     (if length row_v < 5 then Err (Errorf ''FMTQIK: row too short: %d cols'' [AInt (int (length row_v))])
      else Ret \<lparr>fq_Date = row_v ! 0, fq_Volume = twse_ParseInt (row_v ! 1), fq_Amount = twse_ParseInt (row_v ! 2),
        fq_Transactions = twse_ParseInt (row_v ! 3), fq_Index = twse_ParseFloat pf pv (row_v ! 4)\<rparr>)"

record StockDayAvgRow =
  sa_Year :: string
  sa_Month :: string
  sa_High :: f64
  sa_Low :: f64
  sa_WeightedAvg :: f64
  sa_Transactions :: int64
  sa_Volume :: int64
  sa_Amount :: int64

definition FetchStockDayAvg :: "('u, 's) twse_env \<Rightarrow> 's twse_fetcher" where
  "FetchStockDayAvg env = fetch_stock env ''STOCK_DAY_AVG'' ''/exchangeReport/STOCK_DAY_AVG''"

definition ParseStockDayAvgRow :: "(string \<Rightarrow> f64 option) \<Rightarrow> (string \<Rightarrow> f64) \<Rightarrow> string list \<Rightarrow> StockDayAvgRow go" where
  "ParseStockDayAvgRow pf pv row_v =
     (if length row_v < 8 then Err (Errorf ''STOCK_DAY_AVG: row too short: %d cols'' [AInt (int (length row_v))])
      else Ret \<lparr>sa_Year = row_v ! 0, sa_Month = row_v ! 1, sa_High = twse_ParseFloat pf pv (row_v ! 2),
        sa_Low = twse_ParseFloat pf pv (row_v ! 3), sa_WeightedAvg = twse_ParseFloat pf pv (row_v ! 4),
        sa_Transactions = twse_ParseInt (row_v ! 5), sa_Volume = twse_ParseInt (row_v ! 6),
        sa_Amount = twse_ParseInt (row_v ! 7)\<rparr>)"

record FMSRFKRow =
  fm_Year :: string
  fm_Month :: string
  fm_High :: f64
  fm_Low :: f64
  fm_WAvgPrice :: f64
  fm_TradeVolume :: int64
  fm_TradeValue :: int64
  fm_TurnoverPct :: f64

definition FetchFMSRFK :: "('u, 's) twse_env \<Rightarrow> string \<Rightarrow> 's twse_fetcher" where
  "FetchFMSRFK env stockNo date opts s =
     (if stockNo = [] then (s, Err (Errorf ''twse/FMSRFK: stockNo is required'' []))
      else if date = [] then (s, Err (Errorf ''twse/FMSRFK: date is required'' []))
      else returned GotStock (FetchJSON env (tw_stock env) ''/exchangeReport/FMSRFK''
        (add_all opts (values_Set ''date'' date (values_Set ''stockNo'' stockNo []))) s))"

definition ParseFMSRFKRow :: "(string \<Rightarrow> f64 option) \<Rightarrow> (string \<Rightarrow> f64) \<Rightarrow> string list \<Rightarrow> FMSRFKRow go" where
  "ParseFMSRFKRow pf pv row_v =
     (if length row_v < 8 then Err (Errorf ''FMSRFK: row too short: %d cols'' [AInt (int (length row_v))])
      else Ret \<lparr>fm_Year = TrimSpace (row_v ! 0), fm_Month = TrimSpace (row_v ! 1),
        fm_High = twse_ParseFloat pf pv (row_v ! 2), fm_Low = twse_ParseFloat pf pv (row_v ! 3),
        fm_WAvgPrice = twse_ParseFloat pf pv (row_v ! 4), fm_TradeVolume = twse_ParseInt (row_v ! 5),
        fm_TradeValue = twse_ParseInt (row_v ! 6), fm_TurnoverPct = twse_ParseFloat pf pv (row_v ! 7)\<rparr>)"

record BFIAMURow =
  ba_IndexName :: string
  ba_Close :: f64
  ba_Change :: f64
  ba_ChangePct :: f64

definition FetchBFIAMU :: "('u, 's) twse_env \<Rightarrow> 's twse_fetcher" where
  "FetchBFIAMU env = fetch_dated env GotDated (tw_dated env) ''BFIAMU'' ''/afterTrading/BFIAMU'' []"

definition ParseBFIAMURow :: "(string \<Rightarrow> f64 option) \<Rightarrow> (string \<Rightarrow> f64) \<Rightarrow> string list \<Rightarrow> BFIAMURow go" where
  "ParseBFIAMURow pf pv row_v =
     (if length row_v < 4 then Err (Errorf ''BFIAMU: row too short: %d cols'' [AInt (int (length row_v))])
      else Ret \<lparr>ba_IndexName = TrimSpace (row_v ! 0), ba_Close = twse_ParseFloat pf pv (row_v ! 1),
        ba_Change = twse_ParseFloat pf pv (row_v ! 2), ba_ChangePct = ParsePercent pf pv (row_v ! 3)\<rparr>)"

record MIWeekRow =
  mw_StockCode :: string
  mw_StockName :: string
  mw_SharesIssued :: int64
  mw_MarketCap :: int64

definition FetchMI_WEEK :: "('u, 's) twse_env \<Rightarrow> 's twse_fetcher" where
  "FetchMI_WEEK env = fetch_dated env GotDated (tw_dated env) ''MI_WEEK'' ''/statistics/MI_WEEK'' []"

definition ParseMIWeekRow :: "string list \<Rightarrow> MIWeekRow go" where
  "ParseMIWeekRow row_v =
     (if length row_v < 4 then Err (Errorf ''MI_WEEK: row too short: %d cols'' [AInt (int (length row_v))])
      else Ret \<lparr>mw_StockCode = TrimSpace (row_v ! 0), mw_StockName = TrimSpace (row_v ! 1),
        mw_SharesIssued = twse_ParseInt (row_v ! 2), mw_MarketCap = twse_ParseInt (row_v ! 3)\<rparr>)"

definition FetchBFIAUUSTOCK :: "('u, 's) twse_env \<Rightarrow> 's twse_fetcher" where
  "FetchBFIAUUSTOCK env date opts s =
     (if values_Get ''stockNo'' opts = [] then (s, Err (Errorf ''twse/BFIAUU_STOCK: stockNo is required'' []))
      else FetchBlockBFIAUU env date opts s)"

definition ParseBFIAUUSTOCKRow :: "(string \<Rightarrow> f64 option) \<Rightarrow> (string \<Rightarrow> f64) \<Rightarrow> string list \<Rightarrow> BlockBFIAUURow go" where
  "ParseBFIAUUSTOCKRow = ParseBlockBFIAUURow"

section \<open>Registry\<close>

text \<open>The fetcher of an entry is nil in the code; the command has a table of its own.\<close>

record Endpoint =
  ep_Name :: string
  ep_Board :: string
  ep_Path :: string
  ep_Description :: string
  ep_NeedsStock :: bool
  ep_NeedsMonth :: bool

definition Registry :: "(string \<times> Endpoint) list" where
  "Registry =
     [(''MI_INDEX'', \<lparr>ep_Name = ''MI_INDEX'', ep_Board = ''afterTrading'', ep_Path = ''/afterTrading/MI_INDEX'', ep_Description = utf8 [230, 175, 143, 230, 151, 165, 230, 148, 182, 231, 155, 164, 232, 161, 140, 230, 131, 133],
        ep_NeedsStock = False, ep_NeedsMonth = False\<rparr>),
      (''STOCK_DAY'', \<lparr>ep_Name = ''STOCK_DAY'', ep_Board = ''afterTrading'', ep_Path = ''/afterTrading/STOCK_DAY'', ep_Description = utf8 [229, 128, 139, 232, 130, 161, 230, 151, 165, 230, 136, 144, 228, 186, 164, 232, 179, 135, 232, 168, 138],
        ep_NeedsStock = True, ep_NeedsMonth = False\<rparr>),
      (''BWIBBU_d'', \<lparr>ep_Name = ''BWIBBU_d'', ep_Board = ''afterTrading'', ep_Path = ''/afterTrading/BWIBBU_d'', ep_Description = utf8 [229, 128, 139, 232, 130, 161, 230, 151, 165, 230, 156, 172, 231, 155, 138, 230, 175, 148, 227, 128, 129, 230, 174, 150, 229, 136, 169, 231, 142, 135, 229, 143, 138, 232, 130, 161, 229, 131, 185, 230, 183, 168, 229, 128, 188, 230, 175, 148],
        ep_NeedsStock = False, ep_NeedsMonth = False\<rparr>),
      (''MI_INDEX_PLUS'', \<lparr>ep_Name = ''MI_INDEX_PLUS'', ep_Board = ''afterTrading'', ep_Path = ''/afterTrading/MI_INDEX_PLUS'', ep_Description = utf8 [231, 155, 164, 229, 190, 140, 229, 174, 154, 229, 131, 185, 228, 186, 164, 230, 152, 147],
        ep_NeedsStock = False, ep_NeedsMonth = False\<rparr>),
      (''MI_INDEX_ODD'', \<lparr>ep_Name = ''MI_INDEX_ODD'', ep_Board = ''afterTrading'', ep_Path = ''/afterTrading/MI_INDEX_ODD'', ep_Description = utf8 [233, 155, 182, 232, 130, 161, 228, 186, 164, 230, 152, 147, 232, 161, 140, 230, 131, 133, 229, 150, 174],
        ep_NeedsStock = False, ep_NeedsMonth = False\<rparr>),
      (''MI_5MINS'', \<lparr>ep_Name = ''MI_5MINS'', ep_Board = ''afterTrading'', ep_Path = ''/afterTrading/MI_5MINS'', ep_Description = utf8 [230, 175, 143, 53, 231, 167, 146, 229, 167, 148, 232, 168, 151, 230, 136, 144, 228, 186, 164, 231, 181, 177, 232, 168, 136],
        ep_NeedsStock = False, ep_NeedsMonth = False\<rparr>),
      (''TWTB4U'', \<lparr>ep_Name = ''TWTB4U'', ep_Board = ''afterTrading'', ep_Path = ''/afterTrading/TWTB4U'', ep_Description = utf8 [231, 149, 182, 230, 151, 165, 230, 178, 150, 233, 138, 183, 228, 186, 164, 230, 152, 147, 230, 168, 153, 231, 154, 132, 229, 143, 138, 231, 181, 177, 232, 168, 136],
        ep_NeedsStock = False, ep_NeedsMonth = False\<rparr>),
      (''MI_MARGN'', \<lparr>ep_Name = ''MI_MARGN'', ep_Board = ''marginTrading'', ep_Path = ''/marginTrading/MI_MARGN'', ep_Description = utf8 [232, 158, 141, 232, 179, 135, 232, 158, 141, 229, 136, 184, 233, 164, 152, 233, 161, 141],
        ep_NeedsStock = False, ep_NeedsMonth = False\<rparr>),
      (''T86'', \<lparr>ep_Name = ''T86'', ep_Board = ''fund'', ep_Path = ''/fund/T86'', ep_Description = utf8 [228, 184, 137, 229, 164, 167, 230, 179, 149, 228, 186, 186, 232, 178, 183, 232, 179, 163, 232, 182, 133, 230, 151, 165, 229, 160, 177],
        ep_NeedsStock = False, ep_NeedsMonth = False\<rparr>),
      (''MI_QFIIS'', \<lparr>ep_Name = ''MI_QFIIS'', ep_Board = ''fund'', ep_Path = ''/fund/MI_QFIIS'', ep_Description = utf8 [229, 164, 150, 232, 179, 135, 229, 143, 138, 233, 153, 184, 232, 179, 135, 230, 138, 149, 232, 179, 135, 230, 140, 129, 232, 130, 161, 231, 181, 177, 232, 168, 136],
        ep_NeedsStock = False, ep_NeedsMonth = False\<rparr>),
      (''BFI82U'', \<lparr>ep_Name = ''BFI82U'', ep_Board = ''fund'', ep_Path = ''/fund/BFI82U'', ep_Description = utf8 [228, 184, 137, 229, 164, 167, 230, 179, 149, 228, 186, 186, 232, 178, 183, 232, 179, 163, 233, 135, 145, 233, 161, 141, 231, 181, 177, 232, 168, 136, 232, 161, 168],
        ep_NeedsStock = False, ep_NeedsMonth = False\<rparr>),
      (''TWT38U'', \<lparr>ep_Name = ''TWT38U'', ep_Board = ''fund'', ep_Path = ''/fund/TWT38U'', ep_Description = utf8 [229, 164, 150, 232, 179, 135, 229, 143, 138, 233, 153, 184, 232, 179, 135, 232, 178, 183, 232, 179, 163, 232, 182, 133, 229, 189, 153, 231, 184, 189, 232, 161, 168],
        ep_NeedsStock = False, ep_NeedsMonth = False\<rparr>),
      (''TWT43U'', \<lparr>ep_Name = ''TWT43U'', ep_Board = ''fund'', ep_Path = ''/fund/TWT43U'', ep_Description = utf8 [230, 138, 149, 228, 191, 161, 232, 178, 183, 232, 179, 163, 232, 182, 133, 229, 189, 153, 231, 184, 189, 232, 161, 168],
        ep_NeedsStock = False, ep_NeedsMonth = False\<rparr>),
      (''TWT44U'', \<lparr>ep_Name = ''TWT44U'', ep_Board = ''fund'', ep_Path = ''/fund/TWT44U'', ep_Description = utf8 [232, 135, 170, 231, 135, 159, 229, 149, 134, 232, 178, 183, 232, 179, 163, 232, 182, 133, 229, 189, 153, 231, 184, 189, 232, 161, 168],
        ep_NeedsStock = False, ep_NeedsMonth = False\<rparr>),
      (''BFIAUU'', \<lparr>ep_Name = ''BFIAUU'', ep_Board = ''block'', ep_Path = ''/block/BFIAUU'', ep_Description = utf8 [233, 137, 133, 233, 161, 141, 228, 186, 164, 230, 152, 147, 230, 151, 165, 230, 136, 144, 228, 186, 164, 232, 179, 135, 232, 168, 138],
        ep_NeedsStock = False, ep_NeedsMonth = False\<rparr>),
      (''BFIAUU_STOCK'', \<lparr>ep_Name = ''BFIAUU_STOCK'', ep_Board = ''block'', ep_Path = ''/block/BFIAUU'', ep_Description = utf8 [229, 150, 174, 228, 184, 128, 232, 173, 137, 229, 136, 184, 230, 151, 165, 230, 136, 144, 228, 186, 164, 232, 179, 135, 232, 168, 138],
        ep_NeedsStock = True, ep_NeedsMonth = False\<rparr>),
      (''BFIMUU'', \<lparr>ep_Name = ''BFIMUU'', ep_Board = ''block'', ep_Path = ''/block/BFIMUU'', ep_Description = utf8 [233, 137, 133, 233, 161, 141, 228, 186, 164, 230, 152, 147, 230, 156, 136, 230, 136, 144, 228, 186, 164, 232, 179, 135, 232, 168, 138],
        ep_NeedsStock = False, ep_NeedsMonth = True\<rparr>),
      (''BFIAUU_YEAR'', \<lparr>ep_Name = ''BFIAUU_YEAR'', ep_Board = ''block'', ep_Path = ''/block/BFIAUU_YEAR'', ep_Description = utf8 [233, 137, 133, 233, 161, 141, 228, 186, 164, 230, 152, 147, 229, 185, 180, 230, 136, 144, 228, 186, 164, 232, 179, 135, 232, 168, 138],
        ep_NeedsStock = False, ep_NeedsMonth = False\<rparr>),
      (''FMTQIK'', \<lparr>ep_Name = ''FMTQIK'', ep_Board = ''statistics'', ep_Path = ''/exchangeReport/FMTQIK'', ep_Description = utf8 [232, 135, 186, 232, 130, 161, 230, 140, 135, 230, 149, 184, 229, 143, 138, 228, 186, 164, 230, 152, 147, 233, 135, 143, 232, 161, 168],
        ep_NeedsStock = False, ep_NeedsMonth = True\<rparr>),
      (''STOCK_DAY_AVG'', \<lparr>ep_Name = ''STOCK_DAY_AVG'', ep_Board = ''statistics'', ep_Path = ''/exchangeReport/STOCK_DAY_AVG'', ep_Description = utf8 [229, 128, 139, 232, 130, 161, 230, 156, 136, 229, 157, 135, 229, 131, 185],
        ep_NeedsStock = True, ep_NeedsMonth = True\<rparr>),
      (''FMSRFK'', \<lparr>ep_Name = ''FMSRFK'', ep_Board = ''statistics'', ep_Path = ''/exchangeReport/FMSRFK'', ep_Description = utf8 [229, 128, 139, 232, 130, 161, 230, 156, 136, 230, 136, 144, 228, 186, 164, 232, 179, 135, 232, 168, 138],
        ep_NeedsStock = True, ep_NeedsMonth = False\<rparr>),
      (''BFIAMU'', \<lparr>ep_Name = ''BFIAMU'', ep_Board = ''statistics'', ep_Path = ''/afterTrading/BFIAMU'', ep_Description = utf8 [230, 175, 143, 230, 151, 165, 229, 144, 132, 233, 161, 158, 230, 140, 135, 230, 149, 184, 230, 136, 144, 228, 186, 164, 233, 135, 143, 229, 128, 188],
        ep_NeedsStock = False, ep_NeedsMonth = False\<rparr>),
      (''MI_WEEK'', \<lparr>ep_Name = ''MI_WEEK'', ep_Board = ''statistics'', ep_Path = ''/statistics/MI_WEEK'', ep_Description = utf8 [232, 130, 161, 231, 165, 168, 229, 184, 130, 229, 128, 188, 233, 128, 177, 229, 160, 177],
        ep_NeedsStock = False, ep_NeedsMonth = False\<rparr>)]"

section \<open>The command\<close>

record twseConfig =
  tc_endpoint :: string
  tc_date :: string
  tc_stockNo :: string
  tc_month :: string
  tc_pretty :: bool

definition fmsrfk_adapter :: "('u, 's) twse_env \<Rightarrow> 's twse_fetcher" where
  "fmsrfk_adapter env date opts s =
     (let stockNo = values_Get ''stockNo'' opts in
      if stockNo = [] then (s, Err (Errorf ''FMSRFK: --stock is required'' []))
      else FetchFMSRFK env stockNo date opts s)"

definition twseNameToFetcher :: "('u, 's) twse_env \<Rightarrow> (string \<times> 's twse_fetcher) list" where
  "twseNameToFetcher env =
     [(''MI_INDEX'', FetchMI_INDEX env),
      (''STOCK_DAY'', FetchSTOCK_DAY env),
      (''BWIBBU_d'', FetchBWIBBU_d env),
      (''MI_INDEX_PLUS'', FetchMI_INDEX_PLUS env),
      (''MI_INDEX_ODD'', FetchMI_INDEX_ODD env),
      (''MI_5MINS'', FetchMI_5MINS env),
      (''TWTB4U'', FetchTWTB4U env),
      (''MI_MARGN'', FetchMI_MARGN env),
      (''T86'', FetchT86 env),
      (''MI_QFIIS'', FetchMI_QFIIS env),
      (''BFI82U'', FetchBFI82U env),
      (''TWT38U'', FetchTWT38U env),
      (''TWT43U'', FetchTWT43U env),
      (''TWT44U'', FetchTWT44U env),
      (''BFIAUU'', FetchBlockBFIAUU env),
      (''BFIAUU_STOCK'', FetchBFIAUUSTOCK env),
      (''BFIMUU'', FetchBFIMUU env),
      (''BFIAUU_YEAR'', FetchBFIAUUYEAR env),
      (''FMTQIK'', FetchFMTQIK env),
      (''STOCK_DAY_AVG'', FetchStockDayAvg env),
      (''FMSRFK'', fmsrfk_adapter env),
      (''BFIAMU'', FetchBFIAMU env),
      (''MI_WEEK'', FetchMI_WEEK env)]"

text \<open>The options that the flags give.\<close>

definition cli_opts :: "twseConfig \<Rightarrow> url_values" where
  "cli_opts cfg =
     (let opts1 = (if tc_stockNo cfg \<noteq> [] then values_Set ''stockNo'' (tc_stockNo cfg) [] else [])
      in if tc_month cfg \<noteq> [] then values_Set ''month'' (tc_month cfg) opts1 else opts1)"

text \<open>\<open>encode\<close> is \<^verbatim>\<open>json.Encoder.Encode\<close>; the result is what is printed on standard output, nothing when there is no data.\<close>

definition runTwseEndpoint ::
  "('u, 's) twse_env \<Rightarrow> text_lib \<Rightarrow> (bool \<Rightarrow> twse_result \<Rightarrow> string go) \<Rightarrow> twseConfig \<Rightarrow> 's \<Rightarrow> 's \<times> string option go" where
  "runTwseEndpoint env tx encode cfg s =
     (case map_of Registry (tc_endpoint cfg) of
        None \<Rightarrow> (s, Err (Errorf ''unknown endpoint'' []))
      | Some ep \<Rightarrow>
          if ep_NeedsStock ep \<and> tc_stockNo cfg = [] then (s, Err (Errorf ''missing --stock'' []))
          else if ep_NeedsMonth ep \<and> tc_month cfg = [] then (s, Err (Errorf ''missing --month'' []))
          else case map_of (twseNameToFetcher env) (tc_endpoint cfg) of
            None \<Rightarrow> (s, Err (Errorf ''no fetcher'' []))
          | Some fetcher \<Rightarrow>
              (case fetcher (tc_date cfg) (cli_opts cfg) s of
                 (s', Panic p) \<Rightarrow> (s', Panic p)
               | (s', Err e) \<Rightarrow>
                   (s', if errors_Is e ErrNoData \<or> Contains (error_text tx e) ''no data'' then Ret None else Err e)
               | (s', Ret raw) \<Rightarrow> (s', go_bind (encode (tc_pretty cfg) raw) (\<lambda>t. Ret (Some t)))))"

section \<open>What the endpoints request\<close>

lemma keyed_fold_Set: "keyed q \<Longrightarrow> keyed (fold (\<lambda>(k, v). values_Set k v) extras q)"
  by (induction extras arbitrary: q) auto

lemma keyed_dated [simp]: "keyed (dated_query date extras opts)"
  by (simp add: dated_query_def keyed_fold_Set)

lemma vals_fold_Set: "vals k (fold (\<lambda>(k, v). values_Set k v) extras q) = (case map_of (rev extras) k of Some v \<Rightarrow> [v] | None \<Rightarrow> vals k q)"
proof (induction extras arbitrary: q)
  case (Cons e extras)
  then show ?case by (cases e) (auto simp: map_add_def split: option.split)
qed simp

lemma vals_dated:
  "vals k (dated_query date extras opts) =
     (case map_of (rev extras) k of Some v \<Rightarrow> [v] | None \<Rightarrow> if k = ''date'' then [date] else []) @
     concat (map snd (filter (\<lambda>(j, vs). j = k) opts))"
  by (simp add: dated_query_def vals_add_all vals_fold_Set split: option.split)

lemma filter_own_key: "filter (\<lambda>(j, vs). j = k) (filter (\<lambda>(j, vs). j \<noteq> k) opts) = []"
  by (auto simp: filter_empty_conv)

text \<open>A fetcher that sends one request, to a path and with a query.\<close>

definition asks :: "('u, 's) twse_env \<Rightarrow> 's twse_fetcher \<Rightarrow> string \<Rightarrow> string \<Rightarrow> url_values \<Rightarrow> url_values \<Rightarrow> bool" where
  "asks env f path date opts q \<longleftrightarrow>
     f date opts = (\<lambda>s. returned GotDated (FetchJSON env (tw_dated env) path q s)) \<or>
     f date opts = (\<lambda>s. returned GotStock (FetchJSON env (tw_stock env) path q s))"

definition good_query :: "string \<Rightarrow> url_values \<Rightarrow> url_values \<Rightarrow> bool" where
  "good_query date opts q \<longleftrightarrow> keyed q \<and> values_Get ''date'' q = date \<and>
     values_Get ''stockNo'' q = values_Get ''stockNo'' opts \<and> values_Get ''month'' q = values_Get ''month'' opts"

lemma fetch_dated_asks:
  assumes "date \<noteq> []" "keyed opts" "list_all (\<lambda>k. map_of (rev extras) k = None) [''date'', ''stockNo'', ''month'']"
  shows "\<exists>q. asks env (fetch_dated env GotDated (tw_dated env) name path extras) path date opts q \<and> good_query date opts q"
    "\<exists>q. asks env (fetch_dated env GotStock (tw_stock env) name path extras) path date opts q \<and> good_query date opts q"
  using assms by (auto simp: asks_def fetch_dated_def fun_eq_iff good_query_def values_Get_vals vals_dated keyed_concat
      intro!: exI [where x = "dated_query date extras opts"])

lemma filter_other_key: "j \<noteq> k \<Longrightarrow> filter (\<lambda>(i, vs). i = j) (filter (\<lambda>(i, vs). i \<noteq> k) opts) = filter (\<lambda>(i, vs). i = j) opts"
  by (induction opts) auto

lemma fetch_stock_asks:
  assumes "date \<noteq> []" "keyed opts" "values_Get ''stockNo'' opts \<noteq> []"
  shows "\<exists>q. asks env (fetch_stock env name path) path date opts q \<and> good_query date opts q"
  using assms
  by (auto simp: asks_def fetch_stock_def fun_eq_iff good_query_def values_Get_vals vals_dated Let_def keyed_concat filter_own_key filter_other_key
      simp del: filter_filter
      intro!: exI [where x = "dated_query date [(''stockNo'', values_Get ''stockNo'' opts)] (filter (\<lambda>(k, vs). k \<noteq> ''stockNo'') opts)"])

lemma fmsrfk_asks:
  assumes "date \<noteq> []" "keyed opts" "values_Get ''stockNo'' opts \<noteq> []"
  shows "\<exists>q. asks env (fmsrfk_adapter env) ''/exchangeReport/FMSRFK'' date opts q \<and> good_query date opts q"
  using assms
  by (auto simp: asks_def fmsrfk_adapter_def FetchFMSRFK_def fun_eq_iff good_query_def values_Get_vals vals_add_all Let_def keyed_concat
      intro!: exI [where x = "add_all opts (values_Set ''date'' date (values_Set ''stockNo'' (values_Get ''stockNo'' opts) []))"])

text \<open>The stock number of the monthly report of a stock goes out twice, once by itself and once among the options.\<close>

lemma fmsrfk_repeats_stock:
  "vals ''stockNo'' (add_all [(''stockNo'', [n])] (values_Set ''date'' d (values_Set ''stockNo'' n []))) = [n, n]"
  by (simp add: vals_add_all)

lemma block_stock_asks:
  assumes "date \<noteq> []" "keyed opts" "values_Get ''stockNo'' opts \<noteq> []"
  shows "\<exists>q. asks env (FetchBFIAUUSTOCK env) ''/block/BFIAUU'' date opts q \<and> good_query date opts q"
  using assms
  by (auto simp: asks_def FetchBFIAUUSTOCK_def FetchBlockBFIAUU_def fetch_dated_def fun_eq_iff good_query_def values_Get_vals vals_dated keyed_concat
      intro!: exI [where x = "dated_query date [] opts"])

text \<open>The registry and the table of the command agree: the same names, in the same order, each with the path it is registered with.\<close>

lemma registered_names: "map fst Registry = map fst (twseNameToFetcher env)"
  by (simp add: Registry_def twseNameToFetcher_def)

definition serves :: "('u, 's) twse_env \<Rightarrow> string \<Rightarrow> url_values \<Rightarrow> Endpoint \<Rightarrow> 's twse_fetcher \<Rightarrow> bool" where
  "serves env date opts ep f \<longleftrightarrow>
     ((ep_NeedsStock ep \<longrightarrow> values_Get ''stockNo'' opts \<noteq> []) \<longrightarrow>
        (\<exists>q. asks env f (ep_Path ep) date opts q \<and> good_query date opts q))"

lemma registry_served:
  assumes "date \<noteq> []" "keyed opts"
  shows "list_all2 (\<lambda>(n, ep) (n', f). serves env date opts ep f) Registry (twseNameToFetcher env)"
  unfolding Registry_def twseNameToFetcher_def serves_def
  by (simp add: FetchMI_INDEX_def FetchSTOCK_DAY_def FetchBWIBBU_d_def FetchMI_INDEX_PLUS_def FetchMI_INDEX_ODD_def FetchMI_5MINS_def
      FetchTWTB4U_def FetchMI_MARGN_def FetchT86_def FetchMI_QFIIS_def FetchBFI82U_def FetchTWT38U_def FetchTWT43U_def FetchTWT44U_def
      FetchBlockBFIAUU_def FetchBFIMUU_def FetchBFIAUUYEAR_def FetchFMTQIK_def FetchStockDayAvg_def FetchBFIAMU_def FetchMI_WEEK_def)
    (intro conjI impI fetch_dated_asks [OF assms] fetch_stock_asks [OF assms] fmsrfk_asks [OF assms] block_stock_asks [OF assms]; simp)

lemma map_of_zip2: "list_all2 (\<lambda>(n, a) (n', b). P a b) xs ys \<Longrightarrow> map fst xs = map fst ys \<Longrightarrow> map_of xs n = Some a \<Longrightarrow>
    \<exists>b. map_of ys n = Some b \<and> P a b"
  by (induction xs ys rule: list_all2_induct) (auto split: if_splits)

lemma registry_requests:
  assumes "map_of Registry name = Some ep" "date \<noteq> []" "keyed opts" "ep_NeedsStock ep \<longrightarrow> values_Get ''stockNo'' opts \<noteq> []"
  shows "\<exists>f q. map_of (twseNameToFetcher env) name = Some f \<and> asks env f (ep_Path ep) date opts q \<and>
    values_Get ''date'' (json_query q) = date \<and> vals ''response'' (json_query q) = [''json''] \<and>
    values_Get ''stockNo'' (json_query q) = values_Get ''stockNo'' opts \<and> values_Get ''month'' (json_query q) = values_Get ''month'' opts"
proof -
  obtain f where f: "map_of (twseNameToFetcher env) name = Some f" "serves env date opts ep f"
    using map_of_zip2 [OF registry_served [OF assms(2,3)] registered_names assms(1), of env] by blast
  then obtain q where "asks env f (ep_Path ep) date opts q" "good_query date opts q"
    using assms(4) by (auto simp: serves_def)
  then show ?thesis using f(1)
    by (intro exI [where x = f] exI [where x = q]) (simp add: good_query_def values_Get_vals vals_json_query)
qed

section \<open>What the command prints\<close>

lemma keyed_cli_opts [simp]: "keyed (cli_opts cfg)"
  by (simp add: cli_opts_def Let_def)

lemma stock_of_cli_opts: "values_Get ''stockNo'' (cli_opts cfg) = tc_stockNo cfg" "values_Get ''month'' (cli_opts cfg) = tc_month cfg"
  by (simp_all add: cli_opts_def values_Get_vals Let_def)

lemma FetchJSON_Ret:
  assumes "FetchJSON env decode path query s = (s', Ret r)"
  shows "\<exists>u req resp. tw_parse env (BaseURL @ path) = Ret u \<and> tw_request env (tw_string env u (url_Encode (json_query query))) = Ret req \<and>
    tw_send env (req\<lparr>rq_Header := (rq_Header req)(''User-Agent'' \<mapsto> userAgent)\<rparr>) s = (s', Inr resp) \<and> twse_answer decode resp = Ret r"
  using assms by (auto simp: FetchJSON_def Let_def go_bind_eq_Ret split: go.splits prod.splits sum.splits)

lemma asks_Ret:
  assumes "asks env f path date opts q" "f date opts s = (s', Ret raw)"
  shows "\<exists>u req resp. tw_parse env (BaseURL @ path) = Ret u \<and> tw_request env (tw_string env u (url_Encode (json_query q))) = Ret req \<and>
    tw_send env (req\<lparr>rq_Header := (rq_Header req)(''User-Agent'' \<mapsto> userAgent)\<rparr>) s = (s', Inr resp) \<and>
    ((\<exists>r. raw = GotDated r \<and> twse_answer (tw_dated env) resp = Ret r) \<or> (\<exists>r. raw = GotStock r \<and> twse_answer (tw_stock env) resp = Ret r))"
  using assms by (fastforce simp: asks_def returned_def go_bind_eq_Ret split: prod.splits dest!: FetchJSON_Ret)

text \<open>
  C29: Whatever the command yfin twse prints for a non-empty date is the encoding of an
  accepted answer to one request, sent to the path the endpoint is registered with, whose
  query has the date, the stock number and the month of the flags as first values of their
  keys (no value when the flag is not given) and response=json once: the table of fetchers
  agrees with the registry, and every fetcher passes its options on, for all 23 endpoints.
\<close>

theorem runTwseEndpoint_prints:
  assumes "runTwseEndpoint env tx encode cfg s = (s', Ret (Some printed))" "tc_date cfg \<noteq> []"
  shows "\<exists>ep q u req resp raw. map_of Registry (tc_endpoint cfg) = Some ep \<and>
    tw_parse env (BaseURL @ ep_Path ep) = Ret u \<and> tw_request env (tw_string env u (url_Encode q)) = Ret req \<and>
    values_Get ''date'' q = tc_date cfg \<and> vals ''response'' q = [''json''] \<and>
    values_Get ''stockNo'' q = tc_stockNo cfg \<and> values_Get ''month'' q = tc_month cfg \<and>
    tw_send env (req\<lparr>rq_Header := (rq_Header req)(''User-Agent'' \<mapsto> userAgent)\<rparr>) s = (s', Inr resp) \<and>
    ((\<exists>r. raw = GotDated r \<and> twse_answer (tw_dated env) resp = Ret r) \<or> (\<exists>r. raw = GotStock r \<and> twse_answer (tw_stock env) resp = Ret r)) \<and>
    encode (tc_pretty cfg) raw = Ret printed"
proof -
  obtain ep where ep: "map_of Registry (tc_endpoint cfg) = Some ep" "ep_NeedsStock ep \<longrightarrow> tc_stockNo cfg \<noteq> []"
    using assms(1) by (auto simp: runTwseEndpoint_def split: option.splits if_splits)
  have "ep_NeedsStock ep \<longrightarrow> values_Get ''stockNo'' (cli_opts cfg) \<noteq> []" using ep(2) by (simp add: stock_of_cli_opts)
  from registry_requests [OF ep(1) assms(2) keyed_cli_opts this]
  obtain f q where f: "map_of (twseNameToFetcher env) (tc_endpoint cfg) = Some f" "asks env f (ep_Path ep) (tc_date cfg) (cli_opts cfg) q"
      and q: "values_Get ''date'' (json_query q) = tc_date cfg" "vals ''response'' (json_query q) = [''json'']"
        "values_Get ''stockNo'' (json_query q) = tc_stockNo cfg" "values_Get ''month'' (json_query q) = tc_month cfg"
    unfolding stock_of_cli_opts by blast
  obtain raw where raw: "f (tc_date cfg) (cli_opts cfg) s = (s', Ret raw)" "encode (tc_pretty cfg) raw = Ret printed"
    using assms(1) by (auto simp: runTwseEndpoint_def ep(1) f(1) go_bind_eq_Ret split: if_splits prod.splits go.splits)
  show ?thesis using asks_Ret [OF f(2) raw(1)] ep(1) q raw(2) by blast
qed

definition sample_twse :: "(string, unit) twse_env" where
  "sample_twse =
     \<lparr>tw_parse = Ret, tw_string = \<lambda>u q. u @ ''?'' @ q, tw_request = \<lambda>u. Ret \<lparr>rq_URL = u, rq_Path = [], rq_Header = Map.empty\<rparr>,
      tw_send = \<lambda>r s. (s, Inr \<lparr>rsp_StatusCode = 200, rsp_Body = (''x'', None)\<rparr>),
      tw_dated = \<lambda>b. Ret \<lparr>tw_Stat = ''OK'', tw_Title = b, tw_Fields = [], tw_Data = [], tw_Notes = [], tw_Total = 0, dr_Date = []\<rparr>,
      tw_stock = \<lambda>b. Err ErrNoData\<rparr>"

lemma runTwseEndpoint_prints_witness:
  "\<exists>s' ep. runTwseEndpoint sample_twse \<lparr>tl_arg = \<lambda>_. [], tl_url = id\<rparr> (\<lambda>_ _. Ret ''{}'')
      \<lparr>tc_endpoint = ''MI_WEEK'', tc_date = ''20221230'', tc_stockNo = ''2330'', tc_month = [], tc_pretty = False\<rparr> () = (s', Ret (Some ''{}'')) \<and>
    map_of Registry ''MI_WEEK'' = Some ep"
proof -
  let ?cfg = "\<lparr>tc_endpoint = ''MI_WEEK'', tc_date = ''20221230'', tc_stockNo = ''2330'', tc_month = [], tc_pretty = False\<rparr>"
  have a: "twse_answer (tw_dated sample_twse) \<lparr>rsp_StatusCode = 200, rsp_Body = (''x'', None)\<rparr> =
      Ret \<lparr>tw_Stat = ''OK'', tw_Title = ''x'', tw_Fields = [], tw_Data = [], tw_Notes = [], tw_Total = 0, dr_Date = []\<rparr>"
    by (simp add: sample_twse_def twse_answer_def status_2xx ReadAll_def checkStat_def StatOK_def)
  have f: "FetchJSON sample_twse (tw_dated sample_twse) path q () = ((),
      Ret \<lparr>tw_Stat = ''OK'', tw_Title = ''x'', tw_Fields = [], tw_Data = [], tw_Notes = [], tw_Total = 0, dr_Date = []\<rparr>)" for path q
    using a by (simp add: FetchJSON_def Let_def) (simp add: sample_twse_def)
  obtain d where "map_of Registry ''MI_WEEK'' = Some \<lparr>ep_Name = ''MI_WEEK'', ep_Board = ''statistics'', ep_Path = ''/statistics/MI_WEEK'',
      ep_Description = d, ep_NeedsStock = False, ep_NeedsMonth = False\<rparr>"
    by (simp add: Registry_def)
  moreover have "map_of (twseNameToFetcher sample_twse) ''MI_WEEK'' = Some (FetchMI_WEEK sample_twse)"
    by (simp add: twseNameToFetcher_def)
  ultimately have "runTwseEndpoint sample_twse \<lparr>tl_arg = \<lambda>_. [], tl_url = id\<rparr> (\<lambda>_ _. Ret ''{}'') ?cfg () = ((), Ret (Some ''{}''))"
    by (simp add: runTwseEndpoint_def FetchMI_WEEK_def fetch_dated_def returned_def f)
  from runTwseEndpoint_prints [OF this] this show ?thesis by auto
qed

end
