(* ===== verification/SoakWorker.thy ===== *)
theory SoakWorker
  imports MarketClient
begin

text \<open>
  The workers of the soak test (\<^verbatim>\<open>internal/soak/worker.go\<close>) and the counters they share (\<^verbatim>\<open>orchestrator.go\<close>). A request is a
  sequence of atomic updates of the counters around the calls of the client; \<open>executeRequest\<close> is the sequence as one worker runs it,
  \<open>soak_step\<close> interleaves the updates of any number of workers. Logging is left out; random numbers and sleeping are in \<open>soak_env\<close>.
\<close>

section \<open>State\<close>

record WorkRequest =
  wr_Ticker :: string
  wr_Endpoint :: string
  wr_RunID :: string

record EndpointStats =
  es_Requests :: int
  es_Successes :: int
  es_Failures :: int
  es_TotalLatency :: duration

record Stats =
  so_TotalRequests :: int
  so_SuccessfulReqs :: int
  so_FailedRequests :: int
  so_APIRequests :: int
  so_ScrapeRequests :: int
  so_FallbackDecisions :: int
  so_RateLimitHits :: int
  so_RobotsBlocked :: int
  so_EndpointStats :: "string \<rightharpoonup> EndpointStats"

text \<open>\<open>sk_Intn i n\<close> and \<open>sk_Float i\<close> are the draw number \<open>i\<close> of the worker's generator in a request.\<close>

record ('u, 's, 'ts) soak_env =
  sk_market :: "('u, 's, 'ts) market_env"
  sk_text :: text_lib
  sk_Intn :: "nat \<Rightarrow> int \<Rightarrow> 's net \<Rightarrow> int"
  sk_Float :: "nat \<Rightarrow> 's net \<Rightarrow> f64"
  sk_Sleep :: "duration \<Rightarrow> 's net \<Rightarrow> 's net"

type_synonym ('s, 'a) client_op = "MarketClient \<times> 's net \<Rightarrow> (MarketClient \<times> 's net) \<times> 'a go"

section \<open>Requests\<close>

definition pick_random :: "(int \<Rightarrow> int) \<Rightarrow> string list \<Rightarrow> string go" where
  "pick_random rnd xs = (if xs = [] then Panic ''invalid argument to Intn'' else go_idx xs (nat (rnd (int (length xs)))))"

definition generateWorkRequest ::
  "('u, 's, 'ts) soak_env \<Rightarrow> string list \<Rightarrow> string list \<Rightarrow> 's net \<Rightarrow> WorkRequest go" where
  "generateWorkRequest env tickers endpoints st =
     go_bind (pick_random (\<lambda>n. sk_Intn env 0 n st) tickers) (\<lambda>ticker.
     go_bind (pick_random (\<lambda>n. sk_Intn env 1 n st) endpoints) (\<lambda>endpoint.
     Ret \<lparr>wr_Ticker = ticker, wr_Endpoint = endpoint,
       wr_RunID = ''soak-'' @ show_int (time_unix (me_now (sk_market env) st)) @ ''-'' @ show_int (sk_Intn env 2 10000 st)\<rparr>))"

text \<open>A call whose result is dropped, and one that leaves the client as it is.\<close>

definition ignoring :: "('s, 'a) client_op \<Rightarrow> ('s, unit) client_op" where
  "ignoring f = (\<lambda>cst. case f cst of (cst', r) \<Rightarrow> (cst', go_bind r (\<lambda>_. Ret ())))"

definition with_client :: "(MarketClient \<Rightarrow> 's net \<Rightarrow> 's net \<times> 'a go) \<Rightarrow> ('s, 'a) client_op" where
  "with_client f = (\<lambda>(c, st). case f c st of (st', r) \<Rightarrow> ((c, st'), r))"

definition executeAPIRequest :: "(f64 \<Rightarrow> int) \<Rightarrow> ('u, 's, 'ts) soak_env \<Rightarrow> WorkRequest \<Rightarrow> ('s, unit) client_op" where
  "executeAPIRequest ovf env req =
     (let m = sk_market env; t = wr_Ticker req; r = wr_RunID req in
      if wr_Endpoint req = ''quote'' then ignoring (with_client (\<lambda>c. FetchQuote ovf m c t r))
      else if wr_Endpoint req = ''daily-bars''
      then ignoring (with_client (\<lambda>c st. FetchDailyBars ovf m c t (AddDate (me_now m st) 0 0 (- 30)) (me_now m st) True r st))
      else if wr_Endpoint req = ''fundamentals'' then ignoring (FetchFundamentalsQuarterly ovf m t r)
      else (\<lambda>cst. (cst, Err (Errorf ''API endpoint not supported: %s'' [AStr (wr_Endpoint req)]))))"

definition executeScrapeProfile :: "('u, 's, 'ts) soak_env \<Rightarrow> ('s, unit) client_op" where
  "executeScrapeProfile env = (\<lambda>(c, st).
     (let st1 = sk_Sleep env (dur_mul (sk_Intn env 3 500 st) millisecond) st in
      if f_lt (sk_Float env 4 st1) (fl (5 / 100)) then ((c, st1), Err (Errorf ''simulated profile scrape failure'' []))
      else ((c, st1), Ret ())))"

definition executeScrapeRequest :: "(f64 \<Rightarrow> int) \<Rightarrow> ('u, 's, 'ts) soak_env \<Rightarrow> WorkRequest \<Rightarrow> ('s, unit) client_op" where
  "executeScrapeRequest ovf env req =
     (let m = sk_market env; t = wr_Ticker req; r = wr_RunID req in
      if wr_Endpoint req = ''key-statistics'' then ignoring (ScrapeKeyStatistics ovf m t r)
      else if wr_Endpoint req = ''financials'' then ignoring (ScrapeFinancials ovf m t r)
      else if wr_Endpoint req = ''analysis'' then ignoring (ScrapeAnalysis ovf m t r)
      else if wr_Endpoint req = ''profile'' then executeScrapeProfile env
      else if wr_Endpoint req = ''news'' then ignoring (market_ScrapeNews ovf m t r)
      else if wr_Endpoint req = ''balance-sheet'' then ignoring (ScrapeBalanceSheet ovf m t r)
      else if wr_Endpoint req = ''cash-flow'' then ignoring (ScrapeCashFlow ovf m t r)
      else if wr_Endpoint req = ''analyst-insights'' then ignoring (ScrapeAnalystInsights ovf m t r)
      else (\<lambda>cst. (cst, Err (Errorf ''scrape endpoint not supported: %s'' [AStr (wr_Endpoint req)]))))"

definition isAPIEndpoint :: "string \<Rightarrow> bool" where
  "isAPIEndpoint endpoint \<longleftrightarrow> endpoint \<in> {''quote'', ''daily-bars'', ''fundamentals''}"

definition indexOfSubstring :: "string \<Rightarrow> string \<Rightarrow> int" where
  "indexOfSubstring s substr =
     (case find (\<lambda>i. take (length substr) (drop i s) = substr) [0..<length s + 1 - length substr] of
        Some i \<Rightarrow> int i | None \<Rightarrow> - 1)"

definition soak_contains :: "string \<Rightarrow> string \<Rightarrow> bool" where
  "soak_contains s substr \<longleftrightarrow> length substr \<le> length s \<and> (s = substr \<or> length substr < length s \<and>
     (take (length substr) s = substr \<or> drop (length s - length substr) s = substr \<or> 0 \<le> indexOfSubstring s substr))"

definition shouldFallbackToScrape :: "text_lib \<Rightarrow> goerror option \<Rightarrow> bool" where
  "shouldFallbackToScrape tx err =
     (case err of None \<Rightarrow> False
      | Some e \<Rightarrow>
          (let s = error_text tx e in
           if soak_contains s ''401'' \<or> soak_contains s ''authentication'' \<or> soak_contains s ''subscription'' then True
           else if soak_contains s ''429'' \<or> soak_contains s ''rate limit'' then True
           else soak_contains s ''500'' \<or> soak_contains s ''502'' \<or> soak_contains s ''503''))"

definition isRateLimitError :: "text_lib \<Rightarrow> goerror option \<Rightarrow> bool" where
  "isRateLimitError tx err =
     (case err of None \<Rightarrow> False
      | Some e \<Rightarrow> soak_contains (error_text tx e) ''429'' \<or> soak_contains (error_text tx e) ''rate limit'' \<or>
          soak_contains (error_text tx e) ''too many requests'')"

definition isRobotsError :: "text_lib \<Rightarrow> goerror option \<Rightarrow> bool" where
  "isRobotsError tx err =
     (case err of None \<Rightarrow> False | Some e \<Rightarrow> soak_contains (error_text tx e) ''robots'' \<or> soak_contains (error_text tx e) ''disallowed'')"

definition outcome :: "unit go \<Rightarrow> goerror option go" where
  "outcome r = (case r of Ret _ \<Rightarrow> Ret None | Err e \<Rightarrow> Ret (Some e) | Panic p \<Rightarrow> Panic p)"

text \<open>What a strategy did: its error, whether it fell back, and the requests it counted for the API and for scraping.\<close>

record attempt =
  dn_err :: "goerror option"
  dn_fallback :: bool
  dn_api :: int
  dn_scrape :: int

definition executeAutoFallbackRequest :: "(f64 \<Rightarrow> int) \<Rightarrow> ('u, 's, 'ts) soak_env \<Rightarrow> WorkRequest \<Rightarrow> ('s, attempt) client_op" where
  "executeAutoFallbackRequest ovf env req = (\<lambda>cst.
     if isAPIEndpoint (wr_Endpoint req)
     then (case executeAPIRequest ovf env req cst of
         (cst1, r) \<Rightarrow>
           (case outcome r of
              Panic p \<Rightarrow> (cst1, Panic p)
            | Err e \<Rightarrow> (cst1, Err e)
            | Ret err \<Rightarrow>
                if err = None then (cst1, Ret \<lparr>dn_err = None, dn_fallback = False, dn_api = 1, dn_scrape = 0\<rparr>)
                else if shouldFallbackToScrape (sk_text env) err
                then (case executeScrapeRequest ovf env req cst1 of
                    (cst2, r2) \<Rightarrow> (cst2, go_bind (outcome r2) (\<lambda>err2.
                      Ret \<lparr>dn_err = err2, dn_fallback = True, dn_api = 0, dn_scrape = 1\<rparr>)))
                else (cst1, Ret \<lparr>dn_err = err, dn_fallback = False, dn_api = 1, dn_scrape = 0\<rparr>)))
     else (case executeScrapeRequest ovf env req cst of
         (cst1, r) \<Rightarrow> (cst1, go_bind (outcome r) (\<lambda>err. Ret \<lparr>dn_err = err, dn_fallback = False, dn_api = 0, dn_scrape = 1\<rparr>))))"

definition perform :: "(f64 \<Rightarrow> int) \<Rightarrow> ('u, 's, 'ts) soak_env \<Rightarrow> string \<Rightarrow> WorkRequest \<Rightarrow> ('s, attempt) client_op" where
  "perform ovf env fallback req = (\<lambda>cst.
     if fallback = ''api-only''
     then (case executeAPIRequest ovf env req cst of
         (cst1, r) \<Rightarrow> (cst1, go_bind (outcome r) (\<lambda>err. Ret \<lparr>dn_err = err, dn_fallback = False, dn_api = 1, dn_scrape = 0\<rparr>)))
     else if fallback = ''scrape-only''
     then (case executeScrapeRequest ovf env req cst of
         (cst1, r) \<Rightarrow> (cst1, go_bind (outcome r) (\<lambda>err. Ret \<lparr>dn_err = err, dn_fallback = False, dn_api = 0, dn_scrape = 1\<rparr>)))
     else if fallback = ''auto'' then executeAutoFallbackRequest ovf env req cst
     else (cst, Ret \<lparr>dn_err = Some (Errorf ''unknown fallback strategy: %s'' [AStr fallback]), dn_fallback = False, dn_api = 0, dn_scrape = 0\<rparr>))"

section \<open>The counters\<close>

definition at_endpoint :: "string \<Rightarrow> (EndpointStats \<Rightarrow> EndpointStats) \<Rightarrow> Stats \<Rightarrow> Stats" where
  "at_endpoint e f s = s\<lparr>so_EndpointStats := (so_EndpointStats s)(e := map_option f (so_EndpointStats s e))\<rparr>"

definition count_total :: "Stats \<Rightarrow> Stats" where
  "count_total s = s\<lparr>so_TotalRequests := so_TotalRequests s + 1\<rparr>"

definition count_request :: "WorkRequest \<Rightarrow> Stats \<Rightarrow> Stats" where
  "count_request req = at_endpoint (wr_Endpoint req) (\<lambda>es. es\<lparr>es_Requests := es_Requests es + 1\<rparr>)"

definition count_origin :: "attempt \<Rightarrow> Stats \<Rightarrow> Stats" where
  "count_origin d s =
     s\<lparr>so_APIRequests := so_APIRequests s + dn_api d, so_ScrapeRequests := so_ScrapeRequests s + dn_scrape d,
       so_FallbackDecisions := so_FallbackDecisions s + (if dn_fallback d then 1 else 0)\<rparr>"

definition count_latency :: "WorkRequest \<Rightarrow> duration \<Rightarrow> Stats \<Rightarrow> Stats" where
  "count_latency req d = at_endpoint (wr_Endpoint req) (\<lambda>es. es\<lparr>es_TotalLatency := wrap64 (es_TotalLatency es + d)\<rparr>)"

definition count_outcome :: "goerror option \<Rightarrow> Stats \<Rightarrow> Stats" where
  "count_outcome err s =
     (if err \<noteq> None then s\<lparr>so_FailedRequests := so_FailedRequests s + 1\<rparr> else s\<lparr>so_SuccessfulReqs := so_SuccessfulReqs s + 1\<rparr>)"

definition count_endpoint_outcome :: "WorkRequest \<Rightarrow> goerror option \<Rightarrow> Stats \<Rightarrow> Stats" where
  "count_endpoint_outcome req err =
     at_endpoint (wr_Endpoint req) (\<lambda>es.
       if err \<noteq> None then es\<lparr>es_Failures := es_Failures es + 1\<rparr> else es\<lparr>es_Successes := es_Successes es + 1\<rparr>)"

definition count_kind :: "text_lib \<Rightarrow> goerror option \<Rightarrow> Stats \<Rightarrow> Stats" where
  "count_kind tx err s =
     (let s1 = (if isRateLimitError tx err then s\<lparr>so_RateLimitHits := so_RateLimitHits s + 1\<rparr> else s)
      in if isRobotsError tx err then s1\<lparr>so_RobotsBlocked := so_RobotsBlocked s1 + 1\<rparr> else s1)"

text \<open>A request of one worker while no other runs; an endpoint without counters is a nil pointer.\<close>

definition executeRequest ::
  "(f64 \<Rightarrow> int) \<Rightarrow> ('u, 's, 'ts) soak_env \<Rightarrow> string \<Rightarrow> WorkRequest \<Rightarrow> (MarketClient \<times> 's net) \<times> Stats \<Rightarrow>
   (MarketClient \<times> 's net) \<times> Stats go" where
  "executeRequest ovf env fallback req = (\<lambda>((c, st), s).
     (let s1 = count_total s in
      if so_EndpointStats s1 (wr_Endpoint req) = None then ((c, st), Panic ''nil pointer dereference'')
      else let s2 = count_request req s1 in
        (case perform ovf env fallback req (c, st) of
           ((c', st'), Panic p) \<Rightarrow> ((c', st'), Panic p)
         | ((c', st'), Err e) \<Rightarrow> ((c', st'), Err e)
         | ((c', st'), Ret d) \<Rightarrow>
             (let dur = time_Sub (me_now (sk_market env) st') (me_now (sk_market env) st);
                  s3 = count_latency req dur (count_origin d s2)
              in ((c', st'), Ret (count_kind (sk_text env) (dn_err d)
                   (count_endpoint_outcome req (dn_err d) (count_outcome (dn_err d) s3))))))))"

section \<open>Interleaved requests\<close>

datatype phase =
    Idle
  | Counted WorkRequest
  | Running WorkRequest
  | Ran WorkRequest "goerror option"
  | Timed WorkRequest "goerror option"
  | Tallied WorkRequest "goerror option"
  | Noted WorkRequest "goerror option"

text \<open>
  \<open>pc w\<close> says where worker \<open>w\<close> of \<open>n\<close> is between two updates of the counters. The adds to the counters of the sources, and those
  to the counters of the kinds of error, are taken as one step each: no other counter is related to them.
\<close>

inductive soak_step :: "nat \<Rightarrow> text_lib \<Rightarrow> Stats \<times> (nat \<Rightarrow> phase) \<Rightarrow> Stats \<times> (nat \<Rightarrow> phase) \<Rightarrow> bool" for n tx where
  step_total: "w < n \<Longrightarrow> pc w = Idle \<Longrightarrow> so_EndpointStats s (wr_Endpoint req) \<noteq> None \<Longrightarrow>
     soak_step n tx (s, pc) (count_total s, pc(w := Counted req))"
| step_request: "w < n \<Longrightarrow> pc w = Counted req \<Longrightarrow> soak_step n tx (s, pc) (count_request req s, pc(w := Running req))"
| step_source: "w < n \<Longrightarrow> pc w = Running req \<Longrightarrow> soak_step n tx (s, pc) (count_origin d s, pc(w := Ran req (dn_err d)))"
| step_latency: "w < n \<Longrightarrow> pc w = Ran req err \<Longrightarrow> soak_step n tx (s, pc) (count_latency req t s, pc(w := Timed req err))"
| step_outcome: "w < n \<Longrightarrow> pc w = Timed req err \<Longrightarrow> soak_step n tx (s, pc) (count_outcome err s, pc(w := Tallied req err))"
| step_endpoint: "w < n \<Longrightarrow> pc w = Tallied req err \<Longrightarrow>
     soak_step n tx (s, pc) (count_endpoint_outcome req err s, pc(w := Noted req err))"
| step_kind: "w < n \<Longrightarrow> pc w = Noted req err \<Longrightarrow> soak_step n tx (s, pc) (count_kind tx err s, pc(w := Idle))"

inductive_cases soak_stepE: "soak_step n tx sp sp'"

section \<open>A request alone is a run of one worker\<close>

lemma endpoints_kept [simp]:
  "so_EndpointStats (count_total s) = so_EndpointStats s" "so_EndpointStats (count_origin d s) = so_EndpointStats s"
  "so_EndpointStats (count_outcome err s) = so_EndpointStats s" "so_EndpointStats (count_kind tx err s) = so_EndpointStats s"
  by (simp_all add: count_total_def count_origin_def count_outcome_def count_kind_def Let_def)

lemma executeRequest_steps:
  assumes "executeRequest ovf env fallback req (cst, s) = (cst', Ret s')" "w < n" "pc w = Idle"
  shows "(soak_step n (sk_text env))\<^sup>*\<^sup>* (s, pc) (s', pc)"
proof -
  obtain c st where cst: "cst = (c, st)" by (cases cst)
  obtain d t where e: "so_EndpointStats s (wr_Endpoint req) \<noteq> None"
      "s' = count_kind (sk_text env) (dn_err d) (count_endpoint_outcome req (dn_err d) (count_outcome (dn_err d)
        (count_latency req t (count_origin d (count_request req (count_total s))))))"
    using assms(1) by (auto simp: executeRequest_def cst Let_def split: if_splits prod.splits go.splits)
  let ?tx = "sk_text env" and ?err = "dn_err d"
  have onward: "(soak_step n ?tx)\<^sup>*\<^sup>* (s, pc) z" if "(soak_step n ?tx)\<^sup>*\<^sup>* (s, pc) y" "soak_step n ?tx y z" for y z
    using that by (rule rtranclp.rtrancl_into_rtrancl)
  have "(soak_step n ?tx)\<^sup>*\<^sup>* (s, pc) (count_total s, pc(w := Counted req))"
    using step_total [of w n pc s req ?tx] assms(2,3) e(1) by simp
  then have "(soak_step n ?tx)\<^sup>*\<^sup>* (s, pc) (count_request req (count_total s), pc(w := Running req))"
    using step_request [OF assms(2), of "pc(w := Counted req)" req ?tx] by (auto dest: onward)
  then have "(soak_step n ?tx)\<^sup>*\<^sup>* (s, pc) (count_origin d (count_request req (count_total s)), pc(w := Ran req ?err))"
    using step_source [OF assms(2), of "pc(w := Running req)" req ?tx] by (auto dest: onward)
  then have "(soak_step n ?tx)\<^sup>*\<^sup>* (s, pc) (count_latency req t (count_origin d (count_request req (count_total s))), pc(w := Timed req ?err))"
    using step_latency [OF assms(2), of "pc(w := Ran req ?err)" req ?err ?tx] by (auto dest: onward)
  then have "(soak_step n ?tx)\<^sup>*\<^sup>* (s, pc) (count_outcome ?err (count_latency req t (count_origin d (count_request req (count_total s)))),
      pc(w := Tallied req ?err))"
    using step_outcome [OF assms(2), of "pc(w := Timed req ?err)" req ?err ?tx] by (auto dest: onward)
  then have "(soak_step n ?tx)\<^sup>*\<^sup>* (s, pc) (count_endpoint_outcome req ?err (count_outcome ?err (count_latency req t (count_origin d
      (count_request req (count_total s))))), pc(w := Noted req ?err))"
    using step_endpoint [OF assms(2), of "pc(w := Tallied req ?err)" req ?err ?tx] by (auto dest: onward)
  then have "(soak_step n ?tx)\<^sup>*\<^sup>* (s, pc) (s', pc(w := Idle))"
    using step_kind [OF assms(2), of "pc(w := Noted req ?err)" req ?err ?tx] e(2) by (auto dest: onward)
  moreover have "pc(w := Idle) = pc" using assms(3) by auto
  ultimately show ?thesis by simp
qed

lemma soak_contains_contains: "soak_contains s substr = contains s substr"
  by (simp add: soak_contains_def contains_def indexOfSubstring_def indexOf_def)

section \<open>The counters of interleaved requests\<close>

text \<open>What a worker in a phase still owes the counters of results: those of the run, and those of the endpoint \<open>e\<close>.\<close>

fun pending :: "phase \<Rightarrow> int" where
  "pending (Counted _) = 1"
| "pending (Running _) = 1"
| "pending (Ran _ _) = 1"
| "pending (Timed _ _) = 1"
| "pending _ = 0"

fun pending_at :: "string \<Rightarrow> phase \<Rightarrow> int" where
  "pending_at e (Running r) = of_bool (wr_Endpoint r = e)"
| "pending_at e (Ran r _) = of_bool (wr_Endpoint r = e)"
| "pending_at e (Timed r _) = of_bool (wr_Endpoint r = e)"
| "pending_at e (Tallied r _) = of_bool (wr_Endpoint r = e)"
| "pending_at e _ = 0"

definition balanced :: "nat \<Rightarrow> Stats \<times> (nat \<Rightarrow> phase) \<Rightarrow> bool" where
  "balanced n = (\<lambda>(s, pc).
     so_TotalRequests s = so_SuccessfulReqs s + so_FailedRequests s + (\<Sum>w<n. pending (pc w)) \<and>
     (\<forall>e es. so_EndpointStats s e = Some es \<longrightarrow>
        es_Requests es = es_Successes es + es_Failures es + (\<Sum>w<n. pending_at e (pc w))))"

definition fresh_stats :: "string list \<Rightarrow> Stats" where
  "fresh_stats endpoints =
     \<lparr>so_TotalRequests = 0, so_SuccessfulReqs = 0, so_FailedRequests = 0, so_APIRequests = 0, so_ScrapeRequests = 0,
       so_FallbackDecisions = 0, so_RateLimitHits = 0, so_RobotsBlocked = 0,
       so_EndpointStats = foldl (\<lambda>m e. m(e \<mapsto> \<lparr>es_Requests = 0, es_Successes = 0, es_Failures = 0, es_TotalLatency = 0\<rparr>))
         Map.empty endpoints\<rparr>"

lemma fresh_endpoint:
  "so_EndpointStats (fresh_stats endpoints) e =
     (if e \<in> set endpoints then Some \<lparr>es_Requests = 0, es_Successes = 0, es_Failures = 0, es_TotalLatency = 0\<rparr> else None)"
  by (induction endpoints rule: rev_induct) (auto simp: fresh_stats_def)

lemma fresh_balanced: "balanced n (fresh_stats endpoints, \<lambda>_. Idle)"
  by (auto simp: balanced_def fresh_endpoint split: if_splits) (simp add: fresh_stats_def)

lemma sum_worker:
  fixes f :: "phase \<Rightarrow> int" and w n :: nat
  assumes "w < n"
  shows "(\<Sum>v<n. f ((pc(w := x)) v)) = (\<Sum>v<n. f (pc v)) - f (pc w) + f x"
proof -
  have "(\<Sum>v\<in>{..<n} - {w}. f ((pc(w := x)) v)) = (\<Sum>v\<in>{..<n} - {w}. f (pc v))" by (rule sum.cong) auto
  then show ?thesis
    using assms sum.remove [OF finite_lessThan, of w n "\<lambda>v. f ((pc(w := x)) v)"] sum.remove [OF finite_lessThan, of w n "\<lambda>v. f (pc v)"]
    by (simp del: fun_upd_apply) simp
qed

lemma at_endpoint_simps [simp]:
  "so_EndpointStats (at_endpoint e f s) e' = (if e' = e then map_option f (so_EndpointStats s e') else so_EndpointStats s e')"
  "so_TotalRequests (at_endpoint e f s) = so_TotalRequests s"
  "so_SuccessfulReqs (at_endpoint e f s) = so_SuccessfulReqs s"
  "so_FailedRequests (at_endpoint e f s) = so_FailedRequests s"
  by (simp_all add: at_endpoint_def)

lemma soak_step_balanced: "soak_step n tx sp sp' \<Longrightarrow> balanced n sp \<Longrightarrow> balanced n sp'"
  by (induction rule: soak_step.induct)
    (auto simp: balanced_def sum_worker count_total_def count_request_def count_origin_def count_latency_def count_outcome_def
      count_endpoint_outcome_def count_kind_def Let_def simp del: fun_upd_apply split: if_splits)

lemma soak_steps_balanced: "(soak_step n tx)\<^sup>*\<^sup>* sp sp' \<Longrightarrow> balanced n sp \<Longrightarrow> balanced n sp'"
  by (induction rule: rtranclp_induct) (auto intro: soak_step_balanced)

lemma soak_totals:
  assumes "(soak_step n tx)\<^sup>*\<^sup>* (fresh_stats endpoints, \<lambda>_. Idle) (s, pc)"
  shows "so_TotalRequests s = so_SuccessfulReqs s + so_FailedRequests s + (\<Sum>w<n. pending (pc w))"
    and "so_EndpointStats s e = Some es \<Longrightarrow> es_Requests es = es_Successes es + es_Failures es + (\<Sum>w<n. pending_at e (pc w))"
  using soak_steps_balanced [OF assms fresh_balanced] by (auto simp: balanced_def)

section \<open>The fallback\<close>

lemma scrape_of_api:
  "isAPIEndpoint (wr_Endpoint req) \<Longrightarrow>
   executeScrapeRequest ovf env req cst = (cst, Err (Errorf ''scrape endpoint not supported: %s'' [AStr (wr_Endpoint req)]))"
  by (auto simp: isAPIEndpoint_def executeScrapeRequest_def Let_def)

lemma perform_auto:
  "perform ovf env ''auto'' req cst =
     (if isAPIEndpoint (wr_Endpoint req)
      then (case perform ovf env ''api-only'' req cst of
          (cst1, r) \<Rightarrow> (cst1, go_bind r (\<lambda>d. Ret
            (if shouldFallbackToScrape (sk_text env) (dn_err d)
             then \<lparr>dn_err = Some (Errorf ''scrape endpoint not supported: %s'' [AStr (wr_Endpoint req)]), dn_fallback = True, dn_api = 0, dn_scrape = 1\<rparr>
             else d))))
      else perform ovf env ''scrape-only'' req cst)"
  by (auto simp: perform_def executeAutoFallbackRequest_def scrape_of_api outcome_def shouldFallbackToScrape_def split: prod.splits go.splits)

lemma auto_fallback_fails:
  "executeAutoFallbackRequest ovf env req cst = (cst', Ret d) \<Longrightarrow> dn_fallback d \<Longrightarrow>
   dn_err d = Some (Errorf ''scrape endpoint not supported: %s'' [AStr (wr_Endpoint req)])"
  by (auto simp: executeAutoFallbackRequest_def scrape_of_api outcome_def split: if_splits prod.splits go.splits)

section \<open>Properties\<close>

text \<open>
  However the workers of a soak run interleave, the total is the number of successes plus
  failures plus the requests under way, and the same holds for every endpoint; when all
  workers are idle the total is the sum of the two.
\<close>

theorem interleaved_totals:
  assumes "(soak_step n tx)\<^sup>*\<^sup>* (fresh_stats endpoints, \<lambda>_. Idle) (s, pc)"
  shows "so_TotalRequests s = so_SuccessfulReqs s + so_FailedRequests s + (\<Sum>w<n. pending (pc w)) \<and>
    (\<forall>e es. so_EndpointStats s e = Some es \<longrightarrow> es_Requests es = es_Successes es + es_Failures es + (\<Sum>w<n. pending_at e (pc w))) \<and>
    (pc = (\<lambda>_. Idle) \<longrightarrow> so_TotalRequests s = so_SuccessfulReqs s + so_FailedRequests s)"
  using soak_totals [OF assms] by simp

theorem interleaved_totals_witness:
  "so_TotalRequests (count_total (count_total (fresh_stats [''news'']))) =
     (\<Sum>w<(2 :: nat). pending (((\<lambda>_. Idle)(0 := Counted \<lparr>wr_Ticker = ''AAPL'', wr_Endpoint = ''news'', wr_RunID = ''r''\<rparr>,
       1 := Counted \<lparr>wr_Ticker = ''MSFT'', wr_Endpoint = ''news'', wr_RunID = ''s''\<rparr>)) w))"
proof -
  let ?r0 = "\<lparr>wr_Ticker = ''AAPL'', wr_Endpoint = ''news'', wr_RunID = ''r''\<rparr>"
  let ?r1 = "\<lparr>wr_Ticker = ''MSFT'', wr_Endpoint = ''news'', wr_RunID = ''s''\<rparr>"
  let ?s = "fresh_stats [''news'']"
  have known: "so_EndpointStats ?s ''news'' \<noteq> None" by (simp add: fresh_endpoint)
  have "soak_step 2 tx (?s, \<lambda>_. Idle) (count_total ?s, (\<lambda>_. Idle)(0 := Counted ?r0))" for tx
    using step_total [of 0 2 "\<lambda>_. Idle" ?s ?r0 tx] known by simp
  moreover have "soak_step 2 tx (count_total ?s, (\<lambda>_. Idle)(0 := Counted ?r0))
      (count_total (count_total ?s), (\<lambda>_. Idle)(0 := Counted ?r0, 1 := Counted ?r1))" for tx
    using step_total [of 1 2 "(\<lambda>_. Idle)(0 := Counted ?r0)" "count_total ?s" ?r1 tx] known by simp
  ultimately have "(soak_step 2 tx)\<^sup>*\<^sup>* (?s, \<lambda>_. Idle) (count_total (count_total ?s), (\<lambda>_. Idle)(0 := Counted ?r0, 1 := Counted ?r1))" for tx
    by (meson converse_rtranclp_into_rtranclp r_into_rtranclp)
  from interleaved_totals [OF this] show ?thesis by (simp add: count_total_def fresh_stats_def)
qed

text \<open>
  C32: The strategy auto has no fallback that can succeed: for the endpoints of the API it
  does what api-only does, except that an error it would fall back on is replaced by the error
  that the endpoint cannot be scraped; for all others it is scrape-only.
\<close>

theorem auto_never_scrapes_instead:
  "perform ovf env ''auto'' req cst =
     (if isAPIEndpoint (wr_Endpoint req)
      then (case perform ovf env ''api-only'' req cst of
          (cst1, r) \<Rightarrow> (cst1, go_bind r (\<lambda>d. Ret
            (if shouldFallbackToScrape (sk_text env) (dn_err d)
             then \<lparr>dn_err = Some (Errorf ''scrape endpoint not supported: %s'' [AStr (wr_Endpoint req)]), dn_fallback = True, dn_api = 0, dn_scrape = 1\<rparr>
             else d))))
      else perform ovf env ''scrape-only'' req cst)"
  by (rule perform_auto)

end
