(* ===== verification/SoakProbes.thy ===== *)
theory SoakProbes
  imports SoakWorker BusRetry
begin

text \<open>
  The set-up of a soak run and its probes: \<^verbatim>\<open>internal/soak/orchestrator.go\<close> (configuration, tickers, endpoints, the orchestrator and
  a round of probes) and \<^verbatim>\<open>probes.go\<close>.
\<close>

section \<open>Tickers and endpoints\<close>

record SoakConfig =
  sc_UniverseFile :: string
  sc_Endpoints :: string
  sc_Fallback :: string
  sc_Duration :: duration
  sc_Concurrency :: int
  sc_QPS :: f64
  sc_Preview :: bool
  sc_Publish :: bool
  sc_Env :: string
  sc_TopicPrefix :: string
  sc_ProbeInterval :: duration
  sc_FailureRate :: f64
  sc_MemoryCheck :: bool

definition newline :: char where "newline = char_of (10 :: nat)"

text \<open>
  \<^verbatim>\<open>bufio.Scanner\<close>: the lines without their ends; a line that does not fit the scanner's 64 KiB is an error. A file is its
  bytes and the error, if any, that reading it ends with.
\<close>

definition scan_line :: "string \<Rightarrow> string" where
  "scan_line l = (if l \<noteq> [] \<and> List.last l = char_of (13 :: nat) then butlast l else l)"

definition scan_lines :: "string \<Rightarrow> string list" where
  "scan_lines s = (let ls = split_char newline s in map scan_line (if List.last ls = [] then butlast ls else ls))"

definition token_too_long :: "string \<Rightarrow> bool" where
  "token_too_long s \<longleftrightarrow> (\<exists>l \<in> set (split_char newline s). 65536 \<le> length l)"

definition loadTickerUniverse :: "(string \<Rightarrow> (string \<times> goerror option) go) \<Rightarrow> string \<Rightarrow> string list go" where
  "loadTickerUniverse open_file filename =
     go_bind (go_wrap ''failed to open universe file: %w'' [] (open_file filename)) (\<lambda>(content, ending).
     let tickers = filter (\<lambda>l. l \<noteq> [] \<and> \<not> HasPrefix l ''#'') (map TrimSpace (scan_lines content)) in
     if token_too_long content
     then Err (Wrapf ''failed to read universe file: %w'' [] (ErrorString ''bufio.Scanner: token too long''))
     else case ending of Some e \<Rightarrow> Err (Wrapf ''failed to read universe file: %w'' [] e)
     | None \<Rightarrow> if tickers = [] then Err (Errorf ''no tickers found in universe file'' []) else Ret tickers)"

definition parseEndpoints :: "string \<Rightarrow> string list" where
  "parseEndpoints endpointsStr = map TrimSpace (split_char CHR '','' endpointsStr)"

definition minInt :: "int \<Rightarrow> int \<Rightarrow> int" where
  "minInt a b = (if a < b then a else b)"

section \<open>Probes\<close>

text \<open>A text is kept as its format and arguments; \<open>pr_values\<close> are the values of the API and of the page.\<close>

record ProbeResult =
  pr_Ticker :: string
  pr_ProbeType :: string
  pr_Passed :: bool
  pr_Details :: "string \<times> fmt_arg list"
  pr_values :: "(fmt_arg \<times> fmt_arg) option"
  pr_Tolerance :: f64
  pr_Difference :: f64

definition new_probe :: "string \<Rightarrow> string \<Rightarrow> f64 \<Rightarrow> ProbeResult" where
  "new_probe ticker kind tolerance =
     \<lparr>pr_Ticker = ticker, pr_ProbeType = kind, pr_Passed = False, pr_Details = ('''', []), pr_values = None,
       pr_Tolerance = tolerance, pr_Difference = Fin 0\<rparr>"

definition extractMarketCapFromAPI :: "'a \<Rightarrow> f64" where "extractMarketCapFromAPI data = Fin 1000000000"
definition extractMarketCapFromScrape :: "'a \<Rightarrow> f64" where "extractMarketCapFromScrape data = Fin 1050000000"
definition extractPERatioFromAPI :: "'a \<Rightarrow> f64" where "extractPERatioFromAPI data = fl (255 / 10)"
definition extractPERatioFromScrape :: "'a \<Rightarrow> f64" where "extractPERatioFromScrape data = Fin 26"
definition extractEmployeeCountFromAPI :: "'a \<Rightarrow> int" where "extractEmployeeCountFromAPI data = 150000"
definition extractEmployeeCountFromScrape :: "'a \<Rightarrow> int" where "extractEmployeeCountFromScrape data = 155000"
definition extractSectorFromAPI :: "'a \<Rightarrow> string" where "extractSectorFromAPI data = ''Technology''"
definition simulateScrapedSector :: "string \<Rightarrow> string" where "simulateScrapedSector ticker = ''Technology''"
definition extractCurrencyFromAPI :: "'a \<Rightarrow> string" where "extractCurrencyFromAPI data = ''USD''"
definition extractCurrencyFromScrape :: "'a \<Rightarrow> string" where "extractCurrencyFromScrape data = ''USD''"

definition normalizeSectorName :: "string \<Rightarrow> string" where
  "normalizeSectorName sector =
     (let s = ToLower (TrimSpace sector) in
      case map_of [(''information technology'', ''technology''), (''tech'', ''technology''), (''healthcare'', ''health care''),
        (''consumer discretionary'', ''consumer cyclical''), (''consumer staples'', ''consumer defensive'')] s of
        Some normalized \<Rightarrow> normalized | None \<Rightarrow> s)"

definition percent :: "f64 \<Rightarrow> f64" where "percent x = f_mul x (Fin 100)"
definition billions :: "f64 \<Rightarrow> f64" where "billions x = f_div x (Fin (10 ^ 9))"

text \<open>The two calls of a probe, with the texts of their failures; then the comparison of what they return.\<close>

definition both :: "string \<Rightarrow> ('s, 'a) client_op \<Rightarrow> string \<Rightarrow> ('s, 'b) client_op \<Rightarrow> ('a \<Rightarrow> 'b \<Rightarrow> 'r) \<Rightarrow> ('s, 'r) client_op" where
  "both what1 api what2 scrape f = (\<lambda>cst.
     (case api cst of (cst1, r1) \<Rightarrow>
        (case go_wrap what1 [] r1 of
           Err e \<Rightarrow> (cst1, Err e)
         | Panic p \<Rightarrow> (cst1, Panic p)
         | Ret a \<Rightarrow> (case scrape cst1 of (cst2, r2) \<Rightarrow> (cst2, go_bind (go_wrap what2 [] r2) (\<lambda>b. Ret (f a b)))))))"

definition validateMarketCap :: "(f64 \<Rightarrow> int) \<Rightarrow> ('u, 's, 'ts) soak_env \<Rightarrow> string \<Rightarrow> string \<Rightarrow> ('s, ProbeResult) client_op" where
  "validateMarketCap ovf env ticker runID =
     both ''failed to fetch API market data: %w'' (with_client (\<lambda>c. FetchMarketData ovf (sk_market env) c ticker runID))
       ''failed to scrape key statistics: %w'' (ScrapeKeyStatistics ovf (sk_market env) ticker runID)
     (\<lambda>apiData scrapeData.
       let api = extractMarketCapFromAPI apiData; scrape = extractMarketCapFromScrape scrapeData;
           result = (new_probe ticker ''market_cap'' (fl (5 / 100)))\<lparr>pr_values := Some (AFloat api, AFloat scrape)\<rparr>
       in if f_eq api (Fin 0) \<or> f_eq scrape (Fin 0)
          then result\<lparr>pr_Details := (''One or both market cap values are zero or unavailable'', []), pr_Passed := False\<rparr>
          else let diff = f_div (f_abs (f_sub api scrape)) api; result1 = result\<lparr>pr_Difference := diff\<rparr>
          in if f_le diff (pr_Tolerance result1)
             then result1\<lparr>pr_Passed := True, pr_Details := (''Market cap values within tolerance: API=%.2fB, Scrape=%.2fB, diff=%.2f%%'',
               [AFloat (billions api), AFloat (billions scrape), AFloat (percent diff)])\<rparr>
             else result1\<lparr>pr_Passed := False, pr_Details := (''Market cap values exceed tolerance: API=%.2fB, Scrape=%.2fB, diff=%.2f%% > %.2f%%'',
               [AFloat (billions api), AFloat (billions scrape), AFloat (percent diff), AFloat (percent (pr_Tolerance result1))])\<rparr>)"

definition validatePERatio :: "(f64 \<Rightarrow> int) \<Rightarrow> ('u, 's, 'ts) soak_env \<Rightarrow> string \<Rightarrow> string \<Rightarrow> ('s, ProbeResult) client_op" where
  "validatePERatio ovf env ticker runID =
     both ''failed to fetch API quote: %w'' (with_client (\<lambda>c. FetchQuote ovf (sk_market env) c ticker runID))
       ''failed to scrape key statistics: %w'' (ScrapeKeyStatistics ovf (sk_market env) ticker runID)
     (\<lambda>apiQuote scrapeData.
       let api = extractPERatioFromAPI apiQuote; scrape = extractPERatioFromScrape scrapeData;
           result = (new_probe ticker ''pe_ratio'' (fl (10 / 100)))\<lparr>pr_values := Some (AFloat api, AFloat scrape)\<rparr>
       in if f_le api (Fin 0) \<or> f_le scrape (Fin 0)
          then result\<lparr>pr_Details := (''One or both P/E ratios are zero, negative, or unavailable'', []), pr_Passed := False\<rparr>
          else let diff = f_div (f_abs (f_sub api scrape)) api; result1 = result\<lparr>pr_Difference := diff\<rparr>
          in if f_le diff (pr_Tolerance result1)
             then result1\<lparr>pr_Passed := True, pr_Details := (''P/E ratios within tolerance: API=%.2f, Scrape=%.2f, diff=%.2f%%'',
               [AFloat api, AFloat scrape, AFloat (percent diff)])\<rparr>
             else result1\<lparr>pr_Passed := False, pr_Details := (''P/E ratios exceed tolerance: API=%.2f, Scrape=%.2f, diff=%.2f%% > %.2f%%'',
               [AFloat api, AFloat scrape, AFloat (percent diff), AFloat (percent (pr_Tolerance result1))])\<rparr>)"

definition validateEmployeeCount :: "(f64 \<Rightarrow> int) \<Rightarrow> ('u, 's, 'ts) soak_env \<Rightarrow> string \<Rightarrow> string \<Rightarrow> ('s, ProbeResult) client_op" where
  "validateEmployeeCount ovf env ticker runID =
     both ''failed to fetch API company info: %w'' (with_client (\<lambda>c. FetchCompanyInfo ovf (sk_market env) c ticker runID))
       ''failed to scrape key statistics: %w'' (ScrapeKeyStatistics ovf (sk_market env) ticker runID)
     (\<lambda>apiCompany scrapeData.
       let api = extractEmployeeCountFromAPI apiCompany; scrape = extractEmployeeCountFromScrape scrapeData;
           result = (new_probe ticker ''employee_count'' (fl (15 / 100)))\<lparr>pr_values := Some (AInt api, AInt scrape)\<rparr>
       in if api = 0 \<or> scrape = 0
          then result\<lparr>pr_Details := (''One or both employee counts are zero or unavailable'', []), pr_Passed := False\<rparr>
          else let diff = f_div (f_abs (f_of_int (api - scrape))) (f_of_int api); result1 = result\<lparr>pr_Difference := diff\<rparr>
          in if f_le diff (pr_Tolerance result1)
             then result1\<lparr>pr_Passed := True, pr_Details := (''Employee counts within tolerance: API=%d, Scrape=%d, diff=%.2f%%'',
               [AInt api, AInt scrape, AFloat (percent diff)])\<rparr>
             else result1\<lparr>pr_Passed := False, pr_Details := (''Employee counts exceed tolerance: API=%d, Scrape=%d, diff=%.2f%% > %.2f%%'',
               [AInt api, AInt scrape, AFloat (percent diff), AFloat (percent (pr_Tolerance result1))])\<rparr>)"

definition validateSector :: "(f64 \<Rightarrow> int) \<Rightarrow> ('u, 's, 'ts) soak_env \<Rightarrow> string \<Rightarrow> string \<Rightarrow> ('s, ProbeResult) client_op" where
  "validateSector ovf env ticker runID = (\<lambda>cst.
     (case with_client (\<lambda>c. FetchCompanyInfo ovf (sk_market env) c ticker runID) cst of (cst1, r) \<Rightarrow>
       (cst1, go_bind (go_wrap ''failed to fetch API company info: %w'' [] r) (\<lambda>apiCompany. Ret (
         let api = extractSectorFromAPI apiCompany; scrape = simulateScrapedSector ticker;
             result = (new_probe ticker ''sector'' (Fin 0))\<lparr>pr_values := Some (AStr api, AStr scrape)\<rparr>
         in if api = [] \<or> scrape = []
            then result\<lparr>pr_Details := (''One or both sector values are empty or unavailable'', []), pr_Passed := False\<rparr>
            else if normalizeSectorName api = normalizeSectorName scrape
            then result\<lparr>pr_Passed := True, pr_Details := (''Sector values match: API=%s, Scrape=%s'', [AStr api, AStr scrape])\<rparr>
            else result\<lparr>pr_Passed := False, pr_Details := (''Sector values differ: API=%s, Scrape=%s'', [AStr api, AStr scrape])\<rparr>)))))"

definition validateCurrency :: "(f64 \<Rightarrow> int) \<Rightarrow> ('u, 's, 'ts) soak_env \<Rightarrow> string \<Rightarrow> string \<Rightarrow> ('s, ProbeResult) client_op" where
  "validateCurrency ovf env ticker runID =
     both ''failed to fetch API quote: %w'' (with_client (\<lambda>c. FetchQuote ovf (sk_market env) c ticker runID))
       ''failed to scrape key statistics: %w'' (ScrapeKeyStatistics ovf (sk_market env) ticker runID)
     (\<lambda>apiQuote scrapeData.
       let api = extractCurrencyFromAPI apiQuote; scrape = extractCurrencyFromScrape scrapeData;
           result = (new_probe ticker ''currency'' (Fin 0))\<lparr>pr_values := Some (AStr api, AStr scrape)\<rparr>
       in if api = [] \<or> scrape = []
          then result\<lparr>pr_Details := (''One or both currency values are empty or unavailable'', []), pr_Passed := False\<rparr>
          else if api = scrape
          then result\<lparr>pr_Passed := True, pr_Details := (''Currency values match: API=%s, Scrape=%s'', [AStr api, AStr scrape])\<rparr>
          else result\<lparr>pr_Passed := False, pr_Details := (''Currency values differ: API=%s, Scrape=%s'', [AStr api, AStr scrape])\<rparr>)"

text \<open>The loop over the probes: how many passed, and the texts of those that did not.\<close>

fun run_probes :: "text_lib \<Rightarrow> ('s, ProbeResult) client_op list \<Rightarrow> int \<Rightarrow> string list \<Rightarrow> ('s, int \<times> string list) client_op" where
  "run_probes tx [] passed failed cst = (cst, Ret (passed, failed))"
| "run_probes tx (probe # probes) passed failed cst =
     (case probe cst of
        (cst1, Panic p) \<Rightarrow> (cst1, Panic p)
      | (cst1, Err e) \<Rightarrow> run_probes tx probes passed (failed @ [''execution_error: '' @ error_text tx e]) cst1
      | (cst1, Ret result) \<Rightarrow>
          if pr_Passed result then run_probes tx probes (passed + 1) failed cst1
          else run_probes tx probes passed
            (failed @ [pr_ProbeType result @ '': '' @ go_sprintf tx [] (fst (pr_Details result)) (snd (pr_Details result))]) cst1)"

definition probe_list :: "(f64 \<Rightarrow> int) \<Rightarrow> ('u, 's, 'ts) soak_env \<Rightarrow> string \<Rightarrow> string \<Rightarrow> ('s, ProbeResult) client_op list" where
  "probe_list ovf env ticker runID =
     map (\<lambda>p. p ovf env ticker runID) [validateMarketCap, validatePERatio, validateEmployeeCount, validateSector, validateCurrency]"

definition probe_run :: "('u, 's, 'ts) soak_env \<Rightarrow> string \<Rightarrow> 's net \<Rightarrow> string" where
  "probe_run env ticker st = ''probe-'' @ ticker @ ''-'' @ show_int (time_unix (me_now (sk_market env) st))"

definition ValidateTicker :: "(f64 \<Rightarrow> int) \<Rightarrow> ('u, 's, 'ts) soak_env \<Rightarrow> string \<Rightarrow> ('s, unit) client_op" where
  "ValidateTicker ovf env ticker = (\<lambda>(c, st).
     (let probes = probe_list ovf env ticker (probe_run env ticker st) in
      case run_probes (sk_text env) probes 0 [] (c, st) of
        (cst1, r) \<Rightarrow> (cst1, go_bind r (\<lambda>(passedProbes, failedProbes).
          let successThreshold = int (length probes) sdiv 2 in
          if passedProbes \<ge> successThreshold then Ret ()
          else Err (Errorf ''validation failed for %s: %s'' [AStr ticker, AStr (Join failedProbes ''; '')])))))"

text \<open>A round: \<open>perm\<close> is the permutation \<^verbatim>\<open>rand.Perm\<close> draws; the counters are the passed and the failed probes.\<close>

fun probe_round :: "(f64 \<Rightarrow> int) \<Rightarrow> ('u, 's, 'ts) soak_env \<Rightarrow> string list \<Rightarrow> int \<times> int \<Rightarrow> ('s, int \<times> int) client_op" where
  "probe_round ovf env [] counts cst = (cst, Ret counts)"
| "probe_round ovf env (ticker # sample) (passed, failed) cst =
     (case ValidateTicker ovf env ticker cst of
        (cst1, Panic p) \<Rightarrow> (cst1, Panic p)
      | (cst1, Err e) \<Rightarrow> probe_round ovf env sample (passed, failed + 1) cst1
      | (cst1, Ret _) \<Rightarrow> probe_round ovf env sample (passed + 1, failed) cst1)"

definition runProbeRound ::
  "(f64 \<Rightarrow> int) \<Rightarrow> ('u, 's, 'ts) soak_env \<Rightarrow> nat list \<Rightarrow> string list \<Rightarrow> int \<times> int \<Rightarrow> ('s, int \<times> int) client_op" where
  "runProbeRound ovf env indices tickers counts =
     probe_round ovf env (map (\<lambda>i. tickers ! (indices ! i)) [0..<nat (minInt 10 (int (length tickers)))]) counts"

section \<open>What the probes decide\<close>

lemma both_Ret: "both w1 f w2 g k cst = (cst', Ret r) \<Longrightarrow> \<exists>a b. r = k a b"
  by (auto simp: both_def go_bind_eq_Ret split: prod.splits go.splits)

text \<open>The constants the probes compare are within their tolerances: the caps differ by five percent, the bound itself.\<close>

lemma f_le_fl: "f_le (fl x) (fl x)"
  by (rule fl_mono) simp

lemma fixed_values:
  "fl (51 / 2) = Fin (51 / 2)" "f_of_int 150000 = Fin 150000" "f_of_int (- 5000) = Fin (- 5000)"
  "fl (- 50000000) = Fin (- 50000000)" "fl (- (1 / 2)) = Fin (- (1 / 2))"
  using fl_exact [of "51 / 2" 51 "- 1"] fl_exact [of "- (1 / 2)" "- 1" "- 1"] fl_of_int [of "- 50000000"] f_of_int_small [of 150000]
    f_of_int_small [of "- 5000"] by (simp_all add: power_int_minus)

lemma probe_values:
  "f_sub (Fin 1000000000) (Fin 1050000000) = Fin (- 50000000)" "f_sub (Fin (51 / 2)) (Fin 26) = Fin (- (1 / 2))"
  "f_le (fl (1 / 51)) (fl (1 / 10))" "f_le (fl (1 / 30)) (fl (3 / 20))"
  using fl_mono [of "1 / 51" "1 / 10"] fl_mono [of "1 / 30" "3 / 20"] fixed_values by (simp_all add: f_sub_def)

lemma probes_pass:
  assumes "probe \<in> set (probe_list ovf env ticker runID)" "probe cst = (cst', Ret result)"
  shows "pr_Passed result"
proof -
  consider "probe = validateMarketCap ovf env ticker runID" | "probe = validatePERatio ovf env ticker runID"
    | "probe = validateEmployeeCount ovf env ticker runID" | "probe = validateSector ovf env ticker runID"
    | "probe = validateCurrency ovf env ticker runID"
    using assms(1) by (auto simp: probe_list_def)
  then show ?thesis
  proof cases
    case 1
    then show ?thesis using assms(2) f_le_fl [of "1 / 20"]
      by (auto simp: validateMarketCap_def Let_def extractMarketCapFromAPI_def extractMarketCapFromScrape_def probe_values
          new_probe_def f_eq_def dest!: both_Ret)
  next
    case 2
    then show ?thesis using assms(2)
      by (auto simp: validatePERatio_def Let_def extractPERatioFromAPI_def extractPERatioFromScrape_def probe_values fixed_values
          new_probe_def dest!: both_Ret)
  next
    case 3
    then show ?thesis using assms(2)
      by (auto simp: validateEmployeeCount_def Let_def extractEmployeeCountFromAPI_def extractEmployeeCountFromScrape_def probe_values
          fixed_values new_probe_def dest!: both_Ret)
  next
    case 4
    then show ?thesis using assms(2)
      by (auto simp: validateSector_def Let_def extractSectorFromAPI_def simulateScrapedSector_def go_bind_eq_Ret split: prod.splits)
  next
    case 5
    then show ?thesis using assms(2)
      by (auto simp: validateCurrency_def Let_def extractCurrencyFromAPI_def extractCurrencyFromScrape_def dest!: both_Ret)
  qed
qed

lemma run_probes_count:
  assumes "\<forall>p \<in> set ps. \<forall>c c' r. p c = (c', Ret r) \<longrightarrow> pr_Passed r"
    and "run_all (\<lambda>p. p) ps cst = (cst', rs)" "\<forall>r \<in> set rs. \<forall>p. r \<noteq> Panic p"
  shows "\<exists>fails. run_probes tx ps n fs cst = (cst', Ret (n + int (length (filter is_ret rs)), fs @ fails)) \<and>
    length fails = length (filter (\<lambda>r. \<not> is_ret r) rs)"
  using assms
proof (induction ps arbitrary: n fs cst rs)
  case (Cons p ps)
  obtain c1 r where p: "p cst = (c1, r)" by (cases "p cst")
  obtain rs1 where rs: "run_all (\<lambda>p. p) ps c1 = (cst', rs1)" "rs = r # rs1"
    using Cons.prems(2) by (auto simp: p split: prod.splits)
  have IH: "\<exists>fails. run_probes tx ps n fs c1 = (cst', Ret (n + int (length (filter is_ret rs1)), fs @ fails)) \<and>
      length fails = length (filter (\<lambda>r. \<not> is_ret r) rs1)" for n fs
    using Cons.IH [OF _ rs(1)] Cons.prems(1,3) rs(2) by simp
  show ?case
  proof (cases r)
    case (Ret x)
    then have "pr_Passed x" using Cons.prems(1) p by (metis list.set_intros(1))
    then show ?thesis using IH [of "n + 1" fs] Ret p rs(2) by (simp add: algebra_simps)
  next
    case (Err e)
    obtain fails where "run_probes tx ps n (fs @ [''execution_error: '' @ error_text tx e]) c1 =
        (cst', Ret (n + int (length (filter is_ret rs1)), (fs @ [''execution_error: '' @ error_text tx e]) @ fails))"
      "length fails = length (filter (\<lambda>r. \<not> is_ret r) rs1)"
      using IH by blast
    then show ?thesis using Err p rs(2) by (intro exI [of _ "(''execution_error: '' @ error_text tx e) # fails"]) simp
  next
    case (Panic q)
    then show ?thesis using Cons.prems(3) rs(2) by simp
  qed
qed simp

fun is_panic :: "'a go \<Rightarrow> bool" where
  "is_panic (Panic _) = True"
| "is_panic _ = False"

lemma is_panic_iff: "is_panic r \<longleftrightarrow> (\<exists>p. r = Panic p)"
  by (cases r) auto

lemma run_probes_panic:
  "run_all (\<lambda>p. p) ps cst = (cst', rs) \<Longrightarrow> list_ex is_panic rs \<Longrightarrow> \<not> is_ret (snd (run_probes tx ps n fs cst))"
proof (induction ps arbitrary: n fs cst rs)
  case (Cons p ps)
  obtain c1 r where p: "p cst = (c1, r)" by (cases "p cst")
  obtain rs1 where rs: "run_all (\<lambda>p. p) ps c1 = (cst', rs1)" "rs = r # rs1"
    using Cons.prems(1) by (auto simp: p split: prod.splits)
  then show ?case using Cons.IH [OF rs(1)] Cons.prems(2) by (cases r) (simp_all add: p)
qed simp

text \<open>A ticker is valid when two of the five probes get their answers, whatever the answers are.\<close>

lemma ValidateTicker_answers:
  assumes "run_all (\<lambda>probe. probe) (probe_list ovf env ticker (probe_run env ticker st)) (c, st) = (cst', rs)"
  shows "is_ret (snd (ValidateTicker ovf env ticker (c, st))) \<longleftrightarrow> \<not> list_ex is_panic rs \<and> 2 \<le> length (filter is_ret rs)"
proof (cases "list_ex is_panic rs")
  case True
  then have "\<not> is_ret (snd (run_probes (sk_text env) (probe_list ovf env ticker (probe_run env ticker st)) 0 [] (c, st)))"
    by (rule run_probes_panic [OF assms])
  then show ?thesis using True by (auto simp: ValidateTicker_def Let_def is_ret_conv go_bind_eq_Ret split: prod.splits)
next
  case False
  then have np: "\<forall>r \<in> set rs. \<forall>p. r \<noteq> Panic p" by (auto simp: list_ex_iff is_panic_iff)
  obtain fails where "run_probes (sk_text env) (probe_list ovf env ticker (probe_run env ticker st)) 0 [] (c, st) =
      (cst', Ret (int (length (filter is_ret rs)), fails))"
    using run_probes_count [OF _ assms np, of "sk_text env" 0 "[]"] probes_pass by (metis append_Nil add_0)
  moreover have "int (length (probe_list ovf env ticker r)) sdiv 2 = 2" for r
    by (simp add: probe_list_def signed_divide_int_def)
  ultimately show ?thesis using False by (auto simp: ValidateTicker_def Let_def)
qed

section \<open>Properties\<close>

text \<open>
  A ticker passes the correctness probes exactly when at least two of the five got the
  answers they asked for and none panicked: the values in the answers are never looked at, and
  the fixed values that are compared are within every tolerance, float rounding included.
\<close>

theorem ValidateTicker_iff:
  "is_ret (snd (ValidateTicker ovf env ticker (c, st))) \<longleftrightarrow>
     (let rs = snd (run_all (\<lambda>probe. probe) (probe_list ovf env ticker (probe_run env ticker st)) (c, st))
      in \<not> list_ex is_panic rs \<and> 2 \<le> length (filter is_ret rs))"
  using ValidateTicker_answers [OF prod.collapse [symmetric]] by (simp add: Let_def)

end
