(* ===== verification/SoakMonitor.thy ===== *)
theory SoakMonitor
  imports SoakProbes
begin

text \<open>
  The monitor of memory and goroutines (\<^verbatim>\<open>internal/soak/memory.go\<close>) and the server that injects failures (\<^verbatim>\<open>failure.go\<close>). What
  the Go runtime measures is the argument of a step. A text is its format and arguments.
\<close>

section \<open>Samples\<close>

record MemorySample =
  ms_Timestamp :: instant
  ms_AllocBytes :: int
  ms_SysBytes :: int
  ms_Goroutines :: int
  ms_GCCycles :: int
  ms_HeapObjects :: int

record MemoryMonitor =
  mm_initialMemory :: int
  mm_peakMemory :: int
  mm_initialGoroutines :: int
  mm_peakGoroutines :: int
  mm_samples :: "MemorySample list"

definition NewMemoryMonitor :: "int \<Rightarrow> int \<Rightarrow> MemoryMonitor" where
  "NewMemoryMonitor alloc goroutines =
     \<lparr>mm_initialMemory = alloc, mm_peakMemory = alloc, mm_initialGoroutines = goroutines, mm_peakGoroutines = goroutines, mm_samples = []\<rparr>"

text \<open>The history is limited: the newest samples are copied to the front of the slice, which is then cut.\<close>

definition keep_last :: "nat \<Rightarrow> 'a list \<Rightarrow> 'a list" where
  "keep_last n xs = (if n < length xs then take n (drop (length xs - n) xs) else xs)"

definition takeSample :: "MemorySample \<Rightarrow> MemoryMonitor \<Rightarrow> MemoryMonitor" where
  "takeSample sample mm =
     (let samples = mm_samples mm @ [sample];
          mm1 = mm\<lparr>mm_peakMemory := (if mm_peakMemory mm < ms_AllocBytes sample then ms_AllocBytes sample else mm_peakMemory mm),
            mm_peakGoroutines := (if mm_peakGoroutines mm < ms_Goroutines sample then ms_Goroutines sample else mm_peakGoroutines mm)\<rparr>
      in mm1\<lparr>mm_samples := keep_last 1000 samples\<rparr>)"

text \<open>The loop of the monitor: a sample at every tick of its clock, and a last one when it is told to stop.\<close>

definition Monitor :: "MemorySample list \<Rightarrow> MemorySample \<Rightarrow> MemoryMonitor \<Rightarrow> MemoryMonitor" where
  "Monitor ticks final mm = takeSample final (fold takeSample ticks mm)"

definition GetSampleHistory :: "MemoryMonitor \<Rightarrow> MemorySample list" where
  "GetSampleHistory mm = mm_samples mm"

section \<open>Leaks\<close>

type_synonym detail = "string \<times> fmt_arg list"

record growth_analysis =
  ga_growthRate :: f64
  ga_leakDetected :: bool
  ga_details :: "detail list"

record LeakDetectionResult =
  lr_MemoryLeakDetected :: bool
  lr_GoroutineLeakDetected :: bool
  lr_MemoryGrowthRate :: f64
  lr_GoroutineGrowthRate :: f64
  lr_Recommendation :: string
  lr_Details :: "detail list"

abbreviation fewer :: "detail \<Rightarrow> growth_analysis" where
  "fewer d \<equiv> \<lparr>ga_growthRate = Fin 0, ga_leakDetected = False, ga_details = [d]\<rparr>"

definition megabytes :: "f64 \<Rightarrow> f64" where
  "megabytes x = f_div (f_div x (Fin 1024)) (Fin 1024)"

fun largest_rise :: "int \<Rightarrow> MemorySample list \<Rightarrow> int" where
  "largest_rise best (a # b # xs) =
     largest_rise (if ms_AllocBytes a < ms_AllocBytes b \<and> best < ms_AllocBytes b - ms_AllocBytes a
       then ms_AllocBytes b - ms_AllocBytes a else best) (b # xs)"
| "largest_rise best xs = best"

definition detectMemorySpikes :: "MemorySample list \<Rightarrow> int" where
  "detectMemorySpikes samples = (if length samples < 2 then 0 else largest_rise 0 samples)"

definition analyzeGCBehavior :: "MemorySample list \<Rightarrow> detail list" where
  "analyzeGCBehavior samples =
     (if length samples < 2 then [(''Insufficient samples for GC analysis'', [])]
      else
        let startGC = ms_GCCycles (hd samples); endGC = ms_GCCycles (List.last samples);
            duration = time_Sub (ms_Timestamp (List.last samples)) (ms_Timestamp (hd samples));
            gcRate = f_div (f_of_int ((endGC - startGC) mod 2 ^ 32)) (Seconds duration);
            frequent = (if f_lt (Fin 1) gcRate then [(''High GC frequency: %.2f cycles/sec'', [AFloat gcRate])] else []);
            recentSamples = drop (length samples - 10) samples;
            avgHeapObjects = (foldl (\<lambda>n s. (n + ms_HeapObjects s) mod 2 ^ 64) 0 recentSamples) div int (length recentSamples)
        in frequent @
          (if 10 < length samples \<and> 1000000 < avgHeapObjects
           then [(''High heap object count: %d objects'', [AInt avgHeapObjects])] else []))"

definition analyzeMemoryGrowth :: "MemoryMonitor \<Rightarrow> growth_analysis" where
  "analyzeMemoryGrowth mm =
     (let samples = mm_samples mm in
      if length samples < 2 then fewer (''Insufficient samples for memory analysis'', [])
      else
        let startSample = hd samples; endSample = List.last samples;
            duration = Seconds (time_Sub (ms_Timestamp endSample) (ms_Timestamp startSample))
        in if f_le duration (Fin 0) then fewer (''Invalid time duration for analysis'', [])
        else
          let memoryDiff = wrap64 (wrap64 (ms_AllocBytes endSample) - wrap64 (ms_AllocBytes startSample));
              growthRate = f_div (f_of_int memoryDiff) duration;
              leak = f_lt (Fin (1024 * 1024)) growthRate;
              maxSpike = detectMemorySpikes samples
          in \<lparr>ga_growthRate = growthRate, ga_leakDetected = leak,
            ga_details =
              (if leak then [(''Sustained memory growth detected: %.2f MB/sec'', [AFloat (megabytes growthRate)])] else []) @
              (if 100 * 1024 * 1024 < maxSpike
               then [(''Large memory spike detected: %.2f MB'', [AFloat (megabytes (f_of_int maxSpike))])] else []) @
              analyzeGCBehavior samples\<rparr>)"

definition analyzeGoroutineGrowth :: "MemoryMonitor \<Rightarrow> growth_analysis" where
  "analyzeGoroutineGrowth mm =
     (let samples = mm_samples mm in
      if length samples < 2 then fewer (''Insufficient samples for goroutine analysis'', [])
      else
        let startSample = hd samples; endSample = List.last samples;
            duration = Seconds (time_Sub (ms_Timestamp endSample) (ms_Timestamp startSample))
        in if f_le duration (Fin 0) then fewer (''Invalid time duration for analysis'', [])
        else
          let growthRate = f_div (f_of_int (wrap64 (ms_Goroutines endSample - ms_Goroutines startSample))) duration;
              leak = f_lt (fl (1 / 10)) growthRate;
              maxGoroutines = mm_peakGoroutines mm; initialGoroutines = mm_initialGoroutines mm
          in \<lparr>ga_growthRate = growthRate, ga_leakDetected = leak,
            ga_details =
              (if leak then [(''Sustained goroutine growth detected: %.3f goroutines/sec'', [AFloat growthRate])] else []) @
              (if wrap64 (initialGoroutines * 2) < maxGoroutines
               then [(''Goroutine spike detected: %d -> %d (%.1fx increase)'', [AInt initialGoroutines, AInt maxGoroutines,
                 AFloat (f_div (f_of_int maxGoroutines) (f_of_int initialGoroutines))])] else [])\<rparr>)"

text \<open>The signs at the start of the recommendations are the UTF-8 bytes of the source.\<close>

definition sign_ok :: string where "sign_ok = utf8 [226, 156, 133]"
definition sign_look :: string where "sign_look = utf8 [240, 159, 148, 141]"
definition sign_warn :: string where "sign_warn = utf8 [226, 154, 160, 239, 184, 143]"

definition generateRecommendation :: "LeakDetectionResult \<Rightarrow> string" where
  "generateRecommendation r =
     (if \<not> lr_MemoryLeakDetected r \<and> \<not> lr_GoroutineLeakDetected r
      then sign_ok @ '' No significant leaks detected. Memory and goroutine usage appear stable.''
      else
        let recommendations =
          (if lr_MemoryLeakDetected r
           then [sign_look @ '' Memory leak detected - investigate object retention and ensure proper cleanup''] else []) @
          (if lr_GoroutineLeakDetected r
           then [sign_look @ '' Goroutine leak detected - check for unclosed channels and missing context cancellation''] else []) @
          (if f_lt (Fin (10 * 1024 * 1024)) (lr_MemoryGrowthRate r)
           then [sign_warn @ ''  High memory growth rate - consider implementing memory pooling or reducing allocations''] else []) @
          (if f_lt (Fin 1) (lr_GoroutineGrowthRate r)
           then [sign_warn @ ''  High goroutine growth rate - review goroutine lifecycle management''] else [])
        in if recommendations = [] then sign_warn @ ''  Potential issues detected - review detailed analysis''
           else Join recommendations ''; '')"

definition AnalyzeLeaks :: "MemoryMonitor \<Rightarrow> LeakDetectionResult" where
  "AnalyzeLeaks mm =
     (if length (mm_samples mm) < 10
      then \<lparr>lr_MemoryLeakDetected = False, lr_GoroutineLeakDetected = False, lr_MemoryGrowthRate = Fin 0, lr_GoroutineGrowthRate = Fin 0,
        lr_Recommendation = ''Insufficient samples for leak analysis'',
        lr_Details = [(''Need at least 10 samples for meaningful analysis'', [])]\<rparr>
      else
        let memoryGrowth = analyzeMemoryGrowth mm; goroutineGrowth = analyzeGoroutineGrowth mm;
            result = \<lparr>lr_MemoryLeakDetected = ga_leakDetected memoryGrowth, lr_GoroutineLeakDetected = ga_leakDetected goroutineGrowth,
              lr_MemoryGrowthRate = ga_growthRate memoryGrowth, lr_GoroutineGrowthRate = ga_growthRate goroutineGrowth,
              lr_Recommendation = [], lr_Details = ga_details memoryGrowth @ ga_details goroutineGrowth\<rparr>
        in result\<lparr>lr_Recommendation := generateRecommendation result\<rparr>)"

section \<open>Injected failures\<close>

record FailureScenario =
  fs_Name :: string
  fs_Probability :: f64
  fs_StatusCode :: int
  fs_Delay :: duration
  fs_Response :: string
  fs_Headers :: "(string \<times> string) list"

record FailureServer =
  fv_failureRate :: f64
  fv_scenarios :: "FailureScenario list"
  fv_active :: bool
  fv_started :: bool

definition quoted :: "string \<Rightarrow> string" where
  "quoted s = [CHR 0x22] @ s @ [CHR 0x22]"

definition error_body :: "string \<Rightarrow> string" where
  "error_body msg = ''{'' @ quoted ''error'' @ '': '' @ quoted msg @ ''}''"

definition NewFailureServer :: "f64 \<Rightarrow> FailureServer" where
  "NewFailureServer failureRate =
     \<lparr>fv_failureRate = failureRate,
       fv_scenarios =
        [\<lparr>fs_Name = ''rate_limit'', fs_Probability = fl (3 / 10), fs_StatusCode = 429, fs_Delay = 100 * millisecond,
           fs_Response = ''{'' @ quoted ''error'' @ '': '' @ quoted ''Rate limit exceeded'' @ '', '' @ quoted ''retry_after'' @ '': 60}'',
           fs_Headers = [(''Retry-After'', ''60'')]\<rparr>,
         \<lparr>fs_Name = ''server_error'', fs_Probability = fl (2 / 10), fs_StatusCode = 500, fs_Delay = 50 * millisecond,
           fs_Response = error_body ''Internal server error'', fs_Headers = []\<rparr>,
         \<lparr>fs_Name = ''bad_gateway'', fs_Probability = fl (15 / 100), fs_StatusCode = 502, fs_Delay = 200 * millisecond,
           fs_Response = error_body ''Bad gateway'', fs_Headers = []\<rparr>,
         \<lparr>fs_Name = ''service_unavailable'', fs_Probability = fl (15 / 100), fs_StatusCode = 503, fs_Delay = 300 * millisecond,
           fs_Response = error_body ''Service temporarily unavailable'', fs_Headers = [(''Retry-After'', ''30'')]\<rparr>,
         \<lparr>fs_Name = ''timeout'', fs_Probability = fl (1 / 10), fs_StatusCode = 0, fs_Delay = 30 * second, fs_Response = [], fs_Headers = []\<rparr>,
         \<lparr>fs_Name = ''auth_required'', fs_Probability = fl (1 / 10), fs_StatusCode = 401, fs_Delay = 50 * millisecond,
           fs_Response = error_body ''Authentication required'', fs_Headers = [(''WWW-Authenticate'', ''Bearer'')]\<rparr>],
       fv_active = False, fv_started = False\<rparr>"

definition failure_Start :: "FailureServer \<Rightarrow> FailureServer" where
  "failure_Start fs = (if f_le (fv_failureRate fs) (Fin 0) then fs else fs\<lparr>fv_started := True, fv_active := True\<rparr>)"

definition failure_Stop :: "FailureServer \<Rightarrow> FailureServer" where
  "failure_Stop fs = (if \<not> fv_started fs then fs else fs\<lparr>fv_active := False\<rparr>)"

definition UpdateFailureRate :: "f64 \<Rightarrow> FailureServer \<Rightarrow> FailureServer" where
  "UpdateFailureRate r fs = fs\<lparr>fv_failureRate := r\<rparr>"

definition AddScenario :: "FailureScenario \<Rightarrow> FailureServer \<Rightarrow> FailureServer" where
  "AddScenario sc fs = fs\<lparr>fv_scenarios := fv_scenarios fs @ [sc]\<rparr>"

fun scenario_at :: "f64 \<Rightarrow> f64 \<Rightarrow> FailureScenario list \<Rightarrow> FailureScenario option" where
  "scenario_at r cumulative [] = None"
| "scenario_at r cumulative (sc # scs) =
     (let c = f_add cumulative (fs_Probability sc) in if f_le r c then Some sc else scenario_at r c scs)"

definition total_probability :: "FailureScenario list \<Rightarrow> f64" where
  "total_probability scs = foldl (\<lambda>t sc. f_add t (fs_Probability sc)) (Fin 0) scs"

text \<open>\<open>u\<close> is the draw of \<^verbatim>\<open>rand.Float64\<close>, from 0 to 1 without 1.\<close>

definition selectFailureScenario :: "f64 \<Rightarrow> FailureScenario list \<Rightarrow> FailureScenario go" where
  "selectFailureScenario u scs =
     (case scenario_at (f_mul u (total_probability scs)) (Fin 0) scs of Some sc \<Rightarrow> Ret sc | None \<Rightarrow> go_idx scs 0)"

datatype reply = Closed | Reply int "(string \<times> string) list" string | Success

text \<open>
  \<open>hijacked\<close> says whether the connection could be taken over and closed; \<open>Success\<close> is the reply of \<^verbatim>\<open>handleSuccess\<close>. A header is
  set after those before it, so a later value of a name replaces an earlier one.
\<close>

definition set_header :: "string \<times> string \<Rightarrow> (string \<times> string) list \<Rightarrow> (string \<times> string) list" where
  "set_header kv hs = filter (\<lambda>h. fst h \<noteq> fst kv) hs @ [kv]"

definition injectFailure :: "bool \<Rightarrow> f64 \<Rightarrow> FailureServer \<Rightarrow> (duration \<times> reply) go" where
  "injectFailure hijacked u fs =
     go_bind (selectFailureScenario u (fv_scenarios fs)) (\<lambda>sc0.
     let delay = (if 0 < fs_Delay sc0 then fs_Delay sc0 else 0) in
     if fs_StatusCode sc0 = 0 \<and> hijacked then Ret (delay, Closed)
     else
       let sc = (if fs_StatusCode sc0 = 0 then sc0\<lparr>fs_StatusCode := 408, fs_Response := error_body ''Request timeout''\<rparr> else sc0)
       in Ret (delay, Reply (fs_StatusCode sc)
         (set_header (''Content-Type'', ''application/json'') (fold set_header (fs_Headers sc) [])) (fs_Response sc)))"

definition handleRequest :: "bool \<Rightarrow> f64 \<Rightarrow> f64 \<Rightarrow> FailureServer \<Rightarrow> (duration \<times> reply) go" where
  "handleRequest hijacked u0 u fs =
     (if \<not> fv_active fs
      then Ret (0, Reply 503 [(''Content-Type'', ''text/plain; charset=utf-8''), (''X-Content-Type-Options'', ''nosniff'')]
        (''Failure server not active'' @ [newline]))
      else if f_lt u0 (fv_failureRate fs) then injectFailure hijacked u fs
      else Ret (0, Success))"

section \<open>The history of samples\<close>

definition highest :: "int \<Rightarrow> int list \<Rightarrow> int" where
  "highest n xs = Max (insert n (set xs))"

lemma highest_fold: "highest n xs = fold max xs n"
  using Max.set_eq_fold [of n xs] by (simp add: highest_def)

lemma highest_snoc: "highest n (xs @ [x]) = max (highest n xs) x"
  by (simp add: highest_fold max.commute)

lemma highest_Cons: "highest n (x # xs) = highest (max n x) xs"
  by (simp add: highest_fold max.commute)

lemma keep_last_drop: "keep_last n xs = drop (length xs - n) xs"
  by (simp add: keep_last_def)

lemma keep_last_snoc: "0 < n \<Longrightarrow> keep_last n (keep_last n xs @ [x]) = keep_last n (xs @ [x])"
  by (cases "length xs < n") (simp_all add: keep_last_drop Suc_diff_le)

text \<open>After any number of samples the monitor holds the last thousand of them, and the highest values it has seen.\<close>

lemma takeSample_simps:
  "mm_samples (takeSample x mm) = keep_last 1000 (mm_samples mm @ [x])"
  "mm_peakMemory (takeSample x mm) = max (mm_peakMemory mm) (ms_AllocBytes x)"
  "mm_peakGoroutines (takeSample x mm) = max (mm_peakGoroutines mm) (ms_Goroutines x)"
  "mm_initialGoroutines (takeSample x mm) = mm_initialGoroutines mm"
  by (simp_all add: takeSample_def Let_def max_def)

lemma takeSamples:
  "mm_samples (fold takeSample xs (NewMemoryMonitor a g)) = keep_last 1000 xs \<and>
   mm_peakMemory (fold takeSample xs (NewMemoryMonitor a g)) = highest a (map ms_AllocBytes xs) \<and>
   mm_peakGoroutines (fold takeSample xs (NewMemoryMonitor a g)) = highest g (map ms_Goroutines xs) \<and>
   mm_initialGoroutines (fold takeSample xs (NewMemoryMonitor a g)) = g"
proof (induction xs rule: rev_induct)
  case Nil
  show ?case by (simp add: NewMemoryMonitor_def highest_def keep_last_def)
next
  case (snoc x xs)
  then show ?case by (simp add: takeSample_simps keep_last_snoc highest_snoc)
qed

section \<open>The largest rise\<close>

definition rises :: "MemorySample list \<Rightarrow> int list" where
  "rises xs = map2 (\<lambda>a b. ms_AllocBytes b - ms_AllocBytes a) xs (drop 1 xs)"

lemma largest_rise_highest: "0 \<le> best \<Longrightarrow> largest_rise best xs = highest best (rises xs)"
proof (induction best xs rule: largest_rise.induct)
  case (1 best a b xs)
  define d where "d = ms_AllocBytes b - ms_AllocBytes a"
  have m: "(if ms_AllocBytes a < ms_AllocBytes b \<and> best < ms_AllocBytes b - ms_AllocBytes a
      then ms_AllocBytes b - ms_AllocBytes a else best) = max best d"
    using 1(2) unfolding d_def by (auto simp: max_def)
  have "largest_rise best (a # b # xs) = largest_rise (max best d) (b # xs)" by (simp only: largest_rise.simps m)
  also have "\<dots> = highest (max best d) (rises (b # xs))" using 1 unfolding m by simp
  also have "\<dots> = highest best (rises (a # b # xs))" by (simp add: rises_def d_def highest_Cons)
  finally show ?case .
qed (simp_all add: highest_def rises_def)

lemma detectMemorySpikes_highest: "detectMemorySpikes xs = highest 0 (rises xs)"
  by (simp add: detectMemorySpikes_def largest_rise_highest) (cases "(0 :: int, xs)" rule: largest_rise.cases; simp add: highest_def rises_def)

section \<open>The choice of a scenario\<close>

lemma choose_None:
  "scenario_at r c scs = None \<Longrightarrow> scs \<noteq> [] \<Longrightarrow> \<not> f_le r (foldl (\<lambda>t sc. f_add t (fs_Probability sc)) c scs)"
proof (induction r c scs rule: scenario_at.induct)
  case (2 r c sc scs)
  then show ?case by (cases scs) (auto simp: Let_def split: if_splits)
qed simp

lemma choose_Some: "scenario_at r c scs = Some sc \<Longrightarrow> sc \<in> set scs"
  by (induction r c scs rule: scenario_at.induct) (auto simp: Let_def split: if_splits)

lemma total_idem: "total_probability scs = Fin t \<Longrightarrow> fl t = Fin t"
proof (cases scs rule: rev_cases)
  case (snoc ys y)
  assume "total_probability scs = Fin t"
  then have "f_add (total_probability ys) (fs_Probability y) = Fin t" by (simp add: total_probability_def snoc)
  then show ?thesis by (cases "total_probability ys"; cases "fs_Probability y") (auto intro: fl_idem)
qed (simp add: total_probability_def)

lemma choose_total:
  assumes "scs \<noteq> []" "total_probability scs = Fin t" "0 \<le> t" "u \<le> 1"
  shows "\<exists>sc. scenario_at (f_mul (Fin u) (total_probability scs)) (Fin 0) scs = Some sc"
proof (rule ccontr)
  assume "\<nexists>sc. scenario_at (f_mul (Fin u) (total_probability scs)) (Fin 0) scs = Some sc"
  then have "scenario_at (f_mul (Fin u) (total_probability scs)) (Fin 0) scs = None" by simp
  from choose_None [OF this assms(1)] have "\<not> f_le (fl (u * t)) (Fin t)" using assms(2) by (simp add: total_probability_def)
  moreover have "u * t \<le> t" using mult_right_mono [OF assms(4,3)] by simp
  ultimately show False using fl_mono [of "u * t" t] total_idem [OF assms(2)] by simp
qed

end
