(* ===== verification/SoakRun.thy ===== *)
theory SoakRun
  imports SoakMonitor Bus
begin

text \<open>
  A soak run from its configuration: \<^verbatim>\<open>NewOrchestrator\<close> of \<^verbatim>\<open>internal/soak/orchestrator.go\<close> and the loop of a worker, \<^verbatim>\<open>Worker.Run\<close>
  of \<^verbatim>\<open>worker.go\<close>. The goroutines of a run are the interleavings of \<open>soak_step\<close>.
\<close>

section \<open>The orchestrator\<close>

record 'b Orchestrator =
  or_config :: SoakConfig
  or_client :: MarketClient
  or_bus :: "(Bus \<times> CircuitBreaker \<times> 'b option) option"
  or_memMonitor :: MemoryMonitor
  or_failureServer :: FailureServer
  or_tickers :: "string list"
  or_endpoints :: "string list"
  or_limit :: f64
  or_burst :: int
  or_StartTime :: instant
  or_stats :: Stats

text \<open>The configuration of the bus: every field the code does not set has its zero value.\<close>

definition soak_bus_config :: "SoakConfig \<Rightarrow> Config" where
  "soak_bus_config sc =
     \<lparr>c_Enabled = True, c_Env = sc_Env sc, c_TopicPrefix = sc_TopicPrefix sc, c_MaxPayloadBytes = 0,
       c_Publisher = \<lparr>pc_Backend = [], pc_NATS = \<lparr>nc_URL = [], nc_SubjectStyle = [], nc_AckWaitMs = 0\<rparr>,
         pc_Kafka = \<lparr>kc_Brokers = [], kc_Acks = [], kc_Compression = []\<rparr>\<rparr>,
       c_Retry = \<lparr>rc_Attempts = 0, rc_BaseMs = 0, rc_MaxDelayMs = 0\<rparr>,
       c_CircuitBreaker = \<lparr>cc_Window = 0, cc_FailureThreshold = Fin 0, cc_ResetTimeoutMs = 0, cc_HalfOpenProbes = 0\<rparr>\<rparr>"

text \<open>\<open>logger\<close> is what making the logger returns; \<open>alloc\<close> and \<open>goroutines\<close> are what the runtime measures.\<close>

definition NewOrchestrator ::
  "(f64 \<Rightarrow> int) \<Rightarrow> unit go \<Rightarrow> (string \<Rightarrow> (string \<times> goerror option) go) \<Rightarrow> (NatsBindingConfig \<Rightarrow> 'b go) \<Rightarrow> int \<Rightarrow> int \<Rightarrow>
   instant \<Rightarrow> SoakConfig \<Rightarrow> ('b Orchestrator \<times> Client) go" where
  "NewOrchestrator ovf logger open_file connect alloc goroutines now sc =
     go_bind (go_wrap ''failed to create logger: %w'' [] logger) (\<lambda>_.
     go_bind (go_wrap ''failed to load ticker universe: %w'' [] (loadTickerUniverse open_file (sc_UniverseFile sc))) (\<lambda>tickers.
     let endpoints = parseEndpoints (sc_Endpoints sc); client = market_NewClient ovf now in
     go_bind (if sc_Publish sc
       then go_bind (go_wrap ''failed to create bus: %w'' [] (NewBus connect (Some (soak_bus_config sc)))) (\<lambda>b. Ret (Some b))
       else Ret None) (\<lambda>bus.
     Ret (\<lparr>or_config = sc, or_client = fst client, or_bus = bus, or_memMonitor = NewMemoryMonitor alloc goroutines,
       or_failureServer = NewFailureServer (sc_FailureRate sc), or_tickers = tickers, or_endpoints = endpoints,
       or_limit = sc_QPS sc, or_burst = wrap64 (f_to_int64 ovf (sc_QPS sc) + 1), or_StartTime = now,
       or_stats = fresh_stats endpoints\<rparr>, snd client))))"

section \<open>The loop of a worker\<close>

text \<open>
  \<open>wt_stopped\<close> and \<open>wt_cancelled\<close> say whether the stop channel is closed and whether the context is done; \<open>wt_wait\<close> is the wait for
  the rate limiter of \<^verbatim>\<open>golang.org/x/time/rate\<close>. The result is \<open>None\<close> when the fuel does not last to the end of the loop.
\<close>

record 's worker_control =
  wt_stopped :: "'s net \<Rightarrow> bool"
  wt_cancelled :: "'s net \<Rightarrow> bool"
  wt_wait :: "'s net \<Rightarrow> 's net \<times> goerror option"

fun worker_Run ::
  "(f64 \<Rightarrow> int) \<Rightarrow> ('u, 's, 'ts) soak_env \<Rightarrow> 's worker_control \<Rightarrow> string list \<Rightarrow> string list \<Rightarrow> string \<Rightarrow> nat \<Rightarrow>
   (MarketClient \<times> 's net) \<times> Stats \<Rightarrow> ((MarketClient \<times> 's net) \<times> Stats go) option" where
  "worker_Run ovf env wt tickers endpoints fallback 0 cs = None"
| "worker_Run ovf env wt tickers endpoints fallback (Suc fuel) ((c, st), s) =
     (if wt_stopped wt st \<or> wt_cancelled wt st then Some ((c, st), Ret s)
      else (case wt_wait wt st of
          (st1, Some e) \<Rightarrow>
            if wt_cancelled wt st1 then Some ((c, st1), Ret s)
            else worker_Run ovf env wt tickers endpoints fallback fuel ((c, st1), s)
        | (st1, None) \<Rightarrow>
            (case generateWorkRequest env tickers endpoints st1 of
               Panic p \<Rightarrow> Some ((c, st1), Panic p)
             | Err e \<Rightarrow> Some ((c, st1), Err e)
             | Ret request \<Rightarrow>
                 (case executeRequest ovf env fallback request ((c, st1), s) of
                    (cst2, Ret s2) \<Rightarrow> worker_Run ovf env wt tickers endpoints fallback fuel (cst2, s2)
                  | (cst2, r) \<Rightarrow> Some (cst2, r)))))"

section \<open>Publishing is never possible\<close>

lemma soak_bus_rejected: "\<exists>e. NewBus connect (Some (soak_bus_config sc)) = Err e"
proof -
  have "ValidateConfig (Some (soak_bus_config sc)) \<noteq> Ret ()"
    by (simp add: ValidateConfig_ok config_ok_def soak_bus_config_def)
  moreover have "ValidateConfig cfg \<noteq> Panic p" for cfg p
    by (auto simp: ValidateConfig_def validatePublisherConfig_def validateNATSConfig_def validateKafkaConfig_def validateRetryConfig_def
        validateCircuitBreakerConfig_def go_bind_eq_Panic split: option.splits)
  ultimately obtain e where "ValidateConfig (Some (soak_bus_config sc)) = Err e"
    by (cases "ValidateConfig (Some (soak_bus_config sc))") auto
  then show ?thesis by (simp add: NewBus_def)
qed

lemma loadTickerUniverse_nonempty: "loadTickerUniverse open_file f = Ret ts \<Longrightarrow> ts \<noteq> []"
  by (auto simp: loadTickerUniverse_def go_bind_eq_Ret Let_def split: if_splits option.splits)

lemma NewOrchestrator_Ret:
  assumes "NewOrchestrator ovf logger open_file connect alloc goroutines now sc = Ret (o', cl)"
  shows "\<not> sc_Publish sc" "or_bus o' = None" "or_stats o' = fresh_stats (or_endpoints o')" "or_endpoints o' \<noteq> []" "or_tickers o' \<noteq> []"
    "loadTickerUniverse open_file (sc_UniverseFile sc) = Ret (or_tickers o')"
proof -
  obtain e where e: "NewBus connect (Some (soak_bus_config sc)) = Err e" using soak_bus_rejected by blast
  obtain tickers where t: "loadTickerUniverse open_file (sc_UniverseFile sc) = Ret tickers"
    using assms by (auto simp: NewOrchestrator_def go_bind_eq_Ret)
  have p: "\<not> sc_Publish sc" using assms by (simp add: NewOrchestrator_def go_bind_eq_Ret e Let_def split: if_splits)
  have "o' = \<lparr>or_config = sc, or_client = fst (market_NewClient ovf now), or_bus = None, or_memMonitor = NewMemoryMonitor alloc goroutines,
       or_failureServer = NewFailureServer (sc_FailureRate sc), or_tickers = tickers, or_endpoints = parseEndpoints (sc_Endpoints sc),
       or_limit = sc_QPS sc, or_burst = wrap64 (f_to_int64 ovf (sc_QPS sc) + 1), or_StartTime = now,
       or_stats = fresh_stats (parseEndpoints (sc_Endpoints sc))\<rparr>"
    using assms p by (simp add: NewOrchestrator_def go_bind_eq_Ret t Let_def)
  then show "\<not> sc_Publish sc" "or_bus o' = None" "or_stats o' = fresh_stats (or_endpoints o')" "or_endpoints o' \<noteq> []"
    "or_tickers o' \<noteq> []" "loadTickerUniverse open_file (sc_UniverseFile sc) = Ret (or_tickers o')"
    using p t loadTickerUniverse_nonempty [OF t] by (simp_all add: parseEndpoints_def)
qed

lemma NewOrchestrator_is_ret:
  "is_ret (NewOrchestrator ovf logger open_file connect alloc goroutines now sc) \<longleftrightarrow>
     is_ret logger \<and> is_ret (loadTickerUniverse open_file (sc_UniverseFile sc)) \<and> \<not> sc_Publish sc" (is "is_ret ?o \<longleftrightarrow> _")
proof
  assume "is_ret ?o"
  then obtain o' cl where o: "?o = Ret (o', cl)" by (auto simp: is_ret_conv)
  have "is_ret logger" using o by (auto simp: NewOrchestrator_def go_bind_eq_Ret is_ret_conv)
  then show "is_ret logger \<and> is_ret (loadTickerUniverse open_file (sc_UniverseFile sc)) \<and> \<not> sc_Publish sc"
    using NewOrchestrator_Ret(1,6) [OF o] by simp
next
  assume "is_ret logger \<and> is_ret (loadTickerUniverse open_file (sc_UniverseFile sc)) \<and> \<not> sc_Publish sc"
  then show "is_ret ?o" by (auto simp: NewOrchestrator_def is_ret_conv Let_def)
qed

section \<open>The requests of a run find their counters\<close>

lemma at_endpoint_dom: "dom (so_EndpointStats (at_endpoint e f s)) = dom (so_EndpointStats s)"
  by (auto simp: at_endpoint_def split: if_splits)

lemma soak_step_endpoints: "soak_step n tx sp sp' \<Longrightarrow> dom (so_EndpointStats (fst sp')) = dom (so_EndpointStats (fst sp))"
  by (induction rule: soak_step.induct)
    (simp_all add: count_request_def count_latency_def count_endpoint_outcome_def at_endpoint_dom del: at_endpoint_simps)

lemma soak_steps_endpoints:
  "(soak_step n tx)\<^sup>*\<^sup>* sp sp' \<Longrightarrow> dom (so_EndpointStats (fst sp')) = dom (so_EndpointStats (fst sp))"
  by (induction rule: rtranclp_induct) (simp_all add: soak_step_endpoints)

lemma fresh_dom: "dom (so_EndpointStats (fresh_stats endpoints)) = set endpoints"
  by (auto simp: fresh_endpoint split: if_splits)

text \<open>The documented range of \<^verbatim>\<open>rand.Intn\<close>.\<close>

definition draws_ok :: "('u, 's, 'ts) soak_env \<Rightarrow> bool" where
  "draws_ok env \<longleftrightarrow> (\<forall>i n st. 0 < n \<longrightarrow> 0 \<le> sk_Intn env i n st \<and> sk_Intn env i n st < n)"

lemma pick_ok: "xs \<noteq> [] \<Longrightarrow> 0 \<le> rnd (int (length xs)) \<Longrightarrow> rnd (int (length xs)) < int (length xs) \<Longrightarrow> \<exists>x \<in> set xs. pick_random rnd xs = Ret x"
  by (simp add: pick_random_def go_idx_def nat_less_iff)

lemma generateWorkRequest_ok:
  assumes "draws_ok env" "tickers \<noteq> []" "endpoints \<noteq> []"
  shows "\<exists>req. generateWorkRequest env tickers endpoints st = Ret req \<and> wr_Ticker req \<in> set tickers \<and> wr_Endpoint req \<in> set endpoints"
proof -
  obtain t e where "t \<in> set tickers" "pick_random (\<lambda>n. sk_Intn env 0 n st) tickers = Ret t"
      "e \<in> set endpoints" "pick_random (\<lambda>n. sk_Intn env 1 n st) endpoints = Ret e"
    using pick_ok [OF assms(2), of "\<lambda>n. sk_Intn env 0 n st"] pick_ok [OF assms(3), of "\<lambda>n. sk_Intn env 1 n st"] assms
    unfolding draws_ok_def by (metis length_greater_0_conv of_nat_0_less_iff)
  then show ?thesis by (simp add: generateWorkRequest_def)
qed

text \<open>Whatever the workers did so far, the next request any of them makes is for a known ticker and an endpoint with counters.\<close>

lemma requests_counted:
  assumes "NewOrchestrator ovf logger open_file connect alloc goroutines now sc = Ret (o', cl)" "draws_ok env"
    and "(soak_step n tx)\<^sup>*\<^sup>* (or_stats o', \<lambda>_. Idle) (s, pc)"
  shows "\<exists>req es. generateWorkRequest env (or_tickers o') (or_endpoints o') st = Ret req \<and> wr_Ticker req \<in> set (or_tickers o') \<and>
    so_EndpointStats s (wr_Endpoint req) = Some es"
proof -
  note o = NewOrchestrator_Ret [OF assms(1)]
  obtain req where r: "generateWorkRequest env (or_tickers o') (or_endpoints o') st = Ret req" "wr_Ticker req \<in> set (or_tickers o')"
      "wr_Endpoint req \<in> set (or_endpoints o')"
    using generateWorkRequest_ok [OF assms(2) o(5,4)] by blast
  have "dom (so_EndpointStats s) = set (or_endpoints o')"
    using soak_steps_endpoints [OF assms(3)] by (simp add: o(3) fresh_dom)
  then show ?thesis using r by blast
qed

section \<open>The counters after the loop of a worker\<close>

lemma worker_Run_steps:
  "worker_Run ovf env wt tickers endpoints fallback fuel cs = Some (cst', Ret s') \<Longrightarrow> w < n \<Longrightarrow> pc w = Idle \<Longrightarrow>
   (soak_step n (sk_text env))\<^sup>*\<^sup>* (snd cs, pc) (s', pc)"
proof (induction ovf env wt tickers endpoints fallback fuel cs rule: worker_Run.induct)
  case (2 ovf env wt tickers endpoints fallback fuel c st s)
  show ?case using 2 executeRequest_steps [of ovf env fallback _ _ s _ _ w n pc]
    by (fastforce split: if_splits prod.splits option.splits go.splits intro: rtranclp_trans)
qed simp

text \<open>A run returns once the time that is left is used up by waiting, if a request does not give time back.\<close>

lemma worker_Run_returns:
  assumes "\<And>st. left st = 0 \<Longrightarrow> wt_stopped wt st" "\<And>st. 0 < left st \<Longrightarrow> left (fst (wt_wait wt st)) < left st"
    and "\<And>req c st s. left (snd (fst (executeRequest ovf env fallback req ((c, st), s)))) \<le> left st"
  shows "left (snd (fst cs)) < fuel \<Longrightarrow> \<exists>r. worker_Run ovf env wt tickers endpoints fallback fuel cs = Some r"
proof (induction fuel arbitrary: cs)
  case (Suc fuel)
  obtain c st s where cs: "cs = ((c, st), s)" by (metis prod.collapse)
  show ?case
  proof (cases "wt_stopped wt st")
    case False
    then have l: "left (fst (wt_wait wt st)) < fuel" using assms(1,2) [of st] Suc.prems cs by fastforce
    have "left (snd (fst (executeRequest ovf env fallback req ((c, fst (wt_wait wt st)), s)))) < fuel" for req
      using assms(3) [of req c "fst (wt_wait wt st)" s] l by simp
    then show ?thesis using Suc.IH l
      by (auto simp: cs split: prod.splits option.splits go.splits) (metis fst_conv snd_conv)+
  qed (simp add: cs)
qed simp

section \<open>Properties\<close>

text \<open>
  C37: A soak run can be set up exactly when the logger and the ticker file are fine and
  publishing is off: the bus configuration it builds leaves the payload limit, the backend and
  the retries at zero, so NewBus refuses it whatever the environment and the topic prefix.
\<close>

theorem NewOrchestrator_iff:
  "is_ret (NewOrchestrator ovf logger open_file connect alloc goroutines now sc) \<longleftrightarrow>
     is_ret logger \<and> is_ret (loadTickerUniverse open_file (sc_UniverseFile sc)) \<and> \<not> sc_Publish sc"
  by (rule NewOrchestrator_is_ret)

end
