(* ===== verification/SoakReport.thy ===== *)
theory SoakReport
  imports SoakRun Configuration
begin

text \<open>
  A whole soak run: \<^verbatim>\<open>Orchestrator.Run\<close> of \<^verbatim>\<open>internal/soak/orchestrator.go\<close> with its goroutines, the lines it prints at its end, and
  \<^verbatim>\<open>runSoak\<close> of \<^verbatim>\<open>cmd/yfin/main.go\<close>. A run is a step relation: every step is one of a worker, of the prober, of the collector of
  metrics, of the memory monitor or of the main goroutine. What the runtime measures and the clock are free in a step; reading
  all counters for a line of the log is one step. A line is its format and arguments; \<open>dur\<close> is \<^verbatim>\<open>Duration.String\<close>.
\<close>

section \<open>What is printed\<close>

text \<open>\<^verbatim>\<open>runtime.MemStats.Alloc\<close> and two calls of \<^verbatim>\<open>runtime.NumGoroutine\<close>.\<close>

record reading =
  rd_Alloc :: int
  rd_Goroutines1 :: int
  rd_Goroutines2 :: int

record memory_stats =
  rm_InitialMemory :: int
  rm_PeakMemory :: int
  rm_InitialGoroutines :: int
  rm_PeakGoroutines :: int

type_synonym report_line = "string \<times> fmt_arg list"

definition recordInitialState :: "reading \<Rightarrow> memory_stats" where
  "recordInitialState m =
     \<lparr>rm_InitialMemory = rd_Alloc m, rm_PeakMemory = rd_Alloc m, rm_InitialGoroutines = rd_Goroutines1 m, rm_PeakGoroutines = rd_Goroutines2 m\<rparr>"

definition success_rate :: "Stats \<Rightarrow> f64" where
  "success_rate s = f_mul (f_div (f_of_int (so_SuccessfulReqs s)) (f_of_int (so_TotalRequests s))) (Fin 100)"

definition actual_qps :: "duration \<Rightarrow> Stats \<Rightarrow> f64" where
  "actual_qps elapsed s = f_div (f_of_int (so_TotalRequests s)) (Seconds elapsed)"

text \<open>The line of a log and its fields.\<close>

definition logCurrentMetrics :: "(duration \<Rightarrow> string) \<Rightarrow> duration \<Rightarrow> int \<Rightarrow> Stats \<Rightarrow> report_line" where
  "logCurrentMetrics dur elapsed goroutines s =
     (''Soak test metrics'', [AStr (dur elapsed), AInt (so_TotalRequests s), AInt (so_SuccessfulReqs s), AInt (so_FailedRequests s),
       AFloat (if 0 < so_TotalRequests s then success_rate s else Fin 0), AFloat (actual_qps elapsed s), AInt goroutines])"

definition total_lines :: "(duration \<Rightarrow> string) \<Rightarrow> duration \<Rightarrow> Stats \<Rightarrow> report_line list" where
  "total_lines dur elapsed s =
     [(newline # ''=== SOAK TEST RESULTS ==='', []), (''Duration: %v'', [AStr (dur elapsed)]),
      (''Total Requests: %d'', [AInt (so_TotalRequests s)]), (''Successful Requests: %d'', [AInt (so_SuccessfulReqs s)]),
      (''Failed Requests: %d'', [AInt (so_FailedRequests s)])] @
     (if 0 < so_TotalRequests s
      then [(''Success Rate: %.2f%%'', [AFloat (success_rate s)]), (''Actual QPS: %.2f'', [AFloat (actual_qps elapsed s)])] else []) @
     [(''API Requests: %d'', [AInt (so_APIRequests s)]), (''Scrape Requests: %d'', [AInt (so_ScrapeRequests s)]),
      (''Fallback Decisions: %d'', [AInt (so_FallbackDecisions s)]), (''Rate Limit Hits: %d'', [AInt (so_RateLimitHits s)]),
      (''Robots Blocked: %d'', [AInt (so_RobotsBlocked s)])]"

definition probe_lines :: "int \<Rightarrow> int \<Rightarrow> report_line list" where
  "probe_lines passed failed =
     [(''Correctness Probes Passed: %d'', [AInt passed]), (''Correctness Probes Failed: %d'', [AInt failed])]"

text \<open>The growth is a difference of unsigned numbers read as a signed one.\<close>

definition memory_lines :: "memory_stats \<Rightarrow> reading \<Rightarrow> report_line list" where
  "memory_lines rm m =
     [(newline # ''=== MEMORY ANALYSIS ==='', []), (''Initial Memory: %d KB'', [AInt (rm_InitialMemory rm div 1024)]),
      (''Peak Memory: %d KB'', [AInt (rm_PeakMemory rm div 1024)]), (''Final Memory: %d KB'', [AInt (rd_Alloc m div 1024)]),
      (''Memory Growth: %d KB'', [AInt (wrap64 (rd_Alloc m - rm_InitialMemory rm) sdiv 1024)]),
      (''Initial Goroutines: %d'', [AInt (rm_InitialGoroutines rm)]), (''Peak Goroutines: %d'', [AInt (rm_PeakGoroutines rm)]),
      (''Final Goroutines: %d'', [AInt (rd_Goroutines1 m)]),
      (''Goroutine Growth: %d'', [AInt (rd_Goroutines2 m - rm_InitialGoroutines rm)])]"

definition avg_latency :: "EndpointStats \<Rightarrow> duration" where
  "avg_latency es = (if 0 < es_Requests es then es_TotalLatency es sdiv es_Requests es else 0)"

definition endpoint_line :: "(duration \<Rightarrow> string) \<Rightarrow> Stats \<Rightarrow> string \<Rightarrow> report_line list" where
  "endpoint_line dur s e =
     (case so_EndpointStats s e of None \<Rightarrow> []
      | Some es \<Rightarrow> [(''%s: %d requests, %d successes, %d failures, avg latency: %v'',
          [AStr e, AInt (es_Requests es), AInt (es_Successes es), AInt (es_Failures es), AStr (dur (avg_latency es))])])"

text \<open>\<open>order\<close> is the order of the range over the map of endpoints.\<close>

definition printResults ::
  "(duration \<Rightarrow> string) \<Rightarrow> duration \<Rightarrow> bool \<Rightarrow> memory_stats \<Rightarrow> reading \<Rightarrow> string list \<Rightarrow> Stats \<Rightarrow> int \<Rightarrow> int \<Rightarrow> report_line list" where
  "printResults dur elapsed memory_check rm m order s passed failed =
     total_lines dur elapsed s @ probe_lines passed failed @ (if memory_check then memory_lines rm m else []) @
     [(newline # ''=== ENDPOINT BREAKDOWN ==='', [])] @ concat (map (endpoint_line dur s) order)"

section \<open>The goroutines\<close>

text \<open>Where a worker is: at the head of its loop, before the limiter, in a request, or returned.\<close>

datatype station = AtTop | InWait | InRequest | Returned

datatype prober = Starting | Resting | Probing "string list" | Ended

record soak_run =
  rn_stats :: Stats
  rn_pc :: "nat \<Rightarrow> phase"
  rn_at :: "nat \<Rightarrow> station"
  rn_probe :: prober
  rn_passed :: int
  rn_failed :: int
  rn_logging :: bool
  rn_log :: "report_line list"
  rn_monitoring :: bool
  rn_monitor :: MemoryMonitor
  rn_memory :: memory_stats
  rn_server :: FailureServer
  rn_stopped :: bool
  rn_cancelled :: bool
  rn_crash :: "string option"
  rn_report :: "report_line list option"

definition live :: "soak_run \<Rightarrow> bool" where
  "live r \<longleftrightarrow> rn_crash r = None \<and> rn_report r = None"

definition stopping :: "soak_run \<Rightarrow> bool" where
  "stopping r \<longleftrightarrow> rn_stopped r \<or> rn_cancelled r"

definition at_station :: "nat \<Rightarrow> station \<Rightarrow> soak_run \<Rightarrow> soak_run" where
  "at_station w x r = r\<lparr>rn_at := (rn_at r)(w := x)\<rparr>"

definition workers :: "'b Orchestrator \<Rightarrow> nat" where
  "workers orch = nat (sc_Concurrency (or_config orch))"

text \<open>
  The run up to the wait of its main goroutine. Making the slice of workers panics for a negative number. The failure server is
  started before anything else and its start never fails.
\<close>

definition start_run :: "reading \<Rightarrow> 'b Orchestrator \<Rightarrow> soak_run" where
  "start_run m orch =
     (let sc = or_config orch in
      \<lparr>rn_stats = or_stats orch, rn_pc = \<lambda>_. Idle, rn_at = \<lambda>w. if w < workers orch then AtTop else Returned, rn_probe = Starting,
       rn_passed = 0, rn_failed = 0, rn_logging = True, rn_log = [], rn_monitoring = sc_MemoryCheck sc, rn_monitor = or_memMonitor orch,
       rn_memory = (if sc_MemoryCheck sc then recordInitialState m
         else \<lparr>rm_InitialMemory = 0, rm_PeakMemory = 0, rm_InitialGoroutines = 0, rm_PeakGoroutines = 0\<rparr>),
       rn_server = failure_Start (or_failureServer orch), rn_stopped = False, rn_cancelled = False,
       rn_crash = (if sc_Concurrency sc < 0 then Some ''makeslice: len out of range'' else None), rn_report = None\<rparr>)"

text \<open>A permutation of the tickers, cut to the size of a sample.\<close>

definition samples :: "string list \<Rightarrow> nat list \<Rightarrow> string list" where
  "samples tickers indices = map (\<lambda>i. tickers ! (indices ! i)) [0..<nat (minInt 10 (int (length tickers)))]"

inductive run_step ::
  "(f64 \<Rightarrow> int) \<Rightarrow> ('u, 's, 'ts) soak_env \<Rightarrow> (duration \<Rightarrow> string) \<Rightarrow> 'b Orchestrator \<Rightarrow> soak_run \<Rightarrow> soak_run \<Rightarrow> bool"
  for ovf env dur orch where
  w_check: "live r \<Longrightarrow> w < workers orch \<Longrightarrow> rn_at r w = AtTop \<Longrightarrow> \<not> stopping r \<Longrightarrow>
     run_step ovf env dur orch r (at_station w InWait r)"
| w_leave: "live r \<Longrightarrow> w < workers orch \<Longrightarrow> rn_at r w = AtTop \<Longrightarrow> stopping r \<Longrightarrow>
     run_step ovf env dur orch r (at_station w Returned r)"
| w_refused: "live r \<Longrightarrow> w < workers orch \<Longrightarrow> rn_at r w = InWait \<Longrightarrow>
     run_step ovf env dur orch r (at_station w (if rn_cancelled r then Returned else AtTop) r)"
| w_begin: "live r \<Longrightarrow> w < workers orch \<Longrightarrow> rn_at r w = InWait \<Longrightarrow>
     generateWorkRequest env (or_tickers orch) (or_endpoints orch) st = Ret req \<Longrightarrow>
     soak_step (workers orch) (sk_text env) (rn_stats r, rn_pc r) (s', (rn_pc r)(w := Counted req)) \<Longrightarrow>
     run_step ovf env dur orch r (at_station w InRequest (r\<lparr>rn_stats := s', rn_pc := (rn_pc r)(w := Counted req)\<rparr>))"
| w_panic: "live r \<Longrightarrow> w < workers orch \<Longrightarrow> rn_at r w = InWait \<Longrightarrow>
     generateWorkRequest env (or_tickers orch) (or_endpoints orch) st = Panic p \<Longrightarrow>
     run_step ovf env dur orch r (r\<lparr>rn_crash := Some p\<rparr>)"
| w_work: "live r \<Longrightarrow> w < workers orch \<Longrightarrow> rn_at r w = InRequest \<Longrightarrow>
     soak_step (workers orch) (sk_text env) (rn_stats r, rn_pc r) (s', (rn_pc r)(w := p)) \<Longrightarrow>
     run_step ovf env dur orch r (at_station w (if p = Idle then AtTop else InRequest) (r\<lparr>rn_stats := s', rn_pc := (rn_pc r)(w := p)\<rparr>))"
| p_start: "live r \<Longrightarrow> rn_probe r = Starting \<Longrightarrow>
     run_step ovf env dur orch r (if sc_ProbeInterval (or_config orch) \<le> 0
       then r\<lparr>rn_crash := Some ''non-positive interval for NewTicker''\<rparr> else r\<lparr>rn_probe := Resting\<rparr>)"
| p_tick: "live r \<Longrightarrow> rn_probe r = Resting \<Longrightarrow> mset indices = mset [0..<length (or_tickers orch)] \<Longrightarrow>
     run_step ovf env dur orch r (r\<lparr>rn_probe := Probing (samples (or_tickers orch) indices)\<rparr>)"
| p_probe: "live r \<Longrightarrow> rn_probe r = Probing (ticker # sample) \<Longrightarrow> ValidateTicker ovf env ticker cst = (cst', v) \<Longrightarrow>
     run_step ovf env dur orch r (case v of
         Ret _ \<Rightarrow> r\<lparr>rn_probe := Probing sample, rn_passed := rn_passed r + 1\<rparr>
       | Err _ \<Rightarrow> r\<lparr>rn_probe := Probing sample, rn_failed := rn_failed r + 1\<rparr>
       | Panic p \<Rightarrow> r\<lparr>rn_crash := Some p\<rparr>)"
| p_rest: "live r \<Longrightarrow> rn_probe r = Probing [] \<Longrightarrow> run_step ovf env dur orch r (r\<lparr>rn_probe := Resting\<rparr>)"
| p_leave: "live r \<Longrightarrow> rn_probe r = Resting \<Longrightarrow> stopping r \<Longrightarrow> run_step ovf env dur orch r (r\<lparr>rn_probe := Ended\<rparr>)"
| c_tick: "live r \<Longrightarrow> rn_logging r \<Longrightarrow>
     run_step ovf env dur orch r (r\<lparr>rn_log := rn_log r @ [logCurrentMetrics dur elapsed goroutines (rn_stats r)]\<rparr>)"
| c_leave: "live r \<Longrightarrow> rn_logging r \<Longrightarrow> stopping r \<Longrightarrow> run_step ovf env dur orch r (r\<lparr>rn_logging := False\<rparr>)"
| m_tick: "live r \<Longrightarrow> rn_monitoring r \<Longrightarrow> run_step ovf env dur orch r (r\<lparr>rn_monitor := takeSample smp (rn_monitor r)\<rparr>)"
| m_leave: "live r \<Longrightarrow> rn_monitoring r \<Longrightarrow> stopping r \<Longrightarrow>
     run_step ovf env dur orch r (r\<lparr>rn_monitor := takeSample smp (rn_monitor r), rn_monitoring := False\<rparr>)"
| cancel: "live r \<Longrightarrow> run_step ovf env dur orch r (r\<lparr>rn_cancelled := True\<rparr>)"
| stop: "live r \<Longrightarrow> run_step ovf env dur orch r (r\<lparr>rn_stopped := True\<rparr>)"
| finish: "live r \<Longrightarrow> rn_stopped r \<Longrightarrow> \<forall>w < workers orch. rn_at r w = Returned \<Longrightarrow> rn_probe r = Ended \<Longrightarrow> \<not> rn_logging r \<Longrightarrow>
     \<not> rn_monitoring r \<Longrightarrow> distinct order \<Longrightarrow> set order = dom (so_EndpointStats (rn_stats r)) \<Longrightarrow>
     run_step ovf env dur orch r
       (r\<lparr>rn_report := Some (printResults dur elapsed (sc_MemoryCheck (or_config orch)) (rn_memory r) m order (rn_stats r) (rn_passed r) (rn_failed r)),
          rn_server := failure_Stop (rn_server r)\<rparr>)"

text \<open>
  The command: the configuration is loaded first, and only its errors matter. The context of the command is never done.
\<close>

definition runSoak ::
  "(string \<Rightarrow> string) \<Rightarrow> (string \<Rightarrow> cfg_map go) \<Rightarrow> (cfg_map \<Rightarrow> AmpyConfig go) \<Rightarrow> string \<Rightarrow> (f64 \<Rightarrow> int) \<Rightarrow> unit go \<Rightarrow>
   (string \<Rightarrow> (string \<times> goerror option) go) \<Rightarrow> (NatsBindingConfig \<Rightarrow> 'b go) \<Rightarrow> int \<Rightarrow> int \<Rightarrow> reading \<Rightarrow> instant \<Rightarrow> SoakConfig \<Rightarrow>
   ('b Orchestrator \<times> soak_run) go option" where
  "runSoak getenv read_config to_config path ovf logger open_file connect alloc goroutines m now sc =
     map_option (\<lambda>(_, loaded).
       go_bind (go_wrap ''failed to load config: %w'' [] loaded) (\<lambda>_.
       go_bind (go_wrap ''failed to create soak orchestrator: %w'' []
         (NewOrchestrator ovf logger open_file connect alloc goroutines now sc)) (\<lambda>(orch, _). Ret (orch, start_run m orch))))
     (Load getenv read_config to_config (NewLoader path))"

section \<open>Where the requests of a run are\<close>

fun request_of :: "phase \<Rightarrow> WorkRequest option" where
  "request_of Idle = None"
| "request_of (Counted r) = Some r"
| "request_of (Running r) = Some r"
| "request_of (Ran r _) = Some r"
| "request_of (Timed r _) = Some r"
| "request_of (Tallied r _) = Some r"
| "request_of (Noted r _) = Some r"

text \<open>What a worker owes the counters of its endpoint: a request, a success, a failure.\<close>

fun owed_request :: "phase \<Rightarrow> int" where
  "owed_request (Counted _) = 1"
| "owed_request _ = 0"

fun owed_success :: "phase \<Rightarrow> int" where
  "owed_success (Tallied _ err) = of_bool (err = None)"
| "owed_success _ = 0"

fun owed_failure :: "phase \<Rightarrow> int" where
  "owed_failure (Tallied _ err) = of_bool (err \<noteq> None)"
| "owed_failure _ = 0"

definition tally :: "(EndpointStats \<Rightarrow> int) \<Rightarrow> string set \<Rightarrow> Stats \<Rightarrow> int" where
  "tally g E s = (\<Sum>e\<in>E. case so_EndpointStats s e of None \<Rightarrow> 0 | Some es \<Rightarrow> g es)"

definition spread :: "nat \<Rightarrow> string set \<Rightarrow> Stats \<times> (nat \<Rightarrow> phase) \<Rightarrow> bool" where
  "spread n E = (\<lambda>(s, pc).
     dom (so_EndpointStats s) = E \<and> (\<forall>w req. request_of (pc w) = Some req \<longrightarrow> wr_Endpoint req \<in> E) \<and>
     so_TotalRequests s = tally es_Requests E s + (\<Sum>w<n. owed_request (pc w)) \<and>
     so_SuccessfulReqs s = tally es_Successes E s + (\<Sum>w<n. owed_success (pc w)) \<and>
     so_FailedRequests s = tally es_Failures E s + (\<Sum>w<n. owed_failure (pc w)))"

lemma tally_at:
  assumes "finite E" "e \<in> E" "so_EndpointStats s e = Some es"
  shows "tally g E (at_endpoint e f s) = tally g E s + g (f es) - g es"
proof -
  have "tally g E s' = (case so_EndpointStats s' e of None \<Rightarrow> 0 | Some es \<Rightarrow> g es) +
      (\<Sum>v\<in>E - {e}. case so_EndpointStats s' v of None \<Rightarrow> 0 | Some es \<Rightarrow> g es)" for s'
    unfolding tally_def by (rule sum.remove [OF assms(1,2)])
  moreover have "(\<Sum>v\<in>E - {e}. case so_EndpointStats (at_endpoint e f s) v of None \<Rightarrow> 0 | Some es \<Rightarrow> g es) =
      (\<Sum>v\<in>E - {e}. case so_EndpointStats s v of None \<Rightarrow> 0 | Some es \<Rightarrow> g es)"
    by (rule sum.cong) (simp_all add: at_endpoint_def)
  ultimately show ?thesis using assms(3) by (simp add: at_endpoint_def)
qed

text \<open>One worker moves.\<close>

lemma spread_move:
  assumes "spread n E (s, pc)" "w < n" "\<And>r. request_of p = Some r \<Longrightarrow> wr_Endpoint r \<in> E" "dom (so_EndpointStats s') = E"
    "so_TotalRequests s' - tally es_Requests E s' - owed_request p = so_TotalRequests s - tally es_Requests E s - owed_request (pc w)"
    "so_SuccessfulReqs s' - tally es_Successes E s' - owed_success p = so_SuccessfulReqs s - tally es_Successes E s - owed_success (pc w)"
    "so_FailedRequests s' - tally es_Failures E s' - owed_failure p = so_FailedRequests s - tally es_Failures E s - owed_failure (pc w)"
  shows "spread n E (s', pc(w := p))"
proof -
  have "\<forall>v req. request_of ((pc(w := p)) v) = Some req \<longrightarrow> wr_Endpoint req \<in> E" using assms(1,3) by (auto simp: spread_def)
  then show ?thesis using assms by (simp add: spread_def sum_worker del: fun_upd_apply)
qed

lemma spread_known:
  assumes "spread n E (s, pc)" "request_of (pc w) = Some req"
  obtains es where "so_EndpointStats s (wr_Endpoint req) = Some es" "wr_Endpoint req \<in> E" "dom (so_EndpointStats s) = E"
  using assms by (force simp: spread_def)

lemma spread_dom: "spread n E (s, pc) \<Longrightarrow> dom (so_EndpointStats s) = E"
  by (simp add: spread_def)

lemma soak_step_spread:
  assumes "soak_step n tx sp sp'" "finite E" "spread n E sp"
  shows "spread n E sp'"
  using assms(1,3)
proof (induction rule: soak_step.induct)
  case (step_total w pc s req)
  then show ?case using spread_dom [OF step_total(4)]
    by (intro spread_move [OF step_total(4)]) (auto simp: tally_def count_total_def)
next
  case (step_request w pc req s)
  obtain es where "so_EndpointStats s (wr_Endpoint req) = Some es" "wr_Endpoint req \<in> E" "dom (so_EndpointStats s) = E"
    using spread_known [OF step_request(3), of w req] step_request(2) by auto
  then show ?case using step_request(1,2) assms(2)
    by (intro spread_move [OF step_request(3)]) (auto simp: count_request_def tally_at at_endpoint_dom simp del: at_endpoint_simps(1))
next
  case (step_source w pc req s d)
  then show ?case using spread_dom [OF step_source(3)] spread_known [OF step_source(3), of w req]
    by (intro spread_move [OF step_source(3)]) (auto simp: tally_def count_origin_def)
next
  case (step_latency w pc req err s t)
  obtain es where "so_EndpointStats s (wr_Endpoint req) = Some es" "wr_Endpoint req \<in> E" "dom (so_EndpointStats s) = E"
    using spread_known [OF step_latency(3), of w req] step_latency(2) by auto
  then show ?case using step_latency(1,2) assms(2)
    by (intro spread_move [OF step_latency(3)]) (auto simp: count_latency_def tally_at at_endpoint_dom simp del: at_endpoint_simps(1))
next
  case (step_outcome w pc req err s)
  then show ?case using spread_dom [OF step_outcome(3)] spread_known [OF step_outcome(3), of w req]
    by (intro spread_move [OF step_outcome(3)]) (auto simp: tally_def count_outcome_def)
next
  case (step_endpoint w pc req err s)
  obtain es where "so_EndpointStats s (wr_Endpoint req) = Some es" "wr_Endpoint req \<in> E" "dom (so_EndpointStats s) = E"
    using spread_known [OF step_endpoint(3), of w req] step_endpoint(2) by auto
  then show ?case using step_endpoint(1,2) assms(2)
    by (intro spread_move [OF step_endpoint(3)])
      (auto simp: count_endpoint_outcome_def tally_at at_endpoint_dom simp del: at_endpoint_simps(1))
next
  case (step_kind w pc req err s)
  then show ?case using spread_dom [OF step_kind(3)]
    by (intro spread_move [OF step_kind(3)]) (auto simp: tally_def count_kind_def Let_def)
qed

lemma tally_fresh: "g \<lparr>es_Requests = 0, es_Successes = 0, es_Failures = 0, es_TotalLatency = 0\<rparr> = 0 \<Longrightarrow> tally g E (fresh_stats endpoints) = 0"
  by (simp add: tally_def fresh_endpoint sum.neutral)

lemma fresh_spread: "spread n (set endpoints) (fresh_stats endpoints, \<lambda>_. Idle)"
  by (simp add: spread_def fresh_dom tally_fresh) (simp add: fresh_stats_def)

lemma soak_steps_spread: "(soak_step n tx)\<^sup>*\<^sup>* sp sp' \<Longrightarrow> finite E \<Longrightarrow> spread n E sp \<Longrightarrow> spread n E sp'"
  by (induction rule: rtranclp_induct) (auto intro: soak_step_spread)

section \<open>A run refines the interleaving of its workers\<close>

lemma run_step_soak:
  "run_step ovf env dur orch r r' \<Longrightarrow>
   (soak_step (workers orch) (sk_text env))\<^sup>*\<^sup>* (rn_stats r, rn_pc r) (rn_stats r', rn_pc r')"
  by (induction rule: run_step.induct) (auto simp: at_station_def simp del: fun_upd_apply split: go.splits)

lemma run_steps_soak:
  "(run_step ovf env dur orch)\<^sup>*\<^sup>* r r' \<Longrightarrow>
   (soak_step (workers orch) (sk_text env))\<^sup>*\<^sup>* (rn_stats r, rn_pc r) (rn_stats r', rn_pc r')"
  by (induction rule: rtranclp_induct) (auto dest: run_step_soak)

text \<open>
  A worker outside of a request owes nothing, a number that is not a worker's never moves, and what is printed is printed of the
  final counters.
\<close>

definition settled :: "(duration \<Rightarrow> string) \<Rightarrow> 'b Orchestrator \<Rightarrow> memory_stats \<Rightarrow> soak_run \<Rightarrow> bool" where
  "settled dur orch rm r \<longleftrightarrow>
     (\<forall>w. rn_at r w \<noteq> InRequest \<longrightarrow> rn_pc r w = Idle) \<and> (\<forall>w. workers orch \<le> w \<longrightarrow> rn_at r w = Returned) \<and> rn_memory r = rm \<and>
     (\<forall>ls. rn_report r = Some ls \<longrightarrow> (\<forall>w. rn_pc r w = Idle) \<and>
        (\<exists>elapsed m order. distinct order \<and> set order = dom (so_EndpointStats (rn_stats r)) \<and>
           ls = printResults dur elapsed (sc_MemoryCheck (or_config orch)) rm m order (rn_stats r) (rn_passed r) (rn_failed r)))"

lemma run_step_settled: "run_step ovf env dur orch r r' \<Longrightarrow> settled dur orch rm r \<Longrightarrow> settled dur orch rm r'"
proof (induction rule: run_step.induct)
  case (finish r order elapsed m)
  have "rn_pc r w = Idle" for w
    using finish(3,9) by (cases "w < workers orch") (auto simp: settled_def)
  then show ?case using finish by (auto simp: settled_def live_def)
qed (auto simp: settled_def live_def at_station_def split: go.splits)

lemma run_steps_settled: "(run_step ovf env dur orch)\<^sup>*\<^sup>* r r' \<Longrightarrow> settled dur orch rm r \<Longrightarrow> settled dur orch rm r'"
  by (induction rule: rtranclp_induct) (auto intro: run_step_settled)

lemma start_settled: "settled dur orch (rn_memory (start_run m orch)) (start_run m orch)"
  by (simp add: settled_def start_run_def Let_def)

lemma NewOrchestrator_config:
  "NewOrchestrator ovf logger open_file connect alloc goroutines now sc = Ret (orch, cl) \<Longrightarrow> or_config orch = sc"
  by (auto simp: NewOrchestrator_def go_bind_eq_Ret Let_def)

text \<open>The peaks that are printed are the initial values.\<close>

lemma peak_is_initial: "rm_PeakMemory (rn_memory (start_run m orch)) = rm_InitialMemory (rn_memory (start_run m orch))"
  by (simp add: start_run_def recordInitialState_def Let_def)

text \<open>Without a positive interval of the probes a run never reports: it can only crash.\<close>

lemma run_step_no_interval:
  "run_step ovf env dur orch r r' \<Longrightarrow> sc_ProbeInterval (or_config orch) \<le> 0 \<Longrightarrow> rn_probe r = Starting \<and> rn_report r = None \<Longrightarrow>
   rn_probe r' = Starting \<and> rn_report r' = None"
  by (induction rule: run_step.induct) (auto simp: at_station_def)

lemma no_interval_no_report:
  assumes "(run_step ovf env dur orch)\<^sup>*\<^sup>* (start_run m orch) r" "sc_ProbeInterval (or_config orch) \<le> 0"
  shows "rn_report r = None"
proof -
  have "rn_probe r = Starting \<and> rn_report r = None" using assms(1)
    by (induction rule: rtranclp_induct) (use run_step_no_interval assms(2) in \<open>force simp: start_run_def Let_def\<close>)+
  then show ?thesis by simp
qed

text \<open>The rate that is printed is a percentage.\<close>

lemma success_rate_percent:
  assumes "0 \<le> so_SuccessfulReqs s" "so_SuccessfulReqs s \<le> so_TotalRequests s" "0 < so_TotalRequests s" "so_TotalRequests s < 2 ^ 53"
  obtains q where "success_rate s = Fin q" "0 \<le> q" "q \<le> 100"
proof -
  let ?a = "of_int (so_SuccessfulReqs s) :: rat" and ?b = "of_int (so_TotalRequests s) :: rat"
  have c: "fl 1 = Fin 1" "fl 100 = Fin 100" using fl_of_int [of 1] fl_of_int [of 100] by simp_all
  have "f_of_int (so_SuccessfulReqs s) = Fin ?a" "f_of_int (so_TotalRequests s) = Fin ?b"
    using assms f_of_int_small [of "so_SuccessfulReqs s"] f_of_int_small [of "so_TotalRequests s"] by simp_all
  moreover obtain y where y: "fl (?a / ?b) = Fin y" "0 \<le> y" "y \<le> 1"
    using fl_between [of 0 1 "?a / ?b"] assms c by auto
  moreover obtain q where "fl (y * 100) = Fin q" "0 \<le> q" "q \<le> 100"
    using fl_between [of 0 100 "y * 100"] y c by auto
  ultimately show ?thesis using assms(3) that by (simp add: success_rate_def)
qed

section \<open>A run that reports\<close>

text \<open>A run with one worker that is at the head of its loop can be stopped, and its goroutines return.\<close>

lemma run_ends:
  assumes "live r" "workers orch = 1" "rn_at r 0 = AtTop" "rn_probe r = Starting" "0 < sc_ProbeInterval (or_config orch)"
    and "rn_logging r" "\<not> rn_monitoring r" "finite (dom (so_EndpointStats (rn_stats r)))"
  shows "\<exists>r' lines. (run_step ovf env dur orch)\<^sup>*\<^sup>* r r' \<and> rn_report r' = Some lines \<and> rn_stats r' = rn_stats r"
proof -
  let ?R = "run_step ovf env dur orch"
  define a where "a = r\<lparr>rn_stopped := True\<rparr>"
  define b where "b = at_station 0 Returned a"
  define c where "c = b\<lparr>rn_probe := Resting\<rparr>"
  define d where "d = c\<lparr>rn_probe := Ended\<rparr>"
  define e where "e = d\<lparr>rn_logging := False\<rparr>"
  note defs = e_def d_def c_def b_def a_def
  have l: "live a" "live b" "live c" "live d" "live e" and st: "stopping a" "stopping b" "stopping c" "stopping d" "stopping e"
    using assms(1) by (simp_all add: defs live_def stopping_def at_station_def)
  have "?R r a" unfolding a_def by (rule stop [OF assms(1)])
  moreover have "?R a b" unfolding b_def by (rule w_leave [OF l(1) _ _ st(1)]) (simp_all add: a_def assms)
  moreover have "?R b c" using p_start [OF l(2), of ovf env dur orch] assms(4,5) by (simp add: defs at_station_def)
  moreover have "?R c d" unfolding d_def by (rule p_leave [OF l(3) _ st(3)]) (simp add: c_def)
  moreover have "?R d e" unfolding e_def by (rule c_leave [OF l(4) _ st(4)]) (simp add: defs at_station_def assms)
  moreover obtain order where order: "set order = dom (so_EndpointStats (rn_stats e))" "distinct order"
    using finite_distinct_list [OF assms(8)] by (auto simp: defs at_station_def)
  moreover define lines where "lines = printResults dur 0 (sc_MemoryCheck (or_config orch)) (rn_memory e)
      \<lparr>rd_Alloc = 0, rd_Goroutines1 = 1, rd_Goroutines2 = 1\<rparr> order (rn_stats e) (rn_passed e) (rn_failed e)"
  moreover define z where "z = e\<lparr>rn_report := Some lines, rn_server := failure_Stop (rn_server e)\<rparr>"
  moreover have "?R e z" unfolding z_def lines_def
    by (rule finish [OF l(5)]) (use assms order in \<open>simp_all add: defs at_station_def\<close>)
  ultimately have "?R\<^sup>*\<^sup>* r z" by (meson converse_rtranclp_into_rtranclp rtranclp.rtrancl_refl)
  moreover have "rn_report z = Some lines" "rn_stats z = rn_stats r" by (simp_all add: z_def defs at_station_def)
  ultimately show ?thesis by blast
qed

text \<open>One worker makes one request, then the run is stopped and its goroutines return.\<close>

lemma single_request:
  assumes "or_stats orch = fresh_stats (or_endpoints orch)" "wr_Endpoint req \<in> set (or_endpoints orch)"
    and "generateWorkRequest env (or_tickers orch) (or_endpoints orch) st = Ret req"
    and "or_config orch = sc" "sc_Concurrency sc = 1" "\<not> sc_MemoryCheck sc" "0 < sc_ProbeInterval sc"
  shows "\<exists>r lines. (run_step ovf env dur orch)\<^sup>*\<^sup>* (start_run m orch) r \<and> rn_report r = Some lines \<and> so_TotalRequests (rn_stats r) = 1"
proof -
  let ?tx = "sk_text env" and ?R = "run_step ovf env dur orch" and ?r0 = "start_run m orch" and ?s0 = "or_stats orch"
  let ?d = "\<lparr>dn_err = None, dn_fallback = False, dn_api = 1, dn_scrape = 0\<rparr>"
  let ?s1 = "count_total ?s0"
  let ?s2 = "count_request req ?s1"
  let ?s3 = "count_origin ?d ?s2"
  let ?s4 = "count_latency req 0 ?s3"
  let ?s5 = "count_outcome None ?s4"
  let ?s6 = "count_endpoint_outcome req None ?s5"
  let ?s7 = "count_kind ?tx None ?s6"
  have n: "workers orch = 1" using assms(4,5) by (simp add: workers_def)
  define at_r where "at_r s p x = ?r0\<lparr>rn_stats := s, rn_pc := (\<lambda>_. Idle)(0 := p), rn_at := (rn_at ?r0)(0 := x)\<rparr>" for s p x
  have live_at: "live (at_r s p x)" for s p x using assms(4,5) by (simp add: at_r_def live_def start_run_def Let_def)
  have known: "so_EndpointStats ?s0 (wr_Endpoint req) \<noteq> None" using assms(1,2) by (simp add: fresh_endpoint)
  have start: "at_r ?s0 Idle AtTop = ?r0" using n by (auto simp: at_r_def start_run_def Let_def)
  have work: "?R (at_r s p InRequest) (at_r s' q (if q = Idle then AtTop else InRequest))"
    if "soak_step 1 ?tx (s, (\<lambda>_. Idle)(0 := p)) (s', (\<lambda>_. Idle)(0 := p, 0 := q))" for s s' p q
    using w_work [of "at_r s p InRequest" 0 orch env s' q ovf dur] that live_at n
    by (cases "q = Idle") (simp_all add: at_r_def at_station_def del: fun_upd_apply, simp_all)
  have "?R (at_r ?s0 Idle AtTop) (at_r ?s0 Idle InWait)"
    using w_check [of "at_r ?s0 Idle AtTop" 0 orch ovf env dur] live_at n
    by (simp add: at_r_def at_station_def stopping_def start_run_def Let_def)
  moreover have "?R (at_r ?s0 Idle InWait) (at_r ?s1 (Counted req) InRequest)"
    using w_begin [of "at_r ?s0 Idle InWait" 0 orch env st req ?s1 ovf dur] live_at n assms(3)
      step_total [of 0 1 "(\<lambda>_. Idle)(0 := Idle)" ?s0 req ?tx] known
    by (simp add: at_r_def at_station_def)
  moreover have "?R (at_r ?s1 (Counted req) InRequest) (at_r ?s2 (Running req) InRequest)"
    using work step_request [of 0 1 "(\<lambda>_. Idle)(0 := Counted req)" req ?tx] by fastforce
  moreover have "?R (at_r ?s2 (Running req) InRequest) (at_r ?s3 (Ran req None) InRequest)"
    using work step_source [of 0 1 "(\<lambda>_. Idle)(0 := Running req)" req ?tx _ ?d] by fastforce
  moreover have "?R (at_r ?s3 (Ran req None) InRequest) (at_r ?s4 (Timed req None) InRequest)"
    using work step_latency [of 0 1 "(\<lambda>_. Idle)(0 := Ran req None)" req None ?tx] by fastforce
  moreover have "?R (at_r ?s4 (Timed req None) InRequest) (at_r ?s5 (Tallied req None) InRequest)"
    using work step_outcome [of 0 1 "(\<lambda>_. Idle)(0 := Timed req None)" req None ?tx] by fastforce
  moreover have "?R (at_r ?s5 (Tallied req None) InRequest) (at_r ?s6 (Noted req None) InRequest)"
    using work step_endpoint [of 0 1 "(\<lambda>_. Idle)(0 := Tallied req None)" req None ?tx] by fastforce
  moreover have "?R (at_r ?s6 (Noted req None) InRequest) (at_r ?s7 Idle AtTop)"
    using work step_kind [of 0 1 "(\<lambda>_. Idle)(0 := Noted req None)" req None ?tx] by fastforce
  ultimately have served: "?R\<^sup>*\<^sup>* ?r0 (at_r ?s7 Idle AtTop)"
    unfolding start [symmetric] by (meson converse_rtranclp_into_rtranclp rtranclp.rtrancl_refl)
  have total: "so_TotalRequests ?s7 = 1"
    using assms(1) by (simp add: count_kind_def Let_def count_endpoint_outcome_def count_outcome_def count_latency_def count_origin_def
      count_request_def count_total_def fresh_stats_def)
  have "finite (dom (so_EndpointStats ?s7))"
    using assms(1) by (simp add: count_endpoint_outcome_def count_latency_def count_request_def at_endpoint_dom fresh_dom
      del: at_endpoint_simps(1))
  then obtain r' lines where e: "?R\<^sup>*\<^sup>* (at_r ?s7 Idle AtTop) r'" "rn_report r' = Some lines" "rn_stats r' = ?s7"
    using run_ends [of "at_r ?s7 Idle AtTop" orch ovf env dur] live_at [of ?s7 Idle AtTop] n assms(4-7)
    by (auto simp: at_r_def start_run_def Let_def)
  have "?R\<^sup>*\<^sup>* ?r0 r'" by (rule rtranclp_trans [OF served e(1)])
  moreover have "so_TotalRequests (rn_stats r') = 1" using total by (simp only: e(3))
  ultimately show ?thesis using e(2) by blast
qed

section \<open>Properties\<close>

text \<open>
  C31: However the goroutines of a soak run interleave, the total is the number of successes
  plus failures plus the requests under way, and a report is only printed once no request is
  under way: it is printed of the final counters, its totals balance, and the endpoints of its
  breakdown add up to its totals.
\<close>

theorem report_balances:
  assumes "NewOrchestrator ovf logger open_file connect alloc goroutines now sc = Ret (orch, cl)"
    and "(run_step ovf' env dur orch)\<^sup>*\<^sup>* (start_run m orch) r"
  shows "so_TotalRequests (rn_stats r) = so_SuccessfulReqs (rn_stats r) + so_FailedRequests (rn_stats r) + (\<Sum>w<workers orch. pending (rn_pc r w)) \<and>
    (\<forall>lines. rn_report r = Some lines \<longrightarrow>
      (\<exists>elapsed m' order. distinct order \<and> set order = set (or_endpoints orch) \<and>
        lines = printResults dur elapsed (sc_MemoryCheck sc) (rn_memory (start_run m orch)) m' order (rn_stats r) (rn_passed r) (rn_failed r)) \<and>
      so_TotalRequests (rn_stats r) = so_SuccessfulReqs (rn_stats r) + so_FailedRequests (rn_stats r) \<and>
      so_TotalRequests (rn_stats r) = tally es_Requests (set (or_endpoints orch)) (rn_stats r) \<and>
      so_SuccessfulReqs (rn_stats r) = tally es_Successes (set (or_endpoints orch)) (rn_stats r) \<and>
      so_FailedRequests (rn_stats r) = tally es_Failures (set (or_endpoints orch)) (rn_stats r))"
proof -
  note o = NewOrchestrator_Ret [OF assms(1)]
  have steps: "(soak_step (workers orch) (sk_text env))\<^sup>*\<^sup>* (fresh_stats (or_endpoints orch), \<lambda>_. Idle) (rn_stats r, rn_pc r)"
    using run_steps_soak [OF assms(2)] by (simp add: start_run_def Let_def o(3))
  have total: "so_TotalRequests (rn_stats r) =
      so_SuccessfulReqs (rn_stats r) + so_FailedRequests (rn_stats r) + (\<Sum>w<workers orch. pending (rn_pc r w))"
    by (rule soak_totals [OF steps])
  have sp: "spread (workers orch) (set (or_endpoints orch)) (rn_stats r, rn_pc r)"
    by (rule soak_steps_spread [OF steps _ fresh_spread]) simp
  note config = NewOrchestrator_config [OF assms(1)]
  show ?thesis
    using total sp run_steps_settled [OF assms(2) start_settled] config
    by (auto simp: settled_def spread_def)
qed

definition sample_soak :: SoakConfig where
  "sample_soak =
     \<lparr>sc_UniverseFile = ''u.txt'', sc_Endpoints = ''quote'', sc_Fallback = ''auto'', sc_Duration = 0, sc_Concurrency = 1, sc_QPS = Fin 5,
      sc_Preview = False, sc_Publish = False, sc_Env = ''dev'', sc_TopicPrefix = ''ampy'', sc_ProbeInterval = 1, sc_FailureRate = Fin 0,
      sc_MemoryCheck = False\<rparr>"

lemma one_ticker: "loadTickerUniverse (\<lambda>_. Ret (''AAPL'', None)) f = Ret [''AAPL'']"
proof -
  have ls: "split_char newline ''AAPL'' = [''AAPL'']" "scan_lines ''AAPL'' = [''AAPL'']" "TrimSpace ''AAPL'' = ''AAPL''"
    "filter (\<lambda>l. l \<noteq> [] \<and> \<not> HasPrefix l ''#'') [''AAPL''] = [''AAPL'']"
    by code_simp+
  have "\<not> token_too_long ''AAPL''" unfolding token_too_long_def ls by simp
  then show ?thesis
    by (simp only: loadTickerUniverse_def go_wrap.simps go_bind.simps Let_def prod.case ls list.map if_False option.case list.distinct)
qed

theorem report_balances_witness:
  "\<forall>env :: (unit, unit, unit) soak_env. \<exists>(orch :: unit Orchestrator) cl r lines.
     NewOrchestrator (\<lambda>_. 0) (Ret ()) (\<lambda>_. Ret (''AAPL'', None)) (\<lambda>_. Ret ()) 0 1 0 sample_soak = Ret (orch, cl) \<and>
     (run_step (\<lambda>_. 0) (env\<lparr>sk_Intn := \<lambda>_ _ _. 0\<rparr>) (\<lambda>_. ''0s'') orch)\<^sup>*\<^sup>* (start_run \<lparr>rd_Alloc = 0, rd_Goroutines1 = 1, rd_Goroutines2 = 1\<rparr> orch) r \<and>
     rn_report r = Some lines \<and> so_TotalRequests (rn_stats r) = 1 \<and> tally es_Requests (set (or_endpoints orch)) (rn_stats r) = 1"
proof
  fix env :: "(unit, unit, unit) soak_env"
  let ?env = "env\<lparr>sk_Intn := \<lambda>_ _ _. 0\<rparr>"
  have "is_ret (loadTickerUniverse (\<lambda>_. Ret (''AAPL'', None)) (sc_UniverseFile sample_soak))" by (simp add: one_ticker)
  then have "is_ret (NewOrchestrator (\<lambda>_. 0) (Ret ()) (\<lambda>_. Ret (''AAPL'', None)) (\<lambda>_. Ret ()) 0 1 0 sample_soak)"
    by (simp add: NewOrchestrator_is_ret sample_soak_def)
  then obtain orch cl where o: "NewOrchestrator (\<lambda>_. 0) (Ret ()) (\<lambda>_. Ret (''AAPL'', None)) (\<lambda>_. Ret ()) 0 1 0 sample_soak = Ret (orch, cl)"
    by (auto simp: is_ret_conv)
  note facts = NewOrchestrator_Ret [OF o]
  note config = NewOrchestrator_config [OF o]
  have c: "sc_Concurrency sample_soak = 1" "\<not> sc_MemoryCheck sample_soak" "0 < sc_ProbeInterval sample_soak"
    by (simp_all add: sample_soak_def)
  have "draws_ok ?env" by (simp add: draws_ok_def)
  then obtain st req where g: "generateWorkRequest ?env (or_tickers orch) (or_endpoints orch) st = Ret req"
      "wr_Endpoint req \<in> set (or_endpoints orch)"
    using generateWorkRequest_ok facts(4,5) by blast
  then obtain r lines where r: "(run_step (\<lambda>_. 0) ?env (\<lambda>_. ''0s'') orch)\<^sup>*\<^sup>* (start_run \<lparr>rd_Alloc = 0, rd_Goroutines1 = 1, rd_Goroutines2 = 1\<rparr> orch) r"
      "rn_report r = Some lines" "so_TotalRequests (rn_stats r) = 1"
    using single_request [OF facts(3) g(2,1) config c, of "\<lambda>_. 0" "\<lambda>_. ''0s''" "\<lparr>rd_Alloc = 0, rd_Goroutines1 = 1, rd_Goroutines2 = 1\<rparr>"]
    by blast
  have "tally es_Requests (set (or_endpoints orch)) (rn_stats r) = 1" using report_balances [OF o r(1)] r(2,3) by simp
  then show "\<exists>(orch :: unit Orchestrator) cl r lines.
     NewOrchestrator (\<lambda>_. 0) (Ret ()) (\<lambda>_. Ret (''AAPL'', None)) (\<lambda>_. Ret ()) 0 1 0 sample_soak = Ret (orch, cl) \<and>
     (run_step (\<lambda>_. 0) ?env (\<lambda>_. ''0s'') orch)\<^sup>*\<^sup>* (start_run \<lparr>rd_Alloc = 0, rd_Goroutines1 = 1, rd_Goroutines2 = 1\<rparr> orch) r \<and>
     rn_report r = Some lines \<and> so_TotalRequests (rn_stats r) = 1 \<and> tally es_Requests (set (or_endpoints orch)) (rn_stats r) = 1"
    using o r by blast
qed

end
