(* ===== verification/SoakServer.thy ===== *)
theory SoakServer
  imports SoakMonitor Json
begin

text \<open>
  The routes and answers of the failure server of \<^verbatim>\<open>internal/soak/failure.go\<close>. A body is the JSON value that is encoded, an answer of
  \<open>handleRequest\<close> keeps its text; paths are clean, since the standard router redirects the others. A nil map of headers is a null.
\<close>

section \<open>Bodies\<close>

abbreviation jint :: "int \<Rightarrow> json" where "jint n \<equiv> JNum (f_of_int n)"

definition handleSuccess :: "int \<Rightarrow> string \<Rightarrow> string \<Rightarrow> json" where
  "handleSuccess now path meth =
     JObj ([(''status'', JStr ''success''), (''timestamp'', jint now), (''path'', JStr path), (''method'', JStr meth),
       (''message'', JStr ''Request processed successfully'')] @
      (if Contains path ''quote''
       then [(''data'', JObj [(''symbol'', JStr ''TEST''), (''price'', JNum (fl (201 / 2))), (''change'', JNum (fl (5 / 4)))])]
       else if Contains path ''financials''
       then [(''data'', JObj [(''revenue'', jint 1000000000), (''net_income'', jint 200000000), (''currency'', JStr ''USD'')])]
       else []))"

definition handleHealth :: "int \<Rightarrow> FailureServer \<Rightarrow> json" where
  "handleHealth now fs =
     JObj [(''status'', JStr ''healthy''), (''active'', JBool (fv_active fs)), (''failure_rate'', JNum (fv_failureRate fs)), (''timestamp'', jint now)]"

definition scenario_json :: "FailureScenario \<Rightarrow> json" where
  "scenario_json sc =
     JObj [(''Name'', JStr (fs_Name sc)), (''Probability'', JNum (fs_Probability sc)), (''StatusCode'', jint (fs_StatusCode sc)),
       (''Delay'', jint (fs_Delay sc)), (''Response'', JStr (fs_Response sc)),
       (''Headers'', if fs_Headers sc = [] then JNull else JObj (map (map_prod (\<lambda>k. k) JStr) (fs_Headers sc)))]"

definition handleStats :: "int \<Rightarrow> FailureServer \<Rightarrow> json" where
  "handleStats now fs =
     JObj [(''total_requests'', jint 0), (''failures_injected'', jint 0), (''scenarios'', JArr (map scenario_json (fv_scenarios fs))),
       (''timestamp'', jint now)]"

definition handleScenarios :: "int \<Rightarrow> FailureServer \<Rightarrow> json" where
  "handleScenarios now fs =
     JObj [(''scenarios'', JArr (map scenario_json (fv_scenarios fs))), (''failure_rate'', JNum (fv_failureRate fs)), (''timestamp'', jint now)]"

definition IsActive :: "FailureServer \<Rightarrow> bool" where
  "IsActive fs = fv_active fs"

section \<open>Routes\<close>

text \<open>Encoding a value with a number that is not finite fails, and the body stays empty.\<close>

fun encodable :: "json \<Rightarrow> bool" where
  "encodable (JNum x) \<longleftrightarrow> (case x of Fin _ \<Rightarrow> True | _ \<Rightarrow> False)"
| "encodable (JArr vs) \<longleftrightarrow> list_all encodable vs"
| "encodable (JObj ms) \<longleftrightarrow> list_all (\<lambda>m. encodable (snd m)) ms"
| "encodable _ \<longleftrightarrow> True"

datatype answer = Value "json option" | Text "duration \<times> reply"

definition encoded :: "json \<Rightarrow> answer" where
  "encoded v = Value (if encodable v then Some v else None)"

text \<open>\<open>Value\<close> is the answer with status 200 and the content type of JSON.\<close>

definition serve :: "bool \<Rightarrow> f64 \<Rightarrow> f64 \<Rightarrow> int \<Rightarrow> string \<Rightarrow> string \<Rightarrow> FailureServer \<Rightarrow> answer go" where
  "serve hijacked u0 u now path meth fs =
     (if path = ''/health'' then Ret (encoded (handleHealth now fs))
      else if path = ''/stats'' then Ret (encoded (handleStats now fs))
      else if path = ''/scenarios'' then Ret (encoded (handleScenarios now fs))
      else go_bind (handleRequest hijacked u0 u fs) (\<lambda>r.
        Ret (case r of (_, Success) \<Rightarrow> encoded (handleSuccess now path meth) | _ \<Rightarrow> Text r)))"

text \<open>A failure rate of zero never gives a failure: the server is not even started, so what it would say is that it is not active.\<close>

lemma rate_zero_inactive: "f_le r (Fin 0) \<Longrightarrow> \<not> IsActive (failure_Start (NewFailureServer r))"
  by (simp add: IsActive_def failure_Start_def NewFailureServer_def)

lemma started_active: "\<not> f_le (fv_failureRate fs) (Fin 0) \<Longrightarrow> IsActive (failure_Start fs) \<and> \<not> IsActive (failure_Stop (failure_Start fs))"
  by (simp add: IsActive_def failure_Start_def failure_Stop_def)

text \<open>The routes of the three reports answer whether the server is active or not; a success can always be encoded.\<close>

lemma fl_finite: "\<bar>x\<bar> \<le> 2 ^ 1023 \<Longrightarrow> \<exists>y. fl x = Fin y"
  by (simp add: fl_small)

lemma success_encodable:
  assumes "\<bar>now\<bar> < 2 ^ 53"
  shows "encodable (handleSuccess now path meth)"
  using fl_finite [of "201 / 2"] fl_finite [of "5 / 4"] f_of_int_small [of 1000000000] f_of_int_small [of 200000000] f_of_int_small [OF assms]
  by (auto simp: handleSuccess_def)

text \<open>
  The server answers every request, with at least one scenario whose probabilities add up to a finite number that is not negative:
  it never panics.
\<close>

lemma serve_answers:
  assumes "fv_scenarios fs \<noteq> []" "total_probability (fv_scenarios fs) = Fin t" "0 \<le> t" "x \<le> 1"
  shows "\<exists>a. serve hijacked u0 (Fin x) now path meth fs = Ret a"
proof -
  obtain sc where "scenario_at (f_mul (Fin x) (total_probability (fv_scenarios fs))) (Fin 0) (fv_scenarios fs) = Some sc"
    using choose_total [OF assms] by blast
  then have "\<exists>y. injectFailure hijacked (Fin x) fs = Ret y" by (simp add: injectFailure_def selectFailureScenario_def Let_def)
  then show ?thesis by (auto simp: serve_def handleRequest_def)
qed

end
