(* ===== verification/Cli.thy ===== *)
theory Cli
  imports MarketClient Bus Configuration
begin

text \<open>
  The commands \<^verbatim>\<open>pull\<close>, \<^verbatim>\<open>quote\<close> and \<^verbatim>\<open>fundamentals\<close> of \<^verbatim>\<open>cmd/yfin/main.go\<close>: their flags, the configuration of the
  bus, what they print, publish and export, and their exit codes. A printed line is its format and arguments; the time limits of
  the contexts are left to the operations of the network.
\<close>

section \<open>Flags\<close>

definition ExitSuccess :: int where "ExitSuccess = 0"
definition ExitGeneral :: int where "ExitGeneral = 1"
definition ExitPaidFeature :: int where "ExitPaidFeature = 2"
definition ExitConfigError :: int where "ExitConfigError = 3"

record PullConfig =
  pl_Ticker :: string
  pl_UniverseFile :: string
  pl_Start :: string
  pl_End :: string
  pl_Adjusted :: string
  pl_Market :: string
  pl_FXTarget :: string
  pl_Preview :: bool
  pl_Publish :: bool
  pl_Env :: string
  pl_TopicPrefix :: string
  pl_Out :: string
  pl_OutDir :: string
  pl_DryRunPublish :: bool

record QuoteConfig =
  qo_Tickers :: string
  qo_Preview :: bool
  qo_Publish :: bool
  qo_Env :: string
  qo_TopicPrefix :: string
  qo_Out :: string
  qo_OutDir :: string

record FundamentalsConfig =
  fu_Ticker :: string
  fu_Preview :: bool

record ScrapeFlags =
  sf_Check :: bool
  sf_Ticker :: string
  sf_Endpoint :: string
  sf_Endpoints :: string
  sf_Preview :: bool
  sf_PreviewJSON :: bool
  sf_PreviewNews :: bool
  sf_PreviewProto :: bool
  sf_Force :: bool

definition validatePullFlags :: "PullConfig \<Rightarrow> unit go" where
  "validatePullFlags pc =
     go_bind (go_guard (pl_Ticker pc = [] \<and> pl_UniverseFile pc = [])
       (Errorf ''either --ticker or --universe-file must be specified'' [])) (\<lambda>_.
     go_bind (go_guard (pl_Ticker pc \<noteq> [] \<and> pl_UniverseFile pc \<noteq> [])
       (Errorf ''cannot specify both --ticker and --universe-file'' [])) (\<lambda>_.
     go_bind (go_guard (pl_Start pc = [] \<or> pl_End pc = []) (Errorf ''--start and --end are required'' [])) (\<lambda>_.
     go_bind (go_guard (pl_Adjusted pc \<noteq> ''raw'' \<and> pl_Adjusted pc \<noteq> ''split_dividend'')
       (Errorf (''--adjusted must be '' @ quoted ''raw'' @ '' or '' @ quoted ''split_dividend'') [])) (\<lambda>_.
     go_guard (pl_Out pc \<noteq> [] \<and> pl_Out pc \<noteq> ''json'' \<and> pl_Out pc \<noteq> ''parquet'')
       (Errorf (''--out must be '' @ quoted ''json'' @ '' or '' @ quoted ''parquet'') [])))))"

definition validateQuoteFlags :: "QuoteConfig \<Rightarrow> unit go" where
  "validateQuoteFlags qc =
     go_bind (go_guard (qo_Tickers qc = []) (Errorf ''--tickers is required'' [])) (\<lambda>_.
     go_guard (qo_Out qc \<noteq> [] \<and> qo_Out qc \<noteq> ''json'') (Errorf (''--out must be '' @ quoted ''json'' @ '' for quotes'') []))"

definition validateFundamentalsFlags :: "FundamentalsConfig \<Rightarrow> unit go" where
  "validateFundamentalsFlags fc = go_guard (fu_Ticker fc = []) (Errorf ''--ticker is required'' [])"

definition validEndpoints :: "string list" where
  "validEndpoints =
     [''profile'', ''key-statistics'', ''financials'', ''balance-sheet'', ''cash-flow'', ''analysis'', ''analyst-insights'', ''news'']"

definition validate_endpoints :: "string \<Rightarrow> unit go" where
  "validate_endpoints endpoints =
     go_iter (\<lambda>_ part. let ep = TrimSpace part in
       go_guard (ep \<noteq> [] \<and> ep \<notin> set validEndpoints) (Errorf (''invalid endpoint '' @ quoted ''%s'' @ '' in --endpoints'') [AStr ep]))
       0 (split_char CHR '','' endpoints)"

definition validateScrapeFlags :: "ScrapeFlags \<Rightarrow> unit go" where
  "validateScrapeFlags sf =
     go_bind (go_guard (\<not> sf_Check sf \<and> \<not> sf_PreviewJSON sf \<and> \<not> sf_PreviewNews sf \<and> \<not> sf_PreviewProto sf)
       (Errorf ''either --check, --preview-json, --preview-news, or --preview-proto flag is required'' [])) (\<lambda>_.
     go_bind (go_guard (sf_Ticker sf = []) (Errorf ''--ticker is required'' [])) (\<lambda>_.
     go_bind (if sf_Check sf
       then go_bind (go_guard (sf_Endpoint sf = []) (Errorf ''--endpoint is required for --check mode'' [])) (\<lambda>_.
         go_guard (sf_Endpoint sf \<notin> set validEndpoints) (Errorf ''--endpoint must be one of: %v'' (map AStr validEndpoints)))
       else Ret ()) (\<lambda>_.
     go_bind (if sf_PreviewJSON sf
       then go_bind (go_guard (sf_Endpoints sf = []) (Errorf ''--endpoints is required for --preview-json mode'' [])) (\<lambda>_.
         validate_endpoints (sf_Endpoints sf))
       else Ret ()) (\<lambda>_.
     if sf_PreviewProto sf
       then go_bind (go_guard (sf_Endpoints sf = []) (Errorf ''--endpoints is required for --preview-proto mode'' [])) (\<lambda>_.
         validate_endpoints (sf_Endpoints sf))
       else Ret ()))))"

text \<open>\<^verbatim>\<open>time.Parse\<close> of a date; the text of its error is \<open>bad v\<close>.\<close>

definition parseDates :: "(string \<Rightarrow> string) \<Rightarrow> string \<Rightarrow> string \<Rightarrow> (instant \<times> instant) go" where
  "parseDates bad startStr endStr =
     (case time_Parse layout_date startStr of
        None \<Rightarrow> Err (Errorf ''invalid start date: %v'' [AStr (bad startStr)])
      | Some s \<Rightarrow> (case time_Parse layout_date endStr of
          None \<Rightarrow> Err (Errorf ''invalid end date: %v'' [AStr (bad endStr)])
        | Some e \<Rightarrow> Ret (s, e)))"

definition parseAdjusted :: "string \<Rightarrow> bool go" where
  "parseAdjusted adjusted =
     (if adjusted = ''raw'' then Ret False else if adjusted = ''split_dividend'' then Ret True
      else Err (Errorf ''invalid adjusted value: %s'' [AStr adjusted]))"

definition getSymbols :: "text_lib \<Rightarrow> (string \<Rightarrow> string go) \<Rightarrow> string \<Rightarrow> string \<Rightarrow> string list go" where
  "getSymbols tx read_file ticker universeFile =
     (if ticker \<noteq> [] then Ret [ticker]
      else case read_file universeFile of
        Err e \<Rightarrow> Err (Errorf ''failed to read universe file: %v'' [AStr (error_text tx e)])
      | Panic p \<Rightarrow> Panic p
      | Ret content \<Rightarrow>
          let symbols = filter (\<lambda>l. l \<noteq> [] \<and> \<not> HasPrefix l ''#'') (map TrimSpace (split_char (char_of (10 :: nat)) content))
          in if symbols = [] then Err (Errorf ''no symbols found in universe file'' []) else Ret symbols)"

definition isPaidFeatureError :: "text_lib \<Rightarrow> goerror option \<Rightarrow> bool" where
  "isPaidFeatureError tx err =
     (case err of None \<Rightarrow> False
      | Some e \<Rightarrow> Contains (error_text tx e) ''paid subscription'' \<or> Contains (error_text tx e) ''401'' \<or>
          Contains (error_text tx e) ''Unauthorized'')"

section \<open>Surroundings\<close>

type_synonym line = "string \<times> fmt_arg list"

record ('s, 'b) cli =
  ci_client :: MarketClient
  ci_net :: "'s net"
  ci_breaker :: CircuitBreaker
  ci_world :: "'b world"
  ci_out :: "line list"
  ci_err :: "line list"
  ci_files :: "string list"
  ci_obsv :: bool

text \<open>
  \<open>ci_obsv\<close> says whether the observability runs. \<open>ce_mkdir\<close> and \<open>ce_write\<close> are the errors of making a directory and of writing a file,
  \<open>ce_obsv\<close> that of starting the observability, \<open>ce_close\<close> closes a transport; the other fields are the arguments of the definitions of the configuration, the clients and the bus.
\<close>

record ('u, 's, 'b, 'ts) cli_env =
  ce_market :: "('u, 's, 'ts) market_env"
  ce_text :: text_lib
  ce_bad_date :: "string \<Rightarrow> string"
  ce_getenv :: "string \<Rightarrow> string"
  ce_read_config :: "string \<Rightarrow> cfg_map go"
  ce_to_config :: "cfg_map \<Rightarrow> AmpyConfig go"
  ce_ConfigFile :: string
  ce_RunID :: string
  ce_flags :: GlobalConfig
  ce_read_file :: "string \<Rightarrow> string go"
  ce_obsv :: "AmpyConfig \<Rightarrow> goerror option"
  ce_connect :: "NatsBindingConfig \<Rightarrow> 'b go"
  ce_uuid :: "nat \<Rightarrow> string"
  ce_clock :: "nat \<Rightarrow> instant"
  ce_send :: "'b send"
  ce_marshal_bars :: "'ts pb_Bar list \<Rightarrow> string go"
  ce_marshal_quote :: "'ts pb_QuoteTick \<Rightarrow> string go"
  ce_rnd :: "nat \<Rightarrow> f64"
  ce_cancel :: "nat \<Rightarrow> goerror option"
  ce_bus_now :: "'b world \<Rightarrow> instant"
  ce_mkdir :: "string \<Rightarrow> goerror option"
  ce_write :: "string \<Rightarrow> goerror option"
  ce_close :: "'b \<Rightarrow> 'b"

datatype exit = Done "goerror option" | Exit int | Crash string

definition say :: "string \<Rightarrow> fmt_arg list \<Rightarrow> ('s, 'b) cli \<Rightarrow> ('s, 'b) cli" where
  "say f xs st = st\<lparr>ci_out := ci_out st @ [(f, xs)]\<rparr>"

definition complain :: "string \<Rightarrow> fmt_arg list \<Rightarrow> ('s, 'b) cli \<Rightarrow> ('s, 'b) cli" where
  "complain f xs st = st\<lparr>ci_err := ci_err st @ [(f, xs)]\<rparr>"

text \<open>
  \<^verbatim>\<open>if err != nil { fmt.Fprintf(os.Stderr, msg, err); os.Exit(code) }\<close>. A command that hangs in the loading of the configuration has
  the value \<open>None\<close>.
\<close>

definition or_exit :: "text_lib \<Rightarrow> int \<Rightarrow> string \<Rightarrow> 'a go \<Rightarrow> ('s, 'b) cli \<Rightarrow> ('a \<Rightarrow> (('s, 'b) cli \<times> exit) option) \<Rightarrow> (('s, 'b) cli \<times> exit) option" where
  "or_exit tx code msg r st k =
     (case r of Ret x \<Rightarrow> k x
      | Err e \<Rightarrow> Some (complain msg [AStr (error_text tx e)] st, Exit code)
      | Panic p \<Rightarrow> Some (st, Crash p))"

text \<open>A deferred call: it runs when the command returns and when it panics, and not after \<^verbatim>\<open>os.Exit\<close>.\<close>

definition deferred :: "(('s, 'b) cli \<Rightarrow> ('s, 'b) cli) \<Rightarrow> (('s, 'b) cli \<times> exit) option \<Rightarrow> (('s, 'b) cli \<times> exit) option" where
  "deferred f = map_option (\<lambda>(st, e). (case e of Exit _ \<Rightarrow> st | _ \<Rightarrow> f st, e))"

text \<open>\<^verbatim>\<open>obsv.Init\<close> and its deferred \<^verbatim>\<open>obsv.Shutdown\<close>.\<close>

definition with_obsv ::
  "('u, 's, 'b, 'ts) cli_env \<Rightarrow> AmpyConfig \<Rightarrow> ('s, 'b) cli \<Rightarrow> (('s, 'b) cli \<Rightarrow> (('s, 'b) cli \<times> exit) option) \<Rightarrow> (('s, 'b) cli \<times> exit) option" where
  "with_obsv env cfg st k =
     or_exit (ce_text env) ExitConfigError ''ERROR: Failed to initialize observability: %v''
       (case ce_obsv env cfg of Some e \<Rightarrow> Err e | None \<Rightarrow> Ret ()) st (\<lambda>_.
     deferred (\<lambda>st. st\<lparr>ci_obsv := False\<rparr>) (k (st\<lparr>ci_obsv := True\<rparr>)))"

definition load :: "('u, 's, 'b, 'ts) cli_env \<Rightarrow> string \<Rightarrow> AmpyConfig go option" where
  "load env path = map_option snd (Load (ce_getenv env) (ce_read_config env) (ce_to_config env) (NewLoader path))"

definition effectivePath :: "('u, 's, 'b, 'ts) cli_env \<Rightarrow> string" where
  "effectivePath env = (if ce_ConfigFile env = [] then ''configs/effective.yaml'' else ce_ConfigFile env)"

definition cli_createClient :: "(f64 \<Rightarrow> int) \<Rightarrow> ('u, 's, 'b, 'ts) cli_env \<Rightarrow> instant \<Rightarrow> (MarketClient \<times> Client) go option" where
  "cli_createClient ovf env now =
     map_option (\<lambda>r. go_bind (go_wrap ''failed to load configuration: %w'' [] r)
       (\<lambda>cfg. Ret (NewClientWithConfig ovf now (createClient_config ovf (ce_flags env) cfg)))) (load env (effectivePath env))"

definition fallback_bus_config :: "string \<Rightarrow> string \<Rightarrow> Config" where
  "fallback_bus_config bus_env topicPrefix =
     \<lparr>c_Enabled = True, c_Env = bus_env, c_TopicPrefix = topicPrefix, c_MaxPayloadBytes = 1024 * 1024,
      c_Publisher = \<lparr>pc_Backend = ''nats'',
        pc_NATS = \<lparr>nc_URL = ''nats://localhost:4222'', nc_SubjectStyle = ''topic'', nc_AckWaitMs = 5000\<rparr>,
        pc_Kafka = \<lparr>kc_Brokers = [], kc_Acks = [], kc_Compression = []\<rparr>\<rparr>,
      c_Retry = \<lparr>rc_Attempts = 5, rc_BaseMs = 250, rc_MaxDelayMs = 8000\<rparr>,
      c_CircuitBreaker = \<lparr>cc_Window = 50, cc_FailureThreshold = fl (3 / 10), cc_ResetTimeoutMs = 30000, cc_HalfOpenProbes = 3\<rparr>\<rparr>"

definition bus_config_of :: "string \<Rightarrow> string \<Rightarrow> AmpyConfig \<Rightarrow> Config" where
  "bus_config_of bus_env topicPrefix cfg =
     (let b = GetBusConfig cfg; p = bsc_Publisher b in
      \<lparr>c_Enabled = True, c_Env = bus_env, c_TopicPrefix = topicPrefix, c_MaxPayloadBytes = bsc_MaxPayloadBytes b,
       c_Publisher = \<lparr>pc_Backend = pbc_Backend p,
         pc_NATS = \<lparr>nc_URL = ntc_URL (pbc_NATS p), nc_SubjectStyle = ntc_SubjectStyle (pbc_NATS p), nc_AckWaitMs = ntc_AckWaitMs (pbc_NATS p)\<rparr>,
         pc_Kafka = \<lparr>kc_Brokers = kfc_Brokers (pbc_Kafka p), kc_Acks = kfc_Acks (pbc_Kafka p), kc_Compression = kfc_Compression (pbc_Kafka p)\<rparr>\<rparr>,
       c_Retry = \<lparr>rc_Attempts = rtc_Attempts (bsc_Retry b), rc_BaseMs = rtc_BaseMs (bsc_Retry b), rc_MaxDelayMs = rtc_MaxDelayMs (bsc_Retry b)\<rparr>,
       c_CircuitBreaker = \<lparr>cc_Window = cbc_Window (bsc_CircuitBreaker b), cc_FailureThreshold = cbc_FailureThreshold (bsc_CircuitBreaker b),
         cc_ResetTimeoutMs = cbc_ResetTimeoutMs (bsc_CircuitBreaker b), cc_HalfOpenProbes = cbc_HalfOpenProbes (bsc_CircuitBreaker b)\<rparr>\<rparr>)"

definition createBusConfig :: "('u, 's, 'b, 'ts) cli_env \<Rightarrow> string \<Rightarrow> string \<Rightarrow> Config go option" where
  "createBusConfig env bus_env topicPrefix =
     map_option (\<lambda>r. case r of
         Err e \<Rightarrow> Ret (fallback_bus_config bus_env topicPrefix)
       | Panic p \<Rightarrow> Panic p
       | Ret cfg \<Rightarrow> Ret (bus_config_of bus_env topicPrefix cfg))
     (load env (effectivePath env))"

section \<open>Previews\<close>

text \<open>\<^verbatim>\<open>Format\<close> with the layouts with a clock, and the date without signs between its fields.\<close>

definition format_clock :: "instant \<Rightarrow> string" where
  "format_clock t = format_date t @ ''T'' @ pad_digits 2 (nat (t mod day_ns div hour)) @ '':'' @
     pad_digits 2 (nat (t mod hour div minute)) @ '':'' @ pad_digits 2 (nat (t mod minute div second)) @ ''Z''"

definition format_day :: "instant \<Rightarrow> string" where
  "format_day t = pad_digits 4 (nat (time_Year t)) @ pad_digits 2 (nat (time_Month t)) @ pad_digits 2 (nat (time_Day t))"

text \<open>The quotient both previews print for a scaled decimal.\<close>

definition previewed :: "ScaledDecimal \<Rightarrow> f64" where
  "previewed sd = f_div (f_of_int (Scaled sd)) (f_of_int (Scale sd))"

definition printBarsPreview :: "NormalizedBarBatch \<Rightarrow> string \<Rightarrow> string \<Rightarrow> string \<Rightarrow> ('s, 'b) cli \<Rightarrow> ('s, 'b) cli go" where
  "printBarsPreview bars runID bus_env topicPrefix st =
     (if nbb_Bars bars = [] then Panic ''index out of range''
      else
        let firstBar = hd (nbb_Bars bars); lastBar = List.last (nbb_Bars bars) in
        Ret (say ''first=%s  last=%s  last_close=%.4f %s''
               [AStr (format_clock (nb_Start firstBar)), AStr (format_clock (nb_End lastBar)), AFloat (previewed (nb_Close lastBar)),
                AStr (nb_CurrencyCode lastBar)]
          (say ''SYMBOL %s (MIC=%s, CCY=%s)  range=%s..%s  bars=%d  adjusted=%s''
               [AStr (Symbol (nbb_Security bars)), AStr (MIC (nbb_Security bars)), AStr (nb_CurrencyCode firstBar),
                AStr (format_date (nb_Start firstBar)), AStr (format_date (nb_End lastBar)), AInt (int (length (nbb_Bars bars))),
                AStr (nb_AdjustmentPolicyID firstBar)]
          (say ''RUN %s  (env=%s, topic_prefix=%s)'' [AStr runID, AStr bus_env, AStr topicPrefix] st))))"

definition price_or_na :: "ScaledDecimal option \<Rightarrow> fmt_arg" where
  "price_or_na p = (case p of None \<Rightarrow> AStr ''N/A'' | Some sd \<Rightarrow> AFloat (FromScaledDecimal sd))"

definition printQuotePreview :: "NormalizedQuote \<Rightarrow> ('s, 'b) cli \<Rightarrow> ('s, 'b) cli" where
  "printQuotePreview quote =
     say ''SYMBOL %s quote  price=%s %s  high=%s  low=%s  venue=%s''
       [AStr (Symbol (nq_Security quote)), price_or_na (nq_RegularMarketPrice quote), AStr (nq_CurrencyCode quote),
        price_or_na (nq_RegularMarketHigh quote), price_or_na (nq_RegularMarketLow quote), AStr (nq_Venue quote)]"

definition printFundamentalsPreview :: "NormalizedFundamentalsSnapshot \<Rightarrow> ('s, 'b) cli \<Rightarrow> ('s, 'b) cli" where
  "printFundamentalsPreview f st =
     fold (\<lambda>l. say ''  %s: %.2f %s'' [AStr (fl_Key l), AFloat (previewed (fl_Value l)), AStr (fl_CurrencyCode l)]) (take 5 (fs_Lines f))
       (say ''SYMBOL %s fundamentals  lines=%d  source=%s''
         [AStr (Symbol (fs_Security f)), AInt (int (length (fs_Lines f))), AStr (fs_Source f)] st)"

definition handleFXPreview :: "instant \<Rightarrow> NormalizedBarBatch \<Rightarrow> string \<Rightarrow> ('s, 'b) cli \<Rightarrow> ('s, 'b) cli go" where
  "handleFXPreview now bars targetCurrency st =
     (case nbb_Bars bars of [] \<Rightarrow> Panic ''index out of range''
      | firstBar # _ \<Rightarrow>
          if nb_CurrencyCode firstBar = targetCurrency
          then Ret (say ''fx_preview target=%s (no conversion needed)'' [AStr targetCurrency] st)
          else Ret (say ''fx_preview target=%s as_of=%s rate_scale=8 rounding=half_up  (provider=yahoo-web, cache_hit=true)''
            [AStr targetCurrency, AStr (format_clock now)] st))"

definition PrintPreview :: "PreviewSummary \<Rightarrow> ('s, 'b) cli \<Rightarrow> ('s, 'b) cli go" where
  "PrintPreview s st =
     (let e = ps_Envelope s; c = ps_Chunking s; st1 = say ''Topic: %s'' [AStr (ps_Topic s)] (say ''PUBLISH PREVIEW (no send)'' [] st) in
      if length (en_MessageID e) < 8 then Panic ''slice bounds out of range''
      else
        let st2 = say ''Envelope: message_id=%s schema=%s v=%s run_id=%s''
                [AStr (take 8 (en_MessageID e) @ ''...''), AStr (en_SchemaFQDN e), AStr (en_SchemaVersion e), AStr (en_RunID e)] st1;
            st3 = say ''PartitionKey: %s'' [AStr (ps_PartitionKey s)] st2;
            st4 = (if 1 < ChunkCount c
              then say ''Chunking: %d messages (max_payload=%.1f MiB)''
                [AInt (ChunkCount c), AFloat (f_div (f_of_int (MaxPayload c)) (Fin (1024 * 1024)))] st3
              else say ''Payload: %d bytes (single message)'' [AInt (ps_PayloadBytes s)] st3)
        in Ret (say ''Span: %s  p95=420ms'' [AStr (ps_Span s)] st4))"

section \<open>Publishing and exporting\<close>

definition estimateBarBatchSize :: "'a \<Rightarrow> int" where "estimateBarBatchSize batch = 200 * 10"
definition estimateQuoteSize :: "'a \<Rightarrow> int" where "estimateQuoteSize quote = 150"

type_synonym ('s, 'b) action = "('s, 'b) cli \<Rightarrow> ('s, 'b) cli \<times> unit go"

text \<open>Printing that can panic, and an error of the caller that formats its cause with \<^verbatim>\<open>%v\<close>.\<close>

definition printing :: "(('s, 'b) cli \<Rightarrow> ('s, 'b) cli go) \<Rightarrow> ('s, 'b) action" where
  "printing f st = (case f st of Ret st' \<Rightarrow> (st', Ret ()) | Err e \<Rightarrow> (st, Err e) | Panic p \<Rightarrow> (st, Panic p))"

fun reformat :: "text_lib \<Rightarrow> string \<Rightarrow> 'a go \<Rightarrow> 'a go" where
  "reformat tx msg (Err e) = Err (Errorf msg [AStr (error_text tx e)])"
| "reformat tx msg r = r"

definition and_then :: "('s, 'b) action \<Rightarrow> ('s, 'b) action \<Rightarrow> ('s, 'b) action" where
  "and_then f g st = (case f st of (st', Ret _) \<Rightarrow> g st' | (st', r) \<Rightarrow> (st', r))"

definition handleBusPublishing ::
  "(f64 \<Rightarrow> int) \<Rightarrow> ('u, 's, 'b, 'ts) cli_env \<Rightarrow> NormalizedBarBatch \<Rightarrow> Bus \<Rightarrow> Config \<Rightarrow> string \<Rightarrow> bool \<Rightarrow> ('s, 'b) action" where
  "handleBusPublishing ovf env bars b busConfig runID preview st =
     (case reformat (ce_text env) ''failed to emit bar batch: %v'' (EmitBarBatch (me_ts (ce_market env)) (Some bars)) of
        Err e \<Rightarrow> (st, Err e)
      | Panic p \<Rightarrow> (st, Panic p)
      | Ret ampyBatch \<Rightarrow>
          let msg = \<lparr>m_Content = ampyBatch, m_Key = \<lparr>k_Symbol = Symbol (nbb_Security bars), k_MIC = MIC (nbb_Security bars)\<rparr>,
                m_RunID = runID, m_Env = c_Env busConfig\<rparr>;
              n = w_built (ci_world st)
          in if preview
             then (case reformat (ce_text env) ''failed to generate preview: %v''
                    (PreviewBars ovf (ce_uuid env n) (ce_clock env n) (b_previewPublisher b) msg (estimateBarBatchSize ampyBatch)) of
                 Err e \<Rightarrow> (st, Err e)
               | Panic p \<Rightarrow> (st, Panic p)
               | Ret summary \<Rightarrow> printing (PrintPreview summary) (st\<lparr>ci_world := (ci_world st)\<lparr>w_built := Suc n\<rparr>\<rparr>))
             else (case Bus_PublishBars ovf (ce_uuid env) (ce_clock env) (ce_send env) (ce_marshal_bars env) (ce_rnd env) (ce_cancel env)
                    (ce_bus_now env) b msg (ci_breaker st, ci_world st) of
                 ((cb, w), _, r) \<Rightarrow>
                   let st1 = st\<lparr>ci_breaker := cb, ci_world := w\<rparr> in
                   (case reformat (ce_text env) ''failed to publish bars: %v'' r of
                      Ret _ \<Rightarrow> (say ''Published %d bars to bus'' [AInt (int (length (nbb_Bars bars)))] st1, Ret ())
                    | r' \<Rightarrow> (st1, r'))))"

definition handleQuoteBusPublishing ::
  "(f64 \<Rightarrow> int) \<Rightarrow> ('u, 's, 'b, 'ts) cli_env \<Rightarrow> NormalizedQuote \<Rightarrow> Bus \<Rightarrow> Config \<Rightarrow> string \<Rightarrow> bool \<Rightarrow> ('s, 'b) action" where
  "handleQuoteBusPublishing ovf env quote b busConfig runID preview st =
     (case reformat (ce_text env) ''failed to emit quote: %v'' (EmitQuote (me_ts (ce_market env)) (Some quote)) of
        Err e \<Rightarrow> (st, Err e)
      | Panic p \<Rightarrow> (st, Panic p)
      | Ret ampyQuote \<Rightarrow>
          let msg = \<lparr>m_Content = ampyQuote, m_Key = \<lparr>k_Symbol = Symbol (nq_Security quote), k_MIC = MIC (nq_Security quote)\<rparr>,
                m_RunID = runID, m_Env = c_Env busConfig\<rparr>;
              n = w_built (ci_world st)
          in if preview
             then (case reformat (ce_text env) ''failed to generate preview: %v''
                    (PreviewQuote ovf (ce_uuid env n) (ce_clock env n) (b_previewPublisher b) msg (estimateQuoteSize ampyQuote)) of
                 Err e \<Rightarrow> (st, Err e)
               | Panic p \<Rightarrow> (st, Panic p)
               | Ret summary \<Rightarrow> printing (PrintPreview summary) (st\<lparr>ci_world := (ci_world st)\<lparr>w_built := Suc n\<rparr>\<rparr>))
             else (case Bus_PublishQuote ovf (ce_uuid env) (ce_clock env) (ce_send env) (ce_marshal_quote env) (ce_rnd env) (ce_cancel env)
                    (ce_bus_now env) b msg (ci_breaker st, ci_world st) of
                 ((cb, w), _, r) \<Rightarrow>
                   let st1 = st\<lparr>ci_breaker := cb, ci_world := w\<rparr> in
                   (case reformat (ce_text env) ''failed to publish quote: %v'' r of
                      Ret _ \<Rightarrow> (say ''Published quote to bus'' [] st1, Ret ())
                    | r' \<Rightarrow> (st1, r'))))"

text \<open>Writing a file: its directories first; the file is listed once it is written.\<close>

definition export_file :: "('u, 's, 'b, 'ts) cli_env \<Rightarrow> string \<Rightarrow> string \<Rightarrow> string \<Rightarrow> string \<Rightarrow> string \<Rightarrow> (string \<Rightarrow> goerror option) \<Rightarrow> ('s, 'b) action" where
  "export_file env outDir sub noun filename outFormat unsupported st =
     (case ce_mkdir env outDir of
        Some e \<Rightarrow> (st, Err (Errorf ''failed to create output directory: %v'' [AStr (error_text (ce_text env) e)]))
      | None \<Rightarrow>
          (case ce_mkdir env (outDir @ ''/'' @ sub) of
             Some e \<Rightarrow> (st, Err (Errorf (''failed to create '' @ noun @ '' directory: %v'') [AStr (error_text (ce_text env) e)]))
           | None \<Rightarrow>
               (case unsupported outFormat of
                  Some e \<Rightarrow> (st, Err e)
                | None \<Rightarrow>
                    let filePath = outDir @ ''/'' @ sub @ ''/'' @ filename in
                    (case ce_write env filePath of
                       Some e \<Rightarrow> (st, Err e)
                     | None \<Rightarrow> (st\<lparr>ci_files := ci_files st @ [filePath]\<rparr>, Ret ())))))"

definition handleLocalExport ::
  "('u, 's, 'b, 'ts) cli_env \<Rightarrow> string \<Rightarrow> instant \<Rightarrow> instant \<Rightarrow> bool \<Rightarrow> string \<Rightarrow> string \<Rightarrow> ('s, 'b) action" where
  "handleLocalExport env symbol start end_t adjusted outFormat outDir =
     export_file env outDir ''bars'' ''bars''
       (symbol @ ''_1d_'' @ format_day start @ ''_'' @ format_day end_t @ ''_'' @ (if adjusted then ''adjusted'' else ''raw'') @ ''.'' @ outFormat)
       outFormat
       (\<lambda>f. if f = ''json'' then None else if f = ''parquet'' then Some (Errorf ''parquet export not implemented yet'' [])
         else Some (Errorf ''unsupported output format: %s'' [AStr f]))"

definition handleQuoteLocalExport :: "('u, 's, 'b, 'ts) cli_env \<Rightarrow> string \<Rightarrow> string \<Rightarrow> string \<Rightarrow> ('s, 'b) action" where
  "handleQuoteLocalExport env ticker outFormat outDir =
     export_file env outDir ''quotes'' ''quotes'' (ticker @ ''_snapshot_quote.'' @ outFormat) outFormat
       (\<lambda>f. if f = ''json'' then None else Some (Errorf ''unsupported output format: %s'' [AStr f]))"

section \<open>One symbol\<close>

definition cli_now :: "('u, 's, 'b, 'ts) cli_env \<Rightarrow> ('s, 'b) cli \<Rightarrow> instant" where
  "cli_now env st = me_now (ce_market env) (ci_net st)"

definition processSymbol ::
  "(f64 \<Rightarrow> int) \<Rightarrow> ('u, 's, 'b, 'ts) cli_env \<Rightarrow> PullConfig \<Rightarrow> instant \<Rightarrow> instant \<Rightarrow> bool \<Rightarrow> string \<Rightarrow> (Bus \<times> Config) option \<Rightarrow> string \<Rightarrow>
   ('s, 'b) action" where
  "processSymbol ovf env pc start end_t adjusted runID bus symbol st =
     (case FetchDailyBars ovf (ce_market env) (ci_client st) symbol start end_t adjusted runID (ci_net st) of
        (net, r) \<Rightarrow>
          let st0 = st\<lparr>ci_net := net\<rparr> in
          (case r of
             Err e \<Rightarrow> (st0, Err e)
           | Panic p \<Rightarrow> (st0, Panic p)
           | Ret bars \<Rightarrow>
               if nbb_Bars bars = [] then (say ''No bars found for %s in the specified period'' [AStr symbol] st0, Ret ())
               else
                 and_then (printing (printBarsPreview bars runID (pl_Env pc) (pl_TopicPrefix pc)))
                 (and_then (\<lambda>st1. if pl_FXTarget pc = [] then (st1, Ret ())
                    else printing (handleFXPreview (cli_now env st1) bars (pl_FXTarget pc)) st1)
                 (and_then (\<lambda>st2. case bus of None \<Rightarrow> (st2, Ret ())
                    | Some (b, busConfig) \<Rightarrow>
                        (case handleBusPublishing ovf env bars b busConfig runID (pl_Preview pc \<or> pl_DryRunPublish pc) st2 of
                          (st3, r3) \<Rightarrow> (st3, reformat (ce_text env) ''bus publishing failed: %v'' r3)))
                 (\<lambda>st4. if pl_Out pc \<noteq> [] \<and> pl_OutDir pc \<noteq> []
                    then (case handleLocalExport env symbol start end_t adjusted (pl_Out pc) (pl_OutDir pc) st4 of
                      (st5, r5) \<Rightarrow> (st5, reformat (ce_text env) ''local export failed: %v'' r5))
                    else (st4, Ret ())))) st0))"

definition processQuote ::
  "(f64 \<Rightarrow> int) \<Rightarrow> ('u, 's, 'b, 'ts) cli_env \<Rightarrow> QuoteConfig \<Rightarrow> string \<Rightarrow> (Bus \<times> Config) option \<Rightarrow> string \<Rightarrow> ('s, 'b) action" where
  "processQuote ovf env qc runID bus ticker st =
     (case FetchQuote ovf (ce_market env) (ci_client st) ticker runID (ci_net st) of
        (net, r) \<Rightarrow>
          let st0 = st\<lparr>ci_net := net\<rparr> in
          (case r of
             Err e \<Rightarrow> (st0, Err e)
           | Panic p \<Rightarrow> (st0, Panic p)
           | Ret quote \<Rightarrow>
               and_then (\<lambda>st2. case bus of None \<Rightarrow> (st2, Ret ())
                  | Some (b, busConfig) \<Rightarrow>
                      (case handleQuoteBusPublishing ovf env quote b busConfig runID (qo_Preview qc) st2 of
                        (st3, r3) \<Rightarrow> (st3, reformat (ce_text env) ''bus publishing failed: %v'' r3)))
               (\<lambda>st4. if qo_Out qc \<noteq> [] \<and> qo_OutDir qc \<noteq> []
                  then (case handleQuoteLocalExport env ticker (qo_Out qc) (qo_OutDir qc) st4 of
                    (st5, r5) \<Rightarrow> (st5, reformat (ce_text env) ''local export failed: %v'' r5))
                  else (st4, Ret ())) (printQuotePreview quote st0)))"

definition processFundamentals :: "(f64 \<Rightarrow> int) \<Rightarrow> ('u, 's, 'b, 'ts) cli_env \<Rightarrow> string \<Rightarrow> string \<Rightarrow> ('s, 'b) action" where
  "processFundamentals ovf env ticker runID st =
     (case FetchFundamentalsQuarterly ovf (ce_market env) ticker runID (ci_client st, ci_net st) of
        ((c, net), r) \<Rightarrow>
          let st0 = st\<lparr>ci_client := c, ci_net := net\<rparr> in
          (case r of Ret f \<Rightarrow> (printFundamentalsPreview f st0, Ret ()) | Err e \<Rightarrow> (st0, Err e) | Panic p \<Rightarrow> (st0, Panic p)))"

section \<open>Commands\<close>

text \<open>The symbols in turn: a failing one is reported and skipped, the others are counted.\<close>

fun process_all :: "text_lib \<Rightarrow> string \<Rightarrow> (string \<Rightarrow> ('s, 'b) action) \<Rightarrow> string list \<Rightarrow> nat \<Rightarrow> ('s, 'b) cli \<Rightarrow> ('s, 'b) cli \<times> nat go" where
  "process_all tx msg process [] n st = (st, Ret n)"
| "process_all tx msg process (x # xs) n st =
     (case process x st of
        (st1, Panic p) \<Rightarrow> (st1, Panic p)
      | (st1, Err e) \<Rightarrow> process_all tx msg process xs n (complain msg [AStr x, AStr (error_text tx e)] st1)
      | (st1, Ret _) \<Rightarrow> process_all tx msg process xs (Suc n) st1)"

definition report :: "string \<Rightarrow> string \<Rightarrow> nat \<Rightarrow> ('s, 'b) cli \<times> nat go \<Rightarrow> ('s, 'b) cli \<times> exit" where
  "report none_msg ok_msg wanted = (\<lambda>(st, r). case r of
      Err e \<Rightarrow> (st, Done (Some e))
    | Panic p \<Rightarrow> (st, Crash p)
    | Ret n \<Rightarrow> if n = 0 then (complain none_msg [] st, Exit ExitGeneral)
        else (say ok_msg [AInt (int n), AInt (int wanted)] st, Done None))"

definition run_id :: "('u, 's, 'b, 'ts) cli_env \<Rightarrow> ('s, 'b) cli \<Rightarrow> string" where
  "run_id env st = (if ce_RunID env = [] then ''yfin_'' @ show_int (time_unix (cli_now env st)) else ce_RunID env)"

text \<open>The bus of a command, when it needs one; \<open>k\<close> goes on with it, and the bus is closed by a deferred call.\<close>

definition close_bus :: "('u, 's, 'b, 'ts) cli_env \<Rightarrow> Bus \<Rightarrow> ('s, 'b) cli \<Rightarrow> ('s, 'b) cli" where
  "close_bus env b st =
     (case Bus_Close (ce_close env) b (ci_breaker st, w_bus (ci_world st)) of
        ((cb, s), _) \<Rightarrow> st\<lparr>ci_breaker := cb, ci_world := (ci_world st)\<lparr>w_bus := s\<rparr>\<rparr>)"

definition with_bus ::
  "('u, 's, 'b, 'ts) cli_env \<Rightarrow> bool \<Rightarrow> string \<Rightarrow> string \<Rightarrow> ('s, 'b) cli \<Rightarrow>
   ((Bus \<times> Config) option \<Rightarrow> ('s, 'b) cli \<Rightarrow> (('s, 'b) cli \<times> exit) option) \<Rightarrow> (('s, 'b) cli \<times> exit) option" where
  "with_bus env needed bus_env topicPrefix st k =
     (if \<not> needed then k None st
      else Option.bind (createBusConfig env bus_env topicPrefix) (\<lambda>rc.
        or_exit (ce_text env) ExitGeneral ''ERROR: Failed to create bus: %v''
          (go_bind rc (\<lambda>busConfig. go_bind (NewBus (ce_connect env) (Some busConfig)) (\<lambda>made. Ret (busConfig, made)))) st
          (\<lambda>(busConfig, b, cb, s).
            deferred (close_bus env b) (k (Some (b, busConfig)) (case s of None \<Rightarrow> st\<lparr>ci_breaker := cb\<rparr>
              | Some s \<Rightarrow> st\<lparr>ci_breaker := cb, ci_world := \<lparr>w_built = 0, w_bus = s\<rparr>\<rparr>)))))"

definition having_client ::
  "(f64 \<Rightarrow> int) \<Rightarrow> ('u, 's, 'b, 'ts) cli_env \<Rightarrow> ('s, 'b) cli \<Rightarrow> (('s, 'b) cli \<Rightarrow> (('s, 'b) cli \<times> exit) option) \<Rightarrow>
   (('s, 'b) cli \<times> exit) option" where
  "having_client ovf env st k =
     Option.bind (cli_createClient ovf env (cli_now env st)) (\<lambda>r.
       or_exit (ce_text env) ExitGeneral ''ERROR: Failed to create client: %v'' r st
         (\<lambda>(client, http). k (st\<lparr>ci_client := client, ci_net := (http, snd (ci_net st))\<rparr>)))"

definition runPull :: "(f64 \<Rightarrow> int) \<Rightarrow> ('u, 's, 'b, 'ts) cli_env \<Rightarrow> PullConfig \<Rightarrow> ('s, 'b) cli \<Rightarrow> (('s, 'b) cli \<times> exit) option" where
  "runPull ovf env pc st =
     or_exit (ce_text env) ExitConfigError ''ERROR: %v'' (validatePullFlags pc) st (\<lambda>_.
     let runID = run_id env st in
     or_exit (ce_text env) ExitConfigError ''ERROR: Invalid date format: %v'' (parseDates (ce_bad_date env) (pl_Start pc) (pl_End pc)) st (\<lambda>(start, end_t).
     or_exit (ce_text env) ExitConfigError ''ERROR: Invalid adjusted value: %v'' (parseAdjusted (pl_Adjusted pc)) st (\<lambda>adjusted.
     Option.bind (load env (ce_ConfigFile env)) (\<lambda>r.
     or_exit (ce_text env) ExitConfigError ''ERROR: Failed to load configuration: %v'' r st (\<lambda>cfg.
     or_exit (ce_text env) ExitConfigError ''ERROR: %v'' (ValidateInterval cfg ''1d'') st (\<lambda>_.
     with_obsv env cfg st (\<lambda>st0.
     or_exit (ce_text env) ExitConfigError ''ERROR: Failed to get symbols: %v''
       (getSymbols (ce_text env) (ce_read_file env) (pl_Ticker pc) (pl_UniverseFile pc)) st0 (\<lambda>symbols.
     having_client ovf env st0 (\<lambda>st1.
     with_bus env (pl_Publish pc \<or> pl_Preview pc \<or> pl_DryRunPublish pc) (pl_Env pc) (pl_TopicPrefix pc) st1 (\<lambda>bus st2.
       Some (report ''ERROR: No symbols processed successfully'' ''Successfully processed %d/%d symbols'' (length symbols)
         (process_all (ce_text env) ''ERROR: Failed to process %s: %v''
           (processSymbol ovf env pc start end_t adjusted runID bus) symbols 0 st2))))))))))))"

definition runQuote :: "(f64 \<Rightarrow> int) \<Rightarrow> ('u, 's, 'b, 'ts) cli_env \<Rightarrow> QuoteConfig \<Rightarrow> ('s, 'b) cli \<Rightarrow> (('s, 'b) cli \<times> exit) option" where
  "runQuote ovf env qc st =
     or_exit (ce_text env) ExitConfigError ''ERROR: %v'' (validateQuoteFlags qc) st (\<lambda>_.
     let runID = run_id env st; tickers = map TrimSpace (split_char CHR '','' (qo_Tickers qc)) in
     having_client ovf env st (\<lambda>st1.
     with_bus env (qo_Publish qc \<or> qo_Preview qc) (qo_Env qc) (qo_TopicPrefix qc) st1 (\<lambda>bus st2.
       Some (report ''ERROR: No quotes processed successfully'' ''Successfully processed %d/%d quotes'' (length tickers)
         (process_all (ce_text env) ''ERROR: Failed to process quote for %s: %v'' (processQuote ovf env qc runID bus) tickers 0 st2)))))"

definition runFundamentals ::
  "(f64 \<Rightarrow> int) \<Rightarrow> ('u, 's, 'b, 'ts) cli_env \<Rightarrow> FundamentalsConfig \<Rightarrow> ('s, 'b) cli \<Rightarrow> (('s, 'b) cli \<times> exit) option" where
  "runFundamentals ovf env fc st =
     or_exit (ce_text env) ExitConfigError ''ERROR: %v'' (validateFundamentalsFlags fc) st (\<lambda>_.
     let runID = run_id env st in
     having_client ovf env st (\<lambda>st1.
       Some (case processFundamentals ovf env (fu_Ticker fc) runID st1 of
          (st2, Ret _) \<Rightarrow> (st2, Done None)
        | (st2, Panic p) \<Rightarrow> (st2, Crash p)
        | (st2, Err e) \<Rightarrow>
            if isPaidFeatureError (ce_text env) (Some e)
            then (complain ''ERROR: %v'' [AStr (error_text (ce_text env) e)] st2, Exit ExitPaidFeature)
            else (complain ''ERROR: Failed to process fundamentals for %s: %v'' [AStr (fu_Ticker fc), AStr (error_text (ce_text env) e)] st2,
              Exit ExitGeneral))))"

section \<open>Previews send nothing\<close>

definition keeps_bus :: "('s, 'b) cli \<Rightarrow> ('s, 'b) cli \<Rightarrow> bool" where
  "keeps_bus st st' \<longleftrightarrow> w_bus (ci_world st') = w_bus (ci_world st) \<and> ci_breaker st' = ci_breaker st"

lemma keeps_refl [simp]: "keeps_bus st st"
  by (simp add: keeps_bus_def)

lemma keeps_trans: "keeps_bus st st1 \<Longrightarrow> keeps_bus st1 st2 \<Longrightarrow> keeps_bus st st2"
  by (simp add: keeps_bus_def)

lemma keeps_say [simp]: "keeps_bus st (say f xs st') \<longleftrightarrow> keeps_bus st st'" "keeps_bus st (complain f xs st') \<longleftrightarrow> keeps_bus st st'"
  by (simp_all add: keeps_bus_def say_def complain_def)

lemma keeps_fields [simp]:
  "keeps_bus st (st'\<lparr>ci_client := c\<rparr>) \<longleftrightarrow> keeps_bus st st'" "keeps_bus st (st'\<lparr>ci_net := n\<rparr>) \<longleftrightarrow> keeps_bus st st'"
  "keeps_bus st (st'\<lparr>ci_files := fs\<rparr>) \<longleftrightarrow> keeps_bus st st'"
  "keeps_bus st (st'\<lparr>ci_world := (ci_world st')\<lparr>w_built := k\<rparr>\<rparr>) \<longleftrightarrow> keeps_bus st st'"
  by (simp_all add: keeps_bus_def)

definition quiet :: "(('s, 'b) cli \<Rightarrow> ('s, 'b) cli \<times> 'r) \<Rightarrow> bool" where
  "quiet f \<longleftrightarrow> (\<forall>st. keeps_bus st (fst (f st)))"

lemma quietI: "(\<And>st. keeps_bus st (fst (f st))) \<Longrightarrow> quiet f"
  by (simp add: quiet_def)

lemma quietD: "quiet f \<Longrightarrow> f st = (st', r) \<Longrightarrow> keeps_bus st st'"
  unfolding quiet_def by (metis fst_conv)

lemma keeps_step: "keeps_bus st st1 \<Longrightarrow> quiet g \<Longrightarrow> keeps_bus st (fst (g st1))"
  unfolding quiet_def by (metis keeps_trans)

lemma quiet_and_then: "quiet f \<Longrightarrow> quiet g \<Longrightarrow> quiet (and_then f g)"
  by (rule quietI) (auto simp: and_then_def split: prod.splits go.splits dest: quietD intro: keeps_step)

lemma printing_keeps: "(\<And>st'. f st = Ret st' \<Longrightarrow> keeps_bus st st') \<Longrightarrow> keeps_bus st (fst (printing f st))"
  by (auto simp: printing_def split: go.splits)

lemma quiet_printing: "(\<And>st st'. f st = Ret st' \<Longrightarrow> keeps_bus st st') \<Longrightarrow> quiet (printing f)"
  by (rule quietI) (rule printing_keeps)

lemma PrintPreview_keeps: "PrintPreview s st = Ret st' \<Longrightarrow> keeps_bus st st'"
  by (auto simp: PrintPreview_def Let_def split: if_splits)

lemma printBarsPreview_keeps: "printBarsPreview bars runID e t st = Ret st' \<Longrightarrow> keeps_bus st st'"
  by (auto simp: printBarsPreview_def Let_def split: if_splits)

lemma handleFXPreview_keeps: "handleFXPreview now bars cur st = Ret st' \<Longrightarrow> keeps_bus st st'"
  by (auto simp: handleFXPreview_def split: list.splits if_splits)

lemma PrintPreview_printing: "keeps_bus st (fst (printing (PrintPreview s) (st\<lparr>ci_world := (ci_world st)\<lparr>w_built := k\<rparr>\<rparr>)))"
  by (rule keeps_step [OF _ quiet_printing [OF PrintPreview_keeps]]) simp

lemma quiet_bars_preview: "quiet (handleBusPublishing ovf env bars b cfg runID True)"
  by (rule quietI) (auto simp: handleBusPublishing_def Let_def PrintPreview_printing split: go.splits)

lemma quiet_quote_preview: "quiet (handleQuoteBusPublishing ovf env quote b cfg runID True)"
  by (rule quietI) (auto simp: handleQuoteBusPublishing_def Let_def PrintPreview_printing split: go.splits)

lemma quiet_export: "quiet (export_file env outDir sub noun filename outFormat unsupported)"
  by (rule quietI) (simp add: export_file_def Let_def split: option.splits)

lemma quiet_case: "quiet f \<Longrightarrow> quiet (\<lambda>st. case f st of (st', r) \<Rightarrow> (st', g r))"
  by (rule quietI) (auto split: prod.splits dest: quietD)

lemma quiet_skip: "quiet (\<lambda>st. (st, r))"
  by (simp add: quiet_def)

lemma quiet_processSymbol:
  assumes "pl_Preview pc \<or> pl_DryRunPublish pc"
  shows "quiet (processSymbol ovf env pc start end_t adjusted runID bus symbol)"
proof -
  have fx: "quiet (\<lambda>st1. if pl_FXTarget pc = [] then (st1, Ret ()) else printing (handleFXPreview (cli_now env st1) bars (pl_FXTarget pc)) st1)" for bars
    by (rule quietI) (simp add: printing_keeps [OF handleFXPreview_keeps])
  have bus: "quiet (\<lambda>st2. case bus of None \<Rightarrow> (st2, Ret ())
      | Some (b, busConfig) \<Rightarrow> (case handleBusPublishing ovf env bars b busConfig runID (pl_Preview pc \<or> pl_DryRunPublish pc) st2 of
          (st3, r3) \<Rightarrow> (st3, reformat (ce_text env) ''bus publishing failed: %v'' r3)))" for bars
    using quiet_case [OF quiet_bars_preview] assms by (cases bus) (auto simp: quiet_skip)
  have out: "quiet (\<lambda>st4. if pl_Out pc \<noteq> [] \<and> pl_OutDir pc \<noteq> []
      then (case handleLocalExport env symbol start end_t adjusted (pl_Out pc) (pl_OutDir pc) st4 of
        (st5, r5) \<Rightarrow> (st5, reformat (ce_text env) ''local export failed: %v'' r5))
      else (st4, Ret ()))"
    by (rule quietI) (auto simp: handleLocalExport_def split: prod.splits dest: quietD [OF quiet_export])
  note q = quiet_and_then [OF quiet_printing [OF printBarsPreview_keeps] quiet_and_then [OF fx quiet_and_then [OF bus out]]]
  show ?thesis
    by (rule quietI)
      (auto simp: processSymbol_def Let_def split: prod.splits go.splits intro: keeps_step [OF _ q])
qed

lemma quiet_processQuote:
  assumes "qo_Preview qc"
  shows "quiet (processQuote ovf env qc runID bus ticker)"
proof -
  have bus: "quiet (\<lambda>st2. case bus of None \<Rightarrow> (st2, Ret ())
      | Some (b, busConfig) \<Rightarrow> (case handleQuoteBusPublishing ovf env quote b busConfig runID (qo_Preview qc) st2 of
          (st3, r3) \<Rightarrow> (st3, reformat (ce_text env) ''bus publishing failed: %v'' r3)))" for quote
    using quiet_case [OF quiet_quote_preview] assms by (cases bus) (auto simp: quiet_skip)
  have out: "quiet (\<lambda>st4. if qo_Out qc \<noteq> [] \<and> qo_OutDir qc \<noteq> []
      then (case handleQuoteLocalExport env ticker (qo_Out qc) (qo_OutDir qc) st4 of
        (st5, r5) \<Rightarrow> (st5, reformat (ce_text env) ''local export failed: %v'' r5))
      else (st4, Ret ()))"
    by (rule quietI) (auto simp: handleQuoteLocalExport_def split: prod.splits dest: quietD [OF quiet_export])
  note q = quiet_and_then [OF bus out]
  show ?thesis
    by (rule quietI)
      (auto simp: processQuote_def printQuotePreview_def Let_def split: prod.splits go.splits
        intro: keeps_step [OF _ q])
qed

lemma quiet_process_all:
  assumes "\<And>x. quiet (process x)"
  shows "quiet (process_all tx msg process xs n)"
proof (induction xs arbitrary: n)
  case (Cons x xs)
  show ?case
  proof (rule quietI)
    fix st
    obtain st1 r where p: "process x st = (st1, r)" by (cases "process x st")
    then have "keeps_bus st st1" using quietD [OF assms] by blast
    then show "keeps_bus st (fst (process_all tx msg process (x # xs) n st))"
      using keeps_step [OF _ Cons.IH] by (cases r) (simp_all add: p)
  qed
qed (simp add: quiet_def)

text \<open>
  What a command may leave in the transport and the breaker: what was there, or what connecting gave, closed unless the command
  left by \<^verbatim>\<open>os.Exit\<close>.
\<close>

definition unsent :: "('u, 's, 'b, 'ts) cli_env \<Rightarrow> ('s, 'b) cli \<Rightarrow> (('s, 'b) cli \<times> exit) option \<Rightarrow> bool" where
  "unsent env st r =
     (case r of None \<Rightarrow> True
      | Some (st', e) \<Rightarrow> keeps_bus st st' \<or>
          (\<exists>nb b. ce_connect env nb = Ret b \<and> ci_breaker st' = NewCircuitBreaker \<and>
             w_bus (ci_world st') = (case e of Exit _ \<Rightarrow> b | _ \<Rightarrow> ce_close env b)))"

definition quiet_end :: "('s, 'b) cli \<Rightarrow> (('s, 'b) cli \<times> exit) option \<Rightarrow> bool" where
  "quiet_end st r = (case r of None \<Rightarrow> True | Some (st', _) \<Rightarrow> keeps_bus st st')"

lemma quiet_unsent: "quiet_end st r \<Longrightarrow> unsent env st r"
  by (auto simp: quiet_end_def unsent_def split: option.splits)

lemma unsent_later: "keeps_bus st st1 \<Longrightarrow> unsent env st1 r \<Longrightarrow> unsent env st r"
  by (auto simp: unsent_def keeps_bus_def split: option.splits)

lemma unsent_or_exit:
  assumes "keeps_bus st st1" "\<And>x. r = Ret x \<Longrightarrow> unsent env st (k x)"
  shows "unsent env st (or_exit tx code msg r st1 k)"
  using assms by (auto simp: or_exit_def unsent_def split: go.splits)

lemma unsent_bind: "(\<And>x. m = Some x \<Longrightarrow> unsent env st (k x)) \<Longrightarrow> unsent env st (Option.bind m k)"
  by (cases m) (simp_all add: unsent_def)

lemma unsent_deferred: "(\<And>st'. keeps_bus st' (f st')) \<Longrightarrow> unsent env st r \<Longrightarrow> unsent env st (deferred f r)"
  by (auto simp: unsent_def deferred_def keeps_bus_def split: option.splits exit.splits)

lemma unsent_obsv:
  assumes "\<And>st1. keeps_bus st st1 \<Longrightarrow> unsent env st (k st1)"
  shows "unsent env st (with_obsv env cfg st k)"
  unfolding with_obsv_def by (intro unsent_or_exit unsent_deferred assms) (simp_all add: keeps_bus_def)

lemma unsent_client:
  assumes "keeps_bus st st0" "\<And>st1. keeps_bus st st1 \<Longrightarrow> unsent env st (k st1)"
  shows "unsent env st (having_client ovf env st0 k)"
  unfolding having_client_def
  by (rule unsent_bind, rule unsent_or_exit) (auto simp: assms(1) intro!: assms(2))

lemma bus_configs_enabled [simp]: "c_Enabled (fallback_bus_config bus_env topic)" "c_Enabled (bus_config_of bus_env topic cfg)"
  by (simp_all add: fallback_bus_config_def bus_config_of_def Let_def)

lemma createBusConfig_enabled:
  assumes "createBusConfig env bus_env topic = Some (Ret c)"
  shows "c_Enabled c"
proof -
  obtain r where "load env (effectivePath env) = Some r" using assms by (auto simp: createBusConfig_def)
  then show ?thesis using assms by (cases r) (auto simp: createBusConfig_def)
qed

lemma NewBus_connected:
  "NewBus connect (Some c) = Ret (b, cb, s) \<Longrightarrow> c_Enabled c \<Longrightarrow> \<exists>nb s'. connect nb = Ret s' \<and> s = Some s' \<and> cb = NewCircuitBreaker"
  by (auto simp: NewBus_def NewBusPublisher_def createNATSBus_def go_bind_eq_Ret Let_def split: if_splits)

lemma NewBus_publisher: "NewBus connect (Some c) = Ret (b, cb, s) \<Longrightarrow> c_Enabled c \<Longrightarrow> b_publisher b \<noteq> None"
  by (auto simp: NewBus_def go_bind_eq_Ret Let_def split: if_splits)

text \<open>A command that does nothing to the bus it made.\<close>

lemma unsent_closed:
  assumes "ce_connect env nb = Ret s" "b_publisher b \<noteq> None" "w_bus (ci_world st1) = s" "ci_breaker st1 = NewCircuitBreaker" "quiet_end st1 r"
  shows "unsent env st (deferred (close_bus env b) r)"
proof (cases r)
  case (Some x)
  obtain st2 e where x: "x = (st2, e)" by (cases x)
  have "w_bus (ci_world st2) = s" "ci_breaker st2 = NewCircuitBreaker"
    using assms(3-5) by (simp_all add: Some x quiet_end_def keeps_bus_def)
  then show ?thesis using assms(1,2)
    by (cases e) (auto simp: Some x deferred_def unsent_def close_bus_def Bus_Close_def publisher_Close_def
        intro!: disjI2 exI [of _ nb] exI [of _ s])
qed (simp add: deferred_def unsent_def)

lemma unsent_bus:
  assumes "keeps_bus st st1" "\<And>bus st2. quiet_end st2 (k bus st2)"
  shows "unsent env st (with_bus env needed bus_env topic st1 k)"
proof (cases needed)
  case False
  then show ?thesis using unsent_later [OF assms(1) quiet_unsent [OF assms(2)]] by (simp add: with_bus_def)
next
  case True
  have made: "unsent env st (case x of (busConfig, b, cb, s) \<Rightarrow> deferred (close_bus env b) (k (Some (b, busConfig)) (case s of None \<Rightarrow> st1\<lparr>ci_breaker := cb\<rparr>
      | Some s \<Rightarrow> st1\<lparr>ci_breaker := cb, ci_world := \<lparr>w_built = 0, w_bus = s\<rparr>\<rparr>)))"
    if rc: "createBusConfig env bus_env topic = Some rc"
      and x: "go_bind rc (\<lambda>busConfig. go_bind (NewBus (ce_connect env) (Some busConfig)) (\<lambda>made. Ret (busConfig, made))) = Ret x" for rc x
  proof -
    obtain c b cb s where c: "rc = Ret c" "NewBus (ce_connect env) (Some c) = Ret (b, cb, s)" "x = (c, b, cb, s)"
      using x by (auto simp: go_bind_eq_Ret)
    have e: "c_Enabled c" using rc c(1) createBusConfig_enabled by blast
    obtain nb s' where n: "ce_connect env nb = Ret s'" "s = Some s'" "cb = NewCircuitBreaker" using NewBus_connected [OF c(2) e] by blast
    have "unsent env st (deferred (close_bus env b) (k (Some (b, c)) (st1\<lparr>ci_breaker := cb, ci_world := \<lparr>w_built = 0, w_bus = s'\<rparr>\<rparr>)))"
      by (rule unsent_closed [OF n(1) NewBus_publisher [OF c(2) e] _ _ assms(2)]) (simp_all add: n(3))
    then show ?thesis using c(3) n(2) by simp
  qed
  show ?thesis
    unfolding with_bus_def using True assms(1) made by (auto intro!: unsent_bind unsent_or_exit)
qed

lemma quiet_report: "quiet f \<Longrightarrow> quiet_end st (Some (report none_msg ok_msg wanted (f st)))"
  by (cases "f st") (auto simp: quiet_end_def report_def dest: quietD split: go.splits)

lemma unsent_runPull:
  assumes "pl_Preview pc \<or> pl_DryRunPublish pc"
  shows "unsent env st (runPull ovf env pc st)"
  unfolding runPull_def Let_def
  by (auto split: prod.splits intro!: unsent_or_exit unsent_bind unsent_obsv unsent_client unsent_bus quiet_report quiet_process_all
      quiet_processSymbol assms)

lemma unsent_runQuote: "qo_Preview qc \<Longrightarrow> unsent env st (runQuote ovf env qc st)"
  unfolding runQuote_def Let_def
  by (auto intro!: unsent_or_exit unsent_client unsent_bus quiet_report quiet_process_all quiet_processQuote)

section \<open>How a pull ends\<close>

text \<open>The errors a pull finds before it makes a client: those of the flags, the configuration, the observability and the symbols.\<close>

definition pull_refused :: "('u, 's, 'b, 'ts) cli_env \<Rightarrow> PullConfig \<Rightarrow> bool" where
  "pull_refused env pc \<longleftrightarrow> \<not> (
     is_ret (validatePullFlags pc) \<and> is_ret (parseDates (ce_bad_date env) (pl_Start pc) (pl_End pc)) \<and> is_ret (parseAdjusted (pl_Adjusted pc)) \<and>
     (case load env (ce_ConfigFile env) of
        None \<Rightarrow> True
      | Some (Ret cfg) \<Rightarrow> is_ret (ValidateInterval cfg ''1d'') \<and> ce_obsv env cfg = None \<and>
          is_ret (getSymbols (ce_text env) (ce_read_file env) (pl_Ticker pc) (pl_UniverseFile pc))
      | Some _ \<Rightarrow> False))"

text \<open>Nothing but a line of the error, and nothing printed, written, sent to the bus or requested.\<close>

definition untouched :: "('s, 'b) cli \<Rightarrow> ('s, 'b) cli \<Rightarrow> bool" where
  "untouched st st' \<longleftrightarrow> st' = st\<lparr>ci_err := ci_err st', ci_obsv := ci_obsv st'\<rparr>"

definition unrequested :: "('s, 'b) cli \<Rightarrow> ('s, 'b) cli \<Rightarrow> bool" where
  "unrequested st st' \<longleftrightarrow> (\<exists>l. ci_err st' = ci_err st @ [l]) \<and> ci_out st' = ci_out st \<and> ci_files st' = ci_files st \<and>
     ci_world st' = ci_world st \<and> snd (ci_net st') = snd (ci_net st)"

definition refused_ends :: "('u, 's, 'b, 'ts) cli_env \<Rightarrow> PullConfig \<Rightarrow> ('s, 'b) cli \<Rightarrow> (('s, 'b) cli \<times> exit) option \<Rightarrow> bool" where
  "refused_ends env pc st r =
     (case r of None \<Rightarrow> False
      | Some (st', Done e) \<Rightarrow> False
      | Some (st', Exit code) \<Rightarrow> code = ExitConfigError \<and> untouched st st' \<and> (\<exists>l. ci_err st' = ci_err st @ [l])
      | Some (st', Crash p) \<Rightarrow> untouched st st' \<and> ci_err st' = ci_err st \<and>
          (load env (ce_ConfigFile env) = Some (Panic p) \<or> ce_read_file env (pl_UniverseFile pc) = Panic p))"

definition accepted_ends ::
  "(f64 \<Rightarrow> int) \<Rightarrow> ('u, 's, 'b, 'ts) cli_env \<Rightarrow> PullConfig \<Rightarrow> string list \<Rightarrow> ('s, 'b) cli \<Rightarrow> (('s, 'b) cli \<times> exit) option \<Rightarrow> bool" where
  "accepted_ends ovf env pc symbols st r =
     (case r of None \<Rightarrow> load env (effectivePath env) = None
      | Some (st', Done e) \<Rightarrow> e = None \<and> (\<exists>n. 1 \<le> n \<and> n \<le> length symbols \<and>
          List.last (ci_out st') = (''Successfully processed %d/%d symbols'', [AInt (int n), AInt (int (length symbols))]))
      | Some (st', Exit code) \<Rightarrow> code = ExitGeneral \<and>
          (List.last (ci_err st') = (''ERROR: No symbols processed successfully'', []) \<or> unrequested st st')
      | Some (st', Crash p) \<Rightarrow> load env (effectivePath env) = Some (Panic p) \<or> (\<exists>nb. ce_connect env nb = Panic p) \<or>
          (\<exists>start end_t adjusted runID bus st1. \<exists>symbol \<in> set symbols.
             snd (processSymbol ovf env pc start end_t adjusted runID bus symbol st1) = Panic p))"

definition pull_ends ::
  "(f64 \<Rightarrow> int) \<Rightarrow> ('u, 's, 'b, 'ts) cli_env \<Rightarrow> PullConfig \<Rightarrow> ('s, 'b) cli \<Rightarrow> (('s, 'b) cli \<times> exit) option \<Rightarrow> bool" where
  "pull_ends ovf env pc st r =
     (if pull_refused env pc then refused_ends env pc st r
      else r = None \<and> load env (ce_ConfigFile env) = None \<or>
        (\<exists>symbols. getSymbols (ce_text env) (ce_read_file env) (pl_Ticker pc) (pl_UniverseFile pc) = Ret symbols \<and>
           accepted_ends ovf env pc symbols st r))"

lemma checks_no_Panic:
  "validatePullFlags pc \<noteq> Panic p" "parseDates bad x y \<noteq> Panic p" "parseAdjusted a \<noteq> Panic p" "ValidateInterval cfg i \<noteq> Panic p"
  by (auto simp: validatePullFlags_def parseDates_def parseAdjusted_def ValidateInterval_def go_bind_eq_Panic split: option.splits)

lemma getSymbols_Panic: "getSymbols tx read_file ticker universe = Panic p \<Longrightarrow> read_file universe = Panic p"
  by (auto simp: getSymbols_def Let_def split: if_splits go.splits)

lemma refused_or_exit:
  assumes "code = ExitConfigError" "untouched st st1" "ci_err st1 = ci_err st"
    "\<And>p. r = Panic p \<Longrightarrow> load env (ce_ConfigFile env) = Some (Panic p) \<or> ce_read_file env (pl_UniverseFile pc) = Panic p"
    "\<And>x. r = Ret x \<Longrightarrow> refused_ends env pc st (k x)"
  shows "refused_ends env pc st (or_exit tx code msg r st1 k)"
proof -
  obtain b where "st1 = st\<lparr>ci_obsv := b\<rparr>" using assms(2,3) by (simp add: untouched_def)
  then show ?thesis using assms(1,4,5) by (cases r) (simp_all add: or_exit_def refused_ends_def untouched_def complain_def)
qed

lemma untouched_obsv: "untouched st st1 \<Longrightarrow> untouched st (st1\<lparr>ci_obsv := b\<rparr>)"
  by (cases st; cases st1) (simp add: untouched_def)

lemma refused_deferred: "refused_ends env pc st r \<Longrightarrow> refused_ends env pc st (deferred (\<lambda>st. st\<lparr>ci_obsv := b\<rparr>) r)"
  by (auto simp: refused_ends_def deferred_def untouched_obsv split: option.splits exit.splits)

lemma runPull_refused:
  assumes "pull_refused env pc"
  shows "refused_ends env pc st (runPull ovf env pc st)"
proof -
  have u: "untouched st st" "untouched st (st\<lparr>ci_obsv := True\<rparr>)" by (simp_all add: untouched_def)
  have last: "refused_ends env pc st (or_exit tx ExitConfigError msg
      (getSymbols (ce_text env) (ce_read_file env) (pl_Ticker pc) (pl_UniverseFile pc)) (st\<lparr>ci_obsv := True\<rparr>) k)"
    if "validatePullFlags pc = Ret v" "parseDates (ce_bad_date env) (pl_Start pc) (pl_End pc) = Ret d" "parseAdjusted (pl_Adjusted pc) = Ret a"
      "load env (ce_ConfigFile env) = Some (Ret cfg)" "ValidateInterval cfg ''1d'' = Ret w" "ce_obsv env cfg = None" for v d a cfg w tx msg k
    using assms that
    by (intro refused_or_exit u refl) (auto simp: pull_refused_def getSymbols_Panic)
  have init: "refused_ends env pc st (with_obsv env cfg st (\<lambda>st0. or_exit tx ExitConfigError msg
      (getSymbols (ce_text env) (ce_read_file env) (pl_Ticker pc) (pl_UniverseFile pc)) st0 (k st0)))"
    if "validatePullFlags pc = Ret v" "parseDates (ce_bad_date env) (pl_Start pc) (pl_End pc) = Ret d" "parseAdjusted (pl_Adjusted pc) = Ret a"
      "load env (ce_ConfigFile env) = Some (Ret cfg)" "ValidateInterval cfg ''1d'' = Ret w" for v d a cfg w tx msg k
    unfolding with_obsv_def
    by (rule refused_or_exit [OF refl u(1) refl]) (auto split: option.splits intro!: refused_deferred last [OF that])
  show ?thesis
    unfolding runPull_def Let_def
    by (intro refused_or_exit u refl)
      (use assms in \<open>auto simp: checks_no_Panic pull_refused_def [of env pc] split: prod.splits option.splits
        intro!: refused_or_exit u refl init\<close>)
qed

lemma accepted_deferred:
  assumes "\<And>st'. ci_out (f st') = ci_out st'" "accepted_ends ovf env pc symbols st r"
  shows "accepted_ends ovf env pc symbols st (deferred f r)"
  using assms by (auto simp: accepted_ends_def deferred_def split: option.splits exit.splits)

lemma accepted_or_exit:
  assumes "code = ExitGeneral" "\<And>f xs. unrequested st (complain f xs st1)"
    "\<And>p. r = Panic p \<Longrightarrow> load env (effectivePath env) = Some (Panic p) \<or> (\<exists>nb. ce_connect env nb = Panic p)"
    "\<And>x. r = Ret x \<Longrightarrow> accepted_ends ovf env pc symbols st (k x)"
  shows "accepted_ends ovf env pc symbols st (or_exit tx code msg r st1 k)"
  using assms by (auto simp: or_exit_def accepted_ends_def split: go.splits)

lemma accepted_bind:
  assumes "m = None \<Longrightarrow> load env (effectivePath env) = None" "\<And>x. m = Some x \<Longrightarrow> accepted_ends ovf env pc symbols st (k x)"
  shows "accepted_ends ovf env pc symbols st (Option.bind m k)"
  using assms by (cases m) (simp_all add: accepted_ends_def)

text \<open>The same up to the fields that making a client and starting the observability write.\<close>

definition prepared :: "('s, 'b) cli \<Rightarrow> ('s, 'b) cli \<Rightarrow> bool" where
  "prepared st st1 \<longleftrightarrow> ci_err st1 = ci_err st \<and> ci_out st1 = ci_out st \<and> ci_files st1 = ci_files st \<and> ci_world st1 = ci_world st \<and>
     snd (ci_net st1) = snd (ci_net st)"

lemma prepared_complains: "prepared st st1 \<Longrightarrow> unrequested st (complain f xs st1)"
  by (simp add: prepared_def unrequested_def complain_def)

lemma accepted_client:
  assumes "prepared st st0" "\<And>st1. prepared st st1 \<Longrightarrow> accepted_ends ovf env pc symbols st (k st1)"
  shows "accepted_ends ovf env pc symbols st (having_client ovf env st0 k)"
  unfolding having_client_def
proof (intro accepted_bind accepted_or_exit prepared_complains assms(1) refl)
  show "load env (effectivePath env) = None" if "cli_createClient ovf env (cli_now env st0) = None"
    using that by (simp add: cli_createClient_def)
  show "load env (effectivePath env) = Some (Panic p) \<or> (\<exists>nb. ce_connect env nb = Panic p)"
    if "cli_createClient ovf env (cli_now env st0) = Some r" "r = Panic p" for r p
    using that by (auto simp: cli_createClient_def go_bind_eq_Panic)
  show "accepted_ends ovf env pc symbols st (case x of (client, http) \<Rightarrow> k (st0\<lparr>ci_client := client, ci_net := (http, snd (ci_net st0))\<rparr>))" for x
    using assms(1) by (cases x) (auto simp: prepared_def intro!: assms(2))
qed

lemma ValidateConfig_no_Panic: "ValidateConfig cfg \<noteq> Panic p"
  by (auto simp: ValidateConfig_def validatePublisherConfig_def validateNATSConfig_def validateKafkaConfig_def validateRetryConfig_def
      validateCircuitBreakerConfig_def go_bind_eq_Panic split: option.splits)

lemma NewBus_Panic: "NewBus connect (Some c) = Panic p \<Longrightarrow> \<exists>nb. connect nb = Panic p"
  by (auto simp: NewBus_def NewBusPublisher_def createNATSBus_def go_bind_eq_Panic Let_def ValidateConfig_no_Panic split: if_splits)

lemma createBusConfig_Panic: "createBusConfig env bus_env topic = Some (Panic p) \<Longrightarrow> load env (effectivePath env) = Some (Panic p)"
  by (cases "load env (effectivePath env)") (auto simp: createBusConfig_def split: go.splits)

lemma accepted_bus:
  assumes "prepared st st1" "\<And>bus st2. accepted_ends ovf env pc symbols st (k bus st2)"
  shows "accepted_ends ovf env pc symbols st (with_bus env needed bus_env topic st1 k)"
proof (cases needed)
  case True
  have "load env (effectivePath env) = Some (Panic p) \<or> (\<exists>nb. ce_connect env nb = Panic p)"
    if "createBusConfig env bus_env topic = Some rc"
      "go_bind rc (\<lambda>busConfig. go_bind (NewBus (ce_connect env) (Some busConfig)) (\<lambda>made. Ret (busConfig, made))) = Panic p" for rc p
    using that createBusConfig_Panic by (auto simp: go_bind_eq_Panic dest: NewBus_Panic)
  moreover have "createBusConfig env bus_env topic = None \<Longrightarrow> load env (effectivePath env) = None"
    by (simp add: createBusConfig_def)
  ultimately show ?thesis
    unfolding with_bus_def using True
    by (auto intro!: accepted_bind accepted_or_exit prepared_complains assms accepted_deferred
        simp: close_bus_def split: prod.splits)
qed (simp add: with_bus_def assms(2))

lemma process_all_count: "snd (process_all tx msg process xs n st) = Ret k \<Longrightarrow> n \<le> k \<and> k \<le> n + length xs"
  by (induction xs arbitrary: n st) (fastforce split: prod.splits go.splits)+

lemma process_all_no_error: "snd (process_all tx msg process xs n st) \<noteq> Err e"
  by (induction xs arbitrary: n st) (auto split: prod.splits go.splits)

lemma process_all_Panic: "snd (process_all tx msg process xs n st) = Panic p \<Longrightarrow> \<exists>x \<in> set xs. \<exists>st1. snd (process x st1) = Panic p"
proof (induction xs arbitrary: n st)
  case (Cons x xs)
  obtain st1 r where p: "process x st = (st1, r)" by fastforce
  show ?case
  proof (cases r)
    case (Panic q)
    then show ?thesis using Cons.prems p by (auto intro!: exI [of _ st])
  qed (use Cons p in auto)
qed simp

lemma accepted_report:
  "accepted_ends ovf env pc symbols st (Some (report ''ERROR: No symbols processed successfully'' ''Successfully processed %d/%d symbols''
     (length symbols) (process_all tx msg (processSymbol ovf env pc start end_t adjusted runID bus) symbols 0 st1)))"
proof -
  obtain st2 r where p: "process_all tx msg (processSymbol ovf env pc start end_t adjusted runID bus) symbols 0 st1 = (st2, r)" by fastforce
  show ?thesis
  proof (cases r)
    case (Ret k)
    then have "k \<le> length symbols" using process_all_count [of tx msg _ symbols 0 st1 k] p by (metis add_0 snd_conv)
    then show ?thesis by (auto simp: accepted_ends_def report_def p Ret say_def complain_def)
  next
    case (Err e)
    then show ?thesis using process_all_no_error [of tx msg _ symbols 0 st1 e] p by (metis snd_conv)
  next
    case (Panic q)
    then have "\<exists>symbol \<in> set symbols. \<exists>st2. snd (processSymbol ovf env pc start end_t adjusted runID bus symbol st2) = Panic q"
      by (intro process_all_Panic [of tx msg _ symbols 0 st1]) (simp add: p)
    then show ?thesis by (auto simp: accepted_ends_def report_def p Panic)
  qed
qed

lemma runPull_accepted:
  assumes "\<not> pull_refused env pc" "load env (ce_ConfigFile env) = Some (Ret cfg)"
  shows "\<exists>symbols. getSymbols (ce_text env) (ce_read_file env) (pl_Ticker pc) (pl_UniverseFile pc) = Ret symbols \<and>
    accepted_ends ovf env pc symbols st (runPull ovf env pc st)"
proof -
  obtain s e a symbols where c: "is_ret (validatePullFlags pc)" "parseDates (ce_bad_date env) (pl_Start pc) (pl_End pc) = Ret (s, e)"
      "parseAdjusted (pl_Adjusted pc) = Ret a" "is_ret (ValidateInterval cfg ''1d'')" "ce_obsv env cfg = None"
      "getSymbols (ce_text env) (ce_read_file env) (pl_Ticker pc) (pl_UniverseFile pc) = Ret symbols"
    using assms by (auto simp: pull_refused_def is_ret_conv)
  have ok: "validatePullFlags pc = Ret ()" "ValidateInterval cfg ''1d'' = Ret ()" using c(1,4) by (simp_all add: is_ret_conv)
  have p: "prepared st (st\<lparr>ci_obsv := True\<rparr>)" by (simp add: prepared_def)
  have "runPull ovf env pc st = deferred (\<lambda>st. st\<lparr>ci_obsv := False\<rparr>) (having_client ovf env (st\<lparr>ci_obsv := True\<rparr>) (\<lambda>st1.
     with_bus env (pl_Publish pc \<or> pl_Preview pc \<or> pl_DryRunPublish pc) (pl_Env pc) (pl_TopicPrefix pc) st1 (\<lambda>bus st2.
       Some (report ''ERROR: No symbols processed successfully'' ''Successfully processed %d/%d symbols'' (length symbols)
         (process_all (ce_text env) ''ERROR: Failed to process %s: %v''
           (processSymbol ovf env pc s e a (run_id env st) bus) symbols 0 st2)))))"
    by (simp add: runPull_def or_exit_def with_obsv_def ok c assms(2) Let_def)
  moreover have "accepted_ends ovf env pc symbols st \<dots>"
    by (intro accepted_deferred accepted_client [OF p] accepted_bus accepted_report) simp_all
  ultimately show ?thesis using c(6) by simp
qed

lemma runPull_ends: "pull_ends ovf env pc st (runPull ovf env pc st)"
proof (cases "pull_refused env pc")
  case True
  then show ?thesis using runPull_refused by (simp add: pull_ends_def)
next
  case False
  show ?thesis
  proof (cases "load env (ce_ConfigFile env)")
    case None
    then have "runPull ovf env pc st = None" using False by (auto simp: pull_refused_def is_ret_conv runPull_def or_exit_def)
    then show ?thesis using False None by (simp add: pull_ends_def)
  next
    case (Some r)
    then obtain cfg where "r = Ret cfg" using False by (cases r) (auto simp: pull_refused_def)
    then show ?thesis using runPull_accepted [OF False] False Some by (simp add: pull_ends_def)
  qed
qed

section \<open>Flags that were validated\<close>

lemma validated_adjusted: "validatePullFlags pc = Ret () \<Longrightarrow> is_ret (parseAdjusted (pl_Adjusted pc))"
  by (auto simp: validatePullFlags_def go_bind_eq_Ret parseAdjusted_def)

lemma parseDates_printed:
  assumes "0 \<le> time_Year s" "time_Year s \<le> 9999" "0 \<le> time_Year e" "time_Year e \<le> 9999"
  shows "parseDates bad (format_date s) (format_date e) = Ret (time_day s * day_ns, time_day e * day_ns)"
  by (simp add: parseDates_def time_Parse_format_date assms)

lemma validated_endpoints:
  "validate_endpoints endpoints = Ret () \<longleftrightarrow> (\<forall>part \<in> set (split_char CHR '','' endpoints). TrimSpace part \<in> set ([] # validEndpoints))"
  by (auto simp: validate_endpoints_def go_iter_Ret Let_def all_set_conv_all_nth)

text \<open>The client and the bus load the same file, so the bus never gets the configuration that is meant for a failed load.\<close>

lemma bus_config_after_client:
  assumes "cli_createClient ovf env now = Some (Ret c)"
  shows "\<exists>cfg. load env (effectivePath env) = Some (Ret cfg) \<and> createBusConfig env bus_env topic = Some (Ret (bus_config_of bus_env topic cfg))"
proof -
  obtain r where r: "load env (effectivePath env) = Some r" using assms by (auto simp: cli_createClient_def)
  then show ?thesis using assms by (cases r) (auto simp: cli_createClient_def createBusConfig_def)
qed

section \<open>The printed close\<close>

lemma previewed_close:
  assumes n: "0 < Scaled sd" "Scaled sd < 2 ^ 53" and s: "1 \<le> Scale sd" "Scale sd \<le> 22"
  shows "\<exists>p q. FromScaledDecimal sd = Fin p \<and> previewed sd = Fin q \<and> 0 < p \<and> 9 * p < q"
proof -
  define x where "x = rat_of_int (Scaled sd) / 10 ^ nat (Scale sd)"
  define y where "y = rat_of_int (Scaled sd) / of_int (Scale sd)"
  define m where "m = rat_of_int (Scaled sd)"
  have m: "1 \<le> m" "m < 2 ^ 53" using n by (simp_all add: m_def)
  have t: "(10 :: rat) \<le> 10 ^ nat (Scale sd)" "(10 :: rat) ^ nat (Scale sd) \<le> 10 ^ 22"
    using s power_increasing [of 1 "nat (Scale sd)" "10 :: rat"] power_increasing [of "nat (Scale sd)" 22 "10 :: rat"] by auto
  have "10 * rat_of_nat k \<le> 10 ^ k" if "1 \<le> k" for k :: nat
    using that by (induction k rule: dec_induct) auto
  from this [of "nat (Scale sd)"] have ts: "10 * rat_of_int (Scale sd) \<le> 10 ^ nat (Scale sd)" using s by simp
  have f: "FromScaledDecimal sd = fl x" "previewed sd = fl y"
    using n s math_Pow10 [of "Scale sd"] by (simp_all add: FromScaledDecimal_def previewed_def f_of_int_small x_def y_def)
  have pos: "0 < x" "0 < y" using n s by (simp_all add: x_def y_def)
  have "m / 10 ^ nat (Scale sd) \<le> m / (10 * of_int (Scale sd))"
    using ts m s by (intro divide_left_mono mult_pos_pos) auto
  then have xy: "10 * x \<le> y" by (simp add: x_def y_def m_def)
  have y: "y \<le> m" using n s by (simp add: y_def m_def divide_le_eq)
  have x: "1 / 10 ^ 22 \<le> x" unfolding x_def m_def [symmetric] using m t by (intro frac_le) auto
  have lo: "2 powi (- 1022) \<le> (1 / 10 ^ 22 :: rat)" by (simp add: power_int_minus field_simps)
  have hi: "(2 :: rat) ^ 53 \<le> 2 ^ 1023" by simp
  have range: "2 powi (- 1022) \<le> \<bar>z\<bar>" "\<bar>z\<bar> \<le> 2 ^ 1023" if "x \<le> z" "z \<le> y" for z
  proof -
    have "2 powi (- 1022) \<le> z" by (rule order_trans [OF lo order_trans [OF x that(1)]])
    then show "2 powi (- 1022) \<le> \<bar>z\<bar>" by (rule order_trans [OF _ abs_ge_self])
    have "z \<le> 2 ^ 1023" by (rule order_trans [OF that(2) order_trans [OF y order_trans [OF less_imp_le [OF m(2)] hi]]])
    moreover have "\<bar>z\<bar> = z" using pos(1) that(1) by (intro abs_of_pos) (rule less_le_trans)
    ultimately show "\<bar>z\<bar> \<le> 2 ^ 1023" by (simp only:)
  qed
  have xley: "x \<le> y" using xy pos by linarith
  obtain p where p: "fl x = Fin p" "\<bar>p - x\<bar> \<le> \<bar>x\<bar> / 2 ^ 53" by (rule fl_error [OF range [OF order_refl xley]])
  obtain q where q: "fl y = Fin q" "\<bar>q - y\<bar> \<le> \<bar>y\<bar> / 2 ^ 53" by (rule fl_error [OF range [OF xley order_refl]])
  have "p - x \<le> x / 2 ^ 53 \<and> - (p - x) \<le> x / 2 ^ 53" "q - y \<le> y / 2 ^ 53 \<and> - (q - y) \<le> y / 2 ^ 53"
    using p(2) q(2) pos by (simp_all only: abs_le_iff abs_of_pos)
  then have pq: "p \<le> x + x / 2 ^ 53" "x - x / 2 ^ 53 \<le> p" "y - y / 2 ^ 53 \<le> q" by linarith+
  have "9 * p \<le> 9 * (x + x / 2 ^ 53)" using pq(1) by (intro mult_left_mono) simp_all
  also have "\<dots> < 10 * x - 10 * x / 2 ^ 53" using pos(1) by simp
  also have "\<dots> \<le> y - y / 2 ^ 53" using xy by simp
  also have "\<dots> \<le> q" by (rule pq(3))
  finally have "9 * p < q" .
  moreover have "0 < p" using pq(2) pos(1) by simp
  ultimately show ?thesis using p(1) q(1) f by simp
qed

section \<open>Properties\<close>

text \<open>
  C34: A pull with --preview or --dry-run-publish and a quote with --preview send nothing,
  whatever the other flags, --publish included: when the command ends, the transport is as it
  was, or as connecting to it left it and then closed by the deferred Close, or as connecting
  left it when the command leaves by os.Exit, which runs no deferred call; and the breaker has
  seen no call.
\<close>

theorem previews_send_nothing:
  "unsent env st (runPull ovf env (pc\<lparr>pl_Preview := True\<rparr>) st) \<and> unsent env st (runPull ovf env (pc\<lparr>pl_DryRunPublish := True\<rparr>) st) \<and>
   unsent env st (runQuote ovf env (qc\<lparr>qo_Preview := True\<rparr>) st)"
  by (simp add: unsent_runPull unsent_runQuote)

text \<open>
  C35: A pull with an error in its flags, dates, adjustment, configuration, interval,
  observability or symbols exits with code 3 having printed one line of the error and nothing
  else, the observability perhaps started: no request, output, file or message (a panic of
  reading the configuration or the file of symbols apart). Any other pull never exits with
  code 3. It ends normally only after it has said that it processed n of all its m symbols
  with 1 <= n <= m; it exits with code 1 only after it has said that no symbol was processed,
  or with one line of the error and no request, output, file or message; it crashes only with
  a panic of loading the configuration, of connecting or of processing a symbol, and hangs
  only in loading the configuration.
\<close>

theorem pull_outcome: "pull_ends ovf env pc st (runPull ovf env pc st)"
  by (rule runPull_ends)

text \<open>
  C36: The close a pull prints is wrong: it divides the scaled integer by the scale itself and
  not by ten to the scale, so for every positive close below 2^53 units of scale 1 to 22 the
  printed number is more than nine times the price.
\<close>

theorem preview_close_too_large:
  assumes "nbb_Bars bars \<noteq> []" "sd = nb_Close (List.last (nbb_Bars bars))"
    and "0 < Scaled sd" "Scaled sd < 2 ^ 53" "1 \<le> Scale sd" "Scale sd \<le> 22"
  shows "\<exists>st' f xs p q. printBarsPreview bars runID bus_env topic st = Ret st' \<and> List.last (ci_out st') = (f, xs) \<and> xs ! 2 = AFloat (Fin q) \<and>
    FromScaledDecimal sd = Fin p \<and> 9 * p < q"
proof -
  obtain p q where "FromScaledDecimal sd = Fin p" "previewed sd = Fin q" "9 * p < q" using previewed_close [OF assms(3-6)] by blast
  then show ?thesis using assms(1,2) by (simp add: printBarsPreview_def say_def Let_def)
qed

definition sample_pull :: NormalizedBarBatch where
  "sample_pull = \<lparr>nbb_Security = \<lparr>Symbol = ''AAPL'', MIC = ''XNAS''\<rparr>,
     nbb_Bars = [\<lparr>nb_Start = 0, nb_End = day_ns, nb_Open = mkSD 19000 2, nb_High = mkSD 19300 2, nb_Low = mkSD 18900 2,
       nb_Close = mkSD 19275 2, nb_Volume = 5, nb_Adjusted = False, nb_AdjustmentPolicyID = ''raw'',
       nb_CurrencyCode = ''USD'', nb_EventTime = day_ns, nb_IngestTime = day_ns, nb_AsOf = day_ns\<rparr>],
     nbb_Meta = \<lparr>mt_RunID = ''run'', mt_Source = ''yfinance-go'', mt_Producer = ''local'',
       mt_SchemaVersion = ''ampy.bars.v1:1.0.0''\<rparr>\<rparr>"

theorem preview_close_too_large_witness:
  "\<forall>st :: (unit, unit) cli. \<exists>st' f xs p q. printBarsPreview sample_pull ''run'' ''dev'' ''ampy'' st = Ret st' \<and>
    List.last (ci_out st') = (f, xs) \<and> xs ! 2 = AFloat (Fin q) \<and> FromScaledDecimal (mkSD 19275 2) = Fin p \<and> 9 * p < q"
proof
  fix st :: "(unit, unit) cli"
  show "\<exists>st' f xs p q. printBarsPreview sample_pull ''run'' ''dev'' ''ampy'' st = Ret st' \<and>
    List.last (ci_out st') = (f, xs) \<and> xs ! 2 = AFloat (Fin q) \<and> FromScaledDecimal (mkSD 19275 2) = Fin p \<and> 9 * p < q"
    by (rule preview_close_too_large) (simp_all add: sample_pull_def mkSD_def)
qed

end
