(* ===== verification/CliReport.thy ===== *)
theory CliReport
  imports Cli Profile
begin

text \<open>
  What the scraping commands of \<^verbatim>\<open>cmd/yfin/main.go\<close> print about a page: the summaries of statistics, profiles, statements, analysis
  and insights. A report is the list of its lines; a line break at the start of a format is an
  empty line of its own, and what the code prints of one line in several calls is one line here.
\<close>

section \<open>Numbers\<close>

definition heading :: "string \<Rightarrow> line list" where "heading f = [(f, [])]"

definition bool_arg :: "bool \<Rightarrow> fmt_arg" where "bool_arg b = AStr (if b then ''true'' else ''false'')"

text \<open>\<^verbatim>\<open>multiplier := float64(1); for i := 0; i < scale; i++ { multiplier *= 10 }\<close>\<close>

fun multiplied :: "nat \<Rightarrow> f64" where
  "multiplied 0 = Fin 1"
| "multiplied (Suc n) = f_mul (multiplied n) (Fin 10)"

definition actualValue :: "scrape_Scaled \<Rightarrow> f64" where
  "actualValue v = f_div (f_of_int (ss_Scaled v)) (multiplied (nat (ss_Scale v)))"

definition number_line :: "string \<Rightarrow> scrape_Scaled option \<Rightarrow> line list" where
  "number_line f v = (case v of None \<Rightarrow> [] | Some x \<Rightarrow> [(f, [AFloat (actualValue x)])])"

definition billions_line :: "string \<Rightarrow> scrape_Scaled option \<Rightarrow> line list" where
  "billions_line f v = (case v of None \<Rightarrow> [] | Some x \<Rightarrow> [(f, [AFloat (f_div (actualValue x) (Fin 1000000000))])])"

definition amount_line :: "string \<Rightarrow> string \<Rightarrow> scrape_Scaled option \<Rightarrow> line list" where
  "amount_line f currency v = (case v of None \<Rightarrow> [] | Some x \<Rightarrow> [(f, [AFloat (actualValue x), AStr currency])])"

definition integer_line :: "string \<Rightarrow> int option \<Rightarrow> line list" where
  "integer_line f v = (case v of None \<Rightarrow> [] | Some n \<Rightarrow> [(f, [AInt n])])"

definition float_line :: "string \<Rightarrow> f64 option \<Rightarrow> line list" where
  "float_line f v = (case v of None \<Rightarrow> [] | Some x \<Rightarrow> [(f, [AFloat x])])"

definition text_line :: "string \<Rightarrow> string \<Rightarrow> line list" where
  "text_line f s = (if s = [] then [] else [(f, [AStr s])])"

section \<open>Statistics\<close>

definition quarter_lines :: "HistoricalQuarter \<Rightarrow> line list" where
  "quarter_lines q =
     [(''  %s:'', [AStr (kh_Date q)])] @ billions_line ''    Market Cap: %.2fB'' (kh_MarketCap q) @
     number_line ''    Forward P/E: %.2f'' (kh_ForwardPE q) @ number_line ''    Trailing P/E: %.2f'' (kh_TrailingPE q)"

definition printComprehensiveStatisticsSummary :: "ComprehensiveKeyStatisticsDTO \<Rightarrow> line list" where
  "printComprehensiveStatisticsSummary dto =
     (let c = kd_Current dto; a = kd_Additional dto in
      [(''COMPREHENSIVE STATISTICS: symbol=%s currency=%s'', [AStr (kd_Symbol dto), AStr (kd_Currency dto)])] @
      heading ''CURRENT VALUES:'' @
      billions_line ''  Market Cap: %.2fB'' (kc_MarketCap c) @
      billions_line ''  Enterprise Value: %.2fB'' (kc_EnterpriseValue c) @
      number_line ''  Forward P/E: %.2f'' (kc_ForwardPE c) @
      number_line ''  Trailing P/E: %.2f'' (kc_TrailingPE c) @
      number_line ''  PEG Ratio: %.2f'' (kc_PEGRatio c) @
      number_line ''  Price/Sales: %.2f'' (kc_PriceSales c) @
      number_line ''  Price/Book: %.2f'' (kc_PriceBook c) @
      number_line ''  Enterprise Value/Revenue: %.2f'' (kc_EnterpriseValueRevenue c) @
      number_line ''  Enterprise Value/EBITDA: %.2f'' (kc_EnterpriseValueEBITDA c) @
      heading ''ADDITIONAL STATISTICS:'' @
      number_line ''  Beta: %.2f'' (ka_Beta a) @
      float_line ''  Shares Outstanding: %.2fB'' (map_option (\<lambda>n. f_div (f_of_int n) (Fin 1000000000)) (ka_SharesOutstanding a)) @
      number_line ''  Profit Margin: %.2f%%'' (ka_ProfitMargin a) @
      number_line ''  Operating Margin: %.2f%%'' (ka_OperatingMargin a) @
      number_line ''  Return on Assets: %.2f%%'' (ka_ReturnOnAssets a) @
      number_line ''  Return on Equity: %.2f%%'' (ka_ReturnOnEquity a) @
      (if kd_Historical dto = [] then [] else heading ''HISTORICAL VALUES:'' @ concat (map quarter_lines (kd_Historical dto))))"

section \<open>Statements\<close>

definition counted_fields :: "ComprehensiveFinancialsDTO \<Rightarrow> scrape_Scaled option list" where
  "counted_fields dto =
     (let c = fd_Current dto; h = fd_Historical dto in
      [cf_TotalRevenue c, cf_CostOfRevenue c, cf_GrossProfit c, cf_OperatingIncome c, cf_NetIncomeCommonStockholders c, cf_BasicEPS c,
       cf_DilutedEPS c, cf_EBITDA c, hp_TotalRevenue (fh_Q2_2025 h), hp_TotalRevenue (fh_Q1_2025 h), hp_TotalRevenue (fh_Q4_2024 h)])"

definition countFinancialsFields :: "ComprehensiveFinancialsDTO \<Rightarrow> int" where
  "countFinancialsFields dto = int (length (filter (\<lambda>v. v \<noteq> None) (counted_fields dto)))"

definition income_lines :: "string \<Rightarrow> fin_Current \<Rightarrow> line list" where
  "income_lines currency c =
     number_line ''  Total Revenue: %.0f'' (cf_TotalRevenue c) @
     number_line ''  Cost of Revenue: %.0f'' (cf_CostOfRevenue c) @
     number_line ''  Gross Profit: %.0f'' (cf_GrossProfit c) @
     number_line ''  Operating Income: %.0f'' (cf_OperatingIncome c) @
     number_line ''  Net Income: %.0f'' (cf_NetIncomeCommonStockholders c) @
     amount_line ''  Basic EPS: %.2f %s'' currency (cf_BasicEPS c) @
     amount_line ''  Diluted EPS: %.2f %s'' currency (cf_DilutedEPS c) @
     integer_line ''  Basic Average Shares: %d'' (cf_BasicAverageShares c) @
     integer_line ''  Diluted Average Shares: %d'' (cf_DilutedAverageShares c) @
     number_line ''  Total Expenses: %.0f'' (cf_TotalExpenses c) @
     number_line ''  EBIT: %.0f'' (cf_EBIT c) @
     number_line ''  EBITDA: %.0f'' (cf_EBITDA c) @
     number_line ''  Normalized EBITDA: %.0f'' (cf_NormalizedEBITDA c)"

definition balance_lines :: "fin_Current \<Rightarrow> line list" where
  "balance_lines c =
     number_line ''  Total Assets: %.0f'' (cf_TotalAssets c) @
     number_line ''  Total Capitalization: %.0f'' (cf_TotalCapitalization c) @
     number_line ''  Common Stock Equity: %.0f'' (cf_CommonStockEquity c) @
     number_line ''  Capital Lease Obligations: %.0f'' (cf_CapitalLeaseObligations c) @
     number_line ''  Net Tangible Assets: %.0f'' (cf_NetTangibleAssets c) @
     number_line ''  Working Capital: %.0f'' (cf_WorkingCapital c) @
     number_line ''  Invested Capital: %.0f'' (cf_InvestedCapital c) @
     number_line ''  Tangible Book Value: %.0f'' (cf_TangibleBookValue c) @
     number_line ''  Total Debt: %.0f'' (cf_TotalDebt c) @
     integer_line ''  Share Issued: %d'' (cf_ShareIssued c)"

definition cash_lines :: "fin_Current \<Rightarrow> line list" where
  "cash_lines c =
     number_line ''  Operating Cash Flow: %.0f'' (cf_OperatingCashFlow c) @
     number_line ''  Investing Cash Flow: %.0f'' (cf_InvestingCashFlow c) @
     number_line ''  Financing Cash Flow: %.0f'' (cf_FinancingCashFlow c) @
     number_line ''  End Cash Position: %.0f'' (cf_EndCashPosition c) @
     number_line ''  Capital Expenditure: %.0f'' (cf_CapitalExpenditure c) @
     number_line ''  Issuance of Debt: %.0f'' (cf_IssuanceOfDebt c) @
     number_line ''  Repayment of Debt: %.0f'' (cf_RepaymentOfDebt c) @
     number_line ''  Repurchase of Capital Stock: %.0f'' (cf_RepurchaseOfCapitalStock c) @
     number_line ''  Free Cash Flow: %.0f'' (cf_FreeCashFlow c)"

definition printComprehensiveFinancialsSummary :: "ComprehensiveFinancialsDTO \<Rightarrow> line list" where
  "printComprehensiveFinancialsSummary dto =
     [(''COMPREHENSIVE FINANCIALS: symbol=%s currency=%s'', [AStr (fd_Symbol dto), AStr (fd_Currency dto)])] @
     heading ''CURRENT VALUES:'' @ income_lines (fd_Currency dto) (fd_Current dto) @
     heading [] @ heading ''BALANCE SHEET:'' @ balance_lines (fd_Current dto) @
     heading [] @ heading ''CASH FLOW:'' @ cash_lines (fd_Current dto) @
     heading ''HISTORICAL VALUES:'' @
     number_line ''  Q2 2025 Revenue: %.0f'' (hp_TotalRevenue (fh_Q2_2025 (fd_Historical dto))) @
     number_line ''  Q1 2025 Revenue: %.0f'' (hp_TotalRevenue (fh_Q1_2025 (fd_Historical dto))) @
     number_line ''  Q4 2024 Revenue: %.0f'' (hp_TotalRevenue (fh_Q4_2024 (fd_Historical dto))) @
     [(''EXTRACTED: %d fields'', [AInt (countFinancialsFields dto)])]"

section \<open>Profiles\<close>

definition executive_line :: "nat \<Rightarrow> Executive \<Rightarrow> line" where
  "executive_line i e =
     (let title = (if ex_Title e = [] then ([], []) else ('' - %s'', [AStr (ex_Title e)]));
          born = (case ex_YearBorn e of None \<Rightarrow> ([], []) | Some y \<Rightarrow> ('' (Born: %d)'', [AInt y]));
          pay = (case ex_TotalPay e of None \<Rightarrow> ([], [])
            | Some p \<Rightarrow> ('' - Total Pay: $%.2fM'', [AFloat (f_div (f_of_int p) (Fin 1000000))]))
      in (''  %d. %s'' @ fst title @ fst born @ fst pay,
          [AInt (int (Suc i)), AStr (ex_Name e)] @ snd title @ snd born @ snd pay))"

definition printComprehensiveProfileSummary :: "ComprehensiveProfileDTO \<Rightarrow> line list" where
  "printComprehensiveProfileSummary dto =
     [(''COMPREHENSIVE PROFILE: symbol=%s'', [AStr (cp_Symbol dto)])] @
     heading ''COMPANY INFORMATION:'' @
     text_line ''  Company Name: %s'' (cp_CompanyName dto) @
     text_line ''  Short Name: %s'' (cp_ShortName dto) @
     text_line ''  Address: %s'' (cp_Address1 dto) @
     (if cp_City dto \<noteq> [] \<and> cp_State dto \<noteq> [] then [(''  City, State: %s, %s'', [AStr (cp_City dto), AStr (cp_State dto)])] else []) @
     text_line ''  ZIP: %s'' (cp_Zip dto) @
     text_line ''  Country: %s'' (cp_Country dto) @
     text_line ''  Phone: %s'' (cp_Phone dto) @
     text_line ''  Website: %s'' (cp_Website dto) @
     text_line ''  Industry: %s'' (cp_Industry dto) @
     text_line ''  Sector: %s'' (cp_Sector dto) @
     integer_line ''  Full Time Employees: %d'' (cp_FullTimeEmployees dto) @
     text_line ''  Business Summary: %s''
       (let summary = cp_BusinessSummary dto in if 200 < length summary then take 200 summary @ ''...'' else summary) @
     (if cp_Executives dto = [] then []
      else heading ''KEY EXECUTIVES:'' @ map (\<lambda>(i, e). executive_line i e) (enumerate 0 (take 5 (cp_Executives dto)))) @
     heading ''ADDITIONAL INFORMATION:'' @
     integer_line ''  Max Age: %d'' (cp_MaxAge dto) @
     integer_line ''  Audit Risk: %d'' (cp_AuditRisk dto) @
     integer_line ''  Board Risk: %d'' (cp_BoardRisk dto) @
     integer_line ''  Compensation Risk: %d'' (cp_CompensationRisk dto) @
     integer_line ''  Share Holder Rights Risk: %d'' (cp_ShareHolderRightsRisk dto) @
     integer_line ''  Overall Risk: %d'' (cp_OverallRisk dto)"

section \<open>Analysis\<close>

text \<open>The cells have the static type \<^verbatim>\<open>interface{}\<close>: a cell of another type than the row says prints like a missing one.\<close>

datatype analysis_cell = IntCell "int option" | FloatCell "f64 option" | TextCell "string option"

definition missing :: line where "missing = (''%-15s'', [AStr ''--''])"

definition printAnalysisCell :: "string \<Rightarrow> analysis_cell \<Rightarrow> line" where
  "printAnalysisCell dataType v =
     (if dataType = ''int'' then (case v of IntCell (Some n) \<Rightarrow> (''%-15d'', [AInt n]) | _ \<Rightarrow> missing)
      else if dataType = ''float'' then (case v of FloatCell (Some x) \<Rightarrow> (''%-15.2f'', [AFloat x]) | _ \<Rightarrow> missing)
      else if dataType = ''string'' then (case v of TextCell (Some s) \<Rightarrow> (''%-15s'', [AStr s]) | _ \<Rightarrow> missing)
      else ([], []))"

definition one_line :: "line list \<Rightarrow> line" where
  "one_line ls = (concat (map fst ls), concat (map snd ls))"

definition printAnalysisRow :: "string \<Rightarrow> string \<Rightarrow> analysis_cell list \<Rightarrow> line list" where
  "printAnalysisRow label dataType cells = [one_line (heading label @ map (printAnalysisCell dataType) cells)]"

definition report_row :: "string \<Rightarrow> string \<Rightarrow> ('c \<Rightarrow> analysis_cell) \<Rightarrow> 'c an_Section \<Rightarrow> line list" where
  "report_row label dataType f s =
     printAnalysisRow label dataType [f (an_CurrentQtr s), f (an_NextQtr s), f (an_CurrentYear s), f (an_NextYear s)]"

definition column_heads :: "line list" where
  "column_heads = heading ''                     Current Qtr    Next Qtr    Current Year    Next Year''"

definition section_head :: "string \<Rightarrow> string \<Rightarrow> line list" where
  "section_head f currency = heading [] @ [(f, [AStr currency])]"

definition history_line :: "an_HistoryEntry \<Rightarrow> line list" where
  "history_line e =
     (let number = (\<lambda>v. case v of Some x \<Rightarrow> (''%-10.2f  '', [AFloat x]) | None \<Rightarrow> (''%-10s  '', [AStr ''--''])) in
      [one_line [(''%-16s  '', [AStr (he_Date e)]), number (he_EPSEst e), number (he_EPSActual e), number (he_Difference e),
        (case he_SurprisePercent e of Some s \<Rightarrow> (''%-10s'', [AStr s]) | None \<Rightarrow> (''%-10s'', [AStr ''--'']))]])"

definition printAnalysisSummary :: "ComprehensiveAnalysisDTO \<Rightarrow> line list" where
  "printAnalysisSummary dto =
     (let ee = ad_EarningsEstimate dto; re = ad_RevenueEstimate dto; eh = ad_EarningsHistory dto; et = ad_EPSTrend dto;
          er = ad_EPSRevisions dto; ge = ad_GrowthEstimate dto in
      [(''ANALYSIS SUMMARY: symbol=%s'', [AStr (ad_Symbol dto)])] @
      section_head ''EARNINGS ESTIMATE (Currency: %s):'' (an_Currency ee) @ column_heads @
      report_row ''No. of Analysts      '' ''int'' (IntCell \<circ> ee_NoOfAnalysts) ee @
      report_row ''Avg. Estimate        '' ''float'' (FloatCell \<circ> ee_AvgEstimate) ee @
      report_row ''Low Estimate         '' ''float'' (FloatCell \<circ> ee_LowEstimate) ee @
      report_row ''High Estimate        '' ''float'' (FloatCell \<circ> ee_HighEstimate) ee @
      report_row ''Year Ago EPS         '' ''float'' (FloatCell \<circ> ee_YearAgoEPS) ee @
      section_head ''REVENUE ESTIMATE (Currency: %s):'' (an_Currency re) @ column_heads @
      report_row ''No. of Analysts      '' ''int'' (IntCell \<circ> rv_NoOfAnalysts) re @
      report_row ''Avg. Estimate        '' ''string'' (TextCell \<circ> rv_AvgEstimate) re @
      report_row ''Low Estimate         '' ''string'' (TextCell \<circ> rv_LowEstimate) re @
      report_row ''High Estimate        '' ''string'' (TextCell \<circ> rv_HighEstimate) re @
      report_row ''Year Ago Sales       '' ''string'' (TextCell \<circ> rv_YearAgoSales) re @
      report_row ''Sales Growth         '' ''string'' (TextCell \<circ> rv_SalesGrowthYearEst) re @
      section_head ''EARNINGS HISTORY (Currency: %s):'' (hi_Currency eh) @
      (if hi_Data eh = [] then []
       else heading ''Date              EPS Est.    EPS Actual    Difference    Surprise %%'' @ concat (map history_line (hi_Data eh))) @
      section_head ''EPS TREND (Currency: %s):'' (an_Currency et) @ column_heads @
      report_row ''Current Estimate     '' ''float'' (FloatCell \<circ> et_CurrentEstimate) et @
      report_row ''7 Days Ago          '' ''float'' (FloatCell \<circ> et_Days7Ago) et @
      report_row ''30 Days Ago         '' ''float'' (FloatCell \<circ> et_Days30Ago) et @
      report_row ''60 Days Ago         '' ''float'' (FloatCell \<circ> et_Days60Ago) et @
      report_row ''90 Days Ago         '' ''float'' (FloatCell \<circ> et_Days90Ago) et @
      section_head ''EPS REVISIONS (Currency: %s):'' (an_Currency er) @ column_heads @
      report_row ''Up Last 7 Days      '' ''int'' (IntCell \<circ> er_UpLast7Days) er @
      report_row ''Up Last 30 Days     '' ''int'' (IntCell \<circ> er_UpLast30Days) er @
      report_row ''Down Last 7 Days    '' ''int'' (IntCell \<circ> er_DownLast7Days) er @
      report_row ''Down Last 30 Days   '' ''int'' (IntCell \<circ> er_DownLast30Days) er @
      heading [] @ heading ''GROWTH ESTIMATE:'' @ column_heads @
      printAnalysisRow ''Growth Rate          '' ''string''
        [TextCell (ag_CurrentQtr ge), TextCell (ag_NextQtr ge), TextCell (ag_CurrentYear ge), TextCell (ag_NextYear ge)])"

definition potential_lines :: "f64 \<Rightarrow> f64 \<Rightarrow> line list" where
  "potential_lines price target =
     (let upside = f_mul (f_div (f_sub target price) price) (Fin 100) in
      heading [] @ heading ''POTENTIAL:'' @
      (if f_lt (Fin 0) upside then [(''  Upside Potential: +%.1f%%'', [AFloat upside])] else [(''  Downside Risk: %.1f%%'', [AFloat upside])]))"

definition printAnalystInsightsSummary :: "AnalystInsightsDTO \<Rightarrow> line list" where
  "printAnalystInsightsSummary dto =
     [(''ANALYST INSIGHTS: symbol=%s'', [AStr (ai_Symbol dto)])] @
     float_line ''Current Price: %.2f'' (ai_CurrentPrice dto) @
     heading [] @ heading ''PRICE TARGETS:'' @
     float_line ''  Average Target: %.2f'' (ai_TargetMeanPrice dto) @
     float_line ''  Median Target: %.2f'' (ai_TargetMedianPrice dto) @
     float_line ''  High Target: %.2f'' (ai_TargetHighPrice dto) @
     float_line ''  Low Target: %.2f'' (ai_TargetLowPrice dto) @
     heading [] @ heading ''ANALYST RECOMMENDATIONS:'' @
     integer_line ''  Number of Analysts: %d'' (ai_NumberOfAnalysts dto) @
     float_line ''  Recommendation Score: %.2f'' (ai_RecommendationMean dto) @
     (case ai_RecommendationKey dto of None \<Rightarrow> [] | Some k \<Rightarrow> [(''  Recommendation: %s'', [AStr k])]) @
     (case (ai_CurrentPrice dto, ai_TargetMeanPrice dto) of (Some price, Some target) \<Rightarrow> potential_lines price target | _ \<Rightarrow> [])"

section \<open>The printed numbers\<close>

lemma multiplied_power: "n \<le> 22 \<Longrightarrow> multiplied n = Fin (10 ^ n)"
proof (induction n)
  case (Suc n)
  then show ?case using fl_power10 [of "Suc n"] by (simp add: mult.commute)
qed simp

text \<open>A report prints the float64 next to the number a scraped value stands for, where the preview of a pull does not.\<close>

lemma actualValue_nearest:
  assumes "0 \<le> ss_Scale v" "ss_Scale v \<le> 22" "\<bar>ss_Scaled v\<bar> < 2 ^ 53"
  shows "actualValue v = fl (of_int (ss_Scaled v) / 10 ^ nat (ss_Scale v))"
  using assms by (simp add: actualValue_def multiplied_power f_of_int_small)

text \<open>The number of extracted fields counts eleven fields of the income statement, whatever the page holds.\<close>

lemma countFinancialsFields_bounds: "0 \<le> countFinancialsFields dto \<and> countFinancialsFields dto \<le> 11"
  using length_filter_le [of "\<lambda>v. v \<noteq> None" "counted_fields dto"]
  by (simp add: countFinancialsFields_def counted_fields_def Let_def del: filter.simps)

lemma balance_sheet_uncounted:
  "countFinancialsFields (dto\<lparr>fd_Current := (fd_Current dto)\<lparr>cf_TotalAssets := a, cf_TotalDebt := b, cf_WorkingCapital := w,
      cf_OperatingCashFlow := oc, cf_FreeCashFlow := f\<rparr>\<rparr>) = countFinancialsFields dto"
proof -
  have "counted_fields (dto\<lparr>fd_Current := (fd_Current dto)\<lparr>cf_TotalAssets := a, cf_TotalDebt := b, cf_WorkingCapital := w,
      cf_OperatingCashFlow := oc, cf_FreeCashFlow := f\<rparr>\<rparr>) = counted_fields dto"
    by (simp add: counted_fields_def Let_def)
  then show ?thesis by (simp add: countFinancialsFields_def)
qed

end
