(* ===== verification/CliScrape.thy ===== *)
theory CliScrape
  imports CliReport Batch
begin

text \<open>
  The commands \<^verbatim>\<open>scrape\<close>, \<^verbatim>\<open>comprehensive-stats\<close>, \<^verbatim>\<open>comprehensive-profile\<close>, \<^verbatim>\<open>config\<close> and \<^verbatim>\<open>version\<close> of \<^verbatim>\<open>cmd/yfin/main.go\<close>. The
  state is that of the other commands: the scraping client and the pattern variables are those of the market client.
\<close>

section \<open>Tools\<close>

text \<open>
  The libraries these commands use beside those of \<open>cli_env\<close>: the decoder of JSON, numbers and texts in JSON, the time of a
  timestamp, the orders in which the maps of a news summary are ranged over, and the encoders of a news message and of the
  configuration.
\<close>

record 'ts page_tools =
  pg_decode :: "string \<Rightarrow> json go"
  pg_num :: "f64 \<Rightarrow> string"
  pg_quote :: "string \<Rightarrow> string"
  pg_time :: "'ts \<Rightarrow> instant"
  pg_sources :: "'ts pb_NewsItem list \<Rightarrow> string list"
  pg_tickers :: "'ts pb_NewsItem list \<Rightarrow> string list"
  pg_news_json :: "'ts pb_NewsItem \<Rightarrow> string go"
  pg_config_json :: "cfg_map \<Rightarrow> string go"

definition say_all :: "line list \<Rightarrow> ('s, 'b) cli \<Rightarrow> ('s, 'b) cli" where
  "say_all ls st = st\<lparr>ci_out := ci_out st @ ls\<rparr>"

definition buildScrapeURL :: "string \<Rightarrow> string \<Rightarrow> string" where
  "buildScrapeURL ticker endpoint =
     ''https://finance.yahoo.com/quote/'' @ ticker @ (if endpoint \<in> set validEndpoints then ''/'' @ endpoint else [])"

definition truncateString :: "string \<Rightarrow> nat \<Rightarrow> string" where
  "truncateString s maxLen = (if length s \<le> maxLen then s else take (maxLen - 3) s @ ''...'')"

text \<open>\<^verbatim>\<open>Duration.Minutes\<close>; a conversion to int truncates.\<close>

definition dur_Minutes :: "duration \<Rightarrow> f64" where
  "dur_Minutes d = f_add (f_of_int (d sdiv minute)) (f_div (f_of_int (d smod minute)) (f_of_int minute))"

definition formatRelativeTime :: "(f64 \<Rightarrow> int) \<Rightarrow> instant \<Rightarrow> instant \<Rightarrow> string" where
  "formatRelativeTime ovf t now =
     (let diff = time_Sub now t in
      if diff < minute then ''now''
      else if diff < hour then show_int (f_to_int64 ovf (dur_Minutes diff)) @ ''m ago''
      else if diff < 24 * hour then show_int (f_to_int64 ovf (Hours diff)) @ ''h ago''
      else if diff < 7 * 24 * hour then
        (let days = f_to_int64 ovf (f_div (Hours diff) (Fin 24))
         in if days = 1 then ''1 day ago'' else show_int days @ '' days ago'')
      else
        (let weeks = f_to_int64 ovf (f_div (Hours diff) (Fin 168))
         in if weeks = 1 then ''1 week ago'' else show_int weeks @ '' weeks ago''))"

section \<open>Pages\<close>

definition scrape_client_config :: "ScrapeConfig \<Rightarrow> sc_Config" where
  "scrape_client_config cfg =
     \<lparr>sc_Enabled = scc_Enabled cfg, sc_UserAgent = scc_UserAgent cfg, sc_TimeoutMs = scc_TimeoutMs cfg, sc_QPS = scc_QPS cfg,
      sc_Burst = scc_Burst cfg,
      sc_RetryConfig = \<lparr>sr_Attempts = srt_Attempts (scc_Retry cfg), sr_BaseMs = srt_BaseMs (scc_Retry cfg),
        sr_MaxDelayMs = srt_MaxDelayMs (scc_Retry cfg)\<rparr>,
      sc_RobotsPolicy = scc_RobotsPolicy cfg, sc_CacheTTLMs = scc_CacheTTLMs cfg,
      sc_Endpoints = \<lparr>en_KeyStatistics = sep_KeyStatistics (scc_Endpoints cfg), en_Financials = sep_Financials (scc_Endpoints cfg),
        en_Analysis = sep_Analysis (scc_Endpoints cfg), en_Profile = sep_Profile (scc_Endpoints cfg),
        en_News = sep_News (scc_Endpoints cfg)\<rparr>\<rparr>"

text \<open>The scraping client of a command has an HTTP client of its own.\<close>

definition createScrapeClient :: "(f64 \<Rightarrow> int) \<Rightarrow> instant \<Rightarrow> ScrapeConfig \<Rightarrow> ('s, 'b) cli \<Rightarrow> ('s, 'b) cli" where
  "createScrapeClient ovf now cfg st =
     (let config = scrape_client_config cfg in
      st\<lparr>ci_client := (ci_client st)\<lparr>mk_scrape := scrape_NewClient (Some config)\<rparr>,
        ci_net := (NewClient ovf now (Some (scrape_http_config config)), snd (ci_net st))\<rparr>)"

definition cli_fetch ::
  "(f64 \<Rightarrow> int) \<Rightarrow> ('u, 's, 'b, 'ts) cli_env \<Rightarrow> string \<Rightarrow> ('s, 'b) cli \<Rightarrow> ('s, 'b) cli \<times> (string \<times> FetchMeta) go" where
  "cli_fetch ovf env url st =
     (case Fetch ovf ((me_fetch (ce_market env))\<lparr>fe_do := Do ovf (ye_http (me_yahoo (ce_market env)))\<rparr>) url
         (mk_scrape (ci_client st), ci_net st) of
        ((sc, net), r) \<Rightarrow> (st\<lparr>ci_client := (ci_client st)\<lparr>mk_scrape := sc\<rparr>, ci_net := net\<rparr>, r))"

text \<open>A parser with the pattern variables and the clock of the state.\<close>

definition cli_parse ::
  "('u, 's, 'b, 'ts) cli_env \<Rightarrow> (Patterns \<Rightarrow> instant \<Rightarrow> Patterns \<times> 'd go) \<Rightarrow> ('s, 'b) cli \<Rightarrow> ('s, 'b) cli \<times> 'd go" where
  "cli_parse env parse st =
     (case parse (mk_patterns (ci_client st)) (cli_now env st) of
        (pt, r) \<Rightarrow> (st\<lparr>ci_client := (ci_client st)\<lparr>mk_patterns := pt\<rparr>\<rparr>, r))"

text \<open>An error is printed, a result given to \<open>k\<close>, a panic goes on.\<close>

definition or_print :: "text_lib \<Rightarrow> string \<Rightarrow> 'd go \<Rightarrow> ('d \<Rightarrow> ('s, 'b) action) \<Rightarrow> ('s, 'b) action" where
  "or_print tx msg r k st =
     (case r of Ret d \<Rightarrow> k d st | Err e \<Rightarrow> (say msg [AStr (error_text tx e)] st, Ret ()) | Panic p \<Rightarrow> (st, Panic p))"

definition printed :: "('d \<Rightarrow> line list) \<Rightarrow> 'd \<Rightarrow> ('s, 'b) action" where
  "printed f d st = (say_all (f d) st, Ret ())"

definition parse_and_print ::
  "('u, 's, 'b, 'ts) cli_env \<Rightarrow> (Patterns \<Rightarrow> instant \<Rightarrow> Patterns \<times> 'd go) \<Rightarrow> ('d \<Rightarrow> ('s, 'b) action) \<Rightarrow> ('s, 'b) action" where
  "parse_and_print env parse k st =
     (case cli_parse env parse st of (st1, r) \<Rightarrow> or_print (ce_text env) ''PARSE ERROR: %v'' r k st1)"

definition parse_profile ::
  "(f64 \<Rightarrow> int) \<Rightarrow> ('u, 's, 'b, 'ts) cli_env \<Rightarrow> 'ts page_tools \<Rightarrow> string \<Rightarrow> string \<Rightarrow> string \<Rightarrow> Patterns \<Rightarrow> instant \<Rightarrow>
   Patterns \<times> ComprehensiveProfileDTO go" where
  "parse_profile ovf env tools body symbol market pt now =
     (pt, ParseComprehensiveProfile ovf (me_find (ce_market env)) (pg_decode tools) now body symbol market)"

definition parse_with_currency ::
  "(f64 \<Rightarrow> int) \<Rightarrow> ('u, 's, 'b, 'ts) cli_env \<Rightarrow> string \<Rightarrow> string \<Rightarrow> string \<Rightarrow> string \<Rightarrow> Patterns \<Rightarrow> instant \<Rightarrow>
   Patterns \<times> ComprehensiveFinancialsDTO go" where
  "parse_with_currency ovf env body financialsBody symbol market pt now =
     (let m = ce_market env; l = LoadFinancialsRegexConfig (me_dir m) (me_read m) (me_dec_fin m) (pt_Financials pt)
      in (pt\<lparr>pt_Financials := fst l\<rparr>,
          ParseComprehensiveFinancialsWithCurrency (me_float m) ovf (me_find m) (loaded l) now body financialsBody symbol market))"

definition parse_news ::
  "('u, 's, 'b, 'ts) cli_env \<Rightarrow> string \<Rightarrow> string \<Rightarrow> Patterns \<Rightarrow> instant \<Rightarrow> Patterns \<times> (NewsItem list \<times> NewsStats) go" where
  "parse_news env body baseURL pt now =
     (let m = ce_market env in
      case ParseNews (me_news m) (me_sort m) (LoadNewsRegexConfig (me_dir m) (me_read m) (me_dec_news m)) (pt_News pt) body baseURL now of
        (pn, r) \<Rightarrow> (pt\<lparr>pt_News := pn\<rparr>, r))"

definition meta_args :: "FetchMeta \<Rightarrow> fmt_arg list" where
  "meta_args meta = [AStr (fm_Host meta), AInt (fm_Status meta), AInt (fm_Bytes meta), bool_arg (fm_Gzip meta)]"

definition Milliseconds :: "duration \<Rightarrow> int" where "Milliseconds d = d sdiv millisecond"

section \<open>Checking a page\<close>

definition check_format :: string where
  "check_format = ''SCRAPE CHECK host=%s url=%s status=%d bytes=%d gzip=%t redirects=%d latency_p50'' @ utf8 [226, 137, 136] @ ''%dms''"

definition runScrapeCheck ::
  "(f64 \<Rightarrow> int) \<Rightarrow> ('u, 's, 'b, 'ts) cli_env \<Rightarrow> string \<Rightarrow> string \<Rightarrow> ('s, 'b) action" where
  "runScrapeCheck ovf env ticker endpoint st =
     (let url = buildScrapeURL ticker endpoint in
      case cli_fetch ovf env url st of
        (st1, Err e) \<Rightarrow> (st1, Err (Errorf ''failed to fetch %s: %v'' [AStr url, AStr (error_text (ce_text env) e)]))
      | (st1, Panic p) \<Rightarrow> (st1, Panic p)
      | (st1, Ret (body, meta)) \<Rightarrow>
          (say ''CONTENT PREVIEW: %s'' [AStr body]
            (say check_format [AStr (fm_Host meta), AStr (fm_URL meta), AInt (fm_Status meta), AInt (fm_Bytes meta),
              bool_arg (fm_Gzip meta), AInt (fm_Redirects meta), AInt (Milliseconds (fm_Duration meta))] st1), Ret ()))"

section \<open>News\<close>

definition article_lines :: "(f64 \<Rightarrow> int) \<Rightarrow> instant \<Rightarrow> nat \<Rightarrow> NewsItem \<Rightarrow> line list" where
  "article_lines ovf now i a =
     (let timeStr = (case ni_PublishedAt a of None \<Rightarrow> ''unknown'' | Some t \<Rightarrow> formatRelativeTime ovf t now);
          title = (if 50 < length (ni_Title a) then take 47 (ni_Title a) @ ''...'' else ni_Title a) in
      [(''%2d) %-8s | %-15s | %s'', [AInt (int (Suc i)), AStr timeStr, AStr (truncateString (ni_Source a) 15), AStr title])] @
      (if ni_RelatedTickers a = [] then [] else [(''    Tickers: %s'', [AStr (Join (ni_RelatedTickers a) '', '')])]))"

definition news_lines :: "(f64 \<Rightarrow> int) \<Rightarrow> string \<Rightarrow> instant \<Rightarrow> NewsItem list \<Rightarrow> NewsStats \<Rightarrow> line list" where
  "news_lines ovf ticker now articles stats =
     heading [] @
     [(''%s news: found=%d deduped=%d returned=%d as_of=%s'', [AStr ticker, AInt (ns_TotalFound stats), AInt (ns_Deduped stats),
        AInt (ns_TotalReturned stats), ATime (ns_AsOf stats)])] @
     text_line ''Next page hint: %s'' (ns_NextPageHint stats) @
     (if articles = [] then []
      else heading [] @ heading ''ARTICLES:'' @ concat (map (\<lambda>(i, a). article_lines ovf now i a) (enumerate 0 articles)))"

definition fetch_meta_line :: "FetchMeta \<Rightarrow> line" where
  "fetch_meta_line meta =
     (''FETCH META: host=%s status=%d bytes=%d gzip=%t redirects=%d latency=%dms'',
      meta_args meta @ [AInt (fm_Redirects meta), AInt (Milliseconds (fm_Duration meta))])"

definition runScrapePreviewNews ::
  "(f64 \<Rightarrow> int) \<Rightarrow> ('u, 's, 'b, 'ts) cli_env \<Rightarrow> string \<Rightarrow> ('s, 'b) action" where
  "runScrapePreviewNews ovf env ticker st =
     (if ticker = [] then (st, Err (Errorf ''ticker is required for preview-news mode'' []))
      else
        case cli_fetch ovf env (buildScrapeURL ticker ''news'') (say ''PREVIEW NEWS ticker=%s'' [AStr ticker] st) of
          (st1, Err e) \<Rightarrow> (st1, Err (Errorf ''failed to fetch news for %s: %v'' [AStr ticker, AStr (error_text (ce_text env) e)]))
        | (st1, Panic p) \<Rightarrow> (st1, Panic p)
        | (st1, Ret (body, meta)) \<Rightarrow>
            (let st2 = say_all [fetch_meta_line meta] st1; now = cli_now env st2 in
             case cli_parse env (parse_news env body (''https://'' @ fm_Host meta)) st2 of
               (st3, Err e) \<Rightarrow> (st3, Err (Errorf ''failed to parse news: %v'' [AStr (error_text (ce_text env) e)]))
             | (st3, Panic p) \<Rightarrow> (st3, Panic p)
             | (st3, Ret (articles, stats)) \<Rightarrow> (say_all (news_lines ovf ticker now articles stats) st3, Ret ())))"

section \<open>Every endpoint of a list\<close>

definition endpoint_list :: "string \<Rightarrow> string list" where
  "endpoint_list endpoints = map TrimSpace (split_char CHR '','' endpoints)"

fun each_endpoint :: "(string \<Rightarrow> ('s, 'b) action) \<Rightarrow> string list \<Rightarrow> ('s, 'b) action" where
  "each_endpoint f [] st = (st, Ret ())"
| "each_endpoint f (ep # eps) st = (if ep = [] then each_endpoint f eps st else and_then (f ep) (each_endpoint f eps) st)"

text \<open>An endpoint is announced and its page fetched; a failing fetch is printed and the endpoint skipped.\<close>

definition fetch_endpoint ::
  "(f64 \<Rightarrow> int) \<Rightarrow> ('u, 's, 'b, 'ts) cli_env \<Rightarrow> string \<Rightarrow> (FetchMeta \<Rightarrow> line) \<Rightarrow> (string \<Rightarrow> string \<Rightarrow> ('s, 'b) action) \<Rightarrow> string \<Rightarrow> ('s, 'b) action" where
  "fetch_endpoint ovf env ticker meta_line k endpoint st =
     (let url = buildScrapeURL ticker endpoint in
      case cli_fetch ovf env url (say_all (heading [] @ [(''--- %s ---'', [AStr (ToUpper endpoint)])]) st) of
        (st1, Err e) \<Rightarrow> (say ''ERROR: Failed to fetch %s: %v'' [AStr url, AStr (error_text (ce_text env) e)] st1, Ret ())
      | (st1, Panic p) \<Rightarrow> (st1, Panic p)
      | (st1, Ret (body, meta)) \<Rightarrow> k endpoint body (say_all [meta_line meta] st1))"

definition preview_endpoints ::
  "(f64 \<Rightarrow> int) \<Rightarrow> ('u, 's, 'b, 'ts) cli_env \<Rightarrow> string \<Rightarrow> string \<Rightarrow> (FetchMeta \<Rightarrow> line) \<Rightarrow> string \<Rightarrow> string \<Rightarrow>
   (string \<Rightarrow> string \<Rightarrow> ('s, 'b) action) \<Rightarrow> ('s, 'b) action" where
  "preview_endpoints ovf env mode title meta_line ticker endpoints k st =
     (if ticker = [] then (st, Err (Errorf (''ticker is required for '' @ mode @ '' mode'') []))
      else if endpoints = [] then (st, Err (Errorf (''endpoints is required for '' @ mode @ '' mode'') []))
      else each_endpoint (fetch_endpoint ovf env ticker meta_line k) (endpoint_list endpoints)
        (say (title @ '' ticker=%s endpoints=%s'') [AStr ticker, AStr endpoints] st))"

section \<open>Preview of the extraction\<close>

definition fetched_line :: "FetchMeta \<Rightarrow> line" where
  "fetched_line meta = (''FETCHED: host=%s status=%d bytes=%d gzip=%t'', meta_args meta)"

definition preview_sheet ::
  "(f64 \<Rightarrow> int) \<Rightarrow> ('u, 's, 'b, 'ts) cli_env \<Rightarrow> string \<Rightarrow> string \<Rightarrow> ('s, 'b) action" where
  "preview_sheet ovf env ticker body st =
     (let financialsURL = buildScrapeURL ticker ''financials'' in
      case cli_fetch ovf env financialsURL (say ''FETCHING CURRENCY: %s'' [AStr financialsURL] st) of
        (st1, Panic p) \<Rightarrow> (st1, Panic p)
      | (st1, Err e) \<Rightarrow>
          parse_and_print env (\<lambda>pt now. parse_financials ovf (ce_market env) ticker pt now body ''NMS'')
            (printed printComprehensiveFinancialsSummary) (say ''CURRENCY FETCH ERROR: %v'' [AStr (error_text (ce_text env) e)] st1)
      | (st1, Ret (financialsBody, meta)) \<Rightarrow>
          parse_and_print env (parse_with_currency ovf env body financialsBody ticker ''NMS'')
            (printed printComprehensiveFinancialsSummary)
            (say ''CURRENCY FETCHED: host=%s status=%d bytes=%d gzip=%t'' (meta_args meta) st1))"

definition unsupported_lines :: "string \<Rightarrow> line list" where
  "unsupported_lines endpoint =
     [(''UNSUPPORTED ENDPOINT: %s (only key-statistics, profile, financials, balance-sheet, cash-flow, analysis, and analyst-insights are supported)'',
       [AStr endpoint])]"

definition preview_json ::
  "(f64 \<Rightarrow> int) \<Rightarrow> ('u, 's, 'b, 'ts) cli_env \<Rightarrow> 'ts page_tools \<Rightarrow> string \<Rightarrow> string \<Rightarrow> string \<Rightarrow> ('s, 'b) action" where
  "preview_json ovf env tools ticker endpoint body =
     (let m = ce_market env in
      if endpoint = ''key-statistics'' then
        parse_and_print env (\<lambda>pt now. parse_statistics ovf m ticker pt now body ''NMS'') (printed printComprehensiveStatisticsSummary)
      else if endpoint = ''profile'' then
        parse_and_print env (parse_profile ovf env tools body ticker ''NMS'') (printed printComprehensiveProfileSummary)
      else if endpoint = ''financials'' then
        parse_and_print env (\<lambda>pt now. parse_financials ovf m ticker pt now body ''NMS'') (printed printComprehensiveFinancialsSummary)
      else if endpoint = ''balance-sheet'' \<or> endpoint = ''cash-flow'' then preview_sheet ovf env ticker body
      else if endpoint = ''analysis'' then
        parse_and_print env (\<lambda>pt now. parse_analysis m ticker pt now body ''NMS'') (printed printAnalysisSummary)
      else if endpoint = ''analyst-insights'' then
        parse_and_print env (\<lambda>pt now. parse_insights m ticker pt now body ''NMS'') (printed printAnalystInsightsSummary)
      else printed unsupported_lines endpoint)"

definition runScrapePreviewJSON ::
  "(f64 \<Rightarrow> int) \<Rightarrow> ('u, 's, 'b, 'ts) cli_env \<Rightarrow> 'ts page_tools \<Rightarrow> string \<Rightarrow> string \<Rightarrow> ('s, 'b) action" where
  "runScrapePreviewJSON ovf env tools ticker endpoints =
     preview_endpoints ovf env ''preview-json'' ''PREVIEW JSON EXTRACTION'' fetched_line ticker endpoints (preview_json ovf env tools ticker)"

section \<open>Preview of the messages\<close>

fun getCurrencyFromLines :: "'ts pb_LineItem list \<Rightarrow> string" where
  "getCurrencyFromLines [] = ''unknown''"
| "getCurrencyFromLines (l # ls) = (if pl_CurrencyCode l \<noteq> [] then pl_CurrencyCode l else getCurrencyFromLines ls)"

definition getTimeBounds :: "('ts \<Rightarrow> instant) \<Rightarrow> instant \<Rightarrow> 'ts pb_LineItem list \<Rightarrow> instant \<times> instant" where
  "getTimeBounds as_time now ls =
     (case ls of [] \<Rightarrow> (now, now)
      | l # _ \<Rightarrow> fold (\<lambda>x (earliest, latest).
            (if as_time (pl_PeriodStart x) < earliest then as_time (pl_PeriodStart x) else earliest,
             if latest < as_time (pl_PeriodEnd x) then as_time (pl_PeriodEnd x) else latest))
          ls (as_time (pl_PeriodStart l), as_time (pl_PeriodEnd l)))"

definition meta_lines :: "pb_Meta \<Rightarrow> line list" where
  "meta_lines m = [(''Schema version: %s'', [AStr (pm_SchemaVersion m)]), (''Run ID: %s'', [AStr (pm_RunId m)])]"

definition printFundamentalsSnapshot :: "('ts \<Rightarrow> instant) \<Rightarrow> instant \<Rightarrow> 'ts pb_FundamentalsSnapshot \<Rightarrow> line list" where
  "printFundamentalsSnapshot as_time now s =
     [(''%s fundamentals: lines=%d currency=%s source=%s ok'', [AStr (ps_Symbol (pf_Security s)), AInt (int (length (pf_Lines s))),
        AStr (getCurrencyFromLines (pf_Lines s)), AStr (pf_Source s)])] @
     (if pf_Lines s = [] then []
      else (case getTimeBounds as_time now (pf_Lines s) of (earliest, latest) \<Rightarrow>
        [(''Period range: %s to %s'', [AStr (format_date earliest), AStr (format_date latest)])])) @
     meta_lines (pf_Meta s)"

definition printProfileResult :: "ProfileMappingResult \<Rightarrow> line list" where
  "printProfileResult r =
     [(''%s profile: content_type=%s bytes=%d schema=%s'', [AStr (ps_Symbol (pr_Security r)), AStr (pr_ContentType r),
        AInt (int (length (pr_JSONBytes r))), AStr (pr_SchemaFQDN r)])] @
     meta_lines (pr_Meta r)"

definition message_lines :: "text_lib \<Rightarrow> ('ts pb_NewsItem \<Rightarrow> string go) \<Rightarrow> nat \<Rightarrow> 'ts pb_NewsItem \<Rightarrow> line list go" where
  "message_lines tx encode i a =
     (case encode a of
        Err e \<Rightarrow> Ret [(''Error marshaling article %d: %v'', [AInt (int (Suc i)), AStr (error_text tx e)])]
      | Panic p \<Rightarrow> Panic p
      | Ret jsonData \<Rightarrow> Ret (heading [] @ [(''Article %d:'', [AInt (int (Suc i))]), (''%s'', [AStr jsonData])]))"

definition printNewsArticles :: "text_lib \<Rightarrow> 'ts page_tools \<Rightarrow> 'ts pb_NewsItem list \<Rightarrow> line list go" where
  "printNewsArticles tx tools articles =
     (case articles of [] \<Rightarrow> Ret (heading ''No news articles found'')
      | first # _ \<Rightarrow>
          let summary = CreateNewsSummary (pg_time tools) (pg_sources tools articles) (pg_tickers tools articles) articles in
          go_bind (go_mapM (\<lambda>(i, a). message_lines tx (pg_news_json tools) i a) (enumerate 0 (take 3 articles))) (\<lambda>shown.
          Ret ([(''News articles: total=%d unique_sources=%d has_images=%d'',
               [AInt (nsm_TotalArticles summary), AInt (nsm_UniqueSources summary), AInt (nsm_HasImages summary)])] @
             (case (nsm_EarliestTime summary, nsm_LatestTime summary) of
                (Some e, Some l) \<Rightarrow> [(''Time range: %s to %s'', [AStr (format_clock e), AStr (format_clock l)])] | _ \<Rightarrow> []) @
             (if nsm_TopSources summary = [] then [] else [(''Top sources: %s'', [AStr (Join (nsm_TopSources summary) '', '')])]) @
             (if nsm_RelatedTickers summary = [] then [] else [(''Related tickers: %s'', [AStr (Join (nsm_RelatedTickers summary) '', '')])]) @
             meta_lines (pn_Meta first) @ heading [] @ heading ''--- AMPY-PROTO NEWS MESSAGES ---'' @ concat shown @
             (if 3 < length articles then [(''... and %d more articles'', [AInt (int (length articles) - 3)])] else []))))"

definition map_and_print :: "('u, 's, 'b, 'ts) cli_env \<Rightarrow> ('d \<Rightarrow> 'm go) \<Rightarrow> ('m \<Rightarrow> ('s, 'b) action) \<Rightarrow> 'd \<Rightarrow> ('s, 'b) action" where
  "map_and_print env f k dto = or_print (ce_text env) ''MAPPING ERROR: %v'' (f dto) k"

definition cli_snapshot :: "('u, 's, 'b, 'ts) cli_env \<Rightarrow> 'ts page_tools \<Rightarrow> 'ts pb_FundamentalsSnapshot \<Rightarrow> ('s, 'b) action" where
  "cli_snapshot env tools s st = printed (printFundamentalsSnapshot (pg_time tools) (cli_now env st)) s st"

definition cli_snapshots :: "('u, 's, 'b, 'ts) cli_env \<Rightarrow> 'ts page_tools \<Rightarrow> 'ts pb_FundamentalsSnapshot list \<Rightarrow> ('s, 'b) action" where
  "cli_snapshots env tools ss st =
     printed (\<lambda>ss. concat (map (printFundamentalsSnapshot (pg_time tools) (cli_now env st)) ss)) ss st"

definition cli_messages :: "('u, 's, 'b, 'ts) cli_env \<Rightarrow> 'ts page_tools \<Rightarrow> 'ts pb_NewsItem list \<Rightarrow> ('s, 'b) action" where
  "cli_messages env tools articles =
     printing (\<lambda>st. go_bind (printNewsArticles (ce_text env) tools articles) (\<lambda>ls. Ret (say_all ls st)))"

definition preview_proto ::
  "(f64 \<Rightarrow> int) \<Rightarrow> ('u, 's, 'b, 'ts) cli_env \<Rightarrow> 'ts page_tools \<Rightarrow> string \<Rightarrow> string \<Rightarrow> string \<Rightarrow> string \<Rightarrow> string \<Rightarrow> ('s, 'b) action" where
  "preview_proto ovf env tools runID made_by ticker endpoint body st =
     (let m = ce_market env; ts = me_ts m in
      if endpoint = ''financials'' \<or> endpoint = ''balance-sheet'' \<or> endpoint = ''cash-flow'' then
        parse_and_print env (\<lambda>pt now. parse_financials ovf m ticker pt now body ''XNAS'')
          (map_and_print env (\<lambda>d. MapComprehensiveFinancialsDTO ts (Some d) runID made_by) (cli_snapshots env tools)) st
      else if endpoint = ''profile'' then
        parse_and_print env (parse_profile ovf env tools body ticker ''XNAS'')
          (map_and_print env (\<lambda>d. MapProfileDTO (pg_num tools) (pg_quote tools) (Some d) runID made_by) (printed printProfileResult)) st
      else if endpoint = ''news'' then
        parse_and_print env (parse_news env body ''https://finance.yahoo.com'')
          (map_and_print env
            (\<lambda>(articles, stats). MapNewsItems ts (me_news m) (me_query m) (me_clock m (ci_net st)) articles runID made_by)
            (cli_messages env tools)) st
      else if endpoint = ''key-statistics'' then
        parse_and_print env (\<lambda>pt now. parse_statistics ovf m ticker pt now body ''XNAS'')
          (map_and_print env (\<lambda>d. MapKeyStatisticsDTO ts (Some d) runID made_by) (cli_snapshot env tools)) st
      else if endpoint = ''analysis'' then
        parse_and_print env (\<lambda>pt now. parse_analysis m ticker pt now body ''XNAS'')
          (map_and_print env (\<lambda>d. MapAnalysisDTO (me_float m) ovf ts (Some d) runID made_by) (cli_snapshot env tools)) st
      else if endpoint = ''analyst-insights'' then
        parse_and_print env (\<lambda>pt now. parse_insights m ticker pt now body ''XNAS'')
          (map_and_print env (\<lambda>d. MapAnalystInsightsDTO ovf ts (Some d) runID made_by) (cli_snapshot env tools)) st
      else (say_all [(''PROTO MAPPING: endpoint '' @ quoted ''%s'' @ '' not yet supported for proto emission'', [AStr endpoint]),
          (''Supported endpoints: financials, balance-sheet, cash-flow, key-statistics, analysis, analyst-insights, profile, news'', [])] st,
          Ret ()))"

definition runScrapePreviewProto ::
  "(f64 \<Rightarrow> int) \<Rightarrow> ('u, 's, 'b, 'ts) cli_env \<Rightarrow> 'ts page_tools \<Rightarrow> string \<Rightarrow> string \<Rightarrow> string \<Rightarrow> string \<Rightarrow> ('s, 'b) action" where
  "runScrapePreviewProto ovf env tools version ticker endpoints runID =
     preview_endpoints ovf env ''preview-proto'' ''PREVIEW PROTO EMISSION'' fetch_meta_line ticker endpoints
       (preview_proto ovf env tools runID (''yfin-'' @ version) ticker)"

section \<open>Commands\<close>

definition ends :: "('s, 'b) cli \<times> unit go \<Rightarrow> ('s, 'b) cli \<times> exit" where
  "ends = (\<lambda>(st, r). case r of Ret _ \<Rightarrow> (st, Done None) | Err e \<Rightarrow> (st, Done (Some e)) | Panic p \<Rightarrow> (st, Crash p))"

definition scrape_run_id :: "('u, 's, 'b, 'ts) cli_env \<Rightarrow> ('s, 'b) cli \<Rightarrow> string" where
  "scrape_run_id env st =
     (if ce_RunID env = [] then ''yfin_scrape_'' @ show_int (time_unix (cli_now env st)) else ce_RunID env)"

text \<open>What the commands that scrape do first: the configuration, its switch, the observability and the client.\<close>

definition scraping ::
  "(f64 \<Rightarrow> int) \<Rightarrow> ('u, 's, 'b, 'ts) cli_env \<Rightarrow> (('s, 'b) cli \<Rightarrow> ('s, 'b) cli \<times> exit) \<Rightarrow> ('s, 'b) cli \<Rightarrow> (('s, 'b) cli \<times> exit) option" where
  "scraping ovf env body st =
     Option.bind (load env (ce_ConfigFile env)) (\<lambda>r.
     or_exit (ce_text env) ExitConfigError ''ERROR: Failed to load configuration: %v'' r st (\<lambda>cfg.
     if \<not> scc_Enabled (GetScrapeConfig cfg)
     then Some (complain ''ERROR: Scraping is disabled in configuration'' [] st, Exit ExitConfigError)
     else
     with_obsv env cfg st (\<lambda>st0.
     Some (body (createScrapeClient ovf (cli_now env st0) (GetScrapeConfig cfg) st0)))))"

definition scrape_mode ::
  "(f64 \<Rightarrow> int) \<Rightarrow> ('u, 's, 'b, 'ts) cli_env \<Rightarrow> 'ts page_tools \<Rightarrow> string \<Rightarrow> ScrapeFlags \<Rightarrow> string \<Rightarrow> ('s, 'b) cli \<Rightarrow> ('s, 'b) cli \<times> exit" where
  "scrape_mode ovf env tools version sf runID st =
     (if sf_Check sf then ends (runScrapeCheck ovf env (sf_Ticker sf) (sf_Endpoint sf) st)
      else if sf_PreviewJSON sf then ends (runScrapePreviewJSON ovf env tools (sf_Ticker sf) (sf_Endpoints sf) st)
      else if sf_PreviewNews sf then ends (runScrapePreviewNews ovf env (sf_Ticker sf) st)
      else if sf_PreviewProto sf then ends (runScrapePreviewProto ovf env tools version (sf_Ticker sf) (sf_Endpoints sf) runID st)
      else (complain ''ERROR: Either --check, --preview-json, --preview-news, or --preview-proto mode is required'' [] st, Exit ExitGeneral))"

definition runScrape ::
  "(f64 \<Rightarrow> int) \<Rightarrow> ('u, 's, 'b, 'ts) cli_env \<Rightarrow> 'ts page_tools \<Rightarrow> string \<Rightarrow> ScrapeFlags \<Rightarrow> ('s, 'b) cli \<Rightarrow> (('s, 'b) cli \<times> exit) option" where
  "runScrape ovf env tools version sf st =
     or_exit (ce_text env) ExitConfigError ''ERROR: %v'' (validateScrapeFlags sf) st (\<lambda>_.
     scraping ovf env (scrape_mode ovf env tools version sf (scrape_run_id env st)) st)"

definition runComprehensiveStatsExtraction ::
  "(f64 \<Rightarrow> int) \<Rightarrow> ('u, 's, 'b, 'ts) cli_env \<Rightarrow> string \<Rightarrow> ('s, 'b) action" where
  "runComprehensiveStatsExtraction ovf env ticker st =
     (if ticker = [] then (st, Err (Errorf ''ticker is required for comprehensive stats extraction'' []))
      else
        let url = buildScrapeURL ticker ''key-statistics'' in
        case cli_fetch ovf env url (say ''COMPREHENSIVE STATISTICS EXTRACTION ticker=%s'' [AStr ticker] st) of
          (st1, Err e) \<Rightarrow> (st1, Err (Wrapf ''failed to fetch %s: %w'' [AStr url] e))
        | (st1, Panic p) \<Rightarrow> (st1, Panic p)
        | (st1, Ret (body, meta)) \<Rightarrow>
            (case cli_parse env (\<lambda>pt now. parse_statistics ovf (ce_market env) ticker pt now body ''NMS'')
                (say_all [fetched_line meta] st1) of
               (st2, Ret dto) \<Rightarrow> printed printComprehensiveStatisticsSummary dto st2
             | (st2, Err e) \<Rightarrow> (st2, Err (Wrapf ''failed to parse comprehensive statistics: %w'' [] e))
             | (st2, Panic p) \<Rightarrow> (st2, Panic p)))"

definition runComprehensiveProfileExtraction ::
  "(f64 \<Rightarrow> int) \<Rightarrow> ('u, 's, 'b, 'ts) cli_env \<Rightarrow> 'ts page_tools \<Rightarrow> string \<Rightarrow> ('s, 'b) action" where
  "runComprehensiveProfileExtraction ovf env tools ticker st =
     (if ticker = [] then (st, Err (Errorf ''ticker is required for comprehensive profile extraction'' []))
      else
        let url = buildScrapeURL ticker ''profile'' in
        case cli_fetch ovf env url (say ''COMPREHENSIVE PROFILE EXTRACTION ticker=%s'' [AStr ticker] st) of
          (st1, Err e) \<Rightarrow> (st1, Err (Wrapf ''failed to fetch %s: %w'' [AStr url] e))
        | (st1, Panic p) \<Rightarrow> (st1, Panic p)
        | (st1, Ret (body, meta)) \<Rightarrow>
            (case cli_parse env (parse_profile ovf env tools body ticker ''NMS'') (say_all [fetched_line meta] st1) of
               (st2, Ret dto) \<Rightarrow> printed printComprehensiveProfileSummary dto st2
             | (st2, Err e) \<Rightarrow> (st2, Err (Wrapf ''failed to parse comprehensive profile: %w'' [] e))
             | (st2, Panic p) \<Rightarrow> (st2, Panic p)))"

definition runComprehensiveStats ::
  "(f64 \<Rightarrow> int) \<Rightarrow> ('u, 's, 'b, 'ts) cli_env \<Rightarrow> string \<Rightarrow> ('s, 'b) cli \<Rightarrow> (('s, 'b) cli \<times> exit) option" where
  "runComprehensiveStats ovf env ticker st =
     (if ticker = [] then Some (st, Done (Some (Errorf ''--ticker is required'' [])))
      else scraping ovf env (\<lambda>st. ends (runComprehensiveStatsExtraction ovf env ticker st)) st)"

definition runComprehensiveProfile ::
  "(f64 \<Rightarrow> int) \<Rightarrow> ('u, 's, 'b, 'ts) cli_env \<Rightarrow> 'ts page_tools \<Rightarrow> string \<Rightarrow> ('s, 'b) cli \<Rightarrow> (('s, 'b) cli \<times> exit) option" where
  "runComprehensiveProfile ovf env tools ticker st =
     (if ticker = [] then Some (st, Done (Some (Errorf ''--ticker is required'' [])))
      else scraping ovf env (\<lambda>st. ends (runComprehensiveProfileExtraction ovf env tools ticker st)) st)"

section \<open>The configuration\<close>

record ConfigConfig =
  cn_PrintEffective :: bool
  cn_JSON :: bool

definition strings_of :: "cfg_val list \<Rightarrow> string list" where
  "strings_of xs = List.map_filter (\<lambda>v. case v of cfg_val.CStr s \<Rightarrow> Some s | _ \<Rightarrow> None) xs"

text \<open>
  The map is given by the order in which the run ranges over it: a later entry replaces one with the same key, as the code's
  assignments do. A list is kept by its texts, and left out when it has none.
\<close>

fun flatten_entries :: "string \<Rightarrow> cfg_map \<Rightarrow> cfg_map \<Rightarrow> cfg_map"
  and flatten_value :: "string \<Rightarrow> cfg_val \<Rightarrow> cfg_map \<Rightarrow> cfg_map" where
  "flatten_entries pre [] acc = acc"
| "flatten_entries pre ((k, v) # m) acc = flatten_entries pre m (flatten_value (if pre = [] then k else pre @ ''.'' @ k) v acc)"
| "flatten_value full (cfg_val.CMap m) acc = fold (\<lambda>(k, x). AList.update k x) (flatten_entries full m []) acc"
| "flatten_value full (cfg_val.CSeq xs) acc =
     (if strings_of xs = [] then acc else AList.update full (cfg_val.CStr (''['' @ Join (strings_of xs) '','' @ '']'')) acc)"
| "flatten_value full v acc = AList.update full v acc"

definition flattenConfigMap :: "cfg_map \<Rightarrow> string \<Rightarrow> cfg_map" where
  "flattenConfigMap m pre = flatten_entries pre m []"

fun config_arg :: "cfg_val \<Rightarrow> fmt_arg" where
  "config_arg (cfg_val.CStr s) = AStr s"
| "config_arg (cfg_val.CInt n) = AInt n"
| "config_arg (cfg_val.CReal x) = AFloat x"
| "config_arg (cfg_val.CBool b) = bool_arg b"
| "config_arg v = AStr ''<nil>''"

definition printEffectiveConfig :: "cfg_map \<Rightarrow> line list" where
  "printEffectiveConfig configMap =
     heading ''EFFECTIVE CONFIG (redacted)'' @
     map (\<lambda>(k, v). (''%s=%v'', [AStr k, config_arg v])) (sort_key fst (flattenConfigMap configMap []))"

definition runConfig ::
  "('u, 's, 'b, 'ts) cli_env \<Rightarrow> 'ts page_tools \<Rightarrow> ConfigConfig \<Rightarrow> ('s, 'b) cli \<Rightarrow> (('s, 'b) cli \<times> exit) option" where
  "runConfig env tools cc st =
     (if \<not> cn_PrintEffective cc then Some (st, Done (Some (Errorf ''--print-effective flag is required'' [])))
      else
        Option.bind (Load (ce_getenv env) (ce_read_config env) (ce_to_config env) (NewLoader (effectivePath env))) (\<lambda>(loader, r).
        or_exit (ce_text env) ExitConfigError ''ERROR: Failed to load configuration: %v'' r st (\<lambda>_.
        Option.bind (GetEffectiveConfig (ce_getenv env) (ce_read_config env) loader) (\<lambda>r.
        or_exit (ce_text env) ExitConfigError ''ERROR: Failed to get effective configuration: %v'' r st (\<lambda>effectiveConfig.
        if cn_JSON cc
        then or_exit (ce_text env) ExitConfigError ''ERROR: Failed to encode configuration as JSON: %v''
          (pg_config_json tools effectiveConfig) st (\<lambda>t. Some (say ''%s'' [AStr t] st, Done None))
        else Some (say_all (printEffectiveConfig effectiveConfig) st, Done None))))))"

text \<open>The version, the commit and the date are set by the linker.\<close>

definition runVersion :: "string \<Rightarrow> string \<Rightarrow> string \<Rightarrow> ('s, 'b) cli \<Rightarrow> ('s, 'b) cli \<times> exit" where
  "runVersion version commit date st =
     (say_all [(''yfin version %s'', [AStr version]), (''commit: %s'', [AStr commit]), (''build date: %s'', [AStr date])] st, Done None)"

section \<open>No secret is printed\<close>

text \<open>A member named \<^verbatim>\<open>secrets\<close> is a list without texts, as the documented list of references is.\<close>

fun secrets_listed :: "cfg_map \<Rightarrow> bool" where
  "secrets_listed [] = True"
| "secrets_listed ((k, v) # m) =
     ((if k = ''secrets'' then (case v of cfg_val.CSeq xs \<Rightarrow> strings_of xs = [] | _ \<Rightarrow> False)
       else (case v of cfg_val.CMap m' \<Rightarrow> secrets_listed m' | _ \<Rightarrow> True)) \<and> secrets_listed m)"

lemma strings_of_simps [simp]:
  "strings_of [] = []" "strings_of (cfg_val.CStr s # xs) = s # strings_of xs" "strings_of (cfg_val.CSeq ys # xs) = strings_of xs"
  "strings_of (cfg_val.CMap m # xs) = strings_of xs" "strings_of (cfg_val.CInt i # xs) = strings_of xs"
  "strings_of (cfg_val.CReal r # xs) = strings_of xs" "strings_of (cfg_val.CBool b # xs) = strings_of xs" "strings_of (CNull # xs) = strings_of xs"
  by (simp_all add: strings_of_def map_filter_simps)

lemma interpolation_keeps:
  "interpolateEnvVars g m = Some m' \<Longrightarrow> secrets_listed m' = secrets_listed m"
  "interpolate_value g v = Some w \<Longrightarrow>
     (case w of cfg_val.CMap m' \<Rightarrow> secrets_listed m' | _ \<Rightarrow> True) = (case v of cfg_val.CMap m' \<Rightarrow> secrets_listed m' | _ \<Rightarrow> True) \<and>
     (case w of cfg_val.CSeq xs \<Rightarrow> strings_of xs = [] | _ \<Rightarrow> False) = (case v of cfg_val.CSeq xs \<Rightarrow> strings_of xs = [] | _ \<Rightarrow> False) \<and>
     (\<exists>s. v = cfg_val.CStr s) = (\<exists>s. w = cfg_val.CStr s)"
  "interpolate_items g xs = Some ys \<Longrightarrow> (strings_of ys = []) = (strings_of xs = [])"
proof (induction g m and g v and g xs arbitrary: m' and w and ys rule: interpolateEnvVars_interpolate_value_interpolate_items.induct)
  case (2 g k v m)
  then show ?case by (auto simp: bind_eq_Some_conv split: if_splits)
qed (auto simp: bind_eq_Some_conv)

lemma strings_of_redact_ref: "strings_of (map redact_ref xs) = strings_of xs"
proof (induction xs)
  case (Cons x xs)
  then show ?case by (cases x) (auto simp: redact_ref_def split: option.splits cfg_val.splits)
qed simp

lemma secrets_listed_update:
  "secrets_listed m \<Longrightarrow> strings_of xs = [] \<Longrightarrow> secrets_listed (AList.update ''secrets'' (cfg_val.CSeq xs) m)"
  by (induction m rule: secrets_listed.induct) auto

lemma secrets_listed_lookup: "secrets_listed m \<Longrightarrow> map_of m ''secrets'' = Some (cfg_val.CSeq xs) \<Longrightarrow> strings_of xs = []"
  by (induction m rule: secrets_listed.induct) (auto split: if_splits)

lemma redact_input:
  assumes "secrets_listed m"
  shows "\<exists>m'. redactSecrets m = redactSecretPatterns m' \<and> secrets_listed m'"
proof (cases "\<exists>xs. map_of m ''secrets'' = Some (cfg_val.CSeq xs)")
  case True
  then obtain xs where xs: "map_of m ''secrets'' = Some (cfg_val.CSeq xs)" ..
  have "strings_of (map redact_ref xs) = []" using secrets_listed_lookup [OF assms xs] by (simp add: strings_of_redact_ref)
  then show ?thesis using secrets_listed_update [OF assms] xs by (auto simp: redactSecrets_def)
next
  case False
  then have "redactSecrets m = redactSecretPatterns m" by (auto simp: redactSecrets_def split: option.splits cfg_val.splits)
  then show ?thesis using assms by blast
qed

lemma Contains_dotted:
  assumes "CHR ''.'' \<notin> set p" "p \<noteq> []"
  shows "Contains (x @ CHR ''.'' # y) p \<longleftrightarrow> Contains x p \<or> Contains y p"
proof -
  have none: "q = []" if "prefix q (CHR ''.'' # y)" "set q \<subseteq> set p" for q
    using that assms(1) by (cases q) auto
  have "sublist p (CHR ''.'' # y) \<longleftrightarrow> sublist p y"
    using none [of p] assms(2) by (auto simp: sublist_Cons_right)
  moreover have "sublist p x" if "p = s @ q" "suffix s x" "prefix q (CHR ''.'' # y)" for s q
    using none [of q] that by auto
  ultimately show ?thesis unfolding Contains_def sublist_append by blast
qed

lemma lower_dotted: "ToLower (x @ CHR ''.'' # y) = ToLower x @ CHR ''.'' # ToLower y"
  by (simp add: ToLower_def) code_simp

lemma secret_dotted: "secret_key (x @ ''.'' @ y) \<longleftrightarrow> secret_key x \<or> secret_key y"
  by (auto simp: secret_key_def secretPatterns_def lower_dotted Contains_dotted)

lemma Load_path:
  assumes "Load getenv read_config to_config l = Some (l', r)"
  shows "ld_effectivePath l' = ld_effectivePath l"
proof -
  have kept: "ld_effectivePath (case r of Ret config \<Rightarrow> l\<lparr>ld_config := Some config\<rparr> | _ \<Rightarrow> l) = ld_effectivePath l" for r
    by (cases r) simp_all
  show ?thesis using assms kept by (cases "read_config (ld_effectivePath l)") (auto simp: Load_def Let_def)
qed

lemma or_exit_returns: "or_exit tx code msg r st k = Some (st', Done e) \<Longrightarrow> \<exists>x. r = Ret x \<and> k x = Some (st', Done e)"
  by (cases r) (simp_all add: or_exit_def)

definition hides :: "cfg_map \<Rightarrow> bool" where
  "hides m \<longleftrightarrow> (\<forall>(k, v) \<in> set m. secret_key k \<longrightarrow> v = redacted)"

lemma set_update: "x \<in> set (AList.update k v m) \<Longrightarrow> x = (k, v) \<or> x \<in> set m"
  by (induction m) (auto split: if_splits)

lemma hides_Nil: "hides []"
  by (simp add: hides_def)

lemma no_key: "\<not> secret_key []"
  by code_simp

lemma hides_update: "hides acc \<Longrightarrow> (secret_key k \<Longrightarrow> v = redacted) \<Longrightarrow> hides (AList.update k v acc)"
  unfolding hides_def using set_update by fastforce

lemma hides_Cons: "hides ((k, v) # m) \<longleftrightarrow> (secret_key k \<longrightarrow> v = redacted) \<and> hides m"
  by (simp add: hides_def)

lemma hides_merge: "hides m \<Longrightarrow> hides acc \<Longrightarrow> hides (fold (\<lambda>(k, x). AList.update k x) m acc)"
proof (induction m arbitrary: acc)
  case (Cons kv m)
  then show ?case by (cases kv) (simp add: hides_Cons hides_update)
qed simp

lemma hides_flatten:
  "secrets_listed m \<Longrightarrow> \<not> secret_key pre \<Longrightarrow> hides acc \<Longrightarrow> hides (flatten_entries pre (redactSecretPatterns m) acc)"
proof (induction m arbitrary: pre acc rule: redactSecretPatterns.induct)
  case (2 k v m)
  define full where "full = (if pre = [] then k else pre @ ''.'' @ k)"
  have key: "secret_key full \<longleftrightarrow> secret_key k" using secret_dotted [of pre k] 2(4) by (simp add: full_def)
  have "hides (flatten_value full (if k = ''secrets'' then v else if secret_key k then redacted
         else case v of cfg_val.CMap m' \<Rightarrow> cfg_val.CMap (redactSecretPatterns m') | _ \<Rightarrow> v) acc)"
  proof (cases "k = ''secrets'' \<or> secret_key k")
    case True
    then show ?thesis using 2(3,5) by (auto simp: redacted_def intro!: hides_update split: cfg_val.splits if_splits)
  next
    case False
    then show ?thesis using 2(1) 2(3,5) key by (cases v) (auto intro!: hides_update hides_merge simp: hides_def [of "[]"])
  qed
  then show ?case using 2 by (simp add: full_def)
qed simp

text \<open>
  A map in which every member with a secret name is redacted, at any depth of maps; the members named secrets are lists
  without plain texts.
\<close>

fun redacted_map :: "cfg_map \<Rightarrow> bool" where
  "redacted_map [] \<longleftrightarrow> True"
| "redacted_map ((k, v) # m) \<longleftrightarrow>
     (if k = ''secrets'' then (case v of cfg_val.CSeq xs \<Rightarrow> strings_of xs = [] | _ \<Rightarrow> False)
      else if secret_key k then v = redacted
      else (case v of cfg_val.CMap m' \<Rightarrow> redacted_map m' | _ \<Rightarrow> True)) \<and> redacted_map m"

lemma redacted_patterns: "secrets_listed m \<Longrightarrow> redacted_map (redactSecretPatterns m)"
proof (induction m rule: redactSecretPatterns.induct)
  case (2 k v m)
  then show ?case by (auto split: cfg_val.splits if_splits)
qed simp
text \<open>
  C28: When every member named secrets of the file is a list without plain texts, the command
  config with --print-effective hides what has a secret name, after the interpolation of the
  environment. Without --json every line it prints for a key whose dotted path contains a
  secret pattern shows [REDACTED], at any depth. With --json it prints the JSON of a map in
  which, at any depth of maps, every member whose name contains a secret pattern is
  [REDACTED], the lists named secrets excepted; members of maps inside lists are printed as
  they are.
\<close>

theorem config_prints_no_secret:
  assumes "runConfig env tools cc st = Some (st', Done None)"
    and "\<And>m. ce_read_config env (effectivePath env) = Ret m \<Longrightarrow> secrets_listed m"
  shows "if cn_JSON cc
    then \<exists>eff text. redacted_map eff \<and> pg_config_json tools eff = Ret text \<and> ci_out st' = ci_out st @ [(''%s'', [AStr text])]
    else \<exists>ls. ci_out st' = ci_out st @ (''EFFECTIVE CONFIG (redacted)'', []) # ls \<and>
      (\<forall>l \<in> set ls. \<exists>k v. l = (''%s=%v'', [AStr k, v]) \<and> (secret_key k \<longrightarrow> v = AStr ''[REDACTED]''))"
proof -
  obtain loader cfg eff where l: "Load (ce_getenv env) (ce_read_config env) (ce_to_config env) (NewLoader (effectivePath env)) = Some (loader, Ret cfg)"
    and g: "GetEffectiveConfig (ce_getenv env) (ce_read_config env) loader = Some (Ret eff)"
    and out: "if cn_JSON cc then \<exists>text. pg_config_json tools eff = Ret text \<and> ci_out st' = ci_out st @ [(''%s'', [AStr text])]
      else ci_out st' = ci_out st @ printEffectiveConfig eff"
    using assms(1) by (auto simp: runConfig_def say_def say_all_def bind_eq_Some_conv split: if_splits dest!: or_exit_returns)
  have path: "ld_effectivePath loader = effectivePath env"
    using Load_path [OF l] by (simp add: NewLoader_def)
  obtain m m' where m: "ce_read_config env (effectivePath env) = Ret m" "interpolateEnvVars (ce_getenv env) m = Some m'"
    and eff: "eff = redactSecrets m'"
    using g path by (auto simp: GetEffectiveConfig_def split: if_splits go.splits)
  have "secrets_listed m'" using interpolation_keeps(1) [OF m(2)] assms(2) [OF m(1)] by simp
  then obtain n where n: "redactSecrets m' = redactSecretPatterns n" "secrets_listed n" using redact_input by blast
  then have "hides (flattenConfigMap eff [])"
    using hides_flatten [of n "[]" "[]"] no_key by (simp add: flattenConfigMap_def eff hides_Nil)
  moreover have "redacted_map eff" using redacted_patterns [OF n(2)] n(1) eff by simp
  ultimately show ?thesis using out
    by (cases "cn_JSON cc") (auto, force simp: printEffectiveConfig_def heading_def hides_def redacted_def)
qed

definition config_env :: "(unit, unit, unit, unit) cli_env" where
  "config_env = undefined\<lparr>ce_getenv := \<lambda>_. ''dev'', ce_to_config := \<lambda>_. Ret sample_config, ce_ConfigFile := ''yfin.yaml'',
     ce_read_config := \<lambda>_. Ret [(''bus'', cfg_val.CMap [(''nats_password'', cfg_val.CStr ''hunter2''), (''env'', cfg_val.CStr ''${ENV}'')]),
       (''secrets'', cfg_val.CSeq [cfg_val.CMap [(''ref'', cfg_val.CStr ''env:X'')]])]\<rparr>"

theorem config_prints_no_secret_witness:
  "\<forall>st :: (unit, unit) cli. \<exists>st' ls. runConfig config_env undefined \<lparr>cn_PrintEffective = True, cn_JSON = False\<rparr> st = Some (st', Done None) \<and>
    ci_out st' = ci_out st @ (''EFFECTIVE CONFIG (redacted)'', []) # ls \<and>
    (\<forall>l \<in> set ls. \<exists>k v. l = (''%s=%v'', [AStr k, v]) \<and> (secret_key k \<longrightarrow> v = AStr ''[REDACTED]''))"
proof
  fix st :: "(unit, unit) cli"
  let ?cc = "\<lparr>cn_PrintEffective = True, cn_JSON = False\<rparr>"
  obtain x y z where i: "interpolateString (\<lambda>_. ''dev'') ''hunter2'' = Some x" "interpolateString (\<lambda>_. ''dev'') ''${ENV}'' = Some y"
    "interpolateString (\<lambda>_. ''dev'') ''env:X'' = Some z"
    using interpolates [of "\<lambda>_. ''dev''"] by force
  have l: "Load (\<lambda>_. ''dev'') (ce_read_config config_env) (\<lambda>_. Ret sample_config) (NewLoader (effectivePath config_env)) =
      Some (\<lparr>ld_effectivePath = effectivePath config_env, ld_config = Some sample_config\<rparr>, Ret sample_config)"
    using i sample_valid by (simp add: Load_def NewLoader_def config_env_def Let_def)
  obtain m where g: "GetEffectiveConfig (\<lambda>_. ''dev'') (ce_read_config config_env)
      \<lparr>ld_effectivePath = effectivePath config_env, ld_config = Some sample_config\<rparr> = Some (Ret m)"
    using i by (simp add: GetEffectiveConfig_def config_env_def)
  obtain st' where r: "runConfig config_env undefined ?cc st = Some (st', Done None)"
    using l g by (auto simp: runConfig_def or_exit_def config_env_def)
  have "secrets_listed m" if "ce_read_config config_env (effectivePath config_env) = Ret m" for m
    using that by (auto simp: config_env_def)
  then obtain ls where "ci_out st' = ci_out st @ (''EFFECTIVE CONFIG (redacted)'', []) # ls"
    "\<forall>l \<in> set ls. \<exists>k v. l = (''%s=%v'', [AStr k, v]) \<and> (secret_key k \<longrightarrow> v = AStr ''[REDACTED]'')"
    using config_prints_no_secret [OF r] by auto
  then show "\<exists>st' ls. runConfig config_env undefined ?cc st = Some (st', Done None) \<and>
    ci_out st' = ci_out st @ (''EFFECTIVE CONFIG (redacted)'', []) # ls \<and>
    (\<forall>l \<in> set ls. \<exists>k v. l = (''%s=%v'', [AStr k, v]) \<and> (secret_key k \<longrightarrow> v = AStr ''[REDACTED]''))"
    using r by (intro exI [of _ st'] exI [of _ ls]) simp
qed

section \<open>Previews and exit codes\<close>

text \<open>No error of a page reaches the caller of a preview of several endpoints.\<close>

definition tame :: "('s, 'b) action \<Rightarrow> bool" where
  "tame f \<longleftrightarrow> (\<forall>st e. snd (f st) \<noteq> Err e)"

named_theorems tames

lemma tame_printed [tames]: "tame (printed f d)"
  by (simp add: tame_def printed_def)

lemma tame_printing [tames]: "(\<And>st e. f st \<noteq> Err e) \<Longrightarrow> tame (printing f)"
  by (auto simp: tame_def printing_def split: go.splits)

lemma tame_or_print [tames]: "(\<And>d. tame (k d)) \<Longrightarrow> tame (or_print tx msg r k)"
  by (auto simp: tame_def or_print_def split: go.splits)

lemma tame_parse [tames]: "(\<And>d. tame (k d)) \<Longrightarrow> tame (parse_and_print env parse k)"
  using tame_or_print unfolding tame_def parse_and_print_def by (force split: prod.splits)

lemma tame_map [tames]: "(\<And>d. tame (k d)) \<Longrightarrow> tame (map_and_print env f k dto)"
  by (simp add: map_and_print_def tame_or_print)

lemma tame_each: "(\<And>ep. tame (f ep)) \<Longrightarrow> tame (each_endpoint f eps)"
proof (induction eps)
  case (Cons ep eps)
  then show ?case unfolding tame_def by (auto simp: and_then_def split: prod.splits go.splits) (metis snd_conv)
qed (simp add: tame_def)

lemma tame_fetch: "(\<And>ep body. tame (k ep body)) \<Longrightarrow> tame (fetch_endpoint ovf env ticker meta_line k ep)"
  by (auto simp: tame_def fetch_endpoint_def Let_def split: prod.splits go.splits)

lemma tame_at: "tame f \<Longrightarrow> snd (f st) \<noteq> Err e"
  by (simp add: tame_def)

lemma parse_printed: "snd (parse_and_print env parse (printed f) st) \<noteq> Err e"
  by (intro tame_at tames)

lemma tame_sheet [tames]: "tame (preview_sheet ovf env ticker body)"
  unfolding tame_def preview_sheet_def Let_def by (simp add: parse_printed split: prod.splits go.splits)

lemma tame_json: "tame (preview_json ovf env tools ticker endpoint body)"
  unfolding preview_json_def Let_def by (auto intro!: tames)

lemma shown_no_error: "go_mapM (\<lambda>(i, a). message_lines tx encode i a) ias \<noteq> Err e"
proof (induction ias)
  case (Cons ia ias)
  then show ?case by (cases ia) (auto simp: message_lines_def go_bind_eq_Err split: go.splits)
qed simp

lemma tame_messages [tames]: "tame (cli_messages env tools articles)"
proof -
  have "printNewsArticles tx tools articles \<noteq> Err e" for tx e
    by (auto simp only: printNewsArticles_def Let_def go_bind_eq_Err shown_no_error go.distinct split: list.splits)
  then show ?thesis unfolding cli_messages_def by (intro tame_printing) (simp add: go_bind_eq_Err)
qed

lemma tame_snapshots [tames]: "tame (cli_snapshot env tools s)" "tame (cli_snapshots env tools ss)"
  by (simp_all add: tame_def cli_snapshot_def cli_snapshots_def printed_def)

lemma tame_proto: "tame (preview_proto ovf env tools runID made_by ticker endpoint body)"
proof -
  have "snd (preview_proto ovf env tools runID made_by ticker endpoint body st) \<noteq> Err e" for st e
    unfolding preview_proto_def Let_def by (simp split: if_split) (intro conjI impI; rule tame_at; intro tames)
  then show ?thesis by (simp add: tame_def)
qed

lemma preview_ends:
  assumes "\<And>ep body. tame (k ep body)" "ticker \<noteq> []" "endpoints \<noteq> []"
  shows "tame (preview_endpoints ovf env mode title meta_line ticker endpoints k)"
  using tame_each [of "fetch_endpoint ovf env ticker meta_line k", OF tame_fetch [OF assms(1)]] assms(2,3)
  by (simp add: tame_def preview_endpoints_def)

lemma valid_scrape_flags:
  assumes "validateScrapeFlags sf = Ret u"
  shows "sf_Ticker sf \<noteq> []" "sf_PreviewJSON sf \<or> sf_PreviewProto sf \<longrightarrow> sf_Endpoints sf \<noteq> []"
    "sf_Check sf \<or> sf_PreviewJSON sf \<or> sf_PreviewNews sf \<or> sf_PreviewProto sf"
  using assms by (auto simp: validateScrapeFlags_def go_bind_eq_Ret go_guard_def split: if_splits)

lemma ends_tame: "tame f \<Longrightarrow> ends (f st) \<noteq> (st', Done (Some e))"
  by (cases "f st") (auto simp: tame_def ends_def split: go.splits dest: spec [of _ st])

lemma with_obsv_returns:
  "with_obsv env cfg st k = Some (st', Done e) \<Longrightarrow>
     \<exists>st2. k (st\<lparr>ci_obsv := True\<rparr>) = Some (st2, Done e) \<and> st' = st2\<lparr>ci_obsv := False\<rparr>"
  by (auto simp: with_obsv_def deferred_def split: option.splits exit.splits dest!: or_exit_returns)

text \<open>
  A scrape that returns an error was a check or a preview of the news: the other previews end with the exit code 0, even when no page
  could be fetched.
\<close>

lemma runScrape_errors:
  assumes "runScrape ovf env tools version sf st = Some (st', Done (Some e))"
  shows "sf_Check sf \<or> \<not> sf_PreviewJSON sf \<and> sf_PreviewNews sf"
proof -
  obtain u where v: "validateScrapeFlags sf = Ret u"
    using assms by (cases "validateScrapeFlags sf") (auto simp: runScrape_def or_exit_def)
  obtain runID st1 st2 where m: "scrape_mode ovf env tools version sf runID st1 = (st2, Done (Some e))"
    using assms by (auto simp: runScrape_def scraping_def bind_eq_Some_conv split: if_splits dest!: or_exit_returns with_obsv_returns)
  note flags = valid_scrape_flags [OF v]
  have "sf_PreviewJSON sf \<Longrightarrow> tame (runScrapePreviewJSON ovf env tools (sf_Ticker sf) (sf_Endpoints sf))"
    using preview_ends [OF tame_json] flags by (simp add: runScrapePreviewJSON_def)
  moreover have "sf_PreviewProto sf \<Longrightarrow> tame (runScrapePreviewProto ovf env tools version (sf_Ticker sf) (sf_Endpoints sf) runID)"
    using preview_ends [OF tame_proto] flags by (simp add: runScrapePreviewProto_def)
  ultimately show ?thesis using m flags(3) by (auto simp: scrape_mode_def ends_tame split: if_splits)
qed

text \<open>The flags of \<^verbatim>\<open>--preview-json\<close> accept the news, whose page is fetched and then refused.\<close>

lemma news_accepted: "validate_endpoints ''news'' = Ret ()"
  by code_simp

lemma news_refused: "preview_json ovf env tools ticker ''news'' body = printed unsupported_lines ''news''"
  by (simp add: preview_json_def Let_def)

end
