(* ===== verification/Golden.thy ===== *)
theory Golden
  imports Emit Json GoLayout ScrapeErrors
begin

text \<open>
  Golden files: \<^verbatim>\<open>internal/emit/golden_marshaler.go\<close>, which turns messages back into JSON structs, and
  \<^verbatim>\<open>tools/golden/manifest_check.go\<close>, which checks the files of a manifest. The files, their SHA-256, the decoders and
  \<^verbatim>\<open>Timestamp.AsTime\<close> are parameters.
\<close>

section \<open>From messages to golden values\<close>

record GoldenBar =
  gb_Start :: instant
  gb_End :: instant
  gb_Open :: ScaledDecimal
  gb_High :: ScaledDecimal
  gb_Low :: ScaledDecimal
  gb_Close :: ScaledDecimal
  gb_Volume :: int64
  gb_Adjusted :: bool
  gb_AdjustmentPolicyID :: string
  gb_EventTime :: instant
  gb_IngestTime :: instant
  gb_AsOf :: instant

record GoldenBarBatch =
  gbb_Security :: Security
  gbb_Bars :: "GoldenBar list"
  gbb_Meta :: Meta

record GoldenQuote =
  gq_Security :: Security
  gq_Type :: string
  gq_Bid :: "ScaledDecimal option"
  gq_BidSize :: "int64 option"
  gq_Ask :: "ScaledDecimal option"
  gq_AskSize :: "int64 option"
  gq_Venue :: string
  gq_EventTime :: instant
  gq_IngestTime :: instant
  gq_Meta :: Meta

record GoldenFundamentals =
  gf_Security :: Security
  gf_Lines :: "NormalizedFundamentalsLine list"
  gf_Source :: string
  gf_AsOf :: instant
  gf_Meta :: Meta

definition golden_decimal :: "pb_Decimal \<Rightarrow> ScaledDecimal" where
  "golden_decimal d = mkSD (pd_Scaled d) (pd_Scale d)"

definition golden_of_bar :: "('ts \<Rightarrow> instant) \<Rightarrow> 'ts pb_Bar \<Rightarrow> GoldenBar" where
  "golden_of_bar as_time bar =
     \<lparr>gb_Start = as_time (pbar_Start bar), gb_End = as_time (pbar_End bar), gb_Open = golden_decimal (pbar_Open bar),
      gb_High = golden_decimal (pbar_High bar), gb_Low = golden_decimal (pbar_Low bar), gb_Close = golden_decimal (pbar_Close bar),
      gb_Volume = pbar_Volume bar, gb_Adjusted = pbar_Adjusted bar, gb_AdjustmentPolicyID = pbar_AdjustmentPolicyId bar,
      gb_EventTime = as_time (pbar_EventTime bar), gb_IngestTime = as_time (pbar_IngestTime bar), gb_AsOf = as_time (pbar_AsOf bar)\<rparr>"

definition ToGoldenBarBatch :: "('ts \<Rightarrow> instant) \<Rightarrow> 'ts pb_Bar list \<Rightarrow> Security \<Rightarrow> Meta \<Rightarrow> GoldenBarBatch" where
  "ToGoldenBarBatch as_time bars security meta =
     \<lparr>gbb_Security = security, gbb_Bars = map (golden_of_bar as_time) bars, gbb_Meta = meta\<rparr>"

text \<open>A size of zero is left out.\<close>

definition present_size :: "int64 \<Rightarrow> int64 option" where
  "present_size n = (if n \<noteq> 0 then Some n else None)"

definition ToGoldenQuote :: "('ts \<Rightarrow> instant) \<Rightarrow> 'ts pb_QuoteTick \<Rightarrow> Meta \<Rightarrow> GoldenQuote" where
  "ToGoldenQuote as_time q meta =
     \<lparr>gq_Security = \<lparr>Symbol = ps_Symbol (pq_Security q), MIC = ps_Mic (pq_Security q)\<rparr>, gq_Type = ''QUOTE'',
      gq_Bid = map_option golden_decimal (pq_Bid q), gq_BidSize = present_size (pq_BidSize q),
      gq_Ask = map_option golden_decimal (pq_Ask q), gq_AskSize = present_size (pq_AskSize q), gq_Venue = pq_Venue q,
      gq_EventTime = as_time (pq_EventTime q), gq_IngestTime = as_time (pq_IngestTime q), gq_Meta = meta\<rparr>"

definition golden_of_line :: "('ts \<Rightarrow> instant) \<Rightarrow> 'ts pb_LineItem \<Rightarrow> NormalizedFundamentalsLine" where
  "golden_of_line as_time l =
     \<lparr>fl_Key = pl_Key l, fl_Value = golden_decimal (pl_Value l), fl_CurrencyCode = pl_CurrencyCode l,
      fl_PeriodStart = as_time (pl_PeriodStart l), fl_PeriodEnd = as_time (pl_PeriodEnd l)\<rparr>"

definition ToGoldenFundamentals :: "('ts \<Rightarrow> instant) \<Rightarrow> 'ts pb_FundamentalsSnapshot \<Rightarrow> Meta \<Rightarrow> GoldenFundamentals" where
  "ToGoldenFundamentals as_time f meta =
     \<lparr>gf_Security = \<lparr>Symbol = ps_Symbol (pf_Security f), MIC = ps_Mic (pf_Security f)\<rparr>,
      gf_Lines = map (golden_of_line as_time) (pf_Lines f), gf_Source = pf_Source f, gf_AsOf = as_time (pf_AsOf f), gf_Meta = meta\<rparr>"

text \<open>\<^verbatim>\<open>json.Marshal\<close> of a time in UTC: a fraction without zeros at its end, when there is one.\<close>

definition json_time :: "instant \<Rightarrow> string" where
  "json_time t =
     format_date t @ ''T'' @ pad_digits 2 (nat (t mod day_ns div hour)) @ '':'' @ pad_digits 2 (nat (t mod hour div minute)) @ '':'' @
     pad_digits 2 (nat (t mod minute div second)) @
     (if t mod second = 0 then [] else CHR ''.'' # rev (dropWhile (\<lambda>c. c = CHR ''0'') (rev (pad_digits 9 (nat (t mod second)))))) @ ''Z''"

definition decimal_json :: "ScaledDecimal \<Rightarrow> json" where
  "decimal_json d = JObj [(''scaled'', JNum (f_of_int (Scaled d))), (''scale'', JNum (f_of_int (Scale d)))]"

definition security_json :: "Security \<Rightarrow> json" where
  "security_json s = JObj [(''symbol'', JStr (Symbol s)), (''mic'', JStr (MIC s))]"

definition meta_json :: "Meta \<Rightarrow> json" where
  "meta_json m = JObj [(''run_id'', JStr (mt_RunID m)), (''source'', JStr (mt_Source m)), (''producer'', JStr (mt_Producer m)),
     (''schema_version'', JStr (mt_SchemaVersion m))]"

definition bar_json :: "GoldenBar \<Rightarrow> json" where
  "bar_json b =
     JObj [(''start'', JStr (json_time (gb_Start b))), (''end'', JStr (json_time (gb_End b))), (''open'', decimal_json (gb_Open b)),
       (''high'', decimal_json (gb_High b)), (''low'', decimal_json (gb_Low b)), (''close'', decimal_json (gb_Close b)),
       (''volume'', JNum (f_of_int (gb_Volume b))), (''adjusted'', JBool (gb_Adjusted b)),
       (''adjustment_policy_id'', JStr (gb_AdjustmentPolicyID b)), (''event_time'', JStr (json_time (gb_EventTime b))),
       (''ingest_time'', JStr (json_time (gb_IngestTime b))), (''as_of'', JStr (json_time (gb_AsOf b)))]"

definition batch_json :: "GoldenBarBatch \<Rightarrow> json" where
  "batch_json b =
     JObj [(''security'', security_json (gbb_Security b)), (''bars'', JArr (map bar_json (gbb_Bars b))), (''meta'', meta_json (gbb_Meta b))]"

definition MarshalToGoldenJSON :: "(f64 \<Rightarrow> string) \<Rightarrow> (string \<Rightarrow> string) \<Rightarrow> json go \<Rightarrow> string go" where
  "MarshalToGoldenJSON num quote v = canonical_Marshal num quote v"

section \<open>The checker of a manifest\<close>

record ManifestItem =
  mi_Path :: string
  mi_SchemaFQDN :: string
  mi_SHA256 :: string
  mi_Notes :: "string list"

record Manifest =
  mf_Version :: int
  mf_Items :: "ManifestItem list"

record FileBar =
  ub_Start :: string
  ub_End :: string
  ub_Open :: ScaledDecimal
  ub_High :: ScaledDecimal
  ub_Low :: ScaledDecimal
  ub_Close :: ScaledDecimal
  ub_Volume :: int64
  ub_Adjusted :: bool
  ub_AdjustmentPolicyID :: string
  ub_EventTime :: string
  ub_IngestTime :: string
  ub_AsOf :: string

record FileBarBatch =
  ubb_Security :: Security
  ubb_Bars :: "FileBar list"
  ubb_Meta :: Meta

record FileQuote =
  uq_Security :: Security
  uq_Type :: string
  uq_Bid :: ScaledDecimal
  uq_BidSize :: int
  uq_Ask :: ScaledDecimal
  uq_AskSize :: int
  uq_Venue :: string
  uq_EventTime :: string
  uq_IngestTime :: string
  uq_Meta :: Meta

record FundamentalLine =
  ul_Key :: string
  ul_Value :: ScaledDecimal
  ul_CurrencyCode :: string
  ul_PeriodStart :: string
  ul_PeriodEnd :: string

record FundamentalSnapshot =
  us_Security :: Security
  us_Lines :: "FundamentalLine list"
  us_Source :: string
  us_AsOf :: string
  us_Meta :: Meta

record golden_env =
  gv_missing :: "string \<Rightarrow> bool"
  gv_read :: "string \<Rightarrow> string go"
  gv_sha256 :: "string \<Rightarrow> string"
  gv_manifest :: "string \<Rightarrow> Manifest go"
  gv_bars :: "string \<Rightarrow> FileBarBatch go"
  gv_quote :: "string \<Rightarrow> FileQuote go"
  gv_snapshot :: "string \<Rightarrow> FundamentalSnapshot go"
  gv_text :: text_lib

text \<open>A check prints lines and says whether it passed; a check can panic only in a decoder.\<close>

type_synonym check = "(string \<times> fmt_arg list) list \<times> bool"

definition check_fails :: "string \<Rightarrow> fmt_arg list \<Rightarrow> check go" where
  "check_fails f xs = Ret ([(f, xs)], False)"

definition or_check_fails :: "text_lib \<Rightarrow> string \<Rightarrow> 'a go \<Rightarrow> ('a \<Rightarrow> check go) \<Rightarrow> check go" where
  "or_check_fails tx f r k = (case r of Ret x \<Rightarrow> k x | Err e \<Rightarrow> check_fails f [AStr (error_text tx e)] | Panic p \<Rightarrow> Panic p)"

text \<open>\<^verbatim>\<open>time.Parse(time.RFC3339, v)\<close> with the fields of its clock, which are those of the zone of the text.\<close>

definition parse_rfc3339 :: "string \<Rightarrow> (instant \<times> clock) option" where
  "parse_rfc3339 v =
     (case parse_layout layout_rfc3339 (v, zero_clock) of
        Some ([], t) \<Rightarrow> if 1 \<le> tm_day t \<and> tm_day t \<le> days_in (tm_month t) (tm_year t) then Some (clock_instant t, t) else None
      | _ \<Rightarrow> None)"

definition at_midnight :: "clock \<Rightarrow> bool" where
  "at_midnight t \<longleftrightarrow> \<not> (tm_hour t \<noteq> 0 \<or> tm_min t \<noteq> 0 \<or> tm_sec t \<noteq> 0)"

definition validateDailyBarTime :: "FileBar \<Rightarrow> bool" where
  "validateDailyBarTime bar =
     (case parse_rfc3339 (ub_Start bar) of None \<Rightarrow> False
      | Some (start, start_clock) \<Rightarrow>
          (case parse_rfc3339 (ub_End bar) of None \<Rightarrow> False
           | Some (end_t, end_clock) \<Rightarrow>
               (case parse_rfc3339 (ub_EventTime bar) of None \<Rightarrow> False
                | Some (eventTime, _) \<Rightarrow>
                    at_midnight start_clock \<and> at_midnight end_clock \<and> eventTime = end_t \<and> end_t = start + 24 * hour)))"

fun first_bad :: "('a \<Rightarrow> bool) \<Rightarrow> nat \<Rightarrow> 'a list \<Rightarrow> nat option" where
  "first_bad ok i [] = None"
| "first_bad ok i (x # xs) = (if ok x then first_bad ok (Suc i) xs else Some i)"

definition validateBarBatch :: "golden_env \<Rightarrow> string \<Rightarrow> check go" where
  "validateBarBatch env path =
     or_check_fails (gv_text env) ''  ERROR: Failed to read file: %v'' (gv_read env path) (\<lambda>data.
     or_check_fails (gv_text env) ''  ERROR: Failed to parse JSON: %v'' (gv_bars env data) (\<lambda>batch.
     if Symbol (ubb_Security batch) = [] then check_fails ''  ERROR: Missing security.symbol'' []
     else if ubb_Bars batch = [] then check_fails ''  ERROR: No bars found'' []
     else if mt_Source (ubb_Meta batch) \<noteq> ''yfinance-go''
     then check_fails ''  ERROR: Invalid meta.source: %s'' [AStr (mt_Source (ubb_Meta batch))]
     else case first_bad validateDailyBarTime 0 (ubb_Bars batch) of
         Some i \<Rightarrow> check_fails ''  ERROR: Invalid time semantics for bar %d'' [AInt (int i)]
       | None \<Rightarrow> Ret ([(''  OK time semantics (1d)'', [])], True)))"

definition manifest_validateQuote :: "golden_env \<Rightarrow> string \<Rightarrow> check go" where
  "manifest_validateQuote env path =
     or_check_fails (gv_text env) ''  ERROR: Failed to read file: %v'' (gv_read env path) (\<lambda>data.
     or_check_fails (gv_text env) ''  ERROR: Failed to parse JSON: %v'' (gv_quote env data) (\<lambda>quote.
     if Symbol (uq_Security quote) = [] then check_fails ''  ERROR: Missing security.symbol'' []
     else if uq_Type quote \<noteq> ''QUOTE'' then check_fails ''  ERROR: Invalid type: %s'' [AStr (uq_Type quote)]
     else if mt_Source (uq_Meta quote) \<noteq> ''yfinance-go''
     then check_fails ''  ERROR: Invalid meta.source: %s'' [AStr (mt_Source (uq_Meta quote))]
     else Ret ([], True)))"

definition validateFundamentalSnapshot :: "golden_env \<Rightarrow> string \<Rightarrow> check go" where
  "validateFundamentalSnapshot env path =
     or_check_fails (gv_text env) ''  ERROR: Failed to read file: %v'' (gv_read env path) (\<lambda>data.
     or_check_fails (gv_text env) ''  ERROR: Failed to parse JSON: %v'' (gv_snapshot env data) (\<lambda>snapshot.
     if Symbol (us_Security snapshot) = [] then check_fails ''  ERROR: Missing security.symbol'' []
     else if us_Lines snapshot = [] then check_fails ''  ERROR: No fundamental lines found'' []
     else if mt_Source (us_Meta snapshot) \<noteq> ''yfinance-go''
     then check_fails ''  ERROR: Invalid meta.source: %s'' [AStr (mt_Source (us_Meta snapshot))]
     else case first_bad (\<lambda>l. ul_CurrencyCode l \<noteq> []) 0 (us_Lines snapshot) of
         Some i \<Rightarrow> check_fails ''  ERROR: Missing currency_code for line %d'' [AInt (int i)]
       | None \<Rightarrow> Ret ([], True)))"

definition computeSHA256 :: "golden_env \<Rightarrow> string \<Rightarrow> string go" where
  "computeSHA256 env path = go_bind (gv_read env path) (\<lambda>content. Ret (gv_sha256 env content))"

definition before :: "(string \<times> fmt_arg list) list \<Rightarrow> check go \<Rightarrow> check go" where
  "before ls r = go_bind r (\<lambda>(out, ok). Ret (ls @ out, ok))"

definition validate_schema :: "golden_env \<Rightarrow> ManifestItem \<Rightarrow> check go" where
  "validate_schema env item =
     (if mi_SchemaFQDN item = ''ampy.bars.v1.BarBatch'' then validateBarBatch env (mi_Path item)
      else if mi_SchemaFQDN item = ''ampy.ticks.v1.Quote'' then manifest_validateQuote env (mi_Path item)
      else if mi_SchemaFQDN item = ''ampy.fundamentals.v1.Snapshot'' then validateFundamentalSnapshot env (mi_Path item)
      else check_fails ''  ERROR: Unknown schema FQDN: %s'' [AStr (mi_SchemaFQDN item)])"

definition hash_set :: "ManifestItem \<Rightarrow> bool" where
  "hash_set item \<longleftrightarrow> mi_SHA256 item \<noteq> [] \<and> mi_SHA256 item \<noteq> ''<fill-after-generate>''"

definition validateItem :: "golden_env \<Rightarrow> ManifestItem \<Rightarrow> check go" where
  "validateItem env item =
     before [(''Validating %s...'', [AStr (mi_Path item)])]
       (if gv_missing env (mi_Path item) then check_fails ''  ERROR: File does not exist'' []
        else or_check_fails (gv_text env) ''  ERROR: Failed to compute SHA256: %v'' (computeSHA256 env (mi_Path item)) (\<lambda>computedHash.
          if hash_set item \<and> computedHash \<noteq> mi_SHA256 item
          then check_fails ''  ERROR: SHA256 mismatch. Expected: %s, Got: %s'' [AStr (mi_SHA256 item), AStr computedHash]
          else
            before [if hash_set item then (''  OK sha256 %s'', [AStr computedHash])
                else (''  INFO: SHA256 not set in manifest: %s'', [AStr computedHash])]
              (go_bind (validate_schema env item) (\<lambda>(out, ok).
                Ret (if ok then (out @ [(''  OK schema %s'', [AStr (mi_SchemaFQDN item)])], True) else (out, False))))))"

definition loadManifest :: "golden_env \<Rightarrow> string \<Rightarrow> Manifest go" where
  "loadManifest env path = go_bind (gv_read env path) (gv_manifest env)"

fun validate_items :: "golden_env \<Rightarrow> ManifestItem list \<Rightarrow> check go" where
  "validate_items env [] = Ret ([], True)"
| "validate_items env (item # items) =
     go_bind (validateItem env item) (\<lambda>(out, ok). go_bind (validate_items env items) (\<lambda>(outs, oks). Ret (out @ outs, ok \<and> oks)))"

text \<open>The program: what it prints and its exit code.\<close>

definition manifest_main :: "golden_env \<Rightarrow> string list \<Rightarrow> ((string \<times> fmt_arg list) list \<times> int) go" where
  "manifest_main env args =
     (case args of
        _ # manifestPath # _ \<Rightarrow>
          (case loadManifest env manifestPath of
             Err e \<Rightarrow> Ret ([(''Failed to load manifest: %v'', [AStr (error_text (gv_text env) e)])], 1)
           | Panic p \<Rightarrow> Panic p
           | Ret manifest \<Rightarrow>
               go_bind (validate_items env (mf_Items manifest)) (\<lambda>(out, allValid).
               Ret (if allValid then (out @ [(''All golden files validated successfully!'', [])], 0) else (out, 1))))
      | [name] \<Rightarrow> Ret ([(''Usage: %s <manifest-file>'', [AStr name])], 1)
      | [] \<Rightarrow> Panic ''index out of range'')"

section \<open>Golden values of emitted messages\<close>

definition golden_bar :: "NormalizedBar \<Rightarrow> GoldenBar" where
  "golden_bar n =
     \<lparr>gb_Start = nb_Start n, gb_End = nb_End n, gb_Open = nb_Open n, gb_High = nb_High n, gb_Low = nb_Low n, gb_Close = nb_Close n,
      gb_Volume = nb_Volume n, gb_Adjusted = nb_Adjusted n, gb_AdjustmentPolicyID = nb_AdjustmentPolicyID n,
      gb_EventTime = nb_EventTime n, gb_IngestTime = nb_IngestTime n, gb_AsOf = nb_AsOf n\<rparr>"

definition golden_quote :: "NormalizedQuote \<Rightarrow> GoldenQuote" where
  "golden_quote n =
     \<lparr>gq_Security = nq_Security n, gq_Type = ''QUOTE'', gq_Bid = nq_Bid n, gq_BidSize = Option.bind (nq_BidSize n) present_size,
      gq_Ask = nq_Ask n, gq_AskSize = Option.bind (nq_AskSize n) present_size, gq_Venue = nq_Venue n,
      gq_EventTime = nq_EventTime n, gq_IngestTime = nq_IngestTime n, gq_Meta = nq_Meta n\<rparr>"

lemma emitDecimal_golden: "emitDecimal (Some d) = Ret p \<Longrightarrow> golden_decimal p = d"
  by (auto simp: emitDecimal_def ValidateDecimal_def golden_decimal_def mkSD_def wrap32_def go_bind_eq_Ret split: if_splits)

lemma emitBar_golden:
  assumes "\<And>t. as_time (pb t) = t" "emitBar pb n sec = Ret m"
  shows "golden_of_bar as_time m = golden_bar n"
  using assms by (auto simp: emitBar_def golden_of_bar_def golden_bar_def go_bind_eq_Ret emitDecimal_golden)

lemma emit_opt_golden: "emit_opt f d = Ret p \<Longrightarrow> map_option golden_decimal p = d"
  by (auto simp: emit_opt_def go_bind_eq_Ret emitDecimal_golden split: option.splits)

lemma emitLineItem_golden:
  assumes "\<And>t. as_time (pb t) = t" "emitLineItem pb n = Ret m"
  shows "golden_of_line as_time m = n"
  using assms by (auto simp: emitLineItem_def golden_of_line_def go_bind_eq_Ret emitDecimal_golden)

lemma size_golden: "present_size (getInt64Value s) = Option.bind s present_size"
  by (cases s) (simp_all add: getInt64Value_def present_size_def)

lemma emit_loop_golden:
  assumes "emit_loop f emit i xs = Ret ys" "\<And>x y. emit x = Ret y \<Longrightarrow> g y = h x"
  shows "map g ys = map h xs"
  using assms unfolding emit_loop_Ret by (induction rule: list_all2_induct) auto

section \<open>A golden file of normalized bars\<close>

lemma midnight_clock:
  assumes "t mod day_ns = 0"
  shows "t mod hour = 0" "t mod minute = 0" "t mod second = 0"
proof -
  have "hour dvd day_ns" "minute dvd day_ns" "second dvd day_ns" by (simp_all add: day_ns_def hour_def minute_def second_def)
  moreover have "day_ns dvd t" using assms by (simp add: mod_eq_0_iff_dvd)
  ultimately show "t mod hour = 0" "t mod minute = 0" "t mod second = 0" by (simp_all add: mod_eq_0_iff_dvd dvd_trans)
qed

lemma zero_char: "char_of (48 :: nat) = CHR ''0''"
  by code_simp

lemma json_time_midnight: "t mod day_ns = 0 \<Longrightarrow> json_time t = format_date t @ ''T00:00:00Z''"
  by (simp add: json_time_def midnight_clock numeral_2_eq_2 zero_char)

lemma parse_midnight:
  assumes "t mod day_ns = 0" "0 \<le> time_Year t" "time_Year t \<le> 9999"
  shows "\<exists>c. parse_rfc3339 (json_time t) = Some (t, c) \<and> at_midnight c"
proof -
  define y where "y = nat (time_Year t)"
  define m where "m = nat (time_Month t)"
  define d where "d = nat (time_Day t)"
  have m: "1 \<le> m" "m \<le> 12" using day_Month_range [of "time_day t"] by (simp_all add: m_def time_Month_def)
  have d: "1 \<le> d" "d \<le> days_in m y"
    using day_of_month [of "time_day t"] assms by (simp_all add: d_def m_def y_def time_Day_def time_Month_def time_Year_def)
  have d31: "d \<le> 31" using d(2) by (simp add: days_in_def split: if_splits)
  have y: "y < 10 ^ 4" using assms by (simp add: y_def)
  let ?c = "zero_clock\<lparr>tm_year := y, tm_month := m, tm_day := d\<rparr>"
  have "parse_layout layout_rfc3339 (format_date t @ ''T00:00:00Z'', zero_clock) = Some ([], ?c)"
    using m d31 y pad_digits [of 4 y] digits_value_pad [OF y]
    by (simp add: layout_rfc3339_def clock_fields_def layout_date_def format_date_def flip: y_def m_def d_def)
      (simp add: getnum_pad2 in_range_def zero_clock_def is_digit_def code_of_def digit_of_def skip_fraction_def zone_offset_def is_point_def)
  moreover have "clock_instant ?c = time_day t * day_ns"
    using assms m d time_Date_civil [of t 0] day_Month_range [of "time_day t"] day_of_month [of "time_day t"]
    by (simp add: clock_instant_def zero_clock_def y_def m_def d_def time_Day_def time_Month_def time_Year_def)
  moreover have "time_day t * day_ns = t" using assms(1) unfolding time_day_def by (metis add.right_neutral div_mult_mod_eq)
  ultimately show ?thesis
    using d assms(1) by (simp add: parse_rfc3339_def json_time_midnight at_midnight_def zero_clock_def)
qed

lemma normalized_midnight: "n \<in> set (nbb_Bars batch) \<Longrightarrow> NormalizeBars ovf now bars (Some meta) runID = Ret batch \<Longrightarrow> nb_Start n mod day_ns = 0"
  by (auto simp: NormalizeBars_def normalizeBar_def ToUTCDayBoundaries_def time_Date_def Let_def go_bind_eq_Ret split: if_splits
      dest!: normalize_bars_loop_set)

lemma day_after: "t mod day_ns = 0 \<Longrightarrow> (t + 24 * hour) mod day_ns = 0"
  by (simp add: day_ns_def hour_def mod_add_eq)

definition four_digit_year :: "instant \<Rightarrow> bool" where
  "four_digit_year t \<longleftrightarrow> 0 \<le> time_Year t \<and> time_Year t \<le> 9999"

text \<open>The struct that decoding the JSON of a golden batch gives.\<close>

definition file_bar :: "GoldenBar \<Rightarrow> FileBar" where
  "file_bar g =
     \<lparr>ub_Start = json_time (gb_Start g), ub_End = json_time (gb_End g), ub_Open = gb_Open g, ub_High = gb_High g, ub_Low = gb_Low g,
      ub_Close = gb_Close g, ub_Volume = gb_Volume g, ub_Adjusted = gb_Adjusted g, ub_AdjustmentPolicyID = gb_AdjustmentPolicyID g,
      ub_EventTime = json_time (gb_EventTime g), ub_IngestTime = json_time (gb_IngestTime g), ub_AsOf = json_time (gb_AsOf g)\<rparr>"

definition file_batch :: "GoldenBarBatch \<Rightarrow> FileBarBatch" where
  "file_batch g = \<lparr>ubb_Security = gbb_Security g, ubb_Bars = map file_bar (gbb_Bars g), ubb_Meta = gbb_Meta g\<rparr>"

lemma golden_bar_checked:
  assumes n: "n \<in> set (nbb_Bars batch)" "NormalizeBars ovf now bars (Some meta) runID = Ret batch"
    and years: "four_digit_year (nb_Start n)" "four_digit_year (nb_End n)"
  shows "validateDailyBarTime (file_bar (golden_bar n))"
proof -
  have shape: "nb_End n = nb_Start n + 24 * hour" "nb_EventTime n = nb_End n"
    using NormalizeBars_shape [OF n(2)] n(1) by (auto simp: list_all_iff nb_shape_def)
  have start: "nb_Start n mod day_ns = 0" by (rule normalized_midnight [OF n])
  have end_n: "nb_End n mod day_ns = 0" using day_after [OF start] shape(1) by simp
  obtain c d where "parse_rfc3339 (json_time (nb_Start n)) = Some (nb_Start n, c)" "at_midnight c"
    "parse_rfc3339 (json_time (nb_End n)) = Some (nb_End n, d)" "at_midnight d"
    using parse_midnight [OF start] parse_midnight [OF end_n] years by (auto simp: four_digit_year_def)
  then show ?thesis by (simp add: validateDailyBarTime_def file_bar_def golden_bar_def shape)
qed

lemma first_bad_None: "first_bad ok i xs = None \<longleftrightarrow> list_all ok xs"
  by (induction xs arbitrary: i) auto

lemma golden_bars:
  assumes "\<And>t. as_time (pb t) = t" "EmitBarBatch pb (Some b) = Ret ms"
  shows "ToGoldenBarBatch as_time ms (nbb_Security b) (nbb_Meta b) =
    \<lparr>gbb_Security = nbb_Security b, gbb_Bars = map golden_bar (nbb_Bars b), gbb_Meta = nbb_Meta b\<rparr>"
proof -
  have "emit_loop ''failed to emit bar %d: %w'' (\<lambda>bar. emitBar pb bar (nbb_Security b)) 0 (nbb_Bars b) = Ret ms"
    using assms(2) by (auto simp: EmitBarBatch_def go_bind_eq_Ret)
  then have "map (golden_of_bar as_time) ms = map golden_bar (nbb_Bars b)"
    by (rule emit_loop_golden) (use emitBar_golden [of as_time pb] assms(1) in blast)
  then show ?thesis by (simp add: ToGoldenBarBatch_def)
qed

text \<open>What a message of a quote or of a snapshot keeps of it.\<close>

lemma golden_quotes:
  assumes "\<And>t. as_time (pb t) = t" "EmitQuote pb (Some q) = Ret m"
  shows "ToGoldenQuote as_time m (nq_Meta q) = golden_quote q"
  using assms
  by (auto simp: EmitQuote_def ToGoldenQuote_def golden_quote_def go_bind_eq_Ret emitSecurity_def size_golden emit_opt_golden)

lemma golden_snapshots:
  assumes "\<And>t. as_time (pb t) = t" "EmitFundamentals pb (Some f) = Ret s"
  shows "ToGoldenFundamentals as_time s (fs_Meta f) =
    \<lparr>gf_Security = fs_Security f, gf_Lines = fs_Lines f, gf_Source = fs_Source f, gf_AsOf = fs_AsOf f, gf_Meta = fs_Meta f\<rparr>"
proof -
  obtain lines where l: "emit_loop ''failed to emit line item %d: %w'' (emitLineItem pb) 0 (fs_Lines f) = Ret lines"
    and s: "s = \<lparr>pf_Security = emitSecurity (fs_Security f), pf_Lines = lines, pf_Source = fs_Source f, pf_AsOf = pb (fs_AsOf f),
      pf_Meta = emitMeta (fs_Meta f)\<rparr>"
    using assms(2) by (auto simp: EmitFundamentals_def go_bind_eq_Ret)
  have "map (golden_of_line as_time) lines = map (\<lambda>l. l) (fs_Lines f)"
    by (rule emit_loop_golden [OF l]) (use emitLineItem_golden [of as_time pb] assms(1) in blast)
  then show ?thesis by (simp add: ToGoldenFundamentals_def s emitSecurity_def assms)
qed

section \<open>Properties\<close>

text \<open>
  C16: From bars to a checked golden file: the golden values of the messages of a normalized
  batch are the bars of the batch, every field but the currency, and a file that decodes to
  the golden batch passes the check of the manifest tool, its daily times included, when the
  years have four digits.
\<close>

theorem golden_file_of_normalized:
  assumes "NormalizeBars ovf now bars (Some meta) runID = Ret batch" "EmitBarBatch pb (Some batch) = Ret ms"
    and "\<forall>n \<in> set (nbb_Bars batch). four_digit_year (nb_Start n) \<and> four_digit_year (nb_End n)"
    and "\<And>t. as_time (pb t) = t"
    and "gv_read env path = Ret data" "gv_bars env data = Ret (file_batch (ToGoldenBarBatch as_time ms (nbb_Security batch) (nbb_Meta batch)))"
  shows "gbb_Bars (ToGoldenBarBatch as_time ms (nbb_Security batch) (nbb_Meta batch)) = map golden_bar (nbb_Bars batch) \<and>
    validateBarBatch env path = Ret ([(''  OK time semantics (1d)'', [])], True)"
proof -
  have g: "ToGoldenBarBatch as_time ms (nbb_Security batch) (nbb_Meta batch) =
      \<lparr>gbb_Security = nbb_Security batch, gbb_Bars = map golden_bar (nbb_Bars batch), gbb_Meta = nbb_Meta batch\<rparr>"
    using golden_bars assms(2,4) by blast
  have b: "Symbol (nbb_Security batch) \<noteq> []" "nbb_Bars batch \<noteq> []"
    using NormalizeBars_shape [OF assms(1)] by auto
  have src: "mt_Source (nbb_Meta batch) = ''yfinance-go''"
    using assms(1) by (auto simp: NormalizeBars_def Let_def go_bind_eq_Ret split: if_splits)
  have "list_all validateDailyBarTime (map file_bar (map golden_bar (nbb_Bars batch)))"
    using golden_bar_checked assms(1,3) by (auto simp: list_all_iff)
  then have "first_bad validateDailyBarTime 0 (map (file_bar \<circ> golden_bar) (nbb_Bars batch)) = None"
    by (simp add: first_bad_None)
  then show ?thesis using b src assms(5,6) by (simp add: g validateBarBatch_def or_check_fails_def file_batch_def)
qed

definition one_file :: "FileBarBatch \<Rightarrow> golden_env" where
  "one_file f =
     \<lparr>gv_missing = \<lambda>_. False, gv_read = \<lambda>_. Ret ''{}'', gv_sha256 = \<lambda>_. ''00'', gv_manifest = \<lambda>_. Ret \<lparr>mf_Version = 1, mf_Items = []\<rparr>,
      gv_bars = \<lambda>_. Ret f, gv_quote = \<lambda>_. Err ContextCanceled, gv_snapshot = \<lambda>_. Err ContextCanceled,
      gv_text = \<lparr>tl_arg = \<lambda>_. [], tl_url = \<lambda>_. []\<rparr>\<rparr>"

theorem golden_file_of_normalized_witness:
  "\<exists>batch ms. NormalizeBars (\<lambda>_. 0) 0 [sample_bar] (Some sample_meta) ''run'' = Ret batch \<and> EmitBarBatch (\<lambda>t. t) (Some batch) = Ret ms \<and>
     validateBarBatch (one_file (file_batch (ToGoldenBarBatch (\<lambda>t. t) ms (nbb_Security batch) (nbb_Meta batch)))) ''bars.json'' =
       Ret ([(''  OK time semantics (1d)'', [])], True)"
proof -
  have "bar_fits sample_bar" by (simp add: sample_bar_def bar_fits_def price_fits_def)
  from normalizeBar_fits [OF this, of "\<lambda>_. 0" "''USD''" 2 True "''split_dividend''" 0]
  obtain nb where nb: "normalizeBar (\<lambda>_. 0) sample_bar ''USD'' 2 True ''split_dividend'' 0 = Ret nb" by blast
  have a: "\<exists>y. b_AdjClose sample_bar = Some y" by (simp add: sample_bar_def)
  obtain batch where b: "NormalizeBars (\<lambda>_. 0) 0 [sample_bar] (Some sample_meta) ''run'' = Ret batch" "nbb_Bars batch = [nb]"
    using nb a by (simp add: NormalizeBars_def Let_def CreateSecurity_valid sample_meta_def)
  obtain adj where shape: "list_all (nb_shape adj ''USD'') (nbb_Bars batch)" "nbb_Bars batch \<noteq> []" "Symbol (nbb_Security batch) \<noteq> []"
    and mic: "MIC (nbb_Security batch) = ''XNAS''"
    using NormalizeBars_shape [OF b(1)]
    by (auto simp: sample_meta_def CreateSecurity_def InferMIC_def ExchangeToMIC_def mic_table_def Let_def)
  obtain ms where ms: "EmitBarBatch (\<lambda>t. t) (Some batch) = Ret ms"
    using EmitBarBatch_shape [OF shape, of "\<lambda>t. t"] mic by (auto simp: currency_ok_def is_upper_def is_digit_def code_of_def mic_shaped_def)
  have "fst (ToUTCDayBoundaries 1704067200) = nb_Start nb" "fst (snd (ToUTCDayBoundaries 1704067200)) = nb_End nb"
    using nb by (auto simp: normalizeBar_def sample_bar_def go_bind_eq_Ret Let_def split: prod.splits)
  moreover have "four_digit_year (fst (ToUTCDayBoundaries 1704067200))" "four_digit_year (fst (snd (ToUTCDayBoundaries 1704067200)))"
    by code_simp+
  ultimately have "\<forall>n \<in> set (nbb_Bars batch). four_digit_year (nb_Start n) \<and> four_digit_year (nb_End n)" by (simp add: b(2))
  from golden_file_of_normalized [OF b(1) ms this, of "\<lambda>t. t"
      "one_file (file_batch (ToGoldenBarBatch (\<lambda>t. t) ms (nbb_Security batch) (nbb_Meta batch)))" "''bars.json''" "''{}''"] b(1) ms
  show ?thesis by (auto simp: one_file_def)
qed

text \<open>The exit code 0 means that every hash of the manifest that is set is that of the file.\<close>

lemma validateItem_passed:
  assumes "validateItem env item = Ret (out, True)"
  shows "\<exists>content. gv_read env (mi_Path item) = Ret content \<and> (hash_set item \<longrightarrow> gv_sha256 env content = mi_SHA256 item) \<and>
    mi_SchemaFQDN item \<in> {''ampy.bars.v1.BarBatch'', ''ampy.ticks.v1.Quote'', ''ampy.fundamentals.v1.Snapshot''}"
  using assms
  by (auto simp: validateItem_def before_def check_fails_def or_check_fails_def computeSHA256_def validate_schema_def go_bind_eq_Ret
      split: if_splits go.splits)

lemma validate_items_passed: "validate_items env items = Ret (out, True) \<Longrightarrow> item \<in> set items \<Longrightarrow> \<exists>o1. validateItem env item = Ret (o1, True)"
  by (induction items arbitrary: out) (auto simp: go_bind_eq_Ret)

lemma manifest_main_passed:
  assumes "manifest_main env [prog, path] = Ret (out, 0)"
  shows "\<exists>manifest. loadManifest env path = Ret manifest \<and>
    (\<forall>item \<in> set (mf_Items manifest). hash_set item \<longrightarrow> (\<exists>content. gv_read env (mi_Path item) = Ret content \<and> gv_sha256 env content = mi_SHA256 item))"
  using assms validateItem_passed validate_items_passed
  by (fastforce simp: manifest_main_def go_bind_eq_Ret split: go.splits if_splits)

end
