(* ===== verification/Spec2Isabelle.thy ===== *)
theory Spec2Isabelle
  imports Decimal SecurityId YahooBars YahooQuotes Normalize Fundamentals Conversion EmitDecimal Emit BusConsole Httpx Configuration ScrapeClient EmitNews Batch Profile TwseEndpoints SoakReport SoakServer Cli CliScrape Golden
begin

text \<open>
  A verification development for yfinance-go, a Go library and command line program that fetches market data from the Yahoo
  endpoints and pages and from the Taiwan Stock Exchange, normalizes it to scaled decimals, maps it to the messages of ampy-proto,
  and prints, exports or publishes it.

  \<^bold>\<open>How the parts interact.\<close> A command of \<^verbatim>\<open>cmd/yfin\<close> reads the configuration (\<^verbatim>\<open>internal/config\<close>) and calls the library client
  (\<^verbatim>\<open>client.go\<close>). That client sends requests through the Yahoo client (\<^verbatim>\<open>internal/yahoo\<close>) or fetches pages through the scraping
  client (\<^verbatim>\<open>internal/scrape\<close>); both sit on the HTTP client (\<^verbatim>\<open>internal/httpx\<close>) with its retries, limiter and breaker. Responses
  are validated and normalized (\<^verbatim>\<open>internal/norm\<close>), pages are parsed by pattern files (\<^verbatim>\<open>internal/scrape\<close>), and either is turned
  into messages (\<^verbatim>\<open>internal/emit\<close>) which the bus (\<^verbatim>\<open>internal/bus\<close>) wraps in envelopes, chunks and publishes. The batch command keeps
  raw files in a cache (\<^verbatim>\<open>internal/cache\<close>), the soak command (\<^verbatim>\<open>internal/soak\<close>) drives the client with many workers, and
  \<^verbatim>\<open>svc/twse\<close> is a client of its own. The theories follow this order, and each component is built of the definitions of the ones
  it calls: \<open>FetchDailyBars\<close> contains the whole path from the request to the normalized batch, \<open>runPull\<close> contains it too.

  \<^bold>\<open>Conventions.\<close> A Go function with an error result returns \<open>'a go\<close>: \<open>Ret\<close>, \<open>Err\<close> with the error as a value, or \<open>Panic\<close>; an index
  or dereference that panics in Go is \<open>go_idx\<close> or \<open>go_deref\<close>. An \<open>int64\<close> is an \<open>int\<close> with \<open>wrap64\<close> written wherever the code can leave
  the range; Go's truncating division is \<open>sdiv\<close> and \<open>smod\<close>; a \<open>float64\<close> is the datatype \<open>f64\<close> with rounding to nearest even, defined
  exactly. A struct is a record with a prefix of its own, a pointer that may be nil an \<open>option\<close>, a map that is ranged over the
  list of its entries in the order of the range. A printed line is its format and its arguments.

  \<^bold>\<open>Parameters.\<close> What is not under \<^verbatim>\<open>src/\<close> or lies outside of the process is an argument: the network, clocks, random numbers, sleeping
  and the file system are operations on a state of the outside, grouped in records (\<open>http_env\<close>, \<open>yahoo_env\<close>, \<open>robots_env\<close>,
  \<open>fetch_env\<close>, \<open>market_env\<close>, \<open>twse_env\<close>, \<open>soak_env\<close>, \<open>golden_env\<close> and those of the batch and of the commands); JSON, YAML and HTML decoders,
  regular expressions, URL parsing, \<^verbatim>\<open>proto.Marshal\<close>, the NATS binding, SHA-256, \<^verbatim>\<open>sort.Slice\<close> and the text of floats and times by
  \<^verbatim>\<open>fmt\<close> (\<open>text_lib\<close>) are functions. A property that relies on one names what it relies on as a hypothesis, and its witness has a
  concrete instance. \<open>ovf\<close> is the value of a conversion of a float that does not fit an integer, which Go leaves open.

  \<^bold>\<open>Theories.\<close>
  \<^item> Shared: \<open>Float64\<close> (binary64, monotonicity, errors, exact cases), \<open>Prelude\<close> (integers, errors, results, string functions and the
    collections of simplification rules), \<open>GoStrings\<close>, \<open>GoTime\<close> (instants, durations, the calendar), \<open>GoLayout\<close> (parsing and printing
    times), \<open>MemoTable\<close> (the specification of a cache and its contract, the locale \<open>memo\<close>), \<open>Json\<close> (JSON values and the canonical
    encoding of \<^verbatim>\<open>emit/canonical.go\<close>).
  \<^item> Data of the source: \<open>YahooBars\<close> (\<^verbatim>\<open>yahoo/bars.go\<close>), \<open>YahooQuotes\<close> (\<^verbatim>\<open>yahoo/quotes.go\<close>), \<open>Fundamentals\<close> (\<^verbatim>\<open>yahoo/fundamentals.go\<close>),
    \<open>YahooClient\<close> (\<^verbatim>\<open>client.go\<close>, \<^verbatim>\<open>auth.go\<close>, \<^verbatim>\<open>quotesummary.go\<close>), \<open>YahooEndpoints\<close> (the other files of \<^verbatim>\<open>internal/yahoo\<close>).
  \<^item> Normal forms: \<open>Decimal\<close>, \<open>SecurityId\<close>, \<open>Normalize\<close>, \<open>Fundamentals\<close>, \<open>Conversion\<close> (\<^verbatim>\<open>internal/norm\<close>).
  \<^item> Messages: \<open>EmitDecimal\<close>, \<open>Emit\<close>, \<open>EmitFinancials\<close>, \<open>EmitNews\<close>, \<open>Profile\<close>, \<open>Golden\<close> (\<^verbatim>\<open>internal/emit\<close> and \<^verbatim>\<open>tools/golden\<close>).
  \<^item> Bus: \<open>BusTopic\<close>, \<open>BusChunking\<close>, \<open>BusRetry\<close>, \<open>Bus\<close>, \<open>BusConsole\<close> (\<^verbatim>\<open>internal/bus\<close>).
  \<^item> HTTP and configuration: \<open>Httpx\<close> (\<^verbatim>\<open>internal/httpx\<close>), \<open>Configuration\<close> (\<^verbatim>\<open>internal/config\<close>).
  \<^item> Pages: \<open>ScrapeErrors\<close>, \<open>ScrapeRobots\<close>, \<open>ScrapeClient\<close>, \<open>ScrapeNumbers\<close>, \<open>ScrapeFinancials\<close>, \<open>ScrapeStatistics\<close>, \<open>ScrapeAnalysis\<close>,
    \<open>ScrapeNews\<close>, \<open>Profile\<close> (\<^verbatim>\<open>internal/scrape\<close>).
  \<^item> Clients and commands: \<open>MarketClient\<close> (\<^verbatim>\<open>client.go\<close>), \<open>Batch\<close> (\<^verbatim>\<open>internal/cache\<close>, \<^verbatim>\<open>dispatch.go\<close>, \<^verbatim>\<open>batch.go\<close>), \<open>Twse\<close> and
    \<open>TwseEndpoints\<close> (\<^verbatim>\<open>svc/twse\<close>, \<^verbatim>\<open>cmd/yfin/twse.go\<close>), \<open>Cli\<close>, \<open>CliReport\<close> and \<open>CliScrape\<close> (\<^verbatim>\<open>cmd/yfin/main.go\<close>).
  \<^item> Soak test: \<open>SoakWorker\<close>, \<open>SoakProbes\<close>, \<open>SoakMonitor\<close>, \<open>SoakServer\<close>, \<open>SoakRun\<close>, \<open>SoakReport\<close> (\<^verbatim>\<open>internal/soak\<close>).

  \<^bold>\<open>Interfaces.\<close> Each contract between components is a locale, interpreted on the code's own definitions: \<open>price_scaler\<close> (scaling keeps
  the order of prices; cents, and through a sublocale every \<open>fx_converter\<close>, in particular the converter of the repository),
  \<open>payload_chunker\<close> (chunks concatenate and fit; the chunking strategy), \<open>call_guard\<close> (a breaker decides and records; the breaker of the bus
  and that of the HTTP client), \<open>memo\<close> (a cache refines a table of first answers; the markets of symbols and the crumb).

  \<^bold>\<open>What the properties show.\<close>
  \<^item> From the response to the message: validated bars are read without a panic (\<open>YahooBars\<close>), normalization keeps the order and drops
    exactly the bars without finite prices, and no fundamental value (\<open>Normalize\<close>, \<open>Fundamentals\<close>), emission succeeds exactly when it should (\<open>Emit\<close>), what the client returns was answered,
    validated and normalized (\<open>MarketClient\<close>), and a golden file of a normalized batch passes its check (\<open>Golden\<close>).
  \<^item> Numbers: a scaled decimal survives the float64 it passes through, products round half up (\<open>Decimal\<close>), suffixed figures are read
    exactly (\<open>ScrapeNumbers\<close>), a conversion keeps the order of prices (\<open>Conversion\<close>).
  \<^item> Pages: what is fetched obeys size, status and attempts (\<open>ScrapeClient\<close>), figures go unchanged from the page to the message
    (\<open>EmitFinancials\<close>, \<open>Profile\<close>), messages are well formed.
  \<^item> Retries, limiters and breakers: the numbers of attempts and the sleeps between them, invariants under any interleaving, recovery,
    and that some retries never happen (\<open>Httpx\<close>, \<open>BusRetry\<close>, \<open>Bus\<close>, \<open>YahooClient\<close>).
  \<^item> Bus: the envelopes on the wire carry the marshalled message in order and within the limit (\<open>Bus\<close>, \<open>BusChunking\<close>).
  \<^item> Configuration: interpolation ends without dollar signs in the environment, only validated configurations are kept, members with a
    secret name are printed redacted, lists apart (\<open>Configuration\<close>, \<open>CliScrape\<close>).
  \<^item> Commands: exit codes and what was done before them, previews that send nothing, and a printed price that is wrong (\<open>Cli\<close>); the
    cache of a batch (\<open>Batch\<close>); the tables of the exchange (\<open>TwseEndpoints\<close>). A deferred call, the \<open>Close\<close> of the bus or the shutdown
    of the observability, is \<open>deferred\<close>: it runs when a command returns or panics, and not after \<^verbatim>\<open>os.Exit\<close>.
  \<^item> Soak runs: whatever the interleaving of all goroutines the counters and the printed report balance (\<open>SoakWorker\<close>, \<open>SoakReport\<close>);
    publishing cannot be set up (\<open>SoakRun\<close>).

  \<^bold>\<open>Recursion, fuel and bounds.\<close> Loops over data are structural. The loops of the HTTP client, of the scraping client and of
  \<open>ExecuteWithRetry\<close> recurse on the attempts that are left, which the configuration bounds, so they need no fuel. The interpolation of
  environment variables may not end: it is a \<open>partial_function\<close> whose value \<open>None\<close> is a call that does not return, and it is proved to
  return when no value has a dollar sign. \<open>worker_Run\<close> has fuel for its loop; more than the time left at its start is enough
  (\<open>worker_Run_returns\<close>), and \<open>run_step\<close> describes the same loops without fuel. Float properties state the ranges in which they hold,
  such as \<open>2 ^ 50\<close> units for the round trip and \<open>2 ^ 53\<close> for integers that a float64 holds exactly.

  \<^bold>\<open>Not modelled.\<close>
  \<^item> \<^verbatim>\<open>internal/obsv\<close>, the metrics, spans and log lines of \<^verbatim>\<open>internal/scrape\<close> and \<^verbatim>\<open>internal/soak/metrics.go\<close>: calls into
    OpenTelemetry, Prometheus, slog and zap whose results the program never reads. Of the observability the
    commands keep whether it runs (\<open>ci_obsv\<close>). \<open>NewOrchestrator\<close> leaves out the registration of the metrics, which panics when a process
    sets up a second soak run.
  \<^item> \<^verbatim>\<open>scripts\<close> and \<^verbatim>\<open>examples\<close>: separate programs that print what the modelled functions return, or move coverage files.
  \<^item> The wiring of cobra in \<^verbatim>\<open>cmd/yfin\<close>: help texts, the definition of flags with their defaults, and \<^verbatim>\<open>main\<close> itself. A command starts
    from the record of its flags.
  \<^item> Time limits of contexts and goroutines outside of the soak run: a cancelled context is an outcome of the operations of the network
    or of a sleep, and the batch takes its tickers one after another.
  \<^item> Unused types: \<^verbatim>\<open>YahooFinanceData\<close> of \<^verbatim>\<open>scrape/financials.go\<close>, \<^verbatim>\<open>FailureStats\<close> of \<^verbatim>\<open>soak/failure.go\<close>, and the types of
    \<^verbatim>\<open>scrape/types_json.go\<close> that no function builds, and the types of \<^verbatim>\<open>norm/insider.go\<close> and \<^verbatim>\<open>norm/holders.go\<close>.
\<close>

end
